(* ===== verification/Prelude.thy ===== *)
theory Prelude
  imports Main "HOL-Library.Word"
begin

text \<open>
  Shared vocabulary of the development: the fact collections the component theories fill,
  and the generic lemmas on lists, options and maps that more than one component needs.

  \<^item> \<open>js_simps\<close> collects the rewriting rules of the string layer (trimming, case
    mapping, hexadecimal text) that the component proofs use as one hint;
  \<^item> \<open>machine_simps\<close> collects the equations of the proposal state machine;
  \<^item> \<open>handler_defs\<close> collects the definitions of the HTTP and tool handlers.
\<close>

named_theorems js_simps "rewriting rules of the string layer"
named_theorems machine_simps "equations of the proposal state machine"
named_theorems handler_defs "definitions of the request handlers"

subsection \<open>Lists\<close>

lemma dropWhile_all_not:
  "list_all (\<lambda>x. \<not> P x) xs \<Longrightarrow> dropWhile P xs = xs"
  by (cases xs) auto

lemma dropWhile_hd_not:
  "xs = [] \<or> \<not> P (hd xs) \<Longrightarrow> dropWhile P xs = xs"
  by (cases xs) auto

lemma takeWhile_all:
  "list_all P xs \<Longrightarrow> takeWhile P xs = xs"
  by (induction xs) auto

lemma dropWhile_eq_Nil_list_all: "dropWhile P xs = [] \<longleftrightarrow> list_all P xs"
  by (simp add: list_all_iff dropWhile_eq_Nil_conv)

lemma list_all_dropWhile: "list_all Q xs \<Longrightarrow> list_all Q (dropWhile P xs)"
  by (induction xs) auto

lemma length_filter_mono:
  "(\<And>x. x \<in> set xs \<Longrightarrow> P x \<Longrightarrow> Q x) \<Longrightarrow> length (filter P xs) \<le> length (filter Q xs)"
  by (induction xs) (auto intro: le_SucI)

lemma nth_list_update_cases:
  "i < length xs \<Longrightarrow> (xs[j := x]) ! i = (if i = j then x else xs ! i)"
  by (simp add: nth_list_update)

lemma set_list_update_cases: "y \<in> set (xs[i := x]) \<Longrightarrow> y = x \<or> y \<in> set xs"
  using set_update_subset_insert [of xs i x] by auto

lemma find_rev_snoc: "find P (rev (xs @ [x])) = (if P x then Some x else find P (rev xs))"
  by simp

subsection \<open>Options and maps\<close>

lemma option_case_None_iff:
  "(case x of None \<Rightarrow> None | Some y \<Rightarrow> f y) = None \<longleftrightarrow> (\<forall>y. x = Some y \<longrightarrow> f y = None)"
  by (cases x) auto

lemma map_upd_Some_cases:
  "(m(k \<mapsto> v)) x = Some y \<longleftrightarrow> (if x = k then y = v else m x = Some y)"
  by auto

subsection \<open>Interfaces shared by the components\<close>

text \<open>
  Texts that stand for values: \<open>injective_text\<close> is what the places rely on that compare, hash or
  store a text instead of the value, \<open>codec\<close> what the places rely on that read the text back.
\<close>

locale injective_text =
  fixes enc :: "'a \<Rightarrow> 'c" and valid :: "'a \<Rightarrow> bool"
  assumes enc_inj: "valid x \<Longrightarrow> valid y \<Longrightarrow> enc x = enc y \<Longrightarrow> x = y"
begin

lemma enc_eq_iff: "valid x \<Longrightarrow> valid y \<Longrightarrow> enc x = enc y \<longleftrightarrow> x = y"
  using enc_inj by blast

lemma map_enc_eq: "list_all valid xs \<Longrightarrow> list_all valid ys \<Longrightarrow> map enc xs = map enc ys \<Longrightarrow> xs = ys"
proof (induction xs arbitrary: ys)
  case (Cons x xs)
  obtain y zs where ys: "ys = y # zs" "enc x = enc y" "map enc xs = map enc zs"
    using Cons.prems(3) by (cases ys) simp_all
  have "x = y" using Cons.prems(1,2) ys by (intro enc_inj) simp_all
  moreover have "xs = zs" using Cons.prems(1,2) ys by (intro Cons.IH) simp_all
  ultimately show ?case using ys(1) by simp
qed simp

lemma distinct_enc: "list_all valid xs \<Longrightarrow> distinct xs \<Longrightarrow> distinct (map enc xs)"
proof (induction xs)
  case (Cons x xs)
  then have "enc x \<noteq> enc y" if "y \<in> set xs" for y
    using enc_inj [of x y] that by (auto simp: list_all_iff)
  with Cons show ?case by auto
qed simp

end

locale codec =
  fixes enc :: "'a \<Rightarrow> 'c" and dec :: "'c \<Rightarrow> 'a option" and valid :: "'a \<Rightarrow> bool"
  assumes dec_enc: "valid x \<Longrightarrow> dec (enc x) = Some x"

sublocale codec \<subseteq> injective_text enc valid
proof
  fix x y
  assume "valid x" "valid y" "enc x = enc y"
  then show "x = y" by (metis dec_enc option.inject)
qed

context codec begin

text \<open>A keyed storage gives back the last value stored, and other keys are untouched.\<close>

lemma storage_roundtrip:
  "valid x \<Longrightarrow> (case (m(k \<mapsto> enc x)) k of None \<Rightarrow> None | Some t \<Rightarrow> dec t) = Some x"
  by (simp add: dec_enc)

lemma dec_not_None: "valid x \<Longrightarrow> dec (enc x) \<noteq> None"
  by (simp add: dec_enc)

end

text \<open>
  Components driven by events from outside: what every allowed event keeps is kept by every
  sequence of them, and so is what such events leave alone.
\<close>

locale event_machine =
  fixes step :: "'e \<Rightarrow> 's \<Rightarrow> 's" and keeps :: "'s \<Rightarrow> bool" and allowed :: "'e \<Rightarrow> bool"
  assumes step_keeps: "keeps s \<Longrightarrow> allowed e \<Longrightarrow> keeps (step e s)"
begin

lemma run_keeps: "keeps s \<Longrightarrow> list_all allowed es \<Longrightarrow> keeps (fold step es s)"
  by (induction es arbitrary: s) (simp_all add: step_keeps)

end

locale quiet_machine = event_machine step keeps allowed
  for step :: "'e \<Rightarrow> 's \<Rightarrow> 's" and keeps :: "'s \<Rightarrow> bool" and allowed :: "'e \<Rightarrow> bool" +
  fixes view :: "'s \<Rightarrow> 'v"
  assumes step_quiet: "keeps s \<Longrightarrow> allowed e \<Longrightarrow> view (step e s) = view s"
begin

lemma run_quiet: "keeps s \<Longrightarrow> list_all allowed es \<Longrightarrow> view (fold step es s) = view s"
  by (induction es arbitrary: s) (simp_all add: step_keeps step_quiet)

end

text \<open>
  An implementation and its specification: every step of the one, from a state its users can
  reach, is a step of the other between the states it stands for. Then every run is a run of the
  specification, and what the specification keeps holds of the implementation.
\<close>

locale simulation =
  fixes cstep :: "'c \<Rightarrow> 'c \<Rightarrow> bool" and astep :: "'a \<Rightarrow> 'a \<Rightarrow> bool" and abs :: "'c \<Rightarrow> 'a"
    and ok :: "'c \<Rightarrow> bool"
  assumes step_ok: "ok s \<Longrightarrow> cstep s t \<Longrightarrow> ok t"
    and step_sim: "ok s \<Longrightarrow> cstep s t \<Longrightarrow> astep (abs s) (abs t)"
begin

lemma run_ok: "cstep\<^sup>*\<^sup>* s t \<Longrightarrow> ok s \<Longrightarrow> ok t"
  by (induction rule: rtranclp_induct) (auto intro: step_ok)

lemma run_sim: "cstep\<^sup>*\<^sup>* s t \<Longrightarrow> ok s \<Longrightarrow> astep\<^sup>*\<^sup>* (abs s) (abs t)"
proof (induction rule: rtranclp_induct)
  case (step t u)
  then show ?case using run_ok step_sim by (meson rtranclp.rtrancl_into_rtrancl)
qed simp

lemma transfer:
  assumes "cstep\<^sup>*\<^sup>* s t" "ok s" "R (abs s) (abs s)"
    and "\<And>x y z. R x y \<Longrightarrow> astep y z \<Longrightarrow> R x z"
  shows "R (abs s) (abs t)"
  using run_sim [OF assms(1,2)] assms(3,4) by (induction rule: rtranclp_induct) blast+

end

end
