(* ===== verification/JsString.thy ===== *)
theory JsString
  imports Prelude
begin

text \<open>
  JavaScript strings and the string operations the program uses of the language and its
  standard library.

  A string is the list of its UTF-16 code units, each a natural number, so that \<open>length\<close>
  is the \<open>.length\<close> of the source and a Persian letter is one unit. White space, trimming,
  ASCII case mapping, hexadecimal and decimal text and JSON string quoting are defined
  here exactly. Two things are not under src/ and are fields of the record
  \<open>runtime\<close>: the Unicode case tables (used only for strings that hold a non-ASCII unit)
  and SHA-256 of the UTF-8 encoding of a string.
\<close>

type_synonym ustr = "nat list"

definition lit :: "string \<Rightarrow> ustr" where
  "lit s = map of_char s"

record runtime =
  rt_upper :: "ustr \<Rightarrow> ustr"
  rt_lower :: "ustr \<Rightarrow> ustr"
  rt_sha256 :: "ustr \<Rightarrow> 8 word list"

subsection \<open>Literals\<close>

lemma lit_Nil [simp]: "lit [] = []"
  by (simp add: lit_def)

lemma lit_append: "lit (a @ b) = lit a @ lit b"
  by (simp add: lit_def)

lemma lit_eq_iff [simp]: "lit a = lit b \<longleftrightarrow> a = b"
  by (auto simp: lit_def inj_map_eq_map inj_def)

lemma lit_eq_Nil [simp]: "lit a = [] \<longleftrightarrow> a = []" "[] = lit a \<longleftrightarrow> a = []"
  by (auto simp: lit_def)

lemma length_lit [simp]: "length (lit s) = length s"
  by (simp add: lit_def)

subsection \<open>White space and trimming\<close>

text \<open>The white space and line terminators of ECMAScript: the class \<open>\s\<close> and what
  \<open>trim\<close> removes.\<close>

definition is_ws :: "nat \<Rightarrow> bool" where
  "is_ws c \<longleftrightarrow> (9 \<le> c \<and> c \<le> 13) \<or> c = 32 \<or> c = 160 \<or> c = 5760
     \<or> (8192 \<le> c \<and> c \<le> 8202) \<or> c = 8232 \<or> c = 8233 \<or> c = 8239 \<or> c = 8287
     \<or> c = 12288 \<or> c = 65279"

definition js_trim_start :: "ustr \<Rightarrow> ustr" where
  "js_trim_start s = dropWhile is_ws s"

definition js_trim :: "ustr \<Rightarrow> ustr" where
  "js_trim s = rev (dropWhile is_ws (rev (dropWhile is_ws s)))"

lemma js_trim_Nil [simp, js_simps]: "js_trim [] = []"
  by (simp add: js_trim_def)

lemma js_trim_id:
  assumes "s = [] \<or> \<not> is_ws (hd s)" and "s = [] \<or> \<not> is_ws (last s)"
  shows "js_trim s = s"
proof -
  have "dropWhile is_ws s = s" using assms(1) by (rule dropWhile_hd_not)
  moreover have "dropWhile is_ws (rev s) = rev s"
    using assms(2) by (intro dropWhile_hd_not) (auto simp: hd_rev)
  ultimately show ?thesis by (simp add: js_trim_def)
qed

lemma js_trim_no_ws [js_simps]: "list_all (\<lambda>c. \<not> is_ws c) s \<Longrightarrow> js_trim s = s"
  by (rule js_trim_id) (auto simp: list_all_iff)

lemma hd_js_trim: "js_trim s \<noteq> [] \<Longrightarrow> \<not> is_ws (hd (js_trim s))"
proof -
  let ?d = "dropWhile is_ws s" and ?e = "dropWhile is_ws (rev (dropWhile is_ws s))"
  assume ne: "js_trim s \<noteq> []"
  then have "?e \<noteq> []" by (simp add: js_trim_def)
  obtain zs where zs: "rev ?d = zs @ ?e"
    by (metis takeWhile_dropWhile_id)
  then have d: "?d = rev ?e @ rev zs"
    by (metis rev_append rev_rev_ident)
  moreover have "rev ?e \<noteq> []" using \<open>?e \<noteq> []\<close> by simp
  ultimately have "hd ?d = hd (rev ?e)" by (metis hd_append2)
  moreover have "?d \<noteq> []"
  proof
    assume "?d = []"
    then have "?e = []" by (metis dropWhile.simps(1) rev.simps(1))
    with \<open>?e \<noteq> []\<close> show False by blast
  qed
  then have "\<not> is_ws (hd ?d)" by (rule hd_dropWhile)
  ultimately show ?thesis by (simp add: js_trim_def)
qed

lemma last_js_trim: "js_trim s \<noteq> [] \<Longrightarrow> \<not> is_ws (last (js_trim s))"
  unfolding js_trim_def by (metis hd_dropWhile last_rev rev_is_Nil_conv)

lemma js_trim_idem [simp, js_simps]: "js_trim (js_trim s) = js_trim s"
  using hd_js_trim last_js_trim by (intro js_trim_id) blast+

lemma set_js_trim: "set (js_trim s) \<subseteq> set s"
  by (auto simp: js_trim_def dest!: set_dropWhileD)

lemma list_all_js_trim: "list_all P s \<Longrightarrow> list_all P (js_trim s)"
  using set_js_trim by (fastforce simp: list_all_iff)

subsection \<open>Case mapping\<close>

definition ascii :: "ustr \<Rightarrow> bool" where
  "ascii s = list_all (\<lambda>c. c < 128) s"

definition upper_unit :: "nat \<Rightarrow> nat" where
  "upper_unit c = (if 97 \<le> c \<and> c \<le> 122 then c - 32 else c)"

definition lower_unit :: "nat \<Rightarrow> nat" where
  "lower_unit c = (if 65 \<le> c \<and> c \<le> 90 then c + 32 else c)"

definition js_upper :: "runtime \<Rightarrow> ustr \<Rightarrow> ustr" where
  "js_upper rt s = (if ascii s then map upper_unit s else rt_upper rt s)"

definition js_lower :: "runtime \<Rightarrow> ustr \<Rightarrow> ustr" where
  "js_lower rt s = (if ascii s then map lower_unit s else rt_lower rt s)"

lemma js_lower_id:
  "list_all (\<lambda>c. c < 128 \<and> \<not> (65 \<le> c \<and> c \<le> 90)) s \<Longrightarrow> js_lower rt s = s"
  by (auto simp: js_lower_def ascii_def list_all_iff lower_unit_def intro!: map_idI)

lemma js_upper_id:
  "list_all (\<lambda>c. c < 128 \<and> \<not> (97 \<le> c \<and> c \<le> 122)) s \<Longrightarrow> js_upper rt s = s"
  by (auto simp: js_upper_def ascii_def list_all_iff upper_unit_def intro!: map_idI)

lemma upper_unit_idem [simp]: "upper_unit (upper_unit c) = upper_unit c"
  by (auto simp: upper_unit_def)

lemma ascii_map_upper: "ascii s \<Longrightarrow> ascii (map upper_unit s)"
  by (auto simp: ascii_def list_all_iff upper_unit_def)

lemma js_upper_idem: "ascii s \<Longrightarrow> js_upper rt (js_upper rt s) = js_upper rt s"
  by (simp add: js_upper_def ascii_map_upper)

lemma is_ws_upper_unit [simp]: "is_ws (upper_unit c) = is_ws c"
  by (auto simp: is_ws_def upper_unit_def)

lemma js_trim_map_upper: "js_trim (map upper_unit s) = map upper_unit (js_trim s)"
  by (simp add: js_trim_def dropWhile_map o_def rev_map)

subsection \<open>Hexadecimal text\<close>

definition hex_digit :: "nat \<Rightarrow> nat" where
  "hex_digit n = (if n < 10 then 48 + n else 87 + n)"

definition hex_val :: "nat \<Rightarrow> nat option" where
  "hex_val c = (if 48 \<le> c \<and> c \<le> 57 then Some (c - 48)
     else if 97 \<le> c \<and> c \<le> 102 then Some (c - 87)
     else if 65 \<le> c \<and> c \<le> 70 then Some (c - 55) else None)"

text \<open>\<open>digest('hex')\<close>: two lower-case digits a byte.\<close>

fun hex_encode :: "8 word list \<Rightarrow> ustr" where
  "hex_encode [] = []"
| "hex_encode (b # bs) = hex_digit (unat b div 16) # hex_digit (unat b mod 16) # hex_encode bs"

text \<open>\<open>Buffer.from(s, 'hex')\<close>: decoding stops at the first pair that is not two hexadecimal
  digits, and an odd last digit is dropped.\<close>

fun hex_decode :: "ustr \<Rightarrow> 8 word list" where
  "hex_decode (a # b # cs) =
     (case hex_val a of None \<Rightarrow> []
      | Some x \<Rightarrow> (case hex_val b of None \<Rightarrow> []
                  | Some y \<Rightarrow> word_of_nat (16 * x + y) # hex_decode cs))"
| "hex_decode [c] = []"
| "hex_decode [] = []"

lemma hex_val_digit [simp]: "n < 16 \<Longrightarrow> hex_val (hex_digit n) = Some n"
  by (simp add: hex_val_def hex_digit_def)

lemma hex_decode_encode [simp, js_simps]: "hex_decode (hex_encode bs) = bs"
proof (induction bs)
  case (Cons b bs)
  have "unat b < 256" using unsigned_less [of b] by simp
  then have "unat b div 16 < 16" by (simp add: less_mult_imp_div_less)
  with Cons show ?case by simp
qed simp

lemma length_hex_encode [simp]: "length (hex_encode bs) = 2 * length bs"
  by (induction bs) auto

interpretation hexed: codec hex_encode "\<lambda>s. Some (hex_decode s)" "\<lambda>_. True"
  by unfold_locales simp

lemma hex_encode_inj [simp]: "hex_encode a = hex_encode b \<longleftrightarrow> a = b"
  by (rule hexed.enc_eq_iff) simp_all

lemma hex_encode_Nil [simp]: "hex_encode bs = [] \<longleftrightarrow> bs = []"
  by (cases bs) auto

subsection \<open>Decimal text\<close>

fun dec :: "nat \<Rightarrow> ustr" where
  "dec n = (if n < 10 then [48 + n] else dec (n div 10) @ [48 + n mod 10])"

declare dec.simps [simp del]

definition is_digit :: "nat \<Rightarrow> bool" where
  "is_digit c \<longleftrightarrow> 48 \<le> c \<and> c \<le> 57"

text \<open>The value of a string of decimal digits.\<close>

definition undec :: "ustr \<Rightarrow> nat" where
  "undec s = foldl (\<lambda>a c. 10 * a + (c - 48)) 0 s"

lemma dec_neq_Nil [simp]: "dec n \<noteq> []"
  by (subst dec.simps) simp

lemma undec_snoc: "undec (s @ [c]) = 10 * undec s + (c - 48)"
  by (simp add: undec_def)

lemma undec_dec [simp, js_simps]: "undec (dec n) = n"
proof (induction n rule: dec.induct)
  case (1 n)
  show ?case
  proof (cases "n < 10")
    case True
    then show ?thesis by (subst dec.simps) (simp add: undec_def)
  next
    case False
    with 1 have "undec (dec (n div 10)) = n div 10" by simp
    with False show ?thesis by (subst dec.simps) (simp add: undec_snoc)
  qed
qed

lemma digits_dec: "list_all is_digit (dec n)"
proof (induction n rule: dec.induct)
  case (1 n)
  moreover have "is_digit (48 + n mod 10)" and "n < 10 \<Longrightarrow> is_digit (48 + n)"
    by (simp_all add: is_digit_def)
  ultimately show ?case by (subst dec.simps) simp
qed

lemma dec_inj [simp]: "dec a = dec b \<longleftrightarrow> a = b"
  by (metis undec_dec)

definition dec_int :: "int \<Rightarrow> ustr" where
  "dec_int i = (if i < 0 then 45 # dec (nat (- i)) else dec (nat i))"

lemma dec_int_inj [simp]: "dec_int a = dec_int b \<longleftrightarrow> a = b"
proof
  have hd_dec: "hd (dec n) \<noteq> 45" for n
  proof -
    have "is_digit (hd (dec n))"
      using digits_dec [of n] dec_neq_Nil [of n] by (metis list.pred_set list.set_sel(1))
    then show ?thesis by (auto simp: is_digit_def)
  qed
  assume "dec_int a = dec_int b"
  then show "a = b"
    using hd_dec by (auto simp: dec_int_def split: if_splits) (metis list.sel(1))+
qed simp

end
