(* ===== verification/Json.thy ===== *)
theory Json
  imports JsString
begin

text \<open>
  JSON values and the parts of \<open>JSON.stringify\<close>, \<open>String(v)\<close> and \<open>typeof\<close> the program uses.

  \<open>json_strings\<close> is \<open>JSON.stringify\<close> of an array of strings, the canonical form both the
  gateway and the web client hash. Its reader \<open>json_read_strings\<close> exists for the proofs:
  the round trip through it shows that the canonical form determines the array, its length
  included, so that no field can be shifted into its neighbour.
\<close>

subsection \<open>Quoting of strings\<close>

definition is_high :: "nat \<Rightarrow> bool" where
  "is_high c \<longleftrightarrow> 55296 \<le> c \<and> c \<le> 56319"

definition is_low :: "nat \<Rightarrow> bool" where
  "is_low c \<longleftrightarrow> 56320 \<le> c \<and> c \<le> 57343"

definition hex4 :: "nat \<Rightarrow> ustr" where
  "hex4 c = [hex_digit (c div 4096 mod 16), hex_digit (c div 256 mod 16),
     hex_digit (c div 16 mod 16), hex_digit (c mod 16)]"

definition json_unit :: "nat \<Rightarrow> ustr" where
  "json_unit c =
     (if c = 34 then [92, 34] else if c = 92 then [92, 92]
      else if c = 8 then [92, 98] else if c = 12 then [92, 102]
      else if c = 10 then [92, 110] else if c = 13 then [92, 114] else if c = 9 then [92, 116]
      else if c < 32 \<or> is_high c \<or> is_low c then [92, 117] @ hex4 c else [c])"

text \<open>A surrogate pair is copied; a lone surrogate is escaped.\<close>

fun json_body :: "ustr \<Rightarrow> ustr" where
  "json_body (c # d # cs) =
     (if is_high c \<and> is_low d then c # d # json_body cs else json_unit c @ json_body (d # cs))"
| "json_body [c] = json_unit c"
| "json_body [] = []"

definition json_quote :: "ustr \<Rightarrow> ustr" where
  "json_quote s = 34 # json_body s @ [34]"

fun join_with :: "ustr \<Rightarrow> ustr list \<Rightarrow> ustr" where
  "join_with sep [] = []"
| "join_with sep [x] = x"
| "join_with sep (x # y # ys) = x @ sep @ join_with sep (y # ys)"

definition json_strings :: "ustr list \<Rightarrow> ustr" where
  "json_strings xs = 91 # join_with [44] (map json_quote xs) @ [93]"

subsection \<open>Reading the quoted form back\<close>

definition unescape :: "nat \<Rightarrow> nat option" where
  "unescape e =
     (if e = 34 then Some 34 else if e = 92 then Some 92 else if e = 98 then Some 8
      else if e = 102 then Some 12 else if e = 110 then Some 10 else if e = 114 then Some 13
      else if e = 116 then Some 9 else None)"

definition unhex4 :: "nat \<Rightarrow> nat \<Rightarrow> nat \<Rightarrow> nat \<Rightarrow> nat option" where
  "unhex4 a b c d =
     (case (hex_val a, hex_val b, hex_val c, hex_val d) of
        (Some w, Some x, Some y, Some z) \<Rightarrow> Some (4096 * w + 256 * x + 16 * y + z)
      | _ \<Rightarrow> None)"

fun json_read :: "ustr \<Rightarrow> (ustr \<times> ustr) option" where
  "json_read [] = None"
| "json_read (c # cs) =
     (if c = 34 then Some ([], cs)
      else if c = 92 then
        (case cs of [] \<Rightarrow> None
         | e # r \<Rightarrow>
             (if e = 117 then
                (case r of
                   h1 # h2 # h3 # h4 # r4 \<Rightarrow>
                     (case unhex4 h1 h2 h3 h4 of None \<Rightarrow> None
                      | Some u \<Rightarrow> map_option (\<lambda>(s, r'). (u # s, r')) (json_read r4))
                 | _ \<Rightarrow> None)
              else (case unescape e of None \<Rightarrow> None
                 | Some u \<Rightarrow> map_option (\<lambda>(s, r'). (u # s, r')) (json_read r))))
      else map_option (\<lambda>(s, r'). (c # s, r')) (json_read cs))"

declare json_read.simps [simp del]

lemma json_read_quote_end [simp]: "json_read (34 # r) = Some ([], r)"
  by (subst json_read.simps) simp

lemma json_read_plain:
  "c \<noteq> 34 \<Longrightarrow> c \<noteq> 92 \<Longrightarrow> json_read (c # cs) = map_option (\<lambda>(s, r'). (c # s, r')) (json_read cs)"
  by (subst json_read.simps) simp

lemma json_read_escape:
  "unescape e = Some u \<Longrightarrow> json_read (92 # e # cs) = map_option (\<lambda>(s, r'). (u # s, r')) (json_read cs)"
proof -
  assume u: "unescape e = Some u"
  then have "e \<noteq> 117" by (auto simp: unescape_def)
  with u show ?thesis by (subst json_read.simps) simp
qed

lemma unhex4_hex4:
  "c < 65536 \<Longrightarrow> json_read (92 # 117 # hex4 c @ cs) = map_option (\<lambda>(s, r'). (c # s, r')) (json_read cs)"
proof -
  assume "c < 65536"
  then have val: "4096 * (c div 4096 mod 16) + 256 * (c div 256 mod 16) + 16 * (c div 16 mod 16) + c mod 16 = c"
    using mod_mult2_eq [of c 16 16] mod_mult2_eq [of c 256 16] mod_mult2_eq [of c 4096 16]
    by simp
  then have "unhex4 (hex_digit (c div 4096 mod 16)) (hex_digit (c div 256 mod 16))
      (hex_digit (c div 16 mod 16)) (hex_digit (c mod 16)) = Some c"
    by (simp only: unhex4_def hex_val_digit mod_less_divisor zero_less_numeral
        prod.case option.case val)
  then show ?thesis
    by (subst json_read.simps) (simp add: hex4_def)
qed

lemma json_read_unit:
  "json_read (json_unit c @ cs) = map_option (\<lambda>(s, r'). (c # s, r')) (json_read cs)"
proof -
  consider e where "json_unit c = [92, e]" "unescape e = Some c"
    | "json_unit c = 92 # 117 # hex4 c" "c < 65536"
    | "json_unit c = [c]" "c \<noteq> 34" "c \<noteq> 92"
  proof (cases "c \<in> {34, 92, 8, 12, 10, 13, 9}")
    case True
    then have "unescape (json_unit c ! 1) = Some c \<and> json_unit c = [92, json_unit c ! 1]"
      by (auto simp: json_unit_def unescape_def)
    then show ?thesis using that(1) by blast
  next
    case False
    show ?thesis
    proof (cases "c < 32 \<or> is_high c \<or> is_low c")
      case True
      with False show ?thesis
        by (intro that(2)) (auto simp: json_unit_def is_high_def is_low_def)
    next
      case False': False
      with False show ?thesis by (intro that(3)) (auto simp: json_unit_def)
    qed
  qed
  then show ?thesis
    by cases (simp_all add: json_read_escape unhex4_hex4 json_read_plain)
qed

lemma json_read_body: "json_read (json_body s @ 34 # r) = Some (s, r)"
proof (induction s rule: json_body.induct)
  case (1 c d cs)
  show ?case
  proof (cases "is_high c \<and> is_low d")
    case True
    then have "c \<noteq> 34" "c \<noteq> 92" "d \<noteq> 34" "d \<noteq> 92" by (auto simp: is_high_def is_low_def)
    with 1 True show ?thesis by (simp add: json_read_plain)
  next
    case False
    have "json_read (json_body (d # cs) @ 34 # r) = Some (d # cs, r)" using 1(2) False by simp
    with False show ?thesis by (simp only: json_body.simps if_False append_assoc json_read_unit) simp
  qed
qed (simp_all add: json_read_unit)

fun json_read_items :: "nat \<Rightarrow> ustr \<Rightarrow> ustr list option" where
  "json_read_items 0 s = None"
| "json_read_items (Suc n) s =
     (case s of [] \<Rightarrow> None
      | q # t \<Rightarrow>
          (if q \<noteq> 34 then None
           else case json_read t of None \<Rightarrow> None
           | Some (x, r) \<Rightarrow>
               (case r of
                  c # r' \<Rightarrow>
                    (if c = 93 then (if r' = [] then Some [x] else None)
                     else if c = 44 then map_option (Cons x) (json_read_items n r') else None)
                | [] \<Rightarrow> None)))"

definition json_read_strings :: "ustr \<Rightarrow> ustr list option" where
  "json_read_strings s =
     (case s of [] \<Rightarrow> None
      | q # t \<Rightarrow>
          (if q \<noteq> 91 then None
           else if t = [93] then Some [] else json_read_items (length t) t))"

lemma json_read_items_join:
  "xs \<noteq> [] \<Longrightarrow> length xs \<le> n \<Longrightarrow>
     json_read_items n (join_with [44] (map json_quote xs) @ [93]) = Some xs"
proof (induction xs arbitrary: n)
  case (Cons x xs)
  then obtain m where n: "n = Suc m" by (cases n) auto
  show ?case
  proof (cases xs)
    case Nil
    then show ?thesis by (simp add: n json_quote_def json_read_body)
  next
    case (Cons y ys)
    with Cons.prems Cons.IH [of m] n show ?thesis
      by (simp add: json_quote_def json_read_body)
  qed
qed simp

lemma length_join_quote: "length xs \<le> length (join_with [44] (map json_quote xs))"
  by (induction "[44::nat]" xs rule: join_with.induct) (auto simp: json_quote_def)

lemma json_strings_roundtrip: "json_read_strings (json_strings xs) = Some xs"
proof (cases xs)
  case Nil
  then show ?thesis by (simp add: json_strings_def json_read_strings_def)
next
  case (Cons y ys)
  have ne: "join_with [44] (map json_quote xs) @ [93] \<noteq> [93]"
    using Cons by (cases ys) (auto simp: json_quote_def)
  have "length xs \<le> length (join_with [44] (map json_quote xs) @ [93])"
    using length_join_quote [of xs] by simp
  then show ?thesis
    using ne Cons json_read_items_join [of xs]
    by (simp add: json_strings_def json_read_strings_def del: json_read_items.simps)
qed

interpretation json: codec json_strings json_read_strings "\<lambda>_. True"
  by unfold_locales (rule json_strings_roundtrip)

lemma json_strings_inj [simp]: "json_strings xs = json_strings ys \<longleftrightarrow> xs = ys"
  by (rule json.enc_eq_iff) simp_all

subsection \<open>Values of a parsed request or log payload\<close>

text \<open>
  A number is carried as the text \<open>String(n)\<close> gives for it, the only thing the code does
  with a number of unknown origin. The entries of an object are in the order of
  \<open>Object.entries\<close>.
\<close>

datatype jval =
    JUndef
  | JNull
  | JBool bool
  | JNum ustr
  | JStr ustr
  | JArr "jval list"
  | JObj "(ustr \<times> jval) list"

text \<open>
  \<open>String(v)\<close>: an object that came from JSON with an own key \<open>toString\<close> cannot be converted
  and the call throws (\<open>None\<close>); an array joins its elements with commas, \<open>null\<close> and
  \<open>undefined\<close> giving the empty string.
\<close>

fun js_to_string :: "jval \<Rightarrow> ustr option"
  and js_element_string :: "jval \<Rightarrow> ustr option"
  and js_element_strings :: "jval list \<Rightarrow> ustr list option" where
  "js_to_string JUndef = Some (lit ''undefined'')"
| "js_to_string JNull = Some (lit ''null'')"
| "js_to_string (JBool b) = Some (lit (if b then ''true'' else ''false''))"
| "js_to_string (JNum t) = Some t"
| "js_to_string (JStr s) = Some s"
| "js_to_string (JArr vs) = map_option (join_with [44]) (js_element_strings vs)"
| "js_to_string (JObj kvs) =
     (if lit ''toString'' \<in> fst ` set kvs then None else Some (lit ''[object Object]''))"
| "js_element_string JUndef = Some []"
| "js_element_string JNull = Some []"
| "js_element_string (JBool b) = js_to_string (JBool b)"
| "js_element_string (JNum t) = js_to_string (JNum t)"
| "js_element_string (JStr s) = js_to_string (JStr s)"
| "js_element_string (JArr vs) = js_to_string (JArr vs)"
| "js_element_string (JObj kvs) = js_to_string (JObj kvs)"
| "js_element_strings [] = Some []"
| "js_element_strings (v # vs) =
     (case js_element_string v of None \<Rightarrow> None
      | Some s \<Rightarrow> map_option (Cons s) (js_element_strings vs))"

text \<open>\<open>String(v ?? d)\<close> for a string default \<open>d\<close>.\<close>

definition string_or :: "jval \<Rightarrow> ustr \<Rightarrow> ustr option" where
  "string_or v d = (case v of JUndef \<Rightarrow> Some d | JNull \<Rightarrow> Some d | _ \<Rightarrow> js_to_string v)"

text \<open>The property \<open>o.k\<close> of a parsed body: \<open>undefined\<close> where the key is absent or the value is
  not an object (\<open>req.body ?? {}\<close>).\<close>

fun prop_of :: "jval \<Rightarrow> ustr \<Rightarrow> jval" where
  "prop_of (JObj kvs) k = (case map_of kvs k of None \<Rightarrow> JUndef | Some v \<Rightarrow> v)"
| "prop_of _ k = JUndef"

lemma string_or_JStr [simp]: "string_or (JStr s) d = Some s"
  by (simp add: string_or_def)

lemma string_or_absent [simp]: "string_or JUndef d = Some d" "string_or JNull d = Some d"
  by (simp_all add: string_or_def)

text \<open>Setting a property of an object: an existing one keeps its place.\<close>

fun object_put :: "ustr \<Rightarrow> jval \<Rightarrow> (ustr \<times> jval) list \<Rightarrow> (ustr \<times> jval) list" where
  "object_put k v [] = [(k, v)]"
| "object_put k v ((l, w) # m) = (if k = l then (k, v) # m else (l, w) # object_put k v m)"

definition object_spread :: "(ustr \<times> jval) list \<Rightarrow> (ustr \<times> jval) list \<Rightarrow> (ustr \<times> jval) list" where
  "object_spread base extra = fold (\<lambda>(k, v). object_put k v) extra base"

lemma map_of_put: "map_of (object_put k v m) l = (if l = k then Some v else map_of m l)"
  by (induction k v m rule: object_put.induct) auto

lemma prop_of_put [simp]: "prop_of (JObj (object_put k v m)) l = (if l = k then v else prop_of (JObj m) l)"
  by (simp add: map_of_put)

end
