(* ===== verification/GatewayTypes.thy ===== *)
theory GatewayTypes
  imports Json
begin

text \<open>
  The contracts of the action gateway, apps/action-gateway/src/domain/types.ts: proposal
  states, the draft payload, the stored proposal with its audit trail, and results that are
  a value or a domain error.
\<close>

datatype proposal_state =
    Pending_confirmation
  | Confirmed
  | Rejected
  | Expired
  | Executed
  | Failed

definition PROPOSAL_STATES :: "proposal_state list" where
  "PROPOSAL_STATES = [Pending_confirmation, Confirmed, Rejected, Expired, Executed, Failed]"

fun state_name :: "proposal_state \<Rightarrow> ustr" where
  "state_name Pending_confirmation = lit ''pending_confirmation''"
| "state_name Confirmed = lit ''confirmed''"
| "state_name Rejected = lit ''rejected''"
| "state_name Expired = lit ''expired''"
| "state_name Executed = lit ''executed''"
| "state_name Failed = lit ''failed''"

definition TERMINAL_STATES :: "proposal_state list" where
  "TERMINAL_STATES = [Rejected, Expired, Executed, Failed]"

definition isTerminal :: "proposal_state \<Rightarrow> bool" where
  "isTerminal s = (s \<in> set TERMINAL_STATES)"

record message_draft =
  md_orderId :: ustr
  md_orderSlug :: ustr
  md_merchantId :: ustr
  md_body :: ustr
  md_locale :: ustr
  md_paymentStatus :: ustr

datatype actor = Agent | Human | System

record transition =
  tr_from :: proposal_state
  tr_to :: proposal_state
  tr_at :: int
  tr_reason :: ustr
  tr_actor :: actor

text \<open>Times are integral milliseconds; \<open>p_version\<close> starts at 1 and counts up.\<close>

record proposal =
  p_id :: ustr
  p_state :: proposal_state
  p_payload :: message_draft
  p_payloadDigest :: ustr
  p_linkCodeHash :: ustr
  p_idempotencyKey :: ustr
  p_createdAt :: int
  p_expiresAt :: int
  p_version :: nat
  p_history :: "transition list"

datatype error_code =
    INVALID_STATE
  | EXPIRED
  | LINK_CODE_MISMATCH
  | PAYLOAD_TAMPERED
  | VERSION_CONFLICT
  | VALIDATION_FAILED
  | IDEMPOTENCY_CONFLICT

fun code_name :: "error_code \<Rightarrow> ustr" where
  "code_name INVALID_STATE = lit ''INVALID_STATE''"
| "code_name EXPIRED = lit ''EXPIRED''"
| "code_name LINK_CODE_MISMATCH = lit ''LINK_CODE_MISMATCH''"
| "code_name PAYLOAD_TAMPERED = lit ''PAYLOAD_TAMPERED''"
| "code_name VERSION_CONFLICT = lit ''VERSION_CONFLICT''"
| "code_name VALIDATION_FAILED = lit ''VALIDATION_FAILED''"
| "code_name IDEMPOTENCY_CONFLICT = lit ''IDEMPOTENCY_CONFLICT''"

record domain_error =
  de_code :: error_code
  de_message :: ustr
  de_agentSafe :: bool

datatype 'a result = Ok (ok_value: 'a) | Err (err_error: domain_error)

text \<open>\<open>err(code, message)\<close> is agent safe by default; \<open>err_unsafe\<close> is the call with \<open>false\<close>.\<close>

definition err :: "error_code \<Rightarrow> ustr \<Rightarrow> 'a result" where
  "err c m = Err \<lparr>de_code = c, de_message = m, de_agentSafe = True\<rparr>"

definition err_unsafe :: "error_code \<Rightarrow> ustr \<Rightarrow> 'a result" where
  "err_unsafe c m = Err \<lparr>de_code = c, de_message = m, de_agentSafe = False\<rparr>"

fun code_of :: "'a result \<Rightarrow> error_code option" where
  "code_of (Ok _) = None"
| "code_of (Err e) = Some (de_code e)"

definition is_ok :: "'a result \<Rightarrow> bool" where
  "is_ok r = (code_of r = None)"

lemma is_ok_simps [simp]: "is_ok (Ok v)" "\<not> is_ok (Err e)"
  by (simp_all add: is_ok_def)

lemma err_simps [simp]:
  "err c m \<noteq> Ok v" "Ok v \<noteq> err c m" "err_unsafe c m \<noteq> Ok v" "Ok v \<noteq> err_unsafe c m"
  "code_of (err c m) = Some c" "code_of (err_unsafe c m) = Some c"
  "\<not> is_ok (err c m)" "\<not> is_ok (err_unsafe c m)"
  by (simp_all add: err_def err_unsafe_def is_ok_def)

lemma result_case_err [simp]:
  "(case err c m of Ok v \<Rightarrow> f v | Err e \<Rightarrow> g e) = g \<lparr>de_code = c, de_message = m, de_agentSafe = True\<rparr>"
  "(case err_unsafe c m of Ok v \<Rightarrow> f v | Err e \<Rightarrow> g e) = g \<lparr>de_code = c, de_message = m, de_agentSafe = False\<rparr>"
  by (simp_all add: err_def err_unsafe_def)

lemma err_eq_iff [simp]: "err c m = err d n \<longleftrightarrow> c = d \<and> m = n"
  by (auto simp: err_def)

lemma isTerminal_simps [simp]:
  "\<not> isTerminal Pending_confirmation" "\<not> isTerminal Confirmed" "isTerminal Rejected"
  "isTerminal Expired" "isTerminal Executed" "isTerminal Failed"
  by (simp_all add: isTerminal_def TERMINAL_STATES_def)

lemma set_PROPOSAL_STATES: "s \<in> set PROPOSAL_STATES"
  by (cases s) (simp_all add: PROPOSAL_STATES_def)

text \<open>The state type is enumerated in the order of \<open>PROPOSAL_STATES\<close>, which makes it a
  linear order for the library's ordered containers.\<close>

fun state_rank :: "proposal_state \<Rightarrow> nat" where
  "state_rank Pending_confirmation = 0"
| "state_rank Confirmed = 1"
| "state_rank Rejected = 2"
| "state_rank Expired = 3"
| "state_rank Executed = 4"
| "state_rank Failed = 5"

lemma state_rank_inj: "state_rank s = state_rank t \<Longrightarrow> s = t"
  by (cases s; cases t) auto

instantiation proposal_state :: linorder
begin
definition less_eq_proposal_state :: "proposal_state \<Rightarrow> proposal_state \<Rightarrow> bool" where
  "less_eq_proposal_state s t = (state_rank s \<le> state_rank t)"
definition less_proposal_state :: "proposal_state \<Rightarrow> proposal_state \<Rightarrow> bool" where
  "less_proposal_state s t = (state_rank s < state_rank t)"
instance
  by standard (auto simp: less_eq_proposal_state_def less_proposal_state_def dest: state_rank_inj)
end

end
