(* ===== verification/StateMachine.thy ===== *)
theory StateMachine
  imports GatewayTypes
begin

text \<open>
  The proposal state machine, apps/action-gateway/src/domain/state-machine.ts: digests,
  the transition table, and the six operations that create, expire, confirm, reject, execute
  and fail a proposal.

  Every operation is a function of the proposal. The wall clock the code reads with
  \<open>Date.now()\<close> is the argument \<open>clk\<close>; an injected \<open>now\<close> is a separate argument, as in the
  source, where the audit record is stamped from the wall clock and the deadline is compared
  with the injected time.

  The lemmas show: which inputs each operation accepts, with which error it refuses the
  others, that it only ever appends one legal record to the audit trail (\<open>successor\<close>), and
  that a well-formed proposal (\<open>wf_proposal\<close>) stays well-formed.
\<close>

subsection \<open>Digests\<close>

definition payload_fields :: "message_draft \<Rightarrow> ustr list" where
  "payload_fields p = [md_orderId p, md_orderSlug p, md_merchantId p, md_body p, md_locale p,
     md_paymentStatus p]"

definition canonical_payload :: "message_draft \<Rightarrow> ustr" where
  "canonical_payload p = json_strings (payload_fields p)"

definition digestPayload :: "runtime \<Rightarrow> message_draft \<Rightarrow> ustr" where
  "digestPayload rt p = hex_encode (rt_sha256 rt (canonical_payload p))"

definition normal_code :: "runtime \<Rightarrow> ustr \<Rightarrow> ustr" where
  "normal_code rt code = js_upper rt (js_trim code)"

definition hashLinkCode :: "runtime \<Rightarrow> ustr \<Rightarrow> ustr" where
  "hashLinkCode rt code = hex_encode (rt_sha256 rt (normal_code rt code))"

definition safeEqualHex :: "ustr \<Rightarrow> ustr \<Rightarrow> bool" where
  "safeEqualHex a b =
     (let ba = hex_decode a; bb = hex_decode b
      in if length ba \<noteq> length bb \<or> length ba = 0 then False else ba = bb)"

subsection \<open>The transition table and the audit trail\<close>

fun LEGAL :: "proposal_state \<Rightarrow> proposal_state list" where
  "LEGAL Pending_confirmation = [Confirmed, Rejected, Expired]"
| "LEGAL Confirmed = [Executed, Failed]"
| "LEGAL Rejected = []"
| "LEGAL Expired = []"
| "LEGAL Executed = []"
| "LEGAL Failed = []"

definition applied :: "int \<Rightarrow> proposal \<Rightarrow> proposal_state \<Rightarrow> ustr \<Rightarrow> actor \<Rightarrow> proposal" where
  "applied clk p target reason who =
     p\<lparr>p_state := target,
       p_version := p_version p + 1,
       p_history := p_history p @
         [\<lparr>tr_from = p_state p, tr_to = target, tr_at = clk, tr_reason = reason, tr_actor = who\<rparr>]\<rparr>"

record create_input =
  cr_id :: ustr
  cr_payload :: message_draft
  cr_linkCode :: ustr
  cr_idempotencyKey :: ustr
  cr_ttlSeconds :: int
  cr_now :: "int option"

definition createProposal :: "runtime \<Rightarrow> int \<Rightarrow> create_input \<Rightarrow> proposal" where
  "createProposal rt clk i =
     (let now = (case cr_now i of None \<Rightarrow> clk | Some n \<Rightarrow> n)
      in \<lparr>p_id = cr_id i, p_state = Pending_confirmation, p_payload = cr_payload i,
          p_payloadDigest = digestPayload rt (cr_payload i),
          p_linkCodeHash = hashLinkCode rt (cr_linkCode i),
          p_idempotencyKey = cr_idempotencyKey i, p_createdAt = now,
          p_expiresAt = now + cr_ttlSeconds i * 1000, p_version = 1,
          p_history = [\<lparr>tr_from = Pending_confirmation, tr_to = Pending_confirmation, tr_at = now,
             tr_reason = lit ''proposed'', tr_actor = Agent\<rparr>]\<rparr>)"

definition guard :: "proposal \<Rightarrow> proposal_state \<Rightarrow> bool result" where
  "guard p target =
     (if isTerminal (p_state p) then
        err INVALID_STATE (lit ''proposal is already '' @ state_name (p_state p) @ lit '' and cannot change'')
      else if \<not> target \<in> set (LEGAL (p_state p)) then
        err INVALID_STATE (lit ''cannot move from '' @ state_name (p_state p) @ lit '' to '' @ state_name target)
      else Ok True)"

subsection \<open>The operations\<close>

definition expireIfDue :: "int \<Rightarrow> proposal \<Rightarrow> int \<Rightarrow> proposal" where
  "expireIfDue clk p now =
     (if p_state p = Pending_confirmation \<and> now \<ge> p_expiresAt p
      then applied clk p Expired (lit ''ttl elapsed'') System else p)"

record confirm_input =
  ci_linkCode :: ustr
  ci_seenDigest :: ustr
  ci_now :: "int option"

definition confirm :: "runtime \<Rightarrow> int \<Rightarrow> proposal \<Rightarrow> confirm_input \<Rightarrow> proposal result" where
  "confirm rt clk p i =
     (let now = (case ci_now i of None \<Rightarrow> clk | Some n \<Rightarrow> n);
          current = expireIfDue clk p now
      in if p_state current = Expired then
           err EXPIRED (lit ''this confirmation has expired; ask for a new one'')
         else case guard current Confirmed of
           Err e \<Rightarrow> Err e
         | Ok _ \<Rightarrow>
             if \<not> safeEqualHex (hashLinkCode rt (ci_linkCode i)) (p_linkCodeHash current) then
               err LINK_CODE_MISMATCH (lit ''that confirmation code is not valid'')
             else if \<not> safeEqualHex (ci_seenDigest i) (p_payloadDigest current) then
               err_unsafe PAYLOAD_TAMPERED (lit ''the transfer details changed; please review again'')
             else Ok (applied clk current Confirmed (lit ''confirmed by human'') Human))"

definition reject :: "int \<Rightarrow> proposal \<Rightarrow> int \<Rightarrow> proposal result" where
  "reject clk p now =
     (let current = expireIfDue clk p now
      in if p_state current = Expired then err EXPIRED (lit ''this confirmation has expired'')
         else case guard current Rejected of
           Err e \<Rightarrow> Err e
         | Ok _ \<Rightarrow> Ok (applied clk current Rejected (lit ''declined by human'') Human))"

definition markExecuted :: "int \<Rightarrow> proposal \<Rightarrow> ustr \<Rightarrow> proposal result" where
  "markExecuted clk p reference =
     (case guard p Executed of
        Err e \<Rightarrow> Err e
      | Ok _ \<Rightarrow> Ok (applied clk p Executed (lit ''simulated execution '' @ reference) System))"

definition markFailed :: "int \<Rightarrow> proposal \<Rightarrow> ustr \<Rightarrow> proposal result" where
  "markFailed clk p reason =
     (case guard p Failed of
        Err e \<Rightarrow> Err e
      | Ok _ \<Rightarrow> Ok (applied clk p Failed reason System))"

text \<open>The first match of \<open>/simulated execution (\S+)/\<close>: its group, the longest run of
  characters that are not white space, at least one.\<close>

fun reference_in :: "ustr \<Rightarrow> ustr option" where
  "reference_in [] = None"
| "reference_in (c # cs) =
     (let key = lit ''simulated execution ''; rest = drop (length key) (c # cs);
          run = takeWhile (\<lambda>u. \<not> is_ws u) rest
      in if take (length key) (c # cs) = key \<and> run \<noteq> [] then Some run else reference_in cs)"

definition executionReferenceOf :: "proposal \<Rightarrow> ustr option" where
  "executionReferenceOf p =
     (case find (\<lambda>h. tr_to h = Executed) (rev (p_history p)) of
        None \<Rightarrow> None
      | Some entry \<Rightarrow> reference_in (tr_reason entry))"

subsection \<open>Digest comparison\<close>

lemma safeEqualHex_iff: "safeEqualHex a b \<longleftrightarrow> hex_decode a \<noteq> [] \<and> hex_decode a = hex_decode b"
  by (auto simp: safeEqualHex_def Let_def)

lemma safeEqualHex_encode [simp]: "safeEqualHex (hex_encode a) (hex_encode b) \<longleftrightarrow> a \<noteq> [] \<and> a = b"
  by (simp add: safeEqualHex_iff)

lemma payload_fields_inj [simp]: "payload_fields p = payload_fields q \<longleftrightarrow> p = q"
  by (auto simp: payload_fields_def)

lemma canonical_payload_inj [simp]: "canonical_payload p = canonical_payload q \<longleftrightarrow> p = q"
  by (simp add: canonical_payload_def)

subsection \<open>One legal step and well-formed trails\<close>

text \<open>A record of the trail is allowed when the table allows its transition and the actor is the
  one the code writes for it: a human confirms and declines, the system does the rest.\<close>

definition step_allowed :: "transition \<Rightarrow> bool" where
  "step_allowed h \<longleftrightarrow>
     tr_to h \<in> set (LEGAL (tr_from h)) \<and>
     tr_actor h = (if tr_to h \<in> {Confirmed, Rejected} then Human else System)"

fun trail :: "proposal_state \<Rightarrow> transition list \<Rightarrow> proposal_state option" where
  "trail s [] = Some s"
| "trail s (h # hs) = (if tr_from h = s \<and> step_allowed h then trail (tr_to h) hs else None)"

definition is_proposed :: "transition \<Rightarrow> bool" where
  "is_proposed h \<longleftrightarrow> tr_from h = Pending_confirmation \<and> tr_to h = Pending_confirmation
     \<and> tr_actor h = Agent"

definition wf_proposal :: "runtime \<Rightarrow> proposal \<Rightarrow> bool" where
  "wf_proposal rt p \<longleftrightarrow>
     p_payloadDigest p = digestPayload rt (p_payload p) \<and>
     p_version p = length (p_history p) \<and>
     (case p_history p of [] \<Rightarrow> False
      | h # hs \<Rightarrow> is_proposed h \<and> trail Pending_confirmation hs = Some (p_state p))"

text \<open>What no transition changes.\<close>

definition same_artifact :: "proposal \<Rightarrow> proposal \<Rightarrow> bool" where
  "same_artifact p q \<longleftrightarrow>
     p_id q = p_id p \<and> p_payload q = p_payload p \<and> p_payloadDigest q = p_payloadDigest p \<and>
     p_linkCodeHash q = p_linkCodeHash p \<and> p_idempotencyKey q = p_idempotencyKey p \<and>
     p_createdAt q = p_createdAt p \<and> p_expiresAt q = p_expiresAt p"

text \<open>\<open>q\<close> is \<open>p\<close> after one legal transition.\<close>

definition successor :: "proposal \<Rightarrow> proposal \<Rightarrow> bool" where
  "successor p q \<longleftrightarrow>
     same_artifact p q \<and> p_version q = p_version p + 1 \<and>
     p_history q \<noteq> [] \<and> butlast (p_history q) = p_history p \<and>
     tr_from (last (p_history q)) = p_state p \<and> tr_to (last (p_history q)) = p_state q \<and>
     step_allowed (last (p_history q))"

lemma trail_append:
  "trail s (hs @ ks) = (case trail s hs of None \<Rightarrow> None | Some t \<Rightarrow> trail t ks)"
  by (induction hs arbitrary: s) auto

lemma step_allowed_cases:
  assumes "step_allowed h"
  obtains "tr_from h = Pending_confirmation" "tr_to h \<in> {Confirmed, Rejected}" "tr_actor h = Human"
  | "tr_from h = Pending_confirmation" "tr_to h = Expired" "tr_actor h = System"
  | "tr_from h = Confirmed" "tr_to h \<in> {Executed, Failed}" "tr_actor h = System"
  using assms by (cases "tr_from h") (auto simp: step_allowed_def)

lemma trail_terminal: "isTerminal s \<Longrightarrow> trail s hs = Some t \<Longrightarrow> hs = [] \<and> t = s"
  by (cases hs) (auto elim!: step_allowed_cases split: if_splits)

text \<open>The trails of the table, spelled out: at most two steps after the proposal.\<close>

lemma trail_cases:
  assumes "trail Pending_confirmation hs = Some s"
  obtains "hs = []" "s = Pending_confirmation"
  | h where "hs = [h]" "s = tr_to h" "tr_to h \<in> {Confirmed, Rejected}" "tr_actor h = Human"
      "tr_from h = Pending_confirmation"
  | h where "hs = [h]" "s = Expired" "tr_to h = Expired" "tr_actor h = System"
      "tr_from h = Pending_confirmation"
  | h k where "hs = [h, k]" "s = tr_to k" "tr_to h = Confirmed" "tr_actor h = Human"
      "tr_from h = Pending_confirmation" "tr_from k = Confirmed"
      "tr_to k \<in> {Executed, Failed}" "tr_actor k = System"
proof (cases hs)
  case Nil
  with assms that(1) show ?thesis by simp
next
  case (Cons h ks)
  with assms have h: "tr_from h = Pending_confirmation" "step_allowed h" "trail (tr_to h) ks = Some s"
    by (auto split: if_splits)
  show ?thesis
  proof (cases "tr_to h = Confirmed")
    case False
    then have "ks = [] \<and> s = tr_to h"
      using h by (intro trail_terminal) (auto elim: step_allowed_cases)
    then show ?thesis using h Cons that(2,3) False by (elim step_allowed_cases) auto
  next
    case True
    have human: "tr_actor h = Human" using h(2) True by (auto simp: step_allowed_def)
    show ?thesis
    proof (cases ks)
      case Nil
      with h True Cons human that(2) show ?thesis by auto
    next
      case (Cons k ls)
      with h True have k: "tr_from k = Confirmed" "step_allowed k" "trail (tr_to k) ls = Some s"
        by (auto split: if_splits)
      then have "tr_to k \<in> {Executed, Failed}" "tr_actor k = System"
        by (auto elim: step_allowed_cases)
      moreover from this k have "ls = [] \<and> s = tr_to k"
        by (intro trail_terminal) auto
      ultimately show ?thesis using h k True human \<open>hs = h # ks\<close> Cons that(4) by auto
    qed
  qed
qed

lemma wf_historyE:
  assumes "wf_proposal rt p"
  obtains h hs where "p_history p = h # hs" "is_proposed h"
    "trail Pending_confirmation hs = Some (p_state p)" "p_version p = Suc (length hs)"
  using assms by (auto simp: wf_proposal_def split: list.splits)

lemma successorE:
  assumes "successor p q"
  obtains l where "p_history q = p_history p @ [l]" "tr_from l = p_state p" "tr_to l = p_state q"
    "step_allowed l" "same_artifact p q" "p_version q = Suc (p_version p)"
proof (rule that [of "last (p_history q)"])
  show "p_history q = p_history p @ [last (p_history q)]"
    using assms by (metis append_butlast_last_id successor_def)
qed (use assms in \<open>auto simp: successor_def\<close>)

lemma wf_digest: "wf_proposal rt p \<Longrightarrow> p_payloadDigest p = digestPayload rt (p_payload p)"
  by (simp add: wf_proposal_def)

lemma successor_wf: "wf_proposal rt p \<Longrightarrow> successor p q \<Longrightarrow> wf_proposal rt q"
  by (frule wf_digest, elim wf_historyE successorE)
    (simp add: wf_proposal_def same_artifact_def trail_append)

text \<open>The version of a well-formed record follows from its state.\<close>

definition stage :: "proposal_state \<Rightarrow> nat" where
  "stage s = (if s = Pending_confirmation then 1 else if s \<in> {Executed, Failed} then 3 else 2)"

lemma wf_stage: "wf_proposal rt p \<Longrightarrow> p_version p = stage (p_state p)"
  by (erule wf_historyE, erule trail_cases) (auto simp: stage_def)

lemma executed_history:
  assumes "wf_proposal rt p" "p_state p = Executed"
  shows "map (\<lambda>h. (tr_from h, tr_to h, tr_actor h)) (p_history p) =
    [(Pending_confirmation, Pending_confirmation, Agent), (Pending_confirmation, Confirmed, Human),
     (Confirmed, Executed, System)]"
  using assms(1)
  by (rule wf_historyE, elim trail_cases) (use assms(2) in \<open>auto simp: is_proposed_def\<close>)

lemma stage_simps [simp]:
  "stage s = 1 \<longleftrightarrow> s = Pending_confirmation" "stage s = Suc 0 \<longleftrightarrow> s = Pending_confirmation"
  "stage s = 3 \<longleftrightarrow> s \<in> {Executed, Failed}" "stage s \<noteq> 0" "Suc 0 \<le> stage s"
  by (auto simp: stage_def)

lemma successor_applied:
  assumes "target \<in> set (LEGAL (p_state p))"
    and "who = (if target \<in> {Confirmed, Rejected} then Human else System)"
  shows "successor p (applied clk p target reason who)"
  using assms by (simp add: successor_def same_artifact_def applied_def step_allowed_def)

subsection \<open>The operations, branch by branch\<close>

lemma applied_simps [simp]:
  "p_id (applied clk p t r a) = p_id p" "p_state (applied clk p t r a) = t"
  "p_payload (applied clk p t r a) = p_payload p"
  "p_payloadDigest (applied clk p t r a) = p_payloadDigest p"
  "p_linkCodeHash (applied clk p t r a) = p_linkCodeHash p"
  "p_idempotencyKey (applied clk p t r a) = p_idempotencyKey p"
  "p_createdAt (applied clk p t r a) = p_createdAt p"
  "p_expiresAt (applied clk p t r a) = p_expiresAt p"
  "p_version (applied clk p t r a) = Suc (p_version p)"
  by (simp_all add: applied_def)

lemma guard_Ok_iff: "guard p t = Ok v \<longleftrightarrow> v \<and> t \<in> set (LEGAL (p_state p))"
  by (cases "p_state p") (auto simp: guard_def)

lemma guard_code: "code_of (guard p t) = (if t \<in> set (LEGAL (p_state p)) then None else Some INVALID_STATE)"
  by (cases "p_state p") (auto simp: guard_def)

lemma guard_case:
  "(case guard p t of Err e \<Rightarrow> Err e | Ok v \<Rightarrow> f v) =
     (if t \<in> set (LEGAL (p_state p)) then f True else Err (err_error (guard p t)))"
proof (cases "guard p t")
  case (Ok v)
  then show ?thesis using guard_Ok_iff [of p t v] by auto
next
  case (Err e)
  then have "t \<notin> set (LEGAL (p_state p))" using guard_code [of p t] by (auto split: if_splits)
  with Err show ?thesis by simp
qed

lemma guard_error_code: "t \<notin> set (LEGAL (p_state p)) \<Longrightarrow> de_code (err_error (guard p t)) = INVALID_STATE"
  using guard_code [of p t] by (cases "guard p t") auto

lemma expireIfDue_cases:
  obtains "expireIfDue clk p now = p" "p_state p \<noteq> Pending_confirmation \<or> now < p_expiresAt p"
  | "expireIfDue clk p now = applied clk p Expired (lit ''ttl elapsed'') System"
    "p_state p = Pending_confirmation" "p_expiresAt p \<le> now"
  by (cases "p_state p = Pending_confirmation \<and> p_expiresAt p \<le> now") (auto simp: expireIfDue_def)

lemma expireIfDue_state:
  "p_state (expireIfDue clk p now) =
     (if p_state p = Pending_confirmation \<and> p_expiresAt p \<le> now then Expired else p_state p)"
  by (simp add: expireIfDue_def)

lemma expireIfDue_successor: "expireIfDue clk p now \<noteq> p \<Longrightarrow> successor p (expireIfDue clk p now)"
  by (auto simp: expireIfDue_def intro!: successor_applied)

lemma expireIfDue_wf: "wf_proposal rt p \<Longrightarrow> wf_proposal rt (expireIfDue clk p now)"
  using expireIfDue_successor successor_wf by metis

definition time_or :: "int option \<Rightarrow> int \<Rightarrow> int" where
  "time_or n clk = (case n of None \<Rightarrow> clk | Some t \<Rightarrow> t)"

lemma time_or_simps [simp]: "time_or None clk = clk" "time_or (Some t) clk = t"
  by (simp_all add: time_or_def)

text \<open>What a live proposal is: pending, and before its deadline.\<close>

definition live :: "proposal \<Rightarrow> int \<Rightarrow> bool" where
  "live p now \<longleftrightarrow> p_state p = Pending_confirmation \<and> now < p_expiresAt p"

lemma confirm_live:
  assumes "live p (time_or (ci_now i) clk)"
  shows "confirm rt clk p i =
     (if \<not> safeEqualHex (hashLinkCode rt (ci_linkCode i)) (p_linkCodeHash p) then
        err LINK_CODE_MISMATCH (lit ''that confirmation code is not valid'')
      else if \<not> safeEqualHex (ci_seenDigest i) (p_payloadDigest p) then
        err_unsafe PAYLOAD_TAMPERED (lit ''the transfer details changed; please review again'')
      else Ok (applied clk p Confirmed (lit ''confirmed by human'') Human))"
  using assms
  by (simp add: live_def confirm_def Let_def time_or_def [symmetric] expireIfDue_def guard_case)

lemma confirm_expired:
  assumes "p_state p = Expired \<or> p_state p = Pending_confirmation \<and> p_expiresAt p \<le> time_or (ci_now i) clk"
  shows "confirm rt clk p i = err EXPIRED (lit ''this confirmation has expired; ask for a new one'')"
proof -
  have "p_state (expireIfDue clk p (time_or (ci_now i) clk)) = Expired"
    using assms by (auto simp: expireIfDue_state)
  then show ?thesis by (simp add: confirm_def Let_def time_or_def [symmetric])
qed

lemma confirm_settled:
  assumes "p_state p \<notin> {Pending_confirmation, Expired}"
  shows "confirm rt clk p i = Err (err_error (guard p Confirmed))"
  using assms
  by (cases "p_state p")
    (simp_all add: confirm_def Let_def time_or_def [symmetric] expireIfDue_def guard_case)

lemma confirm_Ok_iff:
  "confirm rt clk p i = Ok q \<longleftrightarrow>
     live p (time_or (ci_now i) clk) \<and>
     safeEqualHex (hashLinkCode rt (ci_linkCode i)) (p_linkCodeHash p) \<and>
     safeEqualHex (ci_seenDigest i) (p_payloadDigest p) \<and>
     q = applied clk p Confirmed (lit ''confirmed by human'') Human"
proof (cases "live p (time_or (ci_now i) clk)")
  case True
  then show ?thesis by (auto simp: confirm_live)
next
  case False
  then have "p_state p = Expired \<or> p_state p = Pending_confirmation \<and> p_expiresAt p \<le> time_or (ci_now i) clk
      \<or> p_state p \<notin> {Pending_confirmation, Expired}"
    by (auto simp: live_def)
  then show ?thesis using False confirm_expired [of p i clk rt] confirm_settled [of p rt clk i] by auto
qed

lemma reject_Ok_iff:
  "reject clk p now = Ok q \<longleftrightarrow>
     live p now \<and> q = applied clk p Rejected (lit ''declined by human'') Human"
  by (cases "p_state p") (auto simp: reject_def Let_def guard_case expireIfDue_def live_def)

lemma markExecuted_Ok_iff:
  "markExecuted clk p ref = Ok q \<longleftrightarrow>
     p_state p = Confirmed \<and> q = applied clk p Executed (lit ''simulated execution '' @ ref) System"
  by (cases "p_state p") (auto simp: markExecuted_def guard_case)

lemma markFailed_Ok_iff:
  "markFailed clk p reason = Ok q \<longleftrightarrow>
     p_state p = Confirmed \<and> q = applied clk p Failed reason System"
  by (cases "p_state p") (auto simp: markFailed_def guard_case)

lemmas transition_Ok_iff = confirm_Ok_iff reject_Ok_iff markExecuted_Ok_iff markFailed_Ok_iff

lemma operation_successor:
  "confirm rt clk p i = Ok q \<Longrightarrow> successor p q"
  "reject clk p now = Ok q \<Longrightarrow> successor p q"
  "markExecuted clk p ref = Ok q \<Longrightarrow> successor p q"
  "markFailed clk p reason = Ok q \<Longrightarrow> successor p q"
  by (auto simp: transition_Ok_iff live_def intro!: successor_applied)

lemma createProposal_wf: "wf_proposal rt (createProposal rt clk i)"
  by (simp add: createProposal_def Let_def wf_proposal_def is_proposed_def)

lemma createProposal_fields [simp]:
  "p_id (createProposal rt clk i) = cr_id i"
  "p_state (createProposal rt clk i) = Pending_confirmation"
  "p_payload (createProposal rt clk i) = cr_payload i"
  "p_payloadDigest (createProposal rt clk i) = digestPayload rt (cr_payload i)"
  "p_linkCodeHash (createProposal rt clk i) = hashLinkCode rt (cr_linkCode i)"
  "p_idempotencyKey (createProposal rt clk i) = cr_idempotencyKey i"
  "p_version (createProposal rt clk i) = 1"
  "p_createdAt (createProposal rt clk i) = time_or (cr_now i) clk"
  "p_expiresAt (createProposal rt clk i) = time_or (cr_now i) clk + cr_ttlSeconds i * 1000"
  by (simp_all add: createProposal_def Let_def time_or_def)

end
