(* ===== verification/ProposalStore.thy ===== *)
theory ProposalStore
  imports StateMachine
begin

text \<open>
  The persistence port, apps/action-gateway/src/domain/store.ts: the interface
  \<open>ProposalStore\<close> as the record of operations \<open>store_ops\<close> and the contract \<open>proposal_store\<close>
  its clients rely on, and the reference implementation \<open>InMemoryProposalStore\<close> with the
  proof that it keeps the contract.

  A \<open>Map\<close> of the source is a partial function. A lookup that yields the empty string counts
  as absent where the source tests it for truth (\<open>id ? .. : null\<close>, \<open>if (existing)\<close>); the
  contract is therefore stated for proposals whose id is not empty.
\<close>

record 's store_ops =
  so_get :: "'s \<Rightarrow> ustr \<Rightarrow> proposal option"
  so_find :: "'s \<Rightarrow> ustr \<Rightarrow> proposal option"
  so_insert :: "'s \<Rightarrow> proposal \<Rightarrow> 's \<times> proposal result"
  so_cas :: "'s \<Rightarrow> proposal \<Rightarrow> nat \<Rightarrow> 's \<times> proposal result"

subsection \<open>The reference implementation\<close>

record mem_store =
  ms_byId :: "ustr \<rightharpoonup> proposal"
  ms_byIdempotency :: "ustr \<rightharpoonup> ustr"

definition mem_empty :: mem_store where
  "mem_empty = \<lparr>ms_byId = Map.empty, ms_byIdempotency = Map.empty\<rparr>"

definition mem_get :: "mem_store \<Rightarrow> ustr \<Rightarrow> proposal option" where
  "mem_get s i = ms_byId s i"

definition mem_findByIdempotencyKey :: "mem_store \<Rightarrow> ustr \<Rightarrow> proposal option" where
  "mem_findByIdempotencyKey s key =
     (case ms_byIdempotency s key of
        None \<Rightarrow> None
      | Some i \<Rightarrow> (if i = [] then None else ms_byId s i))"

definition mem_insert :: "mem_store \<Rightarrow> proposal \<Rightarrow> mem_store \<times> proposal result" where
  "mem_insert s p =
     (if ms_byId s (p_id p) \<noteq> None then
        (s, err IDEMPOTENCY_CONFLICT (lit ''a proposal with this id already exists''))
      else if (case ms_byIdempotency s (p_idempotencyKey p) of None \<Rightarrow> False | Some e \<Rightarrow> e \<noteq> []) then
        (s, err IDEMPOTENCY_CONFLICT (lit ''this idempotency key is already in use''))
      else
        (s\<lparr>ms_byId := (ms_byId s)(p_id p \<mapsto> p),
           ms_byIdempotency := (ms_byIdempotency s)(p_idempotencyKey p \<mapsto> p_id p)\<rparr>, Ok p))"

definition mem_compareAndSwap :: "mem_store \<Rightarrow> proposal \<Rightarrow> nat \<Rightarrow> mem_store \<times> proposal result" where
  "mem_compareAndSwap s nxt expectedVersion =
     (case ms_byId s (p_id nxt) of
        None \<Rightarrow> (s, err INVALID_STATE (lit ''proposal not found''))
      | Some current \<Rightarrow>
          (if p_version current \<noteq> expectedVersion then
             (s, err VERSION_CONFLICT (lit ''this proposal was modified concurrently''))
           else (s\<lparr>ms_byId := (ms_byId s)(p_id nxt \<mapsto> nxt)\<rparr>, Ok nxt)))"

definition mem_ops :: "mem_store store_ops" where
  "mem_ops = \<lparr>so_get = mem_get, so_find = mem_findByIdempotencyKey, so_insert = mem_insert,
     so_cas = mem_compareAndSwap\<rparr>"

text \<open>What the two maps keep between them: a record is filed under its own id, which is not
  empty, and the key map and the record map point at each other.\<close>

definition mem_inv :: "mem_store \<Rightarrow> bool" where
  "mem_inv s \<longleftrightarrow>
     (\<forall>i p. ms_byId s i = Some p \<longrightarrow>
        i \<noteq> [] \<and> p_id p = i \<and> ms_byIdempotency s (p_idempotencyKey p) = Some i) \<and>
     (\<forall>k i. ms_byIdempotency s k = Some i \<longrightarrow>
        (\<exists>p. ms_byId s i = Some p \<and> p_idempotencyKey p = k))"

subsection \<open>The contract of a store\<close>

locale proposal_store =
  fixes ops :: "'s store_ops" and inv :: "'s \<Rightarrow> bool"
  assumes get_id: "inv s \<Longrightarrow> so_get ops s i = Some p \<Longrightarrow> p_id p = i"
    and get_nonempty: "inv s \<Longrightarrow> so_get ops s [] = None"
    and find_iff: "inv s \<Longrightarrow> so_find ops s k = Some p \<longleftrightarrow>
      so_get ops s (p_id p) = Some p \<and> p_idempotencyKey p = k"
    and insert_spec: "inv s \<Longrightarrow> p_id p \<noteq> [] \<Longrightarrow> so_insert ops s p = (s', r) \<Longrightarrow>
      (if so_get ops s (p_id p) = None \<and> so_find ops s (p_idempotencyKey p) = None
       then r = Ok p \<and> so_get ops s' = (so_get ops s)(p_id p \<mapsto> p) \<and> inv s'
       else s' = s \<and> code_of r = Some IDEMPOTENCY_CONFLICT)"
    and cas_spec: "inv s \<Longrightarrow> so_cas ops s q v = (s', r) \<Longrightarrow>
      (case so_get ops s (p_id q) of
         None \<Rightarrow> s' = s \<and> code_of r = Some INVALID_STATE
       | Some p \<Rightarrow>
           (if p_version p = v
            then r = Ok q \<and> so_get ops s' = (so_get ops s)(p_id q \<mapsto> q) \<and>
              (p_idempotencyKey q = p_idempotencyKey p \<longrightarrow> inv s')
            else s' = s \<and> code_of r = Some VERSION_CONFLICT))"
begin

text \<open>At most one stored proposal carries a given idempotency key.\<close>

lemma key_unique:
  assumes "inv s" "so_get ops s i = Some p" "so_get ops s j = Some q"
    and "p_idempotencyKey p = p_idempotencyKey q"
  shows "i = j \<and> p = q"
proof -
  have "so_find ops s (p_idempotencyKey p) = Some p" "so_find ops s (p_idempotencyKey q) = Some q"
    using assms find_iff get_id by metis+
  with assms get_id show ?thesis by (metis option.inject)
qed

text \<open>A write that is refused changes nothing.\<close>

lemma insert_refused: "inv s \<Longrightarrow> p_id p \<noteq> [] \<Longrightarrow> so_insert ops s p = (s', Err e) \<Longrightarrow> s' = s"
  using insert_spec [of s p s' "Err e"] by (auto split: if_splits)

lemma cas_refused: "inv s \<Longrightarrow> so_cas ops s q v = (s', Err e) \<Longrightarrow> s' = s"
  using cas_spec [of s q v s' "Err e"] by (auto split: if_splits option.splits)

lemma cas_Ok:
  assumes "inv s" "so_cas ops s q v = (s', Ok r)"
  obtains p where "so_get ops s (p_id q) = Some p" "p_version p = v" "r = q"
    "so_get ops s' = (so_get ops s)(p_id q \<mapsto> q)"
    "p_idempotencyKey q = p_idempotencyKey p \<Longrightarrow> inv s'"
  using cas_spec [OF assms] by (auto split: if_splits option.splits)

lemma cas_current:
  assumes "inv s" "so_get ops s (p_id q) = Some p" "p_version p = v"
  shows "snd (so_cas ops s q v) = Ok q"
  using cas_spec [OF assms(1), of q v "fst (so_cas ops s q v)" "snd (so_cas ops s q v)"] assms
  by simp

text \<open>A second writer with the same expected version loses.\<close>

lemma cas_race:
  assumes "inv s" "so_cas ops s q v = (s', Ok r)" "p_version q = v + 1" "inv s'"
  shows "code_of (snd (so_cas ops s' q' v)) \<noteq> None \<or> p_id q' \<noteq> p_id q"
proof (cases "p_id q' = p_id q")
  case True
  from assms(1,2) have "so_get ops s' (p_id q) = Some q" by (auto elim: cas_Ok)
  then show ?thesis
    using cas_spec [OF assms(4), of q' v "fst (so_cas ops s' q' v)" "snd (so_cas ops s' q' v)"]
      True assms(3) by simp
qed simp

end

subsection \<open>The in-memory store keeps the contract\<close>

lemma mem_inv_empty: "mem_inv mem_empty"
  by (simp add: mem_inv_def mem_empty_def)

lemmas mem_defs = mem_get_def mem_findByIdempotencyKey_def mem_insert_def
  mem_compareAndSwap_def mem_ops_def

lemma mem_inv_byId:
  "mem_inv s \<Longrightarrow> ms_byId s i = Some p \<Longrightarrow>
     i \<noteq> [] \<and> p_id p = i \<and> ms_byIdempotency s (p_idempotencyKey p) = Some i"
  by (simp add: mem_inv_def)

lemma mem_inv_byKey:
  assumes "mem_inv s" "ms_byIdempotency s k = Some i"
  obtains p where "ms_byId s i = Some p" "p_idempotencyKey p = k" "i \<noteq> []" "p_id p = i"
  using assms unfolding mem_inv_def by blast

lemma mem_find_iff:
  assumes "mem_inv s"
  shows "mem_findByIdempotencyKey s k = Some p \<longleftrightarrow> mem_get s (p_id p) = Some p \<and> p_idempotencyKey p = k"
proof
  assume "mem_findByIdempotencyKey s k = Some p"
  then obtain i where "ms_byIdempotency s k = Some i" "ms_byId s i = Some p"
    by (auto simp: mem_findByIdempotencyKey_def split: option.splits if_splits)
  with assms show "mem_get s (p_id p) = Some p \<and> p_idempotencyKey p = k"
    by (metis mem_get_def mem_inv_byId mem_inv_byKey option.inject)
next
  assume "mem_get s (p_id p) = Some p \<and> p_idempotencyKey p = k"
  with mem_inv_byId [OF assms, of "p_id p" p] show "mem_findByIdempotencyKey s k = Some p"
    by (auto simp: mem_findByIdempotencyKey_def mem_get_def)
qed

lemma mem_find_None_iff:
  "mem_inv s \<Longrightarrow> mem_findByIdempotencyKey s k = None \<longleftrightarrow> ms_byIdempotency s k = None"
  by (auto simp: mem_findByIdempotencyKey_def split: option.splits if_splits elim: mem_inv_byKey)

lemma mem_inv_insert:
  assumes "mem_inv s" "p_id p \<noteq> []" "ms_byId s (p_id p) = None"
    and "ms_byIdempotency s (p_idempotencyKey p) = None"
  shows "mem_inv (s\<lparr>ms_byId := (ms_byId s)(p_id p \<mapsto> p),
           ms_byIdempotency := (ms_byIdempotency s)(p_idempotencyKey p \<mapsto> p_id p)\<rparr>)"
  using assms unfolding mem_inv_def by (auto split: if_splits) fastforce+

lemma mem_inv_replace:
  assumes "mem_inv s" "ms_byId s (p_id q) = Some p" "p_idempotencyKey q = p_idempotencyKey p"
  shows "mem_inv (s\<lparr>ms_byId := (ms_byId s)(p_id q \<mapsto> q)\<rparr>)"
  using assms unfolding mem_inv_def by (auto split: if_splits) fastforce+

interpretation mem: proposal_store mem_ops mem_inv
proof unfold_locales
  fix s s' :: mem_store and p q :: proposal and i k :: ustr and v :: nat and r :: "proposal result"
  assume inv: "mem_inv s"
  show "so_get mem_ops s i = Some p \<Longrightarrow> p_id p = i"
    using mem_inv_byId [OF inv] by (simp add: mem_defs)
  show "so_get mem_ops s [] = None"
    using mem_inv_byId [OF inv, of "[]"] by (cases "ms_byId s []") (auto simp: mem_defs)
  show "so_find mem_ops s k = Some p \<longleftrightarrow> so_get mem_ops s (p_id p) = Some p \<and> p_idempotencyKey p = k"
    using mem_find_iff [OF inv] by (simp add: mem_ops_def)
  show "if so_get mem_ops s (p_id p) = None \<and> so_find mem_ops s (p_idempotencyKey p) = None
      then r = Ok p \<and> so_get mem_ops s' = (so_get mem_ops s)(p_id p \<mapsto> p) \<and> mem_inv s'
      else s' = s \<and> code_of r = Some IDEMPOTENCY_CONFLICT"
    if "p_id p \<noteq> []" "so_insert mem_ops s p = (s', r)"
  proof -
    have "ms_byIdempotency s (p_idempotencyKey p) \<noteq> Some []"
      using inv by (auto elim: mem_inv_byKey)
    then show ?thesis
      using that mem_find_None_iff [OF inv, of "p_idempotencyKey p"] mem_inv_insert [OF inv that(1)]
      by (auto simp: mem_ops_def mem_insert_def mem_get_def fun_eq_iff split: if_splits option.splits)
  qed
  show "case so_get mem_ops s (p_id q) of
         None \<Rightarrow> s' = s \<and> code_of r = Some INVALID_STATE
       | Some p \<Rightarrow>
           (if p_version p = v
            then r = Ok q \<and> so_get mem_ops s' = (so_get mem_ops s)(p_id q \<mapsto> q) \<and>
              (p_idempotencyKey q = p_idempotencyKey p \<longrightarrow> mem_inv s')
            else s' = s \<and> code_of r = Some VERSION_CONFLICT)"
    if "so_cas mem_ops s q v = (s', r)"
    using that mem_inv_replace [OF inv, of q]
    by (auto simp: mem_ops_def mem_compareAndSwap_def mem_get_def fun_eq_iff split: if_splits option.splits)
qed

end
