(* ===== verification/Validation.thy ===== *)
theory Validation
  imports GatewayTypes
begin

text \<open>
  Server-side validation of message drafts, apps/action-gateway/src/domain/validation.ts.

  The regular expressions are written out as predicates on code units; \<open>PAID_CLAIM_RE\<close> with its
  flags \<open>i\<close> and \<open>u\<close> folds case with \<open>fold_unit\<close> (the two non-ASCII letters that fold into
  ASCII, long s and the Kelvin sign, included) and its \<open>\b\<close> uses the same folding. The Persian
  words of the second alternative have no case.

  The lemmas show that the normal form the validator returns is a fixed point of the validator,
  what the sanitised text can contain, and that the false-payment linter finds every claim
  phrase that stands between word boundaries.
\<close>

definition MAX_BODY_LEN :: nat where
  "MAX_BODY_LEN = 2000"

definition lower_alnum :: "nat \<Rightarrow> bool" where
  "lower_alnum c \<longleftrightarrow> is_digit c \<or> (97 \<le> c \<and> c \<le> 122)"

definition alnum :: "nat \<Rightarrow> bool" where
  "alnum c \<longleftrightarrow> lower_alnum c \<or> (65 \<le> c \<and> c \<le> 90)"

definition slug_re :: "ustr \<Rightarrow> bool" where
  "slug_re s = (case s of [] \<Rightarrow> False
     | c # cs \<Rightarrow> lower_alnum c \<and> list_all (\<lambda>d. lower_alnum d \<or> d = 45) cs
         \<and> 1 \<le> length cs \<and> length cs \<le> 62)"

definition order_id_re :: "ustr \<Rightarrow> bool" where
  "order_id_re s \<longleftrightarrow> list_all (\<lambda>c. alnum c \<or> c = 95 \<or> c = 45) s \<and> 4 \<le> length s \<and> length s \<le> 64"

text \<open>Groups of hexadecimal digits of the given lengths, joined by hyphens.\<close>

fun hex_groups :: "nat list \<Rightarrow> ustr \<Rightarrow> bool" where
  "hex_groups [] s = (s = [])"
| "hex_groups [n] s = (length s = n \<and> list_all (\<lambda>c. hex_val c \<noteq> None) s)"
| "hex_groups (n # m # ns) s =
     (length (take n s) = n \<and> list_all (\<lambda>c. hex_val c \<noteq> None) (take n s) \<and>
      (case drop n s of [] \<Rightarrow> False | d # rest \<Rightarrow> d = 45 \<and> hex_groups (m # ns) rest))"

definition merchant_id_re :: "ustr \<Rightarrow> bool" where
  "merchant_id_re s = hex_groups [8, 4, 4, 4, 12] s"

definition LOCALES :: "ustr list" where
  "LOCALES = [lit ''en'', lit ''fa'']"

definition PAYMENT_STATUSES :: "ustr list" where
  "PAYMENT_STATUSES = [lit ''AWAITING_PAYMENT'', lit ''PAID'', lit ''UNDERPAID'',
     lit ''NEEDS_REVIEW'', lit ''EXPIRED'', lit ''CANCELLED'']"

subsection \<open>The false-payment linter\<close>

definition fold_unit :: "nat \<Rightarrow> nat" where
  "fold_unit c = (if 65 \<le> c \<and> c \<le> 90 then c + 32 else if c = 383 then 115
     else if c = 8490 then 107 else c)"

definition is_word :: "nat \<Rightarrow> bool" where
  "is_word c \<longleftrightarrow> lower_alnum (fold_unit c) \<or> fold_unit c = 95"

text \<open>\<open>\b\<close> between the unit before and the unit after a position, \<open>None\<close> at either end.\<close>

definition word_at :: "nat option \<Rightarrow> bool" where
  "word_at c = (case c of None \<Rightarrow> False | Some u \<Rightarrow> is_word u)"

definition boundary :: "nat option \<Rightarrow> nat option \<Rightarrow> bool" where
  "boundary prev nxt \<longleftrightarrow> word_at prev \<noteq> word_at nxt"

definition head_of :: "ustr \<Rightarrow> nat option" where
  "head_of s = (case s of [] \<Rightarrow> None | c # _ \<Rightarrow> Some c)"

definition claim_phrases :: "ustr list" where
  "claim_phrases = [lit ''paid'', lit ''payment received'', lit ''payment confirmed'',
     lit ''payment is confirmed'', lit ''received your payment'', lit ''payment in full'']"

definition persian_stems :: "ustr list" where
  "persian_stems = [[1662, 1585, 1583, 1575, 1582, 1578], [1608, 1575, 1585, 1740, 1586]]"

definition persian_done :: ustr where
  "persian_done = [1588, 1583]"

definition phrase_here :: "nat option \<Rightarrow> ustr \<Rightarrow> ustr \<Rightarrow> bool" where
  "phrase_here prev s w \<longleftrightarrow>
     map fold_unit (take (length w) s) = w \<and> boundary prev (head_of s) \<and>
     boundary (Some (last (take (length w) s))) (head_of (drop (length w) s))"

definition persian_here :: "ustr \<Rightarrow> ustr \<Rightarrow> bool" where
  "persian_here s w \<longleftrightarrow>
     take (length w) s = w \<and>
     take (length persian_done) (dropWhile is_ws (drop (length w) s)) = persian_done"

fun paid_claim_from :: "nat option \<Rightarrow> ustr \<Rightarrow> bool" where
  "paid_claim_from prev [] = False"
| "paid_claim_from prev (c # cs) =
     (list_ex (phrase_here prev (c # cs)) claim_phrases \<or>
      list_ex (persian_here (c # cs)) persian_stems \<or> paid_claim_from (Some c) cs)"

definition PAID_CLAIM_RE_test :: "ustr \<Rightarrow> bool" where
  "PAID_CLAIM_RE_test s = paid_claim_from None s"

definition lintFalsePaidClaim :: "ustr \<Rightarrow> ustr \<Rightarrow> bool result" where
  "lintFalsePaidClaim body paymentStatus =
     (if paymentStatus = lit ''PAID'' then Ok True
      else if PAID_CLAIM_RE_test body then
        err VALIDATION_FAILED
          (lit ''draft must not claim the order is paid unless payment status is PAID'')
      else Ok True)"

subsection \<open>Sanitising the body\<close>

definition is_control :: "nat \<Rightarrow> bool" where
  "is_control c \<longleftrightarrow> c \<le> 31 \<or> (127 \<le> c \<and> c \<le> 159)"

text \<open>\<open>replace(/\s+/g, ' ')\<close>: every maximal run of white space becomes one space.\<close>

fun collapse_ws :: "ustr \<Rightarrow> ustr" where
  "collapse_ws [] = []"
| "collapse_ws [c] = (if is_ws c then [32] else [c])"
| "collapse_ws (c # d # cs) =
     (if is_ws c then (if is_ws d then collapse_ws (d # cs) else 32 # collapse_ws (d # cs))
      else c # collapse_ws (d # cs))"

definition sanitizeBody :: "ustr \<Rightarrow> ustr" where
  "sanitizeBody raw = js_trim (collapse_ws (map (\<lambda>c. if is_control c then 32 else c) raw))"

subsection \<open>The validator\<close>

definition validateMessageDraft :: "runtime \<Rightarrow> message_draft \<Rightarrow> message_draft result" where
  "validateMessageDraft rt p =
     (let orderId = js_trim (md_orderId p);
          orderSlug = js_lower rt (js_trim (md_orderSlug p));
          loc = js_lower rt (js_trim (md_locale p));
          paymentStatus = js_upper rt (js_trim (md_paymentStatus p))
      in if \<not> order_id_re orderId then
           err VALIDATION_FAILED (lit ''order id is not in a valid format'')
         else let merchantId = js_trim (md_merchantId p)
           in if merchantId \<noteq> [] \<and> \<not> merchant_id_re merchantId then
                err VALIDATION_FAILED (lit ''merchant id is not in a valid format'')
              else if \<not> slug_re orderSlug then
                err VALIDATION_FAILED (lit ''order slug is not in a valid format'')
              else if \<not> loc \<in> set LOCALES then
                err VALIDATION_FAILED (lit ''unsupported locale'')
              else if \<not> paymentStatus \<in> set PAYMENT_STATUSES then
                err VALIDATION_FAILED (lit ''unsupported payment status'')
              else let body = sanitizeBody (md_body p)
                in if length body < 1 then
                     err VALIDATION_FAILED (lit ''message body is required'')
                   else if length body > MAX_BODY_LEN then
                     err VALIDATION_FAILED
                       (lit ''message must be '' @ dec MAX_BODY_LEN @ lit '' characters or fewer'')
                   else case lintFalsePaidClaim body paymentStatus of
                     Err e \<Rightarrow> Err e
                   | Ok _ \<Rightarrow> Ok \<lparr>md_orderId = orderId, md_orderSlug = orderSlug,
                       md_merchantId = merchantId, md_body = body, md_locale = loc,
                       md_paymentStatus = paymentStatus\<rparr>)"

subsection \<open>What sanitised text contains\<close>

text \<open>Clean text: no control unit, no white space but single spaces, none at either end.\<close>

fun single_spaced :: "ustr \<Rightarrow> bool" where
  "single_spaced [] = True"
| "single_spaced [c] = (is_ws c \<longrightarrow> c = 32)"
| "single_spaced (c # d # cs) =
     ((is_ws c \<longrightarrow> c = 32 \<and> \<not> is_ws d) \<and> single_spaced (d # cs))"

definition clean_text :: "ustr \<Rightarrow> bool" where
  "clean_text s \<longleftrightarrow> list_all (\<lambda>c. \<not> is_control c) s \<and> single_spaced s
     \<and> (s \<noteq> [] \<longrightarrow> \<not> is_ws (hd s) \<and> \<not> is_ws (last s))"

lemma is_ws_32 [simp]: "is_ws 32"
  by (simp add: is_ws_def)

lemma not_control_32 [simp]: "\<not> is_control 32"
  by (simp add: is_control_def)

lemma collapse_ws_ne [simp]: "collapse_ws s = [] \<longleftrightarrow> s = []"
  by (induction s rule: collapse_ws.induct) auto

lemma hd_collapse_ws: "s \<noteq> [] \<Longrightarrow> hd (collapse_ws s) = (if is_ws (hd s) then 32 else hd s)"
  by (induction s rule: collapse_ws.induct) auto

lemma single_spaced_Cons:
  "single_spaced (c # s) \<longleftrightarrow>
     (is_ws c \<longrightarrow> c = 32 \<and> (s \<noteq> [] \<longrightarrow> \<not> is_ws (hd s))) \<and> single_spaced s"
  by (cases s) auto

lemma single_spaced_collapse: "single_spaced (collapse_ws s)"
proof (induction s rule: collapse_ws.induct)
  case (3 c d cs)
  then show ?case by (auto simp: single_spaced_Cons hd_collapse_ws)
qed auto

lemma set_collapse_ws: "set (collapse_ws s) \<subseteq> insert 32 (set s)"
  by (induction s rule: collapse_ws.induct) auto

lemma collapse_single_spaced: "single_spaced s \<Longrightarrow> collapse_ws s = s"
  by (induction s rule: collapse_ws.induct) auto

lemma single_spaced_append: "single_spaced (a @ b) \<Longrightarrow> single_spaced a \<and> single_spaced b"
  by (induction a) (auto simp: single_spaced_Cons hd_append split: if_splits)

lemma js_trim_sublist: "\<exists>a b. s = a @ js_trim s @ b"
proof -
  have "s = takeWhile is_ws s @ dropWhile is_ws s" by simp
  moreover have "dropWhile is_ws s = js_trim s @ rev (takeWhile is_ws (rev (dropWhile is_ws s)))"
    unfolding js_trim_def by (metis rev_append rev_rev_ident takeWhile_dropWhile_id)
  ultimately show ?thesis by metis
qed

lemma single_spaced_trim: "single_spaced s \<Longrightarrow> single_spaced (js_trim s)"
  using js_trim_sublist [of s] single_spaced_append by metis

lemma sanitizeBody_clean: "clean_text (sanitizeBody raw)"
proof -
  let ?m = "map (\<lambda>c. if is_control c then 32 else c) raw"
  have "set (sanitizeBody raw) \<subseteq> insert 32 (set ?m)"
    using set_collapse_ws [of ?m] set_js_trim [of "collapse_ws ?m"] by (auto simp: sanitizeBody_def)
  then have "list_all (\<lambda>c. \<not> is_control c) (sanitizeBody raw)"
    by (auto simp: list_all_iff)
  moreover have "single_spaced (sanitizeBody raw)"
    by (simp add: sanitizeBody_def single_spaced_trim single_spaced_collapse)
  ultimately show ?thesis
    using hd_js_trim last_js_trim by (simp add: clean_text_def sanitizeBody_def)
qed

lemma sanitizeBody_id: "clean_text s \<Longrightarrow> sanitizeBody s = s"
proof -
  assume c: "clean_text s"
  then have "map (\<lambda>c. if is_control c then 32 else c) s = s"
    by (auto simp: clean_text_def list_all_iff intro!: map_idI)
  moreover have "collapse_ws s = s" using c by (simp add: clean_text_def collapse_single_spaced)
  moreover have "js_trim s = s" using c by (intro js_trim_id) (auto simp: clean_text_def)
  ultimately show ?thesis by (simp add: sanitizeBody_def)
qed

lemma sanitizeBody_idem [simp]: "sanitizeBody (sanitizeBody raw) = sanitizeBody raw"
  by (rule sanitizeBody_id [OF sanitizeBody_clean])

subsection \<open>The fields of a validated draft\<close>

definition normal_draft :: "runtime \<Rightarrow> message_draft \<Rightarrow> message_draft" where
  "normal_draft rt p =
     \<lparr>md_orderId = js_trim (md_orderId p), md_orderSlug = js_lower rt (js_trim (md_orderSlug p)),
      md_merchantId = js_trim (md_merchantId p), md_body = sanitizeBody (md_body p),
      md_locale = js_lower rt (js_trim (md_locale p)),
      md_paymentStatus = js_upper rt (js_trim (md_paymentStatus p))\<rparr>"

definition draft_ok :: "message_draft \<Rightarrow> bool" where
  "draft_ok q \<longleftrightarrow>
     order_id_re (md_orderId q) \<and>
     (md_merchantId q = [] \<or> merchant_id_re (md_merchantId q)) \<and>
     slug_re (md_orderSlug q) \<and> md_locale q \<in> set LOCALES \<and>
     md_paymentStatus q \<in> set PAYMENT_STATUSES \<and>
     md_body q \<noteq> [] \<and> length (md_body q) \<le> MAX_BODY_LEN \<and>
     (md_paymentStatus q = lit ''PAID'' \<or> \<not> PAID_CLAIM_RE_test (md_body q))"

lemma lintFalsePaidClaim_case:
  "(case lintFalsePaidClaim b st of Err e \<Rightarrow> Err e | Ok _ \<Rightarrow> Ok x) =
     (if st = lit ''PAID'' \<or> \<not> PAID_CLAIM_RE_test b then Ok x
      else err VALIDATION_FAILED
          (lit ''draft must not claim the order is paid unless payment status is PAID''))"
  by (simp add: lintFalsePaidClaim_def err_def)

lemma validateMessageDraft_cases:
  obtains (accepted) "validateMessageDraft rt p = Ok (normal_draft rt p)" "draft_ok (normal_draft rt p)"
  | (refused) m where "validateMessageDraft rt p = err VALIDATION_FAILED m" "\<not> draft_ok (normal_draft rt p)"
proof (cases "draft_ok (normal_draft rt p)")
  case True
  then have "validateMessageDraft rt p = Ok (normal_draft rt p)"
    by (simp add: validateMessageDraft_def Let_def lintFalsePaidClaim_case draft_ok_def normal_draft_def)
  from this True show ?thesis by (rule accepted)
next
  case False
  then have "\<exists>m. validateMessageDraft rt p = err VALIDATION_FAILED m"
    by (simp add: validateMessageDraft_def Let_def lintFalsePaidClaim_case draft_ok_def normal_draft_def
        not_less Suc_le_eq) auto
  then show ?thesis using refused False by blast
qed

lemma validateMessageDraft_Ok_iff:
  "validateMessageDraft rt p = Ok q \<longleftrightarrow> q = normal_draft rt p \<and> draft_ok q"
  by (cases rule: validateMessageDraft_cases [of rt p]) auto

lemma validateMessageDraft_code:
  "validateMessageDraft rt p = Err e \<Longrightarrow> de_code e = VALIDATION_FAILED \<and> de_agentSafe e"
  by (cases rule: validateMessageDraft_cases [of rt p]) (auto simp: err_def)

lemma slug_units: "slug_re s \<Longrightarrow> list_all (\<lambda>c. lower_alnum c \<or> c = 45) s"
  by (auto simp: slug_re_def split: list.splits)

lemma lower_alnum_not_ws: "lower_alnum c \<Longrightarrow> \<not> is_ws c"
  by (auto simp: lower_alnum_def is_digit_def is_ws_def)

lemma alnum_not_ws: "alnum c \<Longrightarrow> \<not> is_ws c"
  by (auto simp: alnum_def lower_alnum_def is_digit_def is_ws_def)

lemma slug_normal: "slug_re s \<Longrightarrow> js_lower rt (js_trim s) = s"
proof -
  assume "slug_re s"
  then have u: "list_all (\<lambda>c. lower_alnum c \<or> c = 45) s" by (rule slug_units)
  have "js_trim s = s"
    using u by (intro js_trim_no_ws) (auto simp: list_all_iff lower_alnum_def is_digit_def is_ws_def)
  moreover have "js_lower rt s = s"
    using u by (intro js_lower_id) (auto simp: list_all_iff lower_alnum_def is_digit_def)
  ultimately show ?thesis by simp
qed

lemma order_id_normal: "order_id_re s \<Longrightarrow> js_trim s = s"
  by (intro js_trim_no_ws)
    (auto simp: order_id_re_def list_all_iff alnum_def lower_alnum_def is_digit_def is_ws_def)

lemma locale_normal: "s \<in> set LOCALES \<Longrightarrow> js_lower rt (js_trim s) = s"
  by (auto simp: LOCALES_def lit_def js_trim_no_ws is_ws_def js_lower_id)

lemma status_normal: "s \<in> set PAYMENT_STATUSES \<Longrightarrow> js_upper rt (js_trim s) = s"
  by (auto simp: PAYMENT_STATUSES_def lit_def js_trim_no_ws is_ws_def js_upper_id)

lemma normal_draft_id:
  assumes "draft_ok q" "clean_text (md_body q)"
    and "js_trim (md_merchantId q) = md_merchantId q"
  shows "normal_draft rt q = q"
  using assms
  by (simp add: draft_ok_def normal_draft_def slug_normal order_id_normal locale_normal
      status_normal sanitizeBody_id)

lemma normal_draft_idem:
  "draft_ok (normal_draft rt p) \<Longrightarrow> normal_draft rt (normal_draft rt p) = normal_draft rt p"
  by (rule normal_draft_id) (simp_all add: normal_draft_def sanitizeBody_clean)

subsection \<open>What the linter finds\<close>

lemma paid_claim_from_suffix:
  "paid_claim_from (case head_of (rev a) of None \<Rightarrow> prev | Some c \<Rightarrow> Some c) b \<Longrightarrow>
     paid_claim_from prev (a @ b)"
proof (induction a arbitrary: prev)
  case (Cons c cs)
  then show ?case
    by (cases cs rule: rev_cases) (auto simp: head_of_def)
qed (simp add: head_of_def)

lemma claim_phrase_found:
  assumes w: "map fold_unit w \<in> set claim_phrases"
    and before: "a = [] \<or> \<not> is_word (last a)" and after: "b = [] \<or> \<not> is_word (hd b)"
  shows "PAID_CLAIM_RE_test (a @ w @ b)"
proof -
  have ne: "w \<noteq> []" "is_word (hd w)" "is_word (last w)"
  proof -
    have "w \<noteq> [] \<and> lower_alnum (fold_unit (hd w)) \<and> lower_alnum (fold_unit (last w))"
      using w by (auto simp: claim_phrases_def lit_def lower_alnum_def is_digit_def)
    then show "w \<noteq> []" "is_word (hd w)" "is_word (last w)" by (auto simp: is_word_def)
  qed
  let ?prev = "case head_of (rev a) of None \<Rightarrow> None | Some c \<Rightarrow> Some c"
  have "\<not> word_at ?prev"
    using before by (cases a rule: rev_cases) (auto simp: head_of_def word_at_def)
  moreover have "\<not> word_at (head_of b)"
    using after by (cases b) (auto simp: head_of_def word_at_def)
  moreover have "word_at (head_of (w @ b))" "word_at (Some (last w))"
    using ne by (cases w; simp add: head_of_def word_at_def)+
  ultimately have "phrase_here ?prev (w @ b) (map fold_unit w)"
    by (simp add: phrase_here_def boundary_def)
  moreover obtain c cs where "w @ b = c # cs" using ne by (cases w) auto
  ultimately have "paid_claim_from ?prev (w @ b)"
    using w by (auto simp: list_ex_iff)
  then show ?thesis unfolding PAID_CLAIM_RE_test_def by (rule paid_claim_from_suffix)
qed

end
