(* ===== verification/Registry.thy ===== *)
theory Registry
  imports ProposalStore Validation
begin

text \<open>
  The action registry, apps/action-gateway/src/domain/registry.ts.

  Its methods are asynchronous: every access to the store is awaited, and between two awaits
  other requests run. A method is therefore a program over the store port (\<open>store_prog\<close>), one
  constructor for each awaited operation with the continuation that runs when the operation
  has answered. \<open>run\<close> executes a program alone; the theory \<open>Concurrency\<close> interleaves many.
  What a call reads from its surroundings (the fresh id, the fresh link code, the two readings
  of \<open>this.#now()\<close> and the wall clock) is the record \<open>call_env\<close>.

  The lemmas inside the contract \<open>proposal_store\<close> give the outcome of each method run alone,
  on every branch.
\<close>

subsection \<open>Programs over the store port\<close>

datatype 'r store_prog =
    Done 'r
  | AwaitGet ustr "proposal option \<Rightarrow> 'r store_prog"
  | AwaitFind ustr "proposal option \<Rightarrow> 'r store_prog"
  | AwaitInsert proposal "proposal result \<Rightarrow> 'r store_prog"
  | AwaitCas proposal nat "proposal result \<Rightarrow> 'r store_prog"

primrec run :: "'s store_ops \<Rightarrow> 'r store_prog \<Rightarrow> 's \<Rightarrow> 's \<times> 'r" where
  "run ops (Done r) s = (s, r)"
| "run ops (AwaitGet i k) s = run ops (k (so_get ops s i)) s"
| "run ops (AwaitFind key k) s = run ops (k (so_find ops s key)) s"
| "run ops (AwaitInsert p k) s = (case so_insert ops s p of (s', r) \<Rightarrow> run ops (k r) s')"
| "run ops (AwaitCas q v k) s = (case so_cas ops s q v of (s', r) \<Rightarrow> run ops (k r) s')"

subsection \<open>Link codes\<close>

definition ALPHABET :: ustr where
  "ALPHABET = lit ''ABCDEFGHJKMNPQRSTUVWXYZ23456789''"

text \<open>\<open>bytes\<close> is what \<open>randomBytes(6)\<close> returned.\<close>

definition generateLinkCode :: "8 word list \<Rightarrow> ustr" where
  "generateLinkCode bytes = map (\<lambda>i. ALPHABET ! (unat (bytes ! i) mod length ALPHABET)) [0..<6]"

subsection \<open>The methods\<close>

record propose_input =
  pi_payload :: message_draft
  pi_idempotencyKey :: ustr

record propose_output =
  po_proposal :: proposal
  po_linkCode :: ustr
  po_deduplicated :: bool

record call_env =
  ce_newId :: ustr
  ce_newLinkCode :: ustr
  ce_now :: int
  ce_later :: int
  ce_clock :: int

text \<open>\<open>opts.ttlSeconds ?? 300\<close>.\<close>

definition registry_ttl :: "int option \<Rightarrow> int" where
  "registry_ttl o_ttl = (case o_ttl of None \<Rightarrow> 300 | Some t \<Rightarrow> t)"

definition reg_propose :: "runtime \<Rightarrow> int \<Rightarrow> call_env \<Rightarrow> propose_input \<Rightarrow> propose_output result store_prog" where
  "reg_propose rt ttl env input =
     (case validateMessageDraft rt (pi_payload input) of
        Err e \<Rightarrow> Done (Err e)
      | Ok v \<Rightarrow>
          if js_trim (pi_idempotencyKey input) = [] then
            Done (err VALIDATION_FAILED (lit ''an idempotency key is required''))
          else AwaitFind (pi_idempotencyKey input) (\<lambda>existing.
            case existing of
              Some p \<Rightarrow> Done (Ok \<lparr>po_proposal = p, po_linkCode = [], po_deduplicated = True\<rparr>)
            | None \<Rightarrow>
                let p = createProposal rt (ce_clock env)
                  \<lparr>cr_id = ce_newId env, cr_payload = v, cr_linkCode = ce_newLinkCode env,
                   cr_idempotencyKey = pi_idempotencyKey input, cr_ttlSeconds = ttl,
                   cr_now = Some (ce_now env)\<rparr>
                in AwaitInsert p (\<lambda>inserted.
                  case inserted of
                    Err e \<Rightarrow> Done (Err e)
                  | Ok q \<Rightarrow> Done (Ok \<lparr>po_proposal = q, po_linkCode = ce_newLinkCode env,
                      po_deduplicated = False\<rparr>))))"

definition reg_getForConfirmation :: "call_env \<Rightarrow> ustr \<Rightarrow> proposal option store_prog" where
  "reg_getForConfirmation env i =
     AwaitGet i (\<lambda>p. case p of None \<Rightarrow> Done None
       | Some p \<Rightarrow> Done (Some (expireIfDue (ce_clock env) p (ce_now env))))"

definition no_such_proposal :: "'a result" where
  "no_such_proposal = err INVALID_STATE (lit ''no such proposal'')"

definition reg_confirm :: "runtime \<Rightarrow> call_env \<Rightarrow> ustr \<Rightarrow> ustr \<Rightarrow> ustr \<Rightarrow> proposal result store_prog" where
  "reg_confirm rt env i linkCode seenDigest =
     AwaitGet i (\<lambda>found. case found of None \<Rightarrow> Done no_such_proposal
       | Some current \<Rightarrow>
           (case confirm rt (ce_clock env) current
                \<lparr>ci_linkCode = linkCode, ci_seenDigest = seenDigest, ci_now = Some (ce_now env)\<rparr> of
              Err e \<Rightarrow>
                let expired = expireIfDue (ce_clock env) current (ce_later env)
                in if p_state expired = Expired \<and> p_version expired \<noteq> p_version current
                   then AwaitCas expired (p_version current) (\<lambda>_. Done (Err e))
                   else Done (Err e)
            | Ok nxt \<Rightarrow> AwaitCas nxt (p_version current) Done))"

definition reg_reject :: "call_env \<Rightarrow> ustr \<Rightarrow> proposal result store_prog" where
  "reg_reject env i =
     AwaitGet i (\<lambda>found. case found of None \<Rightarrow> Done no_such_proposal
       | Some current \<Rightarrow>
           (case reject (ce_clock env) current (ce_now env) of
              Err e \<Rightarrow> Done (Err e)
            | Ok nxt \<Rightarrow> AwaitCas nxt (p_version current) Done))"

definition execution_reference :: "runtime \<Rightarrow> ustr \<Rightarrow> ustr" where
  "execution_reference rt i = lit ''sim_'' @ take 12 (hex_encode (rt_sha256 rt i))"

definition reg_execute :: "runtime \<Rightarrow> call_env \<Rightarrow> ustr \<Rightarrow> proposal result store_prog" where
  "reg_execute rt env i =
     AwaitGet i (\<lambda>found. case found of None \<Rightarrow> Done no_such_proposal
       | Some current \<Rightarrow>
           if p_state current \<noteq> Confirmed then
             Done (err INVALID_STATE (lit ''cannot execute a proposal that is '' @ state_name (p_state current)))
           else (case markExecuted (ce_clock env) current (execution_reference rt (p_id current)) of
              Err e \<Rightarrow> Done (Err e)
            | Ok nxt \<Rightarrow> AwaitCas nxt (p_version current) Done))"

definition reg_fail :: "call_env \<Rightarrow> ustr \<Rightarrow> ustr \<Rightarrow> proposal result store_prog" where
  "reg_fail env i reason =
     AwaitGet i (\<lambda>found. case found of None \<Rightarrow> Done no_such_proposal
       | Some current \<Rightarrow>
           (case markFailed (ce_clock env) current reason of
              Err e \<Rightarrow> Done (Err e)
            | Ok nxt \<Rightarrow> AwaitCas nxt (p_version current) Done))"

lemmas registry_defs = reg_propose_def reg_getForConfirmation_def reg_confirm_def reg_reject_def
  reg_execute_def reg_fail_def no_such_proposal_def

subsection \<open>Link codes are what a human can type\<close>

lemma length_ALPHABET [simp]: "length ALPHABET = 31"
  by (simp add: ALPHABET_def)

lemma set_ALPHABET: "c \<in> set ALPHABET \<Longrightarrow> (50 \<le> c \<and> c \<le> 57) \<or> (65 \<le> c \<and> c \<le> 90 \<and> c \<noteq> 73 \<and> c \<noteq> 76 \<and> c \<noteq> 79)"
  by (auto simp: ALPHABET_def lit_def)

lemma generateLinkCode_units: "set (generateLinkCode bytes) \<subseteq> set ALPHABET"
  by (auto simp: generateLinkCode_def)

lemma length_generateLinkCode [simp]: "length (generateLinkCode bytes) = 6"
  by (simp add: generateLinkCode_def)

text \<open>Lower case and surrounding white space make no difference to a code of the alphabet.\<close>

lemma ALPHABET_code_normal:
  assumes "set code \<subseteq> set ALPHABET" "list_all is_ws a" "list_all is_ws b" "ascii a" "ascii b"
  shows "normal_code rt (a @ map lower_unit code @ b) = code"
proof -
  have c: "list_all (\<lambda>c. \<not> is_ws (lower_unit c) \<and> lower_unit c < 128 \<and> upper_unit (lower_unit c) = c) code"
    using assms(1) by (fastforce simp: list_all_iff lower_unit_def upper_unit_def is_ws_def dest: set_ALPHABET)
  have "js_trim (a @ map lower_unit code @ b) = map lower_unit code"
  proof (cases "code = []")
    case True
    have "dropWhile is_ws b = []" using assms(3) by (simp only: dropWhile_eq_Nil_list_all)
    moreover have "dropWhile is_ws (a @ b) = dropWhile is_ws b"
      using assms(2) by (simp add: list_all_iff dropWhile_append2)
    ultimately have "dropWhile is_ws (a @ b) = []" by metis
    then show ?thesis
      by (simp only: True js_trim_def list.map append_Nil rev.simps dropWhile.simps)
  next
    case False
    have front: "dropWhile is_ws (a @ map lower_unit code @ b) = map lower_unit code @ b"
    proof -
      have "\<not> is_ws (hd (map lower_unit code @ b))"
        using c False by (cases code) auto
      then show ?thesis
        using assms(2) dropWhile_hd_not [of "map lower_unit code @ b" is_ws]
        by (simp add: list_all_iff dropWhile_append2)
    qed
    have "\<not> is_ws (hd (rev (map lower_unit code)))"
      using c False by (cases code rule: rev_cases) auto
    then have "dropWhile is_ws (rev b @ rev (map lower_unit code)) = rev (map lower_unit code)"
      using assms(3) dropWhile_hd_not [of "rev (map lower_unit code)" is_ws]
        dropWhile_append2 [of "rev b" is_ws "rev (map lower_unit code)"]
      by (simp only: list_all_iff set_rev) blast
    with front show ?thesis by (simp add: js_trim_def)
  qed
  moreover have "ascii (map lower_unit code)" using c by (simp add: ascii_def list_all_iff)
  moreover have "map upper_unit (map lower_unit code) = code"
    using c by (auto simp: list_all_iff intro!: map_idI)
  ultimately show ?thesis by (simp add: normal_code_def js_upper_def)
qed

definition new_proposal :: "runtime \<Rightarrow> int \<Rightarrow> call_env \<Rightarrow> propose_input \<Rightarrow> message_draft \<Rightarrow> proposal" where
  "new_proposal rt ttl env input v = createProposal rt (ce_clock env)
     \<lparr>cr_id = ce_newId env, cr_payload = v, cr_linkCode = ce_newLinkCode env,
      cr_idempotencyKey = pi_idempotencyKey input, cr_ttlSeconds = ttl, cr_now = Some (ce_now env)\<rparr>"

subsection \<open>The methods run alone\<close>

context proposal_store begin

lemma run_getForConfirmation:
  "run ops (reg_getForConfirmation env i) s =
     (s, map_option (\<lambda>p. expireIfDue (ce_clock env) p (ce_now env)) (so_get ops s i))"
  by (simp add: reg_getForConfirmation_def split: option.splits)

lemma run_missing:
  assumes "so_get ops s i = None"
  shows "run ops (reg_confirm rt env i code dig) s = (s, no_such_proposal)"
    "run ops (reg_reject env i) s = (s, no_such_proposal)"
    "run ops (reg_execute rt env i) s = (s, no_such_proposal)"
    "run ops (reg_fail env i reason) s = (s, no_such_proposal)"
  using assms by (simp_all add: registry_defs)

text \<open>A write of a successor of the current record succeeds when nothing runs in between.\<close>

lemma run_write:
  assumes "inv s" "so_get ops s i = Some p" "successor p q"
  shows "\<exists>s'. so_cas ops s q (p_version p) = (s', Ok q) \<and>
    so_get ops s' = (so_get ops s)(i \<mapsto> q) \<and> inv s'"
proof -
  have i: "p_id q = i" "p_idempotencyKey q = p_idempotencyKey p"
    using assms get_id by (auto simp: successor_def same_artifact_def)
  then show ?thesis
    using cas_spec [OF assms(1), of q "p_version p" "fst (so_cas ops s q (p_version p))"
        "snd (so_cas ops s q (p_version p))"] assms(2)
    by (intro exI [of _ "fst (so_cas ops s q (p_version p))"]) (simp add: prod_eq_iff)
qed

lemma run_confirm_Ok:
  assumes "inv s" "so_get ops s i = Some p"
    and "confirm rt (ce_clock env) p
      \<lparr>ci_linkCode = code, ci_seenDigest = dig, ci_now = Some (ce_now env)\<rparr> = Ok q"
  shows "\<exists>s'. run ops (reg_confirm rt env i code dig) s = (s', Ok q) \<and>
    so_get ops s' = (so_get ops s)(i \<mapsto> q) \<and> inv s'"
  using run_write [OF assms(1,2) operation_successor(1) [OF assms(3)]] assms(2,3)
  by (auto simp: reg_confirm_def)

lemma run_confirm_Err:
  assumes "inv s" "so_get ops s i = Some p"
    and "confirm rt (ce_clock env) p
      \<lparr>ci_linkCode = code, ci_seenDigest = dig, ci_now = Some (ce_now env)\<rparr> = Err e"
  shows "\<exists>s'. run ops (reg_confirm rt env i code dig) s = (s', Err e) \<and>
    so_get ops s' = (so_get ops s)(i \<mapsto> expireIfDue (ce_clock env) p (ce_later env)) \<and> inv s'"
proof (cases "expireIfDue (ce_clock env) p (ce_later env) = p")
  case True
  then show ?thesis using assms by (auto simp: reg_confirm_def Let_def fun_eq_iff)
next
  case False
  then have "p_state (expireIfDue (ce_clock env) p (ce_later env)) = Expired"
    "p_version (expireIfDue (ce_clock env) p (ce_later env)) \<noteq> p_version p"
    by (auto simp: expireIfDue_def split: if_splits)
  then show ?thesis
    using run_write [OF assms(1,2) expireIfDue_successor [OF False]] assms(2,3)
    by (auto simp: reg_confirm_def Let_def)
qed

lemma run_reject:
  assumes "inv s" "so_get ops s i = Some p"
  shows "\<exists>s'. run ops (reg_reject env i) s = (s', reject (ce_clock env) p (ce_now env)) \<and> inv s' \<and>
    so_get ops s' = (case reject (ce_clock env) p (ce_now env) of
      Ok q \<Rightarrow> (so_get ops s)(i \<mapsto> q) | Err e \<Rightarrow> so_get ops s)"
proof (cases "reject (ce_clock env) p (ce_now env)")
  case (Ok q)
  then show ?thesis
    using run_write [OF assms operation_successor(2) [OF Ok]] assms by (auto simp: reg_reject_def)
qed (use assms in \<open>auto simp: reg_reject_def\<close>)

lemma run_execute:
  assumes "inv s" "so_get ops s i = Some p" "p_state p = Confirmed"
  shows "\<exists>s'. run ops (reg_execute rt env i) s =
      (s', Ok (applied (ce_clock env) p Executed (lit ''simulated execution '' @ execution_reference rt i) System))
    \<and> so_get ops s' = (so_get ops s)(i \<mapsto>
        applied (ce_clock env) p Executed (lit ''simulated execution '' @ execution_reference rt i) System)
    \<and> inv s'"
proof -
  have m: "markExecuted (ce_clock env) p (execution_reference rt i) =
      Ok (applied (ce_clock env) p Executed (lit ''simulated execution '' @ execution_reference rt i) System)"
    using assms(3) by (simp add: markExecuted_Ok_iff)
  have "p_id p = i" using assms get_id by blast
  with m run_write [OF assms(1,2) operation_successor(3) [OF m]] assms show ?thesis
    by (auto simp: reg_execute_def)
qed

lemma run_execute_refused:
  assumes "so_get ops s i = Some p" "p_state p \<noteq> Confirmed"
  shows "run ops (reg_execute rt env i) s =
    (s, err INVALID_STATE (lit ''cannot execute a proposal that is '' @ state_name (p_state p)))"
  using assms by (simp add: reg_execute_def)

lemma run_propose_invalid:
  assumes "validateMessageDraft rt (pi_payload input) = Err e"
  shows "run ops (reg_propose rt ttl env input) s = (s, Err e)"
  using assms by (simp add: reg_propose_def)

lemma run_propose_dedup:
  assumes "validateMessageDraft rt (pi_payload input) = Ok v" "js_trim (pi_idempotencyKey input) \<noteq> []"
    and "so_find ops s (pi_idempotencyKey input) = Some p"
  shows "run ops (reg_propose rt ttl env input) s =
    (s, Ok \<lparr>po_proposal = p, po_linkCode = [], po_deduplicated = True\<rparr>)"
  using assms by (simp add: reg_propose_def)

lemma run_propose_new:
  assumes "inv s" "validateMessageDraft rt (pi_payload input) = Ok v"
    and "js_trim (pi_idempotencyKey input) \<noteq> []" "so_find ops s (pi_idempotencyKey input) = None"
    and "ce_newId env \<noteq> []" "so_get ops s (ce_newId env) = None"
  shows "\<exists>s'. run ops (reg_propose rt ttl env input) s =
      (s', Ok \<lparr>po_proposal = new_proposal rt ttl env input v, po_linkCode = ce_newLinkCode env,
        po_deduplicated = False\<rparr>)
    \<and> so_get ops s' = (so_get ops s)(ce_newId env \<mapsto> new_proposal rt ttl env input v) \<and> inv s'"
proof -
  let ?p = "new_proposal rt ttl env input v"
  have id: "p_id ?p = ce_newId env" and key: "p_idempotencyKey ?p = pi_idempotencyKey input"
    by (simp_all add: new_proposal_def)
  obtain s' r where ins: "so_insert ops s ?p = (s', r)" by fastforce
  have "r = Ok ?p \<and> so_get ops s' = (so_get ops s)(ce_newId env \<mapsto> ?p) \<and> inv s'"
    using insert_spec [OF assms(1) _ ins] assms(4-6) by (simp add: id key)
  with ins assms(2-4) show ?thesis
    by (auto simp: reg_propose_def Let_def new_proposal_def [symmetric])
qed

end

end
