(* ===== verification/Snapshot.thy ===== *)
theory Snapshot
  imports Json "HOL-Library.Monad_Syntax"
begin

text \<open>
  Order snapshots for the agent, apps/action-gateway/src/agent/snapshot.ts, and what it uses of
  the platform: UTF-8, \<open>encodeURIComponent\<close> and indented \<open>JSON.stringify\<close>.

  The surroundings of a fetch are the record \<open>web\<close>: the environment variables, the response to
  a request, and \<open>Number(v)\<close> of a JSON value, \<open>None\<close> where it is not finite (amounts are whole
  numbers of base units). An exception that leaves a function is \<open>None\<close> of an outer option.
\<close>

subsection \<open>UTF-8\<close>

definition utf8_point :: "nat \<Rightarrow> nat list" where
  "utf8_point p =
     (if p < 128 then [p]
      else if p < 2048 then [192 + p div 64, 128 + p mod 64]
      else if p < 65536 then [224 + p div 4096, 128 + p div 64 mod 64, 128 + p mod 64]
      else [240 + p div 262144, 128 + p div 4096 mod 64, 128 + p div 64 mod 64, 128 + p mod 64])"

text \<open>The code points of a string of UTF-16 units; a lone surrogate is \<open>None\<close>.\<close>

fun code_points :: "ustr \<Rightarrow> nat option list" where
  "code_points [] = []"
| "code_points [c] = [if is_high c \<or> is_low c then None else Some c]"
| "code_points (c # d # cs) =
     (if is_high c \<and> is_low d
      then Some (65536 + (c - 55296) * 1024 + (d - 56320)) # code_points cs
      else (if is_high c \<or> is_low c then None else Some c) # code_points (d # cs))"

text \<open>\<open>Buffer.from(s)\<close>: a lone surrogate is replaced by U+FFFD.\<close>

definition utf8 :: "ustr \<Rightarrow> nat list" where
  "utf8 s = concat (map (\<lambda>p. case p of None \<Rightarrow> [239, 191, 189] | Some u \<Rightarrow> utf8_point u) (code_points s))"

definition upper_hex :: "nat \<Rightarrow> nat" where
  "upper_hex n = (if n < 10 then 48 + n else 55 + n)"

definition uri_plain :: "nat \<Rightarrow> bool" where
  "uri_plain c \<longleftrightarrow> is_digit c \<or> (65 \<le> c \<and> c \<le> 90) \<or> (97 \<le> c \<and> c \<le> 122)
     \<or> c \<in> set (lit ''-_.!~*()'') \<or> c = 39"

text \<open>\<open>encodeURIComponent\<close> throws on a lone surrogate.\<close>

definition encodeURIComponent :: "ustr \<Rightarrow> ustr option" where
  "encodeURIComponent s =
     (if None \<in> set (code_points s) then None
      else Some (concat (map (\<lambda>b. if b < 128 \<and> uri_plain b then [b]
        else [37, upper_hex (b div 16), upper_hex (b mod 16)]) (utf8 s))))"

subsection \<open>Indented JSON\<close>

definition spaces :: "nat \<Rightarrow> ustr" where
  "spaces n = replicate n 32"

text \<open>\<open>JSON.stringify(v, null, 2)\<close> at nesting \<open>n\<close>, for values without \<open>undefined\<close>.\<close>

fun json_pretty :: "nat \<Rightarrow> jval \<Rightarrow> ustr"
  and json_pretty_items :: "nat \<Rightarrow> jval list \<Rightarrow> ustr list"
  and json_pretty_entries :: "nat \<Rightarrow> (ustr \<times> jval) list \<Rightarrow> ustr list" where
  "json_pretty n JUndef = lit ''null''"
| "json_pretty n JNull = lit ''null''"
| "json_pretty n (JBool b) = (if b then lit ''true'' else lit ''false'')"
| "json_pretty n (JNum t) = t"
| "json_pretty n (JStr s) = json_quote s"
| "json_pretty n (JArr vs) =
     (if vs = [] then lit ''[]''
      else lit ''['' @ [10] @ join_with (lit '','' @ [10]) (json_pretty_items (n + 2) vs)
        @ [10] @ spaces n @ lit '']'')"
| "json_pretty n (JObj kvs) =
     (if kvs = [] then lit ''{}''
      else lit ''{'' @ [10] @ join_with (lit '','' @ [10]) (json_pretty_entries (n + 2) kvs)
        @ [10] @ spaces n @ lit ''}'')"
| "json_pretty_items n [] = []"
| "json_pretty_items n (v # vs) = (spaces n @ json_pretty n v) # json_pretty_items n vs"
| "json_pretty_entries n [] = []"
| "json_pretty_entries n ((k, v) # kvs) =
     (spaces n @ json_quote k @ lit '': '' @ json_pretty n v) # json_pretty_entries n kvs"

subsection \<open>The snapshot\<close>

record order_snapshot =
  os_merchantId :: ustr
  os_id :: ustr
  os_title :: ustr
  os_slug :: ustr
  os_status :: ustr
  os_expiresAt :: "ustr option"
  os_display :: ustr
  os_baseUnits :: "int option"

datatype http_result =
    Fetch_throws
  | Response nat "jval option"

record web =
  web_apiUrl :: "ustr option"
  web_poolSecret :: "ustr option"
  web_agentSecret :: "ustr option"
  web_fetch :: "ustr \<Rightarrow> ustr \<Rightarrow> http_result"
  web_number :: "jval \<Rightarrow> int option"

definition FIXTURE :: order_snapshot where
  "FIXTURE = \<lparr>os_merchantId = lit ''00000000-0000-4000-8000-000000000001'',
     os_id = lit ''ord_e2e_fixture'', os_title = lit ''Ceramic mug set'', os_slug = lit ''ceramic-mug-e2e'',
     os_status = lit ''AWAITING_PAYMENT'', os_expiresAt = Some (lit ''2030-01-01T00:00:00Z''),
     os_display = lit ''12.50'', os_baseUnits = Some 12500000\<rparr>"

definition trimmed_env :: "ustr option \<Rightarrow> ustr" where
  "trimmed_env v = (case v of None \<Rightarrow> [] | Some s \<Rightarrow> js_trim s)"

definition strip_slash :: "ustr \<Rightarrow> ustr" where
  "strip_slash s = (if s \<noteq> [] \<and> last s = 47 then butlast s else s)"

definition pooliApiBase :: "web \<Rightarrow> ustr option" where
  "pooliApiBase w =
     (let raw = trimmed_env (web_apiUrl w) in if raw = [] then None else Some (strip_slash raw))"

definition gatewaySecret :: "web \<Rightarrow> ustr option" where
  "gatewaySecret w =
     (let a = trimmed_env (web_poolSecret w); b = trimmed_env (web_agentSecret w)
      in if a \<noteq> [] then Some a else if b \<noteq> [] then Some b else None)"

text \<open>\<open>replace(/0+$/, '')\<close>.\<close>

definition strip_zeros :: "ustr \<Rightarrow> ustr" where
  "strip_zeros s = rev (dropWhile (\<lambda>c. c = 48) (rev s))"

definition pad_start :: "nat \<Rightarrow> nat \<Rightarrow> ustr \<Rightarrow> ustr" where
  "pad_start n c s = replicate (n - length s) c @ s"

definition formatUsdtDisplay :: "int option \<Rightarrow> ustr" where
  "formatUsdtDisplay baseUnits =
     (case baseUnits of None \<Rightarrow> lit ''0''
      | Some b \<Rightarrow>
          if b \<le> 0 then lit ''0''
          else let whole = b div 1000000;
                   frac = strip_zeros (pad_start 6 48 (dec_int (b mod 1000000)))
               in if frac \<noteq> [] then dec_int whole @ [46] @ frac else dec_int whole)"

fun truthy :: "jval \<Rightarrow> bool" where
  "truthy JUndef = False"
| "truthy JNull = False"
| "truthy (JBool b) = b"
| "truthy (JNum t) = (t \<noteq> lit ''0'' \<and> t \<noteq> lit ''NaN'')"
| "truthy (JStr s) = (s \<noteq> [])"
| "truthy _ = True"

definition nullish :: "jval \<Rightarrow> jval \<Rightarrow> jval" where
  "nullish a b = (if a = JUndef \<or> a = JNull then b else a)"

definition mapPooliApiSnapshot :: "web \<Rightarrow> jval \<Rightarrow> order_snapshot option option" where
  "mapPooliApiSnapshot w b = do {
     merchantId \<leftarrow> string_or (prop_of b (lit ''merchant_id'')) [];
     orderId \<leftarrow> string_or (prop_of b (lit ''order_id'')) [];
     slug \<leftarrow> string_or (prop_of b (lit ''slug'')) [];
     title \<leftarrow> string_or (prop_of b (lit ''title'')) [];
     let pay = prop_of b (lit ''payment'');
     status \<leftarrow> string_or (nullish (prop_of pay (lit ''status'')) (prop_of b (lit ''status''))) [];
     if merchantId = [] \<or> orderId = [] \<or> slug = [] then Some None
     else do {
       expiresAt \<leftarrow> (if truthy (prop_of pay (lit ''expires_at''))
         then map_option Some (js_to_string (prop_of pay (lit ''expires_at''))) else Some None);
       let baseUnits = web_number w (nullish (prop_of b (lit ''amount_usdt_base_units'')) (JNum (lit ''0'')));
       Some (Some \<lparr>os_merchantId = merchantId, os_id = orderId, os_title = title, os_slug = slug,
         os_status = status, os_expiresAt = expiresAt, os_display = formatUsdtDisplay baseUnits,
         os_baseUnits = baseUnits\<rparr>)
     }
   }"

definition snapshot_url :: "ustr \<Rightarrow> ustr \<Rightarrow> ustr" where
  "snapshot_url base encodedId = base @ lit ''/api/v1/agent/orders/'' @ encodedId @ lit ''/snapshot''"

definition fetchSnapshotFromApi :: "web \<Rightarrow> ustr \<Rightarrow> order_snapshot option option" where
  "fetchSnapshotFromApi w orderId =
     (case (pooliApiBase w, gatewaySecret w) of
        (Some base, Some secret) \<Rightarrow>
          (case encodeURIComponent orderId of None \<Rightarrow> None
           | Some e \<Rightarrow>
               (case web_fetch w (snapshot_url base e) secret of
                  Fetch_throws \<Rightarrow> Some None
                | Response status b \<Rightarrow>
                    if status = 404 then Some None
                    else if \<not> (200 \<le> status \<and> status \<le> 299) then Some None
                    else (case b of None \<Rightarrow> Some None
                      | Some v \<Rightarrow> (case mapPooliApiSnapshot w v of None \<Rightarrow> Some None | Some s \<Rightarrow> Some s))))
      | _ \<Rightarrow> Some None)"

definition fetchOrderSnapshot :: "web \<Rightarrow> ustr \<Rightarrow> order_snapshot option option" where
  "fetchOrderSnapshot w orderId =
     (let i = js_trim orderId
      in if i = [] then Some None
         else (case fetchSnapshotFromApi w i of
           None \<Rightarrow> None
         | Some (Some s) \<Rightarrow> Some (Some s)
         | Some None \<Rightarrow>
             if pooliApiBase w = None \<and> i = os_id FIXTURE then Some (Some FIXTURE) else Some None))"

definition fixtureOrderId :: ustr where
  "fixtureOrderId = os_id FIXTURE"

definition fixtureSnapshot :: order_snapshot where
  "fixtureSnapshot = FIXTURE"

text \<open>The snapshot as a JSON value, in the order of the object literal.\<close>

definition order_json :: "order_snapshot \<Rightarrow> jval" where
  "order_json s = JObj [(lit ''id'', JStr (os_id s)), (lit ''title'', JStr (os_title s)),
     (lit ''slug'', JStr (os_slug s))]"

definition payment_json :: "order_snapshot \<Rightarrow> jval" where
  "payment_json s = JObj [(lit ''status'', JStr (os_status s)),
     (lit ''expiresAt'', case os_expiresAt s of None \<Rightarrow> JNull | Some e \<Rightarrow> JStr e)]"

definition amount_json :: "order_snapshot \<Rightarrow> jval" where
  "amount_json s = JObj [(lit ''display'', JStr (os_display s)),
     (lit ''baseUnits'', case os_baseUnits s of None \<Rightarrow> JNull | Some n \<Rightarrow> JNum (dec_int n))]"

definition snapshot_json :: "order_snapshot \<Rightarrow> jval" where
  "snapshot_json s = JObj [(lit ''schemaVersion'', JNum (lit ''1'')),
     (lit ''merchantId'', JStr (os_merchantId s)), (lit ''order'', order_json s),
     (lit ''payment'', payment_json s), (lit ''amountUsdt'', amount_json s)]"

subsection \<open>Where a snapshot comes from\<close>

lemma mapPooliApiSnapshot_scope:
  "mapPooliApiSnapshot w b = Some (Some s) \<Longrightarrow> os_merchantId s \<noteq> [] \<and> os_id s \<noteq> [] \<and> os_slug s \<noteq> []"
  by (auto simp: mapPooliApiSnapshot_def Let_def bind_eq_Some_conv split: if_splits)

lemma fetchSnapshotFromApi_scope:
  "fetchSnapshotFromApi w i = Some (Some s) \<Longrightarrow> os_merchantId s \<noteq> [] \<and> os_id s \<noteq> [] \<and> os_slug s \<noteq> []"
  by (auto simp: fetchSnapshotFromApi_def mapPooliApiSnapshot_scope split: option.splits http_result.splits if_splits)

text \<open>A snapshot has a merchant, an order and a slug; the fixture is served only where no API is
  configured, and for its own id.\<close>

lemma fetchOrderSnapshot_source:
  assumes "fetchOrderSnapshot w i = Some (Some s)"
  shows "os_merchantId s \<noteq> [] \<and> os_id s \<noteq> [] \<and> os_slug s \<noteq> [] \<and>
    (fetchSnapshotFromApi w (js_trim i) = Some (Some s) \<or>
     s = FIXTURE \<and> pooliApiBase w = None \<and> js_trim i = os_id FIXTURE)"
  using assms fetchSnapshotFromApi_scope [of w "js_trim i" s]
  by (auto simp: fetchOrderSnapshot_def Let_def FIXTURE_def split: if_splits option.splits)

end
