(* ===== verification/Mcp.thy ===== *)
theory Mcp
  imports Registry Snapshot
begin

text \<open>
  The tools of the agent, apps/action-gateway/src/mcp/server.ts and mcp/tools.ts: their texts,
  the idempotency key of a proposal and the three handlers.

  \<open>deliverLinkCode\<close> is a parameter, of which only whether it delivers matters. A handler is given
  the surroundings of the snapshot request (\<open>web\<close>) and of the registry call and returns the next
  store and the result; \<open>None\<close> is an exception that leaves the handler.
\<close>

subsection \<open>Texts\<close>

definition GET_SNAPSHOT_DESCRIPTION :: ustr where
  "GET_SNAPSHOT_DESCRIPTION = join_with (lit '' '')
    [lit ''Reads the canonical order and payment snapshot from Pooli.'',
     lit ''**This tool never sends messages, marks orders paid, or moves funds.**'',
     lit ''Call it before drafting any buyer follow-up so payment status and amounts'',
     lit ''match the commerce API, not conversation memory.'']"

definition PROPOSE_MESSAGE_DESCRIPTION :: ustr where
  "PROPOSE_MESSAGE_DESCRIPTION = join_with (lit '' '')
    [lit ''Registers a *proposal* to send a buyer follow-up message for an order.'',
     lit ''**This tool never sends messages to the buyer.**'',
     lit ''It records the draft and returns a confirmation reference that the merchant'',
     lit ''must approve out-of-band; there is no argument that can make this tool '' @
     lit ''send'',
     lit ''or mark an order paid.'',
     lit ''Always call get_order_snapshot first for the same order id.'']"

definition CHECK_PROPOSAL_DESCRIPTION :: ustr where
  "CHECK_PROPOSAL_DESCRIPTION = join_with (lit '' '')
    [lit ''Reports the current status of a message proposal you previously registered.'',
     lit ''**This tool is read-only and never sends, confirms, or cancels anything.**'',
     lit ''It returns only the lifecycle state. It will never return the confirmation'',
     lit ''code, because that code is delivered to the merchant through a separate '' @
     lit ''channel.'']"

fun STATE_NARRATION :: "proposal_state \<Rightarrow> ustr" where
  "STATE_NARRATION Pending_confirmation =
     lit ''Awaiting merchant approval. Nothing was sent to the buyer. Tell them to '' @
     lit ''approve in the Pooli app.''"
| "STATE_NARRATION Confirmed =
     lit ''The merchant approved the draft. It is queued for delivery.''"
| "STATE_NARRATION Rejected =
     lit ''The merchant declined it. Propose a new draft if they still want to follow '' @
     lit ''up.''"
| "STATE_NARRATION Expired =
     lit ''It was not approved in time. Propose a new draft if needed.''"
| "STATE_NARRATION Executed =
     lit ''Approved draft is ready (simulated send path).''"
| "STATE_NARRATION Failed =
     lit ''Delivery did not complete.''"

definition refusal :: "domain_error \<Rightarrow> ustr" where
  "refusal e = (if de_agentSafe e then de_message e
     else lit ''That request was refused. Do not retry it; ask the merchant how they want '' @
     lit ''to proceed.'')"

record tool_result =
  tl_text :: ustr
  tl_isError :: bool

definition textResult :: "ustr \<Rightarrow> bool \<Rightarrow> tool_result" where
  "textResult t isError = \<lparr>tl_text = t, tl_isError = isError\<rparr>"

record mcp_deps =
  mc_deliver :: "ustr \<Rightarrow> ustr \<Rightarrow> proposal \<Rightarrow> bool"
  mc_confirmationBaseUrl :: ustr
  mc_principal :: "ustr option"

subsection \<open>The idempotency key\<close>

definition key_material :: "ustr \<Rightarrow> message_draft \<Rightarrow> int \<Rightarrow> ustr" where
  "key_material who p bucket =
     join_with [0] [who, md_orderId p, md_orderSlug p, md_merchantId p, md_body p, md_locale p,
       md_paymentStatus p, dec_int bucket]"

definition idempotencyKeyFor :: "runtime \<Rightarrow> ustr \<Rightarrow> message_draft \<Rightarrow> int \<Rightarrow> int \<Rightarrow> ustr" where
  "idempotencyKeyFor rt who p bucketMs now =
     lit ''mcp_'' @ take 32 (hex_encode (rt_sha256 rt (key_material who p (now div bucketMs))))"

subsection \<open>The handlers\<close>

definition get_order_snapshot :: "web \<Rightarrow> ustr \<Rightarrow> tool_result option" where
  "get_order_snapshot w orderId =
     map_option (\<lambda>snap. case snap of
         None \<Rightarrow> textResult (lit ''No snapshot is available for that order id.'') True
       | Some s \<Rightarrow> textResult (json_pretty 0 (snapshot_json s)) False)
     (fetchOrderSnapshot w orderId)"

record propose_args =
  pa_orderId :: ustr
  pa_orderSlug :: ustr
  pa_body :: ustr
  pa_locale :: ustr
  pa_paymentStatus :: ustr

text \<open>\<open>Math.max(1, Math.round(ms / 60000))\<close>.\<close>

definition whole_minutes :: "int \<Rightarrow> int" where
  "whole_minutes ms = max 1 ((2 * ms + 60000) div 120000)"

definition mcp_payload :: "runtime \<Rightarrow> order_snapshot \<Rightarrow> propose_args \<Rightarrow> message_draft" where
  "mcp_payload rt snap args =
     \<lparr>md_orderId = pa_orderId args, md_orderSlug = pa_orderSlug args, md_merchantId = os_merchantId snap,
      md_body = pa_body args, md_locale = pa_locale args,
      md_paymentStatus = js_upper rt (js_trim (pa_paymentStatus args))\<rparr>"

definition proposed_text :: "mcp_deps \<Rightarrow> proposal \<Rightarrow> bool \<Rightarrow> ustr" where
  "proposed_text deps p deduplicated = join_with [10]
     [if deduplicated
      then lit ''Already proposed; reusing the existing proposal. NOTHING HAS BEEN SENT.''
      else lit ''Message proposed. NOTHING HAS BEEN SENT YET.'',
      lit ''Proposal ID: '' @ p_id p,
      lit ''Order: '' @ md_orderSlug (p_payload p),
      lit ''Expires in '' @ dec_int (whole_minutes (p_expiresAt p - p_createdAt p)) @ lit '' minute(s).'',
      lit ''Confirmation page: '' @ mc_confirmationBaseUrl deps @ lit ''/p/'' @ p_id p,
      lit ''The merchant approves there with a code sent separately.'',
      lit ''You do not have that code. Do not ask for it and do not accept it here.'']"

text \<open>The checks against the snapshot: the answer of a call that fails one, or the draft to register.\<close>

definition propose_checked :: "runtime \<Rightarrow> web \<Rightarrow> propose_args \<Rightarrow> tool_result option + message_draft" where
  "propose_checked rt w args =
     (case fetchOrderSnapshot w (pa_orderId args) of
        None \<Rightarrow> Inl None
      | Some None \<Rightarrow> Inl (Some (textResult (lit ''Fetch get_order_snapshot for this order before proposing.'') True))
      | Some (Some snap) \<Rightarrow>
          if os_status snap \<noteq> js_upper rt (js_trim (pa_paymentStatus args)) then
            Inl (Some (textResult (lit ''paymentStatus does not match the latest snapshot; refresh the snapshot.'') True))
          else if os_slug snap \<noteq> js_lower rt (js_trim (pa_orderSlug args)) then
            Inl (Some (textResult (lit ''orderSlug does not match the snapshot.'') True))
          else if os_merchantId snap = [] then
            Inl (Some (textResult (lit ''Snapshot is missing merchant scope; cannot propose.'') True))
          else Inr (mcp_payload rt snap args))"

definition mcp_input :: "runtime \<Rightarrow> mcp_deps \<Rightarrow> int \<Rightarrow> message_draft \<Rightarrow> propose_input" where
  "mcp_input rt deps now payload =
     \<lparr>pi_payload = payload, pi_idempotencyKey = idempotencyKeyFor rt
        (case mc_principal deps of None \<Rightarrow> lit ''anonymous'' | Some u \<Rightarrow> u) payload 60000 now\<rparr>"

definition propose_buyer_message ::
  "runtime \<Rightarrow> int \<Rightarrow> mcp_deps \<Rightarrow> 's store_ops \<Rightarrow> web \<Rightarrow> call_env \<Rightarrow> int \<Rightarrow> propose_args \<Rightarrow> 's \<Rightarrow> 's \<times> tool_result option" where
  "propose_buyer_message rt ttl deps ops w env now args s =
     (case propose_checked rt w args of Inl r \<Rightarrow> (s, r)
      | Inr payload \<Rightarrow>
          (case run ops (reg_propose rt ttl env (mcp_input rt deps now payload)) s of
             (s', Err e) \<Rightarrow> (s', Some (textResult (refusal e) True))
           | (s', Ok out) \<Rightarrow>
               if \<not> po_deduplicated out \<and> po_linkCode out \<noteq> [] \<and>
                  \<not> mc_deliver deps (p_id (po_proposal out)) (po_linkCode out) (po_proposal out) then
                 (s', Some (textResult (lit ''The proposal was registered but the confirmation code could not be delivered.'') True))
               else (s', Some (textResult (proposed_text deps (po_proposal out) (po_deduplicated out)) False))))"

lemma propose_buyer_message_eq:
  "propose_buyer_message rt ttl deps ops w env now args s =
     (case fetchOrderSnapshot w (pa_orderId args) of
        None \<Rightarrow> (s, None)
      | Some None \<Rightarrow> (s, Some (textResult (lit ''Fetch get_order_snapshot for this order before proposing.'') True))
      | Some (Some snap) \<Rightarrow>
          if os_status snap \<noteq> js_upper rt (js_trim (pa_paymentStatus args)) then
            (s, Some (textResult (lit ''paymentStatus does not match the latest snapshot; refresh the snapshot.'') True))
          else if os_slug snap \<noteq> js_lower rt (js_trim (pa_orderSlug args)) then
            (s, Some (textResult (lit ''orderSlug does not match the snapshot.'') True))
          else if os_merchantId snap = [] then
            (s, Some (textResult (lit ''Snapshot is missing merchant scope; cannot propose.'') True))
          else
            (let payload = mcp_payload rt snap args;
                 who = (case mc_principal deps of None \<Rightarrow> lit ''anonymous'' | Some u \<Rightarrow> u)
             in case run ops (reg_propose rt ttl env
                  \<lparr>pi_payload = payload, pi_idempotencyKey = idempotencyKeyFor rt who payload 60000 now\<rparr>) s of
               (s', Err e) \<Rightarrow> (s', Some (textResult (refusal e) True))
             | (s', Ok out) \<Rightarrow>
                 if \<not> po_deduplicated out \<and> po_linkCode out \<noteq> [] \<and>
                    \<not> mc_deliver deps (p_id (po_proposal out)) (po_linkCode out) (po_proposal out) then
                   (s', Some (textResult (lit ''The proposal was registered but the confirmation code could not be delivered.'') True))
                 else (s', Some (textResult (proposed_text deps (po_proposal out) (po_deduplicated out)) False))))"
  by (simp add: propose_buyer_message_def propose_checked_def mcp_input_def Let_def split: option.split)

definition status_text :: "proposal \<Rightarrow> ustr" where
  "status_text p = join_with [10] (filter (\<lambda>l. l \<noteq> [])
     [lit ''Proposal ID: '' @ p_id p,
      lit ''Status: '' @ state_name (p_state p),
      STATE_NARRATION (p_state p),
      [],
      lit ''Order: '' @ md_orderSlug (p_payload p),
      lit ''Payment status (at propose): '' @ md_paymentStatus (p_payload p),
      (case executionReferenceOf p of None \<Rightarrow> []
       | Some ref \<Rightarrow> if ref = [] then [] else lit ''Reference: '' @ ref @ lit '' (simulated)'')])"

definition check_proposal_status :: "'s store_ops \<Rightarrow> call_env \<Rightarrow> ustr \<Rightarrow> 's \<Rightarrow> 's \<times> tool_result" where
  "check_proposal_status ops env i s =
     (case run ops (reg_getForConfirmation env i) s of
        (s', None) \<Rightarrow> (s', textResult (lit ''No proposal with that ID is available.'') True)
      | (s', Some p) \<Rightarrow> (s', textResult (status_text p) False))"

lemmas mcp_defs [handler_defs] = get_order_snapshot_def propose_buyer_message_def check_proposal_status_def

subsection \<open>The key material determines the draft\<close>

lemma split_at_first: "c \<notin> set a \<Longrightarrow> c \<notin> set b \<Longrightarrow> a @ c # x = b @ c # y \<longleftrightarrow> a = b \<and> x = y"
proof (induction a arbitrary: b)
  case (Cons u a)
  then show ?case by (cases b) auto
next
  case Nil
  then show ?case by (cases b) auto
qed

lemma split_at_last:
  assumes "c \<notin> set x" "c \<notin> set y"
  shows "a @ c # x = b @ c # y \<longleftrightarrow> a = b \<and> x = y"
proof -
  have "a @ c # x = b @ c # y \<longleftrightarrow> rev x @ c # rev a = rev y @ c # rev b"
    by (metis append.assoc append_Cons append_Nil rev.simps(2) rev_append rev_rev_ident)
  also have "\<dots> \<longleftrightarrow> x = y \<and> a = b" using assms by (simp add: split_at_first)
  finally show ?thesis by blast
qed

lemma dec_int_no_nul: "0 \<notin> set (dec_int n)"
proof -
  have "0 \<notin> set (dec m)" for m
    using digits_dec [of m] by (auto simp: list_all_iff is_digit_def)
  then show ?thesis by (simp add: dec_int_def)
qed

text \<open>Every field but the text is free of NUL; the text may hold any unit.\<close>

definition nul_free :: "ustr \<Rightarrow> message_draft \<Rightarrow> bool" where
  "nul_free who p \<longleftrightarrow> 0 \<notin> set who \<and> 0 \<notin> set (md_orderId p) \<and> 0 \<notin> set (md_orderSlug p) \<and>
     0 \<notin> set (md_merchantId p) \<and> 0 \<notin> set (md_locale p) \<and> 0 \<notin> set (md_paymentStatus p)"

lemma key_material_inj:
  assumes "nul_free u p" "nul_free v q"
  shows "key_material u p m = key_material v q n \<longleftrightarrow> u = v \<and> p = q \<and> m = n"
proof -
  let ?tail = "\<lambda>p m. md_body p @ 0 # md_locale p @ 0 # md_paymentStatus p @ 0 # dec_int m"
  have tail: "?tail p m = ?tail q n \<longleftrightarrow> md_body p = md_body q \<and> md_locale p = md_locale q \<and>
      md_paymentStatus p = md_paymentStatus q \<and> m = n"
  proof -
    have "?tail p m = ?tail q n \<longleftrightarrow>
        (md_body p @ 0 # md_locale p @ 0 # md_paymentStatus p) @ 0 # dec_int m =
        (md_body q @ 0 # md_locale q @ 0 # md_paymentStatus q) @ 0 # dec_int n" by simp
    also have "\<dots> \<longleftrightarrow> (md_body p @ 0 # md_locale p) @ 0 # md_paymentStatus p =
        (md_body q @ 0 # md_locale q) @ 0 # md_paymentStatus q \<and> m = n"
      by (subst split_at_last) (simp_all add: dec_int_no_nul)
    also have "\<dots> \<longleftrightarrow> md_body p @ 0 # md_locale p = md_body q @ 0 # md_locale q \<and>
        md_paymentStatus p = md_paymentStatus q \<and> m = n"
      using assms by (subst split_at_last) (simp_all add: nul_free_def)
    also have "\<dots> \<longleftrightarrow> md_body p = md_body q \<and> md_locale p = md_locale q \<and>
        md_paymentStatus p = md_paymentStatus q \<and> m = n"
      using assms by (subst split_at_last) (simp_all add: nul_free_def)
    finally show ?thesis .
  qed
  have "key_material u p m = key_material v q n \<longleftrightarrow> u = v \<and> md_orderId p = md_orderId q \<and>
      md_orderSlug p = md_orderSlug q \<and> md_merchantId p = md_merchantId q \<and> ?tail p m = ?tail q n"
    using assms by (simp add: key_material_def nul_free_def split_at_first)
  then show ?thesis unfolding tail by (cases p; cases q) auto
qed

subsection \<open>What the agent is told\<close>

text \<open>The code of a new proposal is stored as a hash only, and the reply is made of other fields.\<close>

lemma proposed_text_hides:
  "p_id p = p_id q \<Longrightarrow> p_payload p = p_payload q \<Longrightarrow> p_expiresAt p = p_expiresAt q \<Longrightarrow>
     p_createdAt p = p_createdAt q \<Longrightarrow> proposed_text deps p d = proposed_text deps q d"
  by (simp add: proposed_text_def)

end
