(* ===== verification/ConfirmationPage.thy ===== *)
theory ConfirmationPage
  imports StateMachine
begin

text \<open>
  The confirmation page, apps/action-gateway/src/http/confirmation-page.ts: every text of the
  page, the escaping of what is put into it and the two renderers. The local form of a date
  (\<open>toLocaleString\<close>) depends on the host and is the parameter \<open>localDate\<close>.

  The lemmas show that escaping is injective and emits no markup character, so that the markup
  of a page depends on the state of the proposal alone and not on any text of the draft.
\<close>

record state_copy =
  sc_label :: ustr
  sc_tone :: ustr
  sc_detail :: ustr

fun STATE_COPY :: "proposal_state \<Rightarrow> state_copy" where
  "STATE_COPY Pending_confirmation = \<lparr>sc_label = lit ''Awaiting your approval'',
     sc_tone = lit ''pending'',
     sc_detail = lit ''Nothing has been sent to the buyer. Review the draft below carefully.''\<rparr>"
| "STATE_COPY Confirmed = \<lparr>sc_label = lit ''Approved'',
     sc_tone = lit ''ok'',
     sc_detail = lit ''You approved this draft.''\<rparr>"
| "STATE_COPY Executed = \<lparr>sc_label = lit ''Ready to send'',
     sc_tone = lit ''ok'',
     sc_detail = lit ''This is a demonstration system. Copy the approved text from Pooli when '' @
     lit ''wired to production.''\<rparr>"
| "STATE_COPY Rejected = \<lparr>sc_label = lit ''Declined'',
     sc_tone = lit ''bad'',
     sc_detail = lit ''You declined this draft. Nothing was sent.''\<rparr>"
| "STATE_COPY Expired = \<lparr>sc_label = lit ''Expired'',
     sc_tone = lit ''bad'',
     sc_detail = lit ''This proposal was not approved in time. Ask the agent for a new draft.''\<rparr>"
| "STATE_COPY Failed = \<lparr>sc_label = lit ''Failed'',
     sc_tone = lit ''bad'',
     sc_detail = lit ''Delivery did not complete.''\<rparr>"

subsection \<open>Escaping\<close>

definition esc_unit :: "nat \<Rightarrow> ustr" where
  "esc_unit c =
     (if c = 38 then lit ''&amp;'' else if c = 60 then lit ''&lt;'' else if c = 62 then lit ''&gt;''
      else if c = 34 then lit ''&quot;'' else if c = 39 then lit ''&#39;'' else [c])"

definition esc :: "ustr \<Rightarrow> ustr" where
  "esc s = concat (map esc_unit s)"

subsection \<open>The page\<close>

definition STYLE :: ustr where
  "STYLE = [10] @ concat (map (\<lambda>l. l @ [10])
     [
lit ''  :root { color-scheme: light dark; }'',
     lit ''  * { box-sizing: border-box; }'',
     lit ''  body { margin:0; padding:2rem 1rem; font:16px/1.5 system-ui,-apple-system,Segoe '' @
     lit ''UI,sans-serif;'',
     lit ''         background:#f4f5f7; color:#111; display:flex; justify-content:center; '' @
     lit ''}'',
     lit ''  @media (prefers-color-scheme: dark) { body { background:#15171a; color:#e8e8ea; '' @
     lit ''} }'',
     lit ''  .card { width:100%; max-width:26rem; background:#fff; border-radius:14px; '' @
     lit ''padding:1.5rem;'',
     lit ''          box-shadow:0 1px 3px rgba(0,0,0,.12),0 8px 24px rgba(0,0,0,.08); '' @
     lit ''}'',
     lit ''  @media (prefers-color-scheme: dark) { .card { background:#1e2126; } }'',
     lit ''  h1 { font-size:1.15rem; margin:0 0 .25rem; }'',
     lit ''  .sub { color:#666; font-size:.875rem; margin:0 0 1.25rem; }'',
     lit ''  @media (prefers-color-scheme: dark) { .sub { color:#9aa0a6; } }'',
     lit ''  .draft { white-space:pre-wrap; font-size:.95rem; padding:1rem; background:#f8f9fb; '' @
     lit ''border-radius:10px;'',
     lit ''           margin:.75rem 0 1rem; border:1px solid #e2e5ea; }'',
     lit ''  @media (prefers-color-scheme: dark) { .draft { background:#12151a; border-color:#2a2f38; '' @
     lit ''} }'',
     lit ''  dl { margin:0 0 1.25rem; display:grid; grid-template-columns:auto 1fr; '' @
     lit ''gap:.5rem 1rem; font-size:.9rem; }'',
     lit ''  dt { color:#666; } dd { margin:0; text-align:right; word-break:break-all; '' @
     lit ''}'',
     lit ''  @media (prefers-color-scheme: dark) { dt { color:#9aa0a6; } }'',
     lit ''  .badge { display:inline-block; padding:.2rem .6rem; border-radius:999px; '' @
     lit ''font-size:.75rem; font-weight:600; }'',
     lit ''  .pending { background:#fff4d6; color:#7a5200; }'',
     lit ''  .ok { background:#d8f5e0; color:#0f5132; }'',
     lit ''  .bad { background:#fadbd8; color:#7a1c12; }'',
     lit ''  label { display:block; font-size:.85rem; font-weight:600; margin:1rem '' @
     lit ''0 .35rem; }'',
     lit ''  input { width:100%; padding:.7rem; font-size:1.35rem; letter-spacing:.35em; '' @
     lit ''text-align:center;'',
     lit ''          text-transform:uppercase; border:1px solid #ccc; border-radius:8px; '' @
     lit ''background:transparent;'',
     lit ''          color:inherit; font-family:ui-monospace,SFMono-Regular,Menlo,monospace; '' @
     lit ''}'',
     lit ''  .row { display:flex; gap:.6rem; margin-top:1rem; }'',
     lit ''  button { flex:1; padding:.75rem; font-size:.95rem; font-weight:600; border-radius:8px;'',
     lit ''           border:1px solid transparent; cursor:pointer; }'',
     lit ''  .approve { background:#0a7d3c; color:#fff; }'',
     lit ''  .decline { background:transparent; border-color:#ccc; color:inherit; '' @ lit ''}'',
     lit ''  .warn { margin-top:1.25rem; padding:.7rem .8rem; border-left:3px solid '' @
     lit ''#d9a406;'',
     lit ''          background:#fffaf0; font-size:.8rem; color:#5a4300; border-radius:0 '' @
     lit ''6px 6px 0; }'',
     lit ''  @media (prefers-color-scheme: dark) { .warn { background:#2a2418; color:#e0c98a; '' @
     lit ''} }'',
     lit ''  .err { margin-top:1rem; padding:.7rem .8rem; background:#fadbd8; color:#7a1c12;'',
     lit ''         border-radius:8px; font-size:.85rem; }''])"

definition shell :: "ustr \<Rightarrow> ustr \<Rightarrow> ustr" where
  "shell title page_body =
     lit ''<!doctype html>'' @ [10] @ lit ''<html lang=\"en\"><head>'' @ [10] @
     lit ''<meta charset=\"utf-8\">'' @ [10] @
     lit ''<meta name=\"viewport\" content=\"width=device-width,initial-scale=1\">'' @ [10] @
     lit ''<meta name=\"robots\" content=\"noindex,nofollow\">'' @ [10] @ lit ''<title>'' @
     esc title @
     lit ''</title>'' @ [10] @ lit ''<style>'' @
     STYLE @
     lit ''</style>'' @ [10] @ lit ''</head><body><main class=\"card\">'' @
     page_body @
     lit ''</main></body></html>''"

definition renderNotFound :: ustr where
  "renderNotFound = shell (lit ''Not found'')
    (lit ''<h1>Request not found</h1>'' @ [10] @
     lit ''     <p class=\"sub\">This confirmation link is not valid, or it has already '' @
     lit ''been cleaned up.</p>'')"

definition page_details :: "(int \<Rightarrow> ustr) \<Rightarrow> proposal \<Rightarrow> ustr" where
  "page_details localDate p =
     [10] @ lit ''    <dl>'' @ [10] @ lit ''      <dt>Order</dt><dd>'' @
     esc (md_orderSlug (p_payload p)) @
     lit ''</dd>'' @ [10] @ lit ''      <dt>Payment</dt><dd>'' @
     esc (md_paymentStatus (p_payload p)) @
     lit ''</dd>'' @ [10] @ lit ''      <dt>Locale</dt><dd>'' @
     esc (md_locale (p_payload p)) @
     lit ''</dd>'' @ [10] @ lit ''      <dt>Requested</dt><dd>'' @
     esc (localDate (p_createdAt p)) @
     lit ''</dd>'' @ [10] @ lit ''      '' @
     (case executionReferenceOf p of None \<Rightarrow> []
      | Some ref \<Rightarrow> if ref = [] then [] else lit ''<dt>Reference no.</dt><dd>'' @ esc ref @ lit ''</dd>'') @
     [10] @ lit ''    </dl>''"

definition page_form :: "proposal \<Rightarrow> ustr" where
  "page_form p = (if p_state p = Pending_confirmation then
     lit ''<form method=\"post\" action=\"/p/'' @
     esc (p_id p) @
     lit ''/confirm\">'' @ [10] @
     lit ''         <input type=\"hidden\" name=\"payloadDigest\" value=\"'' @
     esc (p_payloadDigest p) @
     lit ''\">'' @ [10] @
     lit ''         <label for=\"code\">Enter the 6-character code sent to you</label>'' @
     [10] @
     lit ''         <input id=\"code\" name=\"linkCode\" maxlength=\"6\" autocomplete=\"one-time-code\"'' @
     [10] @
     lit ''                inputmode=\"latin\" autocapitalize=\"characters\" required '' @
     lit ''autofocus>'' @ [10] @ lit ''         <div class=\"row\">'' @ [10] @
     lit ''           <button class=\"approve\" type=\"submit\">Approve draft</button>'' @
     [10] @ lit ''           <button class=\"decline\" type=\"submit\" formaction=\"/p/'' @
     esc (p_id p) @
     lit ''/reject\">Decline</button>'' @ [10] @ lit ''         </div>'' @ [10] @
     lit ''       </form>'' @ [10] @
     lit ''       <p class=\"warn\">Only approve if this draft matches what you want '' @
     lit ''to send.'' @ [10] @ lit ''          Payment status is '' @
     esc (md_paymentStatus (p_payload p)) @
     lit '' '' @ [8212] @ lit '' do not approve a draft that claims otherwise.</p>''
     else [])"

text \<open>The error is the empty string where the source leaves it out; both are false.\<close>

definition renderProposal :: "(int \<Rightarrow> ustr) \<Rightarrow> proposal \<Rightarrow> ustr \<Rightarrow> ustr" where
  "renderProposal localDate p shown_error = shell (lit ''Confirm buyer message'')
    (lit ''<h1>Confirm buyer message</h1>'' @ [10] @
     lit ''     <p class=\"sub\"><span class=\"badge '' @
     sc_tone (STATE_COPY (p_state p)) @
     lit ''\">'' @
     esc (sc_label (STATE_COPY (p_state p))) @
     lit ''</span></p>'' @ [10] @ lit ''     <p class=\"sub\">'' @
     esc (sc_detail (STATE_COPY (p_state p))) @
     lit ''</p>'' @ [10] @ lit ''     <div class=\"draft\">'' @
     esc (md_body (p_payload p)) @
     lit ''</div>'' @ [10] @ lit ''     '' @
     page_details localDate p @
     [10] @ lit ''     '' @
     (if shown_error = [] then [] else lit ''<div class=\"err\">'' @ esc shown_error @ lit ''</div>'') @
     [10] @ lit ''     '' @
     page_form p)"

subsection \<open>Escaped text carries no markup\<close>

definition markup_unit :: "nat \<Rightarrow> bool" where
  "markup_unit c \<longleftrightarrow> c = 60 \<or> c = 62 \<or> c = 34 \<or> c = 39"

definition markup :: "ustr \<Rightarrow> ustr" where
  "markup s = filter markup_unit s"

lemma markup_append [simp]: "markup (a @ b) = markup a @ markup b"
  by (simp add: markup_def)

lemma markup_Nil [simp]: "markup [] = []"
  by (simp add: markup_def)

lemma markup_esc_unit: "markup (esc_unit c) = []"
  by (simp add: esc_unit_def markup_def markup_unit_def lit_def)

lemma markup_esc [simp]: "markup (esc s) = []"
  by (induction s) (simp_all add: esc_def markup_esc_unit)

lemma esc_unit_ne: "esc_unit c \<noteq> []"
  by (simp add: esc_unit_def)

text \<open>A reader of the five entities, which shows that escaping loses nothing.\<close>

fun unesc :: "ustr \<Rightarrow> ustr" where
  "unesc [] = []"
| "unesc (c # cs) =
     (if c \<noteq> 38 then c # unesc cs
      else if take 4 cs = lit ''amp;'' then 38 # unesc (drop 4 cs)
      else if take 3 cs = lit ''lt;'' then 60 # unesc (drop 3 cs)
      else if take 3 cs = lit ''gt;'' then 62 # unesc (drop 3 cs)
      else if take 5 cs = lit ''quot;'' then 34 # unesc (drop 5 cs)
      else 39 # unesc (drop 4 cs))"

lemma unesc_esc_unit: "unesc (esc_unit c @ s) = c # unesc s"
  by (simp add: esc_unit_def lit_def)

lemma unesc_esc [simp]: "unesc (esc s) = s"
  by (induction s) (simp_all add: esc_def unesc_esc_unit)

interpretation escaped: codec esc "\<lambda>s. Some (unesc s)" "\<lambda>_. True"
  by unfold_locales simp

lemma esc_inj: "esc s = esc t \<longleftrightarrow> s = t"
  by (rule escaped.enc_eq_iff) simp_all

lemma markup_details: "(executionReferenceOf p = None) = (executionReferenceOf q = None) \<Longrightarrow>
    executionReferenceOf p \<noteq> Some [] \<Longrightarrow> executionReferenceOf q \<noteq> Some [] \<Longrightarrow>
    markup (page_details d p) = markup (page_details d' q)"
  unfolding page_details_def markup_append markup_esc
  by (cases "executionReferenceOf p"; cases "executionReferenceOf q") simp_all

lemma markup_form:
  assumes "p_state p = p_state q"
  shows "markup (page_form p) = markup (page_form q)"
  unfolding page_form_def assms
  by (cases "p_state q = Pending_confirmation") (simp_all only: simp_thms if_True if_False markup_append markup_esc)

lemma markup_shell: "markup a = markup b \<Longrightarrow> markup (shell t a) = markup (shell t b)"
  unfolding shell_def markup_append by simp

lemma reference_in_ne: "reference_in s \<noteq> Some []"
  by (induction s) (simp_all add: Let_def)

lemma executionReferenceOf_ne: "executionReferenceOf p \<noteq> Some []"
  by (simp add: executionReferenceOf_def reference_in_ne split: option.splits)

text \<open>The markup of a page is fixed by the state, by whether there is a reference, and by
  whether there is an error.\<close>

lemma markup_page:
  assumes "p_state p = p_state q" "(e = []) = (f = [])"
    and "(executionReferenceOf p = None) = (executionReferenceOf q = None)"
  shows "markup (renderProposal d p e) = markup (renderProposal d' q f)"
proof -
  have "markup (page_details d p) = markup (page_details d' q)"
    using assms(3) executionReferenceOf_ne by (intro markup_details) auto
  moreover have "markup (page_form p) = markup (page_form q)" by (rule markup_form [OF assms(1)])
  ultimately show ?thesis
    unfolding renderProposal_def using assms(1,2)
    by (intro markup_shell) (simp only: markup_append markup_esc split: if_splits, simp)
qed

end
