(* ===== verification/AttemptLimiter.thy ===== *)
theory AttemptLimiter
  imports JsString
begin

text \<open>
  The attempt limiter of the confirmation channel, the class \<open>AttemptLimiter\<close> of
  apps/action-gateway/src/http/confirmation-api.ts, and the admission check the confirmation
  handlers make with one limiter per proposal and one for all proposals together.

  The lemmas bound what is let through: within one window at most \<open>max\<close> attempts, and in any
  span shorter than a window at most twice as many, because a window opens with the first
  attempt after the last one closed.
\<close>

record limiter =
  al_max :: nat
  al_windowMs :: int
  al_attempts :: "ustr \<rightharpoonup> nat \<times> int"

definition new_limiter :: "nat \<Rightarrow> int \<Rightarrow> limiter" where
  "new_limiter maxAttempts windowMs = \<lparr>al_max = maxAttempts, al_windowMs = windowMs, al_attempts = Map.empty\<rparr>"

text \<open>\<open>new AttemptLimiter()\<close> with its default arguments, and the limiter of all proposals.\<close>

definition default_limiter :: limiter where
  "default_limiter = new_limiter 5 60000"

definition default_global_limiter :: limiter where
  "default_global_limiter = new_limiter 100 60000"

definition limiter_used :: "limiter \<Rightarrow> ustr \<Rightarrow> int \<Rightarrow> nat" where
  "limiter_used l key now =
     (case al_attempts l key of None \<Rightarrow> 0
      | Some (count, resetAt) \<Rightarrow> if now \<ge> resetAt then 0 else count)"

definition consume :: "limiter \<Rightarrow> ustr \<Rightarrow> int \<Rightarrow> limiter \<times> bool" where
  "consume l key now =
     (let fresh = (l\<lparr>al_attempts := (al_attempts l)(key \<mapsto> (1, now + al_windowMs l))\<rparr>, True)
      in case al_attempts l key of None \<Rightarrow> fresh
         | Some (count, resetAt) \<Rightarrow>
             if now \<ge> resetAt then fresh
             else if count \<ge> al_max l then (l, False)
             else (l\<lparr>al_attempts := (al_attempts l)(key \<mapsto> (count + 1, resetAt))\<rparr>, True))"

definition clear :: "limiter \<Rightarrow> ustr \<Rightarrow> limiter" where
  "clear l key = l\<lparr>al_attempts := (al_attempts l)(key := None)\<rparr>"

text \<open>\<open>!limiter.consume(..) || !globalLimiter.consume(..)\<close>, negated: the second limiter is asked
  only when the first one lets the attempt through.\<close>

definition admit :: "limiter \<Rightarrow> limiter \<Rightarrow> ustr \<Rightarrow> int \<Rightarrow> int \<Rightarrow> limiter \<times> limiter \<times> bool" where
  "admit l g i now1 now2 =
     (case consume l (lit ''confirm:'' @ i) now1 of
        (l', ok1) \<Rightarrow>
          if \<not> ok1 then (l', g, False)
          else (case consume g (lit ''confirm:all'') now2 of (g', ok2) \<Rightarrow> (l', g', ok2)))"

subsection \<open>One key\<close>

lemma consume_settings [simp]:
  "al_max (fst (consume l k t)) = al_max l" "al_windowMs (fst (consume l k t)) = al_windowMs l"
  by (auto simp: consume_def Let_def split: option.splits)

lemma consume_other: "k \<noteq> k' \<Longrightarrow> al_attempts (fst (consume l k t)) k' = al_attempts l k'"
  by (auto simp: consume_def Let_def split: option.splits)

lemma clear_consume: "snd (consume (clear l k) k t)"
  by (simp add: consume_def clear_def Let_def)

lemma consume_used:
  "0 < al_windowMs l \<Longrightarrow> 1 \<le> al_max l \<Longrightarrow>
     snd (consume l k t) \<longleftrightarrow> limiter_used l k t < al_max l"
  by (auto simp: consume_def limiter_used_def Let_def split: option.splits)

fun consumes :: "limiter \<Rightarrow> ustr \<Rightarrow> int list \<Rightarrow> nat" where
  "consumes l k [] = 0"
| "consumes l k (t # ts) =
     (case consume l k t of (l', ok) \<Rightarrow> (if ok then 1 else 0) + consumes l' k ts)"

text \<open>What is left of the window that is open: none when the next attempt opens a new one.\<close>

definition budget :: "limiter \<Rightarrow> ustr \<Rightarrow> nat" where
  "budget l k = (case al_attempts l k of None \<Rightarrow> 0 | Some (count, _) \<Rightarrow> al_max l - count)"

lemma consumes_in_window:
  assumes "al_attempts l k = Some (c, r)" "\<forall>t\<in>set ts. t < r"
  shows "consumes l k ts = min (length ts) (al_max l - c)"
  using assms
proof (induction ts arbitrary: l c)
  case (Cons t ts)
  show ?case
  proof (cases "c \<ge> al_max l")
    case True
    then show ?thesis using Cons by (simp add: consume_def Let_def)
  next
    case False
    let ?l = "l\<lparr>al_attempts := (al_attempts l)(k \<mapsto> (c + 1, r))\<rparr>"
    have "consumes l k (t # ts) = 1 + consumes ?l k ts"
      using Cons.prems False by (simp add: consume_def Let_def)
    also have "consumes ?l k ts = min (length ts) (al_max l - (c + 1))"
      using Cons.IH [of ?l "c + 1"] Cons.prems by simp
    finally show ?thesis using False by simp
  qed
qed simp

text \<open>A span shorter than a window meets at most one new window.\<close>

lemma consumes_span:
  assumes "sorted ts" "\<forall>t\<in>set ts. t < b" "\<forall>t\<in>set ts. b \<le> t + al_windowMs l" "1 \<le> al_max l"
  shows "consumes l k ts \<le> budget l k + al_max l"
  using assms
proof (induction ts arbitrary: l)
  case (Cons t ts)
  let ?fresh = "l\<lparr>al_attempts := (al_attempts l)(k \<mapsto> (1, t + al_windowMs l))\<rparr>"
  have fresh: "consumes l k (t # ts) \<le> al_max l" if "consume l k t = (?fresh, True)"
  proof -
    have "\<forall>u\<in>set ts. u < t + al_windowMs l" using Cons.prems by force
    then have "consumes ?fresh k ts = min (length ts) (al_max l - 1)"
      using consumes_in_window [of ?fresh k 1 "t + al_windowMs l" ts] by simp
    with that Cons.prems(4) show ?thesis by simp
  qed
  consider "consume l k t = (?fresh, True)" | c r where "al_attempts l k = Some (c, r)" "t < r"
  proof (cases "al_attempts l k")
    case None
    then show ?thesis using that(1) by (simp add: consume_def Let_def)
  next
    case (Some e)
    then show ?thesis using that by (cases e; cases "snd e \<le> t") (simp_all add: consume_def Let_def)
  qed
  then show ?case
  proof cases
    case 1
    then show ?thesis using fresh by simp
  next
    case 2
    show ?thesis
    proof (cases "c \<ge> al_max l")
      case True
      then have "consumes l k (t # ts) = consumes l k ts" using 2 by (simp add: consume_def Let_def)
      then show ?thesis using Cons by simp
    next
      case False
      let ?l = "l\<lparr>al_attempts := (al_attempts l)(k \<mapsto> (c + 1, r))\<rparr>"
      have "consumes l k (t # ts) = 1 + consumes ?l k ts"
        using 2 False by (simp add: consume_def Let_def)
      moreover have "consumes ?l k ts \<le> budget ?l k + al_max l"
        using Cons.IH [of ?l] Cons.prems by simp
      ultimately show ?thesis using 2 False by (simp add: budget_def)
    qed
  qed
qed simp

subsection \<open>Admission\<close>

text \<open>How many of a sequence of confirmation attempts, for any proposals, are admitted; the flag
  says whether the attempt was right, which clears the counter of its proposal.\<close>

fun admits :: "limiter \<Rightarrow> limiter \<Rightarrow> (ustr \<times> int \<times> int \<times> bool) list \<Rightarrow> nat" where
  "admits l g [] = 0"
| "admits l g ((i, t, u, right) # as) =
     (case admit l g i t u of (l', g', ok) \<Rightarrow>
        (if ok then 1 else 0) +
        admits (if ok \<and> right then clear l' (lit ''confirm:'' @ i) else l') g' as)"

definition global_times :: "(ustr \<times> int \<times> int \<times> bool) list \<Rightarrow> int list" where
  "global_times as = map (\<lambda>(i, t, u, right). u) as"

lemma consumes_skip: "consumes l k ts \<le> consumes l k (ts @ us)"
  by (induction ts arbitrary: l) (auto split: prod.splits)

text \<open>Every admitted attempt was counted by the global limiter.\<close>

lemma admits_global:
  "\<exists>ts. (sorted (global_times as) \<longrightarrow> sorted ts) \<and> set ts \<subseteq> set (global_times as) \<and>
     admits l g as = consumes g (lit ''confirm:all'') ts"
proof (induction as arbitrary: l g)
  case Nil
  show ?case by (rule exI [of _ "[]"]) simp
next
  case (Cons a as)
  obtain i t u w where a: "a = (i, t, u, w)" by (cases a)
  obtain l' ok1 where c: "consume l (lit ''confirm:'' @ i) t = (l', ok1)" by fastforce
  obtain g' ok2 where d: "consume g (lit ''confirm:all'') u = (g', ok2)" by fastforce
  show ?case
  proof (cases ok1)
    case True
    let ?l = "if ok2 \<and> w then clear l' (lit ''confirm:'' @ i) else l'"
    obtain ts where "sorted (global_times as) \<longrightarrow> sorted ts" "set ts \<subseteq> set (global_times as)"
      "admits ?l g' as = consumes g' (lit ''confirm:all'') ts" using Cons by blast
    then show ?thesis
      using True by (intro exI [of _ "u # ts"]) (auto simp: a c d admit_def global_times_def)
  next
    case False
    obtain ts where "sorted (global_times as) \<longrightarrow> sorted ts" "set ts \<subseteq> set (global_times as)"
      "admits l' g as = consumes g (lit ''confirm:all'') ts" using Cons by blast
    then show ?thesis
      using False by (intro exI [of _ ts]) (auto simp: a c admit_def global_times_def)
  qed
qed

lemma admits_span:
  assumes "sorted (global_times as)" "\<forall>u\<in>set (global_times as). a \<le> u \<and> u < a + al_windowMs g"
    and "1 \<le> al_max g"
  shows "admits l g as \<le> budget g (lit ''confirm:all'') + al_max g"
proof -
  obtain ts where ts: "sorted ts" "set ts \<subseteq> set (global_times as)"
    "admits l g as = consumes g (lit ''confirm:all'') ts"
    using admits_global [of as l g] assms(1) by blast
  have "\<forall>t\<in>set ts. a \<le> t \<and> t < a + al_windowMs g" using ts(2) assms(2) by blast
  then show ?thesis
    unfolding ts(3) using assms(3) by (intro consumes_span [OF ts(1), of "a + al_windowMs g"]) auto
qed

lemma budget_le: "budget l k \<le> al_max l"
  by (auto simp: budget_def split: option.splits)

end
