(* ===== verification/ConfirmationApi.thy ===== *)
theory ConfirmationApi
  imports Registry ConfirmationPage AttemptLimiter
begin

text \<open>
  The HTTP surface of the human, apps/action-gateway/src/http/confirmation-api.ts: the handlers
  of \<open>createConfirmationApi\<close> over the registry, the two limiters and the page renderer.

  The state is the store with both limiters. A handler is a function from the state to the next
  state and the reply; it runs the registry methods one after the other (their interleaving with
  other requests is the subject of \<open>Concurrency\<close>). \<open>Thrown\<close> is an exception that leaves the
  handler, which the framework answers. What a request reads from its surroundings is the
  record \<open>request_env\<close>: the clock as the two limiters read it, and the surroundings of the
  registry calls in order.
\<close>

record 's api_state =
  as_store :: 's
  as_limiter :: limiter
  as_global :: limiter

definition new_api :: "'s \<Rightarrow> 's api_state" where
  "new_api s = \<lparr>as_store = s, as_limiter = default_limiter, as_global = default_global_limiter\<rparr>"

record request_env =
  re_now1 :: int
  re_now2 :: int
  re_first :: call_env
  re_second :: call_env
  re_third :: call_env

datatype reply =
    Json nat jval
  | Html nat ustr
  | Thrown

fun statusFor :: "domain_error \<Rightarrow> nat" where
  "statusFor e = (case de_code e of
       INVALID_STATE \<Rightarrow> 409
     | VERSION_CONFLICT \<Rightarrow> 409
     | EXPIRED \<Rightarrow> 410
     | LINK_CODE_MISMATCH \<Rightarrow> 403
     | PAYLOAD_TAMPERED \<Rightarrow> 409
     | VALIDATION_FAILED \<Rightarrow> 400
     | IDEMPOTENCY_CONFLICT \<Rightarrow> 409)"

definition toView :: "proposal \<Rightarrow> (ustr \<times> jval) list" where
  "toView p =
     [(lit ''id'', JStr (p_id p)),
      (lit ''state'', JStr (state_name (p_state p))),
      (lit ''orderId'', JStr (md_orderId (p_payload p))),
      (lit ''orderSlug'', JStr (md_orderSlug (p_payload p))),
      (lit ''body'', JStr (md_body (p_payload p))),
      (lit ''locale'', JStr (md_locale (p_payload p))),
      (lit ''paymentStatus'', JStr (md_paymentStatus (p_payload p))),
      (lit ''payloadDigest'', JStr (p_payloadDigest p)),
      (lit ''expiresAt'', JNum (dec_int (p_expiresAt p))),
      (lit ''createdAt'', JNum (dec_int (p_createdAt p)))]"

definition error_json :: "nat \<Rightarrow> ustr \<Rightarrow> reply" where
  "error_json status e = Json status (JObj [(lit ''error'', JStr e)])"

definition error_message_json :: "nat \<Rightarrow> ustr \<Rightarrow> ustr \<Rightarrow> reply" where
  "error_message_json status e m =
     Json status (JObj [(lit ''error'', JStr e), (lit ''message'', JStr m)])"

subsection \<open>The JSON surface\<close>

definition api_health :: reply where
  "api_health = Json 200 (JObj [(lit ''ok'', JBool True)])"

definition api_get :: "'s store_ops \<Rightarrow> call_env \<Rightarrow> ustr \<Rightarrow> 's api_state \<Rightarrow> 's api_state \<times> reply" where
  "api_get ops env i a =
     (case run ops (reg_getForConfirmation env i) (as_store a) of
        (s, None) \<Rightarrow> (a\<lparr>as_store := s\<rparr>, error_json 404 (lit ''not_found''))
      | (s, Some p) \<Rightarrow> (a\<lparr>as_store := s\<rparr>, Json 200 (JObj (toView p))))"

text \<open>What follows the admission check, shared by the surfaces: the confirmation, the clearing of
  the counter and the execution. The result is the refusal of the confirmation, or the result of
  the execution.\<close>

datatype decision =
    Refused domain_error
  | Executed_with "proposal result"

definition confirm_and_execute ::
  "runtime \<Rightarrow> 's store_ops \<Rightarrow> request_env \<Rightarrow> ustr \<Rightarrow> ustr \<Rightarrow> ustr \<Rightarrow> 's api_state \<Rightarrow> 's api_state \<times> decision" where
  "confirm_and_execute rt ops env i code dig a =
     (case run ops (reg_confirm rt (re_first env) i code dig) (as_store a) of
        (s, Err e) \<Rightarrow> (a\<lparr>as_store := s\<rparr>, Refused e)
      | (s, Ok _) \<Rightarrow>
          (case run ops (reg_execute rt (re_second env) i) s of
             (s', r) \<Rightarrow> (a\<lparr>as_store := s', as_limiter := clear (as_limiter a) (lit ''confirm:'' @ i)\<rparr>,
               Executed_with r)))"

definition api_confirm ::
  "runtime \<Rightarrow> 's store_ops \<Rightarrow> request_env \<Rightarrow> ustr \<Rightarrow> jval \<Rightarrow> 's api_state \<Rightarrow> 's api_state \<times> reply" where
  "api_confirm rt ops env i req_body a =
     (case (prop_of req_body (lit ''linkCode''), prop_of req_body (lit ''payloadDigest'')) of
        (JStr code, JStr dig) \<Rightarrow>
          (case admit (as_limiter a) (as_global a) i (re_now1 env) (re_now2 env) of
             (l, g, ok) \<Rightarrow>
               let a1 = a\<lparr>as_limiter := l, as_global := g\<rparr>
               in if \<not> ok then
                    (a1, error_message_json 429 (lit ''too_many_attempts'')
                       (lit ''Too many attempts. Request a new confirmation.''))
                  else (case confirm_and_execute rt ops env i code dig a1 of
                     (a2, Refused e) \<Rightarrow>
                       (a2, error_message_json (statusFor e) (code_name (de_code e))
                          (if de_agentSafe e then de_message e
                           else lit ''This request could not be completed.''))
                   | (a2, Executed_with (Err e)) \<Rightarrow> (a2, error_json (statusFor e) (code_name (de_code e)))
                   | (a2, Executed_with (Ok p)) \<Rightarrow>
                       (a2, Json 200 (JObj (toView p @ [(lit ''simulated'', JBool True)])))))
      | _ \<Rightarrow> (a, error_json 400 (lit ''invalid_request'')))"

definition api_reject :: "'s store_ops \<Rightarrow> call_env \<Rightarrow> ustr \<Rightarrow> 's api_state \<Rightarrow> 's api_state \<times> reply" where
  "api_reject ops env i a =
     (case run ops (reg_reject env i) (as_store a) of
        (s, Err e) \<Rightarrow> (a\<lparr>as_store := s\<rparr>, error_json (statusFor e) (code_name (de_code e)))
      | (s, Ok p) \<Rightarrow> (a\<lparr>as_store := s\<rparr>, Json 200 (JObj (toView p))))"

subsection \<open>The pages\<close>

definition page_get ::
  "(int \<Rightarrow> ustr) \<Rightarrow> 's store_ops \<Rightarrow> call_env \<Rightarrow> ustr \<Rightarrow> 's api_state \<Rightarrow> 's api_state \<times> reply" where
  "page_get localDate ops env i a =
     (case run ops (reg_getForConfirmation env i) (as_store a) of
        (s, None) \<Rightarrow> (a\<lparr>as_store := s\<rparr>, Html 404 renderNotFound)
      | (s, Some p) \<Rightarrow> (a\<lparr>as_store := s\<rparr>, Html 200 (renderProposal localDate p [])))"

text \<open>The local function \<open>show\<close>.\<close>

definition page_show ::
  "(int \<Rightarrow> ustr) \<Rightarrow> 's store_ops \<Rightarrow> call_env \<Rightarrow> ustr \<Rightarrow> ustr \<Rightarrow> nat \<Rightarrow> 's api_state \<Rightarrow> 's api_state \<times> reply" where
  "page_show localDate ops env i msg status a =
     (case run ops (reg_getForConfirmation env i) (as_store a) of
        (s, None) \<Rightarrow> (a\<lparr>as_store := s\<rparr>, Html 404 renderNotFound)
      | (s, Some p) \<Rightarrow> (a\<lparr>as_store := s\<rparr>, Html status (renderProposal localDate p msg)))"

definition refused_text :: ustr where
  "refused_text = lit ''That code is not valid for this request.''"

definition page_confirm ::
  "(int \<Rightarrow> ustr) \<Rightarrow> runtime \<Rightarrow> 's store_ops \<Rightarrow> request_env \<Rightarrow> ustr \<Rightarrow> jval \<Rightarrow> 's api_state \<Rightarrow> 's api_state \<times> reply" where
  "page_confirm localDate rt ops env i req_body a =
     (case string_or (prop_of req_body (lit ''linkCode'')) [] of None \<Rightarrow> (a, Thrown)
      | Some given \<Rightarrow>
     (case string_or (prop_of req_body (lit ''payloadDigest'')) [] of None \<Rightarrow> (a, Thrown)
      | Some dig \<Rightarrow>
          let code = js_upper rt (js_trim given)
          in case admit (as_limiter a) (as_global a) i (re_now1 env) (re_now2 env) of
             (l, g, ok) \<Rightarrow>
               let a1 = a\<lparr>as_limiter := l, as_global := g\<rparr>
               in if \<not> ok then
                    page_show localDate ops (re_first env) i
                      (lit ''Too many attempts. Ask for a new message proposal.'') 429 a1
                  else (case confirm_and_execute rt ops env i code dig a1 of
                     (a2, Refused e) \<Rightarrow>
                       page_show localDate ops (re_second env) i refused_text (statusFor e) a2
                   | (a2, Executed_with (Err e)) \<Rightarrow>
                       page_show localDate ops (re_third env) i
                         (lit ''This request could not be completed.'') 409 a2
                   | (a2, Executed_with (Ok p)) \<Rightarrow>
                       (a2, Html 200 (renderProposal localDate p [])))))"

definition page_reject ::
  "(int \<Rightarrow> ustr) \<Rightarrow> 's store_ops \<Rightarrow> call_env \<Rightarrow> call_env \<Rightarrow> ustr \<Rightarrow> 's api_state \<Rightarrow> 's api_state \<times> reply" where
  "page_reject localDate ops env1 env2 i a =
     (case run ops (reg_reject env1 i) (as_store a) of
        (s, _) \<Rightarrow> page_get localDate ops env2 i (a\<lparr>as_store := s\<rparr>))"

lemmas api_defs [handler_defs] = api_get_def api_confirm_def api_reject_def page_get_def page_show_def
  page_confirm_def page_reject_def

fun reply_status :: "reply \<Rightarrow> nat option" where
  "reply_status (Json n _) = Some n"
| "reply_status (Html n _) = Some n"
| "reply_status Thrown = None"

lemma reply_status_errors [simp]:
  "reply_status (error_json n e) = Some n" "reply_status (error_message_json n e m) = Some n"
  by (simp_all add: error_json_def error_message_json_def)

lemma statusFor_range: "statusFor e \<in> {400, 403, 409, 410}"
  by (cases "de_code e") simp_all

lemma js_upper_trim_idem: "ascii s \<Longrightarrow> normal_code rt (js_upper rt (js_trim s)) = normal_code rt s"
proof -
  assume a: "ascii s"
  then have t: "ascii (js_trim s)" by (simp add: ascii_def list_all_js_trim)
  then have "js_trim (js_upper rt (js_trim s)) = js_upper rt (js_trim s)"
    by (simp add: js_upper_def js_trim_map_upper)
  with t show ?thesis by (simp add: normal_code_def js_upper_idem)
qed

lemma hashLinkCode_normal: "ascii s \<Longrightarrow> hashLinkCode rt (js_upper rt (js_trim s)) = hashLinkCode rt s"
  using js_upper_trim_idem [of s rt] by (simp add: hashLinkCode_def)

lemma confirm_normal:
  "ascii s \<Longrightarrow>
     confirm rt clk p \<lparr>ci_linkCode = js_upper rt (js_trim s), ci_seenDigest = dig, ci_now = n\<rparr> =
     confirm rt clk p \<lparr>ci_linkCode = s, ci_seenDigest = dig, ci_now = n\<rparr>"
  by (simp only: confirm_def confirm_input.simps hashLinkCode_normal)

lemma reg_confirm_normal:
  "ascii s \<Longrightarrow> reg_confirm rt env i (js_upper rt (js_trim s)) dig = reg_confirm rt env i s dig"
  by (simp only: reg_confirm_def confirm_normal)

subsection \<open>The two surfaces make the same decision\<close>

lemma confirm_and_execute_normal:
  "ascii s \<Longrightarrow> confirm_and_execute rt ops env i (js_upper rt (js_trim s)) dig a =
     confirm_and_execute rt ops env i s dig a"
  by (simp add: confirm_and_execute_def reg_confirm_normal)

context proposal_store begin

lemma show_keeps: "fst (page_show d ops env i m n a) = a"
  by (simp add: page_show_def run_getForConfirmation split: option.splits)

lemma surfaces_agree:
  assumes "prop_of b (lit ''linkCode'') = JStr code" "prop_of b (lit ''payloadDigest'') = JStr dig"
    and "ascii code"
  shows "fst (page_confirm d rt ops env i b a) = fst (api_confirm rt ops env i b a)"
  using assms
  by (simp add: page_confirm_def api_confirm_def Let_def show_keeps confirm_and_execute_normal
      split: prod.splits decision.splits result.splits)

text \<open>The confirmation of a stored proposal, on every branch.\<close>

lemma confirm_and_execute_Ok:
  assumes "inv (as_store a)" "so_get ops (as_store a) i = Some p"
    and "confirm rt (ce_clock (re_first env)) p
      \<lparr>ci_linkCode = code, ci_seenDigest = dig, ci_now = Some (ce_now (re_first env))\<rparr> = Ok q"
  shows "\<exists>s. confirm_and_execute rt ops env i code dig a =
      (a\<lparr>as_store := s, as_limiter := clear (as_limiter a) (lit ''confirm:'' @ i)\<rparr>,
       Executed_with (Ok (applied (ce_clock (re_second env)) q Executed
         (lit ''simulated execution '' @ execution_reference rt i) System))) \<and>
    so_get ops s = (so_get ops (as_store a))(i \<mapsto> applied (ce_clock (re_second env)) q Executed
         (lit ''simulated execution '' @ execution_reference rt i) System) \<and> inv s"
proof -
  obtain s where s: "run ops (reg_confirm rt (re_first env) i code dig) (as_store a) = (s, Ok q)"
    "so_get ops s = (so_get ops (as_store a))(i \<mapsto> q)" "inv s"
    using run_confirm_Ok [OF assms] by blast
  have "p_state q = Confirmed" using assms(3) by (auto simp: confirm_Ok_iff)
  with run_execute [OF s(3), of i q rt "re_second env"] s(2) obtain s' where
    "run ops (reg_execute rt (re_second env) i) s = (s', Ok (applied (ce_clock (re_second env)) q Executed
       (lit ''simulated execution '' @ execution_reference rt i) System))"
    "so_get ops s' = (so_get ops s)(i \<mapsto> applied (ce_clock (re_second env)) q Executed
       (lit ''simulated execution '' @ execution_reference rt i) System)" "inv s'" by auto
  with s show ?thesis by (intro exI [of _ s']) (simp add: confirm_and_execute_def)
qed

lemma confirm_and_execute_Err:
  assumes "inv (as_store a)" "so_get ops (as_store a) i = Some p"
    and "confirm rt (ce_clock (re_first env)) p
      \<lparr>ci_linkCode = code, ci_seenDigest = dig, ci_now = Some (ce_now (re_first env))\<rparr> = Err e"
  shows "\<exists>s. confirm_and_execute rt ops env i code dig a = (a\<lparr>as_store := s\<rparr>, Refused e) \<and>
    so_get ops s = (so_get ops (as_store a))(i \<mapsto>
      expireIfDue (ce_clock (re_first env)) p (ce_later (re_first env))) \<and> inv s"
  using run_confirm_Err [OF assms] by (auto simp: confirm_and_execute_def)

end

end
