(* ===== verification/InternalApi.thy ===== *)
theory InternalApi
  imports ConfirmationApi Snapshot
begin

text \<open>
  The service-to-service API, apps/action-gateway/src/http/internal-api.ts: the secret check
  in front of the one route, and the route. \<open>deliverLinkCode\<close> is a parameter, of which only
  whether it delivers matters.
\<close>

record internal_deps =
  id_gatewaySecret :: ustr
  id_deliver :: "ustr \<Rightarrow> ustr \<Rightarrow> proposal \<Rightarrow> bool"
  id_confirmationBaseUrl :: ustr

definition secretOk :: "ustr \<Rightarrow> ustr \<Rightarrow> bool" where
  "secretOk expected given = (utf8 expected = utf8 given)"

text \<open>\<open>requireGatewaySecret\<close>: whether the request passes. The header is absent or a string.\<close>

definition gateway_secret_ok :: "internal_deps \<Rightarrow> ustr option \<Rightarrow> bool" where
  "gateway_secret_ok deps header =
     (let expected = js_trim (id_gatewaySecret deps);
          got = js_trim (case header of None \<Rightarrow> [] | Some h \<Rightarrow> h)
      in \<not> (expected = [] \<or> got = [] \<or> \<not> secretOk expected got))"

record internal_fields =
  if_payload :: message_draft
  if_idempotencyKey :: ustr

text \<open>The fields of the request as strings; \<open>None\<close> is an exception of \<open>String\<close>.\<close>

definition internal_fields :: "runtime \<Rightarrow> jval \<Rightarrow> internal_fields option" where
  "internal_fields rt b = do {
     orderId \<leftarrow> map_option js_trim (string_or (prop_of b (lit ''orderId'')) []);
     orderSlug \<leftarrow> map_option js_trim (string_or (prop_of b (lit ''orderSlug'')) []);
     merchantId \<leftarrow> map_option js_trim (string_or (prop_of b (lit ''merchantId'')) []);
     draftBody \<leftarrow> string_or (prop_of b (lit ''body'')) [];
     loc \<leftarrow> map_option (\<lambda>s. js_lower rt (js_trim s)) (string_or (prop_of b (lit ''locale'')) (lit ''en''));
     paymentStatus \<leftarrow>
       map_option (\<lambda>s. js_upper rt (js_trim s)) (string_or (prop_of b (lit ''paymentStatus'')) []);
     idempotencyKey \<leftarrow> map_option js_trim (string_or (prop_of b (lit ''idempotencyKey'')) []);
     Some \<lparr>if_payload = \<lparr>md_orderId = orderId, md_orderSlug = orderSlug, md_merchantId = merchantId,
         md_body = draftBody, md_locale = (if loc = lit ''fa'' then lit ''fa'' else lit ''en''),
         md_paymentStatus = paymentStatus\<rparr>, if_idempotencyKey = idempotencyKey\<rparr>
   }"

definition internal_status :: "error_code \<Rightarrow> nat" where
  "internal_status c =
     (if c = VALIDATION_FAILED then 400 else if c = IDEMPOTENCY_CONFLICT then 409 else 400)"

definition proposal_reply :: "internal_deps \<Rightarrow> propose_output \<Rightarrow> reply" where
  "proposal_reply deps out =
     (let p = po_proposal out
      in Json (if po_deduplicated out then 200 else 201)
           (JObj [(lit ''proposalId'', JStr (p_id p)), (lit ''deduplicated'', JBool (po_deduplicated out)),
              (lit ''confirmUrl'', JStr (id_confirmationBaseUrl deps @ lit ''/p/'' @ p_id p)),
              (lit ''state'', JStr (state_name (p_state p)))]))"

text \<open>The checks of the fields: the answer of a request that fails one, or what is registered.\<close>

definition internal_checked :: "runtime \<Rightarrow> jval \<Rightarrow> reply + propose_input" where
  "internal_checked rt b =
     (case internal_fields rt b of None \<Rightarrow> Inl Thrown
      | Some f \<Rightarrow>
          let p = if_payload f
          in if md_orderId p = [] \<or> md_orderSlug p = [] \<or> md_merchantId p = [] \<or> md_body p = []
                \<or> md_paymentStatus p = [] then Inl (error_json 400 (lit ''invalid_request''))
             else if if_idempotencyKey f = [] then Inl (error_json 400 (lit ''idempotency_key_required''))
             else Inr \<lparr>pi_payload = p, pi_idempotencyKey = if_idempotencyKey f\<rparr>)"

definition internal_propose ::
  "runtime \<Rightarrow> int \<Rightarrow> internal_deps \<Rightarrow> 's store_ops \<Rightarrow> call_env \<Rightarrow> jval \<Rightarrow> 's \<Rightarrow> 's \<times> reply" where
  "internal_propose rt ttl deps ops env b s =
     (case internal_checked rt b of Inl r \<Rightarrow> (s, r)
      | Inr input \<Rightarrow>
          (case run ops (reg_propose rt ttl env input) s of
             (s', Err e) \<Rightarrow>
               (s', error_message_json (internal_status (de_code e)) (code_name (de_code e))
                  (if de_agentSafe e then de_message e else lit ''refused''))
           | (s', Ok out) \<Rightarrow>
               if \<not> po_deduplicated out \<and> po_linkCode out \<noteq> [] \<and>
                  \<not> id_deliver deps (p_id (po_proposal out)) (po_linkCode out) (po_proposal out)
               then (s', error_message_json 500 (lit ''delivery_failed'')
                 (lit ''Proposal saved but confirmation code could not be delivered.''))
               else (s', proposal_reply deps out)))"

definition internal_request ::
  "runtime \<Rightarrow> int \<Rightarrow> internal_deps \<Rightarrow> 's store_ops \<Rightarrow> call_env \<Rightarrow> ustr option \<Rightarrow> jval \<Rightarrow> 's \<Rightarrow> 's \<times> reply" where
  "internal_request rt ttl deps ops env header b s =
     (if gateway_secret_ok deps header then internal_propose rt ttl deps ops env b s
      else (s, error_json 401 (lit ''unauthorized'')))"

lemmas internal_defs [handler_defs] = internal_propose_def internal_request_def

lemma secretOk_refl [simp]: "secretOk s s"
  by (simp add: secretOk_def)

lemma gateway_secret_unset: "js_trim (id_gatewaySecret deps) = [] \<Longrightarrow> \<not> gateway_secret_ok deps header"
  by (simp add: gateway_secret_ok_def)

lemma internal_refused:
  "\<not> gateway_secret_ok deps header \<Longrightarrow>
     internal_request rt ttl deps ops env header b s = (s, error_json 401 (lit ''unauthorized''))"
  by (simp add: internal_request_def)

end
