(* ===== verification/Draft.thy ===== *)
theory Draft
  imports Snapshot
begin

text \<open>
  Drafting a message with the Anthropic API, apps/action-gateway/src/claude/draft.ts: the
  prompts, the request and what is made of the response. The API is not under src/: \<open>send\<close>
  maps the key and the request body to its answer.
\<close>

definition DEFAULT_MODEL :: ustr where
  "DEFAULT_MODEL = lit ''claude-sonnet-4-5-20250929''"

record draft_input =
  di_snapshot :: order_snapshot
  di_locale :: ustr
  di_apiKey :: ustr
  di_model :: "ustr option"

definition paymentStatusForSnap :: "runtime \<Rightarrow> order_snapshot \<Rightarrow> ustr" where
  "paymentStatusForSnap rt snap = js_upper rt (js_trim (os_status snap))"

definition systemPrompt :: "ustr \<Rightarrow> ustr" where
  "systemPrompt loc =
     (let lang = (if loc = lit ''fa'' then lit ''Persian (Farsi)'' else lit ''English'')
      in join_with [10]
    [lit ''You write short buyer follow-up messages for a DM commerce seller using '' @
     lit ''Pooli checkout.'',
     lit ''Write in '' @ lang @ lit ''.'',
     lit ''Rules:'',
     lit ''- One or two short paragraphs maximum. No markdown.'',
     lit ''- Never claim payment is received or confirmed unless payment status is '' @
     lit ''exactly PAID.'',
     lit ''- If status is AWAITING_PAYMENT, you may remind them to pay via the checkout '' @
     lit ''link politely.'',
     lit ''- Do not invent amounts, wallet addresses, or transaction ids not in the '' @
     lit ''snapshot.'',
     lit ''- Do not mention Pooli as a bank or custodian; funds go to the seller wallet.'',
     lit ''Return only the message text the seller would paste into Instagram or Telegram.''])"

definition userPrompt :: "order_snapshot \<Rightarrow> ustr" where
  "userPrompt snap = json_pretty 0 (JObj [(lit ''order'', order_json snap),
     (lit ''payment'', payment_json snap), (lit ''amountUsdt'', amount_json snap)])"

definition draft_request :: "ustr \<Rightarrow> draft_input \<Rightarrow> jval" where
  "draft_request model input = JObj [(lit ''model'', JStr model), (lit ''max_tokens'', JNum (lit ''512'')),
     (lit ''system'', JStr (systemPrompt (di_locale input))),
     (lit ''messages'', JArr [JObj [(lit ''role'', JStr (lit ''user'')),
        (lit ''content'', JStr (userPrompt (di_snapshot input)))]])]"

text \<open>What the API answers: an exception of \<open>fetch\<close> or of reading the body, an error status with
  the text of its body, or the content blocks, each with its type and text.\<close>

record content_block =
  cb_type :: ustr
  cb_text :: "ustr option"

datatype api_answer =
    Api_throws
  | Api_error nat ustr
  | Api_content "content_block list"

datatype draft_result =
    Draft ustr
  | Draft_error ustr
  | Draft_throws

definition is_text_block :: "content_block \<Rightarrow> bool" where
  "is_text_block b \<longleftrightarrow> cb_type b = lit ''text'' \<and> cb_text b \<noteq> None \<and> cb_text b \<noteq> Some []"

definition block_text :: "content_block \<Rightarrow> ustr" where
  "block_text b = (case cb_text b of None \<Rightarrow> [] | Some t \<Rightarrow> t)"

definition draftBuyerMessageWithClaude ::
  "ustr option \<Rightarrow> (ustr \<Rightarrow> jval \<Rightarrow> api_answer) \<Rightarrow> draft_input \<Rightarrow> draft_result" where
  "draftBuyerMessageWithClaude envModel send input =
     (let key = js_trim (di_apiKey input)
      in if key = [] then Draft_error (lit ''ANTHROPIC_API_KEY is not configured'')
         else let model = js_trim (case di_model input of Some m \<Rightarrow> m
                | None \<Rightarrow> (case envModel of Some m \<Rightarrow> m | None \<Rightarrow> DEFAULT_MODEL))
           in case send key (draft_request model input) of
                Api_throws \<Rightarrow> Draft_throws
              | Api_error status detail \<Rightarrow>
                  Draft_error (lit ''anthropic api error '' @ dec status @ lit '': '' @ take 200 detail)
              | Api_content blocks \<Rightarrow>
                  (let t = js_trim (concat (map block_text (filter is_text_block blocks)))
                   in if t = [] then Draft_error (lit ''anthropic returned empty draft'') else Draft t))"

text \<open>A draft that is returned is never blank, and nothing is sent without a key.\<close>

lemma draft_not_blank:
  "draftBuyerMessageWithClaude m send input = Draft t \<Longrightarrow>
     t \<noteq> [] \<and> js_trim t = t \<and> js_trim (di_apiKey input) \<noteq> []"
  by (auto simp: draftBuyerMessageWithClaude_def Let_def split: if_splits api_answer.splits)

end
