(* ===== verification/Redact.thy ===== *)
theory Redact
  imports Json
begin

text \<open>
  Redaction at the logging boundary, apps/action-gateway/src/observability/redact.ts.

  A payload is a JSON value; its entries are in the order of \<open>Object.entries\<close>. \<open>None\<close> is the
  exception \<open>String(v)\<close> throws for an object with an own key \<open>toString\<close>. Assigning the key
  \<open>__proto__\<close> of the fresh object sets its prototype and adds no entry, so that key is absent
  from the copy.

  The lemmas show that the copy of a payload depends on a secret only through the description
  of the secret, that the copy is of bounded depth, and that redaction is idempotent on it.
\<close>

definition SECRET_KEYS :: "ustr list" where
  "SECRET_KEYS = map lit [''linkcode'', ''link_code'', ''code_verifier'', ''codeverifier'',
     ''access_token'', ''refresh_token'', ''client_secret'', ''authorization'', ''password'',
     ''secret'', ''apikey'', ''api_key'']"

definition not_secret_prefixes :: "ustr list" where
  "not_secret_prefixes = map lit [''status'', ''error'', ''http'', ''currency'', ''country'', ''iso'',
     ''reason'', ''exit'', ''zip'', ''post'']"

text \<open>\<open>NOT_SECRET.test(key)\<close>: a prefix, ASCII letters in either case.\<close>

definition NOT_SECRET_test :: "ustr \<Rightarrow> bool" where
  "NOT_SECRET_test key = list_ex (\<lambda>w. take (length w) (map lower_unit key) = w) not_secret_prefixes"

fun has_sub :: "ustr \<Rightarrow> ustr \<Rightarrow> bool" where
  "has_sub [] w = (w = [])"
| "has_sub (c # cs) w = (take (length w) (c # cs) = w \<or> has_sub cs w)"

definition isSecretKey :: "runtime \<Rightarrow> ustr \<Rightarrow> bool" where
  "isSecretKey rt key =
     (let k = js_lower rt key
      in if NOT_SECRET_test key then False
         else if list_ex (has_sub k) SECRET_KEYS then True
         else k = lit ''code'' \<or> k = lit ''token'')"

definition upper_or_digit :: "nat \<Rightarrow> bool" where
  "upper_or_digit c \<longleftrightarrow> (65 \<le> c \<and> c \<le> 90) \<or> is_digit c"

definition token_unit :: "nat \<Rightarrow> bool" where
  "token_unit c \<longleftrightarrow> upper_or_digit c \<or> (97 \<le> c \<and> c \<le> 122) \<or> c = 95 \<or> c = 45"

definition secret_shape :: "ustr \<Rightarrow> ustr" where
  "secret_shape s =
     (if list_all upper_or_digit s then lit ''upper''
      else if list_all (\<lambda>c. hex_val c \<noteq> None) s then lit ''hex''
      else if list_all token_unit s then lit ''token''
      else lit ''mixed'')"

definition describe_string :: "ustr \<Rightarrow> ustr" where
  "describe_string s =
     (if s = [] then lit ''<empty>''
      else lit ''<redacted len='' @ dec (length s) @ lit '' shape='' @ secret_shape s @ lit ''>'')"

definition describeSecret :: "jval \<Rightarrow> ustr option" where
  "describeSecret v =
     (case v of JNull \<Rightarrow> Some (lit ''<absent>'') | JUndef \<Rightarrow> Some (lit ''<absent>'')
      | _ \<Rightarrow> map_option describe_string (js_to_string v))"

definition proto_key :: ustr where
  "proto_key = lit ''__proto__''"

text \<open>One entry more for the object under construction.\<close>

definition out_entry :: "ustr \<Rightarrow> jval \<Rightarrow> (ustr \<times> jval) list \<Rightarrow> (ustr \<times> jval) list" where
  "out_entry k v kvs = (if k = proto_key then kvs else (k, v) # kvs)"

fun redact :: "runtime \<Rightarrow> jval \<Rightarrow> nat \<Rightarrow> jval option"
  and redact_list :: "runtime \<Rightarrow> jval list \<Rightarrow> nat \<Rightarrow> jval list option"
  and redact_entries :: "runtime \<Rightarrow> (ustr \<times> jval) list \<Rightarrow> nat \<Rightarrow> (ustr \<times> jval) list option" where
  "redact rt v depth =
     (if depth > 8 then Some (JStr (lit ''<depth-limit>''))
      else case v of
        JArr vs \<Rightarrow> map_option JArr (redact_list rt vs (depth + 1))
      | JObj kvs \<Rightarrow> map_option JObj (redact_entries rt kvs depth)
      | _ \<Rightarrow> Some v)"
| "redact_list rt [] depth = Some []"
| "redact_list rt (v # vs) depth =
     (case redact rt v depth of None \<Rightarrow> None
      | Some w \<Rightarrow> map_option (Cons w) (redact_list rt vs depth))"
| "redact_entries rt [] depth = Some []"
| "redact_entries rt ((k, v) # kvs) depth =
     (case (if isSecretKey rt k then map_option JStr (describeSecret v) else redact rt v (depth + 1)) of
        None \<Rightarrow> None
      | Some w \<Rightarrow> map_option (out_entry k w) (redact_entries rt kvs depth))"

declare redact.simps [simp del]

lemma redact_simps [simp]:
  "depth > 8 \<Longrightarrow> redact rt v depth = Some (JStr (lit ''<depth-limit>''))"
  "depth \<le> 8 \<Longrightarrow> redact rt (JArr vs) depth = map_option JArr (redact_list rt vs (depth + 1))"
  "depth \<le> 8 \<Longrightarrow> redact rt (JObj kvs) depth = map_option JObj (redact_entries rt kvs depth)"
  "depth \<le> 8 \<Longrightarrow> redact rt (JStr s) depth = Some (JStr s)"
  "depth \<le> 8 \<Longrightarrow> redact rt (JNum s) depth = Some (JNum s)"
  "depth \<le> 8 \<Longrightarrow> redact rt (JBool b) depth = Some (JBool b)"
  "depth \<le> 8 \<Longrightarrow> redact rt JNull depth = Some JNull"
  "depth \<le> 8 \<Longrightarrow> redact rt JUndef depth = Some JUndef"
  by (simp_all add: redact.simps)

subsection \<open>What a log line can depend on\<close>

text \<open>\<open>alike rt a b\<close>: the same payload but for the values under secret keys, of which only the
  description is the same.\<close>

fun alike :: "runtime \<Rightarrow> jval \<Rightarrow> jval \<Rightarrow> bool"
  and alike_list :: "runtime \<Rightarrow> jval list \<Rightarrow> jval list \<Rightarrow> bool"
  and alike_entries :: "runtime \<Rightarrow> (ustr \<times> jval) list \<Rightarrow> (ustr \<times> jval) list \<Rightarrow> bool" where
  "alike rt (JArr vs) b = (case b of JArr ws \<Rightarrow> alike_list rt vs ws | _ \<Rightarrow> False)"
| "alike rt (JObj vs) b = (case b of JObj ws \<Rightarrow> alike_entries rt vs ws | _ \<Rightarrow> False)"
| "alike rt JUndef b = (b = JUndef)"
| "alike rt JNull b = (b = JNull)"
| "alike rt (JBool x) b = (b = JBool x)"
| "alike rt (JNum x) b = (b = JNum x)"
| "alike rt (JStr x) b = (b = JStr x)"
| "alike_list rt [] ws = (ws = [])"
| "alike_list rt (v # vs) ws = (case ws of [] \<Rightarrow> False | w # ws' \<Rightarrow> alike rt v w \<and> alike_list rt vs ws')"
| "alike_entries rt [] ws = (ws = [])"
| "alike_entries rt ((k, v) # vs) ws =
     (case ws of [] \<Rightarrow> False
      | (l, w) # ws' \<Rightarrow> k = l \<and>
          (if isSecretKey rt k then describeSecret v = describeSecret w else alike rt v w) \<and>
          alike_entries rt vs ws')"

lemma redact_alike:
  "alike rt a b \<Longrightarrow> redact rt a depth = redact rt b depth"
  "alike_list rt vs ws \<Longrightarrow> redact_list rt vs depth = redact_list rt ws depth"
  "alike_entries rt es fs \<Longrightarrow> redact_entries rt es depth = redact_entries rt fs depth"
proof (induction rt a b and rt vs ws and rt es fs arbitrary: depth and depth and depth
    rule: alike_alike_list_alike_entries.induct)
  case (1 rt vs b)
  then show ?case by (cases "depth > 8") (auto split: jval.splits)
next
  case (2 rt vs b)
  then show ?case by (cases "depth > 8") (auto split: jval.splits)
next
  case (9 rt v vs ws)
  then show ?case by (cases ws) (auto split: option.splits)
next
  case (11 rt k v vs ws)
  then obtain w ws' where ws: "ws = (k, w) # ws'" by (auto split: list.splits prod.splits)
  have rest: "redact_entries rt vs depth = redact_entries rt ws' depth"
    using 11(2) [of "(k, w)" ws' k w] 11(3) ws by simp
  have "isSecretKey rt k \<or> redact rt v (depth + 1) = redact rt w (depth + 1)"
    using 11(1) [of "(k, w)" ws' k w] 11(3) ws by (cases "isSecretKey rt k") simp_all
  with rest 11(3) show ?case by (auto simp: ws split: option.splits)
qed simp_all

subsection \<open>The copy is shallow\<close>

fun nesting :: "jval \<Rightarrow> nat" where
  "nesting (JArr vs) = Suc (Max (insert 0 (set (map nesting vs))))"
| "nesting (JObj kvs) = Suc (Max (insert 0 (set (map (\<lambda>(k, v). nesting v) kvs))))"
| "nesting _ = 0"

lemma nesting_list_le: "(\<And>v. v \<in> set vs \<Longrightarrow> f v \<le> n) \<Longrightarrow> Max (insert 0 (f ` set vs)) \<le> (n :: nat)"
  by (subst Max_le_iff) auto

lemma redact_nesting:
  "redact rt v depth = Some r \<Longrightarrow> nesting r + depth \<le> 9 \<or> 8 < depth \<and> nesting r = 0"
  "redact_list rt vs d = Some rs \<Longrightarrow> \<forall>r\<in>set rs. nesting r + d \<le> 9 \<or> 8 < d \<and> nesting r = 0"
  "redact_entries rt es e = Some qs \<Longrightarrow> \<forall>(k, r)\<in>set qs. nesting r + e \<le> 8 \<or> nesting r = 0"
proof (induction rt v depth and rt vs d and rt es e arbitrary: r and rs and qs
    rule: redact_redact_list_redact_entries.induct)
  case (1 rt v depth)
  show ?case
  proof (cases "8 < depth")
    case True
    with 1 show ?thesis by auto
  next
    case False
    show ?thesis
    proof (cases v)
      case (JArr vs)
      then obtain rs where "redact_list rt vs (depth + 1) = Some rs" "r = JArr rs" using 1 False by auto
      moreover from this have "\<forall>x\<in>set rs. nesting x \<le> 8 - depth" using 1(1) False JArr by fastforce
      moreover from this obtain m where "Max (insert 0 (nesting ` set rs)) = m" "m \<le> 8 - depth"
        using nesting_list_le [of rs nesting "8 - depth"] by blast
      ultimately show ?thesis using False by auto
    next
      case (JObj es)
      then obtain qs where "redact_entries rt es depth = Some qs" "r = JObj qs" using 1 False by auto
      moreover from this have "\<forall>(k, x)\<in>set qs. nesting x \<le> 8 - depth" using 1(2) False JObj by fastforce
      moreover from this have "\<And>e. e \<in> set qs \<Longrightarrow> (\<lambda>(k, v). nesting v) e \<le> 8 - depth" by auto
      from nesting_list_le [of qs "\<lambda>(k, v). nesting v", OF this] obtain m
        where "Max (insert 0 ((\<lambda>(k, v). nesting v) ` set qs)) = m" "m \<le> 8 - depth" by blast
      ultimately show ?thesis using False by auto
    qed (use 1 False in auto)
  qed
next
  case (3 rt v vs depth)
  then show ?case by (fastforce split: option.splits)
next
  case (5 rt k v kvs depth)
  then obtain w qs' where w: "(if isSecretKey rt k then map_option JStr (describeSecret v)
      else redact rt v (depth + 1)) = Some w"
    "redact_entries rt kvs depth = Some qs'" "qs = out_entry k w qs'"
    by (auto split: option.splits)
  have "nesting w + depth \<le> 8 \<or> nesting w = 0"
    using w(1) 5(1) by (cases "isSecretKey rt k") auto
  then show ?case using w(2,3) 5(2) w(1) by (auto simp: out_entry_def split: if_splits)
qed auto

subsection \<open>Which payloads can be written\<close>

definition scalar :: "jval \<Rightarrow> bool" where
  "scalar v \<longleftrightarrow> (\<forall>kvs. v \<noteq> JObj kvs) \<and> (\<forall>vs. v \<noteq> JArr vs)"

lemma scalar_simps [simp]: "scalar (JStr s)" "scalar (JNum s)" "scalar (JBool b)" "scalar JNull" "scalar JUndef"
  by (simp_all add: scalar_def)

lemma redact_scalar: "scalar v \<Longrightarrow> redact rt v depth \<noteq> None"
  by (cases "depth > 8"; cases v) (simp_all add: scalar_def)

lemma describe_scalar: "scalar v \<Longrightarrow> describeSecret v \<noteq> None"
  by (cases v) (simp_all add: scalar_def describeSecret_def)

lemma redact_scalars: "list_all (\<lambda>(k, v). scalar v) kvs \<Longrightarrow> redact_entries rt kvs depth \<noteq> None"
proof (induction kvs)
  case (Cons kv kvs)
  obtain k v where kv: "kv = (k, v)" by fastforce
  with Cons.prems have "scalar v" by simp
  then show ?case
    using Cons redact_scalar [of v rt "depth + 1"] describe_scalar [of v] by (auto simp: kv split: option.splits)
qed simp

lemma redact_entries_some:
  "redact_entries rt kvs depth \<noteq> None \<longleftrightarrow>
     (\<forall>(k, v)\<in>set kvs. if isSecretKey rt k then describeSecret v \<noteq> None else redact rt v (depth + 1) \<noteq> None)"
  by (induction kvs) (auto split: option.splits if_splits)

text \<open>\<open>record\<close> redacts its payload before anything can be written: where that throws, so does the
  handler that called it.\<close>

definition written :: "runtime \<Rightarrow> (ustr \<times> jval) list \<Rightarrow> bool" where
  "written rt payload \<longleftrightarrow> redact_entries rt payload 0 \<noteq> None"

lemma written_iff:
  "written rt kvs \<longleftrightarrow>
     (\<forall>(k, v)\<in>set kvs. if isSecretKey rt k then describeSecret v \<noteq> None else redact rt v 1 \<noteq> None)"
  unfolding written_def redact_entries_some by simp

lemma written_scalars: "list_all (\<lambda>(k, v). scalar v) kvs \<Longrightarrow> written rt kvs"
  unfolding written_def by (rule redact_scalars)

lemma written_some: "written rt kvs \<longleftrightarrow> redact rt (JObj kvs) 0 \<noteq> None"
  by (simp add: written_def)

end
