(* ===== verification/Concurrency.thy ===== *)
theory Concurrency
  imports Registry
begin

text \<open>
  Registry calls that interleave. The event loop runs one request until its next await, so a
  state of the system (\<open>system\<close>) is the store, the calls made so far and, for each of them,
  the program that is left of it; a step (\<open>sys_step\<close>) makes a new call or lets one call
  perform its next store operation. Which call moves is not determined.

  Two components of the state are for the proofs only: \<open>sys_calls\<close>, which call each program
  came from, and \<open>sys_log\<close>, every successful write with the number of the call that made it.

  \<open>sys_inv\<close> is the invariant: the log has no two entries with the same proposal and version,
  the store holds the newest entry of each proposal, each entry is well-formed and was
  allowed to its call (\<open>may_write\<close>), and a program can only ever write successors of records
  it has read (\<open>safe\<close>). It holds in every reachable state, for any number of calls, any
  arguments, any clock readings and any schedule.
\<close>

datatype call =
    Propose call_env propose_input
  | View call_env ustr
  | Confirm call_env ustr ustr ustr
  | Reject call_env ustr
  | Execute call_env ustr
  | Fail call_env ustr ustr

datatype outcome =
    Proposed "propose_output result"
  | Viewed "proposal option"
  | Moved "proposal result"

fun program :: "runtime \<Rightarrow> int \<Rightarrow> call \<Rightarrow> outcome store_prog" where
  "program rt ttl (Propose env input) = map_store_prog Proposed (reg_propose rt ttl env input)"
| "program rt ttl (View env i) = map_store_prog Viewed (reg_getForConfirmation env i)"
| "program rt ttl (Confirm env i code dig) = map_store_prog Moved (reg_confirm rt env i code dig)"
| "program rt ttl (Reject env i) = map_store_prog Moved (reg_reject env i)"
| "program rt ttl (Execute env i) = map_store_prog Moved (reg_execute rt env i)"
| "program rt ttl (Fail env i reason) = map_store_prog Moved (reg_fail env i reason)"

text \<open>A fresh id is never empty (\<open>prop_\<close> and a UUID by default).\<close>

fun call_ok :: "call \<Rightarrow> bool" where
  "call_ok (Propose env input) = (ce_newId env \<noteq> [])"
| "call_ok _ = True"

text \<open>One awaited operation, with what it wrote.\<close>

fun await_step :: "'s store_ops \<Rightarrow> 's \<Rightarrow> 'r store_prog \<Rightarrow> 's \<times> 'r store_prog \<times> proposal option" where
  "await_step ops s (Done r) = (s, Done r, None)"
| "await_step ops s (AwaitGet i k) = (s, k (so_get ops s i), None)"
| "await_step ops s (AwaitFind key k) = (s, k (so_find ops s key), None)"
| "await_step ops s (AwaitInsert p k) =
     (case so_insert ops s p of (s', r) \<Rightarrow> (s', k r, if is_ok r then Some p else None))"
| "await_step ops s (AwaitCas q v k) =
     (case so_cas ops s q v of (s', r) \<Rightarrow> (s', k r, if is_ok r then Some q else None))"

record 's system =
  sys_store :: 's
  sys_calls :: "call list"
  sys_pool :: "outcome store_prog list"
  sys_log :: "(nat \<times> proposal) list"

definition sys_start :: "'s \<Rightarrow> 's system" where
  "sys_start s = \<lparr>sys_store = s, sys_calls = [], sys_pool = [], sys_log = []\<rparr>"

definition sys_call :: "runtime \<Rightarrow> int \<Rightarrow> call \<Rightarrow> 's system \<Rightarrow> 's system" where
  "sys_call rt ttl c S = S\<lparr>sys_calls := sys_calls S @ [c], sys_pool := sys_pool S @ [program rt ttl c]\<rparr>"

definition sys_tick :: "'s store_ops \<Rightarrow> nat \<Rightarrow> 's system \<Rightarrow> 's system" where
  "sys_tick ops i S =
     (case await_step ops (sys_store S) (sys_pool S ! i) of
        (s', prog, w) \<Rightarrow>
          S\<lparr>sys_store := s', sys_pool := (sys_pool S)[i := prog],
            sys_log := sys_log S @ (case w of None \<Rightarrow> [] | Some p \<Rightarrow> [(i, p)])\<rparr>)"

inductive sys_step :: "runtime \<Rightarrow> int \<Rightarrow> 's store_ops \<Rightarrow> 's system \<Rightarrow> 's system \<Rightarrow> bool"
  for rt :: runtime and ttl :: int and ops :: "'s store_ops" where
  make_call: "call_ok c \<Longrightarrow> sys_step rt ttl ops S (sys_call rt ttl c S)"
| resume: "i < length (sys_pool S) \<Longrightarrow> sys_step rt ttl ops S (sys_tick ops i S)"

inductive reachable :: "runtime \<Rightarrow> int \<Rightarrow> 's store_ops \<Rightarrow> 's \<Rightarrow> 's system \<Rightarrow> bool"
  for rt :: runtime and ttl :: int and ops :: "'s store_ops" and s0 :: 's where
  start: "reachable rt ttl ops s0 (sys_start s0)"
| step: "reachable rt ttl ops s0 S \<Longrightarrow> sys_step rt ttl ops S T \<Longrightarrow> reachable rt ttl ops s0 T"

inductive_cases sys_stepE: "sys_step rt ttl ops S T"

subsection \<open>What a call may write and return\<close>

text \<open>The code a call presented, and whether it is the right one for a record.\<close>

definition presents :: "runtime \<Rightarrow> call \<Rightarrow> proposal \<Rightarrow> bool" where
  "presents rt c p \<longleftrightarrow> (case c of
     Confirm env i code dig \<Rightarrow> i = p_id p \<and>
       safeEqualHex (hashLinkCode rt code) (p_linkCodeHash p) \<and> safeEqualHex dig (p_payloadDigest p)
   | _ \<Rightarrow> False)"

fun proposes :: "runtime \<Rightarrow> call \<Rightarrow> proposal \<Rightarrow> bool" where
  "proposes rt (Propose env input) p \<longleftrightarrow>
     validateMessageDraft rt (pi_payload input) = Ok (p_payload p) \<and>
     p_idempotencyKey p = pi_idempotencyKey input \<and> p_id p = ce_newId env \<and>
     p_linkCodeHash p = hashLinkCode rt (ce_newLinkCode env)"
| "proposes rt _ p \<longleftrightarrow> False"

lemma proposes_propose: "proposes rt c p \<Longrightarrow> \<exists>env input. c = Propose env input"
  by (cases c) simp_all

fun is_reject :: "call \<Rightarrow> proposal \<Rightarrow> bool" where
  "is_reject (Reject env i) p \<longleftrightarrow> i = p_id p"
| "is_reject _ p \<longleftrightarrow> False"

definition may_write :: "runtime \<Rightarrow> call \<Rightarrow> proposal \<Rightarrow> bool" where
  "may_write rt c q \<longleftrightarrow>
     (p_state q = Pending_confirmation \<longrightarrow> proposes rt c q) \<and>
     (p_state q = Confirmed \<longrightarrow> presents rt c q) \<and>
     (p_state q = Rejected \<longrightarrow> is_reject c q)"

text \<open>The record a finished call claims to have written.\<close>

fun claimed :: "outcome \<Rightarrow> proposal option" where
  "claimed (Proposed (Ok out)) = (if po_deduplicated out then None else Some (po_proposal out))"
| "claimed (Moved (Ok p)) = Some p"
| "claimed _ = None"

lemma claimed_err [simp]: "claimed (Proposed (err c m)) = None" "claimed (Moved (err c m)) = None"
  by (simp_all add: err_def)

text \<open>A proposal reported as new is in its first version.\<close>

fun new_version :: "outcome \<Rightarrow> bool" where
  "new_version (Proposed (Ok out)) = (po_deduplicated out \<or> p_version (po_proposal out) = 1)"
| "new_version _ = True"

lemma new_version_err [simp]: "new_version (Proposed (err c m))" "new_version (Moved r)"
  by (simp_all add: err_def)

text \<open>\<open>safe rt c known won prog\<close>: having read the records \<open>known\<close> and written \<open>won\<close>, what is
  left of call \<open>c\<close> writes only what it may, and only successors of what it has read.\<close>

primrec safe :: "runtime \<Rightarrow> call \<Rightarrow> proposal set \<Rightarrow> proposal set \<Rightarrow> outcome store_prog \<Rightarrow> bool" where
  "safe rt c known won (Done r) \<longleftrightarrow> (\<forall>p. claimed r = Some p \<longrightarrow> p \<in> won) \<and> new_version r"
| "safe rt c known won (AwaitGet i k) \<longleftrightarrow>
     (\<forall>found. (\<forall>p. found = Some p \<longrightarrow> p_id p = i) \<longrightarrow>
        safe rt c (known \<union> set_option found) won (k found))"
| "safe rt c known won (AwaitFind key k) \<longleftrightarrow>
     (\<forall>found. safe rt c (known \<union> set_option found) won (k found))"
| "safe rt c known won (AwaitInsert p k) \<longleftrightarrow>
     wf_proposal rt p \<and> p_version p = 1 \<and> p_id p \<noteq> [] \<and> may_write rt c p \<and>
     safe rt c known (insert p won) (k (Ok p)) \<and> (\<forall>e. safe rt c known won (k (Err e)))"
| "safe rt c known won (AwaitCas q v k) \<longleftrightarrow>
     (\<exists>p\<in>known. p_version p = v \<and> successor p q) \<and> may_write rt c q \<and>
     safe rt c known (insert q won) (k (Ok q)) \<and> (\<forall>e. safe rt c known won (k (Err e)))"

lemma may_write_later:
  "p_state q \<notin> {Pending_confirmation, Confirmed, Rejected} \<Longrightarrow> may_write rt c q"
  by (auto simp: may_write_def)

lemma safe_propose: "ce_newId env \<noteq> [] \<Longrightarrow> safe rt (Propose env input) {} {} (program rt ttl (Propose env input))"
  by (auto simp: reg_propose_def Let_def createProposal_wf may_write_def split: result.splits option.splits)

lemma safe_view: "safe rt (View env i) {} {} (program rt ttl (View env i))"
  by (auto simp: reg_getForConfirmation_def split: option.splits)

lemma safe_confirm: "safe rt (Confirm env i code dig) {} {} (program rt ttl (Confirm env i code dig))"
proof -
  have "may_write rt (Confirm env (p_id p) code dig) q"
    if "confirm rt clk p \<lparr>ci_linkCode = code, ci_seenDigest = dig, ci_now = n\<rparr> = Ok q" for p q clk n
    using that by (auto simp: may_write_def presents_def confirm_Ok_iff)
  moreover have "successor p (expireIfDue clk p n)"
    if "p_version (expireIfDue clk p n) \<noteq> p_version p" for clk p n
    using that expireIfDue_successor by metis
  ultimately show ?thesis
    by (auto simp: reg_confirm_def no_such_proposal_def Let_def may_write_later
        intro: operation_successor split: option.splits result.splits)
qed

lemma safe_reject: "safe rt (Reject env i) {} {} (program rt ttl (Reject env i))"
proof -
  have "may_write rt (Reject env (p_id p)) q" if "reject clk p n = Ok q" for p q clk n
    using that by (auto simp: may_write_def reject_Ok_iff)
  then show ?thesis
    by (auto simp: reg_reject_def no_such_proposal_def intro: operation_successor
        split: option.splits result.splits)
qed

lemma safe_execute: "safe rt (Execute env i) {} {} (program rt ttl (Execute env i))"
  by (auto simp: reg_execute_def no_such_proposal_def markExecuted_Ok_iff
      intro!: may_write_later successor_applied split: option.splits result.splits)

lemma safe_fail: "safe rt (Fail env i reason) {} {} (program rt ttl (Fail env i reason))"
  by (auto simp: reg_fail_def no_such_proposal_def markFailed_Ok_iff
      intro!: may_write_later successor_applied split: option.splits result.splits)

lemma safe_program: "call_ok c \<Longrightarrow> safe rt c {} {} (program rt ttl c)"
  by (cases c) (simp_all del: program.simps add: safe_propose safe_view safe_confirm safe_reject
      safe_execute safe_fail)

subsection \<open>The invariant\<close>

definition same_slot :: "proposal \<Rightarrow> ustr \<times> nat" where
  "same_slot p = (p_id p, p_version p)"

definition log_inv ::
  "runtime \<Rightarrow> (ustr \<Rightarrow> proposal option) \<Rightarrow> call list \<Rightarrow> (nat \<times> proposal) list \<Rightarrow> bool" where
  "log_inv rt stored calls log \<longleftrightarrow>
     (\<forall>(i, p)\<in>set log. wf_proposal rt p \<and> i < length calls \<and> may_write rt (calls ! i) p) \<and>
     (\<forall>(i, p)\<in>set log. \<exists>c. stored (p_id p) = Some c \<and> p_version p \<le> p_version c \<and> same_artifact p c) \<and>
     (\<forall>i p. stored i = Some p \<longrightarrow> p_id p = i \<and> p \<in> snd ` set log) \<and>
     (\<forall>(i, q)\<in>set log. p_version q = 1 \<or> (\<exists>(j, p)\<in>set log. successor p q)) \<and>
     distinct (map (\<lambda>(i, p). same_slot p) log)"

definition thread_inv ::
  "runtime \<Rightarrow> call list \<Rightarrow> (nat \<times> proposal) list \<Rightarrow> nat \<Rightarrow> outcome store_prog \<Rightarrow> bool" where
  "thread_inv rt calls log t prog \<longleftrightarrow>
     (\<exists>known won. known \<subseteq> snd ` set log \<and> (\<forall>p\<in>won. (t, p) \<in> set log) \<and>
        safe rt (calls ! t) known won prog)"

definition sys_inv :: "runtime \<Rightarrow> 's store_ops \<Rightarrow> ('s \<Rightarrow> bool) \<Rightarrow> 's system \<Rightarrow> bool" where
  "sys_inv rt ops store_ok S \<longleftrightarrow>
     store_ok (sys_store S) \<and> length (sys_pool S) = length (sys_calls S) \<and>
     log_inv rt (so_get ops (sys_store S)) (sys_calls S) (sys_log S) \<and>
     (\<forall>t < length (sys_pool S). thread_inv rt (sys_calls S) (sys_log S) t (sys_pool S ! t))"

lemma log_inv_wf: "log_inv rt g calls log \<Longrightarrow> (i, p) \<in> set log \<Longrightarrow>
    wf_proposal rt p \<and> i < length calls \<and> may_write rt (calls ! i) p"
  by (auto simp: log_inv_def)

lemma log_inv_newest: "log_inv rt g calls log \<Longrightarrow> (i, p) \<in> set log \<Longrightarrow>
    \<exists>c. g (p_id p) = Some c \<and> p_version p \<le> p_version c \<and> same_artifact p c"
  by (auto simp: log_inv_def)

lemma log_inv_stored: "log_inv rt g calls log \<Longrightarrow> g i = Some p \<Longrightarrow> p_id p = i \<and> (\<exists>j. (j, p) \<in> set log)"
  unfolding log_inv_def by fastforce

lemma log_inv_parent: "log_inv rt g calls log \<Longrightarrow> (i, q) \<in> set log \<Longrightarrow> p_version q \<noteq> 1 \<Longrightarrow>
    \<exists>j p. (j, p) \<in> set log \<and> successor p q"
  unfolding log_inv_def by fastforce

lemma distinct_map_eq:
  "distinct (map f xs) \<Longrightarrow> x \<in> set xs \<Longrightarrow> y \<in> set xs \<Longrightarrow> f x = f y \<Longrightarrow> x = y"
  by (auto simp: distinct_map inj_on_def)

lemma log_inv_unique:
  assumes "log_inv rt g calls log" "(i, p) \<in> set log" "(j, q) \<in> set log"
    and "p_id p = p_id q" "p_version p = p_version q"
  shows "i = j \<and> p = q"
proof -
  have "distinct (map (\<lambda>(i, p). same_slot p) log)" using assms(1) by (simp add: log_inv_def)
  from distinct_map_eq [OF this assms(2,3)] assms(4,5) show ?thesis
    by (simp add: same_slot_def)
qed

lemma log_inv_call: "log_inv rt g calls log \<Longrightarrow> log_inv rt g (calls @ [c]) log"
  unfolding log_inv_def by (auto simp: nth_append)

lemma log_inv_write:
  assumes L: "log_inv rt g calls log" and wf: "wf_proposal rt q"
    and c: "i < length calls" "may_write rt (calls ! i) q"
    and fresh: "\<And>j p. (j, p) \<in> set log \<Longrightarrow> p_id p = p_id q \<Longrightarrow>
      p_version p < p_version q \<and> same_artifact p q"
    and parent: "p_version q = 1 \<or> (\<exists>(j, p)\<in>set log. successor p q)"
  shows "log_inv rt (g(p_id q \<mapsto> q)) calls (log @ [(i, q)])"
proof -
  let ?g = "g(p_id q \<mapsto> q)" and ?log = "log @ [(i, q)]"
  have slot: "same_slot q \<notin> (\<lambda>(i, p). same_slot p) ` set log"
    using fresh by (force simp: same_slot_def)
  have newest: "\<exists>c. ?g (p_id p) = Some c \<and> p_version p \<le> p_version c \<and> same_artifact p c"
    if "(j, p) \<in> set ?log" for j p
  proof (cases "p = q")
    case True
    then show ?thesis by (simp add: same_artifact_def)
  next
    case False
    with that have j: "(j, p) \<in> set log" by simp
    then show ?thesis
      using fresh [OF j] log_inv_newest [OF L j] by (cases "p_id p = p_id q") auto
  qed
  show ?thesis
    unfolding log_inv_def
  proof (intro conjI)
    show "\<forall>(j, p)\<in>set ?log. wf_proposal rt p \<and> j < length calls \<and> may_write rt (calls ! j) p"
      using L wf c by (auto simp: log_inv_def)
    show "\<forall>(j, p)\<in>set ?log. \<exists>c. ?g (p_id p) = Some c \<and> p_version p \<le> p_version c \<and> same_artifact p c"
      using newest by blast
    show "\<forall>j p. ?g j = Some p \<longrightarrow> p_id p = j \<and> p \<in> snd ` set ?log"
      using L by (auto simp: log_inv_def split: if_splits)
    show "\<forall>(j, r)\<in>set ?log. p_version r = 1 \<or> (\<exists>(k, p)\<in>set ?log. successor p r)"
      using L parent by (auto simp: log_inv_def)
    show "distinct (map (\<lambda>(i, p). same_slot p) ?log)"
      using L slot by (simp add: log_inv_def)
  qed
qed

lemma thread_inv_mono: "thread_inv rt calls log t prog \<Longrightarrow> thread_inv rt calls (log @ l) t prog"
  unfolding thread_inv_def by (elim exE conjE, intro exI conjI) auto

lemma thread_inv_call: "t < length calls \<Longrightarrow> thread_inv rt (calls @ [c]) log t prog = thread_inv rt calls log t prog"
  by (simp add: thread_inv_def nth_append)

lemma thread_inv_at: "sys_inv rt ops ok S \<Longrightarrow> t < length (sys_pool S) \<Longrightarrow>
    thread_inv rt (sys_calls S) (sys_log S) t (sys_pool S ! t)"
  by (simp add: sys_inv_def)

lemma sys_inv_call: "sys_inv rt ops ok S \<Longrightarrow> call_ok c \<Longrightarrow> sys_inv rt ops ok (sys_call rt ttl c S)"
proof -
  assume S: "sys_inv rt ops ok S" and c: "call_ok c"
  have "thread_inv rt (sys_calls S @ [c]) (sys_log S) (length (sys_calls S)) (program rt ttl c)"
    using safe_program [OF c, of rt ttl] by (auto simp: thread_inv_def intro!: exI [of _ "{}"])
  then show ?thesis
    using S by (auto simp: sys_inv_def sys_call_def nth_append log_inv_call thread_inv_call less_Suc_eq)
qed

text \<open>A step of thread \<open>t\<close> that leaves the store alone, and one that writes.\<close>

lemma sys_inv_resume:
  assumes S: "sys_inv rt ops ok S" and t: "t < length (sys_pool S)"
    and store: "ok s'" "log_inv rt (so_get ops s') (sys_calls S) (sys_log S @ l)"
    and thread: "thread_inv rt (sys_calls S) (sys_log S @ l) t prog"
  shows "sys_inv rt ops ok
    (S\<lparr>sys_store := s', sys_pool := (sys_pool S)[t := prog], sys_log := sys_log S @ l\<rparr>)"
  using S t store thread
  by (auto simp: sys_inv_def nth_list_update thread_inv_mono)

lemma thread_inv_safe:
  assumes "thread_inv rt calls log t prog"
  obtains known won where "known \<subseteq> snd ` set log" "\<forall>p\<in>won. (t, p) \<in> set log"
    "safe rt (calls ! t) known won prog"
  using assms by (auto simp: thread_inv_def)

lemma thread_invI:
  "known \<subseteq> snd ` set log \<Longrightarrow> \<forall>p\<in>won. (t, p) \<in> set log \<Longrightarrow> safe rt (calls ! t) known won prog \<Longrightarrow>
     thread_inv rt calls log t prog"
  by (auto simp: thread_inv_def)

context proposal_store begin

lemma found_known:
  assumes "sys_inv rt ops inv S" "known \<subseteq> snd ` set (sys_log S)"
    and "\<And>p. found = Some p \<Longrightarrow> so_get ops (sys_store S) (p_id p) = Some p"
  shows "known \<union> set_option found \<subseteq> snd ` set (sys_log S)"
proof -
  have L: "log_inv rt (so_get ops (sys_store S)) (sys_calls S) (sys_log S)"
    using assms(1) by (simp add: sys_inv_def)
  have "p \<in> snd ` set (sys_log S)" if "found = Some p" for p
    using log_inv_stored [OF L assms(3) [OF that]] by force
  with assms(2) show ?thesis by auto
qed

text \<open>What a successful write of a call does to the store.\<close>

lemma insert_writes:
  assumes S: "sys_inv rt ops inv S" and t: "t < length (sys_pool S)"
    and prog: "sys_pool S ! t = AwaitInsert p k"
    and ins: "so_insert ops (sys_store S) p = (s', Ok v)"
  shows "v = p \<and> so_get ops (sys_store S) (p_id p) = None \<and> inv s' \<and>
    so_get ops s' = (so_get ops (sys_store S))(p_id p \<mapsto> p) \<and>
    wf_proposal rt p \<and> p_version p = 1 \<and> may_write rt (sys_calls S ! t) p"
proof -
  have safe: "wf_proposal rt p \<and> p_version p = 1 \<and> p_id p \<noteq> [] \<and> may_write rt (sys_calls S ! t) p"
    using thread_inv_at [OF S t] prog by (auto elim: thread_inv_safe)
  have "inv (sys_store S)" using S by (simp add: sys_inv_def)
  from insert_spec [OF this _ ins] safe show ?thesis by (auto split: if_splits)
qed

lemma cas_writes:
  assumes S: "sys_inv rt ops inv S" and t: "t < length (sys_pool S)"
    and prog: "sys_pool S ! t = AwaitCas q v k"
    and cas: "so_cas ops (sys_store S) q v = (s', Ok w)"
  obtains i p where "w = q" "so_get ops (sys_store S) (p_id q) = Some p" "successor p q" "inv s'"
    "so_get ops s' = (so_get ops (sys_store S))(p_id q \<mapsto> q)" "(i, p) \<in> set (sys_log S)"
    "may_write rt (sys_calls S ! t) q"
proof -
  let ?s = "sys_store S"
  have L: "log_inv rt (so_get ops ?s) (sys_calls S) (sys_log S)" and "inv ?s"
    using S by (auto simp: sys_inv_def)
  obtain p where p: "so_get ops ?s (p_id q) = Some p" "p_version p = v" "w = q"
    "so_get ops s' = (so_get ops ?s)(p_id q \<mapsto> q)" "p_idempotencyKey q = p_idempotencyKey p \<Longrightarrow> inv s'"
    using cas_Ok [OF \<open>inv ?s\<close> cas] by blast
  obtain known won where kw: "known \<subseteq> snd ` set (sys_log S)"
    and safe: "safe rt (sys_calls S ! t) known won (AwaitCas q v k)"
    using thread_inv_at [OF S t] unfolding prog by (rule thread_inv_safe)
  then obtain j c where c: "(j, c) \<in> set (sys_log S)" "p_version c = v" "successor c q"
    by (auto dest: subsetD)
  obtain i where i: "(i, p) \<in> set (sys_log S)" "p_id p = p_id q"
    using log_inv_stored [OF L p(1)] by blast
  have "p_id c = p_id q" using c(3) by (auto simp: successor_def same_artifact_def)
  then have "c = p" using log_inv_unique [OF L c(1) i(1)] c(2) p(2) i(2) by simp
  with c have suc: "successor p q" by simp
  moreover have "inv s'" using p(5) suc by (simp add: successor_def same_artifact_def)
  moreover have "may_write rt (sys_calls S ! t) q" using safe by simp
  ultimately show ?thesis using that p i by blast
qed

lemma sys_inv_insert:
  assumes S: "sys_inv rt ops inv S" and t: "t < length (sys_pool S)"
    and prog: "sys_pool S ! t = AwaitInsert p k"
  shows "sys_inv rt ops inv (sys_tick ops t S)"
proof -
  let ?s = "sys_store S"
  obtain s' r where ins: "so_insert ops ?s p = (s', r)" by fastforce
  obtain known won where kw: "known \<subseteq> snd ` set (sys_log S)" "\<forall>p\<in>won. (t, p) \<in> set (sys_log S)"
    and safe: "safe rt (sys_calls S ! t) known won (AwaitInsert p k)"
    using thread_inv_at [OF S t] prog by (auto elim: thread_inv_safe)
  have L: "log_inv rt (so_get ops ?s) (sys_calls S) (sys_log S)" and "inv ?s"
    and tc: "t < length (sys_calls S)"
    using S t by (auto simp: sys_inv_def)
  show ?thesis
  proof (cases r)
    case (Ok v)
    note w = insert_writes [OF S t prog ins [unfolded Ok]]
    have "log_inv rt (so_get ops s') (sys_calls S) (sys_log S @ [(t, p)])"
      using w log_inv_newest [OF L] by (auto intro!: log_inv_write [OF L _ tc]) force+
    moreover have "thread_inv rt (sys_calls S) (sys_log S @ [(t, p)]) t (k r)"
      using safe kw w by (intro thread_invI [of known _ "insert p won"]) (auto simp: Ok)
    ultimately show ?thesis
      using sys_inv_resume [OF S t] w ins Ok by (simp add: sys_tick_def prog)
  next
    case (Err e)
    then have "s' = ?s" using insert_refused [OF \<open>inv ?s\<close>, of p s' e] ins safe by auto
    moreover have "thread_inv rt (sys_calls S) (sys_log S @ []) t (k r)"
      using safe kw Err by (intro thread_invI [of known _ won]) auto
    ultimately show ?thesis
      using sys_inv_resume [OF S t \<open>inv ?s\<close>, of "[]"] L ins Err by (simp add: sys_tick_def prog)
  qed
qed

lemma sys_inv_cas:
  assumes S: "sys_inv rt ops inv S" and t: "t < length (sys_pool S)"
    and prog: "sys_pool S ! t = AwaitCas q v k"
  shows "sys_inv rt ops inv (sys_tick ops t S)"
proof -
  let ?s = "sys_store S"
  obtain s' r where cas: "so_cas ops ?s q v = (s', r)" by fastforce
  obtain known won where kw: "known \<subseteq> snd ` set (sys_log S)" "\<forall>p\<in>won. (t, p) \<in> set (sys_log S)"
    and safe: "safe rt (sys_calls S ! t) known won (AwaitCas q v k)"
    using thread_inv_at [OF S t] prog by (auto elim: thread_inv_safe)
  have L: "log_inv rt (so_get ops ?s) (sys_calls S) (sys_log S)" and "inv ?s"
    and tc: "t < length (sys_calls S)"
    using S t by (auto simp: sys_inv_def)
  show ?thesis
  proof (cases r)
    case (Ok w)
    obtain i p where p: "w = q" "so_get ops ?s (p_id q) = Some p" "successor p q" "inv s'"
      "so_get ops s' = (so_get ops ?s)(p_id q \<mapsto> q)" "(i, p) \<in> set (sys_log S)"
      by (rule cas_writes [OF S t prog cas [unfolded Ok]])
    have fresh: "p_version r < p_version q \<and> same_artifact r q"
      if "(j, r) \<in> set (sys_log S)" "p_id r = p_id q" for j r
      using log_inv_newest [OF L that(1)] that(2) p(2,3)
      by (auto simp: successor_def same_artifact_def)
    have "wf_proposal rt q" using log_inv_wf [OF L p(6)] p(3) successor_wf by blast
    then have "log_inv rt (so_get ops s') (sys_calls S) (sys_log S @ [(t, q)])"
      unfolding p(5) using safe fresh p(3,6) by (intro log_inv_write [OF L _ tc]) auto
    moreover have "thread_inv rt (sys_calls S) (sys_log S @ [(t, q)]) t (k r)"
      using safe kw by (intro thread_invI [of known _ "insert q won"]) (auto simp: Ok p(1))
    ultimately show ?thesis
      using sys_inv_resume [OF S t p(4)] cas Ok by (simp add: sys_tick_def prog)
  next
    case (Err e)
    then have "s' = ?s" using cas_refused [OF \<open>inv ?s\<close>] cas by blast
    moreover have "thread_inv rt (sys_calls S) (sys_log S @ []) t (k r)"
      using safe kw Err by (intro thread_invI [of known _ won]) auto
    ultimately show ?thesis
      using sys_inv_resume [OF S t \<open>inv ?s\<close>, of "[]"] L cas Err by (simp add: sys_tick_def prog)
  qed
qed

lemma sys_inv_tick:
  assumes S: "sys_inv rt ops inv S" and t: "t < length (sys_pool S)"
  shows "sys_inv rt ops inv (sys_tick ops t S)"
proof -
  let ?s = "sys_store S"
  have L: "log_inv rt (so_get ops ?s) (sys_calls S) (sys_log S @ [])" and "inv ?s"
    using S by (auto simp: sys_inv_def)
  note still = sys_inv_resume [OF S t \<open>inv ?s\<close> L]
  obtain known won where kw: "known \<subseteq> snd ` set (sys_log S)" "\<forall>p\<in>won. (t, p) \<in> set (sys_log S)"
    and safe: "safe rt (sys_calls S ! t) known won (sys_pool S ! t)"
    using thread_inv_at [OF S t] by (auto elim: thread_inv_safe)
  show ?thesis
  proof (cases "sys_pool S ! t")
    case (Done r)
    then show ?thesis using still [of "Done r"] thread_inv_at [OF S t] by (simp add: sys_tick_def)
  next
    case (AwaitGet i k)
    then have "thread_inv rt (sys_calls S) (sys_log S @ []) t (k (so_get ops ?s i))"
      using safe kw get_id [OF \<open>inv ?s\<close>] found_known [OF S kw(1), of "so_get ops ?s i"]
      by (intro thread_invI [of "known \<union> set_option (so_get ops ?s i)" _ won]) auto
    with AwaitGet show ?thesis using still by (simp add: sys_tick_def)
  next
    case (AwaitFind key k)
    then have "thread_inv rt (sys_calls S) (sys_log S @ []) t (k (so_find ops ?s key))"
      using safe kw find_iff [OF \<open>inv ?s\<close>] found_known [OF S kw(1), of "so_find ops ?s key"]
      by (intro thread_invI [of "known \<union> set_option (so_find ops ?s key)" _ won]) auto
    with AwaitFind show ?thesis using still by (simp add: sys_tick_def)
  qed (use sys_inv_insert [OF S t] sys_inv_cas [OF S t] in auto)
qed

text \<open>Every reachable state satisfies the invariant, from an empty store.\<close>

lemma reachable_inv:
  assumes "reachable rt ttl ops s0 S" and "inv s0" "so_get ops s0 = Map.empty"
  shows "sys_inv rt ops inv S"
  using assms
proof (induction rule: reachable.induct)
  case start
  then show ?case by (simp add: sys_inv_def sys_start_def log_inv_def)
next
  case (step S T)
  from step.hyps(2) step.IH [OF step.prems] show ?case
    by (elim sys_stepE) (auto intro: sys_inv_call sys_inv_tick)
qed

end

subsection \<open>Consequences of the invariant\<close>

lemma claimed_logged:
  assumes "sys_inv rt ops ok S" "t < length (sys_pool S)" "sys_pool S ! t = Done r" "claimed r = Some p"
  shows "(t, p) \<in> set (sys_log S)"
  using thread_inv_at [OF assms(1,2)] assms(3,4) by (auto elim!: thread_inv_safe)

lemma sys_inv_log: "sys_inv rt ops ok S \<Longrightarrow> log_inv rt (so_get ops (sys_store S)) (sys_calls S) (sys_log S)"
  by (simp add: sys_inv_def)

lemma claimed_once:
  assumes S: "sys_inv rt ops ok S"
    and t: "t < length (sys_pool S)" "sys_pool S ! t = Done r" "claimed r = Some p"
    and u: "u < length (sys_pool S)" "sys_pool S ! u = Done r'" "claimed r' = Some q"
    and same: "p_id p = p_id q" "stage (p_state p) = stage (p_state q)"
  shows "t = u \<and> p = q"
proof -
  note p = claimed_logged [OF S t] and q = claimed_logged [OF S u] and L = sys_inv_log [OF S]
  have "p_version p = p_version q"
    using log_inv_wf [OF L p] log_inv_wf [OF L q] same(2) wf_stage [of rt p] wf_stage [of rt q] by simp
  then show ?thesis by (rule log_inv_unique [OF L p q same(1)])
qed

text \<open>Every entry descends from the entry that proposed it.\<close>

lemma log_ancestor:
  assumes L: "log_inv rt g calls log"
  shows "(i, q) \<in> set log \<Longrightarrow> v \<le> p_version q \<Longrightarrow> 1 \<le> v \<Longrightarrow>
    \<exists>j p. (j, p) \<in> set log \<and> p_version p = v \<and> same_artifact p q"
proof (induction "p_version q" arbitrary: i q rule: less_induct)
  case less
  show ?case
  proof (cases "p_version q = v")
    case True
    with less.prems(1) show ?thesis by (auto simp: same_artifact_def)
  next
    case False
    with less.prems have "p_version q \<noteq> 1" by simp
    from log_inv_parent [OF L less.prems(1) this] obtain j p where p: "(j, p) \<in> set log" "successor p q"
      by blast
    then have "p_version p < p_version q" "v \<le> p_version p"
      using less.prems(2) False by (auto simp: successor_def)
    from less.hyps [OF this(1) p(1) this(2) less.prems(3)] obtain k a
      where "(k, a) \<in> set log" "p_version a = v" "same_artifact a p" by blast
    then show ?thesis using p(2) by (auto simp: successor_def same_artifact_def)
  qed
qed

lemma presents_artifact: "same_artifact p q \<Longrightarrow> presents rt c p = presents rt c q"
  by (cases c) (auto simp: presents_def same_artifact_def)

lemma proposes_artifact: "same_artifact p q \<Longrightarrow> proposes rt c p = proposes rt c q"
  by (cases c) (auto simp: same_artifact_def)

lemma stored_proposed:
  assumes S: "sys_inv rt ops ok S" and p: "so_get ops (sys_store S) i = Some p"
  shows "\<exists>c\<in>set (sys_calls S). proposes rt c p"
proof -
  note L = sys_inv_log [OF S]
  obtain j where j: "(j, p) \<in> set (sys_log S)" using log_inv_stored [OF L p] by blast
  then have "1 \<le> p_version p" using log_inv_wf [OF L j] wf_stage [of rt p] by simp
  from log_ancestor [OF L j this order_refl] obtain k a
    where a: "(k, a) \<in> set (sys_log S)" "p_version a = 1" "same_artifact a p" by blast
  have "p_state a = Pending_confirmation"
    using log_inv_wf [OF L a(1)] a(2) wf_stage [of rt a] by simp
  then have "k < length (sys_calls S) \<and> proposes rt (sys_calls S ! k) a"
    using log_inv_wf [OF L a(1)] by (simp add: may_write_def)
  with a(3) show ?thesis by (metis nth_mem proposes_artifact)
qed

lemma trail_confirmed:
  assumes "wf_proposal rt p" "wf_proposal rt a" "successor a p" "stage (p_state p) = 3"
  shows "p_state a = Confirmed"
  using assms
  by (auto elim!: successorE step_allowed_cases simp: stage_def split: if_splits)

lemma stored_presented:
  assumes S: "sys_inv rt ops ok S" and p: "so_get ops (sys_store S) i = Some p"
    and st: "p_state p \<in> {Confirmed, Executed, Failed}"
  shows "\<exists>c\<in>set (sys_calls S). presents rt c p"
proof -
  note L = sys_inv_log [OF S]
  obtain j where j: "(j, p) \<in> set (sys_log S)" using log_inv_stored [OF L p] by blast
  have "\<exists>k a. (k, a) \<in> set (sys_log S) \<and> p_state a = Confirmed \<and> same_artifact a p"
  proof (cases "p_state p = Confirmed")
    case True
    with j show ?thesis by (auto simp: same_artifact_def)
  next
    case False
    with st have three: "stage (p_state p) = 3" by (auto simp: stage_def)
    then have "p_version p \<noteq> 1" using log_inv_wf [OF L j] wf_stage [of rt p] by auto
    from log_inv_parent [OF L j this] obtain k a where a: "(k, a) \<in> set (sys_log S)" "successor a p"
      by blast
    then show ?thesis
      using trail_confirmed [OF _ _ a(2) three] log_inv_wf [OF L j] log_inv_wf [OF L a(1)]
      by (auto simp: successor_def)
  qed
  then obtain k a where a: "(k, a) \<in> set (sys_log S)" "p_state a = Confirmed" "same_artifact a p"
    by blast
  then have "k < length (sys_calls S) \<and> presents rt (sys_calls S ! k) a"
    using log_inv_wf [OF L a(1)] by (simp add: may_write_def)
  with a(3) show ?thesis by (metis nth_mem presents_artifact)
qed

lemma proposed_logged:
  assumes "sys_inv rt ops ok S" "t < length (sys_pool S)"
    and "sys_pool S ! t = Done (Proposed (Ok out))" "\<not> po_deduplicated out"
  shows "(t, po_proposal out) \<in> set (sys_log S) \<and> p_version (po_proposal out) = 1"
  using claimed_logged [OF assms(1-3)] thread_inv_at [OF assms(1,2)] assms(3,4)
  by (auto elim!: thread_inv_safe)

subsection \<open>Every call ends\<close>

fun finishes :: "nat \<Rightarrow> 'r store_prog \<Rightarrow> bool" where
  "finishes n (Done r) = True"
| "finishes 0 _ = False"
| "finishes (Suc n) (AwaitGet i k) = (\<forall>x. finishes n (k x))"
| "finishes (Suc n) (AwaitFind key k) = (\<forall>x. finishes n (k x))"
| "finishes (Suc n) (AwaitInsert p k) = (\<forall>x. finishes n (k x))"
| "finishes (Suc n) (AwaitCas q v k) = (\<forall>x. finishes n (k x))"

lemma finishes_await: "finishes (Suc n) prog \<Longrightarrow> finishes n (fst (snd (await_step ops s prog)))"
  by (cases prog) (auto split: prod.splits)

lemma program_finishes: "finishes 2 (program rt ttl c)"
  by (cases c)
    (auto simp: registry_defs Let_def numeral_2_eq_2 split: result.splits option.splits)

text \<open>\<open>n\<close> turns of the program of one call, in stores that others may have changed meanwhile.\<close>

fun turns :: "'s store_ops \<Rightarrow> 's list \<Rightarrow> 'r store_prog \<Rightarrow> 'r store_prog" where
  "turns ops [] prog = prog"
| "turns ops (s # ss) prog = turns ops ss (fst (snd (await_step ops s prog)))"

lemma finishes_turns: "finishes n prog \<Longrightarrow> length ss = n \<Longrightarrow> \<exists>r. turns ops ss prog = Done r"
proof (induction ss arbitrary: n prog)
  case Nil
  then show ?case by (cases prog) auto
next
  case (Cons s ss)
  then show ?case by (cases n) (auto dest: finishes_await)
qed

end
