(* ===== verification/Fixtures.thy ===== *)
theory Fixtures
  imports Validation StateMachine
begin

text \<open>
  Concrete inputs for the witnesses: the message draft the program's own tests use
  (apps/action-gateway/src/domain/test-fixture.ts) and a small runtime whose hash is the sum
  and the length of its input, two bytes.
\<close>

definition TEST_MESSAGE :: message_draft where
  "TEST_MESSAGE = \<lparr>md_orderId = lit ''ord_e2e_fixture'', md_orderSlug = lit ''ceramic-mug-e2e'',
     md_merchantId = lit ''00000000-0000-4000-8000-000000000001'',
     md_body = lit ''Your order is awaiting payment.'', md_locale = lit ''en'',
     md_paymentStatus = lit ''AWAITING_PAYMENT''\<rparr>"

definition demo_rt :: runtime where
  "demo_rt = \<lparr>rt_upper = (\<lambda>s. s), rt_lower = (\<lambda>s. s),
     rt_sha256 = (\<lambda>s. [word_of_nat (sum_list s), word_of_nat (length s)])\<rparr>"

definition demo_code :: ustr where
  "demo_code = lit ''ABC234''"

definition demo_proposal :: proposal where
  "demo_proposal = createProposal demo_rt 0
     \<lparr>cr_id = lit ''prop_1'', cr_payload = TEST_MESSAGE, cr_linkCode = demo_code,
      cr_idempotencyKey = lit ''key-1'', cr_ttlSeconds = 300, cr_now = Some 1000\<rparr>"

definition demo_confirmed :: proposal where
  "demo_confirmed = applied 2000 demo_proposal Confirmed (lit ''confirmed by human'') Human"

lemma demo_digest_nonempty [simp]: "rt_sha256 demo_rt s \<noteq> []"
  by (simp add: demo_rt_def)

text \<open>The units of a literal, and the character classes of the validator, for evaluation by
  simplification.\<close>

lemmas char_class_defs = lit_def alnum_def lower_alnum_def is_digit_def is_word_def is_ws_def
  is_control_def fold_unit_def

lemma TEST_MESSAGE_fields [simp]:
  "md_orderId TEST_MESSAGE = lit ''ord_e2e_fixture''"
  "md_orderSlug TEST_MESSAGE = lit ''ceramic-mug-e2e''"
  "md_merchantId TEST_MESSAGE = lit ''00000000-0000-4000-8000-000000000001''"
  "md_body TEST_MESSAGE = lit ''Your order is awaiting payment.''"
  "md_locale TEST_MESSAGE = lit ''en''"
  "md_paymentStatus TEST_MESSAGE = lit ''AWAITING_PAYMENT''"
  by (simp_all add: TEST_MESSAGE_def)

lemma demo_body_clean: "clean_text (lit ''Your order is awaiting payment.'')"
  by (simp add: clean_text_def char_class_defs)

lemma demo_body_honest: "\<not> PAID_CLAIM_RE_test (lit ''Your order is awaiting payment.'')"
  by (simp add: PAID_CLAIM_RE_test_def phrase_here_def persian_here_def claim_phrases_def
      persian_stems_def persian_done_def boundary_def head_of_def word_at_def char_class_defs)

lemma demo_merchant: "merchant_id_re (lit ''00000000-0000-4000-8000-000000000001'')"
  by (simp add: lit_def merchant_id_re_def hex_val_def)

lemma demo_draft_ok: "draft_ok TEST_MESSAGE"
proof -
  have "order_id_re (lit ''ord_e2e_fixture'')" by (simp add: order_id_re_def char_class_defs)
  moreover have "slug_re (lit ''ceramic-mug-e2e'')" by (simp add: slug_re_def char_class_defs)
  ultimately show ?thesis
    by (simp add: draft_ok_def demo_merchant demo_body_honest LOCALES_def PAYMENT_STATUSES_def
        MAX_BODY_LEN_def)
qed

lemma demo_valid: "validateMessageDraft demo_rt TEST_MESSAGE = Ok TEST_MESSAGE"
proof -
  have "js_trim (md_merchantId TEST_MESSAGE) = md_merchantId TEST_MESSAGE"
    by (intro js_trim_no_ws) (simp add: char_class_defs)
  then have "normal_draft demo_rt TEST_MESSAGE = TEST_MESSAGE"
    by (intro normal_draft_id) (simp_all add: demo_draft_ok demo_body_clean)
  then show ?thesis by (simp add: validateMessageDraft_Ok_iff demo_draft_ok)
qed

lemma demo_proposal_fields [simp]:
  "p_state demo_proposal = Pending_confirmation" "p_id demo_proposal = lit ''prop_1''"
  "p_payload demo_proposal = TEST_MESSAGE" "p_createdAt demo_proposal = 1000"
  "p_expiresAt demo_proposal = 301000" "p_idempotencyKey demo_proposal = lit ''key-1''"
  "p_payloadDigest demo_proposal = digestPayload demo_rt TEST_MESSAGE"
  "p_linkCodeHash demo_proposal = hashLinkCode demo_rt demo_code"
  "p_version demo_proposal = 1"
  by (simp_all add: demo_proposal_def)

lemma demo_wf: "wf_proposal demo_rt demo_proposal"
  by (simp add: demo_proposal_def createProposal_wf)

lemma safeEqualHex_digest [simp]:
  "safeEqualHex (digestPayload demo_rt p) (digestPayload demo_rt p)"
  "safeEqualHex (hashLinkCode demo_rt c) (hashLinkCode demo_rt c)"
  by (simp_all add: digestPayload_def hashLinkCode_def)

lemma demo_confirm:
  "confirm demo_rt 2000 demo_proposal
     \<lparr>ci_linkCode = demo_code, ci_seenDigest = digestPayload demo_rt TEST_MESSAGE, ci_now = Some 2000\<rparr>
   = Ok demo_confirmed"
  by (simp add: confirm_Ok_iff live_def demo_confirmed_def)

lemma demo_confirmed_wf: "wf_proposal demo_rt demo_confirmed"
  by (rule successor_wf [OF demo_wf operation_successor(1) [OF demo_confirm]])

end
