(* ===== verification/RegistryProps.thy ===== *)
theory RegistryProps
  imports Concurrency Fixtures
begin

text \<open>
  The properties of the registry over the in-memory store: safety of every interleaving of
  calls, and the outcome of an undisturbed sequence. Those over \<open>reachable\<close> rest on the
  invariant that \<open>mem.reachable_inv\<close> gives for the code's own store.
\<close>

subsection \<open>A concrete history\<close>

definition demo_env :: call_env where
  "demo_env = \<lparr>ce_newId = lit ''prop_1'', ce_newLinkCode = demo_code, ce_now = 1000,
     ce_later = 1000, ce_clock = 0\<rparr>"

definition demo_env2 :: call_env where
  "demo_env2 = \<lparr>ce_newId = lit ''prop_2'', ce_newLinkCode = demo_code, ce_now = 2000,
     ce_later = 2000, ce_clock = 2000\<rparr>"

definition demo_input :: propose_input where
  "demo_input = \<lparr>pi_payload = TEST_MESSAGE, pi_idempotencyKey = lit ''key-1''\<rparr>"

definition demo_propose :: call where
  "demo_propose = Propose demo_env demo_input"

definition demo_confirm_call :: call where
  "demo_confirm_call = Confirm demo_env2 (lit ''prop_1'') demo_code (digestPayload demo_rt TEST_MESSAGE)"

definition demo_execute_call :: call where
  "demo_execute_call = Execute demo_env2 (lit ''prop_1'')"

abbreviation demo_reachable :: "mem_store system \<Rightarrow> bool" where
  "demo_reachable \<equiv> reachable demo_rt 300 mem_ops mem_empty"

definition demo_stored :: "proposal \<Rightarrow> mem_store" where
  "demo_stored p = \<lparr>ms_byId = [lit ''prop_1'' \<mapsto> p], ms_byIdempotency = [lit ''key-1'' \<mapsto> lit ''prop_1'']\<rparr>"

definition demo_output :: propose_output where
  "demo_output = \<lparr>po_proposal = demo_proposal, po_linkCode = demo_code, po_deduplicated = False\<rparr>"

definition demo_sys1 :: "mem_store system" where
  "demo_sys1 = \<lparr>sys_store = demo_stored demo_proposal, sys_calls = [demo_propose],
     sys_pool = [Done (Proposed (Ok demo_output))], sys_log = [(0, demo_proposal)]\<rparr>"

definition demo_sys2 :: "mem_store system" where
  "demo_sys2 = \<lparr>sys_store = demo_stored demo_confirmed, sys_calls = [demo_propose, demo_confirm_call],
     sys_pool = [Done (Proposed (Ok demo_output)), Done (Moved (Ok demo_confirmed))],
     sys_log = [(0, demo_proposal), (1, demo_confirmed)]\<rparr>"

lemma reachable_call: "reachable rt ttl ops s0 S \<Longrightarrow> call_ok c \<Longrightarrow> reachable rt ttl ops s0 (sys_call rt ttl c S)"
  by (rule reachable.step [OF _ sys_step.make_call])

lemma reachable_tick: "reachable rt ttl ops s0 S \<Longrightarrow> i < length (sys_pool S) \<Longrightarrow>
    reachable rt ttl ops s0 (sys_tick ops i S)"
  by (rule reachable.step [OF _ sys_step.resume])

lemma demo_create:
  "createProposal demo_rt 0
     \<lparr>cr_id = lit ''prop_1'', cr_payload = TEST_MESSAGE, cr_linkCode = demo_code,
      cr_idempotencyKey = lit ''key-1'', cr_ttlSeconds = 300, cr_now = Some 1000\<rparr> = demo_proposal"
  by (simp add: demo_proposal_def)

lemma demo_key_trim: "js_trim (lit ''key-1'') \<noteq> []"
  by (subst js_trim_no_ws) (simp_all add: lit_def is_ws_def)

lemma demo_reachable1: "demo_reachable demo_sys1"
proof -
  let ?S = "sys_tick mem_ops 0 (sys_tick mem_ops 0 (sys_call demo_rt 300 demo_propose (sys_start mem_empty)))"
  have "demo_reachable ?S"
    by (intro reachable_tick reachable_call reachable.start)
      (simp_all add: demo_propose_def demo_env_def sys_call_def sys_start_def sys_tick_def split: prod.splits)
  moreover have "?S = demo_sys1"
    by (simp add: sys_call_def sys_start_def sys_tick_def demo_propose_def demo_input_def demo_env_def
        reg_propose_def demo_valid demo_key_trim mem_defs mem_empty_def demo_create demo_sys1_def
        demo_stored_def demo_output_def Let_def is_ok_def)
  ultimately show ?thesis by simp
qed

lemma demo_confirmed_fields [simp]: "p_id demo_confirmed = lit ''prop_1''"
  "p_state demo_confirmed = Confirmed" "p_version demo_confirmed = 2"
  "p_payload demo_confirmed = TEST_MESSAGE" "p_idempotencyKey demo_confirmed = lit ''key-1''"
  by (simp_all add: demo_confirmed_def)

lemma demo_reachable2: "demo_reachable demo_sys2"
proof -
  let ?S = "sys_tick mem_ops 1 (sys_tick mem_ops 1 (sys_call demo_rt 300 demo_confirm_call demo_sys1))"
  have "demo_reachable ?S"
    by (intro reachable_tick reachable_call demo_reachable1)
      (simp_all add: demo_confirm_call_def sys_call_def sys_tick_def demo_sys1_def split: prod.splits)
  moreover have "?S = demo_sys2"
    using demo_confirm
    by (simp add: sys_call_def sys_tick_def demo_confirm_call_def demo_env2_def reg_confirm_def
        demo_sys1_def demo_sys2_def mem_defs demo_stored_def is_ok_def)
  ultimately show ?thesis by simp
qed

definition demo_done :: proposal where
  "demo_done = applied 2000 demo_confirmed Executed
     (lit ''simulated execution '' @ execution_reference demo_rt (lit ''prop_1'')) System"

definition demo_sys3 :: "mem_store system" where
  "demo_sys3 = \<lparr>sys_store = demo_stored demo_done,
     sys_calls = [demo_propose, demo_confirm_call, demo_execute_call],
     sys_pool = [Done (Proposed (Ok demo_output)), Done (Moved (Ok demo_confirmed)),
       Done (Moved (Ok demo_done))],
     sys_log = [(0, demo_proposal), (1, demo_confirmed), (2, demo_done)]\<rparr>"

lemma demo_done_fields [simp]: "p_id demo_done = lit ''prop_1''" "p_state demo_done = Executed"
  "p_idempotencyKey demo_done = lit ''key-1''"
  by (simp_all add: demo_done_def)

lemma demo_reachable3: "demo_reachable demo_sys3"
proof -
  let ?S = "sys_tick mem_ops 2 (sys_tick mem_ops 2 (sys_call demo_rt 300 demo_execute_call demo_sys2))"
  have "demo_reachable ?S"
    by (intro reachable_tick reachable_call demo_reachable2)
      (simp_all add: demo_execute_call_def sys_call_def sys_tick_def demo_sys2_def split: prod.splits)
  moreover have "?S = demo_sys3"
    using markExecuted_Ok_iff [of 2000 demo_confirmed "execution_reference demo_rt (lit ''prop_1'')" demo_done]
    by (simp add: sys_call_def sys_tick_def demo_execute_call_def demo_env2_def reg_execute_def
        demo_sys2_def demo_sys3_def mem_defs demo_stored_def is_ok_def demo_done_def)
  ultimately show ?thesis by simp
qed

text \<open>Two confirmations that race: both read the pending proposal before either writes.\<close>

definition demo_race :: "mem_store system" where
  "demo_race = \<lparr>sys_store = demo_stored demo_confirmed,
     sys_calls = [demo_propose, demo_confirm_call, demo_confirm_call],
     sys_pool = [Done (Proposed (Ok demo_output)), Done (Moved (Ok demo_confirmed)),
       Done (Moved (err VERSION_CONFLICT (lit ''this proposal was modified concurrently'')))],
     sys_log = [(0, demo_proposal), (1, demo_confirmed)]\<rparr>"

lemma demo_reachable_race: "demo_reachable demo_race"
proof -
  let ?R = "sys_tick mem_ops 2 (sys_tick mem_ops 1
    (sys_call demo_rt 300 demo_confirm_call (sys_call demo_rt 300 demo_confirm_call demo_sys1)))"
  let ?S = "sys_tick mem_ops 2 (sys_tick mem_ops 1 ?R)"
  have "demo_reachable ?S"
    by (intro reachable_tick reachable_call demo_reachable1)
      (simp_all add: demo_confirm_call_def sys_call_def sys_tick_def demo_sys1_def split: prod.splits)
  moreover have "?S = demo_race"
    using demo_confirm
    by (simp add: sys_call_def sys_tick_def demo_confirm_call_def demo_env2_def reg_confirm_def
        demo_sys1_def demo_race_def mem_defs demo_stored_def is_ok_def)
  ultimately show ?thesis by simp
qed

text \<open>The invariant on the code's own store.\<close>

lemma mem_sys_inv: "reachable rt ttl mem_ops mem_empty S \<Longrightarrow> sys_inv rt mem_ops mem_inv S"
  by (rule mem.reachable_inv [OF _ mem_inv_empty])
    (simp_all add: mem_ops_def mem_get_def mem_empty_def fun_eq_iff)

lemma mem_get_ops [simp]: "so_get mem_ops = mem_get"
  by (simp add: mem_ops_def)

lemma mem_log: "reachable rt ttl mem_ops mem_empty S \<Longrightarrow>
    log_inv rt (mem_get (sys_store S)) (sys_calls S) (sys_log S)"
  using sys_inv_log [OF mem_sys_inv] by simp

lemma mem_stored_wf:
  assumes "reachable rt ttl mem_ops mem_empty S" "mem_get (sys_store S) i = Some p"
  shows "wf_proposal rt p \<and> p_id p = i"
  using log_inv_stored [OF mem_log [OF assms(1)] assms(2)] log_inv_wf [OF mem_log [OF assms(1)]] by blast

subsection \<open>Safety of every interleaving\<close>

text \<open>C1: the agent cannot approve. In any interleaving of any number of registry calls, a
  stored proposal that is confirmed, executed or failed was presented, by a confirmation call
  for that proposal, with a code whose hash is the stored hash and with a digest equal to the
  stored digest.\<close>

theorem approval_needs_code:
  assumes "reachable rt ttl mem_ops mem_empty S" "mem_get (sys_store S) i = Some p"
    and "p_state p \<in> {Confirmed, Executed, Failed}"
  shows "\<exists>env code dig. Confirm env i code dig \<in> set (sys_calls S) \<and>
    safeEqualHex (hashLinkCode rt code) (p_linkCodeHash p) \<and> safeEqualHex dig (p_payloadDigest p)"
proof -
  obtain c where c: "c \<in> set (sys_calls S)" "presents rt c p"
    using stored_presented [OF mem_sys_inv [OF assms(1)], of i p] assms(2,3) by auto
  moreover have "p_id p = i" using mem_stored_wf [OF assms(1,2)] by simp
  ultimately show ?thesis by (auto simp: presents_def split: call.splits)
qed

theorem approval_needs_code_witness:
  "\<exists>env code dig. Confirm env (lit ''prop_1'') code dig \<in> set (sys_calls demo_sys2) \<and>
    safeEqualHex (hashLinkCode demo_rt code) (p_linkCodeHash demo_confirmed) \<and>
    safeEqualHex dig (p_payloadDigest demo_confirmed)"
  by (rule approval_needs_code [OF demo_reachable2])
    (simp_all add: demo_sys2_def demo_stored_def mem_get_def)

text \<open>C9: what is stored was validated, and is what was proposed. Every stored proposal has a
  well-formed audit trail, carries the idempotency key of a call that proposed it, and its
  payload is what the validator returned for the payload of that call.\<close>

theorem stored_was_validated:
  assumes "reachable rt ttl mem_ops mem_empty S" "mem_get (sys_store S) i = Some p"
  shows "wf_proposal rt p \<and> draft_ok (p_payload p) \<and> clean_text (md_body (p_payload p)) \<and>
    (\<exists>env input. Propose env input \<in> set (sys_calls S) \<and>
       validateMessageDraft rt (pi_payload input) = Ok (p_payload p) \<and>
       pi_idempotencyKey input = p_idempotencyKey p)"
proof -
  obtain c where c: "c \<in> set (sys_calls S)" "proposes rt c p"
    using stored_proposed [OF mem_sys_inv [OF assms(1)], of i p] assms(2) by auto
  from c(2) obtain env input where "c = Propose env input"
    "validateMessageDraft rt (pi_payload input) = Ok (p_payload p)"
    "pi_idempotencyKey input = p_idempotencyKey p"
    by (cases c) auto
  moreover from this(2) have "draft_ok (p_payload p) \<and> clean_text (md_body (p_payload p))"
    using sanitizeBody_clean by (auto simp: validateMessageDraft_Ok_iff normal_draft_def)
  ultimately show ?thesis using c(1) mem_stored_wf [OF assms] by blast
qed

theorem stored_was_validated_witness: "draft_ok (p_payload demo_proposal)"
  by (rule stored_was_validated [OF demo_reachable1, of "lit ''prop_1''", THEN conjunct2, THEN conjunct1])
    (simp add: demo_sys1_def demo_stored_def mem_get_def)

text \<open>C8: what an executed proposal went through, in any interleaving of registry calls: a stored
  proposal that is executed has exactly three audit records: proposed by the agent, confirmed
  by a human, executed by the system, in its third version; one of the calls made proposed its
  draft under its idempotency key, and one presented a code and a digest that match it. So
  nothing is executed without a human confirmation, and nobody else appears in its trail.\<close>

theorem executed_trail:
  assumes "reachable rt ttl mem_ops mem_empty S" "mem_get (sys_store S) i = Some p"
    and "p_state p = Executed"
  shows "map (\<lambda>h. (tr_from h, tr_to h, tr_actor h)) (p_history p) =
      [(Pending_confirmation, Pending_confirmation, Agent), (Pending_confirmation, Confirmed, Human),
       (Confirmed, Executed, System)] \<and>
    p_version p = 3 \<and>
    (\<exists>env input. Propose env input \<in> set (sys_calls S) \<and> proposes rt (Propose env input) p) \<and>
    (\<exists>env code dig. Confirm env i code dig \<in> set (sys_calls S) \<and> presents rt (Confirm env i code dig) p)"
proof (intro conjI)
  note wf = mem_stored_wf [OF assms(1,2)]
  note inv = mem_sys_inv [OF assms(1)]
  have got: "so_get mem_ops (sys_store S) i = Some p" using assms(2) by simp
  show "map (\<lambda>h. (tr_from h, tr_to h, tr_actor h)) (p_history p) =
      [(Pending_confirmation, Pending_confirmation, Agent), (Pending_confirmation, Confirmed, Human),
       (Confirmed, Executed, System)]"
    by (rule executed_history [OF wf [THEN conjunct1] assms(3)])
  show "p_version p = 3" using wf wf_stage [of rt p] assms(3) by (simp add: stage_def)
  show "\<exists>env input. Propose env input \<in> set (sys_calls S) \<and> proposes rt (Propose env input) p"
    using stored_proposed [OF inv got] proposes_propose by metis
  obtain c where "c \<in> set (sys_calls S)" "presents rt c p"
    using stored_presented [OF inv got] assms(3) by auto
  then show "\<exists>env code dig. Confirm env i code dig \<in> set (sys_calls S) \<and> presents rt (Confirm env i code dig) p"
    using wf by (auto simp: presents_def split: call.splits)
qed

theorem executed_trail_witness:
  "map tr_actor (p_history demo_done) = [Agent, Human, System] \<and>
    (\<exists>env code dig. Confirm env (lit ''prop_1'') code dig \<in> set (sys_calls demo_sys3) \<and>
       safeEqualHex (hashLinkCode demo_rt code) (p_linkCodeHash demo_done))"
proof -
  have stored: "mem_get (sys_store demo_sys3) (lit ''prop_1'') = Some demo_done" "p_state demo_done = Executed"
    by (simp_all add: demo_sys3_def demo_stored_def mem_get_def)
  note life = executed_trail [OF demo_reachable3 stored]
  from life [THEN conjunct1] have "map tr_actor (p_history demo_done) = [Agent, Human, System]"
    by (auto simp: map_eq_Cons_conv)
  moreover from life [THEN conjunct2, THEN conjunct2, THEN conjunct2]
  have "\<exists>env code dig. Confirm env (lit ''prop_1'') code dig \<in> set (sys_calls demo_sys3) \<and>
       safeEqualHex (hashLinkCode demo_rt code) (p_linkCodeHash demo_done)"
    by (auto simp: presents_def)
  ultimately show ?thesis by simp
qed

text \<open>C2: every proposal is decided once and executed once. If two finished calls to confirm,
  reject, execute or fail both report success on the same proposal at the same stage of its life
  (confirmed or rejected; executed or failed), they are the same call with the same result: of
  racing confirmations, or of a confirmation racing a rejection, at most one wins. The witness
  is a race: two confirmations with the right code both read the pending proposal before either
  writes, and the calls that report it decided are exactly the first one.\<close>

theorem one_winner:
  assumes "reachable rt ttl mem_ops mem_empty S"
    and "t < length (sys_pool S)" "sys_pool S ! t = Done (Moved (Ok p))"
    and "u < length (sys_pool S)" "sys_pool S ! u = Done (Moved (Ok q))"
    and "p_id p = p_id q" "stage (p_state p) = stage (p_state q)"
  shows "t = u \<and> p = q"
  by (rule claimed_once [OF mem_sys_inv [OF assms(1)] assms(2,3) _ assms(4,5) _ assms(6,7)]) simp_all

theorem one_winner_witness:
  "sys_calls demo_race = [demo_propose, demo_confirm_call, demo_confirm_call] \<and>
   {u. u < length (sys_pool demo_race) \<and> (\<exists>q. sys_pool demo_race ! u = Done (Moved (Ok q)) \<and>
         p_id q = lit ''prop_1'' \<and> stage (p_state q) = stage Confirmed)} = {1}"
proof -
  have first: "1 < length (sys_pool demo_race)" "sys_pool demo_race ! 1 = Done (Moved (Ok demo_confirmed))"
    by (simp_all add: demo_race_def)
  have "u = 1" if "u < length (sys_pool demo_race)" "sys_pool demo_race ! u = Done (Moved (Ok q))"
    "p_id q = lit ''prop_1''" "stage (p_state q) = stage Confirmed" for u q
    using one_winner [OF demo_reachable_race first that(1,2)] that(3,4) by simp
  moreover have "p_id demo_confirmed = lit ''prop_1'' \<and> stage (p_state demo_confirmed) = stage Confirmed"
    by simp
  ultimately show ?thesis using first by (auto simp: demo_race_def)
qed

text \<open>C11: an idempotency key creates at most one proposal, whatever the schedule: two finished
  calls that both report a new proposal under the same key are the same call.\<close>

theorem one_proposal_per_key:
  assumes "reachable rt ttl mem_ops mem_empty S"
    and "t < length (sys_pool S)" "sys_pool S ! t = Done (Proposed (Ok a))" "\<not> po_deduplicated a"
    and "u < length (sys_pool S)" "sys_pool S ! u = Done (Proposed (Ok b))" "\<not> po_deduplicated b"
    and "p_idempotencyKey (po_proposal a) = p_idempotencyKey (po_proposal b)"
  shows "t = u \<and> po_proposal a = po_proposal b"
proof -
  let ?g = "so_get mem_ops (sys_store S)"
  note I = mem_sys_inv [OF assms(1)]
  note L = sys_inv_log [OF I]
  note pv = proposed_logged [OF I assms(2-4)] and qv = proposed_logged [OF I assms(5-7)]
  note p = pv [THEN conjunct1] and q = qv [THEN conjunct1]
  obtain c d where "?g (p_id (po_proposal a)) = Some c" "same_artifact (po_proposal a) c"
    "?g (p_id (po_proposal b)) = Some d" "same_artifact (po_proposal b) d"
    using log_inv_newest [OF L p] log_inv_newest [OF L q] by blast
  moreover have "mem_inv (sys_store S)" using I by (simp add: sys_inv_def)
  ultimately have "p_id (po_proposal a) = p_id (po_proposal b)"
    using mem.key_unique assms(8) unfolding same_artifact_def by metis
  then show ?thesis using log_inv_unique [OF L p q] pv qv by simp
qed

theorem one_proposal_per_key_witness: "demo_proposal = po_proposal demo_output"
  using one_proposal_per_key [OF demo_reachable1, of 0 demo_output 0 demo_output]
  by (simp add: demo_sys1_def demo_output_def)

text \<open>No registry call waits for ever: two turns of the event loop finish it.\<close>

lemma calls_end: "\<exists>r. turns ops [s1, s2] (program rt ttl c) = Done r"
  by (rule finishes_turns [OF program_finishes]) simp

subsection \<open>Undisturbed calls\<close>

text \<open>A replayed proposal gives nothing away: when the key is known, proposing again
  returns the stored proposal with an empty link code and leaves the store as it is.\<close>

lemma replay_issues_no_code:
  assumes "validateMessageDraft rt (pi_payload input) = Ok v"
    and "mem_findByIdempotencyKey s (pi_idempotencyKey input) = Some p"
    and "js_trim (pi_idempotencyKey input) \<noteq> []"
  shows "run mem_ops (reg_propose rt ttl env input) s =
    (s, Ok \<lparr>po_proposal = p, po_linkCode = [], po_deduplicated = True\<rparr>)"
  by (rule mem.run_propose_dedup [OF assms(1,3)]) (simp add: assms(2) mem_ops_def)

text \<open>The code a human is given can be typed back: it has six characters, none of them
  among the confusable I, L, O, 0 and 1, and white space around it and lower case letters do
  not change what is hashed.\<close>

lemma link_code_typed:
  assumes "list_all is_ws a" "list_all is_ws b" "ascii a" "ascii b"
  shows "length (generateLinkCode bytes) = 6 \<and>
    set (generateLinkCode bytes) \<inter> set (lit ''ILO01'') = {} \<and>
    hashLinkCode rt (a @ map lower_unit (generateLinkCode bytes) @ b) =
      hashLinkCode rt (generateLinkCode bytes)"
proof (intro conjI)
  let ?c = "generateLinkCode bytes"
  have sub: "set ?c \<subseteq> set ALPHABET" by (rule generateLinkCode_units)
  show "set ?c \<inter> set (lit ''ILO01'') = {}"
    using sub by (auto simp: lit_def dest!: subsetD [OF sub] set_ALPHABET)
  have "normal_code rt (a @ map lower_unit ?c @ b) = ?c"
    by (rule ALPHABET_code_normal [OF sub assms])
  moreover have "normal_code rt ?c = ?c"
  proof -
    have "js_trim ?c = ?c"
      using sub by (intro js_trim_no_ws) (fastforce simp: list_all_iff is_ws_def dest: set_ALPHABET)
    moreover have "js_upper rt ?c = ?c"
      using sub by (intro js_upper_id) (fastforce simp: list_all_iff dest: set_ALPHABET)
    ultimately show ?thesis by (simp add: normal_code_def)
  qed
  ultimately show "hashLinkCode rt (a @ map lower_unit ?c @ b) = hashLinkCode rt ?c"
    by (simp add: hashLinkCode_def)
qed simp

theorem link_code_typed_witness:
  "hashLinkCode demo_rt (lit '' '' @ map lower_unit (generateLinkCode [1, 2, 3, 4, 5, 6]) @ lit ''  '') =
    hashLinkCode demo_rt (generateLinkCode [1, 2, 3, 4, 5, 6])"
  using link_code_typed [of "lit '' ''" "lit ''  ''" "[1, 2, 3, 4, 5, 6]" demo_rt]
  by (simp add: lit_def is_ws_def ascii_def)

end
