(* ===== verification/ApiProps.thy ===== *)
theory ApiProps
  imports ConfirmationApi Redact RegistryProps
begin

text \<open>
  The properties of the confirmation channel and of the log redaction, with their witnesses.
\<close>

subsection \<open>Confirmation over HTTP\<close>

definition demo_api :: "mem_store api_state" where
  "demo_api = new_api (demo_stored demo_proposal)"

definition demo_request :: request_env where
  "demo_request = \<lparr>re_now1 = 2000, re_now2 = 2000, re_first = demo_env2, re_second = demo_env2,
     re_third = demo_env2\<rparr>"

definition confirm_body :: "ustr \<Rightarrow> ustr \<Rightarrow> jval" where
  "confirm_body code dig = JObj [(lit ''linkCode'', JStr code), (lit ''payloadDigest'', JStr dig)]"

lemma prop_of_confirm_body [simp]:
  "prop_of (confirm_body code dig) (lit ''linkCode'') = JStr code"
  "prop_of (confirm_body code dig) (lit ''payloadDigest'') = JStr dig"
  by (simp_all add: confirm_body_def)

lemma demo_stored_inv: "p_id p = lit ''prop_1'' \<Longrightarrow> p_idempotencyKey p = lit ''key-1'' \<Longrightarrow>
    mem_inv (demo_stored p)"
  by (auto simp: mem_inv_def demo_stored_def)

lemma demo_stored_get [simp]: "mem_get (demo_stored p) (lit ''prop_1'') = Some p"
  by (simp add: demo_stored_def mem_get_def)

lemma demo_api_simps [simp]: "as_store demo_api = demo_stored demo_proposal"
  "as_limiter demo_api = default_limiter" "as_global demo_api = default_global_limiter"
  by (simp_all add: demo_api_def new_api_def)

lemma admit_fresh: "al_attempts l = Map.empty \<Longrightarrow> al_attempts g = Map.empty \<Longrightarrow>
    \<exists>l' g'. admit l g i t u = (l', g', True)"
  by (simp add: admit_def consume_def Let_def)

lemma not_safeEqualHex_Nil [simp]: "\<not> safeEqualHex [] x"
  by (simp add: safeEqualHex_iff)

lemma demo_admitted: "\<exists>l g. admit default_limiter default_global_limiter i t u = (l, g, True)"
  by (rule admit_fresh) (simp_all add: default_limiter_def default_global_limiter_def new_limiter_def)

text \<open>The confirmation of a stored proposal by a request that was admitted.\<close>

lemma api_confirm_admitted:
  assumes "mem_inv (as_store a)" "mem_get (as_store a) i = Some p"
    and "admit (as_limiter a) (as_global a) i (re_now1 env) (re_now2 env) = (l, g, True)"
  shows "case confirm rt (ce_clock (re_first env)) p
      \<lparr>ci_linkCode = code, ci_seenDigest = dig, ci_now = Some (ce_now (re_first env))\<rparr> of
    Err e \<Rightarrow> reply_status (snd (api_confirm rt mem_ops env i (confirm_body code dig) a)) = Some (statusFor e) \<and>
      mem_get (as_store (fst (api_confirm rt mem_ops env i (confirm_body code dig) a))) i =
        Some (expireIfDue (ce_clock (re_first env)) p (ce_later (re_first env)))
  | Ok q \<Rightarrow> reply_status (snd (api_confirm rt mem_ops env i (confirm_body code dig) a)) = Some 200 \<and>
      mem_get (as_store (fst (api_confirm rt mem_ops env i (confirm_body code dig) a))) i =
        Some (applied (ce_clock (re_second env)) q Executed
          (lit ''simulated execution '' @ execution_reference rt i) System)"
proof -
  let ?a = "a\<lparr>as_limiter := l, as_global := g\<rparr>"
  let ?c = "confirm rt (ce_clock (re_first env)) p
      \<lparr>ci_linkCode = code, ci_seenDigest = dig, ci_now = Some (ce_now (re_first env))\<rparr>"
  have st: "mem_inv (as_store ?a)" "so_get mem_ops (as_store ?a) i = Some p" using assms by simp_all
  show ?thesis
  proof (cases ?c)
    case (Ok q)
    from mem.confirm_and_execute_Ok [OF st Ok] show ?thesis
      by (auto simp: Ok api_confirm_def assms(3) Let_def)
  next
    case (Err e)
    from mem.confirm_and_execute_Err [OF st Err] show ?thesis
      by (auto simp: Err api_confirm_def assms(3) Let_def)
  qed
qed

text \<open>C26: an admitted confirmation request is answered 200 exactly when the stored proposal is
  pending, before its deadline, and both the code and the digest are right; then the stored
  proposal is executed, with the draft it had.\<close>

theorem confirm_request_decision:
  assumes "mem_inv (as_store a)" "mem_get (as_store a) i = Some p"
    and "admit (as_limiter a) (as_global a) i (re_now1 env) (re_now2 env) = (l, g, True)"
    and "(a', r) = api_confirm rt mem_ops env i (confirm_body code dig) a"
  shows "(reply_status r = Some 200 \<longleftrightarrow>
      p_state p = Pending_confirmation \<and> ce_now (re_first env) < p_expiresAt p \<and>
      safeEqualHex (hashLinkCode rt code) (p_linkCodeHash p) \<and> safeEqualHex dig (p_payloadDigest p)) \<and>
    (reply_status r = Some 200 \<longrightarrow>
      (\<exists>q. mem_get (as_store a') i = Some q \<and> p_state q = Executed \<and> p_payload q = p_payload p))"
proof -
  let ?c = "confirm rt (ce_clock (re_first env)) p
      \<lparr>ci_linkCode = code, ci_seenDigest = dig, ci_now = Some (ce_now (re_first env))\<rparr>"
  have r: "r = snd (api_confirm rt mem_ops env i (confirm_body code dig) a)"
    "a' = fst (api_confirm rt mem_ops env i (confirm_body code dig) a)"
    using assms(4) by (simp_all add: prod_eq_iff)
  show ?thesis
  proof (cases ?c)
    case (Ok q)
    note a = api_confirm_admitted [OF assms(1-3), of rt code dig, unfolded Ok result.case]
    have q: "p_payload q = p_payload p" using Ok by (auto simp: confirm_Ok_iff)
    have "p_state p = Pending_confirmation \<and> ce_now (re_first env) < p_expiresAt p \<and>
      safeEqualHex (hashLinkCode rt code) (p_linkCodeHash p) \<and> safeEqualHex dig (p_payloadDigest p)"
      using Ok by (simp add: confirm_Ok_iff live_def time_or_def)
    with a q show ?thesis by (simp add: r)
  next
    case (Err e)
    then have "reply_status r = Some (statusFor e)"
      using api_confirm_admitted [OF assms(1-3), of rt code dig] by (simp add: r)
    moreover have "statusFor e \<noteq> 200" using statusFor_range [of e] by auto
    moreover have "\<not> (\<exists>q. ?c = Ok q)" using Err by simp
    ultimately show ?thesis by (simp add: confirm_Ok_iff live_def time_or_def)
  qed
qed

theorem confirm_request_decision_witness:
  "reply_status (snd (api_confirm demo_rt mem_ops demo_request (lit ''prop_1'')
     (confirm_body demo_code (digestPayload demo_rt TEST_MESSAGE)) demo_api)) = Some 200"
proof -
  obtain l g where a: "admit default_limiter default_global_limiter (lit ''prop_1'') 2000 2000 = (l, g, True)"
    using demo_admitted by blast
  show ?thesis
    using confirm_request_decision [OF _ _ _ surjective_pairing [symmetric], of demo_api "lit ''prop_1''"
      demo_proposal demo_request l g demo_rt demo_code "digestPayload demo_rt TEST_MESSAGE"] a
    by (simp add: demo_request_def demo_env2_def demo_stored_inv)
qed

text \<open>C27: the guessing budget is global. Of any sequence of confirmation attempts, for any
  proposals, right or wrong, spread over less than the window of the global limiter, at most
  twice its limit reach the registry; the code's limiters are the instance of 100 per minute.\<close>

theorem guessing_budget:
  assumes "sorted (global_times as)" "\<forall>u\<in>set (global_times as). t0 \<le> u \<and> u < t0 + al_windowMs g"
    and "1 \<le> al_max g"
  shows "admits l g as \<le> 2 * al_max g"
  using admits_span [OF assms, of l] budget_le [of g "lit ''confirm:all''"] by simp

theorem guessing_budget_witness:
  "admits default_limiter default_global_limiter
     [(lit ''a'', 0, 0, False), (lit ''b'', 5, 6, True), (lit ''a'', 59000, 59999, False)] \<le> 200"
  using guessing_budget [of "[(lit ''a'', 0, 0, False), (lit ''b'', 5, 6, True), (lit ''a'', 59000, 59999, False)]"
      0 default_global_limiter default_limiter]
  by (simp add: global_times_def default_global_limiter_def new_limiter_def)

text \<open>C28: the page is not a second path with its own logic: for the same code, in ASCII, and the
  same digest, the page handler and the JSON handler leave the same store and the same limiters,
  on every branch.\<close>

theorem surfaces_same_effect:
  assumes "ascii code"
  shows "fst (page_confirm d rt mem_ops env i (confirm_body code dig) a) =
    fst (api_confirm rt mem_ops env i (confirm_body code dig) a)"
  by (rule mem.surfaces_agree [OF _ _ assms]) simp_all

theorem surfaces_same_effect_witness:
  "fst (page_confirm dec_int demo_rt mem_ops demo_request (lit ''prop_1'') (confirm_body demo_code []) demo_api) =
   fst (api_confirm demo_rt mem_ops demo_request (lit ''prop_1'') (confirm_body demo_code []) demo_api)"
  by (rule surfaces_same_effect) (simp add: demo_code_def ascii_def lit_def)

text \<open>C32: the status code of the page tells a guesser what its one refusal text hides: for a
  pending proposal and a digest that is not the stored one, the answer is 403 when the code is
  wrong and 409 when it is right, and the proposal stays as it was.\<close>

theorem status_reveals_code:
  assumes "mem_inv (as_store a)" "mem_get (as_store a) i = Some p" "p_state p = Pending_confirmation"
    and "ce_now (re_first env) < p_expiresAt p" "ce_later (re_first env) < p_expiresAt p"
    and "admit (as_limiter a) (as_global a) i (re_now1 env) (re_now2 env) = (l, g, True)"
    and "\<not> safeEqualHex dig (p_payloadDigest p)" "ascii code"
  shows "reply_status (snd (page_confirm d rt mem_ops env i (confirm_body code dig) a)) =
      Some (if safeEqualHex (hashLinkCode rt code) (p_linkCodeHash p) then 409 else 403) \<and>
    mem_get (as_store (fst (page_confirm d rt mem_ops env i (confirm_body code dig) a))) i = Some p"
proof -
  let ?c = "confirm rt (ce_clock (re_first env)) p
      \<lparr>ci_linkCode = code, ci_seenDigest = dig, ci_now = Some (ce_now (re_first env))\<rparr>"
  have "live p (ce_now (re_first env))" using assms(3,4) by (simp add: live_def)
  then obtain e where e: "?c = Err e"
    "statusFor e = (if safeEqualHex (hashLinkCode rt code) (p_linkCodeHash p) then 409 else 403)"
    using assms(7)
    by (cases "safeEqualHex (hashLinkCode rt code) (p_linkCodeHash p)")
      (simp_all add: confirm_live time_or_def err_def err_unsafe_def)
  have still: "expireIfDue (ce_clock (re_first env)) p (ce_later (re_first env)) = p"
    using assms(5) by (simp add: expireIfDue_def)
  note st = assms(1,2)
  let ?a = "a\<lparr>as_limiter := l, as_global := g\<rparr>"
  have "mem_inv (as_store ?a)" "so_get mem_ops (as_store ?a) i = Some p" using st by simp_all
  from mem.confirm_and_execute_Err [OF this e(1)] obtain s
    where "confirm_and_execute rt mem_ops env i code dig ?a = (?a\<lparr>as_store := s\<rparr>, Refused e)"
      "mem_get s i = Some p"
    unfolding still by auto
  then show ?thesis
    by (simp add: page_confirm_def assms(6) confirm_and_execute_normal [OF assms(8)] page_show_def
        mem.run_getForConfirmation e(2) del: statusFor.simps)
qed

theorem status_reveals_code_witness:
  "reply_status (snd (page_confirm dec_int demo_rt mem_ops demo_request (lit ''prop_1'')
     (confirm_body demo_code []) demo_api)) = Some 409"
proof -
  obtain l g where a: "admit default_limiter default_global_limiter (lit ''prop_1'') 2000 2000 = (l, g, True)"
    using demo_admitted by blast
  have "ascii demo_code" by (simp add: demo_code_def ascii_def lit_def)
  then show ?thesis
    using status_reveals_code [of demo_api "lit ''prop_1''" demo_proposal demo_request l g "[]" demo_code
        dec_int demo_rt] a
    by (simp add: demo_request_def demo_env2_def demo_stored_inv)
qed

subsection \<open>What is shown and logged\<close>

text \<open>C29: no text of a draft can put markup into the confirmation page: the sequence of angle
  brackets and quotes of the page is fixed by the state of the proposal, by whether it has an
  execution reference, and by whether an error is shown.\<close>

theorem page_markup_fixed:
  assumes "p_state p = p_state q" "(e = []) = (f = [])"
    and "(executionReferenceOf p = None) = (executionReferenceOf q = None)"
  shows "markup (renderProposal d p e) = markup (renderProposal d' q f)"
  by (rule markup_page [OF assms])

theorem page_markup_fixed_witness:
  "markup (renderProposal dec_int
     (demo_proposal\<lparr>p_payload := TEST_MESSAGE\<lparr>md_body := lit ''</div><script>''\<rparr>\<rparr>) []) =
   markup (renderProposal dec_int demo_proposal [])"
  by (rule page_markup_fixed) (simp_all add: executionReferenceOf_def)

text \<open>What an observer of the log may learn of a secret, in terms of the texts alone: its length, and
  the first of three classes that holds all its units. The names of secrets are spelled out, in any letter
  case.\<close>

definition secret_name :: "ustr \<Rightarrow> bool" where
  "secret_name k \<longleftrightarrow> map lower_unit k \<in> set (map lit
     [''linkcode'', ''link_code'', ''code_verifier'', ''codeverifier'', ''access_token'', ''refresh_token'',
      ''client_secret'', ''authorization'', ''password'', ''secret'', ''apikey'', ''api_key'', ''code'', ''token''])"

definition within :: "(char \<times> char) list \<Rightarrow> ustr \<Rightarrow> bool" where
  "within ranges s \<longleftrightarrow> list_all (\<lambda>c. list_ex (\<lambda>(l, h). of_char l \<le> c \<and> c \<le> of_char h) ranges) s"

definition look :: "ustr \<Rightarrow> nat \<times> nat" where
  "look s = (length s,
     if within [(CHR ''A'', CHR ''Z''), (CHR ''0'', CHR ''9'')] s then 0
     else if within [(CHR ''a'', CHR ''f''), (CHR ''A'', CHR ''F''), (CHR ''0'', CHR ''9'')] s then 1
     else if within [(CHR ''A'', CHR ''Z''), (CHR ''a'', CHR ''z''), (CHR ''0'', CHR ''9''), (CHR ''_'', CHR ''_''),
       (CHR ''-'', CHR ''-'')] s then 2
     else 3)"

text \<open>Two payloads of the same form that differ, at any depth, only in texts under the name of a
  secret, and there look the same.\<close>

fun low_equal :: "jval \<Rightarrow> jval \<Rightarrow> bool"
  and low_equal_list :: "jval list \<Rightarrow> jval list \<Rightarrow> bool"
  and low_equal_entries :: "(ustr \<times> jval) list \<Rightarrow> (ustr \<times> jval) list \<Rightarrow> bool" where
  "low_equal (JArr vs) b = (case b of JArr ws \<Rightarrow> low_equal_list vs ws | _ \<Rightarrow> False)"
| "low_equal (JObj vs) b = (case b of JObj ws \<Rightarrow> low_equal_entries vs ws | _ \<Rightarrow> False)"
| "low_equal JUndef b = (b = JUndef)"
| "low_equal JNull b = (b = JNull)"
| "low_equal (JBool x) b = (b = JBool x)"
| "low_equal (JNum x) b = (b = JNum x)"
| "low_equal (JStr x) b = (b = JStr x)"
| "low_equal_list [] ws = (ws = [])"
| "low_equal_list (v # vs) ws = (case ws of [] \<Rightarrow> False | w # ws' \<Rightarrow> low_equal v w \<and> low_equal_list vs ws')"
| "low_equal_entries [] ws = (ws = [])"
| "low_equal_entries ((k, v) # vs) ws =
     (case ws of [] \<Rightarrow> False
      | (l, w) # ws' \<Rightarrow> k = l \<and> low_equal_entries vs ws' \<and>
          (low_equal v w \<or>
           secret_name k \<and> (case (v, w) of (JStr s, JStr t) \<Rightarrow> look s = look t | _ \<Rightarrow> False)))"

lemma secret_name_secret: "secret_name k \<Longrightarrow> isSecretKey rt k"
proof -
  assume k: "secret_name k"
  have "lower_unit c < 128 \<Longrightarrow> c < 128" for c by (auto simp: lower_unit_def split: if_splits)
  then have "list_all (\<lambda>c. c < 128) (map lower_unit k) \<Longrightarrow> ascii k" by (auto simp: ascii_def list_all_iff)
  moreover have "list_all (\<lambda>c. c < 128) (map lower_unit k)"
    using k by (auto simp: secret_name_def lit_def)
  ultimately have "js_lower rt k = map lower_unit k" by (simp add: js_lower_def)
  then show ?thesis
    using k by (auto simp: secret_name_def isSecretKey_def NOT_SECRET_test_def not_secret_prefixes_def
        SECRET_KEYS_def lit_def)
qed

lemma within_pred: "(\<And>c. list_ex (\<lambda>(l, h). of_char l \<le> c \<and> c \<le> of_char h) rs = P c) \<Longrightarrow> within rs s = list_all P s"
  by (simp add: within_def)

lemma within_upper: "within [(CHR ''A'', CHR ''Z''), (CHR ''0'', CHR ''9'')] s = list_all upper_or_digit s"
  by (rule within_pred) (simp add: upper_or_digit_def is_digit_def)

lemma within_hex:
  "within [(CHR ''a'', CHR ''f''), (CHR ''A'', CHR ''F''), (CHR ''0'', CHR ''9'')] s = list_all (\<lambda>c. hex_val c \<noteq> None) s"
  by (rule within_pred) (auto simp: hex_val_def)

lemma within_token:
  "within [(CHR ''A'', CHR ''Z''), (CHR ''a'', CHR ''z''), (CHR ''0'', CHR ''9''), (CHR ''_'', CHR ''_''),
     (CHR ''-'', CHR ''-'')] s = list_all token_unit s"
  by (rule within_pred) (auto simp: token_unit_def upper_or_digit_def is_digit_def)

lemma same_look_described: "look s = look t \<Longrightarrow> describe_string s = describe_string t"
  unfolding look_def within_upper within_hex within_token
  by (auto simp: describe_string_def secret_shape_def split: if_splits)

lemma low_equal_strings:
  "low_equal v w \<Longrightarrow> js_to_string v = js_to_string w \<and> js_element_string v = js_element_string w"
  "low_equal_list vs ws \<Longrightarrow> js_element_strings vs = js_element_strings ws"
  "low_equal_entries es fs \<Longrightarrow> map fst es = map fst fs"
proof (induction v w and vs ws and es fs rule: low_equal_low_equal_list_low_equal_entries.induct)
  case (2 vs b)
  then obtain ws where ws: "b = JObj ws" "map fst vs = map fst ws" by (auto split: jval.splits)
  then have "fst ` set vs = fst ` set ws" by (metis list.set_map)
  then show ?case by (simp add: ws)
next
  case (9 v vs ws)
  then show ?case by (cases ws) (auto split: option.split)
qed (auto split: jval.splits list.splits prod.splits)

lemma low_equal_described: "low_equal v w \<Longrightarrow> describeSecret v = describeSecret w"
  using low_equal_strings(1) [of v w]
  by (cases v; cases w) (auto simp: describeSecret_def)

lemma low_equal_alike:
  "low_equal a b \<Longrightarrow> alike rt a b"
  "low_equal_list vs ws \<Longrightarrow> alike_list rt vs ws"
  "low_equal_entries es fs \<Longrightarrow> alike_entries rt es fs"
proof (induction a b and vs ws and es fs rule: low_equal_low_equal_list_low_equal_entries.induct)
  case (11 k v vs ws)
  then obtain w ws' where ws: "ws = (k, w) # ws'" "low_equal_entries vs ws'"
    "low_equal v w \<or> secret_name k \<and> (case (v, w) of (JStr s, JStr t) \<Rightarrow> look s = look t | _ \<Rightarrow> False)"
    by (auto split: list.splits prod.splits)
  have rest: "alike_entries rt vs ws'" using 11(1) [of "(k, w)" ws' k w] ws by simp
  show ?case
  proof (cases "low_equal v w")
    case True
    then show ?thesis using 11(2) [of "(k, w)" ws' k w] ws rest low_equal_described [OF True] by simp
  next
    case False
    with ws(3) have "secret_name k \<and> (case (v, w) of (JStr s, JStr t) \<Rightarrow> look s = look t | _ \<Rightarrow> False)" by blast
    then obtain s t where "v = JStr s" "w = JStr t" "look s = look t" "secret_name k"
      by (cases v; cases w; simp)
    then have "describeSecret v = describeSecret w" "isSecretKey rt k"
      using same_look_described [of s t] secret_name_secret [of k rt] by (simp_all add: describeSecret_def)
    then show ?thesis by (simp add: ws(1) rest)
  qed
qed (auto split: jval.splits list.splits)

text \<open>C30: a log line depends on a secret only through its length and its character class: two payloads
  that differ, at any depth, only in texts under the name of a secret, of the same length and
  of the same class (the first that fits of A-Z 0-9, hexadecimal, A-Z a-z 0-9 _ - and any text), are
  logged alike. And the copy that is logged is at most nine levels deep, so the logger ends on any payload.\<close>

theorem log_hides_secrets:
  assumes "low_equal a b"
  shows "redact rt a 0 = redact rt b 0 \<and> (\<forall>r. redact rt a 0 = Some r \<longrightarrow> nesting r \<le> 9)"
  using redact_alike(1) [OF low_equal_alike(1) [OF assms]] redact_nesting(1) by fastforce

theorem log_hides_secrets_witness:
  "redact demo_rt (JObj [(lit ''order'', JObj [(lit ''linkCode'', JStr (lit ''ABC234'')), (lit ''n'', JNum (lit ''1''))])]) 0 =
   redact demo_rt (JObj [(lit ''order'', JObj [(lit ''linkCode'', JStr (lit ''XYZ789'')), (lit ''n'', JNum (lit ''1''))])]) 0"
proof -
  have "secret_name (lit ''linkCode'')" by (simp add: secret_name_def lit_def lower_unit_def)
  moreover have "look (lit ''ABC234'') = look (lit ''XYZ789'')" by (simp add: look_def within_def lit_def)
  ultimately have "low_equal (JObj [(lit ''order'', JObj [(lit ''linkCode'', JStr (lit ''ABC234'')), (lit ''n'', JNum (lit ''1''))])])
      (JObj [(lit ''order'', JObj [(lit ''linkCode'', JStr (lit ''XYZ789'')), (lit ''n'', JNum (lit ''1''))])])" by simp
  from log_hides_secrets [OF this, of demo_rt] show ?thesis by blast
qed

text \<open>The exemption of diagnostic keys is a prefix test made before the test for secrets, so a
  key that begins with an exempt word is never redacted, whatever secret word follows: the value
  of \<open>postgres_password\<close> is logged as it is.\<close>

lemma exempt_prefix_is_logged:
  assumes "NOT_SECRET_test key" "key \<noteq> proto_key"
  shows "redact rt (JObj [(key, JStr value)]) 0 = Some (JObj [(key, JStr value)])"
  using assms by (simp add: isSecretKey_def Let_def out_entry_def)

end
