(* ===== verification/AgentProps.thy ===== *)
theory AgentProps
  imports Mcp InternalApi Draft ApiProps
begin

text \<open>
  The properties of the agent's tools and of the service-to-service API, with their witnesses.
\<close>

subsection \<open>A surrounding in which the tools run\<close>

text \<open>No API configured: the fixture is the only order.\<close>

definition demo_web :: web where
  "demo_web = \<lparr>web_apiUrl = None, web_poolSecret = None, web_agentSecret = None,
     web_fetch = (\<lambda>u s. Fetch_throws), web_number = (\<lambda>v. None)\<rparr>"

definition demo_deps :: mcp_deps where
  "demo_deps = \<lparr>mc_deliver = (\<lambda>i c p. True), mc_confirmationBaseUrl = lit ''https://gw.test'', mc_principal = None\<rparr>"

definition demo_args :: propose_args where
  "demo_args = \<lparr>pa_orderId = lit ''ord_e2e_fixture'', pa_orderSlug = lit ''ceramic-mug-e2e'',
     pa_body = lit ''Your order is awaiting payment.'', pa_locale = lit ''en'',
     pa_paymentStatus = lit ''AWAITING_PAYMENT''\<rparr>"

lemma lit_trim: "list_all (\<lambda>c. \<not> is_ws (of_char c)) s \<Longrightarrow> js_trim (lit s) = lit s"
  by (rule js_trim_no_ws) (simp add: lit_def list.pred_map o_def)

lemma demo_trims [simp]: "js_trim (lit ''ord_e2e_fixture'') = lit ''ord_e2e_fixture''"
  "js_trim (lit ''ceramic-mug-e2e'') = lit ''ceramic-mug-e2e''"
  "js_trim (lit ''AWAITING_PAYMENT'') = lit ''AWAITING_PAYMENT''"
  by (rule lit_trim, simp add: is_ws_def)+

lemma demo_cases [simp]: "js_lower rt (lit ''ceramic-mug-e2e'') = lit ''ceramic-mug-e2e''"
  "js_upper rt (lit ''AWAITING_PAYMENT'') = lit ''AWAITING_PAYMENT''"
  by (rule js_lower_id, simp add: lit_def) (rule js_upper_id, simp add: lit_def)

lemma demo_args_fields [simp]:
  "pa_orderId demo_args = lit ''ord_e2e_fixture''" "pa_orderSlug demo_args = lit ''ceramic-mug-e2e''"
  "pa_body demo_args = lit ''Your order is awaiting payment.''" "pa_locale demo_args = lit ''en''"
  "pa_paymentStatus demo_args = lit ''AWAITING_PAYMENT''"
  by (simp_all add: demo_args_def)

lemma FIXTURE_fields [simp]:
  "os_merchantId FIXTURE = lit ''00000000-0000-4000-8000-000000000001''"
  "os_id FIXTURE = lit ''ord_e2e_fixture''" "os_slug FIXTURE = lit ''ceramic-mug-e2e''"
  "os_status FIXTURE = lit ''AWAITING_PAYMENT''"
  by (simp_all add: FIXTURE_def)

lemma demo_deps_fields [simp]: "mc_deliver demo_deps i c p" "mc_principal demo_deps = None"
  by (simp_all add: demo_deps_def)

lemma demo_fetch: "fetchOrderSnapshot demo_web (lit ''ord_e2e_fixture'') = Some (Some FIXTURE)"
  by (simp add: fetchOrderSnapshot_def fetchSnapshotFromApi_def pooliApiBase_def demo_web_def
      trimmed_env_def FIXTURE_def)

subsection \<open>The agent's tools\<close>

lemma insert_same_outcome:
  assumes "p_id p = p_id q" "p_idempotencyKey p = p_idempotencyKey q"
  shows "snd (mem_insert s p) = Ok p \<and> snd (mem_insert s q) = Ok q \<or>
    (\<exists>c m. snd (mem_insert s p) = err c m \<and> snd (mem_insert s q) = err c m)"
  using assms by (auto simp: mem_insert_def)

text \<open>The agent is never told the link code: what the propose tool answers does not depend on
  the code that was generated, whatever the arguments, the snapshot, the store and the outcome of
  the delivery.\<close>

lemma agent_reply_hides_code:
  assumes "c \<noteq> []" "d \<noteq> []" "mc_deliver deps = (\<lambda>i code p. delivered)"
  shows "snd (propose_buyer_message rt ttl deps mem_ops w (env\<lparr>ce_newLinkCode := c\<rparr>) now args s) =
    snd (propose_buyer_message rt ttl deps mem_ops w (env\<lparr>ce_newLinkCode := d\<rparr>) now args s)"
proof -
  let ?reply = "\<lambda>x. case x of
      (s', Err e) \<Rightarrow> Some (textResult (refusal e) True)
    | (s', Ok out) \<Rightarrow> if \<not> po_deduplicated out \<and> po_linkCode out \<noteq> [] \<and> \<not> delivered
        then Some (textResult (lit ''The proposal was registered but the confirmation code could not be delivered.'') True)
        else Some (textResult (proposed_text deps (po_proposal out) (po_deduplicated out)) False)"
  have same: "?reply (run mem_ops (reg_propose rt ttl (env\<lparr>ce_newLinkCode := c\<rparr>) input) s) =
      ?reply (run mem_ops (reg_propose rt ttl (env\<lparr>ce_newLinkCode := d\<rparr>) input) s)" for input
  proof (cases "validateMessageDraft rt (pi_payload input)")
    case (Err e)
    then show ?thesis by (simp add: reg_propose_def)
  next
    case (Ok v)
    let ?p = "\<lambda>x. createProposal rt (ce_clock env) \<lparr>cr_id = ce_newId env, cr_payload = v,
        cr_linkCode = x, cr_idempotencyKey = pi_idempotencyKey input, cr_ttlSeconds = ttl,
        cr_now = Some (ce_now env)\<rparr>"
    have "proposed_text deps (?p c) False = proposed_text deps (?p d) False"
      by (rule proposed_text_hides) simp_all
    then show ?thesis
      using insert_same_outcome [of "?p c" "?p d" s] assms(1,2) Ok
      by (cases "mem_insert s (?p c)"; cases "mem_insert s (?p d)")
        (auto simp: reg_propose_def Let_def mem_ops_def split: option.splits)
  qed
  have reply: "snd (case x of
        (s', Err e) \<Rightarrow> (s', Some (textResult (refusal e) True))
      | (s', Ok out) \<Rightarrow> if \<not> po_deduplicated out \<and> po_linkCode out \<noteq> [] \<and>
            \<not> mc_deliver deps (p_id (po_proposal out)) (po_linkCode out) (po_proposal out)
          then (s', Some (textResult (lit ''The proposal was registered but the confirmation code could not be delivered.'') True))
          else (s', Some (textResult (proposed_text deps (po_proposal out) (po_deduplicated out)) False)))
    = ?reply x" for x :: "mem_store \<times> propose_output result"
    using assms(3) by (simp split: prod.splits result.splits)
  show ?thesis
    by (simp add: propose_buyer_message_eq Let_def reply same split: option.splits)
qed

text \<open>What the propose tool adds to the store.\<close>

lemma run_propose_added:
  assumes "mem_get s i = None" "mem_get (fst (run mem_ops (reg_propose rt ttl env input) s)) i = Some p"
  shows "validateMessageDraft rt (pi_payload input) = Ok (p_payload p) \<and>
    p_idempotencyKey p = pi_idempotencyKey input \<and> p_state p = Pending_confirmation"
proof -
  obtain v where v: "validateMessageDraft rt (pi_payload input) = Ok v"
    using assms by (cases "validateMessageDraft rt (pi_payload input)") (auto simp: reg_propose_def)
  show ?thesis
  proof (cases "js_trim (pi_idempotencyKey input) = [] \<or>
      mem_findByIdempotencyKey s (pi_idempotencyKey input) \<noteq> None")
    case True
    then have "fst (run mem_ops (reg_propose rt ttl env input) s) = s"
      using v by (cases "js_trim (pi_idempotencyKey input) = []") (auto simp: reg_propose_def mem_ops_def)
    then show ?thesis using assms by simp
  next
    case False
    let ?p = "createProposal rt (ce_clock env) \<lparr>cr_id = ce_newId env, cr_payload = v,
        cr_linkCode = ce_newLinkCode env, cr_idempotencyKey = pi_idempotencyKey input,
        cr_ttlSeconds = ttl, cr_now = Some (ce_now env)\<rparr>"
    have "fst (run mem_ops (reg_propose rt ttl env input) s) = fst (mem_insert s ?p)"
      using False v
      by (cases "mem_insert s ?p") (auto simp: reg_propose_def mem_ops_def Let_def split: result.splits)
    then have "p = ?p" using assms
      by (auto simp: mem_insert_def mem_get_def split: if_splits)
    then show ?thesis using v by simp
  qed
qed

lemma propose_tool_added:
  assumes "mem_get s i = None"
    and "mem_get (fst (propose_buyer_message rt ttl deps mem_ops w env now args s)) i = Some p"
  obtains snap where "fetchOrderSnapshot w (pa_orderId args) = Some (Some snap)"
    "os_status snap = js_upper rt (js_trim (pa_paymentStatus args))"
    "os_slug snap = js_lower rt (js_trim (pa_orderSlug args))"
    "validateMessageDraft rt (mcp_payload rt snap args) = Ok (p_payload p)"
    "p_idempotencyKey p = idempotencyKeyFor rt
       (case mc_principal deps of None \<Rightarrow> lit ''anonymous'' | Some u \<Rightarrow> u) (mcp_payload rt snap args) 60000 now"
    "p_state p = Pending_confirmation"
proof (cases "fetchOrderSnapshot w (pa_orderId args)")
  case None
  then show ?thesis using assms by (simp add: propose_buyer_message_eq)
next
  case (Some o_snap)
  then obtain snap where snap: "fetchOrderSnapshot w (pa_orderId args) = Some (Some snap)"
    using assms by (cases o_snap) (auto simp: propose_buyer_message_eq)
  let ?in = "\<lparr>pi_payload = mcp_payload rt snap args, pi_idempotencyKey = idempotencyKeyFor rt
      (case mc_principal deps of None \<Rightarrow> lit ''anonymous'' | Some u \<Rightarrow> u) (mcp_payload rt snap args) 60000 now\<rparr>"
  have fst_reply: "fst (case x of
        (s', Err e) \<Rightarrow> (s', f e)
      | (s', Ok out) \<Rightarrow> if g out then (s', h out) else (s', k out)) = fst x"
    for x :: "mem_store \<times> propose_output result" and f g h and k :: "propose_output \<Rightarrow> tool_result option"
    by (simp split: prod.splits result.splits)
  have st: "os_status snap = js_upper rt (js_trim (pa_paymentStatus args))"
    "os_slug snap = js_lower rt (js_trim (pa_orderSlug args))"
    and added: "mem_get (fst (run mem_ops (reg_propose rt ttl env ?in) s)) i = Some p"
    using assms by (auto simp: propose_buyer_message_eq snap Let_def fst_reply split: if_splits)
  show ?thesis
    using run_propose_added [OF assms(1) added] by (intro that [OF snap st]) simp_all
qed

text \<open>C31: an agent can only propose about an order it has a snapshot of, in the scope and with the
  status of that snapshot: every proposal the propose tool adds to the store is about the order id
  (trimmed) under which the call fetched a snapshot; it carries the slug, the merchant and the payment
  status of that snapshot and the text of the call, sanitised; and the validator accepted it.\<close>

theorem agent_proposal_grounded:
  assumes "mem_get s i = None"
    and "mem_get (fst (propose_buyer_message rt ttl deps mem_ops w env now args s)) i = Some p"
  shows "\<exists>snap. fetchOrderSnapshot w (pa_orderId args) = Some (Some snap) \<and>
    md_orderId (p_payload p) = js_trim (pa_orderId args) \<and>
    md_orderSlug (p_payload p) = os_slug snap \<and>
    md_body (p_payload p) = sanitizeBody (pa_body args) \<and>
    md_merchantId (p_payload p) = js_trim (os_merchantId snap) \<and>
    md_paymentStatus (p_payload p) = js_upper rt (js_trim (os_status snap)) \<and>
    draft_ok (p_payload p) \<and> p_state p = Pending_confirmation"
proof -
  from assms obtain snap where s: "fetchOrderSnapshot w (pa_orderId args) = Some (Some snap)"
    "os_status snap = js_upper rt (js_trim (pa_paymentStatus args))"
    "os_slug snap = js_lower rt (js_trim (pa_orderSlug args))"
    "validateMessageDraft rt (mcp_payload rt snap args) = Ok (p_payload p)" "p_state p = Pending_confirmation"
    by (rule propose_tool_added)
  from s(4) have "p_payload p = normal_draft rt (mcp_payload rt snap args)" "draft_ok (p_payload p)"
    by (auto simp: validateMessageDraft_Ok_iff)
  then show ?thesis using s by (simp add: normal_draft_def mcp_payload_def)
qed

lemma demo_mcp_payload: "mcp_payload demo_rt FIXTURE demo_args = TEST_MESSAGE"
  by (simp add: mcp_payload_def TEST_MESSAGE_def)

lemma demo_proposed:
  "\<exists>p. mem_get (fst (propose_buyer_message demo_rt 300 deps mem_ops demo_web demo_env 5 demo_args
     mem_empty)) (lit ''prop_1'') = Some p"
proof -
  let ?key = "idempotencyKeyFor demo_rt (case mc_principal deps of None \<Rightarrow> lit ''anonymous'' | Some u \<Rightarrow> u) TEST_MESSAGE 60000 5"
  let ?in = "\<lparr>pi_payload = TEST_MESSAGE, pi_idempotencyKey = ?key\<rparr>"
  let ?out = "propose_buyer_message demo_rt 300 deps mem_ops demo_web demo_env 5 demo_args mem_empty"
  have key: "js_trim ?key \<noteq> []"
  proof -
    have "?key = 109 # drop 1 ?key" by (simp add: idempotencyKeyFor_def lit_def)
    then obtain r where "?key = 109 # r" by blast
    moreover have "\<not> is_ws 109" by (simp add: is_ws_def)
    ultimately show ?thesis by (auto simp: js_trim_def dropWhile_eq_Nil_conv)
  qed
  have env: "ce_newId demo_env \<noteq> []" by (simp add: demo_env_def)
  obtain s' where r: "run mem_ops (reg_propose demo_rt 300 demo_env ?in) mem_empty =
      (s', Ok \<lparr>po_proposal = new_proposal demo_rt 300 demo_env ?in TEST_MESSAGE,
        po_linkCode = ce_newLinkCode demo_env, po_deduplicated = False\<rparr>)"
    "mem_get s' = (mem_get mem_empty)(lit ''prop_1'' \<mapsto> new_proposal demo_rt 300 demo_env ?in TEST_MESSAGE)"
    using mem.run_propose_new [OF mem_inv_empty, of demo_rt ?in TEST_MESSAGE demo_env 300] key env
    by (auto simp: demo_valid mem_defs mem_empty_def demo_env_def)
  have "fst ?out = s'"
    using r(1) by (simp add: propose_buyer_message_eq demo_fetch Let_def demo_mcp_payload)
  with r(2) show ?thesis by simp
qed

lemma demo_empty [simp]: "mem_get mem_empty i = None"
  by (simp add: mem_get_def mem_empty_def)

theorem agent_proposal_grounded_witness:
  "\<exists>p. mem_get (fst (propose_buyer_message demo_rt 300 demo_deps mem_ops demo_web demo_env 5 demo_args
     mem_empty)) (lit ''prop_1'') = Some p \<and> md_paymentStatus (p_payload p) = lit ''AWAITING_PAYMENT'' \<and>
   md_orderId (p_payload p) = lit ''ord_e2e_fixture'' \<and> md_orderSlug (p_payload p) = lit ''ceramic-mug-e2e''"
  using demo_proposed [of demo_deps] agent_proposal_grounded [of mem_empty "lit ''prop_1''"] demo_fetch
  by fastforce

text \<open>Two proposals of the agent share the material of their idempotency key only if they are
  the same draft, by the same principal, in the same minute, whatever units the text holds, as
  long as the other fields hold no NUL: the text cannot imitate a neighbouring field.\<close>

lemma idempotency_key_separates:
  assumes "nul_free u p" "nul_free v q"
  shows "key_material u p m = key_material v q n \<longleftrightarrow> u = v \<and> p = q \<and> m = n"
  by (rule key_material_inj [OF assms])

subsection \<open>The service-to-service API\<close>

text \<open>The internal route is closed without the secret: unless the header, trimmed, has the bytes
  of the configured secret and that is not blank, the answer is 401 and the store is unchanged;
  so a gateway with no secret configured refuses every request.\<close>

lemma internal_needs_secret:
  assumes "header = None \<or> utf8 (js_trim (the header)) \<noteq> utf8 (js_trim (id_gatewaySecret deps)) \<or>
    js_trim (id_gatewaySecret deps) = []"
  shows "internal_request rt ttl deps mem_ops env header b s = (s, error_json 401 (lit ''unauthorized''))"
proof -
  have "\<not> gateway_secret_ok deps header"
    using assms by (cases header) (auto simp: gateway_secret_ok_def secretOk_def)
  then show ?thesis by (rule internal_refused)
qed

theorem internal_needs_secret_witness:
  "internal_request demo_rt 300 \<lparr>id_gatewaySecret = [], id_deliver = (\<lambda>i c p. True),
     id_confirmationBaseUrl = []\<rparr> mem_ops demo_env (Some []) JNull mem_empty =
   (mem_empty, error_json 401 (lit ''unauthorized''))"
  by (rule internal_needs_secret) simp

end
