(* ===== verification/StateMachineProps.thy ===== *)
theory StateMachineProps
  imports Fixtures
begin

text \<open>
  The properties of the proposal state machine and of the validator, with their witnesses.
\<close>

subsection \<open>Confirmation\<close>

text \<open>C6: a confirmation is accepted exactly when the proposal is pending, its deadline has not
  come, the hash of the presented code decodes to the stored hash and the presented digest
  decodes to the stored digest; the accepted proposal is the stored one with one audit record
  by a human appended.\<close>

theorem confirm_accepts_iff:
  "confirm rt clk p i = Ok q \<longleftrightarrow>
     p_state p = Pending_confirmation \<and>
     (case ci_now i of None \<Rightarrow> clk | Some n \<Rightarrow> n) < p_expiresAt p \<and>
     safeEqualHex (hashLinkCode rt (ci_linkCode i)) (p_linkCodeHash p) \<and>
     safeEqualHex (ci_seenDigest i) (p_payloadDigest p) \<and>
     q = applied clk p Confirmed (lit ''confirmed by human'') Human"
  by (auto simp: confirm_Ok_iff live_def time_or_def)

text \<open>A late confirmation teaches nothing: once the deadline has passed, the answer is the
  same expiry error whatever code and digest are presented.\<close>

lemma late_confirm_is_silent:
  assumes "p_state p = Pending_confirmation" "p_expiresAt p \<le> n"
  shows "confirm rt clk p \<lparr>ci_linkCode = code, ci_seenDigest = dig, ci_now = Some n\<rparr> =
      confirm rt clk p \<lparr>ci_linkCode = code', ci_seenDigest = dig', ci_now = Some n\<rparr> \<and>
    code_of (confirm rt clk p \<lparr>ci_linkCode = code, ci_seenDigest = dig, ci_now = Some n\<rparr>) = Some EXPIRED"
  using assms by (simp add: confirm_expired)

theorem late_confirm_is_silent_witness:
  "code_of (confirm demo_rt 400000 demo_proposal
     \<lparr>ci_linkCode = demo_code, ci_seenDigest = [], ci_now = Some 301000\<rparr>) = Some EXPIRED"
  using late_confirm_is_silent [of demo_proposal 301000 demo_rt 400000 demo_code "[]"] by simp

text \<open>C7: the human confirms the stored artifact: if the digest a human was shown is the digest
  of the draft they read, and SHA-256 does not collide on that draft and the stored one, then
  the draft that becomes confirmed is the draft they read, field by field.\<close>

theorem confirm_binds_artifact:
  assumes "wf_proposal rt p" and "confirm rt clk p i = Ok q"
    and "ci_seenDigest i = digestPayload rt shown"
    and "rt_sha256 rt (canonical_payload shown) = rt_sha256 rt (canonical_payload (p_payload p))
      \<longrightarrow> canonical_payload shown = canonical_payload (p_payload p)"
  shows "p_payload q = shown"
  using assms by (auto simp: confirm_Ok_iff wf_digest digestPayload_def)

theorem confirm_binds_artifact_witness: "p_payload demo_confirmed = TEST_MESSAGE"
  by (rule confirm_binds_artifact [OF demo_wf demo_confirm]) simp_all

text \<open>The canonical form that is hashed determines all six fields of a draft: no text can
  be moved from one field into another, and none can be changed, without changing it.\<close>

lemma canonical_form_determines_draft:
  "canonical_payload p = canonical_payload q \<longleftrightarrow> p = q"
  by (simp add: canonical_payload_def)

subsection \<open>The life of a proposal\<close>

text \<open>Terminal states are terminal: a rejected, expired, executed or failed proposal is
  left as it is by the expiry check and refused by every operation.\<close>

lemma terminal_is_final:
  assumes "isTerminal (p_state p)"
  shows "expireIfDue clk p n = p \<and> \<not> is_ok (confirm rt clk p i) \<and> \<not> is_ok (reject clk p n) \<and>
    \<not> is_ok (markExecuted clk p ref) \<and> \<not> is_ok (markFailed clk p reason)"
proof -
  have "\<not> is_ok r" if "\<And>q. r \<noteq> Ok q" for r :: "proposal result"
    using that by (cases r) auto
  moreover have "p_state p \<noteq> Pending_confirmation" "p_state p \<noteq> Confirmed"
    using assms by (cases "p_state p"; simp)+
  ultimately show ?thesis
    by (simp add: expireIfDue_def transition_Ok_iff live_def)
qed

theorem terminal_is_final_witness:
  "\<not> is_ok (confirm demo_rt 5 (demo_proposal\<lparr>p_state := Rejected\<rparr>)
     \<lparr>ci_linkCode = demo_code, ci_seenDigest = [], ci_now = None\<rparr>)"
  using terminal_is_final [of "demo_proposal\<lparr>p_state := Rejected\<rparr>"] by simp

lemma reference_in_key:
  assumes "run \<noteq> []" "list_all (\<lambda>c. \<not> is_ws c) run"
  shows "reference_in (lit ''simulated execution '' @ run) = Some run"
proof -
  obtain cs where cs: "lit ''simulated execution '' @ run = of_char (CHR ''s'') # cs"
    by (simp add: lit_def)
  show ?thesis
    using assms
    by (subst cs, subst reference_in.simps(2), subst (1 2) cs [symmetric])
      (simp add: Let_def takeWhile_all [of "\<lambda>u. \<not> is_ws u"])
qed

text \<open>The execution reference written into the audit trail is read back from it, whatever
  the trail was before, for a reference without white space.\<close>

lemma execution_reference_roundtrip:
  assumes "markExecuted clk p ref = Ok q" "ref \<noteq> []" "list_all (\<lambda>c. \<not> is_ws c) ref"
  shows "executionReferenceOf q = Some ref"
  using assms
  by (auto simp: markExecuted_Ok_iff executionReferenceOf_def applied_def reference_in_key)

theorem execution_reference_roundtrip_witness:
  "executionReferenceOf (applied 3 demo_confirmed Executed
     (lit ''simulated execution '' @ lit ''sim_1'') System) = Some (lit ''sim_1'')"
  by (rule execution_reference_roundtrip [of 3 demo_confirmed])
    (simp_all add: markExecuted_Ok_iff demo_confirmed_def lit_def is_ws_def)

subsection \<open>Validation\<close>

text \<open>The validator returns a normal form: validating an accepted draft again accepts it and
  changes nothing, so the stored draft is what any later validation would store.\<close>

lemma validate_fixpoint:
  assumes "validateMessageDraft rt p = Ok q"
  shows "validateMessageDraft rt q = Ok q"
  using assms normal_draft_idem by (auto simp: validateMessageDraft_Ok_iff)

theorem validate_fixpoint_witness: "validateMessageDraft demo_rt TEST_MESSAGE = Ok TEST_MESSAGE"
  by (rule validate_fixpoint [OF demo_valid])

text \<open>C25: a draft for an order that is not paid is rejected when its sanitised text contains one
  of the claim phrases, in any letter case, with no word character on either side, wherever it
  stands in the text.\<close>

theorem false_paid_claim_rejected:
  assumes "sanitizeBody (md_body p) = a @ w @ b" "map fold_unit w \<in> set claim_phrases"
    and "a = [] \<or> \<not> is_word (last a)" "b = [] \<or> \<not> is_word (hd b)"
    and "js_upper rt (js_trim (md_paymentStatus p)) \<noteq> lit ''PAID''"
  shows "code_of (validateMessageDraft rt p) = Some VALIDATION_FAILED"
proof -
  have "PAID_CLAIM_RE_test (sanitizeBody (md_body p))"
    unfolding assms(1) by (rule claim_phrase_found [OF assms(2-4)])
  then have "\<not> draft_ok (normal_draft rt p)"
    using assms(5) by (simp add: draft_ok_def normal_draft_def)
  then show ?thesis by (cases rule: validateMessageDraft_cases [of rt p]) auto
qed

theorem false_paid_claim_rejected_witness:
  "code_of (validateMessageDraft demo_rt (TEST_MESSAGE\<lparr>md_body := lit ''Great, you PAID! Thanks''\<rparr>))
     = Some VALIDATION_FAILED"
  by (rule false_paid_claim_rejected [of _ "lit ''Great, you ''" "lit ''PAID''" "lit ''! Thanks''"])
    (simp_all add: sanitizeBody_def js_trim_def claim_phrases_def js_upper_def ascii_def
      upper_unit_def char_class_defs)

text \<open>What the validator lets through: the text of an accepted draft is between 1 and 2000
  units, has no control unit and no white space but single spaces between words, and does not
  match the claim pattern unless the status is \<open>PAID\<close>.\<close>

lemma accepted_body:
  assumes "validateMessageDraft rt p = Ok q"
  shows "clean_text (md_body q) \<and> 1 \<le> length (md_body q) \<and> length (md_body q) \<le> 2000 \<and>
    (PAID_CLAIM_RE_test (md_body q) \<longrightarrow> md_paymentStatus q = lit ''PAID'')"
  using assms sanitizeBody_clean
  by (auto simp: validateMessageDraft_Ok_iff draft_ok_def normal_draft_def MAX_BODY_LEN_def Suc_le_eq)

theorem accepted_body_witness: "clean_text (md_body TEST_MESSAGE)"
  using accepted_body [OF demo_valid] by simp

end
