(* ===== verification/PaymentStatus.thy ===== *)
theory PaymentStatus
  imports JsString
begin

text \<open>
  Payment statuses in the web application: the exception kinds and the refresh rule
  (payment-handoff/exceptions.ts), the state of the checkout screen (paymentUiState.ts), the
  polling classes (the pure part of paymentPoll.ts), order attention (orderStatus.ts),
  fulfillment (fulfillment.ts), the labels (orderStatus.ts, fulfillment.ts, timeline.ts,
  checkoutFields.ts) and the type of statuses in packages/domain/src/index.ts.

  A status is a string or absent (\<open>None\<close>, for \<open>null\<close> and \<open>undefined\<close>), since it comes from the
  API; \<open>payment_status\<close> names the eleven the backend uses. A message catalogue is a lookup.
\<close>

datatype payment_status =
    CREATED | AWAITING_PAYMENT | SEEN | CONFIRMING | PAID | EXPIRED_PAYMENT | UNDERPAID
  | OVERPAID | LATE_PAYMENT | NEEDS_REVIEW | DUPLICATE_PAYMENT

fun status_text_of :: "payment_status \<Rightarrow> ustr" where
  "status_text_of CREATED = lit ''CREATED''"
| "status_text_of AWAITING_PAYMENT = lit ''AWAITING_PAYMENT''"
| "status_text_of SEEN = lit ''SEEN''"
| "status_text_of CONFIRMING = lit ''CONFIRMING''"
| "status_text_of PAID = lit ''PAID''"
| "status_text_of EXPIRED_PAYMENT = lit ''EXPIRED''"
| "status_text_of UNDERPAID = lit ''UNDERPAID''"
| "status_text_of OVERPAID = lit ''OVERPAID''"
| "status_text_of LATE_PAYMENT = lit ''LATE_PAYMENT''"
| "status_text_of NEEDS_REVIEW = lit ''NEEDS_REVIEW''"
| "status_text_of DUPLICATE_PAYMENT = lit ''DUPLICATE_PAYMENT''"

type_synonym messages = "string \<Rightarrow> ustr"

definition given :: "ustr option \<Rightarrow> ustr" where
  "given s = (case s of None \<Rightarrow> [] | Some t \<Rightarrow> t)"

lemma given_simps [simp]: "given None = []" "given (Some t) = t"
  by (simp_all add: given_def)

subsection \<open>Exceptions\<close>

definition EXCEPTION_STATUSES :: "ustr list" where
  "EXCEPTION_STATUSES = map lit [''EXPIRED'', ''UNDERPAID'', ''OVERPAID'', ''LATE_PAYMENT'',
     ''NEEDS_REVIEW'', ''DUPLICATE_PAYMENT'']"

definition exceptionKind :: "ustr option \<Rightarrow> ustr option" where
  "exceptionKind status =
     (if given status = [] \<or> given status \<notin> set EXCEPTION_STATUSES then None else status)"

definition moneyDetected :: "ustr option \<Rightarrow> bool" where
  "moneyDetected status \<longleftrightarrow>
     status = Some (lit ''SEEN'') \<or> status = Some (lit ''CONFIRMING'') \<or> status = Some (lit ''PAID'') \<or>
     status = Some (lit ''UNDERPAID'') \<or> status = Some (lit ''OVERPAID'') \<or>
     status = Some (lit ''LATE_PAYMENT'') \<or> status = Some (lit ''NEEDS_REVIEW'') \<or>
     status = Some (lit ''DUPLICATE_PAYMENT'')"

text \<open>\<open>parse_date\<close> is \<open>new Date(s).getTime()\<close>, \<open>None\<close> where that is not finite; \<open>now\<close> is the clock.\<close>

definition canRefreshQuote :: "(ustr \<Rightarrow> int option) \<Rightarrow> int \<Rightarrow> ustr option \<Rightarrow> ustr option \<Rightarrow> bool" where
  "canRefreshQuote parse_date now status expiresAt =
     (if moneyDetected status then False
      else if status = Some (lit ''EXPIRED'') then True
      else if status = Some (lit ''AWAITING_PAYMENT'') \<or> status = Some (lit ''CREATED'') then
        (if given expiresAt = [] then False
         else (case parse_date (given expiresAt) of None \<Rightarrow> False | Some t \<Rightarrow> t \<le> now))
      else False)"

definition isAwaitingPayment :: "ustr option \<Rightarrow> bool" where
  "isAwaitingPayment status \<longleftrightarrow>
     status = Some (lit ''AWAITING_PAYMENT'') \<or> status = Some (lit ''CREATED'')"

subsection \<open>The state of the checkout screen\<close>

datatype payment_ui_state =
    UI_READY | UI_OPENING_WALLET | UI_WAITING_FOR_PAYMENT | UI_PAYMENT_DETECTED | UI_CONFIRMING
  | UI_PAID | UI_EXPIRED | UI_NEEDS_ATTENTION | UI_OFFLINE

definition resolvePaymentUiState :: "ustr option \<Rightarrow> bool \<Rightarrow> bool \<Rightarrow> payment_ui_state" where
  "resolvePaymentUiState intentStatus openingWallet offline =
     (if offline then UI_OFFLINE
      else let status = given intentStatus; ex = exceptionKind (Some status)
        in if status = lit ''PAID'' then UI_PAID
           else if ex = Some (lit ''EXPIRED'') then UI_EXPIRED
           else if ex \<noteq> None then UI_NEEDS_ATTENTION
           else if status = lit ''CONFIRMING'' then UI_CONFIRMING
           else if status = lit ''SEEN'' then UI_PAYMENT_DETECTED
           else if openingWallet then UI_OPENING_WALLET
           else if status = lit ''AWAITING_PAYMENT'' \<or> status = lit ''CREATED'' then UI_WAITING_FOR_PAYMENT
           else if moneyDetected (Some status) then UI_PAYMENT_DETECTED
           else UI_READY)"

subsection \<open>Polling classes\<close>

definition POLL_STATUSES :: "ustr list" where
  "POLL_STATUSES = map lit [''CREATED'', ''AWAITING_PAYMENT'', ''SEEN'', ''CONFIRMING'']"

definition STOP_POLL_STATUSES :: "ustr list" where
  "STOP_POLL_STATUSES = map lit [''PAID'', ''EXPIRED'', ''CANCELLED'', ''NEEDS_REVIEW'', ''UNDERPAID'',
     ''OVERPAID'', ''LATE_PAYMENT'', ''DUPLICATE_PAYMENT'']"

definition shouldPollPaymentStatus :: "ustr option \<Rightarrow> bool" where
  "shouldPollPaymentStatus status =
     (if given status = [] then False
      else if given status \<in> set STOP_POLL_STATUSES then False
      else given status \<in> set POLL_STATUSES)"

definition pollIntervalMs :: "nat \<Rightarrow> nat" where
  "pollIntervalMs attempt = (if attempt \<le> 5 then 2000 else if attempt \<le> 20 then 3000 else 5000)"

subsection \<open>Attention, fulfillment and labels\<close>

definition ATTENTION :: "ustr list" where
  "ATTENTION = map lit [''NEEDS_REVIEW'', ''UNDERPAID'', ''OVERPAID'', ''LATE_PAYMENT'', ''DUPLICATE_PAYMENT'']"

definition needsAttention :: "ustr \<Rightarrow> bool" where
  "needsAttention status = (status \<in> set ATTENTION)"

definition orderStatusLabel :: "ustr \<Rightarrow> (ustr \<Rightarrow> ustr option) \<Rightarrow> ustr" where
  "orderStatusLabel status t = (case t status of Some l \<Rightarrow> l | None \<Rightarrow> status)"

definition fulfillmentLabel :: "ustr option \<Rightarrow> ustr \<Rightarrow> (ustr \<Rightarrow> ustr option) \<Rightarrow> ustr" where
  "fulfillmentLabel status unfulfilled t =
     (if given status = [] then unfulfilled
      else (case t (given status) of Some l \<Rightarrow> l | None \<Rightarrow> given status))"

definition canFulfill :: "ustr option \<Rightarrow> bool" where
  "canFulfill paymentStatus \<longleftrightarrow>
     paymentStatus = Some (lit ''PAID'') \<or> paymentStatus = Some (lit ''LATE_PAYMENT'')"

definition system_title_prefixes :: "ustr list" where
  "system_title_prefixes = map lit [''order '', ''payment '', ''customer '', ''shipped'', ''underpaid'',
     ''overpaid'', ''needs review'', ''preparing'', ''delivered'', ''cancelled'']"

text \<open>\<open>englishSystemTitle.test\<close>, with its flag for either case of the ASCII letters.\<close>

definition englishSystemTitle_test :: "ustr \<Rightarrow> bool" where
  "englishSystemTitle_test s =
     list_ex (\<lambda>w. take (length w) (map lower_unit s) = w) system_title_prefixes"

definition timelineLabel :: "ustr \<Rightarrow> (ustr \<Rightarrow> ustr option) \<Rightarrow> ustr option \<Rightarrow> ustr" where
  "timelineLabel eventType t fallback =
     (case t eventType of
        Some m \<Rightarrow> if m \<noteq> [] then m
          else (let title = js_trim (given fallback)
                in if title \<noteq> [] \<and> \<not> englishSystemTitle_test title then title else eventType)
      | None \<Rightarrow> (let title = js_trim (given fallback)
          in if title \<noteq> [] \<and> \<not> englishSystemTitle_test title then title else eventType))"

record field_labels =
  fl_fullName :: ustr
  fl_phone :: ustr
  fl_shipping :: ustr
  fl_postal :: ustr
  fl_email :: ustr
  fl_note :: ustr

definition checkoutFieldLabel :: "ustr \<Rightarrow> field_labels \<Rightarrow> ustr option \<Rightarrow> ustr" where
  "checkoutFieldLabel key t fallback =
     (if key = lit ''full_name'' then fl_fullName t
      else if key = lit ''phone'' then fl_phone t
      else if key = lit ''shipping_address'' then fl_shipping t
      else if key = lit ''postal_code'' then fl_postal t
      else if key = lit ''email'' then fl_email t
      else if key = lit ''customer_note'' then fl_note t
      else (let f = js_trim (given fallback) in if f \<noteq> [] then f else key))"

subsection \<open>How the classes fit together\<close>

lemmas status_class_defs = exceptionKind_def EXCEPTION_STATUSES_def moneyDetected_def
  shouldPollPaymentStatus_def POLL_STATUSES_def STOP_POLL_STATUSES_def needsAttention_def ATTENTION_def
  canFulfill_def isAwaitingPayment_def

lemma poll_not_stop: "shouldPollPaymentStatus s \<Longrightarrow> given s \<notin> set STOP_POLL_STATUSES"
  by (simp add: shouldPollPaymentStatus_def split: if_splits)

lemma poll_cases:
  "shouldPollPaymentStatus s \<longleftrightarrow>
     s \<in> Some ` {lit ''CREATED'', lit ''AWAITING_PAYMENT'', lit ''SEEN'', lit ''CONFIRMING''}"
  by (cases s) (auto simp: status_class_defs)

text \<open>Once money was seen, no screen asks for money.\<close>

definition asks_for_money :: "payment_ui_state \<Rightarrow> bool" where
  "asks_for_money u \<longleftrightarrow> u \<in> {UI_READY, UI_OPENING_WALLET, UI_WAITING_FOR_PAYMENT}"

lemma money_never_asked:
  assumes "moneyDetected s"
  shows "\<not> asks_for_money (resolvePaymentUiState s w off) \<and> \<not> canRefreshQuote d n s e \<and> \<not> isAwaitingPayment s"
  using assms
  by (auto simp: resolvePaymentUiState_def asks_for_money_def canRefreshQuote_def moneyDetected_def
      isAwaitingPayment_def Let_def exceptionKind_def EXCEPTION_STATUSES_def)

text \<open>Every status of the backend is either polled or shown as settled, never both.\<close>

lemma backend_status_classes:
  "shouldPollPaymentStatus (Some (status_text_of s)) \<noteq>
     (resolvePaymentUiState (Some (status_text_of s)) False False \<in> {UI_PAID, UI_EXPIRED, UI_NEEDS_ATTENTION})"
  by (cases s) (simp_all add: status_class_defs resolvePaymentUiState_def Let_def)

lemma pollIntervalMs_mono: "a \<le> b \<Longrightarrow> pollIntervalMs a \<le> pollIntervalMs b"
  by (simp add: pollIntervalMs_def)

lemma pollIntervalMs_range: "2000 \<le> pollIntervalMs a \<and> pollIntervalMs a \<le> 5000"
  by (simp add: pollIntervalMs_def)

end
