(* ===== verification/Money.thy ===== *)
theory Money
  imports Snapshot PaymentStatus
begin

text \<open>
  Amounts and contact fields as a person types them: apps/web/src/lib/usdt.ts, toman.ts,
  phone.ts and address.ts.

  A JavaScript number is used here for whole amounts only. Up to \<open>Number.MAX_SAFE_INTEGER\<close>
  the arithmetic is exact; \<open>parseUsdtToBaseUnits\<close> refuses everything above, and because
  rounding to a double is monotone and \<open>2 ^ 53\<close> is a double, it refuses exactly what the
  unrounded sum would make it refuse. \<open>toman\<close> amounts are not bounded by the code: there the
  conversion of a decimal literal to a number is the parameter \<open>num\<close>, \<open>None\<close> for infinity,
  which is the identity up to \<open>2 ^ 53\<close>.
\<close>

definition MAX_SAFE_INTEGER :: nat where
  "MAX_SAFE_INTEGER = 9007199254740991"

definition SCALE :: nat where
  "SCALE = 1000000"

subsection \<open>USDT\<close>

definition strip_commas :: "ustr \<Rightarrow> ustr" where
  "strip_commas s = filter (\<lambda>c. c \<noteq> 44) s"

definition whole_part :: "ustr \<Rightarrow> ustr" where
  "whole_part s = takeWhile is_digit s"

definition frac_part :: "ustr \<Rightarrow> ustr" where
  "frac_part s = drop 1 (dropWhile is_digit s)"

definition usdt_re :: "ustr \<Rightarrow> bool" where
  "usdt_re s \<longleftrightarrow> whole_part s \<noteq> [] \<and>
     (dropWhile is_digit s = [] \<or>
      hd (dropWhile is_digit s) = 46 \<and> list_all is_digit (frac_part s) \<and>
      1 \<le> length (frac_part s) \<and> length (frac_part s) \<le> 6)"

definition parseUsdtToBaseUnits :: "ustr \<Rightarrow> nat option" where
  "parseUsdtToBaseUnits input =
     (let cleaned = strip_commas (js_trim input)
      in if \<not> usdt_re cleaned then None
         else let padded = take 6 (frac_part cleaned @ lit ''000000'');
                  base = undec (whole_part cleaned) * SCALE + undec padded
           in if base \<le> 0 \<or> base > MAX_SAFE_INTEGER then None else Some base)"

definition formatUsdtFromBaseUnits :: "int \<Rightarrow> ustr" where
  "formatUsdtFromBaseUnits base =
     (if base \<le> 0 then lit ''0''
      else let whole = base div int SCALE;
               frac = strip_zeros (pad_start 6 48 (dec_int (base mod int SCALE)))
           in if frac \<noteq> [] then dec_int whole @ [46] @ frac else dec_int whole)"

definition isValidUsdtAmount :: "ustr \<Rightarrow> bool" where
  "isValidUsdtAmount input \<longleftrightarrow> parseUsdtToBaseUnits input \<noteq> None"

subsection \<open>Toman\<close>

definition latin_digit :: "nat \<Rightarrow> nat" where
  "latin_digit c = (if 1776 \<le> c \<and> c \<le> 1785 then c - 1776 + 48
     else if 1632 \<le> c \<and> c \<le> 1641 then c - 1632 + 48 else c)"

definition toLatinDigits :: "ustr \<Rightarrow> ustr" where
  "toLatinDigits raw = map latin_digit raw"

text \<open>\<open>toLocaleString('en-US')\<close> of a whole number: groups of three from the right.\<close>

fun group_rev :: "ustr \<Rightarrow> ustr" where
  "group_rev (a # b # c # d # r) = a # b # c # 44 # group_rev (d # r)"
| "group_rev s = s"

definition group_thousands :: "nat \<Rightarrow> ustr" where
  "group_thousands n = rev (group_rev (rev (dec n)))"

definition formatTomanInput :: "(nat \<Rightarrow> nat option) \<Rightarrow> ustr \<Rightarrow> ustr" where
  "formatTomanInput num raw =
     (let digits = filter is_digit (toLatinDigits raw)
      in if digits = [] then []
         else (case num (undec digits) of None \<Rightarrow> [8734] | Some n \<Rightarrow> group_thousands n))"

definition parseTomanInput :: "(nat \<Rightarrow> nat option) \<Rightarrow> ustr \<Rightarrow> nat" where
  "parseTomanInput num formatted =
     (case num (undec (filter is_digit (strip_commas (toLatinDigits formatted)))) of
        None \<Rightarrow> 0 | Some n \<Rightarrow> n)"

definition isValidTomanAmount :: "(nat \<Rightarrow> nat option) \<Rightarrow> ustr \<Rightarrow> bool" where
  "isValidTomanAmount num formatted \<longleftrightarrow> parseTomanInput num formatted > 0"

subsection \<open>Phone numbers and postal codes\<close>

definition starts_with :: "ustr \<Rightarrow> ustr \<Rightarrow> bool" where
  "starts_with s w \<longleftrightarrow> take (length w) s = w"

definition normalizeIranianPhone :: "ustr \<Rightarrow> ustr option" where
  "normalizeIranianPhone input =
     (let kept = filter (\<lambda>c. is_digit c \<or> c = 43) input;
          digits = (if starts_with kept [43] then drop 1 kept else kept);
          n1 = (if starts_with digits (lit ''98'') then drop 2 digits else digits);
          n2 = (if starts_with n1 (lit ''0'') then drop 1 n1 else n1)
      in if starts_with n2 (lit ''9'') \<and> list_all is_digit n2 \<and> length n2 = 10
         then Some (lit ''+98'' @ n2) else None)"

definition isValidIranianPhone :: "ustr \<Rightarrow> bool" where
  "isValidIranianPhone input \<longleftrightarrow> normalizeIranianPhone input \<noteq> None"

definition isValidIranianPostalCode :: "ustr \<Rightarrow> bool" where
  "isValidIranianPostalCode input \<longleftrightarrow>
     list_all is_digit (js_trim input) \<and> length (js_trim input) = 10"

subsection \<open>Addresses and networks\<close>

definition shortenAddress :: "ustr \<Rightarrow> ustr" where
  "shortenAddress address =
     (let v = js_trim address
      in if length v \<le> 14 then v else take 6 v @ [8230] @ drop (length v - 4) v)"

definition networkLabel :: "runtime \<Rightarrow> ustr \<Rightarrow> ustr \<Rightarrow> ustr \<Rightarrow> ustr" where
  "networkLabel rt network tron bsc =
     (if network = lit ''tron'' then tron else if network = lit ''bsc'' then bsc else js_upper rt network)"

definition tokenStandard :: "ustr \<Rightarrow> ustr" where
  "tokenStandard network =
     (if network = lit ''tron'' then lit ''TRC-20'' else if network = lit ''bsc'' then lit ''BEP-20'' else [])"

subsection \<open>Digits\<close>

lemma undec_append: "undec (a @ b) = undec a * 10 ^ length b + undec b"
proof (induction b rule: rev_induct)
  case (snoc c b)
  then show ?case by (simp add: undec_snoc flip: append_assoc)
qed (simp add: undec_def)

lemma undec_zeros: "undec (replicate n 48) = 0"
proof (induction n)
  case (Suc n)
  then show ?case by (simp only: replicate_Suc flip: replicate_append_same) (simp add: undec_snoc)
qed (simp add: undec_def)

lemma undec_zeros_prefix: "undec (replicate n 48 @ s) = undec s"
  by (simp add: undec_append undec_zeros)

lemma digits_dec_int: "0 \<le> n \<Longrightarrow> list_all is_digit (dec_int n) \<and> undec (dec_int n) = nat n"
  by (simp add: dec_int_def digits_dec)

lemma length_dec_bound: "0 < k \<Longrightarrow> n < 10 ^ k \<Longrightarrow> length (dec n) \<le> k"
proof (induction n arbitrary: k rule: dec.induct)
  case (1 n)
  show ?case
  proof (cases "n < 10")
    case True
    then show ?thesis using "1.prems" by (subst dec.simps) simp
  next
    case False
    then have "k \<noteq> 1" using "1.prems" by auto
    then obtain j where k: "k = Suc j" "0 < j" using "1.prems" by (cases k) auto
    have "n div 10 < 10 ^ j" using "1.prems" k by (simp add: less_mult_imp_div_less mult.commute)
    then show ?thesis using "1.IH" [OF False k(2)] False k by (subst dec.simps) simp
  qed
qed

lemma strip_zeros_pad: "\<exists>k. s = strip_zeros s @ replicate k 48"
proof -
  let ?z = "takeWhile (\<lambda>c. c = 48) (rev s)"
  have "rev s = ?z @ dropWhile (\<lambda>c. c = 48) (rev s)" by simp
  then have "s = strip_zeros s @ rev ?z"
    unfolding strip_zeros_def by (metis rev_append rev_rev_ident)
  moreover have "?z = replicate (length ?z) 48"
    by (rule replicate_length_same [symmetric]) (auto dest: set_takeWhileD)
  ultimately show ?thesis by (metis rev_replicate)
qed

lemma digits_append_parts:
  assumes "list_all is_digit w" "w \<noteq> []"
  shows "whole_part (w @ 46 # f) = w" "frac_part (w @ 46 # f) = f"
    "dropWhile is_digit (w @ 46 # f) = 46 # f"
  using assms by (auto simp: whole_part_def frac_part_def list_all_iff takeWhile_append2
      dropWhile_append2 is_digit_def)

lemma digits_parts:
  assumes "list_all is_digit w"
  shows "whole_part w = w" "frac_part w = []" "dropWhile is_digit w = []"
proof -
  show "whole_part w = w" unfolding whole_part_def by (rule takeWhile_all [OF assms])
  show d: "dropWhile is_digit w = []" using assms by (simp only: dropWhile_eq_Nil_list_all)
  show "frac_part w = []" unfolding frac_part_def d by simp
qed

lemma digit_not_ws: "is_digit c \<Longrightarrow> \<not> is_ws c \<and> c \<noteq> 44"
  by (auto simp: is_digit_def is_ws_def)

lemma clean_decimal:
  assumes "list_all (\<lambda>c. is_digit c \<or> c = 46) s"
  shows "strip_commas (js_trim s) = s"
proof -
  have "js_trim s = s"
    using assms by (intro js_trim_no_ws) (auto simp: list_all_iff is_digit_def is_ws_def)
  moreover have "filter (\<lambda>c. c \<noteq> 44) s = s"
    using assms by (intro filter_True) (auto simp: list_all_iff is_digit_def)
  ultimately show ?thesis by (simp add: strip_commas_def)
qed

text \<open>The digits after the point, padded, are the remainder.\<close>

lemma frac_padded:
  assumes "n < SCALE"
  shows "let f = strip_zeros (pad_start 6 48 (dec n))
    in list_all is_digit f \<and> length f \<le> 6 \<and> undec (take 6 (f @ lit ''000000'')) = n"
proof -
  let ?p = "pad_start 6 48 (dec n)" and ?f = "strip_zeros (pad_start 6 48 (dec n))"
  have len: "length (dec n) \<le> 6"
    using assms by (intro length_dec_bound) (simp_all add: SCALE_def)
  then have p: "length ?p = 6" by (simp add: pad_start_def)
  have "list_all is_digit ?p" using digits_dec [of n] by (auto simp: pad_start_def is_digit_def list_all_iff)
  moreover obtain k where k: "?p = ?f @ replicate k 48" using strip_zeros_pad by blast
  ultimately have "list_all is_digit ?f" by (metis list_all_append)
  moreover have fk: "length ?f + k = 6" using k p by (metis length_append length_replicate)
  moreover have "take 6 (?f @ lit ''000000'') = ?p"
  proof -
    have z: "lit ''000000'' = replicate 6 48" by (simp add: lit_def numeral_eq_Suc)
    have "take 6 (?f @ lit ''000000'') = ?f @ take (6 - length ?f) (replicate 6 48)"
      unfolding z using fk by simp
    also have "\<dots> = ?f @ replicate k 48" using fk by (simp add: min_def)
    finally show ?thesis using k by simp
  qed
  moreover have "undec ?p = n" by (simp add: pad_start_def undec_zeros_prefix)
  ultimately show ?thesis by (simp add: Let_def)
qed

lemma usdt_re_parts: "list_all is_digit w \<Longrightarrow> w \<noteq> [] \<Longrightarrow> usdt_re w"
  by (simp add: usdt_re_def digits_parts)

lemma parse_whole:
  assumes "list_all is_digit w" "w \<noteq> []" "0 < undec w * SCALE" "undec w * SCALE \<le> MAX_SAFE_INTEGER"
  shows "parseUsdtToBaseUnits w = Some (undec w * SCALE)"
proof -
  have "strip_commas (js_trim w) = w" using assms(1) by (intro clean_decimal) (auto simp: list_all_iff)
  moreover have "undec (lit ''000000'') = 0" by (simp add: undec_def lit_def)
  ultimately show ?thesis
    using assms usdt_re_parts [of w] by (simp add: parseUsdtToBaseUnits_def Let_def digits_parts)
qed

lemma parse_decimal:
  assumes "list_all is_digit w" "w \<noteq> []" "list_all is_digit f" "f \<noteq> []" "length f \<le> 6"
    and "undec (take 6 (f @ lit ''000000'')) = r"
    and "0 < undec w * SCALE + r" "undec w * SCALE + r \<le> MAX_SAFE_INTEGER"
  shows "parseUsdtToBaseUnits (w @ 46 # f) = Some (undec w * SCALE + r)"
proof -
  have c: "strip_commas (js_trim (w @ 46 # f)) = w @ 46 # f"
    using assms(1,3) by (intro clean_decimal) (auto simp: list_all_iff)
  have "usdt_re (w @ 46 # f)"
    using assms(2-5) by (simp add: usdt_re_def digits_append_parts [OF assms(1,2)] Suc_le_eq)
  then show ?thesis
    using assms(6-8) by (simp add: parseUsdtToBaseUnits_def c Let_def digits_append_parts [OF assms(1,2)])
qed

lemma format_nat:
  assumes "0 < b"
  shows "formatUsdtFromBaseUnits (int b) =
    (let f = strip_zeros (pad_start 6 48 (dec (b mod SCALE)))
     in if f \<noteq> [] then dec (b div SCALE) @ 46 # f else dec (b div SCALE))"
proof -
  have "dec_int (int b div int SCALE) = dec (b div SCALE)" "dec_int (int b mod int SCALE) = dec (b mod SCALE)"
    by (simp_all add: dec_int_def flip: zdiv_int zmod_int)
  then show ?thesis using assms by (simp add: formatUsdtFromBaseUnits_def Let_def)
qed

lemma parse_format:
  assumes "0 < b" "b \<le> MAX_SAFE_INTEGER"
  shows "parseUsdtToBaseUnits (formatUsdtFromBaseUnits (int b)) = Some b"
proof -
  let ?f = "strip_zeros (pad_start 6 48 (dec (b mod SCALE)))" and ?w = "dec (b div SCALE)"
  have r: "b mod SCALE < SCALE" by (simp add: SCALE_def)
  note f = frac_padded [OF r, unfolded Let_def]
  have b: "undec ?w * SCALE + b mod SCALE = b" by simp
  show ?thesis
  proof (cases "?f = []")
    case True
    have "b mod SCALE = 0"
      using f by (simp add: True undec_def lit_def)
    with b have b': "undec ?w * SCALE = b" by simp
    have "parseUsdtToBaseUnits ?w = Some (undec ?w * SCALE)"
      by (rule parse_whole) (simp_all only: digits_dec dec_neq_Nil b' assms not_False_eq_True)
    then show ?thesis unfolding b' by (simp add: format_nat [OF assms(1)] True)
  next
    case False
    have "parseUsdtToBaseUnits (?w @ 46 # ?f) = Some (undec ?w * SCALE + b mod SCALE)"
      by (rule parse_decimal)
        (use f False in \<open>simp_all only: digits_dec dec_neq_Nil b assms not_False_eq_True\<close>)
    then show ?thesis unfolding b by (simp add: format_nat [OF assms(1)] False Let_def)
  qed
qed

interpretation usdt: codec "\<lambda>b. formatUsdtFromBaseUnits (int b)" parseUsdtToBaseUnits
  "\<lambda>b. 0 < b \<and> b \<le> MAX_SAFE_INTEGER"
  by unfold_locales (simp add: parse_format)

text \<open>The gateway and the web application show an amount alike.\<close>

lemma formats_agree: "formatUsdtDisplay (Some b) = formatUsdtFromBaseUnits b"
  by (simp add: formatUsdtDisplay_def formatUsdtFromBaseUnits_def SCALE_def)

subsection \<open>Typed fields\<close>

lemma filter_group_rev: "list_all is_digit s \<Longrightarrow> filter is_digit (group_rev s) = s"
  by (induction s rule: group_rev.induct) (auto simp: list_all_iff is_digit_def filter_id_conv)

lemma ascii_group_rev: "list_all is_digit s \<Longrightarrow> list_all (\<lambda>c. is_digit c \<or> c = 44) (group_rev s)"
  by (induction s rule: group_rev.induct) (auto simp: list_all_iff)

lemma latin_digits_ascii: "list_all (\<lambda>c. c < 1632) s \<Longrightarrow> toLatinDigits s = s"
  by (auto simp: toLatinDigits_def latin_digit_def list_all_iff intro!: map_idI)

lemma filter_group_thousands:
  "filter is_digit (strip_commas (toLatinDigits (group_thousands n))) = dec n"
proof -
  have d: "list_all is_digit (rev (dec n))" using digits_dec [of n] by (simp add: list_all_iff)
  have "list_all (\<lambda>c. c < 1632) (group_thousands n)"
    using ascii_group_rev [OF d] by (auto simp: group_thousands_def list_all_iff is_digit_def)
  then have "toLatinDigits (group_thousands n) = group_thousands n" by (rule latin_digits_ascii)
  moreover have "filter is_digit (strip_commas (group_thousands n)) = filter is_digit (group_thousands n)"
    by (auto simp: strip_commas_def is_digit_def intro!: filter_cong)
  moreover have "filter is_digit (group_thousands n) = rev (filter is_digit (group_rev (rev (dec n))))"
    by (simp add: group_thousands_def rev_filter)
  ultimately show ?thesis using filter_group_rev [OF d] by simp
qed

lemma toman_roundtrip:
  assumes "num n = Some n"
  shows "parseTomanInput num (group_thousands n) = n"
  using assms by (simp add: parseTomanInput_def filter_group_thousands)

lemma phone_normal:
  assumes "list_all is_digit n" "length n = 10" "starts_with n (lit ''9'')"
  shows "normalizeIranianPhone (lit ''+98'' @ n) = Some (lit ''+98'' @ n)"
proof -
  obtain r where r: "n = 57 # r" using assms(2,3) by (cases n) (auto simp: starts_with_def lit_def)
  have "filter (\<lambda>c. is_digit c \<or> c = 43) (lit ''+98'' @ n) = lit ''+98'' @ n"
    using assms(1) by (auto simp: lit_def is_digit_def list_all_iff filter_id_conv)
  then show ?thesis
    using assms(1,2) r by (simp add: normalizeIranianPhone_def starts_with_def lit_def Let_def)
qed

lemma phone_cases:
  assumes "normalizeIranianPhone s = Some t"
  obtains n where "t = lit ''+98'' @ n" "list_all is_digit n" "length n = 10" "starts_with n (lit ''9'')"
  using assms unfolding normalizeIranianPhone_def Let_def
  by (auto split: if_splits)

lemma phone_idem: "normalizeIranianPhone s = Some t \<Longrightarrow> normalizeIranianPhone t = Some t"
  by (erule phone_cases) (simp add: phone_normal)

end
