(* ===== verification/TokenAmount.thy ===== *)
theory TokenAmount
  imports Money
begin

text \<open>
  On-chain amounts and calldata, apps/web/src/lib/payment-handoff/amount.ts. A \<open>BigInt\<close> is a
  natural number here: the amounts of a payment are not negative.

  The lemmas read the calldata back: the 32-byte word of the recipient and the 32-byte word of
  the amount are the recipient and the amount, for every amount below \<open>2 ^ 256\<close>.
\<close>

definition pooliDecimals :: nat where
  "pooliDecimals = 6"

text \<open>\<open>None\<close> is the exception for a token of fewer than six decimals.\<close>

definition pooliBaseToOnChainAmount :: "nat \<Rightarrow> nat \<Rightarrow> nat option" where
  "pooliBaseToOnChainAmount baseUnits tokenDecimals =
     (if tokenDecimals = pooliDecimals then Some baseUnits
      else if tokenDecimals < pooliDecimals then None
      else Some (baseUnits * 10 ^ (tokenDecimals - pooliDecimals)))"

text \<open>\<open>BigInt(n).toString(16)\<close>.\<close>

fun hex_nat :: "nat \<Rightarrow> ustr" where
  "hex_nat n = (if n < 16 then [hex_digit n] else hex_nat (n div 16) @ [hex_digit (n mod 16)])"

declare hex_nat.simps [simp del]

definition strip_0x :: "ustr \<Rightarrow> ustr" where
  "strip_0x s = (if starts_with s (lit ''0x'') then drop 2 s else s)"

definition encodeErc20Transfer :: "runtime \<Rightarrow> ustr \<Rightarrow> nat \<Rightarrow> ustr" where
  "encodeErc20Transfer rt recipient onChainAmount =
     lit ''0xa9059cbb'' @ pad_start 64 48 (strip_0x (js_lower rt recipient))
       @ pad_start 64 48 (hex_nat onChainAmount)"

definition toHexQuantity :: "nat \<Rightarrow> ustr" where
  "toHexQuantity n = lit ''0x'' @ hex_nat n"

subsection \<open>Reading hexadecimal numbers\<close>

fun unhex :: "ustr \<Rightarrow> nat option" where
  "unhex s = foldl (\<lambda>a c. case (a, hex_val c) of (Some n, Some d) \<Rightarrow> Some (16 * n + d) | _ \<Rightarrow> None) (Some 0) s"

declare unhex.simps [simp del]

lemma unhex_snoc: "unhex (s @ [c]) = (case (unhex s, hex_val c) of (Some n, Some d) \<Rightarrow> Some (16 * n + d) | _ \<Rightarrow> None)"
  by (simp add: unhex.simps)

lemma unhex_hex_nat [simp]: "unhex (hex_nat n) = Some n"
proof (induction n rule: hex_nat.induct)
  case (1 n)
  show ?case
  proof (cases "n < 16")
    case True
    then show ?thesis by (subst hex_nat.simps) (simp add: unhex.simps)
  next
    case False
    with 1 show ?thesis by (subst hex_nat.simps) (simp add: unhex_snoc)
  qed
qed

lemma length_hex_nat: "0 < k \<Longrightarrow> n < 16 ^ k \<Longrightarrow> length (hex_nat n) \<le> k"
proof (induction n arbitrary: k rule: hex_nat.induct)
  case (1 n)
  show ?case
  proof (cases "n < 16")
    case True
    then show ?thesis using "1.prems" by (subst hex_nat.simps) simp
  next
    case False
    then have "k \<noteq> 1" using "1.prems" by auto
    then obtain j where k: "k = Suc j" "0 < j" using "1.prems" by (cases k) auto
    have "n div 16 < 16 ^ j" using "1.prems" k by (simp add: less_mult_imp_div_less mult.commute)
    then show ?thesis using "1.IH" [OF False k(2)] False k by (subst hex_nat.simps) simp
  qed
qed

interpretation hexadecimal: codec hex_nat unhex "\<lambda>_. True"
  by unfold_locales (rule unhex_hex_nat)

lemma unhex_zero [simp]: "unhex (48 # s) = unhex s"
  by (simp add: unhex.simps hex_val_def)

lemma unhex_pad [simp]: "unhex (pad_start n 48 s) = unhex s"
proof -
  have "unhex (replicate m 48 @ s) = unhex s" for m by (induction m) simp_all
  then show ?thesis by (simp add: pad_start_def)
qed

lemma length_pad_start: "length s \<le> n \<Longrightarrow> length (pad_start n c s) = n"
  by (simp add: pad_start_def)

text \<open>The calldata of a transfer: the selector, the word of the recipient, the word of the amount.\<close>

lemma calldata_words:
  assumes "length (strip_0x (js_lower rt recipient)) \<le> 64" "n < 2 ^ 256"
  shows "take 10 (encodeErc20Transfer rt recipient n) = lit ''0xa9059cbb''"
    "unhex (take 64 (drop 10 (encodeErc20Transfer rt recipient n))) = unhex (strip_0x (js_lower rt recipient))"
    "unhex (drop 74 (encodeErc20Transfer rt recipient n)) = Some n"
    "length (encodeErc20Transfer rt recipient n) = 138"
proof -
  let ?a = "pad_start 64 48 (strip_0x (js_lower rt recipient))" and ?m = "pad_start 64 48 (hex_nat n)"
  have a: "length ?a = 64" using assms(1) by (rule length_pad_start)
  have "length (hex_nat n) \<le> 64" using assms(2) by (intro length_hex_nat) simp_all
  then have m: "length ?m = 64" by (rule length_pad_start)
  have s: "length (lit ''0xa9059cbb'') = 10" by simp
  have e: "encodeErc20Transfer rt recipient n = lit ''0xa9059cbb'' @ ?a @ ?m"
    by (simp add: encodeErc20Transfer_def)
  show "take 10 (encodeErc20Transfer rt recipient n) = lit ''0xa9059cbb''" using s by (simp add: e)
  show "unhex (take 64 (drop 10 (encodeErc20Transfer rt recipient n))) = unhex (strip_0x (js_lower rt recipient))"
    using s a by (simp add: e)
  show "unhex (drop 74 (encodeErc20Transfer rt recipient n)) = Some n" using s a by (simp add: e)
  show "length (encodeErc20Transfer rt recipient n) = 138" using s a m by (simp add: e)
qed

text \<open>A hexadecimal address with its prefix, in either case.\<close>

definition evm_address :: "ustr \<Rightarrow> bool" where
  "evm_address s \<longleftrightarrow> length s = 42 \<and> take 2 s = lit ''0x'' \<and> list_all (\<lambda>c. hex_val c \<noteq> None) (drop 2 s)"

lemma hex_val_lower: "hex_val (lower_unit c) = hex_val c"
  by (simp add: hex_val_def lower_unit_def)

lemma unhex_lower: "unhex (map lower_unit s) = unhex s"
proof (induction s rule: rev_induct)
  case (snoc c s)
  then show ?case by (simp add: unhex_snoc hex_val_lower)
qed simp

lemma evm_address_word:
  assumes "evm_address s"
  shows "strip_0x (js_lower rt s) = map lower_unit (drop 2 s)"
proof -
  obtain r where r: "s = lit ''0x'' @ r" "length r = 40" "list_all (\<lambda>c. hex_val c \<noteq> None) r"
  proof (rule that [of "drop 2 s"])
    show "s = lit ''0x'' @ drop 2 s"
      using assms append_take_drop_id [of 2 s] unfolding evm_address_def by argo
  qed (use assms in \<open>simp_all add: evm_address_def\<close>)
  have "c < 128" if "hex_val c \<noteq> None" for c
    using that by (auto simp: hex_val_def split: if_splits)
  with r(3) have "ascii r" by (auto simp: ascii_def list_all_iff)
  then have "ascii s" using r(1) by (simp add: ascii_def lit_def)
  then have "js_lower rt s = lit ''0x'' @ map lower_unit r"
    using r(1) by (simp add: js_lower_def lit_def lower_unit_def)
  then show ?thesis using r(1) by (simp add: strip_0x_def starts_with_def)
qed

end
