(* ===== verification/Handoff.thy ===== *)
theory Handoff
  imports TokenAmount Redact
begin

text \<open>
  Handing a payment to a wallet: apps/web/src/lib/payment-handoff/types.ts, registry.ts, env.ts,
  tron.ts, prefs.ts and copy.ts.

  Optional text fields that the code reads with \<open>|| ''\<close> are the empty string when absent. The
  browser is not under src/: whether an assignment of \<open>window.location.href\<close> throws is a
  parameter, and where a function sends the browser is part of its result (\<open>browser_act\<close>).
\<close>

record payment_option =
  op_id :: ustr
  op_network :: ustr
  op_chain_id :: "nat option"
  op_token_contract :: ustr
  op_destination_address :: ustr
  op_pay_usdt_amount :: ustr
  op_base_units :: "nat option"
  op_asset :: ustr
  op_token_decimals :: "nat option"
  op_payment_uri :: ustr
  op_base_usdt_amount :: "ustr option"
  op_expires_at :: "ustr option"
  op_status :: "ustr option"
  op_quote_rate :: "ustr option"

datatype wallet_id = Tronlink | Walletconnect | Trust | Other_wallet | Qr

datatype in_app_kind = Iab_telegram | Iab_instagram | Iab_other

record browser_env =
  be_isMobile :: bool
  be_isDesktop :: bool
  be_isInAppBrowser :: bool
  be_inAppKind :: "in_app_kind option"
  be_isIOS :: bool
  be_isAndroid :: bool

record handoff_input =
  hi_option :: payment_option
  hi_env :: browser_env
  hi_preferredWalletId :: "wallet_id option"
  hi_walletConnectProjectId :: ustr
  hi_storeName :: "ustr option"
  hi_checkoutUrl :: "ustr option"

datatype launch_kind = By_deeplink | By_walletconnect | By_qr | By_copy

record wallet_candidate =
  wc_id :: wallet_id
  wc_labelKey :: wallet_id
  wc_recommended :: bool
  wc_canPrefillRecipient :: bool
  wc_canPrefillAmount :: bool
  wc_kind :: launch_kind

record handoff_plan =
  hp_network :: ustr
  hp_asset :: ustr
  hp_primary :: "wallet_candidate option"
  hp_wallets :: "wallet_candidate list"
  hp_qrPayload :: ustr
  hp_paymentUri :: ustr
  hp_qrPrimary :: bool
  hp_showPayWithWallet :: bool

datatype launch_failure = Unsupported | Missing_project_id | User_rejected | Launch_failed | Iab_blocked

datatype launch_result =
    Launched ustr
  | Not_launched launch_failure ustr

definition launched :: "launch_result \<Rightarrow> bool" where
  "launched r = (case r of Launched _ \<Rightarrow> True | Not_launched _ _ \<Rightarrow> False)"

subsection \<open>The plan\<close>

definition isEvm :: "ustr \<Rightarrow> bool" where
  "isEvm network \<longleftrightarrow> network = lit ''bsc'' \<or> starts_with network (lit ''eip155:'') \<or>
     (network \<noteq> [] \<and> network \<noteq> lit ''tron'')"

definition isTron :: "ustr \<Rightarrow> bool" where
  "isTron network \<longleftrightarrow> network = lit ''tron''"

definition candidate :: "wallet_id \<Rightarrow> wallet_id \<Rightarrow> launch_kind \<Rightarrow> bool \<Rightarrow> bool \<Rightarrow> bool \<Rightarrow> wallet_candidate" where
  "candidate i labelKey kind recipient amount recommended =
     \<lparr>wc_id = i, wc_labelKey = labelKey, wc_recommended = recommended,
      wc_canPrefillRecipient = recipient, wc_canPrefillAmount = amount, wc_kind = kind\<rparr>"

definition or_text :: "ustr \<Rightarrow> ustr \<Rightarrow> ustr" where
  "or_text a b = (if a \<noteq> [] then a else b)"

definition plan_wallets :: "ustr \<Rightarrow> ustr \<Rightarrow> bool \<Rightarrow> wallet_candidate list" where
  "plan_wallets network paymentUri hasWc =
     (let uri = paymentUri \<noteq> []
      in if isTron network then
           [candidate Tronlink Tronlink By_deeplink True True True,
            candidate Other_wallet Other_wallet By_deeplink uri uri False,
            candidate Qr Qr By_qr True uri False]
         else if isEvm network then
           (if hasWc then [candidate Walletconnect Walletconnect By_walletconnect True True True] else []) @
           (if hasWc then [candidate Trust Trust By_walletconnect True True False] else []) @
           [candidate Other_wallet Other_wallet By_deeplink uri False False,
            candidate Qr Qr By_qr True uri False]
         else [candidate Qr Qr By_qr True uri False])"

definition or_find :: "wallet_candidate option \<Rightarrow> wallet_candidate option \<Rightarrow> wallet_candidate option" where
  "or_find a b = (case a of None \<Rightarrow> b | Some w \<Rightarrow> Some w)"

definition choose_primary :: "wallet_id option \<Rightarrow> wallet_candidate list \<Rightarrow> wallet_candidate option" where
  "choose_primary preferred ws =
     or_find (find (\<lambda>w. Some (wc_id w) = preferred \<and> wc_id w \<noteq> Qr) ws)
      (or_find (find wc_recommended ws)
       (or_find (find (\<lambda>w. wc_id w \<noteq> Qr) ws)
        (case ws of [] \<Rightarrow> None | w # _ \<Rightarrow> Some w)))"

definition buildHandoffPlan :: "handoff_input \<Rightarrow> handoff_plan" where
  "buildHandoffPlan input =
     (let opt = hi_option input; env = hi_env input;
          network = or_text (op_network opt) (lit ''tron'');
          asset = or_text (js_trim (or_text (op_asset opt) (lit ''USDT''))) (lit ''USDT'');
          paymentUri = op_payment_uri opt;
          qrPayload = or_text paymentUri (op_destination_address opt);
          hasWc = hi_walletConnectProjectId input \<noteq> [];
          wallets = plan_wallets network paymentUri hasWc;
          primary = choose_primary (hi_preferredWalletId input) wallets;
          qrPrimary = be_isDesktop env;
          showPayWithWallet = be_isMobile env \<and>
            (case primary of None \<Rightarrow> True | Some w \<Rightarrow> wc_kind w \<noteq> By_qr)
      in \<lparr>hp_network = network, hp_asset = asset, hp_primary = primary, hp_wallets = wallets,
          hp_qrPayload = qrPayload, hp_paymentUri = paymentUri, hp_qrPrimary = qrPrimary,
          hp_showPayWithWallet = showPayWithWallet\<rparr>)"

definition filterValidWallets :: "handoff_plan \<Rightarrow> wallet_candidate list" where
  "filterValidWallets plan = filter (\<lambda>w. wc_id w \<noteq> Qr) (hp_wallets plan)"

subsection \<open>The browser\<close>

definition has_word :: "ustr \<Rightarrow> string list \<Rightarrow> bool" where
  "has_word s ws = list_ex (\<lambda>w. has_sub s (lit w)) ws"

text \<open>\<open>/a|b/i.test(s)\<close> for ASCII words.\<close>

definition has_word_i :: "ustr \<Rightarrow> string list \<Rightarrow> bool" where
  "has_word_i s ws = has_word (map lower_unit s) ws"

definition detectBrowserEnv :: "runtime \<Rightarrow> ustr \<Rightarrow> browser_env" where
  "detectBrowserEnv rt ua =
     (let lower = js_lower rt ua;
          isIOS = has_word lower [''iphone'', ''ipad'', ''ipod''];
          isAndroid = has_word lower [''android''];
          isMobile = isIOS \<or> isAndroid \<or> has_word lower [''mobile''];
          isTelegram = has_word_i ua [''telegram''];
          isInstagram = has_word_i ua [''instagram''];
          isFB = has_word_i ua [''fbav'', ''fban'', ''fb_iab''];
          isInAppBrowser = isTelegram \<or> isInstagram \<or> isFB
      in \<lparr>be_isMobile = isMobile, be_isDesktop = \<not> isMobile, be_isInAppBrowser = isInAppBrowser,
          be_inAppKind = (if isTelegram then Some Iab_telegram else if isInstagram then Some Iab_instagram
            else if isInAppBrowser then Some Iab_other else None),
          be_isIOS = isIOS, be_isAndroid = isAndroid\<rparr>)"

datatype browser_act =
    Assign_location ustr
  | Open_window ustr

definition strip_scheme :: "ustr \<Rightarrow> ustr" where
  "strip_scheme s =
     (if starts_with (map lower_unit s) (lit ''https://'') then drop 8 s
      else if starts_with (map lower_unit s) (lit ''http://'') then drop 7 s else s)"

definition safari_scheme :: "ustr \<Rightarrow> ustr" where
  "safari_scheme s =
     (if starts_with (map lower_unit s) (lit ''https://'') then lit ''x-safari-https://'' @ drop 8 s else s)"

text \<open>\<open>throws act\<close>: whether the browser refuses the act with an exception. \<open>None\<close> for the user agent
  is a run without a window.\<close>

definition openInExternalBrowser ::
  "runtime \<Rightarrow> (browser_act \<Rightarrow> bool) \<Rightarrow> ustr option \<Rightarrow> ustr \<Rightarrow> ustr \<Rightarrow> bool \<times> browser_act option" where
  "openInExternalBrowser rt throws o_ua href url =
     (case o_ua of None \<Rightarrow> (False, None)
      | Some ua \<Rightarrow>
          let target = or_text url href;
              env = detectBrowserEnv rt ua;
              act = (if be_isAndroid env then
                  Assign_location (lit ''intent://'' @ strip_scheme target @
                    lit ''#Intent;scheme=https;action=android.intent.action.VIEW;end'')
                else if be_isIOS env \<and> (be_inAppKind env = Some Iab_instagram \<or>
                    has_word_i ua [''fban'', ''fbav'', ''fb_iab'']) then
                  Assign_location (safari_scheme target)
                else Open_window target)
          in if throws act then (False, None) else (True, Some act))"

subsection \<open>TRON\<close>

datatype tron_mode = Mode_uri | Mode_tronlink_open

definition tronlink_open_json :: ustr where
  "tronlink_open_json = lit ''{'' @ json_quote (lit ''action'') @ lit '':'' @ json_quote (lit ''open'') @ lit '',''
     @ json_quote (lit ''protocol'') @ lit '':'' @ json_quote (lit ''TronLink'') @ lit '',''
     @ json_quote (lit ''version'') @ lit '':'' @ json_quote (lit ''1.0'') @ lit ''}''"

definition tronlink_url :: ustr where
  "tronlink_url = lit ''tronlinkoutside://pull.activity?param='' @
     (case encodeURIComponent tronlink_open_json of None \<Rightarrow> [] | Some e \<Rightarrow> e)"

text \<open>The third branch of the source, an assignment without a handler, is reached only in mode
  \<open>uri\<close> with no URI, so never; it is left out.\<close>

definition launchTronHandoff ::
  "(browser_act \<Rightarrow> bool) \<Rightarrow> bool \<Rightarrow> handoff_input \<Rightarrow> tron_mode \<Rightarrow> launch_result \<times> browser_act option" where
  "launchTronHandoff throws windowed input mode =
     (if \<not> windowed then (Not_launched Unsupported [], None)
      else let uri = op_payment_uri (hi_option input)
        in if mode = Mode_uri \<and> uri \<noteq> [] then
             (if throws (Assign_location uri)
              then (Not_launched Launch_failed (lit ''Could not open payment URI''), None)
              else (Launched (lit ''tron_uri''), Some (Assign_location uri)))
           else if mode = Mode_tronlink_open then
             (if throws (Assign_location tronlink_url) then (Not_launched Launch_failed [], None)
              else (Launched (lit ''tronlink_open''), Some (Assign_location tronlink_url)))
           else (Not_launched Unsupported (lit ''No TRON payment URI available''), None))"

definition payWithTronWallet ::
  "(browser_act \<Rightarrow> bool) \<Rightarrow> bool \<Rightarrow> handoff_input \<Rightarrow> launch_result \<times> browser_act option" where
  "payWithTronWallet throws windowed input =
     (let first = launchTronHandoff throws windowed input Mode_uri
      in if launched (fst first) then first
         else if be_isMobile (hi_env input) then launchTronHandoff throws windowed input Mode_tronlink_open
         else first)"

subsection \<open>Preferences\<close>

text \<open>\<open>localStorage\<close> as a map; \<open>None\<close> where it is not available.\<close>

type_synonym storage = "(ustr \<rightharpoonup> ustr) option"

definition NETWORK_KEY :: ustr where
  "NETWORK_KEY = lit ''pooli.checkout.network''"

definition WALLET_KEY :: ustr where
  "WALLET_KEY = lit ''pooli.checkout.wallet''"

fun wallet_name :: "wallet_id \<Rightarrow> ustr" where
  "wallet_name Tronlink = lit ''tronlink''"
| "wallet_name Walletconnect = lit ''walletconnect''"
| "wallet_name Trust = lit ''trust''"
| "wallet_name Other_wallet = lit ''other''"
| "wallet_name Qr = lit ''qr''"

definition wallet_of_name :: "ustr \<Rightarrow> wallet_id option" where
  "wallet_of_name raw = find (\<lambda>w. wallet_name w = raw) [Tronlink, Walletconnect, Trust, Other_wallet, Qr]"

definition getPreferredNetwork :: "storage \<Rightarrow> ustr option" where
  "getPreferredNetwork s =
     (case s of None \<Rightarrow> None
      | Some m \<Rightarrow> (case m NETWORK_KEY of None \<Rightarrow> None
          | Some v \<Rightarrow> if v = lit ''tron'' \<or> v = lit ''bsc'' then Some v else None))"

definition setPreferredNetwork :: "ustr \<Rightarrow> storage \<Rightarrow> storage" where
  "setPreferredNetwork network s =
     (case s of None \<Rightarrow> None
      | Some m \<Rightarrow> if network = lit ''tron'' \<or> network = lit ''bsc'' then Some (m(NETWORK_KEY \<mapsto> network)) else Some m)"

definition wallet_key :: "ustr \<Rightarrow> ustr" where
  "wallet_key network = WALLET_KEY @ lit ''.'' @ network"

definition getPreferredWallet :: "ustr \<Rightarrow> storage \<Rightarrow> wallet_id option" where
  "getPreferredWallet network s =
     (case s of None \<Rightarrow> None
      | Some m \<Rightarrow> (case m (wallet_key network) of None \<Rightarrow> None | Some raw \<Rightarrow> wallet_of_name raw))"

definition setPreferredWallet :: "ustr \<Rightarrow> wallet_id \<Rightarrow> storage \<Rightarrow> storage" where
  "setPreferredWallet network w s =
     (case s of None \<Rightarrow> None | Some m \<Rightarrow> Some (m(wallet_key network \<mapsto> wallet_name w)))"

interpretation wallets: codec wallet_name wallet_of_name "\<lambda>_. True"
proof
  fix w
  show "wallet_of_name (wallet_name w) = Some w"
    by (cases w) (simp_all add: wallet_of_name_def)
qed

lemma preferred_wallet_roundtrip:
  "getPreferredWallet n (setPreferredWallet n w (Some m)) = Some w"
  using wallets.storage_roundtrip [where x = w and m = m and k = "wallet_key n"]
  by (simp add: getPreferredWallet_def setPreferredWallet_def)

subsection \<open>Copying\<close>

definition exactPayableAmount :: "payment_option \<Rightarrow> ustr" where
  "exactPayableAmount opt = js_trim (op_pay_usdt_amount opt)"

definition fullDestinationAddress :: "payment_option \<Rightarrow> ustr" where
  "fullDestinationAddress opt = js_trim (op_destination_address opt)"

definition assetSymbol :: "payment_option \<Rightarrow> ustr" where
  "assetSymbol opt = or_text (js_trim (or_text (op_asset opt) (lit ''USDT''))) (lit ''USDT'')"

definition copy_networkLabel :: "runtime \<Rightarrow> ustr \<Rightarrow> ustr" where
  "copy_networkLabel rt network =
     (if network = lit ''tron'' then lit ''TRON'' else if network = lit ''bsc'' then lit ''BNB Chain''
      else js_upper rt network)"

record copy_labels =
  cl_heading :: ustr
  cl_merchant :: ustr
  cl_amount :: ustr
  cl_network :: ustr
  cl_address :: ustr

definition buildPaymentDetailsText :: "runtime \<Rightarrow> ustr \<Rightarrow> payment_option \<Rightarrow> copy_labels \<Rightarrow> ustr" where
  "buildPaymentDetailsText rt storeName opt labels =
     (let amount = exactPayableAmount opt; asset = assetSymbol opt;
          heading = or_text (cl_heading labels) (lit ''Pooli Payment'');
          merchant = or_text (cl_merchant labels) (lit ''Merchant'');
          amountL = or_text (cl_amount labels) (lit ''Amount'');
          networkL = or_text (cl_network labels) (lit ''Network'');
          address = or_text (cl_address labels) (lit ''Address'')
      in join_with [10] (filter (\<lambda>l. l \<noteq> [])
          [heading,
           (if storeName \<noteq> [] then merchant @ lit '': '' @ storeName else []),
           amountL @ lit '': '' @ amount @ lit '' '' @ asset,
           networkL @ lit '': '' @ copy_networkLabel rt (op_network opt),
           address @ lit '': '' @ fullDestinationAddress opt]))"

text \<open>\<open>clipboard\<close> is \<open>None\<close> where there is no clipboard and otherwise whether writing succeeds;
  \<open>execCommand\<close> is \<open>None\<close> where the fallback throws.\<close>

definition copyText :: "bool option \<Rightarrow> bool option \<Rightarrow> ustr \<Rightarrow> bool" where
  "copyText clipboard execCommand t =
     (if t = [] then False
      else if clipboard = Some True then True
      else (case execCommand of None \<Rightarrow> False | Some done_ok \<Rightarrow> done_ok))"

end
