(* ===== verification/WalletLaunch.thy ===== *)
theory WalletLaunch
  imports Handoff
begin

text \<open>
  Paying through WalletConnect and launching a handoff: apps/web/src/lib/payment-handoff/evm.ts
  and launch.ts.

  WalletConnect and the wallet behind it are not under src/. A provider is the record of what
  its methods answer; \<open>init\<close> says what the module's \<open>EthereumProvider.init\<close> gives for a project and
  a chain. The module's two variables are \<open>wc_state\<close>. A failed call carries the \<open>code\<close> of the error
  and the message the handler reads. What a payment asks the wallet to send is part of its
  result.
\<close>

datatype 'a call_result =
    Returned 'a
  | Failed_call "int option" ustr

record transaction =
  tx_from :: ustr
  tx_to :: ustr
  tx_data :: ustr
  tx_value :: ustr

record eth_provider =
  ep_connect :: "(nat \<Rightarrow> unit call_result) option"
  ep_enable :: "unit call_result option"
  ep_requestAccounts :: "unit call_result"
  ep_switchChain :: "ustr \<Rightarrow> unit call_result"
  ep_addChain :: "unit call_result"
  ep_accounts :: "ustr list option"
  ep_ethAccounts :: "ustr list call_result"
  ep_send :: "transaction \<Rightarrow> unit call_result"

record cached_wc =
  cw_projectId :: ustr
  cw_chainId :: nat
  cw_provider :: eth_provider

record wc_state =
  ws_cached :: "cached_wc option"
  ws_providerInit :: "eth_provider option option"

definition wc_initial :: wc_state where
  "wc_initial = \<lparr>ws_cached = None, ws_providerInit = None\<rparr>"

definition wcProjectId :: "ustr option \<Rightarrow> ustr \<Rightarrow> ustr" where
  "wcProjectId envId explicit = js_trim (or_text explicit (case envId of None \<Rightarrow> [] | Some e \<Rightarrow> e))"

text \<open>The disconnection of the dropped provider is best effort and changes nothing here.\<close>

definition dropWalletConnectProvider :: "wc_state \<Rightarrow> wc_state" where
  "dropWalletConnectProvider s = s\<lparr>ws_cached := None, ws_providerInit := None\<rparr>"

definition getWalletConnectProvider ::
  "(ustr \<Rightarrow> nat \<Rightarrow> eth_provider option) \<Rightarrow> ustr \<Rightarrow> nat \<Rightarrow> wc_state \<Rightarrow> wc_state \<times> eth_provider option" where
  "getWalletConnectProvider init projectId chainId s =
     (if projectId = [] then (s, None)
      else case ws_cached s of
        Some c \<Rightarrow>
          (if cw_projectId c = projectId \<and> cw_chainId c = chainId then (s, Some (cw_provider c))
           else (case init projectId chainId of
                Some p \<Rightarrow> (s\<lparr>ws_cached := Some \<lparr>cw_projectId = projectId, cw_chainId = chainId, cw_provider = p\<rparr>,
                    ws_providerInit := Some (Some p)\<rparr>, Some p)
              | None \<Rightarrow> (s\<lparr>ws_cached := None, ws_providerInit := None\<rparr>, None)))
      | None \<Rightarrow>
          (case ws_providerInit s of
             Some r \<Rightarrow> (s, r)
           | None \<Rightarrow>
               (case init projectId chainId of
                  Some p \<Rightarrow> (s\<lparr>ws_cached := Some \<lparr>cw_projectId = projectId, cw_chainId = chainId, cw_provider = p\<rparr>,
                      ws_providerInit := Some (Some p)\<rparr>, Some p)
                | None \<Rightarrow> (s\<lparr>ws_cached := None, ws_providerInit := None\<rparr>, None))))"

text \<open>\<open>BSC_ADD_CHAIN\<close>, the chain a wallet is asked to add.\<close>

record chain_params =
  ch_chainId :: ustr
  ch_chainName :: ustr
  ch_currencyName :: ustr
  ch_currencySymbol :: ustr
  ch_currencyDecimals :: nat
  ch_rpcUrls :: "ustr list"
  ch_blockExplorerUrls :: "ustr list"

definition BSC_ADD_CHAIN :: chain_params where
  "BSC_ADD_CHAIN = \<lparr>ch_chainId = lit ''0x38'', ch_chainName = lit ''BNB Smart Chain'',
     ch_currencyName = lit ''BNB'', ch_currencySymbol = lit ''BNB'', ch_currencyDecimals = 18,
     ch_rpcUrls = [lit ''https://bsc-dataseed.binance.org''],
     ch_blockExplorerUrls = [lit ''https://bscscan.com'']\<rparr>"

definition ensureChain :: "eth_provider \<Rightarrow> nat \<Rightarrow> unit call_result" where
  "ensureChain p chainId =
     (case ep_switchChain p (toHexQuantity chainId) of
        Returned _ \<Rightarrow> Returned ()
      | Failed_call code msg \<Rightarrow>
          if (code = Some 4902 \<or> code = Some (-32603)) \<and> chainId = 56 then ep_addChain p
          else Failed_call code msg)"

definition user_refusal :: "ustr \<Rightarrow> bool" where
  "user_refusal msg = has_word_i msg [''reject'', ''denied'', ''cancel'']"

text \<open>What the \<open>try\<close> block makes of the provider: \<open>Inl\<close> a message it throws, \<open>Inr\<close> its result.\<close>

definition connect_wallet :: "eth_provider \<Rightarrow> nat \<Rightarrow> unit call_result" where
  "connect_wallet p chainId =
     (case ep_connect p of
        Some c \<Rightarrow> c chainId
      | None \<Rightarrow> (case ep_enable p of Some e \<Rightarrow> e | None \<Rightarrow> ep_requestAccounts p))"

definition wallet_accounts :: "eth_provider \<Rightarrow> ustr list call_result" where
  "wallet_accounts p =
     (case ep_accounts p of
        Some (a # as) \<Rightarrow> Returned (a # as)
      | _ \<Rightarrow> ep_ethAccounts p)"

definition too_small_text :: ustr where
  "too_small_text = lit ''token decimals too small''"

definition send_payment ::
  "runtime \<Rightarrow> eth_provider \<Rightarrow> nat \<Rightarrow> ustr \<Rightarrow> ustr \<Rightarrow> nat \<Rightarrow> nat \<Rightarrow> transaction option \<times> (ustr + launch_result)" where
  "send_payment rt p chainId token recipient baseUnits decimals =
     (case connect_wallet p chainId of
        Failed_call _ msg \<Rightarrow> (None, Inl msg)
      | Returned _ \<Rightarrow>
          (case ensureChain p chainId of
             Failed_call _ msg \<Rightarrow> (None, Inl msg)
           | Returned _ \<Rightarrow>
               (case wallet_accounts p of
                  Failed_call _ msg \<Rightarrow> (None, Inl msg)
                | Returned accounts \<Rightarrow>
                    let sender = (case accounts of [] \<Rightarrow> [] | a # _ \<Rightarrow> a)
                    in if sender = [] then (None, Inr (Not_launched Launch_failed (lit ''No wallet account'')))
                       else (case pooliBaseToOnChainAmount baseUnits decimals of
                         None \<Rightarrow> (None, Inl too_small_text)
                       | Some onChain \<Rightarrow>
                           let tx = \<lparr>tx_from = sender, tx_to = token,
                               tx_data = encodeErc20Transfer rt recipient onChain, tx_value = lit ''0x0''\<rparr>
                           in (case ep_send p tx of
                             Failed_call _ msg \<Rightarrow> (Some tx, Inl msg)
                           | Returned _ \<Rightarrow> (Some tx, Inr (Launched (lit ''walletconnect''))))))))"

definition default_decimals :: "payment_option \<Rightarrow> nat" where
  "default_decimals opt =
     (case op_token_decimals opt of Some d \<Rightarrow> d | None \<Rightarrow> if op_network opt = lit ''bsc'' then 18 else 6)"

definition payWithWalletConnect ::
  "runtime \<Rightarrow> ustr option \<Rightarrow> (ustr \<Rightarrow> nat \<Rightarrow> eth_provider option) \<Rightarrow> handoff_input \<Rightarrow> wc_state
     \<Rightarrow> wc_state \<times> transaction option \<times> launch_result" where
  "payWithWalletConnect rt envId init input s =
     (let projectId = wcProjectId envId (hi_walletConnectProjectId input)
      in if projectId = [] then (s, None, Not_launched Missing_project_id [])
         else let opt = hi_option input;
                  chainId = (case op_chain_id opt of None \<Rightarrow> 0 | Some c \<Rightarrow> c);
                  token = op_token_contract opt;
                  recipient = op_destination_address opt;
                  decimals = default_decimals opt
           in case op_base_units opt of
                None \<Rightarrow> (s, None, Not_launched Unsupported (lit ''Missing EVM payment fields''))
              | Some baseUnits \<Rightarrow>
                  if chainId = 0 \<or> token = [] \<or> recipient = [] then
                    (s, None, Not_launched Unsupported (lit ''Missing EVM payment fields''))
                  else (case getWalletConnectProvider init projectId chainId s of
                    (s1, None) \<Rightarrow> (s1, None, Not_launched Launch_failed (lit ''WalletConnect unavailable''))
                  | (s1, Some p) \<Rightarrow>
                      (case send_payment rt p chainId token recipient baseUnits decimals of
                         (tx, Inr r) \<Rightarrow> (s1, tx, r)
                       | (tx, Inl msg) \<Rightarrow>
                           if user_refusal msg then (s1, tx, Not_launched User_rejected msg)
                           else (dropWalletConnectProvider s1, tx, Not_launched Launch_failed msg))))"

definition launchEip681 ::
  "(browser_act \<Rightarrow> bool) \<Rightarrow> bool \<Rightarrow> handoff_input \<Rightarrow> launch_result \<times> browser_act option" where
  "launchEip681 throws windowed input =
     (let uri = op_payment_uri (hi_option input)
      in if uri = [] \<or> \<not> windowed then (Not_launched Unsupported [], None)
         else if throws (Assign_location uri) then (Not_launched Launch_failed [], None)
         else (Launched (lit ''eip681''), Some (Assign_location uri)))"

subsection \<open>Launching\<close>

record launch_outcome =
  lo_state :: wc_state
  lo_tx :: "transaction option"
  lo_act :: "browser_act option"
  lo_result :: launch_result

definition via_browser :: "wc_state \<Rightarrow> launch_result \<times> browser_act option \<Rightarrow> launch_outcome" where
  "via_browser s r = \<lparr>lo_state = s, lo_tx = None, lo_act = snd r, lo_result = fst r\<rparr>"

definition via_wallet :: "wc_state \<times> transaction option \<times> launch_result \<Rightarrow> launch_outcome" where
  "via_wallet r = \<lparr>lo_state = fst r, lo_tx = fst (snd r), lo_act = None, lo_result = snd (snd r)\<rparr>"

definition keeps_result :: "launch_result \<Rightarrow> bool" where
  "keeps_result r = (case r of Launched _ \<Rightarrow> True
     | Not_launched f _ \<Rightarrow> f = User_rejected \<or> f = Missing_project_id)"

definition launchWalletHandoff ::
  "runtime \<Rightarrow> ustr option \<Rightarrow> (ustr \<Rightarrow> nat \<Rightarrow> eth_provider option) \<Rightarrow> (browser_act \<Rightarrow> bool) \<Rightarrow> bool
     \<Rightarrow> handoff_input \<Rightarrow> wallet_id option \<Rightarrow> wc_state \<Rightarrow> launch_outcome" where
  "launchWalletHandoff rt envId init throws windowed input walletId s =
     (let plan = buildHandoffPlan input;
          chosen = (case walletId of Some w \<Rightarrow> Some w | None \<Rightarrow> map_option wc_id (hp_primary plan))
      in if chosen = Some Qr then
           \<lparr>lo_state = s, lo_tx = None, lo_act = None, lo_result = Not_launched Unsupported (lit ''Use QR surface'')\<rparr>
         else if hp_network plan = lit ''tron'' then via_browser s (payWithTronWallet throws windowed input)
         else if chosen = Some Walletconnect \<or> chosen = Some Trust then
           (let wc = via_wallet (payWithWalletConnect rt envId init input s)
            in if keeps_result (lo_result wc) then wc
               else let eip = launchEip681 throws windowed input
                 in if launched (fst eip) then wc\<lparr>lo_act := snd eip, lo_result := fst eip\<rparr> else wc)
         else if chosen = Some Other_wallet then via_browser s (launchEip681 throws windowed input)
         else if hi_walletConnectProjectId input \<noteq> [] then
           via_wallet (payWithWalletConnect rt envId init input s)
         else via_browser s (launchEip681 throws windowed input))"

subsection \<open>The plan\<close>

lemma find_mem: "find P xs = Some x \<Longrightarrow> x \<in> set xs \<and> P x"
  by (induction xs) (auto split: if_splits)

lemma choose_primary_mem: "choose_primary pref ws = Some w \<Longrightarrow> w \<in> set ws"
  by (auto simp: choose_primary_def or_find_def dest: find_mem split: option.splits list.splits)

lemma choose_primary_not_qr:
  assumes "w \<in> set ws" "wc_id w \<noteq> Qr" "\<forall>v\<in>set ws. wc_recommended v \<longrightarrow> wc_id v \<noteq> Qr"
  shows "\<exists>v\<in>set ws. choose_primary pref ws = Some v \<and> wc_id v \<noteq> Qr"
proof -
  have "find (\<lambda>w. wc_id w \<noteq> Qr) ws \<noteq> None" using assms(1,2) by (auto simp: find_None_iff)
  then show ?thesis
    using assms(3)
    by (auto simp: choose_primary_def or_find_def dest: find_mem split: option.splits)
qed

lemma plan_wallets_cases:
  "net \<noteq> [] \<Longrightarrow> w \<in> set (plan_wallets net uri wc) \<Longrightarrow>
     (wc_id w = Tronlink \<longrightarrow> net = lit ''tron'') \<and>
     (wc_kind w = By_walletconnect \<longrightarrow> wc \<and> net \<noteq> lit ''tron'') \<and>
     (net \<noteq> lit ''tron'' \<and> wc_kind w = By_deeplink \<longrightarrow> \<not> wc_canPrefillAmount w) \<and>
     (wc_recommended w \<longrightarrow> wc_id w \<noteq> Qr) \<and> (wc_kind w = By_qr \<longleftrightarrow> wc_id w = Qr)"
  by (auto simp: plan_wallets_def isTron_def isEvm_def candidate_def Let_def split: if_splits)

lemma plan_wallets_other: "net \<noteq> [] \<Longrightarrow>
    \<exists>w\<in>set (plan_wallets net uri wc). wc_id w = Other_wallet"
  by (auto simp: plan_wallets_def isTron_def isEvm_def candidate_def Let_def)

lemma or_text_ne: "b \<noteq> [] \<Longrightarrow> or_text a b \<noteq> []"
  by (simp add: or_text_def)

lemma buildHandoffPlan_fields:
  "hp_network (buildHandoffPlan input) = or_text (op_network (hi_option input)) (lit ''tron'')"
  "hp_wallets (buildHandoffPlan input) = plan_wallets (hp_network (buildHandoffPlan input))
     (op_payment_uri (hi_option input)) (hi_walletConnectProjectId input \<noteq> [])"
  "hp_primary (buildHandoffPlan input) =
     choose_primary (hi_preferredWalletId input) (hp_wallets (buildHandoffPlan input))"
  "hp_showPayWithWallet (buildHandoffPlan input) \<longleftrightarrow> be_isMobile (hi_env input) \<and>
     (case hp_primary (buildHandoffPlan input) of None \<Rightarrow> True | Some w \<Rightarrow> wc_kind w \<noteq> By_qr)"
  by (simp_all add: buildHandoffPlan_def Let_def)

lemma plan_network_ne: "hp_network (buildHandoffPlan input) \<noteq> []"
  by (simp add: buildHandoffPlan_fields or_text_ne)

subsection \<open>What the wallet is asked to sign\<close>

lemma send_payment_tx:
  "send_payment rt p chainId token recipient b d = (Some tx, r) \<Longrightarrow>
     \<exists>n. pooliBaseToOnChainAmount b d = Some n \<and> tx_to tx = token \<and>
       tx_data tx = encodeErc20Transfer rt recipient n \<and> tx_value tx = lit ''0x0'' \<and> tx_from tx \<noteq> []"
  by (auto simp: send_payment_def Let_def split: call_result.splits option.splits if_splits)

lemma payWithWalletConnect_tx:
  assumes "payWithWalletConnect rt envId init input s = (s', Some tx, r)"
  shows "\<exists>b n. op_base_units (hi_option input) = Some b \<and>
    pooliBaseToOnChainAmount b (default_decimals (hi_option input)) = Some n \<and>
    tx_to tx = op_token_contract (hi_option input) \<and>
    tx_data tx = encodeErc20Transfer rt (op_destination_address (hi_option input)) n \<and>
    tx_value tx = lit ''0x0''"
  using assms
  by (auto simp: payWithWalletConnect_def Let_def dest!: send_payment_tx
      split: if_splits option.splits prod.splits sum.splits)

text \<open>\<open>Launched\<close> by WalletConnect means that the wallet accepted the transaction.\<close>

lemma send_payment_launched:
  "send_payment rt p chainId token recipient b d = (o_tx, Inr (Launched m)) \<Longrightarrow>
     \<exists>tx. o_tx = Some tx \<and> ep_send p tx = Returned ()"
  by (auto simp: send_payment_def Let_def split: call_result.splits option.splits if_splits)

lemma tron_no_tx: "hp_network (buildHandoffPlan input) = lit ''tron'' \<Longrightarrow>
    lo_tx (launchWalletHandoff rt e init th w input wid s) = None"
  by (simp add: launchWalletHandoff_def via_browser_def Let_def)

end
