(* ===== verification/Poller.thy ===== *)
theory Poller
  imports PaymentStatus
begin

text \<open>
  The poll loop of the checkout page, \<open>createPaymentStatusPoller\<close> in apps/web/src/lib/paymentPoll.ts,
  and the hook that drives it, usePaymentStatusPoll.ts.

  The closure's variables are the record \<open>poller\<close>. The loop is driven from outside by the events
  \<open>poll_event\<close>: the three methods, the timer firing and a reload of a tick settling, each with
  the status \<open>getStatus\<close> gives then; an event that cannot happen (a timer that is not armed, a
  reload that is not pending) leaves the state as it is. \<open>pl_reloads\<close> counts the calls of
  \<open>reload\<close> and \<open>pl_pending\<close> those of ticks that have not settled; the source has no such
  variables, they are for the statements.
\<close>

record poller =
  pl_attempt :: nat
  pl_timer :: "nat option"
  pl_stopped :: bool
  pl_hidden :: bool
  pl_inFlight :: bool
  pl_reloads :: nat
  pl_pending :: nat

definition new_poller :: poller where
  "new_poller = \<lparr>pl_attempt = 0, pl_timer = None, pl_stopped = True, pl_hidden = False,
     pl_inFlight = False, pl_reloads = 0, pl_pending = 0\<rparr>"

definition clearTimer :: "poller \<Rightarrow> poller" where
  "clearTimer p = p\<lparr>pl_timer := None\<rparr>"

definition arm :: "nat \<Rightarrow> poller \<Rightarrow> poller" where
  "arm ms p = (let p1 = clearTimer p in if pl_stopped p1 then p1 else p1\<lparr>pl_timer := Some ms\<rparr>)"

text \<open>A tick up to its \<open>await\<close>.\<close>

definition tick_begin :: "ustr option \<Rightarrow> poller \<Rightarrow> poller" where
  "tick_begin status p =
     (if pl_stopped p then p
      else if \<not> shouldPollPaymentStatus status then p\<lparr>pl_attempt := 0\<rparr>
      else if pl_hidden p then arm 5000 p
      else let p1 = p\<lparr>pl_attempt := pl_attempt p + 1\<rparr>;
               p2 = arm (pollIntervalMs (pl_attempt p1)) p1
        in if pl_inFlight p2 then p2
           else p2\<lparr>pl_inFlight := True, pl_reloads := pl_reloads p2 + 1, pl_pending := pl_pending p2 + 1\<rparr>)"

text \<open>The timer's callback.\<close>

definition timer_fires :: "ustr option \<Rightarrow> poller \<Rightarrow> poller" where
  "timer_fires status p = (if pl_timer p = None then p else tick_begin status (clearTimer p))"

text \<open>A tick from its \<open>await\<close> on, whether the reload failed or not.\<close>

definition tick_end :: "ustr option \<Rightarrow> poller \<Rightarrow> poller" where
  "tick_end status p =
     (if pl_pending p = 0 then p
      else let p1 = p\<lparr>pl_inFlight := False, pl_pending := pl_pending p - 1\<rparr>
        in if pl_stopped p1 then p1
           else if \<not> shouldPollPaymentStatus status then clearTimer (p1\<lparr>pl_attempt := 0\<rparr>)
           else p1)"

definition poller_start :: "ustr option \<Rightarrow> poller \<Rightarrow> poller" where
  "poller_start status p =
     (if \<not> pl_stopped p then p
      else let p1 = p\<lparr>pl_stopped := False, pl_attempt := 0\<rparr>
        in if \<not> shouldPollPaymentStatus status then p1\<lparr>pl_stopped := True\<rparr>
           else arm (pollIntervalMs 0) p1)"

definition poller_stop :: "poller \<Rightarrow> poller" where
  "poller_stop p = clearTimer (p\<lparr>pl_stopped := True, pl_attempt := 0\<rparr>)"

definition setHidden :: "bool \<Rightarrow> ustr option \<Rightarrow> poller \<Rightarrow> poller" where
  "setHidden nextHidden status p =
     (let wasHidden = pl_hidden p; p1 = p\<lparr>pl_hidden := nextHidden\<rparr>
      in if pl_stopped p1 then p1
         else if wasHidden \<and> \<not> nextHidden \<and> shouldPollPaymentStatus status then
           (let p2 = p1\<lparr>pl_reloads := pl_reloads p1 + 1\<rparr>
            in if pl_timer p2 = None then arm (pollIntervalMs (max (pl_attempt p2) 1)) p2 else p2)
         else p1)"

datatype poll_event =
    Poll_start "ustr option"
  | Poll_stop
  | Poll_hidden bool "ustr option"
  | Poll_fire "ustr option"
  | Poll_settle "ustr option"

fun poll_do :: "poll_event \<Rightarrow> poller \<Rightarrow> poller" where
  "poll_do (Poll_start st) p = poller_start st p"
| "poll_do Poll_stop p = poller_stop p"
| "poll_do (Poll_hidden h st) p = setHidden h st p"
| "poll_do (Poll_fire st) p = timer_fires st p"
| "poll_do (Poll_settle st) p = tick_end st p"

definition poll_run :: "poll_event list \<Rightarrow> poller \<Rightarrow> poller" where
  "poll_run es p = fold poll_do es p"

lemmas poller_defs = poller_start_def poller_stop_def setHidden_def timer_fires_def tick_end_def
  tick_begin_def arm_def clearTimer_def

subsection \<open>The hook\<close>

text \<open>\<open>useEffect\<close>: the events of mounting with a status and a visibility, of the listeners, and of
  the cleanup.\<close>

definition hook_mount :: "ustr option \<Rightarrow> bool \<Rightarrow> poll_event list" where
  "hook_mount status documentHidden =
     (if \<not> shouldPollPaymentStatus status then []
      else [Poll_start status, Poll_hidden documentHidden status])"

definition hook_visibility :: "ustr option \<Rightarrow> bool \<Rightarrow> poll_event list" where
  "hook_visibility status documentHidden = [Poll_hidden documentHidden status]"

definition hook_focus :: "ustr option \<Rightarrow> bool \<Rightarrow> poll_event list" where
  "hook_focus status documentHidden = (if \<not> documentHidden then [Poll_hidden False status] else [])"

definition hook_unmount :: "poll_event list" where
  "hook_unmount = [Poll_stop]"

subsection \<open>The invariant\<close>

definition poller_inv :: "poller \<Rightarrow> bool" where
  "poller_inv p \<longleftrightarrow>
     pl_pending p \<le> 1 \<and> (pl_inFlight p \<longleftrightarrow> pl_pending p = 1) \<and>
     (pl_stopped p \<longrightarrow> pl_timer p = None) \<and>
     (\<forall>ms. pl_timer p = Some ms \<longrightarrow> 2000 \<le> ms \<and> ms \<le> 5000)"

lemma poller_inv_new: "poller_inv new_poller"
  by (simp add: poller_inv_def new_poller_def)

lemma interval_range [simp]: "2000 \<le> pollIntervalMs a" "pollIntervalMs a \<le> 5000"
  using pollIntervalMs_range by blast+

lemma poller_inv_do: "poller_inv p \<Longrightarrow> poller_inv (poll_do e p)"
  by (cases e) (auto simp: poller_inv_def poller_defs Let_def)

interpretation polling: event_machine poll_do poller_inv "\<lambda>_. True"
  by unfold_locales (rule poller_inv_do)

lemma poller_inv_run: "poller_inv p \<Longrightarrow> poller_inv (poll_run es p)"
  unfolding poll_run_def by (rule polling.run_keeps) (simp_all add: list_all_iff)

subsection \<open>The loop stays alive\<close>

fun sees_pollable :: "poll_event \<Rightarrow> bool" where
  "sees_pollable (Poll_start st) = shouldPollPaymentStatus st"
| "sees_pollable Poll_stop = False"
| "sees_pollable (Poll_hidden h st) = shouldPollPaymentStatus st"
| "sees_pollable (Poll_fire st) = shouldPollPaymentStatus st"
| "sees_pollable (Poll_settle st) = shouldPollPaymentStatus st"

definition alive :: "poller \<Rightarrow> bool" where
  "alive p \<longleftrightarrow> \<not> pl_stopped p \<and> pl_timer p \<noteq> None"

lemma alive_do: "alive p \<Longrightarrow> sees_pollable e \<Longrightarrow> alive (poll_do e p)"
  by (cases e) (auto simp: alive_def poller_defs Let_def)

interpretation living: event_machine poll_do alive sees_pollable
  by unfold_locales (rule alive_do)

lemma alive_run: "alive p \<Longrightarrow> list_all sees_pollable es \<Longrightarrow> alive (poll_run es p)"
  unfolding poll_run_def by (rule living.run_keeps)

lemma alive_start: "pl_stopped p \<Longrightarrow> shouldPollPaymentStatus st \<Longrightarrow> alive (poller_start st p)"
  by (simp add: alive_def poller_defs Let_def)

subsection \<open>When nothing is reloaded\<close>

text \<open>A stopped loop reloads nothing, until it is started again.\<close>

fun not_a_start :: "poll_event \<Rightarrow> bool" where
  "not_a_start (Poll_start st) = False"
| "not_a_start e = True"

lemma stopped_do: "poller_inv p \<Longrightarrow> pl_stopped p \<Longrightarrow> not_a_start e \<Longrightarrow>
    pl_stopped (poll_do e p) \<and> pl_reloads (poll_do e p) = pl_reloads p"
  by (cases e) (auto simp: poller_inv_def poller_defs Let_def)

interpretation silent: quiet_machine poll_do "\<lambda>p. poller_inv p \<and> pl_stopped p" not_a_start pl_reloads
  by unfold_locales (simp_all add: poller_inv_do stopped_do)

text \<open>A reload that never settles: no tick reloads again.\<close>

fun no_settling :: "poll_event \<Rightarrow> bool" where
  "no_settling (Poll_settle st) = False"
| "no_settling (Poll_hidden h st) = False"
| "no_settling e = True"

lemma hung_do: "pl_inFlight p \<Longrightarrow> no_settling e \<Longrightarrow>
    pl_inFlight (poll_do e p) \<and> pl_reloads (poll_do e p) = pl_reloads p"
  by (cases e) (auto simp: poller_defs Let_def)

interpretation hung: quiet_machine poll_do pl_inFlight no_settling pl_reloads
  by unfold_locales (simp_all add: hung_do)

end
