(* ===== verification/WebGateway.thy ===== *)
theory WebGateway
  imports PaymentStatus Snapshot StateMachine
begin

text \<open>
  The web application's side of the confirmation channel: the HTTP clients (apps/web/src/lib/api.ts
  and action-gateway.ts), the proposals of an order (order-proposals.ts) and the approval sheet
  (components/orders/MessageProposalSheet.tsx).

  What \<open>fetch\<close> gives is \<open>fetch_outcome\<close>; a client call ends with the parsed body or with the message
  of the error it throws. The sheet's hooks are the record \<open>sheet_state\<close>, its handlers functions on it.
\<close>

datatype fetch_outcome =
    Net_error ustr
  | Aborted
  | Http nat "jval option"

datatype client_result =
    Client_ok jval
  | Client_error ustr

definition http_ok :: "nat \<Rightarrow> bool" where
  "http_ok status \<longleftrightarrow> 200 \<le> status \<and> status \<le> 299"

text \<open>\<open>res.json().catch(() => ({}))\<close>.\<close>

definition body_or_empty :: "jval option \<Rightarrow> jval" where
  "body_or_empty b = (case b of None \<Rightarrow> JObj [] | Some v \<Rightarrow> v)"

definition request_failed :: "nat \<Rightarrow> ustr" where
  "request_failed status = lit ''request failed ('' @ dec status @ lit '')''"

text \<open>The message of a failed request: \<open>null\<close> has no properties, so reading one throws.\<close>

definition null_property :: ustr where
  "null_property = lit ''Cannot read properties of null''"

definition api_error_message :: "jval \<Rightarrow> nat \<Rightarrow> ustr" where
  "api_error_message data status =
     (if data = JNull then null_property
      else let e = prop_of data (lit ''error'')
        in if truthy e then (case js_to_string e of Some m \<Rightarrow> m | None \<Rightarrow> lit ''Cannot convert object to primitive value'')
           else request_failed status)"

definition api_timeout_ms :: nat where
  "api_timeout_ms = 15000"

definition api_call :: "fetch_outcome \<Rightarrow> client_result" where
  "api_call out =
     (case out of
        Net_error m \<Rightarrow> Client_error m
      | Aborted \<Rightarrow> Client_error (lit ''request timed out ('' @ dec api_timeout_ms @ lit ''ms)'')
      | Http status b \<Rightarrow>
          (let data = body_or_empty b
           in if \<not> http_ok status then Client_error (api_error_message data status) else Client_ok data))"

definition apiMultipart :: "fetch_outcome \<Rightarrow> client_result" where
  "apiMultipart out =
     (case out of
        Net_error m \<Rightarrow> Client_error m
      | Aborted \<Rightarrow> Client_error (lit ''aborted'')
      | Http status b \<Rightarrow>
          (let data = body_or_empty b
           in if \<not> http_ok status then Client_error (api_error_message data status) else Client_ok data))"

definition apiBase :: "ustr option \<Rightarrow> ustr" where
  "apiBase origin = (case origin of None \<Rightarrow> [] | Some w \<Rightarrow> w)"

definition sse_events :: "ustr list" where
  "sse_events = map lit [''payment.seen'', ''payment.confirming'', ''payment.paid'', ''payment.needs_review'',
     ''payment.expired'']"

text \<open>What \<open>openSSE\<close> passes to its callback for a message of a type; \<open>parse\<close> is \<open>JSON.parse\<close>.\<close>

definition sse_deliver :: "(ustr \<Rightarrow> jval option) \<Rightarrow> ustr option \<Rightarrow> ustr \<Rightarrow> (ustr \<times> jval) option" where
  "sse_deliver parse event_type data =
     (let payload = (case parse data of Some v \<Rightarrow> v | None \<Rightarrow> JStr data)
      in case event_type of
           None \<Rightarrow> Some (lit ''message'', payload)
         | Some ty \<Rightarrow> if ty \<in> set sse_events then Some (ty, payload) else None)"

subsection \<open>The gateway client\<close>

record proposal_view =
  pv_id :: ustr
  pv_state :: ustr
  pv_orderId :: ustr
  pv_orderSlug :: ustr
  pv_body :: ustr
  pv_locale :: ustr
  pv_paymentStatus :: ustr
  pv_payloadDigest :: ustr
  pv_expiresAt :: int
  pv_createdAt :: int

record web_draft =
  wd_orderId :: ustr
  wd_orderSlug :: ustr
  wd_body :: ustr
  wd_locale :: ustr
  wd_paymentStatus :: ustr

definition actionGatewayPublicBase :: "ustr option \<Rightarrow> ustr" where
  "actionGatewayPublicBase envUrl = strip_slash (given envUrl)"

definition actionGatewayApiBase :: "ustr option \<Rightarrow> ustr" where
  "actionGatewayApiBase envUrl =
     (if actionGatewayPublicBase envUrl = [] then [] else lit ''/action-gateway'')"

text \<open>\<open>None\<close> is the exception of \<open>encodeURIComponent\<close>.\<close>

definition proposalConfirmPageUrl :: "ustr option \<Rightarrow> ustr \<Rightarrow> ustr option" where
  "proposalConfirmPageUrl envUrl proposalId =
     (let base = actionGatewayPublicBase envUrl
      in if base = [] then Some []
         else map_option (\<lambda>e. base @ lit ''/p/'' @ e) (encodeURIComponent proposalId))"

definition gatewayFetch :: "ustr option \<Rightarrow> (ustr \<Rightarrow> fetch_outcome) \<Rightarrow> ustr \<Rightarrow> client_result" where
  "gatewayFetch envUrl fetch path =
     (let base = actionGatewayApiBase envUrl
      in if base = [] then Client_error (lit ''action gateway not configured'')
         else (case fetch (base @ path) of
           Net_error m \<Rightarrow> Client_error m
         | Aborted \<Rightarrow> Client_error (lit ''aborted'')
         | Http status b \<Rightarrow>
             (let data = body_or_empty b
              in if http_ok status then Client_ok data
                 else if data = JNull then Client_error null_property
                 else (case prop_of data (lit ''message'') of
                     JStr m \<Rightarrow> Client_error m
                   | _ \<Rightarrow> (case prop_of data (lit ''error'') of
                       JStr m \<Rightarrow> Client_error m
                     | _ \<Rightarrow> Client_error (request_failed status))))))"

definition proposal_path :: "ustr \<Rightarrow> ustr \<Rightarrow> ustr option" where
  "proposal_path proposalId suffix =
     map_option (\<lambda>e. lit ''/api/proposals/'' @ e @ suffix) (encodeURIComponent proposalId)"

text \<open>The body of a confirmation request, \<open>JSON.stringify\<close> of an object of two strings.\<close>

definition confirm_request_body :: "runtime \<Rightarrow> ustr \<Rightarrow> ustr \<Rightarrow> ustr" where
  "confirm_request_body rt linkCode payloadDigest =
     lit ''{'' @ json_quote (lit ''linkCode'') @ lit '':'' @ json_quote (js_upper rt (js_trim linkCode)) @ lit '',''
       @ json_quote (lit ''payloadDigest'') @ lit '':'' @ json_quote payloadDigest @ lit ''}''"

definition digestMessageDraftPayload :: "runtime \<Rightarrow> web_draft \<Rightarrow> ustr" where
  "digestMessageDraftPayload rt p =
     hex_encode (rt_sha256 rt (json_strings
       [wd_orderId p, wd_orderSlug p, wd_body p, wd_locale p, wd_paymentStatus p]))"

subsection \<open>The proposals of an order\<close>

record proposal_ref =
  pr_id :: ustr
  pr_state :: "ustr option"

text \<open>\<open>Map.set\<close>: a key keeps the place of its first insertion.\<close>

fun map_set :: "ustr \<Rightarrow> 'v \<Rightarrow> (ustr \<times> 'v) list \<Rightarrow> (ustr \<times> 'v) list" where
  "map_set k v [] = [(k, v)]"
| "map_set k v ((l, w) # m) = (if k = l then (k, v) # m else (l, w) # map_set k v m)"

text \<open>The two lists of the response, with \<open>null\<close> entries; \<open>None\<close> where the call failed.\<close>

definition listOrderProposalRefs ::
  "(proposal_ref option list \<times> proposal_ref option list) option \<Rightarrow> proposal_ref list" where
  "listOrderProposalRefs data =
     (case data of None \<Rightarrow> []
      | Some (a, b) \<Rightarrow>
          map snd (fold (\<lambda>p m. case p of None \<Rightarrow> m | Some r \<Rightarrow> if pr_id r = [] then m else map_set (pr_id r) r m)
            (a @ b) []))"

text \<open>\<open>Set.add\<close> in order of first insertion.\<close>

definition set_add :: "ustr \<Rightarrow> ustr list \<Rightarrow> ustr list" where
  "set_add x xs = (if x \<in> set xs then xs else xs @ [x])"

definition loadPendingProposalsForOrder ::
  "(ustr \<Rightarrow> proposal_view option) \<Rightarrow> proposal_ref list \<Rightarrow> ustr \<Rightarrow> ustr list \<Rightarrow> proposal_view list" where
  "loadPendingProposalsForOrder fetchProposal refs orderId extraIds =
     (let ids0 = fold set_add (filter (\<lambda>i. i \<noteq> []) extraIds) [];
          ids = fold (\<lambda>r s. if pr_id r \<noteq> [] then set_add (pr_id r) s else s) refs ids0;
          views = map fetchProposal ids
      in filter (\<lambda>p. pv_orderId p = orderId \<and> pv_state p = lit ''pending_confirmation'')
           (map the (filter (\<lambda>v. v \<noteq> None) views)))"

lemma loadPending_sound:
  "v \<in> set (loadPendingProposalsForOrder f refs i extra) \<Longrightarrow>
     pv_orderId v = i \<and> pv_state v = lit ''pending_confirmation'' \<and> (\<exists>j. f j = Some v)"
  by (auto simp: loadPendingProposalsForOrder_def Let_def)

subsection \<open>The approval sheet\<close>

record sheet_state =
  sh_draftBody :: ustr
  sh_linkCode :: ustr
  sh_busy :: bool
  sh_digestOk :: bool

text \<open>The effect that runs when a proposal is shown.\<close>

definition sheet_show :: "proposal_view \<Rightarrow> sheet_state \<Rightarrow> sheet_state" where
  "sheet_show p s = s\<lparr>sh_draftBody := pv_body p, sh_linkCode := [], sh_digestOk := True\<rparr>"

definition sheet_edit :: "ustr \<Rightarrow> sheet_state \<Rightarrow> sheet_state" where
  "sheet_edit t s = s\<lparr>sh_draftBody := t\<rparr>"

text \<open>The effect that runs when the text changes, once its digest is computed.\<close>

definition sheet_digest :: "runtime \<Rightarrow> proposal_view \<Rightarrow> sheet_state \<Rightarrow> sheet_state" where
  "sheet_digest rt p s = s\<lparr>sh_digestOk := (digestMessageDraftPayload rt
     \<lparr>wd_orderId = pv_orderId p, wd_orderSlug = pv_orderSlug p, wd_body = sh_draftBody s,
      wd_locale = pv_locale p, wd_paymentStatus = pv_paymentStatus p\<rparr> = pv_payloadDigest p)\<rparr>"

definition sheet_type_code :: "runtime \<Rightarrow> ustr \<Rightarrow> sheet_state \<Rightarrow> sheet_state" where
  "sheet_type_code rt typed s =
     s\<lparr>sh_linkCode := filter (\<lambda>c. (65 \<le> c \<and> c \<le> 90) \<or> is_digit c) (js_upper rt typed)\<rparr>"

definition canApprove :: "proposal_view option \<Rightarrow> sheet_state \<Rightarrow> bool" where
  "canApprove o_p s =
     (case o_p of None \<Rightarrow> False
      | Some p \<Rightarrow> pv_state p = lit ''pending_confirmation'' \<and> sh_digestOk s \<and>
          length (js_trim (sh_linkCode s)) \<ge> 6 \<and> \<not> sh_busy s)"

definition sheet_terminal :: "proposal_view option \<Rightarrow> bool" where
  "sheet_terminal o_p = (case o_p of None \<Rightarrow> False | Some p \<Rightarrow> pv_state p \<noteq> lit ''pending_confirmation'')"

datatype sheet_effect =
    Sheet_resolved ustr
  | Sheet_toast ustr

text \<open>The handlers, with the outcome of their request; \<open>busy\<close> is false again when they end.\<close>

definition onReject ::
  "proposal_view option \<Rightarrow> client_result \<Rightarrow> ustr \<Rightarrow> sheet_state \<Rightarrow> sheet_state \<times> sheet_effect option" where
  "onReject o_p outcome rejectedToast s =
     (if o_p = None \<or> sh_busy s then (s, None)
      else (s\<lparr>sh_busy := False\<rparr>, Some (case outcome of Client_ok _ \<Rightarrow> Sheet_resolved rejectedToast
        | Client_error m \<Rightarrow> Sheet_toast m)))"

definition onApprove ::
  "proposal_view option \<Rightarrow> client_result \<Rightarrow> ustr \<Rightarrow> sheet_state \<Rightarrow> sheet_state \<times> sheet_effect option" where
  "onApprove o_p outcome approvedToast s =
     (if o_p = None \<or> \<not> canApprove o_p s then (s, None)
      else (s\<lparr>sh_busy := False\<rparr>, Some (case outcome of Client_ok _ \<Rightarrow> Sheet_resolved approvedToast
        | Client_error m \<Rightarrow> Sheet_toast m)))"

subsection \<open>What the sheet is shown and what it computes\<close>

text \<open>The view of a stored proposal, as the gateway's \<open>toView\<close> gives it.\<close>

definition view_of :: "proposal \<Rightarrow> proposal_view" where
  "view_of p = \<lparr>pv_id = p_id p, pv_state = state_name (p_state p), pv_orderId = md_orderId (p_payload p),
     pv_orderSlug = md_orderSlug (p_payload p), pv_body = md_body (p_payload p),
     pv_locale = md_locale (p_payload p), pv_paymentStatus = md_paymentStatus (p_payload p),
     pv_payloadDigest = p_payloadDigest p, pv_expiresAt = p_expiresAt p, pv_createdAt = p_createdAt p\<rparr>"

text \<open>The web client hashes five fields, the gateway six: the canonical forms always differ.\<close>

lemma canonical_forms_differ:
  "canonical_payload p \<noteq> json_strings [a, b, c, d, e]"
  by (simp add: canonical_payload_def payload_fields_def)

text \<open>The canonical form the sheet hashes for a stored proposal and the text it holds.\<close>

definition sheet_canonical :: "message_draft \<Rightarrow> ustr \<Rightarrow> ustr" where
  "sheet_canonical d body =
     json_strings [md_orderId d, md_orderSlug d, body, md_locale d, md_paymentStatus d]"

lemma digest_never_matches:
  assumes "p_payloadDigest p = digestPayload rt (p_payload p)"
    and "rt_sha256 rt (canonical_payload (p_payload p)) =
        rt_sha256 rt (sheet_canonical (p_payload p) (sh_draftBody s)) \<longrightarrow>
      canonical_payload (p_payload p) = sheet_canonical (p_payload p) (sh_draftBody s)"
  shows "\<not> sh_digestOk (sheet_digest rt (view_of p) s)"
  using assms canonical_forms_differ
  by (simp add: sheet_digest_def digestMessageDraftPayload_def view_of_def digestPayload_def
      sheet_canonical_def)

end
