(* ===== verification/WebMisc.thy ===== *)
theory WebMisc
  imports Handoff
begin

text \<open>
  Small modules of the web application: analytics.ts, share.ts, pwa.ts, theme.ts under
  apps/web/src/lib and apps/web/src/i18n/config.ts.

  The browser's storage and cookies are the record \<open>web_browser\<close>; \<open>None\<close> for it is a run without a
  window. Functions that write return the next browser.
\<close>

subsection \<open>Analytics\<close>

datatype analytics_value =
    Av_text ustr
  | Av_number ustr
  | Av_bool bool
  | Av_absent

definition analytics_events :: "ustr list" where
  "analytics_events = map lit [''checkout_opened'', ''network_selected'', ''pay_with_wallet_clicked'',
     ''wallet_selected'', ''wallet_handoff_attempted'', ''wallet_handoff_failed'', ''qr_opened'',
     ''payment_details_copied'', ''amount_copied'', ''address_copied'', ''payment_detected'',
     ''payment_confirmed'', ''payment_exception'', ''quote_refreshed'']"

definition pii_key :: "ustr \<Rightarrow> bool" where
  "pii_key k = has_word_i k [''address'', ''hash'', ''phone'', ''email'', ''name'', ''customer'']"

definition clean_props :: "(ustr \<times> analytics_value) list \<Rightarrow> (ustr \<times> analytics_value) list" where
  "clean_props props = filter (\<lambda>(k, v). v \<noteq> Av_absent \<and> \<not> pii_key k \<and> k \<noteq> proto_key) props"

datatype analytics_target = To_sink | To_window | To_nobody

text \<open>Who is called, with what; an exception of the callee is swallowed.\<close>

definition track ::
  "bool \<Rightarrow> bool \<Rightarrow> ustr \<Rightarrow> (ustr \<times> analytics_value) list \<Rightarrow> analytics_target \<times> ustr \<times> (ustr \<times> analytics_value) list" where
  "track has_sink has_window_hook event props =
     (if has_sink then To_sink else if has_window_hook then To_window else To_nobody, event, clean_props props)"

lemma clean_props_no_pii: "(k, v) \<in> set (clean_props props) \<Longrightarrow> \<not> pii_key k \<and> v \<noteq> Av_absent \<and> (k, v) \<in> set props"
  by (auto simp: clean_props_def)

subsection \<open>Sharing\<close>

record share_opts =
  so_title :: ustr
  so_amountToman :: nat
  so_tomanLabel :: ustr
  so_amountUsdtBase :: nat
  so_usdtLabel :: ustr
  so_completeLabel :: ustr
  so_url :: ustr

text \<open>\<open>localeNumber\<close> is \<open>toLocaleString()\<close> in the locale of the host; zero stands for an absent amount.\<close>

definition buildShareText :: "(nat \<Rightarrow> ustr) \<Rightarrow> share_opts \<Rightarrow> ustr" where
  "buildShareText localeNumber opts =
     join_with [10]
       ((if js_trim (so_title opts) \<noteq> [] then [js_trim (so_title opts)] else []) @
        (if so_amountUsdtBase opts > 0 \<and> so_usdtLabel opts \<noteq> [] then
           [formatUsdtFromBaseUnits (int (so_amountUsdtBase opts)) @ lit '' '' @ so_usdtLabel opts]
         else if so_amountToman opts > 0 \<and> so_tomanLabel opts \<noteq> [] then
           [localeNumber (so_amountToman opts) @ lit '' '' @ so_tomanLabel opts]
         else []) @
        [so_completeLabel opts, so_url opts])"

datatype share_outcome = Shared | Copied | Share_cancelled | Share_throws

datatype share_call = No_share | Share_done | Share_abort | Share_error

definition sharePaymentLink :: "share_call \<Rightarrow> bool \<Rightarrow> share_outcome" where
  "sharePaymentLink call clipboard_ok =
     (case call of
        Share_done \<Rightarrow> Shared
      | Share_abort \<Rightarrow> Share_cancelled
      | _ \<Rightarrow> if clipboard_ok then Copied else Share_throws)"

definition telegramShareURL :: "ustr \<Rightarrow> ustr \<Rightarrow> ustr option" where
  "telegramShareURL t url =
     (case (encodeURIComponent url, encodeURIComponent t) of
        (Some u, Some e) \<Rightarrow> Some (lit ''https://t.me/share/url?url='' @ u @ lit ''&text='' @ e)
      | _ \<Rightarrow> None)"

definition whatsappShareURL :: "ustr \<Rightarrow> ustr option" where
  "whatsappShareURL t = map_option (\<lambda>e. lit ''https://wa.me/?text='' @ e) (encodeURIComponent t)"

text \<open>An encoded component holds no separator of a query.\<close>

lemma encoded_units:
  "encodeURIComponent s = Some e \<Longrightarrow> c \<in> set e \<Longrightarrow> uri_plain c \<or> c = 37 \<or> (\<exists>n. c = upper_hex n)"
  by (auto simp: encodeURIComponent_def split: if_splits)

subsection \<open>Installing the application\<close>

definition DISMISS_KEY :: ustr where
  "DISMISS_KEY = lit ''pooli_a2hs_dismissed''"

definition DISMISS_MS :: int where
  "DISMISS_MS = 1000 * 60 * 60 * 24 * 14"

datatype install_platform = Ios | Android | Desktop | Other_platform

record install_browser =
  ib_standalone :: bool
  ib_display_modes :: "ustr list"
  ib_userAgent :: ustr
  ib_platform :: ustr
  ib_maxTouchPoints :: nat

definition isStandaloneDisplay :: "install_browser option \<Rightarrow> bool" where
  "isStandaloneDisplay o_b =
     (case o_b of None \<Rightarrow> False
      | Some b \<Rightarrow> ib_standalone b \<or> lit ''standalone'' \<in> set (ib_display_modes b) \<or>
          lit ''fullscreen'' \<in> set (ib_display_modes b) \<or> lit ''minimal-ui'' \<in> set (ib_display_modes b))"

definition detectInstallPlatform :: "install_browser option \<Rightarrow> install_platform" where
  "detectInstallPlatform o_b =
     (case o_b of None \<Rightarrow> Other_platform
      | Some b \<Rightarrow>
          (let ua = ib_userAgent b
           in if has_word ua [''iPad'', ''iPhone'', ''iPod''] \<or>
                 (ib_platform b = lit ''MacIntel'' \<and> ib_maxTouchPoints b > 1) then Ios
              else if has_word_i ua [''android''] then Android
              else if has_word_i ua [''windows'', ''macintosh'', ''linux''] \<and> \<not> has_word_i ua [''mobile'']
                then Desktop
              else Other_platform))"

text \<open>\<open>storage\<close> is the local storage, \<open>None\<close> inside where it throws; \<open>number\<close> is \<open>Number(s)\<close>, \<open>None\<close>
  where that is not finite.\<close>

definition wasInstallDismissed :: "(ustr \<Rightarrow> int option) \<Rightarrow> int \<Rightarrow> storage option \<Rightarrow> bool" where
  "wasInstallDismissed number now o_s =
     (case o_s of None \<Rightarrow> True
      | Some None \<Rightarrow> False
      | Some (Some m) \<Rightarrow>
          (case m DISMISS_KEY of None \<Rightarrow> False
           | Some raw \<Rightarrow> if raw = [] then False
               else (case number raw of None \<Rightarrow> False | Some at \<Rightarrow> now - at < DISMISS_MS)))"

definition dismissInstallPrompt :: "int \<Rightarrow> storage option \<Rightarrow> storage option" where
  "dismissInstallPrompt now o_s =
     (case o_s of Some (Some m) \<Rightarrow> Some (Some (m(DISMISS_KEY \<mapsto> dec_int now))) | _ \<Rightarrow> o_s)"

definition clearInstallDismiss :: "storage option \<Rightarrow> storage option" where
  "clearInstallDismiss o_s =
     (case o_s of Some (Some m) \<Rightarrow> Some (Some (m(DISMISS_KEY := None))) | _ \<Rightarrow> o_s)"

lemma dismissed_then:
  assumes "\<And>i. number (dec_int i) = Some i" "dec_int t \<noteq> []"
  shows "wasInstallDismissed number n (dismissInstallPrompt t (Some (Some m))) \<longleftrightarrow> n - t < DISMISS_MS"
  using assms by (simp add: wasInstallDismissed_def dismissInstallPrompt_def)

lemma cleared_then: "\<not> wasInstallDismissed number n (clearInstallDismiss (Some (Some m)))"
  by (simp add: wasInstallDismissed_def clearInstallDismiss_def)

subsection \<open>Cookies, theme and locale\<close>

record web_browser =
  wb_storage :: "ustr \<rightharpoonup> ustr"
  wb_cookie :: ustr
  wb_prefersDark :: bool
  wb_language :: ustr

text \<open>\<open>split(';')\<close>, \<open>split('=')\<close>.\<close>

fun split_on :: "nat \<Rightarrow> ustr \<Rightarrow> ustr list" where
  "split_on c [] = [[]]"
| "split_on c (d # s) = (if d = c then [] # split_on c s
     else (case split_on c s of [] \<Rightarrow> [[d]] | w # ws \<Rightarrow> (d # w) # ws))"

text \<open>The value of the first cookie of a name, up to the next equals sign.\<close>

definition cookie_value :: "ustr \<Rightarrow> ustr \<Rightarrow> ustr option" where
  "cookie_value name cookie =
     (case find (\<lambda>c. starts_with c (name @ [61])) (map js_trim (split_on 59 cookie)) of
        None \<Rightarrow> None
      | Some c \<Rightarrow> (case split_on 61 c of _ # v # _ \<Rightarrow> Some v | _ \<Rightarrow> None))"

datatype theme = Theme_system | Theme_light | Theme_dark

definition themeCookie :: ustr where
  "themeCookie = lit ''pooli_theme''"

fun theme_name :: "theme \<Rightarrow> ustr" where
  "theme_name Theme_system = lit ''system''"
| "theme_name Theme_light = lit ''light''"
| "theme_name Theme_dark = lit ''dark''"

definition themes :: "theme list" where
  "themes = [Theme_system, Theme_light, Theme_dark]"

definition isTheme :: "ustr option \<Rightarrow> theme option" where
  "isTheme value = find (\<lambda>t. value = Some (theme_name t)) themes"

definition resolvedTheme :: "theme \<Rightarrow> web_browser option \<Rightarrow> theme" where
  "resolvedTheme t o_b =
     (if t = Theme_light \<or> t = Theme_dark then t
      else (case o_b of None \<Rightarrow> Theme_light
        | Some b \<Rightarrow> if wb_prefersDark b then Theme_dark else Theme_light))"

text \<open>What \<open>applyTheme\<close> writes to the document element, if there is one.\<close>

definition applyTheme :: "theme \<Rightarrow> web_browser option \<Rightarrow> theme option" where
  "applyTheme t o_b = (case o_b of None \<Rightarrow> None | Some b \<Rightarrow> Some (resolvedTheme t (Some b)))"

text \<open>Assigning \<open>document.cookie\<close> replaces the cookie of that name and keeps the others.\<close>

definition set_cookie :: "ustr \<Rightarrow> ustr \<Rightarrow> ustr \<Rightarrow> ustr" where
  "set_cookie name value cookie =
     join_with (lit ''; '') ((name @ [61] @ value) #
       filter (\<lambda>c. c \<noteq> [] \<and> \<not> starts_with c (name @ [61])) (map js_trim (split_on 59 cookie)))"

definition persistTheme :: "theme \<Rightarrow> web_browser option \<Rightarrow> web_browser option" where
  "persistTheme t o_b =
     map_option (\<lambda>b. b\<lparr>wb_storage := (wb_storage b)(themeCookie \<mapsto> theme_name t),
        wb_cookie := set_cookie themeCookie (theme_name t) (wb_cookie b)\<rparr>) o_b"

definition detectInitialTheme :: "web_browser option \<Rightarrow> theme" where
  "detectInitialTheme o_b =
     (case o_b of None \<Rightarrow> Theme_system
      | Some b \<Rightarrow>
          (case isTheme (wb_storage b themeCookie) of Some t \<Rightarrow> t
           | None \<Rightarrow> (case isTheme (cookie_value themeCookie (wb_cookie b)) of Some t \<Rightarrow> t
               | None \<Rightarrow> Theme_system)))"

datatype web_locale = En | Fa

definition locales :: "web_locale list" where
  "locales = [En, Fa]"

definition defaultLocale :: web_locale where
  "defaultLocale = En"

definition localeCookie :: ustr where
  "localeCookie = lit ''pooli_locale''"

fun locale_name :: "web_locale \<Rightarrow> ustr" where
  "locale_name En = lit ''en''"
| "locale_name Fa = lit ''fa''"

definition isLocale :: "ustr option \<Rightarrow> web_locale option" where
  "isLocale value = find (\<lambda>l. value = Some (locale_name l)) locales"

definition dirFor :: "web_locale \<Rightarrow> ustr" where
  "dirFor l = (if l = Fa then lit ''rtl'' else lit ''ltr'')"

definition detectInitialLocale :: "runtime \<Rightarrow> web_browser option \<Rightarrow> web_locale" where
  "detectInitialLocale rt o_b =
     (case o_b of None \<Rightarrow> defaultLocale
      | Some b \<Rightarrow>
          (case isLocale (wb_storage b localeCookie) of Some l \<Rightarrow> l
           | None \<Rightarrow> (case isLocale (cookie_value localeCookie (wb_cookie b)) of Some l \<Rightarrow> l
               | None \<Rightarrow>
                   (let nav = js_lower rt (wb_language b)
                    in if starts_with nav (lit ''fa'') \<or> starts_with nav (lit ''per'') then Fa
                       else defaultLocale))))"

definition persistLocale :: "web_locale \<Rightarrow> web_browser option \<Rightarrow> web_browser option" where
  "persistLocale l o_b =
     map_option (\<lambda>b. b\<lparr>wb_storage := (wb_storage b)(localeCookie \<mapsto> locale_name l),
        wb_cookie := set_cookie localeCookie (locale_name l) (wb_cookie b)\<rparr>) o_b"

lemma isTheme_name [simp]: "isTheme (Some (theme_name t)) = Some t"
  by (cases t) (simp_all add: isTheme_def themes_def)

lemma isLocale_name [simp]: "isLocale (Some (locale_name l)) = Some l"
  by (cases l) (simp_all add: isLocale_def locales_def)

interpretation themed: codec theme_name "\<lambda>s. isTheme (Some s)" "\<lambda>_. True"
  by unfold_locales (rule isTheme_name)

interpretation language: codec locale_name "\<lambda>s. isLocale (Some s)" "\<lambda>_. True"
  by unfold_locales (rule isLocale_name)

lemma theme_roundtrip: "detectInitialTheme (persistTheme t (Some b)) = t"
  by (simp add: detectInitialTheme_def persistTheme_def)

lemma locale_roundtrip: "detectInitialLocale rt (persistLocale l (Some b)) = l"
  by (simp add: detectInitialLocale_def persistLocale_def)

text \<open>The two settings do not disturb each other.\<close>

lemma theme_keeps_locale:
  "wb_storage b localeCookie = Some (locale_name l) \<Longrightarrow>
     detectInitialLocale rt (persistTheme t (Some b)) = l"
  by (simp add: detectInitialLocale_def persistTheme_def localeCookie_def themeCookie_def)

end
