(* ===== verification/Site.thy ===== *)
theory Site
  imports Handoff
begin

text \<open>
  The public identity of the site, apps/web/src/lib/site.ts, and what is generated from it: the
  JSON-LD graphs (json-ld.ts), page metadata (site-metadata.ts) and the routes sitemap.ts,
  robots.ts, llms.txt, humans.txt and .well-known/security.txt under apps/web/src/app.

  The environment variables of the build are the record \<open>site_env\<close>. Objects are JSON values;
  an entry that is \<open>undefined\<close> is one \<open>JSON.stringify\<close> leaves out. \<open>new URL(path, base)\<close> is the
  parameter \<open>resolve\<close>.
\<close>

record site_env =
  se_foundingYear :: "ustr option"
  se_url :: "ustr option"
  se_gemi :: "ustr option"
  se_vat :: "ustr option"
  se_buildDate :: "ustr option"

subsection \<open>The configuration\<close>

definition foundingYear :: "site_env \<Rightarrow> nat" where
  "foundingYear env =
     (let raw = (case se_foundingYear env of None \<Rightarrow> lit ''2024'' | Some r \<Rightarrow> r)
      in if list_all is_digit raw \<and> length raw = 4 then undec raw else 2024)"

definition text_or_undef :: "ustr option \<Rightarrow> jval" where
  "text_or_undef s = (if given s = [] then JUndef else JStr (given s))"

definition site_tagline :: "site_env \<Rightarrow> jval" where
  "site_tagline env = JObj
     [(lit ''en'', JStr (lit ''Send a link. Know when they paid.'')),
      (lit ''fa'', JStr ([1604, 1740, 1606, 1705] @ lit '' '' @ [1585, 1608] @ lit '' '' @
         [1576, 1601, 1585, 1587, 1578] @ lit ''. '' @ [1608, 1602, 1578, 1740] @ lit '' '' @
         [1662, 1585, 1583, 1575, 1582, 1578] @ lit '' '' @ [1588, 1583, 1548] @ lit '' '' @
         [1582, 1608, 1583, 1578] @ lit '' '' @ [1605, 1740, 8204, 1601, 1607, 1605, 1740] @
         lit ''.''))]"

definition site_funding :: "site_env \<Rightarrow> jval" where
  "site_funding env = JObj
     [(lit ''friendsAndFamilyUsd'', JNum (lit ''20000'')),
      (lit ''labelEn'', JStr (lit ''Friends and family'')),
      (lit ''labelFa'', JStr ([1583, 1608, 1587, 1578, 1575, 1606] @ lit '' '' @ [1608] @ lit '' '' @
         [1582, 1575, 1606, 1608, 1575, 1583, 1607]))]"

definition site_company :: "site_env \<Rightarrow> jval" where
  "site_company env = JObj
     [(lit ''legalNameEn'', JStr (lit ''POOLI SINGLE MEMBER P.C.'')),
      (lit ''legalNameEnFull'', JStr (lit ''POOLI SINGLE MEMBER PRIVATE COMPANY'')),
      (lit ''legalNameEl'', JStr ([924, 959, 957, 959, 960, 961, 972, 963, 969, 960, 951] @ lit '' '' @ [921] @ lit ''.'' @
         [922] @ lit ''.'' @ [917] @ lit ''. \"POOLI\"'')),
      (lit ''legalNameElFull'', JStr ([924, 959, 957, 959, 960, 961, 972, 963, 969, 960, 951] @ lit '' '' @
         [921, 948, 953, 969, 964, 953, 954, 942] @ lit '' '' @
         [922, 949, 966, 945, 955, 945, 953, 959, 965, 967, 953, 954, 942] @ lit '' '' @
         [917, 964, 945, 953, 961, 949, 943, 945] @ lit '' \"POOLI\"'')),
      (lit ''gemiNumber'', text_or_undef (se_gemi env)),
      (lit ''vatNumber'', text_or_undef (se_vat env)),
      (lit ''address'', JObj
       [(lit ''street'', JStr (lit ''Porou 31'')),
        (lit ''area'', JStr (lit ''Kentrikos Tomeas Athinon'')),
        (lit ''city'', JStr (lit ''Athens'')),
        (lit ''postalCode'', JStr (lit ''112 56'')),
        (lit ''country'', JStr (lit ''Greece'')),
        (lit ''countryCode'', JStr (lit ''GR''))])]"

definition site_founder :: "site_env \<Rightarrow> jval" where
  "site_founder env = JObj
     [(lit ''name'', JStr (lit ''Omid Mirzaei'')),
      (lit ''title'', JStr (lit ''Founder & CEO'')),
      (lit ''email'', JStr (lit ''omid@pooli.shop'')),
      (lit ''linkedin'', JStr (lit ''https://www.linkedin.com/in/omid-mirzaei/'')),
      (lit ''github'', JStr (lit ''https://github.com/o-mid''))]"

definition site_claudeUsage :: "site_env \<Rightarrow> jval" where
  "site_claudeUsage env = JObj
     [(lit ''anthropicStartupProgramUrl'', JStr (lit ''https://www.anthropic.com/startups'')),
      (lit ''productUsesClaude'', JBool True),
      (lit ''summaryEn'', JStr (lit ''Pooli'' @ [8217] @
         lit ''s payment engine is Go, PostgreSQL, and on-chain verification. We use Claude '' @
         lit ''in engineering and content workflows to design, test, and ship faster '' @ [8212] @
         lit '' with human review on anything customer-facing.'')),
      (lit ''summaryFa'', JStr ([1605, 1608, 1578, 1608, 1585] @ lit '' '' @ [1662, 1585, 1583, 1575, 1582, 1578] @
         lit '' '' @ [1662, 1608, 1604, 1740] @ lit '' Go'' @ [1548] @ lit '' PostgreSQL '' @
         [1608] @ lit '' '' @ [1578, 1571, 1740, 1740, 1583] @ lit '' '' @ [1585, 1608, 1740] @
         lit '' '' @ [1586, 1606, 1580, 1740, 1585, 1607] @ lit '' '' @ [1575, 1587, 1578] @
         lit ''. Claude '' @ [1585, 1575] @ lit '' '' @ [1583, 1585] @ lit '' '' @
         [1605, 1607, 1606, 1583, 1587, 1740] @ lit '' '' @ [1608] @ lit '' '' @
         [1605, 1581, 1578, 1608, 1575] @ lit '' '' @ [1576, 1607, 8204, 1705, 1575, 1585] @
         lit '' '' @ [1605, 1740, 8204, 1576, 1585, 1740, 1605] @ lit '' '' @ [8212] @ lit '' '' @
         [1576, 1575] @ lit '' '' @ [1576, 1575, 1586, 1576, 1740, 1606, 1740] @ lit '' '' @
         [1575, 1606, 1587, 1575, 1606, 1740] @ lit '' '' @ [1602, 1576, 1604] @ lit '' '' @
         [1575, 1586] @ lit '' '' @ [1575, 1606, 1578, 1588, 1575, 1585] @ lit ''.'')),
      (lit ''useCasesEn'', JArr
       [JStr (lit ''API and chain-matching design reviews before we ship payment logic.''),
        JStr (lit ''Drafting EN/FA marketing and help copy, then checking every claim against '' @
           lit ''our claims register.''),
        JStr (lit ''Exploring test scenarios for payment UI states and edge cases.''),
        JStr (lit ''Internal security, privacy, and runbook drafts. A lawyer has not reviewed '' @
           lit ''the public legal pages yet.'')]),
      (lit ''useCasesFa'', JArr
       [JStr ([1576, 1575, 1586, 1576, 1740, 1606, 1740] @ lit '' '' @ [1591, 1585, 1575, 1581, 1740] @
           lit '' API '' @ [1608] @ lit '' '' @ [1605, 1606, 1591, 1602] @ lit '' '' @
           [1578, 1591, 1576, 1740, 1602] @ lit '' '' @ [1586, 1606, 1580, 1740, 1585, 1607] @
           lit '' '' @ [1602, 1576, 1604] @ lit '' '' @ [1575, 1586] @ lit '' '' @
           [1575, 1606, 1578, 1588, 1575, 1585] @ lit ''.''),
        JStr ([1662, 1740, 1588, 8204, 1606, 1608, 1740, 1587] @ lit '' '' @ [1605, 1578, 1606] @
           lit '' '' @ [1576, 1575, 1586, 1575, 1585, 1740, 1575, 1576, 1740] @ lit '' '' @ [1608] @
           lit '' '' @ [1585, 1575, 1607, 1606, 1605, 1575] @ lit '' (EN/FA) '' @ [1608] @ lit '' '' @
           [1578, 1591, 1576, 1740, 1602] @ lit '' '' @ [1576, 1575] @ lit '' '' @
           [1579, 1576, 1578] @ lit '' '' @ [1575, 1583, 1593, 1575, 1607, 1575] @ lit ''.''),
        JStr ([1587, 1606, 1575, 1585, 1740, 1608, 1607, 1575, 1740] @ lit '' '' @ [1578, 1587, 1578] @
           lit '' '' @ [1576, 1585, 1575, 1740] @ lit '' '' @
           [1608, 1590, 1593, 1740, 1578, 8204, 1607, 1575, 1740] @ lit '' UI '' @
           [1662, 1585, 1583, 1575, 1582, 1578] @ lit ''.''),
        JStr ([1662, 1740, 1588, 8204, 1606, 1608, 1740, 1587] @ lit '' '' @
           [1583, 1575, 1582, 1604, 1740] @ lit '' '' @ [1575, 1605, 1606, 1740, 1578] @ lit '' '' @
           [1608] @ lit '' '' @ [1581, 1585, 1740, 1605] @ lit '' '' @
           [1582, 1589, 1608, 1589, 1740] @ lit ''. '' @ [1608, 1705, 1740, 1604] @ lit '' '' @
           [1607, 1606, 1608, 1586] @ lit '' '' @ [1589, 1601, 1581, 1607, 8204, 1607, 1575, 1740] @
           lit '' '' @ [1581, 1602, 1608, 1602, 1740] @ lit '' '' @ [1593, 1605, 1608, 1605, 1740] @
           lit '' '' @ [1585, 1575] @ lit '' '' @ [1576, 1585, 1585, 1587, 1740] @ lit '' '' @
           [1606, 1705, 1585, 1583, 1607] @ lit ''.'')]),
      (lit ''modelsNoteEn'', JStr (lit ''Claude Sonnet and Opus via Anthropic API in development tooling (exact '' @
         lit ''model IDs vary by release).'')),
      (lit ''modelsNoteFa'', JStr (lit ''Claude Sonnet '' @ [1608] @ lit '' Opus '' @ [1583, 1585] @ lit '' '' @
         [1575, 1576, 1586, 1575, 1585] @ lit '' '' @ [1578, 1608, 1587, 1593, 1607] @ lit '' ('' @
         [1588, 1606, 1575, 1587, 1607] @ lit '' '' @ [1605, 1583, 1604] @ lit '' '' @
         [1576, 1575] @ lit '' '' @ [1606, 1587, 1582, 1607] @ lit '' '' @ [1593, 1608, 1590] @
         lit '' '' @ [1605, 1740, 8204, 1588, 1608, 1583] @ lit '').'')),
      (lit ''evalsEn'', JStr (lit ''Payment correctness is validated with Go tests, chain simulation, and server-side '' @
         lit ''matching '' @ [8212] @ lit '' not LLM judgment.'')),
      (lit ''evalsFa'', JStr ([1583, 1585, 1587, 1578, 1740] @ lit '' '' @ [1662, 1585, 1583, 1575, 1582, 1578] @
         lit '' '' @ [1576, 1575] @ lit '' '' @ [1578, 1587, 1578] @ lit '' Go'' @ [1548] @
         lit '' '' @ [1588, 1576, 1740, 1607, 8204, 1587, 1575, 1586] @ lit '' '' @
         [1586, 1606, 1580, 1740, 1585, 1607] @ lit '' '' @ [1608] @ lit '' '' @
         [1578, 1591, 1576, 1740, 1602] @ lit '' '' @ [1587, 1585, 1608, 1585] @ lit '' '' @
         [1576, 1585, 1585, 1587, 1740] @ lit '' '' @ [1605, 1740, 8204, 1588, 1608, 1583] @
         lit '' '' @ [8212] @ lit '' '' @ [1606, 1607] @ lit '' '' @ [1576, 1575] @ lit '' '' @
         [1602, 1590, 1575, 1608, 1578] @ lit '' LLM.''))]"

definition site_contact :: "site_env \<Rightarrow> jval" where
  "site_contact env = JObj
     [(lit ''support'', JStr (lit ''support@pooli.shop'')),
      (lit ''founder'', JStr (lit ''omid@pooli.shop''))]"

definition site_social :: "site_env \<Rightarrow> jval" where
  "site_social env = JObj
     [(lit ''linkedinCompany'', JStr (lit ''https://www.linkedin.com/company/poolishop'')),
      (lit ''linkedinFounder'', JStr (lit ''https://www.linkedin.com/in/omid-mirzaei/'')),
      (lit ''github'', JStr (lit ''https://github.com/o-mid/pooli'')),
      (lit ''telegramBot'', JStr (lit ''https://t.me/PooliShopbot''))]"

definition siteConfig :: "site_env \<Rightarrow> jval" where
  "siteConfig env = JObj
     [(lit ''name'', JStr (lit ''Pooli'')),
      (lit ''tagline'', site_tagline env),
      (lit ''url'', JStr (or_text (given (se_url env)) (lit ''https://pooli.shop''))),
      (lit ''foundingYear'', JNum (dec (foundingYear env))),
      (lit ''legalReviewed'', JBool False),
      (lit ''legalDocumentsUpdatedOn'', JStr (lit ''2026-10-09'')),
      (lit ''funding'', site_funding env),
      (lit ''company'', site_company env),
      (lit ''founder'', site_founder env),
      (lit ''claudeUsage'', site_claudeUsage env),
      (lit ''contact'', site_contact env),
      (lit ''social'', site_social env)]"


text \<open>\<open>siteConfig.a.b\<close>, as a value and as a text.\<close>

definition site_at :: "site_env \<Rightarrow> string list \<Rightarrow> jval" where
  "site_at env path = fold (\<lambda>k v. prop_of v (lit k)) path (siteConfig env)"

definition site_text :: "site_env \<Rightarrow> string list \<Rightarrow> ustr" where
  "site_text env path = (case site_at env path of JStr s \<Rightarrow> s | JNum t \<Rightarrow> t | _ \<Rightarrow> [])"

definition site_base :: "site_env \<Rightarrow> ustr" where
  "site_base env = strip_slash (site_text env [''url''])"

definition companyAddressLine :: "site_env \<Rightarrow> bool \<Rightarrow> ustr" where
  "companyAddressLine env persian =
     (let f = (\<lambda>k. site_text env [''company'', ''address'', k]);
          sep = (if persian then [1548, 32] else lit '', '')
      in f ''street'' @ sep @ f ''area'' @ sep @ f ''postalCode'' @ lit '' '' @ f ''city'' @ sep @ f ''country'')"

record social_link =
  sl_label :: ustr
  sl_href :: ustr
  sl_rel :: ustr

definition definedSocialLinks :: "site_env \<Rightarrow> social_link list" where
  "definedSocialLinks env =
     (let s = (\<lambda>k. site_text env [''social'', k]);
          link = (\<lambda>label k rel. if s k \<noteq> [] then [\<lparr>sl_label = lit label, sl_href = s k, sl_rel = lit rel\<rparr>] else [])
      in link ''LinkedIn'' ''linkedinCompany'' ''noopener noreferrer'' @
         link ''Omid on LinkedIn'' ''linkedinFounder'' ''noopener noreferrer me'' @
         link ''GitHub'' ''github'' ''noopener noreferrer me'' @
         link ''Telegram'' ''telegramBot'' ''noopener noreferrer'')"

definition sameAsUrls :: "site_env \<Rightarrow> ustr list" where
  "sameAsUrls env = filter (\<lambda>u. u \<noteq> [])
     (map (\<lambda>k. site_text env [''social'', k]) [''linkedinCompany'', ''linkedinFounder'', ''github'', ''telegramBot''])"

definition property_value :: "string \<Rightarrow> ustr \<Rightarrow> jval" where
  "property_value name v = JObj [(lit ''@type'', JStr (lit ''PropertyValue'')), (lit ''name'', JStr (lit name)),
     (lit ''value'', JStr v)]"

definition organizationIdentifiers :: "site_env \<Rightarrow> jval list" where
  "organizationIdentifiers env =
     (let g = site_text env [''company'', ''gemiNumber'']; v = site_text env [''company'', ''vatNumber'']
      in (if g \<noteq> [] then [property_value ''GEMI'' g] else []) @
         (if v \<noteq> [] then [property_value ''VAT'' v] else []))"

definition organizationLogoUrl :: "site_env \<Rightarrow> ustr" where
  "organizationLogoUrl env = site_base env @ lit ''/icons/icon-512.png''"

definition date_re :: "ustr \<Rightarrow> bool" where
  "date_re s \<longleftrightarrow> length s = 10 \<and> list_all is_digit (take 4 s) \<and> s ! 4 = 45 \<and>
     list_all is_digit (take 2 (drop 5 s)) \<and> s ! 7 = 45 \<and> list_all is_digit (drop 8 s)"

definition siteBuildDate :: "site_env \<Rightarrow> ustr" where
  "siteBuildDate env =
     (case se_buildDate env of None \<Rightarrow> lit ''2026-10-09''
      | Some raw \<Rightarrow> if date_re raw then raw else lit ''2026-10-09'')"

definition siteBuildIso :: "site_env \<Rightarrow> ustr" where
  "siteBuildIso env = siteBuildDate env @ lit ''T00:00:00.000Z''"

text \<open>One year later. \<open>None\<close> where the build date is not a day of the calendar, for which the
  result of \<open>new Date\<close> is not fixed by the language; 29 February becomes 1 March.\<close>

definition leap_year :: "nat \<Rightarrow> bool" where
  "leap_year y \<longleftrightarrow> y mod 4 = 0 \<and> (y mod 100 \<noteq> 0 \<or> y mod 400 = 0)"

definition month_days :: "nat \<Rightarrow> nat \<Rightarrow> nat" where
  "month_days y m = (if m = 2 then (if leap_year y then 29 else 28)
     else if m \<in> {4, 6, 9, 11} then 30 else 31)"

definition securityTxtExpires :: "site_env \<Rightarrow> ustr option" where
  "securityTxtExpires env =
     (let s = siteBuildDate env; y = undec (take 4 s); m = undec (take 2 (drop 5 s)); d = undec (drop 8 s)
      in if m < 1 \<or> 12 < m \<or> d < 1 \<or> month_days y m < d \<or> y = 9999 then None
         else Some (pad_start 4 48 (dec (y + 1)) @ (if m = 2 \<and> d = 29 then lit ''-03-01'' else drop 4 s)
           @ lit ''T00:00:00Z''))"

definition withLegalStatus :: "site_env \<Rightarrow> ustr \<Rightarrow> ustr" where
  "withLegalStatus env label =
     (if site_at env [''legalReviewed''] = JBool True then label else label @ lit '' (draft)'')"

subsection \<open>JSON-LD\<close>

definition site_str :: "site_env \<Rightarrow> string list \<Rightarrow> jval" where
  "site_str env path = JStr (site_text env path)"

definition ld_id :: "site_env \<Rightarrow> string \<Rightarrow> jval" where
  "ld_id env anchor = JStr (site_base env @ lit anchor)"

definition ld_ref :: "site_env \<Rightarrow> string \<Rightarrow> jval" where
  "ld_ref env anchor = JObj [(lit ''@id'', ld_id env anchor)]"

definition ld_texts :: "string list \<Rightarrow> jval" where
  "ld_texts xs = JArr (map (\<lambda>x. JStr (lit x)) xs)"

definition organizationEntries :: "site_env \<Rightarrow> (ustr \<times> jval) list" where
  "organizationEntries env =
     [(lit ''@type'', JStr (lit ''Organization'')),
      (lit ''@id'', ld_id env ''/#organization''),
      (lit ''name'', site_str env [''company'', ''legalNameEn'']),
      (lit ''alternateName'', JArr [site_str env [''name''], site_str env [''company'', ''legalNameEl'']]),
      (lit ''legalName'', site_str env [''company'', ''legalNameEn'']),
      (lit ''url'', JStr (site_base env)),
      (lit ''logo'', JStr (organizationLogoUrl env)),
      (lit ''email'', site_str env [''contact'', ''support'']),
      (lit ''foundingDate'', if foundingYear env \<noteq> 0 then JStr (dec (foundingYear env)) else JUndef),
      (lit ''founder'', JObj
        [(lit ''@type'', JStr (lit ''Person'')),
         (lit ''name'', site_str env [''founder'', ''name'']),
         (lit ''jobTitle'', site_str env [''founder'', ''title'']),
         (lit ''email'', site_str env [''founder'', ''email'']),
         (lit ''url'', ld_id env ''/about'')]),
      (lit ''address'', JObj
        [(lit ''@type'', JStr (lit ''PostalAddress'')),
         (lit ''streetAddress'', site_str env [''company'', ''address'', ''street'']),
         (lit ''addressLocality'', site_str env [''company'', ''address'', ''city'']),
         (lit ''postalCode'', site_str env [''company'', ''address'', ''postalCode'']),
         (lit ''addressCountry'', site_str env [''company'', ''address'', ''countryCode''])]),
      (lit ''contactPoint'', JObj
        [(lit ''@type'', JStr (lit ''ContactPoint'')),
         (lit ''contactType'', JStr (lit ''customer support'')),
         (lit ''email'', site_str env [''contact'', ''support'']),
         (lit ''availableLanguage'', ld_texts [''en'', ''fa''])]),
      (lit ''sameAs'', JArr (map JStr (sameAsUrls env)))] @
     (if site_text env [''company'', ''vatNumber''] \<noteq> [] then
        [(lit ''vatID'', site_str env [''company'', ''vatNumber''])] else []) @
     (case organizationIdentifiers env of [] \<Rightarrow> []
      | [i] \<Rightarrow> [(lit ''identifier'', i)]
      | is \<Rightarrow> [(lit ''identifier'', JArr is)])"

definition organizationNode :: "site_env \<Rightarrow> jval" where
  "organizationNode env = JObj (organizationEntries env)"

definition founderNode :: "site_env \<Rightarrow> jval" where
  "founderNode env = JObj
     [(lit ''@type'', JStr (lit ''Person'')),
      (lit ''@id'', ld_id env ''/#founder''),
      (lit ''name'', site_str env [''founder'', ''name'']),
      (lit ''jobTitle'', site_str env [''founder'', ''title'']),
      (lit ''email'', site_str env [''founder'', ''email'']),
      (lit ''url'', ld_id env ''/about''),
      (lit ''sameAs'', JArr [site_str env [''founder'', ''linkedin''], site_str env [''founder'', ''github'']]),
      (lit ''worksFor'', ld_ref env ''/#organization'')]"

definition websiteNode :: "site_env \<Rightarrow> jval" where
  "websiteNode env = JObj
     [(lit ''@type'', JStr (lit ''WebSite'')),
      (lit ''@id'', ld_id env ''/#website''),
      (lit ''name'', site_str env [''name'']),
      (lit ''url'', JStr (site_base env)),
      (lit ''inLanguage'', ld_texts [''en'', ''fa'']),
      (lit ''publisher'', ld_ref env ''/#organization'')]"

definition softwareApplicationNode :: "site_env \<Rightarrow> jval" where
  "softwareApplicationNode env = JObj
     [(lit ''@type'', JStr (lit ''WebApplication'')),
      (lit ''@id'', ld_id env ''/#application''),
      (lit ''name'', site_str env [''name'']),
      (lit ''applicationCategory'', JStr (lit ''FinanceApplication'')),
      (lit ''operatingSystem'', JStr (lit ''Web, iOS, Android (PWA)'')),
      (lit ''url'', JStr (site_base env)),
      (lit ''publisher'', ld_ref env ''/#organization'')]"

definition ld_context :: "ustr \<times> jval" where
  "ld_context = (lit ''@context'', JStr (lit ''https://schema.org''))"

definition ld_graph :: "jval list \<Rightarrow> jval" where
  "ld_graph nodes = JObj [ld_context, (lit ''@graph'', JArr nodes)]"

definition landingGraph :: "site_env \<Rightarrow> jval" where
  "landingGraph env =
     ld_graph [organizationNode env, founderNode env, websiteNode env, softwareApplicationNode env]"

definition verificationOrganizationGraph :: "site_env \<Rightarrow> jval" where
  "verificationOrganizationGraph env = JObj (ld_context # organizationEntries env)"

definition claudePageGraph :: "site_env \<Rightarrow> ustr \<Rightarrow> jval" where
  "claudePageGraph env description = ld_graph
     [organizationNode env, founderNode env,
      JObj [(lit ''@type'', JStr (lit ''WebPage'')), (lit ''@id'', ld_id env ''/claude''),
        (lit ''name'', JStr (lit ''Building with Claude'')), (lit ''description'', JStr description),
        (lit ''url'', ld_id env ''/claude''), (lit ''isPartOf'', ld_ref env ''/#website''),
        (lit ''about'', ld_ref env ''/#organization'')]]"

definition faqPageGraph :: "(ustr \<times> ustr) list \<Rightarrow> jval" where
  "faqPageGraph items = JObj
     [ld_context, (lit ''@type'', JStr (lit ''FAQPage'')),
      (lit ''mainEntity'', JArr (map (\<lambda>(q, a). JObj
        [(lit ''@type'', JStr (lit ''Question'')), (lit ''name'', JStr q),
         (lit ''acceptedAnswer'', JObj [(lit ''@type'', JStr (lit ''Answer'')), (lit ''text'', JStr a)])]) items))]"

text \<open>The position of an item counts from 1.\<close>

definition breadcrumbGraph :: "(ustr \<Rightarrow> ustr \<Rightarrow> ustr) \<Rightarrow> site_env \<Rightarrow> (ustr \<times> ustr) list \<Rightarrow> jval" where
  "breadcrumbGraph resolve env items = JObj
     [ld_context, (lit ''@type'', JStr (lit ''BreadcrumbList'')),
      (lit ''itemListElement'', JArr (map (\<lambda>(i, name, path). JObj
        [(lit ''@type'', JStr (lit ''ListItem'')), (lit ''position'', JNum (dec (i + 1))), (lit ''name'', JStr name),
         (lit ''item'', JStr (resolve path (site_text env [''url''])))]) (zip [0..<length items] items)))]"

definition aboutPageGraph :: "site_env \<Rightarrow> ustr \<Rightarrow> jval" where
  "aboutPageGraph env description = ld_graph
     [organizationNode env, founderNode env,
      JObj [(lit ''@type'', JStr (lit ''AboutPage'')), (lit ''@id'', ld_id env ''/about''),
        (lit ''name'', JStr (lit ''About '' @ site_text env [''name''])), (lit ''description'', JStr description),
        (lit ''url'', ld_id env ''/about''), (lit ''isPartOf'', ld_ref env ''/#website''),
        (lit ''about'', ld_ref env ''/#organization'')]]"

definition contactPageGraph :: "site_env \<Rightarrow> ustr \<Rightarrow> jval" where
  "contactPageGraph env description = ld_graph
     [organizationNode env,
      JObj [(lit ''@type'', JStr (lit ''ContactPage'')), (lit ''@id'', ld_id env ''/contact''),
        (lit ''name'', JStr (lit ''Contact '' @ site_text env [''name''])), (lit ''description'', JStr description),
        (lit ''url'', ld_id env ''/contact''), (lit ''isPartOf'', ld_ref env ''/#website'')]]"

definition organization_required :: "ustr list" where
  "organization_required = map lit [''@type'', ''@id'', ''name'', ''legalName'', ''url'', ''email'', ''address'']"

text \<open>The message \<open>assertOrganizationShape\<close> throws, if it throws.\<close>

definition assertOrganizationShape :: "jval \<Rightarrow> ustr option" where
  "assertOrganizationShape node =
     (case find (\<lambda>k. prop_of node k \<in> {JUndef, JNull, JStr []}) organization_required of
        Some k \<Rightarrow> Some (lit ''Organization missing '' @ k)
      | None \<Rightarrow>
          if prop_of node (lit ''@type'') \<noteq> JStr (lit ''Organization'') then Some (lit ''Not Organization'')
          else if \<not> truthy (prop_of node (lit ''foundingDate'')) then Some (lit ''Organization missing foundingDate'')
          else None)"

definition imprintTextEn :: "site_env \<Rightarrow> ustr" where
  "imprintTextEn env = companyAddressLine env False"

subsection \<open>Metadata\<close>

definition defaultSiteTitle :: "site_env \<Rightarrow> bool \<Rightarrow> ustr" where
  "defaultSiteTitle env persian =
     site_text env [''name''] @ [32, 8212, 32] @ site_text env [''tagline'', if persian then ''fa'' else ''en'']"

definition pageMetadata :: "(ustr \<Rightarrow> ustr \<Rightarrow> ustr) \<Rightarrow> site_env \<Rightarrow> ustr \<Rightarrow> ustr \<Rightarrow> ustr \<Rightarrow> bool \<Rightarrow> jval" where
  "pageMetadata resolve env title description path persian =
     (let url = resolve path (site_text env [''url''])
      in JObj
        [(lit ''title'', JStr title), (lit ''description'', JStr description),
         (lit ''alternates'', JObj [(lit ''canonical'', JStr url)]),
         (lit ''openGraph'', JObj
           [(lit ''title'', JStr title), (lit ''description'', JStr description), (lit ''type'', JStr (lit ''website'')),
            (lit ''url'', JStr url), (lit ''siteName'', site_str env [''name'']),
            (lit ''locale'', JStr (if persian then lit ''fa_IR'' else lit ''en_US'')),
            (lit ''images'', JArr [JObj [(lit ''url'', JStr (lit ''/brand/og-default.png'')),
               (lit ''width'', JNum (lit ''1200'')), (lit ''height'', JNum (lit ''630'')),
               (lit ''alt'', site_str env [''name''])]])]),
         (lit ''twitter'', JObj
           [(lit ''card'', JStr (lit ''summary_large_image'')), (lit ''title'', JStr title),
            (lit ''description'', JStr description), (lit ''images'', ld_texts [''/brand/og-default.png''])]),
         (lit ''robots'', JObj [(lit ''index'', JBool True), (lit ''follow'', JBool True)])])"

definition privateRouteRobots :: jval where
  "privateRouteRobots = JObj [(lit ''robots'', JObj [(lit ''index'', JBool False), (lit ''follow'', JBool False),
     (lit ''nocache'', JBool True)])]"

subsection \<open>Routes\<close>

record sitemap_path =
  sp_path :: ustr
  sp_priority :: ustr
  sp_changeFrequency :: ustr

definition PUBLIC_PATHS :: "sitemap_path list" where
  "PUBLIC_PATHS =
     [\<lparr>sp_path = lit ''/'', sp_priority = lit ''1'', sp_changeFrequency = lit ''weekly''\<rparr>,
      \<lparr>sp_path = lit ''/about'', sp_priority = lit ''0.8'', sp_changeFrequency = lit ''monthly''\<rparr>,
      \<lparr>sp_path = lit ''/claude'', sp_priority = lit ''0.55'', sp_changeFrequency = lit ''monthly''\<rparr>,
      \<lparr>sp_path = lit ''/contact'', sp_priority = lit ''0.6'', sp_changeFrequency = lit ''monthly''\<rparr>,
      \<lparr>sp_path = lit ''/faq'', sp_priority = lit ''0.7'', sp_changeFrequency = lit ''monthly''\<rparr>,
      \<lparr>sp_path = lit ''/security'', sp_priority = lit ''0.6'', sp_changeFrequency = lit ''monthly''\<rparr>,
      \<lparr>sp_path = lit ''/privacy'', sp_priority = lit ''0.5'', sp_changeFrequency = lit ''yearly''\<rparr>,
      \<lparr>sp_path = lit ''/terms'', sp_priority = lit ''0.5'', sp_changeFrequency = lit ''yearly''\<rparr>]"

record sitemap_entry =
  sm_url :: ustr
  sm_lastModified :: ustr
  sm_changeFrequency :: ustr
  sm_priority :: ustr

definition sitemap :: "site_env \<Rightarrow> sitemap_entry list" where
  "sitemap env =
     (let base = site_base env; lastModified = siteBuildIso env
      in map (\<lambda>p. \<lparr>sm_url = (if sp_path p = lit ''/'' then base @ lit ''/'' else base @ sp_path p),
           sm_lastModified = lastModified, sm_changeFrequency = sp_changeFrequency p,
           sm_priority = sp_priority p\<rparr>) PUBLIC_PATHS)"

definition robots_disallow :: "ustr list" where
  "robots_disallow = map lit [''/app/'', ''/admin/'', ''/p/'', ''/t/'', ''/link/'', ''/api/'', ''/login'', ''/register'']"

record robots_rules =
  rb_userAgent :: ustr
  rb_allow :: ustr
  rb_disallow :: "ustr list"
  rb_sitemap :: ustr
  rb_host :: ustr

definition robots :: "site_env \<Rightarrow> robots_rules" where
  "robots env =
     (let base = site_base env
      in \<lparr>rb_userAgent = lit ''*'', rb_allow = lit ''/'', rb_disallow = robots_disallow,
          rb_sitemap = base @ lit ''/sitemap.xml'', rb_host = base\<rparr>)"

definition llms_txt :: "site_env \<Rightarrow> ustr" where
  "llms_txt env =
     lit ''# Pooli'' @ [10, 10] @
     lit ''Pooli is a non-custodial USDT checkout for sellers who close sales in DMs. '' @
     lit ''Sellers quote in toman and share a payment link; buyers pay exact USDT '' @
     lit ''to the seller'' @ [39] @
     lit ''s wallet; Pooli marks Paid only after server-side blockchain verification. '' @
     lit ''Pooli is not a custodian, exchange, or wallet; it does not use AI agents '' @
     lit ''for follow-ups.'' @ [10, 10] @ lit ''## Key pages'' @ [10] @ lit ''- '' @
     site_base env @
     lit ''/ '' @ [8212] @ lit '' Product overview and how it works'' @ [10] @ lit ''- '' @
     site_base env @
     lit ''/about '' @ [8212] @ lit '' Company imprint and founder'' @ [10] @ lit ''- '' @
     site_base env @
     lit ''/contact '' @ [8212] @ lit '' support@pooli.shop and contact details'' @ [10] @
     lit ''- '' @
     site_base env @
     lit ''/faq '' @ [8212] @ lit '' Networks, custody, buyers, wrong amounts'' @ [10] @
     lit ''- '' @
     site_base env @
     lit ''/security '' @ [8212] @ lit '' Security design facts and disclosure'' @ [10] @
     lit ''- '' @
     site_base env @
     lit ''/privacy '' @ [8212] @ lit '' '' @
     withLegalStatus env (lit ''Privacy policy'') @
     [10] @ lit ''- '' @
     site_base env @
     lit ''/terms '' @ [8212] @ lit '' '' @
     withLegalStatus env (lit ''Terms of service'') @
     [10, 10] @ lit ''## Organization'' @ [10] @ lit ''Legal name: '' @
     site_text env [''company'', ''legalNameEn''] @
     [10] @ lit ''Address: '' @
     companyAddressLine env False @
     [10] @ lit ''Support: '' @
     site_text env [''contact'', ''support''] @
     [10] @ lit ''Founder: '' @
     site_text env [''founder'', ''name''] @
     lit '' ('' @
     site_text env [''contact'', ''founder''] @
     lit '')'' @ [10] @ lit ''Founded: '' @
     dec (foundingYear env) @
     lit '' (Athens, Greece). Friends-and-family pre-seed; no public GMV claims.'' @ [10, 10] @
     lit ''## What Pooli is not'' @ [10] @
     lit ''Not custodial, not an exchange, no card acquiring, no invented traction '' @
     lit ''claims, no AI product features.'' @ [10]"

definition humans_txt :: "site_env \<Rightarrow> ustr" where
  "humans_txt env =
     lit ''/* TEAM */'' @ [10] @ lit ''Founder: '' @
     site_text env [''founder'', ''name''] @
     [10] @ lit ''Site: '' @
     site_text env [''url''] @
     [10] @ lit ''Location: Athens, Greece'' @ [10, 10] @ lit ''/* THANKS */'' @ [10] @
     lit ''Open-source contributors and chain RPC providers.'' @ [10, 10] @ lit ''/* SITE */'' @
     [10] @ lit ''Last update: '' @
     siteBuildDate env @
     [10] @ lit ''Legal: '' @
     withLegalStatus env (lit ''privacy and terms'') @
     [10] @ lit ''Stack: Next.js, Go, PostgreSQL'' @ [10]"

text \<open>\<open>None\<close> where the expiry date is not defined.\<close>

definition security_txt :: "site_env \<Rightarrow> ustr option" where
  "security_txt env = map_option (\<lambda>expires. join_with [10]
    [lit ''Contact: mailto:'' @
       site_text env [''contact'', ''support''],
     lit ''Contact: mailto:'' @
       site_text env [''contact'', ''founder''],
     lit ''Expires: '' @
       expires,
     lit ''Preferred-Languages: en, fa'',
     lit ''Canonical: '' @
       site_base env @
       lit ''/.well-known/security.txt'',
     lit ''Policy: '' @
       site_base env @
       lit ''/security''] @ [10]) (securityTxtExpires env)"


subsection \<open>What is published\<close>

lemma site_text_url: "site_text env [''url''] = or_text (given (se_url env)) (lit ''https://pooli.shop'')"
  by (simp add: site_text_def site_at_def siteConfig_def)

lemma site_company_name: "site_text env [''company'', ''legalNameEn''] = lit ''POOLI SINGLE MEMBER P.C.''"
  by (simp add: site_text_def site_at_def siteConfig_def site_company_def)

lemma site_support: "site_text env [''contact'', ''support''] = lit ''support@pooli.shop''"
  by (simp add: site_text_def site_at_def siteConfig_def site_contact_def)

lemma site_legal_draft: "withLegalStatus env label = label @ lit '' (draft)''"
  by (simp add: withLegalStatus_def site_at_def siteConfig_def)

lemma organization_keys:
  "prop_of (organizationNode env) (lit ''@type'') = JStr (lit ''Organization'')"
  "prop_of (organizationNode env) (lit ''@id'') = ld_id env ''/#organization''"
  "prop_of (organizationNode env) (lit ''name'') = site_str env [''company'', ''legalNameEn'']"
  "prop_of (organizationNode env) (lit ''legalName'') = site_str env [''company'', ''legalNameEn'']"
  "prop_of (organizationNode env) (lit ''url'') = JStr (site_base env)"
  "prop_of (organizationNode env) (lit ''email'') = site_str env [''contact'', ''support'']"
  "prop_of (organizationNode env) (lit ''foundingDate'') =
     (if foundingYear env \<noteq> 0 then JStr (dec (foundingYear env)) else JUndef)"
  "\<exists>a. prop_of (organizationNode env) (lit ''address'') = JObj a"
  by (simp_all add: organizationNode_def organizationEntries_def)

lemma organization_shape:
  assumes "foundingYear env \<noteq> 0" "site_base env \<noteq> []"
  shows "assertOrganizationShape (organizationNode env) = None"
proof -
  obtain a where a: "prop_of (organizationNode env) (lit ''address'') = JObj a"
    using organization_keys(8) by blast
  show ?thesis
    using assms
    by (simp add: assertOrganizationShape_def organization_required_def organization_keys a ld_id_def
        site_str_def site_company_name site_support)
qed

text \<open>No page of the sitemap is under a path that robots may not visit.\<close>

lemma sitemap_allowed:
  "p \<in> set PUBLIC_PATHS \<Longrightarrow> d \<in> set robots_disallow \<Longrightarrow> \<not> starts_with (sp_path p) d"
  by (auto simp: PUBLIC_PATHS_def robots_disallow_def starts_with_def lit_def)

end
