(* ===== verification/WebProps.thy ===== *)
theory WebProps
  imports WalletLaunch Poller WebGateway WebMisc Site ApiProps
begin

text \<open>
  The properties of the web application, with their witnesses.
\<close>

subsection \<open>Amounts\<close>

text \<open>C33: an amount in USDT is read back from its text: for every number of base units the code
  accepts, formatting it and parsing the text gives the number again, and the gateway formats it
  to the same text.\<close>

theorem usdt_roundtrip:
  assumes "0 < b" "b \<le> MAX_SAFE_INTEGER"
  shows "parseUsdtToBaseUnits (formatUsdtFromBaseUnits (int b)) = Some b \<and>
    formatUsdtDisplay (Some (int b)) = formatUsdtFromBaseUnits (int b)"
  by (simp add: parse_format [OF assms] formats_agree)

theorem usdt_roundtrip_witness:
  "parseUsdtToBaseUnits (formatUsdtFromBaseUnits 12500000) = Some 12500000"
  using usdt_roundtrip [of 12500000] by (simp add: MAX_SAFE_INTEGER_def)

text \<open>Typed fields have a normal form: a toman amount shown with separators is parsed back to
  itself, as long as the number is exact, and a phone number that was normalised is normalised to
  itself: \<open>+98\<close> and ten digits.\<close>

lemma typed_fields_normal:
  assumes "num n = Some n" "normalizeIranianPhone s = Some t"
  shows "parseTomanInput num (group_thousands n) = n \<and> normalizeIranianPhone t = Some t \<and>
    length t = 13 \<and> take 3 t = lit ''+98''"
proof -
  obtain d where "t = lit ''+98'' @ d" "length d = 10" using phone_cases [OF assms(2)] by blast
  then show ?thesis using toman_roundtrip [of num n, OF assms(1)] phone_idem [OF assms(2)] by simp
qed

theorem typed_fields_normal_witness:
  "normalizeIranianPhone (lit ''+989121234567'') = Some (lit ''+989121234567'')"
proof -
  have "normalizeIranianPhone (lit ''09121234567'') = Some (lit ''+989121234567'')"
    by (simp add: normalizeIranianPhone_def starts_with_def lit_def is_digit_def Let_def)
  from typed_fields_normal [OF _ this, of Some 5] show ?thesis by simp
qed

subsection \<open>Handing over a payment\<close>

text \<open>C34: the wallet is asked to sign exactly the quote. A transaction that a WalletConnect payment
  asks for goes to the token contract of the option with no value, and its calldata reads back as
  a transfer to the address of the option of its base units scaled by the token's decimals: for an
  address in the form of an EVM address (0x and 40 hexadecimal digits), and an amount that fits the
  256 bits of the argument.\<close>

theorem signed_transfer_is_the_quote:
  assumes "payWithWalletConnect rt envId init input s = (s', Some tx, r)"
    and "evm_address (op_destination_address (hi_option input))"
    and "\<And>b. op_base_units (hi_option input) = Some b \<Longrightarrow>
      b * 10 ^ (default_decimals (hi_option input) - 6) < 2 ^ 256"
  shows "tx_to tx = op_token_contract (hi_option input) \<and> tx_value tx = lit ''0x0'' \<and>
    take 10 (tx_data tx) = lit ''0xa9059cbb'' \<and> length (tx_data tx) = 138 \<and>
    unhex (take 64 (drop 10 (tx_data tx))) = unhex (drop 2 (op_destination_address (hi_option input))) \<and>
    (\<exists>b. op_base_units (hi_option input) = Some b \<and>
      unhex (drop 74 (tx_data tx)) = Some (b * 10 ^ (default_decimals (hi_option input) - 6)))"
proof -
  let ?o = "hi_option input"
  obtain b n where t: "op_base_units ?o = Some b" "pooliBaseToOnChainAmount b (default_decimals ?o) = Some n"
    "tx_to tx = op_token_contract ?o" "tx_data tx = encodeErc20Transfer rt (op_destination_address ?o) n"
    "tx_value tx = lit ''0x0''"
    using payWithWalletConnect_tx [OF assms(1)] by blast
  have n: "n = b * 10 ^ (default_decimals ?o - 6)"
    using t(2) by (auto simp: pooliBaseToOnChainAmount_def pooliDecimals_def split: if_splits)
  note w = evm_address_word [OF assms(2), of rt]
  have len: "length (strip_0x (js_lower rt (op_destination_address ?o))) \<le> 64"
    using assms(2) by (simp add: w evm_address_def)
  have "n < 2 ^ 256" using assms(3) [OF t(1)] n by simp
  note c = calldata_words [OF len this]
  show ?thesis using c t n by (simp add: w unhex_lower)
qed

text \<open>A wallet that accepts everything.\<close>

definition demo_provider :: eth_provider where
  "demo_provider = \<lparr>ep_connect = None, ep_enable = None, ep_requestAccounts = Returned (),
     ep_switchChain = (\<lambda>h. Returned ()), ep_addChain = Returned (), ep_accounts = Some [lit ''0xme''],
     ep_ethAccounts = Returned [], ep_send = (\<lambda>t. Returned ())\<rparr>"

definition demo_address :: ustr where
  "demo_address = lit ''0x'' @ replicate 40 49"

definition demo_option :: payment_option where
  "demo_option = \<lparr>op_id = lit ''o1'', op_network = lit ''bsc'', op_chain_id = Some 56,
     op_token_contract = lit ''0xtoken'', op_destination_address = demo_address,
     op_pay_usdt_amount = lit ''12.5'', op_base_units = Some 12500000, op_asset = lit ''USDT'',
     op_token_decimals = Some 18, op_payment_uri = [], op_base_usdt_amount = None,
     op_expires_at = None, op_status = Some (lit ''ACTIVE''), op_quote_rate = None\<rparr>"

definition demo_handoff :: handoff_input where
  "demo_handoff = \<lparr>hi_option = demo_option, hi_env = detectBrowserEnv demo_rt (lit ''iphone''),
     hi_preferredWalletId = Some Tronlink, hi_walletConnectProjectId = lit ''pid'',
     hi_storeName = None, hi_checkoutUrl = None\<rparr>"

lemma demo_project: "wcProjectId None (lit ''pid'') = lit ''pid''"
  by (simp add: wcProjectId_def or_text_def js_trim_no_ws lit_def is_ws_def)

lemma demo_pays:
  "\<exists>s tx. payWithWalletConnect demo_rt None (\<lambda>p c. Some demo_provider) demo_handoff wc_initial =
     (s, Some tx, Launched (lit ''walletconnect''))"
  by (simp add: payWithWalletConnect_def demo_handoff_def demo_project Let_def demo_option_def
      default_decimals_def getWalletConnectProvider_def wc_initial_def send_payment_def connect_wallet_def
      demo_provider_def ensureChain_def wallet_accounts_def pooliBaseToOnChainAmount_def pooliDecimals_def
      demo_address_def)

theorem signed_transfer_is_the_quote_witness:
  "\<exists>s tx. payWithWalletConnect demo_rt None (\<lambda>p c. Some demo_provider) demo_handoff wc_initial =
     (s, Some tx, Launched (lit ''walletconnect'')) \<and> unhex (drop 74 (tx_data tx)) = Some (12500000 * 10 ^ 12)"
proof -
  obtain s tx where p: "payWithWalletConnect demo_rt None (\<lambda>p c. Some demo_provider) demo_handoff wc_initial =
     (s, Some tx, Launched (lit ''walletconnect''))" using demo_pays by blast
  have "evm_address demo_address"
    by (simp add: evm_address_def demo_address_def lit_def list_all_iff) (simp add: hex_val_def)
  then show ?thesis
    using signed_transfer_is_the_quote [OF p] p
    by (simp add: demo_handoff_def demo_option_def default_decimals_def)
qed

lemma plan_of_wallets:
  "hp_wallets (buildHandoffPlan input) = plan_wallets (hp_network (buildHandoffPlan input))
     (op_payment_uri (hi_option input)) (hi_walletConnectProjectId input \<noteq> [])"
  by (rule buildHandoffPlan_fields(2))

lemmas plan_wallet_facts = plan_wallets_cases [OF plan_network_ne]

lemma plan_primary:
  "\<exists>w. hp_primary (buildHandoffPlan input) = Some w \<and>
     w \<in> set (hp_wallets (buildHandoffPlan input)) \<and> wc_id w \<noteq> Qr"
proof -
  let ?ws = "plan_wallets (hp_network (buildHandoffPlan input)) (op_payment_uri (hi_option input))
    (hi_walletConnectProjectId input \<noteq> [])"
  obtain v where v: "v \<in> set ?ws" "wc_id v \<noteq> Qr"
    using plan_wallets_other [OF plan_network_ne [of input], of "op_payment_uri (hi_option input)"
        "hi_walletConnectProjectId input \<noteq> []"] by force
  have "\<forall>u\<in>set ?ws. wc_recommended u \<longrightarrow> wc_id u \<noteq> Qr"
    using plan_wallet_facts [of _ input] by blast
  from choose_primary_not_qr [OF v this, of "hi_preferredWalletId input"]
  show ?thesis unfolding buildHandoffPlan_fields(3) plan_of_wallets by blast
qed

lemma plan_wallet_button: "hp_showPayWithWallet (buildHandoffPlan input) \<longleftrightarrow> be_isMobile (hi_env input)"
proof -
  obtain w where "hp_primary (buildHandoffPlan input) = Some w" "w \<in> set (hp_wallets (buildHandoffPlan input))"
    "wc_id w \<noteq> Qr" using plan_primary by blast
  then show ?thesis using plan_wallet_facts [of w input] unfolding plan_of_wallets
    by (simp add: buildHandoffPlan_fields(4))
qed

text \<open>C35: the plan is sound for every option, browser and preference: its primary wallet is one of
  its wallets and never the QR code, TronLink is offered on TRON alone, WalletConnect only where
  a project is configured and never on TRON, no link on an EVM network claims to fill in the
  amount, and the wallet button is shown on every mobile browser.\<close>

theorem handoff_plan_sound:
  "(\<exists>w. hp_primary (buildHandoffPlan input) = Some w \<and>
      w \<in> set (hp_wallets (buildHandoffPlan input)) \<and> wc_id w \<noteq> Qr) \<and>
    (\<forall>w \<in> set (hp_wallets (buildHandoffPlan input)).
      (wc_id w = Tronlink \<longrightarrow> hp_network (buildHandoffPlan input) = lit ''tron'') \<and>
      (wc_kind w = By_walletconnect \<longrightarrow> hi_walletConnectProjectId input \<noteq> [] \<and>
         hp_network (buildHandoffPlan input) \<noteq> lit ''tron'') \<and>
      (hp_network (buildHandoffPlan input) \<noteq> lit ''tron'' \<and> wc_kind w = By_deeplink \<longrightarrow> \<not> wc_canPrefillAmount w)) \<and>
    (hp_showPayWithWallet (buildHandoffPlan input) \<longleftrightarrow> be_isMobile (hi_env input))"
  using plan_primary plan_wallet_button plan_wallet_facts [of _ input] unfolding plan_of_wallets by blast

theorem handoff_plan_sound_witness:
  "\<exists>w. hp_primary (buildHandoffPlan demo_handoff) = Some w \<and> wc_id w \<noteq> Tronlink"
proof -
  have "hp_network (buildHandoffPlan demo_handoff) = lit ''bsc''"
    by (simp add: buildHandoffPlan_fields demo_handoff_def demo_option_def or_text_def)
  then show ?thesis using handoff_plan_sound [of demo_handoff] by auto
qed

subsection \<open>Payment statuses\<close>

text \<open>A buyer whose money was seen is never asked to pay: for every status that means money was
  detected, in every situation of the page, the screen is not one that asks for a payment, the
  quote cannot be refreshed and the payment does not count as awaited.\<close>

lemma never_asked_twice:
  assumes "moneyDetected s"
  shows "\<not> asks_for_money (resolvePaymentUiState s opening offline) \<and>
    \<not> canRefreshQuote parse now s expires \<and> \<not> isAwaitingPayment s"
  by (rule money_never_asked [OF assms])

theorem never_asked_twice_witness:
  "\<not> asks_for_money (resolvePaymentUiState (Some (lit ''UNDERPAID'')) True False)"
  using never_asked_twice [of "Some (lit ''UNDERPAID'')"] by (simp add: moneyDetected_def)

text \<open>No status of the backend falls between two stools: each of the eleven is either polled, or
  shown as paid, expired or in need of attention, and never both.\<close>

lemma statuses_partitioned:
  "shouldPollPaymentStatus (Some (status_text_of s)) \<noteq>
     (resolvePaymentUiState (Some (status_text_of s)) False False \<in> {UI_PAID, UI_EXPIRED, UI_NEEDS_ATTENTION})"
  by (rule backend_status_classes)

subsection \<open>The poll loop\<close>

text \<open>C36: after any sequence of events the loop has at most one reload of a tick in flight, and knows
  it; a stopped loop has no timer; and an armed timer is between two and five seconds.\<close>

theorem poll_single_flight:
  "pl_pending (poll_run es new_poller) \<le> 1 \<and>
   (pl_inFlight (poll_run es new_poller) = (pl_pending (poll_run es new_poller) = 1)) \<and>
   (pl_stopped (poll_run es new_poller) = False \<or> pl_timer (poll_run es new_poller) = None) \<and>
   (case pl_timer (poll_run es new_poller) of None \<Rightarrow> True | Some ms \<Rightarrow> 2000 \<le> ms \<and> ms \<le> 5000)"
  using poller_inv_run [OF poller_inv_new, of es] by (auto simp: poller_inv_def split: option.splits)

text \<open>The loop does not die: once started, and as long as it is not stopped and every status it
  sees is one that is polled, it runs with a timer armed after every event, whether reloads
  settle, fail or hang.\<close>

lemma poll_keeps_going:
  assumes "shouldPollPaymentStatus st" "list_all sees_pollable es"
  shows "pl_timer (poll_run (Poll_start st # es) new_poller) \<noteq> None \<and>
    \<not> pl_stopped (poll_run (Poll_start st # es) new_poller)"
proof -
  have "alive (poller_start st new_poller)"
    using assms(1) by (intro alive_start) (simp_all add: new_poller_def)
  from alive_run [OF this assms(2)] show ?thesis by (simp add: alive_def poll_run_def)
qed

theorem poll_keeps_going_witness:
  "pl_timer (poll_run [Poll_start (Some (lit ''SEEN'')), Poll_hidden True (Some (lit ''SEEN'')),
     Poll_fire (Some (lit ''SEEN''))] new_poller) \<noteq> None"
proof -
  have s: "shouldPollPaymentStatus (Some (lit ''SEEN''))" by (simp add: poll_cases)
  show ?thesis
    using poll_keeps_going [OF s, of "[Poll_hidden True (Some (lit ''SEEN'')), Poll_fire (Some (lit ''SEEN''))]"] s
    by simp
qed

text \<open>A stopped loop is silent: after \<open>stop\<close>, and until it is started again, nothing calls
  \<open>reload\<close>, whatever timers, settling reloads and visibility changes still arrive.\<close>

lemma stop_is_final:
  assumes "list_all not_a_start es"
  shows "pl_reloads (poll_run (before @ Poll_stop # es) new_poller) =
    pl_reloads (poll_run before new_poller)"
proof -
  let ?p = "poller_stop (poll_run before new_poller)"
  have "poller_inv (poll_run before new_poller)" by (rule poller_inv_run [OF poller_inv_new])
  then have "poller_inv ?p" using poller_inv_do [of _ Poll_stop] by simp
  moreover have "pl_stopped ?p" "pl_reloads ?p = pl_reloads (poll_run before new_poller)"
    by (simp_all add: poller_defs)
  ultimately show ?thesis
    using silent.run_quiet [of ?p es] assms by (simp add: poll_run_def)
qed

theorem stop_is_final_witness:
  "pl_reloads (poll_run ([Poll_start (Some (lit ''SEEN''))] @ Poll_stop # [Poll_fire (Some (lit ''SEEN''))])
     new_poller) = pl_reloads (poll_run [Poll_start (Some (lit ''SEEN''))] new_poller)"
  by (rule stop_is_final) simp

text \<open>A reload that never settles ends the polling all the same: from then on ticks keep being
  armed but none of them reloads, however often the timer fires; only a page that becomes visible
  again reloads.\<close>

lemma hung_reload_starves:
  assumes "pl_inFlight p" "list_all no_settling es"
  shows "pl_reloads (poll_run es p) = pl_reloads p"
  unfolding poll_run_def by (rule hung.run_quiet [OF assms])

subsection \<open>Approving in the application\<close>

text \<open>C37: the approval sheet cannot approve. For every stored proposal, whatever text and code the
  merchant enters, once the digest of the text is computed the sheet finds it different from the
  proposal's and refuses the approval, unless SHA-256 collides: the sheet hashes five fields, the
  gateway six.\<close>

theorem sheet_cannot_approve:
  assumes "wf_proposal rt p"
    and "rt_sha256 rt (canonical_payload (p_payload p)) =
        rt_sha256 rt (sheet_canonical (p_payload p) (sh_draftBody s)) \<longrightarrow>
      canonical_payload (p_payload p) = sheet_canonical (p_payload p) (sh_draftBody s)"
  shows "\<not> canApprove (Some (view_of p)) (sheet_digest rt (view_of p) s)"
  using digest_never_matches [OF wf_digest [OF assms(1)] assms(2)] by (simp add: canApprove_def)

theorem sheet_cannot_approve_witness:
  "\<not> canApprove (Some (view_of demo_proposal))
     (sheet_digest demo_rt (view_of demo_proposal) \<lparr>sh_draftBody = lit ''Your order is awaiting payment.'',
        sh_linkCode = demo_code, sh_busy = False, sh_digestOk = True\<rparr>)"
proof (rule sheet_cannot_approve [OF demo_wf])
  have m: "length (json_body (lit ''00000000-0000-4000-8000-000000000001'')) = 36"
    by (simp add: lit_def json_unit_def is_high_def is_low_def)
  have a: "length (canonical_payload TEST_MESSAGE) = length (sheet_canonical TEST_MESSAGE
      (lit ''Your order is awaiting payment.'')) + 39"
    by (simp add: canonical_payload_def payload_fields_def sheet_canonical_def json_strings_def
        json_quote_def m)
  have b: "(word_of_nat (n + 39) :: 8 word) \<noteq> word_of_nat n" for n :: nat
    by simp
  show "rt_sha256 demo_rt (canonical_payload (p_payload demo_proposal)) =
      rt_sha256 demo_rt (sheet_canonical (p_payload demo_proposal) (sh_draftBody
        \<lparr>sh_draftBody = lit ''Your order is awaiting payment.'', sh_linkCode = demo_code,
          sh_busy = False, sh_digestOk = True\<rparr>)) \<longrightarrow>
      canonical_payload (p_payload demo_proposal) = sheet_canonical (p_payload demo_proposal)
        (sh_draftBody \<lparr>sh_draftBody = lit ''Your order is awaiting payment.'',
          sh_linkCode = demo_code, sh_busy = False, sh_digestOk = True\<rparr>)"
    using a b by (simp add: demo_rt_def)
qed

subsection \<open>Settings\<close>

text \<open>Settings survive a reload and do not disturb each other: after a theme and a locale are
  chosen, in either order, the next load of the page finds both.\<close>

lemma settings_survive_reload:
  "detectInitialTheme (persistLocale l (persistTheme t (Some b))) = t \<and>
   detectInitialLocale rt (persistLocale l (persistTheme t (Some b))) = l \<and>
   detectInitialTheme (persistTheme t (persistLocale l (Some b))) = t \<and>
   detectInitialLocale rt (persistTheme t (persistLocale l (Some b))) = l"
proof -
  have ne: "localeCookie \<noteq> themeCookie" by (simp add: localeCookie_def themeCookie_def)
  show ?thesis
    using ne by (auto simp: detectInitialTheme_def detectInitialLocale_def persistTheme_def persistLocale_def)
qed

end
