(* ===== verification/OAuth.thy ===== *)
theory OAuth
  imports Snapshot Redact
begin

text \<open>
  The authorization server in front of the agent's surface, apps/action-gateway/oauth.mjs: dynamic
  registration, \<open>/authorize\<close>, \<open>/token\<close> with PKCE and refresh tokens, and the bearer check of the MCP
  route.

  The three maps of \<open>installOAuth\<close> and the two files that persist two of them are the record
  \<open>oauth_state\<close>; a restart reads the files and forgets the codes. What a request reads from its
  surroundings is \<open>oauth_env\<close>: the environment variables, the headers that make the base URL, the
  clock, the random bytes, and the decoding of Basic credentials. \<open>jose\<close> is not under src/: \<open>sign\<close>
  and \<open>verify\<close> are parameters. Of the log records a route writes, the entries are here, and that a
  handler ends where one cannot be written; the lines of the log are those of \<open>Server\<close>. A body or a query is a \<open>jval\<close>; a map of
  the source, whose keys are strings, holds nothing under another kind of value.
\<close>

subsection \<open>Text\<close>

definition base64url_char :: "nat \<Rightarrow> nat" where
  "base64url_char n = (if n < 26 then 65 + n else if n < 52 then 71 + n else if n < 62 then n - 4
     else if n = 62 then 45 else 95)"

fun base64url :: "8 word list \<Rightarrow> ustr" where
  "base64url (a # b # c # ws) =
     (let n = (unat a * 256 + unat b) * 256 + unat c
      in base64url_char (n div 262144) # base64url_char (n div 4096 mod 64) #
         base64url_char (n div 64 mod 64) # base64url_char (n mod 64) # base64url ws)"
| "base64url [a, b] =
     (let n = (unat a * 256 + unat b) * 4
      in [base64url_char (n div 4096), base64url_char (n div 64 mod 64), base64url_char (n mod 64)])"
| "base64url [a] = (let n = unat a * 16 in [base64url_char (n div 64), base64url_char (n mod 64)])"
| "base64url [] = []"

text \<open>\<open>replace(/\/+$/, "")\<close> and \<open>split(/\s+/).filter(Boolean)\<close>.\<close>

definition strip_slashes :: "ustr \<Rightarrow> ustr" where
  "strip_slashes s = rev (dropWhile (\<lambda>c. c = 47) (rev s))"

fun words_acc :: "ustr \<Rightarrow> ustr \<Rightarrow> ustr list" where
  "words_acc w [] = (if w = [] then [] else [rev w])"
| "words_acc w (c # cs) = (if is_ws c then (if w = [] then [] else [rev w]) @ words_acc [] cs
     else words_acc (c # w) cs)"

definition words_of :: "ustr \<Rightarrow> ustr list" where
  "words_of s = words_acc [] s"

text \<open>\<open>JSON.stringify\<close>: \<open>undefined\<close> is \<open>null\<close> in an array and left out of an object.\<close>

fun json_compact :: "jval \<Rightarrow> ustr" where
  "json_compact JUndef = lit ''null''"
| "json_compact JNull = lit ''null''"
| "json_compact (JBool b) = lit (if b then ''true'' else ''false'')"
| "json_compact (JNum n) = n"
| "json_compact (JStr s) = json_quote s"
| "json_compact (JArr vs) = 91 # join_with [44] (map json_compact vs) @ [93]"
| "json_compact (JObj kvs) = 123 # join_with [44]
     (map (\<lambda>(k, v). json_quote k @ 58 # json_compact v) (filter (\<lambda>(k, v). v \<noteq> JUndef) kvs)) @ [125]"

text \<open>\<open>String(v || "")\<close>.\<close>

definition string_or_empty :: "jval \<Rightarrow> ustr option" where
  "string_or_empty v = (if truthy v then js_to_string v else Some [])"

definition lower_starts :: "runtime \<Rightarrow> string \<Rightarrow> ustr \<Rightarrow> bool" where
  "lower_starts rt p s \<longleftrightarrow> take (length p) (js_lower rt s) = lit p"

subsection \<open>State and surroundings\<close>

record oauth_client =
  oc_client_id :: ustr
  oc_issued_at :: int
  oc_redirect_uris :: "jval list"
  oc_client_name :: jval

record code_entry =
  cd_client_id :: ustr
  cd_redirect_uri :: ustr
  cd_challenge :: jval
  cd_resource :: jval
  cd_expires :: int

record refresh_entry =
  rf_client_id :: ustr
  rf_audience :: ustr
  rf_issued :: int

record oauth_state =
  os_clients :: "ustr \<rightharpoonup> oauth_client"
  os_codes :: "ustr \<rightharpoonup> code_entry"
  os_refresh :: "ustr \<rightharpoonup> refresh_entry"
  os_client_file :: "ustr \<rightharpoonup> oauth_client"
  os_refresh_file :: "ustr \<rightharpoonup> refresh_entry"

definition oauth_restart :: "oauth_state \<Rightarrow> oauth_state" where
  "oauth_restart s = s\<lparr>os_clients := os_client_file s, os_codes := Map.empty, os_refresh := os_refresh_file s\<rparr>"

definition oauth_fresh :: oauth_state where
  "oauth_fresh = \<lparr>os_clients = Map.empty, os_codes = Map.empty, os_refresh = Map.empty,
     os_client_file = Map.empty, os_refresh_file = Map.empty\<rparr>"

record oauth_env =
  oe_public_url :: "ustr option"
  oe_scope :: "ustr option"
  oe_forwarded_proto :: "ustr option"
  oe_protocol :: ustr
  oe_host :: "ustr option"
  oe_now :: int
  oe_random :: "8 word list"
  oe_content_type :: "ustr option"
  oe_base64_text :: "ustr \<Rightarrow> ustr"
  oe_decode_uri :: "ustr \<Rightarrow> ustr option"

definition mcpPath :: ustr where
  "mcpPath = lit ''/mcp''"

definition REQUIRED_SCOPE :: "oauth_env \<Rightarrow> ustr" where
  "REQUIRED_SCOPE env = (case oe_scope env of None \<Rightarrow> lit ''transfer:propose''
     | Some s \<Rightarrow> if s = [] then lit ''transfer:propose'' else s)"

definition TOKEN_TTL_SECONDS :: int where
  "TOKEN_TTL_SECONDS = 3600"

definition CODE_TTL_MS :: int where
  "CODE_TTL_MS = 60000"

definition baseUrl :: "oauth_env \<Rightarrow> ustr" where
  "baseUrl env =
     (let public = (case oe_public_url env of None \<Rightarrow> [] | Some u \<Rightarrow> u)
      in if public \<noteq> [] then strip_slash public
         else let fwd = (case oe_forwarded_proto env of None \<Rightarrow> [] | Some p \<Rightarrow> takeWhile (\<lambda>c. c \<noteq> 44) p);
                  proto = (if fwd \<noteq> [] then fwd else if oe_protocol env \<noteq> [] then oe_protocol env else lit ''http'')
              in proto @ lit ''://'' @ (case oe_host env of None \<Rightarrow> lit ''undefined'' | Some h \<Rightarrow> h))"

definition resourceUrl :: "oauth_env \<Rightarrow> ustr" where
  "resourceUrl env = baseUrl env @ mcpPath"

datatype oauth_reply =
    O_json nat jval
  | O_redirect ustr
  | O_thrown

definition oauth_error :: "nat \<Rightarrow> string \<Rightarrow> ustr \<Rightarrow> oauth_reply" where
  "oauth_error status e why = O_json status
     (JObj [(lit ''error'', JStr (lit e)), (lit ''error_description'', JStr why)])"

subsection \<open>Metadata\<close>

definition resource_metadata :: "oauth_env \<Rightarrow> oauth_reply" where
  "resource_metadata env = O_json 200 (JObj
     [(lit ''resource'', JStr (resourceUrl env)),
      (lit ''authorization_servers'', JArr [JStr (baseUrl env)]),
      (lit ''scopes_supported'', JArr [JStr (REQUIRED_SCOPE env)]),
      (lit ''bearer_methods_supported'', JArr [JStr (lit ''header'')])])"

definition server_metadata :: "oauth_env \<Rightarrow> oauth_reply" where
  "server_metadata env = O_json 200 (JObj
     [(lit ''issuer'', JStr (baseUrl env)),
      (lit ''authorization_endpoint'', JStr (baseUrl env @ lit ''/authorize'')),
      (lit ''token_endpoint'', JStr (baseUrl env @ lit ''/token'')),
      (lit ''registration_endpoint'', JStr (baseUrl env @ lit ''/register'')),
      (lit ''jwks_uri'', JStr (baseUrl env @ lit ''/.well-known/jwks.json'')),
      (lit ''scopes_supported'', JArr [JStr (REQUIRED_SCOPE env)]),
      (lit ''response_types_supported'', JArr [JStr (lit ''code'')]),
      (lit ''grant_types_supported'', JArr [JStr (lit ''authorization_code''), JStr (lit ''refresh_token'')]),
      (lit ''code_challenge_methods_supported'', JArr [JStr (lit ''S256'')]),
      (lit ''token_endpoint_auth_methods_supported'',
        JArr [JStr (lit ''none''), JStr (lit ''client_secret_post''), JStr (lit ''client_secret_basic'')])])"

subsection \<open>The signing key\<close>

text \<open>The pair that \<open>generateKeyPair\<close> made, exported, is an argument; the key file is the value saved.\<close>

record signing_key =
  sk_privateJwk :: jval
  sk_publicJwk :: jval
  sk_kid :: ustr

definition new_key :: "ustr \<Rightarrow> jval \<Rightarrow> (ustr \<times> jval) list \<Rightarrow> signing_key" where
  "new_key kid privateJwk exported =
     \<lparr>sk_privateJwk = privateJwk,
      sk_publicJwk = JObj (object_spread exported
        [(lit ''kid'', JStr kid), (lit ''alg'', JStr (lit ''RS256'')), (lit ''use'', JStr (lit ''sig''))]),
      sk_kid = kid\<rparr>"

definition loadOrCreateKey ::
  "ustr \<Rightarrow> jval \<Rightarrow> (ustr \<times> jval) list \<Rightarrow> signing_key option \<Rightarrow> signing_key \<times> signing_key option" where
  "loadOrCreateKey kid privateJwk exported saved =
     (case saved of Some k \<Rightarrow> (k, saved)
      | None \<Rightarrow> (let k = new_key kid privateJwk exported in (k, Some k)))"

definition jwks :: "signing_key \<Rightarrow> oauth_reply" where
  "jwks k = O_json 200 (JObj [(lit ''keys'', JArr [sk_publicJwk k])])"

text \<open>A restart signs with the same key, so tokens that were issued stay valid.\<close>

lemma key_survives_restart:
  "loadOrCreateKey kid' priv' pub' (snd (loadOrCreateKey kid priv pub saved)) = loadOrCreateKey kid priv pub saved"
  by (simp add: loadOrCreateKey_def Let_def split: option.splits)

subsection \<open>Registration and authorization\<close>

text \<open>What the routes hand to \<open>record\<close>. Its redaction throws where a value under a secret key cannot
  be converted to text (\<open>written\<close>), and the handler ends there with what it has done so far.\<close>

definition opt_null :: "jval \<Rightarrow> jval" where
  "opt_null v = nullish v JNull"

definition register_entry :: "oauth_client \<Rightarrow> jval \<Rightarrow> (ustr \<times> jval) list" where
  "register_entry c body =
     [(lit ''client_id'', JStr (oc_client_id c)), (lit ''client_name'', oc_client_name c),
      (lit ''redirect_uris'', JArr (oc_redirect_uris c)),
      (lit ''requestedAuthMethod'', opt_null (prop_of body (lit ''token_endpoint_auth_method'')))]"

text \<open>\<open>fail\<close> of \<open>/authorize\<close>; \<open>extra\<close> is what a refusal adds (the number of clients, the URIs that are
  registered, the method).\<close>

definition authorize_failed_entry :: "string \<Rightarrow> ustr \<Rightarrow> jval \<Rightarrow> (ustr \<times> jval) list \<Rightarrow> (ustr \<times> jval) list" where
  "authorize_failed_entry e why query extra = object_spread
     [(lit ''check'', JStr why), (lit ''error'', JStr (lit e)),
      (lit ''client_id'', opt_null (prop_of query (lit ''client_id'')))] extra"

text \<open>\<open>Boolean(state)\<close> tells whether there was a state, not what it was.\<close>

definition authorize_entry :: "jval \<Rightarrow> (ustr \<times> jval) list" where
  "authorize_entry query =
     [(lit ''client_id'', prop_of query (lit ''client_id'')), (lit ''scope'', opt_null (prop_of query (lit ''scope''))),
      (lit ''resource'', opt_null (prop_of query (lit ''resource''))),
      (lit ''state'', JBool (truthy (prop_of query (lit ''state''))))]"

definition token_failed_entry :: "nat \<Rightarrow> string \<Rightarrow> ustr \<Rightarrow> (ustr \<times> jval) list \<Rightarrow> (ustr \<times> jval) list" where
  "token_failed_entry status e why extra = object_spread
     [(lit ''check'', JStr why), (lit ''error'', JStr (lit e)), (lit ''status'', JNum (dec status))] extra"

definition registration_json :: "oauth_env \<Rightarrow> oauth_client \<Rightarrow> jval" where
  "registration_json env c = JObj
     [(lit ''client_id'', JStr (oc_client_id c)),
      (lit ''client_id_issued_at'', JNum (dec_int (oc_issued_at c))),
      (lit ''redirect_uris'', JArr (oc_redirect_uris c)),
      (lit ''client_name'', oc_client_name c),
      (lit ''grant_types'', JArr [JStr (lit ''authorization_code'')]),
      (lit ''response_types'', JArr [JStr (lit ''code'')]),
      (lit ''token_endpoint_auth_method'', JStr (lit ''none'')),
      (lit ''scope'', JStr (REQUIRED_SCOPE env))]"

definition new_client_id :: "oauth_env \<Rightarrow> ustr" where
  "new_client_id env = lit ''mcp_'' @ hex_encode (oe_random env)"

definition oauth_register :: "runtime \<Rightarrow> oauth_env \<Rightarrow> jval \<Rightarrow> oauth_state \<Rightarrow> oauth_state \<times> oauth_reply" where
  "oauth_register rt env body s =
     (let uris = (case prop_of body (lit ''redirect_uris'') of JArr us \<Rightarrow> us | _ \<Rightarrow> [])
      in if uris = [] then
           (s, oauth_error 400 ''invalid_redirect_uri'' (lit ''redirect_uris required''))
         else let name = prop_of body (lit ''client_name'');
                  c = \<lparr>oc_client_id = new_client_id env, oc_issued_at = oe_now env div 1000,
                       oc_redirect_uris = uris,
                       oc_client_name = (if truthy name then name else JStr (lit ''unknown''))\<rparr>;
                  clients = (os_clients s)(oc_client_id c \<mapsto> c)
              in (s\<lparr>os_clients := clients, os_client_file := clients\<rparr>,
                  if written rt (register_entry c body) then O_json 201 (registration_json env c) else O_thrown))"

definition authorize_fail ::
  "runtime \<Rightarrow> jval \<Rightarrow> string \<Rightarrow> string \<Rightarrow> (ustr \<times> jval) list \<Rightarrow> oauth_reply" where
  "authorize_fail rt query e why extra =
     (if written rt (authorize_failed_entry e (lit why) query extra) then oauth_error 400 e (lit why) else O_thrown)"

text \<open>The number of registered clients, for the record.\<close>

definition clients_known :: "oauth_state \<Rightarrow> jval" where
  "clients_known s = JNum (dec (card (dom (os_clients s))))"

text \<open>\<open>redirect_to\<close> is the URL class: the registered URI with the code and the state as parameters,
  \<open>None\<close> where it is not a URL and the constructor throws.\<close>

definition oauth_authorize ::
  "runtime \<Rightarrow> (ustr \<Rightarrow> ustr \<Rightarrow> jval \<Rightarrow> ustr option) \<Rightarrow> oauth_env \<Rightarrow> jval \<Rightarrow> oauth_state \<Rightarrow>
     oauth_state \<times> oauth_reply" where
  "oauth_authorize rt redirect_to env query s =
     (let q = (\<lambda>k. prop_of query (lit k));
          client = (case q ''client_id'' of JStr i \<Rightarrow> os_clients s i | _ \<Rightarrow> None);
          stray = (\<lambda>c. authorize_fail rt query ''invalid_redirect_uri'' ''redirect_uri not among those registered''
            [(lit ''registered'', JArr (oc_redirect_uris c))])
      in case client of
           None \<Rightarrow> (s, authorize_fail rt query ''invalid_client'' ''client_id not registered''
             [(lit ''known'', clients_known s)])
         | Some c \<Rightarrow>
             (case q ''redirect_uri'' of
                JStr u \<Rightarrow>
                  if JStr u \<notin> set (oc_redirect_uris c) then (s, stray c)
                  else if \<not> truthy (q ''code_challenge'') \<or> q ''code_challenge_method'' \<noteq> JStr (lit ''S256'') then
                    (s, authorize_fail rt query ''invalid_request'' ''PKCE S256 required''
                      [(lit ''method'', opt_null (q ''code_challenge_method''))])
                  else let code = base64url (oe_random env);
                           e = \<lparr>cd_client_id = (case q ''client_id'' of JStr i \<Rightarrow> i | _ \<Rightarrow> []), cd_redirect_uri = u,
                                cd_challenge = q ''code_challenge'',
                                cd_resource = (if truthy (q ''resource'') then q ''resource'' else JStr (resourceUrl env)),
                                cd_expires = oe_now env + CODE_TTL_MS\<rparr>;
                           s' = s\<lparr>os_codes := (os_codes s)(code \<mapsto> e)\<rparr>
                       in (s', if \<not> written rt (authorize_entry query) then O_thrown
                           else case redirect_to u code (q ''state'') of None \<Rightarrow> O_thrown | Some url \<Rightarrow> O_redirect url)
              | _ \<Rightarrow> (s, stray c)))"

subsection \<open>The token endpoint\<close>

text \<open>\<open>\{...body, ...query\}\<close>.\<close>

definition merged :: "jval \<Rightarrow> jval \<Rightarrow> ustr \<Rightarrow> jval" where
  "merged body query k = (let v = prop_of query k in if v \<noteq> JUndef then v else prop_of body k)"

text \<open>The \<open>client_id\<close> after the Basic header was looked at.\<close>

definition client_field :: "runtime \<Rightarrow> oauth_env \<Rightarrow> ustr \<Rightarrow> jval \<Rightarrow> jval" where
  "client_field rt env authz given_id =
     (if lower_starts rt ''basic '' authz then
        (let text = oe_base64_text env (js_trim (drop 6 authz));
             ident = takeWhile (\<lambda>c. c \<noteq> 58) text
         in case oe_decode_uri env ident of None \<Rightarrow> given_id
            | Some basicId \<Rightarrow> if \<not> truthy given_id then JStr basicId else given_id)
      else given_id)"

text \<open>The id and the secret of a Basic header: the id where it can be decoded, and the secret where
  both can.\<close>

definition basic_credentials :: "runtime \<Rightarrow> oauth_env \<Rightarrow> ustr \<Rightarrow> ustr option \<times> ustr option" where
  "basic_credentials rt env authz =
     (if lower_starts rt ''basic '' authz then
        (let text = oe_base64_text env (js_trim (drop 6 authz));
             ident = takeWhile (\<lambda>c. c \<noteq> 58) text;
             secret = takeWhile (\<lambda>c. c \<noteq> 58) (drop (length ident + 1) text)
         in case oe_decode_uri env ident of None \<Rightarrow> (None, None)
            | Some i \<Rightarrow> (Some i, if secret = [] then None else oe_decode_uri env secret))
      else (None, None))"

definition object_keys :: "jval \<Rightarrow> ustr list" where
  "object_keys v = (case v of JObj kvs \<Rightarrow> map fst kvs | _ \<Rightarrow> [])"

text \<open>\<open>Array.prototype.sort\<close> on strings, by code units; a key is in an object once.\<close>

fun unit_le :: "ustr \<Rightarrow> ustr \<Rightarrow> bool" where
  "unit_le [] t = True"
| "unit_le (c # s) [] = False"
| "unit_le (c # s) (d # t) = (c < d \<or> (c = d \<and> unit_le s t))"

fun key_insert :: "ustr \<Rightarrow> ustr list \<Rightarrow> ustr list" where
  "key_insert k [] = [k]"
| "key_insert k (l # ls) = (if k = l then l # ls else if unit_le k l then k # l # ls else l # key_insert k ls)"

definition sorted_keys :: "ustr list \<Rightarrow> ustr list" where
  "sorted_keys ks = fold key_insert ks []"

text \<open>The keys of \<open>b\<close>, with those the Basic header has filled in.\<close>

definition token_fields :: "runtime \<Rightarrow> oauth_env \<Rightarrow> ustr \<Rightarrow> jval \<Rightarrow> jval \<Rightarrow> ustr list" where
  "token_fields rt env authz body query =
     (let b = merged body query;
          (basicId, secret) = basic_credentials rt env authz
      in sorted_keys (object_keys body @ object_keys query @
           (if basicId \<noteq> None \<and> \<not> truthy (b (lit ''client_id'')) then [lit ''client_id''] else []) @
           (if secret \<noteq> None \<and> \<not> truthy (b (lit ''client_secret'')) then [lit ''client_secret''] else [])))"

definition client_auth :: "runtime \<Rightarrow> oauth_env \<Rightarrow> ustr \<Rightarrow> jval \<Rightarrow> jval \<Rightarrow> ustr" where
  "client_auth rt env authz body query =
     (let b = merged body query;
          (basicId, secret) = basic_credentials rt env authz
      in if basicId \<noteq> None \<and> basicId \<noteq> Some [] then lit ''client_secret_basic''
         else if truthy (b (lit ''client_secret'')) \<or> (secret \<noteq> None \<and> secret \<noteq> Some []) then lit ''client_secret_post''
         else lit ''none'')"

text \<open>The record of the request; \<open>None\<close> where the verifier cannot be converted to a string. It is
  written before any grant is looked at: \<open>token_recorded\<close> says that the entry can be made and that
  \<open>record\<close> does not throw on it.\<close>

definition token_request_entry ::
  "runtime \<Rightarrow> oauth_env \<Rightarrow> ustr \<Rightarrow> jval \<Rightarrow> jval \<Rightarrow> (ustr \<times> jval) list option" where
  "token_request_entry rt env authz body query =
     (let b = merged body query; verifier = b (lit ''code_verifier'')
      in map_option (\<lambda>v.
           [(lit ''contentType'', (case oe_content_type env of None \<Rightarrow> JNull | Some t \<Rightarrow> JStr t)),
            (lit ''bodyParsed'', JBool (object_keys body \<noteq> [])),
            (lit ''fields'', JArr (map JStr (token_fields rt env authz body query))),
            (lit ''clientAuth'', JStr (client_auth rt env authz body query)),
            (lit ''grant_type'', opt_null (b (lit ''grant_type''))),
            (lit ''resource'', opt_null (b (lit ''resource''))),
            (lit ''redirect_uri'', opt_null (b (lit ''redirect_uri''))),
            (lit ''hasCodeVerifier'', JBool (truthy verifier)),
            (lit ''codeVerifierLen'', JNum (dec (length v)))])
         (string_or_empty verifier))"

definition token_recorded :: "runtime \<Rightarrow> oauth_env \<Rightarrow> ustr \<Rightarrow> jval \<Rightarrow> jval \<Rightarrow> bool" where
  "token_recorded rt env authz body query =
     (case token_request_entry rt env authz body query of None \<Rightarrow> False | Some entry \<Rightarrow> written rt entry)"

definition refresh_entry_log :: "oauth_env \<Rightarrow> ustr \<Rightarrow> (ustr \<times> jval) list" where
  "refresh_entry_log env client =
     [(lit ''client_id'', JStr client), (lit ''audience'', JStr (resourceUrl env))]"

definition token_entry :: "oauth_env \<Rightarrow> ustr \<Rightarrow> jval \<Rightarrow> (ustr \<times> jval) list" where
  "token_entry env client resource =
     [(lit ''client_id'', JStr client), (lit ''audience'', JStr (resourceUrl env)),
      (lit ''resourceSent'', opt_null resource)]"

datatype grant =
    By_code ustr code_entry
  | By_refresh ustr refresh_entry

text \<open>The checks of the handler, up to the call of \<open>issue\<close>: the next state and either the grant or
  the refusal.\<close>

definition redeem_refresh :: "jval \<Rightarrow> jval \<Rightarrow> oauth_state \<Rightarrow> oauth_state \<times> (oauth_reply + grant)" where
  "redeem_refresh client_id token s =
     (case string_or_empty token of None \<Rightarrow> (s, Inl O_thrown)
      | Some t \<Rightarrow>
          (case os_refresh s t of
             None \<Rightarrow> (s, Inl (oauth_error 400 ''invalid_grant'' (lit ''refresh_token unknown or already rotated'')))
           | Some e \<Rightarrow>
               (let s' = s\<lparr>os_refresh := (os_refresh s)(t := None)\<rparr>
                in if truthy client_id \<and> client_id \<noteq> JStr (rf_client_id e) then
                     (s', Inl (oauth_error 400 ''invalid_grant'' (lit ''refresh_token does not belong to this client'')))
                   else (s', Inr (By_refresh t e)))))"

text \<open>\<open>None\<close> where the conversion throws; otherwise the resource that is not this server, if it is not.\<close>

definition foreign_resource :: "oauth_env \<Rightarrow> jval \<Rightarrow> ustr option option" where
  "foreign_resource env requested =
     (if truthy requested then
        map_option (\<lambda>r. let norm = strip_slashes r
          in if norm \<in> {resourceUrl env, baseUrl env} then None else Some norm) (js_to_string requested)
      else Some None)"

definition challenge_of :: "runtime \<Rightarrow> ustr \<Rightarrow> ustr" where
  "challenge_of rt verifier = base64url (rt_sha256 rt verifier)"

text \<open>The checks after the code was looked up and deleted, in their order; \<open>None\<close> where all pass.\<close>

definition code_refusal ::
  "runtime \<Rightarrow> oauth_env \<Rightarrow> (ustr \<Rightarrow> jval) \<Rightarrow> jval \<Rightarrow> code_entry \<Rightarrow> oauth_reply option" where
  "code_refusal rt env b client_id e =
     (let refuse = (\<lambda>k why. Some (oauth_error 400 k why))
      in if oe_now env > cd_expires e then refuse ''invalid_grant'' (lit ''code expired'')
         else if truthy client_id \<and> client_id \<noteq> JStr (cd_client_id e) then
           refuse ''invalid_grant'' (lit ''client_id does not match the one that requested the code'')
         else if b (lit ''redirect_uri'') \<noteq> JStr (cd_redirect_uri e) then
           (if string_or (b (lit ''redirect_uri'')) [] = None then Some O_thrown
            else refuse ''invalid_grant'' (lit ''redirect_uri differs from the authorize request''))
         else case string_or_empty (b (lit ''code_verifier'')) of
           None \<Rightarrow> Some O_thrown
         | Some verifier \<Rightarrow>
             if verifier = [] then refuse ''invalid_grant'' (lit ''code_verifier missing (PKCE is required)'')
             else if cd_challenge e \<noteq> JStr (challenge_of rt verifier) then
               refuse ''invalid_grant'' (lit ''PKCE verification failed'')
             else (let r = b (lit ''resource'')
               in case foreign_resource env (if truthy r then r else cd_resource e) of
                    None \<Rightarrow> Some O_thrown
                  | Some (Some norm) \<Rightarrow>
                      refuse ''invalid_target'' (lit ''resource \"'' @ norm @ lit ''\" is not this server'')
                  | Some None \<Rightarrow> None))"

definition redeem_code ::
  "runtime \<Rightarrow> oauth_env \<Rightarrow> (ustr \<Rightarrow> jval) \<Rightarrow> jval \<Rightarrow> oauth_state \<Rightarrow> oauth_state \<times> (oauth_reply + grant)" where
  "redeem_code rt env b client_id s =
     (if \<not> truthy (b (lit ''code'')) then (s, Inl (oauth_error 400 ''invalid_request'' (lit ''no code in request'')))
      else case (case b (lit ''code'') of JStr c \<Rightarrow> map_option (Pair c) (os_codes s c) | _ \<Rightarrow> None) of
        None \<Rightarrow> (s, Inl (oauth_error 400 ''invalid_grant'' (lit ''code unknown or already redeemed'')))
      | Some (c, e) \<Rightarrow>
          (s\<lparr>os_codes := (os_codes s)(c := None)\<rparr>,
           case code_refusal rt env b client_id e of Some r \<Rightarrow> Inl r | None \<Rightarrow> Inr (By_code c e)))"

text \<open>The record of the request comes first: where it cannot be written, the handler ends there and
  nothing is redeemed. The records after it can then always be written (\<open>AuthLog\<close>).\<close>

definition redeem ::
  "runtime \<Rightarrow> oauth_env \<Rightarrow> ustr \<Rightarrow> jval \<Rightarrow> jval \<Rightarrow> oauth_state \<Rightarrow> oauth_state \<times> (oauth_reply + grant)" where
  "redeem rt env authz body query s =
     (let b = merged body query; client_id = client_field rt env authz (b (lit ''client_id''));
          grant_type = b (lit ''grant_type'')
      in if \<not> token_recorded rt env authz body query then (s, Inl O_thrown)
         else if grant_type = JStr (lit ''refresh_token'') then redeem_refresh client_id (b (lit ''refresh_token'')) s
         else if grant_type \<noteq> JStr (lit ''authorization_code'') then
           (s, Inl (oauth_error 400 ''unsupported_grant_type'' (lit ''grant_type was '' @ json_compact grant_type)))
         else redeem_code rt env b client_id s)"

record claims =
  jc_scope :: ustr
  jc_client_id :: ustr
  jc_iss :: ustr
  jc_aud :: ustr
  jc_sub :: ustr
  jc_iat :: int
  jc_exp :: int

definition claims_for :: "oauth_env \<Rightarrow> ustr \<Rightarrow> claims" where
  "claims_for env client = \<lparr>jc_scope = REQUIRED_SCOPE env, jc_client_id = client, jc_iss = baseUrl env,
     jc_aud = resourceUrl env, jc_sub = client, jc_iat = oe_now env div 1000,
     jc_exp = oe_now env div 1000 + TOKEN_TTL_SECONDS\<rparr>"

definition issue :: "(claims \<Rightarrow> ustr) \<Rightarrow> oauth_env \<Rightarrow> ustr \<Rightarrow> oauth_state \<Rightarrow> oauth_state \<times> oauth_reply" where
  "issue sign env client s =
     (let rtok = base64url (oe_random env);
          e = \<lparr>rf_client_id = client, rf_audience = resourceUrl env, rf_issued = oe_now env\<rparr>;
          refresh = (os_refresh s)(rtok \<mapsto> e)
      in (s\<lparr>os_refresh := refresh, os_refresh_file := refresh\<rparr>,
          O_json 200 (JObj
            [(lit ''access_token'', JStr (sign (claims_for env client))),
             (lit ''token_type'', JStr (lit ''Bearer'')),
             (lit ''expires_in'', JNum (dec_int TOKEN_TTL_SECONDS)),
             (lit ''refresh_token'', JStr rtok),
             (lit ''scope'', JStr (REQUIRED_SCOPE env))])))"

fun grant_client :: "grant \<Rightarrow> ustr" where
  "grant_client (By_code c e) = cd_client_id e"
| "grant_client (By_refresh t e) = rf_client_id e"

definition oauth_token ::
  "runtime \<Rightarrow> (claims \<Rightarrow> ustr) \<Rightarrow> oauth_env \<Rightarrow> ustr \<Rightarrow> jval \<Rightarrow> jval \<Rightarrow> oauth_state \<Rightarrow> oauth_state \<times> oauth_reply" where
  "oauth_token rt sign env authz body query s =
     (case redeem rt env authz body query s of
        (s', Inl r) \<Rightarrow> (s', r)
      | (s', Inr g) \<Rightarrow> issue sign env (grant_client g) s')"

subsection \<open>The bearer check\<close>

datatype bearer =
    Bearer_passes ustr "ustr list" ustr
  | Bearer_refused nat ustr jval

definition bearer_challenge :: "oauth_env \<Rightarrow> ustr" where
  "bearer_challenge env = lit ''Bearer resource_metadata=\"'' @ baseUrl env @
     lit ''/.well-known/oauth-protected-resource'' @ mcpPath @ lit ''\"''"

text \<open>\<open>verify token issuer audience\<close>: the payload, or the message of the exception.\<close>

definition requireToken ::
  "runtime \<Rightarrow> (ustr \<Rightarrow> ustr \<Rightarrow> ustr \<Rightarrow> ustr + claims) \<Rightarrow> oauth_env \<Rightarrow> ustr option \<Rightarrow> bearer" where
  "requireToken rt verify env header =
     (let auth = (case header of None \<Rightarrow> [] | Some h \<Rightarrow> h); ch = bearer_challenge env
      in if \<not> lower_starts rt ''bearer '' auth then
           Bearer_refused 401 ch (JObj [(lit ''error'', JStr (lit ''unauthorized'')),
             (lit ''error_description'', JStr (lit ''Bearer token required''))])
         else case verify (js_trim (drop 7 auth)) (baseUrl env) (resourceUrl env) of
           Inl m \<Rightarrow> Bearer_refused 401 (ch @ lit '', error=\"invalid_token\"'')
             (JObj [(lit ''error'', JStr (lit ''invalid_token'')), (lit ''error_description'', JStr m)])
         | Inr c \<Rightarrow>
             (let scopes = words_of (jc_scope c)
              in if REQUIRED_SCOPE env \<notin> set scopes then
                   Bearer_refused 403 (ch @ lit '', error=\"insufficient_scope\", scope=\"'' @ REQUIRED_SCOPE env @ lit ''\"'')
                     (JObj [(lit ''error'', JStr (lit ''insufficient_scope'')),
                       (lit ''required'', JStr (REQUIRED_SCOPE env))])
                 else Bearer_passes (jc_client_id c) scopes (jc_aud c)))"

subsection \<open>When a request of the token endpoint is recorded\<close>

lemma token_keys:
  "\<not> isSecretKey rt (lit ''contentType'')" "\<not> isSecretKey rt (lit ''bodyParsed'')" "\<not> isSecretKey rt (lit ''fields'')"
  "\<not> isSecretKey rt (lit ''clientAuth'')" "\<not> isSecretKey rt (lit ''grant_type'')"
  "\<not> isSecretKey rt (lit ''resource'')" "\<not> isSecretKey rt (lit ''redirect_uri'')"
  "isSecretKey rt (lit ''hasCodeVerifier'')" "isSecretKey rt (lit ''codeVerifierLen'')"
  by (simp_all add: isSecretKey_def NOT_SECRET_test_def not_secret_prefixes_def SECRET_KEYS_def lit_def
      js_lower_def ascii_def lower_unit_def)

lemma redact_strings: "depth \<le> 8 \<Longrightarrow> redact_list rt (map JStr ks) depth \<noteq> None"
  by (induction ks) simp_all

text \<open>A request is recorded exactly when the verifier can be converted to a string and redaction gets
  through what was sent as grant type, resource and redirect URI.\<close>

lemma token_recorded_iff:
  "token_recorded rt env authz body query \<longleftrightarrow>
     (let b = merged body query
      in string_or_empty (b (lit ''code_verifier'')) \<noteq> None \<and> redact rt (opt_null (b (lit ''grant_type''))) 1 \<noteq> None \<and>
         redact rt (opt_null (b (lit ''resource''))) 1 \<noteq> None \<and>
         redact rt (opt_null (b (lit ''redirect_uri''))) 1 \<noteq> None)"
proof -
  have scalars: "redact rt (case oe_content_type env of None \<Rightarrow> JNull | Some t \<Rightarrow> JStr t) 1 \<noteq> None"
    by (simp split: option.split)
  have "redact rt (JArr (map JStr (token_fields rt env authz body query))) 1 \<noteq> None"
    using redact_strings [of "Suc 1" rt "token_fields rt env authz body query"] by simp
  with scalars show ?thesis
    by (auto simp: token_recorded_def token_request_entry_def Let_def written_iff token_keys describeSecret_def
        split: option.split)
qed

subsection \<open>What an exchange takes\<close>

text \<open>The exact conditions under which a code is exchanged.\<close>

lemma code_refusal_None:
  "code_refusal rt env b client_id e = None \<longleftrightarrow>
   oe_now env \<le> cd_expires e \<and> (truthy client_id \<longrightarrow> client_id = JStr (cd_client_id e)) \<and>
   b (lit ''redirect_uri'') = JStr (cd_redirect_uri e) \<and>
   (\<exists>verifier. string_or_empty (b (lit ''code_verifier'')) = Some verifier \<and> verifier \<noteq> [] \<and>
      cd_challenge e = JStr (challenge_of rt verifier)) \<and>
   foreign_resource env (if truthy (b (lit ''resource'')) then b (lit ''resource'') else cd_resource e) = Some None"
  by (auto simp: code_refusal_def Let_def split: option.split)

lemma redeem_code_known:
  "b (lit ''code'') = JStr c \<Longrightarrow> c \<noteq> [] \<Longrightarrow> os_codes s c = Some e \<Longrightarrow>
     redeem_code rt env b client_id s = (s\<lparr>os_codes := (os_codes s)(c := None)\<rparr>,
       case code_refusal rt env b client_id e of Some r \<Rightarrow> Inl r | None \<Rightarrow> Inr (By_code c e))"
  by (simp add: redeem_code_def)

lemma redeem_code_unknown:
  "(\<And>c e. b (lit ''code'') = JStr c \<Longrightarrow> c \<noteq> [] \<Longrightarrow> os_codes s c \<noteq> Some e) \<Longrightarrow>
     \<exists>r. redeem_code rt env b client_id s = (s, Inl r)"
  by (cases "b (lit ''code'')") (auto simp: redeem_code_def split: option.splits)

text \<open>A code that gets as far as being looked up is gone, whatever the outcome; it is exchanged exactly
  when no check refuses it.\<close>

lemma redeem_code_cases:
  assumes "redeem_code rt env b client_id s = (s', r)"
  obtains (unknown) e where "s' = s" "r = Inl e"
  | (refused) c e x where "b (lit ''code'') = JStr c" "os_codes s c = Some e"
      "s' = s\<lparr>os_codes := (os_codes s)(c := None)\<rparr>" "code_refusal rt env b client_id e = Some x" "r = Inl x"
  | (granted) c e where "b (lit ''code'') = JStr c" "os_codes s c = Some e" "c \<noteq> []"
      "s' = s\<lparr>os_codes := (os_codes s)(c := None)\<rparr>" "code_refusal rt env b client_id e = None"
      "r = Inr (By_code c e)"
proof (cases "\<exists>c e. b (lit ''code'') = JStr c \<and> c \<noteq> [] \<and> os_codes s c = Some e")
  case True
  then obtain c e where c: "b (lit ''code'') = JStr c" "c \<noteq> []" "os_codes s c = Some e" by blast
  note k = redeem_code_known [where b = b, OF c, of rt env client_id]
  show ?thesis
  proof (cases "code_refusal rt env b client_id e")
    case None
    with k assms c show ?thesis by (intro granted) simp_all
  next
    case (Some x)
    with k assms c show ?thesis by (intro refused) simp_all
  qed
next
  case False
  then have "\<exists>x. redeem_code rt env b client_id s = (s, Inl x)" by (intro redeem_code_unknown) blast
  then obtain x where "redeem_code rt env b client_id s = (s, Inl x)" by blast
  with assms show ?thesis by (intro unknown [of x]) simp_all
qed

lemma redeem_code_grant:
  assumes "redeem_code rt env b cid s = (s', Inr g)"
  shows "\<exists>c e. g = By_code c e \<and> b (lit ''code'') = JStr c \<and> os_codes s c = Some e \<and>
    s' = s\<lparr>os_codes := (os_codes s)(c := None)\<rparr> \<and> code_refusal rt env b cid e = None"
  using assms by (cases rule: redeem_code_cases) auto

lemma redeem_cases:
  assumes "redeem rt env authz body query s = (s', r)"
  obtains (refresh) "redeem_refresh (client_field rt env authz (merged body query (lit ''client_id'')))
      (merged body query (lit ''refresh_token'')) s = (s', r)"
  | (none) "s' = s" "\<exists>e. r = Inl e"
  | (code) "token_recorded rt env authz body query" "redeem_code rt env (merged body query)
      (client_field rt env authz (merged body query (lit ''client_id''))) s = (s', r)"
  using assms by (auto simp: redeem_def Let_def split: if_splits)

lemma redeem_refresh_grant:
  "redeem_refresh cid token s = (s', Inr g) \<Longrightarrow>
     \<exists>t e. g = By_refresh t e \<and> os_refresh s t = Some e \<and> s' = s\<lparr>os_refresh := (os_refresh s)(t := None)\<rparr>"
  by (auto simp: redeem_refresh_def Let_def split: option.splits if_splits)

text \<open>A refusal can only take tokens away.\<close>

lemma redeem_shrinks:
  assumes "redeem rt env authz body query s = (s', r)"
  shows "os_codes s' \<subseteq>\<^sub>m os_codes s \<and> os_refresh s' \<subseteq>\<^sub>m os_refresh s \<and> os_clients s' = os_clients s \<and>
    os_client_file s' = os_client_file s \<and> os_refresh_file s' = os_refresh_file s"
  using assms
proof (cases rule: redeem_cases)
  case refresh
  then show ?thesis
    by (auto simp: redeem_refresh_def Let_def map_le_def split: option.splits if_splits)
next
  case code
  from code(2) show ?thesis
    by (cases rule: redeem_code_cases) (auto simp: map_le_def)
qed simp

end
