(* ===== verification/OAuthRuns.thy ===== *)
theory OAuthRuns
  imports OAuth
begin

text \<open>
  Every history of the authorization server: requests in any order, with any content, and restarts
  in between. \<open>oauth_step\<close> is one of them; a run also keeps the codes and refresh tokens handed out
  and the grants made, for the statements. Random bytes are fresh: a client id, a code or a refresh
  token that was handed out is not handed out again.
\<close>

record oauth_run =
  or_state :: oauth_state
  or_codes :: "ustr list"
  or_tokens :: "ustr list"
  or_grants :: "grant list"

definition new_run :: oauth_run where
  "new_run = \<lparr>or_state = oauth_fresh, or_codes = [], or_tokens = [], or_grants = []\<rparr>"

inductive oauth_step ::
  "runtime \<Rightarrow> (claims \<Rightarrow> ustr) \<Rightarrow> (ustr \<Rightarrow> ustr \<Rightarrow> jval \<Rightarrow> ustr option) \<Rightarrow> oauth_run \<Rightarrow> oauth_run \<Rightarrow> bool"
  for rt sign redirect_to where
  registering: "os_clients (or_state r) (new_client_id env) = None \<Longrightarrow>
     oauth_register rt env body (or_state r) = (s', reply) \<Longrightarrow>
     oauth_step rt sign redirect_to r (r\<lparr>or_state := s'\<rparr>)"
| authorizing: "base64url (oe_random env) \<notin> set (or_codes r) \<Longrightarrow>
     oauth_authorize rt redirect_to env query (or_state r) = (s', reply) \<Longrightarrow>
     oauth_step rt sign redirect_to r (r\<lparr>or_state := s', or_codes := base64url (oe_random env) # or_codes r\<rparr>)"
| refusing: "redeem rt env authz body query (or_state r) = (s', Inl reply) \<Longrightarrow>
     oauth_step rt sign redirect_to r (r\<lparr>or_state := s'\<rparr>)"
| granting: "base64url (oe_random env) \<notin> set (or_tokens r) \<Longrightarrow>
     redeem rt env authz body query (or_state r) = (s1, Inr g) \<Longrightarrow>
     issue sign env (grant_client g) s1 = (s', reply) \<Longrightarrow>
     oauth_step rt sign redirect_to r (r\<lparr>or_state := s', or_tokens := base64url (oe_random env) # or_tokens r,
       or_grants := g # or_grants r\<rparr>)"
| restarting: "oauth_step rt sign redirect_to r (r\<lparr>or_state := oauth_restart (or_state r)\<rparr>)"

inductive_cases oauth_stepE: "oauth_step rt sign redirect_to r r'"

inductive oauth_reachable ::
  "runtime \<Rightarrow> (claims \<Rightarrow> ustr) \<Rightarrow> (ustr \<Rightarrow> ustr \<Rightarrow> jval \<Rightarrow> ustr option) \<Rightarrow> oauth_run \<Rightarrow> bool"
  for rt sign redirect_to where
  start: "oauth_reachable rt sign redirect_to new_run"
| more: "oauth_reachable rt sign redirect_to r \<Longrightarrow> oauth_step rt sign redirect_to r r' \<Longrightarrow>
    oauth_reachable rt sign redirect_to r'"

fun grant_code :: "grant \<Rightarrow> ustr option" where
  "grant_code (By_code c e) = Some c"
| "grant_code (By_refresh t e) = None"

fun grant_token :: "grant \<Rightarrow> ustr option" where
  "grant_token (By_code c e) = None"
| "grant_token (By_refresh t e) = Some t"

definition granted_codes :: "grant list \<Rightarrow> ustr list" where
  "granted_codes gs = List.map_filter grant_code gs"

definition granted_tokens :: "grant list \<Rightarrow> ustr list" where
  "granted_tokens gs = List.map_filter grant_token gs"

lemma granted_simps [simp]:
  "granted_codes [] = []" "granted_codes (By_code c e # gs) = c # granted_codes gs"
  "granted_codes (By_refresh t f # gs) = granted_codes gs"
  "granted_tokens [] = []" "granted_tokens (By_code c e # gs) = granted_tokens gs"
  "granted_tokens (By_refresh t f # gs) = t # granted_tokens gs"
  by (simp_all add: granted_codes_def granted_tokens_def map_filter_simps)

subsection \<open>The invariant\<close>

text \<open>A code's client registered the URI the code was asked for.\<close>

definition registered :: "oauth_state \<Rightarrow> code_entry \<Rightarrow> bool" where
  "registered s e \<longleftrightarrow> (\<exists>c. os_clients s (cd_client_id e) = Some c \<and> JStr (cd_redirect_uri e) \<in> set (oc_redirect_uris c))"

text \<open>What a map holds was handed out and has not been exchanged.\<close>

definition live_only :: "ustr list \<Rightarrow> ustr list \<Rightarrow> (ustr \<rightharpoonup> 'a) \<Rightarrow> bool" where
  "live_only handed spent m \<longleftrightarrow> (\<forall>t e. m t = Some e \<longrightarrow> t \<in> set handed \<and> t \<notin> set spent)"

definition tokens_inv :: "oauth_run \<Rightarrow> (ustr \<rightharpoonup> refresh_entry) \<Rightarrow> bool" where
  "tokens_inv r m \<longleftrightarrow> live_only (or_tokens r) (granted_tokens (or_grants r)) m"

lemma live_only_le: "m \<subseteq>\<^sub>m n \<Longrightarrow> live_only h g n \<Longrightarrow> live_only h g m"
  unfolding live_only_def map_le_def dom_def by (metis (mono_tags, lifting) mem_Collect_eq option.distinct(1))

lemma live_only_empty [simp]: "live_only h g Map.empty"
  by (simp add: live_only_def)

lemma live_only_spend: "live_only h g m \<Longrightarrow> live_only h (c # g) (m(c := None))"
  by (simp add: live_only_def)

lemma live_only_hand: "live_only h g m \<Longrightarrow> live_only (c # h) g m"
  by (simp add: live_only_def)

lemma live_only_add: "live_only h g m \<Longrightarrow> c \<notin> set g \<Longrightarrow> live_only (c # h) g (m(c \<mapsto> e))"
  by (simp add: live_only_def)

lemma live_onlyD: "live_only h g m \<Longrightarrow> m t = Some e \<Longrightarrow> t \<in> set h \<and> t \<notin> set g"
  by (simp add: live_only_def)

lemmas live_only_intros = live_only_spend live_only_hand live_only_add

definition oauth_inv :: "oauth_run \<Rightarrow> bool" where
  "oauth_inv r \<longleftrightarrow>
     os_client_file (or_state r) = os_clients (or_state r) \<and>
     live_only (or_codes r) (granted_codes (or_grants r)) (os_codes (or_state r)) \<and>
     set (granted_codes (or_grants r)) \<subseteq> set (or_codes r) \<and> distinct (granted_codes (or_grants r)) \<and>
     tokens_inv r (os_refresh (or_state r)) \<and> tokens_inv r (os_refresh_file (or_state r)) \<and>
     set (granted_tokens (or_grants r)) \<subseteq> set (or_tokens r) \<and> distinct (granted_tokens (or_grants r)) \<and>
     (\<forall>c e. os_codes (or_state r) c = Some e \<longrightarrow> registered (or_state r) e) \<and>
     (\<forall>c e. By_code c e \<in> set (or_grants r) \<longrightarrow> registered (or_state r) e)"

lemma oauth_inv_new: "oauth_inv new_run"
  by (simp add: oauth_inv_def new_run_def oauth_fresh_def tokens_inv_def)

lemma register_state:
  assumes "oauth_register rt env body s = (s', reply)" "os_clients s (new_client_id env) = None"
    and "os_client_file s = os_clients s"
  shows "os_codes s' = os_codes s \<and> os_refresh s' = os_refresh s \<and> os_refresh_file s' = os_refresh_file s \<and>
    os_client_file s' = os_clients s' \<and> os_clients s \<subseteq>\<^sub>m os_clients s'"
  using assms by (auto simp: oauth_register_def Let_def map_le_def split: if_splits)

lemma authorize_state:
  assumes "oauth_authorize rt redirect_to env query s = (s', reply)"
  obtains "s' = s"
  | e where "s' = s\<lparr>os_codes := (os_codes s)(base64url (oe_random env) \<mapsto> e)\<rparr>" "registered s e"
proof (cases "s' = s")
  case False
  then have "\<exists>e. s' = s\<lparr>os_codes := (os_codes s)(base64url (oe_random env) \<mapsto> e)\<rparr> \<and> registered s e"
    using assms
    by (auto simp: oauth_authorize_def Let_def registered_def split: option.splits jval.splits if_splits)
  then show ?thesis using that(2) by blast
qed (rule that(1))

lemma registered_mono: "os_clients s \<subseteq>\<^sub>m os_clients s' \<Longrightarrow> registered s e \<Longrightarrow> registered s' e"
  by (auto simp: registered_def map_le_def dom_def)

lemma registered_clients: "os_clients s' = os_clients s \<Longrightarrow> registered s' e = registered s e"
  by (simp add: registered_def)

lemma inv_step_registering:
  assumes "oauth_inv r" "os_clients (or_state r) (new_client_id env) = None"
    and "oauth_register rt env body (or_state r) = (s', reply)"
  shows "oauth_inv (r\<lparr>or_state := s'\<rparr>)"
  using register_state [OF assms(3,2)] registered_mono [of "or_state r" s'] assms(1)
  by (simp add: oauth_inv_def tokens_inv_def)

lemma inv_step_authorizing:
  assumes "oauth_inv r" "base64url (oe_random env) \<notin> set (or_codes r)"
    and "oauth_authorize rt redirect_to env query (or_state r) = (s', reply)"
  shows "oauth_inv (r\<lparr>or_state := s', or_codes := base64url (oe_random env) # or_codes r\<rparr>)"
  using assms(3)
proof (cases rule: authorize_state)
  case 1
  then show ?thesis using assms(1) by (auto simp: oauth_inv_def tokens_inv_def intro: live_only_hand)
next
  case (2 e)
  have "registered s' f = registered (or_state r) f" for f
    by (rule registered_clients) (simp add: 2)
  moreover have "base64url (oe_random env) \<notin> set (granted_codes (or_grants r))"
    using assms(1,2) by (auto simp: oauth_inv_def)
  ultimately show ?thesis
    using assms(1) 2 by (auto simp: oauth_inv_def tokens_inv_def intro: live_only_add)
qed

lemma inv_step_refusing:
  assumes "oauth_inv r" "redeem rt env authz body query (or_state r) = (s', Inl reply)"
  shows "oauth_inv (r\<lparr>or_state := s'\<rparr>)"
proof -
  note k = redeem_shrinks [OF assms(2)]
  have reg: "registered s' f = registered (or_state r) f" for f
    using k by (intro registered_clients) simp
  have c: "os_codes s' c = Some e \<Longrightarrow> os_codes (or_state r) c = Some e" for c e
    using k unfolding map_le_def by (metis domI)
  show ?thesis
    using assms(1) k reg c live_only_le [of "os_codes s'"] live_only_le [of "os_refresh s'"]
    by (simp add: oauth_inv_def tokens_inv_def) blast
qed

lemma redeem_grant:
  assumes "redeem rt env authz body query s = (s', Inr g)"
  obtains (by_code) c e where "g = By_code c e" "os_codes s c = Some e"
      "s' = s\<lparr>os_codes := (os_codes s)(c := None)\<rparr>"
  | (by_refresh) t e where "g = By_refresh t e" "os_refresh s t = Some e"
      "s' = s\<lparr>os_refresh := (os_refresh s)(t := None)\<rparr>"
  using assms
proof (cases rule: redeem_cases)
  case refresh
  then show ?thesis using redeem_refresh_grant that(2) by blast
next
  case code
  then show ?thesis using redeem_code_grant [OF code(2)] that(1) by blast
qed simp

lemma issue_state:
  assumes "issue sign env client s1 = (s', reply)"
  shows "os_codes s' = os_codes s1" "os_clients s' = os_clients s1" "os_client_file s' = os_client_file s1"
    "os_refresh_file s' = os_refresh s'"
    "\<exists>e. os_refresh s' = (os_refresh s1)(base64url (oe_random env) \<mapsto> e)"
  using assms by (auto simp: issue_def Let_def)

lemma inv_step_granting:
  assumes "oauth_inv r" "base64url (oe_random env) \<notin> set (or_tokens r)"
    and "redeem rt env authz body query (or_state r) = (s1, Inr g)"
    and "issue sign env (grant_client g) s1 = (s', reply)"
  shows "oauth_inv (r\<lparr>or_state := s', or_tokens := base64url (oe_random env) # or_tokens r,
    or_grants := g # or_grants r\<rparr>)"
proof -
  note i = issue_state [OF assms(4)]
  obtain f where f: "os_refresh s' = (os_refresh s1)(base64url (oe_random env) \<mapsto> f)" using i(5) by blast
  have reg: "registered s' e = registered (or_state r) e" for e
    using redeem_shrinks [OF assms(3)] i by (intro registered_clients) simp
  have new: "base64url (oe_random env) \<notin> set (granted_tokens (or_grants r))"
    using assms(1,2) by (auto simp: oauth_inv_def)
  show ?thesis using assms(3)
  proof (cases rule: redeem_grant)
    case (by_code c e)
    then show ?thesis
      using assms(1) i(1-4) f reg new live_onlyD [of _ _ "os_codes (or_state r)" c e]
      by (auto simp: oauth_inv_def tokens_inv_def intro: live_only_intros split: if_splits)
  next
    case (by_refresh t e)
    then have "t \<in> set (or_tokens r)" "t \<notin> set (granted_tokens (or_grants r))"
      using assms(1) live_onlyD [of _ _ "os_refresh (or_state r)" t e]
      by (auto simp: oauth_inv_def tokens_inv_def)
    moreover from this have "t \<noteq> base64url (oe_random env)" using assms(2) by blast
    ultimately show ?thesis
      using assms(1) by_refresh i(1-4) f reg new
      by (auto simp: oauth_inv_def tokens_inv_def intro: live_only_intros)
  qed
qed

lemma inv_step_restarting: "oauth_inv r \<Longrightarrow> oauth_inv (r\<lparr>or_state := oauth_restart (or_state r)\<rparr>)"
  by (auto simp: oauth_inv_def oauth_restart_def tokens_inv_def registered_def)

lemma oauth_inv_step:
  assumes "oauth_step rt sign redirect_to r r'" "oauth_inv r"
  shows "oauth_inv r'"
  using assms
  by (cases rule: oauth_step.cases)
    (blast intro: inv_step_registering inv_step_authorizing inv_step_refusing inv_step_granting
      inv_step_restarting)+

lemma oauth_inv_reachable: "oauth_reachable rt sign redirect_to r \<Longrightarrow> oauth_inv r"
  by (induction rule: oauth_reachable.induct) (auto intro: oauth_inv_new oauth_inv_step)

end
