(* ===== verification/Server.thy ===== *)
theory Server
  imports OAuth Mcp InternalApi Redact
begin

text \<open>
  The composition of the gateway, apps/action-gateway/server.mjs: the audit log, the out-of-band
  delivery of link codes, the authenticated route of the agent, the simulated device, and the
  internal route that exists only where a secret is configured.

  The two files are the record \<open>server_files\<close>, as lists of lines; \<open>ts\<close> is the time stamp of a line and
  \<open>outbox_ok\<close> whether the outbox can be written. A line is \<open>None\<close> where its construction throws. What
  a handler reads from its surroundings is the record \<open>server_env\<close>.
\<close>

record server_env =
  sv_port :: ustr
  sv_public :: "ustr option"
  sv_operator :: "ustr option"
  sv_api_url :: "ustr option"
  sv_pooli_secret :: "ustr option"
  sv_agent_secret :: "ustr option"

record server_files =
  sf_diag :: "ustr list"
  sf_outbox :: "ustr list"

definition or_default :: "ustr option \<Rightarrow> ustr \<Rightarrow> ustr" where
  "or_default v d = (case v of None \<Rightarrow> d | Some s \<Rightarrow> s)"

definition PUBLIC_URL :: "server_env \<Rightarrow> ustr" where
  "PUBLIC_URL env = or_default (sv_public env) (lit ''http://localhost:'' @ sv_port env)"

definition OPERATOR_TOKEN :: "server_env \<Rightarrow> ustr" where
  "OPERATOR_TOKEN env = or_default (sv_operator env) []"

text \<open>\<open>POOLI_GATEWAY_SECRET ?? AGENT_GATEWAY_SECRET ?? ""\<close>, trimmed.\<close>

definition server_secret :: "server_env \<Rightarrow> ustr" where
  "server_secret env = js_trim (case sv_pooli_secret env of Some s \<Rightarrow> s | None \<Rightarrow> or_default (sv_agent_secret env) [])"

subsection \<open>The audit log\<close>

definition record_line :: "runtime \<Rightarrow> ustr \<Rightarrow> string \<Rightarrow> (ustr \<times> jval) list \<Rightarrow> ustr option" where
  "record_line rt ts kind payload =
     (case redact rt (JObj payload) 0 of
        Some (JObj kvs) \<Rightarrow> Some (json_compact (JObj (object_spread
          [(lit ''ts'', JStr ts), (lit ''kind'', JStr (lit kind))] kvs)))
      | _ \<Rightarrow> None)"

text \<open>A line that cannot be appended to the file is dropped; \<open>diag_ok\<close> says whether it can.\<close>

definition record_entry ::
  "runtime \<Rightarrow> bool \<Rightarrow> ustr \<Rightarrow> string \<Rightarrow> (ustr \<times> jval) list \<Rightarrow> server_files \<Rightarrow> server_files option" where
  "record_entry rt diag_ok ts kind payload f =
     map_option (\<lambda>line. if diag_ok then f\<lparr>sf_diag := sf_diag f @ [line]\<rparr> else f) (record_line rt ts kind payload)"

subsection \<open>Delivery\<close>

definition confirm_url :: "server_env \<Rightarrow> ustr \<Rightarrow> ustr" where
  "confirm_url env i = PUBLIC_URL env @ lit ''/p/'' @ i"

definition outbox_entry :: "server_env \<Rightarrow> ustr \<Rightarrow> ustr \<Rightarrow> proposal \<Rightarrow> (ustr \<times> jval) list" where
  "outbox_entry env i code p =
     [(lit ''to'', JStr (lit ''customer-device'')), (lit ''proposalId'', JStr i), (lit ''linkCode'', JStr code),
      (lit ''message'', JStr (lit ''Your confirmation code is '' @ code @ lit ''. Approve at '' @ confirm_url env i)),
      (lit ''orderSlug'', JStr (md_orderSlug (p_payload p))),
      (lit ''paymentStatus'', JStr (md_paymentStatus (p_payload p)))]"

definition deliverOutOfBand :: "bool \<Rightarrow> ustr \<Rightarrow> (ustr \<times> jval) list \<Rightarrow> server_files \<Rightarrow> server_files option" where
  "deliverOutOfBand outbox_ok ts entry f =
     (if outbox_ok then Some (f\<lparr>sf_outbox := sf_outbox f @
        [json_compact (JObj (object_spread [(lit ''ts'', JStr ts)] entry))]\<rparr>) else None)"

definition delivered_entry :: "server_env \<Rightarrow> ustr \<Rightarrow> proposal \<Rightarrow> (ustr \<times> jval) list" where
  "delivered_entry env i p =
     [(lit ''proposalId'', JStr i),
      (lit ''channel'', JStr (lit ''out-of-band (simulated: outbox file stands in for the merchant device)'')),
      (lit ''orderSlug'', JStr (md_orderSlug (p_payload p))),
      (lit ''paymentStatus'', JStr (md_paymentStatus (p_payload p))),
      (lit ''confirmUrl'', JStr (confirm_url env i))]"

text \<open>The notification of the backend: the URL, the secret header and the body, where there is one.\<close>

definition draft_ready_request :: "server_env \<Rightarrow> ustr \<Rightarrow> proposal \<Rightarrow> (ustr \<times> ustr \<times> jval) option" where
  "draft_ready_request env i p =
     (let base = strip_slash (js_trim (or_default (sv_api_url env) []));
          secret = server_secret env; merchant = md_merchantId (p_payload p)
      in if base = [] \<or> secret = [] \<or> merchant = [] then None
         else Some (base @ lit ''/api/v1/agent/draft-ready'', secret, JObj
           [(lit ''merchant_id'', JStr merchant), (lit ''order_id'', JStr (md_orderId (p_payload p))),
            (lit ''order_slug'', JStr (md_orderSlug (p_payload p))), (lit ''proposal_id'', JStr i),
            (lit ''confirm_url'', JStr (confirm_url env i)), (lit ''locale'', JStr (md_locale (p_payload p)))]))"

text \<open>The answer of the backend: a status, or the message of an error.\<close>

definition notifyPooliDraftReady ::
  "runtime \<Rightarrow> server_env \<Rightarrow> bool \<Rightarrow> ustr \<Rightarrow> nat + ustr \<Rightarrow> proposal \<Rightarrow> ustr \<Rightarrow> server_files \<Rightarrow> server_files option" where
  "notifyPooliDraftReady rt env diag_ok ts answer p i f =
     (if draft_ready_request env i p = None then Some f
      else case answer of
        Inl status \<Rightarrow> record_entry rt diag_ok ts ''pooli_draft_ready_notify''
          [(lit ''proposalId'', JStr i), (lit ''orderId'', JStr (md_orderId (p_payload p))),
           (lit ''status'', JNum (dec status)), (lit ''ok'', JBool (200 \<le> status \<and> status \<le> 299))] f
      | Inr m \<Rightarrow> record_entry rt diag_ok ts ''pooli_draft_ready_notify_failed''
          [(lit ''proposalId'', JStr i), (lit ''message'', JStr m)] f)"

text \<open>\<open>None\<close> where the function throws: only where the outbox cannot be written.\<close>

definition deliverLinkCode ::
  "runtime \<Rightarrow> server_env \<Rightarrow> bool \<Rightarrow> bool \<Rightarrow> ustr \<Rightarrow> nat + ustr \<Rightarrow> ustr \<Rightarrow> ustr \<Rightarrow> proposal \<Rightarrow> server_files \<Rightarrow> server_files option" where
  "deliverLinkCode rt env outbox_ok diag_ok ts answer i code p f =
     (case deliverOutOfBand outbox_ok ts (outbox_entry env i code p) f of None \<Rightarrow> None
      | Some f1 \<Rightarrow>
          (case record_entry rt diag_ok ts ''link_code_delivered'' (delivered_entry env i p) f1 of None \<Rightarrow> None
           | Some f2 \<Rightarrow> notifyPooliDraftReady rt env diag_ok ts answer p i f2))"

subsection \<open>The agent's route\<close>

definition server_mcp_deps :: "server_env \<Rightarrow> bool \<Rightarrow> ustr \<Rightarrow> mcp_deps" where
  "server_mcp_deps env outbox_ok client =
     \<lparr>mc_deliver = (\<lambda>i code p. outbox_ok), mc_confirmationBaseUrl = PUBLIC_URL env, mc_principal = Some client\<rparr>"

text \<open>A call of the propose tool that arrives with a header: the guard runs first, and the client
  the token names is the principal of the call.\<close>

definition mcp_propose_call ::
  "runtime \<Rightarrow> int \<Rightarrow> server_env \<Rightarrow> oauth_env \<Rightarrow> (ustr \<Rightarrow> ustr \<Rightarrow> ustr \<Rightarrow> ustr + claims) \<Rightarrow> bool \<Rightarrow> 's store_ops
     \<Rightarrow> web \<Rightarrow> call_env \<Rightarrow> int \<Rightarrow> ustr option \<Rightarrow> propose_args \<Rightarrow> 's \<Rightarrow> 's \<times> (nat + tool_result option)" where
  "mcp_propose_call rt ttl env oenv verify outbox_ok ops w cenv now header args s =
     (case requireToken rt verify oenv header of
        Bearer_refused status ch b \<Rightarrow> (s, Inl status)
      | Bearer_passes client scopes aud \<Rightarrow>
          (case propose_buyer_message rt ttl (server_mcp_deps env outbox_ok client) ops w cenv now args s of
             (s', r) \<Rightarrow> (s', Inr r)))"

text \<open>The internal route is mounted only where a secret is configured.\<close>

definition server_internal ::
  "runtime \<Rightarrow> int \<Rightarrow> server_env \<Rightarrow> bool \<Rightarrow> 's store_ops \<Rightarrow> call_env \<Rightarrow> ustr option \<Rightarrow> jval \<Rightarrow> 's \<Rightarrow> ('s \<times> reply) option" where
  "server_internal rt ttl env outbox_ok ops cenv header b s =
     (if server_secret env = [] then None
      else Some (internal_request rt ttl \<lparr>id_gatewaySecret = server_secret env,
        id_deliver = (\<lambda>i code p. outbox_ok), id_confirmationBaseUrl = PUBLIC_URL env\<rparr> ops cenv header b s))"

subsection \<open>The simulated device\<close>

definition deviceAuthOk :: "server_env \<Rightarrow> ustr \<Rightarrow> bool" where
  "deviceAuthOk env token = (utf8 token = utf8 (OPERATOR_TOKEN env))"

text \<open>The regular expression of \<open>cookieToken\<close>: \<open>dev_op=\<close> at the start of the header or after a
  semicolon and white space, and a value that is not empty.\<close>

definition dev_op_here :: "ustr \<Rightarrow> ustr option" where
  "dev_op_here s = (if take 7 s = lit ''dev_op='' then
       (let v = takeWhile (\<lambda>c. c \<noteq> 59) (drop 7 s) in if v = [] then None else Some v)
     else None)"

fun dev_op_after :: "ustr \<Rightarrow> ustr option" where
  "dev_op_after [] = None"
| "dev_op_after (c # cs) =
     (if c = 59 then (case dev_op_here (dropWhile is_ws cs) of Some v \<Rightarrow> Some v | None \<Rightarrow> dev_op_after cs)
      else dev_op_after cs)"

definition cookieToken :: "ustr option \<Rightarrow> ustr option" where
  "cookieToken header =
     (let h = or_default header [] in case dev_op_here h of Some v \<Rightarrow> Some v | None \<Rightarrow> dev_op_after h)"

record device_request =
  dr_query_token :: jval
  dr_header_token :: "ustr option"
  dr_body_token :: jval
  dr_cookie :: "ustr option"

definition tokenFrom :: "device_request \<Rightarrow> jval" where
  "tokenFrom r =
     nullish (dr_query_token r) (case dr_header_token r of Some h \<Rightarrow> JStr h
       | None \<Rightarrow> nullish (dr_body_token r) (case cookieToken (dr_cookie r) of Some c \<Rightarrow> JStr c | None \<Rightarrow> JUndef))"

text \<open>\<open>deviceAuthOk(tokenFrom(req))\<close>; \<open>None\<close> where \<open>String\<close> throws.\<close>

definition device_authorized :: "server_env \<Rightarrow> device_request \<Rightarrow> bool option" where
  "device_authorized env r = map_option (deviceAuthOk env) (string_or (tokenFrom r) [])"

datatype device_reply =
    Dev_absent
  | Dev_error
  | Dev_not_found
  | Dev_set_cookie ustr
  | Dev_messages "ustr list"
  | Dev_not_cleared
  | Dev_cleared

definition device_cookie :: "server_env \<Rightarrow> ustr option" where
  "device_cookie env = map_option (\<lambda>e. lit ''dev_op='' @ e @
     lit ''; HttpOnly; Secure; SameSite=Strict; Path=/demo; Max-Age=14400'') (encodeURIComponent (OPERATOR_TOKEN env))"

definition latest :: "'a list \<Rightarrow> 'a list" where
  "latest xs = rev (drop (length xs - 5) xs)"

definition device_get :: "server_env \<Rightarrow> device_request \<Rightarrow> server_files \<Rightarrow> device_reply" where
  "device_get env r f =
     (if OPERATOR_TOKEN env = [] then Dev_absent
      else case device_authorized env r of None \<Rightarrow> Dev_error
      | Some False \<Rightarrow> Dev_not_found
      | Some True \<Rightarrow>
          if truthy (dr_query_token r) then
            (case device_cookie env of None \<Rightarrow> Dev_error | Some c \<Rightarrow> Dev_set_cookie c)
          else Dev_messages (latest (sf_outbox f)))"

definition device_clear ::
  "runtime \<Rightarrow> server_env \<Rightarrow> ustr option \<Rightarrow> bool \<Rightarrow> ustr \<Rightarrow> device_request \<Rightarrow> server_files \<Rightarrow> server_files \<times> device_reply" where
  "device_clear rt env write_error diag_ok ts r f =
     (if OPERATOR_TOKEN env = [] then (f, Dev_absent)
      else case device_authorized env r of None \<Rightarrow> (f, Dev_error)
      | Some False \<Rightarrow> (f, Dev_not_found)
      | Some True \<Rightarrow>
          (case write_error of
             None \<Rightarrow> (case record_entry rt diag_ok ts ''demo_outbox_cleared''
                [(lit ''entries'', JNum (dec (length (sf_outbox f))))] (f\<lparr>sf_outbox := []\<rparr>) of
               None \<Rightarrow> (f\<lparr>sf_outbox := []\<rparr>, Dev_error) | Some f' \<Rightarrow> (f', Dev_cleared))
           | Some m \<Rightarrow> (case record_entry rt diag_ok ts ''demo_outbox_clear_failed''
                [(lit ''message'', JStr m)] f of
               None \<Rightarrow> (f, Dev_error) | Some f' \<Rightarrow> (f', Dev_not_cleared))))"

lemmas server_defs [handler_defs] = mcp_propose_call_def server_internal_def device_get_def device_clear_def

subsection \<open>The log and the side channel\<close>

lemma redact_obj: "redact rt (JObj kvs) 0 = map_option JObj (redact_entries rt kvs 0)"
  by simp

text \<open>The audit log does not depend on the code, and the code's message is in the outbox.\<close>

lemma record_entry_fields:
  "record_entry rt d ts k payload f = Some f' \<Longrightarrow> sf_outbox f' = sf_outbox f"
  by (auto simp: record_entry_def)

lemma record_entry_diag:
  "sf_diag f = sf_diag g \<Longrightarrow>
     map_option sf_diag (record_entry rt d ts k payload f) = map_option sf_diag (record_entry rt d ts k payload g)"
  by (cases "record_line rt ts k payload") (simp_all add: record_entry_def)

lemma notify_fields:
  "notifyPooliDraftReady rt env d ts a p i f = Some f' \<Longrightarrow> sf_outbox f' = sf_outbox f"
  by (auto simp: notifyPooliDraftReady_def split: if_splits sum.splits dest: record_entry_fields)

lemma notify_diag:
  "sf_diag f = sf_diag g \<Longrightarrow>
     map_option sf_diag (notifyPooliDraftReady rt env d ts a p i f) =
     map_option sf_diag (notifyPooliDraftReady rt env d ts a p i g)"
  by (auto simp: notifyPooliDraftReady_def split: sum.splits intro: record_entry_diag)

lemma deliver_outbox:
  "deliverLinkCode rt env ok d ts a i code p f = Some f' \<Longrightarrow>
     ok \<and> sf_outbox f' = sf_outbox f @ [json_compact (JObj (object_spread [(lit ''ts'', JStr ts)] (outbox_entry env i code p)))]"
  by (auto simp: deliverLinkCode_def deliverOutOfBand_def split: option.splits if_splits
      dest!: notify_fields record_entry_fields)

lemma deliver_diag:
  "map_option sf_diag (deliverLinkCode rt env ok d ts a i code p f) =
   map_option sf_diag (deliverLinkCode rt env ok d ts a i code' p f)"
proof (cases ok)
  case True
  let ?f = "\<lambda>c. f\<lparr>sf_outbox := sf_outbox f @
    [json_compact (JObj (object_spread [(lit ''ts'', JStr ts)] (outbox_entry env i c p)))]\<rparr>"
  let ?r = "\<lambda>c. record_entry rt d ts ''link_code_delivered'' (delivered_entry env i p) (?f c)"
  have d: "map_option sf_diag (?r code) = map_option sf_diag (?r code')"
    by (rule record_entry_diag) simp
  show ?thesis
  proof (cases "?r code")
    case None
    then have "?r code' = None" using d by (cases "?r code'") (simp_all del: json_compact.simps)
    with None True show ?thesis by (simp add: deliverLinkCode_def deliverOutOfBand_def del: json_compact.simps)
  next
    case (Some g)
    with d obtain g' where "?r code' = Some g'" "sf_diag g = sf_diag g'"
      by (cases "?r code'") (simp_all del: json_compact.simps)
    with Some True notify_diag [of g g' rt env d ts a p i] show ?thesis
      by (simp add: deliverLinkCode_def deliverOutOfBand_def del: json_compact.simps)
  qed
qed (simp add: deliverLinkCode_def deliverOutOfBand_def)

subsection \<open>The device's cookie\<close>

lemma utf8_ascii: "list_all (\<lambda>c. c < 128) s \<Longrightarrow> utf8 s = s"
  by (induction s rule: code_points.induct)
    (simp_all add: utf8_def utf8_point_def is_high_def is_low_def)

definition encoded_byte :: "nat \<Rightarrow> ustr" where
  "encoded_byte b = (if b < 128 \<and> uri_plain b then [b] else [37, upper_hex (b div 16), upper_hex (b mod 16)])"

lemma encodeURIComponent_bytes:
  "encodeURIComponent s = Some e \<Longrightarrow> e = concat (map encoded_byte (utf8 s))"
  by (auto simp: encodeURIComponent_def encoded_byte_def [abs_def] split: if_splits)

lemma encoded_length: "length bs \<le> length (concat (map encoded_byte bs))"
  by (induction bs) (simp_all add: encoded_byte_def)

lemma encoded_same: "concat (map encoded_byte bs) = bs \<longleftrightarrow> list_all (\<lambda>b. b < 128 \<and> uri_plain b) bs"
proof
  assume "concat (map encoded_byte bs) = bs"
  then show "list_all (\<lambda>b. b < 128 \<and> uri_plain b) bs"
  proof (induction bs)
    case (Cons b bs)
    show ?case
    proof (cases "b < 128 \<and> uri_plain b")
      case True
      with Cons show ?thesis by (simp add: encoded_byte_def)
    next
      case False
      then have "length (concat (map encoded_byte (b # bs))) = 3 + length (concat (map encoded_byte bs))"
        by (simp add: encoded_byte_def)
      then show ?thesis using Cons.prems encoded_length [of bs] by (metis Suc_n_not_le_n add_le_imp_le_left
          le_add2 le_trans length_Cons numeral_3_eq_3 plus_1_eq_Suc add_Suc)
    qed
  qed simp
next
  assume "list_all (\<lambda>b. b < 128 \<and> uri_plain b) bs"
  then show "concat (map encoded_byte bs) = bs" by (induction bs) (simp_all add: encoded_byte_def)
qed

end
