(* ===== verification/OAuthProps.thy ===== *)
theory OAuthProps
  imports OAuthRuns Server AgentProps
begin

text \<open>
  The properties of the authorization server and of the composition of the gateway, with their
  witnesses. \<open>jose\<close> is a parameter: \<open>sign\<close> makes a token of claims, \<open>verify\<close> is \<open>jwtVerify\<close> at a
  time, an issuer and an audience; what is asked of them is what the library documents: a token is
  printable ASCII, and the claims of one signed for that issuer and audience come back until
  it expires.
\<close>

subsection \<open>A surrounding in which the server runs\<close>

definition demo_oenv :: oauth_env where
  "demo_oenv = \<lparr>oe_public_url = Some (lit ''https://gw.test''), oe_scope = None, oe_forwarded_proto = None,
     oe_protocol = lit ''https'', oe_host = Some (lit ''gw.test''), oe_now = 5000, oe_random = [1, 2, 3],
     oe_content_type = Some (lit ''application/json''),
     oe_base64_text = (\<lambda>s. s), oe_decode_uri = Some\<rparr>"

definition demo_uri :: ustr where
  "demo_uri = lit ''https://client.test/cb''"

definition demo_entry :: code_entry where
  "demo_entry = \<lparr>cd_client_id = lit ''mcp_010203'', cd_redirect_uri = demo_uri,
     cd_challenge = JStr (challenge_of demo_rt (lit ''secret'')), cd_resource = JStr (lit ''https://gw.test/mcp''),
     cd_expires = 65000\<rparr>"

definition demo_exchange :: jval where
  "demo_exchange = JObj [(lit ''grant_type'', JStr (lit ''authorization_code'')), (lit ''code'', JStr (lit ''AQID'')),
     (lit ''redirect_uri'', JStr demo_uri), (lit ''code_verifier'', JStr (lit ''secret''))]"

definition demo_tokens :: oauth_state where
  "demo_tokens = oauth_fresh\<lparr>os_codes := [lit ''AQID'' \<mapsto> demo_entry]\<rparr>"

text \<open>A signer and its verifier that know one set of claims.\<close>

definition demo_sign :: "claims \<Rightarrow> ustr" where
  "demo_sign c = lit ''jwt''"

definition demo_verify :: "claims \<Rightarrow> int \<Rightarrow> ustr \<Rightarrow> ustr \<Rightarrow> ustr \<Rightarrow> ustr + claims" where
  "demo_verify c now t i a = (if t = lit ''jwt'' \<and> i = jc_iss c \<and> a = jc_aud c \<and> now div 1000 < jc_exp c
     then Inr c else Inl (lit ''signature verification failed''))"

lemma demo_oenv_fields [simp]:
  "baseUrl demo_oenv = lit ''https://gw.test''" "REQUIRED_SCOPE demo_oenv = lit ''transfer:propose''"
  "resourceUrl demo_oenv = lit ''https://gw.test/mcp''" "oe_now demo_oenv = 5000"
  by (simp_all add: demo_oenv_def baseUrl_def REQUIRED_SCOPE_def resourceUrl_def mcpPath_def
      strip_slash_def lit_def)


subsection \<open>The code exchange\<close>

lemma redeem_by_code:
  "merged body query (lit ''grant_type'') = JStr (lit ''authorization_code'') \<Longrightarrow>
     token_recorded rt env authz body query \<Longrightarrow>
     redeem rt env authz body query s = redeem_code rt env (merged body query)
       (client_field rt env authz (merged body query (lit ''client_id''))) s"
  by (auto simp: redeem_def Let_def)

lemma redeem_by_refresh:
  "merged body query (lit ''grant_type'') = JStr (lit ''refresh_token'') \<Longrightarrow>
     token_recorded rt env authz body query \<Longrightarrow>
     redeem rt env authz body query s = redeem_refresh
       (client_field rt env authz (merged body query (lit ''client_id''))) (merged body query (lit ''refresh_token'')) s"
  by (auto simp: redeem_def Let_def)

lemma code_refusal_status: "code_refusal rt env b cid e = Some r \<Longrightarrow> r \<noteq> O_json 200 j"
  by (auto simp: code_refusal_def Let_def oauth_error_def split: if_splits option.splits)

lemma issue_replies: "\<exists>j. snd (issue sign env client s) = O_json 200 j"
  by (simp add: issue_def Let_def)

lemma issue_codes: "os_codes (fst (issue sign env client s)) = os_codes s"
  by (simp add: issue_def Let_def)

lemma redeem_unrecorded:
  "\<not> token_recorded rt env authz body query \<Longrightarrow> redeem rt env authz body query s = (s, Inl O_thrown)"
  by (simp add: redeem_def Let_def)

text \<open>C13: the conditions of the code exchange, exactly. The endpoint first writes a log record of the
  request, and where the verifier cannot be converted to text, or redaction of the resource or of
  the redirect URI throws (an object under a secret key with a key \<open>toString\<close>), it answers with an
  exception and takes nothing: the code stays live. Where the record is written, a code the server
  holds is gone once it is presented, whatever the outcome; and tokens are answered exactly when the
  code has not expired, the client, if one is named, is the one that asked for the code, the redirect
  URI is that of the authorization request, the SHA-256 of the verifier is the challenge, and the
  resource is this server.\<close>

theorem code_exchange_conditions:
  assumes "merged body query (lit ''grant_type'') = JStr (lit ''authorization_code'')"
    and "merged body query (lit ''code'') = JStr c" "c \<noteq> []" "os_codes s c = Some e"
  shows "let b = merged body query; cid = client_field rt env authz (b (lit ''client_id''));
      out = oauth_token rt sign env authz body query s
    in if string_or_empty (b (lit ''code_verifier'')) = None \<or>
          redact rt (opt_null (b (lit ''resource''))) 1 = None \<or> redact rt (opt_null (b (lit ''redirect_uri''))) 1 = None
       then out = (s, O_thrown)
       else os_codes (fst out) c = None \<and>
        ((\<exists>j. snd out = O_json 200 j) \<longleftrightarrow>
          oe_now env \<le> cd_expires e \<and> (truthy cid \<longrightarrow> cid = JStr (cd_client_id e)) \<and>
          b (lit ''redirect_uri'') = JStr (cd_redirect_uri e) \<and>
          (\<exists>v. string_or_empty (b (lit ''code_verifier'')) = Some v \<and> v \<noteq> [] \<and>
            cd_challenge e = JStr (base64url (rt_sha256 rt v))) \<and>
          foreign_resource env (if truthy (b (lit ''resource'')) then b (lit ''resource'') else cd_resource e) = Some None)"
proof -
  let ?b = "merged body query"
  let ?cid = "client_field rt env authz (?b (lit ''client_id''))"
  let ?out = "oauth_token rt sign env authz body query s"
  have rec: "token_recorded rt env authz body query \<longleftrightarrow> \<not> (string_or_empty (?b (lit ''code_verifier'')) = None \<or>
      redact rt (opt_null (?b (lit ''resource''))) 1 = None \<or> redact rt (opt_null (?b (lit ''redirect_uri''))) 1 = None)"
    using assms(1) by (simp add: token_recorded_iff Let_def opt_null_def nullish_def)
  show ?thesis
  proof (cases "token_recorded rt env authz body query")
    case False
    then have out: "?out = (s, O_thrown)" by (simp add: oauth_token_def redeem_unrecorded)
    from False have "string_or_empty (?b (lit ''code_verifier'')) = None \<or>
        redact rt (opt_null (?b (lit ''resource''))) 1 = None \<or> redact rt (opt_null (?b (lit ''redirect_uri''))) 1 = None"
      using rec by argo
    then show ?thesis unfolding Let_def by (subst if_P) (assumption, rule out)
  next
    case True
    have r: "redeem rt env authz body query s = (s\<lparr>os_codes := (os_codes s)(c := None)\<rparr>,
         case code_refusal rt env ?b ?cid e of Some r \<Rightarrow> Inl r | None \<Rightarrow> Inr (By_code c e))"
      using assms redeem_code_known [of ?b c s e rt env ?cid] by (simp add: redeem_by_code True)
    have "os_codes (fst ?out) c = None"
      by (simp add: oauth_token_def r issue_codes split: option.split)
    moreover have "(\<exists>j. snd ?out = O_json 200 j) \<longleftrightarrow> code_refusal rt env ?b ?cid e = None"
      using code_refusal_status [of rt env ?b ?cid e] issue_replies
      by (cases "code_refusal rt env ?b ?cid e") (simp_all add: oauth_token_def r)
    ultimately show ?thesis
      using True by (simp only: rec [symmetric] Let_def if_not_P code_refusal_None challenge_of_def)
  qed
qed

lemma demo_merged [simp]:
  "merged demo_exchange JNull (lit ''grant_type'') = JStr (lit ''authorization_code'')"
  "merged demo_exchange JNull (lit ''code'') = JStr (lit ''AQID'')"
  "merged demo_exchange JNull (lit ''redirect_uri'') = JStr demo_uri"
  "merged demo_exchange JNull (lit ''code_verifier'') = JStr (lit ''secret'')"
  "merged demo_exchange JNull (lit ''client_id'') = JUndef"
  "merged demo_exchange JNull (lit ''resource'') = JUndef"
  by (simp_all add: merged_def demo_exchange_def)

lemma demo_no_basic [simp]: "client_field demo_rt demo_oenv [] v = v"
  by (simp add: client_field_def lower_starts_def js_lower_def ascii_def lit_def)

lemma demo_entry_fields [simp]:
  "cd_client_id demo_entry = lit ''mcp_010203''" "cd_redirect_uri demo_entry = demo_uri"
  "cd_challenge demo_entry = JStr (challenge_of demo_rt (lit ''secret''))" "cd_expires demo_entry = 65000"
  "cd_resource demo_entry = JStr (lit ''https://gw.test/mcp'')"
  by (simp_all add: demo_entry_def)

lemma demo_resource [simp]:
  "foreign_resource demo_oenv (JStr (lit ''https://gw.test/mcp'')) = Some None"
  by (simp add: foreign_resource_def strip_slashes_def lit_def)

text \<open>The same request with a resource that redaction cannot get through.\<close>

definition demo_poison :: jval where
  "demo_poison = JObj [(lit ''resource'', JObj [(lit ''secret'', JObj [(lit ''toString'', JNum (lit ''1''))])])]"

lemma demo_poison_fields [simp]:
  "merged demo_exchange demo_poison (lit ''grant_type'') = JStr (lit ''authorization_code'')"
  "merged demo_exchange demo_poison (lit ''code'') = JStr (lit ''AQID'')"
  "merged demo_exchange demo_poison (lit ''resource'') = JObj [(lit ''secret'', JObj [(lit ''toString'', JNum (lit ''1''))])]"
  by (simp_all add: merged_def demo_exchange_def demo_poison_def)

lemma demo_poisoned:
  "redact demo_rt (opt_null (JObj [(lit ''secret'', JObj [(lit ''toString'', JNum (lit ''1''))])])) 1 = None"
proof -
  have "isSecretKey demo_rt (lit ''secret'')"
    by (simp add: isSecretKey_def NOT_SECRET_test_def not_secret_prefixes_def SECRET_KEYS_def lit_def
        js_lower_def ascii_def lower_unit_def)
  then show ?thesis by (simp add: opt_null_def nullish_def describeSecret_def)
qed

theorem code_exchange_conditions_witness:
  "(\<exists>j. snd (oauth_token demo_rt demo_sign demo_oenv [] demo_exchange JNull demo_tokens) = O_json 200 j) \<and>
   oauth_token demo_rt demo_sign demo_oenv [] demo_exchange demo_poison demo_tokens = (demo_tokens, O_thrown)"
proof
  have code: "lit ''AQID'' \<noteq> []" "os_codes demo_tokens (lit ''AQID'') = Some demo_entry"
    by (simp_all add: demo_tokens_def)
  show "\<exists>j. snd (oauth_token demo_rt demo_sign demo_oenv [] demo_exchange JNull demo_tokens) = O_json 200 j"
    using code_exchange_conditions [OF demo_merged(1,2) code, of demo_rt demo_oenv "[]" demo_sign]
    by (simp add: string_or_empty_def challenge_of_def Let_def opt_null_def nullish_def)
  show "oauth_token demo_rt demo_sign demo_oenv [] demo_exchange demo_poison demo_tokens = (demo_tokens, O_thrown)"
    using code_exchange_conditions [OF demo_poison_fields(1,2) code, of demo_rt demo_oenv "[]" demo_sign]
    by (simp add: demo_poisoned [unfolded One_nat_def] Let_def)
qed

subsection \<open>Single use\<close>

text \<open>C12: in every history of registrations, authorizations, exchanges, refusals and restarts, no
  authorization code and no refresh token is exchanged for tokens twice, and the client of every
  exchanged code had registered the redirect URI of the exchange.\<close>

theorem codes_single_use:
  assumes "oauth_reachable rt sign redirect_to r"
  shows "distinct (granted_codes (or_grants r)) \<and> distinct (granted_tokens (or_grants r)) \<and>
    (\<forall>c e. By_code c e \<in> set (or_grants r) \<longrightarrow> (\<exists>k. os_clients (or_state r) (cd_client_id e) = Some k \<and>
       JStr (cd_redirect_uri e) \<in> set (oc_redirect_uris k)))"
  using oauth_inv_reachable [OF assms] by (simp add: oauth_inv_def registered_def)

definition demo_registration :: jval where
  "demo_registration = JObj [(lit ''redirect_uris'', JArr [JStr demo_uri])]"

definition demo_query :: jval where
  "demo_query = JObj [(lit ''client_id'', JStr (lit ''mcp_010203'')), (lit ''redirect_uri'', JStr demo_uri),
     (lit ''code_challenge'', JStr (challenge_of demo_rt (lit ''secret''))),
     (lit ''code_challenge_method'', JStr (lit ''S256''))]"

lemma demo_new_id: "new_client_id demo_oenv = lit ''mcp_010203''"
  by (simp add: new_client_id_def demo_oenv_def hex_digit_def lit_def)

lemma demo_new_code: "base64url (oe_random demo_oenv) = lit ''AQID''"
  by (simp add: demo_oenv_def base64url_char_def lit_def)

lemma demo_challenge_nonempty: "challenge_of demo_rt v \<noteq> []"
  by (simp add: challenge_of_def demo_rt_def Let_def)

lemma register_keys:
  "\<not> isSecretKey rt (lit ''client_id'')" "\<not> isSecretKey rt (lit ''client_name'')"
  "\<not> isSecretKey rt (lit ''redirect_uris'')" "\<not> isSecretKey rt (lit ''requestedAuthMethod'')"
  by (simp_all add: isSecretKey_def NOT_SECRET_test_def not_secret_prefixes_def SECRET_KEYS_def lit_def
      js_lower_def ascii_def lower_unit_def)

text \<open>A registration with one URI and no other field is recorded.\<close>

lemma register_written:
  "written rt (register_entry \<lparr>oc_client_id = i, oc_issued_at = t, oc_redirect_uris = [JStr u], oc_client_name = JStr n\<rparr>
     (JObj [(lit ''redirect_uris'', x)]))"
  by (simp add: written_iff register_entry_def register_keys opt_null_def nullish_def)

lemma demo_registered:
  "\<exists>s c. oauth_register demo_rt demo_oenv demo_registration oauth_fresh = (s, O_json 201 (registration_json demo_oenv c)) \<and>
     os_clients s (lit ''mcp_010203'') = Some c \<and> oc_redirect_uris c = [JStr demo_uri] \<and> os_codes s = Map.empty"
  using register_written by (simp add: oauth_register_def demo_registration_def Let_def demo_new_id oauth_fresh_def)

lemma demo_authorized:
  assumes "os_clients s (lit ''mcp_010203'') = Some c" "oc_redirect_uris c = [JStr demo_uri]"
  shows "fst (oauth_authorize demo_rt (\<lambda>u k st. Some u) demo_oenv demo_query s) =
    s\<lparr>os_codes := (os_codes s)(lit ''AQID'' \<mapsto> demo_entry)\<rparr>"
  using assms demo_challenge_nonempty
  by (simp add: oauth_authorize_def demo_query_def Let_def demo_new_code demo_entry_def CODE_TTL_MS_def)

lemma demo_redeemed:
  assumes "os_codes s (lit ''AQID'') = Some demo_entry"
  shows "redeem demo_rt demo_oenv [] demo_exchange JNull s =
    (s\<lparr>os_codes := (os_codes s)(lit ''AQID'' := None)\<rparr>, Inr (By_code (lit ''AQID'') demo_entry))"
proof -
  have "token_recorded demo_rt demo_oenv [] demo_exchange JNull"
    by (simp add: token_recorded_iff string_or_empty_def opt_null_def nullish_def)
  moreover have "code_refusal demo_rt demo_oenv (merged demo_exchange JNull) JUndef demo_entry = None"
    by (simp add: code_refusal_None string_or_empty_def)
  ultimately show ?thesis
    using assms redeem_code_known [of "merged demo_exchange JNull" "lit ''AQID''" s demo_entry demo_rt demo_oenv JUndef]
    by (simp add: redeem_by_code string_or_empty_def)
qed

theorem codes_single_use_witness:
  "\<exists>r. oauth_reachable demo_rt demo_sign (\<lambda>u k st. Some u) r \<and>
     granted_codes (or_grants r) = [lit ''AQID''] \<and> distinct (granted_codes (or_grants r))"
proof -
  let ?R = "oauth_reachable demo_rt demo_sign (\<lambda>u k st. Some u)"
  obtain s1 c where s1: "oauth_register demo_rt demo_oenv demo_registration oauth_fresh =
      (s1, O_json 201 (registration_json demo_oenv c))" "os_clients s1 (lit ''mcp_010203'') = Some c"
    "oc_redirect_uris c = [JStr demo_uri]"
    using demo_registered by blast
  have "?R (new_run\<lparr>or_state := s1\<rparr>)"
    using s1(1) by (intro oauth_reachable.more [OF oauth_reachable.start] oauth_step.registering)
      (simp_all add: new_run_def oauth_fresh_def)
  moreover obtain s2 reply where s2: "oauth_authorize demo_rt (\<lambda>u k st. Some u) demo_oenv demo_query s1 = (s2, reply)"
    "os_codes s2 (lit ''AQID'') = Some demo_entry"
    using demo_authorized [OF s1(2,3)]
    by (cases "oauth_authorize demo_rt (\<lambda>u k st. Some u) demo_oenv demo_query s1") auto
  ultimately have r2: "?R (new_run\<lparr>or_state := s2, or_codes := [lit ''AQID'']\<rparr>)"
    using oauth_step.authorizing [of demo_oenv "new_run\<lparr>or_state := s1\<rparr>" demo_rt "\<lambda>u k st. Some u" demo_query s2 reply
        demo_sign]
    by (auto simp: demo_new_code new_run_def intro: oauth_reachable.more)
  let ?g = "By_code (lit ''AQID'') demo_entry"
  obtain s3 s4 reply' where s3: "redeem demo_rt demo_oenv [] demo_exchange JNull s2 = (s3, Inr ?g)"
    "issue demo_sign demo_oenv (grant_client ?g) s3 = (s4, reply')"
    using demo_redeemed [OF s2(2)] by (cases "issue demo_sign demo_oenv (grant_client ?g) (s2\<lparr>os_codes := (os_codes s2)(lit ''AQID'' := None)\<rparr>)") auto
  then have r3: "?R (new_run\<lparr>or_state := s4, or_codes := [lit ''AQID''], or_tokens := [lit ''AQID''], or_grants := [?g]\<rparr>)"
    using oauth_step.granting [of demo_oenv "new_run\<lparr>or_state := s2, or_codes := [lit ''AQID'']\<rparr>" demo_rt "[]"
        demo_exchange JNull s3 ?g demo_sign s4 reply' "\<lambda>u k st. Some u"]
    by (auto simp: demo_new_code new_run_def intro: oauth_reachable.more [OF r2])
  show ?thesis using r3 codes_single_use [OF r3] by (intro exI conjI) (rule r3, simp_all)
qed

subsection \<open>The token is accepted, for its hour\<close>

lemma words_acc_words:
  "list_all (\<lambda>c. \<not> is_ws c) s \<Longrightarrow> words_acc w s = (if rev w @ s = [] then [] else [rev w @ s])"
  by (induction s arbitrary: w) auto

lemma words_of_word: "list_all (\<lambda>c. \<not> is_ws c) s \<Longrightarrow> s \<noteq> [] \<Longrightarrow> words_of s = [s]"
  by (simp add: words_of_def words_acc_words)



lemma required_scope_nonempty [simp]: "REQUIRED_SCOPE env \<noteq> []"
  by (auto simp: REQUIRED_SCOPE_def split: option.splits)




definition demo_claims :: claims where
  "demo_claims = claims_for demo_oenv (lit ''mcp_010203'')"


subsection \<open>A refused refresh\<close>

definition demo_refresh :: "string \<Rightarrow> jval" where
  "demo_refresh i = JObj [(lit ''grant_type'', JStr (lit ''refresh_token'')), (lit ''refresh_token'', JStr (lit ''r'')),
     (lit ''client_id'', JStr (lit i))]"

lemma demo_refresh_fields [simp]:
  "merged (demo_refresh i) JNull (lit ''grant_type'') = JStr (lit ''refresh_token'')"
  "merged (demo_refresh i) JNull (lit ''refresh_token'') = JStr (lit ''r'')"
  "merged (demo_refresh i) JNull (lit ''client_id'') = JStr (lit i)"
  "merged (demo_refresh i) JNull (lit ''code_verifier'') = JUndef"
  "merged (demo_refresh i) JNull (lit ''resource'') = JUndef"
  "merged (demo_refresh i) JNull (lit ''redirect_uri'') = JUndef"
  by (simp_all add: merged_def demo_refresh_def)

lemma demo_refresh_recorded: "token_recorded rt env authz (demo_refresh i) JNull"
  by (simp add: token_recorded_iff string_or_empty_def opt_null_def nullish_def)

text \<open>C39: a refresh token refused to the wrong client is burnt in memory only: the answer is 400 and
  the token is gone, but the file still has it, so that after a restart the token is live again
  and is exchanged. Both requests are ones whose log record can be written.\<close>

theorem burnt_token_returns:
  assumes "os_refresh s t = Some e" "os_refresh_file s t = Some e" "t \<noteq> []"
    and "merged body query (lit ''grant_type'') = JStr (lit ''refresh_token'')"
    and "merged body query (lit ''refresh_token'') = JStr t"
    and "client_field rt env authz (merged body query (lit ''client_id'')) = JStr wrong"
    and "wrong \<noteq> []" "wrong \<noteq> rf_client_id e"
    and "merged body' query' (lit ''grant_type'') = JStr (lit ''refresh_token'')"
    and "merged body' query' (lit ''refresh_token'') = JStr t"
    and "client_field rt env' authz' (merged body' query' (lit ''client_id'')) = JStr (rf_client_id e)"
    and "token_recorded rt env authz body query" "token_recorded rt env' authz' body' query'"
  shows "\<exists>s1 j. oauth_token rt sign env authz body query s =
       (s1, oauth_error 400 ''invalid_grant'' (lit ''refresh_token does not belong to this client'')) \<and>
     os_refresh s1 t = None \<and>
     snd (oauth_token rt sign env' authz' body' query' (oauth_restart s1)) = O_json 200 j"
proof -
  let ?s1 = "s\<lparr>os_refresh := (os_refresh s)(t := None)\<rparr>"
  have one: "oauth_token rt sign env authz body query s =
      (?s1, oauth_error 400 ''invalid_grant'' (lit ''refresh_token does not belong to this client''))"
    using assms by (simp add: oauth_token_def redeem_by_refresh redeem_refresh_def string_or_empty_def Let_def)
  have "\<exists>j. snd (oauth_token rt sign env' authz' body' query' (oauth_restart ?s1)) = O_json 200 j"
    using assms issue_replies
    by (simp add: oauth_token_def redeem_by_refresh redeem_refresh_def string_or_empty_def Let_def oauth_restart_def)
  with one show ?thesis by (intro exI [of _ ?s1]) auto
qed

theorem burnt_token_returns_witness:
  "\<exists>s s1 j. oauth_token demo_rt demo_sign demo_oenv [] (demo_refresh ''thief'') JNull s =
       (s1, oauth_error 400 ''invalid_grant'' (lit ''refresh_token does not belong to this client'')) \<and>
     os_refresh s1 (lit ''r'') = None \<and>
     snd (oauth_token demo_rt demo_sign demo_oenv [] (demo_refresh ''client'') JNull (oauth_restart s1)) = O_json 200 j"
proof -
  let ?e = "\<lparr>rf_client_id = lit ''client'', rf_audience = lit ''https://gw.test/mcp'', rf_issued = 0\<rparr>"
  let ?s = "oauth_fresh\<lparr>os_refresh := [lit ''r'' \<mapsto> ?e], os_refresh_file := [lit ''r'' \<mapsto> ?e]\<rparr>"
  have "os_refresh ?s (lit ''r'') = Some ?e" "os_refresh_file ?s (lit ''r'') = Some ?e" by simp_all
  then show ?thesis
    using burnt_token_returns [of ?s "lit ''r''" ?e "demo_refresh ''thief''" JNull demo_rt demo_oenv "[]" "lit ''thief''"
        "demo_refresh ''client''" JNull demo_oenv "[]" demo_sign]
    by - (rule exI [of _ ?s], simp add: demo_refresh_recorded)
qed

subsection \<open>The agent's route\<close>

text \<open>C14: nothing is proposed through the agent's route without a token: whatever a call of the propose
  tool adds to the store was asked for with a bearer token that verified for this base URL and
  resource, whose scopes hold the required one, and the new proposal's idempotency key is that
  of the client the token names.\<close>

theorem mcp_call_needs_token:
  assumes "mem_get s i = None"
    and "mem_get (fst (mcp_propose_call rt ttl env oenv verify outbox_ok mem_ops w cenv now header args s)) i = Some p"
  shows "\<exists>h c snap. header = Some h \<and> lower_starts rt ''bearer '' h \<and>
    verify (js_trim (drop 7 h)) (baseUrl oenv) (resourceUrl oenv) = Inr c \<and>
    REQUIRED_SCOPE oenv \<in> set (words_of (jc_scope c)) \<and>
    fetchOrderSnapshot w (pa_orderId args) = Some (Some snap) \<and>
    p_idempotencyKey p = idempotencyKeyFor rt (jc_client_id c) (mcp_payload rt snap args) 60000 now"
proof (cases "requireToken rt verify oenv header")
  case (Bearer_refused st ch b)
  then show ?thesis using assms by (simp add: mcp_propose_call_def)
next
  case (Bearer_passes client scopes aud)
  have fst_case: "fst (case x of (s', r) \<Rightarrow> (s', Inr r)) = fst x" for x :: "mem_store \<times> tool_result option"
    by (cases x) simp
  let ?deps = "server_mcp_deps env outbox_ok client"
  have "mem_get (fst (propose_buyer_message rt ttl ?deps mem_ops w cenv now args s)) i = Some p"
    using assms(2) by (simp add: mcp_propose_call_def Bearer_passes fst_case)
  from propose_tool_added [OF assms(1) this] obtain snap where
    snap: "fetchOrderSnapshot w (pa_orderId args) = Some (Some snap)"
    "p_idempotencyKey p = idempotencyKeyFor rt client (mcp_payload rt snap args) 60000 now"
    by (auto simp: server_mcp_deps_def)
  show ?thesis
  proof (cases header)
    case None
    then show ?thesis using Bearer_passes
      by (simp add: requireToken_def lower_starts_def js_lower_def ascii_def lit_def)
  next
    case (Some h)
    then show ?thesis using Bearer_passes snap
      by (auto simp: requireToken_def Let_def split: if_splits sum.splits)
  qed
qed

definition demo_server :: server_env where
  "demo_server = \<lparr>sv_port = lit ''8787'', sv_public = Some (lit ''https://gw.test''), sv_operator = Some (lit ''op token''),
     sv_api_url = None, sv_pooli_secret = None, sv_agent_secret = None\<rparr>"

lemma demo_bearer:
  "requireToken demo_rt (demo_verify demo_claims 9000) demo_oenv (Some (lit ''Bearer jwt'')) =
     Bearer_passes (lit ''mcp_010203'') [lit ''transfer:propose''] (lit ''https://gw.test/mcp'')"
proof -
  have "words_of (lit ''transfer:propose'') = [lit ''transfer:propose'']"
    by (rule words_of_word) (simp_all add: lit_def is_ws_def)
  moreover have "js_trim (drop 7 (lit ''Bearer jwt'')) = lit ''jwt''"
    by (simp add: lit_def js_trim_def is_ws_def)
  moreover have "lower_starts demo_rt ''bearer '' (lit ''Bearer jwt'')"
    by (simp add: lower_starts_def js_lower_def ascii_def lit_def lower_unit_def)
  ultimately show ?thesis
    by (simp add: requireToken_def Let_def demo_verify_def demo_claims_def claims_for_def TOKEN_TTL_SECONDS_def)
qed

theorem mcp_call_needs_token_witness:
  "\<exists>p. mem_get (fst (mcp_propose_call demo_rt 300 demo_server demo_oenv (demo_verify demo_claims 9000) True mem_ops
     demo_web demo_env 5 (Some (lit ''Bearer jwt'')) demo_args mem_empty)) (lit ''prop_1'') = Some p \<and>
   p_idempotencyKey p = idempotencyKeyFor demo_rt (lit ''mcp_010203'') TEST_MESSAGE 60000 5"
proof -
  let ?call = "mcp_propose_call demo_rt 300 demo_server demo_oenv (demo_verify demo_claims 9000) True mem_ops
     demo_web demo_env 5 (Some (lit ''Bearer jwt'')) demo_args mem_empty"
  have "fst ?call = fst (propose_buyer_message demo_rt 300 (server_mcp_deps demo_server True (lit ''mcp_010203''))
      mem_ops demo_web demo_env 5 demo_args mem_empty)"
    by (simp add: mcp_propose_call_def demo_bearer split: prod.split)
  then obtain p where p: "mem_get (fst ?call) (lit ''prop_1'') = Some p" using demo_proposed by metis
  obtain h c snap where h: "Some (lit ''Bearer jwt'') = Some h"
    "demo_verify demo_claims 9000 (js_trim (drop 7 h)) (baseUrl demo_oenv) (resourceUrl demo_oenv) = Inr c"
    "fetchOrderSnapshot demo_web (pa_orderId demo_args) = Some (Some snap)"
    "p_idempotencyKey p = idempotencyKeyFor demo_rt (jc_client_id c) (mcp_payload demo_rt snap demo_args) 60000 5"
    using mcp_call_needs_token [OF demo_empty p] by blast
  then have "snap = FIXTURE" "jc_client_id c = lit ''mcp_010203''"
    by (auto simp: demo_fetch demo_verify_def demo_claims_def claims_for_def split: if_splits)
  with h p show ?thesis by (auto simp: demo_mcp_payload)
qed

text \<open>The audit log and the side channel are apart: what the delivery of a link code writes to the
  audit log, and whether it fails, does not depend on the code; and a delivery that returns has put
  one line, with the code, at the end of the outbox.\<close>

lemma log_independent_of_code:
  "map_option sf_diag (deliverLinkCode rt env ok d ts a i code p f) =
     map_option sf_diag (deliverLinkCode rt env ok d ts a i code' p f) \<and>
   map_option sf_outbox (deliverLinkCode rt env ok d ts a i code p f) =
     map_option (\<lambda>f'. sf_outbox f @ [json_compact (JObj (object_spread [(lit ''ts'', JStr ts)] (outbox_entry env i code p)))])
       (deliverLinkCode rt env ok d ts a i code p f)"
proof
  show "map_option sf_diag (deliverLinkCode rt env ok d ts a i code p f) =
     map_option sf_diag (deliverLinkCode rt env ok d ts a i code' p f)" by (rule deliver_diag)
  show "map_option sf_outbox (deliverLinkCode rt env ok d ts a i code p f) =
     map_option (\<lambda>f'. sf_outbox f @ [json_compact (JObj (object_spread [(lit ''ts'', JStr ts)] (outbox_entry env i code p)))])
       (deliverLinkCode rt env ok d ts a i code p f)"
    using deliver_outbox [of rt env ok d ts a i code p f]
    by (cases "deliverLinkCode rt env ok d ts a i code p f") (simp_all del: json_compact.simps)
qed

subsection \<open>The device's cookie\<close>

lemma encoded_byte_units: "b < 256 \<Longrightarrow> list_all (\<lambda>c. c < 128 \<and> c \<noteq> 59) (encoded_byte b)"
proof (cases "b < 128 \<and> uri_plain b")
  case True
  moreover have "\<not> uri_plain 59" by (simp add: uri_plain_def lit_def is_digit_def)
  ultimately show ?thesis by (auto simp: encoded_byte_def)
next
  case False
  moreover assume "b < 256"
  ultimately show ?thesis by (auto simp: encoded_byte_def upper_hex_def)
qed

lemma cookie_units:
  "list_all (\<lambda>b. b < 256) bs \<Longrightarrow> list_all (\<lambda>c. c < 128 \<and> c \<noteq> 59) (concat (map encoded_byte bs))"
  by (induction bs) (simp_all add: encoded_byte_units)

lemma code_points_bound:
  "list_all (\<lambda>c. c < 65536) s \<Longrightarrow> Some u \<in> set (code_points s) \<Longrightarrow> u < 1114112"
  by (induction s rule: code_points.induct) (auto simp: is_high_def is_low_def split: if_splits)

lemma utf8_point_bytes: "u < 1114112 \<Longrightarrow> b \<in> set (utf8_point u) \<Longrightarrow> b < 256"
  by (auto simp: utf8_point_def split: if_splits)

lemma utf8_bytes: "list_all (\<lambda>c. c < 65536) s \<Longrightarrow> list_all (\<lambda>b. b < 256) (utf8 s)"
  by (auto simp: utf8_def list_all_iff split: option.splits
      dest!: code_points_bound [unfolded list_all_iff] utf8_point_bytes)

lemma utf8_nonempty: "s \<noteq> [] \<Longrightarrow> utf8 s \<noteq> []"
proof -
  assume "s \<noteq> []"
  then have "code_points s \<noteq> []" by (cases s rule: code_points.cases) auto
  then obtain q qs where "code_points s = q # qs" by (cases "code_points s") auto
  then show ?thesis by (cases q) (auto simp: utf8_def utf8_point_def)
qed

lemma takeWhile_upto: "list_all P s \<Longrightarrow> \<not> P c \<Longrightarrow> takeWhile P (s @ c # t) = s"
  by (induction s) auto

lemma cookie_read: "list_all (\<lambda>c. c \<noteq> 59) e \<Longrightarrow> e \<noteq> [] \<Longrightarrow> cookieToken (Some (lit ''dev_op='' @ e)) = Some e"
  by (simp add: cookieToken_def or_default_def dev_op_here_def takeWhile_eq_all_conv [THEN iffD2] list_all_iff)

text \<open>C24: the device's cookie opens the device only for a token that needs no escaping: the browser that
  stored the cookie of a first visit and sends it back is let in exactly when every byte of the
  operator's token is one \<open>encodeURIComponent\<close> leaves alone; for any other token every later
  visit is answered as if there were no device.\<close>

theorem device_cookie_login:
  assumes "OPERATOR_TOKEN env \<noteq> []" "list_all (\<lambda>c. c < 65536) (OPERATOR_TOKEN env)"
    and "device_get env first f = Dev_set_cookie c"
    and "dr_query_token r = JUndef" "dr_header_token r = None" "dr_body_token r = JUndef"
    and "dr_cookie r = Some (takeWhile (\<lambda>u. u \<noteq> 59) c)"
  shows "device_get env r f =
    (if list_all (\<lambda>b. b < 128 \<and> uri_plain b) (utf8 (OPERATOR_TOKEN env)) then Dev_messages (latest (sf_outbox f))
     else Dev_not_found)"
proof -
  let ?tok = "OPERATOR_TOKEN env"
  let ?e = "concat (map encoded_byte (utf8 ?tok))"
  have units: "list_all (\<lambda>c. c < 128 \<and> c \<noteq> 59) ?e"
    by (rule cookie_units [OF utf8_bytes [OF assms(2)]])
  then have e59: "list_all (\<lambda>c. c \<noteq> 59) ?e" and e128: "list_all (\<lambda>c. c < 128) ?e"
    by (auto simp: list_all_iff)
  have ne: "?e \<noteq> []" using utf8_nonempty [OF assms(1)]
    by (cases "utf8 ?tok") (simp_all add: encoded_byte_def)
  obtain e where "encodeURIComponent ?tok = Some e" and c: "c = lit ''dev_op='' @ e @
      lit ''; HttpOnly; Secure; SameSite=Strict; Path=/demo; Max-Age=14400''"
    using assms(3) by (auto simp: device_get_def device_cookie_def split: if_splits option.splits bool.splits)
  then have e: "e = ?e" using encodeURIComponent_bytes by blast
  have "takeWhile (\<lambda>u. u \<noteq> 59) c = lit ''dev_op='' @ ?e"
  proof -
    have "list_all (\<lambda>u. u \<noteq> 59) (lit ''dev_op='' @ ?e)" using e59 by (simp add: lit_def)
    then show ?thesis using takeWhile_upto [of "\<lambda>u. u \<noteq> 59" "lit ''dev_op='' @ ?e" 59]
      by (simp add: c e lit_def)
  qed
  then have "tokenFrom r = JStr ?e"
    using assms(4-7) cookie_read [OF e59 ne] by (simp add: tokenFrom_def nullish_def)
  then have auth: "device_authorized env r = Some (utf8 ?e = utf8 ?tok)"
    by (simp add: device_authorized_def deviceAuthOk_def)
  have "utf8 ?e = ?e" by (rule utf8_ascii [OF e128])
  then show ?thesis using assms(1,4) auth encoded_same [of "utf8 ?tok"]
    by (simp add: device_get_def split: bool.split)
qed

definition demo_visit :: device_request where
  "demo_visit = \<lparr>dr_query_token = JStr (lit ''op token''), dr_header_token = None, dr_body_token = JUndef, dr_cookie = None\<rparr>"

definition demo_return :: device_request where
  "demo_return = \<lparr>dr_query_token = JUndef, dr_header_token = None, dr_body_token = JUndef,
     dr_cookie = Some (lit ''dev_op=op%20token'')\<rparr>"

definition demo_files :: server_files where
  "demo_files = \<lparr>sf_diag = [], sf_outbox = []\<rparr>"

lemma demo_operator: "OPERATOR_TOKEN demo_server = lit ''op token''"
  by (simp add: demo_server_def OPERATOR_TOKEN_def Server.or_default_def)

lemma demo_encoded: "encodeURIComponent (lit ''op token'') = Some (lit ''op%20token'')"
  by (simp add: encodeURIComponent_def utf8_def utf8_point_def uri_plain_def is_high_def is_low_def is_digit_def
      upper_hex_def lit_def)

lemma demo_set_cookie:
  "device_get demo_server demo_visit demo_files = Dev_set_cookie
     (lit ''dev_op=op%20token; HttpOnly; Secure; SameSite=Strict; Path=/demo; Max-Age=14400'')"
proof -
  have "device_authorized demo_server demo_visit = Some True"
    by (simp add: device_authorized_def demo_visit_def tokenFrom_def nullish_def deviceAuthOk_def demo_operator)
  moreover have "device_cookie demo_server = Some
      (lit ''dev_op=op%20token; HttpOnly; Secure; SameSite=Strict; Path=/demo; Max-Age=14400'')"
    by (simp add: device_cookie_def demo_operator demo_encoded) (simp add: lit_def)
  moreover have "truthy (dr_query_token demo_visit)" by (simp add: demo_visit_def)
  ultimately show ?thesis by (simp add: device_get_def demo_operator)
qed

theorem device_cookie_login_witness:
  "device_get demo_server demo_visit demo_files = Dev_set_cookie
     (lit ''dev_op=op%20token; HttpOnly; Secure; SameSite=Strict; Path=/demo; Max-Age=14400'') \<and>
   device_get demo_server demo_return demo_files = Dev_not_found"
proof
  show first: "device_get demo_server demo_visit demo_files = Dev_set_cookie
     (lit ''dev_op=op%20token; HttpOnly; Secure; SameSite=Strict; Path=/demo; Max-Age=14400'')" by (rule demo_set_cookie)
  have units: "OPERATOR_TOKEN demo_server \<noteq> []" "list_all (\<lambda>c. c < 65536) (OPERATOR_TOKEN demo_server)"
    unfolding demo_operator by (simp_all add: lit_def)
  have "\<not> list_all (\<lambda>b. b < 128 \<and> uri_plain b) (utf8 (OPERATOR_TOKEN demo_server))"
    unfolding demo_operator
    by (simp add: utf8_def utf8_point_def is_high_def is_low_def uri_plain_def is_digit_def lit_def)
  moreover have "dr_cookie demo_return = Some (takeWhile (\<lambda>u. u \<noteq> 59)
      (lit ''dev_op=op%20token; HttpOnly; Secure; SameSite=Strict; Path=/demo; Max-Age=14400''))"
    by (simp add: demo_return_def lit_def)
  moreover have "dr_query_token demo_return = JUndef" "dr_header_token demo_return = None" "dr_body_token demo_return = JUndef"
    by (simp_all add: demo_return_def)
  ultimately show "device_get demo_server demo_return demo_files = Dev_not_found"
    using device_cookie_login [OF units first, of demo_return] by simp
qed

end
