(* ===== verification/Markup.thy ===== *)
theory Markup
  imports PaymentStatus Handoff
begin

text \<open>
  What a React component returns: a list of nodes. An attribute has a text, is a flag, is a style, or
  is a handler, of which the model keeps the event it stands for (type \<open>'e\<close>). A component is a
  function from its props to nodes; \<open>null\<close>, \<open>false\<close> and \<open>undefined\<close> are the empty list, and a fragment
  is the list of its children. Keys of lists are left out.
\<close>

datatype 'e attr =
    At string ustr
  | Flag string bool
  | On string 'e
  | Style "(string \<times> ustr) list"

datatype 'e node =
    Txt ustr
  | El string "'e attr list" "'e node list"

text \<open>An attribute whose value may be \<open>undefined\<close>, and a text that may be empty, in which case \<open>x ? ... : null\<close>
  shows nothing.\<close>

definition opt_at :: "string \<Rightarrow> ustr option \<Rightarrow> 'e attr list" where
  "opt_at n v = (case v of None \<Rightarrow> [] | Some s \<Rightarrow> [At n s])"

definition opt_on :: "string \<Rightarrow> 'e option \<Rightarrow> 'e attr list" where
  "opt_on n v = (case v of None \<Rightarrow> [] | Some e \<Rightarrow> [On n e])"

lemma opt_attr_simps [simp]: "opt_at n None = []" "opt_at n (Some s) = [At n s]"
    "opt_on n None = []" "opt_on n (Some e) = [On n e]"
  by (simp_all add: opt_at_def opt_on_def)

text \<open>\<open>[a, b].filter(Boolean).join(" ")\<close>.\<close>

definition class_names :: "ustr list \<Rightarrow> ustr" where
  "class_names cs = join_with (lit '' '') (filter (\<lambda>c. c \<noteq> []) cs)"

subsection \<open>What a reader sees, and what he can do\<close>

text \<open>The text.\<close>

fun text_of :: "'e node \<Rightarrow> ustr" where
  "text_of (Txt s) = s"
| "text_of (El tag attrs kids) = concat (map text_of kids)"

definition page_text :: "'e node list \<Rightarrow> ustr" where
  "page_text ns = concat (map text_of ns)"

text \<open>The pieces the text is made of.\<close>

fun node_leaves :: "'e node \<Rightarrow> ustr list" where
  "node_leaves (Txt s) = [s]"
| "node_leaves (El tag attrs kids) = concat (map node_leaves kids)"

definition leaves_of :: "'e node list \<Rightarrow> ustr list" where
  "leaves_of ns = concat (map node_leaves ns)"

text \<open>The events a node can raise: the handlers of the elements that are not disabled.\<close>

fun handlers :: "'e attr list \<Rightarrow> 'e list" where
  "handlers [] = []"
| "handlers (On n e # as) = e # handlers as"
| "handlers (_ # as) = handlers as"

fun is_disabled :: "'e attr list \<Rightarrow> bool" where
  "is_disabled [] = False"
| "is_disabled (Flag n b # as) = (n = ''disabled'' \<and> b \<or> is_disabled as)"
| "is_disabled (_ # as) = is_disabled as"

fun node_events :: "'e node \<Rightarrow> 'e list" where
  "node_events (Txt s) = []"
| "node_events (El tag attrs kids) =
     (if is_disabled attrs then [] else handlers attrs) @ concat (map node_events kids)"

definition events_of :: "'e node list \<Rightarrow> 'e list" where
  "events_of ns = concat (map node_events ns)"

text \<open>A form is submitted through its first submit button, not while that is disabled; a button is one
  unless its type says otherwise.\<close>

fun button_type :: "'e attr list \<Rightarrow> ustr" where
  "button_type [] = lit ''submit''"
| "button_type (At n v # as) = (if n = ''type'' then v else button_type as)"
| "button_type (_ # as) = button_type as"

fun submit_flags :: "'e node \<Rightarrow> bool list" where
  "submit_flags (Txt s) = []"
| "submit_flags (El tag attrs kids) =
     (if tag = ''button'' \<and> button_type attrs = lit ''submit'' then [is_disabled attrs] else []) @
     concat (map submit_flags kids)"

definition submits_of :: "'e node list \<Rightarrow> bool list" where
  "submits_of ns = concat (map submit_flags ns)"

definition can_submit :: "'e node list \<Rightarrow> bool" where
  "can_submit kids = (case submits_of kids of [] \<Rightarrow> True | disabled # _ \<Rightarrow> \<not> disabled)"

fun node_offers :: "'e node \<Rightarrow> 'e list" where
  "node_offers (Txt s) = []"
| "node_offers (El tag attrs kids) =
     (if is_disabled attrs \<or> tag = ''form'' \<and> \<not> can_submit kids then [] else handlers attrs) @
     concat (map node_offers kids)"

definition offers :: "'e node list \<Rightarrow> 'e list" where
  "offers ns = concat (map node_offers ns)"

text \<open>The value of an attribute, and the elements with a tag.\<close>

fun attr_of :: "string \<Rightarrow> 'e attr list \<Rightarrow> ustr option" where
  "attr_of n [] = None"
| "attr_of n (At m v # as) = (if n = m then Some v else attr_of n as)"
| "attr_of n (_ # as) = attr_of n as"

fun node_attrs :: "string \<Rightarrow> string \<Rightarrow> 'e node \<Rightarrow> ustr list" where
  "node_attrs tag n (Txt s) = []"
| "node_attrs tag n (El u attrs kids) =
     (if u = tag then (case attr_of n attrs of None \<Rightarrow> [] | Some v \<Rightarrow> [v]) else []) @
     concat (map (node_attrs tag n) kids)"

definition attrs_of :: "string \<Rightarrow> string \<Rightarrow> 'e node list \<Rightarrow> ustr list" where
  "attrs_of tag n ns = concat (map (node_attrs tag n) ns)"

text \<open>A link that opens another window names no opener to it.\<close>

fun safe_node :: "'e node \<Rightarrow> bool" where
  "safe_node (Txt s) = True"
| "safe_node (El tag attrs kids) =
     ((attr_of ''target'' attrs = Some (lit ''_blank'') \<longrightarrow>
         attr_of ''rel'' attrs \<in> {Some (lit ''noreferrer''), Some (lit ''noopener noreferrer'')}) \<and>
      list_all safe_node kids)"

subsection \<open>Lists of nodes\<close>

named_theorems markup_simps "how the functions on nodes go through lists"

lemma page_text_simps [markup_simps]:
  "page_text [] = []" "page_text (n # ns) = text_of n @ page_text ns" "page_text (ns @ ms) = page_text ns @ page_text ms"
  "page_text (concat nss) = concat (map page_text nss)" "concat (map text_of ns) = page_text ns"
  by (simp_all add: page_text_def map_concat) (induction nss, simp_all add: page_text_def)

lemma leaves_of_simps [markup_simps]:
  "leaves_of [] = []" "leaves_of (n # ns) = node_leaves n @ leaves_of ns"
  "leaves_of (ns @ ms) = leaves_of ns @ leaves_of ms"
  "leaves_of (concat nss) = concat (map leaves_of nss)" "concat (map node_leaves ns) = leaves_of ns"
  by (simp_all add: leaves_of_def) (induction nss, simp_all add: leaves_of_def)

lemma page_text_leaves: "page_text ns = concat (leaves_of ns)"
proof -
  have leaf: "text_of n = concat (node_leaves n)" for n :: "'e node"
  proof (induction n)
    case (El tag attrs kids)
    then have "concat (map text_of kids) = concat (map (concat \<circ> node_leaves) kids)"
      by (induction kids) simp_all
    also have "\<dots> = concat (concat (map node_leaves kids))" by (induction kids) simp_all
    finally show ?case by simp
  qed simp
  show ?thesis by (induction ns) (simp_all add: page_text_def leaves_of_def leaf)
qed

lemma events_of_simps [markup_simps]:
  "events_of [] = []" "events_of (n # ns) = node_events n @ events_of ns"
  "events_of (ns @ ms) = events_of ns @ events_of ms"
  "events_of (concat nss) = concat (map events_of nss)" "concat (map node_events ns) = events_of ns"
  by (simp_all add: events_of_def) (induction nss, simp_all add: events_of_def)

lemma offers_simps [markup_simps]:
  "offers [] = []" "offers (n # ns) = node_offers n @ offers ns" "offers (ns @ ms) = offers ns @ offers ms"
  "offers (concat nss) = concat (map offers nss)" "concat (map node_offers ns) = offers ns"
  by (simp_all add: offers_def) (induction nss, simp_all add: offers_def)

lemma submits_of_simps [markup_simps]:
  "submits_of [] = []" "submits_of (n # ns) = submit_flags n @ submits_of ns"
  "submits_of (ns @ ms) = submits_of ns @ submits_of ms"
  "submits_of (concat nss) = concat (map submits_of nss)" "concat (map submit_flags ns) = submits_of ns"
  by (simp_all add: submits_of_def) (induction nss, simp_all add: submits_of_def)

text \<open>What a form withholds, the other reading of a page offers.\<close>

lemma offers_subset: "set (offers ns) \<subseteq> set (events_of ns)" for ns :: "'e node list"
proof -
  have node: "set (node_offers n) \<subseteq> set (node_events n)" for n :: "'e node"
    by (induction n) auto
  show ?thesis using node by (fastforce simp: offers_def events_of_def)
qed

text \<open>A part of a page whose events are named otherwise there.\<close>

lemma offers_renamed [markup_simps]: "offers (map (map_node f) ns) = map f (offers ns)" for ns :: "'e node list"
proof -
  have attrs: "handlers (map (map_attr f) as) = map f (handlers as)" "is_disabled (map (map_attr f) as) = is_disabled as"
    "button_type (map (map_attr f) as) = button_type as" for as :: "'e attr list"
    by (induction as rule: handlers.induct) simp_all
  have flags: "submit_flags (map_node f n) = submit_flags n" for n :: "'e node"
    by (induction n) (simp_all add: attrs o_def cong: map_cong)
  then have submit: "can_submit (map (map_node f) ks) = can_submit ks" for ks :: "'e node list"
    by (simp add: can_submit_def submits_of_def o_def)
  have "node_offers (map_node f n) = map f (node_offers n)" for n :: "'e node"
    by (induction n) (simp_all add: attrs submit o_def map_concat cong: map_cong)
  then show ?thesis by (simp add: offers_def o_def map_concat)
qed

lemma attrs_of_simps [markup_simps]:
  "attrs_of u n [] = []" "attrs_of u n (x # ns) = node_attrs u n x @ attrs_of u n ns"
  "attrs_of u n (ns @ ms) = attrs_of u n ns @ attrs_of u n ms"
  "attrs_of u n (concat nss) = concat (map (attrs_of u n) nss)" "concat (map (node_attrs u n) ns) = attrs_of u n ns"
  by (simp_all add: attrs_of_def) (induction nss, simp_all add: attrs_of_def)

lemma attr_append [markup_simps]:
  "handlers (as @ bs) = handlers as @ handlers bs" "is_disabled (as @ bs) \<longleftrightarrow> is_disabled as \<or> is_disabled bs"
  "handlers (opt_at n v) = []" "\<not> is_disabled (opt_at n v)"
  "handlers (opt_on n e) = (case e of None \<Rightarrow> [] | Some x \<Rightarrow> [x])" "\<not> is_disabled (opt_on n e)"
proof -
  show "handlers (opt_at n v) = []" "\<not> is_disabled (opt_at n v)"
    "handlers (opt_on n e) = (case e of None \<Rightarrow> [] | Some x \<Rightarrow> [x])" "\<not> is_disabled (opt_on n e)"
    by (simp_all add: opt_at_def opt_on_def split: option.split)
  show "handlers (as @ bs) = handlers as @ handlers bs" by (induction as rule: handlers.induct) simp_all
  show "is_disabled (as @ bs) \<longleftrightarrow> is_disabled as \<or> is_disabled bs" by (induction as rule: is_disabled.induct) auto
qed

end
