(* ===== verification/Ui.thy ===== *)
theory Ui
  imports Markup Json
begin

text \<open>
  The components the pages share, apps/web/src/components: ui/*.tsx, LanguageSwitch, NewPaymentButton,
  BrandMark, icons/Icons8Icon, InstagramInAppBanner and GoogleAuthButton, as nodes of \<open>Markup\<close>. Their
  handlers are in the theories of the pages that use them.
\<close>

subsection \<open>Amounts, headings and links\<close>

text \<open>An absent text prop is the empty text where the component only asks whether it is there.\<close>

definition amount_display ::
  "ustr \<Rightarrow> ustr \<Rightarrow> bool \<Rightarrow> ustr \<Rightarrow> 'e node list" where
  "amount_display primary secondary emphasize primaryClassName =
     [El ''div'' [At ''className'' (lit ''amount-display'')]
        ([El ''div''
            [At ''className''
               (class_names
                  [if emphasize then lit ''amount-primary tabular'' else lit ''list-row-title tabular'',
                   primaryClassName])] [Txt primary]] @
         (if secondary \<noteq> [] then
            [El ''div'' [At ''className'' (lit ''amount-secondary'')] [Txt secondary]] else []))]"

definition back_link ::
  "messages \<Rightarrow> ustr \<Rightarrow> ustr \<Rightarrow> 'e node list" where
  "back_link t href label =
     [El ''Link'' [At ''href'' href, At ''className'' (lit ''back-link'')]
        [El ''span'' [At ''className'' (lit ''back-chevron''), Flag ''aria-hidden'' True]
           [El ''svg''
              [At ''viewBox'' (lit ''0 0 24 24''), At ''width'' (lit ''18''), At ''height'' (lit ''18'')]
              [El ''path''
                 [At ''d'' (lit ''M15 6 9 12l6 6''), At ''fill'' (lit ''none''),
                  At ''stroke'' (lit ''currentColor''), At ''strokeWidth'' (lit ''2''),
                  At ''strokeLinecap'' (lit ''round''), At ''strokeLinejoin'' (lit ''round'')] []]],
         Txt (or_text label (t ''common.back''))]]"

definition empty_icon ::
  "'e node list" where
  "empty_icon =
     [El ''svg''
        [At ''className'' (lit ''empty-state-icon''), At ''viewBox'' (lit ''0 0 48 48''),
         Flag ''aria-hidden'' True]
        [El ''rect''
           [At ''x'' (lit ''8''), At ''y'' (lit ''12''), At ''width'' (lit ''32''), At ''height'' (lit ''28''),
            At ''rx'' (lit ''6''), At ''fill'' (lit ''none''), At ''stroke'' (lit ''currentColor''),
            At ''strokeWidth'' (lit ''2'')] [],
         El ''path''
           [At ''d'' (lit ''M16 20h16M16 26h10''), At ''fill'' (lit ''none''),
            At ''stroke'' (lit ''currentColor''), At ''strokeWidth'' (lit ''2''),
            At ''strokeLinecap'' (lit ''round'')] [],
         El ''circle''
           [At ''cx'' (lit ''34''), At ''cy'' (lit ''34''), At ''r'' (lit ''7''),
            At ''fill'' (lit ''var(--bg)''), At ''stroke'' (lit ''currentColor''),
            At ''strokeWidth'' (lit ''2'')] [],
         El ''path''
           [At ''d'' (lit ''M34 31v6M31 34h6''), At ''stroke'' (lit ''currentColor''),
            At ''strokeWidth'' (lit ''2''), At ''strokeLinecap'' (lit ''round'')] []]]"

definition empty_state ::
  "ustr \<Rightarrow> 'e node list \<Rightarrow> 'e node list \<Rightarrow> 'e node list" where
  "empty_state title action children =
     [El ''div'' [At ''className'' (lit ''empty-state'')]
        (empty_icon @
         (if title \<noteq> [] then
            [El ''h3'' [At ''className'' (lit ''empty-state-title'')] [Txt title]] else []) @
         [El ''div'' [At ''className'' (lit ''empty-state-body'')] children] @
         action)]"

definition error_retry ::
  "ustr \<Rightarrow> ustr \<Rightarrow> 'e option \<Rightarrow> 'e node list" where
  "error_retry message retryLabel onRetry =
     [El ''div'' [At ''className'' (lit ''page-stack''), At ''role'' (lit ''alert'')]
        ([El ''p'' [At ''className'' (lit ''field-error''), Style [(''margin'', lit ''0'')]] [Txt message]] @
         (if onRetry \<noteq> None then
            [El ''button''
               [At ''type'' (lit ''button''), At ''className'' (lit ''btn btn-secondary''),
                On ''onClick'' (the onRetry)] [Txt retryLabel]] else []))]"

definition page_header ::
  "ustr \<Rightarrow> ustr \<Rightarrow> 'e node list \<Rightarrow> 'e node list" where
  "page_header title subtitle trailing =
     [El ''header'' [At ''className'' (lit ''page-header'')]
        [El ''div'' [At ''className'' (lit ''page-header-row'')]
           ([El ''div'' []
               ([El ''h1'' [At ''className'' (lit ''page-title'')] [Txt title]] @
                (if subtitle \<noteq> [] then
                   [El ''p'' [At ''className'' (lit ''page-subtitle'')] [Txt subtitle]] else []))] @
            trailing)]]"

definition status_badge ::
  "runtime \<Rightarrow> messages \<Rightarrow> (ustr \<Rightarrow> ustr option) \<Rightarrow> ustr \<Rightarrow> 'e node list" where
  "status_badge rt t labels status =
     [El ''span'' [At ''className'' (lit ''status-plain '' @ js_lower rt status)]
        [Txt (if status = lit ''PAID'' then t ''orders.paidCheck'' else orderStatusLabel status labels)]]"

text \<open>\<open>looksLikeId\<close>: at least six hexadecimal digits, and nothing else.\<close>

definition looks_like_id ::
  "ustr \<Rightarrow> bool" where
  "looks_like_id label =
     (6 \<le> length label \<and> list_all (\<lambda>c. (48 \<le> c \<and> c \<le> 57) \<or> (65 \<le> c \<and> c \<le> 70) \<or> (97 \<le> c \<and> c \<le> 102)) label)"

definition order_list_row ::
  "runtime \<Rightarrow> messages \<Rightarrow> (ustr \<Rightarrow> ustr option) \<Rightarrow> ustr \<Rightarrow> ustr \<Rightarrow> ustr \<Rightarrow> ustr \<Rightarrow> ustr \<Rightarrow> ustr \<Rightarrow> 'e node list" where
  "order_list_row rt t labels href title amount tomanLabel status meta =
     [El ''Link'' [At ''href'' href, At ''className'' (lit ''list-row'')]
        [El ''div'' [At ''className'' (lit ''list-row-body'')]
           ([El ''div''
               [At ''className''
                  (if looks_like_id (or_text title [8212]) then
                     lit ''list-row-title mono-ltr''
                   else lit ''list-row-title'')] [Txt (or_text title [8212])],
             El ''div'' [At ''className'' (lit ''list-row-meta tabular'')]
               [Txt amount, Txt (lit '' ''), Txt tomanLabel]] @
            (if meta \<noteq> [] then
               [El ''div'' [At ''className'' (lit ''list-row-meta'')] [Txt meta]] else [])),
         El ''div'' [At ''className'' (lit ''list-row-trailing'')] (status_badge rt t labels status)]]"

subsection \<open>Placeholders\<close>

definition skeleton ::
  "ustr \<Rightarrow> ustr \<Rightarrow> ustr \<Rightarrow> 'e node list" where
  "skeleton height width className =
     [El ''div'' [At ''className'' (lit ''skeleton '' @ className), Style [(''height'', height), (''width'', width)],
        Flag ''aria-hidden'' True] []]"

definition skeleton_rows ::
  "nat \<Rightarrow> 'e node list" where
  "skeleton_rows count =
     [El ''div''
        [At ''className'' (lit ''list-group''), At ''aria-busy'' (lit ''true''),
         At ''aria-label'' (lit ''Loading'')]
        (concat
           (map
              (\<lambda>i.
                 [El ''div'' [At ''className'' (lit ''list-row''), Style [(''cursor'', lit ''default'')]]
                    [El ''div''
                       [At ''className'' (lit ''list-row-body''),
                        Style [(''gap'', lit ''0.45rem''), (''width'', lit ''100%'')]]
                       ((skeleton (lit ''1rem'') (lit ''55%'') []) @
                        (skeleton (lit ''0.75rem'') (lit ''35%'') []))]]) [0..<count]))]"

definition skeleton_stats ::
  "'e node list" where
  "skeleton_stats =
     [El ''div'' [At ''className'' (lit ''stat-grid''), At ''aria-busy'' (lit ''true'')]
        ((concat
            (map
               (\<lambda>i.
                  [El ''div'' [At ''className'' (lit ''stat'')]
                     ((skeleton (lit ''0.7rem'') (lit ''40%'') []) @
                      [El ''div'' [Style [(''marginTop'', lit ''0.5rem'')]]
                         (skeleton (lit ''1.4rem'') (lit ''50%'') [])])]) [0..<4::nat])) @
         [El ''div'' [At ''className'' (lit ''stat wide'')]
            ((skeleton (lit ''0.7rem'') (lit ''30%'') []) @
             [El ''div'' [Style [(''marginTop'', lit ''0.5rem'')]]
                (skeleton (lit ''1.4rem'') (lit ''20%'') [])])])]"

subsection \<open>Controls and dialogs\<close>

text \<open>A control is given the event it raises; a control over options, a function to events.\<close>

definition segmented_control ::
  "ustr \<Rightarrow> (ustr \<times> ustr) list \<Rightarrow> (ustr \<Rightarrow> 'e) \<Rightarrow> ustr \<Rightarrow> 'e node list" where
  "segmented_control value options onChange ariaLabel =
     [El ''div''
        [At ''className'' (lit ''segmented''), At ''role'' (lit ''tablist''), At ''aria-label'' ariaLabel]
        (concat
           (map
              (\<lambda>opt.
                 [El ''button''
                    [At ''type'' (lit ''button''), At ''role'' (lit ''tab''),
                     Flag ''aria-selected'' (value = fst opt),
                     At ''className'' (if value = fst opt then lit ''active'' else []),
                     On ''onClick'' (onChange (fst opt))] [Txt (snd opt)]]) options))]"

definition sheet_frame ::
  "bool \<Rightarrow> 'e \<Rightarrow> ustr \<Rightarrow> ustr option \<Rightarrow> 'e node list \<Rightarrow> 'e node list" where
  "sheet_frame shown onClose title labelledBy children =
     (if \<not> shown then [] else
     [El ''div''
        ([At ''className'' (lit ''install-sheet-root''), At ''role'' (lit ''dialog''),
          At ''aria-modal'' (lit ''true'')] @
         (opt_at ''aria-labelledby'' labelledBy) @
         (opt_at ''aria-label'' (if labelledBy \<in> {None, Some []} then Some title else None)))
        [El ''button''
           [At ''type'' (lit ''button''), At ''className'' (lit ''install-sheet-backdrop''),
            At ''aria-label'' (lit ''Close''), On ''onClick'' onClose] [],
         El ''div'' [At ''className'' (lit ''install-sheet'')]
           ([El ''div'' [At ''className'' (lit ''install-sheet-handle''), Flag ''aria-hidden'' True] []] @
            (if title \<noteq> [] then
               [El ''h2'' ((opt_at ''id'' labelledBy) @ [At ''className'' (lit ''install-sheet-title'')])
                  [Txt title]] else []) @
            children)]])"

text \<open>The key handler that is there while the sheet, or the dialog, is open.\<close>

definition escape_key ::
  "bool \<Rightarrow> 'e \<Rightarrow> ustr \<Rightarrow> 'e option" where
  "escape_key shown onClose key =
     (if shown \<and> key = lit ''Escape'' then Some onClose else None)"

definition alert_dialog ::
  "bool \<Rightarrow> ustr \<Rightarrow> 'e node list \<Rightarrow> ustr \<Rightarrow> ustr \<Rightarrow> bool \<Rightarrow> 'e \<Rightarrow> 'e \<Rightarrow> 'e node list" where
  "alert_dialog shown title body confirmLabel cancelLabel destructive onConfirm onCancel =
     (if \<not> shown then [] else
     [El ''div''
        [At ''className'' (lit ''dialog-root''), At ''role'' (lit ''alertdialog''),
         At ''aria-modal'' (lit ''true''), At ''aria-labelledby'' (lit ''alert-dialog-title'')]
        [El ''button''
           [At ''type'' (lit ''button''), At ''className'' (lit ''install-sheet-backdrop''),
            Flag ''aria-hidden'' True, On ''onClick'' onCancel] [],
         El ''div'' [At ''className'' (lit ''dialog-panel'')]
           ([El ''h2'' [At ''id'' (lit ''alert-dialog-title''), At ''className'' (lit ''dialog-title'')]
               [Txt title]] @
            (if body \<noteq> [] then [El ''div'' [At ''className'' (lit ''dialog-body'')] body] else []) @
            [El ''div'' [At ''className'' (lit ''cta-stack dialog-actions'')]
               [El ''button''
                  [At ''type'' (lit ''button''),
                   At ''className''
                     (if destructive then lit ''btn btn-destructive'' else lit ''btn btn-primary''),
                   On ''onClick'' onConfirm] [Txt confirmLabel],
                El ''button''
                  [At ''type'' (lit ''button''), At ''className'' (lit ''btn btn-secondary''),
                   On ''onClick'' onCancel] [Txt cancelLabel]]])]])"

definition wallet_address ::
  "messages \<Rightarrow> ustr \<Rightarrow> bool \<Rightarrow> 'e \<Rightarrow> 'e node list" where
  "wallet_address t address showCopy copy_event =
     [El ''div'' [Style [(''display'', lit ''grid''), (''gap'', lit ''0.65rem'')]]
        ([El ''code'' [At ''className'' (lit ''wallet-addr mono-ltr'')] [Txt address]] @
         (if showCopy then
            [El ''button''
               [At ''type'' (lit ''button''), At ''className'' (lit ''btn btn-secondary''),
                On ''onClick'' copy_event] [Txt (t ''common.copy'')]] else []))]"

definition wallet_address_copy ::
  "messages \<Rightarrow> bool \<Rightarrow> ustr option" where
  "wallet_address_copy t taken =
     (if taken then Some (t ''common.copied'') else None)"

definition language_switch ::
  "messages \<Rightarrow> ustr \<Rightarrow> ustr \<Rightarrow> (ustr \<Rightarrow> 'e) \<Rightarrow> 'e node list" where
  "language_switch t locale className setLocale =
     [El ''div''
        [At ''className'' (lit ''lang-switch '' @ className), At ''role'' (lit ''group''),
         At ''aria-label'' (t ''settings.language'')]
        (concat
           (map
              (\<lambda>code.
                 [El ''button''
                    [At ''type'' (lit ''button''),
                     At ''className'' (if locale = code then lit ''active'' else []),
                     On ''onClick'' (setLocale code), Flag ''aria-pressed'' (locale = code)]
                    (if code = lit ''en'' then [Txt (lit ''EN'')] else [Txt ([1601, 1575])])])
              (map lit [''en'', ''fa''])))]"

definition new_payment_button ::
  "messages \<Rightarrow> ustr \<Rightarrow> bool \<Rightarrow> 'e node list" where
  "new_payment_button t className compact =
     (if compact then
     [El ''Link''
        [At ''className'' (lit ''header-plus''), At ''href'' (lit ''/app/create''),
         At ''aria-label'' (t ''home.newOrder'')] [Txt (lit ''+'')]]
      else
     [El ''Link'' [At ''className'' className, At ''href'' (lit ''/app/create'')] [Txt (t ''home.newOrder'')]])"

text \<open>The size of the word is 0.72 of the size of the mark; as a parameter, the number as a text.\<close>

definition brand_ink ::
  "string \<Rightarrow> ustr" where
  "brand_ink tone =
     (if tone = ''onDark'' \<or> tone = ''mono'' then lit ''#F4F7F5'' else lit ''#0B1F1A'')"

definition brand_accent ::
  "string \<Rightarrow> ustr" where
  "brand_accent tone =
     (if tone = ''mono'' then brand_ink tone else lit ''#0F8F6B'')"

definition brand_mark ::
  "(nat \<Rightarrow> ustr) \<Rightarrow> string \<Rightarrow> string \<Rightarrow> ustr \<Rightarrow> ustr \<Rightarrow> nat \<Rightarrow> 'e node list" where
  "brand_mark word_size variant tone localeHint className sz =
     (if variant = ''mark'' then
     [El ''svg''
        [At ''className'' className, At ''width'' (dec sz), At ''height'' (dec sz),
         At ''viewBox'' (lit ''0 0 64 64''), Flag ''aria-hidden'' True, At ''role'' (lit ''img'')]
        [El ''rect''
           [At ''width'' (lit ''64''), At ''height'' (lit ''64''), At ''rx'' (lit ''16''),
            At ''fill'' (brand_accent tone)] [],
         El ''path''
           [At ''d''
              (lit ''M18 42V22h14.5c6.2 0 10.2 3.5 10.2 9.1S38.7 40.2 32.5'' @
               lit '' 40.2H26V42H18zm8-9.2h5.8c2.6 0 4.1-1.3 4.1-3.7s-1.5-3.7-4.1-3.7H26v7.4z''),
            At ''fill'' (lit ''#fff'')] []]]
      else
     [El ''span''
        [At ''className'' (lit ''brand-lockup '' @ className),
         Style [(''display'', lit ''inline-flex''), (''alignItems'', lit ''center''), (''gap'', lit ''10'')]]
        ([El ''svg''
            [At ''width'' (dec sz), At ''height'' (dec sz), At ''viewBox'' (lit ''0 0 64 64''),
             Flag ''aria-hidden'' True]
            [El ''rect''
               [At ''width'' (lit ''64''), At ''height'' (lit ''64''), At ''rx'' (lit ''16''),
                At ''fill'' (brand_accent tone)] [],
             El ''path''
               [At ''d''
                  (lit ''M18 42V22h14.5c6.2 0 10.2 3.5 10.2 9.1S38.7 40.2 32.5'' @
                   lit '' 40.2H26V42H18zm8-9.2h5.8c2.6 0 4.1-1.3 4.1-3.7s-1.5-3.7-4.1-3.7H26v7.4z''),
                At ''fill'' (lit ''#fff'')] []]] @
         (if variant = ''full'' \<or> variant = ''wordmark'' then
            [El ''span''
               [At ''className'' (lit ''brand-word''),
                Style
                  [(''color'', brand_ink tone), (''fontWeight'', lit ''700''), (''fontSize'', word_size sz),
                   (''letterSpacing'', lit ''-0.03em'')]]
               [Txt (if localeHint = lit ''fa'' then [1662, 1608, 1604, 1740] else lit ''Pooli'')]] else []))])"

definition icons8_icon ::
  "ustr \<Rightarrow> ustr \<Rightarrow> ustr \<Rightarrow> bool \<Rightarrow> 'e node list" where
  "icons8_icon name sz className decorative =
     [El ''Image''
        [At ''src'' (lit ''/icons/icons8/'' @ name @ lit ''.png''),
         At ''alt'' (if decorative then [] else name),
         At ''width''
           (if sz = lit ''sm'' then lit ''20'' else if sz = lit ''md'' then lit ''24'' else lit ''32''),
         At ''height''
           (if sz = lit ''sm'' then lit ''20'' else if sz = lit ''md'' then lit ''24'' else lit ''32''),
         At ''className'' (js_trim (lit ''icons8-icon icons8-icon-'' @ sz @ lit '' '' @ className)),
         Flag ''aria-hidden'' decorative] []]"

subsection \<open>Banners and the Google button\<close>

text \<open>The banner of a page that was opened inside Instagram or Facebook: shown after the effect has read
  the user agent.\<close>

definition ig_shown ::
  "runtime \<Rightarrow> ustr \<Rightarrow> bool" where
  "ig_shown rt ua =
     (be_inAppKind (detectBrowserEnv rt ua) = Some Iab_instagram \<or> has_word_i ua [''fban'', ''fbav'', ''fb_iab''])"

definition ig_banner ::
  "messages \<Rightarrow> bool \<Rightarrow> 'e \<Rightarrow> 'e \<Rightarrow> 'e node list" where
  "ig_banner t shown openExternal copyLink =
     (if \<not> shown then [] else
     [El ''div'' [At ''className'' (lit ''ig-inapp-banner''), At ''role'' (lit ''alert'')]
        [El ''p'' [Style [(''margin'', lit ''0''), (''fontWeight'', lit ''650'')]]
           [Txt (t ''checkout.igBannerTitle'')],
         El ''div'' [At ''className'' (lit ''cta-stack''), Style [(''marginTop'', lit ''var(--space-3)'')]]
           [El ''button''
              [At ''type'' (lit ''button''), At ''className'' (lit ''btn btn-primary''),
               On ''onClick'' openExternal] [Txt (t ''checkout.openInBrowser'')],
            El ''button''
              [At ''type'' (lit ''button''), At ''className'' (lit ''btn btn-secondary''),
               On ''onClick'' copyLink] [Txt (t ''checkout.igBannerCopy'')]]]])"

definition ig_copy ::
  "messages \<Rightarrow> bool \<Rightarrow> ustr" where
  "ig_copy t taken =
     (if taken then t ''common.copied'' else t ''common.error'')"

definition google_glyph ::
  "'e node list" where
  "google_glyph =
     [El ''svg''
        [At ''width'' (lit ''18''), At ''height'' (lit ''18''), At ''viewBox'' (lit ''0 0 48 48''),
         Flag ''aria-hidden'' True]
        [El ''path''
           [At ''fill'' (lit ''#FFC107''),
            At ''d''
              (lit ''M43.6 20.5H42V20H24v8h11.3C33.7 32.7 29.3 36 24 36c-6.6 0-12-5.4-12-12s5.4-12'' @
               lit '' 12-12c3.1 0 5.9 1.2 8 3.1l5.7-5.7C34.2 6.1 29.4 4 24 4 12.9 4 4 12.9 4'' @
               lit '' 24s8.9 20 20 20 20-8.9 20-20c0-1.2-.1-2.3-.4-3.5z'')] [],
         El ''path''
           [At ''fill'' (lit ''#FF3D00''),
            At ''d''
              (lit ''M6.3 14.7l6.6 4.8C14.7 16 19 12 24 12c3.1 0 5.9 1.2 8 3.1l5.7-5.7C34.2 6.1'' @
               lit '' 29.4 4 24 4 16.3 4 9.6 8.3 6.3 14.7z'')] [],
         El ''path''
           [At ''fill'' (lit ''#4CAF50''),
            At ''d''
              (lit ''M24 44c5.2 0 10-2 13.6-5.2l-6.3-5.3C29.3 35.3 26.8 36 24 36c-5.3'' @
               lit '' 0-9.7-3.3-11.3-7.9l-6.5 5C9.5 39.6 16.2 44 24 44z'')] [],
         El ''path''
           [At ''fill'' (lit ''#1976D2''),
            At ''d''
              (lit ''M43.6 20.5H42V20H24v8h11.3c-.8 2.2-2.3 4.1-4.1 5.5l.1.1 6.3 5.3C39.1 37.2 44'' @
               lit '' 32 44 24c0-1.2-.1-2.3-.4-3.5z'')] []]]"

text \<open>The button is there until the providers were read and Google is not among them; \<open>None\<close> is an
  answer that failed, is refused or is \<open>null\<close>.\<close>

definition google_enabled ::
  "bool \<Rightarrow> jval option \<Rightarrow> bool \<Rightarrow> bool" where
  "google_enabled cancelled answer enabled =
     (case answer of None \<Rightarrow> enabled
      | Some d \<Rightarrow> if cancelled \<or> d = JNull then enabled else truthy (prop_of d (lit ''google'')))"

definition google_button ::
  "messages \<Rightarrow> bool \<Rightarrow> bool \<Rightarrow> 'e node list" where
  "google_button t login_mode enabled =
     (if \<not> enabled then [] else
     [El ''a'' [At ''className'' (lit ''btn btn-google''), At ''href'' (lit ''/api/v1/auth/google/start'')]
        (google_glyph @ [Txt (if login_mode then t ''continueWithGoogle'' else t ''signUpWithGoogle'')]),
      El ''div''
        [At ''className'' (lit ''auth-divider''), At ''role'' (lit ''separator''),
         At ''aria-label'' (t ''orContinueWith'')] [El ''span'' [] [Txt (t ''orContinueWith'')]]])"

subsection \<open>What the components show and offer\<close>

text \<open>A dialog offers to confirm, and twice to leave; a sheet that is not shown offers nothing.\<close>

lemma alert_dialog_events:
  "events_of (alert_dialog shown title body c k d onConfirm onCancel) =
     (if shown then onCancel # events_of body @ [onConfirm, onCancel] else [])"
  by (simp add: alert_dialog_def markup_simps)

lemma sheet_frame_events:
  "events_of (sheet_frame shown onClose title l children) = (if shown then onClose # events_of children else [])"
  by (simp add: sheet_frame_def markup_simps)

lemma segmented_events: "events_of (segmented_control v options f a) = map (f \<circ> fst) options"
  by (induction options) (simp_all add: segmented_control_def markup_simps)

text \<open>A control over options shows their labels.\<close>

lemma segmented_text: "page_text (segmented_control v options f a) = concat (map snd options)"
  by (induction options) (simp_all add: segmented_control_def markup_simps)

lemma language_events: "events_of (language_switch t l c f) = [f (lit ''en''), f (lit ''fa'')]"
  by (simp add: language_switch_def markup_simps)

lemma amount_text: "page_text (amount_display p s e c) = p @ s"
  by (simp add: amount_display_def markup_simps)

text \<open>Placeholders and icons show no text and offer nothing.\<close>

lemma skeleton_silent:
  "page_text (skeleton_rows n) = []" "events_of (skeleton_rows n) = []" "page_text (skeleton h w c) = []"
  "events_of (skeleton h w c) = []" "events_of (brand_mark ws v tn l c z) = []"
  by (simp_all add: skeleton_rows_def skeleton_def brand_mark_def markup_simps)

text \<open>What the components offer where forms can withhold.\<close>

lemma parts_offer [markup_simps]:
  "offers (amount_display primary second emphasize c) = []" "offers (back_link t href label) = []"
  "offers (empty_state title action children) = offers children @ offers action"
  "offers (error_retry m l onRetry) = (case onRetry of None \<Rightarrow> [] | Some e \<Rightarrow> [e])"
  "offers (page_header title second right) = offers right" "offers (status_badge rt t labels status) = []"
  "offers (order_list_row rt t labels href title amount toman status meta) = []"
  "offers (skeleton height width c) = []" "offers (skeleton_rows n) = []"
  "offers (segmented_control chosen opts f a) = map (\<lambda>opt. f (fst opt)) opts"
  "offers (sheet_frame shown onClose title ident children) = (if shown then onClose # offers children else [])"
  "offers (alert_dialog shown title body k l d onConfirm onCancel) =
     (if shown then onCancel # offers body @ [onConfirm, onCancel] else [])"
  "offers (language_switch t locale c f) = [f (lit ''en''), f (lit ''fa'')]"
  "offers (new_payment_button t c compact) = []" "offers (brand_mark ws variant tone hint c z) = []"
  "offers (google_button t login enabled) = []"
proof -
  show "offers (empty_state title action children) = offers children @ offers action"
    by (simp add: empty_state_def empty_icon_def markup_simps)
  show "offers (skeleton_rows n) = []" by (simp add: skeleton_rows_def skeleton_def markup_simps)
qed (simp_all add: amount_display_def back_link_def error_retry_def page_header_def status_badge_def
    order_list_row_def skeleton_def segmented_control_def sheet_frame_def alert_dialog_def language_switch_def
    new_payment_button_def brand_mark_def google_button_def google_glyph_def markup_simps o_def
    split: prod.split option.split)

end
