(* ===== verification/Checkout.thy ===== *)
theory Checkout
  imports WebMisc
begin

text \<open>
  The checkout page, apps/web/src/components/checkout/CheckoutClient.tsx: what the page holds, the
  step it is at, the option it shows, and its handlers.

  The component's state is the record \<open>checkout\<close>. Between two awaits a handler runs to its end, so
  each handler is cut at its awaits, and the events \<open>checkout_event\<close> are the pieces: an answer or
  a failure of the API, the start of a request, the effects that run after rendering. The reference
  \<open>selectedRef\<close> equals the state \<open>selected\<close> whenever a piece begins, so one field stands for both.
  \<open>co_tracked\<close> and \<open>co_requests\<close> log what is reported to analytics and which networks are asked of
  the server, \<open>True\<close> where the page asked by itself.
\<close>

record matched_tx =
  mt_tx_hash :: "ustr option"
  mt_explorer_url :: "ustr option"
  mt_confirmations :: "nat option"
  mt_required_confirmations :: "nat option"

record payment_intent =
  pi_id :: ustr
  pi_status :: ustr
  pi_expires_at :: "ustr option"
  pi_options :: "payment_option list option"
  pi_matched_tx :: "matched_tx option"

record checkout_field =
  cf_key :: ustr
  cf_label :: ustr
  cf_type :: ustr
  cf_required :: bool
  cf_options :: "ustr list option"

record pay_receipt =
  rc_usdt_amount :: "ustr option"
  rc_received_usdt_amount :: "ustr option"
  rc_network :: "ustr option"
  rc_tx_hash :: "ustr option"
  rc_explorer_url :: "ustr option"
  rc_order_reference :: "ustr option"
  rc_paid_at :: "ustr option"
  rc_success_message :: "ustr option"

record pay =
  py_store_name :: ustr
  py_title :: ustr
  py_fiat_amount_toman :: "nat option"
  py_amount_usdt_base_units :: "nat option"
  py_fiat_currency :: "ustr option"
  py_status :: ustr
  py_customer_submitted :: bool
  py_fields :: "checkout_field list"
  py_payment_intent :: "payment_intent option"
  py_fulfillment_status :: "ustr option"
  py_shipping_provider :: "ustr option"
  py_tracking_number :: "ustr option"
  py_receipt :: "pay_receipt option"
  py_enabled_networks :: "ustr list option"
  py_success_message :: "ustr option"
  py_store_logo_url :: ustr
  py_checkout_accent :: ustr

datatype step = Step_details | Step_network | Step_pay

subsection \<open>Options\<close>

definition intent_options :: "payment_intent option \<Rightarrow> payment_option list" where
  "intent_options intent = (case intent of None \<Rightarrow> [] | Some i \<Rightarrow> (case pi_options i of None \<Rightarrow> [] | Some os \<Rightarrow> os))"

definition status_is :: "string \<Rightarrow> payment_option \<Rightarrow> bool" where
  "status_is s opt \<longleftrightarrow> op_status opt = Some (lit s)"

definition no_status :: "payment_option \<Rightarrow> bool" where
  "no_status opt \<longleftrightarrow> op_status opt = None \<or> op_status opt = Some []"

definition activeOptions :: "payment_intent option \<Rightarrow> payment_option list" where
  "activeOptions intent =
     (let opts = intent_options intent;
          active = filter (\<lambda>opt. no_status opt \<or> status_is ''ACTIVE'' opt) opts
      in if active \<noteq> [] then active else opts)"

text \<open>\<open>a || b\<close> on results of \<open>find\<close>.\<close>

definition or_option :: "'a option \<Rightarrow> 'a option \<Rightarrow> 'a option" where
  "or_option a b = (if a = None then b else a)"

definition hydrateOption :: "storage \<Rightarrow> payment_intent option \<Rightarrow> payment_option option" where
  "hydrateOption prefs intent =
     (let opts = intent_options intent
      in if opts = [] then None
         else let usable = filter (\<lambda>opt. \<not> status_is ''SUPERSEDED'' opt) opts;
                  pool = (if usable \<noteq> [] then usable else opts);
                  byPref = (case getPreferredNetwork prefs of None \<Rightarrow> None
                    | Some pref \<Rightarrow> or_option
                        (find (\<lambda>opt. op_network opt = pref \<and>
                           (status_is ''SETTLED'' opt \<or> status_is ''ACTIVE'' opt \<or> no_status opt)) pool)
                        (find (\<lambda>opt. op_network opt = pref) pool))
           in or_option byPref
                (or_option (find (status_is ''SETTLED'') pool)
                   (or_option (find (\<lambda>opt. status_is ''ACTIVE'' opt \<or> no_status opt) pool)
                      (case pool of [] \<Rightarrow> None | opt # _ \<Rightarrow> Some opt))))"

subsection \<open>The state\<close>

record checkout =
  co_pay :: "pay option"
  co_step :: step
  co_selected :: "payment_option option"
  co_error :: ustr
  co_checkingPayment :: bool
  co_refreshingQuote :: bool
  co_autoSelect :: bool
  co_prevStatus :: "ustr option"
  co_pending :: bool
  co_lastAt :: int
  co_returnMount :: nat
  co_prefs :: storage
  co_tracked :: "(ustr \<times> (ustr \<times> analytics_value) list) list"
  co_requests :: "(bool \<times> ustr) list"

definition new_checkout :: "storage \<Rightarrow> checkout" where
  "new_checkout prefs = \<lparr>co_pay = None, co_step = Step_details, co_selected = None, co_error = [],
     co_checkingPayment = False, co_refreshingQuote = False, co_autoSelect = False,
     co_prevStatus = None, co_pending = False, co_lastAt = 0, co_returnMount = 0, co_prefs = prefs, co_tracked = [],
     co_requests = []\<rparr>"

definition data_status :: "pay \<Rightarrow> ustr option" where
  "data_status d = map_option pi_status (py_payment_intent d)"

text \<open>\<open>st === "PAID" || moneyDetected(st)\<close>.\<close>

definition money_seen :: "ustr option \<Rightarrow> bool" where
  "money_seen st \<longleftrightarrow> st = Some (lit ''PAID'') \<or> moneyDetected st"

text \<open>\<open>pay?.payment_intent?.status || pay?.status\<close>.\<close>

definition intentStatus :: "checkout \<Rightarrow> ustr option" where
  "intentStatus c = (case co_pay c of None \<Rightarrow> None
     | Some d \<Rightarrow> (case data_status d of None \<Rightarrow> Some (py_status d)
         | Some s \<Rightarrow> if s \<noteq> [] then Some s else Some (py_status d)))"

definition resolveStep :: "payment_option option \<Rightarrow> pay \<Rightarrow> step" where
  "resolveStep selectedRef d =
     (if py_fields d \<noteq> [] \<and> \<not> py_customer_submitted d then Step_details
      else if money_seen (data_status d) then Step_pay
      else if selectedRef \<noteq> None then Step_pay
      else Step_network)"

definition track_event :: "string \<Rightarrow> (ustr \<times> analytics_value) list \<Rightarrow> checkout \<Rightarrow> checkout" where
  "track_event e props c = c\<lparr>co_tracked := co_tracked c @ [(lit e, clean_props props)]\<rparr>"

definition network_prop :: "payment_option option \<Rightarrow> (ustr \<times> analytics_value) list" where
  "network_prop opt = [(lit ''network'', case opt of None \<Rightarrow> Av_absent | Some o1 \<Rightarrow> Av_text (op_network o1))]"

subsection \<open>Loading\<close>

text \<open>What \<open>load\<close> selects: the same option, or one of its network, or, when nothing is selected
  and money was seen, the one that can still be explained.\<close>

definition load_selects :: "checkout \<Rightarrow> pay \<Rightarrow> payment_option option" where
  "load_selects c d =
     (let opts = intent_options (py_payment_intent d)
      in case co_selected c of
           Some s \<Rightarrow> or_option (or_option (find (\<lambda>opt. op_id opt = op_id s) opts)
             (or_option (find (\<lambda>opt. op_network opt = op_network s \<and> \<not> status_is ''SUPERSEDED'' opt) opts)
                (find (\<lambda>opt. op_network opt = op_network s) opts))) (Some s)
         | None \<Rightarrow> if money_seen (data_status d) then hydrateOption (co_prefs c) (py_payment_intent d) else None)"

definition load_answer :: "pay \<Rightarrow> checkout \<Rightarrow> checkout" where
  "load_answer d c =
     (let sel = load_selects c d;
          stp = (if co_step c = Step_pay \<and> sel \<noteq> None then Step_pay else resolveStep sel d)
      in c\<lparr>co_pay := Some d, co_selected := sel,
           co_step := (if money_seen (data_status d) then Step_pay else stp)\<rparr>)"

text \<open>The first load: its answer is reported, its failure shown.\<close>

definition first_answer :: "pay \<Rightarrow> checkout \<Rightarrow> checkout" where
  "first_answer d c = track_event ''checkout_opened''
     [(lit ''status'', Av_text (case data_status d of None \<Rightarrow> py_status d
        | Some s \<Rightarrow> if s \<noteq> [] then s else py_status d))] (load_answer d c)"

definition show_error :: "ustr \<Rightarrow> checkout \<Rightarrow> checkout" where
  "show_error m c = c\<lparr>co_error := m\<rparr>"

subsection \<open>Effects\<close>

definition exception_statuses :: "ustr list" where
  "exception_statuses = map lit [''EXPIRED'', ''UNDERPAID'', ''OVERPAID'', ''LATE_PAYMENT'', ''NEEDS_REVIEW'',
     ''DUPLICATE_PAYMENT'']"

text \<open>The effect on \<open>intentStatus\<close>.\<close>

definition status_effect :: "checkout \<Rightarrow> checkout" where
  "status_effect c =
     (let st = intentStatus c; prev = co_prevStatus c; c0 = c\<lparr>co_prevStatus := st\<rparr>;
          had = (prev \<noteq> None \<and> prev \<noteq> Some []);
          c1 = (if st = Some (lit ''SEEN'') \<and> had \<and> prev \<noteq> Some (lit ''SEEN'')
            then track_event ''payment_detected'' (network_prop (co_selected c)) c0 else c0);
          c2 = (if st = Some (lit ''PAID'') \<and> had \<and> prev \<noteq> Some (lit ''PAID'')
            then track_event ''payment_confirmed'' (network_prop (co_selected c)) c1 else c1)
      in if st \<noteq> None \<and> the st \<in> set exception_statuses \<and> prev \<noteq> st
         then track_event ''payment_exception'' [(lit ''status'', Av_text (the st))] c2 else c2)"

definition enabled_pair :: "pay \<Rightarrow> ustr list" where
  "enabled_pair d = filter (\<lambda>n. n = lit ''tron'' \<or> n = lit ''bsc'')
     (case py_enabled_networks d of None \<Rightarrow> [lit ''tron''] | Some ns \<Rightarrow> ns)"

text \<open>The network the effect on \<open>[pay, step]\<close> chooses by itself.\<close>

definition auto_pick :: "checkout \<Rightarrow> ustr option" where
  "auto_pick c =
     (case co_pay c of None \<Rightarrow> None
      | Some d \<Rightarrow>
          (if co_autoSelect c \<or> co_step c \<noteq> Step_network \<or> money_seen (data_status d) then None
           else (let nets = enabled_pair d; pref = getPreferredNetwork (co_prefs c)
             in if length nets = 1 then Some (hd nets)
                else case pref of None \<Rightarrow> None | Some n \<Rightarrow> if n \<in> set nets then Some n else None)))"

subsection \<open>Handlers\<close>

definition choose_begin :: "bool \<Rightarrow> ustr \<Rightarrow> checkout \<Rightarrow> checkout" where
  "choose_begin auto n c = c\<lparr>co_error := [], co_requests := co_requests c @ [(auto, n)]\<rparr>"

definition auto_effect :: "checkout \<Rightarrow> checkout" where
  "auto_effect c = (case auto_pick c of None \<Rightarrow> c
     | Some n \<Rightarrow> choose_begin True n (c\<lparr>co_autoSelect := True\<rparr>))"

text \<open>The answer of \<open>select-network\<close>; the load that follows is a \<open>load_answer\<close>.\<close>

definition choose_answer :: "ustr \<Rightarrow> payment_option \<Rightarrow> checkout \<Rightarrow> checkout" where
  "choose_answer n opt c =
     track_event ''network_selected'' [(lit ''network'', Av_text n)]
       (c\<lparr>co_selected := Some opt, co_prefs := setPreferredNetwork n (co_prefs c), co_step := Step_pay\<rparr>)"

definition submit_begin :: "checkout \<Rightarrow> checkout" where
  "submit_begin c = c\<lparr>co_error := []\<rparr>"

text \<open>The values the form sends: one entry for each field, empty where the form has none; a later
  field with the same key replaces the value.\<close>

definition submit_values :: "(ustr \<Rightarrow> ustr option) \<Rightarrow> pay \<Rightarrow> (ustr \<rightharpoonup> ustr)" where
  "submit_values form d = map_of (map (\<lambda>f. (cf_key f, case form (cf_key f) of None \<Rightarrow> [] | Some v \<Rightarrow> v)) (py_fields d))"

text \<open>After the details were stored and loaded again.\<close>

definition submit_done :: "checkout \<Rightarrow> checkout" where
  "submit_done c = c\<lparr>co_step := Step_network\<rparr>"

definition refresh_begin :: "checkout \<Rightarrow> checkout" where
  "refresh_begin c = c\<lparr>co_refreshingQuote := True, co_error := []\<rparr>"

definition refresh_selects :: "checkout \<Rightarrow> pay \<Rightarrow> payment_option option" where
  "refresh_selects c d =
     (let opts = activeOptions (py_payment_intent d);
          first = (case opts of [] \<Rightarrow> None | opt # _ \<Rightarrow> Some opt);
          chosen = (case co_selected c of None \<Rightarrow> [] | Some s \<Rightarrow> op_network s);
          net = (if chosen \<noteq> [] then Some chosen
                 else case getPreferredNetwork (co_prefs c) of Some n \<Rightarrow> Some n
                   | None \<Rightarrow> map_option op_network first)
      in or_option (find (\<lambda>opt. Some (op_network opt) = net) opts) first)"

definition refresh_answer :: "pay \<Rightarrow> checkout \<Rightarrow> checkout" where
  "refresh_answer d c =
     (let next = refresh_selects c d
      in (track_event ''quote_refreshed'' (network_prop next)
           (c\<lparr>co_pay := Some d, co_selected := next,
              co_step := (if next \<noteq> None then Step_pay else co_step c)\<rparr>))\<lparr>co_refreshingQuote := False\<rparr>)"

definition refresh_failed :: "ustr \<Rightarrow> checkout \<Rightarrow> checkout" where
  "refresh_failed m c = c\<lparr>co_error := m, co_refreshingQuote := False\<rparr>"

text \<open>\<open>onReturn\<close>, up to its await, and the end of its timer; the effect starts anew for another
  intent, with variables of its own. The timer of an \<open>onReturn\<close> that an earlier run of the effect
  started (\<open>mount\<close> is not the present one) resets the flag of that run, which nobody reads.\<close>

definition return_begin :: "bool \<Rightarrow> bool \<Rightarrow> int \<Rightarrow> checkout \<Rightarrow> checkout" where
  "return_begin showChecking hidden now c =
     (if co_pending c then c
      else if (case co_pay c of None \<Rightarrow> True
        | Some d \<Rightarrow> (case py_payment_intent d of None \<Rightarrow> True | Some i \<Rightarrow> pi_id i = [])) then c
      else if hidden then c
      else if now - co_lastAt c < 2000 then c
      else c\<lparr>co_lastAt := now, co_pending := True,
             co_checkingPayment := (if showChecking then True else co_checkingPayment c)\<rparr>)"

definition return_end :: "bool \<Rightarrow> nat \<Rightarrow> checkout \<Rightarrow> checkout" where
  "return_end showChecking mount c =
     c\<lparr>co_checkingPayment := (if showChecking then False else co_checkingPayment c),
       co_pending := (co_pending c \<and> mount \<noteq> co_returnMount c)\<rparr>"

definition return_mount :: "checkout \<Rightarrow> checkout" where
  "return_mount c = c\<lparr>co_pending := False, co_lastAt := 0, co_returnMount := Suc (co_returnMount c)\<rparr>"

text \<open>The button of the Telegram mini app: what it says, and what a click starts.\<close>

datatype main_button = Button_pay | Button_paid | Button_hidden

definition telegram_button :: "checkout \<Rightarrow> main_button" where
  "telegram_button c =
     (if co_step c = Step_network \<and> intentStatus c \<noteq> Some (lit ''PAID'') then Button_pay
      else if co_step c = Step_pay \<and> intentStatus c \<noteq> Some (lit ''PAID'') \<and> \<not> moneyDetected (intentStatus c)
        then Button_paid
      else Button_hidden)"

definition telegram_pick :: "checkout \<Rightarrow> ustr option" where
  "telegram_pick c =
     (let nets = (case co_pay c of None \<Rightarrow> [lit ''tron''] | Some d \<Rightarrow> enabled_pair d)
      in case getPreferredNetwork (co_prefs c) of
           Some p \<Rightarrow> if p \<in> set nets then Some p else (case nets of [] \<Rightarrow> None | n # _ \<Rightarrow> Some n)
         | None \<Rightarrow> (case nets of [] \<Rightarrow> None | n # _ \<Rightarrow> Some n))"

definition telegram_paid_begin :: "checkout \<Rightarrow> checkout" where
  "telegram_paid_begin c = c\<lparr>co_checkingPayment := True\<rparr>"

definition telegram_paid_end :: "checkout \<Rightarrow> checkout" where
  "telegram_paid_end c = c\<lparr>co_checkingPayment := False\<rparr>"

subsection \<open>What is shown\<close>

definition onPayStep :: "checkout \<Rightarrow> bool" where
  "onPayStep c \<longleftrightarrow> co_step c = Step_pay \<or> intentStatus c = Some (lit ''PAID'') \<or> moneyDetected (intentStatus c)"

definition networkChoice :: "checkout \<Rightarrow> ustr list" where
  "networkChoice c =
     (case co_pay c of None \<Rightarrow> []
      | Some d \<Rightarrow>
          (if co_step c = Step_network \<and> intentStatus c \<noteq> Some (lit ''PAID'') then
             (if lit ''tron'' \<in> set (case py_enabled_networks d of None \<Rightarrow> [lit ''tron''] | Some ns \<Rightarrow> ns)
              then [lit ''tron''] else []) @
             (if lit ''bsc'' \<in> set (case py_enabled_networks d of None \<Rightarrow> [] | Some ns \<Rightarrow> ns)
              then [lit ''bsc''] else [])
           else []))"

text \<open>The amount in the header; \<open>localeNumber\<close> is \<open>toLocaleString()\<close>.\<close>

definition displayAmount :: "(nat \<Rightarrow> ustr) \<Rightarrow> ustr \<Rightarrow> ustr \<Rightarrow> pay \<Rightarrow> ustr" where
  "displayAmount localeNumber usdt toman d =
     (case (py_fiat_currency d = Some (lit ''USDT''), py_amount_usdt_base_units d) of
        (True, Some (Suc b)) \<Rightarrow> formatUsdtFromBaseUnits (int (Suc b)) @ lit '' '' @ usdt
      | _ \<Rightarrow> localeNumber (case py_fiat_amount_toman d of None \<Rightarrow> 0 | Some n \<Rightarrow> n) @ lit '' '' @ toman)"

text \<open>The countdown, from the time left in milliseconds.\<close>

definition countdown_text :: "int \<Rightarrow> ustr" where
  "countdown_text ms =
     (if ms \<le> 0 then [8212]
      else dec (nat ms div 60000) @ lit '':'' @ pad_start 2 48 (dec (nat ms mod 60000 div 1000)))"

subsection \<open>Events\<close>

datatype checkout_event =
    Ev_first_answer pay
  | Ev_load_answer pay
  | Ev_failed ustr
  | Ev_status_effect
  | Ev_auto_effect
  | Ev_choose ustr
  | Ev_choose_answer ustr payment_option
  | Ev_submit
  | Ev_submit_done
  | Ev_refresh
  | Ev_refresh_answer pay
  | Ev_refresh_failed ustr
  | Ev_return bool bool int
  | Ev_return_end bool nat
  | Ev_return_mount
  | Ev_telegram_paid
  | Ev_telegram_paid_end

fun checkout_do :: "checkout_event \<Rightarrow> checkout \<Rightarrow> checkout" where
  "checkout_do (Ev_first_answer d) c = first_answer d c"
| "checkout_do (Ev_load_answer d) c = load_answer d c"
| "checkout_do (Ev_failed m) c = show_error m c"
| "checkout_do Ev_status_effect c = status_effect c"
| "checkout_do Ev_auto_effect c = auto_effect c"
| "checkout_do (Ev_choose n) c = choose_begin False n c"
| "checkout_do (Ev_choose_answer n opt) c = choose_answer n opt c"
| "checkout_do Ev_submit c = submit_begin c"
| "checkout_do Ev_submit_done c = submit_done c"
| "checkout_do Ev_refresh c = refresh_begin c"
| "checkout_do (Ev_refresh_answer d) c = refresh_answer d c"
| "checkout_do (Ev_refresh_failed m) c = refresh_failed m c"
| "checkout_do (Ev_return b h now) c = return_begin b h now c"
| "checkout_do (Ev_return_end b m) c = return_end b m c"
| "checkout_do Ev_return_mount c = return_mount c"
| "checkout_do Ev_telegram_paid c = telegram_paid_begin c"
| "checkout_do Ev_telegram_paid_end c = telegram_paid_end c"

definition checkout_run :: "checkout_event list \<Rightarrow> checkout \<Rightarrow> checkout" where
  "checkout_run es c = fold checkout_do es c"

lemmas handler_steps = first_answer_def load_answer_def show_error_def status_effect_def
  auto_effect_def choose_begin_def choose_answer_def submit_begin_def submit_done_def
  refresh_begin_def refresh_answer_def refresh_failed_def return_begin_def return_end_def
  return_mount_def telegram_paid_begin_def telegram_paid_end_def track_event_def

subsection \<open>Which option is selected\<close>

lemma or_option_Some: "or_option a b = Some x \<Longrightarrow> a = Some x \<or> b = Some x"
  by (auto simp: or_option_def split: if_splits)

lemma or_option_None [simp]: "or_option a b = None \<longleftrightarrow> a = None \<and> b = None"
  by (auto simp: or_option_def)

lemma find_in: "find P xs = Some x \<Longrightarrow> x \<in> set xs \<and> P x"
  by (induction xs) (auto split: if_splits)

lemma head_in: "(case xs of [] \<Rightarrow> None | q # _ \<Rightarrow> Some q) = Some x \<Longrightarrow> x \<in> set xs"
  by (cases xs) simp_all

lemma activeOptions_subset: "set (activeOptions i) \<subseteq> set (intent_options i)"
  by (auto simp: activeOptions_def Let_def)

lemma activeOptions_Nil: "activeOptions i = [] \<longleftrightarrow> intent_options i = []"
  by (auto simp: activeOptions_def Let_def)

text \<open>\<open>hydrateOption\<close> finds an option whenever there is one, and a superseded one only when
  there are no others.\<close>

lemma hydrateOption_None: "hydrateOption prefs i = None \<longleftrightarrow> intent_options i = []"
  by (auto simp: hydrateOption_def Let_def split: list.splits)

lemma hydrate_pool:
  assumes "hydrateOption prefs i = Some opt"
  shows "opt \<in> set (intent_options i) \<and>
    (status_is ''SUPERSEDED'' opt \<longrightarrow> (\<forall>q\<in>set (intent_options i). status_is ''SUPERSEDED'' q))"
proof -
  let ?opts = "intent_options i"
  let ?usable = "filter (\<lambda>opt. \<not> status_is ''SUPERSEDED'' opt) ?opts"
  define pool where "pool = (if ?usable \<noteq> [] then ?usable else ?opts)"
  have "opt \<in> set pool"
    using assms
    unfolding hydrateOption_def Let_def pool_def [symmetric]
    by (auto dest!: or_option_Some find_in head_in split: if_split_asm option.split_asm)
  then show ?thesis
    by (auto simp: pool_def filter_empty_conv split: if_splits)
qed

lemma load_selects_cases:
  assumes "load_selects c d = Some opt"
  shows "opt \<in> set (intent_options (py_payment_intent d)) \<or> co_selected c = Some opt"
  using assms
  by (auto simp: load_selects_def Let_def dest!: or_option_Some find_in hydrate_pool split: option.splits if_splits)

lemma refresh_selects_mem:
  assumes "refresh_selects c d = Some opt"
  shows "opt \<in> set (intent_options (py_payment_intent d))"
proof -
  let ?opts = "activeOptions (py_payment_intent d)"
  obtain P where "refresh_selects c d = or_option (find P ?opts) (case ?opts of [] \<Rightarrow> None | q # _ \<Rightarrow> Some q)"
    unfolding refresh_selects_def Let_def by blast
  with assms have "find P ?opts = Some opt \<or> (case ?opts of [] \<Rightarrow> None | q # _ \<Rightarrow> Some q) = Some opt"
    by (auto dest: or_option_Some)
  then have "opt \<in> set ?opts" using find_in head_in by metis
  then show ?thesis using activeOptions_subset by blast
qed

text \<open>The options the server has offered in a sequence of events.\<close>

fun event_options :: "checkout_event \<Rightarrow> payment_option list" where
  "event_options (Ev_first_answer d) = intent_options (py_payment_intent d)"
| "event_options (Ev_load_answer d) = intent_options (py_payment_intent d)"
| "event_options (Ev_refresh_answer d) = intent_options (py_payment_intent d)"
| "event_options (Ev_choose_answer n opt) = [opt]"
| "event_options e = []"

definition offered :: "checkout_event list \<Rightarrow> payment_option list" where
  "offered es = concat (map event_options es)"

lemma selected_do:
  assumes "co_selected (checkout_do e c) = Some opt"
  shows "opt \<in> set (event_options e) \<or> co_selected c = Some opt"
  using assms
  by (cases e)
    (auto simp: handler_steps Let_def dest: load_selects_cases refresh_selects_mem
      split: if_splits option.splits)

lemma selected_run:
  "co_selected (checkout_run es c) = Some opt \<Longrightarrow> opt \<in> set (offered es) \<or> co_selected c = Some opt"
proof (induction es arbitrary: c)
  case (Cons e es)
  then have "opt \<in> set (offered es) \<or> co_selected (checkout_do e c) = Some opt"
    by (simp add: checkout_run_def)
  then show ?case using selected_do [of e c opt] by (auto simp: offered_def)
qed (simp add: checkout_run_def)

subsection \<open>What the page asks for by itself\<close>

definition auto_requests :: "checkout \<Rightarrow> ustr list" where
  "auto_requests c = map snd (filter fst (co_requests c))"

lemma auto_pick_enabled:
  assumes "auto_pick c = Some n"
  shows "co_autoSelect c = False \<and> co_step c = Step_network \<and>
    (\<exists>d. co_pay c = Some d \<and> \<not> money_seen (data_status d) \<and> n \<in> set (enabled_pair d))"
  using assms
  by (auto simp: auto_pick_def Let_def length_Suc_conv split: option.splits if_splits)

definition auto_inv :: "checkout \<Rightarrow> bool" where
  "auto_inv c \<longleftrightarrow> (if co_autoSelect c then length (auto_requests c) = 1 else auto_requests c = [])"

lemma auto_inv_do: "auto_inv c \<Longrightarrow> auto_inv (checkout_do e c)"
proof (cases "e = Ev_auto_effect \<and> auto_pick c \<noteq> None")
  case True
  assume i: "auto_inv c"
  obtain n where "auto_pick c = Some n" using True by blast
  then show ?thesis
    using i True auto_pick_enabled [of c n] by (auto simp: auto_inv_def auto_requests_def handler_steps)
next
  case False
  assume i: "auto_inv c"
  have "co_autoSelect (checkout_do e c) = co_autoSelect c \<and> auto_requests (checkout_do e c) = auto_requests c"
    using False by (cases e) (auto simp: handler_steps auto_requests_def Let_def)
  then show ?thesis using i by (simp add: auto_inv_def)
qed

interpretation choosing: event_machine checkout_do auto_inv "\<lambda>_. True"
  by unfold_locales (rule auto_inv_do)

subsection \<open>Steps\<close>

lemma load_opens_pay:
  "money_seen (data_status d) \<Longrightarrow> co_step (load_answer d c) = Step_pay"
  by (simp add: load_answer_def Let_def)

lemma load_selects_stays: "co_selected c \<noteq> None \<Longrightarrow> load_selects c d \<noteq> None"
  by (cases "co_selected c") (simp_all add: load_selects_def Let_def del: not_None_eq)

lemma load_keeps_pay:
  assumes "co_step c = Step_pay" "co_selected c \<noteq> None"
  shows "co_step (load_answer d c) = Step_pay \<and> co_selected (load_answer d c) \<noteq> None"
  using assms load_selects_stays [OF assms(2), of d] by (simp add: load_answer_def Let_def)

end
