(* ===== verification/PaySheet.thy ===== *)
theory PaySheet
  imports Checkout WalletLaunch
begin

text \<open>
  The payment sheet of the checkout page: components/checkout/PooliPaySheet.tsx,
  PaymentException.tsx and WalletPickerSheet.tsx, components/payments/PaymentState.tsx and
  components/PaymentProgress.tsx of apps/web/src.

  The state of the sheet is the record \<open>sheet\<close>; \<open>pay\<close> is cut at its await into \<open>pay_begin\<close> and
  \<open>pay_end\<close>, with the result of the launch, \<open>None\<close> where it threw. What the sheet renders is a value
  of \<open>pay_screen\<close>: which of its screens, and for the payment screen which of its conditional parts,
  without the markup. A text is looked up in the catalogue \<open>t\<close> under its path.
\<close>

subsection \<open>The state\<close>

record sheet =
  ps_pickerOpen :: bool
  ps_showQr :: bool
  ps_showWhyExact :: bool
  ps_handoffTrouble :: bool
  ps_busyPay :: bool
  ps_preferred :: "wallet_id option"
  ps_prefs :: storage
  ps_tracked :: "(ustr \<times> (ustr \<times> analytics_value) list) list"

definition new_sheet :: "storage \<Rightarrow> sheet" where
  "new_sheet prefs = \<lparr>ps_pickerOpen = False, ps_showQr = False, ps_showWhyExact = False,
     ps_handoffTrouble = False, ps_busyPay = False, ps_preferred = None, ps_prefs = prefs, ps_tracked = []\<rparr>"

text \<open>The effect on \<open>[option]\<close>.\<close>

definition option_effect :: "payment_option option \<Rightarrow> sheet \<Rightarrow> sheet" where
  "option_effect opt s = (case opt of None \<Rightarrow> s
     | Some p \<Rightarrow> s\<lparr>ps_preferred := getPreferredWallet (op_network p) (ps_prefs s)\<rparr>)"

definition resolvedPlan :: "browser_env \<Rightarrow> ustr \<Rightarrow> ustr \<Rightarrow> payment_option option \<Rightarrow> sheet \<Rightarrow> handoff_plan option" where
  "resolvedPlan env projectId store opt s = (case opt of None \<Rightarrow> None
     | Some p \<Rightarrow> Some (buildHandoffPlan \<lparr>hi_option = p, hi_env = env, hi_preferredWalletId = ps_preferred s,
         hi_walletConnectProjectId = projectId, hi_storeName = Some store, hi_checkoutUrl = None\<rparr>))"

text \<open>The effect on \<open>[resolvedPlan?.qrPrimary]\<close>.\<close>

definition qr_effect :: "handoff_plan option \<Rightarrow> sheet \<Rightarrow> sheet" where
  "qr_effect plan s = (case plan of None \<Rightarrow> s | Some q \<Rightarrow> if hp_qrPrimary q then s\<lparr>ps_showQr := True\<rparr> else s)"

definition sheet_track :: "string \<Rightarrow> (ustr \<times> analytics_value) list \<Rightarrow> sheet \<Rightarrow> sheet" where
  "sheet_track e props s = s\<lparr>ps_tracked := ps_tracked s @ [(lit e, clean_props props)]\<rparr>"

definition net_prop :: "payment_option \<Rightarrow> (ustr \<times> analytics_value) list" where
  "net_prop opt = [(lit ''network'', Av_text (op_network opt))]"

definition net_wallet_props :: "payment_option \<Rightarrow> wallet_id \<Rightarrow> (ustr \<times> analytics_value) list" where
  "net_wallet_props opt w = net_prop opt @ [(lit ''wallet'', Av_text (wallet_name w))]"

subsection \<open>Copying\<close>

text \<open>Each handler is given whether the clipboard took the text; it returns the text, the next state
  and the toast.\<close>

definition copied ::
  "ustr \<Rightarrow> ustr \<Rightarrow> string \<Rightarrow> payment_option \<Rightarrow> bool \<Rightarrow> sheet \<Rightarrow> ustr \<times> sheet \<times> ustr option" where
  "copied content toast event opt ok s =
     (if ok then (content, sheet_track event (net_prop opt) s, Some toast) else (content, s, None))"

definition onCopyAmount :: "messages \<Rightarrow> payment_option \<Rightarrow> bool \<Rightarrow> sheet \<Rightarrow> ustr \<times> sheet \<times> ustr option" where
  "onCopyAmount t opt ok s =
     copied (exactPayableAmount opt) (t ''checkout.amountCopied'') ''amount_copied'' opt ok s"

definition onCopyAddress :: "messages \<Rightarrow> payment_option \<Rightarrow> bool \<Rightarrow> sheet \<Rightarrow> ustr \<times> sheet \<times> ustr option" where
  "onCopyAddress t opt ok s =
     copied (fullDestinationAddress opt) (t ''checkout.addressCopied'') ''address_copied'' opt ok s"

definition onCopyDetails :: "runtime \<Rightarrow> messages \<Rightarrow> ustr \<Rightarrow> payment_option \<Rightarrow> bool \<Rightarrow> sheet \<Rightarrow> ustr \<times> sheet \<times> ustr option" where
  "onCopyDetails rt t store opt ok s =
     copied (buildPaymentDetailsText rt store opt \<lparr>cl_heading = t ''checkout.copyHeading'',
         cl_merchant = t ''checkout.copyMerchant'', cl_amount = t ''checkout.copyAmountLine'',
         cl_network = t ''checkout.copyNetworkLine'', cl_address = t ''checkout.copyAddressLine''\<rparr>)
       (t ''checkout.detailsCopied'') ''payment_details_copied'' opt ok s"

subsection \<open>Paying\<close>

text \<open>Up to the launch; the wallet that is launched, if any.\<close>

definition pay_begin :: "payment_option \<Rightarrow> handoff_plan \<Rightarrow> wallet_id option \<Rightarrow> sheet \<Rightarrow> sheet \<times> wallet_id option" where
  "pay_begin opt plan walletId s =
     (case (case walletId of Some w \<Rightarrow> Some w | None \<Rightarrow> map_option wc_id (hp_primary plan)) of
        None \<Rightarrow> (s, None)
      | Some w \<Rightarrow>
          if w = Qr then (sheet_track ''qr_opened'' (net_prop opt) (s\<lparr>ps_showQr := True\<rparr>), None)
          else (sheet_track ''wallet_handoff_attempted'' (net_wallet_props opt w)
             (sheet_track ''pay_with_wallet_clicked'' (net_wallet_props opt w)
                (s\<lparr>ps_busyPay := True, ps_handoffTrouble := False\<rparr>)), Some w))"

fun reason_name :: "launch_failure \<Rightarrow> ustr" where
  "reason_name Unsupported = lit ''unsupported''"
| "reason_name Missing_project_id = lit ''missing_project_id''"
| "reason_name User_rejected = lit ''user_rejected''"
| "reason_name Launch_failed = lit ''failed''"
| "reason_name Iab_blocked = lit ''iab_blocked''"

definition pay_end :: "browser_env \<Rightarrow> payment_option \<Rightarrow> wallet_id \<Rightarrow> launch_result option \<Rightarrow> sheet \<Rightarrow> sheet" where
  "pay_end env opt w outcome s =
     (let s1 = (case outcome of None \<Rightarrow> s
        | Some r \<Rightarrow>
            (let s0 = s\<lparr>ps_prefs := setPreferredWallet (op_network opt) w (ps_prefs s), ps_preferred := Some w\<rparr>
             in case r of Launched _ \<Rightarrow> s0
                | Not_launched f _ \<Rightarrow>
                    (let a = sheet_track ''wallet_handoff_failed''
                           (net_wallet_props opt w @ [(lit ''reason'', Av_text (reason_name f))]) s0;
                         b = (if be_isInAppBrowser env \<or> f = Launch_failed \<or> f = Unsupported
                              then a\<lparr>ps_handoffTrouble := True\<rparr> else a)
                     in if f = Missing_project_id then b\<lparr>ps_showQr := True\<rparr> else b)))
      in s1\<lparr>ps_busyPay := False, ps_pickerOpen := False\<rparr>)"

definition picker_select :: "payment_option \<Rightarrow> handoff_plan \<Rightarrow> wallet_id \<Rightarrow> sheet \<Rightarrow> sheet \<times> wallet_id option" where
  "picker_select opt plan w s = pay_begin opt plan (Some w) (sheet_track ''wallet_selected'' (net_wallet_props opt w) s)"

definition picker_showQr :: "payment_option \<Rightarrow> sheet \<Rightarrow> sheet" where
  "picker_showQr opt s = sheet_track ''qr_opened'' (net_prop opt) (s\<lparr>ps_showQr := True, ps_pickerOpen := False\<rparr>)"

definition sheet_showQr :: "payment_option \<Rightarrow> sheet \<Rightarrow> sheet" where
  "sheet_showQr opt s = sheet_track ''qr_opened'' (net_prop opt) (s\<lparr>ps_showQr := True\<rparr>)"

definition primaryCtaLabel :: "messages \<Rightarrow> handoff_plan option \<Rightarrow> ustr" where
  "primaryCtaLabel t plan =
     (case plan of None \<Rightarrow> t ''checkout.payWithWallet''
      | Some q \<Rightarrow> if map_option wc_id (hp_primary q) = Some Tronlink then t ''checkout.payWithTronlink''
          else t ''checkout.payWithWallet'')"

subsection \<open>What the sheet renders\<close>

record pay_view =
  vw_amount :: ustr
  vw_secondary :: ustr
  vw_whyExact :: bool
  vw_countdown :: bool
  vw_checking :: bool
  vw_qr :: "ustr option"
  vw_browser_help :: bool
  vw_wallet_button :: "(ustr \<times> bool) option"
  vw_copy_primary :: bool
  vw_show_qr_button :: bool
  vw_copy_secondary :: bool

record receipt_view =
  rv_order_reference :: "ustr option"
  rv_usdt_amount :: "ustr option"
  rv_received_usdt_amount :: "ustr option"
  rv_network :: "ustr option"
  rv_tx_hash :: "ustr option"
  rv_explorer_url :: "ustr option"
  rv_success_message :: "ustr option"
  rv_tracking :: "ustr option"
  rv_shipped :: bool

datatype pay_screen =
    Scr_receipt receipt_view
  | Scr_exception ustr "ustr option" "ustr option" ustr
  | Scr_expired
  | Scr_nothing
  | Scr_pay pay_view

text \<open>\<open>a || b\<close> on optional strings.\<close>

definition or_str :: "ustr option \<Rightarrow> ustr option \<Rightarrow> ustr option" where
  "or_str a b = (if a = None \<or> a = Some [] then b else a)"

record sheet_props =
  sp_fiatAmountToman :: nat
  sp_option :: "payment_option option"
  sp_intentStatus :: "ustr option"
  sp_matched :: "matched_tx option"
  sp_receipt :: "pay_receipt option"
  sp_fulfillmentStatus :: "ustr option"
  sp_shippingProvider :: "ustr option"
  sp_trackingNumber :: "ustr option"
  sp_countdown :: ustr
  sp_checkingPayment :: bool

definition shown_tracking :: "sheet_props \<Rightarrow> ustr option" where
  "shown_tracking q = (case sp_trackingNumber q of None \<Rightarrow> None
     | Some n \<Rightarrow> if n = [] then None
         else Some ((case sp_shippingProvider q of None \<Rightarrow> []
           | Some p \<Rightarrow> if p = [] then [] else p @ lit '' '' @ [183] @ lit '' '') @ n))"

definition receipt_screen :: "sheet_props \<Rightarrow> receipt_view" where
  "receipt_screen q =
     (let r = (\<lambda>f. case sp_receipt q of None \<Rightarrow> None | Some x \<Rightarrow> f x);
          m = (\<lambda>f. case sp_matched q of None \<Rightarrow> None | Some x \<Rightarrow> f x)
      in \<lparr>rv_order_reference = r rc_order_reference, rv_usdt_amount = r rc_usdt_amount,
          rv_received_usdt_amount = r rc_received_usdt_amount,
          rv_network = or_str (r rc_network) (map_option op_network (sp_option q)),
          rv_tx_hash = or_str (m mt_tx_hash) (r rc_tx_hash),
          rv_explorer_url = or_str (m mt_explorer_url) (r rc_explorer_url),
          rv_success_message = r rc_success_message,
          rv_tracking = shown_tracking q,
          rv_shipped = (sp_fulfillmentStatus q = Some (lit ''SHIPPED'') \<or>
             sp_fulfillmentStatus q = Some (lit ''DELIVERED''))\<rparr>)"

definition payment_view ::
  "runtime \<Rightarrow> (nat \<Rightarrow> ustr) \<Rightarrow> messages \<Rightarrow> browser_env \<Rightarrow> sheet_props \<Rightarrow> payment_option \<Rightarrow> handoff_plan \<Rightarrow> sheet \<Rightarrow> pay_view" where
  "payment_view rt localeNumber t env q opt plan s =
     (let asset = assetSymbol opt; seen = moneyDetected (sp_intentStatus q)
      in \<lparr>vw_amount = exactPayableAmount opt @ lit '' '' @ asset,
          vw_secondary = asset @ lit '' '' @ [183] @ lit '' '' @ copy_networkLabel rt (op_network opt) @
            lit '' '' @ [183] @ lit '' '' @ localeNumber (sp_fiatAmountToman q) @ lit '' '' @ t ''checkout.toman'',
          vw_whyExact = ps_showWhyExact s,
          vw_countdown = (\<not> seen \<and> sp_countdown q \<noteq> [] \<and> sp_countdown q \<noteq> [8212]),
          vw_checking = (sp_checkingPayment q \<and> \<not> seen),
          vw_qr = (if ps_showQr s \<or> hp_qrPrimary plan then Some (hp_qrPayload plan) else None),
          vw_browser_help = (ps_handoffTrouble s \<or> be_isInAppBrowser env),
          vw_wallet_button = (if hp_showPayWithWallet plan
            then Some (if ps_busyPay s then t ''checkout.openingWallet'' else primaryCtaLabel t (Some plan),
                       ps_busyPay s) else None),
          vw_copy_primary = (\<not> hp_showPayWithWallet plan),
          vw_show_qr_button = (\<not> ps_showQr s),
          vw_copy_secondary = hp_showPayWithWallet plan\<rparr>)"

definition pay_screen_of ::
  "runtime \<Rightarrow> (nat \<Rightarrow> ustr) \<Rightarrow> messages \<Rightarrow> browser_env \<Rightarrow> ustr \<Rightarrow> ustr \<Rightarrow> (ustr \<Rightarrow> int option) \<Rightarrow> int
     \<Rightarrow> sheet_props \<Rightarrow> sheet \<Rightarrow> pay_screen" where
  "pay_screen_of rt localeNumber t env projectId store parse_date now q s =
     (let ex = exceptionKind (sp_intentStatus q); opt = sp_option q;
          canRefresh = canRefreshQuote parse_date now (sp_intentStatus q)
            (case opt of None \<Rightarrow> None | Some p \<Rightarrow> op_expires_at p)
      in if sp_intentStatus q = Some (lit ''PAID'') then Scr_receipt (receipt_screen q)
         else if ex \<noteq> None \<and> ex \<noteq> Some (lit ''EXPIRED'') then
           Scr_exception (the ex) (map_option exactPayableAmount opt)
             (case sp_receipt q of None \<Rightarrow> None | Some r \<Rightarrow> rc_received_usdt_amount r)
             (case opt of None \<Rightarrow> lit ''USDT'' | Some p \<Rightarrow> assetSymbol p)
         else if ex = Some (lit ''EXPIRED'') \<or> canRefresh then Scr_expired
         else case (opt, resolvedPlan env projectId store opt s) of
             (Some p, Some plan) \<Rightarrow> Scr_pay (payment_view rt localeNumber t env q p plan s)
           | _ \<Rightarrow> Scr_nothing)"

subsection \<open>What the page gives the sheet\<close>

definition receiptWithMessage :: "pay \<Rightarrow> pay_receipt option" where
  "receiptWithMessage d =
     map_option (\<lambda>r. r\<lparr>rc_success_message := or_str (rc_success_message r) (py_success_message d)\<rparr>) (py_receipt d)"

text \<open>\<open>None\<close> where the page does not show the sheet.\<close>

definition sheet_props_of :: "checkout \<Rightarrow> ustr \<Rightarrow> sheet_props option" where
  "sheet_props_of c countdown =
     (case co_pay c of None \<Rightarrow> None
      | Some d \<Rightarrow> if \<not> onPayStep c then None
          else Some \<lparr>sp_fiatAmountToman = (case py_fiat_amount_toman d of Some n \<Rightarrow> n
               | None \<Rightarrow> (case py_amount_usdt_base_units d of Some n \<Rightarrow> n | None \<Rightarrow> 0)),
             sp_option = co_selected c, sp_intentStatus = intentStatus c,
             sp_matched = (case py_payment_intent d of None \<Rightarrow> None | Some i \<Rightarrow> pi_matched_tx i),
             sp_receipt = receiptWithMessage d, sp_fulfillmentStatus = py_fulfillment_status d,
             sp_shippingProvider = py_shipping_provider d, sp_trackingNumber = py_tracking_number d,
             sp_countdown = countdown, sp_checkingPayment = co_checkingPayment c\<rparr>)"

subsection \<open>The texts of an exception\<close>

definition has_kind :: "string \<Rightarrow> ustr \<Rightarrow> bool" where
  "has_kind s k \<longleftrightarrow> k = lit s"

definition dont_send_again :: "messages \<Rightarrow> ustr list" where
  "dont_send_again t = [t ''checkout.exception.dontSendAgain'', t ''common.moneySafe'']"

text \<open>In their order; \<open>refresh\<close> says whether there is a refresh handler and whether it runs.\<close>

definition exception_texts ::
  "messages \<Rightarrow> ustr option \<Rightarrow> ustr option \<Rightarrow> ustr option \<Rightarrow> ustr \<Rightarrow> bool option \<Rightarrow> ustr list" where
  "exception_texts t kind expected received asset refresh =
     (case kind of None \<Rightarrow> []
      | Some k \<Rightarrow>
          if k = [] then []
          else if has_kind ''EXPIRED'' k then
            [t ''checkout.exception.expiredTitle'', t ''checkout.exception.expiredBody''] @
            (case refresh of None \<Rightarrow> []
             | Some busy \<Rightarrow> [if busy then t ''common.loading'' else t ''checkout.refreshAmount''])
          else if has_kind ''UNDERPAID'' k then
            [t ''checkout.exception.underpaidTitle'', t ''checkout.exception.underpaidBody'',
             t ''checkout.exception.expected'', given expected @ lit '' '' @ asset,
             t ''checkout.exception.received'',
             (if given received \<noteq> [] then given received else [8212]) @ lit '' '' @ asset] @ dont_send_again t
          else if has_kind ''OVERPAID'' k then
            [t ''checkout.exception.overpaidTitle'', t ''checkout.exception.overpaidBody''] @ dont_send_again t
          else if has_kind ''LATE_PAYMENT'' k then
            [t ''checkout.exception.lateTitle'', t ''checkout.exception.lateBody''] @ dont_send_again t
          else if has_kind ''NEEDS_REVIEW'' k \<or> has_kind ''DUPLICATE_PAYMENT'' k then
            [t ''checkout.exception.reviewTitle'', t ''checkout.exception.reviewBody''] @ dont_send_again t
          else [])"

subsection \<open>The status panel\<close>

definition copyFor :: "payment_ui_state \<Rightarrow> messages \<Rightarrow> ustr option \<Rightarrow> ustr \<times> ustr option" where
  "copyFor ui t status =
     (case ui of
        UI_OPENING_WALLET \<Rightarrow> (t ''checkout.openingWallet'', None)
      | UI_WAITING_FOR_PAYMENT \<Rightarrow> (t ''checkout.waitingTitle'', Some (t ''checkout.waitingBody''))
      | UI_READY \<Rightarrow> (t ''checkout.waitingTitle'', Some (t ''checkout.waitingBody''))
      | UI_PAYMENT_DETECTED \<Rightarrow> (t ''checkout.paymentDetected'', Some (t ''checkout.detectedBody''))
      | UI_CONFIRMING \<Rightarrow> (t ''checkout.progress.confirming'', Some (t ''checkout.confirmingBody''))
      | UI_PAID \<Rightarrow> (t ''orders.paidCheck'', None)
      | UI_EXPIRED \<Rightarrow> (t ''checkout.exception.expiredTitle'', Some (t ''checkout.exception.expiredBody''))
      | UI_NEEDS_ATTENTION \<Rightarrow>
          (let kind = exceptionKind status
           in if kind = Some (lit ''UNDERPAID'') then
                (t ''checkout.exception.underpaidTitle'', Some (t ''checkout.exception.underpaidBody''))
              else if kind = Some (lit ''OVERPAID'') then
                (t ''checkout.exception.overpaidTitle'', Some (t ''checkout.exception.overpaidBody''))
              else if kind = Some (lit ''LATE_PAYMENT'') then
                (t ''checkout.exception.lateTitle'', Some (t ''checkout.exception.lateBody''))
              else (t ''checkout.exception.reviewTitle'', Some (t ''checkout.exception.reviewBody'')))
      | UI_OFFLINE \<Rightarrow> (t ''common.offline'', Some (t ''common.reconnect'')))"

text \<open>\<open>replace\<close> of a pattern that is a string: the first occurrence.\<close>

fun replace_first :: "ustr \<Rightarrow> ustr \<Rightarrow> ustr \<Rightarrow> ustr" where
  "replace_first pat ins [] = (if pat = [] then ins else [])"
| "replace_first pat ins (c # cs) =
     (if take (length pat) (c # cs) = pat then ins @ drop (length pat) (c # cs)
      else c # replace_first pat ins cs)"

text \<open>The confirmations shown; a number inserted has no \<open>$\<close>, so \<open>replace\<close> inserts it as it is.\<close>

definition confirmations_text :: "messages \<Rightarrow> nat option \<Rightarrow> nat option \<Rightarrow> ustr option" where
  "confirmations_text t confirmations required =
     (case (confirmations, required) of
        (Some c, Some r) \<Rightarrow> Some (replace_first (lit ''{required}'') (dec r)
           (replace_first (lit ''{current}'') (dec c) (t ''checkout.progress.confirmations'')))
      | _ \<Rightarrow> None)"

definition paymentStatePanel ::
  "messages \<Rightarrow> ustr option \<Rightarrow> bool \<Rightarrow> bool \<Rightarrow> nat option \<Rightarrow> nat option \<Rightarrow> ustr \<times> ustr option \<times> ustr option" where
  "paymentStatePanel t status openingWallet offline confirmations required =
     (let ui = resolvePaymentUiState status openingWallet offline;
          (title, body) = copyFor ui t status
      in (title, body, if ui = UI_CONFIRMING \<or> ui = UI_PAYMENT_DETECTED
            then confirmations_text t confirmations required else None))"

subsection \<open>The progress bar\<close>

definition stageOrder :: "string list" where
  "stageOrder = [''requested'', ''detected'', ''confirming'', ''complete'']"

definition stageIndex :: "ustr \<Rightarrow> nat" where
  "stageIndex status = (if status = lit ''PAID'' then 3 else if status = lit ''CONFIRMING'' then 2
     else if status = lit ''SEEN'' then 1 else 0)"

datatype stage_state = Stage_done | Stage_current | Stage_upcoming

definition stage_class :: "ustr \<Rightarrow> nat \<Rightarrow> stage_state" where
  "stage_class status i =
     (let active = stageIndex status
      in if i < active \<or> status = lit ''PAID'' then Stage_done
         else if i = active \<and> status \<noteq> lit ''PAID'' then Stage_current else Stage_upcoming)"

text \<open>\<open>None\<close> where the status panel is shown instead; otherwise the stages with their classes and
  the confirmations.\<close>

definition paymentProgress ::
  "messages \<Rightarrow> ustr \<Rightarrow> nat option \<Rightarrow> nat option \<Rightarrow> ((string \<times> stage_state) list \<times> ustr option) option" where
  "paymentProgress t status confirmations required =
     (if exceptionKind (Some status) \<noteq> None then None
      else Some (map (\<lambda>i. (stageOrder ! i, stage_class status i)) [0..<4],
        (if status = lit ''SEEN'' \<or> status = lit ''CONFIRMING''
         then confirmations_text t confirmations required else None)))"

subsection \<open>The wallet picker\<close>

fun walletLabel :: "wallet_id \<Rightarrow> messages \<Rightarrow> ustr" where
  "walletLabel Tronlink t = t ''checkout.wallets.tronlink''"
| "walletLabel Walletconnect t = t ''checkout.wallets.walletconnect''"
| "walletLabel Trust t = t ''checkout.wallets.trust''"
| "walletLabel Other_wallet t = t ''checkout.wallets.other''"
| "walletLabel Qr t = t ''checkout.showQr''"

definition walletHint :: "wallet_candidate \<Rightarrow> messages \<Rightarrow> ustr option" where
  "walletHint c t =
     (if wc_id c = Tronlink then Some (t ''checkout.wallets.tronlinkHint'')
      else if wc_id c = Walletconnect then Some (t ''checkout.wallets.walletconnectHint'')
      else if wc_id c = Trust then Some (t ''checkout.wallets.trustHint'')
      else if wc_recommended c then Some (t ''checkout.recommend'')
      else None)"

text \<open>The rows: the wallet, its label, its hint, and whether it is marked as recommended.\<close>

definition picker_rows :: "messages \<Rightarrow> wallet_candidate list \<Rightarrow> (wallet_id \<times> ustr \<times> ustr option \<times> bool) list" where
  "picker_rows t ws = map (\<lambda>w. (wc_id w, walletLabel (wc_id w) t, walletHint w t, wc_recommended w))
     (filter (\<lambda>w. wc_id w \<noteq> Qr) ws)"

subsection \<open>Screens and statuses\<close>

text \<open>An exception other than expiry has a screen of its own, without any control to pay, and its
  texts say not to send again.\<close>

lemma exception_screen:
  assumes "exceptionKind status = Some k" "k \<noteq> lit ''EXPIRED''" "sp_intentStatus q = status"
  shows "\<exists>e r a. pay_screen_of rt ln t env pid st pd now q s = Scr_exception k e r a"
proof -
  have "status \<noteq> Some (lit ''PAID'')"
    using assms(1) by (auto simp: exceptionKind_def EXCEPTION_STATUSES_def split: option.splits if_splits)
  then show ?thesis using assms by (auto simp: pay_screen_of_def Let_def)
qed

lemma exception_says_wait:
  assumes "exceptionKind status = Some k" "k \<noteq> lit ''EXPIRED''"
  shows "t ''checkout.exception.dontSendAgain'' \<in> set (exception_texts t (Some k) e r a f)"
proof -
  have "k \<in> set EXCEPTION_STATUSES" "k \<noteq> []"
    using assms(1) by (auto simp: exceptionKind_def split: option.splits if_splits)
  then show ?thesis
    using assms(2)
    by (auto simp: EXCEPTION_STATUSES_def exception_texts_def has_kind_def dont_send_again_def)
qed

text \<open>While the payment is seen or being confirmed the sheet is the payment screen, wallet button
  included.\<close>

lemma detected_screen:
  assumes "sp_intentStatus q = Some (lit ''SEEN'') \<or> sp_intentStatus q = Some (lit ''CONFIRMING'')"
    and "sp_option q = Some p"
  shows "\<exists>plan. resolvedPlan env pid st (sp_option q) s = Some plan \<and>
    pay_screen_of rt ln t env pid st pd now q s = Scr_pay (payment_view rt ln t env q p plan s)"
  using assms
  by (auto simp: pay_screen_of_def Let_def resolvedPlan_def exceptionKind_def EXCEPTION_STATUSES_def
      canRefreshQuote_def moneyDetected_def)

lemma wallet_button_shown:
  "vw_wallet_button (payment_view rt ln t env q p plan s) \<noteq> None \<longleftrightarrow> hp_showPayWithWallet plan"
  by (simp add: payment_view_def Let_def)

subsection \<open>The pay handler\<close>

lemma pay_begin_wallet:
  "pay_begin opt plan w s = (s', Some v) \<Longrightarrow> v \<noteq> Qr \<and> ps_busyPay s' \<and> \<not> ps_handoffTrouble s'"
  by (auto simp: pay_begin_def sheet_track_def split: option.splits if_splits)

lemma pay_end_fields:
  "\<not> ps_busyPay (pay_end env opt w r s)" "\<not> ps_pickerOpen (pay_end env opt w r s)"
  by (simp_all add: pay_end_def Let_def)

lemma pay_end_remembers:
  "ps_preferred (pay_end env opt w (Some r) s) = Some w"
  "ps_prefs (pay_end env opt w (Some r) s) = setPreferredWallet (op_network opt) w (ps_prefs s)"
  by (simp_all add: pay_end_def Let_def sheet_track_def split: launch_result.splits)

text \<open>A launch that failed leaves the buyer with a way out: help with the browser, the QR code, or
  nothing to help with, since the buyer refused.\<close>

lemma pay_end_way_out:
  "ps_handoffTrouble (pay_end env opt w (Some (Not_launched f m)) s) \<or>
   ps_showQr (pay_end env opt w (Some (Not_launched f m)) s) \<or> f = User_rejected \<or> f = Iab_blocked"
  by (cases f) (simp_all add: pay_end_def Let_def sheet_track_def)

subsection \<open>The progress bar\<close>

lemma paid_all_done: "i < 4 \<Longrightarrow> stage_class (lit ''PAID'') i = Stage_done"
  by (simp add: stage_class_def)

lemma one_current: "status \<noteq> lit ''PAID'' \<Longrightarrow> stage_class status i = Stage_current \<longleftrightarrow> i = stageIndex status"
  by (auto simp: stage_class_def Let_def)

subsection \<open>The page and the sheet together\<close>

text \<open>The sheet is given the base units of an order that has no toman amount, and shows them as toman.\<close>

lemma base_units_as_toman:
  assumes "co_pay c = Some d" "py_fiat_amount_toman d = None" "py_amount_usdt_base_units d = Some n"
    and "sheet_props_of c cd = Some q"
  shows "\<exists>u. vw_secondary (payment_view rt localeNumber t env q p plan s) =
    u @ localeNumber n @ lit '' '' @ t ''checkout.toman''"
  using assms by (auto simp: sheet_props_of_def payment_view_def Let_def split: if_splits)

text \<open>The sheet is shown whenever money was seen.\<close>

lemma money_opens_sheet:
  "co_pay c = Some d \<Longrightarrow> moneyDetected (intentStatus c) \<Longrightarrow> sheet_props_of c cd \<noteq> None"
  by (simp add: sheet_props_of_def onPayStep_def)

end
