(* ===== verification/Pages.thy ===== *)
theory Pages
  imports WebMisc WebGateway
begin

text \<open>
  What the pages of the seller's application share: the answers of their requests, numbers typed
  as digits, the toast (components/ui/Toast.tsx), what the browser gives an event handler, the
  network's form of an address, and the two interfaces the pages are instances of.

  A page is a record of its hooks. A handler is cut at its awaits: a request it waits for is a
  value in the page's record (what the rest of the handler will do, with the variables it has
  captured), and an answer is an event. Lists of requests in a record log what was sent.
\<close>

subsection \<open>Answers and numbers\<close>

datatype 'a answer =
    Answered 'a
  | Threw ustr

text \<open>An answer is what \<open>api\<close> gives, read at the type the page expects; everything \<open>api\<close>
  throws is an \<open>Error\<close>, so \<open>err instanceof Error ? err.message : t.common.error\<close> is its message.\<close>

definition answer_of :: "(jval \<Rightarrow> 'a) \<Rightarrow> client_result \<Rightarrow> 'a answer" where
  "answer_of read r = (case r of Client_ok v \<Rightarrow> Answered (read v) | Client_error m \<Rightarrow> Threw m)"

text \<open>Whole numbers of any size: \<open>nm_of\<close> is the number a decimal literal denotes, \<open>None\<close> for
  infinity, and \<open>nm_text\<close> is \<open>String(n)\<close>. \<open>JSON.stringify\<close> writes infinity as \<open>null\<close>.\<close>

record js_numbers =
  nm_of :: "nat \<Rightarrow> nat option"
  nm_text :: "nat \<Rightarrow> ustr"

definition digits_input :: "ustr \<Rightarrow> ustr" where
  "digits_input typed = filter is_digit typed"

definition number_of_digits :: "js_numbers \<Rightarrow> ustr \<Rightarrow> nat option" where
  "number_of_digits N s = (if s = [] then Some 0 else nm_of N (undec s))"

definition json_number :: "js_numbers \<Rightarrow> nat option \<Rightarrow> jval" where
  "json_number N v = (case v of None \<Rightarrow> JNull | Some n \<Rightarrow> JNum (nm_text N n))"

definition exceeds :: "nat option \<Rightarrow> nat \<Rightarrow> bool" where
  "exceeds v k = (case v of None \<Rightarrow> True | Some n \<Rightarrow> n > k)"

subsection \<open>Addresses as the seller's forms check them\<close>

text \<open>\<open>[1-9A-HJ-NP-Za-km-z]\<close> and \<open>[a-fA-F0-9]\<close>.\<close>

definition base58_unit :: "nat \<Rightarrow> bool" where
  "base58_unit c \<longleftrightarrow> (49 \<le> c \<and> c \<le> 57) \<or> (65 \<le> c \<and> c \<le> 90 \<and> c \<noteq> 73 \<and> c \<noteq> 79) \<or>
     (97 \<le> c \<and> c \<le> 122 \<and> c \<noteq> 108)"

definition hex_unit :: "nat \<Rightarrow> bool" where
  "hex_unit c \<longleftrightarrow> is_digit c \<or> (65 \<le> c \<and> c \<le> 70) \<or> (97 \<le> c \<and> c \<le> 102)"

definition tron_address :: "ustr \<Rightarrow> bool" where
  "tron_address s \<longleftrightarrow> length s = 34 \<and> take 1 s = [84] \<and> list_all base58_unit (drop 1 s)"

definition bsc_address :: "ustr \<Rightarrow> bool" where
  "bsc_address s \<longleftrightarrow> length s = 42 \<and> take 2 s = lit ''0x'' \<and> list_all hex_unit (drop 2 s)"

text \<open>A well-formed address survives the trimming and the shortened display keeps its ends.\<close>

lemma base58_not_ws: "base58_unit c \<Longrightarrow> \<not> is_ws c"
  by (auto simp: base58_unit_def is_ws_def)

lemma hex_not_ws: "hex_unit c \<Longrightarrow> \<not> is_ws c"
  by (auto simp: hex_unit_def is_ws_def is_digit_def)

lemma no_ws_parts:
  "list_all (\<lambda>c. \<not> is_ws c) (take k s) \<Longrightarrow> list_all (\<lambda>c. \<not> is_ws c) (drop k s) \<Longrightarrow> js_trim s = s"
  by (rule js_trim_no_ws) (metis append_take_drop_id list_all_append)

lemma base58_all: "list_all base58_unit s \<Longrightarrow> list_all (\<lambda>c. \<not> is_ws c) s"
  by (auto simp: list_all_iff dest: base58_not_ws)

lemma hex_all: "list_all hex_unit s \<Longrightarrow> list_all (\<lambda>c. \<not> is_ws c) s"
  by (auto simp: list_all_iff dest: hex_not_ws)

lemma prefix_units: "\<not> is_ws 84" "\<not> is_ws 48" "\<not> is_ws 120"
  by (simp_all add: is_ws_def)

lemma tron_address_trim: "tron_address s \<Longrightarrow> js_trim s = s"
  by (rule no_ws_parts [of 1]) (simp_all add: tron_address_def prefix_units base58_all)

lemma bsc_address_trim: "bsc_address s \<Longrightarrow> js_trim s = s"
  by (rule no_ws_parts [of 2]) (simp_all add: bsc_address_def lit_def prefix_units hex_all)

subsection \<open>The toast\<close>

record toaster =
  ta_message :: ustr
  ta_visible :: bool
  ta_timers :: "int list"

text \<open>\<open>showToast\<close> at a time of the clock, and the first timer that is due; no timer is ever cleared.\<close>

definition showToast :: "int \<Rightarrow> ustr \<Rightarrow> toaster \<Rightarrow> toaster" where
  "showToast now m s = s\<lparr>ta_message := m, ta_visible := True, ta_timers := ta_timers s @ [now + 1800]\<rparr>"

definition toast_timer :: "int \<Rightarrow> toaster \<Rightarrow> toaster" where
  "toast_timer now s =
     (case ta_timers s of [] \<Rightarrow> s
      | at # rest \<Rightarrow> if at \<le> now then s\<lparr>ta_visible := False, ta_timers := rest\<rparr> else s)"

text \<open>A toast is hidden by the timer of the toast before it.\<close>

lemma toast_hidden_early:
  assumes "ta_timers s = []" "0 \<le> d" "d \<le> 1800"
  shows "let later = showToast (now + d) m2 (showToast now m1 s);
             shown = toast_timer (now + 1800) later
         in ta_message shown = m2 \<and> \<not> ta_visible shown \<and> ta_timers shown = [now + d + 1800]"
  using assms by (simp add: showToast_def toast_timer_def Let_def)

subsection \<open>What the browser gives a handler\<close>

text \<open>\<open>window.open\<close>: whatever the user agent does, it returns no window when the features ask for
  \<open>noopener\<close> or \<open>noreferrer\<close> (the window open steps of the HTML standard); \<open>opened\<close> is whether a
  window was opened.\<close>

definition window_open :: "ustr \<Rightarrow> bool \<Rightarrow> bool" where
  "window_open features opened \<longleftrightarrow>
     opened \<and> lit ''noopener'' \<notin> set (split_on 44 features) \<and> lit ''noreferrer'' \<notin> set (split_on 44 features)"

text \<open>\<open>e.currentTarget\<close> is the form while the event is dispatched and \<open>null\<close> from then on, so also
  after an \<open>await\<close> of the handler.\<close>

datatype event_phase = Dispatching | After_await

definition currentTarget :: "event_phase \<Rightarrow> 'f \<Rightarrow> 'f option" where
  "currentTarget phase form = (case phase of Dispatching \<Rightarrow> Some form | After_await \<Rightarrow> None)"

subsection \<open>Interfaces of the pages\<close>

text \<open>
  A form: its button is disabled while it loads. If it loads exactly while a handler waits for an
  answer, then after every event it still does: no form is left loading for ever once its
  handler has ended, and none sends a request while another is out.
\<close>

locale form_machine =
  fixes step :: "'e \<Rightarrow> 's \<Rightarrow> 's" and loading :: "'s \<Rightarrow> bool" and waiting :: "'s \<Rightarrow> 'w option"
  assumes step_form: "loading s \<longleftrightarrow> waiting s \<noteq> None \<Longrightarrow>
      loading (step e s) \<longleftrightarrow> waiting (step e s) \<noteq> None"

sublocale form_machine \<subseteq> event_machine step "\<lambda>s. loading s \<longleftrightarrow> waiting s \<noteq> None" "\<lambda>_. True"
  by unfold_locales (rule step_form)

context form_machine begin

lemma run_form: "loading s \<longleftrightarrow> waiting s \<noteq> None \<Longrightarrow>
    loading (fold step es s) \<longleftrightarrow> waiting (fold step es s) \<noteq> None"
  using run_keeps [of s es] by (simp add: list_all_iff)

end

text \<open>
  A list the page asks for again whenever what it wants changes: \<open>want\<close> is the query of the box,
  \<open>armed\<close> a request that will be sent, \<open>flight\<close> the queries of the requests that are out, oldest
  first, and \<open>shown\<close> the query the list on the page answers. Events that are \<open>orderly\<close> (no
  failure, and the answers come in the order of the requests) do one of four things.
\<close>

locale search_machine =
  fixes step :: "'e \<Rightarrow> 's \<Rightarrow> 's" and want :: "'s \<Rightarrow> 'q" and armed :: "'s \<Rightarrow> bool"
    and flight :: "'s \<Rightarrow> 'q list" and shown :: "'s \<Rightarrow> 'q option" and orderly :: "'e \<Rightarrow> bool"
    and valid :: "'s \<Rightarrow> bool"
  assumes valid_step: "valid s \<Longrightarrow> orderly e \<Longrightarrow> valid (step e s)"
    and orderly_step: "valid s \<Longrightarrow> orderly e \<Longrightarrow> armed (step e s) \<or>
      (want (step e s) = want s \<and>
       (flight (step e s) = flight s @ [want s] \<or>
        armed (step e s) = armed s \<and>
         (flight (step e s) = flight s \<and> shown (step e s) = shown s \<or>
          flight s \<noteq> [] \<and> flight (step e s) = tl (flight s) \<and> shown (step e s) = Some (hd (flight s)))))"
begin

definition settles :: "'s \<Rightarrow> bool" where
  "settles s \<longleftrightarrow> valid s \<and> (armed s \<or> flight s \<noteq> [] \<and> last (flight s) = want s \<or>
     flight s = [] \<and> shown s = Some (want s))"

lemma step_settles:
  assumes "settles s" "orderly e"
  shows "settles (step e s)"
proof (cases "armed (step e s)")
  case True
  then show ?thesis using assms valid_step by (simp add: settles_def)
next
  case False
  have v: "valid s" "valid (step e s)" using assms valid_step by (simp_all add: settles_def)
  from False orderly_step [OF v(1) assms(2)] have w: "want (step e s) = want s"
    and c: "flight (step e s) = flight s @ [want s] \<or> armed (step e s) = armed s \<and>
        (flight (step e s) = flight s \<and> shown (step e s) = shown s \<or>
         flight s \<noteq> [] \<and> flight (step e s) = tl (flight s) \<and> shown (step e s) = Some (hd (flight s)))"
    by blast+
  from c show ?thesis
  proof (elim disjE conjE)
    assume "flight (step e s) = flight s @ [want s]"
    then show ?thesis using w v by (simp add: settles_def)
  next
    assume "armed (step e s) = armed s" "flight (step e s) = flight s" "shown (step e s) = shown s"
    then show ?thesis using w v assms(1) by (simp add: settles_def)
  next
    assume a: "armed (step e s) = armed s" and ne: "flight s \<noteq> []"
      and f: "flight (step e s) = tl (flight s)" "shown (step e s) = Some (hd (flight s))"
    have l: "last (flight s) = want s" using assms(1) a ne False by (simp add: settles_def)
    obtain q qs where q: "flight s = q # qs" using ne by (cases "flight s") simp_all
    show ?thesis using l f w q v by (cases qs) (simp_all add: settles_def)
  qed
qed

lemma run_settles: "settles s \<Longrightarrow> list_all orderly es \<Longrightarrow> settles (fold step es s)"
  by (induction es arbitrary: s) (simp_all add: step_settles)

lemma quiet_shows_want:
  assumes "settles s" "list_all orderly es"
    and "\<not> armed (fold step es s)" "flight (fold step es s) = []"
  shows "shown (fold step es s) = Some (want (fold step es s))"
  using run_settles [OF assms(1,2)] assms(3,4) by (simp add: settles_def)

end

end
