(* ===== verification/Shell.thy ===== *)
theory Shell
  imports Pages
begin

text \<open>
  The frame of the web application: the navigation (components/Nav.tsx, app/app/AppLayoutClient.tsx,
  components/MerchantChrome.tsx), the providers of the language and the theme
  (i18n/LocaleProvider.tsx, components/ThemeProvider.tsx), the install sheet
  (components/InstallSheet.tsx), and two cards: components/receipt/ReceiptCard.tsx and
  components/checkout/PaymentDetailsDisclosure.tsx, all under apps/web/src.
\<close>

subsection \<open>Navigation\<close>

definition nav_hrefs :: "ustr list" where
  "nav_hrefs = map lit [''/app'', ''/app/orders'', ''/app/customers'', ''/app/settings'']"

definition nav_match :: "ustr \<Rightarrow> ustr \<Rightarrow> bool" where
  "nav_match href path =
     (if href = lit ''/app'' then path = lit ''/app''
      else if href = lit ''/app/settings'' then
        starts_with path (lit ''/app/settings'') \<or> path = lit ''/app/wallets'' \<or> starts_with path (lit ''/app/links'')
      else starts_with path href)"

text \<open>\<open>None\<close> during the onboarding; otherwise the entries that are marked.\<close>

definition nav_active :: "ustr \<Rightarrow> ustr list option" where
  "nav_active path = (if starts_with path (lit ''/app/onboarding'') then None
     else Some (filter (\<lambda>h. nav_match h path) nav_hrefs))"

text \<open>\<open>/^\/app\/orders\/[^/]+/\<close>.\<close>

definition order_detail_path :: "ustr \<Rightarrow> bool" where
  "order_detail_path path \<longleftrightarrow> starts_with path (lit ''/app/orders/'') \<and>
     (case drop (length (lit ''/app/orders/'')) path of [] \<Rightarrow> False | c # _ \<Rightarrow> c \<noteq> 47)"

definition showChromeCreate :: "bool \<Rightarrow> ustr \<Rightarrow> bool" where
  "showChromeCreate mounted path \<longleftrightarrow> mounted \<and> path \<noteq> [] \<and> path \<noteq> lit ''/app'' \<and> path \<noteq> lit ''/app/'' \<and>
     \<not> starts_with path (lit ''/app/create'') \<and> \<not> order_detail_path path"

definition merchant_chrome :: "runtime \<Rightarrow> ustr \<Rightarrow> ustr \<Rightarrow> ustr \<Rightarrow> (ustr \<times> ustr) option" where
  "merchant_chrome rt displayName name logo =
     (let shown = or_text displayName name
      in if shown = [] then None
         else Some (shown, if logo \<noteq> [] then logo else js_upper rt (take 1 shown)))"

subsection \<open>Language and theme\<close>

text \<open>The document's attributes; \<open>data-locale\<close> is absent before the provider has run.\<close>

record document_attrs =
  da_lang :: ustr
  da_dir :: ustr
  da_locale :: "ustr option"

definition bootLocale :: "runtime \<Rightarrow> document_attrs \<Rightarrow> web_browser \<Rightarrow> web_locale" where
  "bootLocale rt doc b =
     (case isLocale (wb_storage b localeCookie) of Some l \<Rightarrow> l
      | None \<Rightarrow> (case isLocale (da_locale doc) of Some l \<Rightarrow> l | None \<Rightarrow> detectInitialLocale rt (Some b)))"

record locale_provider =
  lo_locale :: web_locale
  lo_ready :: bool
  lo_document :: document_attrs
  lo_browser :: web_browser

definition new_provider :: "document_attrs \<Rightarrow> web_browser \<Rightarrow> locale_provider" where
  "new_provider doc b = \<lparr>lo_locale = defaultLocale, lo_ready = False, lo_document = doc, lo_browser = b\<rparr>"

definition persisted :: "web_locale \<Rightarrow> web_browser \<Rightarrow> web_browser" where
  "persisted l b = the (persistLocale l (Some b))"

definition provider_mount :: "runtime \<Rightarrow> locale_provider \<Rightarrow> locale_provider" where
  "provider_mount rt p =
     (let initial = bootLocale rt (lo_document p) (lo_browser p)
      in p\<lparr>lo_locale := initial, lo_browser := persisted initial (lo_browser p), lo_ready := True\<rparr>)"

definition provider_document :: "locale_provider \<Rightarrow> locale_provider" where
  "provider_document p =
     (if \<not> lo_ready p then p
      else p\<lparr>lo_document := \<lparr>da_lang = locale_name (lo_locale p), da_dir = dirFor (lo_locale p),
        da_locale = Some (locale_name (lo_locale p))\<rparr>\<rparr>)"

definition provider_set :: "web_locale \<Rightarrow> locale_provider \<Rightarrow> locale_provider" where
  "provider_set l p = p\<lparr>lo_locale := l, lo_browser := persisted l (lo_browser p)\<rparr>"

text \<open>The language a visitor chose is the language of the next visit.\<close>

lemma persisted_storage: "wb_storage (persisted l b) localeCookie = Some (locale_name l)"
  by (simp add: persisted_def persistLocale_def)

lemma locale_survives:
  "lo_locale (provider_mount rt (new_provider doc (lo_browser (provider_set l p)))) = l"
  by (simp add: provider_mount_def new_provider_def provider_set_def bootLocale_def persisted_storage Let_def)

record theme_provider =
  th_theme :: theme
  th_resolved :: theme
  th_applied :: "theme option"
  th_browser :: web_browser

definition theme_persisted :: "theme \<Rightarrow> web_browser \<Rightarrow> web_browser" where
  "theme_persisted t b = the (persistTheme t (Some b))"

definition theme_mount :: "theme_provider \<Rightarrow> theme_provider" where
  "theme_mount p =
     (let initial = detectInitialTheme (Some (th_browser p))
      in p\<lparr>th_theme := initial, th_browser := theme_persisted initial (th_browser p),
           th_resolved := resolvedTheme initial (Some (th_browser p))\<rparr>)"

definition theme_effect :: "theme_provider \<Rightarrow> theme_provider" where
  "theme_effect p = p\<lparr>th_applied := applyTheme (th_theme p) (Some (th_browser p)),
     th_resolved := resolvedTheme (th_theme p) (Some (th_browser p))\<rparr>"

definition setTheme :: "theme \<Rightarrow> theme_provider \<Rightarrow> theme_provider" where
  "setTheme t p = p\<lparr>th_theme := t, th_browser := theme_persisted t (th_browser p),
     th_resolved := resolvedTheme t (Some (th_browser p))\<rparr>"

text \<open>The listener is there only for the system's theme.\<close>

definition scheme_change :: "bool \<Rightarrow> theme_provider \<Rightarrow> theme_provider" where
  "scheme_change dark p =
     (let p1 = p\<lparr>th_browser := (th_browser p)\<lparr>wb_prefersDark := dark\<rparr>\<rparr>
      in if th_theme p \<noteq> Theme_system then p1
         else p1\<lparr>th_applied := applyTheme Theme_system (Some (th_browser p1)),
           th_resolved := resolvedTheme Theme_system (Some (th_browser p1))\<rparr>)"

text \<open>Once the effect has run, what is applied is what the theme resolves to, through every change
  of the system's colours.\<close>

lemma theme_applied:
  "th_applied (theme_effect p) = Some (resolvedTheme (th_theme p) (Some (th_browser p)))"
  "th_applied p = Some (resolvedTheme (th_theme p) (Some (th_browser p))) \<Longrightarrow>
     th_applied (scheme_change dark p) =
       Some (resolvedTheme (th_theme p) (Some (th_browser (scheme_change dark p))))"
  by (cases "th_theme p"; simp add: theme_effect_def scheme_change_def applyTheme_def resolvedTheme_def Let_def)+

subsection \<open>The install sheet\<close>

record install_sheet =
  is_open :: bool
  is_canNative :: bool
  is_installing :: bool
  is_deferred :: bool
  is_timer :: bool
  is_storage :: "storage option"

definition sheet_allowed :: "(ustr \<Rightarrow> int option) \<Rightarrow> int \<Rightarrow> install_browser option \<Rightarrow> install_sheet \<Rightarrow> bool" where
  "sheet_allowed number now b s \<longleftrightarrow> \<not> isStandaloneDisplay b \<and> \<not> wasInstallDismissed number now (is_storage s)"

definition install_mount :: "(ustr \<Rightarrow> int option) \<Rightarrow> int \<Rightarrow> install_browser option \<Rightarrow> install_sheet \<Rightarrow> install_sheet" where
  "install_mount number now b s = s\<lparr>is_canNative := is_deferred s, is_timer := sheet_allowed number now b s\<rparr>"

definition install_timer :: "(ustr \<Rightarrow> int option) \<Rightarrow> int \<Rightarrow> install_browser option \<Rightarrow> install_sheet \<Rightarrow> install_sheet" where
  "install_timer number now b s =
     (if \<not> is_timer s then s
      else let s1 = s\<lparr>is_timer := False\<rparr>
        in if sheet_allowed number now b s1 then s1\<lparr>is_open := True\<rparr> else s1)"

definition install_show :: "install_browser option \<Rightarrow> install_sheet \<Rightarrow> install_sheet" where
  "install_show b s = (if isStandaloneDisplay b then s else s\<lparr>is_open := True\<rparr>)"

definition before_install_prompt :: "install_sheet \<Rightarrow> install_sheet" where
  "before_install_prompt s = s\<lparr>is_deferred := True, is_canNative := True\<rparr>"

definition app_installed :: "int \<Rightarrow> install_sheet \<Rightarrow> install_sheet" where
  "app_installed now s = s\<lparr>is_deferred := False, is_storage := dismissInstallPrompt now (is_storage s), is_open := False\<rparr>"

definition install_begin :: "install_sheet \<Rightarrow> install_sheet" where
  "install_begin s = (if \<not> is_deferred s then s else s\<lparr>is_installing := True\<rparr>)"

definition install_end :: "bool \<Rightarrow> int \<Rightarrow> install_sheet \<Rightarrow> install_sheet" where
  "install_end answered now s =
     (let s1 = s\<lparr>is_installing := False\<rparr>
      in if answered then s1\<lparr>is_deferred := False, is_canNative := False,
           is_storage := dismissInstallPrompt now (is_storage s), is_open := False\<rparr> else s1)"

definition install_dismiss :: "int \<Rightarrow> install_sheet \<Rightarrow> install_sheet" where
  "install_dismiss now s = s\<lparr>is_storage := dismissInstallPrompt now (is_storage s), is_open := False\<rparr>"

text \<open>A dismissed sheet does not open by itself for fourteen days.\<close>

lemma dismissed_stays_closed:
  assumes "\<And>i. number (dec_int i) = Some i" "dec_int t \<noteq> []" "is_storage s = Some (Some m)"
    and "n - t < DISMISS_MS" "n' - t < DISMISS_MS"
  shows "\<not> is_open (install_timer number n' b (install_mount number n b (install_dismiss t s)))"
  using assms dismissed_then [of number t n m] dismissed_then [of number t n' m]
  by (simp add: install_timer_def install_mount_def install_dismiss_def sheet_allowed_def Let_def)

text \<open>After an installation the native button is still offered, and does nothing.\<close>

lemma installed_button_is_dead:
  "is_canNative s \<Longrightarrow> is_canNative (app_installed now s) \<and> install_begin (app_installed now s) = app_installed now s"
  by (simp add: app_installed_def install_begin_def)

subsection \<open>The receipt and the payment details\<close>

record receipt_data =
  rd_merchant :: ustr
  rd_order_title :: ustr
  rd_order_reference :: ustr
  rd_amountToman :: "nat option"
  rd_usdt :: ustr
  rd_received_usdt :: ustr
  rd_network :: ustr
  rd_tx_hash :: ustr
  rd_explorer_url :: ustr
  rd_success_message :: ustr

definition receipt_networkLabel :: "runtime \<Rightarrow> ustr \<Rightarrow> ustr" where
  "receipt_networkLabel rt network =
     (if network = lit ''bsc'' then lit ''BNB Chain'' else if network = lit ''tron'' then lit ''TRON''
      else js_upper rt network)"

definition receipt_amount :: "nat option \<Rightarrow> receipt_data \<Rightarrow> nat" where
  "receipt_amount fiatAmountToman r =
     (case fiatAmountToman of Some n \<Rightarrow> n | None \<Rightarrow> (case rd_amountToman r of Some n \<Rightarrow> n | None \<Rightarrow> 0))"

definition receipt_merchant :: "messages \<Rightarrow> ustr \<Rightarrow> receipt_data \<Rightarrow> ustr" where
  "receipt_merchant t storeName r = or_text (rd_merchant r) (or_text storeName (t ''brand''))"

definition receipt_share_text ::
  "runtime \<Rightarrow> (nat \<Rightarrow> ustr) \<Rightarrow> messages \<Rightarrow> ustr \<Rightarrow> nat option \<Rightarrow> receipt_data \<Rightarrow> ustr" where
  "receipt_share_text rt localeNumber t storeName fiatAmountToman r =
     (let usdt = or_text (rd_received_usdt r) (rd_usdt r)
      in join_with [10] (filter (\<lambda>l. l \<noteq> [])
           [[10003, 32] @ t ''receipt.title'', receipt_merchant t storeName r,
            localeNumber (receipt_amount fiatAmountToman r) @ lit '' '' @ t ''checkout.toman'',
            (if rd_order_reference r \<noteq> [] then t ''checkout.orderRef'' @ lit '' #'' @ rd_order_reference r else []),
            (if usdt \<noteq> [] then usdt @ lit '' USDT '' @ [183, 32] @ receipt_networkLabel rt (rd_network r) else [])]))"

text \<open>The transaction as shown: its first ten and its last six units.\<close>

definition receipt_tx :: "ustr \<Rightarrow> ustr" where
  "receipt_tx tx_hash = take 10 tx_hash @ [8230] @ drop (length tx_hash - 6) tx_hash"

text \<open>\<open>share\<close>: the share sheet where there is one, else, or where it fails, the clipboard.\<close>

datatype receipt_share = Receipt_shared | Receipt_copied

definition receipt_share_outcome :: "bool option \<Rightarrow> receipt_share" where
  "receipt_share_outcome shared = (if shared = Some True then Receipt_shared else Receipt_copied)"

text \<open>An order priced in USDT has a receipt over zero toman.\<close>

lemma usdt_receipt_zero: "rd_amountToman r = None \<Longrightarrow> receipt_amount None r = 0"
  by (simp add: receipt_amount_def)

record details_rows =
  dt_network :: ustr
  dt_token :: ustr
  dt_address :: ustr
  dt_amount :: ustr

definition payment_details :: "runtime \<Rightarrow> payment_option \<Rightarrow> details_rows" where
  "payment_details rt opt = \<lparr>dt_network = copy_networkLabel rt (op_network opt), dt_token = assetSymbol opt,
     dt_address = op_destination_address opt, dt_amount = exactPayableAmount opt @ lit '' '' @ assetSymbol opt\<rparr>"

end
