(* ===== verification/Catalogue.thy ===== *)
theory Catalogue
  imports PaymentStatus
begin

text \<open>
  The shape of a message catalogue, apps/web/src/i18n/messages: an object of texts, lists of texts and
  objects. \<open>messages_of\<close> is the lookup \<open>t.a.b\<close> that the models of the pages take as a parameter, and
  \<open>js_replace\<close> the \<open>String.replace\<close> that fills a placeholder.
\<close>

datatype tvalue =
    Text ustr
  | Items "tvalue list"
  | Group "(string \<times> tvalue) list"

text \<open>The lookup \<open>t.a.b\<close>; a key that is not there is \<open>undefined\<close>, of which a page shows nothing.\<close>

fun find_key :: "string \<Rightarrow> (string \<times> 'a) list \<Rightarrow> 'a option" where
  "find_key k [] = None"
| "find_key k ((l, v) # kvs) = (if k = l then Some v else find_key k kvs)"

fun text_at :: "string list \<Rightarrow> tvalue \<Rightarrow> ustr option" where
  "text_at [] (Text s) = Some s"
| "text_at (k # ks) (Group kvs) = (case find_key k kvs of Some v \<Rightarrow> text_at ks v | None \<Rightarrow> None)"
| "text_at _ _ = None"

fun path_of :: "string \<Rightarrow> string list" where
  "path_of [] = [[]]"
| "path_of (c # cs) =
     (if c = CHR ''.'' then [] # path_of cs
      else (case path_of cs of [] \<Rightarrow> [[c]] | w # ws \<Rightarrow> (c # w) # ws))"

definition messages_of :: "tvalue \<Rightarrow> messages" where
  "messages_of v k = (case text_at (path_of k) v of Some s \<Rightarrow> s | None \<Rightarrow> [])"

text \<open>Congruence rules that keep the simplifier out of the texts during a lookup.\<close>

lemma find_key_cong: "k = l \<Longrightarrow> find_key k kvs = find_key l kvs"
  by simp

lemma text_at_cong: "p = q \<Longrightarrow> text_at p v = text_at q v"
  by simp

lemmas lookup_congs = find_key_cong text_at_cong

text \<open>The placeholders \<open>{x}\<close> of a text, in their order.\<close>

fun holes :: "ustr \<Rightarrow> ustr list" where
  "holes [] = []"
| "holes (c # cs) = (if c = 123 then takeWhile (\<lambda>u. u \<noteq> 125) cs # holes cs else holes cs)"

text \<open>Two catalogues agree: the same keys in the same order, lists of one length, no text empty, and
  the same placeholders in each text, as many times.\<close>

definition same_holes :: "ustr \<Rightarrow> ustr \<Rightarrow> bool" where
  "same_holes s t \<longleftrightarrow> (\<forall>h \<in> set (holes s) \<union> set (holes t). count_list (holes s) h = count_list (holes t) h)"

fun agree :: "tvalue \<Rightarrow> tvalue \<Rightarrow> bool"
  and agree_items :: "tvalue list \<Rightarrow> tvalue list \<Rightarrow> bool"
  and agree_group :: "(string \<times> tvalue) list \<Rightarrow> (string \<times> tvalue) list \<Rightarrow> bool" where
  "agree (Text s) (Text t) = (s \<noteq> [] \<and> t \<noteq> [] \<and> same_holes s t)"
| "agree (Items vs) (Items ws) = agree_items vs ws"
| "agree (Group kvs) (Group lws) = agree_group kvs lws"
| "agree _ _ = False"
| "agree_items [] [] = True"
| "agree_items (v # vs) (w # ws) = (agree v w \<and> agree_items vs ws)"
| "agree_items _ _ = False"
| "agree_group [] [] = True"
| "agree_group ((k, v) # kvs) ((l, w) # lws) = (k = l \<and> agree v w \<and> agree_group kvs lws)"
| "agree_group _ _ = False"

text \<open>A text without a brace has no placeholder; shown piece by piece.\<close>

definition braceless :: "ustr \<Rightarrow> bool" where
  "braceless s \<longleftrightarrow> list_all (\<lambda>c. c \<noteq> 123) s"

named_theorems braceless_simps "how a text is seen to have no brace"

lemma braceless_append [braceless_simps]: "braceless (s @ t) \<longleftrightarrow> braceless s \<and> braceless t"
  by (simp add: braceless_def)

lemma braceless_units [braceless_simps]: "braceless []" "braceless (c # s) \<longleftrightarrow> c \<noteq> 123 \<and> braceless s"
  by (simp_all add: braceless_def)

lemma of_char_brace: "(of_char c :: nat) = 123 \<longleftrightarrow> c = CHR ''{''"
proof -
  have "(of_char CHR ''{'' :: nat) = 123" by simp
  then show ?thesis by (metis of_char_eq_iff)
qed

lemma braceless_lit [braceless_simps]: "braceless (lit s) \<longleftrightarrow> list_all (\<lambda>c. c \<noteq> CHR ''{'') s"
  by (induction s) (simp_all add: braceless_def lit_def of_char_brace)

lemma holes_none: "braceless s \<Longrightarrow> holes s = []"
  by (induction s) (simp_all add: braceless_def)

lemma same_holes_braceless [braceless_simps]: "braceless s \<Longrightarrow> braceless t \<Longrightarrow> same_holes s t"
  by (simp add: same_holes_def holes_none)

declare lit_eq_Nil [braceless_simps]

text \<open>What agreement gives for one path.\<close>

lemma agree_group_of:
  "agree_group kvs lws \<Longrightarrow> find_key k kvs = None \<and> find_key k lws = None \<or>
     (\<exists>v w. find_key k kvs = Some v \<and> find_key k lws = Some w \<and> agree v w)"
  by (induction kvs lws rule: agree_agree_items_agree_group.induct(3)
      [where P = "\<lambda>_ _. True" and Q = "\<lambda>_ _. True"]) auto

lemma agree_text_at:
  "agree v w \<Longrightarrow> text_at p v = Some s \<Longrightarrow>
     \<exists>t. text_at p w = Some t \<and> s \<noteq> [] \<and> t \<noteq> [] \<and> same_holes s t"
proof (induction p v arbitrary: w rule: text_at.induct)
  case (1 s)
  then show ?case by (cases w) auto
next
  case (2 k ks kvs)
  then obtain v where v: "find_key k kvs = Some v" "text_at ks v = Some s" by (auto split: option.splits)
  obtain lws where w: "w = Group lws" "agree_group kvs lws" using 2 by (cases w) auto
  from agree_group_of [OF w(2), of k] v(1) obtain u where "find_key k lws = Some u" "agree v u" by auto
  with 2 v w show ?case by auto
qed auto

subsection \<open>Filling a placeholder\<close>

text \<open>\<open>String.replace\<close> with a string: the first occurrence, and in the replacement the patterns
  \<open>$$\<close>, \<open>$&\<close>, \<open>$`\<close> and \<open>$'\<close>.\<close>

fun expand_replacement :: "ustr \<Rightarrow> ustr \<Rightarrow> ustr \<Rightarrow> ustr \<Rightarrow> ustr" where
  "expand_replacement before found after (c # d # cs) =
     (if c = 36 then
        (if d = 36 then 36 # expand_replacement before found after cs
         else if d = 38 then found @ expand_replacement before found after cs
         else if d = 96 then before @ expand_replacement before found after cs
         else if d = 39 then after @ expand_replacement before found after cs
         else c # expand_replacement before found after (d # cs))
      else c # expand_replacement before found after (d # cs))"
| "expand_replacement before found after cs = cs"

fun js_replace_from :: "ustr \<Rightarrow> ustr \<Rightarrow> ustr \<Rightarrow> ustr \<Rightarrow> ustr" where
  "js_replace_from pat repl before s =
     (if take (length pat) s = pat
      then before @ expand_replacement before pat (drop (length pat) s) repl @ drop (length pat) s
      else (case s of [] \<Rightarrow> before | c # cs \<Rightarrow> js_replace_from pat repl (before @ [c]) cs))"

declare js_replace_from.simps [simp del]

definition js_replace :: "ustr \<Rightarrow> ustr \<Rightarrow> ustr \<Rightarrow> ustr" where
  "js_replace pat repl s = js_replace_from pat repl [] s"

lemma expand_plain: "36 \<notin> set repl \<Longrightarrow> expand_replacement b f a repl = repl"
  by (induction b f a repl rule: expand_replacement.induct) auto

text \<open>A placeholder that is filled where no brace stands before it.\<close>

lemma js_replace_from_at:
  assumes "hd pat = 123" "pat \<noteq> []" "braceless a"
  shows "js_replace_from pat repl b (a @ pat @ c) =
    b @ a @ expand_replacement (b @ a) pat c repl @ c"
  using assms(3)
proof (induction a arbitrary: b)
  case Nil
  then show ?case by (subst js_replace_from.simps) simp
next
  case (Cons x a)
  then have "take (length pat) ((x # a) @ pat @ c) \<noteq> pat"
    using assms(1,2) by (cases pat) (auto simp: braceless_def)
  then show ?case using Cons by (subst js_replace_from.simps) (simp add: braceless_def)
qed

lemma js_replace_at:
  "hd pat = 123 \<Longrightarrow> pat \<noteq> [] \<Longrightarrow> braceless a \<Longrightarrow>
     js_replace pat repl (a @ pat @ c) = a @ expand_replacement a pat c repl @ c"
  by (simp add: js_replace_def js_replace_from_at)

end
