(* ===== verification/CheckoutView.thy ===== *)
theory CheckoutView
  imports Ui PaySheet Shell Catalogue
begin

text \<open>
  What the checkout page renders, apps/web/src/components: checkout/CheckoutClient.tsx,
  checkout/PooliPaySheet.tsx, checkout/PaymentException.tsx, checkout/WalletPickerSheet.tsx,
  checkout/PaymentDetailsDisclosure.tsx, payments/PaymentState.tsx and receipt/ReceiptCard.tsx, as nodes
  over the states of \<open>Checkout\<close> and \<open>PaySheet\<close>.
\<close>

text \<open>What a control of the page stands for.\<close>

datatype checkout_click =
    Ck_submit
  | Ck_choose ustr
  | Ck_locale ustr
  | Ck_external
  | Ck_copy_link
  | Ck_why
  | Ck_pay
  | Ck_picker bool
  | Ck_pick wallet_id
  | Ck_picker_qr
  | Ck_qr
  | Ck_copy_details
  | Ck_copy_address
  | Ck_copy_amount
  | Ck_disclose
  | Ck_refresh
  | Ck_share
  | Ck_print

text \<open>What the components read from their surroundings: the catalogue, the language, the conversions of
  JavaScript, the browser and the clock.\<close>

record view_env =
  ve_rt :: runtime
  ve_t :: messages
  ve_locale :: ustr
  ve_localeNumber :: "nat \<Rightarrow> ustr"
  ve_wordSize :: "nat \<Rightarrow> ustr"
  ve_browser :: browser_env
  ve_ua :: ustr
  ve_projectId :: ustr
  ve_parseDate :: "ustr \<Rightarrow> int option"
  ve_now :: int
  ve_href :: ustr

subsection \<open>The status panel and the exceptions\<close>

definition ui_class ::
  "payment_ui_state \<Rightarrow> ustr" where
  "ui_class ui =
     lit (case ui of UI_READY \<Rightarrow> ''ready'' | UI_OPENING_WALLET \<Rightarrow> ''opening_wallet''
       | UI_WAITING_FOR_PAYMENT \<Rightarrow> ''waiting_for_payment'' | UI_PAYMENT_DETECTED \<Rightarrow> ''payment_detected''
       | UI_CONFIRMING \<Rightarrow> ''confirming'' | UI_PAID \<Rightarrow> ''paid'' | UI_EXPIRED \<Rightarrow> ''expired''
       | UI_NEEDS_ATTENTION \<Rightarrow> ''needs_attention'' | UI_OFFLINE \<Rightarrow> ''offline'')"

definition payment_state ::
  "messages \<Rightarrow> ustr option \<Rightarrow> bool \<Rightarrow> bool \<Rightarrow> nat option \<Rightarrow> nat option \<Rightarrow> bool \<Rightarrow> 'e node list" where
  "payment_state t status openingWallet offline confirmations required announce =
     (case paymentStatePanel t status openingWallet offline confirmations required of (title, body, conf) \<Rightarrow>
     [El ''section''
        ([At ''className''
            (lit ''payment-state payment-state-'' @
             ui_class (resolvePaymentUiState status openingWallet offline))] @
         (opt_at ''aria-live'' (if announce then Some (lit ''polite'') else None)) @
         (opt_at ''aria-atomic'' (if announce then Some (lit ''true'') else None)))
        ([El ''p'' [At ''className'' (lit ''payment-state-title'')] [Txt title]] @
         (if (given body) \<noteq> [] then
            [El ''p'' [At ''className'' (lit ''payment-state-body'')] [Txt (given body)]] else []) @
         (if (given conf) \<noteq> [] then
            [El ''p'' [At ''className'' (lit ''payment-state-meta tabular'')] [Txt (given conf)]] else []))])"

text \<open>\<open>kind\<close> is empty where there is none; so are the amounts.\<close>

definition payment_exception ::
  "messages \<Rightarrow> ustr \<Rightarrow> ustr \<Rightarrow> ustr \<Rightarrow> ustr \<Rightarrow> 'e option \<Rightarrow> bool \<Rightarrow> 'e node list" where
  "payment_exception t kind expected received asset onRefresh refreshing =
     (if kind = [] then []
      else if kind = lit ''EXPIRED'' then
     [El ''section'' [At ''className'' (lit ''card-panel''), At ''role'' (lit ''alert'')]
        ([El ''p'' [Style [(''margin'', lit ''0''), (''fontWeight'', lit ''650'')]]
            [Txt (t ''checkout.exception.expiredTitle'')],
          El ''p'' [At ''className'' (lit ''muted''), Style [(''margin'', lit ''var(--space-2) 0 0'')]]
            [Txt (t ''checkout.exception.expiredBody'')]] @
         (if onRefresh \<noteq> None then
            [El ''button''
               [At ''type'' (lit ''button''), At ''className'' (lit ''btn btn-primary''),
                Style [(''marginTop'', lit ''var(--space-4)'')], On ''onClick'' (the onRefresh),
                Flag ''disabled'' refreshing]
               [Txt (if refreshing then t ''common.loading'' else t ''checkout.refreshAmount'')]] else []))]
      else if kind = lit ''UNDERPAID'' then
     [El ''section'' [At ''className'' (lit ''card-panel''), At ''role'' (lit ''alert'')]
        [El ''p'' [Style [(''margin'', lit ''0''), (''fontWeight'', lit ''650'')]]
           [Txt (t ''checkout.exception.underpaidTitle'')],
         El ''p'' [At ''className'' (lit ''muted''), Style [(''margin'', lit ''var(--space-2) 0 0'')]]
           [Txt (t ''checkout.exception.underpaidBody'')],
         El ''dl'' [At ''className'' (lit ''pay-kv''), Style [(''marginTop'', lit ''var(--space-3)'')]]
           [El ''div'' []
              [El ''dt'' [] [Txt (t ''checkout.exception.expected'')],
               El ''dd'' [At ''className'' (lit ''mono-ltr tabular'')]
                 [Txt expected, Txt (lit '' ''), Txt asset]],
            El ''div'' []
              [El ''dt'' [] [Txt (t ''checkout.exception.received'')],
               El ''dd'' [At ''className'' (lit ''mono-ltr tabular'')]
                 [Txt (or_text received [8212]), Txt (lit '' ''), Txt asset]]],
         El ''p''
           [At ''className'' (lit ''alert alert-warning''), Style [(''marginTop'', lit ''var(--space-3)'')]]
           [Txt (t ''checkout.exception.dontSendAgain'')],
         El ''p'' [At ''className'' (lit ''muted''), Style [(''margin'', lit ''var(--space-2) 0 0'')]]
           [Txt (t ''common.moneySafe'')]]]
      else if kind = lit ''OVERPAID'' then
     [El ''section'' [At ''className'' (lit ''card-panel''), At ''role'' (lit ''alert'')]
        [El ''p'' [Style [(''margin'', lit ''0''), (''fontWeight'', lit ''650'')]]
           [Txt (t ''checkout.exception.overpaidTitle'')],
         El ''p'' [At ''className'' (lit ''muted''), Style [(''margin'', lit ''var(--space-2) 0 0'')]]
           [Txt (t ''checkout.exception.overpaidBody'')],
         El ''p''
           [At ''className'' (lit ''alert alert-warning''), Style [(''marginTop'', lit ''var(--space-3)'')]]
           [Txt (t ''checkout.exception.dontSendAgain'')],
         El ''p'' [At ''className'' (lit ''muted''), Style [(''margin'', lit ''var(--space-2) 0 0'')]]
           [Txt (t ''common.moneySafe'')]]]
      else if kind = lit ''LATE_PAYMENT'' then
     [El ''section'' [At ''className'' (lit ''card-panel''), At ''role'' (lit ''alert'')]
        [El ''p'' [Style [(''margin'', lit ''0''), (''fontWeight'', lit ''650'')]]
           [Txt (t ''checkout.exception.lateTitle'')],
         El ''p'' [At ''className'' (lit ''muted''), Style [(''margin'', lit ''var(--space-2) 0 0'')]]
           [Txt (t ''checkout.exception.lateBody'')],
         El ''p''
           [At ''className'' (lit ''alert alert-warning''), Style [(''marginTop'', lit ''var(--space-3)'')]]
           [Txt (t ''checkout.exception.dontSendAgain'')],
         El ''p'' [At ''className'' (lit ''muted''), Style [(''margin'', lit ''var(--space-2) 0 0'')]]
           [Txt (t ''common.moneySafe'')]]]
      else if kind = lit ''NEEDS_REVIEW'' \<or> kind = lit ''DUPLICATE_PAYMENT'' then
     [El ''section'' [At ''className'' (lit ''card-panel''), At ''role'' (lit ''alert'')]
        [El ''p'' [Style [(''margin'', lit ''0''), (''fontWeight'', lit ''650'')]]
           [Txt (t ''checkout.exception.reviewTitle'')],
         El ''p'' [At ''className'' (lit ''muted''), Style [(''margin'', lit ''var(--space-2) 0 0'')]]
           [Txt (t ''checkout.exception.reviewBody'')],
         El ''p''
           [At ''className'' (lit ''alert alert-warning''), Style [(''marginTop'', lit ''var(--space-3)'')]]
           [Txt (t ''checkout.exception.dontSendAgain'')],
         El ''p'' [At ''className'' (lit ''muted''), Style [(''margin'', lit ''var(--space-2) 0 0'')]]
           [Txt (t ''common.moneySafe'')]]]
      else [])"

subsection \<open>Choosing a wallet, the details and the receipt\<close>

definition picker_item ::
  "messages \<Rightarrow> wallet_candidate \<Rightarrow> checkout_click node list" where
  "picker_item t w =
     [El ''li'' []
        [El ''button''
           [At ''type'' (lit ''button''), At ''className'' (lit ''wallet-pick-item''),
            On ''onClick'' (Ck_pick (wc_id w))]
           ([El ''span'' []
               ([El ''strong'' [] [Txt (walletLabel (wc_id w) t)]] @
                (if (given (walletHint w t)) \<noteq> [] then
                   [El ''span'' [At ''className'' (lit ''network-hint'')] [Txt (given (walletHint w t))]] else []))] @
            (if wc_recommended w then
               [El ''span'' [At ''className'' (lit ''badge'')] [Txt (t ''checkout.recommend'')]] else []))]]"

definition wallet_picker ::
  "messages \<Rightarrow> bool \<Rightarrow> wallet_candidate list \<Rightarrow> checkout_click node list" where
  "wallet_picker t shown wallets =
     (sheet_frame shown (Ck_picker False) (t ''checkout.chooseWallet'') (Some (lit ''wallet-picker-title''))
        [El ''ul'' [At ''className'' (lit ''wallet-pick-list'')]
           (concat (map (picker_item t) (filter (\<lambda>w. wc_id w \<noteq> Qr) wallets))),
         El ''button''
           [At ''type'' (lit ''button''), At ''className'' (lit ''btn btn-secondary''),
            Style [(''marginTop'', lit ''var(--space-3)'')], On ''onClick'' Ck_picker_qr]
           [Txt (t ''checkout.showQr'')]])"

definition details_disclosure ::
  "runtime \<Rightarrow> messages \<Rightarrow> payment_option \<Rightarrow> bool \<Rightarrow> ustr \<Rightarrow> checkout_click node list" where
  "details_disclosure rt t opt disclosed networkWarning =
     [El ''div'' [At ''className'' (lit ''pay-details'')]
        ([El ''button''
            [At ''type'' (lit ''button''), At ''className'' (lit ''linkish''),
             Flag ''aria-expanded'' disclosed, On ''onClick'' Ck_disclose]
            [Txt (t ''checkout.paymentDetails'')]] @
         (if disclosed then
            [El ''dl'' [At ''className'' (lit ''pay-kv''), Style [(''marginTop'', lit ''var(--space-3)'')]]
               ([El ''div'' []
                   [El ''dt'' [] [Txt (t ''checkout.network'')],
                    El ''dd'' [] [Txt (copy_networkLabel rt (op_network opt))]],
                 El ''div'' []
                   [El ''dt'' [] [Txt (t ''checkout.token'')], El ''dd'' [] [Txt (assetSymbol opt)]],
                 El ''div'' []
                   [El ''dt'' [] [Txt (t ''wallets.address'')],
                    El ''dd'' []
                      ((wallet_address t (op_destination_address opt) False Ck_copy_address) @
                       [El ''button''
                          [At ''type'' (lit ''button''), At ''className'' (lit ''btn btn-secondary''),
                           Style [(''marginTop'', lit ''var(--space-2)'')], On ''onClick'' Ck_copy_address]
                          [Txt (t ''common.copy'')]])],
                 El ''div'' []
                   [El ''dt'' [] [Txt (t ''checkout.exactAmount'')],
                    El ''dd'' [At ''className'' (lit ''mono-ltr tabular'')]
                      [Txt (exactPayableAmount opt),
                       Txt (lit '' ''),
                       Txt (assetSymbol opt),
                       El ''button''
                         [At ''type'' (lit ''button''), At ''className'' (lit ''btn btn-secondary''),
                          On ''onClick'' Ck_copy_amount] [Txt (t ''checkout.copyAmount'')]]]] @
                (if networkWarning \<noteq> [] then
                   [El ''p'' [At ''className'' (lit ''field-hint'')] [Txt networkWarning]] else []))] else []))]"

definition receipt_card ::
  "view_env \<Rightarrow> receipt_data \<Rightarrow> ustr \<Rightarrow> ustr \<Rightarrow> nat option \<Rightarrow> bool \<Rightarrow> checkout_click node list" where
  "receipt_card ve r store title fiatAmountToman showActions =
     [El ''section'' [At ''className'' (lit ''receipt-card''), Flag ''data-receipt'' True]
        ([El ''div'' [At ''className'' (lit ''alert alert-success''), At ''role'' (lit ''status'')]
            [Txt (ve_t ve ''receipt.title'')],
          El ''p'' [At ''className'' (lit ''receipt-store'')] [Txt (receipt_merchant (ve_t ve) store r)]] @
         (if (or_text title (rd_order_title r)) \<noteq> [] then
            [El ''p'' [At ''className'' (lit ''muted'')] [Txt (or_text title (rd_order_title r))]] else []) @
         (amount_display
            (ve_localeNumber ve (receipt_amount fiatAmountToman r) @ lit '' '' @ ve_t ve ''checkout.toman'') []
            True []) @
         (if (rd_order_reference r) \<noteq> [] then
            [El ''p'' [At ''className'' (lit ''muted mono-ltr''), Style [(''textAlign'', lit ''center'')]]
               [Txt (ve_t ve ''checkout.orderRef''), Txt (lit '' #''), Txt (rd_order_reference r)]] else []) @
         (if (rd_success_message r) \<noteq> [] then
            [El ''p'' [At ''className'' (lit ''receipt-success-msg'')] [Txt (rd_success_message r)]] else []) @
         [El ''details'' [At ''className'' (lit ''receipt-tech'')]
            ([El ''summary'' [At ''className'' (lit ''linkish'')] [Txt (ve_t ve ''checkout.paymentDetails'')]] @
             (if (or_text (rd_received_usdt r) (rd_usdt r)) \<noteq> [] then
                [El ''p'' [At ''className'' (lit ''muted'')]
                   [Txt (or_text (rd_received_usdt r) (rd_usdt r)), Txt (lit '' USDT '' @ [183] @ lit '' ''),
                    Txt (receipt_networkLabel (ve_rt ve) (rd_network r))]] else []) @
             (if rd_tx_hash r \<noteq> [] then
                [El ''p'' [At ''className'' (lit ''mono-ltr'')]
                   [Txt (ve_t ve ''receipt.transaction''), Txt (lit '': ''), Txt (take 10 (rd_tx_hash r)),
                    Txt ([8230]), Txt (drop (length (rd_tx_hash r) - 6) (rd_tx_hash r))]] else []) @
             (if rd_explorer_url r \<noteq> [] then
                [El ''a''
                   [At ''className'' (lit ''btn btn-secondary''), At ''href'' (rd_explorer_url r),
                    At ''target'' (lit ''_blank''), At ''rel'' (lit ''noreferrer'')]
                   [Txt (ve_t ve ''checkout.viewTx'')]] else []))] @
         (if showActions then
            [El ''div'' [At ''className'' (lit ''receipt-actions'')]
               [El ''button''
                  [At ''type'' (lit ''button''), At ''className'' (lit ''btn btn-secondary''),
                   On ''onClick'' Ck_share] [Txt (ve_t ve ''receipt.share'')],
                El ''button''
                  [At ''type'' (lit ''button''), At ''className'' (lit ''btn btn-ghost''),
                   On ''onClick'' Ck_print] [Txt (ve_t ve ''receipt.print'')]]] else []) @
         [El ''p'' [At ''className'' (lit ''powered muted'')]
            ((brand_mark (ve_wordSize ve) ''mark'' ''color'' (lit ''en'') [] 16) @
             [Txt (lit '' ''), Txt (ve_t ve ''brand'')])])]"

subsection \<open>The payment sheet\<close>

definition sheet_receipt ::
  "sheet_props \<Rightarrow> ustr \<Rightarrow> ustr \<Rightarrow> receipt_data" where
  "sheet_receipt q store title =
     (let v = receipt_screen q
      in \<lparr>rd_merchant = store, rd_order_title = title, rd_order_reference = given (rv_order_reference v),
          rd_amountToman = Some (sp_fiatAmountToman q), rd_usdt = given (rv_usdt_amount v),
          rd_received_usdt = given (rv_received_usdt_amount v), rd_network = given (rv_network v),
          rd_tx_hash = given (rv_tx_hash v), rd_explorer_url = given (rv_explorer_url v),
          rd_success_message = given (rv_success_message v)\<rparr>)"

definition sheet_paid ::
  "view_env \<Rightarrow> ustr \<Rightarrow> ustr \<Rightarrow> sheet_props \<Rightarrow> checkout_click node list" where
  "sheet_paid ve store title q =
     [El ''div'' [At ''className'' (lit ''page-stack'')]
        ((payment_state (ve_t ve) (Some (lit ''PAID'')) False False None None True) @
         (receipt_card ve (sheet_receipt q store title) store title (Some (sp_fiatAmountToman q)) True) @
         [El ''p''
            [At ''className'' (lit ''muted''), Style [(''textAlign'', lit ''center''), (''margin'', lit ''0'')]]
            [Txt (ve_t ve ''checkout.closePage'')]] @
         (if given (sp_trackingNumber q) \<noteq> [] then
            [El ''div'' []
               [El ''div'' [At ''className'' (lit ''muted'')] [Txt (ve_t ve ''checkout.trackingCode'')],
                El ''div'' [At ''className'' (lit ''mono-ltr''), Style [(''fontWeight'', lit ''600'')]]
                  [Txt
                     (if given (sp_shippingProvider q) \<noteq> [] then
                        given (sp_shippingProvider q) @ [32, 183, 32] else []),
                   Txt (given (sp_trackingNumber q))]]] else []) @
         (if sp_fulfillmentStatus q = Some (lit ''SHIPPED'') \<or> sp_fulfillmentStatus q = Some
               (lit ''DELIVERED'') then
            [El ''p'' [At ''className'' (lit ''muted'')]
               [Txt ([10003] @ lit '' ''), Txt (ve_t ve ''checkout.orderShipped'')]] else []))]"

definition sheet_form ::
  "view_env \<Rightarrow> sheet_props \<Rightarrow> payment_option \<Rightarrow> handoff_plan \<Rightarrow> sheet \<Rightarrow> bool \<Rightarrow> checkout_click node list" where
  "sheet_form ve q opt plan s disclosed =
     [El ''section'' [At ''className'' (lit ''section'')]
        ((amount_display (exactPayableAmount opt @ lit '' '' @ assetSymbol opt)
            (vw_secondary (payment_view (ve_rt ve) (ve_localeNumber ve) (ve_t ve) (ve_browser ve) q opt plan s))
            True []) @
         [El ''button''
            [At ''type'' (lit ''button''), At ''className'' (lit ''linkish''), On ''onClick'' Ck_why]
            [Txt (ve_t ve ''checkout.whyExactAmount'')]] @
         (if ps_showWhyExact s then
            [El ''p'' [At ''className'' (lit ''field-hint'')] [Txt (ve_t ve ''checkout.exactHint'')]] else []) @
         (if \<not> moneyDetected (sp_intentStatus q) \<and> sp_countdown q \<noteq> [] \<and> sp_countdown q
               \<noteq> [8212] then
            [El ''p'' [At ''className'' (lit ''muted tabular''), Style [(''margin'', lit ''0'')]]
               [Txt (ve_t ve ''checkout.quoteExpires''), Txt (lit '': ''), Txt (sp_countdown q)]] else []) @
         (payment_state (ve_t ve) (sp_intentStatus q) (ps_busyPay s) False
            (case sp_matched q of None \<Rightarrow> None | Some m \<Rightarrow> mt_confirmations m)
            (case sp_matched q of None \<Rightarrow> None | Some m \<Rightarrow> mt_required_confirmations m)
            True) @
         (if (sp_checkingPayment q) \<and> (\<not> (moneyDetected (sp_intentStatus q))) then
            [El ''p''
               [At ''className'' (lit ''muted''), At ''role'' (lit ''status''),
                At ''aria-live'' (lit ''polite'')] [Txt (ve_t ve ''checkout.checkingPayment'')]] else []) @
         (if (ps_showQr s) \<or> (hp_qrPrimary plan) then
            [El ''div'' [At ''className'' (lit ''qr-card'')]
               [El ''p''
                  [At ''className'' (lit ''section-title''),
                   Style [(''paddingInline'', lit ''0''), (''textAlign'', lit ''center'')]]
                  [Txt (ve_t ve ''checkout.scanWithWallet'')],
                El ''div'' [At ''className'' (lit ''qr-frame'')]
                  [El ''QRCodeSVG''
                     [At ''value'' (hp_qrPayload plan), At ''size'' (lit ''200''),
                      At ''bgColor'' (lit ''#ffffff''), At ''fgColor'' (lit ''#0b1f1a''),
                      At ''level'' (lit ''M''), At ''marginSize'' (lit ''4'')] []]]] else []) @
         (if (ps_handoffTrouble s) \<or> (be_isInAppBrowser (ve_browser ve)) then
            [El ''div'' [At ''className'' (lit ''cta-stack'')]
               [El ''p'' [Style [(''margin'', lit ''0''), (''fontWeight'', lit ''600'')]]
                  [Txt (ve_t ve ''checkout.iabTitle'')],
                El ''button''
                  [At ''type'' (lit ''button''), At ''className'' (lit ''btn btn-secondary''),
                   On ''onClick'' Ck_external] [Txt (ve_t ve ''checkout.openInBrowser'')]]] else []) @
         (details_disclosure (ve_rt ve) (ve_t ve) opt disclosed (ve_t ve ''checkout.wrongNetwork'')) @
         [El ''div'' [At ''className'' (lit ''sticky-cta'')]
            ((if hp_showPayWithWallet plan then
                [El ''div'' [At ''className'' (lit ''cta-stack'')]
                   [El ''button''
                      [At ''type'' (lit ''button''), At ''className'' (lit ''btn btn-primary''),
                       Flag ''disabled'' (ps_busyPay s), On ''onClick'' Ck_pay]
                      [Txt
                         (if ps_busyPay s then
                            ve_t ve ''checkout.openingWallet''
                          else primaryCtaLabel (ve_t ve) (Some plan))],
                    El ''button''
                      [At ''type'' (lit ''button''), At ''className'' (lit ''linkish''),
                       On ''onClick'' (Ck_picker True)] [Txt (ve_t ve ''checkout.changeWallet'')]]]
              else [El ''button''
                      [At ''type'' (lit ''button''), At ''className'' (lit ''btn btn-primary''),
                       On ''onClick'' Ck_copy_details] [Txt (ve_t ve ''checkout.copyPaymentDetails'')]]) @
             [El ''div'' [At ''className'' (lit ''cta-stack''), Style [(''marginTop'', lit ''var(--space-2)'')]]
                ((if \<not> (ps_showQr s) then
                    [El ''button''
                       [At ''type'' (lit ''button''), At ''className'' (lit ''btn btn-secondary''),
                        On ''onClick'' Ck_qr] [Txt (ve_t ve ''checkout.showQr'')]] else []) @
                 (if hp_showPayWithWallet plan then
                    [El ''button''
                       [At ''type'' (lit ''button''), At ''className'' (lit ''btn btn-secondary''),
                        On ''onClick'' Ck_copy_details] [Txt (ve_t ve ''checkout.copyPaymentDetails'')]] else []))])] @
         (wallet_picker (ve_t ve) (ps_pickerOpen s) (hp_wallets plan)))]"

definition sheet_view ::
  "view_env \<Rightarrow> ustr \<Rightarrow> ustr \<Rightarrow> sheet_props \<Rightarrow> bool \<Rightarrow> sheet \<Rightarrow> bool \<Rightarrow> checkout_click node list" where
  "sheet_view ve store title q refreshing s disclosed =
     (let ex = exceptionKind (sp_intentStatus q); opt = sp_option q;
          canRefresh = canRefreshQuote (ve_parseDate ve) (ve_now ve) (sp_intentStatus q)
            (case opt of None \<Rightarrow> None | Some p \<Rightarrow> op_expires_at p)
      in if sp_intentStatus q = Some (lit ''PAID'') then sheet_paid ve store title q
         else if ex \<noteq> None \<and> ex \<noteq> Some (lit ''EXPIRED'') then
           payment_exception (ve_t ve) (the ex) (case opt of None \<Rightarrow> [] | Some p \<Rightarrow> exactPayableAmount p)
             (case sp_receipt q of None \<Rightarrow> [] | Some r \<Rightarrow> given (rc_received_usdt_amount r))
             (case opt of None \<Rightarrow> lit ''USDT'' | Some p \<Rightarrow> assetSymbol p) None False
         else if ex = Some (lit ''EXPIRED'') \<or> canRefresh then
           payment_exception (ve_t ve) (lit ''EXPIRED'') [] [] (lit ''USDT'') (Some Ck_refresh) refreshing
         else case (opt, resolvedPlan (ve_browser ve) (ve_projectId ve) store opt s) of
             (Some p, Some plan) \<Rightarrow> sheet_form ve q p plan s disclosed
           | _ \<Rightarrow> [])"

subsection \<open>The page\<close>

definition catalogue_fields ::
  "messages \<Rightarrow> field_labels" where
  "catalogue_fields t =
     \<lparr>fl_fullName = t ''settings.fieldFullName'', fl_phone = t ''settings.fieldPhone'',
      fl_shipping = t ''settings.fieldShipping'', fl_postal = t ''settings.fieldPostal'',
      fl_email = t ''settings.fieldEmail'', fl_note = t ''settings.fieldNote''\<rparr>"

definition pay_kicker ::
  "messages \<Rightarrow> ustr \<Rightarrow> ustr" where
  "pay_kicker t store =
     js_replace (lit ''{name}'') store (t ''checkout.payStore'')"

definition checkout_loading ::
  "view_env \<Rightarrow> bool \<Rightarrow> ustr \<Rightarrow> checkout_click node list" where
  "checkout_loading ve telegram e =
     [El ''main'' [At ''className'' (lit ''shell page-stack'')]
        ((if \<not> telegram then
            (ig_banner (ve_t ve) (ig_shown (ve_rt ve) (ve_ua ve)) Ck_external Ck_copy_link) else []) @
         (skeleton (lit ''2.5rem'') (lit ''60%'') []) @ (skeleton (lit ''1rem'') (lit ''40%'') []) @
         (skeleton (lit ''4.5rem'') (lit ''100%'') []) @ (skeleton (lit ''8rem'') (lit ''100%'') []) @
         (if e \<noteq> [] then
            [El ''p'' [At ''className'' (lit ''field-error''), At ''role'' (lit ''alert'')]
               [Txt (if has_word e [''not'', ''404''] then ve_t ve ''checkout.notFound'' else e)]] else []))]"

definition field_view ::
  "view_env \<Rightarrow> checkout_field \<Rightarrow> checkout_click node list" where
  "field_view ve f =
     [El ''div'' [At ''className'' (lit ''field'')]
        ([El ''label'' [At ''htmlFor'' (cf_key f)]
            [Txt (checkoutFieldLabel (cf_key f) (catalogue_fields (ve_t ve)) (Some (cf_label f))),
             Txt (if cf_required f then lit '' *'' else [])]] @
         (if cf_type f = lit ''textarea'' then
            [El ''textarea''
               [At ''id'' (cf_key f), At ''name'' (cf_key f), Flag ''required'' (cf_required f),
                At ''rows'' (lit ''3'')] []]
          else
            (if cf_type f = lit ''select'' then
               [El ''select''
                  [At ''id'' (cf_key f), At ''name'' (cf_key f), Flag ''required'' (cf_required f),
                   At ''defaultValue'' ([])]
                  ([El ''option'' [At ''value'' ([]), Flag ''disabled'' True] [Txt ([8212])]] @
                   (concat
                      (map (\<lambda>u. [El ''option'' [At ''value'' u] [Txt u]])
                         (case cf_options f of None \<Rightarrow> [] | Some os \<Rightarrow> os))))]
             else [El ''input''
                     [At ''id'' (cf_key f),
                      At ''name'' (cf_key f),
                      At ''type''
                        (if cf_type f = lit ''email'' then
                           lit ''email''
                         else if cf_type f = lit ''tel'' then lit ''tel'' else lit ''text''),
                      Flag ''required'' (cf_required f),
                      At ''autoComplete''
                        (if cf_key f = lit ''full_name'' then
                           lit ''name''
                         else if cf_key f = lit ''phone'' then
                                lit ''tel''
                              else if cf_key f = lit ''email'' then lit ''email'' else lit ''off'')] []])))]"

definition details_form ::
  "view_env \<Rightarrow> checkout_field list \<Rightarrow> ustr \<Rightarrow> checkout_click node list" where
  "details_form ve fs e =
     [El ''form'' [At ''className'' (lit ''form-stack''), On ''onSubmit'' Ck_submit]
        ([El ''h2'' [Style [(''margin'', lit ''0''), (''fontSize'', lit ''var(--text-title3)'')]]
            [Txt (ve_t ve ''checkout.customerInfo'')]] @
         concat (map (field_view ve) fs) @
         (if e \<noteq> [] then
            [El ''p'' [At ''className'' (lit ''field-error''), At ''role'' (lit ''alert'')] [Txt e]] else []) @
         [El ''button'' [At ''className'' (lit ''btn btn-primary'')] [Txt (ve_t ve ''checkout.continue'')]])]"

definition network_section ::
  "view_env \<Rightarrow> ustr list option \<Rightarrow> ustr option \<Rightarrow> ustr \<Rightarrow> checkout_click node list" where
  "network_section ve nets preferred e =
     [El ''section'' [At ''className'' (lit ''section'')]
        ([El ''h2'' [At ''className'' (lit ''section-title'')] [Txt (ve_t ve ''checkout.selectNetwork'')],
          El ''div'' [At ''className'' (lit ''network-choice'')]
            ((if lit ''tron'' \<in> set
                   (case nets of None \<Rightarrow> [lit ''tron''] | Some ns \<Rightarrow> ns) then
                [El ''button''
                   [At ''type'' (lit ''button''), At ''className'' (lit ''recommended''),
                    On ''onClick'' (Ck_choose (lit ''tron''))]
                   [El ''span'' []
                      [El ''strong'' [] [Txt (ve_t ve ''checkout.networkTron'')],
                       El ''span'' [At ''className'' (lit ''network-hint'')]
                         (if preferred = Some (lit ''tron'') then
                            [Txt (ve_t ve ''checkout.previouslyUsed'')]
                          else [Txt (ve_t ve ''checkout.networkTronHint'')])],
                    El ''span'' [At ''className'' (lit ''badge'')]
                      (if preferred = Some (lit ''tron'') then
                         [Txt (ve_t ve ''checkout.previouslyUsed'')]
                       else [Txt (ve_t ve ''checkout.recommend'')])]] else []) @
             (if lit ''bsc'' \<in> set (case nets of None \<Rightarrow> [] | Some ns \<Rightarrow> ns) then
                [El ''button'' [At ''type'' (lit ''button''), On ''onClick'' (Ck_choose (lit ''bsc''))]
                   ([El ''span'' []
                       [El ''strong'' [] [Txt (ve_t ve ''checkout.networkBsc'')],
                        El ''span'' [At ''className'' (lit ''network-hint'')]
                          (if preferred = Some (lit ''bsc'') then
                             [Txt (ve_t ve ''checkout.previouslyUsed'')]
                           else [Txt (ve_t ve ''checkout.networkBscHint'')])]] @
                    (if preferred = Some (lit ''bsc'') then
                       [El ''span'' [At ''className'' (lit ''badge'')] [Txt (ve_t ve ''checkout.previouslyUsed'')]] else []))] else []))] @
         (if e \<noteq> [] then
            [El ''p'' [At ''className'' (lit ''field-error''), At ''role'' (lit ''alert'')] [Txt e]] else []))]"

definition checkout_header ::
  "view_env \<Rightarrow> pay \<Rightarrow> checkout_click node list" where
  "checkout_header ve d =
     [El ''header'' [At ''className'' (lit ''checkout-header'')]
        [El ''div'' [At ''className'' (lit ''row-split''), Style [(''minWidth'', lit ''0'')]]
           [El ''div'' [At ''className'' (lit ''merchant-avatar'')]
              (if py_store_logo_url d \<noteq> [] then
                 [El ''img'' [At ''src'' (py_store_logo_url d), At ''alt'' ([])] []]
               else [Txt (js_upper (ve_rt ve) (take 1 (or_text (py_store_name d) (lit ''S''))))]),
            El ''div'' [Style [(''minWidth'', lit ''0'')]]
              ([El ''h1''
                  [At ''className'' (lit ''page-title''), Style [(''fontSize'', lit ''var(--text-title3)'')]]
                  [Txt (pay_kicker (ve_t ve) (py_store_name d))]] @
               (if (py_title d) \<noteq> [] then
                  [El ''p'' [At ''className'' (lit ''page-subtitle'')] [Txt (py_title d)]] else []))],
         El ''div'' [At ''className'' (lit ''row-split''), Style [(''flexShrink'', lit ''0'')]]
           ((language_switch (ve_t ve) (ve_locale ve) [] Ck_locale) @
            (brand_mark (ve_wordSize ve) ''mark'' ''color'' (ve_locale ve) [] 24))]]"

text \<open>The whole page. \<open>s\<close> and \<open>disclosed\<close> are the state of the sheet and of its details, which are there
  while the page shows the sheet.\<close>

definition checkout_page ::
  "view_env \<Rightarrow> bool \<Rightarrow> ustr \<Rightarrow> checkout \<Rightarrow> pay \<Rightarrow> sheet \<Rightarrow> bool \<Rightarrow> checkout_click node list" where
  "checkout_page ve telegram countdown c d s disclosed =
     [El ''main''
        [At ''className''
           (lit ''shell page-stack'' @
            (if co_step c = Step_pay \<and> intentStatus c \<noteq> Some (lit ''PAID'') then
               lit '' checkout-pay'' else []) @
            (if py_checkout_accent d \<noteq> [] then
               lit '' checkout-accent-'' @ py_checkout_accent d else []))]
        ((if \<not> telegram then
            (ig_banner (ve_t ve) (ig_shown (ve_rt ve) (ve_ua ve)) Ck_external Ck_copy_link) else []) @
         checkout_header ve d @
         (if \<not> (onPayStep c) then
            (amount_display
               (displayAmount (ve_localeNumber ve) (ve_t ve ''checkout.usdt'') (ve_t ve ''checkout.toman'') d)
               [] True []) else []) @
         (if co_step c = Step_details then (details_form ve (py_fields d) (co_error c)) else []) @
         (if (co_step c = Step_network) \<and> (intentStatus c \<noteq> Some (lit ''PAID'')) then
            (network_section ve (py_enabled_networks d) (getPreferredNetwork (co_prefs c)) (co_error c)) else []) @
         (if onPayStep c then
            (case sheet_props_of c countdown of None \<Rightarrow> [] | Some q \<Rightarrow> sheet_view ve
               (py_store_name d) (py_title d) q (co_refreshingQuote c) s disclosed) @
            (if (co_error c) \<noteq> [] then
               [El ''p'' [At ''className'' (lit ''field-error''), At ''role'' (lit ''alert'')]
                  [Txt (co_error c)]] else []) else []))]"

definition checkout_view ::
  "view_env \<Rightarrow> bool \<Rightarrow> ustr \<Rightarrow> checkout \<Rightarrow> sheet \<Rightarrow> bool \<Rightarrow> checkout_click node list" where
  "checkout_view ve telegram countdown c s disclosed =
     (case co_pay c of None \<Rightarrow> checkout_loading ve telegram (co_error c)
      | Some d \<Rightarrow> checkout_page ve telegram countdown c d s disclosed)"

subsection \<open>What the page offers\<close>

text \<open>The events of the parts. The banner offers two, the header the languages, the form to be submitted,
  the network section the networks that are enabled.\<close>

lemma ig_banner_events: "events_of (ig_banner t shown a b) = (if shown then [a, b] else [])"
  by (simp add: ig_banner_def markup_simps)

lemma header_events: "events_of (checkout_header ve d) = [Ck_locale (lit ''en''), Ck_locale (lit ''fa'')]"
  by (simp add: checkout_header_def markup_simps language_events skeleton_silent)

lemma field_events: "events_of (field_view ve f) = []"
  by (simp add: field_view_def markup_simps o_def)

lemma form_events: "events_of (details_form ve fs e) = [Ck_submit]"
  by (simp add: details_form_def markup_simps field_events o_def)

lemma network_events:
  "events_of (network_section ve nets pref e) =
     (if lit ''tron'' \<in> set (case nets of None \<Rightarrow> [lit ''tron''] | Some ns \<Rightarrow> ns) then [Ck_choose (lit ''tron'')] else []) @
     (if lit ''bsc'' \<in> set (case nets of None \<Rightarrow> [] | Some ns \<Rightarrow> ns) then [Ck_choose (lit ''bsc'')] else [])"
  by (simp add: network_section_def markup_simps)

lemma state_events: "events_of (payment_state t s o_w off c r an) = []"
  by (simp add: payment_state_def markup_simps split: prod.split)

lemma exception_events:
  "events_of (payment_exception t kind expected received asset onRefresh refreshing) =
     (if kind = lit ''EXPIRED'' \<and> \<not> refreshing then (case onRefresh of None \<Rightarrow> [] | Some e \<Rightarrow> [e]) else [])"
  by (auto simp: payment_exception_def markup_simps)

lemma picker_events:
  "events_of (wallet_picker t shown ws) = (if shown then Ck_picker False #
     map (\<lambda>w. Ck_pick (wc_id w)) (filter (\<lambda>w. wc_id w \<noteq> Qr) ws) @ [Ck_picker_qr] else [])"
proof -
  have "events_of (picker_item t w) = [Ck_pick (wc_id w)]" for w
    by (simp add: picker_item_def markup_simps)
  then have "concat (map (events_of \<circ> picker_item t) xs) = map (\<lambda>w. Ck_pick (wc_id w)) xs" for xs
    by (induction xs) simp_all
  then show ?thesis by (simp add: wallet_picker_def sheet_frame_events markup_simps)
qed

lemma disclosure_events:
  "events_of (details_disclosure rt t opt disclosed w) =
     Ck_disclose # (if disclosed then [Ck_copy_address, Ck_copy_amount] else [])"
  by (simp add: details_disclosure_def wallet_address_def markup_simps)

lemma receipt_events: "events_of (receipt_card ve r st ti f sa) = (if sa then [Ck_share, Ck_print] else [])"
  by (simp add: receipt_card_def amount_display_def skeleton_silent markup_simps)

lemma paid_events: "events_of (sheet_paid ve st ti q) = [Ck_share, Ck_print]"
  by (simp add: sheet_paid_def state_events receipt_events markup_simps)

lemma sheet_form_events:
  "events_of (sheet_form ve q opt plan s disclosed) =
     Ck_why # (if ps_handoffTrouble s \<or> be_isInAppBrowser (ve_browser ve) then [Ck_external] else []) @
     Ck_disclose # (if disclosed then [Ck_copy_address, Ck_copy_amount] else []) @
     (if hp_showPayWithWallet plan then (if ps_busyPay s then [] else [Ck_pay]) @ [Ck_picker True]
      else [Ck_copy_details]) @
     (if ps_showQr s then [] else [Ck_qr]) @ (if hp_showPayWithWallet plan then [Ck_copy_details] else []) @
     (if ps_pickerOpen s then Ck_picker False #
        map (\<lambda>w. Ck_pick (wc_id w)) (filter (\<lambda>w. wc_id w \<noteq> Qr) (hp_wallets plan)) @ [Ck_picker_qr] else [])"
  by (simp add: sheet_form_def amount_display_def state_events disclosure_events picker_events markup_simps)

text \<open>The clicks that start a payment are offered by the payment form alone.\<close>

fun pays :: "checkout_click \<Rightarrow> bool" where
  "pays Ck_pay = True"
| "pays (Ck_pick w) = True"
| "pays _ = False"

lemma sheet_pays:
  assumes "k \<in> set (events_of (sheet_view ve st ti q r s dis))" "pays k"
  obtains p plan where "sp_option q = Some p" "resolvedPlan (ve_browser ve) (ve_projectId ve) st (sp_option q) s = Some plan"
    "sp_intentStatus q \<noteq> Some (lit ''PAID'')" "exceptionKind (sp_intentStatus q) = None"
    "\<not> canRefreshQuote (ve_parseDate ve) (ve_now ve) (sp_intentStatus q) (op_expires_at p)"
    "k \<in> set (events_of (sheet_form ve q p plan s dis))"
proof -
  have paid: "sp_intentStatus q \<noteq> Some (lit ''PAID'')"
    using assms by (auto simp: sheet_view_def Let_def paid_events)
  have ex: "exceptionKind (sp_intentStatus q) = None"
  proof (rule ccontr)
    assume "exceptionKind (sp_intentStatus q) \<noteq> None"
    then obtain x where x: "exceptionKind (sp_intentStatus q) = Some x" by blast
    let ?opt = "sp_option q"
    from x have "sheet_view ve st ti q r s dis =
        (if x = lit ''EXPIRED'' then payment_exception (ve_t ve) (lit ''EXPIRED'') [] [] (lit ''USDT'') (Some Ck_refresh) r
         else payment_exception (ve_t ve) x (case ?opt of None \<Rightarrow> [] | Some p \<Rightarrow> exactPayableAmount p)
           (case sp_receipt q of None \<Rightarrow> [] | Some y \<Rightarrow> given (rc_received_usdt_amount y))
           (case ?opt of None \<Rightarrow> lit ''USDT'' | Some p \<Rightarrow> assetSymbol p) None False)"
      using paid by (simp add: sheet_view_def Let_def)
    then have "events_of (sheet_view ve st ti q r s dis) = (if x = lit ''EXPIRED'' \<and> \<not> r then [Ck_refresh] else [])"
      by (simp add: exception_events)
    with assms have "k \<in> set (if x = lit ''EXPIRED'' \<and> \<not> r then [Ck_refresh] else [])" by simp
    with assms(2) show False by (simp split: if_splits)
  qed
  have opt: "\<not> canRefreshQuote (ve_parseDate ve) (ve_now ve) (sp_intentStatus q)
      (case sp_option q of None \<Rightarrow> None | Some p \<Rightarrow> op_expires_at p)"
  proof
    assume "canRefreshQuote (ve_parseDate ve) (ve_now ve) (sp_intentStatus q)
      (case sp_option q of None \<Rightarrow> None | Some p \<Rightarrow> op_expires_at p)"
    then have "sheet_view ve st ti q r s dis =
        payment_exception (ve_t ve) (lit ''EXPIRED'') [] [] (lit ''USDT'') (Some Ck_refresh) r"
      using paid ex by (simp add: sheet_view_def Let_def)
    then have "events_of (sheet_view ve st ti q r s dis) = (if r then [] else [Ck_refresh])"
      by (simp add: exception_events)
    with assms have "k \<in> set (if r then [] else [Ck_refresh])" by simp
    with assms(2) show False by (simp split: if_splits)
  qed
  from assms(1) paid ex opt obtain p plan where p: "sp_option q = Some p"
    "resolvedPlan (ve_browser ve) (ve_projectId ve) st (sp_option q) s = Some plan"
    "k \<in> set (events_of (sheet_form ve q p plan s dis))"
    by (auto simp: sheet_view_def Let_def markup_simps split: option.splits)
  with that paid ex opt show thesis by simp
qed

lemma page_pays:
  assumes "k \<in> set (events_of (checkout_view ve telegram cd c s dis))" "pays k"
  obtains d q where "co_pay c = Some d" "sheet_props_of c cd = Some q"
    "k \<in> set (events_of (sheet_view ve (py_store_name d) (py_title d) q (co_refreshingQuote c) s dis))"
proof -
  have loading: "k \<notin> set (events_of (checkout_loading ve telegram e))" for e
    using assms(2) by (auto simp: checkout_loading_def ig_banner_events skeleton_silent markup_simps)
  then obtain d where d: "co_pay c = Some d" "k \<in> set (events_of (checkout_page ve telegram cd c d s dis))"
    using assms(1) by (cases "co_pay c") (auto simp: checkout_view_def)
  have "k \<in> set (events_of (case sheet_props_of c cd of None \<Rightarrow> []
      | Some q \<Rightarrow> sheet_view ve (py_store_name d) (py_title d) q (co_refreshingQuote c) s dis))"
    using d(2) assms(2)
    by (auto simp: checkout_page_def ig_banner_events header_events form_events network_events amount_display_def
        markup_simps split: if_splits)
  then show thesis using d(1) that by (cases "sheet_props_of c cd") (auto simp: markup_simps)
qed

end
