(* ===== verification/CheckoutProps.thy ===== *)
theory CheckoutProps
  imports PaySheet WebProps
begin

text \<open>
  The properties of the checkout page and of its payment sheet, with their witnesses. A history of
  the page is any sequence of its events, from the state a fresh page has.
\<close>

subsection \<open>A page with something on it\<close>

definition demo_intent :: "string \<Rightarrow> payment_intent" where
  "demo_intent st = \<lparr>pi_id = lit ''i1'', pi_status = lit st, pi_expires_at = None,
     pi_options = Some [demo_option], pi_matched_tx = None\<rparr>"

definition demo_pay :: "string \<Rightarrow> pay" where
  "demo_pay st = \<lparr>py_store_name = lit ''Shop'', py_title = lit ''Mug'', py_fiat_amount_toman = None,
     py_amount_usdt_base_units = Some 12500000, py_fiat_currency = Some (lit ''USDT''), py_status = lit st,
     py_customer_submitted = True, py_fields = [], py_payment_intent = Some (demo_intent st),
     py_fulfillment_status = None, py_shipping_provider = None, py_tracking_number = None,
     py_receipt = None, py_enabled_networks = Some [lit ''bsc''], py_success_message = None,
     py_store_logo_url = [], py_checkout_accent = []\<rparr>"

definition no_storage :: storage where
  "no_storage = None"

lemma demo_pay_fields [simp]:
  "data_status (demo_pay st) = Some (lit st)" "py_fields (demo_pay st) = []"
  "intent_options (py_payment_intent (demo_pay st)) = [demo_option]"
  "enabled_pair (demo_pay st) = [lit ''bsc'']"
  by (simp_all add: data_status_def demo_pay_def demo_intent_def intent_options_def enabled_pair_def)

subsection \<open>The option on the page\<close>

text \<open>The page never shows a destination of its own: in every history, the option whose address and
  amount the buyer is given is one the server offered in an answer of that history.\<close>

lemma selected_was_offered:
  assumes "co_selected (checkout_run es (new_checkout prefs)) = Some opt"
  shows "opt \<in> set (offered es)"
  using selected_run [OF assms] by (simp add: new_checkout_def)

lemma demo_selected:
  "co_selected (checkout_run [Ev_first_answer (demo_pay ''SEEN'')] (new_checkout no_storage)) = Some demo_option"
proof -
  have "money_seen (data_status (demo_pay ''SEEN''))" by (simp add: money_seen_def moneyDetected_def)
  moreover obtain opt where opt: "hydrateOption no_storage (py_payment_intent (demo_pay ''SEEN'')) = Some opt"
    using hydrateOption_None [of no_storage "py_payment_intent (demo_pay ''SEEN'')"] by (auto simp del: not_None_eq)
  moreover have "opt = demo_option" using hydrate_pool [OF opt] by simp
  ultimately show ?thesis
    by (simp add: checkout_run_def first_answer_def track_event_def load_answer_def Let_def load_selects_def
        new_checkout_def)
qed

text \<open>The page asks for a network by itself at most once, whatever happens: in every history the
  requests made without the buyer are at most one, and the event that makes one is the effect,
  at the network step, for a network the server enabled, on an order for which no money was seen.\<close>

lemma one_automatic_choice:
  shows "let c = checkout_run es (new_checkout prefs) in length (auto_requests c) \<le> 1 \<and>
    (auto_requests (checkout_do e c) \<noteq> auto_requests c \<longrightarrow>
      e = Ev_auto_effect \<and> auto_requests c = [] \<and> co_step c = Step_network \<and>
      (\<exists>d n. co_pay c = Some d \<and> \<not> money_seen (data_status d) \<and> n \<in> set (enabled_pair d) \<and>
         auto_requests (checkout_do e c) = [n]))"
proof -
  let ?c = "checkout_run es (new_checkout prefs)"
  have "auto_inv (new_checkout prefs)" by (simp add: auto_inv_def auto_requests_def new_checkout_def)
  then have i: "auto_inv ?c"
    unfolding checkout_run_def by (rule choosing.run_keeps) (simp add: list_all_iff)
  show ?thesis
  proof (cases "e = Ev_auto_effect \<and> auto_pick ?c \<noteq> None")
    case True
    then obtain n where "auto_pick ?c = Some n" by blast
    with True i auto_pick_enabled [of ?c n] show ?thesis
      by (auto simp: Let_def auto_inv_def auto_effect_def choose_begin_def auto_requests_def)
  next
    case False
    then have "auto_requests (checkout_do e ?c) = auto_requests ?c"
      by (cases e) (auto simp: handler_steps auto_requests_def Let_def)
    with i show ?thesis by (auto simp: Let_def auto_inv_def split: if_splits)
  qed
qed

text \<open>The first load of an order that awaits its payment on one network, and the effect that follows.\<close>

subsection \<open>What the sheet shows\<close>

text \<open>An exception never asks for a payment: for every status that is an exception other than
  expiry, whatever else the sheet holds, the sheet is the screen of that exception, which has no
  amount to pay, no QR code and no wallet button, and its texts say not to send again.\<close>

lemma exceptions_never_pay:
  assumes "exceptionKind (sp_intentStatus q) = Some k" "k \<noteq> lit ''EXPIRED''"
  shows "\<exists>e r a. pay_screen_of rt localeNumber t env pid store parse_date now q s = Scr_exception k e r a \<and>
    t ''checkout.exception.dontSendAgain'' \<in> set (exception_texts t (Some k) e r a refresh)"
  using exception_screen [OF assms refl] exception_says_wait [OF assms] by metis

definition demo_props :: "string \<Rightarrow> sheet_props" where
  "demo_props st = \<lparr>sp_fiatAmountToman = 0, sp_option = Some demo_option, sp_intentStatus = Some (lit st),
     sp_matched = None, sp_receipt = None, sp_fulfillmentStatus = None, sp_shippingProvider = None,
     sp_trackingNumber = None, sp_countdown = [], sp_checkingPayment = False\<rparr>"

text \<open>A payment that was seen or is being confirmed keeps the controls that ask for one: the sheet is
  still the payment screen, with the wallet button wherever the plan has one, the QR code
  wherever it is open or primary, and no countdown, although the status counts as money detected.\<close>

lemma detected_keeps_wallet_button:
  assumes "sp_intentStatus q = Some (lit ''SEEN'') \<or> sp_intentStatus q = Some (lit ''CONFIRMING'')"
    and "sp_option q = Some p"
  shows "moneyDetected (sp_intentStatus q) \<and>
    (\<exists>plan v. resolvedPlan env pid store (sp_option q) s = Some plan \<and>
      pay_screen_of rt localeNumber t env pid store parse_date now q s = Scr_pay v \<and>
      (vw_wallet_button v \<noteq> None \<longleftrightarrow> hp_showPayWithWallet plan) \<and>
      (vw_qr v \<noteq> None \<longleftrightarrow> ps_showQr s \<or> hp_qrPrimary plan) \<and> \<not> vw_countdown v)"
proof -
  have m: "moneyDetected (sp_intentStatus q)" using assms(1) by (auto simp: moneyDetected_def)
  obtain plan where "resolvedPlan env pid store (sp_option q) s = Some plan"
    "pay_screen_of rt localeNumber t env pid store parse_date now q s = Scr_pay (payment_view rt localeNumber t env q p plan s)"
    using detected_screen [OF assms] by blast
  with m show ?thesis
    by (intro conjI exI [of _ plan] exI [of _ "payment_view rt localeNumber t env q p plan s"])
      (simp_all add: payment_view_def Let_def)
qed

lemma iphone_mobile: "be_isMobile (detectBrowserEnv demo_rt (lit ''iphone''))"
proof -
  have "js_lower demo_rt (lit ''iphone'') = lit ''iphone''" by (rule js_lower_id) (simp add: lit_def)
  moreover have "has_sub s s" for s by (cases s) simp_all
  ultimately show ?thesis by (simp add: detectBrowserEnv_def Let_def has_word_def)
qed

lemma plan_env:
  "resolvedPlan env pid store opt s = Some plan \<Longrightarrow> \<exists>input. plan = buildHandoffPlan input \<and> hi_env input = env"
  by (auto simp: resolvedPlan_def split: option.splits)

text \<open>An order priced in USDT is shown a toman amount it does not have: where the page has no toman
  amount but an amount in USDT base units, the second line of the payment screen ends with the
  number of base units and the word for toman, whatever the option, the plan and the sheet.\<close>

lemma usdt_order_shows_toman:
  assumes "co_pay c = Some d" "py_fiat_amount_toman d = None" "py_amount_usdt_base_units d = Some n"
    and "sheet_props_of c cd = Some q"
  shows "\<exists>u. vw_secondary (payment_view rt localeNumber t env q p plan s) =
    u @ localeNumber n @ lit '' '' @ t ''checkout.toman''"
  by (rule base_units_as_toman [OF assms])

end
