(* ===== verification/CheckoutPage.thy ===== *)
theory CheckoutPage
  imports CheckoutView CheckoutProps
begin

text \<open>
  The checkout page as one machine: checkout/CheckoutClient.tsx with checkout/PooliPaySheet.tsx and
  checkout/PaymentDetailsDisclosure.tsx inside it. A click does something only where the page that
  was rendered last offers it (\<open>events_of (checkout_view ...)\<close>); the answers of the API, the effects and
  the end of a launch come in any order. The state of the sheet lives while the page shows it; the
  preferences are one local storage for both. \<open>ap_launches\<close> logs what is handed to
  \<open>launchWalletHandoff\<close>, with the status the page had loaded then.
\<close>

record launch_log =
  la_view :: view_env
  la_status :: "ustr option"
  la_input :: handoff_input
  la_wallet :: wallet_id

record app =
  ap_checkout :: checkout
  ap_sheet :: "sheet option"
  ap_disclosed :: bool
  ap_mount :: nat
  ap_waiting :: "(nat \<times> payment_option \<times> wallet_id) list"
  ap_launches :: "launch_log list"

definition new_app :: "storage \<Rightarrow> app" where
  "new_app prefs = \<lparr>ap_checkout = new_checkout prefs, ap_sheet = None, ap_disclosed = False, ap_mount = 0,
     ap_waiting = [], ap_launches = []\<rparr>"

datatype app_event =
    App_click bool ustr checkout_click bool
  | App_main_button
  | App_page checkout_event
  | App_launch_end nat "launch_result option"
  | App_option_effect
  | App_qr_effect

definition shown_sheet :: "app \<Rightarrow> sheet" where
  "shown_sheet a = (case ap_sheet a of None \<Rightarrow> new_sheet (co_prefs (ap_checkout a)) | Some s \<Rightarrow> s)"

definition store_name :: "checkout \<Rightarrow> ustr" where
  "store_name c = (case co_pay c of None \<Rightarrow> [] | Some d \<Rightarrow> py_store_name d)"

definition rendered :: "view_env \<Rightarrow> bool \<Rightarrow> ustr \<Rightarrow> app \<Rightarrow> checkout_click node list" where
  "rendered ve telegram countdown a =
     checkout_view ve telegram countdown (ap_checkout a) (shown_sheet a) (ap_disclosed a)"

subsection \<open>What an event does\<close>

definition on_checkout :: "checkout_event \<Rightarrow> app \<Rightarrow> app" where
  "on_checkout e a = a\<lparr>ap_checkout := checkout_do e (ap_checkout a)\<rparr>"

text \<open>A handler of the sheet, over the preferences of the page.\<close>

definition on_sheet :: "(sheet \<Rightarrow> sheet) \<Rightarrow> app \<Rightarrow> app" where
  "on_sheet f a =
     (case ap_sheet a of None \<Rightarrow> a
      | Some s \<Rightarrow>
          (let s' = f (s\<lparr>ps_prefs := co_prefs (ap_checkout a)\<rparr>)
           in a\<lparr>ap_sheet := Some s', ap_checkout := (ap_checkout a)\<lparr>co_prefs := ps_prefs s'\<rparr>\<rparr>))"

definition selected_do :: "(payment_option \<Rightarrow> sheet \<Rightarrow> sheet) \<Rightarrow> app \<Rightarrow> app" where
  "selected_do f a = (case co_selected (ap_checkout a) of None \<Rightarrow> a | Some opt \<Rightarrow> on_sheet (f opt) a)"

definition launch_input :: "view_env \<Rightarrow> checkout \<Rightarrow> payment_option \<Rightarrow> wallet_id \<Rightarrow> handoff_input" where
  "launch_input ve c opt w = \<lparr>hi_option = opt, hi_env = ve_browser ve, hi_preferredWalletId = Some w,
     hi_walletConnectProjectId = ve_projectId ve, hi_storeName = Some (store_name c),
     hi_checkoutUrl = Some (ve_href ve)\<rparr>"

text \<open>\<open>pay\<close> up to its await, with the option and the plan of the rendering it belongs to.\<close>

definition start_pay ::
  "view_env \<Rightarrow> (payment_option \<Rightarrow> handoff_plan \<Rightarrow> sheet \<Rightarrow> sheet \<times> wallet_id option) \<Rightarrow> app \<Rightarrow> app" where
  "start_pay ve f a =
     (let c = ap_checkout a
      in case (co_selected c, resolvedPlan (ve_browser ve) (ve_projectId ve) (store_name c) (co_selected c) (shown_sheet a)) of
           (Some opt, Some plan) \<Rightarrow>
             (let b = on_sheet (\<lambda>s. fst (f opt plan s)) a
              in case snd (f opt plan (shown_sheet a)) of None \<Rightarrow> b
                 | Some w \<Rightarrow> b\<lparr>ap_waiting := ap_waiting a @ [(ap_mount a, opt, w)],
                     ap_launches := ap_launches a @
                       [\<lparr>la_view = ve, la_status = intentStatus c, la_input = launch_input ve c opt w, la_wallet = w\<rparr>]\<rparr>)
         | _ \<Rightarrow> a)"

definition copied_state :: "ustr \<times> sheet \<times> ustr option \<Rightarrow> sheet" where
  "copied_state r = fst (snd r)"

fun click :: "view_env \<Rightarrow> checkout_click \<Rightarrow> bool \<Rightarrow> app \<Rightarrow> app" where
  "click ve Ck_submit ok a = on_checkout Ev_submit a"
| "click ve (Ck_choose n) ok a = on_checkout (Ev_choose n) a"
| "click ve Ck_refresh ok a = on_checkout Ev_refresh a"
| "click ve Ck_pay ok a = start_pay ve (\<lambda>opt plan. pay_begin opt plan None) a"
| "click ve (Ck_pick w) ok a = start_pay ve (\<lambda>opt plan. picker_select opt plan w) a"
| "click ve (Ck_picker b) ok a = on_sheet (\<lambda>s. s\<lparr>ps_pickerOpen := b\<rparr>) a"
| "click ve Ck_picker_qr ok a = selected_do picker_showQr a"
| "click ve Ck_qr ok a = selected_do sheet_showQr a"
| "click ve Ck_why ok a = on_sheet (\<lambda>s. s\<lparr>ps_showWhyExact := \<not> ps_showWhyExact s\<rparr>) a"
| "click ve Ck_disclose ok a = a\<lparr>ap_disclosed := \<not> ap_disclosed a\<rparr>"
| "click ve Ck_copy_address ok a = selected_do (\<lambda>opt s. copied_state (onCopyAddress (ve_t ve) opt ok s)) a"
| "click ve Ck_copy_amount ok a = selected_do (\<lambda>opt s. copied_state (onCopyAmount (ve_t ve) opt ok s)) a"
| "click ve Ck_copy_details ok a = selected_do
     (\<lambda>opt s. copied_state (onCopyDetails (ve_rt ve) (ve_t ve) (store_name (ap_checkout a)) opt ok s)) a"
| "click ve (Ck_locale l) ok a = a"
| "click ve Ck_external ok a = a"
| "click ve Ck_copy_link ok a = a"
| "click ve Ck_share ok a = a"
| "click ve Ck_print ok a = a"

text \<open>What happens without a click.\<close>

fun background :: "checkout_event \<Rightarrow> bool" where
  "background (Ev_choose n) = False"
| "background Ev_submit = False"
| "background Ev_refresh = False"
| "background Ev_telegram_paid = False"
| "background _ = True"

definition main_button :: "app \<Rightarrow> app" where
  "main_button a =
     (case telegram_button (ap_checkout a) of
        Button_pay \<Rightarrow> (case telegram_pick (ap_checkout a) of None \<Rightarrow> a | Some n \<Rightarrow> on_checkout (Ev_choose n) a)
      | Button_paid \<Rightarrow> on_checkout Ev_telegram_paid a
      | Button_hidden \<Rightarrow> a)"

text \<open>The end of a launch. Of a sheet that was closed in between, what is in the storage stays, and what
  it reports to analytics is in the log of the page.\<close>

definition end_pay :: "view_env \<Rightarrow> nat \<times> payment_option \<times> wallet_id \<Rightarrow> launch_result option \<Rightarrow> app \<Rightarrow> app" where
  "end_pay ve wt r a =
     (case wt of (m, opt, w) \<Rightarrow>
        if ap_sheet a \<noteq> None \<and> ap_mount a = m then on_sheet (pay_end (ve_browser ve) opt w r) a
        else (let c = ap_checkout a; s = pay_end (ve_browser ve) opt w r (new_sheet (co_prefs c))
              in a\<lparr>ap_checkout := c\<lparr>co_prefs := ps_prefs s, co_tracked := co_tracked c @ ps_tracked s\<rparr>\<rparr>))"

definition drop_nth :: "nat \<Rightarrow> 'a list \<Rightarrow> 'a list" where
  "drop_nth n xs = take n xs @ drop (Suc n) xs"

fun react :: "view_env \<Rightarrow> app_event \<Rightarrow> app \<Rightarrow> app" where
  "react ve (App_click telegram countdown k ok) a =
     (if k \<in> set (events_of (rendered ve telegram countdown a)) then click ve k ok a else a)"
| "react ve App_main_button a = main_button a"
| "react ve (App_page e) a = (if background e then on_checkout e a else a)"
| "react ve (App_launch_end n r) a =
     (if n < length (ap_waiting a)
      then (end_pay ve (ap_waiting a ! n) r a)\<lparr>ap_waiting := drop_nth n (ap_waiting a)\<rparr> else a)"
| "react ve App_option_effect a = on_sheet (option_effect (co_selected (ap_checkout a))) a"
| "react ve App_qr_effect a = on_sheet
     (qr_effect (resolvedPlan (ve_browser ve) (ve_projectId ve) (store_name (ap_checkout a))
        (co_selected (ap_checkout a)) (shown_sheet a))) a"

text \<open>The rendering that follows: the sheet is mounted or unmounted, and the details close where the
  payment form is not shown.\<close>

definition form_shown :: "view_env \<Rightarrow> app \<Rightarrow> bool" where
  "form_shown ve a =
     (case sheet_props_of (ap_checkout a) [] of None \<Rightarrow> False
      | Some q \<Rightarrow>
          (case pay_screen_of (ve_rt ve) (ve_localeNumber ve) (ve_t ve) (ve_browser ve) (ve_projectId ve)
             (store_name (ap_checkout a)) (ve_parseDate ve) (ve_now ve) q (shown_sheet a) of
             Scr_pay v \<Rightarrow> True | _ \<Rightarrow> False))"

definition commit :: "view_env \<Rightarrow> app \<Rightarrow> app" where
  "commit ve a =
     (let c = ap_checkout a
      in if co_pay c \<noteq> None \<and> onPayStep c
         then (case ap_sheet a of
                 None \<Rightarrow> a\<lparr>ap_sheet := Some (new_sheet (co_prefs c)), ap_disclosed := False, ap_mount := Suc (ap_mount a)\<rparr>
               | Some s \<Rightarrow> a\<lparr>ap_disclosed := (ap_disclosed a \<and> form_shown ve a)\<rparr>)
         else a\<lparr>ap_sheet := None, ap_disclosed := False\<rparr>)"

definition app_do :: "view_env \<times> app_event \<Rightarrow> app \<Rightarrow> app" where
  "app_do e a = commit (fst e) (react (fst e) (snd e) a)"

definition app_run :: "(view_env \<times> app_event) list \<Rightarrow> app \<Rightarrow> app" where
  "app_run es a = fold app_do es a"

fun app_options :: "app_event \<Rightarrow> payment_option list" where
  "app_options (App_page e) = event_options e"
| "app_options _ = []"

definition offered_by :: "(view_env \<times> app_event) list \<Rightarrow> payment_option list" where
  "offered_by es = concat (map (\<lambda>e. app_options (snd e)) es)"

subsection \<open>Which payments are launched\<close>

text \<open>A launch is over an option of \<open>S\<close>, by a wallet of its plan, on a payment that is neither paid nor in
  an exception nor known to be expired.\<close>

definition live_launch :: "payment_option set \<Rightarrow> launch_log \<Rightarrow> bool" where
  "live_launch S l \<longleftrightarrow>
     (let opt = hi_option (la_input l); ve = la_view l
      in opt \<in> S \<and> la_status l \<noteq> Some (lit ''PAID'') \<and> exceptionKind (la_status l) = None \<and>
         \<not> canRefreshQuote (ve_parseDate ve) (ve_now ve) (la_status l) (op_expires_at opt) \<and>
         la_wallet l \<noteq> Qr \<and> la_wallet l \<in> wc_id ` set (hp_wallets (buildHandoffPlan (la_input l))))"

definition app_ok :: "payment_option set \<Rightarrow> app \<Rightarrow> bool" where
  "app_ok S a \<longleftrightarrow> set_option (co_selected (ap_checkout a)) \<subseteq> S \<and> list_all (live_launch S) (ap_launches a)"

lemma on_sheet_keeps [simp]:
  "co_selected (ap_checkout (on_sheet f a)) = co_selected (ap_checkout a)" "ap_launches (on_sheet f a) = ap_launches a"
  "ap_waiting (on_sheet f a) = ap_waiting a"
  by (simp_all add: on_sheet_def Let_def split: option.split)

lemma selected_do_keeps [simp]:
  "co_selected (ap_checkout (selected_do f a)) = co_selected (ap_checkout a)" "ap_launches (selected_do f a) = ap_launches a"
  by (simp_all add: selected_do_def split: option.split)

lemma commit_keeps [simp]:
  "ap_checkout (commit ve a) = ap_checkout a" "ap_launches (commit ve a) = ap_launches a"
  by (simp_all add: commit_def Let_def split: option.split)

lemma end_pay_keeps [simp]:
  "co_selected (ap_checkout (end_pay ve x r a)) = co_selected (ap_checkout a)" "ap_launches (end_pay ve x r a) = ap_launches a"
  by (simp_all add: end_pay_def Let_def split: prod.split)

lemma app_ok_keeps [simp]:
  "app_ok S (on_sheet f a) = app_ok S a" "app_ok S (selected_do g a) = app_ok S a" "app_ok S (commit ve a) = app_ok S a"
  "app_ok S (end_pay ve x r a) = app_ok S a" "app_ok S (a\<lparr>ap_disclosed := b\<rparr>) = app_ok S a"
  "app_ok S (a\<lparr>ap_waiting := xs\<rparr>) = app_ok S a"
  by (simp_all add: app_ok_def)

lemma on_checkout_ok:
  "app_ok S a \<Longrightarrow> set (event_options e) \<subseteq> S \<Longrightarrow> app_ok S (on_checkout e a)"
  using Checkout.selected_do [of e "ap_checkout a"]
  by (cases "co_selected (checkout_do e (ap_checkout a))") (auto simp: app_ok_def on_checkout_def)

text \<open>The handler of a click that pays, where the page offers it.\<close>

lemma plan_wallets_of_option:
  "hi_option i = hi_option j \<Longrightarrow> hi_walletConnectProjectId i = hi_walletConnectProjectId j \<Longrightarrow>
     hp_wallets (buildHandoffPlan i) = hp_wallets (buildHandoffPlan j)"
  by (simp add: buildHandoffPlan_def Let_def)

lemma pay_begin_plan:
  assumes "snd (pay_begin opt (buildHandoffPlan i) w s) = Some v"
    and "\<And>x. w = Some x \<Longrightarrow> x \<in> wc_id ` set (hp_wallets (buildHandoffPlan i))"
  shows "v \<noteq> Qr \<and> v \<in> wc_id ` set (hp_wallets (buildHandoffPlan i))"
proof -
  let ?plan = "buildHandoffPlan i"
  have "v \<noteq> Qr" using pay_begin_wallet [of opt ?plan w s "fst (pay_begin opt ?plan w s)" v] assms(1)
    by (simp add: prod_eq_iff)
  moreover have "v \<in> wc_id ` set (hp_wallets ?plan)"
  proof (cases w)
    case None
    obtain u where "hp_primary ?plan = Some u" "u \<in> set (hp_wallets ?plan)"
      using plan_primary [of i] by blast
    with None assms(1) show ?thesis by (auto simp: pay_begin_def split: if_splits)
  next
    case (Some x)
    with assms show ?thesis by (auto simp: pay_begin_def split: if_splits)
  qed
  ultimately show ?thesis ..
qed

lemma launched_ok:
  assumes ok: "app_ok S a" and offered: "k \<in> set (events_of (rendered ve telegram cd a))" "pays k"
    and f: "\<And>opt i s v. snd (f opt (buildHandoffPlan i) s) = Some v \<Longrightarrow>
      (\<And>x. k = Ck_pick x \<Longrightarrow> x \<in> wc_id ` set (hp_wallets (buildHandoffPlan i))) \<Longrightarrow>
      v \<noteq> Qr \<and> v \<in> wc_id ` set (hp_wallets (buildHandoffPlan i))"
  shows "app_ok S (start_pay ve f a)"
proof -
  let ?c = "ap_checkout a" and ?s = "shown_sheet a"
  obtain d q where d: "co_pay ?c = Some d" "sheet_props_of ?c cd = Some q"
    "k \<in> set (events_of (sheet_view ve (py_store_name d) (py_title d) q (co_refreshingQuote ?c) ?s (ap_disclosed a)))"
    using page_pays [OF offered [unfolded rendered_def]] by blast
  have q: "sp_option q = co_selected ?c" "sp_intentStatus q = intentStatus ?c" "store_name ?c = py_store_name d"
    using d(1,2) by (auto simp: sheet_props_of_def store_name_def split: if_splits)
  obtain p plan where p: "co_selected ?c = Some p"
    "resolvedPlan (ve_browser ve) (ve_projectId ve) (store_name ?c) (Some p) ?s = Some plan"
    "intentStatus ?c \<noteq> Some (lit ''PAID'')" "exceptionKind (intentStatus ?c) = None"
    "\<not> canRefreshQuote (ve_parseDate ve) (ve_now ve) (intentStatus ?c) (op_expires_at p)"
    "k \<in> set (events_of (sheet_form ve q p plan ?s (ap_disclosed a)))"
    using sheet_pays [OF d(3) offered(2)] by (metis q)
  obtain i where i: "plan = buildHandoffPlan i" "hi_option i = p" "hi_walletConnectProjectId i = ve_projectId ve"
    using p(2) by (fastforce simp: resolvedPlan_def)
  have pick: "x \<in> wc_id ` set (hp_wallets plan)" if "k = Ck_pick x" for x
    using p(6) that by (auto simp: sheet_form_events split: if_splits)
  show ?thesis
  proof (cases "snd (f p plan ?s)")
    case None
    with ok p show ?thesis by (simp add: start_pay_def Let_def app_ok_def)
  next
    case (Some w)
    have "w \<noteq> Qr \<and> w \<in> wc_id ` set (hp_wallets plan)"
      using f [of p i ?s w] Some pick unfolding i(1) by blast
    moreover have "hp_wallets (buildHandoffPlan (launch_input ve ?c p w)) = hp_wallets plan"
      unfolding i(1) by (rule plan_wallets_of_option) (simp_all add: launch_input_def i)
    moreover have "p \<in> S" using ok p(1) by (simp add: app_ok_def)
    ultimately have "live_launch S \<lparr>la_view = ve, la_status = intentStatus ?c, la_input = launch_input ve ?c p w, la_wallet = w\<rparr>"
      using p(3-5) by (simp add: live_launch_def Let_def) (simp add: launch_input_def)
    with ok p Some show ?thesis by (simp add: start_pay_def Let_def app_ok_def)
  qed
qed

lemma pay_click_ok:
  assumes "app_ok S a" "k \<in> set (events_of (rendered ve telegram cd a))"
  shows "app_ok S (click ve k ok a)"
proof (cases k)
  case Ck_pay
  have "app_ok S (start_pay ve (\<lambda>opt plan. pay_begin opt plan None) a)"
  proof (rule launched_ok [of S a k ve telegram cd])
    show "v \<noteq> Qr \<and> v \<in> wc_id ` set (hp_wallets (buildHandoffPlan i))"
      if "snd (pay_begin opt (buildHandoffPlan i) None s) = Some v" for opt i s v
      by (rule pay_begin_plan [OF that]) simp
  qed (use assms Ck_pay in simp_all)
  with Ck_pay show ?thesis by simp
next
  case (Ck_pick w)
  have "app_ok S (start_pay ve (\<lambda>opt plan. picker_select opt plan w) a)"
  proof (rule launched_ok [of S a k ve telegram cd])
    show "v \<noteq> Qr \<and> v \<in> wc_id ` set (hp_wallets (buildHandoffPlan i))"
      if "snd (picker_select opt (buildHandoffPlan i) w s) = Some v"
        and "\<And>x. k = Ck_pick x \<Longrightarrow> x \<in> wc_id ` set (hp_wallets (buildHandoffPlan i))" for opt i s v
      using that(1) unfolding picker_select_def by (rule pay_begin_plan) (use that(2) Ck_pick in simp)
  qed (use assms Ck_pick in simp_all)
  with Ck_pick show ?thesis by simp
qed (use assms in \<open>auto intro: on_checkout_ok\<close>)

lemma app_ok_do:
  assumes "app_ok S a" "set (app_options (snd e)) \<subseteq> S"
  shows "app_ok S (app_do e a)"
proof -
  have "app_ok S (react (fst e) (snd e) a)"
  proof (cases "snd e")
    case App_main_button
    then show ?thesis
      using assms on_checkout_ok [of S a] by (auto simp: main_button_def split: main_button.split option.split)
  next
    case (App_launch_end n r)
    with assms show ?thesis by simp
  qed (use assms pay_click_ok on_checkout_ok in auto)
  then show ?thesis by (simp add: app_do_def)
qed

interpretation checkout_app: event_machine app_do "app_ok S" "\<lambda>e. set (app_options (snd e)) \<subseteq> S" for S
  by unfold_locales (rule app_ok_do)

lemma launches_live:
  assumes "l \<in> set (ap_launches (app_run es (new_app prefs)))"
  shows "live_launch (set (offered_by es)) l"
proof -
  have "app_ok (set (offered_by es)) (app_run es (new_app prefs))"
    unfolding app_run_def
    by (rule checkout_app.run_keeps) (auto simp: app_ok_def new_app_def new_checkout_def offered_by_def list_all_iff)
  with assms show ?thesis by (simp add: app_ok_def list_all_iff)
qed

text \<open>The transaction a launch asks for.\<close>

lemma launch_tx:
  assumes "lo_tx (launchWalletHandoff rt envId init throws windowed input wallet s) = Some tx"
  shows "\<exists>b n. op_base_units (hi_option input) = Some b \<and>
    pooliBaseToOnChainAmount b (default_decimals (hi_option input)) = Some n \<and>
    tx_to tx = op_token_contract (hi_option input) \<and>
    tx_data tx = encodeErc20Transfer rt (op_destination_address (hi_option input)) n \<and> tx_value tx = lit ''0x0''"
proof -
  obtain s' o_tx r where w: "payWithWalletConnect rt envId init input s = (s', o_tx, r)"
    by (cases "payWithWalletConnect rt envId init input s") auto
  with assms have "o_tx = Some tx"
    by (auto simp: launchWalletHandoff_def via_browser_def via_wallet_def Let_def split: if_splits)
  with w payWithWalletConnect_tx [of rt envId init input s s' tx r] show ?thesis by simp
qed

end
