(* ===== verification/CheckoutPageProps.thy ===== *)
theory CheckoutPageProps
  imports CheckoutPage
begin

text \<open>
  What the composed checkout page promises: which payments it launches, and that what it shows is what
  it launches.
\<close>

text \<open>What the page offers when it shows the payment form.\<close>

lemma page_offers:
  assumes "co_pay c = Some d" "sheet_props_of c cd = Some q"
    and "k \<in> set (events_of (sheet_view ve (py_store_name d) (py_title d) q (co_refreshingQuote c) s dis))"
  shows "k \<in> set (events_of (checkout_view ve telegram cd c s dis))"
proof -
  have "onPayStep c" using assms(1,2) by (auto simp: sheet_props_of_def split: if_splits)
  with assms show ?thesis by (simp add: checkout_view_def checkout_page_def markup_simps)
qed

lemma sheet_view_form:
  assumes "sp_option q = Some p" "resolvedPlan (ve_browser ve) (ve_projectId ve) st (Some p) s = Some plan"
    and "sp_intentStatus q \<noteq> Some (lit ''PAID'')" "exceptionKind (sp_intentStatus q) = None"
    and "\<not> canRefreshQuote (ve_parseDate ve) (ve_now ve) (sp_intentStatus q) (op_expires_at p)"
  shows "sheet_view ve st ti q r s dis = sheet_form ve q p plan s dis"
  using assms by (simp add: sheet_view_def Let_def)

subsection \<open>Which payments are launched\<close>

text \<open>C15: the page only pays a live quote of the backend: in every history of the checkout page, each
  payment it hands to a wallet is over an option that an answer of the backend brought, at a time when
  the loaded status was neither paid nor an exception and the quote was not known to be expired, through a
  wallet of the plan for this option; and whatever the wallet does, a transaction it is asked to sign in
  the course of the launch is the transfer of exactly this option.\<close>

theorem only_live_quotes_launched:
  assumes "l \<in> set (ap_launches (app_run es (new_app prefs)))"
  shows "let opt = hi_option (la_input l); ve = la_view l in
    opt \<in> set (offered_by es) \<and> la_status l \<noteq> Some (lit ''PAID'') \<and> exceptionKind (la_status l) = None \<and>
    \<not> canRefreshQuote (ve_parseDate ve) (ve_now ve) (la_status l) (op_expires_at opt) \<and>
    la_wallet l \<noteq> Qr \<and> la_wallet l \<in> wc_id ` set (hp_wallets (buildHandoffPlan (la_input l))) \<and>
    (\<forall>rt envId init throws windowed s tx.
       lo_tx (launchWalletHandoff rt envId init throws windowed (la_input l) (Some (la_wallet l)) s) = Some tx \<longrightarrow>
       tx_to tx = op_token_contract opt \<and> tx_value tx = lit ''0x0'' \<and>
       (\<exists>b n. op_base_units opt = Some b \<and> pooliBaseToOnChainAmount b (default_decimals opt) = Some n \<and>
          tx_data tx = encodeErc20Transfer rt (op_destination_address opt) n))"
  using launches_live [OF assms] launch_tx [of _ _ _ _ _ "la_input l" "Some (la_wallet l)"]
  by (fastforce simp: live_launch_def Let_def)

text \<open>A buyer with a telephone, an order that awaits its payment, and one click.\<close>

definition demo_view :: view_env where
  "demo_view = \<lparr>ve_rt = demo_rt, ve_t = (\<lambda>k. lit k), ve_locale = lit ''en'', ve_localeNumber = dec, ve_wordSize = dec,
     ve_browser = detectBrowserEnv demo_rt (lit ''iphone''), ve_ua = lit ''iphone'', ve_projectId = lit ''pid'',
     ve_parseDate = (\<lambda>s. None), ve_now = 0, ve_href = []\<rparr>"

definition demo_history :: "(view_env \<times> app_event) list" where
  "demo_history = map (Pair demo_view)
     [App_page (Ev_first_answer (demo_pay ''AWAITING_PAYMENT'')), App_page (Ev_choose_answer (lit ''bsc'') demo_option),
      App_click False [] Ck_pay True]"

lemma demo_view_fields [simp]:
  "ve_browser demo_view = detectBrowserEnv demo_rt (lit ''iphone'')" "ve_projectId demo_view = lit ''pid''"
  "ve_parseDate demo_view = (\<lambda>s. None)" "ve_now demo_view = 0"
  by (simp_all add: demo_view_def)

lemma awaiting:
  "\<not> moneyDetected (Some (lit ''AWAITING_PAYMENT''))" "\<not> money_seen (Some (lit ''AWAITING_PAYMENT''))"
  "exceptionKind (Some (lit ''AWAITING_PAYMENT'')) = None"
  "\<not> canRefreshQuote (\<lambda>s. None) n (Some (lit ''AWAITING_PAYMENT'')) e"
  by (simp_all add: moneyDetected_def money_seen_def exceptionKind_def EXCEPTION_STATUSES_def canRefreshQuote_def)

definition demo_chosen :: checkout where
  "demo_chosen = choose_answer (lit ''bsc'') demo_option (first_answer (demo_pay ''AWAITING_PAYMENT'') (new_checkout no_storage))"

lemma demo_chosen_fields:
  "co_pay demo_chosen = Some (demo_pay ''AWAITING_PAYMENT'')" "co_selected demo_chosen = Some demo_option"
  "co_step demo_chosen = Step_pay" "intentStatus demo_chosen = Some (lit ''AWAITING_PAYMENT'')"
proof -
  show "co_pay demo_chosen = Some (demo_pay ''AWAITING_PAYMENT'')" "co_selected demo_chosen = Some demo_option"
    "co_step demo_chosen = Step_pay"
    by (simp_all add: demo_chosen_def choose_answer_def track_event_def first_answer_def load_answer_def Let_def)
  then show "intentStatus demo_chosen = Some (lit ''AWAITING_PAYMENT'')" by (simp add: intentStatus_def)
qed

definition demo_ready :: app where
  "demo_ready = \<lparr>ap_checkout = demo_chosen, ap_sheet = Some (new_sheet (co_prefs demo_chosen)), ap_disclosed = False,
     ap_mount = 1, ap_waiting = [], ap_launches = []\<rparr>"

lemma demo_history_ready:
  "app_run demo_history (new_app no_storage) = app_do (demo_view, App_click False [] Ck_pay True) demo_ready"
proof -
  let ?c = "first_answer (demo_pay ''AWAITING_PAYMENT'') (new_checkout no_storage)"
  have "co_step ?c = Step_network" "intentStatus ?c = Some (lit ''AWAITING_PAYMENT'')"
    by (simp_all add: first_answer_def track_event_def load_answer_def Let_def load_selects_def new_checkout_def
        awaiting resolveStep_def intentStatus_def)
  then have "\<not> onPayStep ?c" by (simp add: onPayStep_def awaiting)
  then have "app_do (demo_view, App_page (Ev_first_answer (demo_pay ''AWAITING_PAYMENT''))) (new_app no_storage) =
      (new_app no_storage)\<lparr>ap_checkout := ?c\<rparr>"
    by (simp add: app_do_def on_checkout_def commit_def new_app_def)
  moreover have "onPayStep demo_chosen" by (simp add: onPayStep_def demo_chosen_fields)
  then have "app_do (demo_view, App_page (Ev_choose_answer (lit ''bsc'') demo_option))
      ((new_app no_storage)\<lparr>ap_checkout := ?c\<rparr>) = demo_ready"
    using demo_chosen_fields(1)
    by (simp add: app_do_def on_checkout_def commit_def new_app_def demo_chosen_def [symmetric] demo_ready_def)
  ultimately show ?thesis by (simp add: demo_history_def app_run_def)
qed

lemma demo_launch:
  "Ck_pay \<in> set (events_of (rendered demo_view False [] demo_ready)) \<and> (\<exists>l. ap_launches (app_run demo_history (new_app no_storage)) = [l] \<and> hi_option (la_input l) = demo_option)"
proof -
  let ?s = "new_sheet (co_prefs demo_chosen)" and ?d = "demo_pay ''AWAITING_PAYMENT''"
  have shown: "shown_sheet demo_ready = ?s" "store_name demo_chosen = py_store_name ?d"
    by (simp_all add: shown_sheet_def demo_ready_def store_name_def demo_chosen_fields)
  have "onPayStep demo_chosen" by (simp add: onPayStep_def demo_chosen_fields)
  then obtain q where q: "sheet_props_of demo_chosen [] = Some q" "sp_option q = Some demo_option"
    "sp_intentStatus q = Some (lit ''AWAITING_PAYMENT'')"
    by (simp add: sheet_props_of_def demo_chosen_fields)
  define i where "i = \<lparr>hi_option = demo_option, hi_env = ve_browser demo_view, hi_preferredWalletId = ps_preferred ?s,
    hi_walletConnectProjectId = ve_projectId demo_view, hi_storeName = Some (py_store_name ?d), hi_checkoutUrl = None\<rparr>"
  define plan where "plan = buildHandoffPlan i"
  have plan: "plan = buildHandoffPlan i" "hi_env i = ve_browser demo_view"
    "resolvedPlan (ve_browser demo_view) (ve_projectId demo_view) (py_store_name ?d) (Some demo_option) ?s = Some plan"
    by (simp_all add: resolvedPlan_def i_def plan_def)
  have pay: "hp_showPayWithWallet plan" by (simp add: plan plan_wallet_button iphone_mobile)
  have "sheet_view demo_view (py_store_name ?d) (py_title ?d) q (co_refreshingQuote demo_chosen) ?s False =
      sheet_form demo_view q demo_option plan ?s False"
    by (rule sheet_view_form) (use q plan awaiting in simp_all)
  then have "Ck_pay \<in> set (events_of (checkout_view demo_view False [] demo_chosen ?s False))"
    by (intro page_offers [OF demo_chosen_fields(1) q(1)]) (simp add: sheet_form_events pay new_sheet_def)
  then have offered: "Ck_pay \<in> set (events_of (rendered demo_view False [] demo_ready))"
    by (simp add: rendered_def shown) (simp add: demo_ready_def)
  obtain u where "hp_primary plan = Some u" "wc_id u \<noteq> Qr" using plan_primary [of i] plan(1) by blast
  then have "snd (pay_begin demo_option plan None s) = Some (wc_id u)" for s
    by (simp add: pay_begin_def)
  then show ?thesis
    using plan(3) shown offered
    by (simp add: demo_history_ready app_do_def start_pay_def Let_def demo_ready_def demo_chosen_fields launch_input_def)
qed

theorem only_live_quotes_launched_witness:
  "\<exists>l. l \<in> set (ap_launches (app_run demo_history (new_app no_storage))) \<and>
     hi_option (la_input l) = demo_option \<and> demo_option \<in> set (offered_by demo_history) \<and> la_wallet l \<noteq> Qr"
proof -
  obtain l where l: "l \<in> set (ap_launches (app_run demo_history (new_app no_storage)))" "hi_option (la_input l) = demo_option"
    using demo_launch by fastforce
  from only_live_quotes_launched [OF l(1)] l show ?thesis by (auto simp: Let_def)
qed

subsection \<open>What is shown is what is launched\<close>

lemma sheet_leaves:
  "exactPayableAmount p @ lit '' '' @ assetSymbol p \<in> set (leaves_of (sheet_form ve q p plan s dis))"
  "dis \<Longrightarrow> op_destination_address p \<in> set (leaves_of (sheet_form ve q p plan s dis))"
  by (simp_all add: sheet_form_def amount_display_def details_disclosure_def wallet_address_def markup_simps)

lemma page_leaves:
  assumes "co_pay c = Some d" "sheet_props_of c cd = Some q"
  shows "set (leaves_of (sheet_view ve (py_store_name d) (py_title d) q (co_refreshingQuote c) s dis)) \<subseteq>
    set (leaves_of (checkout_view ve telegram cd c s dis))"
proof -
  have "onPayStep c" using assms by (auto simp: sheet_props_of_def split: if_splits)
  with assms show ?thesis by (auto simp: checkout_view_def checkout_page_def markup_simps)
qed

lemma no_qr:
  "attrs_of ''QRCodeSVG'' ''value'' (checkout_header ve d) = []"
  "attrs_of ''QRCodeSVG'' ''value'' (details_form ve fs e) = []"
  "attrs_of ''QRCodeSVG'' ''value'' (network_section ve nets pref e) = []"
  "attrs_of ''QRCodeSVG'' ''value'' (ig_banner t b x y) = []"
  "attrs_of ''QRCodeSVG'' ''value'' (amount_display u v b w) = []"
  "attrs_of ''QRCodeSVG'' ''value'' (payment_state t st ow off cf rq an) = []"
  "attrs_of ''QRCodeSVG'' ''value'' (details_disclosure rt t p dis w) = []"
  "attrs_of ''QRCodeSVG'' ''value'' (wallet_picker t b ws) = []"
proof -
  have "attrs_of ''QRCodeSVG'' ''value'' (field_view ve f) = []" for f
    by (simp add: field_view_def markup_simps o_def)
  then show "attrs_of ''QRCodeSVG'' ''value'' (details_form ve fs e) = []"
    by (simp add: details_form_def markup_simps o_def)
  show "attrs_of ''QRCodeSVG'' ''value'' (wallet_picker t b ws) = []"
    by (simp add: wallet_picker_def picker_item_def sheet_frame_def markup_simps o_def)
qed (simp_all add: checkout_header_def network_section_def ig_banner_def amount_display_def payment_state_def
    details_disclosure_def wallet_address_def language_switch_def brand_mark_def markup_simps split: prod.split)

lemma form_qr: "set (attrs_of ''QRCodeSVG'' ''value'' (sheet_form ve q p plan s dis)) \<subseteq> {hp_qrPayload plan}"
  by (simp add: sheet_form_def no_qr markup_simps)

lemma page_qr:
  assumes "co_pay c = Some d" "sheet_props_of c cd = Some q"
  shows "attrs_of ''QRCodeSVG'' ''value'' (checkout_view ve telegram cd c s dis) =
    attrs_of ''QRCodeSVG'' ''value'' (sheet_view ve (py_store_name d) (py_title d) q (co_refreshingQuote c) s dis)"
proof -
  have "onPayStep c" using assms by (auto simp: sheet_props_of_def split: if_splits)
  with assms show ?thesis by (simp add: checkout_view_def checkout_page_def no_qr markup_simps)
qed

lemma launch_option:
  "l \<in> set (ap_launches (start_pay ve f a)) \<Longrightarrow> l \<in> set (ap_launches a) \<or> co_selected (ap_checkout a) = Some (hi_option (la_input l))"
  by (auto simp: start_pay_def Let_def launch_input_def split: option.splits)

text \<open>C16: what the buyer sees is what the wallet is asked for: whenever the page offers to pay, it shows the
  exact amount with its asset of one option, any QR code on it stands for the same option, the address in
  the opened details is the address of this option, and the payment the click launches, if it
  launches one, is over this option.\<close>

theorem shown_is_launched:
  assumes "k \<in> set (events_of (rendered ve telegram cd a))" "pays k"
  shows "\<exists>opt. co_selected (ap_checkout a) = Some opt \<and>
    exactPayableAmount opt @ lit '' '' @ assetSymbol opt \<in> set (leaves_of (rendered ve telegram cd a)) \<and>
    set (attrs_of ''QRCodeSVG'' ''value'' (rendered ve telegram cd a))
      \<subseteq> {or_text (op_payment_uri opt) (op_destination_address opt)} \<and>
    (ap_disclosed a \<longrightarrow> op_destination_address opt \<in> set (leaves_of (rendered ve telegram cd a))) \<and>
    (\<forall>l\<in>set (ap_launches (click ve k ok a)). l \<in> set (ap_launches a) \<or> hi_option (la_input l) = opt)"
proof -
  let ?c = "ap_checkout a" and ?s = "shown_sheet a"
  obtain d q where d: "co_pay ?c = Some d" "sheet_props_of ?c cd = Some q"
    "k \<in> set (events_of (sheet_view ve (py_store_name d) (py_title d) q (co_refreshingQuote ?c) ?s (ap_disclosed a)))"
    using page_pays [OF assms [unfolded rendered_def]] by blast
  have q: "sp_option q = co_selected ?c" using d(1,2) by (auto simp: sheet_props_of_def split: if_splits)
  obtain p plan where p: "sp_option q = Some p"
    "resolvedPlan (ve_browser ve) (ve_projectId ve) (py_store_name d) (Some p) ?s = Some plan"
    and form: "sheet_view ve (py_store_name d) (py_title d) q (co_refreshingQuote ?c) ?s (ap_disclosed a) =
      sheet_form ve q p plan ?s (ap_disclosed a)"
    using sheet_pays [OF d(3) assms(2)] sheet_view_form by (metis (no_types, lifting))
  note leaves = page_leaves [OF d(1,2), where s = ?s and dis = "ap_disclosed a" and telegram = telegram and ve = ve,
      folded rendered_def, unfolded form]
  have "hp_qrPayload plan = or_text (op_payment_uri p) (op_destination_address p)"
    using p(2) by (auto simp: resolvedPlan_def buildHandoffPlan_def Let_def)
  then have "set (attrs_of ''QRCodeSVG'' ''value'' (rendered ve telegram cd a))
      \<subseteq> {or_text (op_payment_uri p) (op_destination_address p)}"
    using form_qr [of ve q p plan ?s "ap_disclosed a"] page_qr [OF d(1,2)] by (simp add: rendered_def form)
  moreover have "l \<in> set (ap_launches a) \<or> hi_option (la_input l) = p" if "l \<in> set (ap_launches (click ve k ok a))" for l
    using assms(2) that launch_option [of l ve _ a] p(1) q by (cases k) auto
  moreover have "exactPayableAmount p @ lit '' '' @ assetSymbol p \<in> set (leaves_of (rendered ve telegram cd a))"
    by (rule subsetD [OF leaves sheet_leaves(1)])
  moreover have "op_destination_address p \<in> set (leaves_of (rendered ve telegram cd a))" if "ap_disclosed a"
    by (rule subsetD [OF leaves sheet_leaves(2) [OF that]])
  ultimately show ?thesis using p(1) q by auto
qed

theorem shown_is_launched_witness:
  "lit ''12.5 USDT'' \<in> set (leaves_of (rendered demo_view False [] demo_ready))"
proof -
  have "Ck_pay \<in> set (events_of (rendered demo_view False [] demo_ready))" using demo_launch by blast
  from shown_is_launched [OF this, of True] have "exactPayableAmount demo_option @ lit '' '' @ assetSymbol demo_option
      \<in> set (leaves_of (rendered demo_view False [] demo_ready))"
    by (simp add: demo_ready_def demo_chosen_fields)
  moreover have "exactPayableAmount demo_option @ lit '' '' @ assetSymbol demo_option = lit ''12.5 USDT''"
    by (simp add: exactPayableAmount_def assetSymbol_def demo_option_def or_text_def js_trim_no_ws lit_def is_ws_def)
  ultimately show ?thesis by simp
qed

subsection \<open>Where the page is stuck or misleads\<close>

text \<open>A quote that was replaced elsewhere stays selected while the answer still lists it, so the page
  shows the expired quote although an active one of its network is there.\<close>

lemma superseded_stays:
  assumes "co_selected c = Some s" "find (\<lambda>opt. op_id opt = op_id s) (intent_options (py_payment_intent d)) = Some p"
  shows "co_selected (load_answer d c) = Some p"
  using assms by (simp add: load_answer_def load_selects_def or_option_def Let_def)

text \<open>An error is shown as a missing page when the letters of \<open>not\<close> occur in it.\<close>

lemma cannot_is_not_found:
  "ve_t ve ''checkout.notFound'' \<in> set (leaves_of (checkout_loading ve telegram (lit ''You cannot do this now'')))"
proof -
  have "has_word (lit ''You cannot do this now'') [''not'', ''404'']"
    by (simp add: has_word_def lit_def)
  then show ?thesis by (simp add: checkout_loading_def lit_def markup_simps)
qed

text \<open>The store's name is a replacement text, in which a dollar sign and an ampersand stand for the
  placeholder.\<close>

lemma store_name_expanded:
  "pay_kicker (\<lambda>k. lit ''Pay {name} now'') (lit ''S$&T'') = lit ''Pay S{name}T now''"
  by (simp add: pay_kicker_def js_replace_def js_replace_from.simps lit_def)

end
