(* ===== verification/SellerForms.thy ===== *)
theory SellerForms
  imports Pages
begin

text \<open>
  The forms that create an order: app/create/page.tsx and app/links/page.tsx of the seller's
  application, app/t/app/create/page.tsx of the Telegram mini app, and the two public pages where a
  buyer starts an order, [slug]/page.tsx and link/[slug]/page.tsx, all under apps/web/src/app.

  Each page is a record of its hooks with the handler that is suspended (\<open>waits\<close>), a function for
  each handler up to its first await and for each continuation, and a step function on its
  events; an event whose control is not rendered or is disabled leaves the page as it is.
\<close>

subsection \<open>A new order\<close>

record created_order =
  ct_checkout_url :: ustr
  ct_id :: ustr
  ct_slug :: ustr
  ct_title :: "ustr option"
  ct_amount :: "nat option"

datatype create_wait =
    Wait_order nat ustr
  | Wait_clipboard

record create_page =
  cr_gate :: bool
  cr_loading :: bool
  cr_error :: ustr
  cr_amount :: ustr
  cr_title :: ustr
  cr_showMore :: bool
  cr_reference :: ustr
  cr_quantity :: ustr
  cr_expiry :: ustr
  cr_successMessage :: ustr
  cr_showMoreShare :: bool
  cr_showQR :: bool
  cr_result :: "created_order option"
  cr_waits :: "create_wait option"
  cr_requests :: "jval list"
  cr_toasts :: "ustr list"
  cr_route :: "ustr option"

definition new_create :: create_page where
  "new_create = \<lparr>cr_gate = True, cr_loading = False, cr_error = [], cr_amount = [], cr_title = [],
     cr_showMore = False, cr_reference = [], cr_quantity = lit ''1'', cr_expiry = [],
     cr_successMessage = [], cr_showMoreShare = False, cr_showQR = False, cr_result = None, cr_waits = None, cr_requests = [], cr_toasts = [],
     cr_route = None\<rparr>"

text \<open>The effect that lets in only sellers who completed the onboarding; \<open>cancelled\<close> once the page
  is gone.\<close>

definition create_gate :: "bool \<Rightarrow> bool answer \<Rightarrow> create_page \<Rightarrow> create_page" where
  "create_gate cancelled a c =
     (if cancelled then c
      else case a of
        Answered completed \<Rightarrow>
          if \<not> completed then c\<lparr>cr_route := Some (lit ''/app/onboarding'')\<rparr> else c\<lparr>cr_gate := False\<rparr>
      | Threw _ \<Rightarrow> c\<lparr>cr_route := Some (lit ''/login'')\<rparr>)"

text \<open>\<open>replace(/[^\d.,]/g, '')\<close>.\<close>

definition amount_input :: "ustr \<Rightarrow> ustr" where
  "amount_input typed = filter (\<lambda>c. is_digit c \<or> c = 46 \<or> c = 44) typed"

definition optional_entry :: "bool \<Rightarrow> string \<Rightarrow> jval \<Rightarrow> (ustr \<times> jval) list" where
  "optional_entry b k v = (if b then [(lit k, v)] else [])"

definition order_body :: "js_numbers \<Rightarrow> ustr \<Rightarrow> create_page \<Rightarrow> nat \<Rightarrow> jval" where
  "order_body N customerId c value =
     (let qty = number_of_digits N (cr_quantity c); expires = number_of_digits N (cr_expiry c)
      in JObj ([(lit ''amount_usdt_base_units'', JNum (dec value)),
                (lit ''title'', JStr (js_trim (cr_title c))), (lit ''description'', JStr [])] @
          optional_entry (customerId \<noteq> []) ''customer_id'' (JStr customerId) @
          (if cr_showMore c then
             optional_entry (js_trim (cr_reference c) \<noteq> []) ''merchant_reference'' (JStr (js_trim (cr_reference c))) @
             optional_entry (exceeds qty 1) ''item_quantity'' (json_number N qty) @
             optional_entry (exceeds expires 0) ''expires_in_minutes'' (json_number N expires) @
             optional_entry (js_trim (cr_successMessage c) \<noteq> []) ''success_message''
               (JStr (js_trim (cr_successMessage c)))
           else [])))"

text \<open>The early return on \<open>null\<close> comes after \<open>setLoading(true)\<close>.\<close>

definition create_submit :: "js_numbers \<Rightarrow> ustr \<Rightarrow> create_page \<Rightarrow> create_page" where
  "create_submit N customerId c =
     (if \<not> isValidUsdtAmount (cr_amount c) then c
      else let c1 = c\<lparr>cr_loading := True, cr_error := []\<rparr>
        in case parseUsdtToBaseUnits (cr_amount c) of
             None \<Rightarrow> c1
           | Some value \<Rightarrow> c1\<lparr>cr_requests := cr_requests c @ [order_body N customerId c value],
               cr_waits := Some (Wait_order value (js_trim (cr_title c)))\<rparr>)"

definition create_answered :: "ustr \<Rightarrow> nat \<Rightarrow> ustr \<Rightarrow> created_order \<Rightarrow> create_page \<Rightarrow> create_page" where
  "create_answered origin value title res c =
     (let url = or_text (ct_checkout_url res) (origin @ lit ''/p/'' @ ct_slug res)
      in c\<lparr>cr_result := Some (res\<lparr>ct_checkout_url := url,
             ct_title := (if title \<noteq> [] then Some title else ct_title res), ct_amount := Some value\<rparr>),
           cr_waits := Some Wait_clipboard\<rparr>)"

definition create_failed :: "ustr \<Rightarrow> create_page \<Rightarrow> create_page" where
  "create_failed m c = c\<lparr>cr_error := m, cr_loading := False, cr_waits := None\<rparr>"

definition create_copied :: "messages \<Rightarrow> bool \<Rightarrow> create_page \<Rightarrow> create_page" where
  "create_copied t ok c =
     c\<lparr>cr_toasts := cr_toasts c @ (if ok then [t ''common.copied''] else []), cr_loading := False,
       cr_waits := None\<rparr>"

text \<open>\<open>shareLink\<close>: the text, and the toast for its outcome.\<close>

definition created_share_text :: "(nat \<Rightarrow> ustr) \<Rightarrow> messages \<Rightarrow> created_order \<Rightarrow> ustr" where
  "created_share_text localeNumber t r = buildShareText localeNumber
     \<lparr>so_title = given (ct_title r), so_amountToman = 0, so_tomanLabel = [],
      so_amountUsdtBase = (case ct_amount r of None \<Rightarrow> 0 | Some n \<Rightarrow> n),
      so_usdtLabel = t ''checkout.usdt'', so_completeLabel = t ''create.completeOrder'',
      so_url = ct_checkout_url r\<rparr>"

definition create_share :: "messages \<Rightarrow> share_outcome \<Rightarrow> create_page \<Rightarrow> create_page" where
  "create_share t out c =
     (if cr_result c = None \<or> out \<noteq> Copied then c else c\<lparr>cr_toasts := cr_toasts c @ [t ''common.copied'']\<rparr>)"

text \<open>\<open>copyLink\<close>: a refusal of the clipboard is not caught. The last button leads to the order.\<close>

definition create_copy :: "messages \<Rightarrow> bool \<Rightarrow> create_page \<Rightarrow> create_page" where
  "create_copy t ok c =
     (if cr_result c = None \<or> \<not> ok then c else c\<lparr>cr_toasts := cr_toasts c @ [t ''common.copied'']\<rparr>)"

definition create_view_order :: "create_page \<Rightarrow> create_page" where
  "create_view_order c =
     (case cr_result c of None \<Rightarrow> c | Some r \<Rightarrow> c\<lparr>cr_route := Some (lit ''/app/orders/'' @ ct_id r)\<rparr>)"

datatype create_event =
    Cr_gate bool "bool answer"
  | Cr_amount ustr
  | Cr_title ustr
  | Cr_more
  | Cr_reference ustr
  | Cr_quantity ustr
  | Cr_expiry ustr
  | Cr_success ustr
  | Cr_submit
  | Cr_order "created_order answer"
  | Cr_clipboard bool
  | Cr_share share_outcome
  | Cr_copy bool
  | Cr_more_share
  | Cr_qr
  | Cr_view

text \<open>The form is rendered once the gate is open and while there is no result.\<close>

definition create_form :: "create_page \<Rightarrow> bool" where
  "create_form c \<longleftrightarrow> cr_result c = None \<and> \<not> cr_gate c"

definition create_options :: "create_page \<Rightarrow> bool" where
  "create_options c \<longleftrightarrow> create_form c \<and> cr_showMore c"

definition create_disabled :: "create_page \<Rightarrow> bool" where
  "create_disabled c \<longleftrightarrow> cr_loading c \<or> \<not> isValidUsdtAmount (cr_amount c)"

fun create_do :: "js_numbers \<Rightarrow> messages \<Rightarrow> ustr \<Rightarrow> ustr \<Rightarrow> create_event \<Rightarrow> create_page \<Rightarrow> create_page" where
  "create_do N t origin customer (Cr_gate b a) c = create_gate b a c"
| "create_do N t origin customer (Cr_amount s) c = (if create_form c then c\<lparr>cr_amount := amount_input s\<rparr> else c)"
| "create_do N t origin customer (Cr_title s) c = (if create_form c then c\<lparr>cr_title := s\<rparr> else c)"
| "create_do N t origin customer Cr_more c = (if create_form c then c\<lparr>cr_showMore := \<not> cr_showMore c\<rparr> else c)"
| "create_do N t origin customer (Cr_reference s) c = (if create_options c then c\<lparr>cr_reference := s\<rparr> else c)"
| "create_do N t origin customer (Cr_quantity s) c =
     (if create_options c then c\<lparr>cr_quantity := digits_input s\<rparr> else c)"
| "create_do N t origin customer (Cr_expiry s) c =
     (if create_options c then c\<lparr>cr_expiry := digits_input s\<rparr> else c)"
| "create_do N t origin customer (Cr_success s) c = (if create_options c then c\<lparr>cr_successMessage := s\<rparr> else c)"
| "create_do N t origin customer Cr_submit c =
     (if \<not> create_form c \<or> create_disabled c then c else create_submit N customer c)"
| "create_do N t origin customer (Cr_order a) c =
     (case cr_waits c of
        Some (Wait_order value title) \<Rightarrow>
          (case a of Answered res \<Rightarrow> create_answered origin value title res c | Threw m \<Rightarrow> create_failed m c)
      | _ \<Rightarrow> c)"
| "create_do N t origin customer (Cr_clipboard ok) c =
     (if cr_waits c = Some Wait_clipboard then create_copied t ok c else c)"
| "create_do N t origin customer (Cr_share out) c = create_share t out c"
| "create_do N t origin customer (Cr_copy ok) c = create_copy t ok c"
| "create_do N t origin customer Cr_more_share c =
     (if cr_result c = None then c else c\<lparr>cr_showMoreShare := \<not> cr_showMoreShare c\<rparr>)"
| "create_do N t origin customer Cr_qr c =
     (if cr_result c = None \<or> \<not> cr_showMoreShare c then c else c\<lparr>cr_showQR := \<not> cr_showQR c\<rparr>)"
| "create_do N t origin customer Cr_view c = create_view_order c"

definition asked_amount :: "jval \<Rightarrow> jval" where
  "asked_amount body = prop_of body (lit ''amount_usdt_base_units'')"

lemma asked_order_body [simp]: "asked_amount (order_body N customerId c value) = JNum (dec value)"
  by (simp add: asked_amount_def order_body_def Let_def)

lemma order_amount_bounds:
  "parseUsdtToBaseUnits s = Some n \<Longrightarrow> 0 < n \<and> n \<le> MAX_SAFE_INTEGER"
  by (auto simp: parseUsdtToBaseUnits_def Let_def split: if_splits)

lemmas create_steps = create_gate_def create_submit_def create_answered_def create_failed_def
  create_copied_def create_share_def create_copy_def create_view_order_def Let_def

text \<open>What every event keeps: the form loads exactly while its handler is suspended, the amount the
  suspended handler and the result hold is that of the last request, and the fields for numbers
  hold digits.\<close>

definition asked_for :: "create_page \<Rightarrow> nat \<Rightarrow> bool" where
  "asked_for c n \<longleftrightarrow> 0 < n \<and> n \<le> MAX_SAFE_INTEGER \<and> cr_requests c \<noteq> [] \<and>
     asked_amount (last (cr_requests c)) = JNum (dec n)"

definition create_inv :: "create_page \<Rightarrow> bool" where
  "create_inv c \<longleftrightarrow> (cr_loading c \<longleftrightarrow> cr_waits c \<noteq> None) \<and>
     (case cr_waits c of Some (Wait_order n title) \<Rightarrow> asked_for c n \<and> cr_result c = None | _ \<Rightarrow> True) \<and>
     (case cr_result c of None \<Rightarrow> True | Some r \<Rightarrow> ct_amount r \<noteq> None \<and> asked_for c (the (ct_amount r))) \<and>
     list_all is_digit (cr_quantity c) \<and> list_all is_digit (cr_expiry c)"

lemma create_inv_new: "create_inv new_create"
  by (simp add: create_inv_def new_create_def lit_def is_digit_def)

lemma digits_only: "list_all is_digit (digits_input s)"
  by (simp add: digits_input_def list_all_iff)

lemma create_inv_do: "create_inv c \<Longrightarrow> create_inv (create_do N t origin customer e c)"
proof (cases e)
  case Cr_submit
  assume "create_inv c"
  then show ?thesis
    by (auto simp: Cr_submit create_inv_def create_form_def create_disabled_def create_submit_def Let_def
        asked_for_def isValidUsdtAmount_def dest: order_amount_bounds split: option.splits)
next
  case (Cr_order a)
  assume "create_inv c"
  then show ?thesis
    by (auto simp: Cr_order create_inv_def create_answered_def create_failed_def Let_def asked_for_def
        split: option.splits create_wait.splits answer.splits)
qed (auto simp: create_inv_def create_gate_def create_copied_def create_share_def create_copy_def create_view_order_def
      asked_for_def digits_only
      split: option.splits create_wait.splits answer.splits)

interpretation creating: event_machine "create_do N t origin customer" create_inv "\<lambda>_. True"
  by unfold_locales (rule create_inv_do)

text \<open>Once there is a result the page sends no other request: an order is created once.\<close>

lemma create_once: "cr_result c \<noteq> None \<Longrightarrow> create_inv c \<Longrightarrow>
    cr_requests (create_do N t origin customer e c) = cr_requests c \<and>
    cr_result (create_do N t origin customer e c) = cr_result c"
  by (cases e) (auto simp: create_inv_def create_form_def create_steps split: option.splits create_wait.splits answer.splits)

interpretation created: quiet_machine "create_do N t origin customer"
    "\<lambda>c. create_inv c \<and> cr_result c \<noteq> None" "\<lambda>_. True" "\<lambda>c. (cr_requests c, cr_result c)"
proof
  fix c e
  assume c: "create_inv c \<and> cr_result c \<noteq> None"
  then show "create_inv (create_do N t origin customer e c) \<and> cr_result (create_do N t origin customer e c) \<noteq> None"
    and "(cr_requests (create_do N t origin customer e c), cr_result (create_do N t origin customer e c)) =
      (cr_requests c, cr_result c)"
    using create_inv_do create_once by simp_all
qed

text \<open>The answer's own amount is not looked at.\<close>

lemma create_keeps_asked_amount:
  "cr_result (create_answered origin value title res c) = Some r \<Longrightarrow> ct_amount r = Some value"
  by (auto simp: create_answered_def Let_def)

subsection \<open>Payment links\<close>

record pay_link =
  pk_id :: ustr
  pk_slug :: ustr
  pk_title :: ustr
  pk_mode :: ustr
  pk_amount :: nat
  pk_active :: bool
  pk_public_url :: ustr

datatype links_wait = Links_create | Links_reload

record links_page =
  lk_links :: "pay_link list"
  lk_error :: ustr
  lk_title :: ustr
  lk_mode :: ustr
  lk_amount :: ustr
  lk_loading :: bool
  lk_waits :: "links_wait option"
  lk_requests :: "jval list"
  lk_toasts :: "ustr list"

definition new_links :: links_page where
  "new_links = \<lparr>lk_links = [], lk_error = [], lk_title = [], lk_mode = lit ''fixed'', lk_amount = [],
     lk_loading = False, lk_waits = None, lk_requests = [], lk_toasts = []\<rparr>"

definition link_body :: "js_numbers \<Rightarrow> messages \<Rightarrow> links_page \<Rightarrow> jval" where
  "link_body N t p = JObj
     [(lit ''title'', JStr (or_text (js_trim (lk_title p)) (t ''links.title''))),
      (lit ''mode'', JStr (lk_mode p)),
      (if lk_mode p = lit ''fixed''
       then (lit ''fiat_amount_toman'', JNum (nm_text N (parseTomanInput (nm_of N) (lk_amount p))))
       else (lit ''min_amount_toman'', JNum (lit ''10000'')))]"

definition links_create :: "js_numbers \<Rightarrow> messages \<Rightarrow> links_page \<Rightarrow> links_page" where
  "links_create N t p =
     (let p1 = p\<lparr>lk_loading := True, lk_error := []\<rparr>
      in if lk_mode p = lit ''fixed'' \<and> \<not> isValidTomanAmount (nm_of N) (lk_amount p)
         then p1\<lparr>lk_error := t ''common.error'', lk_loading := False\<rparr>
         else p1\<lparr>lk_requests := lk_requests p @ [link_body N t p], lk_waits := Some Links_create\<rparr>)"

definition links_created :: "links_page \<Rightarrow> links_page" where
  "links_created p = p\<lparr>lk_title := [], lk_amount := [], lk_waits := Some Links_reload\<rparr>"

definition links_reloaded :: "messages \<Rightarrow> pay_link list \<Rightarrow> links_page \<Rightarrow> links_page" where
  "links_reloaded t links p = p\<lparr>lk_links := links, lk_toasts := lk_toasts p @ [t ''common.saved''],
     lk_loading := False, lk_waits := None\<rparr>"

definition links_failed :: "ustr \<Rightarrow> links_page \<Rightarrow> links_page" where
  "links_failed m p = p\<lparr>lk_error := m, lk_loading := False, lk_waits := None\<rparr>"

datatype links_event =
    Lk_loaded "pay_link list answer"
  | Lk_title ustr
  | Lk_mode ustr
  | Lk_amount ustr
  | Lk_submit
  | Lk_created "unit answer"
  | Lk_reloaded "pay_link list answer"
  | Lk_copied bool

fun links_do :: "js_numbers \<Rightarrow> messages \<Rightarrow> links_event \<Rightarrow> links_page \<Rightarrow> links_page" where
  "links_do N t (Lk_loaded a) p =
     (case a of Answered ls \<Rightarrow> p\<lparr>lk_links := ls\<rparr> | Threw m \<Rightarrow> p\<lparr>lk_error := m\<rparr>)"
| "links_do N t (Lk_title s) p = p\<lparr>lk_title := s\<rparr>"
| "links_do N t (Lk_mode m) p = p\<lparr>lk_mode := m\<rparr>"
| "links_do N t (Lk_amount s) p =
     (if lk_mode p = lit ''fixed'' then p\<lparr>lk_amount := formatTomanInput (nm_of N) s\<rparr> else p)"
| "links_do N t Lk_submit p = (if lk_loading p then p else links_create N t p)"
| "links_do N t (Lk_created a) p =
     (if lk_waits p = Some Links_create
      then (case a of Answered _ \<Rightarrow> links_created p | Threw m \<Rightarrow> links_failed m p) else p)"
| "links_do N t (Lk_reloaded a) p =
     (if lk_waits p = Some Links_reload
      then (case a of Answered ls \<Rightarrow> links_reloaded t ls p | Threw m \<Rightarrow> links_failed m p) else p)"
| "links_do N t (Lk_copied ok) p = (if ok then p\<lparr>lk_toasts := lk_toasts p @ [t ''common.copied'']\<rparr> else p)"

lemmas links_steps = links_create_def links_created_def links_reloaded_def links_failed_def Let_def

interpretation link_form: form_machine "links_do N t" lk_loading lk_waits
proof
  fix p :: links_page and e
  assume "lk_loading p \<longleftrightarrow> lk_waits p \<noteq> None"
  then show "lk_loading (links_do N t e p) \<longleftrightarrow> lk_waits (links_do N t e p) \<noteq> None"
    by (cases e) (auto simp: links_steps split: answer.splits)
qed

text \<open>A new link was created although its list could not be loaded again: the error is shown, the
  fields are already empty.\<close>

lemma link_created_but_error:
  "lk_waits p = Some Links_create \<Longrightarrow>
     (let q = links_do N t (Lk_reloaded (Threw m)) (links_do N t (Lk_created (Answered ())) p)
      in lk_error q = m \<and> lk_title q = [] \<and> lk_amount q = [] \<and> \<not> lk_loading q)"
  by (simp add: links_steps)

subsection \<open>The mini app's form\<close>

record telegram_created =
  tc_slug :: ustr
  tc_checkout_url :: ustr
  tc_telegram_url :: ustr

record telegram_create =
  tg_amount :: ustr
  tg_title :: ustr
  tg_loading :: bool
  tg_error :: ustr
  tg_result :: "telegram_created option"
  tg_waits :: "unit option"
  tg_requests :: "jval list"

text \<open>What the form gets: a body that was read with \<open>res.ok\<close> and \<open>data.error\<close>, or an exception.\<close>

datatype telegram_reply =
    Reply bool ustr telegram_created
  | Reply_throws

definition telegram_submit :: "js_numbers \<Rightarrow> telegram_create \<Rightarrow> telegram_create" where
  "telegram_submit N p =
     (if \<not> isValidTomanAmount (nm_of N) (tg_amount p) then p
      else p\<lparr>tg_loading := True, tg_error := [], tg_waits := Some (),
        tg_requests := tg_requests p @ [JObj
          [(lit ''fiat_amount_toman'', JNum (nm_text N (parseTomanInput (nm_of N) (tg_amount p)))),
           (lit ''title'', JStr (js_trim (tg_title p)))]]\<rparr>)"

definition telegram_answered :: "messages \<Rightarrow> telegram_reply \<Rightarrow> telegram_create \<Rightarrow> telegram_create" where
  "telegram_answered t r p =
     (let p1 = p\<lparr>tg_loading := False, tg_waits := None\<rparr>
      in case r of
        Reply ok e d \<Rightarrow> if \<not> ok then p1\<lparr>tg_error := or_text e (t ''common.error'')\<rparr> else p1\<lparr>tg_result := Some d\<rparr>
      | Reply_throws \<Rightarrow> p1\<lparr>tg_error := t ''common.error''\<rparr>)"

text \<open>What the share button does: an inline query of the mini app, or a copy of the mini app's link.\<close>

datatype telegram_share = Inline_query ustr "ustr list" | Copy_text ustr | Share_nothing

definition shareTelegram :: "bool \<Rightarrow> telegram_create \<Rightarrow> telegram_share" where
  "shareTelegram has_inline p =
     (case tg_result p of None \<Rightarrow> Share_nothing
      | Some r \<Rightarrow> if has_inline then Inline_query (tc_telegram_url r) [lit ''users'', lit ''groups'']
          else Copy_text (tc_telegram_url r))"

datatype telegram_event = Tg_amount ustr | Tg_title ustr | Tg_submit | Tg_reply telegram_reply

fun telegram_do :: "js_numbers \<Rightarrow> messages \<Rightarrow> telegram_event \<Rightarrow> telegram_create \<Rightarrow> telegram_create" where
  "telegram_do N t (Tg_amount s) p =
     (if tg_result p = None then p\<lparr>tg_amount := formatTomanInput (nm_of N) s\<rparr> else p)"
| "telegram_do N t (Tg_title s) p = (if tg_result p = None then p\<lparr>tg_title := s\<rparr> else p)"
| "telegram_do N t Tg_submit p = (if tg_result p \<noteq> None \<or> tg_loading p then p else telegram_submit N p)"
| "telegram_do N t (Tg_reply r) p = (if tg_waits p = None then p else telegram_answered t r p)"

interpretation telegram_form: form_machine "telegram_do N t" tg_loading tg_waits
proof
  fix p :: telegram_create and e
  assume "tg_loading p \<longleftrightarrow> tg_waits p \<noteq> None"
  then show "tg_loading (telegram_do N t e p) \<longleftrightarrow> tg_waits (telegram_do N t e p) \<noteq> None"
    by (cases e) (auto simp: telegram_submit_def telegram_answered_def Let_def split: telegram_reply.splits)
qed

subsection \<open>The public page of a store\<close>

definition RESERVED :: "ustr list" where
  "RESERVED = map lit [''app'', ''p'', ''admin'', ''login'', ''register'', ''api'', ''m'', ''onboarding'',
     ''link'', ''links'', ''favicon.ico'', ''robots.txt'', ''manifest.webmanifest'', ''sw.js'']"

record store_info =
  si_name :: ustr
  si_description :: ustr
  si_logo :: ustr
  si_support :: ustr

record store_page =
  sp_store :: "store_info option"
  sp_error :: ustr
  sp_amount :: ustr
  sp_reference :: ustr
  sp_loading :: bool
  sp_waits :: "unit option"
  sp_requests :: "jval list"
  sp_route :: "ustr option"

definition not_found :: ustr where
  "not_found = lit ''not_found''"

text \<open>The effect on \<open>[slug]\<close>: whether the store is asked for at all, and its answer.\<close>

definition store_asks :: "runtime \<Rightarrow> ustr \<Rightarrow> bool" where
  "store_asks rt slug \<longleftrightarrow> slug \<noteq> [] \<and> js_lower rt slug \<notin> set RESERVED"

definition store_effect :: "runtime \<Rightarrow> ustr \<Rightarrow> store_page \<Rightarrow> store_page" where
  "store_effect rt slug p = (if store_asks rt slug then p else p\<lparr>sp_error := not_found\<rparr>)"

definition store_loaded :: "store_info answer \<Rightarrow> store_page \<Rightarrow> store_page" where
  "store_loaded a p = (case a of Answered d \<Rightarrow> p\<lparr>sp_store := Some d\<rparr> | Threw _ \<Rightarrow> p\<lparr>sp_error := not_found\<rparr>)"

definition store_pay :: "js_numbers \<Rightarrow> store_page \<Rightarrow> store_page" where
  "store_pay N p =
     (if \<not> isValidTomanAmount (nm_of N) (sp_amount p) \<or> sp_store p = None then p
      else p\<lparr>sp_loading := True, sp_error := [], sp_waits := Some (),
        sp_requests := sp_requests p @ [JObj
          [(lit ''fiat_amount_toman'', JNum (nm_text N (parseTomanInput (nm_of N) (sp_amount p)))),
           (lit ''reference'', JStr (js_trim (sp_reference p)))]]\<rparr>)"

definition store_paid :: "ustr answer \<Rightarrow> store_page \<Rightarrow> store_page" where
  "store_paid a p =
     (let p1 = p\<lparr>sp_loading := False, sp_waits := None\<rparr>
      in case a of Answered order_slug \<Rightarrow> p1\<lparr>sp_route := Some (lit ''/p/'' @ order_slug)\<rparr> | Threw m \<Rightarrow> p1\<lparr>sp_error := m\<rparr>)"

text \<open>What is rendered: the form with its alert, where one is shown.\<close>

datatype store_view = Store_missing | Store_loading | Store_form store_info "ustr option"

definition store_view_of :: "store_page \<Rightarrow> store_view" where
  "store_view_of p =
     (case sp_store p of
        None \<Rightarrow> if sp_error p = not_found then Store_missing else Store_loading
      | Some d \<Rightarrow> Store_form d (if sp_error p \<noteq> [] \<and> sp_error p \<noteq> not_found then Some (sp_error p) else None))"

datatype store_event = Sp_loaded "store_info answer" | Sp_amount ustr | Sp_reference ustr | Sp_pay | Sp_paid "ustr answer"

fun store_do :: "js_numbers \<Rightarrow> store_event \<Rightarrow> store_page \<Rightarrow> store_page" where
  "store_do N (Sp_loaded a) p = store_loaded a p"
| "store_do N (Sp_amount s) p = (if sp_store p = None then p else p\<lparr>sp_amount := formatTomanInput (nm_of N) s\<rparr>)"
| "store_do N (Sp_reference s) p = (if sp_store p = None then p else p\<lparr>sp_reference := s\<rparr>)"
| "store_do N Sp_pay p = (if sp_loading p \<or> \<not> isValidTomanAmount (nm_of N) (sp_amount p) then p else store_pay N p)"
| "store_do N (Sp_paid a) p = (if sp_waits p = None then p else store_paid a p)"

interpretation store_form: form_machine "store_do N" sp_loading sp_waits
proof
  fix p :: store_page and e
  assume "sp_loading p \<longleftrightarrow> sp_waits p \<noteq> None"
  then show "sp_loading (store_do N e p) \<longleftrightarrow> sp_waits (store_do N e p) \<noteq> None"
    by (cases e) (auto simp: store_loaded_def store_pay_def store_paid_def Let_def split: answer.splits)
qed

text \<open>A refusal whose message is the page's own marker is not shown.\<close>

lemma store_hides_not_found:
  "sp_store p = Some d \<Longrightarrow> store_view_of (store_paid (Threw not_found) p) = Store_form d None"
  by (simp add: store_view_of_def store_paid_def Let_def)

subsection \<open>The public page of a payment link\<close>

record link_info =
  li_title :: ustr
  li_mode :: ustr
  li_amount :: nat
  li_description :: ustr
  li_store_name :: ustr
  li_logo :: ustr

record link_page =
  lp_info :: "link_info option"
  lp_amount :: ustr
  lp_error :: ustr
  lp_loading :: bool
  lp_waits :: "unit option"
  lp_requests :: "jval list"
  lp_route :: "ustr option"

definition link_loaded :: "js_numbers \<Rightarrow> link_info answer \<Rightarrow> link_page \<Rightarrow> link_page" where
  "link_loaded N a p =
     (case a of
        Answered d \<Rightarrow>
          (let p1 = p\<lparr>lp_info := Some d\<rparr>
           in if li_mode d = lit ''fixed'' \<and> li_amount d > 0
              then p1\<lparr>lp_amount := formatTomanInput (nm_of N) (nm_text N (li_amount d))\<rparr> else p1)
      | Threw _ \<Rightarrow> p\<lparr>lp_error := not_found\<rparr>)"

definition link_value :: "js_numbers \<Rightarrow> link_info \<Rightarrow> link_page \<Rightarrow> nat" where
  "link_value N d p = (if li_mode d = lit ''fixed'' then li_amount d else parseTomanInput (nm_of N) (lp_amount p))"

definition link_submit :: "js_numbers \<Rightarrow> link_page \<Rightarrow> link_page" where
  "link_submit N p =
     (case lp_info p of None \<Rightarrow> p
      | Some d \<Rightarrow>
          if link_value N d p \<le> 0 then p
          else p\<lparr>lp_loading := True, lp_error := [], lp_waits := Some (),
            lp_requests := lp_requests p @
              [JObj [(lit ''fiat_amount_toman'', JNum (nm_text N (link_value N d p)))]]\<rparr>)"

definition link_started :: "ustr answer \<Rightarrow> link_page \<Rightarrow> link_page" where
  "link_started a p =
     (let p1 = p\<lparr>lp_loading := False, lp_waits := None\<rparr>
      in case a of Answered order_slug \<Rightarrow> p1\<lparr>lp_route := Some (lit ''/p/'' @ order_slug)\<rparr> | Threw m \<Rightarrow> p1\<lparr>lp_error := m\<rparr>)"

definition link_disabled :: "js_numbers \<Rightarrow> link_page \<Rightarrow> bool" where
  "link_disabled N p \<longleftrightarrow> lp_loading p \<or>
     (case lp_info p of None \<Rightarrow> True
      | Some d \<Rightarrow> li_mode d = lit ''custom_amount'' \<and> \<not> isValidTomanAmount (nm_of N) (lp_amount p))"

datatype link_event = Lp_loaded "link_info answer" | Lp_amount ustr | Lp_submit | Lp_started "ustr answer"

fun link_do :: "js_numbers \<Rightarrow> link_event \<Rightarrow> link_page \<Rightarrow> link_page" where
  "link_do N (Lp_loaded a) p = link_loaded N a p"
| "link_do N (Lp_amount s) p =
     (case lp_info p of None \<Rightarrow> p
      | Some d \<Rightarrow> if li_mode d = lit ''custom_amount'' then p\<lparr>lp_amount := formatTomanInput (nm_of N) s\<rparr> else p)"
| "link_do N Lp_submit p = (if link_disabled N p then p else link_submit N p)"
| "link_do N (Lp_started a) p = (if lp_waits p = None then p else link_started a p)"

interpretation link_start: form_machine "link_do N" lp_loading lp_waits
proof
  fix p :: link_page and e
  assume "lp_loading p \<longleftrightarrow> lp_waits p \<noteq> None"
  then show "lp_loading (link_do N e p) \<longleftrightarrow> lp_waits (link_do N e p) \<noteq> None"
    by (cases e)
      (auto simp: link_loaded_def link_submit_def link_started_def link_disabled_def Let_def
        split: answer.splits option.splits)
qed

text \<open>A fixed link asks for its own amount, whatever is in the field.\<close>

lemma fixed_link_amount:
  "lp_info p = Some d \<Longrightarrow> li_mode d = lit ''fixed'' \<Longrightarrow> li_amount d > 0 \<Longrightarrow>
     lp_requests (link_submit N p) = lp_requests p @ [JObj [(lit ''fiat_amount_toman'', JNum (nm_text N (li_amount d)))]]"
  by (simp add: link_submit_def link_value_def)

end
