(* ===== verification/WalletPages.thy ===== *)
theory WalletPages
  imports Pages
begin

text \<open>
  Where a seller's receiving addresses come from: app/wallets/page.tsx and
  app/onboarding/page.tsx under apps/web/src/app/app.

  On the wallets page a dialog's button is not disabled while a request is out, so several
  handlers can be suspended at once: \<open>wp_waits\<close> is a list, and an answer names its place in it. The
  onboarding page captures the text of its fields in the handler that was started, so a suspended
  handler carries them.
\<close>

subsection \<open>The wallets page\<close>

record wallet_row =
  wl_id :: ustr
  wl_network :: ustr
  wl_address :: ustr
  wl_label :: ustr
  wl_is_default :: bool
  wl_is_active :: bool
  wl_explorer_url :: "ustr option"
  wl_active_intents :: "nat option"

record wallet_draft =
  dr_network :: ustr
  dr_address :: ustr
  dr_label :: ustr
  dr_is_default :: bool

datatype wallet_request =
    Req_add wallet_draft
  | Req_default ustr
  | Req_archive ustr

text \<open>A suspended handler waits for its request or for the reload after it.\<close>

datatype wallet_wait =
    Wait_saved
  | Wait_saved_reload
  | Wait_default
  | Wait_default_reload
  | Wait_archived
  | Wait_archived_reload

record wallets_page =
  wp_wallets :: "wallet_row list"
  wp_error :: ustr
  wp_draft :: "wallet_draft option"
  wp_loading :: bool
  wp_openId :: "ustr option"
  wp_archiveId :: "ustr option"
  wp_waits :: "wallet_wait list"
  wp_requests :: "wallet_request list"
  wp_toasts :: "ustr list"

definition new_wallets :: wallets_page where
  "new_wallets = \<lparr>wp_wallets = [], wp_error = [], wp_draft = None, wp_loading = False, wp_openId = None,
     wp_archiveId = None, wp_waits = [], wp_requests = [], wp_toasts = []\<rparr>"

definition wallet_address_ok :: "ustr \<Rightarrow> ustr \<Rightarrow> bool" where
  "wallet_address_ok network address =
     (let trimmed = js_trim address
      in if network = lit ''tron'' then tron_address trimmed
         else if network = lit ''bsc'' then bsc_address trimmed
         else length trimmed > 8)"

text \<open>The form's fields; \<open>checkbox\<close> is whether the box is there and ticked.\<close>

definition onFormSubmit :: "messages \<Rightarrow> ustr \<Rightarrow> ustr \<Rightarrow> ustr \<Rightarrow> bool \<Rightarrow> wallets_page \<Rightarrow> wallets_page" where
  "onFormSubmit t network rawAddress rawLabel checkbox p =
     (let address = js_trim rawAddress; p1 = p\<lparr>wp_error := []\<rparr>
      in if \<not> wallet_address_ok network address then p1\<lparr>wp_error := t ''wallets.invalidAddress''\<rparr>
         else p1\<lparr>wp_draft := Some \<lparr>dr_network = network, dr_address = address, dr_label = js_trim rawLabel,
           dr_is_default = (filter (\<lambda>w. wl_network w = network \<and> wl_is_active w) (wp_wallets p) = [] \<or> checkbox)\<rparr>\<rparr>)"

text \<open>The confirmation screen shows the network and the ends of the address; the box is rendered
  only where the page knows a wallet.\<close>

definition confirm_shows :: "runtime \<Rightarrow> messages \<Rightarrow> wallet_draft \<Rightarrow> ustr \<times> ustr" where
  "confirm_shows rt t d =
     (networkLabel rt (dr_network d) (t ''wallets.tron'') (t ''wallets.bsc''), shortenAddress (dr_address d))"

definition default_box_shown :: "wallets_page \<Rightarrow> bool" where
  "default_box_shown p \<longleftrightarrow> wp_wallets p \<noteq> []"

definition confirmSave :: "wallets_page \<Rightarrow> wallets_page" where
  "confirmSave p =
     (case wp_draft p of None \<Rightarrow> p
      | Some d \<Rightarrow> p\<lparr>wp_loading := True, wp_error := [], wp_requests := wp_requests p @ [Req_add d],
          wp_waits := wp_waits p @ [Wait_saved]\<rparr>)"

definition setDefault :: "ustr \<Rightarrow> wallets_page \<Rightarrow> wallets_page" where
  "setDefault wid p = p\<lparr>wp_loading := True, wp_requests := wp_requests p @ [Req_default wid],
     wp_waits := wp_waits p @ [Wait_default]\<rparr>"

definition archive :: "ustr \<Rightarrow> wallets_page \<Rightarrow> wallets_page" where
  "archive wid p = p\<lparr>wp_loading := True, wp_requests := wp_requests p @ [Req_archive wid],
     wp_waits := wp_waits p @ [Wait_archived]\<rparr>"

definition drop_wait :: "nat \<Rightarrow> 'w list \<Rightarrow> 'w list" where
  "drop_wait i ws = take i ws @ drop (i + 1) ws"

text \<open>The end of a handler: \<open>finally\<close>.\<close>

definition wallet_finally :: "nat \<Rightarrow> wallet_wait \<Rightarrow> wallets_page \<Rightarrow> wallets_page" where
  "wallet_finally i w p =
     (let p1 = p\<lparr>wp_loading := False, wp_waits := drop_wait i (wp_waits p)\<rparr>
      in if w = Wait_archived \<or> w = Wait_archived_reload then p1\<lparr>wp_archiveId := None\<rparr> else p1)"

text \<open>The request of the \<open>i\<close>-th suspended handler is answered, or its reload is.\<close>

definition wallet_answered :: "nat \<Rightarrow> unit answer \<Rightarrow> wallets_page \<Rightarrow> wallets_page" where
  "wallet_answered i a p =
     (if i \<ge> length (wp_waits p) then p
      else let w = wp_waits p ! i
        in if w \<notin> {Wait_saved, Wait_default, Wait_archived} then p
           else case a of
             Threw m \<Rightarrow> wallet_finally i w (p\<lparr>wp_error := m\<rparr>)
           | Answered _ \<Rightarrow>
               (case w of
                  Wait_saved \<Rightarrow> p\<lparr>wp_draft := None, wp_waits := (wp_waits p)[i := Wait_saved_reload]\<rparr>
                | Wait_default \<Rightarrow> p\<lparr>wp_waits := (wp_waits p)[i := Wait_default_reload]\<rparr>
                | _ \<Rightarrow> p\<lparr>wp_waits := (wp_waits p)[i := Wait_archived_reload]\<rparr>))"

definition wallet_reloaded :: "messages \<Rightarrow> nat \<Rightarrow> wallet_row list answer \<Rightarrow> wallets_page \<Rightarrow> wallets_page" where
  "wallet_reloaded t i a p =
     (if i \<ge> length (wp_waits p) then p
      else let w = wp_waits p ! i
        in if w \<notin> {Wait_saved_reload, Wait_default_reload, Wait_archived_reload} then p
           else case a of
             Threw m \<Rightarrow> wallet_finally i w (p\<lparr>wp_error := m\<rparr>)
           | Answered ws \<Rightarrow>
               (let p1 = p\<lparr>wp_wallets := ws\<rparr>
                in wallet_finally i w
                     (if w = Wait_saved_reload then p1\<lparr>wp_toasts := wp_toasts p @ [t ''common.saved'']\<rparr> else p1)))"

datatype wallet_event =
    Wp_loaded "wallet_row list answer"
  | Wp_form ustr ustr ustr bool
  | Wp_save
  | Wp_back
  | Wp_open ustr
  | Wp_default ustr
  | Wp_ask_archive ustr
  | Wp_cancel_archive
  | Wp_archive
  | Wp_answered nat "unit answer"
  | Wp_reloaded nat "wallet_row list answer"

definition wallet_known :: "(wallet_row \<Rightarrow> bool) \<Rightarrow> ustr \<Rightarrow> wallets_page \<Rightarrow> bool" where
  "wallet_known ok wid p \<longleftrightarrow> (\<exists>w\<in>set (wp_wallets p). wl_id w = wid \<and> ok w)"

fun wallets_do :: "messages \<Rightarrow> wallet_event \<Rightarrow> wallets_page \<Rightarrow> wallets_page" where
  "wallets_do t (Wp_loaded a) p =
     (case a of Answered ws \<Rightarrow> p\<lparr>wp_wallets := ws\<rparr> | Threw m \<Rightarrow> p\<lparr>wp_error := m\<rparr>)"
| "wallets_do t (Wp_form network address label checkbox) p =
     (if wp_draft p \<noteq> None \<or> network \<notin> {lit ''tron'', lit ''bsc''} \<or> checkbox \<and> \<not> default_box_shown p then p
      else onFormSubmit t network address label checkbox p)"
| "wallets_do t Wp_save p = (if wp_loading p then p else confirmSave p)"
| "wallets_do t Wp_back p = (if wp_loading p then p else p\<lparr>wp_draft := None\<rparr>)"
| "wallets_do t (Wp_open wid) p = p\<lparr>wp_openId := (if wp_openId p = Some wid then None else Some wid)\<rparr>"
| "wallets_do t (Wp_default wid) p =
     (if wp_loading p \<or> wp_openId p \<noteq> Some wid \<or> \<not> wallet_known (\<lambda>w. \<not> wl_is_default w \<and> wl_is_active w) wid p
      then p else setDefault wid p)"
| "wallets_do t (Wp_ask_archive wid) p =
     (if wp_loading p \<or> wp_openId p \<noteq> Some wid \<or> \<not> wallet_known wl_is_active wid p
      then p else p\<lparr>wp_archiveId := Some wid\<rparr>)"
| "wallets_do t Wp_cancel_archive p = p\<lparr>wp_archiveId := None\<rparr>"
| "wallets_do t Wp_archive p =
     (case wp_archiveId p of None \<Rightarrow> p | Some wid \<Rightarrow> if wid = [] then p else archive wid p)"
| "wallets_do t (Wp_answered i a) p = wallet_answered i a p"
| "wallets_do t (Wp_reloaded i a) p = wallet_reloaded t i a p"

lemmas wallet_steps = onFormSubmit_def confirmSave_def setDefault_def archive_def wallet_finally_def
  wallet_answered_def wallet_reloaded_def Let_def

text \<open>What is saved was validated and trimmed: an invariant of the draft and of the requests.\<close>

definition wallet_draft_ok :: "wallet_draft \<Rightarrow> bool" where
  "wallet_draft_ok d \<longleftrightarrow> (dr_network d = lit ''tron'' \<and> tron_address (dr_address d) \<or>
     dr_network d = lit ''bsc'' \<and> bsc_address (dr_address d))"

fun request_ok :: "wallet_request \<Rightarrow> bool" where
  "request_ok (Req_add d) = wallet_draft_ok d"
| "request_ok _ = True"

definition wallets_inv :: "wallets_page \<Rightarrow> bool" where
  "wallets_inv p \<longleftrightarrow> (case wp_draft p of None \<Rightarrow> True | Some d \<Rightarrow> wallet_draft_ok d) \<and> list_all request_ok (wp_requests p)"

lemma wallets_inv_new: "wallets_inv new_wallets"
  by (simp add: wallets_inv_def new_wallets_def)

lemma form_draft_ok:
  "network \<in> {lit ''tron'', lit ''bsc''} \<Longrightarrow> wallet_address_ok network (js_trim a) \<Longrightarrow>
     wallet_draft_ok \<lparr>dr_network = network, dr_address = js_trim a, dr_label = l, dr_is_default = b\<rparr>"
  by (auto simp: wallet_draft_ok_def wallet_address_ok_def Let_def split: if_splits)

lemma wallets_inv_do: "wallets_inv p \<Longrightarrow> wallets_inv (wallets_do t e p)"
proof (cases e)
  case (Wp_form n a l c)
  assume "wallets_inv p"
  then show ?thesis
    using form_draft_ok [of n a]
    by (simp add: Wp_form wallets_inv_def onFormSubmit_def Let_def)
next
  case (Wp_answered i a)
  assume "wallets_inv p"
  then show ?thesis
    by (simp add: Wp_answered wallets_inv_def wallet_answered_def wallet_finally_def Let_def
        split: answer.split wallet_wait.split)
next
  case (Wp_reloaded i a)
  assume "wallets_inv p"
  then show ?thesis
    by (simp add: Wp_reloaded wallets_inv_def wallet_reloaded_def wallet_finally_def Let_def
        split: answer.split wallet_wait.split)
qed (auto simp: wallets_inv_def confirmSave_def setDefault_def archive_def split: answer.splits option.splits)

interpretation wallet_list: event_machine "wallets_do t" wallets_inv "\<lambda>_. True"
  by unfold_locales (rule wallets_inv_do)

text \<open>The first wallet of a network is its default, ticked or not; and while the list is not
  there, every wallet is, without the box being shown.\<close>

lemma first_wallet_default:
  "wallet_address_ok n (js_trim a) \<Longrightarrow>
   filter (\<lambda>w. wl_network w = n \<and> wl_is_active w) (wp_wallets p) = [] \<Longrightarrow>
     wp_draft (onFormSubmit t n a l c p) =
       Some \<lparr>dr_network = n, dr_address = js_trim a, dr_label = js_trim l, dr_is_default = True\<rparr>"
  by (simp add: onFormSubmit_def Let_def)

text \<open>A saved wallet whose list cannot be loaded again leaves the form with an error, as an unsaved
  one does.\<close>

lemma saved_but_error:
  assumes "wp_draft p = Some d" "\<not> wp_loading p" "wp_waits p = []"
  shows "let q = fold (wallets_do t) [Wp_save, Wp_answered 0 (Answered ()), Wp_reloaded 0 (Threw m)] p
    in wp_requests q = wp_requests p @ [Req_add d] \<and> wp_draft q = None \<and> wp_error q = m \<and>
       wp_toasts q = wp_toasts p"
  using assms by (simp add: wallet_steps)

text \<open>The dialog's button is not disabled while its request is out.\<close>

lemma archive_twice:
  assumes "wp_archiveId p = Some wid" "wid \<noteq> []"
  shows "wp_requests (fold (wallets_do t) [Wp_archive, Wp_archive] p) =
    wp_requests p @ [Req_archive wid, Req_archive wid]"
  using assms by (simp add: archive_def)

text \<open>When the first of two handlers ends, the page no longer loads although a request is out.\<close>

lemma idle_while_archiving:
  assumes "wp_archiveId p = Some wid" "wid \<noteq> []" "wp_waits p = []"
  shows "let q = fold (wallets_do t) [Wp_archive, Wp_archive, Wp_answered 0 (Threw m)] p
    in \<not> wp_loading q \<and> wp_waits q = [Wait_archived]"
  using assms by (simp add: wallet_steps drop_wait_def)

subsection \<open>The onboarding page\<close>

definition TOTAL :: nat where
  "TOTAL = 2"

definition onboarding_address_ok :: "ustr \<Rightarrow> ustr \<Rightarrow> bool" where
  "onboarding_address_ok network address =
     (let trimmed = js_trim address
      in if network = lit ''tron'' then tron_address trimmed
         else if network = lit ''bsc'' then bsc_address trimmed
         else False)"

record onboarding_data =
  od_completed :: bool
  od_wallet_count :: nat
  od_bsc_enabled :: bool
  od_display_name :: ustr
  od_slug :: ustr

datatype onboarding_request =
    Req_suggest ustr
  | Req_check ustr
  | Req_merchant ustr ustr
  | Req_wallet ustr ustr ustr
  | Req_complete

text \<open>The suspended handlers: \<open>onNext\<close> at its four awaits, with the name and the slug of the
  rendering it was started in, \<open>addWallet\<close> at its two, and those of the two \<open>onBlur\<close>.\<close>

datatype onboarding_wait =
    Next_suggest ustr ustr
  | Next_save
  | Next_load
  | Next_complete
  | Wallet_added
  | Wallet_load
  | Blur_suggest
  | Blur_check

record onboarding_page =
  on_step :: nat
  on_data :: "onboarding_data option"
  on_error :: ustr
  on_loading :: bool
  on_slugStatus :: ustr
  on_displayName :: ustr
  on_slug :: ustr
  on_walletNetwork :: ustr
  on_walletAddress :: ustr
  on_waits :: "onboarding_wait list"
  on_requests :: "onboarding_request list"
  on_route :: "ustr option"

text \<open>The part of \<open>load\<close> after its request.\<close>

definition onboarding_loaded :: "onboarding_data \<Rightarrow> onboarding_page \<Rightarrow> onboarding_page" where
  "onboarding_loaded d p =
     (let p1 = p\<lparr>on_data := Some d, on_displayName := od_display_name d, on_slug := od_slug d\<rparr>
      in if od_completed d then p1\<lparr>on_route := Some (lit ''/app'')\<rparr> else p1)"

record slug_check =
  sc_available :: bool
  sc_reason :: ustr
  sc_suggestion :: ustr
  sc_slug :: ustr

definition slug_blur :: "onboarding_page \<Rightarrow> onboarding_page" where
  "slug_blur p =
     (if js_trim (on_slug p) = [] then p\<lparr>on_slugStatus := []\<rparr>
      else p\<lparr>on_requests := on_requests p @ [Req_check (on_slug p)], on_waits := on_waits p @ [Blur_check]\<rparr>)"

definition slug_checked :: "messages \<Rightarrow> slug_check answer \<Rightarrow> onboarding_page \<Rightarrow> onboarding_page" where
  "slug_checked t a p =
     (case a of
        Threw _ \<Rightarrow> p\<lparr>on_slugStatus := t ''onboarding.slugInvalid''\<rparr>
      | Answered r \<Rightarrow>
          if \<not> sc_available r then
            (let p1 = p\<lparr>on_slugStatus := (if sc_reason r = lit ''reserved'' then t ''onboarding.slugReserved''
                else t ''onboarding.slugTaken'')\<rparr>
             in if sc_suggestion r \<noteq> [] then p1\<lparr>on_slug := sc_suggestion r\<rparr> else p1)
          else p\<lparr>on_slug := sc_slug r, on_slugStatus := []\<rparr>)"

definition name_blur :: "onboarding_page \<Rightarrow> onboarding_page" where
  "name_blur p =
     (if js_trim (on_displayName p) = [] \<or> on_slug p \<noteq> [] then p
      else p\<lparr>on_requests := on_requests p @ [Req_suggest (or_text (on_displayName p) (lit ''store''))],
        on_waits := on_waits p @ [Blur_suggest]\<rparr>)"

definition slug_suggested :: "ustr \<Rightarrow> onboarding_page \<Rightarrow> onboarding_page" where
  "slug_suggested s p = p\<lparr>on_slug := s, on_slugStatus := []\<rparr>"

text \<open>\<open>saveBusiness\<close> with the name and the slug its rendering saw.\<close>

definition save_business :: "ustr \<Rightarrow> ustr \<Rightarrow> onboarding_page \<Rightarrow> onboarding_page" where
  "save_business name slug p =
     p\<lparr>on_requests := on_requests p @ [Req_merchant (js_trim name) (js_trim slug)],
       on_waits := on_waits p @ [Next_save]\<rparr>"

definition wallet_count :: "onboarding_page \<Rightarrow> nat" where
  "wallet_count p = (case on_data p of None \<Rightarrow> 0 | Some d \<Rightarrow> od_wallet_count d)"

definition onNext :: "messages \<Rightarrow> onboarding_page \<Rightarrow> onboarding_page" where
  "onNext t p =
     (let p1 = p\<lparr>on_error := [], on_loading := True\<rparr>
      in if on_step p = 0 then
           if js_trim (on_displayName p) = [] then p1\<lparr>on_error := t ''common.error'', on_loading := False\<rparr>
           else if js_trim (on_slug p) = [] then
             p1\<lparr>on_requests := on_requests p @ [Req_suggest (or_text (on_displayName p) (lit ''store''))],
               on_waits := on_waits p @ [Next_suggest (on_displayName p) (on_slug p)]\<rparr>
           else save_business (on_displayName p) (on_slug p) p1
         else if on_step p = 1 then
           if wallet_count p < 1 then p1\<lparr>on_error := t ''onboarding.walletsHint'', on_loading := False\<rparr>
           else p1\<lparr>on_requests := on_requests p @ [Req_complete], on_waits := on_waits p @ [Next_complete]\<rparr>
         else p1\<lparr>on_waits := on_waits p @ [Next_load]\<rparr>)"

definition add_wallet :: "messages \<Rightarrow> onboarding_page \<Rightarrow> onboarding_page" where
  "add_wallet t p =
     (let p1 = p\<lparr>on_error := []\<rparr>
      in if \<not> onboarding_address_ok (on_walletNetwork p) (on_walletAddress p) then
           p1\<lparr>on_error := t ''wallets.invalidAddress''\<rparr>
         else p1\<lparr>on_loading := True,
           on_requests := on_requests p @ [Req_wallet (on_walletNetwork p) (js_trim (on_walletAddress p))
             (if on_walletNetwork p = lit ''tron'' then t ''onboarding.tronLabel'' else t ''onboarding.bscLabel'')],
           on_waits := on_waits p @ [Wallet_added]\<rparr>)"

text \<open>An answer to the \<open>i\<close>-th suspended handler, in the form its await expects.\<close>

datatype onboarding_reply =
    R_failed ustr
  | R_slug ustr
  | R_check slug_check
  | R_done
  | R_data onboarding_data

definition onboarding_resume :: "messages \<Rightarrow> nat \<Rightarrow> onboarding_reply \<Rightarrow> onboarding_page \<Rightarrow> onboarding_page" where
  "onboarding_resume t i r p =
     (if i \<ge> length (on_waits p) then p
      else let w = on_waits p ! i; p1 = p\<lparr>on_waits := drop_wait i (on_waits p)\<rparr>
        in case r of
          R_failed m \<Rightarrow>
            (case w of
               Blur_check \<Rightarrow> slug_checked t (Threw m) p1
             | Blur_suggest \<Rightarrow> p1
             | _ \<Rightarrow> p1\<lparr>on_error := m, on_loading := False\<rparr>)
        | R_slug s \<Rightarrow>
            (case w of
               Next_suggest name slug \<Rightarrow> save_business name slug (slug_suggested s p1)
             | Blur_suggest \<Rightarrow> slug_suggested s p1
             | _ \<Rightarrow> p)
        | R_check c \<Rightarrow> (if w = Blur_check then slug_checked t (Answered c) p1 else p)
        | R_done \<Rightarrow>
            (case w of
               Next_save \<Rightarrow> p1\<lparr>on_waits := on_waits p1 @ [Next_load]\<rparr>
             | Next_complete \<Rightarrow> p1\<lparr>on_route := Some (lit ''/app/create''), on_loading := False\<rparr>
             | Wallet_added \<Rightarrow> p1\<lparr>on_walletAddress := [], on_waits := on_waits p1 @ [Wallet_load]\<rparr>
             | _ \<Rightarrow> p)
        | R_data d \<Rightarrow>
            (case w of
               Next_load \<Rightarrow>
                 (let p2 = onboarding_loaded d p1
                  in p2\<lparr>on_step := min (on_step p2 + 1) (TOTAL - 1), on_loading := False\<rparr>)
             | Wallet_load \<Rightarrow> (onboarding_loaded d p1)\<lparr>on_loading := False\<rparr>
             | _ \<Rightarrow> p))"

datatype onboarding_event =
    On_loaded "onboarding_data answer"
  | On_name ustr
  | On_name_blur
  | On_slug ustr
  | On_slug_blur
  | On_network ustr
  | On_address ustr
  | On_wallet
  | On_next
  | On_back
  | On_resume nat onboarding_reply

definition on_first :: "onboarding_page \<Rightarrow> bool" where
  "on_first p \<longleftrightarrow> on_data p \<noteq> None \<and> on_step p = 0"

definition wallet_form :: "onboarding_page \<Rightarrow> bool" where
  "wallet_form p \<longleftrightarrow> on_data p \<noteq> None \<and> on_step p = 1 \<and> wallet_count p = 0"

fun onboarding_do :: "runtime \<Rightarrow> messages \<Rightarrow> onboarding_event \<Rightarrow> onboarding_page \<Rightarrow> onboarding_page" where
  "onboarding_do rt t (On_loaded a) p =
     (case a of Answered d \<Rightarrow> onboarding_loaded d p | Threw m \<Rightarrow> p\<lparr>on_error := m\<rparr>)"
| "onboarding_do rt t (On_name s) p = (if on_first p then p\<lparr>on_displayName := s\<rparr> else p)"
| "onboarding_do rt t On_name_blur p = (if on_first p then name_blur p else p)"
| "onboarding_do rt t (On_slug s) p = (if on_first p then p\<lparr>on_slug := js_lower rt s\<rparr> else p)"
| "onboarding_do rt t On_slug_blur p = (if on_first p then slug_blur p else p)"
| "onboarding_do rt t (On_network n) p = (if wallet_form p then p\<lparr>on_walletNetwork := n\<rparr> else p)"
| "onboarding_do rt t (On_address a) p = (if wallet_form p then p\<lparr>on_walletAddress := a\<rparr> else p)"
| "onboarding_do rt t On_wallet p =
     (if \<not> wallet_form p \<or> on_loading p then p else add_wallet t p)"
| "onboarding_do rt t On_next p = (if on_data p = None \<or> on_loading p then p else onNext t p)"
| "onboarding_do rt t On_back p = (if on_data p = None \<or> on_step p = 0 \<or> on_loading p then p else p\<lparr>on_step := on_step p - 1\<rparr>)"
| "onboarding_do rt t (On_resume i r) p = onboarding_resume t i r p"

lemmas onboarding_steps = onboarding_loaded_def slug_blur_def slug_checked_def name_blur_def
  slug_suggested_def save_business_def onNext_def add_wallet_def onboarding_resume_def Let_def

text \<open>The page is at one of its two steps, and the onboarding is only completed by a seller whose
  data shows a wallet.\<close>

lemma onboarding_step_do: "on_step p < TOTAL \<Longrightarrow> on_step (onboarding_do rt t e p) < TOTAL"
  by (cases e)
    (auto simp: onboarding_steps TOTAL_def split: answer.splits onboarding_reply.splits onboarding_wait.splits)

interpretation onboarding: event_machine "onboarding_do rt t" "\<lambda>p. on_step p < TOTAL" "\<lambda>_. True"
  by unfold_locales (rule onboarding_step_do)

text \<open>The suggested slug reaches the field but not the request of the handler that asked for it.\<close>

lemma suggested_slug_not_saved:
  assumes "on_data p \<noteq> None" "\<not> on_loading p" "on_step p = 0" "on_waits p = []"
    and "js_trim (on_displayName p) \<noteq> []" "js_trim (on_slug p) = []"
  shows "let q = fold (onboarding_do rt t) [On_next, On_resume 0 (R_slug s)] p
    in on_slug q = s \<and> last (on_requests q) = Req_merchant (js_trim (on_displayName p)) []"
proof -
  obtain d where d: "on_data p = Some d" using assms(1) by blast
  show ?thesis using assms(2-) by (simp add: d onboarding_steps drop_wait_def)
qed

end
