(* ===== verification/SellerLists.thy ===== *)
theory SellerLists
  imports Pages
begin

text \<open>
  The seller's lists and home page: app/orders/page.tsx, app/customers/page.tsx and app/page.tsx
  under apps/web/src/app/app, with components/ui/OrderListRow.tsx.

  A list is asked for 200 ms after what the box holds changed (\<open>armed\<close>: the timer of the effect is
  set), and on a server event. \<open>flight\<close> holds the requests that are out, oldest first, with the
  query each was sent for; \<open>shown\<close> is the query the list on the page answers, which the source does
  not keep.
\<close>

subsection \<open>A row\<close>

record order_row =
  or_id :: ustr
  or_slug :: ustr
  or_title :: ustr
  or_amountToman :: "nat option"
  or_payment_status :: ustr
  or_fulfillment_status :: ustr
  or_customer_name :: ustr

text \<open>\<open>amountToman.toLocaleString()\<close>: rendering throws (\<open>None\<close>) where the amount is absent.\<close>

definition amount_text :: "(nat \<Rightarrow> ustr) \<Rightarrow> ustr \<Rightarrow> nat option \<Rightarrow> ustr option" where
  "amount_text localeNumber toman amount =
     (case amount of None \<Rightarrow> None | Some n \<Rightarrow> Some (localeNumber n @ lit '' '' @ toman))"

definition looksLikeId :: "ustr \<Rightarrow> bool" where
  "looksLikeId label \<longleftrightarrow> length label \<ge> 6 \<and> list_all hex_unit label"

record row_view =
  rv_href :: ustr
  rv_title :: ustr
  rv_mono :: bool
  rv_amount :: ustr
  rv_meta :: ustr
  rv_status :: ustr

text \<open>\<open>labels\<close> is the catalogue of fulfillment labels.\<close>

definition order_row_view ::
  "(nat \<Rightarrow> ustr) \<Rightarrow> messages \<Rightarrow> (ustr \<Rightarrow> ustr option) \<Rightarrow> order_row \<Rightarrow> row_view option" where
  "order_row_view localeNumber t labels o_r =
     (let label = or_text (or_text (or_text (or_customer_name o_r) (or_title o_r)) (or_slug o_r)) [8212]
      in map_option (\<lambda>a. \<lparr>rv_href = lit ''/app/orders/'' @ or_id o_r, rv_title = label,
           rv_mono = looksLikeId label, rv_amount = a,
           rv_meta = (if or_fulfillment_status o_r \<noteq> [] \<and> or_fulfillment_status o_r \<noteq> lit ''UNFULFILLED''
             then fulfillmentLabel (Some (or_fulfillment_status o_r)) (t ''fulfillment.UNFULFILLED'') labels else []),
           rv_status = or_payment_status o_r\<rparr>)
         (amount_text localeNumber (t ''checkout.toman'') (or_amountToman o_r)))"

text \<open>A list is rendered row by row: one row that throws takes the page with it.\<close>

definition render_rows ::
  "(nat \<Rightarrow> ustr) \<Rightarrow> messages \<Rightarrow> (ustr \<Rightarrow> ustr option) \<Rightarrow> order_row list \<Rightarrow> row_view list option" where
  "render_rows localeNumber t labels rows =
     (let views = map (order_row_view localeNumber t labels) rows
      in if None \<in> set views then None else Some (map the views))"

lemma render_rows_throws:
  "render_rows l t labels rows = None \<longleftrightarrow> (\<exists>r\<in>set rows. or_amountToman r = None)"
  by (auto simp: render_rows_def order_row_view_def amount_text_def Let_def image_iff split: option.splits)

subsection \<open>The orders\<close>

type_synonym query = "(ustr \<times> ustr) list"

text \<open>The parameters a request is sent with, and its path; \<open>urlencode\<close> is
  \<open>URLSearchParams.toString\<close>.\<close>

definition orders_query :: "bool \<Rightarrow> ustr \<Rightarrow> query" where
  "orders_query attention q =
     (if attention then [(lit ''filter'', lit ''attention'')] else []) @
     (if js_trim q \<noteq> [] then [(lit ''q'', js_trim q)] else [])"

definition orders_path :: "(query \<Rightarrow> ustr) \<Rightarrow> query \<Rightarrow> ustr" where
  "orders_path urlencode params =
     (let qs = urlencode params in lit ''/api/v1/orders'' @ (if qs \<noteq> [] then [63] @ qs else []))"

record orders_page =
  ol_attention :: bool
  ol_q :: ustr
  ol_orders :: "order_row list"
  ol_loading :: bool
  ol_error :: ustr
  ol_armed :: bool
  ol_flight :: "(bool \<times> query) list"
  ol_shown :: "query option"

definition new_orders :: "bool \<Rightarrow> ustr \<Rightarrow> orders_page" where
  "new_orders attention q = \<lparr>ol_attention = attention, ol_q = q, ol_orders = [], ol_loading = True,
     ol_error = [], ol_armed = True, ol_flight = [], ol_shown = None\<rparr>"

definition orders_want :: "orders_page \<Rightarrow> query" where
  "orders_want p = orders_query (ol_attention p) (ol_q p)"

definition orders_type :: "ustr \<Rightarrow> orders_page \<Rightarrow> orders_page" where
  "orders_type s p = (if s = ol_q p then p else p\<lparr>ol_q := s, ol_armed := True\<rparr>)"

text \<open>\<open>setFilter\<close> replaces the route, and the new route's filter comes back from it.\<close>

definition setFilter :: "(query \<Rightarrow> ustr) \<Rightarrow> bool \<Rightarrow> orders_page \<Rightarrow> ustr" where
  "setFilter urlencode attention p =
     (let qs = urlencode (orders_query attention (ol_q p))
      in lit ''/app/orders'' @ (if qs \<noteq> [] then [63] @ qs else []))"

definition orders_route :: "bool \<Rightarrow> orders_page \<Rightarrow> orders_page" where
  "orders_route attention p = (if attention = ol_attention p then p else p\<lparr>ol_attention := attention, ol_armed := True\<rparr>)"

definition orders_timer :: "orders_page \<Rightarrow> orders_page" where
  "orders_timer p = (if \<not> ol_armed p then p
     else p\<lparr>ol_armed := False, ol_loading := True, ol_flight := ol_flight p @ [(True, orders_want p)]\<rparr>)"

definition orders_server_event :: "orders_page \<Rightarrow> orders_page" where
  "orders_server_event p = p\<lparr>ol_flight := ol_flight p @ [(False, orders_want p)]\<rparr>"

text \<open>The request at a place of \<open>flight\<close> is answered: of the effect's, \<open>then\<close> or \<open>catch\<close>, and
  \<open>finally\<close>; of an event's, \<open>then\<close> alone.\<close>

definition orders_answer :: "nat \<Rightarrow> order_row list answer \<Rightarrow> orders_page \<Rightarrow> orders_page" where
  "orders_answer i a p =
     (if i \<ge> length (ol_flight p) then p
      else let (timed, sent) = ol_flight p ! i;
               p1 = p\<lparr>ol_flight := take i (ol_flight p) @ drop (i + 1) (ol_flight p)\<rparr>;
               p2 = (case a of
                   Answered os \<Rightarrow>
                     (let p3 = p1\<lparr>ol_orders := os, ol_shown := Some sent\<rparr>
                      in if timed then p3\<lparr>ol_error := []\<rparr> else p3)
                 | Threw m \<Rightarrow> if timed then p1\<lparr>ol_error := m\<rparr> else p1)
           in if timed then p2\<lparr>ol_loading := False\<rparr> else p2)"

definition showSearch :: "orders_page \<Rightarrow> bool" where
  "showSearch p \<longleftrightarrow> \<not> ol_loading p \<and> length (ol_orders p) \<ge> 5 \<or> js_trim (ol_q p) \<noteq> []"

definition showFilters :: "orders_page \<Rightarrow> bool" where
  "showFilters p \<longleftrightarrow> ol_attention p \<or>
     \<not> ol_loading p \<and> (\<exists>o_r\<in>set (ol_orders p). or_payment_status o_r \<noteq> lit ''AWAITING_PAYMENT'' \<and>
       or_payment_status o_r \<noteq> lit ''CREATED'')"

datatype orders_event =
    Ol_type ustr
  | Ol_route bool
  | Ol_timer
  | Ol_event
  | Ol_answer nat "order_row list answer"

fun orders_do :: "orders_event \<Rightarrow> orders_page \<Rightarrow> orders_page" where
  "orders_do (Ol_type s) p = orders_type s p"
| "orders_do (Ol_route b) p = orders_route b p"
| "orders_do Ol_timer p = orders_timer p"
| "orders_do Ol_event p = orders_server_event p"
| "orders_do (Ol_answer i a) p = orders_answer i a p"

text \<open>No failure, and the answers come in the order of the requests.\<close>

fun orders_orderly :: "orders_event \<Rightarrow> bool" where
  "orders_orderly (Ol_answer i (Answered os)) \<longleftrightarrow> i = 0"
| "orders_orderly (Ol_answer i (Threw m)) \<longleftrightarrow> False"
| "orders_orderly e \<longleftrightarrow> True"

interpretation orders: search_machine orders_do orders_want ol_armed "\<lambda>p. map snd (ol_flight p)" ol_shown
    orders_orderly "\<lambda>_. True"
proof
  fix p e
  assume e: "orders_orderly e"
  show "ol_armed (orders_do e p) \<or>
      (orders_want (orders_do e p) = orders_want p \<and>
       (map snd (ol_flight (orders_do e p)) = map snd (ol_flight p) @ [orders_want p] \<or>
        ol_armed (orders_do e p) = ol_armed p \<and>
         (map snd (ol_flight (orders_do e p)) = map snd (ol_flight p) \<and> ol_shown (orders_do e p) = ol_shown p \<or>
          map snd (ol_flight p) \<noteq> [] \<and> map snd (ol_flight (orders_do e p)) = tl (map snd (ol_flight p)) \<and>
          ol_shown (orders_do e p) = Some (hd (map snd (ol_flight p))))))"
  proof (cases e)
    case (Ol_answer i a)
    with e obtain os where a: "i = 0" "a = Answered os" by (cases a) simp_all
    show ?thesis
      by (cases "ol_flight p")
        (simp_all add: Ol_answer a orders_answer_def orders_want_def Let_def split: prod.split)
  qed (simp_all add: orders_type_def orders_route_def orders_timer_def orders_server_event_def orders_want_def)
qed simp

lemma new_orders_settles: "orders.settles (new_orders attention q)"
  by (simp add: orders.settles_def new_orders_def)

subsection \<open>The customers\<close>

record customer_row =
  cu_id :: ustr
  cu_full_name :: ustr
  cu_phone :: ustr
  cu_email :: ustr
  cu_order_count :: nat
  cu_lifetime_paid :: nat
  cu_last_order_at :: ustr

text \<open>\<open>parse_date\<close> is \<open>new Date(s).getTime()\<close>, \<open>None\<close> for a date that is not valid.\<close>

definition relativeDay :: "(ustr \<Rightarrow> int option) \<Rightarrow> int \<Rightarrow> messages \<Rightarrow> (ustr \<Rightarrow> ustr) \<Rightarrow> ustr \<Rightarrow> ustr" where
  "relativeDay parse_date now t daysAgo stamp =
     (if stamp = [] then [8212]
      else case parse_date stamp of
        None \<Rightarrow> daysAgo (lit ''NaN'')
      | Some at \<Rightarrow>
          (let days = (now - at) div 86400000
           in if days \<le> 0 then t ''customers.today''
              else if days = 1 then t ''customers.yesterday''
              else daysAgo (dec_int days)))"

record customers_page =
  cp_q :: ustr
  cp_items :: "customer_row list option"
  cp_error :: ustr
  cp_armed :: bool
  cp_flight :: "ustr list"
  cp_shown :: "ustr option"

definition new_customers :: customers_page where
  "new_customers = \<lparr>cp_q = [], cp_items = None, cp_error = [], cp_armed = True, cp_flight = [], cp_shown = None\<rparr>"

definition customers_path :: "ustr \<Rightarrow> ustr option" where
  "customers_path q =
     (if js_trim q \<noteq> [] then map_option (\<lambda>e. lit ''/api/v1/customers?q='' @ e) (encodeURIComponent (js_trim q))
      else Some (lit ''/api/v1/customers''))"

text \<open>The timer's callback throws where the text cannot be encoded: nothing is asked.\<close>

definition customers_timer :: "customers_page \<Rightarrow> customers_page" where
  "customers_timer p =
     (if \<not> cp_armed p then p
      else case customers_path (cp_q p) of
        None \<Rightarrow> p\<lparr>cp_armed := False\<rparr>
      | Some path \<Rightarrow> p\<lparr>cp_armed := False, cp_flight := cp_flight p @ [path]\<rparr>)"

definition customers_answer :: "nat \<Rightarrow> customer_row list answer \<Rightarrow> customers_page \<Rightarrow> customers_page" where
  "customers_answer i a p =
     (if i \<ge> length (cp_flight p) then p
      else let p1 = p\<lparr>cp_flight := take i (cp_flight p) @ drop (i + 1) (cp_flight p)\<rparr>
        in case a of
             Answered cs \<Rightarrow> p1\<lparr>cp_items := Some cs, cp_error := [], cp_shown := Some (cp_flight p ! i)\<rparr>
           | Threw m \<Rightarrow> p1\<lparr>cp_error := m\<rparr>)"

datatype customers_event =
    Cp_type ustr
  | Cp_timer
  | Cp_answer nat "customer_row list answer"

fun customers_do :: "customers_event \<Rightarrow> customers_page \<Rightarrow> customers_page" where
  "customers_do (Cp_type s) p = (if s = cp_q p then p else p\<lparr>cp_q := s, cp_armed := True\<rparr>)"
| "customers_do Cp_timer p = customers_timer p"
| "customers_do (Cp_answer i a) p = customers_answer i a p"

fun customers_orderly :: "customers_event \<Rightarrow> bool" where
  "customers_orderly (Cp_type s) \<longleftrightarrow> customers_path s \<noteq> None"
| "customers_orderly Cp_timer \<longleftrightarrow> True"
| "customers_orderly (Cp_answer i (Answered cs)) \<longleftrightarrow> i = 0"
| "customers_orderly (Cp_answer i (Threw m)) \<longleftrightarrow> False"

interpretation customers: search_machine customers_do "\<lambda>p. the (customers_path (cp_q p))" cp_armed cp_flight
    cp_shown customers_orderly "\<lambda>p. customers_path (cp_q p) \<noteq> None"
proof
  fix p :: customers_page and e
  assume q: "customers_path (cp_q p) \<noteq> None" and e: "customers_orderly e"
  show "customers_path (cp_q (customers_do e p)) \<noteq> None"
    using q e
    by (cases e) (auto simp: customers_timer_def customers_answer_def Let_def split: option.split answer.split)
  show "cp_armed (customers_do e p) \<or>
      (the (customers_path (cp_q (customers_do e p))) = the (customers_path (cp_q p)) \<and>
       (cp_flight (customers_do e p) = cp_flight p @ [the (customers_path (cp_q p))] \<or>
        cp_armed (customers_do e p) = cp_armed p \<and>
         (cp_flight (customers_do e p) = cp_flight p \<and> cp_shown (customers_do e p) = cp_shown p \<or>
          cp_flight p \<noteq> [] \<and> cp_flight (customers_do e p) = tl (cp_flight p) \<and>
          cp_shown (customers_do e p) = Some (hd (cp_flight p)))))"
  proof (cases e)
    case (Cp_answer i a)
    with e obtain cs where a: "i = 0" "a = Answered cs" by (cases a) simp_all
    show ?thesis by (cases "cp_flight p") (simp_all add: Cp_answer a customers_answer_def Let_def)
  qed (use q in \<open>auto simp: customers_timer_def\<close>)
qed

lemma new_customers_settles: "customers.settles new_customers"
proof -
  have "customers_path (cp_q new_customers) \<noteq> None" "cp_armed new_customers"
    by (simp_all add: new_customers_def customers_path_def)
  then show ?thesis unfolding customers.settles_def by blast
qed

subsection \<open>The home page\<close>

text \<open>The rows of the home page; an absent text is empty.\<close>

record attention_item =
  ai_id :: ustr
  ai_title :: ustr
  ai_amountToman :: nat
  ai_payment_status :: ustr
  ai_reason :: ustr

record home_order =
  ho_id :: ustr
  ho_slug :: ustr
  ho_title :: ustr
  ho_amountToman :: nat
  ho_status :: ustr
  ho_payment_status :: ustr
  ho_fulfillment_status :: ustr
  ho_customer_name :: ustr

record standing_link =
  sl_slug :: ustr
  sl_title :: ustr
  sl_url :: ustr

record home_data =
  hd_paid_orders :: nat
  hd_toman_volume :: nat
  hd_usdt_received :: ustr
  hd_pending :: nat
  hd_needs_attention :: nat
  hd_attention_items :: "attention_item list"
  hd_recent :: "home_order list"
  hd_payment_link :: "standing_link option"

datatype home_wait = Home_me | Home_first_load | Home_event_load

record home_page =
  hm_mounted :: bool
  hm_gate :: bool
  hm_data :: "home_data option"
  hm_error :: ustr
  hm_name :: ustr
  hm_source_open :: bool
  hm_sources :: nat
  hm_waits :: "home_wait list"
  hm_route :: "ustr option"

definition new_home :: home_page where
  "new_home = \<lparr>hm_mounted = True, hm_gate = True, hm_data = None, hm_error = [], hm_name = [],
     hm_source_open = False, hm_sources = 0, hm_waits = [Home_me], hm_route = None\<rparr>"

text \<open>The effect of the page at its first await; \<open>cancelled\<close> is that the page is no longer mounted.\<close>

definition home_me :: "(bool \<times> ustr) answer \<Rightarrow> home_page \<Rightarrow> home_page" where
  "home_me a p =
     (if \<not> hm_mounted p then p
      else case a of
        Answered (completed, name) \<Rightarrow>
          if \<not> completed then p\<lparr>hm_route := Some (lit ''/app/onboarding'')\<rparr>
          else p\<lparr>hm_name := name, hm_gate := False, hm_waits := hm_waits p @ [Home_first_load]\<rparr>
      | Threw m \<Rightarrow> p\<lparr>hm_gate := False, hm_error := m\<rparr>)"

text \<open>\<open>load\<close> catches its exceptions.\<close>

definition home_load :: "home_data answer \<Rightarrow> home_page \<Rightarrow> home_page" where
  "home_load a p =
     (case a of Answered d \<Rightarrow> p\<lparr>hm_data := Some d, hm_error := []\<rparr> | Threw m \<Rightarrow> p\<lparr>hm_error := m\<rparr>)"

definition home_first_load :: "home_data answer \<Rightarrow> home_page \<Rightarrow> home_page" where
  "home_first_load a p =
     (let p1 = home_load a p
      in if \<not> hm_mounted p1 then p1 else p1\<lparr>hm_source_open := True, hm_sources := hm_sources p1 + 1\<rparr>)"

datatype home_event =
    Hm_me "(bool \<times> ustr) answer"
  | Hm_first_load "home_data answer"
  | Hm_event_load "home_data answer"
  | Hm_server_event
  | Hm_unmount

definition home_resumes :: "home_wait \<Rightarrow> home_page \<Rightarrow> home_page" where
  "home_resumes w p = p\<lparr>hm_waits := remove1 w (hm_waits p)\<rparr>"

fun home_do :: "home_event \<Rightarrow> home_page \<Rightarrow> home_page" where
  "home_do (Hm_me a) p = (if Home_me \<in> set (hm_waits p) then home_me a (home_resumes Home_me p) else p)"
| "home_do (Hm_first_load a) p =
     (if Home_first_load \<in> set (hm_waits p) then home_first_load a (home_resumes Home_first_load p) else p)"
| "home_do (Hm_event_load a) p =
     (if Home_event_load \<in> set (hm_waits p) then home_load a (home_resumes Home_event_load p) else p)"
| "home_do Hm_server_event p =
     (if hm_source_open p then p\<lparr>hm_waits := hm_waits p @ [Home_event_load]\<rparr> else p)"
| "home_do Hm_unmount p = p\<lparr>hm_mounted := False, hm_source_open := False\<rparr>"

text \<open>What is rendered.\<close>

datatype home_view =
    Home_skeleton
  | Home_error ustr
  | Home_body "home_data option"

definition home_view_of :: "home_page \<Rightarrow> home_view" where
  "home_view_of p =
     (if hm_gate p then Home_skeleton
      else if hm_error p \<noteq> [] \<and> hm_data p = None then Home_error (hm_error p)
      else Home_body (hm_data p))"

text \<open>An event source is open only while the page is there, and at most one was ever opened.\<close>

definition home_inv :: "home_page \<Rightarrow> bool" where
  "home_inv p \<longleftrightarrow> (hm_source_open p \<longrightarrow> hm_mounted p) \<and>
     count_list (hm_waits p) Home_me + count_list (hm_waits p) Home_first_load + hm_sources p \<le> 1"

lemma home_inv_new: "home_inv new_home"
  by (simp add: home_inv_def new_home_def)

lemma count_remove1:
  "w \<in> set ws \<Longrightarrow> count_list ws w = Suc (count_list (remove1 w ws) w)"
  "v \<noteq> w \<Longrightarrow> count_list (remove1 w ws) v = count_list ws v"
  by (induction ws) auto

lemma home_inv_do: "home_inv p \<Longrightarrow> home_inv (home_do e p)"
proof (cases e)
  case (Hm_me a)
  assume "home_inv p"
  then show ?thesis
    using count_remove1(1) [of Home_me "hm_waits p"]
    by (auto simp: Hm_me home_inv_def home_me_def home_resumes_def count_remove1(2)
        split: answer.split prod.split)
next
  case (Hm_first_load a)
  assume "home_inv p"
  then show ?thesis
    using count_remove1(1) [of Home_first_load "hm_waits p"]
    by (auto simp: Hm_first_load home_inv_def home_first_load_def home_load_def home_resumes_def Let_def
        count_remove1(2) split: answer.split)
qed (auto simp: home_inv_def home_load_def home_resumes_def count_remove1(2) split: answer.split)

interpretation home: event_machine home_do home_inv "\<lambda>_. True"
  by unfold_locales (rule home_inv_do)

end
