(* ===== verification/OrderPage.thy ===== *)
theory OrderPage
  imports SellerLists
begin

text \<open>
  The seller's page of an order, app/orders/[id]/page.tsx, and of a customer,
  app/customers/[id]/page.tsx, under apps/web/src/app/app.

  The page of an order saves a fulfillment, asks for a suggestion and loads itself again at the same
  time: \<open>od_saving\<close>, \<open>od_suggesting\<close> and \<open>od_loads\<close> are what is suspended of the three.
  \<open>od_requests\<close> logs each change of the fulfillment with the status of payment the page showed.
\<close>

subsection \<open>The page of an order\<close>

record order_option =
  oo_network :: ustr
  oo_pay_usdt_amount :: ustr

record order_intent =
  oi_id :: ustr
  oi_status :: ustr
  oi_options :: "order_option list"
  oi_tx_hash :: "ustr option"

record order =
  od_id :: ustr
  od_slug :: ustr
  od_title :: ustr
  od_amountToman :: "nat option"
  od_status :: ustr
  od_fulfillment :: ustr
  od_shipping_provider :: ustr
  od_tracking_number :: ustr
  od_checkout_url :: ustr
  od_intent :: "order_intent option"
  od_field_values :: "(ustr \<times> ustr) list"

datatype fulfil_request = Req_fulfil ustr ustr ustr "(ustr \<times> ustr) option"

datatype suggest_wait =
    Wait_suggestion
  | Wait_view ustr bool

record order_page =
  od_order :: "order option"
  od_shipOpen :: bool
  od_carrier :: ustr
  od_tracking :: ustr
  od_saving :: "unit option"
  od_busy :: bool
  od_pending :: "proposal_view list"
  od_active :: "proposal_view option"
  od_sheetOpen :: bool
  od_suggestBusy :: bool
  od_suggesting :: "suggest_wait option"
  od_loads :: nat
  od_url_proposal :: "ustr option"
  od_requests :: "fulfil_request list"
  od_toasts :: "ustr list"

definition new_order_page :: "ustr option \<Rightarrow> order_page" where
  "new_order_page url_proposal = \<lparr>od_order = None, od_shipOpen = False, od_carrier = lit ''Iran Post'',
     od_tracking = [], od_saving = None, od_busy = False, od_pending = [], od_active = None,
     od_sheetOpen = False, od_suggestBusy = False, od_suggesting = None, od_loads = 1,
     od_url_proposal = url_proposal, od_requests = [], od_toasts = []\<rparr>"

text \<open>\<open>intent?.status || order?.status\<close>.\<close>

definition displayStatus :: "order \<Rightarrow> ustr" where
  "displayStatus d = (case od_intent d of None \<Rightarrow> od_status d | Some i \<Rightarrow> or_text (oi_status i) (od_status d))"

definition order_paid :: "order \<Rightarrow> bool" where
  "order_paid d \<longleftrightarrow> canFulfill (Some (displayStatus d))"

definition order_loaded :: "order \<Rightarrow> order_page \<Rightarrow> order_page" where
  "order_loaded d p = p\<lparr>od_order := Some d\<rparr>"

text \<open>\<open>loadProposals\<close>, once the pending proposals are there.\<close>

definition find_proposal :: "ustr \<Rightarrow> proposal_view list \<Rightarrow> proposal_view option" where
  "find_proposal i ps = find (\<lambda>v. pv_id v = i) ps"

definition proposals_loaded :: "bool \<Rightarrow> proposal_view list \<Rightarrow> order_page \<Rightarrow> order_page" where
  "proposals_loaded gatewayConfigured pending p =
     (if \<not> gatewayConfigured then p\<lparr>od_pending := []\<rparr>
      else let p1 = p\<lparr>od_pending := pending\<rparr>
        in case od_url_proposal p of None \<Rightarrow> p1
           | Some i \<Rightarrow>
               if i = [] then p1
               else (case find_proposal i pending of
                   Some v \<Rightarrow> p1\<lparr>od_active := Some v, od_sheetOpen := True\<rparr>
                 | None \<Rightarrow> (case pending of [] \<Rightarrow> p1
                     | v # _ \<Rightarrow> p1\<lparr>od_active := Some v, od_sheetOpen := True\<rparr>)))"

definition setFulfillment :: "ustr \<Rightarrow> (ustr \<times> ustr) option \<Rightarrow> order_page \<Rightarrow> order_page" where
  "setFulfillment nxt extra p =
     (case od_order p of None \<Rightarrow> p
      | Some d \<Rightarrow> p\<lparr>od_busy := True, od_saving := Some (),
          od_requests := od_requests p @ [Req_fulfil (od_id d) (displayStatus d) nxt extra]\<rparr>)"

definition fulfillment_saved :: "messages \<Rightarrow> order answer \<Rightarrow> order_page \<Rightarrow> order_page" where
  "fulfillment_saved t a p =
     (let p1 = p\<lparr>od_busy := False, od_saving := None\<rparr>
      in case a of
           Answered d \<Rightarrow> p1\<lparr>od_order := Some d, od_shipOpen := False, od_toasts := od_toasts p @ [t ''common.saved'']\<rparr>
         | Threw m \<Rightarrow> p1\<lparr>od_toasts := od_toasts p @ [m]\<rparr>)"

definition confirmShip :: "order_page \<Rightarrow> order_page" where
  "confirmShip p = setFulfillment (lit ''SHIPPED'') (Some (js_trim (od_carrier p), js_trim (od_tracking p))) p"

definition suggestFollowUp :: "order_page \<Rightarrow> order_page" where
  "suggestFollowUp p =
     (case od_order p of None \<Rightarrow> p
      | Some d \<Rightarrow> if od_id d = [] \<or> od_suggestBusy p then p
          else p\<lparr>od_suggestBusy := True, od_suggesting := Some Wait_suggestion\<rparr>)"

text \<open>The suggestion: the proposal's id and whether it came with a confirmation URL.\<close>

definition suggestion_answered :: "messages \<Rightarrow> (ustr \<times> bool) answer \<Rightarrow> order_page \<Rightarrow> order_page" where
  "suggestion_answered t a p =
     (case a of
        Answered (i, has_url) \<Rightarrow> p\<lparr>od_toasts := od_toasts p @ [t ''proposals.suggestClaudeReady''],
          od_suggesting := Some (Wait_view i has_url)\<rparr>
      | Threw _ \<Rightarrow> p\<lparr>od_toasts := od_toasts p @ [t ''proposals.suggestClaudeError''],
          od_suggestBusy := False, od_suggesting := None\<rparr>)"

definition suggestion_viewed ::
  "messages \<Rightarrow> ustr \<Rightarrow> bool \<Rightarrow> proposal_view answer \<Rightarrow> order_page \<Rightarrow> order_page" where
  "suggestion_viewed t i has_url a p =
     (let p1 = p\<lparr>od_suggestBusy := False, od_suggesting := None\<rparr>
      in case a of
           Answered v \<Rightarrow> p1\<lparr>od_pending := v # filter (\<lambda>w. pv_id w \<noteq> pv_id v) (od_pending p),
             od_active := Some v, od_sheetOpen := True,
             od_url_proposal := (if has_url then Some i else od_url_proposal p)\<rparr>
         | Threw _ \<Rightarrow> p1\<lparr>od_toasts := od_toasts p @ [t ''proposals.suggestClaudeError'']\<rparr>)"

text \<open>The section of the fulfillment: whether it is there, and which of its buttons.\<close>

definition fulfil_section :: "order \<Rightarrow> bool" where
  "fulfil_section d \<longleftrightarrow> order_paid d \<and> od_fulfillment d \<noteq> lit ''DELIVERED'' \<and> od_fulfillment d \<noteq> lit ''CANCELLED''"

datatype fulfil_button = Mark_processing | Mark_shipped | Mark_delivered

definition fulfil_buttons :: "order \<Rightarrow> bool \<Rightarrow> fulfil_button list" where
  "fulfil_buttons d shipOpen =
     (if \<not> fulfil_section d \<or> shipOpen then []
      else (if od_fulfillment d = lit ''UNFULFILLED'' then [Mark_processing] else []) @ [Mark_shipped] @
        (if od_fulfillment d = lit ''SHIPPED'' then [Mark_delivered] else []))"

text \<open>The heading and the amount; rendering throws where the amount is absent.\<close>

definition full_name :: "order \<Rightarrow> ustr" where
  "full_name d = (case map_of (od_field_values d) (lit ''full_name'') of None \<Rightarrow> [] | Some v \<Rightarrow> v)"

definition paid_heading :: "messages \<Rightarrow> order \<Rightarrow> ustr" where
  "paid_heading t d = (if js_trim (full_name d) \<noteq> [] then full_name d @ lit '' '' @ t ''orders.paidCheck''
     else t ''orders.paidCheck'')"

record order_screen =
  os_title :: ustr
  os_heading :: "ustr option"
  os_amount :: ustr
  os_share :: bool
  os_buttons :: "fulfil_button list"
  os_ship_form :: bool
  os_pending :: "ustr list"

text \<open>\<open>p.body.slice(0, 72)\<close> with an ellipsis.\<close>

definition row_excerpt :: "ustr \<Rightarrow> ustr" where
  "row_excerpt body = take 72 body @ (if length body > 72 then [8230] else [])"

definition order_screen_of ::
  "(nat \<Rightarrow> ustr) \<Rightarrow> messages \<Rightarrow> bool \<Rightarrow> order \<Rightarrow> order_page \<Rightarrow> order_screen option" where
  "order_screen_of localeNumber t gatewayConfigured d p =
     map_option (\<lambda>amount. \<lparr>os_title = or_text (od_title d) (t ''checkout.orderRef''),
         os_heading = (if displayStatus d = lit ''PAID'' then Some (paid_heading t d) else None),
         os_amount = amount, os_share = (displayStatus d \<noteq> lit ''PAID''),
         os_buttons = fulfil_buttons d (od_shipOpen p),
         os_ship_form = (fulfil_section d \<and> od_shipOpen p),
         os_pending = (if gatewayConfigured then map (\<lambda>v. row_excerpt (pv_body v)) (od_pending p) else [])\<rparr>)
       (amount_text localeNumber (t ''checkout.toman'') (od_amountToman d))"

datatype order_event =
    Od_load
  | Od_loaded "order answer"
  | Od_proposals bool "proposal_view list"
  | Od_fulfil fulfil_button
  | Od_carrier ustr
  | Od_tracking ustr
  | Od_ship
  | Od_ship_back
  | Od_saved "order answer"
  | Od_open proposal_view
  | Od_close
  | Od_suggest
  | Od_suggested "(ustr \<times> bool) answer"
  | Od_viewed "proposal_view answer"

text \<open>A button does something only where it is rendered and not disabled.\<close>

definition fulfil_press :: "fulfil_button \<Rightarrow> order_page \<Rightarrow> order_page" where
  "fulfil_press b p =
     (case od_order p of None \<Rightarrow> p
      | Some d \<Rightarrow>
          if od_busy p \<or> b \<notin> set (fulfil_buttons d (od_shipOpen p)) then p
          else (case b of
              Mark_processing \<Rightarrow> setFulfillment (lit ''PROCESSING'') None p
            | Mark_shipped \<Rightarrow> p\<lparr>od_shipOpen := True\<rparr>
            | Mark_delivered \<Rightarrow> setFulfillment (lit ''DELIVERED'') None p))"

definition ship_press :: "order_page \<Rightarrow> order_page" where
  "ship_press p =
     (case od_order p of None \<Rightarrow> p
      | Some d \<Rightarrow> if od_busy p \<or> \<not> (fulfil_section d \<and> od_shipOpen p) then p else confirmShip p)"

fun order_do :: "messages \<Rightarrow> order_event \<Rightarrow> order_page \<Rightarrow> order_page" where
  "order_do t Od_load p = p\<lparr>od_loads := od_loads p + 1\<rparr>"
| "order_do t (Od_loaded a) p =
     (if od_loads p = 0 then p
      else let p1 = p\<lparr>od_loads := od_loads p - 1\<rparr>
        in case a of Answered d \<Rightarrow> order_loaded d p1 | Threw _ \<Rightarrow> p1)"
| "order_do t (Od_proposals configured ps) p = proposals_loaded configured ps p"
| "order_do t (Od_fulfil b) p = fulfil_press b p"
| "order_do t (Od_carrier s) p = p\<lparr>od_carrier := s\<rparr>"
| "order_do t (Od_tracking s) p = p\<lparr>od_tracking := s\<rparr>"
| "order_do t Od_ship p = ship_press p"
| "order_do t Od_ship_back p = p\<lparr>od_shipOpen := False\<rparr>"
| "order_do t (Od_saved a) p = (if od_saving p = None then p else fulfillment_saved t a p)"
| "order_do t (Od_open v) p = p\<lparr>od_active := Some v, od_sheetOpen := True\<rparr>"
| "order_do t Od_close p = p\<lparr>od_sheetOpen := False\<rparr>"
| "order_do t Od_suggest p = suggestFollowUp p"
| "order_do t (Od_suggested a) p =
     (if od_suggesting p = Some Wait_suggestion then suggestion_answered t a p else p)"
| "order_do t (Od_viewed a) p =
     (case od_suggesting p of Some (Wait_view i has_url) \<Rightarrow> suggestion_viewed t i has_url a p | _ \<Rightarrow> p)"

lemmas order_steps = order_loaded_def proposals_loaded_def setFulfillment_def fulfillment_saved_def
  confirmShip_def suggestFollowUp_def suggestion_answered_def suggestion_viewed_def fulfil_press_def
  ship_press_def Let_def

interpretation saving: form_machine "order_do t" od_busy od_saving
proof
  fix p :: order_page and e
  assume "od_busy p \<longleftrightarrow> od_saving p \<noteq> None"
  then show "od_busy (order_do t e p) \<longleftrightarrow> od_saving (order_do t e p) \<noteq> None"
    by (cases e)
      (auto simp: order_steps split: option.splits answer.splits suggest_wait.splits fulfil_button.splits
        list.splits prod.splits)
qed

interpretation suggesting: form_machine "order_do t" od_suggestBusy od_suggesting
proof
  fix p :: order_page and e
  assume "od_suggestBusy p \<longleftrightarrow> od_suggesting p \<noteq> None"
  then show "od_suggestBusy (order_do t e p) \<longleftrightarrow> od_suggesting (order_do t e p) \<noteq> None"
    by (cases e)
      (auto simp: order_steps split: option.splits answer.splits suggest_wait.splits fulfil_button.splits
        list.splits prod.splits)
qed

text \<open>Nothing is shipped that is not paid: every change of the fulfillment is asked for while the
  page shows a status in which an order may be fulfilled.\<close>

fun fulfil_ok :: "fulfil_request \<Rightarrow> bool" where
  "fulfil_ok (Req_fulfil i status nxt extra) \<longleftrightarrow>
     canFulfill (Some status) \<and> nxt \<in> {lit ''PROCESSING'', lit ''SHIPPED'', lit ''DELIVERED''}"

lemma setFulfillment_ok:
  "od_order p = Some d \<Longrightarrow> fulfil_section d \<Longrightarrow>
     nxt \<in> {lit ''PROCESSING'', lit ''SHIPPED'', lit ''DELIVERED''} \<Longrightarrow> list_all fulfil_ok (od_requests p) \<Longrightarrow>
     list_all fulfil_ok (od_requests (setFulfillment nxt extra p))"
  by (simp add: setFulfillment_def fulfil_section_def order_paid_def)

lemma fulfil_requests_do:
  "list_all fulfil_ok (od_requests p) \<Longrightarrow> list_all fulfil_ok (od_requests (order_do t e p))"
proof (cases e)
  case (Od_fulfil b)
  assume "list_all fulfil_ok (od_requests p)"
  then show ?thesis
    by (auto simp: Od_fulfil fulfil_press_def fulfil_buttons_def intro!: setFulfillment_ok
        split: option.split fulfil_button.split if_splits)
next
  case Od_ship
  assume "list_all fulfil_ok (od_requests p)"
  then show ?thesis
    by (auto simp: Od_ship ship_press_def confirmShip_def intro!: setFulfillment_ok split: option.split)
qed (auto simp: order_loaded_def proposals_loaded_def fulfillment_saved_def suggestFollowUp_def
      suggestion_answered_def suggestion_viewed_def Let_def
      split: option.splits answer.splits suggest_wait.splits list.splits prod.splits)

interpretation fulfilling: event_machine "order_do t" "\<lambda>p. list_all fulfil_ok (od_requests p)" "\<lambda>_. True"
  by unfold_locales (rule fulfil_requests_do)

text \<open>An older load that is answered after a saved fulfillment brings the old order back.\<close>

lemma stale_load_undoes:
  assumes "od_loads p = Suc n" "od_saving p \<noteq> None"
  shows "od_order (fold (order_do t) [Od_saved (Answered new_one), Od_loaded (Answered old_one)] p) = Some old_one"
  using assms by (simp add: order_steps)

text \<open>While the address bar names a proposal that is no longer pending, loading opens the sheet of
  another one.\<close>

lemma resolved_opens_next:
  assumes "od_url_proposal p = Some i" "i \<noteq> []" "find_proposal i (v # vs) = None"
  shows "let q = order_do t (Od_proposals True (v # vs)) p in od_active q = Some v \<and> od_sheetOpen q"
  using assms by (simp add: proposals_loaded_def)

text \<open>A suggestion is listed once, first.\<close>

lemma suggestion_listed_once:
  assumes "distinct (map pv_id (od_pending p))" "od_suggesting p = Some (Wait_view i b)"
  shows "let q = order_do t (Od_viewed (Answered v)) p
    in distinct (map pv_id (od_pending q)) \<and> od_pending q \<noteq> [] \<and> hd (od_pending q) = v \<and>
       od_active q = Some v"
  using assms
  by (auto simp: suggestion_viewed_def Let_def distinct_map inj_on_def)

lemma order_screen_throws:
  "order_screen_of l t g d p = None \<longleftrightarrow> od_amountToman d = None"
  by (simp add: order_screen_of_def amount_text_def split: option.split)

subsection \<open>The page of a customer\<close>

record customer_note =
  cn_id :: ustr
  cn_body :: ustr

record customer_address =
  ca_id :: ustr
  ca_label :: ustr
  ca_address_line :: ustr
  ca_postal_code :: ustr
  ca_is_default :: bool

record customer_order =
  cr_id :: ustr
  cr_title :: ustr
  cr_slug :: ustr
  cr_amountToman :: nat
  cr_payment_status :: ustr
  cr_fulfillment_status :: ustr

text \<open>An absent list is empty.\<close>

record customer =
  cs_id :: ustr
  cs_full_name :: ustr
  cs_phone :: ustr
  cs_email :: ustr
  cs_order_count :: nat
  cs_paid_orders :: "nat option"
  cs_lifetime_paid :: nat
  cs_notes :: "customer_note list"
  cs_tags :: "ustr list"
  cs_addresses :: "customer_address list"
  cs_recent_orders :: "customer_order list"

datatype customer_request = Add_note ustr | Add_tag ustr | Remove_tag ustr

text \<open>\<open>cd_waits\<close> holds the changes that are out, \<open>cd_loads\<close> counts the loads that are.\<close>

record customer_page =
  cd_customer :: "customer option"
  cd_note :: ustr
  cd_tag :: ustr
  cd_requests :: "customer_request list"
  cd_waits :: "customer_request list"
  cd_loads :: nat

definition new_customer_page :: customer_page where
  "new_customer_page = \<lparr>cd_customer = None, cd_note = [], cd_tag = [], cd_requests = [], cd_waits = [], cd_loads = 1\<rparr>"

definition customer_ask :: "customer_request \<Rightarrow> customer_page \<Rightarrow> customer_page" where
  "customer_ask r p = p\<lparr>cd_requests := cd_requests p @ [r], cd_waits := cd_waits p @ [r]\<rparr>"

text \<open>\<open>addNote\<close>, \<open>addTag\<close> and the removal of a tag to their first await; nothing keeps a second
  submission back. The removal throws before it asks where the tag cannot be encoded.\<close>

definition addNote :: "customer_page \<Rightarrow> customer_page" where
  "addNote p = (if js_trim (cd_note p) = [] then p else customer_ask (Add_note (js_trim (cd_note p))) p)"

definition addTag :: "customer_page \<Rightarrow> customer_page" where
  "addTag p = (if js_trim (cd_tag p) = [] then p else customer_ask (Add_tag (js_trim (cd_tag p))) p)"

definition removeTag :: "ustr \<Rightarrow> customer_page \<Rightarrow> customer_page" where
  "removeTag tg p = (if encodeURIComponent tg = None then p else customer_ask (Remove_tag tg) p)"

text \<open>From the answer: the field is emptied, and the customer is loaded again. No failure is caught.\<close>

definition customer_changed :: "customer_request \<Rightarrow> unit answer \<Rightarrow> customer_page \<Rightarrow> customer_page" where
  "customer_changed r a p =
     (let p1 = p\<lparr>cd_waits := remove1 r (cd_waits p)\<rparr>
      in case a of
           Threw _ \<Rightarrow> p1
         | Answered _ \<Rightarrow>
             (case r of
                Add_note _ \<Rightarrow> p1\<lparr>cd_note := [], cd_loads := cd_loads p + 1\<rparr>
              | Add_tag _ \<Rightarrow> p1\<lparr>cd_tag := [], cd_loads := cd_loads p + 1\<rparr>
              | Remove_tag _ \<Rightarrow> p1\<lparr>cd_loads := cd_loads p + 1\<rparr>))"

definition customer_loaded :: "customer answer \<Rightarrow> customer_page \<Rightarrow> customer_page" where
  "customer_loaded a p =
     (let p1 = p\<lparr>cd_loads := cd_loads p - 1\<rparr>
      in case a of Answered c \<Rightarrow> p1\<lparr>cd_customer := Some c\<rparr> | Threw _ \<Rightarrow> p1)"

datatype customer_event =
    Cd_loaded "customer answer"
  | Cd_note ustr
  | Cd_tag ustr
  | Cd_add_note
  | Cd_add_tag
  | Cd_remove ustr
  | Cd_changed customer_request "unit answer"

text \<open>The page has controls once the customer is there.\<close>

fun customer_do :: "customer_event \<Rightarrow> customer_page \<Rightarrow> customer_page" where
  "customer_do (Cd_loaded a) p = (if cd_loads p = 0 then p else customer_loaded a p)"
| "customer_do (Cd_note s) p = (if cd_customer p = None then p else p\<lparr>cd_note := s\<rparr>)"
| "customer_do (Cd_tag s) p = (if cd_customer p = None then p else p\<lparr>cd_tag := s\<rparr>)"
| "customer_do Cd_add_note p = (if cd_customer p = None then p else addNote p)"
| "customer_do Cd_add_tag p = (if cd_customer p = None then p else addTag p)"
| "customer_do (Cd_remove tg) p =
     (case cd_customer p of None \<Rightarrow> p | Some c \<Rightarrow> if tg \<in> set (cs_tags c) then removeTag tg p else p)"
| "customer_do (Cd_changed r a) p = (if r \<in> set (cd_waits p) then customer_changed r a p else p)"

lemmas customer_steps = customer_ask_def addNote_def addTag_def removeTag_def customer_changed_def customer_loaded_def Let_def

text \<open>What is asked for is never blank, and a tag that is removed can be a part of a path.\<close>

fun customer_request_ok :: "customer_request \<Rightarrow> bool" where
  "customer_request_ok (Add_note s) \<longleftrightarrow> s \<noteq> [] \<and> js_trim s = s"
| "customer_request_ok (Add_tag s) \<longleftrightarrow> s \<noteq> [] \<and> js_trim s = s"
| "customer_request_ok (Remove_tag s) \<longleftrightarrow> encodeURIComponent s \<noteq> None"

lemma customer_requests_do:
  "list_all customer_request_ok (cd_requests p) \<Longrightarrow> list_all customer_request_ok (cd_requests (customer_do e p))"
  by (cases e) (auto simp: customer_steps split: option.split answer.split customer_request.split)

interpretation customer_change: event_machine customer_do "\<lambda>p. list_all customer_request_ok (cd_requests p)" "\<lambda>_. True"
  by unfold_locales (rule customer_requests_do)

text \<open>A change that fails leaves nothing on the page: what was typed is still there, as if nothing had
  been sent; and a customer who cannot be loaded is waited for without end.\<close>

lemma failed_note_is_silent:
  "let q = customer_do (Cd_changed r (Threw m)) p in cd_customer q = cd_customer p \<and> cd_note q = cd_note p \<and> cd_tag q = cd_tag p"
  by (simp add: customer_steps)

definition newOrderHref :: "ustr \<Rightarrow> ustr \<Rightarrow> ustr option" where
  "newOrderHref cid name =
     (case (encodeURIComponent cid, encodeURIComponent name) of
        (Some i, Some n) \<Rightarrow> Some (lit ''/app/create?customer_id='' @ i @ lit ''&customer_name='' @ n)
      | _ \<Rightarrow> None)"

text \<open>A note submitted twice before the answer is added twice.\<close>

lemma note_added_twice:
  "js_trim (cd_note p) \<noteq> [] \<Longrightarrow>
     cd_requests (addNote (addNote p)) = cd_requests p @ [Add_note (js_trim (cd_note p)), Add_note (js_trim (cd_note p))]"
  by (simp add: customer_steps)

end
