(* ===== verification/AuthPages.thy ===== *)
theory AuthPages
  imports Pages
begin

text \<open>
  Signing in and registering: login/page.tsx and register/page.tsx under apps/web/src/app.

  Both pages have a form for an e-mail address and, where the server offers it, one for a phone
  number in two steps. \<open>au_waits\<close> is the suspended handler, with what it captured; the
  fields stay editable while it waits. \<open>au_requests\<close> logs the requests, and \<open>au_sent_to\<close> the
  number the last code was sent to, which the source does not keep.
\<close>

datatype auth_mode = Mode_email | Mode_phone

datatype phone_step = Step_phone | Step_otp

datatype auth_wait =
    Wait_email
  | Wait_send ustr
  | Wait_verify ustr ustr ustr ustr
  | Wait_register

datatype auth_request =
    Req_email
  | Req_send ustr
  | Req_verify ustr ustr
  | Req_register ustr ustr ustr ustr

record auth_page =
  au_mode :: auth_mode
  au_step :: phone_step
  au_name :: ustr
  au_merchant :: ustr
  au_phone :: ustr
  au_otp :: ustr
  au_error :: ustr
  au_info :: ustr
  au_loading :: bool
  au_phoneEnabled :: bool
  au_waits :: "auth_wait option"
  au_requests :: "auth_request list"
  au_route :: "ustr option"
  au_sent_to :: "ustr option"

definition new_auth :: auth_page where
  "new_auth = \<lparr>au_mode = Mode_email, au_step = Step_phone, au_name = [], au_merchant = [], au_phone = [],
     au_otp = [], au_error = [], au_info = [], au_loading = False, au_phoneEnabled = False, au_waits = None,
     au_requests = [], au_route = None, au_sent_to = None\<rparr>"

subsection \<open>Handlers of both pages\<close>

text \<open>The effect on the query \<open>?error=google...\<close> of the sign-in page.\<close>

definition google_effect :: "messages \<Rightarrow> ustr option \<Rightarrow> auth_page \<Rightarrow> auth_page" where
  "google_effect t param p =
     (case param of None \<Rightarrow> p
      | Some e \<Rightarrow> if starts_with e (lit ''google'') then p\<lparr>au_error := t ''googleAuthError''\<rparr> else p)"

definition providers_effect :: "bool answer \<Rightarrow> auth_page \<Rightarrow> auth_page" where
  "providers_effect a p =
     (case a of
        Answered phone \<Rightarrow> (let p1 = p\<lparr>au_phoneEnabled := phone\<rparr> in if \<not> phone then p1\<lparr>au_mode := Mode_email\<rparr> else p1)
      | Threw _ \<Rightarrow> p\<lparr>au_phoneEnabled := False\<rparr>)"

definition mode_change :: "auth_mode \<Rightarrow> auth_page \<Rightarrow> auth_page" where
  "mode_change m p = p\<lparr>au_mode := m, au_step := Step_phone, au_error := [], au_info := []\<rparr>"

definition onEmailSubmit :: "auth_page \<Rightarrow> auth_page" where
  "onEmailSubmit p = p\<lparr>au_loading := True, au_error := [], au_requests := au_requests p @ [Req_email],
     au_waits := Some Wait_email\<rparr>"

text \<open>\<open>sendOtp\<close>, and \<open>sendPhoneOtp\<close> of the registration, which also asks for the two names.\<close>

definition sendOtp :: "messages \<Rightarrow> auth_page \<Rightarrow> auth_page" where
  "sendOtp t p =
     (let p1 = p\<lparr>au_error := [], au_info := []\<rparr>
      in case normalizeIranianPhone (au_phone p) of
           None \<Rightarrow> p1\<lparr>au_error := t ''auth.phoneInvalid''\<rparr>
         | Some n \<Rightarrow> p1\<lparr>au_loading := True, au_requests := au_requests p @ [Req_send n], au_waits := Some (Wait_send n)\<rparr>)"

definition sendPhoneOtp :: "messages \<Rightarrow> auth_page \<Rightarrow> auth_page" where
  "sendPhoneOtp t p =
     (let p1 = p\<lparr>au_error := [], au_info := []\<rparr>
      in case normalizeIranianPhone (au_phone p) of
           None \<Rightarrow> p1\<lparr>au_error := t ''auth.phoneInvalid''\<rparr>
         | Some n \<Rightarrow>
             if js_trim (au_name p) = [] \<or> js_trim (au_merchant p) = [] then p1\<lparr>au_error := t ''common.error''\<rparr>
             else p1\<lparr>au_loading := True, au_requests := au_requests p @ [Req_send n], au_waits := Some (Wait_send n)\<rparr>)"

definition verifyOtp :: "messages \<Rightarrow> auth_page \<Rightarrow> auth_page" where
  "verifyOtp t p =
     (let p1 = p\<lparr>au_error := []\<rparr>
      in case normalizeIranianPhone (au_phone p) of
           None \<Rightarrow> p1\<lparr>au_error := t ''auth.otpInvalid''\<rparr>
         | Some n \<Rightarrow>
             if js_trim (au_otp p) = [] then p1\<lparr>au_error := t ''auth.otpInvalid''\<rparr>
             else p1\<lparr>au_loading := True, au_requests := au_requests p @ [Req_verify n (js_trim (au_otp p))],
               au_waits := Some (Wait_verify n (js_trim (au_otp p)) (js_trim (au_name p)) (js_trim (au_merchant p)))\<rparr>)"

definition auth_finally :: "auth_page \<Rightarrow> auth_page" where
  "auth_finally p = p\<lparr>au_loading := False, au_waits := None\<rparr>"

text \<open>The rest of the suspended handler. The registration verifies the code and then, with the
  names of the rendering, registers; it goes to the onboarding, the sign-in to the home page.\<close>

definition auth_answered :: "messages \<Rightarrow> bool \<Rightarrow> unit answer \<Rightarrow> auth_page \<Rightarrow> auth_page" where
  "auth_answered t registering a p =
     (case au_waits p of None \<Rightarrow> p
      | Some w \<Rightarrow>
          (case a of
             Threw m \<Rightarrow> auth_finally (p\<lparr>au_error := m\<rparr>)
           | Answered _ \<Rightarrow>
               (let home = (if registering then lit ''/app/onboarding'' else lit ''/app'')
                in case w of
                     Wait_send n \<Rightarrow> auth_finally (p\<lparr>au_info := t ''auth.otpSent'', au_step := Step_otp, au_sent_to := Some n\<rparr>)
                   | Wait_verify n code name merchant \<Rightarrow>
                       if registering then p\<lparr>au_waits := Some Wait_register, au_requests := au_requests p @
                           [Req_register n code name merchant]\<rparr>
                       else auth_finally (p\<lparr>au_route := Some home\<rparr>)
                   | _ \<Rightarrow> auth_finally (p\<lparr>au_route := Some home\<rparr>))))"

subsection \<open>Events\<close>

datatype auth_event =
    Au_google "ustr option"
  | Au_providers "bool answer"
  | Au_mode auth_mode
  | Au_name ustr
  | Au_merchant ustr
  | Au_phone ustr
  | Au_otp ustr
  | Au_email_submit
  | Au_send
  | Au_verify
  | Au_answer "unit answer"

definition phone_form :: "auth_page \<Rightarrow> bool" where
  "phone_form p \<longleftrightarrow> au_mode p = Mode_phone \<and> au_step p = Step_phone"

definition otp_form :: "auth_page \<Rightarrow> bool" where
  "otp_form p \<longleftrightarrow> au_mode p = Mode_phone \<and> au_step p = Step_otp"

text \<open>A code is sent from the first step, whose button needs a valid number, and again from the
  second; the number's field is rendered in the first step only, the names with it where one
  registers.\<close>

fun auth_do :: "messages \<Rightarrow> bool \<Rightarrow> auth_event \<Rightarrow> auth_page \<Rightarrow> auth_page" where
  "auth_do t registering (Au_google param) p = (if registering then p else google_effect t param p)"
| "auth_do t registering (Au_providers a) p = providers_effect a p"
| "auth_do t registering (Au_mode m) p = (if au_phoneEnabled p then mode_change m p else p)"
| "auth_do t registering (Au_name s) p = (if registering \<and> phone_form p then p\<lparr>au_name := s\<rparr> else p)"
| "auth_do t registering (Au_merchant s) p = (if registering \<and> phone_form p then p\<lparr>au_merchant := s\<rparr> else p)"
| "auth_do t registering (Au_phone s) p = (if phone_form p then p\<lparr>au_phone := s\<rparr> else p)"
| "auth_do t registering (Au_otp s) p = (if otp_form p then p\<lparr>au_otp := s\<rparr> else p)"
| "auth_do t registering Au_email_submit p =
     (if au_mode p \<noteq> Mode_email \<or> au_loading p then p else onEmailSubmit p)"
| "auth_do t registering Au_send p =
     (if au_loading p \<or> \<not> (phone_form p \<and> isValidIranianPhone (au_phone p) \<or> otp_form p) then p
      else if registering then sendPhoneOtp t p else sendOtp t p)"
| "auth_do t registering Au_verify p = (if au_loading p \<or> \<not> otp_form p then p else verifyOtp t p)"
| "auth_do t registering (Au_answer a) p = auth_answered t registering a p"

lemmas auth_steps = google_effect_def providers_effect_def mode_change_def onEmailSubmit_def sendOtp_def sendPhoneOtp_def
  verifyOtp_def auth_finally_def auth_answered_def Let_def

interpretation signing: form_machine "auth_do t registering" au_loading au_waits
proof
  fix p :: auth_page and e
  assume "au_loading p \<longleftrightarrow> au_waits p \<noteq> None"
  then show "au_loading (auth_do t registering e p) \<longleftrightarrow> au_waits (auth_do t registering e p) \<noteq> None"
    by (cases e) (auto simp: auth_steps split: option.splits answer.splits auth_wait.splits)
qed

text \<open>Every number the server is asked about is in the normal form, whatever was typed.\<close>

fun auth_request_ok :: "auth_request \<Rightarrow> bool" where
  "auth_request_ok (Req_send n) \<longleftrightarrow> take 3 n = lit ''+98'' \<and> length n = 13"
| "auth_request_ok (Req_verify n c) \<longleftrightarrow> take 3 n = lit ''+98'' \<and> length n = 13 \<and> c \<noteq> []"
| "auth_request_ok (Req_register n c a b) \<longleftrightarrow> take 3 n = lit ''+98'' \<and> length n = 13 \<and> c \<noteq> []"
| "auth_request_ok Req_email \<longleftrightarrow> True"

lemma normal_phone: "normalizeIranianPhone s = Some n \<Longrightarrow> take 3 n = lit ''+98'' \<and> length n = 13"
  by (auto simp: normalizeIranianPhone_def Let_def lit_def split: if_splits)

definition auth_inv :: "auth_page \<Rightarrow> bool" where
  "auth_inv p \<longleftrightarrow> list_all auth_request_ok (au_requests p) \<and>
     (case au_waits p of Some (Wait_verify n c name merchant) \<Rightarrow> auth_request_ok (Req_verify n c) | _ \<Rightarrow> True)"

lemma auth_inv_do: "auth_inv p \<Longrightarrow> auth_inv (auth_do t registering e p)"
  by (cases e)
    (auto simp: auth_inv_def auth_steps dest: normal_phone
      split: option.splits answer.splits auth_wait.splits)

interpretation signing_in: event_machine "auth_do t registering" auth_inv "\<lambda>_. True"
  by unfold_locales (rule auth_inv_do)

text \<open>The number's field stays editable while the code is being sent: then the code is verified for
  another number than the one it was sent to.\<close>

lemma verified_for_another_number:
  assumes "normalizeIranianPhone a = Some m" "normalizeIranianPhone b = Some n" "js_trim c \<noteq> []"
    and "au_mode p = Mode_phone" "au_step p = Step_phone" "\<not> au_loading p"
  shows "let q = fold (auth_do t False)
        [Au_phone a, Au_send, Au_phone b, Au_answer (Answered ()), Au_otp c, Au_verify] p
    in au_sent_to q = Some m \<and> last (au_requests q) = Req_verify n (js_trim c)"
  using assms by (simp add: auth_steps phone_form_def otp_form_def isValidIranianPhone_def)

end
