(* ===== verification/SettingsPages.thy ===== *)
theory SettingsPages
  imports Pages
begin

text \<open>
  The seller's settings and the administrator's page: app/settings/notifications/page.tsx,
  app/settings/store/page.tsx and app/settings/page.tsx under apps/web/src/app/app, and
  apps/web/src/app/admin/page.tsx.

  Each of the three channels of the notification page has its own busy flag and suspended handler.
\<close>

subsection \<open>Notifications: Telegram\<close>

datatype telegram_wait = Wait_link | Wait_disconnect | Wait_test

record telegram_panel =
  tp_connected :: bool
  tp_username :: ustr
  tp_msg :: ustr
  tp_error :: ustr
  tp_busy :: bool
  tp_deepLink :: ustr
  tp_awaiting :: bool
  tp_waits :: "telegram_wait option"
  tp_focus_loads :: nat

definition applyTelegram :: "bool \<Rightarrow> ustr \<Rightarrow> telegram_panel \<Rightarrow> telegram_panel" where
  "applyTelegram connected username p = p\<lparr>tp_connected := connected, tp_username := username\<rparr>"

text \<open>\<open>connectTelegram\<close>: what its request gives is the URL, and \<open>opened\<close> is whether the browser
  opened a window.\<close>

definition connect_begin :: "telegram_panel \<Rightarrow> telegram_panel" where
  "connect_begin p = p\<lparr>tp_busy := True, tp_error := [], tp_msg := [], tp_deepLink := [], tp_waits := Some Wait_link\<rparr>"

definition connect_failed :: "ustr \<Rightarrow> telegram_panel \<Rightarrow> telegram_panel" where
  "connect_failed m p = p\<lparr>tp_error := m, tp_awaiting := False, tp_busy := False, tp_waits := None\<rparr>"

definition connect_answered :: "messages \<Rightarrow> bool \<Rightarrow> ustr \<Rightarrow> telegram_panel \<Rightarrow> telegram_panel" where
  "connect_answered t opened url p =
     (if url = [] then connect_failed (t ''common.error'') p
      else let p1 = p\<lparr>tp_deepLink := url, tp_awaiting := True, tp_busy := False, tp_waits := None\<rparr>
        in if \<not> window_open (lit ''noopener,noreferrer'') opened
           then p1\<lparr>tp_error := t ''settings.telegramOpenFailed''\<rparr>
           else p1\<lparr>tp_msg := t ''settings.telegramConnectWaiting''\<rparr>)"

definition disconnect_begin :: "telegram_panel \<Rightarrow> telegram_panel" where
  "disconnect_begin p = p\<lparr>tp_busy := True, tp_error := [], tp_msg := [], tp_waits := Some Wait_disconnect\<rparr>"

definition disconnect_answered :: "messages \<Rightarrow> telegram_panel \<Rightarrow> telegram_panel" where
  "disconnect_answered t p = p\<lparr>tp_connected := False, tp_username := [], tp_awaiting := False, tp_deepLink := [],
     tp_msg := t ''settings.telegramDisconnected'', tp_busy := False, tp_waits := None\<rparr>"

definition test_begin :: "telegram_panel \<Rightarrow> telegram_panel" where
  "test_begin p = p\<lparr>tp_busy := True, tp_error := [], tp_msg := [], tp_waits := Some Wait_test\<rparr>"

definition test_answered :: "messages \<Rightarrow> telegram_panel \<Rightarrow> telegram_panel" where
  "test_answered t p = p\<lparr>tp_msg := t ''settings.telegramTestSent'', tp_busy := False, tp_waits := None\<rparr>"

definition telegram_failed :: "ustr \<Rightarrow> telegram_panel \<Rightarrow> telegram_panel" where
  "telegram_failed m p = p\<lparr>tp_error := m, tp_busy := False, tp_waits := None\<rparr>"

text \<open>\<open>onFocus\<close>, and the answer it asks for.\<close>

definition on_focus :: "telegram_panel \<Rightarrow> telegram_panel" where
  "on_focus p = (if \<not> tp_awaiting p then p else p\<lparr>tp_focus_loads := tp_focus_loads p + 1\<rparr>)"

definition focus_answered :: "messages \<Rightarrow> (bool \<times> ustr) answer \<Rightarrow> telegram_panel \<Rightarrow> telegram_panel" where
  "focus_answered t a p =
     (if tp_focus_loads p = 0 then p
      else let p1 = p\<lparr>tp_focus_loads := tp_focus_loads p - 1\<rparr>
        in case a of
             Threw _ \<Rightarrow> p1
           | Answered (connected, username) \<Rightarrow>
               (let p2 = applyTelegram connected username p1
                in if connected then p2\<lparr>tp_awaiting := False, tp_deepLink := [],
                     tp_msg := t ''settings.telegramConnected'', tp_error := []\<rparr> else p2))"

datatype telegram_event =
    Tp_me "(bool \<times> ustr) answer"
  | Tp_connect
  | Tp_link bool "ustr answer"
  | Tp_disconnect
  | Tp_test
  | Tp_done "unit answer"
  | Tp_focus
  | Tp_focus_answer "(bool \<times> ustr) answer"

fun panel_do :: "messages \<Rightarrow> telegram_event \<Rightarrow> telegram_panel \<Rightarrow> telegram_panel" where
  "panel_do t (Tp_me a) p =
     (case a of Answered (connected, username) \<Rightarrow> applyTelegram connected username p | Threw _ \<Rightarrow> p)"
| "panel_do t Tp_connect p = (if tp_busy p \<or> tp_connected p then p else connect_begin p)"
| "panel_do t (Tp_link opened a) p =
     (if tp_waits p \<noteq> Some Wait_link then p
      else case a of Answered url \<Rightarrow> connect_answered t opened url p | Threw m \<Rightarrow> connect_failed m p)"
| "panel_do t Tp_disconnect p = (if tp_busy p \<or> \<not> tp_connected p then p else disconnect_begin p)"
| "panel_do t Tp_test p = (if tp_busy p \<or> \<not> tp_connected p then p else test_begin p)"
| "panel_do t (Tp_done a) p =
     (case tp_waits p of
        Some Wait_disconnect \<Rightarrow> (case a of Answered _ \<Rightarrow> disconnect_answered t p | Threw m \<Rightarrow> telegram_failed m p)
      | Some Wait_test \<Rightarrow> (case a of Answered _ \<Rightarrow> test_answered t p | Threw m \<Rightarrow> telegram_failed m p)
      | _ \<Rightarrow> p)"
| "panel_do t Tp_focus p = on_focus p"
| "panel_do t (Tp_focus_answer a) p = focus_answered t a p"

lemmas panel_steps = applyTelegram_def connect_begin_def connect_failed_def connect_answered_def
  disconnect_begin_def disconnect_answered_def test_begin_def test_answered_def telegram_failed_def
  on_focus_def focus_answered_def Let_def

interpretation telegram_panel: form_machine "panel_do t" tp_busy tp_waits
proof
  fix p :: telegram_panel and e
  assume "tp_busy p \<longleftrightarrow> tp_waits p \<noteq> None"
  then show "tp_busy (panel_do t e p) \<longleftrightarrow> tp_waits (panel_do t e p) \<noteq> None"
    by (cases e) (auto simp: panel_steps split: option.splits answer.splits telegram_wait.splits prod.splits)
qed

text \<open>The features ask for no opener, so no window is ever returned.\<close>

lemma window_open_noopener: "\<not> window_open (lit ''noopener,noreferrer'') opened"
  by (simp add: window_open_def lit_def)

subsection \<open>Notifications: Instagram and e-mail\<close>

datatype instagram_wait = Wait_code | Wait_unlink

record instagram_panel =
  ig_configured :: bool
  ig_connected :: bool
  ig_username :: ustr
  ig_code :: ustr
  ig_msg :: ustr
  ig_error :: ustr
  ig_busy :: bool
  ig_waits :: "instagram_wait option"

definition new_instagram :: instagram_panel where
  "new_instagram = \<lparr>ig_configured = False, ig_connected = False, ig_username = [], ig_code = [], ig_msg = [],
     ig_error = [], ig_busy = False, ig_waits = None\<rparr>"

record instagram_status =
  is_configured :: bool
  is_connected :: bool
  is_username :: ustr

definition instagram_loaded :: "instagram_status \<Rightarrow> instagram_panel \<Rightarrow> instagram_panel" where
  "instagram_loaded st p = p\<lparr>ig_configured := is_configured st, ig_connected := is_connected st, ig_username := is_username st\<rparr>"

text \<open>Both handlers begin alike; the rest of each once its request is answered.\<close>

definition instagram_ask :: "instagram_wait \<Rightarrow> instagram_panel \<Rightarrow> instagram_panel" where
  "instagram_ask w p = p\<lparr>ig_busy := True, ig_error := [], ig_msg := [], ig_waits := Some w\<rparr>"

definition requestIgCode :: "ustr answer \<Rightarrow> instagram_panel \<Rightarrow> instagram_panel" where
  "requestIgCode a p =
     (let p1 = p\<lparr>ig_busy := False, ig_waits := None\<rparr>
      in case a of Answered code \<Rightarrow> p1\<lparr>ig_code := code\<rparr> | Threw m \<Rightarrow> p1\<lparr>ig_error := m\<rparr>)"

definition disconnectInstagram :: "messages \<Rightarrow> unit answer \<Rightarrow> instagram_panel \<Rightarrow> instagram_panel" where
  "disconnectInstagram t a p =
     (let p1 = p\<lparr>ig_busy := False, ig_waits := None\<rparr>
      in case a of
           Answered _ \<Rightarrow> p1\<lparr>ig_connected := False, ig_username := [], ig_code := [], ig_msg := t ''settings.instagramDisconnected''\<rparr>
         | Threw m \<Rightarrow> p1\<lparr>ig_error := m\<rparr>)"

datatype instagram_event =
    Ig_status "instagram_status answer"
  | Ig_code
  | Ig_disconnect
  | Ig_coded "ustr answer"
  | Ig_disconnected "unit answer"

fun instagram_do :: "messages \<Rightarrow> instagram_event \<Rightarrow> instagram_panel \<Rightarrow> instagram_panel" where
  "instagram_do t (Ig_status a) p = (case a of Answered st \<Rightarrow> instagram_loaded st p | Threw _ \<Rightarrow> p)"
| "instagram_do t Ig_code p =
     (if \<not> ig_configured p \<or> ig_connected p \<or> ig_busy p then p else instagram_ask Wait_code p)"
| "instagram_do t Ig_disconnect p =
     (if \<not> ig_configured p \<or> \<not> ig_connected p \<or> ig_busy p then p else instagram_ask Wait_unlink p)"
| "instagram_do t (Ig_coded a) p = (if ig_waits p = Some Wait_code then requestIgCode a p else p)"
| "instagram_do t (Ig_disconnected a) p = (if ig_waits p = Some Wait_unlink then disconnectInstagram t a p else p)"

interpretation instagram_panel: form_machine "instagram_do t" ig_busy ig_waits
proof
  fix p :: instagram_panel and e
  assume "ig_busy p \<longleftrightarrow> ig_waits p \<noteq> None"
  then show "ig_busy (instagram_do t e p) \<longleftrightarrow> ig_waits (instagram_do t e p) \<noteq> None"
    by (cases e) (auto simp: instagram_loaded_def instagram_ask_def requestIgCode_def disconnectInstagram_def Let_def
        split: answer.splits)
qed

datatype email_pref = Pref_payment | Pref_attention | Pref_orders

record email_panel =
  em_enabled :: bool
  em_destination :: ustr
  em_payment :: bool
  em_attention :: bool
  em_orders :: bool
  em_busy :: bool
  em_waits :: "email_pref option"
  em_error :: ustr
  em_msg :: ustr
  em_requests :: "(email_pref \<times> bool) list"

fun em_value :: "email_pref \<Rightarrow> email_panel \<Rightarrow> bool" where
  "em_value Pref_payment p = em_payment p"
| "em_value Pref_attention p = em_attention p"
| "em_value Pref_orders p = em_orders p"

fun em_set :: "email_pref \<Rightarrow> bool \<Rightarrow> email_panel \<Rightarrow> email_panel" where
  "em_set Pref_payment v p = p\<lparr>em_payment := v\<rparr>"
| "em_set Pref_attention v p = p\<lparr>em_attention := v\<rparr>"
| "em_set Pref_orders v p = p\<lparr>em_orders := v\<rparr>"

text \<open>\<open>prefs.email?.x !== false\<close>: a preference that is absent counts as set.\<close>

definition pref_on :: "bool option \<Rightarrow> bool" where
  "pref_on v \<longleftrightarrow> v \<noteq> Some False"

record email_prefs =
  ep_enabled :: bool
  ep_destination :: ustr
  ep_payment :: "bool option"
  ep_attention :: "bool option"
  ep_orders :: "bool option"

definition apply_prefs :: "email_prefs \<Rightarrow> email_panel \<Rightarrow> email_panel" where
  "apply_prefs prefs p = p\<lparr>em_payment := pref_on (ep_payment prefs), em_attention := pref_on (ep_attention prefs),
     em_orders := pref_on (ep_orders prefs)\<rparr>"

text \<open>The first answer also says whether the server can send e-mail, and where to.\<close>

definition new_email :: email_panel where
  "new_email = \<lparr>em_enabled = False, em_destination = [], em_payment = True, em_attention = True, em_orders = True,
     em_busy = False, em_waits = None, em_error = [], em_msg = [], em_requests = []\<rparr>"

definition prefs_loaded :: "email_prefs \<Rightarrow> email_panel \<Rightarrow> email_panel" where
  "prefs_loaded prefs p = apply_prefs prefs (p\<lparr>em_enabled := ep_enabled prefs, em_destination := ep_destination prefs\<rparr>)"

text \<open>A box is ticked on the page before \<open>patchEmailPref\<close> asks the server.\<close>

definition toggle_pref :: "email_pref \<Rightarrow> bool \<Rightarrow> email_panel \<Rightarrow> email_panel" where
  "toggle_pref k v p = (em_set k v p)\<lparr>em_busy := True, em_error := [], em_waits := Some k,
     em_requests := em_requests p @ [(k, v)]\<rparr>"

definition pref_answered :: "messages \<Rightarrow> email_prefs answer \<Rightarrow> email_panel \<Rightarrow> email_panel" where
  "pref_answered t a p =
     (let p1 = p\<lparr>em_busy := False, em_waits := None\<rparr>
      in case a of
           Answered prefs \<Rightarrow> (apply_prefs prefs p1)\<lparr>em_msg := t ''common.saved''\<rparr>
         | Threw m \<Rightarrow> p1\<lparr>em_error := m\<rparr>)"

datatype email_event =
    Em_loaded "email_prefs answer"
  | Em_toggle email_pref
  | Em_answer "email_prefs answer"

fun email_do :: "messages \<Rightarrow> email_event \<Rightarrow> email_panel \<Rightarrow> email_panel" where
  "email_do t (Em_loaded a) p = (case a of Answered prefs \<Rightarrow> prefs_loaded prefs p | Threw _ \<Rightarrow> p)"
| "email_do t (Em_toggle k) p = (if \<not> em_enabled p \<or> em_busy p then p else toggle_pref k (\<not> em_value k p) p)"
| "email_do t (Em_answer a) p = (if em_waits p = None then p else pref_answered t a p)"

lemma em_set_fields [simp]: "em_busy (em_set k v p) = em_busy p" "em_waits (em_set k v p) = em_waits p"
  "em_value k (em_set k v p) = v" "em_msg (em_set k v p) = em_msg p"
  by (cases k; simp)+

lemma em_value_update [simp]:
  "em_value k (p\<lparr>em_busy := b\<rparr>) = em_value k p" "em_value k (p\<lparr>em_waits := w\<rparr>) = em_value k p"
  "em_value k (p\<lparr>em_error := m\<rparr>) = em_value k p" "em_value k (p\<lparr>em_requests := r\<rparr>) = em_value k p"
  "em_value k (p\<lparr>em_msg := m\<rparr>) = em_value k p"
  by (cases k; simp)+

interpretation email_panel: form_machine "email_do t" em_busy em_waits
proof
  fix p :: email_panel and e
  assume "em_busy p \<longleftrightarrow> em_waits p \<noteq> None"
  then show "em_busy (email_do t e p) \<longleftrightarrow> em_waits (email_do t e p) \<noteq> None"
    by (cases e) (auto simp: toggle_pref_def pref_answered_def prefs_loaded_def apply_prefs_def Let_def split: answer.splits)
qed

text \<open>A change the server refused stays on the page, beside the message of an earlier success.\<close>

lemma refused_toggle_stays:
  assumes "em_enabled p" "\<not> em_busy p"
  shows "let q = fold (email_do t) [Em_toggle k, Em_answer (Threw m)] p
    in em_value k q = (\<not> em_value k p) \<and> em_error q = m \<and> em_msg q = em_msg p \<and> \<not> em_busy q"
  using assms by (simp add: toggle_pref_def pref_answered_def Let_def)

subsection \<open>The store\<close>

datatype store_wait = Wait_store | Wait_logo

record store_seller =
  se_email :: ustr
  se_display :: ustr
  se_name :: ustr
  se_description :: ustr
  se_support :: ustr
  se_logo :: ustr

record store_settings =
  st_displayName :: ustr
  st_description :: ustr
  st_support :: ustr
  st_me :: "store_seller option"
  st_msg :: ustr
  st_error :: ustr
  st_loading :: bool
  st_picking :: bool
  st_waits :: "store_wait option"
  st_requests :: "jval list"

text \<open>The first answer fills the fields.\<close>

definition store_me :: "store_seller \<Rightarrow> store_settings \<Rightarrow> store_settings" where
  "store_me m p = p\<lparr>st_me := Some m, st_displayName := or_text (se_display m) (se_name m),
     st_description := se_description m, st_support := se_support m\<rparr>"

definition store_body :: "store_settings \<Rightarrow> jval" where
  "store_body p = JObj [(lit ''display_name'', JStr (js_trim (st_displayName p))),
     (lit ''description'', JStr (js_trim (st_description p))), (lit ''support_contact'', JStr (js_trim (st_support p)))]"

definition saveStore :: "store_settings \<Rightarrow> store_settings" where
  "saveStore p = p\<lparr>st_loading := True, st_error := [], st_msg := [], st_waits := Some Wait_store,
     st_requests := st_requests p @ [store_body p]\<rparr>"

definition uploadLogo :: "store_settings \<Rightarrow> store_settings" where
  "uploadLogo p = p\<lparr>st_loading := True, st_error := [], st_msg := [], st_waits := Some Wait_logo\<rparr>"

text \<open>The URL of the logo in the answer, unless it is absent, replaces the old one.\<close>

definition store_saved :: "messages \<Rightarrow> ustr answer \<Rightarrow> store_settings \<Rightarrow> store_settings" where
  "store_saved t a p =
     (case st_waits p of None \<Rightarrow> p
      | Some w \<Rightarrow>
          (let p1 = p\<lparr>st_loading := False, st_waits := None\<rparr>
           in case a of
                Threw m \<Rightarrow> p1\<lparr>st_error := m\<rparr>
              | Answered logo \<Rightarrow>
                  (let p2 = (if w = Wait_logo
                     then p1\<lparr>st_me := map_option (\<lambda>m. m\<lparr>se_logo := or_text logo (se_logo m)\<rparr>) (st_me p)\<rparr> else p1)
                   in p2\<lparr>st_msg := t ''common.saved''\<rparr>)))"

datatype store_settings_event =
    St_me "store_seller answer"
  | St_name ustr
  | St_description ustr
  | St_support ustr
  | St_save
  | St_pick
  | St_logo bool
  | St_answer "ustr answer"

text \<open>The button opens the browser's file picker, during which the page takes no input; \<open>St_logo\<close> says
  whether a file was chosen there.\<close>

fun store_settings_do :: "messages \<Rightarrow> store_settings_event \<Rightarrow> store_settings \<Rightarrow> store_settings" where
  "store_settings_do t (St_me a) p = (case a of Answered m \<Rightarrow> store_me m p | Threw _ \<Rightarrow> p)"
| "store_settings_do t (St_name s) p = (if st_picking p then p else p\<lparr>st_displayName := s\<rparr>)"
| "store_settings_do t (St_description s) p = (if st_picking p then p else p\<lparr>st_description := s\<rparr>)"
| "store_settings_do t (St_support s) p = (if st_picking p then p else p\<lparr>st_support := s\<rparr>)"
| "store_settings_do t St_save p = (if st_loading p \<or> st_picking p then p else saveStore p)"
| "store_settings_do t St_pick p = (if st_loading p then p else p\<lparr>st_picking := True\<rparr>)"
| "store_settings_do t (St_logo chosen) p =
     (if \<not> st_picking p then p
      else if chosen then uploadLogo (p\<lparr>st_picking := False\<rparr>) else p\<lparr>st_picking := False\<rparr>)"
| "store_settings_do t (St_answer a) p = store_saved t a p"

interpretation store_settings: form_machine "store_settings_do t" st_loading st_waits
proof
  fix p :: store_settings and e
  assume "st_loading p \<longleftrightarrow> st_waits p \<noteq> None"
  then show "st_loading (store_settings_do t e p) \<longleftrightarrow> st_waits (store_settings_do t e p) \<noteq> None"
    by (cases e) (auto simp: store_me_def saveStore_def uploadLogo_def store_saved_def Let_def
        split: option.splits answer.splits)
qed

text \<open>The avatar without a logo: the first unit of the name.\<close>

definition avatar_initial :: "runtime \<Rightarrow> store_settings \<Rightarrow> ustr" where
  "avatar_initial rt p = js_upper rt (take 1 (or_text
     (or_text (st_displayName p) (case st_me p of None \<Rightarrow> [] | Some m \<Rightarrow> se_name m)) (lit ''P'')))"

subsection \<open>The administrator's page\<close>

record resolve_form =
  rf_intent :: ustr
  rf_action :: ustr
  rf_reason :: ustr
  rf_event :: ustr

text \<open>What the lists hold. A row of a \<open>RecordList\<close> is read by the names of its fields, as the texts
  that are rendered, empty for an absent one; \<open>ao_ok\<close> and \<open>ao_worker\<close> are texts \<open>String\<close> gives.\<close>

type_synonym record_row = "string \<Rightarrow> ustr"

record admin_exception =
  ax_id :: ustr
  ax_label :: ustr
  ax_amountToman :: "nat option"
  ax_slug :: ustr

record admin_delivery =
  ay_id :: ustr
  ay_status :: ustr
  ay_channel :: ustr
  ay_event_key :: ustr

record ops_status =
  ao_ok :: ustr
  ao_worker :: ustr
  ao_sha :: ustr
  ao_alerts :: "ustr list"
  ao_stuck :: "nat option"
  ao_review :: "nat option"
  ao_failed :: "nat option"

record admin_lists =
  al_intents :: "record_row list"
  al_exceptions :: "admin_exception list"
  al_deliveries :: "admin_delivery list"
  al_ops :: "ops_status option"

record search_result =
  sr_merchants :: "record_row list"
  sr_intents :: "record_row list"
  sr_orders :: "record_row list"

datatype admin_wait = Wait_resolve resolve_form | Wait_admin_load

record admin_page =
  ad_error :: ustr
  ad_loading :: bool
  ad_intents :: "record_row list"
  ad_exceptions :: "admin_exception list"
  ad_deliveries :: "admin_delivery list"
  ad_ops :: "ops_status option"
  ad_search :: ustr
  ad_searchResult :: "search_result option"
  ad_timeline :: "record_row list option"
  ad_loads :: nat
  ad_searches :: "ustr list"
  ad_timelines :: "ustr list"
  ad_retries :: "ustr list"
  ad_waits :: "admin_wait option"
  ad_requests :: "jval list"
  ad_toasts :: "ustr list"
  ad_form :: resolve_form

definition empty_form :: resolve_form where
  "empty_form = \<lparr>rf_intent = [], rf_action = lit ''needs_review'', rf_reason = [], rf_event = []\<rparr>"

text \<open>When the page is mounted it loads the lists. \<open>ad_loads\<close> counts the loads that are out apart from
  the one of a resolution; the texts of \<open>ad_searches\<close>, \<open>ad_timelines\<close> and \<open>ad_retries\<close> name the
  requests of their kinds that are out.\<close>

definition new_admin :: admin_page where
  "new_admin = \<lparr>ad_error = [], ad_loading = False, ad_intents = [], ad_exceptions = [], ad_deliveries = [],
     ad_ops = None, ad_search = [], ad_searchResult = None, ad_timeline = None, ad_loads = 1, ad_searches = [],
     ad_timelines = [], ad_retries = [], ad_waits = None, ad_requests = [], ad_toasts = [], ad_form = empty_form\<rparr>"

definition resolve_body :: "resolve_form \<Rightarrow> jval" where
  "resolve_body f = JObj [(lit ''payment_intent_id'', JStr (rf_intent f)), (lit ''action'', JStr (rf_action f)),
     (lit ''reason'', JStr (rf_reason f)), (lit ''event_id'', JStr (rf_event f))]"

text \<open>The form is read while the event is dispatched.\<close>

definition resolve_begin :: "admin_page \<Rightarrow> admin_page" where
  "resolve_begin p =
     (case currentTarget Dispatching (ad_form p) of None \<Rightarrow> p
      | Some f \<Rightarrow> p\<lparr>ad_loading := True, ad_error := [], ad_requests := ad_requests p @ [resolve_body f],
          ad_waits := Some (Wait_resolve f)\<rparr>)"

definition null_reset :: ustr where
  "null_reset = lit ''Cannot read properties of null''"

text \<open>After the request: a toast, then \<open>e.currentTarget.reset()\<close>, which throws on \<open>null\<close>, then \<open>load\<close>.\<close>

definition resolve_answered :: "messages \<Rightarrow> unit answer \<Rightarrow> admin_page \<Rightarrow> admin_page" where
  "resolve_answered t a p =
     (case a of
        Threw m \<Rightarrow> p\<lparr>ad_error := m, ad_loading := False, ad_waits := None\<rparr>
      | Answered _ \<Rightarrow>
          (let p1 = p\<lparr>ad_toasts := ad_toasts p @ [t ''admin.resolved'']\<rparr>
           in case currentTarget After_await (ad_form p1) of
                None \<Rightarrow> p1\<lparr>ad_error := null_reset, ad_loading := False, ad_waits := None\<rparr>
              | Some f \<Rightarrow> p1\<lparr>ad_form := empty_form, ad_waits := Some Wait_admin_load\<rparr>))"

text \<open>\<open>load\<close>: one answer for the four requests, of which the operator's status may fail alone.\<close>

definition admin_show :: "admin_lists \<Rightarrow> admin_page \<Rightarrow> admin_page" where
  "admin_show l p = p\<lparr>ad_intents := al_intents l, ad_exceptions := al_exceptions l, ad_deliveries := al_deliveries l,
     ad_ops := al_ops l\<rparr>"

definition admin_loaded :: "admin_lists answer \<Rightarrow> admin_page \<Rightarrow> admin_page" where
  "admin_loaded a p =
     (let p1 = p\<lparr>ad_loading := False, ad_waits := None\<rparr>
      in case a of Answered l \<Rightarrow> admin_show l p1 | Threw m \<Rightarrow> p1\<lparr>ad_error := m\<rparr>)"

text \<open>A delivery is tried again from the list, where its status allows it.\<close>

definition retry_shown :: "ustr \<Rightarrow> bool" where
  "retry_shown status \<longleftrightarrow> status = lit ''failed'' \<or> status = lit ''pending''"

definition retry_ids :: "admin_page \<Rightarrow> ustr list" where
  "retry_ids p = map ay_id (filter (\<lambda>d. retry_shown (ay_status d)) (take 30 (ad_deliveries p)))"

definition retry_answered :: "messages \<Rightarrow> ustr \<Rightarrow> unit answer \<Rightarrow> admin_page \<Rightarrow> admin_page" where
  "retry_answered t ident a p =
     (let p1 = p\<lparr>ad_retries := remove1 ident (ad_retries p)\<rparr>
      in case a of
           Answered _ \<Rightarrow> p1\<lparr>ad_toasts := ad_toasts p @ [t ''admin.resolved''], ad_loads := ad_loads p + 1\<rparr>
         | Threw m \<Rightarrow> p1\<lparr>ad_error := m\<rparr>)"

definition admin_reloaded :: "admin_lists answer \<Rightarrow> admin_page \<Rightarrow> admin_page" where
  "admin_reloaded a p =
     (if ad_loads p = 0 then p
      else let p1 = p\<lparr>ad_loads := ad_loads p - 1\<rparr>
        in case a of Answered l \<Rightarrow> admin_show l p1 | Threw m \<Rightarrow> p1\<lparr>ad_error := m\<rparr>)"

text \<open>\<open>runSearch\<close>: nothing for a short text, and an exception, so nothing either, where the text cannot
  be encoded. A failure is not caught.\<close>

definition admin_search :: "ustr \<Rightarrow> ustr option option" where
  "admin_search search =
     (if length (js_trim search) < 2 then None
      else Some (map_option (\<lambda>e. lit ''/api/v1/admin/search?q='' @ e) (encodeURIComponent (js_trim search))))"

definition runSearch :: "admin_page \<Rightarrow> admin_page" where
  "runSearch p = (case admin_search (ad_search p) of Some (Some path) \<Rightarrow> p\<lparr>ad_searches := ad_searches p @ [path]\<rparr> | _ \<Rightarrow> p)"

definition search_answered :: "ustr \<Rightarrow> search_result answer \<Rightarrow> admin_page \<Rightarrow> admin_page" where
  "search_answered path a p =
     (let p1 = p\<lparr>ad_searches := remove1 path (ad_searches p)\<rparr>
      in case a of Answered r \<Rightarrow> p1\<lparr>ad_searchResult := Some r\<rparr> | Threw _ \<Rightarrow> p1)"

definition loadTimeline :: "ustr \<Rightarrow> admin_page \<Rightarrow> admin_page" where
  "loadTimeline ident p = p\<lparr>ad_timelines := ad_timelines p @ [ident]\<rparr>"

definition timeline_answered :: "ustr \<Rightarrow> record_row list answer \<Rightarrow> admin_page \<Rightarrow> admin_page" where
  "timeline_answered ident a p =
     (let p1 = p\<lparr>ad_timelines := remove1 ident (ad_timelines p)\<rparr>
      in case a of Answered evs \<Rightarrow> p1\<lparr>ad_timeline := Some evs\<rparr> | Threw _ \<Rightarrow> p1)"

datatype admin_event =
    Ad_edit resolve_form
  | Ad_resolve
  | Ad_resolved "unit answer"
  | Ad_loaded "admin_lists answer"
  | Ad_retry ustr
  | Ad_retried ustr "unit answer"
  | Ad_reloaded "admin_lists answer"
  | Ad_type ustr
  | Ad_search
  | Ad_found ustr "search_result answer"
  | Ad_timeline ustr
  | Ad_timeline_answer ustr "record_row list answer"

fun admin_do :: "messages \<Rightarrow> admin_event \<Rightarrow> admin_page \<Rightarrow> admin_page" where
  "admin_do t (Ad_edit f) p = p\<lparr>ad_form := f\<rparr>"
| "admin_do t Ad_resolve p = (if ad_loading p then p else resolve_begin p)"
| "admin_do t (Ad_resolved a) p =
     (case ad_waits p of Some (Wait_resolve f) \<Rightarrow> resolve_answered t a p | _ \<Rightarrow> p)"
| "admin_do t (Ad_loaded a) p = (if ad_waits p = Some Wait_admin_load then admin_loaded a p else p)"
| "admin_do t (Ad_retry ident) p =
     (if ident \<in> set (retry_ids p) then p\<lparr>ad_retries := ad_retries p @ [ident]\<rparr> else p)"
| "admin_do t (Ad_retried ident a) p = (if ident \<in> set (ad_retries p) then retry_answered t ident a p else p)"
| "admin_do t (Ad_reloaded a) p = admin_reloaded a p"
| "admin_do t (Ad_type s) p = p\<lparr>ad_search := s\<rparr>"
| "admin_do t Ad_search p = runSearch p"
| "admin_do t (Ad_found path a) p = (if path \<in> set (ad_searches p) then search_answered path a p else p)"
| "admin_do t (Ad_timeline ident) p =
     (if ident \<in> ax_id ` set (take 40 (ad_exceptions p)) then loadTimeline ident p else p)"
| "admin_do t (Ad_timeline_answer ident a) p =
     (if ident \<in> set (ad_timelines p) then timeline_answered ident a p else p)"

lemmas admin_steps = resolve_begin_def resolve_answered_def admin_show_def admin_loaded_def retry_answered_def
  admin_reloaded_def runSearch_def search_answered_def loadTimeline_def timeline_answered_def currentTarget_def Let_def

interpretation admin_form: form_machine "admin_do t" ad_loading ad_waits
proof
  fix p :: admin_page and e
  assume "ad_loading p \<longleftrightarrow> ad_waits p \<noteq> None"
  then show "ad_loading (admin_do t e p) \<longleftrightarrow> ad_waits (admin_do t e p) \<noteq> None"
    by (cases e) (auto simp: admin_steps split: option.splits answer.splits admin_wait.splits)
qed

text \<open>No resolution ever comes to load the lists again.\<close>

lemma resolution_never_loads:
  "ad_waits p \<noteq> Some Wait_admin_load \<Longrightarrow> ad_waits (admin_do t e p) \<noteq> Some Wait_admin_load"
  by (cases e) (auto simp: admin_steps split: option.splits answer.splits admin_wait.splits)

interpretation resolving: event_machine "admin_do t" "\<lambda>p. ad_waits p \<noteq> Some Wait_admin_load" "\<lambda>_. True"
  by unfold_locales (rule resolution_never_loads)

text \<open>Searches are answered in any order, and the last answer stays: with two out, the page ends with the
  result of the first where that is answered last, although the box holds the second text.\<close>

lemma late_search_stays:
  assumes "ad_searches p = []" "admin_search q1 = Some (Some path1)" "admin_search q2 = Some (Some path2)"
  shows "let p' = fold (admin_do t) [Ad_type q1, Ad_search, Ad_type q2, Ad_search, Ad_found path2 (Answered r2),
           Ad_found path1 (Answered r1)] p
         in ad_search p' = q2 \<and> ad_searchResult p' = Some r1 \<and> ad_searches p' = []"
  using assms by (simp add: admin_steps)

text \<open>A search or a timeline that fails leaves what was there, and no message.\<close>

lemma failed_search_is_silent:
  "let q = admin_do t (Ad_found path (Threw m)) p
   in ad_searchResult q = ad_searchResult p \<and> ad_error q = ad_error p \<and> ad_toasts q = ad_toasts p"
  "let q = admin_do t (Ad_timeline_answer path (Threw m)) p
   in ad_timeline q = ad_timeline p \<and> ad_error q = ad_error p \<and> ad_toasts q = ad_toasts p"
  by (simp_all add: admin_steps)

text \<open>What a row of a list shows.\<close>

definition record_title :: "record_row \<Rightarrow> string \<Rightarrow> ustr" where
  "record_title row primary =
     or_text (or_text (or_text (row primary) (row ''status'')) (row ''exception_label'')) [8212]"

definition record_meta :: "record_row \<Rightarrow> string \<Rightarrow> ustr" where
  "record_meta row second = or_text (row second) (row ''id'')"

end
