(* ===== verification/ServiceWorker.thy ===== *)
theory ServiceWorker
  imports Pages
begin

text \<open>
  The service worker, apps/web/public/sw.js, and the rewrites of apps/web/next.config.mjs that put
  the backend and the action gateway behind the origin of the site.

  \<open>sw_caches\<close> are the caches of the origin in the order they were made, each a map from URLs. A
  handler is taken whole: what the network answers is an argument, \<open>None\<close> where it cannot be
  reached, and the copy of a response is in the cache when the handler has ended; answers are whole
  and vary with nothing, so that a cache takes them.
\<close>

subsection \<open>Rewrites\<close>

definition next_rewrites :: "ustr \<Rightarrow> ustr \<Rightarrow> (ustr \<times> ustr) list" where
  "next_rewrites api gateway =
     (let base = or_text api (lit ''http://localhost:8080''); actionGateway = strip_slash gateway
      in [(lit ''/api'', base @ lit ''/api'')] @
         (if actionGateway \<noteq> [] then [(lit ''/action-gateway'', actionGateway)] else []))"

text \<open>A rule is what stands before \<open>/:path*\<close> in its source and in its destination; \<open>:path*\<close> stands for
  the rest of the path, whole segments of it, or none. Paths are compared as they are written.\<close>

fun rewrite_path :: "(ustr \<times> ustr) list \<Rightarrow> ustr \<Rightarrow> ustr option" where
  "rewrite_path [] path = None"
| "rewrite_path ((source, destination) # rules) path =
     (if path = source \<or> starts_with path (source @ [47]) then Some (destination @ drop (length source) path)
      else rewrite_path rules path)"

subsection \<open>The worker\<close>

definition CACHE :: ustr where
  "CACHE = lit ''pooli-shell-v7''"

definition STATIC :: "ustr list" where
  "STATIC = map lit [''/'', ''/app'', ''/app/create'', ''/manifest.webmanifest'', ''/brand/logo-color.svg'',
     ''/brand/mark.svg'']"

record sw_response =
  rs_ok :: bool
  rs_body :: ustr

record sw_request =
  rq_method :: ustr
  rq_origin :: ustr
  rq_pathname :: ustr
  rq_search :: ustr
  rq_document :: bool

record worker =
  sw_origin :: ustr
  sw_caches :: "(ustr \<times> (ustr \<rightharpoonup> sw_response)) list"

definition rq_url :: "sw_request \<Rightarrow> ustr" where
  "rq_url r = rq_origin r @ rq_pathname r @ rq_search r"

fun find_cached :: "(ustr \<times> (ustr \<rightharpoonup> sw_response)) list \<Rightarrow> ustr \<Rightarrow> sw_response option" where
  "find_cached [] url = None"
| "find_cached ((name, entries) # cs) url =
     (case entries url of Some r \<Rightarrow> Some r | None \<Rightarrow> find_cached cs url)"

text \<open>\<open>caches.match\<close>, and \<open>caches.open(CACHE).then(c => c.put(...))\<close>.\<close>

definition caches_match :: "ustr \<Rightarrow> worker \<Rightarrow> sw_response option" where
  "caches_match url w = find_cached (sw_caches w) url"

fun put_in :: "ustr \<Rightarrow> ustr \<Rightarrow> sw_response \<Rightarrow> (ustr \<times> (ustr \<rightharpoonup> sw_response)) list \<Rightarrow>
    (ustr \<times> (ustr \<rightharpoonup> sw_response)) list" where
  "put_in name url r [] = [(name, [url \<mapsto> r])]"
| "put_in name url r ((n, entries) # cs) =
     (if n = name then (n, entries(url \<mapsto> r)) # cs else (n, entries) # put_in name url r cs)"

definition cache_put :: "ustr \<Rightarrow> sw_response \<Rightarrow> worker \<Rightarrow> worker" where
  "cache_put url r w = w\<lparr>sw_caches := put_in CACHE url r (sw_caches w)\<rparr>"

text \<open>\<open>install\<close>: \<open>addAll\<close> fails, and caches nothing, unless every answer is ok.\<close>

definition sw_install :: "(ustr \<Rightarrow> sw_response option) \<Rightarrow> worker \<Rightarrow> worker" where
  "sw_install network w =
     (if list_all (\<lambda>p. case network p of None \<Rightarrow> False | Some r \<Rightarrow> rs_ok r) STATIC
      then fold (\<lambda>p. cache_put (sw_origin w @ p) (the (network p))) STATIC w else w)"

definition sw_activate :: "worker \<Rightarrow> worker" where
  "sw_activate w = w\<lparr>sw_caches := filter (\<lambda>(name, _). name = CACHE) (sw_caches w)\<rparr>"

datatype sw_reply =
    Not_intercepted
  | Reply_with sw_response
  | Reply_error

text \<open>\<open>caches.match("/") || Response.error()\<close>: a promise is never falsy, and a match that fails is
  \<open>undefined\<close>, with which the answer is a network error too.\<close>

definition shell_or_error :: "worker \<Rightarrow> sw_reply" where
  "shell_or_error w = (case caches_match (sw_origin w @ [47]) w of Some r \<Rightarrow> Reply_with r | None \<Rightarrow> Reply_error)"

definition is_get :: "sw_request \<Rightarrow> bool" where
  "is_get r \<longleftrightarrow> rq_method r = lit ''GET''"

definition sw_api :: "sw_request \<Rightarrow> bool" where
  "sw_api r \<longleftrightarrow> starts_with (rq_pathname r) (lit ''/api'')"

definition network_first :: "sw_request \<Rightarrow> bool" where
  "network_first r \<longleftrightarrow> rq_document r \<or> rq_pathname r = lit ''/login'' \<or> rq_pathname r = lit ''/register''"

definition sw_fetch :: "sw_response option \<Rightarrow> sw_request \<Rightarrow> worker \<Rightarrow> sw_reply \<times> worker" where
  "sw_fetch network r w =
     (if \<not> is_get r \<or> sw_api r then (Not_intercepted, w)
      else if network_first r then
        (case network of
           Some res \<Rightarrow> (Reply_with res,
             if rs_ok res \<and> rq_origin r = sw_origin w then cache_put (rq_url r) res w else w)
         | None \<Rightarrow> (case caches_match (rq_url r) w of
               Some cached \<Rightarrow> (Reply_with cached, w)
             | None \<Rightarrow> (shell_or_error w, w)))
      else
        (case caches_match (rq_url r) w of
           Some cached \<Rightarrow> (Reply_with cached, w)
         | None \<Rightarrow>
             (case network of
                Some res \<Rightarrow> (Reply_with res,
                  if rs_ok res \<and> rq_origin r = sw_origin w \<and> \<not> sw_api r then cache_put (rq_url r) res w else w)
              | None \<Rightarrow> (shell_or_error w, w))))"

datatype sw_event =
    Sw_activate
  | Sw_fetch sw_request "sw_response option"

fun sw_do :: "sw_event \<Rightarrow> worker \<Rightarrow> worker" where
  "sw_do Sw_activate w = sw_activate w"
| "sw_do (Sw_fetch r network) w = snd (sw_fetch network r w)"

subsection \<open>What stays in the cache\<close>

text \<open>After the activation there is one cache, and then the last answer put is the one found.\<close>

definition one_cache :: "worker \<Rightarrow> bool" where
  "one_cache w \<longleftrightarrow> list_all (\<lambda>(name, _). name = CACHE) (sw_caches w)"

lemma match_cache_put:
  assumes "one_cache w"
  shows "caches_match u (cache_put url r w) = (if u = url then Some r else caches_match u w)"
proof (cases "sw_caches w")
  case Nil
  then show ?thesis by (simp add: caches_match_def cache_put_def)
next
  case (Cons c cs)
  then obtain entries where "c = (CACHE, entries)" using assms by (cases c) (auto simp: one_cache_def)
  with Cons show ?thesis by (simp add: caches_match_def cache_put_def)
qed

lemma one_cache_put: "one_cache w \<Longrightarrow> one_cache (cache_put url r w)"
proof -
  have "list_all (\<lambda>(name, _). name = CACHE) cs \<Longrightarrow>
      list_all (\<lambda>(name, _). name = CACHE) (put_in CACHE url r cs)" for cs
    by (induction cs) auto
  then show "one_cache w \<Longrightarrow> one_cache (cache_put url r w)" by (simp add: one_cache_def cache_put_def)
qed

lemma activate_one_cache: "one_cache (sw_activate w)"
  by (simp add: one_cache_def sw_activate_def list_all_iff)

lemma activate_id: "one_cache w \<Longrightarrow> sw_activate w = w"
  by (simp add: one_cache_def sw_activate_def filter_id_conv list_all_iff)

lemma one_cache_fetch: "one_cache w \<Longrightarrow> one_cache (snd (sw_fetch network r w))"
  by (auto simp: sw_fetch_def one_cache_put split: option.split)

lemma origin_fetch: "sw_origin (snd (sw_fetch network r w)) = sw_origin w"
  by (auto simp: sw_fetch_def cache_put_def split: option.split)

text \<open>A request the worker answers from its cache first.\<close>

definition cache_first :: "sw_request \<Rightarrow> bool" where
  "cache_first r \<longleftrightarrow> is_get r \<and> \<not> sw_api r \<and> \<not> network_first r"

text \<open>No event overwrites an entry, but the answer to a navigation to its URL.\<close>

definition leaves_entry :: "ustr \<Rightarrow> sw_event \<Rightarrow> bool" where
  "leaves_entry url e = (case e of Sw_activate \<Rightarrow> True | Sw_fetch r _ \<Rightarrow> rq_url r \<noteq> url \<or> \<not> network_first r)"

lemma fetch_keeps_entry:
  assumes "one_cache w" "caches_match url w = Some res" "rq_url r \<noteq> url \<or> \<not> network_first r"
  shows "caches_match url (snd (sw_fetch network r w)) = Some res"
  using assms by (auto simp: sw_fetch_def match_cache_put split: option.split)

interpretation frozen: event_machine sw_do "\<lambda>w. one_cache w \<and> caches_match url w = Some res" "leaves_entry url"
proof
  fix w e
  assume w: "one_cache w \<and> caches_match url w = Some res" and e: "leaves_entry url e"
  show "one_cache (sw_do e w) \<and> caches_match url (sw_do e w) = Some res"
  proof (cases e)
    case Sw_activate
    then show ?thesis using w by (simp add: activate_id)
  next
    case (Sw_fetch r network)
    then show ?thesis using w e fetch_keeps_entry [of w url res r network] one_cache_fetch
      by (auto simp: leaves_entry_def)
  qed
qed

lemma fetch_fills_cache:
  assumes "one_cache w" "cache_first r" "rq_origin r = sw_origin w" "rs_ok res"
    and "caches_match (rq_url r) w = None"
  shows "fst (sw_fetch (Some res) r w) = Reply_with res"
    "caches_match (rq_url r) (snd (sw_fetch (Some res) r w)) = Some res"
  using assms by (auto simp: cache_first_def sw_fetch_def match_cache_put)

lemma fetch_from_cache:
  "cache_first r \<Longrightarrow> caches_match (rq_url r) w = Some res \<Longrightarrow> sw_fetch network r w = (Reply_with res, w)"
  by (auto simp: cache_first_def sw_fetch_def)

text \<open>The request the web application makes for a proposal of the gateway.\<close>

definition proposal_request :: "ustr \<Rightarrow> ustr \<Rightarrow> sw_request" where
  "proposal_request origin encodedId = \<lparr>rq_method = lit ''GET'', rq_origin = origin,
     rq_pathname = lit ''/action-gateway'' @ lit ''/api/proposals/'' @ encodedId, rq_search = [], rq_document = False\<rparr>"

text \<open>The path that is cached is the gateway's own: the rewrites take it there.\<close>

lemma proposal_request_rewritten:
  assumes "strip_slash gateway \<noteq> []"
  shows "rewrite_path (next_rewrites api gateway) (rq_pathname (proposal_request origin i)) =
    Some (strip_slash gateway @ lit ''/api/proposals/'' @ i)"
  using assms by (simp add: next_rewrites_def proposal_request_def starts_with_def lit_def Let_def)

lemma proposal_request_cached: "cache_first (proposal_request origin i)"
  by (simp add: cache_first_def proposal_request_def is_get_def sw_api_def network_first_def starts_with_def lit_def)

text \<open>What a reply of the worker is to \<open>gatewayFetch\<close>; \<open>parse\<close> is \<open>res.json()\<close>.\<close>

definition reply_outcome :: "(ustr \<Rightarrow> jval option) \<Rightarrow> sw_reply \<Rightarrow> fetch_outcome" where
  "reply_outcome parse reply =
     (case reply of Reply_with r \<Rightarrow> Http (if rs_ok r then 200 else 500) (parse (rs_body r))
      | _ \<Rightarrow> Net_error (lit ''Failed to fetch''))"

end
