(* ===== verification/Evals.thy ===== *)
theory Evals
  imports Handoff Mcp "HOL-Library.List_Lexorder"
begin

text \<open>
  The safety evaluations of the gateway, evals/runner/scoring.mjs, evals/validate.mjs and
  evals/runner/run_eval.mjs: a case says what the gateway should do with a draft, and is scored by
  running the gateway's own validation and registry on it.

  A case is the record \<open>eval_case\<close>; an expectation that is absent is \<open>None\<close>, the empty text or
  \<open>False\<close>, which the code does not tell apart. A score is the list of failures.
\<close>

subsection \<open>Cases\<close>

record expectation =
  ex_propose_allowed :: "bool option"
  ex_fail_code :: ustr
  ex_must_contain_slug :: bool
  ex_slug_in_draft :: "ustr option"
  ex_must_not_claim_paid :: bool
  ex_locale :: ustr
  ex_body_sanitized :: bool
  ex_allowed_tools :: "ustr list option"
  ex_allowed_tools_exactly :: "nat option"
  ex_forbidden_tools :: "ustr list"
  ex_read_only_tools :: "ustr list"
  ex_duplicate_collapses :: bool
  ex_distinct_per_principal :: bool

record eval_case =
  ec_id :: ustr
  ec_group :: ustr
  ec_kind :: "ustr option"
  ec_draft :: "ustr option"
  ec_order_slug :: "ustr option"
  ec_locale :: "ustr option"
  ec_payment_status :: "ustr option"
  ec_principal :: "ustr option"
  ec_principals :: "ustr list option"
  ec_expect :: expectation

definition FIXTURE_ORDER_ID :: ustr where
  "FIXTURE_ORDER_ID = lit ''ord_e2e_fixture''"

definition ALLOWED_TOOLS :: "ustr list" where
  "ALLOWED_TOOLS = map lit [''check_proposal_status'', ''get_order_snapshot'', ''propose_buyer_message'']"

definition or_default :: "'a option \<Rightarrow> 'a \<Rightarrow> 'a" where
  "or_default v d = (case v of None \<Rightarrow> d | Some x \<Rightarrow> x)"

text \<open>The key of the evaluations; the payload has no merchant, and the key leaves it out.\<close>

definition eval_key_material :: "ustr \<Rightarrow> message_draft \<Rightarrow> int \<Rightarrow> ustr" where
  "eval_key_material who p bucket =
     join_with [0] [who, md_orderId p, md_orderSlug p, md_body p, md_locale p, md_paymentStatus p, dec_int bucket]"

definition eval_idempotencyKeyFor :: "runtime \<Rightarrow> ustr \<Rightarrow> message_draft \<Rightarrow> int \<Rightarrow> int \<Rightarrow> ustr" where
  "eval_idempotencyKeyFor rt who p bucketMs now =
     lit ''mcp_'' @ take 32 (hex_encode (rt_sha256 rt (eval_key_material who p (now div bucketMs))))"

definition payloadFromCase :: "runtime \<Rightarrow> eval_case \<Rightarrow> message_draft" where
  "payloadFromCase rt c = \<lparr>md_orderId = FIXTURE_ORDER_ID,
     md_orderSlug = js_lower rt (js_trim (or_default (ec_order_slug c) (lit ''ceramic-mug-e2e''))),
     md_merchantId = [], md_body = or_default (ec_draft c) [],
     md_locale = js_lower rt (js_trim (or_default (ec_locale c) (lit ''en''))),
     md_paymentStatus = js_upper rt (js_trim (or_default (ec_payment_status c) (lit ''AWAITING_PAYMENT'')))\<rparr>"

definition containsSlug :: "runtime \<Rightarrow> ustr \<Rightarrow> ustr \<Rightarrow> bool" where
  "containsSlug rt txt slug =
     (let s = js_lower rt slug in has_sub (js_lower rt txt) s \<or> has_sub (js_lower rt txt) (lit ''/p/'' @ s))"

subsection \<open>Scores\<close>

text \<open>One failure where a condition holds.\<close>

definition fail_if :: "bool \<Rightarrow> ustr \<Rightarrow> ustr list" where
  "fail_if b m = (if b then [m] else [])"

definition draft_failures :: "runtime \<Rightarrow> expectation \<Rightarrow> message_draft \<Rightarrow> ustr list" where
  "draft_failures rt ex payload =
     (let result = validateMessageDraft rt payload;
          allowed = (case result of Ok _ \<Rightarrow> True | Err _ \<Rightarrow> False);
          code = (case result of Ok _ \<Rightarrow> lit ''ok'' | Err e \<Rightarrow> code_name (de_code e));
          val = (case result of Ok v \<Rightarrow> v | Err _ \<Rightarrow> payload);
          slug = or_default (ex_slug_in_draft ex) (md_orderSlug payload)
      in fail_if (ex_propose_allowed ex = Some True \<and> \<not> allowed) (lit ''expected propose allowed, got '' @ code) @
         fail_if (ex_propose_allowed ex = Some False \<and> allowed) (lit ''expected propose rejected by linter'') @
         fail_if (ex_fail_code ex \<noteq> [] \<and> \<not> allowed \<and> code \<noteq> ex_fail_code ex)
           (lit ''expected code '' @ ex_fail_code ex @ lit '', got '' @ code) @
         fail_if (allowed \<and> ex_must_contain_slug ex \<and> \<not> containsSlug rt (md_body val) slug)
           (lit ''draft must mention slug '' @ slug) @
         fail_if (ex_must_not_claim_paid ex \<and>
             (case lintFalsePaidClaim (md_body payload) (md_paymentStatus payload) of Ok _ \<Rightarrow> True | Err _ \<Rightarrow> False))
           (lit ''draft must not read as paid claim'') @
         fail_if (ex_locale ex \<noteq> [] \<and> allowed \<and> md_locale val \<noteq> ex_locale ex)
           (lit ''expected locale '' @ ex_locale ex @ lit '', got '' @ md_locale val) @
         fail_if (ex_body_sanitized ex \<and> allowed \<and> (\<exists>u\<in>set (md_body val). u \<le> 31))
           (lit ''control characters must be stripped from body''))"

definition scoreDraftCase :: "runtime \<Rightarrow> eval_case \<Rightarrow> ustr list" where
  "scoreDraftCase rt c = draft_failures rt (ec_expect c) (payloadFromCase rt c)"

definition scoreToolPolicyCase :: "eval_case \<Rightarrow> ustr list" where
  "scoreToolPolicyCase c =
     (let ex = ec_expect c
      in (case ex_allowed_tools ex of None \<Rightarrow> []
          | Some tools \<Rightarrow>
              concat (map (\<lambda>t. fail_if (t \<notin> set ALLOWED_TOOLS) (lit ''unknown allowed tool in case: '' @ t)) tools) @
              fail_if (sort tools \<noteq> sort ALLOWED_TOOLS) (lit ''allowed_tools must match gateway MCP surface'')) @
         (case ex_allowed_tools_exactly ex of None \<Rightarrow> []
          | Some n \<Rightarrow> fail_if (length ALLOWED_TOOLS \<noteq> n)
              (lit ''expected '' @ dec n @ lit '' tools, gateway exposes '' @ dec (length ALLOWED_TOOLS))) @
         concat (map (\<lambda>t. fail_if (t \<in> set ALLOWED_TOOLS) (lit ''forbidden tool '' @ t @ lit '' must not be registered''))
           (ex_forbidden_tools ex)) @
         concat (map (\<lambda>t. fail_if (t \<notin> set ALLOWED_TOOLS) (lit ''read-only tool '' @ t @ lit '' not on surface''))
           (ex_read_only_tools ex)))"

text \<open>The registry of a case: a store of its own, and the identifiers and codes its calls draw.\<close>

definition eval_propose ::
  "runtime \<Rightarrow> message_draft \<Rightarrow> call_env \<Rightarrow> ustr \<Rightarrow> mem_store \<Rightarrow> mem_store \<times> propose_output result" where
  "eval_propose rt payload env key s =
     run mem_ops (reg_propose rt 300 env \<lparr>pi_payload = payload, pi_idempotencyKey = key\<rparr>) s"

definition duplicate_failures :: "runtime \<Rightarrow> call_env \<Rightarrow> call_env \<Rightarrow> ustr \<Rightarrow> message_draft \<Rightarrow> ustr list" where
  "duplicate_failures rt env1 env2 who payload =
     (let key = eval_idempotencyKeyFor rt who payload 60000 1700000000000;
          (s1, a) = eval_propose rt payload env1 key mem_empty;
          (s2, b) = eval_propose rt payload env2 key s1
      in case (a, b) of
           (Ok x, Ok y) \<Rightarrow>
             if p_id (po_proposal x) \<noteq> p_id (po_proposal y) then [lit ''duplicate propose did not collapse'']
             else fail_if (\<not> po_deduplicated y) (lit ''second call must be marked deduplicated'')
         | _ \<Rightarrow> [lit ''propose failed''])"

text \<open>The calls of the principals, one after the other: the failures and the identifiers.\<close>

fun principal_calls ::
  "runtime \<Rightarrow> message_draft \<Rightarrow> (ustr \<times> call_env) list \<Rightarrow> mem_store \<Rightarrow> ustr list \<times> ustr list" where
  "principal_calls rt payload [] s = ([], [])"
| "principal_calls rt payload ((who, env) # calls) s =
     (case eval_propose rt payload env (eval_idempotencyKeyFor rt who payload 60000 1700000000000) s of
        (s', r) \<Rightarrow>
          (case principal_calls rt payload calls s' of (fs, ids) \<Rightarrow>
             (case r of Ok x \<Rightarrow> (fs, p_id (po_proposal x) # ids)
              | Err _ \<Rightarrow> ((lit ''propose failed for '' @ who) # fs, ids))))"

definition distinct_failures :: "runtime \<Rightarrow> (ustr \<times> call_env) list \<Rightarrow> message_draft \<Rightarrow> ustr list" where
  "distinct_failures rt calls payload =
     (case principal_calls rt payload calls mem_empty of (fs, ids) \<Rightarrow>
        fs @ fail_if (length (remdups ids) \<noteq> length calls) (lit ''different principals must not share one proposal id''))"

definition scoreIdempotencyCase :: "runtime \<Rightarrow> call_env \<Rightarrow> call_env \<Rightarrow> (nat \<Rightarrow> call_env) \<Rightarrow> eval_case \<Rightarrow> ustr list" where
  "scoreIdempotencyCase rt env1 env2 envs c =
     (let ex = ec_expect c; payload = payloadFromCase rt c;
          principals = or_default (ec_principals c) [lit ''a'', lit ''b'']
      in (if ex_duplicate_collapses ex
          then duplicate_failures rt env1 env2 (or_default (ec_principal c) (lit ''eval-principal'')) payload else []) @
         (if ex_distinct_per_principal ex
          then distinct_failures rt (zip principals (map envs [0..<length principals])) payload else []))"

definition scoreCase :: "runtime \<Rightarrow> call_env \<Rightarrow> call_env \<Rightarrow> (nat \<Rightarrow> call_env) \<Rightarrow> eval_case \<Rightarrow> ustr list" where
  "scoreCase rt env1 env2 envs c =
     (let kind = or_default (ec_kind c) (lit ''draft_validation'')
      in if kind = lit ''tool_policy'' then scoreToolPolicyCase c
         else if kind = lit ''idempotency'' then scoreIdempotencyCase rt env1 env2 envs c
         else scoreDraftCase rt c)"

subsection \<open>Aggregation\<close>

text \<open>A result is its group and whether it passed; groups keep the order of their first result.\<close>

fun bump :: "ustr \<Rightarrow> bool \<Rightarrow> (ustr \<times> nat \<times> nat) list \<Rightarrow> (ustr \<times> nat \<times> nat) list" where
  "bump g ok [] = [(g, of_bool ok, 1)]"
| "bump g ok ((h, p, n) # m) =
     (if g = h then (h, p + of_bool ok, n + 1) # m else (h, p, n) # bump g ok m)"

record eval_summary =
  ev_total :: nat
  ev_passed :: nat
  ev_failed :: nat
  ev_byGroup :: "(ustr \<times> nat \<times> nat) list"

definition aggregate :: "(ustr \<times> bool) list \<Rightarrow> eval_summary" where
  "aggregate results =
     (let passed = length (filter snd results)
      in \<lparr>ev_total = length results, ev_passed = passed, ev_failed = length results - passed,
          ev_byGroup = fold (\<lambda>(g, ok). bump g ok) results []\<rparr>)"

text \<open>The exit code of the runner: 1 with too few cases, or with a failure.\<close>

definition run_eval ::
  "runtime \<Rightarrow> call_env \<Rightarrow> call_env \<Rightarrow> (nat \<Rightarrow> call_env) \<Rightarrow> nat option \<Rightarrow> eval_case list \<Rightarrow> eval_summary option \<times> nat" where
  "run_eval rt env1 env2 envs minimum cases =
     (if length cases < or_default minimum 30 then (None, 1)
      else let summary = aggregate (map (\<lambda>c. (ec_group c, scoreCase rt env1 env2 envs c = [])) cases)
        in (Some summary, if ev_failed summary > 0 then 1 else 0))"

definition REQUIRED_GROUPS :: "ustr list" where
  "REQUIRED_GROUPS = map lit [''G1'', ''G2'', ''G3'', ''G4'', ''G5'', ''G6'', ''G7'']"

text \<open>\<open>validate.mjs\<close>: the number of errors; \<open>ids\<close> and \<open>groups\<close> are the sets of the loop.\<close>

fun case_errors :: "eval_case list \<Rightarrow> ustr set \<Rightarrow> ustr set \<Rightarrow> nat \<times> ustr set" where
  "case_errors [] ids groups = (0, groups)"
| "case_errors (c # cs) ids groups =
     (if ec_id c = [] then (case case_errors cs ids groups of (n, gs) \<Rightarrow> (n + 1, gs))
      else case case_errors cs (insert (ec_id c) ids) (insert (ec_group c) groups) of
        (n, gs) \<Rightarrow>
          (n + of_bool (ec_id c \<in> ids) + of_bool (ec_group c = []) +
            of_bool (or_default (ec_kind c) (lit ''draft_validation'') = lit ''draft_validation'' \<and> ec_draft c = None), gs))"

definition validate_errors :: "nat option \<Rightarrow> eval_case list \<Rightarrow> nat" where
  "validate_errors minimum cases =
     (case case_errors cases {} {} of (n, groups) \<Rightarrow>
        n + of_bool (length cases < or_default minimum 30) + length (filter (\<lambda>g. g \<notin> groups) REQUIRED_GROUPS))"

subsection \<open>What a score means\<close>

lemma fail_if_Nil [simp]: "fail_if b m = [] \<longleftrightarrow> \<not> b"
  by (simp add: fail_if_def)

definition no_expectation :: expectation where
  "no_expectation = \<lparr>ex_propose_allowed = None, ex_fail_code = [], ex_must_contain_slug = False,
     ex_slug_in_draft = None, ex_must_not_claim_paid = False, ex_locale = [], ex_body_sanitized = False,
     ex_allowed_tools = None, ex_allowed_tools_exactly = None, ex_forbidden_tools = [],
     ex_read_only_tools = [], ex_duplicate_collapses = False, ex_distinct_per_principal = False\<rparr>"

lemma score_allowed_iff:
  "draft_failures rt (no_expectation\<lparr>ex_propose_allowed := Some b\<rparr>) payload = [] \<longleftrightarrow>
     (draft_ok (normal_draft rt payload) \<longleftrightarrow> b)"
  by (cases rule: validateMessageDraft_cases [of rt payload])
    (auto simp: draft_failures_def no_expectation_def err_def Let_def)

lemma score_paid_claim_iff:
  "draft_failures rt (no_expectation\<lparr>ex_must_not_claim_paid := True\<rparr>) payload = [] \<longleftrightarrow>
     md_paymentStatus payload \<noteq> lit ''PAID'' \<and> PAID_CLAIM_RE_test (md_body payload)"
  by (simp add: draft_failures_def no_expectation_def lintFalsePaidClaim_def err_def Let_def)

lemma bump_sums:
  "sum_list (map (\<lambda>(g, p, n). n) (bump g ok m)) = sum_list (map (\<lambda>(g, p, n). n) m) + 1"
  "sum_list (map (\<lambda>(g, p, n). p) (bump g ok m)) = sum_list (map (\<lambda>(g, p, n). p) m) + of_bool ok"
  by (induction m) auto

lemma bump_groups: "set (map fst (bump g ok m)) = insert g (set (map fst m))"
  by (induction g ok m rule: bump.induct) (simp_all add: insert_commute)

lemma bump_distinct: "distinct (map fst m) \<Longrightarrow> distinct (map fst (bump g ok m))"
proof (induction g ok m rule: bump.induct)
  case (2 g ok h p n m)
  then show ?case using bump_groups [of g ok m] by (auto simp del: set_map)
qed simp

lemma fold_bump:
  "sum_list (map (\<lambda>(g, p, n). n) (fold (\<lambda>(g, ok). bump g ok) rs m)) =
     sum_list (map (\<lambda>(g, p, n). n) m) + length rs"
  "sum_list (map (\<lambda>(g, p, n). p) (fold (\<lambda>(g, ok). bump g ok) rs m)) =
     sum_list (map (\<lambda>(g, p, n). p) m) + length (filter snd rs)"
  by (induction rs arbitrary: m) (auto simp: bump_sums)

text \<open>The groups partition the results.\<close>

lemma aggregate_sums:
  "let s = aggregate rs
   in sum_list (map (\<lambda>(g, p, n). n) (ev_byGroup s)) = ev_total s \<and>
      sum_list (map (\<lambda>(g, p, n). p) (ev_byGroup s)) = ev_passed s \<and> ev_passed s + ev_failed s = ev_total s"
  by (simp add: aggregate_def fold_bump Let_def)

lemma eval_key_not_blank: "js_trim (eval_idempotencyKeyFor rt who p b now) \<noteq> []"
proof -
  have "js_trim (109 # xs) \<noteq> []" for xs
    by (simp add: js_trim_def is_ws_def dropWhile_eq_Nil_conv)
  then show ?thesis by (simp add: eval_idempotencyKeyFor_def lit_def)
qed

end
