(* ===== verification/SellerProps.thy ===== *)
theory SellerProps
  imports SellerForms WalletPages OrderPage AuthPages SettingsPages ServiceWorker Shell Evals Fixtures
begin

text \<open>
  The properties of the seller's application, of the service worker and of the evaluations.
\<close>

subsection \<open>Orders\<close>

text \<open>C17: what the seller shares is what was asked for. In every history of the page for a new order,
  once it shows a created order, the amount it shows and shares is positive, at most the greatest
  safe integer, and the amount of the last request sent, whatever the server answered and whatever
  was typed meanwhile; and from then on no further request is sent.\<close>

theorem created_amount_as_asked:
  assumes "cr_result (fold (create_do N t origin customer) es new_create) = Some r"
  shows "let page = fold (create_do N t origin customer) es new_create
    in (\<exists>n. ct_amount r = Some n \<and> 0 < n \<and> n \<le> MAX_SAFE_INTEGER \<and>
         asked_amount (last (cr_requests page)) = JNum (dec n)) \<and>
       cr_requests (fold (create_do N t origin customer) later page) = cr_requests page"
proof -
  let ?page = "fold (create_do N t origin customer) es new_create"
  have c: "create_inv ?page"
    using creating.run_keeps [OF create_inv_new, of es N t origin customer] by (simp add: list_all_iff)
  then have "\<exists>n. ct_amount r = Some n \<and> asked_for ?page n"
    using assms by (auto simp: create_inv_def)
  moreover have "cr_requests (fold (create_do N t origin customer) later ?page) = cr_requests ?page"
    using created.run_quiet [of ?page later N t origin customer] c assms by (simp add: list_all_iff)
  ultimately show ?thesis by (auto simp: asked_for_def Let_def)
qed

definition demo_numbers :: js_numbers where
  "demo_numbers = \<lparr>nm_of = Some, nm_text = dec\<rparr>"

definition demo_texts :: messages where
  "demo_texts k = lit k"

definition demo_created :: created_order where
  "demo_created = \<lparr>ct_checkout_url = lit ''u'', ct_id = lit ''i'', ct_slug = lit ''s'', ct_title = None, ct_amount = None\<rparr>"

lemma demo_amount: "parseUsdtToBaseUnits [53] = Some 5000000" "amount_input [53] = [53]"
  by (simp_all add: parseUsdtToBaseUnits_def amount_input_def strip_commas_def usdt_re_def whole_part_def
      frac_part_def is_digit_def js_trim_def is_ws_def undec_def SCALE_def MAX_SAFE_INTEGER_def lit_def Let_def)

lemma demo_new_order:
  "cr_result (fold (create_do demo_numbers demo_texts [] [])
     [Cr_gate False (Answered True), Cr_amount [53], Cr_submit, Cr_order (Answered demo_created)] new_create) =
   Some (demo_created\<lparr>ct_checkout_url := lit ''u'', ct_amount := Some 5000000\<rparr>)"
  by (simp add: create_steps new_create_def demo_amount create_form_def create_disabled_def
      isValidUsdtAmount_def demo_created_def or_text_def)

theorem created_amount_as_asked_witness:
  "let page = fold (create_do demo_numbers demo_texts [] [])
      [Cr_gate False (Answered True), Cr_amount [53], Cr_submit, Cr_order (Answered demo_created)] new_create
    in (\<exists>n. ct_amount (demo_created\<lparr>ct_checkout_url := lit ''u'', ct_amount := Some 5000000\<rparr>) = Some n \<and> 0 < n \<and>
         n \<le> MAX_SAFE_INTEGER \<and> asked_amount (last (cr_requests page)) = JNum (dec n)) \<and>
       cr_requests (fold (create_do demo_numbers demo_texts [] []) [Cr_submit] page) = cr_requests page"
  by (rule created_amount_as_asked [OF demo_new_order])

text \<open>An order created in USDT has no page. The request of the page for a new order names no
  amount in toman, and the seller's page of an order that has none cannot be rendered: it throws on
  the absent amount, whatever else the order holds and whatever the state of the page.\<close>

lemma usdt_order_has_no_page:
  assumes "od_amountToman d = None"
  shows "prop_of (order_body N customer c value) (lit ''fiat_amount_toman'') = JUndef \<and>
    order_screen_of localeNumber t gatewayConfigured d p = None"
  using assms
  by (simp add: order_screen_throws order_body_def optional_entry_def Let_def)

definition demo_order :: order where
  "demo_order = \<lparr>od_id = lit ''i'', od_slug = lit ''s'', od_title = [], od_amountToman = None,
     od_status = lit ''PAID'', od_fulfillment = lit ''UNFULFILLED'', od_shipping_provider = [],
     od_tracking_number = [], od_checkout_url = [], od_intent = None, od_field_values = []\<rparr>"

text \<open>C18: nothing is shipped that is not paid. In every history of the page of an order, every change
  of the fulfillment it asks the server for is sent while the page shows a payment that is paid, or
  was paid late, and asks for one of the three statuses of the seller's buttons.\<close>

theorem nothing_ships_unpaid:
  assumes "Req_fulfil i status nxt extra \<in> set (od_requests (fold (order_do t) es (new_order_page url)))"
  shows "canFulfill (Some status) \<and> nxt \<in> {lit ''PROCESSING'', lit ''SHIPPED'', lit ''DELIVERED''}"
proof -
  have "list_all fulfil_ok (od_requests (fold (order_do t) es (new_order_page url)))"
    using fulfilling.run_keeps [of "new_order_page url" es t] by (simp add: new_order_page_def list_all_iff)
  then have "fulfil_ok (Req_fulfil i status nxt extra)" using assms by (simp only: list_all_iff)
  then show ?thesis by simp
qed

lemma demo_fulfil:
  "od_requests (fold (order_do demo_texts) [Od_loaded (Answered demo_order), Od_fulfil Mark_processing]
     (new_order_page None)) = [Req_fulfil (lit ''i'') (lit ''PAID'') (lit ''PROCESSING'') None]"
  by (simp add: order_steps new_order_page_def demo_order_def fulfil_buttons_def fulfil_section_def order_paid_def
      displayStatus_def canFulfill_def)

theorem nothing_ships_unpaid_witness:
  "canFulfill (Some (lit ''PAID'')) \<and> lit ''PROCESSING'' \<in> {lit ''PROCESSING'', lit ''SHIPPED'', lit ''DELIVERED''}"
  by (rule nothing_ships_unpaid
      [of "lit ''i''" "lit ''PAID''" "lit ''PROCESSING''" None demo_texts
        "[Od_loaded (Answered demo_order), Od_fulfil Mark_processing]" None])
    (simp only: demo_fulfil list.set insert_iff simp_thms)

subsection \<open>The wallets\<close>

text \<open>C19: only checked addresses are saved. In every history of the wallets page, every wallet it asks
  the server to add is on one of the two networks, its address has the form of that network's
  addresses, and it is the address without surrounding white space.\<close>

theorem saved_wallets_checked:
  assumes "Req_add d \<in> set (wp_requests (fold (wallets_do t) es new_wallets))"
  shows "(dr_network d = lit ''tron'' \<and> tron_address (dr_address d) \<or>
      dr_network d = lit ''bsc'' \<and> bsc_address (dr_address d)) \<and> js_trim (dr_address d) = dr_address d"
proof -
  have "wallets_inv (fold (wallets_do t) es new_wallets)"
    using wallet_list.run_keeps [OF wallets_inv_new, of es t] by (simp add: list_all_iff)
  then have "request_ok (Req_add d)" using assms by (simp only: wallets_inv_def list_all_iff)
  then have "wallet_draft_ok d" by simp
  then show ?thesis by (auto simp: wallet_draft_ok_def tron_address_trim bsc_address_trim)
qed

definition demo_address :: ustr where
  "demo_address = lit ''T'' @ replicate 33 49"

lemma demo_tron: "tron_address demo_address"
  by (simp add: demo_address_def tron_address_def lit_def base58_unit_def list_all_iff)

lemma demo_saved:
  "wp_requests (fold (wallets_do demo_texts) [Wp_form (lit ''tron'') demo_address [] False, Wp_save] new_wallets) =
     [Req_add \<lparr>dr_network = lit ''tron'', dr_address = demo_address, dr_label = [], dr_is_default = True\<rparr>]"
  by (simp add: onFormSubmit_def confirmSave_def new_wallets_def wallet_address_ok_def tron_address_trim
      demo_tron Let_def)

theorem saved_wallets_checked_witness:
  "(lit ''tron'' = lit ''tron'' \<and> tron_address demo_address \<or> lit ''tron'' = lit ''bsc'' \<and> bsc_address demo_address) \<and>
     js_trim demo_address = demo_address"
  using saved_wallets_checked
    [of "\<lparr>dr_network = lit ''tron'', dr_address = demo_address, dr_label = [], dr_is_default = True\<rparr>" demo_texts
      "[Wp_form (lit ''tron'') demo_address [] False, Wp_save]"]
  unfolding demo_saved by simp

text \<open>A list that failed to load makes the next wallet the default. When the page could not load the
  wallets, it takes the list for empty: it shows no box for the default, and the wallet the seller
  saves is sent as the default of its network, whatever default the seller already has.\<close>

lemma unloaded_list_sets_default:
  assumes "n \<in> {lit ''tron'', lit ''bsc''}" "wallet_address_ok n (js_trim a)"
  shows "let p = wallets_do t (Wp_loaded (Threw m)) new_wallets
    in \<not> default_box_shown p \<and>
       wp_requests (fold (wallets_do t) [Wp_form n a l False, Wp_save] p) =
         [Req_add \<lparr>dr_network = n, dr_address = js_trim a, dr_label = js_trim l, dr_is_default = True\<rparr>]"
  using assms by (simp add: onFormSubmit_def confirmSave_def new_wallets_def default_box_shown_def Let_def)

subsection \<open>Lists\<close>

text \<open>C21: the list of orders settles on what the box holds. In every history in which no request fails
  and the answers come in the order of the requests, whatever is typed, filtered or announced by the
  server in between, once no timer is set and no request is out the list shown answers the query of
  the box and the filter.\<close>

theorem orders_settle_on_query:
  assumes "list_all orders_orderly es"
    and "\<not> ol_armed (fold orders_do es (new_orders attention q))"
    and "ol_flight (fold orders_do es (new_orders attention q)) = []"
  shows "ol_shown (fold orders_do es (new_orders attention q)) =
    Some (orders_want (fold orders_do es (new_orders attention q)))"
  using orders.quiet_shows_want [OF new_orders_settles assms(1)] assms(2,3) by simp

lemmas orders_eval = orders_type_def orders_timer_def orders_answer_def orders_want_def orders_query_def
  new_orders_def

theorem orders_settle_on_query_witness:
  "ol_shown (fold orders_do [Ol_timer, Ol_answer 0 (Answered [])] (new_orders False [])) =
    Some (orders_want (fold orders_do [Ol_timer, Ol_answer 0 (Answered [])] (new_orders False [])))"
  by (rule orders_settle_on_query) (simp_all add: orders_eval)

text \<open>Out of order, the older answer wins: the box holds a letter, nothing is out, and the list answers
  the empty query.\<close>

lemma stale_orders:
  "let p = fold orders_do [Ol_timer, Ol_type [97], Ol_timer, Ol_answer 1 (Answered []), Ol_answer 0 (Answered [])]
       (new_orders False [])
   in \<not> ol_armed p \<and> ol_flight p = [] \<and> ol_shown p = Some [] \<and> orders_want p = [(lit ''q'', [97])]"
  by (simp add: orders_eval js_trim_def is_ws_def)

lemma customers_settle_on_query:
  assumes "list_all customers_orderly es"
    and "\<not> cp_armed (fold customers_do es new_customers)" "cp_flight (fold customers_do es new_customers) = []"
  shows "cp_shown (fold customers_do es new_customers) =
    Some (the (customers_path (cp_q (fold customers_do es new_customers))))"
  using customers.quiet_shows_want [OF new_customers_settles assms(1)] assms(2,3) by simp

subsection \<open>Service worker\<close>

text \<open>C20: the gateway's first answer about a proposal is its last. Although the service worker means to
  leave every API alone, it intercepts the application's request for a proposal, which goes to the
  path of the action gateway: once that request was answered with success, the application is given
  this same answer whatever the gateway would answer since, through any number of activations
  and other requests, as long as nobody navigates to that URL.\<close>

theorem proposal_answer_frozen:
  assumes "one_cache w" "r = proposal_request (sw_origin w) encodedId" "caches_match (rq_url r) w = None"
    and "rs_ok first_answer" "list_all (leaves_entry (rq_url r)) es"
  shows "fst (sw_fetch network r (fold sw_do es (snd (sw_fetch (Some first_answer) r w)))) = Reply_with first_answer"
proof -
  have c: "cache_first r" and o: "rq_origin r = sw_origin w"
    using assms(2) proposal_request_cached by (simp_all add: proposal_request_def)
  have "caches_match (rq_url r) (fold sw_do es (snd (sw_fetch (Some first_answer) r w))) = Some first_answer"
    using frozen.run_keeps [of "snd (sw_fetch (Some first_answer) r w)" "rq_url r" first_answer es]
      one_cache_fetch [OF assms(1)] fetch_fills_cache(2) [OF assms(1) c o assms(4,3)] assms(5) by blast
  then show ?thesis by (simp add: fetch_from_cache [OF c])
qed

theorem proposal_answer_frozen_witness:
  "let w = \<lparr>sw_origin = lit ''o'', sw_caches = []\<rparr>; r = proposal_request (lit ''o'') (lit ''p1'')
   in fst (sw_fetch (Some \<lparr>rs_ok = True, rs_body = lit ''confirmed''\<rparr>) r
        (fold sw_do [Sw_activate] (snd (sw_fetch (Some \<lparr>rs_ok = True, rs_body = lit ''pending''\<rparr>) r w)))) =
      Reply_with \<lparr>rs_ok = True, rs_body = lit ''pending''\<rparr>"
  unfolding Let_def
  by (rule proposal_answer_frozen [of _ _ "lit ''p1''"])
    (simp_all add: one_cache_def caches_match_def leaves_entry_def)

subsection \<open>Settings and administration\<close>

text \<open>Connecting Telegram always reports a failure. When the server gave a link, the page shows the
  message that the window could not be opened, and never the one that asks to finish in Telegram,
  whether or not the browser opened the window: with these features no window is returned.\<close>

lemma telegram_reports_failure:
  assumes "tp_waits p = Some Wait_link" "url \<noteq> []"
  shows "let q = panel_do t (Tp_link opened (Answered url)) p
    in tp_error q = t ''settings.telegramOpenFailed'' \<and> tp_msg q = tp_msg p \<and> tp_deepLink q = url \<and> tp_awaiting q"
  using assms by (simp add: connect_answered_def window_open_noopener Let_def)

text \<open>A resolution always ends with an error. In every history of the administrator's page, when the
  server granted the request, the page shows the toast and then the exception of
  \<open>e.currentTarget.reset()\<close>: the handler has ended, the form keeps its text, and the lists are not
  asked for; nor does any later event find a resolution that waits for them.\<close>

lemma resolution_ends_with_error:
  assumes "ad_waits (fold (admin_do t) es new_admin) = Some (Wait_resolve f)"
  shows "let p = fold (admin_do t) es new_admin; q = admin_do t (Ad_resolved (Answered ())) p
    in ad_error q = null_reset \<and> ad_toasts q = ad_toasts p @ [t ''admin.resolved''] \<and> ad_form q = ad_form p \<and>
       ad_waits q = None \<and> ad_loads q = ad_loads p \<and> ad_exceptions q = ad_exceptions p \<and>
       ad_waits (fold (admin_do t) later q) \<noteq> Some Wait_admin_load"
proof -
  let ?p = "fold (admin_do t) es new_admin" let ?q = "admin_do t (Ad_resolved (Answered ())) ?p"
  have q: "ad_waits ?q = None" using assms by (simp add: admin_steps)
  then have "ad_waits (fold (admin_do t) later ?q) \<noteq> Some Wait_admin_load"
    using resolving.run_keeps [of ?q later t] by (simp add: list_all_iff)
  then show ?thesis using assms q by (simp add: admin_steps)
qed

lemma demo_resolving: "ad_waits (fold (admin_do demo_texts) [Ad_resolve] new_admin) = Some (Wait_resolve empty_form)"
  by (simp add: new_admin_def admin_steps)

subsection \<open>Evaluations\<close>

lemma lint_claims:
  "(case lintFalsePaidClaim b st of Ok _ \<Rightarrow> True | Err _ \<Rightarrow> False) \<longleftrightarrow> st = lit ''PAID'' \<or> \<not> PAID_CLAIM_RE_test b"
  by (simp add: lintFalsePaidClaim_def err_def)

lemma draft_score_accepted:
  assumes "validateMessageDraft rt p = Ok v"
  shows "draft_failures rt ex p = [] \<longleftrightarrow> ex_propose_allowed ex \<noteq> Some False \<and>
    (ex_must_contain_slug ex \<longrightarrow> containsSlug rt (md_body v) (or_default (ex_slug_in_draft ex) (md_orderSlug p))) \<and>
    (ex_must_not_claim_paid ex \<longrightarrow> \<not> (md_paymentStatus p = lit ''PAID'' \<or> \<not> PAID_CLAIM_RE_test (md_body p))) \<and>
    (ex_locale ex \<noteq> [] \<longrightarrow> md_locale v = ex_locale ex) \<and> \<not> (ex_body_sanitized ex \<and> (\<exists>u\<in>set (md_body v). u \<le> 31))"
  unfolding draft_failures_def assms Let_def lint_claims
  by (simp add: imp_conv_disj del: disj_not1 de_Morgan_disj)

lemma draft_score_refused:
  assumes "validateMessageDraft rt p = Err e"
  shows "draft_failures rt ex p = [] \<longleftrightarrow> ex_propose_allowed ex \<noteq> Some True \<and>
    (ex_fail_code ex \<noteq> [] \<longrightarrow> code_name (de_code e) = ex_fail_code ex) \<and>
    (ex_must_not_claim_paid ex \<longrightarrow> \<not> (md_paymentStatus p = lit ''PAID'' \<or> \<not> PAID_CLAIM_RE_test (md_body p)))"
  unfolding draft_failures_def assms Let_def lint_claims
  by (simp add: imp_conv_disj del: disj_not1 de_Morgan_disj)

lemma draft_score:
  assumes "scoreDraftCase rt c = []"
  shows "ex_propose_allowed (ec_expect c) = Some True \<Longrightarrow> draft_ok (normal_draft rt (payloadFromCase rt c))"
    "ex_propose_allowed (ec_expect c) = Some False \<Longrightarrow> \<not> draft_ok (normal_draft rt (payloadFromCase rt c))"
    "validateMessageDraft rt (payloadFromCase rt c) = Err e \<Longrightarrow> ex_fail_code (ec_expect c) \<noteq> [] \<Longrightarrow>
       code_name (de_code e) = ex_fail_code (ec_expect c)"
    "validateMessageDraft rt (payloadFromCase rt c) = Ok v \<Longrightarrow> ex_locale (ec_expect c) \<noteq> [] \<Longrightarrow>
       md_locale v = ex_locale (ec_expect c)"
    "validateMessageDraft rt (payloadFromCase rt c) = Ok v \<Longrightarrow> ex_must_contain_slug (ec_expect c) \<Longrightarrow>
       containsSlug rt (md_body v) (or_default (ex_slug_in_draft (ec_expect c)) (md_orderSlug (payloadFromCase rt c)))"
    "ex_must_not_claim_paid (ec_expect c) \<Longrightarrow> PAID_CLAIM_RE_test (md_body (payloadFromCase rt c)) \<and>
       md_paymentStatus (payloadFromCase rt c) \<noteq> lit ''PAID''"
proof -
  let ?p = "payloadFromCase rt c" and ?ex = "ec_expect c"
  have f: "draft_failures rt ?ex ?p = []" using assms by (simp add: scoreDraftCase_def)
  have ok: "v = normal_draft rt ?p \<and> draft_ok (normal_draft rt ?p)" if "validateMessageDraft rt ?p = Ok v" for v
    using that by (auto simp: validateMessageDraft_Ok_iff)
  have no: "\<not> draft_ok (normal_draft rt ?p)" if "validateMessageDraft rt ?p = Err e" for e
    using that validateMessageDraft_Ok_iff [of rt ?p "normal_draft rt ?p"] by auto
  note acc = draft_score_accepted [THEN iffD1, OF _ f] and ref = draft_score_refused [THEN iffD1, OF _ f]
  show "ex_propose_allowed ?ex = Some True \<Longrightarrow> draft_ok (normal_draft rt ?p)"
    using ok ref by (cases "validateMessageDraft rt ?p") blast+
  show "ex_propose_allowed ?ex = Some False \<Longrightarrow> \<not> draft_ok (normal_draft rt ?p)"
    using no acc by (cases "validateMessageDraft rt ?p") blast+
  show "ex_must_not_claim_paid ?ex \<Longrightarrow> PAID_CLAIM_RE_test (md_body ?p) \<and> md_paymentStatus ?p \<noteq> lit ''PAID''"
    using acc ref by (cases "validateMessageDraft rt ?p") blast+
  show "validateMessageDraft rt ?p = Err e \<Longrightarrow> ex_fail_code ?ex \<noteq> [] \<Longrightarrow> code_name (de_code e) = ex_fail_code ?ex"
    using ref by blast
  show "validateMessageDraft rt ?p = Ok v \<Longrightarrow> ex_locale ?ex \<noteq> [] \<Longrightarrow> md_locale v = ex_locale ?ex"
    using acc by blast
  show "validateMessageDraft rt ?p = Ok v \<Longrightarrow> ex_must_contain_slug ?ex \<Longrightarrow>
       containsSlug rt (md_body v) (or_default (ex_slug_in_draft ?ex) (md_orderSlug ?p))"
    using acc by blast
qed

lemma aggregate_green: "ev_failed (aggregate rs) = 0 \<Longrightarrow> \<forall>x\<in>set rs. snd x"
proof -
  assume "ev_failed (aggregate rs) = 0"
  then have "length rs - length (filter snd rs) = 0" by (simp add: aggregate_def Let_def)
  then have "length (filter (\<lambda>x. \<not> snd x) rs) = 0" using sum_length_filter_compl [of snd rs] by linarith
  then show ?thesis by (simp only: length_0_conv filter_empty_conv not_not)
qed

text \<open>A green run has enough cases, and each of them scored no failure.\<close>

lemma run_eval_green:
  assumes "run_eval rt env1 env2 envs minimum cases = (Some summary, 0)"
  shows "or_default minimum 30 \<le> length cases \<and> (\<forall>c\<in>set cases. scoreCase rt env1 env2 envs c = [])"
proof -
  let ?rs = "map (\<lambda>c. (ec_group c, scoreCase rt env1 env2 envs c = [])) cases"
  have enough: "or_default minimum 30 \<le> length cases" and "ev_failed (aggregate ?rs) = 0"
    using assms by (auto simp: run_eval_def Let_def split: if_splits)
  then have "\<forall>x\<in>set ?rs. snd x" by (intro aggregate_green)
  with enough show ?thesis by simp
qed

text \<open>C22: what a green run of the evaluations says about the gateway, but for one check that is
  inverted. When the runner exits with 0, there were enough cases, and for every case that is neither
  about tools nor about idempotency, with the draft its fields make: where it expects the draft to be
  allowed, the registry, asked with any key that is new, stores that draft, normalised, in the
  expected locale and mentioning the expected slug, as a proposal that waits for a human; where it
  expects a refusal, the registry refuses it whatever the key, with the expected code, and stores
  nothing; and where it expects a draft not to claim payment, the draft does claim it.\<close>

theorem evaluations_certify:
  assumes "run_eval rt env1 env2 envs minimum cases = (Some summary, 0)" "c \<in> set cases"
    and "ec_kind c \<noteq> Some (lit ''tool_policy'')" "ec_kind c \<noteq> Some (lit ''idempotency'')"
  shows "let p = payloadFromCase rt c; ex = ec_expect c;
      ask = (\<lambda>env key. run mem_ops (reg_propose rt ttl env \<lparr>pi_payload = p, pi_idempotencyKey = key\<rparr>))
    in or_default minimum 30 \<le> length cases \<and>
      (ex_propose_allowed ex = Some True \<longrightarrow>
        (\<forall>env key s. mem_inv s \<and> js_trim key \<noteq> [] \<and> mem_findByIdempotencyKey s key = None \<and>
           ce_newId env \<noteq> [] \<and> mem_get s (ce_newId env) = None \<longrightarrow>
           (\<exists>q. mem_get (fst (ask env key s)) (ce_newId env) = Some q \<and> p_state q = Pending_confirmation \<and>
             p_payload q = normal_draft rt p \<and> (ex_locale ex \<noteq> [] \<longrightarrow> md_locale (p_payload q) = ex_locale ex) \<and>
             (ex_must_contain_slug ex \<longrightarrow>
               containsSlug rt (md_body (p_payload q)) (or_default (ex_slug_in_draft ex) (md_orderSlug p)))))) \<and>
      (ex_propose_allowed ex = Some False \<longrightarrow>
        (\<forall>env key s. \<exists>e. ask env key s = (s, Err e) \<and>
           (ex_fail_code ex \<noteq> [] \<longrightarrow> code_name (de_code e) = ex_fail_code ex))) \<and>
      (ex_must_not_claim_paid ex \<longrightarrow> PAID_CLAIM_RE_test (md_body p) \<and> md_paymentStatus p \<noteq> lit ''PAID'')"
proof -
  let ?p = "payloadFromCase rt c" and ?ex = "ec_expect c"
  let ?ask = "\<lambda>env key. run mem_ops (reg_propose rt ttl env \<lparr>pi_payload = ?p, pi_idempotencyKey = key\<rparr>)"
  have "scoreCase rt env1 env2 envs c = []" using run_eval_green [OF assms(1)] assms(2) by blast
  then have score: "scoreDraftCase rt c = []"
    using assms(3,4) by (cases "ec_kind c") (simp_all add: scoreCase_def or_default_def Let_def lit_def split: if_splits)
  note says = draft_score [OF score]
  have stores: "\<exists>q. mem_get (fst (?ask env key s)) (ce_newId env) = Some q \<and> p_state q = Pending_confirmation \<and>
      p_payload q = normal_draft rt ?p \<and> (ex_locale ?ex \<noteq> [] \<longrightarrow> md_locale (p_payload q) = ex_locale ?ex) \<and>
      (ex_must_contain_slug ?ex \<longrightarrow>
        containsSlug rt (md_body (p_payload q)) (or_default (ex_slug_in_draft ?ex) (md_orderSlug ?p)))"
    if allowed: "ex_propose_allowed ?ex = Some True" and fresh: "mem_inv s" "js_trim key \<noteq> []"
      "mem_findByIdempotencyKey s key = None" "ce_newId env \<noteq> []" "mem_get s (ce_newId env) = None" for env key s
  proof -
    let ?in = "\<lparr>pi_payload = ?p, pi_idempotencyKey = key\<rparr>"
    have ok: "validateMessageDraft rt ?p = Ok (normal_draft rt ?p)"
      using says(1) [OF allowed] by (simp add: validateMessageDraft_Ok_iff)
    obtain s' where "fst (?ask env key s) = s'"
      "mem_get s' = (mem_get s)(ce_newId env \<mapsto> new_proposal rt ttl env ?in (normal_draft rt ?p))"
      using mem.run_propose_new [OF fresh(1), of rt ?in "normal_draft rt ?p" env ttl] ok fresh(2-5)
      by (auto simp: mem_ops_def)
    then show ?thesis using says(4,5) [OF ok] by (simp add: new_proposal_def)
  qed
  have refuses: "\<exists>e. ?ask env key s = (s, Err e) \<and>
      (ex_fail_code ?ex \<noteq> [] \<longrightarrow> code_name (de_code e) = ex_fail_code ?ex)"
    if refused: "ex_propose_allowed ?ex = Some False" for env key s
  proof -
    obtain e where "validateMessageDraft rt ?p = Err e"
      using says(2) [OF refused] by (cases rule: validateMessageDraft_cases [of rt ?p]) (auto simp: err_def)
    then show ?thesis using says(3) [of e] by (intro exI [of _ e]) (simp add: reg_propose_def)
  qed
  show ?thesis
    unfolding Let_def using run_eval_green [OF assms(1)] stores refuses says(6) by blast
qed

text \<open>A suite of two cases: a reminder that is to be allowed, and an empty draft that is to be refused.\<close>

definition demo_case :: "string \<Rightarrow> bool \<Rightarrow> eval_case" where
  "demo_case txt allowed = \<lparr>ec_id = lit ''c1'', ec_group = lit ''G1'', ec_kind = None, ec_draft = Some (lit txt),
     ec_order_slug = None, ec_locale = None, ec_payment_status = None, ec_principal = None, ec_principals = None,
     ec_expect = no_expectation\<lparr>ex_propose_allowed := Some allowed\<rparr>\<rparr>"

definition demo_suite :: "eval_case list" where
  "demo_suite = [demo_case ''Your order is awaiting payment.'' True, demo_case '''' False]"

definition eval_env :: call_env where
  "eval_env = \<lparr>ce_newId = lit ''prop_1'', ce_newLinkCode = demo_code, ce_now = 0, ce_later = 0, ce_clock = 0\<rparr>"

lemma demo_case_payload:
  "payloadFromCase demo_rt (demo_case txt allowed) = TEST_MESSAGE\<lparr>md_merchantId := [], md_body := lit txt\<rparr>"
proof -
  have "js_trim (lit ''ceramic-mug-e2e'') = lit ''ceramic-mug-e2e''" "js_trim (lit ''en'') = lit ''en''"
    "js_trim (lit ''AWAITING_PAYMENT'') = lit ''AWAITING_PAYMENT''"
    by (intro js_trim_no_ws, simp add: lit_def is_ws_def)+
  moreover have "js_lower demo_rt (lit ''ceramic-mug-e2e'') = lit ''ceramic-mug-e2e''"
    "js_lower demo_rt (lit ''en'') = lit ''en''" "js_upper demo_rt (lit ''AWAITING_PAYMENT'') = lit ''AWAITING_PAYMENT''"
    by (simp_all add: js_lower_id js_upper_id lit_def)
  ultimately show ?thesis
    by (simp add: payloadFromCase_def demo_case_def or_default_def FIXTURE_ORDER_ID_def TEST_MESSAGE_def)
qed

lemma demo_case_expects [simp]:
  "ec_expect (demo_case txt allowed) = no_expectation\<lparr>ex_propose_allowed := Some allowed\<rparr>"
  "ec_kind (demo_case txt allowed) = None"
  by (simp_all add: demo_case_def)

lemma demo_case_allowed:
  "draft_ok (normal_draft demo_rt (TEST_MESSAGE\<lparr>md_merchantId := [], md_body := lit ''Your order is awaiting payment.''\<rparr>))"
proof -
  let ?m = "TEST_MESSAGE\<lparr>md_merchantId := [], md_body := lit ''Your order is awaiting payment.''\<rparr>"
  have ok: "draft_ok ?m" using demo_draft_ok by (simp add: draft_ok_def)
  then have "normal_draft demo_rt ?m = ?m"
    by (intro normal_draft_id) (simp_all add: demo_body_clean js_trim_def)
  with ok show ?thesis by simp
qed

lemma demo_case_refused: "\<not> draft_ok (normal_draft demo_rt (TEST_MESSAGE\<lparr>md_merchantId := [], md_body := lit ''''\<rparr>))"
  by (simp add: draft_ok_def normal_draft_def sanitizeBody_def js_trim_def)

lemma demo_green: "\<exists>summary. run_eval demo_rt eval_env eval_env (\<lambda>n. eval_env) (Some 2) demo_suite = (Some summary, 0)"
proof -
  have "scoreCase demo_rt eval_env eval_env (\<lambda>n. eval_env) c = []" if "c \<in> set demo_suite" for c
    using that demo_case_allowed demo_case_refused
    by (auto simp: demo_suite_def scoreCase_def or_default_def scoreDraftCase_def demo_case_payload score_allowed_iff
        lit_def simp del: TEST_MESSAGE_fields)
  then have "map (\<lambda>c. (ec_group c, scoreCase demo_rt eval_env eval_env (\<lambda>n. eval_env) c = [])) demo_suite =
      map (\<lambda>c. (ec_group c, True)) demo_suite" by simp
  moreover have "ev_failed (aggregate (map (\<lambda>c. (ec_group c, True)) demo_suite)) = 0"
    by (simp add: aggregate_def demo_suite_def)
  ultimately show ?thesis by (simp add: run_eval_def or_default_def Let_def) (simp add: demo_suite_def)
qed

theorem evaluations_certify_witness:
  "(\<exists>q. mem_get (fst (run mem_ops (reg_propose demo_rt 300 eval_env
      \<lparr>pi_payload = TEST_MESSAGE\<lparr>md_merchantId := [], md_body := lit ''Your order is awaiting payment.''\<rparr>,
       pi_idempotencyKey = lit ''key-1''\<rparr>) mem_empty)) (lit ''prop_1'') = Some q \<and> p_state q = Pending_confirmation) \<and>
   (\<exists>e. run mem_ops (reg_propose demo_rt 300 eval_env
      \<lparr>pi_payload = TEST_MESSAGE\<lparr>md_merchantId := [], md_body := lit ''''\<rparr>, pi_idempotencyKey = lit ''key-1''\<rparr>) mem_empty =
      (mem_empty, Err e))"
proof -
  obtain summary where run: "run_eval demo_rt eval_env eval_env (\<lambda>n. eval_env) (Some 2) demo_suite = (Some summary, 0)"
    using demo_green by blast
  let ?a = "demo_case ''Your order is awaiting payment.'' True" and ?b = "demo_case '''' False"
  have cases: "?a \<in> set demo_suite" "?b \<in> set demo_suite" by (simp_all add: demo_suite_def)
  note says = evaluations_certify [OF run _ , of _ 300, unfolded Let_def]
  have empty: "mem_inv mem_empty" "mem_findByIdempotencyKey mem_empty (lit ''key-1'') = None"
    "mem_get mem_empty (lit ''prop_1'') = None" "js_trim (lit ''key-1'') \<noteq> []" "ce_newId eval_env = lit ''prop_1''"
    using mem_inv_empty js_trim_no_ws [of "lit ''key-1''"]
    by (simp_all add: mem_defs mem_empty_def eval_env_def lit_def is_ws_def)
  show ?thesis
    using says [OF cases(1), THEN conjunct2, THEN conjunct1, rule_format, of mem_empty "lit ''key-1''" eval_env]
      says [OF cases(2), THEN conjunct2, THEN conjunct2, THEN conjunct1, rule_format, of eval_env "lit ''key-1''" mem_empty] empty
    by (simp add: demo_case_payload) blast
qed

end
