(* ===== verification/Ledger.thy ===== *)
theory Ledger
  imports RegistryProps
begin

text \<open>
  What the registry promises, without versions, keys, hashes and interleavings: a ledger that holds
  for each proposal its draft and its state, and the calls that were made. A step of the
  specification makes a call, files a validated draft that a call proposed, or moves one
  entry along the table of legal transitions, to confirmed only for a call that presented the digest
  of that very draft and to rejected only for a call that declined it. The registry over the
  code's store, with any number of calls interleaved at their awaits, refines it.
\<close>

record ledger =
  lg_calls :: "call list"
  lg_entries :: "ustr \<rightharpoonup> message_draft \<times> proposal_state"

definition ledger_empty :: ledger where
  "ledger_empty = \<lparr>lg_calls = [], lg_entries = Map.empty\<rparr>"

text \<open>Which calls entitle to a state.\<close>

fun entitled :: "runtime \<Rightarrow> call list \<Rightarrow> ustr \<Rightarrow> message_draft \<Rightarrow> proposal_state \<Rightarrow> bool" where
  "entitled rt calls i d Pending_confirmation =
     (\<exists>env input. Propose env input \<in> set calls \<and> validateMessageDraft rt (pi_payload input) = Ok d)"
| "entitled rt calls i d Confirmed =
     (\<exists>env code dig. Confirm env i code dig \<in> set calls \<and> safeEqualHex dig (digestPayload rt d))"
| "entitled rt calls i d Rejected = (\<exists>env. Reject env i \<in> set calls)"
| "entitled rt calls i d _ = True"

inductive ledger_step :: "runtime \<Rightarrow> ledger \<Rightarrow> ledger \<Rightarrow> bool" for rt :: runtime where
  staying: "ledger_step rt L L"
| calling: "ledger_step rt L (L\<lparr>lg_calls := lg_calls L @ [c]\<rparr>)"
| filing: "lg_entries L i = None \<Longrightarrow> entitled rt (lg_calls L) i d Pending_confirmation \<Longrightarrow>
    ledger_step rt L (L\<lparr>lg_entries := (lg_entries L)(i \<mapsto> (d, Pending_confirmation))\<rparr>)"
| moving: "lg_entries L i = Some (d, st) \<Longrightarrow> st' \<in> set (LEGAL st) \<Longrightarrow> entitled rt (lg_calls L) i d st' \<Longrightarrow>
    ledger_step rt L (L\<lparr>lg_entries := (lg_entries L)(i \<mapsto> (d, st'))\<rparr>)"

inductive_cases ledger_stepE: "ledger_step rt L M"

definition ledger_of :: "mem_store system \<Rightarrow> ledger" where
  "ledger_of S = \<lparr>lg_calls = sys_calls S,
     lg_entries = (\<lambda>i. map_option (\<lambda>p. (p_payload p, p_state p)) (mem_get (sys_store S) i))\<rparr>"

subsection \<open>The specification on its own\<close>

text \<open>An entry stays, keeps its draft, and never leaves a terminal state.\<close>

definition entry_kept :: "ledger \<Rightarrow> ledger \<Rightarrow> bool" where
  "entry_kept L M \<longleftrightarrow> (\<forall>i d st. lg_entries L i = Some (d, st) \<longrightarrow>
     (\<exists>st'. lg_entries M i = Some (d, st') \<and> (isTerminal st \<longrightarrow> st' = st)))"

lemma LEGAL_terminal: "isTerminal st \<Longrightarrow> LEGAL st = []"
  by (cases st) (simp_all add: isTerminal_def TERMINAL_STATES_def)

lemma entry_kept_refl: "entry_kept L L"
  by (simp add: entry_kept_def)

lemma entry_kept_step: "entry_kept K L \<Longrightarrow> ledger_step rt L M \<Longrightarrow> entry_kept K M"
  by (erule ledger_stepE) (fastforce simp: entry_kept_def LEGAL_terminal)+

subsection \<open>The registry refines it\<close>

lemma may_write_entitled:
  assumes "may_write rt (calls ! t) q" "t < length calls" "wf_proposal rt q"
  shows "entitled rt calls (p_id q) (p_payload q) (p_state q)"
proof -
  have c: "calls ! t \<in> set calls" using assms(2) by simp
  show ?thesis
  proof (cases "p_state q")
    case Pending_confirmation
    with assms(1) have "proposes rt (calls ! t) q" by (simp add: may_write_def)
    then obtain env input where "calls ! t = Propose env input"
      "validateMessageDraft rt (pi_payload input) = Ok (p_payload q)" by (cases "calls ! t") auto
    with c Pending_confirmation show ?thesis by (metis entitled.simps(1))
  next
    case Confirmed
    with assms(1) have "presents rt (calls ! t) q" by (simp add: may_write_def)
    with c Confirmed wf_digest [OF assms(3)] show ?thesis
      by (auto simp: presents_def split: call.splits)
  next
    case Rejected
    with assms(1) have "is_reject (calls ! t) q" by (simp add: may_write_def)
    then obtain env where "calls ! t = Reject env (p_id q)" by (cases "calls ! t") auto
    with c Rejected show ?thesis by (metis entitled.simps(3))
  qed simp_all
qed

lemma ledger_of_tick:
  assumes "sys_store T = s'" "sys_calls T = sys_calls S"
  shows "ledger_of T = (ledger_of S)\<lparr>lg_entries :=
    (\<lambda>i. map_option (\<lambda>p. (p_payload p, p_state p)) (mem_get s' i))\<rparr>"
  using assms by (simp add: ledger_of_def)

lemma tick_refines:
  assumes S: "sys_inv rt mem_ops mem_inv S" and t: "t < length (sys_pool S)"
  shows "ledger_step rt (ledger_of S) (ledger_of (sys_tick mem_ops t S))"
proof -
  let ?T = "sys_tick mem_ops t S"
  have tc: "t < length (sys_calls S)" using S t by (simp add: sys_inv_def)
  have same: "sys_store ?T = sys_store S \<Longrightarrow> ?thesis"
    by (simp add: ledger_of_def sys_tick_def ledger_step.staying split: prod.splits)
  have calls: "sys_calls ?T = sys_calls S" by (simp add: sys_tick_def split: prod.splits)
  show ?thesis
  proof (cases "sys_pool S ! t")
    case (AwaitInsert p k)
    obtain s' r where ins: "so_insert mem_ops (sys_store S) p = (s', r)" by fastforce
    then have store: "sys_store ?T = s'" by (simp add: sys_tick_def AwaitInsert)
    show ?thesis
    proof (cases r)
      case (Ok v)
      note w = mem.insert_writes [OF S t AwaitInsert ins [unfolded Ok]]
      then have "stage (p_state p) = 1" using wf_stage [of rt p] by simp
      then have "p_state p = Pending_confirmation" by simp
      moreover have "entitled rt (sys_calls S) (p_id p) (p_payload p) (p_state p)"
        using w may_write_entitled [OF _ tc] by blast
      moreover have "ledger_of ?T = (ledger_of S)\<lparr>lg_entries :=
          (lg_entries (ledger_of S))(p_id p \<mapsto> (p_payload p, p_state p))\<rparr>"
        using w by (subst ledger_of_tick [OF store calls]) (auto simp: ledger_of_def fun_eq_iff)
      ultimately show ?thesis
        using w ledger_step.filing [of "ledger_of S" "p_id p" rt "p_payload p"] by (simp add: ledger_of_def)
    next
      case (Err e)
      have "p_id p \<noteq> []" using thread_inv_at [OF S t] AwaitInsert by (auto elim: thread_inv_safe)
      moreover have "mem_inv (sys_store S)" using S by (simp add: sys_inv_def)
      ultimately have "s' = sys_store S" using mem.insert_refused ins Err by blast
      then show ?thesis using same store by simp
    qed
  next
    case (AwaitCas q v k)
    obtain s' r where cas: "so_cas mem_ops (sys_store S) q v = (s', r)" by fastforce
    then have store: "sys_store ?T = s'" by (simp add: sys_tick_def AwaitCas)
    show ?thesis
    proof (cases r)
      case (Ok u)
      obtain i p where w: "so_get mem_ops (sys_store S) (p_id q) = Some p" "successor p q"
        "so_get mem_ops s' = (so_get mem_ops (sys_store S))(p_id q \<mapsto> q)" "(i, p) \<in> set (sys_log S)"
        "may_write rt (sys_calls S ! t) q"
        by (rule mem.cas_writes [OF S t AwaitCas cas [unfolded Ok]])
      have "wf_proposal rt q" using log_inv_wf [OF sys_inv_log [OF S] w(4)] w(2) successor_wf by blast
      then have "entitled rt (sys_calls S) (p_id q) (p_payload q) (p_state q)"
        by (rule may_write_entitled [OF w(5) tc])
      moreover have "p_state q \<in> set (LEGAL (p_state p))" "p_payload q = p_payload p"
        using w(2) by (auto elim!: successorE simp: step_allowed_def same_artifact_def)
      moreover have "ledger_of ?T = (ledger_of S)\<lparr>lg_entries :=
          (lg_entries (ledger_of S))(p_id q \<mapsto> (p_payload q, p_state q))\<rparr>"
        using w by (subst ledger_of_tick [OF store calls]) (auto simp: ledger_of_def fun_eq_iff)
      ultimately show ?thesis
        using w(1) ledger_step.moving [of "ledger_of S" "p_id q" "p_payload q" "p_state p" "p_state q" rt]
        by (simp add: ledger_of_def)
    next
      case (Err e)
      have "mem_inv (sys_store S)" using S by (simp add: sys_inv_def)
      then have "s' = sys_store S" using mem.cas_refused cas Err by blast
      then show ?thesis using same store by simp
    qed
  qed (use same in \<open>simp_all add: sys_tick_def\<close>)
qed

lemma step_refines:
  assumes "reachable rt ttl mem_ops mem_empty S" "sys_step rt ttl mem_ops S T"
  shows "ledger_step rt (ledger_of S) (ledger_of T)"
  using assms(2)
proof (cases rule: sys_step.cases)
  case (make_call c)
  then show ?thesis using ledger_step.calling [of rt "ledger_of S" c] by (simp add: ledger_of_def sys_call_def)
next
  case (resume i)
  then show ?thesis using tick_refines [OF mem_sys_inv [OF assms(1)]] by simp
qed

interpretation registry: simulation "sys_step rt ttl mem_ops" "ledger_step rt" ledger_of
    "reachable rt ttl mem_ops mem_empty" for rt ttl
  by unfold_locales (auto intro: reachable.step step_refines)

lemma ledger_of_start: "ledger_of (sys_start mem_empty) = ledger_empty"
  by (simp add: ledger_of_def ledger_empty_def sys_start_def fun_eq_iff mem_get_def mem_empty_def)

lemma reachable_runs: "reachable rt ttl ops s0 S \<longleftrightarrow> (sys_step rt ttl ops)\<^sup>*\<^sup>* (sys_start s0) S"
proof
  show "reachable rt ttl ops s0 S \<Longrightarrow> (sys_step rt ttl ops)\<^sup>*\<^sup>* (sys_start s0) S"
    by (induction rule: reachable.induct) auto
  show "(sys_step rt ttl ops)\<^sup>*\<^sup>* (sys_start s0) S \<Longrightarrow> reachable rt ttl ops s0 S"
    by (induction rule: rtranclp_induct) (auto intro: reachable.intros)
qed

text \<open>C5: the registry refines the ledger: every reachable state of the registry, under any
  interleaving, stands for a ledger that the specification reaches from the empty one, each further
  step is a step of the specification, and from then on an entry stays in the ledger, with
  the same draft, and in the same state once that is terminal.\<close>

theorem registry_refines_ledger:
  assumes "reachable rt ttl mem_ops mem_empty S" "(sys_step rt ttl mem_ops)\<^sup>*\<^sup>* S T"
  shows "(ledger_step rt)\<^sup>*\<^sup>* ledger_empty (ledger_of S) \<and>
    (ledger_step rt)\<^sup>*\<^sup>* (ledger_of S) (ledger_of T) \<and> entry_kept (ledger_of S) (ledger_of T)"
proof -
  have "(ledger_step rt)\<^sup>*\<^sup>* ledger_empty (ledger_of S)"
    using registry.run_sim [OF assms(1) [unfolded reachable_runs] reachable.start] by (simp add: ledger_of_start)
  moreover have "(ledger_step rt)\<^sup>*\<^sup>* (ledger_of S) (ledger_of T)"
    by (rule registry.run_sim [OF assms(2,1)])
  moreover have "entry_kept (ledger_of S) (ledger_of T)"
    by (rule registry.transfer [OF assms(2,1) entry_kept_refl entry_kept_step])
  ultimately show ?thesis by blast
qed

theorem registry_refines_ledger_witness:
  "(ledger_step demo_rt)\<^sup>*\<^sup>* ledger_empty (ledger_of demo_sys2) \<and>
   lg_entries (ledger_of demo_sys2) (lit ''prop_1'') = Some (TEST_MESSAGE, Confirmed)"
  using registry_refines_ledger [OF demo_reachable2 rtranclp.rtrancl_refl]
  by (simp add: ledger_of_def demo_sys2_def demo_stored_def mem_get_def)

end
