(* ===== verification/Gateway.thy ===== *)
theory Gateway
  imports Server Concurrency
begin

text \<open>
  The whole gateway as one state machine, apps/action-gateway/server.mjs: the requests of the agent, of
  the payment backend, of the human and of the simulated device act on one store, one pair of limiters
  and one pair of files (\<open>gateway\<close>). What is fixed when the process starts is the record
  \<open>gateway_setup\<close>, with the token library's \<open>verify\<close> as a parameter; what one request reads from its
  surroundings is the record \<open>visit\<close>, with the random values the registry draws (a UUID for the id,
  six bytes for the code).

  A request is served from start to end; \<open>Concurrency\<close> has the interleavings of the registry calls, and
  \<open>served_calls\<close> are the registry calls a request makes that can write, so that a history of requests
  is a schedule of that system (lemma \<open>gateway_reachable\<close>).
\<close>

record gateway =
  gw_api :: "mem_store api_state"
  gw_files :: server_files

text \<open>The state before the first request, without the line \<open>boot\<close> that \<open>listen\<close> writes.\<close>

definition gateway_start :: gateway where
  "gateway_start = \<lparr>gw_api = new_api mem_empty, gw_files = \<lparr>sf_diag = [], sf_outbox = []\<rparr>\<rparr>"

abbreviation gw_store :: "gateway \<Rightarrow> mem_store" where
  "gw_store g \<equiv> as_store (gw_api g)"

record gateway_setup =
  gc_rt :: runtime
  gc_ttl :: int
  gc_server :: server_env
  gc_verify :: "ustr \<Rightarrow> ustr \<Rightarrow> ustr \<Rightarrow> ustr + claims"
  gc_localDate :: "int \<Rightarrow> ustr"

text \<open>An exception of the MCP library in \<open>handleRequest\<close>: its message, whether the tool had run
  before it, and whether a reply had begun (\<open>res.headersSent\<close>).\<close>

record transport_error =
  te_message :: ustr
  te_ran :: bool
  te_headersSent :: bool

record visit =
  vs_uuid :: ustr
  vs_reqId :: ustr
  vs_transport_error :: "transport_error option"
  vs_random :: "8 word list"
  vs_times :: request_env
  vs_now :: int
  vs_ts :: ustr
  vs_outbox_ok :: bool
  vs_diag_ok :: bool
  vs_answer :: "nat + ustr"
  vs_clear_error :: "ustr option"
  vs_web :: web
  vs_oauth :: oauth_env

text \<open>The registry of the server has the default generators of ids and codes.\<close>

definition propose_env :: "visit \<Rightarrow> call_env" where
  "propose_env v = (re_first (vs_times v))
     \<lparr>ce_newId := lit ''prop_'' @ vs_uuid v, ce_newLinkCode := generateLinkCode (vs_random v)\<rparr>"

datatype agent_tool =
    Get_snapshot ustr
  | Propose_message propose_args
  | Check_status ustr

text \<open>A request, with what its handler reads of it. An agent's POST carries the bearer header, the
  parsed body, the protocol version, and the tool the MCP library finds in the body; \<open>None\<close> is any
  other message, which the library answers by itself. \<open>vs_transport_error\<close> is the exception of a
  library that fails before the tool or after it.\<close>

datatype gw_request =
    Agent_post "ustr option" jval "ustr option" "agent_tool option"
  | Agent_get "ustr option"
  | Agent_delete "ustr option"
  | Service_propose "ustr option" jval
  | Api_health
  | Show_json ustr
  | Confirm_json ustr jval
  | Reject_json ustr
  | Show_page ustr
  | Confirm_page ustr jval
  | Reject_page ustr
  | Device_show device_request
  | Device_clear device_request
  | Healthz

datatype gw_reply =
    Gw_answer reply
  | Gw_tool "tool_result option"
  | Gw_library
  | Gw_refused nat ustr jval
  | Gw_status nat
  | Gw_device device_reply
  | Gw_no_route

definition boot_entry :: "server_env \<Rightarrow> ustr \<Rightarrow> int \<Rightarrow> (ustr \<times> jval) list" where
  "boot_entry env stateDir ttlSeconds =
     [(lit ''port'', JNum (sv_port env)), (lit ''mcpPath'', JStr mcpPath), (lit ''publicUrl'', JStr (PUBLIC_URL env)),
      (lit ''stateDir'', JStr stateDir), (lit ''ttlSeconds'', JNum (dec_int ttlSeconds)),
      (lit ''tools'', JArr (map (\<lambda>n. JStr (lit n))
        [''get_order_snapshot'', ''propose_buyer_message'', ''check_proposal_status'']))]"

definition gateway_boot :: "gateway_setup \<Rightarrow> ustr \<Rightarrow> bool \<Rightarrow> ustr \<Rightarrow> gateway \<Rightarrow> gateway option" where
  "gateway_boot cfg stateDir diag_ok ts g =
     map_option (\<lambda>f. g\<lparr>gw_files := f\<rparr>)
       (record_entry (gc_rt cfg) diag_ok ts ''boot'' (boot_entry (gc_server cfg) stateDir (gc_ttl cfg)) (gw_files g))"

definition healthz_reply :: reply where
  "healthz_reply = Json 200 (JObj [(lit ''ok'', JBool True), (lit ''service'', JStr (lit ''pooli-action-gateway''))])"

subsection \<open>Delivery\<close>

text \<open>The handlers call \<open>deliverLinkCode\<close> for a proposal that is new; the files after it.\<close>

definition deliver_new ::
  "gateway_setup \<Rightarrow> visit \<Rightarrow> propose_output result \<Rightarrow> server_files \<Rightarrow> server_files" where
  "deliver_new cfg v r f =
     (case r of Err e \<Rightarrow> f
      | Ok out \<Rightarrow>
          if \<not> po_deduplicated out \<and> po_linkCode out \<noteq> [] then
            (case deliverLinkCode (gc_rt cfg) (gc_server cfg) (vs_outbox_ok v) (vs_diag_ok v) (vs_ts v) (vs_answer v)
               (p_id (po_proposal out)) (po_linkCode out) (po_proposal out) f of None \<Rightarrow> f | Some f' \<Rightarrow> f')
          else f)"

text \<open>The registration a handler makes with its input, where its checks pass: the store and the files.\<close>

definition registered_with ::
  "gateway_setup \<Rightarrow> visit \<Rightarrow> ('x + propose_input) \<Rightarrow> gateway \<Rightarrow> gateway" where
  "registered_with cfg v checked g =
     (case checked of Inl x \<Rightarrow> g
      | Inr input \<Rightarrow>
          (case run mem_ops (reg_propose (gc_rt cfg) (gc_ttl cfg) (propose_env v) input) (gw_store g) of
             (s', r) \<Rightarrow> g\<lparr>gw_api := (gw_api g)\<lparr>as_store := s'\<rparr>, gw_files := deliver_new cfg v r (gw_files g)\<rparr>))"

subsection \<open>The agent's surface\<close>

definition agent_deps :: "gateway_setup \<Rightarrow> visit \<Rightarrow> ustr \<Rightarrow> mcp_deps" where
  "agent_deps cfg v client = server_mcp_deps (gc_server cfg) (vs_outbox_ok v) client"

definition agent_input :: "gateway_setup \<Rightarrow> visit \<Rightarrow> ustr \<Rightarrow> propose_args \<Rightarrow> tool_result option + propose_input" where
  "agent_input cfg v client args =
     (case propose_checked (gc_rt cfg) (vs_web v) args of Inl r \<Rightarrow> Inl r
      | Inr payload \<Rightarrow> Inr (mcp_input (gc_rt cfg) (agent_deps cfg v client) (vs_now v) payload))"

fun agent_call :: "gateway_setup \<Rightarrow> visit \<Rightarrow> ustr \<Rightarrow> agent_tool \<Rightarrow> gateway \<Rightarrow> gateway \<times> gw_reply" where
  "agent_call cfg v client (Get_snapshot i) g = (g, Gw_tool (get_order_snapshot (vs_web v) i))"
| "agent_call cfg v client (Propose_message args) g =
     (registered_with cfg v (agent_input cfg v client args) g,
      Gw_tool (snd (propose_buyer_message (gc_rt cfg) (gc_ttl cfg) (agent_deps cfg v client) mem_ops
        (vs_web v) (propose_env v) (vs_now v) args (gw_store g))))"
| "agent_call cfg v client (Check_status i) g =
     (g, Gw_tool (Some (snd (check_proposal_status mem_ops (re_first (vs_times v)) i (gw_store g)))))"

definition mcp_request_entry :: "jval \<Rightarrow> ustr option \<Rightarrow> ustr \<Rightarrow> (ustr \<times> jval) list" where
  "mcp_request_entry rpc version reqId =
     [(lit ''reqId'', JStr reqId), (lit ''method'', nullish (prop_of rpc (lit ''method'')) JNull),
      (lit ''protocolVersion'', (case version of None \<Rightarrow> JNull | Some s \<Rightarrow> JStr s))]"

definition rpc_internal_error :: "jval \<Rightarrow> reply" where
  "rpc_internal_error rpc = Json 500 (JObj
     [(lit ''jsonrpc'', JStr (lit ''2.0'')),
      (lit ''error'', JObj [(lit ''code'', JNum (lit ''-32603'')), (lit ''message'', JStr (lit ''internal error''))]),
      (lit ''id'', nullish (prop_of rpc (lit ''id'')) JNull)])"

text \<open>What runs behind the log line: the library, with the tools as its handlers. Where it fails,
  what the tool did stays done, and the reply is the one that had begun, or an error.\<close>

definition agent_library ::
  "gateway_setup \<Rightarrow> visit \<Rightarrow> ustr \<Rightarrow> agent_tool option \<Rightarrow> gateway \<Rightarrow> gateway \<times> gw_reply" where
  "agent_library cfg v client tool g =
     (case tool of None \<Rightarrow> (g, Gw_library) | Some t \<Rightarrow> agent_call cfg v client t g)"

definition agent_handle ::
  "gateway_setup \<Rightarrow> visit \<Rightarrow> ustr \<Rightarrow> jval \<Rightarrow> agent_tool option \<Rightarrow> gateway \<Rightarrow> gateway \<times> gw_reply" where
  "agent_handle cfg v client rpc tool g =
     (case vs_transport_error v of
        None \<Rightarrow> agent_library cfg v client tool g
      | Some e \<Rightarrow>
          (case (if te_ran e then agent_library cfg v client tool g else (g, Gw_library)) of
             (g', begun) \<Rightarrow>
               (case record_entry (gc_rt cfg) (vs_diag_ok v) (vs_ts v) ''mcp_error''
                  [(lit ''reqId'', JStr (vs_reqId v)), (lit ''message'', JStr (te_message e))] (gw_files g') of
                  None \<Rightarrow> (g', Gw_answer Thrown)
                | Some f \<Rightarrow> (g'\<lparr>gw_files := f\<rparr>,
                    if te_headersSent e then begun else Gw_answer (rpc_internal_error rpc)))))"

definition agent_post ::
  "gateway_setup \<Rightarrow> visit \<Rightarrow> ustr option \<Rightarrow> jval \<Rightarrow> ustr option \<Rightarrow> agent_tool option \<Rightarrow> gateway \<Rightarrow> gateway \<times> gw_reply" where
  "agent_post cfg v header rpc version tool g =
     (case requireToken (gc_rt cfg) (gc_verify cfg) (vs_oauth v) header of
        Bearer_refused status ch b \<Rightarrow> (g, Gw_refused status ch b)
      | Bearer_passes client scopes aud \<Rightarrow>
          (case record_entry (gc_rt cfg) (vs_diag_ok v) (vs_ts v) ''mcp_request''
           (mcp_request_entry rpc version (vs_reqId v)) (gw_files g) of
             None \<Rightarrow> (g, Gw_answer Thrown)
           | Some f \<Rightarrow> agent_handle cfg v client rpc tool (g\<lparr>gw_files := f\<rparr>)))"

definition agent_bodyless :: "gateway_setup \<Rightarrow> visit \<Rightarrow> nat \<Rightarrow> ustr option \<Rightarrow> gw_reply" where
  "agent_bodyless cfg v status header =
     (case requireToken (gc_rt cfg) (gc_verify cfg) (vs_oauth v) header of
        Bearer_refused st ch b \<Rightarrow> Gw_refused st ch b
      | Bearer_passes client scopes aud \<Rightarrow> Gw_status status)"

subsection \<open>The backend's surface\<close>

definition service_input :: "gateway_setup \<Rightarrow> ustr option \<Rightarrow> jval \<Rightarrow> reply + propose_input" where
  "service_input cfg header b =
     (if gateway_secret_ok \<lparr>id_gatewaySecret = server_secret (gc_server cfg), id_deliver = (\<lambda>i code p. True),
           id_confirmationBaseUrl = PUBLIC_URL (gc_server cfg)\<rparr> header
      then internal_checked (gc_rt cfg) b else Inl (error_json 401 (lit ''unauthorized'')))"

definition service_post :: "gateway_setup \<Rightarrow> visit \<Rightarrow> ustr option \<Rightarrow> jval \<Rightarrow> gateway \<Rightarrow> gateway \<times> gw_reply" where
  "service_post cfg v header b g =
     (case server_internal (gc_rt cfg) (gc_ttl cfg) (gc_server cfg) (vs_outbox_ok v) mem_ops (propose_env v) header b
        (gw_store g) of
        None \<Rightarrow> (g, Gw_no_route)
      | Some (s', r) \<Rightarrow> (registered_with cfg v (service_input cfg header b) g, Gw_answer r))"

subsection \<open>Every request\<close>

definition human :: "gateway \<Rightarrow> mem_store api_state \<times> reply \<Rightarrow> gateway \<times> gw_reply" where
  "human g x = (g\<lparr>gw_api := fst x\<rparr>, Gw_answer (snd x))"

fun gateway_do :: "gateway_setup \<Rightarrow> visit \<Rightarrow> gw_request \<Rightarrow> gateway \<Rightarrow> gateway \<times> gw_reply" where
  "gateway_do cfg v (Agent_post header rpc version tool) g = agent_post cfg v header rpc version tool g"
| "gateway_do cfg v (Agent_get header) g = (g, agent_bodyless cfg v 405 header)"
| "gateway_do cfg v (Agent_delete header) g = (g, agent_bodyless cfg v 204 header)"
| "gateway_do cfg v (Service_propose header b) g = service_post cfg v header b g"
| "gateway_do cfg v Api_health g = (g, Gw_answer api_health)"
| "gateway_do cfg v (Show_json i) g = human g (api_get mem_ops (re_first (vs_times v)) i (gw_api g))"
| "gateway_do cfg v (Confirm_json i b) g =
     human g (api_confirm (gc_rt cfg) mem_ops (vs_times v) i b (gw_api g))"
| "gateway_do cfg v (Reject_json i) g = human g (api_reject mem_ops (re_first (vs_times v)) i (gw_api g))"
| "gateway_do cfg v (Show_page i) g =
     human g (page_get (gc_localDate cfg) mem_ops (re_first (vs_times v)) i (gw_api g))"
| "gateway_do cfg v (Confirm_page i b) g =
     human g (page_confirm (gc_localDate cfg) (gc_rt cfg) mem_ops (vs_times v) i b (gw_api g))"
| "gateway_do cfg v (Reject_page i) g =
     human g (page_reject (gc_localDate cfg) mem_ops (re_first (vs_times v)) (re_second (vs_times v)) i (gw_api g))"
| "gateway_do cfg v (Device_show d) g = (g, Gw_device (device_get (gc_server cfg) d (gw_files g)))"
| "gateway_do cfg v (Device_clear d) g =
     (case device_clear (gc_rt cfg) (gc_server cfg) (vs_clear_error v) (vs_diag_ok v) (vs_ts v) d (gw_files g) of
        (f, r) \<Rightarrow> (g\<lparr>gw_files := f\<rparr>, Gw_device r))"
| "gateway_do cfg v Healthz g = (g, Gw_answer healthz_reply)"

primrec gateway_run :: "gateway_setup \<Rightarrow> (visit \<times> gw_request) list \<Rightarrow> gateway \<Rightarrow> gateway \<times> gw_reply list" where
  "gateway_run cfg [] g = (g, [])"
| "gateway_run cfg (x # xs) g =
     (case gateway_do cfg (fst x) (snd x) g of
        (g', r) \<Rightarrow> (case gateway_run cfg xs g' of (g'', rs) \<Rightarrow> (g'', r # rs)))"

text \<open>The registration of a call is the one its reply reports.\<close>

lemma agent_registration:
  "gw_store (registered_with cfg v (agent_input cfg v client args) g) =
     fst (propose_buyer_message (gc_rt cfg) (gc_ttl cfg) (agent_deps cfg v client) mem_ops (vs_web v) (propose_env v)
       (vs_now v) args (gw_store g))"
  by (simp add: registered_with_def agent_input_def propose_buyer_message_def split: sum.split prod.split result.split)

lemma service_registration:
  "server_internal (gc_rt cfg) (gc_ttl cfg) (gc_server cfg) ok mem_ops (propose_env v) header b (gw_store g) = Some (s, r) \<Longrightarrow>
     gw_store (registered_with cfg v (service_input cfg header b) g) = s"
  by (auto simp: server_internal_def internal_request_def internal_propose_def registered_with_def service_input_def
      gateway_secret_ok_def split: sum.splits prod.splits result.splits if_splits)

lemmas gateway_defs [handler_defs] = agent_post_def agent_handle_def agent_library_def agent_bodyless_def service_post_def human_def

end
