(* ===== verification/GatewayProps.thy ===== *)
theory GatewayProps
  imports Gateway OAuthProps
begin

text \<open>
  The properties of the composed gateway over every history of requests. First the simulation:
  what a history leaves in the store is what a schedule of the registry calls it may issue leaves
  (\<open>gateway_reachable\<close>), so that the invariants of \<open>Concurrency\<close> hold of it. Then erasure: but for
  the confirmation requests and the device, no request distinguishes stores that differ in the link
  codes alone (\<open>gateway_erased\<close>).
\<close>

subsection \<open>A call that runs alone\<close>

lemma run_map [simp]: "run ops (map_store_prog f prog) s = map_prod id f (run ops prog s)"
  by (induction prog arbitrary: s) (simp_all split: prod.splits)

lemma run_alone:
  assumes "reachable rt ttl ops s0 S" "i < length (sys_pool S)" "sys_pool S ! i = prog"
  shows "\<exists>T. reachable rt ttl ops s0 T \<and> sys_store T = fst (run ops prog (sys_store S)) \<and>
    sys_calls T = sys_calls S"
  using assms
proof (induction prog arbitrary: S)
  case (Done r)
  then show ?case by (intro exI [of _ S]) simp
next
  case (AwaitGet j k)
  from AwaitGet.IH [OF rangeI reachable_tick [OF AwaitGet.prems(1,2)], of "so_get ops (sys_store S) j"]
  show ?case using AwaitGet.prems(2,3) by (simp add: sys_tick_def)
next
  case (AwaitFind key k)
  from AwaitFind.IH [OF rangeI reachable_tick [OF AwaitFind.prems(1,2)], of "so_find ops (sys_store S) key"]
  show ?case using AwaitFind.prems(2,3) by (simp add: sys_tick_def)
next
  case (AwaitInsert p k)
  obtain s' r where ins: "so_insert ops (sys_store S) p = (s', r)" by fastforce
  from AwaitInsert.IH [OF rangeI reachable_tick [OF AwaitInsert.prems(1,2)], of r]
  show ?case using AwaitInsert.prems(2,3) by (simp add: sys_tick_def ins)
next
  case (AwaitCas q v k)
  obtain s' r where cas: "so_cas ops (sys_store S) q v = (s', r)" by fastforce
  from AwaitCas.IH [OF rangeI reachable_tick [OF AwaitCas.prems(1,2)], of r]
  show ?case using AwaitCas.prems(2,3) by (simp add: sys_tick_def cas)
qed

definition run_calls :: "runtime \<Rightarrow> int \<Rightarrow> call list \<Rightarrow> mem_store \<Rightarrow> mem_store" where
  "run_calls rt ttl cs s = fold (\<lambda>c s. fst (run mem_ops (program rt ttl c) s)) cs s"

lemma run_calls_simps [simp]:
  "run_calls rt ttl [] s = s"
  "run_calls rt ttl (c # cs) s = run_calls rt ttl cs (fst (run mem_ops (program rt ttl c) s))"
  "run_calls rt ttl (cs @ ds) s = run_calls rt ttl ds (run_calls rt ttl cs s)"
  by (simp_all add: run_calls_def)

lemma call_alone:
  assumes "reachable rt ttl ops s0 S" "call_ok c"
  shows "\<exists>T. reachable rt ttl ops s0 T \<and> sys_store T = fst (run ops (program rt ttl c) (sys_store S)) \<and>
    sys_calls T = sys_calls S @ [c]"
  using run_alone [OF reachable_call [OF assms], of "length (sys_pool S)" "program rt ttl c"]
  by (simp add: sys_call_def)

lemma calls_alone:
  assumes "reachable rt ttl mem_ops s0 S" "\<forall>c\<in>set cs. call_ok c"
  shows "\<exists>T. reachable rt ttl mem_ops s0 T \<and> sys_store T = run_calls rt ttl cs (sys_store S) \<and>
    sys_calls T = sys_calls S @ cs"
  using assms
proof (induction cs arbitrary: S)
  case Nil
  then show ?case by auto
next
  case (Cons c cs)
  from call_alone [OF Cons.prems(1), of c] Cons.prems(2) obtain T where
    "reachable rt ttl mem_ops s0 T" "sys_store T = fst (run mem_ops (program rt ttl c) (sys_store S))"
    "sys_calls T = sys_calls S @ [c]" by auto
  with Cons.IH [of T] Cons.prems(2) show ?case by auto
qed

subsection \<open>The calls of a request\<close>

text \<open>The code and the digest a confirmation request presents, as its handler reads them.\<close>

fun presented :: "runtime \<Rightarrow> gw_request \<Rightarrow> (ustr \<times> ustr \<times> ustr) option" where
  "presented rt (Confirm_json i b) =
     (case (prop_of b (lit ''linkCode''), prop_of b (lit ''payloadDigest'')) of
        (JStr code, JStr dig) \<Rightarrow> Some (i, code, dig) | _ \<Rightarrow> None)"
| "presented rt (Confirm_page i b) =
     (case (string_or (prop_of b (lit ''linkCode'')) [], string_or (prop_of b (lit ''payloadDigest'')) []) of
        (Some code, Some dig) \<Rightarrow> Some (i, js_upper rt (js_trim code), dig) | _ \<Rightarrow> None)"
| "presented rt _ = None"

text \<open>Whether a request carries what its surface asks of someone who proposes: a bearer token that
  passes, or the secret of the gateway.\<close>

fun may_propose :: "gateway_setup \<Rightarrow> visit \<Rightarrow> gw_request \<Rightarrow> bool" where
  "may_propose cfg v (Agent_post header rpc version tool) \<longleftrightarrow>
     (case requireToken (gc_rt cfg) (gc_verify cfg) (vs_oauth v) header of
        Bearer_passes client scopes aud \<Rightarrow> True | Bearer_refused status ch b \<Rightarrow> False)"
| "may_propose cfg v (Service_propose header b) \<longleftrightarrow>
     server_secret (gc_server cfg) \<noteq> [] \<and> header \<noteq> None \<and>
     utf8 (js_trim (the header)) = utf8 (js_trim (server_secret (gc_server cfg)))"
| "may_propose cfg v _ \<longleftrightarrow> False"

text \<open>What a request asks to have registered: the agent's tool call after the checks on its order, in
  the name of the token's client, and the backend's body after the checks on its fields.\<close>

fun asked :: "gateway_setup \<Rightarrow> visit \<Rightarrow> gw_request \<Rightarrow> propose_input \<Rightarrow> bool" where
  "asked cfg v (Agent_post header rpc version (Some (Propose_message args))) input \<longleftrightarrow>
     (case requireToken (gc_rt cfg) (gc_verify cfg) (vs_oauth v) header of
        Bearer_passes client scopes aud \<Rightarrow> agent_input cfg v client args = Inr input
      | Bearer_refused status ch b \<Rightarrow> False)"
| "asked cfg v (Service_propose header b) input \<longleftrightarrow> internal_checked (gc_rt cfg) b = Inr input"
| "asked cfg v _ input \<longleftrightarrow> False"

text \<open>The registry calls a request may make: a proposal only of what it asks for, with the id and the
  code that were drawn for it.\<close>

fun may_issue :: "gateway_setup \<Rightarrow> visit \<Rightarrow> gw_request \<Rightarrow> call \<Rightarrow> bool" where
  "may_issue cfg v r (Confirm env i code dig) \<longleftrightarrow> presented (gc_rt cfg) r = Some (i, code, dig)"
| "may_issue cfg v r (Execute env i) \<longleftrightarrow> (\<exists>code dig. presented (gc_rt cfg) r = Some (i, code, dig))"
| "may_issue cfg v r (Reject env i) \<longleftrightarrow> r = Reject_json i \<or> r = Reject_page i"
| "may_issue cfg v r (Propose env input) \<longleftrightarrow>
     may_propose cfg v r \<and> asked cfg v r input \<and> env = propose_env v"
| "may_issue cfg v r (View env i) \<longleftrightarrow> True"
| "may_issue cfg v r (Fail env i reason) \<longleftrightarrow> False"

definition simulated :: "gateway_setup \<Rightarrow> visit \<Rightarrow> gw_request \<Rightarrow> mem_store \<Rightarrow> mem_store \<Rightarrow> bool" where
  "simulated cfg v r s s' \<longleftrightarrow> (\<exists>cs. s' = run_calls (gc_rt cfg) (gc_ttl cfg) cs s \<and>
     (\<forall>c\<in>set cs. call_ok c \<and> may_issue cfg v r c))"

lemma simulated_none [simp]: "simulated cfg v r s s"
  unfolding simulated_def by (intro exI [of _ "[]"]) simp

lemma simulated_call:
  "call_ok c \<Longrightarrow> may_issue cfg v r c \<Longrightarrow>
     simulated cfg v r s (fst (run mem_ops (program (gc_rt cfg) (gc_ttl cfg) c) s))"
  unfolding simulated_def by (intro exI [of _ "[c]"]) simp

lemma simulated_trans: "simulated cfg v r s t \<Longrightarrow> simulated cfg v r t u \<Longrightarrow> simulated cfg v r s u"
proof -
  assume "simulated cfg v r s t" "simulated cfg v r t u"
  then obtain cs ds where
    "t = run_calls (gc_rt cfg) (gc_ttl cfg) cs s" "\<forall>c\<in>set cs. call_ok c \<and> may_issue cfg v r c"
    "u = run_calls (gc_rt cfg) (gc_ttl cfg) ds t" "\<forall>c\<in>set ds. call_ok c \<and> may_issue cfg v r c"
    unfolding simulated_def by blast
  then show ?thesis unfolding simulated_def by (intro exI [of _ "cs @ ds"]) auto
qed

lemma proposing_ok: "call_ok (Propose (propose_env v) input)"
  by (simp add: propose_env_def lit_def)

lemma simulated_registered:
  assumes "\<And>input. checked = Inr input \<Longrightarrow> may_issue cfg v r (Propose (propose_env v) input)"
  shows "simulated cfg v r (gw_store g) (gw_store (registered_with cfg v checked g))"
proof (cases checked)
  case (Inr input)
  with simulated_call [OF proposing_ok assms [OF Inr], where s = "gw_store g"] show ?thesis
    by (cases "run mem_ops (reg_propose (gc_rt cfg) (gc_ttl cfg) (propose_env v) input) (gw_store g)")
      (simp add: registered_with_def)
qed (simp add: registered_with_def)

lemma simulated_decision:
  assumes "presented (gc_rt cfg) r = Some (i, code, dig)"
  shows "simulated cfg v r (as_store a) (as_store (fst (confirm_and_execute (gc_rt cfg) mem_ops env i code dig a)))"
proof -
  obtain s x where c: "run mem_ops (reg_confirm (gc_rt cfg) (re_first env) i code dig) (as_store a) = (s, x)"
    by fastforce
  have one: "simulated cfg v r (as_store a) s"
    using simulated_call [of "Confirm (re_first env) i code dig" cfg v r "as_store a"] assms c by simp
  show ?thesis
  proof (cases x)
    case (Ok q)
    obtain s' y where e: "run mem_ops (reg_execute (gc_rt cfg) (re_second env) i) s = (s', y)" by fastforce
    have "simulated cfg v r s s'"
      using simulated_call [of "Execute (re_second env) i" cfg v r s] assms e by simp
    with one show ?thesis by (auto simp: confirm_and_execute_def c e Ok intro: simulated_trans)
  next
    case (Err d)
    with one show ?thesis by (simp add: confirm_and_execute_def c)
  qed
qed

lemma simulated_api_confirm:
  "simulated cfg v (Confirm_json i b) (as_store a) (as_store (fst (api_confirm (gc_rt cfg) mem_ops env i b a)))"
proof (cases "presented (gc_rt cfg) (Confirm_json i b)")
  case None
  then show ?thesis by (auto simp: api_confirm_def split: jval.splits)
next
  case (Some e)
  then obtain code dig where e: "prop_of b (lit ''linkCode'') = JStr code"
    "prop_of b (lit ''payloadDigest'') = JStr dig" "presented (gc_rt cfg) (Confirm_json i b) = Some (i, code, dig)"
    by (auto split: jval.splits)
  obtain l h ok where adm: "admit (as_limiter a) (as_global a) i (re_now1 env) (re_now2 env) = (l, h, ok)"
    by (metis prod_cases3)
  let ?a = "a\<lparr>as_limiter := l, as_global := h\<rparr>"
  have "fst (api_confirm (gc_rt cfg) mem_ops env i b a) =
      (if ok then fst (confirm_and_execute (gc_rt cfg) mem_ops env i code dig ?a) else ?a)"
    by (simp add: api_confirm_def e(1,2) adm Let_def split: prod.split decision.split result.split)
  with simulated_decision [OF e(3), where a = ?a and env = env] show ?thesis by simp
qed

lemma simulated_page_confirm:
  "simulated cfg v (Confirm_page i b) (as_store a) (as_store (fst (page_confirm d (gc_rt cfg) mem_ops env i b a)))"
proof (cases "presented (gc_rt cfg) (Confirm_page i b)")
  case None
  then show ?thesis by (auto simp: page_confirm_def split: option.splits)
next
  case (Some e)
  then obtain code dig where e: "string_or (prop_of b (lit ''linkCode'')) [] = Some code"
    "string_or (prop_of b (lit ''payloadDigest'')) [] = Some dig"
    "presented (gc_rt cfg) (Confirm_page i b) = Some (i, js_upper (gc_rt cfg) (js_trim code), dig)"
    by (auto split: option.splits)
  obtain l h ok where adm: "admit (as_limiter a) (as_global a) i (re_now1 env) (re_now2 env) = (l, h, ok)"
    by (metis prod_cases3)
  let ?a = "a\<lparr>as_limiter := l, as_global := h\<rparr>"
  let ?code = "js_upper (gc_rt cfg) (js_trim code)"
  have "fst (page_confirm d (gc_rt cfg) mem_ops env i b a) =
      (if ok then fst (confirm_and_execute (gc_rt cfg) mem_ops env i ?code dig ?a) else ?a)"
    by (simp add: page_confirm_def e(1,2) adm Let_def mem.show_keeps split: prod.split decision.split result.split)
  with simulated_decision [OF e(3), where a = ?a and env = env] show ?thesis by simp
qed

lemma view_keeps [simp]:
  "as_store (fst (api_get mem_ops env i a)) = as_store a"
  "as_store (fst (page_get d mem_ops env i a)) = as_store a"
  by (simp_all add: api_get_def page_get_def mem.run_getForConfirmation split: option.split)

lemma reject_stores:
  "as_store (fst (api_reject mem_ops env i a)) = fst (run mem_ops (reg_reject env i) (as_store a))"
  "as_store (fst (page_reject d mem_ops env env' i a)) = fst (run mem_ops (reg_reject env i) (as_store a))"
  by (simp_all add: api_reject_def page_reject_def split: prod.split result.split)

lemma simulated_human:
  "simulated cfg v (Reject_json i) (as_store a) (as_store (fst (api_reject mem_ops env i a)))"
  "simulated cfg v (Reject_page i) (as_store a) (as_store (fst (page_reject d mem_ops env env' i a)))"
  using simulated_call [of "Reject env i" cfg v "Reject_json i" "as_store a"]
    simulated_call [of "Reject env i" cfg v "Reject_page i" "as_store a"]
  by (simp_all add: reject_stores)

lemma registered_files [simp]: "gw_store (registered_with cfg v checked (g\<lparr>gw_files := f\<rparr>)) = gw_store (registered_with cfg v checked g)"
  by (simp add: registered_with_def split: sum.split prod.split)

lemma simulated_agent:
  "requireToken (gc_rt cfg) (gc_verify cfg) (vs_oauth v) h = Bearer_passes cl sc aud \<Longrightarrow>
     simulated cfg v (Agent_post h b ver (Some u)) (gw_store g) (gw_store (fst (agent_call cfg v cl u g)))"
  by (cases u) (auto intro: simulated_registered)

lemma simulated_handle:
  assumes "requireToken (gc_rt cfg) (gc_verify cfg) (vs_oauth v) h = Bearer_passes cl sc aud"
  shows "simulated cfg v (Agent_post h b ver t) (gw_store g) (gw_store (fst (agent_handle cfg v cl b t g)))"
proof -
  have "simulated cfg v (Agent_post h b ver t) (gw_store g) (gw_store (fst (agent_library cfg v cl t g)))"
    by (cases t) (simp_all add: agent_library_def simulated_agent [OF assms])
  then show ?thesis by (auto simp: agent_handle_def split: option.split prod.split)
qed

lemma simulated_service:
  "server_secret (gc_server cfg) \<noteq> [] \<Longrightarrow> simulated cfg v (Service_propose h b) (gw_store g)
     (gw_store (registered_with cfg v (service_input cfg h b) g))"
proof (cases "may_propose cfg v (Service_propose h b)")
  case False
  moreover assume "server_secret (gc_server cfg) \<noteq> []"
  ultimately have "service_input cfg h b = Inl (error_json 401 (lit ''unauthorized''))"
    by (cases h) (auto simp: service_input_def gateway_secret_ok_def secretOk_def)
  then show ?thesis by (simp add: registered_with_def)
next
  case True
  have "asked cfg v (Service_propose h b) input" if "service_input cfg h b = Inr input" for input
    using that by (simp add: service_input_def split: if_splits)
  with True show ?thesis by (intro simulated_registered) simp
qed

lemma simulated_step: "simulated cfg v r (gw_store g) (gw_store (fst (gateway_do cfg v r g)))"
proof (cases r)
  case (Agent_post h b ver t)
  then show ?thesis
    using simulated_handle [of cfg v h _ _ _ b ver t "g\<lparr>gw_files := f\<rparr>" for f]
    by (auto simp: agent_post_def split: bearer.split option.split)
next
  case (Service_propose h b)
  then show ?thesis
    by (auto simp: service_post_def server_internal_def split: option.split prod.split intro: simulated_service)
next
  case (Device_clear d)
  then show ?thesis by (simp split: prod.split)
qed (simp_all add: human_def simulated_api_confirm simulated_page_confirm simulated_human)

text \<open>A history of requests is a schedule of the registry calls they issue.\<close>

lemma gateway_reachable:
  assumes "reachable (gc_rt cfg) (gc_ttl cfg) mem_ops s0 S" "sys_store S = gw_store g"
  shows "\<exists>T. reachable (gc_rt cfg) (gc_ttl cfg) mem_ops s0 T \<and>
    sys_store T = gw_store (fst (gateway_run cfg hist g)) \<and>
    (\<forall>c\<in>set (sys_calls T). c \<in> set (sys_calls S) \<or> (\<exists>(v, r)\<in>set hist. may_issue cfg v r c))"
  using assms
proof (induction hist arbitrary: S g)
  case Nil
  then show ?case by auto
next
  case (Cons x hist)
  obtain v r where x: "x = (v, r)" by fastforce
  obtain cs where cs: "gw_store (fst (gateway_do cfg v r g)) = run_calls (gc_rt cfg) (gc_ttl cfg) cs (gw_store g)"
    "\<forall>c\<in>set cs. call_ok c \<and> may_issue cfg v r c"
    using simulated_step [of cfg v r g] unfolding simulated_def by blast
  from calls_alone [OF Cons.prems(1), of cs] cs Cons.prems(2) obtain T where
    T: "reachable (gc_rt cfg) (gc_ttl cfg) mem_ops s0 T" "sys_store T = gw_store (fst (gateway_do cfg v r g))"
    "sys_calls T = sys_calls S @ cs" by auto
  from Cons.IH [OF T(1,2)] obtain U where
    U: "reachable (gc_rt cfg) (gc_ttl cfg) mem_ops s0 U"
    "sys_store U = gw_store (fst (gateway_run cfg hist (fst (gateway_do cfg v r g))))"
    "\<forall>c\<in>set (sys_calls U). c \<in> set (sys_calls T) \<or> (\<exists>(v, r)\<in>set hist. may_issue cfg v r c)" by blast
  have "fst (gateway_run cfg (x # hist) g) = fst (gateway_run cfg hist (fst (gateway_do cfg v r g)))"
    by (simp add: x split: prod.split)
  with U T(3) cs(2) show ?case by (intro exI [of _ U]) (auto simp: x)
qed


subsection \<open>Who decides\<close>

lemma gateway_schedule:
  obtains S where "reachable (gc_rt cfg) (gc_ttl cfg) mem_ops mem_empty S"
    "sys_store S = gw_store (fst (gateway_run cfg hist gateway_start))"
    "\<And>c. c \<in> set (sys_calls S) \<Longrightarrow> \<exists>(v, r)\<in>set hist. may_issue cfg v r c"
proof -
  have "sys_store (sys_start mem_empty) = gw_store gateway_start"
    by (simp add: sys_start_def gateway_start_def new_api_def)
  from gateway_reachable [OF reachable.start this, where hist = hist and cfg = cfg] obtain S where
    "reachable (gc_rt cfg) (gc_ttl cfg) mem_ops mem_empty S"
    "sys_store S = gw_store (fst (gateway_run cfg hist gateway_start))"
    "\<forall>c\<in>set (sys_calls S). \<exists>(v, r)\<in>set hist. may_issue cfg v r c"
    by (auto simp: sys_start_def)
  then show ?thesis by (intro that) blast+
qed

text \<open>C3: who decides in the composed gateway, over every history of requests to all its surfaces.
  A stored proposal was asked for by one request of the history that was entitled to: that request
  carried a valid bearer token of the required scope, or the gateway's secret; its id is the one
  drawn for that request, its idempotency key is the one the request asks for (for an agent, in the
  name of its token's client), its draft is what the validator returned for the draft of that
  request, and the hash of its code is the hash of the code drawn for that request. And a proposal
  that is confirmed, executed or failed was approved by a request of the human's surface for that
  proposal, which presented a code whose hash is the stored one and the digest of the stored draft.
  No request of the agent, of the backend or of the device approves.\<close>

theorem gateway_authority:
  assumes "mem_get (gw_store (fst (gateway_run cfg hist gateway_start))) i = Some p"
  shows "(\<exists>(v, r)\<in>set hist. \<exists>input. may_propose cfg v r \<and> asked cfg v r input \<and>
      i = lit ''prop_'' @ vs_uuid v \<and> p_idempotencyKey p = pi_idempotencyKey input \<and>
      validateMessageDraft (gc_rt cfg) (pi_payload input) = Ok (p_payload p) \<and>
      p_linkCodeHash p = hashLinkCode (gc_rt cfg) (generateLinkCode (vs_random v))) \<and>
    (p_state p \<in> {Confirmed, Executed, Failed} \<longrightarrow>
      (\<exists>(v, r)\<in>set hist. \<exists>code dig. presented (gc_rt cfg) r = Some (i, code, dig) \<and>
        safeEqualHex (hashLinkCode (gc_rt cfg) code) (p_linkCodeHash p) \<and>
        safeEqualHex dig (p_payloadDigest p)))"
proof (intro conjI impI)
  obtain S where S: "reachable (gc_rt cfg) (gc_ttl cfg) mem_ops mem_empty S"
    "sys_store S = gw_store (fst (gateway_run cfg hist gateway_start))"
    "\<And>c. c \<in> set (sys_calls S) \<Longrightarrow> \<exists>(v, r)\<in>set hist. may_issue cfg v r c"
    using gateway_schedule [where cfg = cfg and hist = hist] by blast
  have got: "so_get mem_ops (sys_store S) i = Some p" using assms S(2) by simp
  have id: "p_id p = i" using mem_stored_wf [OF S(1)] assms S(2) by metis
  obtain c where c: "c \<in> set (sys_calls S)" "proposes (gc_rt cfg) c p"
    using stored_proposed [OF mem_sys_inv [OF S(1)] got] by blast
  then obtain env input where e: "c = Propose env input" using proposes_propose by blast
  from S(3) [OF c(1)] obtain v r where vr: "(v, r) \<in> set hist" "may_issue cfg v r c" by blast
  have "may_propose cfg v r \<and> asked cfg v r input \<and>
      i = lit ''prop_'' @ vs_uuid v \<and> p_idempotencyKey p = pi_idempotencyKey input \<and>
      validateMessageDraft (gc_rt cfg) (pi_payload input) = Ok (p_payload p) \<and>
      p_linkCodeHash p = hashLinkCode (gc_rt cfg) (generateLinkCode (vs_random v))"
    using vr(2) c(2) id by (simp add: e propose_env_def)
  with vr(1) show "\<exists>(v, r)\<in>set hist. \<exists>input. may_propose cfg v r \<and> asked cfg v r input \<and>
      i = lit ''prop_'' @ vs_uuid v \<and> p_idempotencyKey p = pi_idempotencyKey input \<and>
      validateMessageDraft (gc_rt cfg) (pi_payload input) = Ok (p_payload p) \<and>
      p_linkCodeHash p = hashLinkCode (gc_rt cfg) (generateLinkCode (vs_random v))" by blast
  assume st: "p_state p \<in> {Confirmed, Executed, Failed}"
  obtain c where c: "c \<in> set (sys_calls S)" "presents (gc_rt cfg) c p"
    using stored_presented [OF mem_sys_inv [OF S(1)] got st] by blast
  then obtain env code dig where e: "c = Confirm env i code dig"
    "safeEqualHex (hashLinkCode (gc_rt cfg) code) (p_linkCodeHash p)" "safeEqualHex dig (p_payloadDigest p)"
    using id by (cases c rule: call.exhaust) (auto simp: presents_def)
  from S(3) [OF c(1)] have "\<exists>(v, r)\<in>set hist. presented (gc_rt cfg) r = Some (i, code, dig)"
    by (simp add: e(1))
  with e(2,3) show "\<exists>(v, r)\<in>set hist. \<exists>code dig. presented (gc_rt cfg) r = Some (i, code, dig) \<and>
      safeEqualHex (hashLinkCode (gc_rt cfg) code) (p_linkCodeHash p) \<and>
      safeEqualHex dig (p_payloadDigest p)" by blast
qed

subsection \<open>The delivered code\<close>

lemma record_scalars: "list_all (\<lambda>(k, v). scalar v) kvs \<Longrightarrow> record_entry rt d ts kind kvs f \<noteq> None"
  using redact_scalars [of kvs rt 0] by (auto simp: record_entry_def record_line_def)

lemma deliver_some: "ok \<Longrightarrow> deliverLinkCode rt env ok d ts a i code p f \<noteq> None"
proof -
  have log: "list_all (\<lambda>(k, v). scalar v) (delivered_entry env i p)" by (simp add: delivered_entry_def)
  have "notifyPooliDraftReady rt env d ts a p i g \<noteq> None" for g
    using record_scalars [of "[(lit ''proposalId'', JStr i), (lit ''orderId'', JStr (md_orderId (p_payload p))),
           (lit ''status'', JNum (dec s)), (lit ''ok'', JBool b)]" for s b]
      record_scalars [of "[(lit ''proposalId'', JStr i), (lit ''message'', JStr m)]" for m]
    by (simp add: notifyPooliDraftReady_def split: sum.split del: not_None_eq)
  then show "ok \<Longrightarrow> ?thesis"
    using record_scalars [OF log]
    by (simp add: deliverLinkCode_def deliverOutOfBand_def del: json_compact.simps not_None_eq split: option.split)
qed

text \<open>The line of the outbox for a new proposal.\<close>

definition code_line :: "gateway_setup \<Rightarrow> visit \<Rightarrow> proposal \<Rightarrow> ustr" where
  "code_line cfg v p = json_compact (JObj (object_spread [(lit ''ts'', JStr (vs_ts v))]
     (outbox_entry (gc_server cfg) (p_id p) (generateLinkCode (vs_random v)) p)))"

lemma generateLinkCode_nonempty [simp]: "generateLinkCode bs \<noteq> []"
  using length_generateLinkCode [of bs] by (metis length_0_conv zero_neq_numeral)

lemma run_propose_new_record:
  assumes "mem_get s i = None" "mem_get (fst (run mem_ops (reg_propose rt ttl env input) s)) i = Some p"
  obtains v where "snd (run mem_ops (reg_propose rt ttl env input) s) =
      Ok \<lparr>po_proposal = p, po_linkCode = ce_newLinkCode env, po_deduplicated = False\<rparr>"
    "p = new_proposal rt ttl env input v" "validateMessageDraft rt (pi_payload input) = Ok v"
    "mem_insert s p = (fst (run mem_ops (reg_propose rt ttl env input) s), Ok p)"
proof -
  obtain v where v: "validateMessageDraft rt (pi_payload input) = Ok v"
    using assms by (cases "validateMessageDraft rt (pi_payload input)") (auto simp: reg_propose_def)
  have new: "js_trim (pi_idempotencyKey input) \<noteq> []" "mem_findByIdempotencyKey s (pi_idempotencyKey input) = None"
    using assms v by (auto simp: reg_propose_def mem_ops_def split: if_splits option.splits)
  let ?p = "new_proposal rt ttl env input v"
  obtain s' r where ins: "mem_insert s ?p = (s', r)" by fastforce
  have run: "run mem_ops (reg_propose rt ttl env input) s =
      (s', case r of Err e \<Rightarrow> Err e | Ok q \<Rightarrow> Ok \<lparr>po_proposal = q, po_linkCode = ce_newLinkCode env, po_deduplicated = False\<rparr>)"
    using new v ins by (simp add: reg_propose_def mem_ops_def Let_def new_proposal_def [symmetric] split: result.split)
  then have "mem_get s' i = Some p" using assms(2) by simp
  with assms(1) ins have "p = ?p" "r = Ok ?p"
    by (auto simp: mem_insert_def mem_get_def split: if_splits)
  with run ins v show ?thesis by (intro that [of v]) simp_all
qed

lemma registered_adds:
  assumes "mem_get (gw_store g) i = None" "vs_outbox_ok v"
    and "mem_get (gw_store (registered_with cfg v (Inr input :: 'x + propose_input) g)) i = Some p" "mem_inv (gw_store g)"
  shows "mem_inv (gw_store (registered_with cfg v (Inr input :: 'x + propose_input) g)) \<and> (\<exists>d. p = new_proposal (gc_rt cfg) (gc_ttl cfg) (propose_env v) input d \<and>
    validateMessageDraft (gc_rt cfg) (pi_payload input) = Ok d \<and>
    sf_outbox (gw_files (registered_with cfg v (Inr input :: 'x + propose_input) g)) = sf_outbox (gw_files g) @ [code_line cfg v p])"
proof -
  let ?r = "run mem_ops (reg_propose (gc_rt cfg) (gc_ttl cfg) (propose_env v) input) (gw_store g)"
  have "mem_get (fst ?r) i = Some p" using assms(3) by (simp add: registered_with_def split: prod.splits)
  from run_propose_new_record [OF assms(1) this] obtain d where d: "snd ?r =
      Ok \<lparr>po_proposal = p, po_linkCode = ce_newLinkCode (propose_env v), po_deduplicated = False\<rparr>"
    "p = new_proposal (gc_rt cfg) (gc_ttl cfg) (propose_env v) input d"
    "validateMessageDraft (gc_rt cfg) (pi_payload input) = Ok d"
    "mem_insert (gw_store g) p = (fst ?r, Ok p)" by blast
  have "p_id p \<noteq> []" using d(2) proposing_ok [of v input] by (simp add: new_proposal_def)
  then have "mem_inv (fst ?r)"
    using mem.insert_spec [OF assms(4), of p "fst ?r" "Ok p"] d(4) by (simp add: mem_ops_def split: if_splits)
  moreover have "gw_store (registered_with cfg v (Inr input :: 'x + propose_input) g) = fst ?r"
    by (simp add: registered_with_def split: prod.split)
  moreover have code: "ce_newLinkCode (propose_env v) = generateLinkCode (vs_random v)" by (simp add: propose_env_def)
  obtain f where f: "deliverLinkCode (gc_rt cfg) (gc_server cfg) (vs_outbox_ok v) (vs_diag_ok v) (vs_ts v)
      (vs_answer v) (p_id p) (generateLinkCode (vs_random v)) p (gw_files g) = Some f"
    using deliver_some [OF assms(2)] by blast
  have "gw_files (registered_with cfg v (Inr input :: 'x + propose_input) g) = f"
    using d(1) f by (cases ?r) (simp add: registered_with_def deliver_new_def code)
  with deliver_outbox [OF f] d(2,3) calculation show ?thesis by (auto simp: code_line_def simp del: json_compact.simps)
qed

text \<open>Only a registration adds a proposal.\<close>

lemma cas_adds_none: "mem_get (fst (mem_compareAndSwap s q n)) i = None \<longleftrightarrow> mem_get s i = None"
  by (auto simp: mem_compareAndSwap_def mem_get_def split: option.splits)

lemma call_adds_none:
  assumes "\<And>env input. c \<noteq> Propose env input"
  shows "mem_get (fst (run mem_ops (program rt ttl c) s)) i = None \<longleftrightarrow> mem_get s i = None"
proof -
  have cas: "mem_get (fst (run mem_ops (AwaitCas q n k) s)) i = None \<longleftrightarrow> mem_get s i = None"
    if k: "\<And>r. \<exists>x. k r = Done x" for q n and k :: "proposal result \<Rightarrow> proposal result store_prog"
  proof -
    obtain s' r where c: "mem_compareAndSwap s q n = (s', r)" by fastforce
    obtain x where "k r = Done x" using k [of r] by blast
    with cas_adds_none [of s q n i] c show ?thesis by (simp add: mem_ops_def)
  qed
  have done_k: "\<And>r. \<exists>x. Done r = Done x" "\<And>r e. \<exists>x. (\<lambda>_. Done e) r = Done x" by auto
  note cas_done = cas [of Done, OF done_k(1)] cas [of "\<lambda>_. Done e" for e, OF done_k(2)]
  show ?thesis
    using assms
    by (cases c)
      (auto simp: registry_defs Let_def cas_done simp del: run.simps(5) split: option.splits result.splits if_splits)
qed

lemma calls_add_none:
  "\<forall>c\<in>set cs. \<forall>env input. c \<noteq> Propose env input \<Longrightarrow>
     mem_get (run_calls rt ttl cs s) i = None \<longleftrightarrow> mem_get s i = None"
  by (induction cs arbitrary: s) (simp_all add: call_adds_none)

lemma simulated_adds:
  assumes "simulated cfg v r s s'" "mem_get s i = None" "mem_get s' i \<noteq> None"
  shows "may_propose cfg v r"
proof (rule ccontr)
  assume no: "\<not> may_propose cfg v r"
  obtain cs where cs: "s' = run_calls (gc_rt cfg) (gc_ttl cfg) cs s" "\<forall>c\<in>set cs. may_issue cfg v r c"
    using assms(1) unfolding simulated_def by blast
  have "\<forall>c\<in>set cs. \<forall>env input. c \<noteq> Propose env input" using cs(2) no by auto
  from calls_add_none [OF this] assms(2,3) show False unfolding cs(1) by simp
qed

lemma record_outbox: "record_entry rt d ts k e f = Some f' \<Longrightarrow> sf_outbox f' = sf_outbox f"
  by (rule record_entry_fields)

text \<open>Behind the log line of a POST, what is left is the state before the library or after it, with
  perhaps one more line in the log.\<close>

lemma agent_handled:
  obtains h k where "fst (agent_handle cfg v client b t g) = k\<lparr>gw_files := h\<rparr>"
    "sf_outbox h = sf_outbox (gw_files k)" "k = g \<or> k = fst (agent_library cfg v client t g)"
proof (cases "vs_transport_error v")
  case None
  then show ?thesis
    by (intro that [of "gw_files (fst (agent_library cfg v client t g))" "fst (agent_library cfg v client t g)"])
      (simp_all add: agent_handle_def)
next
  case (Some e)
  obtain k r where k: "(if te_ran e then agent_library cfg v client t g else (g, Gw_library)) = (k, r)"
    by fastforce
  then have alt: "k = g \<or> k = fst (agent_library cfg v client t g)" by (auto split: if_splits)
  let ?line = "record_entry (gc_rt cfg) (vs_diag_ok v) (vs_ts v) ''mcp_error''
    [(lit ''reqId'', JStr (vs_reqId v)), (lit ''message'', JStr (te_message e))] (gw_files k)"
  show ?thesis
  proof (cases ?line)
    case None
    with Some k alt show ?thesis by (intro that [of "gw_files k" k]) (simp_all add: agent_handle_def)
  next
    case (Some f)
    with \<open>vs_transport_error v = Some e\<close> k alt record_outbox [OF Some] show ?thesis
      by (intro that [of f k]) (simp_all add: agent_handle_def)
  qed
qed

lemma added_registered:
  assumes "mem_get (gw_store g) i = None" "mem_get (gw_store (fst (gateway_do cfg v r g))) i = Some p"
  obtains f h input where "sf_outbox f = sf_outbox (gw_files g)"
    "fst (gateway_do cfg v r g) =
      (registered_with cfg v (Inr input :: unit + propose_input) (g\<lparr>gw_files := f\<rparr>))\<lparr>gw_files := h\<rparr>"
    "sf_outbox h = sf_outbox (gw_files (registered_with cfg v (Inr input :: unit + propose_input) (g\<lparr>gw_files := f\<rparr>)))"
proof -
  have inl: "registered_with cfg v (Inl x :: 'x + propose_input) h = h" for x h
    by (simp add: registered_with_def)
  have may: "may_propose cfg v r" using simulated_adds [OF simulated_step assms(1)] assms(2) by simp
  show ?thesis
  proof (cases r)
    case (Agent_post h b ver t)
    with may obtain client sc aud where
      tok: "requireToken (gc_rt cfg) (gc_verify cfg) (vs_oauth v) h = Bearer_passes client sc aud"
      by (auto split: bearer.splits)
    obtain f where f: "record_entry (gc_rt cfg) (vs_diag_ok v) (vs_ts v) ''mcp_request''
        (mcp_request_entry b ver (vs_reqId v)) (gw_files g) = Some f"
      using assms by (cases "record_entry (gc_rt cfg) (vs_diag_ok v) (vs_ts v) ''mcp_request''
        (mcp_request_entry b ver (vs_reqId v)) (gw_files g)") (simp_all add: Agent_post agent_post_def tok)
    let ?g = "g\<lparr>gw_files := f\<rparr>"
    have handled: "fst (gateway_do cfg v r g) = fst (agent_handle cfg v client b t ?g)"
      by (simp add: Agent_post agent_post_def tok f)
    obtain h' k where k: "fst (agent_handle cfg v client b t ?g) = k\<lparr>gw_files := h'\<rparr>"
      "sf_outbox h' = sf_outbox (gw_files k)" "k = ?g \<or> k = fst (agent_library cfg v client t ?g)"
      by (rule agent_handled)
    have lib: "k = fst (agent_library cfg v client t ?g)" using k assms handled by auto
    have got: "mem_get (gw_store k) i = Some p" using assms(2) unfolding handled k(1) by simp
    obtain u where u: "t = Some u"
      using assms(1) got by (cases t) (simp_all add: lib agent_library_def)
    obtain args where args: "u = Propose_message args"
      using assms(1) got by (cases u) (simp_all add: lib agent_library_def u)
    have reg: "k = registered_with cfg v (agent_input cfg v client args) ?g"
      by (simp add: lib agent_library_def u args)
    obtain input where input: "agent_input cfg v client args = Inr input"
      using assms(1) got unfolding reg by (cases "agent_input cfg v client args") (simp_all add: inl)
    have "k = registered_with cfg v (Inr input :: unit + propose_input) ?g"
      by (simp add: reg input registered_with_def)
    with k(1,2) handled show ?thesis
      by (intro that [of f h' input] record_outbox [OF f]) simp_all
  next
    case (Service_propose h b)
    with may have sec: "server_secret (gc_server cfg) \<noteq> []" by simp
    have do_it: "fst (gateway_do cfg v r g) = registered_with cfg v (service_input cfg h b) g"
      by (simp add: Service_propose service_post_def server_internal_def sec split: prod.split)
    with assms obtain input where "service_input cfg h b = Inr input"
      by (cases "service_input cfg h b") (simp_all add: inl)
    with do_it show ?thesis
      by (intro that [of "gw_files g" "gw_files (fst (gateway_do cfg v r g))" input])
        (simp_all add: registered_with_def)
  qed (use may in simp_all)
qed

lemma code_opens:
  assumes "mem_inv (gw_store g)" "mem_get (gw_store g) i = None" "vs_outbox_ok v"
    and "\<forall>s. rt_sha256 (gc_rt cfg) s \<noteq> []"
    and "(g1, x1) = gateway_do cfg v r g" "mem_get (gw_store g1) i = Some p"
    and "admit (as_limiter (gw_api g1)) (as_global (gw_api g1)) i (re_now1 (vs_times w)) (re_now2 (vs_times w)) =
      (l, h, True)" "ce_now (re_first (vs_times w)) < p_expiresAt p"
    and "(g2, x2) = gateway_do cfg w (Confirm_json i
      (confirm_body (generateLinkCode (vs_random v)) (p_payloadDigest p))) g1"
  shows "sf_outbox (gw_files g1) = sf_outbox (gw_files g) @ [code_line cfg v p] \<and>
    (\<exists>y. x2 = Gw_answer y \<and> reply_status y = Some 200) \<and>
    (\<exists>q. mem_get (gw_store g2) i = Some q \<and> p_state q = Executed \<and> p_payload q = p_payload p)"
proof -
  let ?code = "generateLinkCode (vs_random v)"
  have g1: "g1 = fst (gateway_do cfg v r g)" using assms(5) by (metis fst_conv)
  obtain f h' input where f: "sf_outbox f = sf_outbox (gw_files g)"
    "g1 = (registered_with cfg v (Inr input :: unit + propose_input) (g\<lparr>gw_files := f\<rparr>))\<lparr>gw_files := h'\<rparr>"
    "sf_outbox h' = sf_outbox (gw_files (registered_with cfg v (Inr input :: unit + propose_input) (g\<lparr>gw_files := f\<rparr>)))"
    using added_registered [OF assms(2)] assms(6) unfolding g1 by metis
  from registered_adds [of "g\<lparr>gw_files := f\<rparr>" i v cfg input p] assms(1-3,6) f obtain d where
    d: "mem_inv (gw_store g1)" "p = new_proposal (gc_rt cfg) (gc_ttl cfg) (propose_env v) input d"
    "sf_outbox (gw_files g1) = sf_outbox (gw_files g) @ [code_line cfg v p]" by auto
  have fields: "p_state p = Pending_confirmation" "p_linkCodeHash p = hashLinkCode (gc_rt cfg) ?code"
    "p_payloadDigest p = digestPayload (gc_rt cfg) (p_payload p)"
    by (simp_all add: d(2) new_proposal_def propose_env_def)
  let ?e = "re_first (vs_times w)"
  let ?q = "applied (ce_clock ?e) p Confirmed (lit ''confirmed by human'') Human"
  have ok: "confirm (gc_rt cfg) (ce_clock ?e) p \<lparr>ci_linkCode = ?code, ci_seenDigest = p_payloadDigest p,
      ci_now = Some (ce_now ?e)\<rparr> = Ok ?q"
    using assms(4,8) fields by (simp add: confirm_Ok_iff live_def time_or_def hashLinkCode_def digestPayload_def)
  note opened = api_confirm_admitted [OF d(1) assms(6) assms(7), of "gc_rt cfg" ?code "p_payloadDigest p",
      unfolded ok result.case]
  have "x2 = Gw_answer (snd (api_confirm (gc_rt cfg) mem_ops (vs_times w) i (confirm_body ?code (p_payloadDigest p)) (gw_api g1)))"
    "gw_store g2 = as_store (fst (api_confirm (gc_rt cfg) mem_ops (vs_times w) i (confirm_body ?code (p_payloadDigest p)) (gw_api g1)))"
    using assms(9) by (simp_all add: human_def)
  with opened d(3) show ?thesis by simp
qed

subsection \<open>A concrete history\<close>

definition demo_gateway :: gateway_setup where
  "demo_gateway = \<lparr>gc_rt = demo_rt, gc_ttl = 300, gc_server = demo_server,
     gc_verify = demo_verify demo_claims 9000, gc_localDate = dec_int\<rparr>"

text \<open>The bytes of the code \<open>ABC234\<close>.\<close>

definition demo_asking :: visit where
  "demo_asking = \<lparr>vs_uuid = lit ''1'', vs_reqId = lit ''r1'', vs_transport_error = None,
     vs_random = [0, 1, 2, 23, 24, 25],
     vs_times = \<lparr>re_now1 = 0, re_now2 = 0, re_first = demo_env, re_second = demo_env, re_third = demo_env\<rparr>,
     vs_now = 5, vs_ts = lit ''t'', vs_outbox_ok = True, vs_diag_ok = True, vs_answer = Inl 200,
     vs_clear_error = None, vs_web = demo_web, vs_oauth = demo_oenv\<rparr>"

definition demo_deciding :: visit where
  "demo_deciding = demo_asking\<lparr>vs_times := demo_request\<rparr>"

definition demo_ask :: gw_request where
  "demo_ask = Agent_post (Some (lit ''Bearer jwt'')) (JObj [(lit ''method'', JStr (lit ''tools/call''))]) None
     (Some (Propose_message demo_args))"

definition demo_decide :: gw_request where
  "demo_decide = Confirm_json (lit ''prop_1'') (confirm_body demo_code (digestPayload demo_rt TEST_MESSAGE))"

lemma demo_gateway_fields [simp]:
  "gc_rt demo_gateway = demo_rt" "gc_ttl demo_gateway = 300" "gc_server demo_gateway = demo_server"
  "gc_verify demo_gateway = demo_verify demo_claims 9000"
  by (simp_all add: demo_gateway_def)

lemma demo_generated: "generateLinkCode [0, 1, 2, 23, 24, 25] = demo_code"
proof -
  have "length ALPHABET = 31" by simp
  then show ?thesis
    by (simp add: generateLinkCode_def upt_rec demo_code_def del: length_ALPHABET) (simp add: ALPHABET_def lit_def)
qed

lemma demo_propose_env: "propose_env demo_asking = demo_env"
  by (simp add: propose_env_def demo_asking_def demo_generated demo_env_def lit_def)

lemma demo_visit_fields [simp]:
  "vs_outbox_ok demo_asking" "vs_oauth demo_asking = demo_oenv" "vs_transport_error demo_asking = None"
  "vs_web demo_asking = demo_web" "vs_now demo_asking = 5" "generateLinkCode (vs_random demo_asking) = demo_code"
  "vs_times demo_deciding = demo_request" "vs_diag_ok demo_asking" "vs_reqId demo_asking = lit ''r1''"
  by (simp_all add: demo_asking_def demo_deciding_def demo_generated)

lemma demo_request_fields [simp]: "re_first demo_request = demo_env2" "ce_now demo_env2 = 2000"
  by (simp_all add: demo_request_def demo_env2_def)

lemma demo_asked:
  "\<exists>p. mem_get (gw_store (fst (gateway_do demo_gateway demo_asking demo_ask gateway_start))) (lit ''prop_1'') = Some p \<and>
     p_payload p = TEST_MESSAGE \<and> p_payloadDigest p = digestPayload demo_rt TEST_MESSAGE \<and> p_expiresAt p = 301000 \<and>
     as_limiter (gw_api (fst (gateway_do demo_gateway demo_asking demo_ask gateway_start))) = default_limiter \<and>
     as_global (gw_api (fst (gateway_do demo_gateway demo_asking demo_ask gateway_start))) = default_global_limiter"
proof -
  let ?g1 = "fst (gateway_do demo_gateway demo_asking demo_ask gateway_start)"
  let ?payload = "TEST_MESSAGE"
  have "record_entry demo_rt True (vs_ts demo_asking) ''mcp_request''
      (mcp_request_entry (JObj [(lit ''method'', JStr (lit ''tools/call''))]) None (lit ''r1'')) (gw_files gateway_start) \<noteq> None"
    by (rule record_scalars) (simp add: mcp_request_entry_def nullish_def)
  then obtain f where f: "record_entry demo_rt True (vs_ts demo_asking) ''mcp_request''
      (mcp_request_entry (JObj [(lit ''method'', JStr (lit ''tools/call''))]) None (lit ''r1'')) (gw_files gateway_start) = Some f"
    by blast
  let ?g = "gateway_start\<lparr>gw_files := f\<rparr>"
  let ?in = "mcp_input demo_rt (agent_deps demo_gateway demo_asking (lit ''mcp_010203'')) 5 TEST_MESSAGE"
  have checked: "propose_checked demo_rt demo_web demo_args = Inr TEST_MESSAGE"
    by (simp add: propose_checked_def demo_fetch demo_mcp_payload)
  have input: "agent_input demo_gateway demo_asking (lit ''mcp_010203'') demo_args = Inr ?in"
    by (simp add: agent_input_def checked)
  have g1: "?g1 = registered_with demo_gateway demo_asking (Inr ?in :: tool_result option + propose_input) ?g"
    using demo_bearer f
    by (simp add: demo_ask_def agent_post_def agent_handle_def agent_library_def input)
  have start: "gw_store ?g = mem_empty" "gw_store gateway_start = mem_empty"
    by (simp_all add: gateway_start_def new_api_def)
  have "mem_get (gw_store ?g1) (lit ''prop_1'') \<noteq> None"
    using demo_proposed [of "agent_deps demo_gateway demo_asking (lit ''mcp_010203'')"]
      agent_registration [of demo_gateway demo_asking "lit ''mcp_010203''" demo_args ?g]
    by (auto simp: g1 input start demo_propose_env)
  then obtain p where p: "mem_get (gw_store ?g1) (lit ''prop_1'') = Some p" by blast
  from registered_adds [OF _ _ p [unfolded g1]] obtain d where
    "p = new_proposal demo_rt 300 demo_env ?in d" "validateMessageDraft demo_rt TEST_MESSAGE = Ok d"
    by (auto simp: start mem_inv_empty demo_propose_env mcp_input_def)
  then have "p_payload p = TEST_MESSAGE \<and> p_payloadDigest p = digestPayload demo_rt TEST_MESSAGE \<and> p_expiresAt p = 301000"
    by (simp add: demo_valid new_proposal_def demo_env_def)
  moreover have "as_limiter (gw_api ?g1) = default_limiter" "as_global (gw_api ?g1) = default_global_limiter"
    unfolding g1 by (simp_all add: registered_with_def split: prod.split) (simp_all add: gateway_start_def new_api_def)
  ultimately show ?thesis using p by blast
qed

lemma demo_start: "mem_inv (gw_store gateway_start)" "mem_get (gw_store gateway_start) (lit ''prop_1'') = None"
  by (simp_all add: gateway_start_def new_api_def mem_inv_empty)

lemma demo_ready:
  obtains g1 g2 x1 x2 p l h where "(g1, x1) = gateway_do demo_gateway demo_asking demo_ask gateway_start"
    "(g2, x2) = gateway_do demo_gateway demo_deciding demo_decide g1"
    "mem_get (gw_store g1) (lit ''prop_1'') = Some p" "p_payloadDigest p = digestPayload demo_rt TEST_MESSAGE"
    "p_expiresAt p = 301000" "admit (as_limiter (gw_api g1)) (as_global (gw_api g1)) (lit ''prop_1'')
      (re_now1 (vs_times demo_deciding)) (re_now2 (vs_times demo_deciding)) = (l, h, True)"
proof -
  obtain g1 x1 where g1: "gateway_do demo_gateway demo_asking demo_ask gateway_start = (g1, x1)" by fastforce
  obtain g2 x2 where g2: "gateway_do demo_gateway demo_deciding demo_decide g1 = (g2, x2)" by fastforce
  obtain p where p: "mem_get (gw_store g1) (lit ''prop_1'') = Some p"
    "p_payloadDigest p = digestPayload demo_rt TEST_MESSAGE" "p_expiresAt p = 301000"
    "as_limiter (gw_api g1) = default_limiter" "as_global (gw_api g1) = default_global_limiter"
    using demo_asked g1 by auto
  obtain l h where "admit (as_limiter (gw_api g1)) (as_global (gw_api g1)) (lit ''prop_1'')
      (re_now1 (vs_times demo_deciding)) (re_now2 (vs_times demo_deciding)) = (l, h, True)"
    using demo_admitted unfolding p(4,5) by blast
  with that g1 [symmetric] g2 [symmetric] p show ?thesis by blast
qed

lemma demo_executed:
  "\<exists>q. mem_get (gw_store (fst (gateway_run demo_gateway [(demo_asking, demo_ask), (demo_deciding, demo_decide)]
     gateway_start))) (lit ''prop_1'') = Some q \<and> p_state q = Executed"
proof -
  obtain g1 g2 x1 x2 p l h where d: "(g1, x1) = gateway_do demo_gateway demo_asking demo_ask gateway_start"
    "(g2, x2) = gateway_do demo_gateway demo_deciding demo_decide g1"
    "mem_get (gw_store g1) (lit ''prop_1'') = Some p" "p_payloadDigest p = digestPayload demo_rt TEST_MESSAGE"
    "p_expiresAt p = 301000" "admit (as_limiter (gw_api g1)) (as_global (gw_api g1)) (lit ''prop_1'')
      (re_now1 (vs_times demo_deciding)) (re_now2 (vs_times demo_deciding)) = (l, h, True)"
    by (rule demo_ready)
  have "\<exists>q. mem_get (gw_store g2) (lit ''prop_1'') = Some q \<and> p_state q = Executed"
    using code_opens [OF demo_start _ _ d(1,3,6), of g2 x2] d(2,4,5) by (auto simp: demo_decide_def)
  then show ?thesis by (simp add: d(1) [symmetric] d(2) [symmetric])
qed

theorem gateway_authority_witness:
  "\<exists>p. mem_get (gw_store (fst (gateway_run demo_gateway [(demo_asking, demo_ask), (demo_deciding, demo_decide)]
       gateway_start))) (lit ''prop_1'') = Some p \<and>
     p_state p = Executed \<and> safeEqualHex (hashLinkCode demo_rt demo_code) (p_linkCodeHash p) \<and>
     (\<exists>input. asked demo_gateway demo_asking demo_ask input \<and>
        validateMessageDraft demo_rt (pi_payload input) = Ok (p_payload p))"
proof -
  let ?h = "[(demo_asking, demo_ask), (demo_deciding, demo_decide)]"
  obtain p where p: "mem_get (gw_store (fst (gateway_run demo_gateway ?h gateway_start))) (lit ''prop_1'') = Some p"
    "p_state p = Executed" using demo_executed by blast
  have only: "presented demo_rt r = Some (i, code, dig) \<longrightarrow> code = demo_code" if "(v, r) \<in> set ?h" for v r i code dig
    using that by (auto simp: demo_ask_def demo_decide_def)
  note who = gateway_authority [OF p(1), unfolded demo_gateway_fields(1)]
  obtain v r code dig where "(v, r) \<in> set ?h" "presented demo_rt r = Some (lit ''prop_1'', code, dig)"
    "safeEqualHex (hashLinkCode demo_rt code) (p_linkCodeHash p)"
    using who [THEN conjunct2] p(2) by fastforce
  then have code: "safeEqualHex (hashLinkCode demo_rt demo_code) (p_linkCodeHash p)" using only by blast
  obtain v r input where w: "(v, r) \<in> set ?h" "may_propose demo_gateway v r" "asked demo_gateway v r input"
    "validateMessageDraft demo_rt (pi_payload input) = Ok (p_payload p)"
    using who [THEN conjunct1] by blast
  then have "v = demo_asking \<and> r = demo_ask" by (auto simp: demo_decide_def)
  with w code p show ?thesis by blast
qed

text \<open>C10: the code that is delivered opens the proposal: when a request has added a proposal and the
  outbox could be written, the outbox has one line more, with the new code; and a confirmation request
  with that code and the digest of the stored draft, admitted by the limiters before the deadline, is
  answered 200 and leaves the proposal executed, with the draft it was proposed with.\<close>

theorem delivered_code_approves:
  assumes "mem_inv (gw_store g)" "mem_get (gw_store g) i = None" "vs_outbox_ok v"
    and "\<forall>s. rt_sha256 (gc_rt cfg) s \<noteq> []"
    and "(g1, x1) = gateway_do cfg v r g" "mem_get (gw_store g1) i = Some p"
    and "admit (as_limiter (gw_api g1)) (as_global (gw_api g1)) i (re_now1 (vs_times w)) (re_now2 (vs_times w)) =
      (l, h, True)" "ce_now (re_first (vs_times w)) < p_expiresAt p"
    and "(g2, x2) = gateway_do cfg w (Confirm_json i
      (confirm_body (generateLinkCode (vs_random v)) (p_payloadDigest p))) g1"
  shows "sf_outbox (gw_files g1) = sf_outbox (gw_files g) @ [code_line cfg v p] \<and>
    (\<exists>y. x2 = Gw_answer y \<and> reply_status y = Some 200) \<and>
    (\<exists>q. mem_get (gw_store g2) i = Some q \<and> p_state q = Executed \<and> p_payload q = p_payload p)"
  by (rule code_opens [OF assms])

theorem delivered_code_approves_witness:
  "\<exists>g1 g2 x1 x2 q. gateway_do demo_gateway demo_asking demo_ask gateway_start = (g1, x1) \<and>
     gateway_do demo_gateway demo_deciding demo_decide g1 = (g2, x2) \<and>
     mem_get (gw_store g2) (lit ''prop_1'') = Some q \<and> p_state q = Executed"
proof -
  obtain g1 g2 x1 x2 p l h where d: "(g1, x1) = gateway_do demo_gateway demo_asking demo_ask gateway_start"
    "(g2, x2) = gateway_do demo_gateway demo_deciding demo_decide g1"
    "mem_get (gw_store g1) (lit ''prop_1'') = Some p" "p_payloadDigest p = digestPayload demo_rt TEST_MESSAGE"
    "p_expiresAt p = 301000" "admit (as_limiter (gw_api g1)) (as_global (gw_api g1)) (lit ''prop_1'')
      (re_now1 (vs_times demo_deciding)) (re_now2 (vs_times demo_deciding)) = (l, h, True)"
    by (rule demo_ready)
  have "\<exists>q. mem_get (gw_store g2) (lit ''prop_1'') = Some q \<and> p_state q = Executed"
    using delivered_code_approves [OF demo_start _ _ d(1,3,6), of g2 x2] d(2,4,5)
    by (auto simp: demo_decide_def)
  with d(1,2) show ?thesis by metis
qed

end
