(* ===== verification/GatewayFlow.thy ===== *)
theory GatewayFlow
  imports GatewayProps
begin

text \<open>
  What the link codes flow into. \<open>erase\<close> forgets the codes in a state of the gateway: the stored
  hashes and the text of the outbox. A request that neither presents a code nor reads the device
  answers the same, and leaves the same but for the codes, in a state and in its erasure
  (\<open>gateway_erased\<close>, by one lemma for each operation); so two histories whose only difference are
  the codes that were drawn are told apart by nothing the agent, the backend or a reader of the
  pages or of the audit log sees.
\<close>

definition blind :: "proposal \<Rightarrow> proposal" where
  "blind p = p\<lparr>p_linkCodeHash := []\<rparr>"

definition blind_store :: "mem_store \<Rightarrow> mem_store" where
  "blind_store s = s\<lparr>ms_byId := map_option blind \<circ> ms_byId s\<rparr>"

definition erase_files :: "server_files \<Rightarrow> server_files" where
  "erase_files f = f\<lparr>sf_outbox := map (\<lambda>_. []) (sf_outbox f)\<rparr>"

definition erase_api :: "mem_store api_state \<Rightarrow> mem_store api_state" where
  "erase_api a = a\<lparr>as_store := blind_store (as_store a)\<rparr>"

definition erase :: "gateway \<Rightarrow> gateway" where
  "erase g = \<lparr>gw_api = erase_api (gw_api g), gw_files = erase_files (gw_files g)\<rparr>"

definition plain :: "visit \<Rightarrow> visit" where
  "plain v = v\<lparr>vs_random := [0, 0, 0, 0, 0, 0]\<rparr>"

lemma blind_fields [simp]:
  "p_id (blind p) = p_id p" "p_state (blind p) = p_state p" "p_payload (blind p) = p_payload p"
  "p_payloadDigest (blind p) = p_payloadDigest p" "p_idempotencyKey (blind p) = p_idempotencyKey p"
  "p_createdAt (blind p) = p_createdAt p" "p_expiresAt (blind p) = p_expiresAt p"
  "p_version (blind p) = p_version p" "p_history (blind p) = p_history p" "blind (blind p) = blind p"
  by (simp_all add: blind_def)

lemma erase_fields [simp]:
  "gw_api (erase g) = erase_api (gw_api g)" "gw_files (erase g) = erase_files (gw_files g)"
  "as_store (erase_api a) = blind_store (as_store a)" "as_limiter (erase_api a) = as_limiter a"
  "as_global (erase_api a) = as_global a" "sf_diag (erase_files f) = sf_diag f"
  "length (sf_outbox (erase_files f)) = length (sf_outbox f)"
  by (simp_all add: erase_def erase_api_def erase_files_def)

lemma blind_twice [simp]: "map_option blind \<circ> (map_option blind \<circ> m) = map_option blind \<circ> m"
  by (simp add: fun_eq_iff option.map_comp o_def)

lemma erase_idem [simp]: "blind_store (blind_store s) = blind_store s"
  "erase_files (erase_files f) = erase_files f" "erase_api (erase_api a) = erase_api a" "erase (erase g) = erase g"
  by (simp_all add: blind_store_def erase_files_def erase_api_def erase_def)

lemma erase_updates [simp]:
  "erase (g\<lparr>gw_files := f\<rparr>) = (erase g)\<lparr>gw_files := erase_files f\<rparr>"
  "erase (g\<lparr>gw_api := a\<rparr>) = (erase g)\<lparr>gw_api := erase_api a\<rparr>"
  "erase_api (a\<lparr>as_store := s\<rparr>) = (erase_api a)\<lparr>as_store := blind_store s\<rparr>"
  by (simp_all add: erase_def erase_api_def)

subsection \<open>Proposals and the store\<close>

lemma blind_applied: "applied clk (blind p) t why who = blind (applied clk p t why who)"
  by (simp add: blind_def applied_def)

lemma blind_expire: "expireIfDue clk (blind p) n = blind (expireIfDue clk p n)"
  by (simp add: expireIfDue_def blind_applied)

lemma blind_reject: "reject clk (blind p) n = map_result blind (reject clk p n)"
  by (simp add: reject_def Let_def blind_expire blind_applied guard_def err_def)

lemma blind_get: "mem_get (blind_store s) i = map_option blind (mem_get s i)"
  by (simp add: mem_get_def blind_store_def)

lemma blind_find: "mem_findByIdempotencyKey (blind_store s) k = map_option blind (mem_findByIdempotencyKey s k)"
  by (simp add: mem_findByIdempotencyKey_def blind_store_def split: option.split)

lemma blind_cas: "mem_compareAndSwap (blind_store s) (blind q) n =
    map_prod blind_store (map_result blind) (mem_compareAndSwap s q n)"
  by (auto simp: mem_compareAndSwap_def blind_store_def err_def map_option_o_map_upd split: option.split)

lemma blind_insert: "blind p = blind q \<Longrightarrow>
    map_prod blind_store (map_result blind) (mem_insert (blind_store s) q) =
    map_prod blind_store (map_result blind) (mem_insert s p)"
proof -
  assume eq: "blind p = blind q"
  then have "p_id p = p_id q" "p_idempotencyKey p = p_idempotencyKey q" by (metis blind_fields(1,5))+
  with eq show ?thesis
    by (auto simp: mem_insert_def blind_store_def err_def map_option_o_map_upd split: option.split)
qed

lemma blind_view:
  "run mem_ops (reg_getForConfirmation env i) (blind_store s) =
     map_prod blind_store (map_option blind) (run mem_ops (reg_getForConfirmation env i) s)"
  by (simp add: mem.run_getForConfirmation blind_get option.map_comp o_def blind_expire)

lemma blind_rejected:
  "run mem_ops (reg_reject env i) (blind_store s) =
     map_prod blind_store (map_result blind) (run mem_ops (reg_reject env i) s)"
proof (cases "mem_get s i")
  case None
  then show ?thesis by (simp add: reg_reject_def blind_get no_such_proposal_def err_def)
next
  case (Some p)
  then show ?thesis
  proof (cases "reject (ce_clock env) p (ce_now env)")
    case (Ok q)
    have "so_cas mem_ops (blind_store s) (blind q) (p_version p) =
        map_prod blind_store (map_result blind) (so_cas mem_ops s q (p_version p))"
      using blind_cas by (simp add: mem_ops_def)
    with Some Ok show ?thesis
      by (simp add: reg_reject_def blind_get blind_reject split: prod.split)
  qed (simp add: reg_reject_def blind_get blind_reject)
qed

subsection \<open>Registration\<close>

definition blind_out :: "propose_output \<Rightarrow> propose_output" where
  "blind_out out = out\<lparr>po_proposal := blind (po_proposal out),
     po_linkCode := (if po_linkCode out = [] then [] else [0])\<rparr>"

lemma blind_out_fields [simp]:
  "po_proposal (blind_out out) = blind (po_proposal out)" "po_deduplicated (blind_out out) = po_deduplicated out"
  "po_linkCode (blind_out out) = [] \<longleftrightarrow> po_linkCode out = []"
  by (simp_all add: blind_out_def)

lemma blind_propose:
  "map_prod blind_store (map_result blind_out)
     (run mem_ops (reg_propose rt ttl (propose_env (plain v)) input) (blind_store s)) =
   map_prod blind_store (map_result blind_out)
     (run mem_ops (reg_propose rt ttl (propose_env v) input) s)"
proof (cases "validateMessageDraft rt (pi_payload input)")
  case (Err e)
  then show ?thesis by (simp add: reg_propose_def)
next
  case (Ok d)
  let ?p = "new_proposal rt ttl (propose_env v) input d"
  let ?q = "new_proposal rt ttl (propose_env (plain v)) input d"
  have blind: "blind ?p = blind ?q"
    by (simp add: new_proposal_def createProposal_def blind_def propose_env_def plain_def Let_def)
  have code: "ce_newLinkCode (propose_env w) \<noteq> []" for w by (simp add: propose_env_def)
  obtain s1 r1 where i1: "mem_insert s ?p = (s1, r1)" by fastforce
  obtain s2 r2 where i2: "mem_insert (blind_store s) ?q = (s2, r2)" by fastforce
  have same: "blind_store s2 = blind_store s1" "map_result blind r2 = map_result blind r1"
    using blind_insert [OF blind, of s] i1 i2 by simp_all
  have out: "map_result blind_out (case r2 of Err e \<Rightarrow> Err e | Ok q \<Rightarrow> Ok \<lparr>po_proposal = q,
        po_linkCode = ce_newLinkCode (propose_env (plain v)), po_deduplicated = False\<rparr>) =
      map_result blind_out (case r1 of Err e \<Rightarrow> Err e | Ok q \<Rightarrow> Ok \<lparr>po_proposal = q,
        po_linkCode = ce_newLinkCode (propose_env v), po_deduplicated = False\<rparr>)"
    using same(2) code by (cases r1; cases r2) (simp_all add: blind_out_def)
  show ?thesis
  proof (cases "js_trim (pi_idempotencyKey input) = []")
    case True
    then show ?thesis by (simp add: reg_propose_def Ok err_def)
  next
    case key: False
    show ?thesis
    proof (cases "mem_findByIdempotencyKey s (pi_idempotencyKey input)")
      case None
      then show ?thesis
        using key same(1) out i1 i2
        by (cases r1; cases r2)
          (simp_all add: reg_propose_def Ok mem_ops_def blind_find Let_def new_proposal_def [symmetric])
    next
      case (Some p)
      then show ?thesis
        using key by (simp add: reg_propose_def Ok mem_ops_def blind_find blind_out_def)
    qed
  qed
qed

subsection \<open>The files\<close>

lemma erase_record:
  "record_entry rt d ts k e (erase_files f) = map_option erase_files (record_entry rt d ts k e f)"
  by (cases "record_line rt ts k e") (simp_all add: record_entry_def erase_files_def)

lemma erase_notify:
  assumes "p_payload p = p_payload q"
  shows "notifyPooliDraftReady rt env d ts a q i (erase_files f) =
    map_option erase_files (notifyPooliDraftReady rt env d ts a p i f)"
  using assms
  by (simp add: notifyPooliDraftReady_def draft_ready_request_def Let_def erase_record split: sum.split)

lemma erase_deliver:
  assumes "p_payload p = p_payload q"
  shows "map_option erase_files (deliverLinkCode rt env ok d ts a i c' q (erase_files f)) =
    map_option erase_files (deliverLinkCode rt env ok d ts a i c p f)"
proof (cases ok)
  case True
  let ?f = "f\<lparr>sf_outbox := sf_outbox f @ [json_compact (JObj (object_spread [(lit ''ts'', JStr ts)] (outbox_entry env i c p)))]\<rparr>"
  let ?g = "(erase_files f)\<lparr>sf_outbox := sf_outbox (erase_files f) @
    [json_compact (JObj (object_spread [(lit ''ts'', JStr ts)] (outbox_entry env i c' q)))]\<rparr>"
  have fg: "erase_files ?g = erase_files ?f" by (simp add: erase_files_def del: json_compact.simps)
  have entry: "delivered_entry env i q = delivered_entry env i p" using assms by (simp add: delivered_entry_def)
  let ?r = "\<lambda>f. record_entry rt d ts ''link_code_delivered'' (delivered_entry env i p) f"
  have r: "map_option erase_files (?r ?g) = map_option erase_files (?r ?f)"
    using erase_record [of rt d ts "''link_code_delivered''" "delivered_entry env i p" ?f]
      erase_record [of rt d ts "''link_code_delivered''" "delivered_entry env i p" ?g] fg by metis
  have n: "map_option erase_files (notifyPooliDraftReady rt env d ts a q i h) =
      map_option erase_files (notifyPooliDraftReady rt env d ts a p i k)"
    if "erase_files h = erase_files k" for h k
    using erase_notify [OF assms, of rt env d ts a i k] erase_notify [of q q rt env d ts a i h] that
    by metis
  show ?thesis
    using r n True
    by (cases "?r ?g"; cases "?r ?f")
      (simp_all add: deliverLinkCode_def deliverOutOfBand_def entry del: json_compact.simps)
qed (simp add: deliverLinkCode_def deliverOutOfBand_def)

lemma erase_deliver_new:
  assumes "map_result blind_out r' = map_result blind_out r"
  shows "erase_files (deliver_new cfg (plain v) r' (erase_files f)) = erase_files (deliver_new cfg v r f)"
proof (cases r)
  case (Err e)
  with assms show ?thesis by (cases r') (simp_all add: deliver_new_def)
next
  case (Ok out)
  with assms obtain out' where out': "r' = Ok out'" "blind_out out' = blind_out out"
    by (cases r') simp_all
  then have f: "po_deduplicated out' = po_deduplicated out" "(po_linkCode out' = []) = (po_linkCode out = [])"
    "blind (po_proposal out') = blind (po_proposal out)"
    by (metis blind_out_fields)+
  from f(3) have p: "p_payload (po_proposal out) = p_payload (po_proposal out')"
    "p_id (po_proposal out') = p_id (po_proposal out)" by (metis blind_fields)+
  have v: "vs_outbox_ok (plain v) = vs_outbox_ok v" "vs_diag_ok (plain v) = vs_diag_ok v"
    "vs_ts (plain v) = vs_ts v" "vs_answer (plain v) = vs_answer v" by (simp_all add: plain_def)
  have "map_option erase_files (deliverLinkCode (gc_rt cfg) (gc_server cfg) (vs_outbox_ok v) (vs_diag_ok v) (vs_ts v)
      (vs_answer v) (p_id (po_proposal out)) (po_linkCode out') (po_proposal out') (erase_files f)) =
    map_option erase_files (deliverLinkCode (gc_rt cfg) (gc_server cfg) (vs_outbox_ok v) (vs_diag_ok v) (vs_ts v)
      (vs_answer v) (p_id (po_proposal out)) (po_linkCode out) (po_proposal out) f)"
    by (rule erase_deliver [OF p(1)])
  then show ?thesis
    using f(1,2) p(2) unfolding deliver_new_def Ok out'(1) v result.case
    by (auto split: option.splits)
qed

lemma erase_registered:
  "erase (registered_with cfg (plain v) checked (erase g)) = erase (registered_with cfg v checked g)"
proof (cases checked)
  case (Inr input)
  obtain s1 r1 where r1: "run mem_ops (reg_propose (gc_rt cfg) (gc_ttl cfg) (propose_env v) input) (gw_store g) = (s1, r1)"
    by fastforce
  obtain s2 r2 where r2: "run mem_ops (reg_propose (gc_rt cfg) (gc_ttl cfg) (propose_env (plain v)) input)
      (blind_store (gw_store g)) = (s2, r2)" by fastforce
  have same: "blind_store s2 = blind_store s1" "map_result blind_out r2 = map_result blind_out r1"
    using blind_propose [of "gc_rt cfg" "gc_ttl cfg" v input "gw_store g"] r1 r2 by simp_all
  show ?thesis
    using same(1) erase_deliver_new [OF same(2), of cfg v "gw_files g"]
    by (simp add: registered_with_def Inr r1 r2)
qed (simp add: registered_with_def)

subsection \<open>The replies\<close>

lemma blind_texts [simp]:
  "toView (blind p) = toView p" "renderProposal d (blind p) m = renderProposal d p m"
  "status_text (blind p) = status_text p" "proposed_text deps (blind p) b = proposed_text deps p b"
  by (simp_all add: toView_def renderProposal_def page_details_def page_form_def status_text_def
      executionReferenceOf_def proposed_text_def)

lemma blind_out_eq:
  assumes "blind_out x = blind_out y"
  shows "po_deduplicated x = po_deduplicated y" "po_linkCode x = [] \<longleftrightarrow> po_linkCode y = []"
    "blind (po_proposal x) = blind (po_proposal y)"
  using assms by (metis blind_out_fields)+

text \<open>A reply that depends on the registry's answer through what \<open>blind_out\<close> keeps is the same.\<close>

lemma blind_reply:
  assumes "\<And>x y. blind_out x = blind_out y \<Longrightarrow> ok x = ok y"
  shows "(case snd (run mem_ops (reg_propose rt ttl (propose_env (plain v)) input) (blind_store s)) of
      Err e \<Rightarrow> no e | Ok x \<Rightarrow> ok x) =
    (case snd (run mem_ops (reg_propose rt ttl (propose_env v) input) s) of Err e \<Rightarrow> no e | Ok x \<Rightarrow> ok x)"
proof -
  obtain s1 r1 where r1: "run mem_ops (reg_propose rt ttl (propose_env v) input) s = (s1, r1)" by fastforce
  obtain s2 r2 where r2: "run mem_ops (reg_propose rt ttl (propose_env (plain v)) input) (blind_store s) = (s2, r2)"
    by fastforce
  have "map_result blind_out r2 = map_result blind_out r1"
    using blind_propose [of rt ttl v input s] r1 r2 by simp
  then show ?thesis unfolding r1 r2 snd_conv by (cases r1; cases r2) (auto intro: assms)
qed

lemma erase_propose_tool:
  assumes "mc_deliver deps = (\<lambda>i c p. ok)"
  shows "snd (propose_buyer_message rt ttl deps mem_ops w (propose_env (plain v)) now args (blind_store s)) =
    snd (propose_buyer_message rt ttl deps mem_ops w (propose_env v) now args s)"
proof (cases "propose_checked rt w args")
  case (Inr payload)
  let ?ok = "\<lambda>out. if \<not> po_deduplicated out \<and> po_linkCode out \<noteq> [] \<and> \<not> ok
    then Some (textResult (lit ''The proposal was registered but the confirmation code could not be delivered.'') True)
    else Some (textResult (proposed_text deps (po_proposal out) (po_deduplicated out)) False)"
  let ?no = "\<lambda>e. Some (textResult (refusal e) True)"
  have reply: "snd (propose_buyer_message rt ttl deps mem_ops w env now args s) =
      (case snd (run mem_ops (reg_propose rt ttl env (mcp_input rt deps now payload)) s) of Err e \<Rightarrow> ?no e | Ok x \<Rightarrow> ?ok x)"
    for env s
    using assms by (simp add: propose_buyer_message_def Inr split: prod.split result.split)
  have "?ok x = ?ok y" if "blind_out x = blind_out y" for x y
    using blind_out_eq [OF that] blind_texts(4) [of deps "po_proposal x" "po_deduplicated x"]
      blind_texts(4) [of deps "po_proposal y" "po_deduplicated y"] by simp
  then show ?thesis unfolding reply by (rule blind_reply)
qed (simp add: propose_buyer_message_def)

lemma erase_internal:
  assumes "id_deliver deps = (\<lambda>i c p. ok)"
  shows "snd (internal_request rt ttl deps mem_ops (propose_env (plain v)) header b (blind_store s)) =
    snd (internal_request rt ttl deps mem_ops (propose_env v) header b s)"
proof (cases "internal_checked rt b")
  case (Inr input)
  let ?ok = "\<lambda>out. if \<not> po_deduplicated out \<and> po_linkCode out \<noteq> [] \<and> \<not> ok
    then error_message_json 500 (lit ''delivery_failed'')
      (lit ''Proposal saved but confirmation code could not be delivered.'')
    else proposal_reply deps out"
  let ?no = "\<lambda>e. error_message_json (internal_status (de_code e)) (code_name (de_code e))
    (if de_agentSafe e then de_message e else lit ''refused'')"
  have reply: "snd (internal_propose rt ttl deps mem_ops env b s) =
      (case snd (run mem_ops (reg_propose rt ttl env input) s) of Err e \<Rightarrow> ?no e | Ok x \<Rightarrow> ?ok x)" for env s
    using assms by (simp add: internal_propose_def Inr split: prod.split result.split)
  have pr: "proposal_reply deps x = proposal_reply deps y" if "blind_out x = blind_out y" for x y
    using blind_out_eq [OF that] by (simp add: proposal_reply_def) (metis blind_fields(1,2))
  have "?ok x = ?ok y" if "blind_out x = blind_out y" for x y
    using blind_out_eq(1,2) [OF that] pr [OF that] by simp
  then have "snd (internal_propose rt ttl deps mem_ops (propose_env (plain v)) b (blind_store s)) =
      snd (internal_propose rt ttl deps mem_ops (propose_env v) b s)"
    unfolding reply by (rule blind_reply)
  then show ?thesis by (simp add: internal_request_def)
qed (simp add: internal_request_def internal_propose_def)

subsection \<open>Every request without a code\<close>

fun without_code :: "gw_request \<Rightarrow> bool" where
  "without_code (Confirm_json i b) = False"
| "without_code (Confirm_page i b) = False"
| "without_code (Device_show d) = False"
| "without_code _ = True"

lemma plain_fields [simp]: "vs_outbox_ok (plain v) = vs_outbox_ok v" "vs_diag_ok (plain v) = vs_diag_ok v"
  "vs_ts (plain v) = vs_ts v" "vs_web (plain v) = vs_web v" "vs_now (plain v) = vs_now v"
  "vs_oauth (plain v) = vs_oauth v" "vs_transport_error (plain v) = vs_transport_error v"
  "vs_reqId (plain v) = vs_reqId v" "vs_times (plain v) = vs_times v" "vs_clear_error (plain v) = vs_clear_error v"
  by (simp_all add: plain_def)

lemma erase_human_views:
  "api_get mem_ops env i (erase_api a) = map_prod erase_api id (api_get mem_ops env i a)"
  "page_get d mem_ops env i (erase_api a) = map_prod erase_api id (page_get d mem_ops env i a)"
  by (auto simp: api_get_def page_get_def blind_view map_prod_def split: prod.split option.split)

lemma erase_human_rejects:
  "api_reject mem_ops env i (erase_api a) = map_prod erase_api id (api_reject mem_ops env i a)"
  "page_reject d mem_ops env env' i (erase_api a) = map_prod erase_api id (page_reject d mem_ops env env' i a)"
proof -
  obtain s r where r: "run mem_ops (reg_reject env i) (as_store a) = (s, r)" by fastforce
  show "api_reject mem_ops env i (erase_api a) = map_prod erase_api id (api_reject mem_ops env i a)"
    by (cases r) (simp_all add: api_reject_def blind_rejected r)
  show "page_reject d mem_ops env env' i (erase_api a) = map_prod erase_api id (page_reject d mem_ops env env' i a)"
    using erase_human_views(2) [of d env' i "a\<lparr>as_store := s\<rparr>"]
    by (simp add: page_reject_def blind_rejected r)
qed

definition erased_alike :: "gateway \<times> 'r \<Rightarrow> gateway \<times> 'r \<Rightarrow> bool" where
  "erased_alike x y \<longleftrightarrow> erase (fst x) = erase (fst y) \<and> snd x = snd y"

lemma erased_human:
  "map_prod erase_api id x = y \<Longrightarrow> erased_alike (human (erase g) y) (human g x)"
  by (auto simp: erased_alike_def human_def erase_def)

lemma erased_agent_call:
  "erased_alike (agent_call cfg (plain v) client t (erase g)) (agent_call cfg v client t g)"
proof (cases t)
  case (Propose_message args)
  have deps: "agent_deps cfg (plain v) client = agent_deps cfg v client" by (simp add: agent_deps_def)
  then have input: "agent_input cfg (plain v) client args = agent_input cfg v client args"
    by (simp add: agent_input_def split: sum.split)
  have "mc_deliver (agent_deps cfg v client) = (\<lambda>i c p. vs_outbox_ok v)"
    by (simp add: agent_deps_def server_mcp_deps_def)
  from erase_propose_tool [OF this] show ?thesis
    by (simp add: erased_alike_def Propose_message input deps erase_registered)
next
  case (Check_status i)
  then show ?thesis
    by (auto simp: erased_alike_def check_proposal_status_def blind_view map_prod_def split: prod.split option.split)
qed (simp add: erased_alike_def)

lemma erased_agent_library:
  "erased_alike (agent_library cfg (plain v) client tool (erase g)) (agent_library cfg v client tool g)"
  using erased_agent_call by (cases tool) (simp_all add: agent_library_def erased_alike_def)

lemma erase_record_gateway:
  assumes "erase g = erase h"
  shows "map_option erase_files (record_entry rt ok ts k e (gw_files g)) =
    map_option erase_files (record_entry rt ok ts k e (gw_files h))"
proof -
  have "erase_files (gw_files g) = erase_files (gw_files h)" using assms by (simp add: erase_def)
  then show ?thesis using erase_record [of rt ok ts k e] by metis
qed

lemma erased_agent_handle:
  "erased_alike (agent_handle cfg (plain v) client rpc tool (erase g)) (agent_handle cfg v client rpc tool g)"
proof (cases "vs_transport_error v")
  case None
  then show ?thesis using erased_agent_library by (simp add: agent_handle_def)
next
  case (Some e)
  obtain k r where k: "(if te_ran e then agent_library cfg v client tool g else (g, Gw_library)) = (k, r)"
    by fastforce
  obtain k' r' where k': "(if te_ran e then agent_library cfg (plain v) client tool (erase g)
      else (erase g, Gw_library)) = (k', r')" by fastforce
  have same: "erase k' = erase k" "r' = r"
    using erased_agent_library [of cfg v client tool g] k k'
    by (auto simp: erased_alike_def split: if_splits)
  let ?line = "\<lambda>h. record_entry (gc_rt cfg) (vs_diag_ok v) (vs_ts v) ''mcp_error''
    [(lit ''reqId'', JStr (vs_reqId v)), (lit ''message'', JStr (te_message e))] (gw_files h)"
  have "map_option erase_files (?line k') = map_option erase_files (?line k)"
    by (rule erase_record_gateway [OF same(1)])
  moreover let ?after = "\<lambda>h x. case ?line h of None \<Rightarrow> (h, Gw_answer Thrown)
    | Some f \<Rightarrow> (h\<lparr>gw_files := f\<rparr>, if te_headersSent e then x else Gw_answer (rpc_internal_error rpc))"
  have "agent_handle cfg v client rpc tool g = ?after k r"
    "agent_handle cfg (plain v) client rpc tool (erase g) = ?after k' r'"
    unfolding agent_handle_def plain_fields Some option.case k k' prod.case by (rule refl)+
  ultimately show ?thesis
    using same by (auto simp: erased_alike_def erase_def split: option.split)
qed

lemma erased_agent_post:
  "erased_alike (agent_post cfg (plain v) header rpc version tool (erase g)) (agent_post cfg v header rpc version tool g)"
proof -
  have handle: "erased_alike (agent_handle cfg (plain v) client rpc tool (erase h)) (agent_handle cfg v client rpc tool h)"
    for client h
    by (rule erased_agent_handle)
  have "erased_alike (agent_handle cfg (plain v) client rpc tool ((erase g)\<lparr>gw_files := erase_files f\<rparr>))
      (agent_handle cfg v client rpc tool (g\<lparr>gw_files := f\<rparr>))" for client f
    using handle [of client "g\<lparr>gw_files := f\<rparr>"] by simp
  then show ?thesis
    by (auto simp: agent_post_def erase_record erased_alike_def split: bearer.split option.split)
qed

lemma erased_service:
  "erased_alike (service_post cfg (plain v) header b (erase g)) (service_post cfg v header b g)"
proof (cases "server_secret (gc_server cfg) = []")
  case False
  let ?deps = "\<lparr>id_gatewaySecret = server_secret (gc_server cfg), id_deliver = (\<lambda>i code p. vs_outbox_ok v),
      id_confirmationBaseUrl = PUBLIC_URL (gc_server cfg)\<rparr>"
  have "snd (internal_request (gc_rt cfg) (gc_ttl cfg) ?deps mem_ops (propose_env (plain v)) header b (blind_store (gw_store g))) =
      snd (internal_request (gc_rt cfg) (gc_ttl cfg) ?deps mem_ops (propose_env v) header b (gw_store g))"
    by (rule erase_internal) simp
  with False show ?thesis
    by (auto simp: service_post_def server_internal_def erased_alike_def erase_registered split: prod.split)
qed (simp add: service_post_def server_internal_def erased_alike_def)

lemma erased_device:
  "device_clear rt env e d ts r (erase_files f) = map_prod erase_files id (device_clear rt env e d ts r f)"
proof -
  have empty: "(erase_files f)\<lparr>sf_outbox := []\<rparr> = erase_files (f\<lparr>sf_outbox := []\<rparr>)" by (simp add: erase_files_def)
  show ?thesis
    by (auto simp: device_clear_def empty erase_record split: option.split bool.split)
qed

lemma gateway_erased:
  "without_code r \<Longrightarrow> erased_alike (gateway_do cfg (plain v) r (erase g)) (gateway_do cfg v r g)"
proof (cases r)
  case (Device_clear d)
  obtain f x where c: "device_clear (gc_rt cfg) (gc_server cfg) (vs_clear_error v) (vs_diag_ok v) (vs_ts v) d (gw_files g) = (f, x)"
    by fastforce
  then show ?thesis by (simp add: Device_clear erased_device erased_alike_def)
qed (auto simp: erased_agent_post erased_service agent_bodyless_def erase_human_views erase_human_rejects
    intro: erased_human simp: erased_alike_def [of "(_, _)"])

lemma erased_step:
  assumes "erase g = erase h" "plain v = plain w" "without_code r"
  shows "erased_alike (gateway_do cfg v r g) (gateway_do cfg w r h)"
  using gateway_erased [OF assms(3), of cfg v g] gateway_erased [OF assms(3), of cfg w h] assms(1,2)
  by (simp add: erased_alike_def)

lemma erased_runs:
  assumes "list_all2 (\<lambda>(v, r) (w, q). plain v = plain w \<and> r = q \<and> without_code r) hist hist'" "erase g = erase h"
  shows "erased_alike (gateway_run cfg hist g) (gateway_run cfg hist' h)"
  using assms
proof (induction arbitrary: g h rule: list_all2_induct)
  case Nil
  then show ?case by (simp add: erased_alike_def)
next
  case (Cons x xs y ys)
  obtain v r w where x: "x = (v, r)" "y = (w, r)" "plain v = plain w" "without_code r"
    using Cons.hyps(1) by (cases x; cases y) auto
  obtain g1 a where g1: "gateway_do cfg v r g = (g1, a)" by fastforce
  obtain h1 b where h1: "gateway_do cfg w r h = (h1, b)" by fastforce
  have "erase g1 = erase h1" "a = b"
    using erased_step [OF Cons.prems x(3,4), of cfg] g1 h1 by (simp_all add: erased_alike_def)
  with Cons.IH [of g1 h1] show ?case
    by (cases "gateway_run cfg xs g1"; cases "gateway_run cfg ys h1") (simp add: x(1,2) g1 h1 erased_alike_def)
qed

text \<open>C4: the codes stay secret over whole histories: two runs of the gateway from states that differ in
  their codes alone, on the same requests and with other random bytes for the codes, give the same
  replies, one for one, and write the same audit log, as long as no request presents a code or
  reads the device: nothing the agent, the backend, a rejection, a page or the log shows depends on a
  code.\<close>

theorem codes_stay_secret:
  assumes "list_all2 (\<lambda>(v, r) (w, q). plain v = plain w \<and> r = q \<and> without_code r) hist hist'" "erase g = erase h"
  shows "snd (gateway_run cfg hist g) = snd (gateway_run cfg hist' h) \<and>
    sf_diag (gw_files (fst (gateway_run cfg hist g))) = sf_diag (gw_files (fst (gateway_run cfg hist' h)))"
proof -
  have "erased_alike (gateway_run cfg hist g) (gateway_run cfg hist' h)" by (rule erased_runs [OF assms])
  then have "erase_files (gw_files (fst (gateway_run cfg hist g))) = erase_files (gw_files (fst (gateway_run cfg hist' h)))"
    "snd (gateway_run cfg hist g) = snd (gateway_run cfg hist' h)"
    unfolding erased_alike_def by (metis erase_fields(2))+
  then show ?thesis by (metis erase_fields(6))
qed

theorem codes_stay_secret_witness:
  "snd (gateway_run demo_gateway [(demo_asking, demo_ask), (demo_deciding, Show_page (lit ''prop_1''))] gateway_start) =
   snd (gateway_run demo_gateway [(demo_asking\<lparr>vs_random := [5, 4, 3, 2, 1, 0]\<rparr>, demo_ask),
     (demo_deciding, Show_page (lit ''prop_1''))] gateway_start)"
proof -
  have "list_all2 (\<lambda>(v, r) (w, q). plain v = plain w \<and> r = q \<and> without_code r)
      [(demo_asking, demo_ask), (demo_deciding, Show_page (lit ''prop_1''))]
      [(demo_asking\<lparr>vs_random := [5, 4, 3, 2, 1, 0]\<rparr>, demo_ask), (demo_deciding, Show_page (lit ''prop_1''))]"
    by (simp add: plain_def demo_ask_def)
  from codes_stay_secret [OF this refl] show ?thesis by blast
qed

end
