(* ===== verification/DevicePage.thy ===== *)
theory DevicePage
  imports Gateway
begin

text \<open>
  The page of the simulated device, apps/action-gateway/server.mjs, lines 320-376: the messages of the
  outbox and the HTML that shows them. \<open>parse\<close> is \<open>JSON.parse\<close>, \<open>None\<close> where it throws;
  \<open>localTime\<close> is the local time of a time stamp. The handler's own \<open>esc\<close> has the table of the
  confirmation page, in front of which it takes \<open>String(v ?? '')\<close>; \<open>None\<close> is an exception of \<open>String\<close>.
\<close>

text \<open>The messages that are shown: the last five lines, newest first; no message where a line does not parse.\<close>

fun parse_all :: "(ustr \<Rightarrow> jval option) \<Rightarrow> ustr list \<Rightarrow> jval list option" where
  "parse_all parse [] = Some []"
| "parse_all parse (l # ls) =
     (case parse l of None \<Rightarrow> None | Some m \<Rightarrow> map_option (Cons m) (parse_all parse ls))"

definition device_messages :: "(ustr \<Rightarrow> jval option) \<Rightarrow> ustr list \<Rightarrow> jval list" where
  "device_messages parse ls = (case parse_all parse ls of None \<Rightarrow> [] | Some ms \<Rightarrow> latest ms)"

definition device_esc :: "jval \<Rightarrow> ustr option" where
  "device_esc v = map_option esc (string_or v [])"

definition message_html :: "ustr \<Rightarrow> ustr \<Rightarrow> ustr \<Rightarrow> ustr \<Rightarrow> ustr" where
  "message_html at code slug i =
     [10] @ lit ''  <div class=\"msg\">'' @ [10] @ lit ''    <div class=\"from\">Bank alerts &middot; '' @ at @
     lit ''</div>'' @ [10] @ lit ''    <div class=\"code\">'' @ code @ lit ''</div>'' @ [10] @
     lit ''    <div class=\"body\">'' @ slug @ lit '' &middot; approve at /p/'' @ i @ lit ''</div>'' @ [10] @
     lit ''  </div>''"

definition device_message :: "(jval \<Rightarrow> ustr) \<Rightarrow> jval \<Rightarrow> ustr option" where
  "device_message localTime m = do {
     code \<leftarrow> device_esc (prop_of m (lit ''linkCode''));
     slug \<leftarrow> device_esc (nullish (prop_of m (lit ''orderSlug'')) (JStr (lit ''order'')));
     i \<leftarrow> device_esc (prop_of m (lit ''proposalId''));
     Some (message_html (esc (localTime (prop_of m (lit ''ts'')))) code slug i)
   }"

fun device_list :: "(jval \<Rightarrow> ustr) \<Rightarrow> jval list \<Rightarrow> ustr option" where
  "device_list localTime [] = Some []"
| "device_list localTime (m # ms) =
     (case device_message localTime m of None \<Rightarrow> None
      | Some h \<Rightarrow> map_option (append h) (device_list localTime ms))"

definition DEVICE_STYLE :: ustr where
  "DEVICE_STYLE =
     [10] @ lit ''  :root { color-scheme: light dark; }'' @ [10] @
     lit ''  body { margin:0; padding:1.5rem 1rem; font:16px/1.5'' @
     lit '' system-ui,-apple-system,sans-serif;'' @ [10] @
     lit ''         background:#f4f5f7; display:flex; justify-content:center; }'' @ [10] @
     lit ''  @media (prefers-color-scheme: dark) { body { background:#15171a;'' @ lit '' color:#e8e8ea; } }'' @
     [10] @ lit ''  .phone { width:100%; max-width:22rem; }'' @ [10] @
     lit ''  h1 { font-size:.8rem; text-transform:uppercase; letter-spacing:.08em;'' @
     lit '' color:#888; margin:0 0 1rem; }'' @ [10] @
     lit ''  .msg { background:#fff; border-radius:14px; padding:.9rem 1rem;'' @
     lit '' margin-bottom:.75rem;'' @ [10] @ lit ''         box-shadow:0 1px 2px rgba(0,0,0,.1); }'' @ [10] @
     lit ''  @media (prefers-color-scheme: dark) { .msg { background:#1e2126; } }'' @ [10] @
     lit ''  .from { font-size:.75rem; color:#888; margin-bottom:.3rem; }'' @ [10] @
     lit ''  .code { font:600 2rem/1 ui-monospace,SFMono-Regular,Menlo,monospace;'' @
     lit '' letter-spacing:.25em; margin:.4rem 0; }'' @ [10] @
     lit ''  .body { font-size:.85rem; color:#555; word-break:break-word; }'' @ [10] @
     lit ''  @media (prefers-color-scheme: dark) { .body { color:#9aa0a6; } }'' @ [10] @
     lit ''  .empty { color:#888; font-size:.9rem; }'' @ [10] @
     lit ''  .clear { margin-top:1.25rem; text-align:center; }'' @ [10] @
     lit ''  .clear button { font:inherit; font-size:.8rem; color:#888; background:none;'' @ [10] @
     lit ''                  border:0; padding:.4rem; cursor:pointer;'' @
     lit '' text-decoration:underline; }'' @ [10]"

definition device_clear_form :: ustr where
  "device_clear_form =
     lit ''<form class=\"clear\" method=\"post\" action=\"/demo/device/clear\">'' @ [10] @
     lit ''  <button type=\"submit\">Clear messages</button>'' @ [10] @ lit ''</form>''"

definition device_frame :: "ustr \<Rightarrow> ustr \<Rightarrow> ustr" where
  "device_frame shown footer =
     lit ''<!doctype html>'' @ [10] @ lit ''<html lang=\"en\"><head>'' @ [10] @
     lit ''<meta charset=\"utf-8\"><meta name=\"viewport\"'' @
     lit '' content=\"width=device-width,initial-scale=1\">'' @ [10] @
     lit ''<meta name=\"robots\" content=\"noindex,nofollow\">'' @ [10] @
     lit ''<meta http-equiv=\"refresh\" content=\"5\">'' @ [10] @ lit ''<title>Messages</title>'' @ [10] @
     lit ''<style>'' @ DEVICE_STYLE @
     lit ''</style>'' @ [10] @ lit ''</head><body><main class=\"phone\">'' @ [10] @
     lit ''<h1>Bank &middot; messages</h1>'' @ [10] @ shown @
     [10] @ footer @ [10] @ lit ''</main></body></html>''"

definition device_page :: "(jval \<Rightarrow> ustr) \<Rightarrow> jval list \<Rightarrow> ustr option" where
  "device_page localTime messages =
     map_option (\<lambda>shown. device_frame shown (if messages = [] then [] else device_clear_form))
       (if messages = [] then Some (lit ''<p class=\"empty\">No messages yet.</p>'')
        else device_list localTime messages)"

text \<open>What a visit with the token is answered.\<close>

definition device_html ::
  "(jval \<Rightarrow> ustr) \<Rightarrow> (ustr \<Rightarrow> jval option) \<Rightarrow> server_env \<Rightarrow> device_request \<Rightarrow> server_files \<Rightarrow> reply option" where
  "device_html localTime parse env r f =
     (case device_get env r f of
        Dev_messages ms \<Rightarrow> (case device_page localTime (device_messages parse (sf_outbox f)) of
          None \<Rightarrow> Some Thrown | Some h \<Rightarrow> Some (Html 200 h))
      | Dev_not_found \<Rightarrow> Some (Html 404 (lit ''<h1>Not found</h1>''))
      | _ \<Rightarrow> None)"

lemma device_esc_str [simp]: "device_esc (JStr s) = Some (esc s)"
  by (simp add: device_esc_def)

lemma device_esc_markup: "device_esc v = Some h \<Longrightarrow> markup h = []"
  by (auto simp: device_esc_def)

text \<open>The markup of the page is fixed by the number of messages.\<close>

lemma markup_message:
  "markup at = [] \<Longrightarrow> markup code = [] \<Longrightarrow> markup slug = [] \<Longrightarrow> markup i = [] \<Longrightarrow>
     markup (message_html at code slug i) = markup (message_html [] [] [] [])"
  unfolding message_html_def markup_append by simp

lemma device_message_markup: "device_message t m = Some h \<Longrightarrow> markup h = markup (message_html [] [] [] [])"
  by (auto simp: device_message_def device_esc_markup intro!: markup_message split: bind_splits)

lemma device_list_markup:
  "device_list t ms = Some h \<Longrightarrow> markup h = concat (replicate (length ms) (markup (message_html [] [] [] [])))"
  by (induction ms arbitrary: h) (auto simp: device_message_markup split: option.splits)

lemma device_page_markup:
  assumes "device_page t ms = Some h" "device_page u ns = Some k" "length ms = length ns"
  shows "markup h = markup k"
proof -
  have frame: "markup (device_frame a f) = markup (device_frame b f)" if "markup a = markup b" for a b f
    unfolding device_frame_def markup_append that ..
  have "(ms = []) = (ns = [])" using assms(3) by auto
  then show ?thesis using assms
    by (cases "ms = []") (auto simp: device_page_def device_list_markup intro!: frame)
qed

text \<open>The newest message is the one at the top of the page, with its code.\<close>

lemma latest_snoc: "latest (xs @ [x]) = x # take 4 (latest xs)"
proof -
  have "length xs - (length xs - 4) = min 4 (length xs - (length xs - 5))" by (simp add: min_def)
  then show ?thesis by (simp add: latest_def rev_drop)
qed

lemma parse_all_snoc:
  "parse_all parse (ls @ [l]) = (case (parse_all parse ls, parse l) of (Some ms, Some m) \<Rightarrow> Some (ms @ [m]) | _ \<Rightarrow> None)"
  by (induction ls) (auto split: option.splits)

lemma device_shows_newest:
  assumes "parse_all parse ls = Some ms" "parse l = Some m" "prop_of m (lit ''linkCode'') = JStr code"
    and "prop_of m (lit ''orderSlug'') = JStr slug" "prop_of m (lit ''proposalId'') = JStr i"
    and "device_list t (device_messages parse (ls @ [l])) = Some h"
  shows "\<exists>rest. h = message_html (esc (t (prop_of m (lit ''ts'')))) (esc code) (esc slug) (esc i) @ rest"
proof -
  have "device_messages parse (ls @ [l]) = m # take 4 (latest ms)"
    by (simp add: device_messages_def parse_all_snoc assms(1,2) latest_snoc)
  with assms(3-6) show ?thesis by (auto simp: device_message_def nullish_def split: option.splits)
qed

end
