(* ===== verification/AuthLog.thy ===== *)
theory AuthLog
  imports Server
begin

text \<open>
  What the authorization server puts into the audit log, apps/action-gateway/oauth.mjs: facts about
  the entries of \<open>OAuth\<close>, in front of the redaction of \<open>Redact\<close>. After the record of its request the
  token endpoint writes no record that can throw; a log line of that endpoint does not depend on the
  code, the tokens, the verifier or the client secret of the request; and two diagnostics of that
  line do not survive redaction.
\<close>

subsection \<open>Only the first record can throw\<close>

lemma later_keys:
  "\<not> isSecretKey rt (lit ''client_id'')" "\<not> isSecretKey rt (lit ''audience'')" "\<not> isSecretKey rt (lit ''resourceSent'')"
  by (simp_all add: isSecretKey_def NOT_SECRET_test_def not_secret_prefixes_def SECRET_KEYS_def lit_def
      js_lower_def ascii_def lower_unit_def)

text \<open>The record of a refreshed token and that of an exchanged code, which repeats the resource of the
  request.\<close>

lemma later_records_written:
  "written rt (refresh_entry_log env client)"
  "token_recorded rt env authz body query \<Longrightarrow>
     written rt (token_entry env client (merged body query (lit ''resource'')))"
  by (simp_all add: written_iff refresh_entry_log_def token_entry_def later_keys token_recorded_iff Let_def)

lemma put_scalars:
  "scalar v \<Longrightarrow> list_all (\<lambda>(k, v). scalar v) m \<Longrightarrow> list_all (\<lambda>(k, v). scalar v) (object_put k v m)"
  by (induction k v m rule: object_put.induct) auto

lemma spread_scalars:
  "list_all (\<lambda>(k, v). scalar v) extra \<Longrightarrow> list_all (\<lambda>(k, v). scalar v) base \<Longrightarrow>
     list_all (\<lambda>(k, v). scalar v) (object_spread base extra)"
  unfolding object_spread_def by (induction extra arbitrary: base) (auto simp: put_scalars)

text \<open>The record of a refusal, whose extra values are numbers and texts.\<close>

lemma refusal_recorded:
  "list_all (\<lambda>(k, v). scalar v) extra \<Longrightarrow> written rt (token_failed_entry status e why extra)"
  unfolding token_failed_entry_def by (intro written_scalars spread_scalars) simp_all

lemma target_refusal_recorded:
  "written rt (token_failed_entry status e why [(lit ''accepted'', JArr (map JStr urls))])"
proof -
  have "\<not> isSecretKey rt (lit ''accepted'')"
    by (simp add: isSecretKey_def NOT_SECRET_test_def not_secret_prefixes_def SECRET_KEYS_def lit_def
        js_lower_def ascii_def lower_unit_def)
  then show ?thesis
    using redact_strings [of "Suc 1" rt urls] describe_scalar redact_scalar [of _ rt 1]
    by (simp add: written_iff token_failed_entry_def object_spread_def)
qed

subsection \<open>What a line depends on\<close>

text \<open>Two requests that differ in the values of the code, the tokens and the client secret only, with
  verifiers of one length, have one entry.\<close>

definition secret_fields :: "ustr list" where
  "secret_fields = map lit [''code'', ''refresh_token'', ''code_verifier'', ''client_secret'']"

lemma token_request_hides:
  assumes "object_keys body = object_keys body'" "object_keys query = object_keys query'"
    and "\<And>k. k \<notin> set secret_fields \<Longrightarrow> merged body query k = merged body' query' k"
    and "truthy (merged body query (lit ''client_secret'')) = truthy (merged body' query' (lit ''client_secret''))"
    and "truthy (merged body query (lit ''code_verifier'')) = truthy (merged body' query' (lit ''code_verifier''))"
    and "map_option length (string_or_empty (merged body query (lit ''code_verifier''))) =
      map_option length (string_or_empty (merged body' query' (lit ''code_verifier'')))"
  shows "token_request_entry rt env authz body query = token_request_entry rt env authz body' query'"
proof -
  let ?b = "merged body query" and ?b' = "merged body' query'"
  have other: "?b (lit k) = ?b' (lit k)" if "k \<in> {''client_id'', ''grant_type'', ''resource'', ''redirect_uri''}" for k
    using that by (intro assms(3)) (auto simp: secret_fields_def lit_def)
  have fields: "token_fields rt env authz body query = token_fields rt env authz body' query'"
    using assms(1,2,4) other [of "''client_id''"] by (simp add: token_fields_def Let_def)
  have auth: "client_auth rt env authz body query = client_auth rt env authz body' query'"
    using assms(4) by (cases "basic_credentials rt env authz") (simp add: client_auth_def Let_def)
  show ?thesis
    using assms(1,5,6) other [of "''grant_type''"] other [of "''resource''"] other [of "''redirect_uri''"] fields auth
    by (cases "string_or_empty (?b (lit ''code_verifier''))"; cases "string_or_empty (?b' (lit ''code_verifier''))")
      (simp_all add: token_request_entry_def Let_def)
qed

text \<open>The two diagnostics of the verifier are described as if they were secrets: their keys contain a
  secret key.\<close>

lemma verifier_diagnostics_lost:
  "redact_entries rt [(lit ''hasCodeVerifier'', JBool b), (lit ''codeVerifierLen'', JNum (lit ''43''))] d =
     Some [(lit ''hasCodeVerifier'', JStr (describe_string (if b then lit ''true'' else lit ''false''))),
       (lit ''codeVerifierLen'', JStr (lit ''<redacted len=2 shape=upper>''))]"
proof -
  have "describe_string (lit ''43'') = lit ''<redacted len=2 shape=upper>''"
    by (simp add: describe_string_def secret_shape_def upper_or_digit_def is_digit_def lit_def dec.simps [of "Suc (Suc 0)"])
  moreover have "lit ''hasCodeVerifier'' \<noteq> proto_key" "lit ''codeVerifierLen'' \<noteq> proto_key"
    by (simp_all add: proto_key_def lit_def)
  ultimately show ?thesis
    by (simp add: token_keys describeSecret_def out_entry_def)
qed

end
