(* ===== verification/CatalogueEn.thy ===== *)
theory CatalogueEn
  imports Catalogue
begin

text \<open>
  The English texts, apps/web/src/i18n/messages/en.ts and the first half of marketing-content.ts, one
  definition for each group of the object.
\<close>

definition men_nav :: tvalue where
  "men_nav = Group [
       (''howItWorks'', Text (lit ''How it works'')),
       (''faq'', Text (lit ''FAQ'')),
       (''about'', Text (lit ''About'')),
       (''signIn'', Text (lit ''Sign in'')),
       (''createAccount'', Text (lit ''Create account'')),
       (''menu'', Text (lit ''Menu'')),
       (''theme'', Text (lit ''Theme'')),
       (''themeLight'', Text (lit ''Light'')),
       (''themeDark'', Text (lit ''Dark'')),
       (''themeSystem'', Text (lit ''System''))]"

definition men_hero :: tvalue where
  "men_hero = Group [
       (''eyebrow'', Text (lit ''Payment links for Instagram and Telegram sellers'')),
       (''h1'', Text (lit ''Send a link. Know when they paid.'')),
       (''sub'', Text (lit ''Quote the order in toman, share one link in the DM, and get a server-verified'' @
         lit '' paid status when the exact USDT lands in your wallet.'')),
       (''ctaPrimary'', Text (lit ''Create your first payment link'')),
       (''ctaSecondary'', Text (lit ''See how it works'')),
       (''demoLabel'', Text (lit ''Sample checkout screen. Not a live payment.'')),
       (''demoOrder'', Text (lit ''DM order '' @ [183] @ lit '' scarf set''))]"

definition men_builtFor :: tvalue where
  "men_builtFor = Group [
       (''line1'', Text (lit ''Built for sellers who close in DMs (Instagram, Telegram, WhatsApp).'')),
       (''line2'', Text (lit ''USDT on TRON and BNB Smart Chain.''))]"

definition men_marquee :: tvalue where
  "men_marquee = Group [
       (''instagram'', Text (lit ''Instagram'')),
       (''telegram'', Text (lit ''Telegram'')),
       (''whatsapp'', Text (lit ''WhatsApp'')),
       (''tron'', Text (lit ''TRON'')),
       (''bsc'', Text (lit ''BNB Chain''))]"

definition men_flowDiagram :: tvalue where
  "men_flowDiagram = Group [
       (''title'', Text (lit ''Verified payment pipeline'')),
       (''caption'', Text (lit ''Server-side truth from link creation to seller notification '' @ [8212] @
         lit '' same flow in the product.'')),
       (''labels'', Group [
         (''dm'', Text (lit ''DM order'')),
         (''link'', Text (lit ''Pooli link'')),
         (''pay'', Text (lit ''USDT pay'')),
         (''verify'', Text (lit ''Chain verify'')),
         (''notify'', Text (lit ''You notified'')),
         (''openDiagram'', Text (lit ''Open full architecture map (ToDiagram)''))])]"

definition men_problem :: tvalue where
  "men_problem = Group [
       (''title'', Text (lit ''You'' @ [39] @ lit ''re losing time on payments you already earned.'')),
       (''p1'', Text (lit ''Screenshots and '' @ [8220] @ lit ''did you get it?'' @ [8221] @
         lit '' messages eat your day.'')),
       (''p2'', Text (lit ''Buyers lose the amount, the network or the address.'')),
       (''p3'', Text (lit ''Your orders and your payments never line up.''))]"

definition men_steps :: tvalue where
  "men_steps = Group [
       (''title'', Text (lit ''How it works'')),
       (''s1Title'', Text (lit ''Create a payment in seconds.'')),
       (''s1Body'', Text (lit ''Quote the order in toman; Pooli shows the exact USDT amount at checkout.'')),
       (''s2Title'', Text (lit ''Share the link.'')),
       (''s2Body'', Text (lit ''Paste it in the DM.'')),
       (''s3Title'', Text (lit ''See paid in the app.'')),
       (''s3Body'', Text (lit ''The buyer pays; Pooli verifies on-chain and updates the order.''))]"

definition men_draftReminders :: tvalue where
  "men_draftReminders = Group [
       (''status'', Text (lit ''Optional'')),
       (''title'', Text (lit ''Review DM drafts before anything sends.'')),
       (''sub'', Text (lit ''Tap Suggest follow-up on an order (Claude drafts from live payment status) or'' @
         lit '' let an agent propose via MCP. You read it, enter the code from your'' @
         lit '' notification, and approve. Nothing leaves your account until you do.'')),
       (''steps'', Items [
         Text (lit ''An agent or integration proposes a follow-up from payment status.''),
         Text (lit ''Pooli blocks false '' @ [8220] @ lit ''paid'' @ [8221] @
           lit '' claims and stores the draft server-side.''),
         Text (lit ''You approve on the order screen or the gateway confirm page.'')]),
       (''safety'', Text (lit ''Payment truth stays in Go. The action gateway cannot mark Paid or message'' @
         lit '' buyers without your confirmation.'')),
       (''cta'', Text (lit ''Create account'')),
       (''more'', Text (lit ''Agent integration docs''))]"

definition men_benefits :: tvalue where
  "men_benefits = Group [
       (''title'', Text (lit ''What you get'')),
       (''b1Title'', Text (lit ''Paid status you can trust'')),
       (''b1Body'', Text (lit ''Marked paid only after the blockchain confirms the exact amount.'')),
       (''b2Title'', Text (lit ''Your wallet, your money'')),
       (''b2Body'', Text (lit ''Funds go straight to you. Pooli never holds them.'')),
       (''b3Title'', Text (lit ''Order details in one place'')),
       (''b3Body'', Text (lit ''Collect name, phone and address in the checkout.'')),
       (''b4Title'', Text (lit ''Alerts when it lands'')),
       (''b4Body'', Text (lit ''Status in the app, plus Telegram and email.'')),
       (''b5Title'', Text (lit ''Toman quote, USDT settlement'')),
       (''b5Body'', Text (lit ''Show buyers a familiar toman price; they pay the exact USDT amount on TRON or'' @
         lit '' BNB Chain.'')),
       (''b6Title'', Text (lit ''Works where you sell'')),
       (''b6Body'', Text (lit ''Buyers pay from Instagram and Telegram without installing anything.''))]"

definition men_nonCustodial :: tvalue where
  "men_nonCustodial = Group [
       (''title'', Text (lit ''Non-custodial by design.'')),
       (''body'', Text (lit ''We never ask for seed phrases or private keys. Paid status comes from'' @
         lit '' server-side verification only. Wrong or partial payments go to review. They'' @
         lit '' are never silently accepted.'')),
       (''link'', Text (lit ''How we think about security''))]"

definition men_earlyAccess :: tvalue where
  "men_earlyAccess = Group [
       (''title'', Text (lit ''Early access.'')),
       (''body'', Text (lit ''Pooli is new. Create an account and try it with a real order.'')),
       (''cta'', Text (lit ''Create account'')),
       (''questions'', Text (lit ''Questions?''))]"

definition men_finalCta :: tvalue where
  "men_finalCta = Group [
       (''title'', Text (lit ''Try it on a real order.'')),
       (''button'', Text (lit ''Create your first payment link'')),
       (''sub'', Text (lit ''No credit card. No Pooli custody.''))]"

definition men_footer :: tvalue where
  "men_footer = Group [
       (''product'', Text (lit ''Product'')),
       (''company'', Text (lit ''Company'')),
       (''legal'', Text (lit ''Legal'')),
       (''connect'', Text (lit ''Connect'')),
       (''claude'', Text (lit ''Claude at Pooli'')),
       (''howItWorks'', Text (lit ''How it works'')),
       (''security'', Text (lit ''Security'')),
       (''about'', Text (lit ''About'')),
       (''contact'', Text (lit ''Contact'')),
       (''privacy'', Text (lit ''Privacy'')),
       (''terms'', Text (lit ''Terms'')),
       (''builtIn'', Text (lit ''Built in Athens, Greece.'')),
       (''rights'', Text (lit ''All rights reserved.'')),
       (''legalDraft'', Text (lit ''Privacy and terms are drafts pending legal review.''))]"

definition men_imprint :: tvalue where
  "men_imprint = Group [
       (''legalName'', Text (lit ''Legal name'')),
       (''address'', Text (lit ''Registered address'')),
       (''contact'', Text (lit ''Contact'')),
       (''gemi'', Text (lit ''GEMI no.'')),
       (''vat'', Text (lit ''VAT no.'')),
       (''founded'', Text (lit ''Founded''))]"

definition men_claude :: tvalue where
  "men_claude = Group [
       (''metaTitle'', Text (lit ''Building with Claude'')),
       (''metaDescription'', Text (lit ''How Pooli uses Claude in engineering, docs, and internal tooling. Payment'' @
         lit '' verification stays deterministic Go code.'')),
       (''title'', Text (lit ''Building with Claude'')),
       (''lead'', Text (lit ''Pooli is a non-custodial USDT checkout for DM sellers. Payment truth lives in'' @
         lit '' Go; buyer follow-ups go through the action gateway (MCP propose / merchant'' @
         lit '' confirm) with evals and a false-paid linter.'')),
       (''todayTitle'', Text (lit ''How we use Claude today'')),
       (''engineeringTitle'', Text (lit ''Engineering and code review'')),
       (''engineeringBody'', Text (lit ''Claude assists with implementation, test generation, and review across our Go'' @
         lit '' services and TypeScript web app.'')),
       (''docsTitle'', Text (lit ''Documentation and policy'')),
       (''docsBody'', Text (lit ''Our public site, internal runbooks, and policy drafts are written and'' @
         lit '' reviewed with Claude. The privacy, terms, and security pages are drafted'' @
         lit '' with Claude. A lawyer has not reviewed them yet.'')),
       (''toolingTitle'', Text (lit ''Internal tooling'')),
       (''toolingBody'', Text (lit ''Claude summarizes payment activity and assists with reconciliation checks for'' @
         lit '' our own operations.'')),
       (''identityTitle'', Text (lit ''Workload identity'')),
       (''identityBody'', Text (lit ''Our CI authenticates to the Claude API without static keys (see below).'')),
       (''wifTitle'', Text (lit ''Workload Identity Federation'')),
       (''wifLead'', Text (lit ''Pooli authenticates to the Claude API from GitHub Actions using Workload'' @
         lit '' Identity Federation. There are no static API keys in our CI.'')),
       (''wifMeans'', Text (lit ''What that means:'')),
       (''wifPoints'', Items [
         Text (lit ''GitHub Actions requests a short-lived OIDC token scoped to our repository and'' @
           lit '' branch.''),
         Text (lit ''The token is exchanged for a short-lived Anthropic access token through a'' @
           lit '' federation rule.''),
         Text (lit ''Trust is pinned to our immutable GitHub organization ID, not just the org'' @
           lit '' name, so a renamed or re-registered org cannot inherit access.''),
         Text (lit ''Tokens are single-use and expire in minutes.'')]),
       (''wifClose'', Text (lit ''This is production-grade keyless authentication. It means there is no'' @
         lit '' long-lived secret to leak, rotate, or accidentally commit.'')),
       (''notLlmTitle'', Text (lit ''What is not LLM-driven'')),
       (''notLlmBody'', Text (lit ''Payment verification is deterministic. Matching, state transitions, and'' @
         lit '' settlement checks are implemented in Go and chain workers. Claude does not'' @
         lit '' decide whether a payment is valid, and it never moves money.'')),
       (''notLlmBody2'', Text (lit ''We made this boundary explicit on purpose. Money conversations need high'' @
         lit '' trust, and trust comes from code you can audit, not from a model you can'' @ [39] @ lit ''t.'')),
       (''buildingTitle'', Text (lit ''What we'' @ [39] @ lit ''re building'')),
       (''remindersTitle'', Text (lit ''Draft reminders'')),
       (''remindersBody'', Text (lit ''A follow-up message for unpaid payments, drafted by Claude from the job note'' @
         lit '' and payment status. The merchant reviews, edits, and sends. Claude drafts'' @
         lit '' text; the merchant acts.'')),
       (''questionsTitle'', Text (lit ''Payment status questions'')),
       (''questionsBody'', Text (lit ''Answering customer questions like '' @ [8220] @ lit ''Did I already pay?'' @ [8221] @
         lit '' from verified payment state, with Claude handling the language and the'' @
         lit '' deterministic core handling the truth.'')),
       (''evals'', Text (lit ''We build evals for payment accuracy and hallucination prevention, because a'' @
         lit '' wrong answer about money is worse than no answer.'')),
       (''whyTitle'', Text (lit ''Why Claude'')),
       (''whyBody'', Text (lit ''Payment workflows need accuracy, long context, and reliable tool use. Claude'' @
         lit '' fits. We also chose to build on Claude because the safety posture matches'' @
         lit '' ours: bounded, auditable, human-in-the-loop where it matters.'')),
       (''builtIn'', Text (lit ''Pooli is built in Greece.'')),
       (''program'', Text (lit ''Claude Startups program (apply when cohort opens).'')),
       (''suggestLiveTitle'', Text (lit ''Suggest follow-up (live)'')),
       (''suggestLiveBody'', Text (lit ''Merchants tap Suggest follow-up on an order. Pooli calls the Claude Messages'' @
         lit '' API on a structured payment snapshot, runs the same false-paid linter as'' @
         lit '' agent proposals, and registers a draft for merchant approval '' @ [8212] @
         lit '' nothing sends without your code.'')),
       (''integrationDoc'', Text (lit ''Agent integration docs''))]"

definition men_faqLanding :: tvalue where
  "men_faqLanding = Group [
       (''title'', Text (lit ''FAQ'')),
       (''viewAll'', Text (lit ''All questions'')),
       (''items'', Items [
         Group [
           (''q'', Text (lit ''Do you hold my money?'')),
           (''a'', Text (lit ''No. Buyers pay your wallet directly. Pooli never holds seller funds or'' @
             lit '' private keys.''))],
         Group [
           (''q'', Text (lit ''Which networks and assets?'')),
           (''a'', Text (lit ''USDT on TRON (TRC-20) and USDT on BNB Smart Chain (BEP-20).''))],
         Group [
           (''q'', Text (lit ''What if the buyer pays the wrong amount?'')),
           (''a'', Text (lit ''It is flagged for review. It is never marked paid automatically.''))],
         Group [
           (''q'', Text (lit ''Do I need to understand crypto?'')),
           (''a'', Text (lit ''You need a wallet address for USDT. Pooli handles amounts, QR codes and'' @
             lit '' confirmation.''))],
         Group [
           (''q'', Text (lit ''Does the buyer need an account?'')),
           (''a'', Text (lit ''No. Checkout works in the browser with no install.''))],
         Group [
           (''q'', Text (lit ''Who is behind Pooli?'')),
           (''a'', Text (lit ''Founded by Omid Mirzaei in Athens, Greece. See the About page for company'' @
             lit '' details.''))]])]"

definition men_about :: tvalue where
  "men_about = Group [
       (''metaTitle'', Text (lit ''About Pooli'')),
       (''metaDescription'', Text (lit ''Pooli is non-custodial USDT checkout for DM sellers. Company imprint,'' @
         lit '' founder, and how we work.'')),
       (''hero'', Text (lit ''Pooli makes getting paid from a DM feel as simple as sending a message.'')),
       (''whatTitle'', Text (lit ''What we do'')),
       (''whatP1'', Text (lit ''Pooli is a checkout link for people who sell in DMs. You quote a price in'' @
         lit '' toman, share pooli.shop/p/your-link, and your buyer pays the exact USDT'' @
         lit '' amount to your own wallet.'')),
       (''whatP2'', Text (lit ''Pooli marks Paid '' @ [10003] @
         lit '' only after server-side blockchain verification. Wrong amounts, wrong'' @
         lit '' networks, or approximate payments never auto-settle. They land in review'' @
         lit '' states you can see in the app.'')),
       (''whatP3'', Text (lit ''Buyers do not need an account. Sellers sign in with email or Google, get'' @
         lit '' Telegram and email alerts, and run the seller app as an installable PWA in'' @
         lit '' English or Persian.'')),
       (''founderTitle'', Text (lit ''Founder'')),
       (''founderBio'', Text (lit ''Omid Mirzaei is a senior full-stack and Flutter engineer with seven years of'' @
         lit '' shipping experience, focused on fintech and Web3 mobile. He has shipped'' @
         lit '' wallet and payments products and is based in Athens, Greece.'')),
       (''claudeTitle'', Text (lit ''Building with Claude'')),
       (''claudeIntro'', Text (lit ''Pooli'' @ [8217] @
         lit ''s payment automation in production is deterministic code. We use Claude as an'' @
         lit '' engineering and content assistant while we ship, with human review and a'' @
         lit '' claims register before anything public goes live.'')),
       (''claudeEvals'', Text (lit ''Payment correctness is validated with Go tests, chain simulation, and'' @
         lit '' server-side matching, not LLM judgment.'')),
       (''claudeMore'', Text (lit ''Read the full Claude page'')),
       (''principlesTitle'', Text (lit ''How we build'')),
       (''principles'', Items [
         Group [
           (''title'', Text (lit ''Non-custodial'')),
           (''body'', Text (lit ''Your wallet, your keys. We never hold seller funds.''))],
         Group [
           (''title'', Text (lit ''Server-verified'')),
           (''body'', Text (lit ''Only the backend can mark Paid '' @ [10003] @ lit ''.''))],
         Group [
           (''title'', Text (lit ''Exact-match payments'')),
           (''body'', Text (lit ''Unique payable amounts per active reservation.''))],
         Group [
           (''title'', Text (lit ''Commerce language'')),
           (''body'', Text (lit ''Links and orders first, not chain jargon.''))]]),
       (''imprintTitle'', Text (lit ''Company details'')),
       (''companyTitle'', Text (lit ''Company'')),
       (''foundedLine'', Text (lit ''Founded in 2024 in Athens, Greece.'')),
       (''fundingLine'', Text (lit ''Pre-seed: USD 20,000 from friends and family to build the first product (not'' @
         lit '' disclosed as revenue or GMV).'')),
       (''contactCta'', Text (lit ''Questions? Reach us on the contact page.''))]"

definition men_contact :: tvalue where
  "men_contact = Group [
       (''metaTitle'', Text (lit ''Contact'')),
       (''metaDescription'', Text (lit ''Email, address, and social links for Pooli support and the founder.'')),
       (''title'', Text (lit ''Contact'')),
       (''intro'', Text (lit ''We read every message. For partnerships and program verification, contact the'' @
         lit '' founder directly.'')),
       (''primaryLabel'', Text (lit ''Primary contact'')),
       (''supportLabel'', Text (lit ''Support'')),
       (''founderLabel'', Text (lit ''Founder'')),
       (''addressLabel'', Text (lit ''Address'')),
       (''socialLabel'', Text (lit ''Elsewhere''))]"

definition men_faqPage :: tvalue where
  "men_faqPage = Group [
       (''metaTitle'', Text (lit ''FAQ'')),
       (''metaDescription'', Text (lit ''Answers about non-custodial USDT checkout, networks, buyers, and Pooli itself.'')),
       (''title'', Text (lit ''Frequently asked questions'')),
       (''extra'', Items [
         Group [
           (''q'', Text (lit ''How does the USDT/toman rate work?'')),
           (''a'', Text (lit ''When you create a payment, Pooli stores a timestamped USDT-to-toman rate and'' @
             lit '' shows the buyer the exact USDT amount to pay.''))],
         Group [
           (''q'', Text (lit ''Can buyers pay with a wallet app?'')),
           (''a'', Text (lit ''Yes on supported networks. QR codes and wallet handoff where available.'' @
             lit '' Copying the address always works.''))],
         Group [
           (''q'', Text (lit ''What data do you store about buyers?'')),
           (''a'', Text (lit ''Checkout fields you configure (name, phone, address, etc.) are stored for'' @
             lit '' your order and scoped to your merchant account.''))],
         Group [
           (''q'', Text (lit ''Is there a merchant API?'')),
           (''a'', Text (lit ''Not in the product UI today. Pooli is built around payment links in the'' @
             lit '' seller app.''))]])]"

definition men_security :: tvalue where
  "men_security = Group [
       (''metaTitle'', Text (lit ''Security'')),
       (''metaDescription'', Text (lit ''How Pooli handles non-custodial USDT checkout, verification, and disclosure.'')),
       (''title'', Text (lit ''Security'')),
       (''intro'', Text (lit ''Facts about how Pooli is designed. This is not a certification or a guarantee'' @
         lit '' of uptime.'')),
       (''facts'', Items [
         Text (lit ''Non-custodial: Pooli does not hold seller funds and never stores seed phrases'' @
           lit '' or private keys.''),
         Text (lit ''Token contracts are allowlisted per network.''),
         Text (lit ''Payable amounts use unique integer matching per destination, network, token,'' @
           lit '' and active reservation.''),
         Text (lit ''Only server-side verification can mark a payment Paid '' @ [10003] @ lit ''.''),
         Text (lit ''Chain event ingest is idempotent.''),
         Text (lit ''Customer checkout data is scoped to the owning merchant (and admin support).''),
         Text (lit ''Public endpoints are rate-limited.'')]),
       (''disclosureTitle'', Text (lit ''Responsible disclosure'')),
       (''disclosureBody'', Text (lit ''If you believe you found a security issue, email support@pooli.shop with'' @
         lit '' enough detail to reproduce it. Include omid@pooli.shop as a secondary'' @
         lit '' contact if support is unreachable. We aim to acknowledge new reports within'' @
         lit '' 5 business days.''))]"

definition men_privacy :: tvalue where
  "men_privacy = Group [
       (''metaTitle'', Text (lit ''Privacy policy'')),
       (''metaDescription'', Text (lit ''How Pooli processes seller and buyer data.'')),
       (''title'', Text (lit ''Privacy policy'')),
       (''draftBanner'', Text (lit ''Draft (pending legal review)'')),
       (''lastUpdated'', Text (lit ''Last updated'')),
       (''sections'', Group [
         (''controller'', Text (lit ''Who is responsible'')),
         (''controllerBody'', Text (lit ''POOLI SINGLE MEMBER P.C. ('' @ [8220] @ lit ''Pooli'' @ [8221] @ lit '', '' @ [8220] @
           lit ''we'' @ [8221] @
           lit '') is the data controller for seller account data and site operations. For'' @
           lit '' buyer checkout fields, you (the seller) are the controller of your customers'' @ [8217] @
           lit '' data; Pooli processes that data on your instructions to run checkout and'' @
           lit '' notifications.'')),
         (''collect'', Text (lit ''What we collect'')),
         (''collectBody'', Text (lit ''Seller accounts: email, name, password hash, session cookies, wallet'' @
           lit '' addresses you register, orders, payment status, notification preferences,'' @
           lit '' and Telegram connection metadata when you enable it. Buyer checkout: fields'' @
           lit '' you configure (for example name, phone, email, address). Payments: public'' @
           lit '' blockchain transfer metadata (amounts, addresses, transaction references)'' @
           lit '' needed to verify payment. Technical: server logs, rate-limit counters, and'' @
           lit '' coarse product analytics events without payment addresses or buyer PII in'' @
           lit '' analytics payloads.'')),
         (''analytics'', Text (lit ''Analytics'')),
         (''analyticsBody'', Text (lit ''Checkout friction analytics are privacy-oriented: event names like'' @
           lit '' checkout_opened or payment_detected with coarse properties. We strip keys'' @
           lit '' that look like addresses, hashes, phone, email, or names. There is no'' @
           lit '' third-party ad tracker in the open-source web app; if you wire a sink via'' @
           lit '' window.pooliAnalytics, that is under your deployment.'')),
         (''cookies'', Text (lit ''Cookies'')),
         (''cookiesBody'', Text (lit ''Essential cookies/local storage for login sessions, locale (pooli_locale),'' @
           lit '' and theme (pooli_theme). No marketing cookie banner is required for those'' @
           lit '' alone.'')),
         (''sharing'', Text (lit ''Processors and hosting'')),
         (''sharingBody'', Text (lit ''We use infrastructure and service providers needed to run Pooli (hosting,'' @
           lit '' email delivery such as Resend, Telegram Bot API, blockchain RPC providers'' @
           lit '' such as TronGrid for TRON). Providers process data under our instructions.'')),
         (''retention'', Text (lit ''Retention'')),
         (''retentionBody'', Text (lit ''We keep operational data while your account is active and as needed for'' @
           lit '' disputes, fraud prevention, and legal obligations. Merchant-scoped buyer'' @
           lit '' records can be isolated on request; export and automated deletion tooling is'' @
           lit '' still being built.'')),
         (''rights'', Text (lit ''Your rights'')),
         (''rightsBody'', Text (lit ''If you are in the EU/EEA, you may have rights to access, rectify, erase,'' @
           lit '' restrict, object, and port personal data, and to withdraw consent where'' @
           lit '' processing is consent-based. Contact support@pooli.shop. You may lodge a'' @
           lit '' complaint with the Hellenic Data Protection Authority.'')),
         (''transfers'', Text (lit ''International transfers'')),
         (''transfersBody'', Text (lit ''Data may be processed in the EU and where our hosting providers operate. We'' @
           lit '' use appropriate safeguards where required by law.'')),
         (''contact'', Text (lit ''Contact'')),
         (''contactBody'', Text (lit ''Privacy questions: support@pooli.shop.''))])]"

definition men_terms :: tvalue where
  "men_terms = Group [
       (''metaTitle'', Text (lit ''Terms of service'')),
       (''metaDescription'', Text (lit ''Terms for using Pooli.'')),
       (''title'', Text (lit ''Terms of service'')),
       (''draftBanner'', Text (lit ''Draft (pending legal review)'')),
       (''lastUpdated'', Text (lit ''Last updated'')),
       (''sections'', Group [
         (''agreement'', Text (lit ''Agreement'')),
         (''agreementBody'', Text (lit ''By using Pooli you agree to these terms. If you do not agree, do not use the'' @
           lit '' service.'')),
         (''service'', Text (lit ''The service'')),
         (''serviceBody'', Text (lit ''Pooli provides payment links and on-chain verification tools. Pooli is'' @
           lit '' non-custodial: you are responsible for wallet addresses you provide and for'' @
           lit '' complying with laws that apply to your sales.'')),
         (''payments'', Text (lit ''Payments'')),
         (''paymentsBody'', Text (lit ''Buyers send USDT to addresses you control. Pooli does not guarantee'' @
           lit '' blockchain or RPC uptime. Mismatched payments may enter review states; Pooli'' @
           lit '' does not silently accept wrong amounts.'')),
         (''acceptable'', Text (lit ''Acceptable use'')),
         (''acceptableBody'', Text (lit ''Do not use Pooli for illegal goods, fraud, money laundering, or abuse of'' @
           lit '' rate-limited endpoints. We may suspend accounts that violate these rules.'')),
         (''liability'', Text (lit ''Limitation of liability'')),
         (''liabilityBody'', Text (lit ''Pooli is provided as-is to the extent permitted by law. We are not liable for'' @
           lit '' indirect or consequential damages. This section is a plain-language summary'' @
           lit '' and must be reviewed by counsel.'')),
         (''law'', Text (lit ''Governing law'')),
         (''lawBody'', Text (lit ''These terms are governed by the laws of Greece, without regard to'' @
           lit '' conflict-of-law rules.'')),
         (''contact'', Text (lit ''Contact'')),
         (''contactBody'', Text (lit ''Legal and product questions: support@pooli.shop.''))])]"

definition marketingEn :: tvalue where
  "marketingEn = Group [
     (''skipToContent'', Text (lit ''Skip to content'')),
     (''nav'', men_nav),
     (''hero'', men_hero),
     (''builtFor'', men_builtFor),
     (''marquee'', men_marquee),
     (''flowDiagram'', men_flowDiagram),
     (''problem'', men_problem),
     (''steps'', men_steps),
     (''draftReminders'', men_draftReminders),
     (''benefits'', men_benefits),
     (''nonCustodial'', men_nonCustodial),
     (''earlyAccess'', men_earlyAccess),
     (''finalCta'', men_finalCta),
     (''footer'', men_footer),
     (''imprint'', men_imprint),
     (''claude'', men_claude),
     (''faqLanding'', men_faqLanding),
     (''about'', men_about),
     (''contact'', men_contact),
     (''faqPage'', men_faqPage),
     (''security'', men_security),
     (''privacy'', men_privacy),
     (''terms'', men_terms)]"

definition en_nav :: tvalue where
  "en_nav = Group [
       (''home'', Text (lit ''Home'')),
       (''orders'', Text (lit ''Orders'')),
       (''new'', Text (lit ''New payment'')),
       (''customers'', Text (lit ''Customers'')),
       (''wallets'', Text (lit ''Receiving wallets'')),
       (''settings'', Text (lit ''Settings''))]"

definition en_home :: tvalue where
  "en_home = Group [
       (''title'', Text (lit ''Today'')),
       (''greetingMorning'', Text (lit ''Good morning'')),
       (''greetingAfternoon'', Text (lit ''Good afternoon'')),
       (''greetingEvening'', Text (lit ''Good evening'')),
       (''greetingNamed'', Text (lit ''{greeting}, {name}'')),
       (''newOrder'', Text (lit ''New payment'')),
       (''paidToday'', Text (lit ''Paid today'')),
       (''paidTodayNone'', Text (lit ''Nothing paid today'')),
       (''emptyHint'', Text (lit ''Create a link and send it when you are ready.'')),
       (''pendingCount'', Text (lit ''{n} payments waiting'')),
       (''tomanVolume'', Text (lit ''Today'')),
       (''usdtReceived'', Text (lit ''Received'')),
       (''pending'', Text (lit ''Waiting'')),
       (''attention'', Text (lit ''Needs attention'')),
       (''recent'', Text (lit ''Recent'')),
       (''empty'', Text (lit ''No payments yet. Create a payment link and send it to your customer.'')),
       (''paidCount'', Text (lit ''{n} payments'')),
       (''viewAttention'', Text (lit ''See what needs you'')),
       (''awaitingFulfillment'', Text (lit ''Paid, still to ship'')),
       (''analytics'', Text (lit ''This week'')),
       (''gmv7d'', Text (lit ''This week'')),
       (''paid7d'', Text (lit ''Paid'')),
       (''aov7d'', Text (lit ''Average'')),
       (''standingLink'', Text (lit ''Reusable link'')),
       (''copyStandingLink'', Text (lit ''Copy link'')),
       (''pasteInstagram'', Text (lit ''Paste in Instagram''))]"

definition en_orders :: tvalue where
  "en_orders = Group [
       (''title'', Text (lit ''Orders'')),
       (''empty'', Text (lit ''No orders yet'')),
       (''emptyAttention'', Text (lit ''Nothing needs attention right now.'')),
       (''filterAll'', Text (lit ''All'')),
       (''filterAttention'', Text (lit ''Needs attention'')),
       (''searchPlaceholder'', Text (lit ''Search name, phone'' @ [8230])),
       (''payment'', Text (lit ''Payment'')),
       (''order'', Text (lit ''Order'')),
       (''status'', Group [
         (''CREATED'', Text (lit ''Created'')),
         (''AWAITING_PAYMENT'', Text (lit ''Waiting for payment'')),
         (''SEEN'', Text (lit ''Payment detected'')),
         (''CONFIRMING'', Text (lit ''Confirming payment'')),
         (''PAID'', Text (lit ''Paid'')),
         (''EXPIRED'', Text (lit ''Expired'')),
         (''UNDERPAID'', Text (lit ''Amount is short'')),
         (''OVERPAID'', Text (lit ''Amount is over'')),
         (''LATE_PAYMENT'', Text (lit ''Paid late'')),
         (''NEEDS_REVIEW'', Text (lit ''Needs attention'')),
         (''DUPLICATE_PAYMENT'', Text (lit ''Extra payment detected''))]),
       (''paidCheck'', Text (lit ''Paid '' @ [10003])),
       (''paymentDetected'', Text (lit ''Payment detected''))]"

definition en_proposals :: tvalue where
  "en_proposals = Group [
       (''section'', Text (lit ''Draft follow-up'')),
       (''suggestClaude'', Text (lit ''Suggest follow-up (Claude)'')),
       (''suggestClaudeHint'', Text (lit ''Drafts from live payment status. You approve before anything sends.'')),
       (''suggestClaudeBusy'', Text (lit ''Drafting'' @ [8230])),
       (''suggestClaudeError'', Text (lit ''Could not draft. Try again or write your own.'')),
       (''suggestClaudeReady'', Text (lit ''Draft ready '' @ [8212] @ lit '' review below'')),
       (''pendingRow'', Text (lit ''Message draft waiting for you'')),
       (''review'', Text (lit ''Review'')),
       (''sheetTitle'', Text (lit ''Review message draft'')),
       (''sheetHint'', Text (lit ''Nothing is sent until you approve. Check payment status matches what you'' @ lit '' expect.'')),
       (''factOrder'', Text (lit ''Order'')),
       (''factAmount'', Text (lit ''Amount'')),
       (''factPayment'', Text (lit ''Payment'')),
       (''factReference'', Text (lit ''Reference'')),
       (''draftLabel'', Text (lit ''Draft message'')),
       (''linkCode'', Text (lit ''Confirmation code'')),
       (''linkCodeHint'', Text (lit ''From your notification (6 characters).'')),
       (''approve'', Text (lit ''Approve'')),
       (''reject'', Text (lit ''Decline'')),
       (''openConfirmPage'', Text (lit ''Open confirmation page'')),
       (''editedWarning'', Text (lit ''Edits must match the proposed draft to approve.'')),
       (''resetDraft'', Text (lit ''Reset draft'')),
       (''approvedToast'', Text (lit ''Approved'')),
       (''rejectedToast'', Text (lit ''Declined. Nothing sent''))]"

definition en_fulfillment :: tvalue where
  "en_fulfillment = Group [
       (''UNFULFILLED'', Text (lit ''Not shipped'')),
       (''PROCESSING'', Text (lit ''Preparing'')),
       (''SHIPPED'', Text (lit ''Shipped'')),
       (''DELIVERED'', Text (lit ''Delivered'')),
       (''CANCELLED'', Text (lit ''Cancelled'')),
       (''markProcessing'', Text (lit ''Mark preparing'')),
       (''markShipped'', Text (lit ''Mark as shipped'')),
       (''markDelivered'', Text (lit ''Mark delivered'')),
       (''markCancelled'', Text (lit ''Cancel order'')),
       (''carrier'', Text (lit ''Carrier'')),
       (''tracking'', Text (lit ''Tracking code'')),
       (''confirmShip'', Text (lit ''Confirm'')),
       (''shipTitle'', Text (lit ''Mark as shipped''))]"

definition en_create :: tvalue where
  "en_create = Group [
       (''title'', Text (lit ''New payment'')),
       (''howMuch'', Text (lit ''How much?'')),
       (''amount'', Text (lit ''Amount'')),
       (''amountHint'', Text (lit ''What the buyer should pay, in USDT.'')),
       (''description'', Text (lit ''What'' @ [8217] @ lit ''s this for?'')),
       (''orderTitle'', Text (lit ''What'' @ [8217] @ lit ''s this for?'')),
       (''reference'', Text (lit ''Internal note'')),
       (''networks'', Text (lit ''Networks'')),
       (''create'', Text (lit ''Create payment'')),
       (''createShare'', Text (lit ''Create & share'')),
       (''copyLink'', Text (lit ''Copy link'')),
       (''share'', Text (lit ''Share'')),
       (''shareTelegram'', Text (lit ''Telegram'')),
       (''shareWhatsApp'', Text (lit ''WhatsApp'')),
       (''qr'', Text (lit ''Show QR'')),
       (''openCheckout'', Text (lit ''Open payment page'')),
       (''created'', Text (lit ''Ready to collect'')),
       (''creating'', Text (lit ''Creating'' @ [8230])),
       (''shareHint'', Text (lit ''Send this in Instagram, Telegram, or WhatsApp.'')),
       (''viewOrder'', Text (lit ''View order'')),
       (''completeOrder'', Text (lit ''Complete your order:'')),
       (''forCustomer'', Text (lit ''For'')),
       (''moreOptions'', Text (lit ''More options'')),
       (''hideOptions'', Text (lit ''Hide options'')),
       (''moreShare'', Text (lit ''More ways to share'')),
       (''pasteInChat'', Text (lit ''Paste in Instagram / Telegram'')),
       (''shareInstagram'', Text (lit ''Copy for Instagram'')),
       (''fromIgHint'', Text (lit ''Create the link, then paste it in the buyer'' @ [8217] @ lit ''s Instagram DM.'')),
       (''reusableInstead'', Text (lit ''Create a reusable link instead'')),
       (''quantity'', Text (lit ''Quantity'')),
       (''expiry'', Text (lit ''Expires in (minutes)'')),
       (''successMessage'', Text (lit ''Message after payment''))]"

definition en_customers :: tvalue where
  "en_customers = Group [
       (''title'', Text (lit ''Customers'')),
       (''empty'', Text (lit ''No customers yet. They show up after someone pays you.'')),
       (''searchPlaceholder'', Text (lit ''Search name, phone, email'' @ [8230])),
       (''orders'', Text (lit ''orders'')),
       (''lastOrder'', Text (lit ''Last order'')),
       (''today'', Text (lit ''today'')),
       (''yesterday'', Text (lit ''yesterday'')),
       (''daysAgo'', Text (lit ''{n} days ago'')),
       (''newOrder'', Text (lit ''New payment'')),
       (''lifetime'', Text (lit ''Paid in total'')),
       (''addresses'', Text (lit ''Addresses'')),
       (''recentOrders'', Text (lit ''Recent orders'')),
       (''notes'', Text (lit ''Notes'')),
       (''tags'', Text (lit ''Tags'')),
       (''addNote'', Text (lit ''Add note'')),
       (''addTag'', Text (lit ''Add tag'')),
       (''notePlaceholder'', Text (lit ''Internal note'' @ [8230])),
       (''tagPlaceholder'', Text (lit ''VIP, Instagram'' @ [8230])),
       (''paidOrders'', Text (lit ''Paid orders''))]"

definition en_wallets :: tvalue where
  "en_wallets = Group [
       (''receiving'', Text (lit ''Receiving wallet'')),
       (''archiveConfirm'', Text (lit ''Remove this receiving wallet?'')),
       (''archiveConfirmBody'', Text (lit ''Open payment requests using this wallet will keep the current address until'' @
         lit '' they expire.'')),
       (''title'', Text (lit ''Where should payments arrive?'')),
       (''add'', Text (lit ''Add destination'')),
       (''label'', Text (lit ''Label'')),
       (''network'', Text (lit ''Network'')),
       (''address'', Text (lit ''Address'')),
       (''default'', Text (lit ''Default'')),
       (''inactive'', Text (lit ''Archived'')),
       (''copy'', Text (lit ''Copy address'')),
       (''explorer'', Text (lit ''View on explorer'')),
       (''archive'', Text (lit ''Archive'')),
       (''setDefault'', Text (lit ''Set as default'')),
       (''activeIntents'', Text (lit ''Open payments'')),
       (''confirmTitle'', Text (lit ''Check this address'')),
       (''confirmWarn'', Text (lit ''Money sent here is yours to control. Pooli cannot recover funds sent to the'' @
         lit '' wrong address.'')),
       (''save'', Text (lit ''Save'')),
       (''empty'', Text (lit ''Add a TRON or BNB Chain address so buyers can pay you.'')),
       (''details'', Text (lit ''Details'')),
       (''tron'', Text (lit ''TRON'')),
       (''bsc'', Text (lit ''BNB Chain'')),
       (''tokenStandard'', Text (lit ''Token standard'')),
       (''invalidAddress'', Text (lit ''This address doesn'' @ [8217] @ lit ''t match the selected network.''))]"

definition en_settings :: tvalue where
  "en_settings = Group [
       (''title'', Text (lit ''Settings'')),
       (''store'', Text (lit ''Store'')),
       (''storeHint'', Text (lit ''How buyers see you'')),
       (''displayName'', Text (lit ''Store name'')),
       (''description'', Text (lit ''Description'')),
       (''support'', Text (lit ''Support contact'')),
       (''logo'', Text (lit ''Logo'')),
       (''uploadLogo'', Text (lit ''Upload logo'')),
       (''language'', Text (lit ''Language'')),
       (''telegram'', Text (lit ''Telegram'')),
       (''telegramHint'', Text (lit ''Get a ping when someone pays.'')),
       (''telegramConnected'', Text (lit ''Connected '' @ [10003])),
       (''telegramConnectedHint'', Text (lit ''We'' @ [8217] @ lit ''ll tell you when a customer pays or something needs attention.'')),
       (''connectTelegram'', Text (lit ''Connect Telegram'')),
       (''disconnectTelegram'', Text (lit ''Disconnect'')),
       (''telegramDisconnected'', Text (lit ''Telegram disconnected'')),
       (''sendTelegramTest'', Text (lit ''Send test'')),
       (''telegramTestSent'', Text (lit ''Test sent'')),
       (''telegramConnectWaiting'', Text (lit ''Finish connecting in Telegram, then come back.'')),
       (''telegramOpenFailed'', Text (lit ''Couldn'' @ [8217] @ lit ''t open Telegram. Use the link below.'')),
       (''instagram'', Text (lit ''Instagram'')),
       (''instagramHint'', Text (lit ''Create a payment link by DMing @pooli.'')),
       (''instagramNotConfigured'', Text (lit ''Instagram DMs not enabled on this server yet.'')),
       (''instagramTestersOnly'', Text (lit ''Until App Review, only Meta testers can talk to @pooli.'')),
       (''instagramConnectHint'', Text (lit ''Open Instagram '' @ [8594] @ lit '' DM @pooli '' @ [8594] @ lit '' send this code.'')),
       (''instagramGetCode'', Text (lit ''Get code'')),
       (''instagramConnected'', Text (lit ''Connected '' @ [10003])),
       (''disconnectInstagram'', Text (lit ''Disconnect'')),
       (''instagramDisconnected'', Text (lit ''Instagram disconnected'')),
       (''notifications'', Text (lit ''Notifications'')),
       (''notificationsHint'', Text (lit ''How you hear about payments'')),
       (''email'', Text (lit ''Email'')),
       (''emailDisabledHint'', Text (lit ''Email notifications aren'' @ [8217] @ lit ''t on this server yet.'')),
       (''emailDestinationHint'', Text (lit ''Payment emails go to your account email.'')),
       (''emailPaymentReceived'', Text (lit ''Payment received'')),
       (''emailNeedsAttention'', Text (lit ''Needs attention'')),
       (''emailOrderUpdates'', Text (lit ''Order updates'')),
       (''save'', Text (lit ''Save'')),
       (''addToHome'', Text (lit ''Add to Home Screen'')),
       (''checkoutDefaults'', Text (lit ''What to ask buyers'')),
       (''customerFields'', Text (lit ''What to ask buyers'')),
       (''paymentDefaults'', Text (lit ''Payment defaults'')),
       (''fieldRequired'', Text (lit ''Required'')),
       (''fieldOptional'', Text (lit ''Optional'')),
       (''fieldDisabled'', Text (lit ''Off'')),
       (''enabledNetworks'', Text (lit ''Enabled networks'')),
       (''defaultNetwork'', Text (lit ''Default network'')),
       (''defaultExpiry'', Text (lit ''Link expiry (minutes)'')),
       (''fulfillmentRequired'', Text (lit ''Needs shipping'')),
       (''defaultsHint'', Text (lit ''New payments use these. Existing ones stay as they are.'')),
       (''gettingPaid'', Text (lit ''Getting paid'')),
       (''gettingPaidHint'', Text (lit ''Where money arrives, and what you ask buyers'')),
       (''appLanguage'', Text (lit ''Appearance'')),
       (''appLanguageHint'', Text (lit ''Language, theme, and Home Screen'')),
       (''theme'', Text (lit ''Theme'')),
       (''themeSystem'', Text (lit ''System'')),
       (''themeLight'', Text (lit ''Light'')),
       (''themeDark'', Text (lit ''Dark'')),
       (''about'', Text (lit ''About'')),
       (''version'', Text (lit ''Version'')),
       (''logoutConfirm'', Text (lit ''Log out?'')),
       (''account'', Text (lit ''Account'')),
       (''buyerQuestions'', Text (lit ''What to ask buyers'')),
       (''buyerQuestionsHint'', Text (lit ''Name, phone, address'' @ [8230])),
       (''walletsRowHint'', Text (lit ''TRON or BNB Chain address'')),
       (''fieldFullName'', Text (lit ''Name'')),
       (''fieldPhone'', Text (lit ''Phone'')),
       (''fieldShipping'', Text (lit ''Delivery address'')),
       (''fieldPostal'', Text (lit ''Postal code'')),
       (''fieldEmail'', Text (lit ''Email'')),
       (''fieldNote'', Text (lit ''Buyer note''))]"

definition en_receipt :: tvalue where
  "en_receipt = Group [
       (''title'', Text (lit ''Payment received'')),
       (''copyDetails'', Text (lit ''Copy receipt'')),
       (''transaction'', Text (lit ''Transaction'')),
       (''network'', Text (lit ''Network'')),
       (''usdt'', Text (lit ''USDT'')),
       (''received'', Text (lit ''Received'')),
       (''share'', Text (lit ''Share receipt'')),
       (''print'', Text (lit ''Print''))]"

definition en_timeline :: tvalue where
  "en_timeline = Group [
       (''title'', Text (lit ''Activity'')),
       (''events'', Group [
         (''order.created'', Text (lit ''Order created'')),
         (''customer.details_submitted'', Text (lit ''Customer details submitted'')),
         (''fulfillment.processing'', Text (lit ''Preparing'')),
         (''fulfillment.shipped'', Text (lit ''Shipped'')),
         (''fulfillment.delivered'', Text (lit ''Delivered'')),
         (''fulfillment.cancelled'', Text (lit ''Cancelled'')),
         (''payment.seen'', Text (lit ''Payment detected'')),
         (''payment.confirming'', Text (lit ''Confirming payment'')),
         (''payment.paid'', Text (lit ''Paid '' @ [10003])),
         (''payment.expired'', Text (lit ''Expired'')),
         (''payment.underpaid'', Text (lit ''Amount is short'')),
         (''payment.overpaid'', Text (lit ''Amount is over'')),
         (''payment.needs_review'', Text (lit ''Needs attention'')),
         (''payment.unmatched_ambiguous'', Text (lit ''Needs attention'')),
         (''payment.late'', Text (lit ''Paid late'')),
         (''payment.duplicate'', Text (lit ''Extra payment detected''))])]"

definition en_trust :: tvalue where
  "en_trust = Group [
       (''emailVerified'', Text (lit ''Email verified'')),
       (''phoneVerified'', Text (lit ''Phone verified'')),
       (''walletConfigured'', Text (lit ''Ready to receive payments''))]"

definition en_checkout :: tvalue where
  "en_checkout = Group [
       (''poweredBy'', Text (lit ''Pooli'')),
       (''amount'', Text (lit ''Amount'')),
       (''usdt'', Text (lit ''USDT'')),
       (''toman'', Text (lit ''Toman'')),
       (''payStore'', Text (lit ''Pay {name}'')),
       (''networkTron'', Text (lit ''USDT '' @ [183] @ lit '' TRON'')),
       (''networkBsc'', Text (lit ''USDT '' @ [183] @ lit '' BNB Chain'')),
       (''waitingTitle'', Text (lit ''Waiting for payment'')),
       (''waitingBody'', Text (lit ''We'' @ [8217] @ lit ''ll detect it automatically. Keep this page open or come back anytime.'')),
       (''openingWallet'', Text (lit ''Opening wallet'' @ [8230])),
       (''detectedBody'', Text (lit ''We'' @ [8217] @ lit ''re confirming it now. Usually this only takes a moment.'')),
       (''confirmingBody'', Text (lit ''We'' @ [8217] @ lit ''re confirming it now. Usually this only takes a moment.'')),
       (''closePage'', Text (lit ''You can close this page.'')),
       (''notFound'', Text (lit ''This payment link isn'' @ [8217] @ lit ''t available.'')),
       (''copyMerchant'', Text (lit ''Merchant'')),
       (''copyAmountLine'', Text (lit ''Amount'')),
       (''copyNetworkLine'', Text (lit ''Network'')),
       (''copyAddressLine'', Text (lit ''Address'')),
       (''copyHeading'', Text (lit ''Pooli payment'')),
       (''continue'', Text (lit ''Continue to payment'')),
       (''selectNetwork'', Text (lit ''Choose how to pay'')),
       (''recommend'', Text (lit ''Recommended'')),
       (''previouslyUsed'', Text (lit ''Used before'')),
       (''networkTronHint'', Text (lit ''Usually faster and cheaper.'')),
       (''networkBscHint'', Text (lit ''Use this if your wallet is on BNB Chain.'')),
       (''exactAmount'', Text (lit ''Send exactly'')),
       (''exactHint'', Text (lit ''Send this exact amount so we can match your payment automatically.'')),
       (''whyExactAmount'', Text (lit ''Why this exact amount?'')),
       (''copyAddress'', Text (lit ''Copy address'')),
       (''copyAmount'', Text (lit ''Copy amount'')),
       (''copyPaymentDetails'', Text (lit ''Copy payment details'')),
       (''amountCopied'', Text (lit ''Amount copied '' @ [10003])),
       (''addressCopied'', Text (lit ''Address copied '' @ [10003])),
       (''detailsCopied'', Text (lit ''Payment details copied '' @ [10003])),
       (''openWallet'', Text (lit ''Open wallet'')),
       (''payWithWallet'', Text (lit ''Pay with wallet'')),
       (''payWithTronlink'', Text (lit ''Pay with TronLink'')),
       (''changeWallet'', Text (lit ''Change'')),
       (''chooseWallet'', Text (lit ''Choose wallet'')),
       (''showQr'', Text (lit ''Show QR'')),
       (''scanWithWallet'', Text (lit ''Scan with your wallet'')),
       (''waitingPayment'', Text (lit ''Waiting for payment'' @ [8230])),
       (''quoteExpires'', Text (lit ''Amount refreshes in'')),
       (''refreshAmount'', Text (lit ''Refresh payment'')),
       (''wrongNetwork'', Text (lit ''Send only on the network you chose. The wrong network cannot be recovered.'')),
       (''customerInfo'', Text (lit ''Your details'')),
       (''paymentDetails'', Text (lit ''Payment details'')),
       (''network'', Text (lit ''Network'')),
       (''token'', Text (lit ''Asset'')),
       (''paymentReceived'', Text (lit ''Payment received'')),
       (''orderConfirmed'', Text (lit ''Order confirmed'')),
       (''orderShipped'', Text (lit ''Shipped'')),
       (''orderStatus'', Text (lit ''Order status'')),
       (''trackingCode'', Text (lit ''Tracking code'')),
       (''orderRef'', Text (lit ''Order'')),
       (''viewTx'', Text (lit ''View transaction'')),
       (''checkingPayment'', Text (lit ''Checking payment'' @ [8230])),
       (''paymentDetected'', Text (lit ''Payment detected '' @ [10003])),
       (''canLeave'', Text (lit ''You can leave this page. We'' @ [8217] @ lit ''ll keep checking automatically.'')),
       (''successTitle'', Text (lit ''You'' @ [8217] @ lit ''re all set'')),
       (''successReceivedBy'', Text (lit ''Payment received by'')),
       (''successSellerNotify'', Text (lit ''We'' @ [8217] @ lit ''ll let the seller know.'')),
       (''iabTitle'', Text (lit ''Having trouble opening your wallet?'')),
       (''openInBrowser'', Text (lit ''Open in browser'')),
       (''igBannerTitle'', Text (lit ''Open in Safari / Chrome to pay with wallet'')),
       (''igBannerCopy'', Text (lit ''Copy payment link'')),
       (''ivePaid'', Text (lit ''I'' @ [8217] @ lit ''ve paid'')),
       (''pay'', Text (lit ''Pay'')),
       (''wallets'', Group [
         (''tronlink'', Text (lit ''TronLink'')),
         (''tronlinkHint'', Text (lit ''Recommended for TRON'')),
         (''walletconnect'', Text (lit ''WalletConnect'')),
         (''walletconnectHint'', Text (lit ''Connect a compatible wallet'')),
         (''trust'', Text (lit ''Trust Wallet'')),
         (''trustHint'', Text (lit ''Via WalletConnect'')),
         (''other'', Text (lit ''Other wallet''))]),
       (''exception'', Group [
         (''expiredTitle'', Text (lit ''This payment request expired'')),
         (''expiredBody'', Text (lit ''No payment has been confirmed for this request.'')),
         (''underpaidTitle'', Text (lit ''We found your payment, but the amount is a little short.'')),
         (''underpaidBody'', Text (lit ''We'' @ [8217] @ lit ''re checking this. Don'' @ [8217] @ lit ''t send another payment yet.'')),
         (''overpaidTitle'', Text (lit ''We found your payment, but the amount is higher than expected.'')),
         (''overpaidBody'', Text (lit ''We'' @ [8217] @ lit ''re checking this. Don'' @ [8217] @ lit ''t send another payment.'')),
         (''lateTitle'', Text (lit ''Your payment arrived after the amount expired.'')),
         (''lateBody'', Text (lit ''We'' @ [8217] @ lit ''re checking it. Don'' @ [8217] @ lit ''t send another payment.'')),
         (''reviewTitle'', Text (lit ''We found your payment.'')),
         (''reviewBody'', Text (lit ''It needs a quick look before we can confirm. Don'' @ [8217] @ lit ''t send another payment.'')),
         (''expected'', Text (lit ''Expected'')),
         (''received'', Text (lit ''Received'')),
         (''dontSendAgain'', Text (lit ''Don'' @ [8217] @ lit ''t send another payment yet. We'' @ [8217] @
           lit ''re checking this one.''))]),
       (''progress'', Group [
         (''requested'', Text (lit ''Waiting'')),
         (''detected'', Text (lit ''Detected'')),
         (''confirming'', Text (lit ''Confirming'')),
         (''complete'', Text (lit ''Paid'')),
         (''confirmations'', Text (lit ''{current} of {required} confirmations''))])]"

definition en_auth :: tvalue where
  "en_auth = Group [
       (''emailRequired'', Text (lit ''Email is required'')),
       (''phoneInvalid'', Text (lit ''Enter a valid Iranian mobile number'')),
       (''otpSent'', Text (lit ''Code sent'')),
       (''otpInvalid'', Text (lit ''Invalid or expired code''))]"

definition en_common :: tvalue where
  "en_common = Group [
       (''loading'', Text (lit ''Loading'' @ [8230])),
       (''error'', Text (lit ''Something went wrong. Try again.'')),
       (''saved'', Text (lit ''Saved'')),
       (''copy'', Text (lit ''Copy'')),
       (''copied'', Text (lit ''Copied'')),
       (''offline'', Text (lit ''Connection lost. We'' @ [8217] @ lit ''ll reconnect automatically.'')),
       (''reconnect'', Text (lit ''Reconnecting'' @ [8230])),
       (''cancel'', Text (lit ''Cancel'')),
       (''confirm'', Text (lit ''Confirm'')),
       (''back'', Text (lit ''Back'')),
       (''mainNav'', Text (lit ''Main'')),
       (''retry'', Text (lit ''Try again'')),
       (''moneySafe'', Text (lit ''If you already paid, your money is still with you. We are checking it.''))]"

definition en_install :: tvalue where
  "en_install = Group [
       (''title'', Text (lit ''Add Pooli to your Home Screen'')),
       (''subtitle'', Text (lit ''Open Pooli in one tap, like an app.'')),
       (''notNow'', Text (lit ''Not now'')),
       (''install'', Text (lit ''Install Pooli'')),
       (''iosStep1'', Text (lit ''Tap Share in Safari'')),
       (''iosStep2'', Text (lit ''Tap Add to Home Screen'')),
       (''iosStep3'', Text (lit ''Tap Add'')),
       (''androidHint'', Text (lit ''Install Pooli for quicker access from your home screen.'')),
       (''desktopHint'', Text (lit ''Install Pooli from your browser for a dedicated app window.''))]"

definition en_admin :: tvalue where
  "en_admin = Group [
       (''title'', Text (lit ''Admin'')),
       (''resolve'', Text (lit ''Review / resolve'')),
       (''resolveHint'', Text (lit ''Cannot mark Paid by hand. Only a verified payment sets Paid.'')),
       (''intentId'', Text (lit ''Payment ID'')),
       (''action'', Text (lit ''Action'')),
       (''reason'', Text (lit ''Reason'')),
       (''eventId'', Text (lit ''Event ID (optional)'')),
       (''submit'', Text (lit ''Resolve'')),
       (''intents'', Text (lit ''Recent payments'')),
       (''events'', Text (lit ''Recent chain events'')),
       (''unmatched'', Text (lit ''Unmatched events'')),
       (''resolved'', Text (lit ''Resolved'')),
       (''search'', Text (lit ''Search'')),
       (''searchPlaceholder'', Text (lit ''Merchant, order, payment, tx'' @ [8230])),
       (''exceptions'', Text (lit ''Exceptions'')),
       (''timeline'', Text (lit ''Payment timeline'')),
       (''deliveries'', Text (lit ''Notification deliveries'')),
       (''ops'', Text (lit ''Ops status'')),
       (''actionNeedsReview'', Text (lit ''Needs review'')),
       (''actionAcknowledge'', Text (lit ''Acknowledge exception'')),
       (''actionNote'', Text (lit ''Audit note only'')),
       (''retry'', Text (lit ''Retry''))]"

definition en_store :: tvalue where
  "en_store = Group [
       (''payThisBusiness'', Text (lit ''Pay this business'')),
       (''optionalReference'', Text (lit ''Optional note'')),
       (''referencePlaceholder'', Text (lit ''Order note'')),
       (''continuePay'', Text (lit ''Continue''))]"

definition en_links :: tvalue where
  "en_links = Group [
       (''title'', Text (lit ''Reusable links'')),
       (''empty'', Text (lit ''No reusable links yet. Make one if you sell the same thing often.'')),
       (''create'', Text (lit ''Create link'')),
       (''fixed'', Text (lit ''Fixed amount'')),
       (''custom'', Text (lit ''Buyer chooses amount'')),
       (''active'', Text (lit ''Active'')),
       (''inactive'', Text (lit ''Off'')),
       (''hint'', Text (lit ''A link you can send again and again, not a one-time payment.''))]"

definition en_onboarding :: tvalue where
  "en_onboarding = Group [
       (''title'', Text (lit ''Set up your store'')),
       (''stepOf'', Text (lit ''Step {n} of {total}'')),
       (''next'', Text (lit ''Continue'')),
       (''back'', Text (lit ''Back'')),
       (''skip'', Text (lit ''Skip for now'')),
       (''finish'', Text (lit ''Finish setup'')),
       (''createPayment'', Text (lit ''Create payment'')),
       (''readyTitle'', Text (lit ''You'' @ [8217] @ lit ''re ready '' @ [10003])),
       (''readyBody'', Text (lit ''Create a payment and share the link. That'' @ [8217] @ lit ''s it.'')),
       (''business'', Text (lit ''Your store'')),
       (''businessHint'', Text (lit ''This is how buyers will recognize you.'')),
       (''storeName'', Text (lit ''Store name'')),
       (''storeSlug'', Text (lit ''Store link'')),
       (''storeSlugHint'', Text (lit ''pooli.shop/'')),
       (''slugTaken'', Text (lit ''This link is taken'')),
       (''slugReserved'', Text (lit ''This link is reserved'')),
       (''slugInvalid'', Text (lit ''Use letters and numbers only'')),
       (''suggestSlug'', Text (lit ''Suggest link'')),
       (''description'', Text (lit ''Short description'')),
       (''supportEmail'', Text (lit ''Support email'')),
       (''supportPhone'', Text (lit ''Support phone'')),
       (''defaults'', Text (lit ''Language'')),
       (''defaultsHint'', Text (lit ''Amounts stay in toman.'')),
       (''locale'', Text (lit ''Language'')),
       (''localeFa'', Text (lit ''Persian'')),
       (''localeEn'', Text (lit ''English'')),
       (''wallets'', Text (lit ''Where should payments arrive?'')),
       (''walletsHint'', Text (lit ''Buyers send payment here. You control this address. Pooli never holds the'' @ lit '' money.'')),
       (''walletNetwork'', Text (lit ''Network'')),
       (''walletAddress'', Text (lit ''Address'')),
       (''walletLabel'', Text (lit ''Label'')),
       (''addWallet'', Text (lit ''Save address'')),
       (''tronLabel'', Text (lit ''TRON'')),
       (''bscLabel'', Text (lit ''BNB Chain'')),
       (''bscUnavailable'', Text (lit ''BNB Chain will appear when it'' @ [8217] @ lit ''s available for your buyers.'')),
       (''rail'', Text (lit ''Preferred network'')),
       (''railHint'', Text (lit ''Buyers can still choose an enabled network.'')),
       (''railTron'', Text (lit ''TRON (recommended)'')),
       (''railBsc'', Text (lit ''BNB Chain'')),
       (''checkout'', Text (lit ''What to ask buyers'')),
       (''checkoutHint'', Text (lit ''You can change this later in Settings.'')),
       (''requireName'', Text (lit ''Buyer name'')),
       (''requirePhone'', Text (lit ''Phone'')),
       (''requireEmail'', Text (lit ''Email'')),
       (''requireAddress'', Text (lit ''Delivery address'')),
       (''requirePostal'', Text (lit ''Postal code'')),
       (''allowNote'', Text (lit ''Buyer note'')),
       (''shippingRequired'', Text (lit ''Needs shipping'')),
       (''expiry'', Text (lit ''Link expiry (minutes)'')),
       (''successMessage'', Text (lit ''Message after payment'')),
       (''notifications'', Text (lit ''Notifications'')),
       (''notificationsHint'', Text (lit ''You can turn these on later in Settings.'')),
       (''emailPayments'', Text (lit ''Email: payment received'')),
       (''emailAttention'', Text (lit ''Email: needs attention'')),
       (''emailOrders'', Text (lit ''Email: order updates'')),
       (''telegramLater'', Text (lit ''Connect Telegram anytime in Settings.''))]"

definition en_miniapp :: tvalue where
  "en_miniapp = Group [
       (''title'', Text (lit ''Pooli'')),
       (''create'', Text (lit ''New payment'')),
       (''connectTitle'', Text (lit ''Connect Telegram in Pooli'')),
       (''connectHint'', Text (lit ''Open Pooli on the web, go to Settings '' @ [8594] @
         lit '' Notifications, and Connect Telegram. Then come back here.'')),
       (''openPooli'', Text (lit ''Open Pooli'')),
       (''shareBuyer'', Text (lit ''Share with buyer'')),
       (''copyWeb'', Text (lit ''Copy web link'')),
       (''copyTelegram'', Text (lit ''Copy Telegram link''))]"

definition catalogue_en :: tvalue where
  "catalogue_en = Group [
     (''brand'', Text (lit ''Pooli'')),
     (''brandFa'', Text [1662, 1608, 1604, 1740]),
     (''tagline'', Text (lit ''Send a link. Know when they paid.'')),
     (''taglineSub'', Text (lit ''Create a payment, share it, and see paid status without chasing receipts.'')),
     (''openSeller'', Text (lit ''Open seller app'')),
     (''openPooli'', Text (lit ''Open Pooli'')),
     (''createAccount'', Text (lit ''Create account'')),
     (''login'', Text (lit ''Log in'')),
     (''register'', Text (lit ''Create account'')),
     (''email'', Text (lit ''Email'')),
     (''password'', Text (lit ''Password'')),
     (''name'', Text (lit ''Name'')),
     (''phone'', Text (lit ''Phone number'')),
     (''phoneHint'', Text (lit ''Iranian mobile, e.g. 09121234567'')),
     (''sendOtp'', Text (lit ''Send code'')),
     (''verifyOtp'', Text (lit ''Verify code'')),
     (''otpCode'', Text (lit ''Verification code'')),
     (''resendOtp'', Text (lit ''Resend code'')),
     (''loginWithEmail'', Text (lit ''Log in with email'')),
     (''loginWithPhone'', Text (lit ''Log in with phone'')),
     (''continueWithGoogle'', Text (lit ''Continue with Google'')),
     (''signUpWithGoogle'', Text (lit ''Sign up with Google'')),
     (''orContinueWith'', Text (lit ''or'')),
     (''googleAuthError'', Text (lit ''Google sign-in failed. Try again or use email.'')),
     (''logout'', Text (lit ''Log out'')),
     (''nav'', en_nav),
     (''home'', en_home),
     (''orders'', en_orders),
     (''proposals'', en_proposals),
     (''fulfillment'', en_fulfillment),
     (''create'', en_create),
     (''customers'', en_customers),
     (''wallets'', en_wallets),
     (''settings'', en_settings),
     (''receipt'', en_receipt),
     (''timeline'', en_timeline),
     (''trust'', en_trust),
     (''checkout'', en_checkout),
     (''auth'', en_auth),
     (''common'', en_common),
     (''install'', en_install),
     (''admin'', en_admin),
     (''store'', en_store),
     (''links'', en_links),
     (''onboarding'', en_onboarding),
     (''miniapp'', en_miniapp),
     (''marketing'', marketingEn)]"

end
