(* ===== verification/CatalogueFa.thy ===== *)
theory CatalogueFa
  imports Catalogue
begin

text \<open>
  The Persian texts, apps/web/src/i18n/messages/fa.ts and the second half of marketing-content.ts, as
  lists of UTF-16 code units.
\<close>

definition mfa_nav :: tvalue where
  "mfa_nav = Group [
       (''howItWorks'', Text ([1670, 1591, 1608, 1585] @ lit '' '' @ [1705, 1575, 1585] @ lit '' '' @
         [1605, 1740, 8204, 1705, 1606, 1583])),
       (''faq'', Text [1587, 1608, 1575, 1604, 1575, 1578]),
       (''about'', Text [1583, 1585, 1576, 1575, 1585, 1607]),
       (''signIn'', Text [1608, 1585, 1608, 1583]),
       (''createAccount'', Text ([1587, 1575, 1582, 1578] @ lit '' '' @ [1581, 1587, 1575, 1576])),
       (''menu'', Text [1605, 1606, 1608]),
       (''theme'', Text [1662, 1608, 1587, 1578, 1607]),
       (''themeLight'', Text [1585, 1608, 1588, 1606]),
       (''themeDark'', Text [1578, 1740, 1585, 1607]),
       (''themeSystem'', Text [1587, 1740, 1587, 1578, 1605])]"

definition mfa_hero :: tvalue where
  "mfa_hero = Group [
       (''eyebrow'', Text ([1604, 1740, 1606, 1705] @ lit '' '' @ [1662, 1585, 1583, 1575, 1582, 1578] @ lit '' '' @
         [1576, 1585, 1575, 1740] @ lit '' '' @ [1601, 1585, 1608, 1588] @ lit '' '' @ [1583, 1585] @
         lit '' '' @ [1583, 1575, 1740, 1585, 1705, 1578])),
       (''h1'', Text ([1604, 1740, 1606, 1705] @ lit '' '' @ [1585, 1608] @ lit '' '' @ [1576, 1601, 1585, 1587, 1578] @
         lit ''. '' @ [1608, 1602, 1578, 1740] @ lit '' '' @ [1662, 1585, 1583, 1575, 1582, 1578] @
         lit '' '' @ [1588, 1583, 1548] @ lit '' '' @ [1582, 1608, 1583, 1578] @ lit '' '' @
         [1605, 1740, 8204, 1601, 1607, 1605, 1740] @ lit ''.'')),
       (''sub'', Text ([1605, 1576, 1604, 1594] @ lit '' '' @ [1585, 1575] @ lit '' '' @ [1576, 1575] @ lit '' '' @
         [1578, 1608, 1605, 1575, 1606] @ lit '' '' @ [1576, 1711, 1608, 1548] @ lit '' '' @ [1740, 1705] @
         lit '' '' @ [1604, 1740, 1606, 1705] @ lit '' '' @ [1583, 1585] @ lit '' '' @
         [1583, 1575, 1740, 1585, 1705, 1578] @ lit '' '' @ [1576, 1601, 1585, 1587, 1578, 1548] @ lit '' '' @
         [1608] @ lit '' '' @ [1608, 1602, 1578, 1740] @ lit '' USDT '' @ [1583, 1602, 1740, 1602] @
         lit '' '' @ [1576, 1607] @ lit '' '' @ [1705, 1740, 1601] @ lit '' '' @ [1662, 1608, 1604, 1578] @
         lit '' '' @ [1585, 1587, 1740, 1583, 1548] @ lit '' '' @ [1608, 1590, 1593, 1740, 1578] @ lit '' '' @
         [1662, 1585, 1583, 1575, 1582, 1578] @ lit '' '' @ [1575, 1586] @ lit '' '' @
         [1587, 1585, 1608, 1585] @ lit '' '' @ [1578, 1571, 1740, 1740, 1583] @ lit '' '' @
         [1605, 1740, 8204, 1588, 1608, 1583] @ lit ''.'')),
       (''ctaPrimary'', Text ([1575, 1608, 1604, 1740, 1606] @ lit '' '' @ [1604, 1740, 1606, 1705] @ lit '' '' @
         [1662, 1585, 1583, 1575, 1582, 1578] @ lit '' '' @ [1585, 1575] @ lit '' '' @
         [1576, 1587, 1575, 1586])),
       (''ctaSecondary'', Text ([1576, 1576, 1740, 1606] @ lit '' '' @ [1670, 1591, 1608, 1585] @ lit '' '' @ [1705, 1575, 1585] @
         lit '' '' @ [1605, 1740, 8204, 1705, 1606, 1583])),
       (''demoLabel'', Text ([1606, 1605, 1575, 1740] @ lit '' checkout. '' @ [1662, 1585, 1583, 1575, 1582, 1578] @ lit '' '' @
         [1608, 1575, 1602, 1593, 1740] @ lit '' '' @ [1606, 1740, 1587, 1578] @ lit ''.'')),
       (''demoOrder'', Text ([1587, 1601, 1575, 1585, 1588] @ lit '' '' @ [1583, 1575, 1740, 1585, 1705, 1578] @ lit '' '' @
         [183] @ lit '' '' @ [1587, 1578] @ lit '' '' @ [1588, 1575, 1604]))]"

definition mfa_builtFor :: tvalue where
  "mfa_builtFor = Group [
       (''line1'', Text ([1576, 1585, 1575, 1740] @ lit '' '' @
         [1601, 1585, 1608, 1588, 1606, 1583, 1607, 8204, 1607, 1575, 1740, 1740] @ lit '' '' @ [1705, 1607] @
         lit '' '' @ [1578, 1608, 1740] @ lit '' '' @ [1583, 1575, 1740, 1585, 1705, 1578] @ lit '' '' @
         [1605, 1740, 8204, 1576, 1606, 1583, 1606, 1583] @ lit '' ('' @
         [1575, 1740, 1606, 1587, 1578, 1575, 1711, 1585, 1575, 1605, 1548] @ lit '' '' @
         [1578, 1604, 1711, 1585, 1575, 1605] @ lit '' '' @ [1608] @ lit '' '' @
         [1608, 1575, 1578, 1587, 1575, 1662] @ lit '').'')),
       (''line2'', Text (lit ''USDT '' @ [1585, 1608, 1740] @ lit '' TRON '' @ [1608] @ lit '' BNB Smart Chain.''))]"

definition mfa_marquee :: tvalue where
  "mfa_marquee = Group [
       (''instagram'', Text [1575, 1740, 1606, 1587, 1578, 1575, 1711, 1585, 1575, 1605]),
       (''telegram'', Text [1578, 1604, 1711, 1585, 1575, 1605]),
       (''whatsapp'', Text [1608, 1575, 1578, 1587, 1575, 1662]),
       (''tron'', Text (lit ''TRON'')),
       (''bsc'', Text (lit ''BNB Chain''))]"

definition mfa_flowDiagram :: tvalue where
  "mfa_flowDiagram = Group [
       (''title'', Text ([1605, 1587, 1740, 1585] @ lit '' '' @ [1578, 1571, 1740, 1740, 1583] @ lit '' '' @
         [1662, 1585, 1583, 1575, 1582, 1578])),
       (''caption'', Text ([1575, 1586] @ lit '' '' @ [1604, 1740, 1606, 1705] @ lit '' '' @ [1578, 1575] @ lit '' '' @
         [1575, 1593, 1604, 1575, 1606] @ lit '' '' @ [8212] @ lit '' '' @ [1607, 1605, 1575, 1606] @
         lit '' '' @ [1605, 1606, 1591, 1602] @ lit '' '' @ [1587, 1585, 1608, 1585] @ lit '' '' @
         [1583, 1585] @ lit '' '' @ [1605, 1581, 1589, 1608, 1604] @ lit ''.'')),
       (''labels'', Group [
         (''dm'', Text ([1587, 1601, 1575, 1585, 1588] @ lit '' '' @ [1583, 1575, 1740, 1585, 1705, 1578])),
         (''link'', Text ([1604, 1740, 1606, 1705] @ lit '' '' @ [1662, 1608, 1604, 1740])),
         (''pay'', Text ([1662, 1585, 1583, 1575, 1582, 1578] @ lit '' USDT'')),
         (''verify'', Text ([1578, 1571, 1740, 1740, 1583] @ lit '' '' @ [1586, 1606, 1580, 1740, 1585, 1607])),
         (''notify'', Text ([1582, 1576, 1585] @ lit '' '' @ [1576, 1607] @ lit '' '' @ [1578, 1608])),
         (''openDiagram'', Text ([1606, 1602, 1588, 1607, 1620] @ lit '' '' @ [1705, 1575, 1605, 1604] @ lit '' '' @
           [1605, 1593, 1605, 1575, 1585, 1740] @ lit '' (ToDiagram)''))])]"

definition mfa_problem :: tvalue where
  "mfa_problem = Group [
       (''title'', Text ([1585, 1608, 1740] @ lit '' '' @ [1662, 1608, 1604, 1740] @ lit '' '' @ [1705, 1607] @ lit '' '' @
         [1581, 1602, 1588] @ lit '' '' @ [1585, 1575] @ lit '' '' @ [1583, 1575, 1585, 1740, 1548] @
         lit '' '' @ [1608, 1602, 1578, 1578] @ lit '' '' @ [1585, 1575] @ lit '' '' @ [1575, 1586] @
         lit '' '' @ [1583, 1587, 1578] @ lit '' '' @ [1605, 1740, 8204, 1583, 1607, 1740] @ lit ''.'')),
       (''p1'', Text ([1575, 1587, 1705, 1585, 1740, 1606, 8204, 1588, 1575, 1578] @ lit '' '' @ [1608] @ lit '' '' @
         [1662, 1740, 1575, 1605] @ lit '' '' @ [171, 1585, 1587, 1740, 1583, 1567, 187] @ lit '' '' @
         [1585, 1608, 1586, 1578] @ lit '' '' @ [1585, 1575] @ lit '' '' @
         [1605, 1740, 8204, 1711, 1740, 1585, 1583] @ lit ''.'')),
       (''p2'', Text ([1582, 1585, 1740, 1583, 1575, 1585] @ lit '' '' @ [1605, 1576, 1604, 1594, 1548] @ lit '' '' @
         [1588, 1576, 1705, 1607] @ lit '' '' @ [1740, 1575] @ lit '' '' @ [1570, 1583, 1585, 1587] @
         lit '' '' @ [1585, 1575] @ lit '' '' @ [1711, 1605] @ lit '' '' @
         [1605, 1740, 8204, 1705, 1606, 1583] @ lit ''.'')),
       (''p3'', Text ([1587, 1601, 1575, 1585, 1588, 8204, 1607, 1575] @ lit '' '' @ [1608] @ lit '' '' @
         [1662, 1585, 1583, 1575, 1582, 1578, 8204, 1607, 1575] @ lit '' '' @ [1607, 1605, 8204, 1582, 1591] @
         lit '' '' @ [1606, 1605, 1740, 8204, 1588, 1608, 1606, 1583] @ lit ''.''))]"

definition mfa_steps :: tvalue where
  "mfa_steps = Group [
       (''title'', Text ([1670, 1591, 1608, 1585] @ lit '' '' @ [1705, 1575, 1585] @ lit '' '' @
         [1605, 1740, 8204, 1705, 1606, 1583])),
       (''s1Title'', Text ([1583, 1585] @ lit '' '' @ [1670, 1606, 1583] @ lit '' '' @ [1579, 1575, 1606, 1740, 1607] @
         lit '' '' @ [1662, 1585, 1583, 1575, 1582, 1578] @ lit '' '' @ [1576, 1587, 1575, 1586] @ lit ''.'')),
       (''s1Body'', Text ([1605, 1576, 1604, 1594] @ lit '' '' @ [1585, 1575] @ lit '' '' @ [1576, 1575] @ lit '' '' @
         [1578, 1608, 1605, 1575, 1606] @ lit '' '' @ [1576, 1711, 1608, 1563] @ lit '' '' @
         [1662, 1608, 1604, 1740] @ lit '' '' @ [1605, 1576, 1604, 1594] @ lit '' '' @
         [1583, 1602, 1740, 1602] @ lit '' USDT '' @ [1585, 1575] @ lit '' '' @ [1583, 1585] @
         lit '' checkout '' @ [1606, 1588, 1575, 1606] @ lit '' '' @ [1605, 1740, 8204, 1583, 1607, 1583] @
         lit ''.'')),
       (''s2Title'', Text ([1604, 1740, 1606, 1705] @ lit '' '' @ [1585, 1575] @ lit '' '' @ [1576, 1601, 1585, 1587, 1578] @
         lit ''.'')),
       (''s2Body'', Text ([1578, 1608, 1740] @ lit '' '' @ [1583, 1575, 1740, 1585, 1705, 1578] @ lit '' paste '' @
         [1705, 1606] @ lit ''.'')),
       (''s3Title'', Text ([1608, 1590, 1593, 1740, 1578] @ lit '' '' @ [1662, 1585, 1583, 1575, 1582, 1578] @ lit '' '' @
         [1585, 1575] @ lit '' '' @ [1583, 1585] @ lit '' '' @ [1575, 1662] @ lit '' '' @
         [1576, 1576, 1740, 1606] @ lit ''.'')),
       (''s3Body'', Text ([1582, 1585, 1740, 1583, 1575, 1585] @ lit '' '' @ [1662, 1585, 1583, 1575, 1582, 1578] @ lit '' '' @
         [1605, 1740, 8204, 1705, 1606, 1583, 1563] @ lit '' '' @ [1662, 1608, 1604, 1740] @ lit '' '' @
         [1585, 1608, 1740] @ lit '' '' @ [1586, 1606, 1580, 1740, 1585, 1607] @ lit '' '' @ [1670, 1705] @
         lit '' '' @ [1605, 1740, 8204, 1705, 1606, 1583] @ lit '' '' @ [1608] @ lit '' '' @
         [1587, 1601, 1575, 1585, 1588] @ lit '' '' @ [1585, 1575] @ lit '' '' @
         [1576, 1607, 8204, 1585, 1608, 1586] @ lit '' '' @ [1605, 1740, 8204, 1705, 1606, 1583] @ lit ''.''))]"

definition mfa_draftReminders :: tvalue where
  "mfa_draftReminders = Group [
       (''status'', Text [1601, 1593, 1575, 1604]),
       (''title'', Text ([1662, 1740, 1711, 1740, 1585, 1740] @ lit '' '' @ [1576, 1575] @ lit '' '' @
         [1662, 1740, 1588, 8204, 1606, 1608, 1740, 1587] @ lit '' '' @ [1608] @ lit '' '' @
         [1605, 1581, 1575, 1601, 1592] @ lit ''.'')),
       (''sub'', Text ([1575, 1740, 1580, 1606, 1578] @ lit '' '' @ [1605, 1740, 8204, 1578, 1608, 1575, 1606, 1583] @
         lit '' '' @ [1575, 1586] @ lit '' '' @ [1608, 1590, 1593, 1740, 1578] @ lit '' '' @
         [1578, 1571, 1740, 1740, 1583, 8204, 1588, 1583, 1607, 1620] @ lit '' '' @
         [1587, 1601, 1575, 1585, 1588] @ lit '' '' @ [1662, 1740, 1575, 1605] @ lit '' '' @
         [1662, 1740, 1588, 1606, 1607, 1575, 1583] @ lit '' '' @ [1583, 1607, 1583] @ lit ''. '' @
         [1578, 1608] @ lit '' '' @ [1583, 1585] @ lit '' '' @ [1575, 1662] @ lit '' '' @
         [1576, 1585, 1585, 1587, 1740] @ lit '' '' @ [1605, 1740, 8204, 1705, 1606, 1740, 1548] @ lit '' '' @
         [1705, 1583] @ lit '' '' @ [1580, 1583, 1575, 1711, 1575, 1606, 1607] @ lit '' '' @ [1585, 1575] @
         lit '' '' @ [1608, 1575, 1585, 1583] @ lit '' '' @ [1605, 1740, 8204, 1705, 1606, 1740] @ lit '' '' @
         [1608] @ lit '' '' @ [1578, 1571, 1740, 1740, 1583] @ lit '' '' @
         [1605, 1740, 8204, 1705, 1606, 1740] @ lit ''. '' @ [1578, 1575] @ lit '' '' @ [1570, 1606] @
         lit '' '' @ [1604, 1581, 1592, 1607] @ lit '' '' @ [1670, 1740, 1586, 1740] @ lit '' '' @
         [1575, 1585, 1587, 1575, 1604] @ lit '' '' @ [1606, 1605, 1740, 8204, 1588, 1608, 1583] @ lit ''.'')),
       (''steps'', Items [
         Text ([1740, 1705, 1662, 1575, 1585, 1670, 1607, 8204, 1587, 1575, 1586, 1740] @ lit '' '' @
           [1575, 1586] @ lit '' '' @ [1608, 1590, 1593, 1740, 1578] @ lit '' '' @
           [1662, 1585, 1583, 1575, 1582, 1578] @ lit '' '' @ [1662, 1740, 1575, 1605] @ lit '' '' @
           [1662, 1740, 1588, 1606, 1607, 1575, 1583] @ lit '' '' @ [1605, 1740, 8204, 1583, 1607, 1583] @
           lit ''.''),
         Text ([1662, 1608, 1604, 1740] @ lit '' '' @ [1575, 1583, 1593, 1575, 1740] @ lit '' '' @
           [1606, 1575, 1583, 1585, 1587, 1578] @ lit '' '' @ [171, 1662, 1585, 1583, 1575, 1582, 1578] @
           lit '' '' @ [1588, 1583, 187] @ lit '' '' @ [1585, 1575] @ lit '' '' @
           [1605, 1587, 1583, 1608, 1583] @ lit '' '' @ [1605, 1740, 8204, 1705, 1606, 1583] @ lit ''.''),
         Text ([1578, 1608] @ lit '' '' @ [1583, 1585] @ lit '' '' @ [1589, 1601, 1581, 1607, 1620] @ lit '' '' @
           [1587, 1601, 1575, 1585, 1588] @ lit '' '' @ [1740, 1575] @ lit '' '' @
           [1589, 1601, 1581, 1607, 1620] @ lit '' '' @ [1578, 1571, 1740, 1740, 1583] @ lit '' gateway '' @
           [1578, 1571, 1740, 1740, 1583] @ lit '' '' @ [1605, 1740, 8204, 1705, 1606, 1740] @ lit ''.'')]),
       (''safety'', Text ([1578, 1571, 1740, 1740, 1583] @ lit '' '' @ [1662, 1585, 1583, 1575, 1582, 1578] @ lit '' '' @
         [1583, 1585] @ lit '' Go '' @ [1605, 1740, 8204, 1605, 1575, 1606, 1583] @ lit ''. gateway '' @
         [1606, 1605, 1740, 8204, 1578, 1608, 1575, 1606, 1583] @ lit '' Paid '' @ [1576, 1586, 1606, 1583] @
         lit '' '' @ [1740, 1575] @ lit '' '' @ [1576, 1583, 1608, 1606] @ lit '' '' @
         [1578, 1571, 1740, 1740, 1583] @ lit '' '' @ [1578, 1608] @ lit '' '' @ [1576, 1607] @ lit '' '' @
         [1582, 1585, 1740, 1583, 1575, 1585] @ lit '' '' @ [1662, 1740, 1575, 1605] @ lit '' '' @
         [1576, 1583, 1607, 1583] @ lit ''.'')),
       (''cta'', Text [1579, 1576, 1578, 8204, 1606, 1575, 1605]),
       (''more'', Text ([1605, 1587, 1578, 1606, 1583, 1575, 1578] @ lit '' '' @ [1575, 1740, 1580, 1606, 1578]))]"

definition mfa_benefits :: tvalue where
  "mfa_benefits = Group [
       (''title'', Text ([1670, 1607] @ lit '' '' @ [1670, 1740, 1586, 1740] @ lit '' '' @
         [1605, 1740, 8204, 1711, 1740, 1585, 1740])),
       (''b1Title'', Text ([1608, 1590, 1593, 1740, 1578] @ lit '' '' @ [1662, 1585, 1583, 1575, 1582, 1578] @ lit '' '' @
         [1602, 1575, 1576, 1604] @ lit '' '' @ [1575, 1593, 1578, 1605, 1575, 1583])),
       (''b1Body'', Text ([1601, 1602, 1591] @ lit '' '' @ [1576, 1593, 1583] @ lit '' '' @ [1575, 1586] @ lit '' '' @
         [1578, 1571, 1740, 1740, 1583] @ lit '' '' @ [1605, 1576, 1604, 1594] @ lit '' '' @
         [1583, 1602, 1740, 1602] @ lit '' '' @ [1585, 1608, 1740] @ lit '' '' @
         [1586, 1606, 1580, 1740, 1585, 1607] @ lit '' '' @ [171, 1662, 1585, 1583, 1575, 1582, 1578] @
         lit '' '' @ [1588, 1583, 187] @ lit '' '' @ [1605, 1740, 8204, 1582, 1608, 1585, 1583] @ lit ''.'')),
       (''b2Title'', Text ([1705, 1740, 1601] @ lit '' '' @ [1662, 1608, 1604] @ lit '' '' @ [1578, 1608, 1548] @ lit '' '' @
         [1662, 1608, 1604] @ lit '' '' @ [1578, 1608])),
       (''b2Body'', Text ([1662, 1608, 1604] @ lit '' '' @ [1605, 1587, 1578, 1602, 1740, 1605] @ lit '' '' @ [1576, 1607] @
         lit '' '' @ [1578, 1608] @ lit '' '' @ [1605, 1740, 8204, 1585, 1608, 1583] @ lit ''. '' @
         [1662, 1608, 1604, 1740] @ lit '' '' @ [1606, 1711, 1607] @ lit '' '' @
         [1606, 1605, 1740, 8204, 1583, 1575, 1585, 1583] @ lit ''.'')),
       (''b3Title'', Text ([1580, 1586, 1574, 1740, 1575, 1578] @ lit '' '' @ [1587, 1601, 1575, 1585, 1588] @ lit '' '' @
         [1740, 1705, 8204, 1580, 1575])),
       (''b3Body'', Text ([1606, 1575, 1605, 1548] @ lit '' '' @ [1605, 1608, 1576, 1575, 1740, 1604] @ lit '' '' @ [1608] @
         lit '' '' @ [1570, 1583, 1585, 1587] @ lit '' '' @ [1585, 1575] @ lit '' '' @ [1583, 1585] @
         lit '' checkout '' @ [1576, 1711, 1740, 1585] @ lit ''.'')),
       (''b4Title'', Text ([1608, 1602, 1578, 1740] @ lit '' '' @ [1585, 1587, 1740, 1583, 1548] @ lit '' '' @
         [1582, 1576, 1585] @ lit '' '' @ [1605, 1740, 8204, 1711, 1740, 1585, 1740])),
       (''b4Body'', Text ([1608, 1590, 1593, 1740, 1578] @ lit '' '' @ [1583, 1585] @ lit '' '' @ [1575, 1662, 1548] @
         lit '' '' @ [1576, 1607, 8204, 1593, 1604, 1575, 1608, 1607] @ lit '' '' @
         [1578, 1604, 1711, 1585, 1575, 1605] @ lit '' '' @ [1608] @ lit '' '' @
         [1575, 1740, 1605, 1740, 1604] @ lit ''.'')),
       (''b5Title'', Text ([1602, 1740, 1605, 1578] @ lit '' '' @ [1578, 1608, 1605, 1575, 1606, 1548] @ lit '' '' @
         [1578, 1587, 1608, 1740, 1607] @ lit '' USDT'')),
       (''b5Body'', Text ([1582, 1585, 1740, 1583, 1575, 1585] @ lit '' '' @ [1578, 1608, 1605, 1575, 1606] @ lit '' '' @
         [1585, 1575] @ lit '' '' @ [1605, 1740, 8204, 1576, 1740, 1606, 1583, 1563] @ lit '' '' @
         [1605, 1576, 1604, 1594] @ lit '' '' @ [1583, 1602, 1740, 1602] @ lit '' USDT '' @ [1585, 1575] @
         lit '' '' @ [1585, 1608, 1740] @ lit '' TRON '' @ [1740, 1575] @ lit '' BNB Chain '' @
         [1605, 1740, 8204, 1601, 1585, 1587, 1578, 1583] @ lit ''.'')),
       (''b6Title'', Text ([1607, 1605, 1575, 1606, 8204, 1580, 1575] @ lit '' '' @ [1705, 1607] @ lit '' '' @
         [1605, 1740, 8204, 1601, 1585, 1608, 1588, 1740])),
       (''b6Body'', Text ([1582, 1585, 1740, 1583, 1575, 1585] @ lit '' '' @ [1576, 1583, 1608, 1606] @ lit '' '' @
         [1606, 1589, 1576, 1548] @ lit '' '' @ [1575, 1586] @ lit '' '' @
         [1575, 1740, 1606, 1587, 1578, 1575, 1711, 1585, 1575, 1605] @ lit '' '' @ [1608] @ lit '' '' @
         [1578, 1604, 1711, 1585, 1575, 1605] @ lit '' '' @ [1662, 1585, 1583, 1575, 1582, 1578] @ lit '' '' @
         [1605, 1740, 8204, 1705, 1606, 1583] @ lit ''.''))]"

definition mfa_nonCustodial :: tvalue where
  "mfa_nonCustodial = Group [
       (''title'', Text ([1594, 1740, 1585, 1575, 1605, 1575, 1606, 1740] @ lit '' '' @ [1575, 1586] @ lit '' '' @
         [1575, 1608, 1604] @ lit '' '' @ [1591, 1585, 1575, 1581, 1740] @ lit '' '' @ [1588, 1583, 1607] @
         lit ''.'')),
       (''body'', Text ([1607, 1585, 1711, 1586] @ lit '' seed phrase '' @ [1740, 1575] @ lit '' '' @
         [1705, 1604, 1740, 1583] @ lit '' '' @ [1582, 1589, 1608, 1589, 1740] @ lit '' '' @
         [1606, 1605, 1740, 8204, 1582, 1608, 1575, 1607, 1740, 1605] @ lit ''. '' @
         [171, 1662, 1585, 1583, 1575, 1582, 1578] @ lit '' '' @ [1588, 1583, 187] @ lit '' '' @
         [1601, 1602, 1591] @ lit '' '' @ [1576, 1575] @ lit '' '' @ [1578, 1571, 1740, 1740, 1583] @
         lit '' '' @ [1587, 1585, 1608, 1585] @ lit '' '' @ [1575, 1587, 1578] @ lit ''. '' @
         [1662, 1585, 1583, 1575, 1582, 1578] @ lit '' '' @ [1575, 1588, 1578, 1576, 1575, 1607] @ lit '' '' @
         [1740, 1575] @ lit '' '' @ [1606, 1575, 1602, 1589] @ lit '' '' @
         [1605, 1740, 8204, 1585, 1608, 1583] @ lit '' '' @ [1576, 1585, 1575, 1740] @ lit '' '' @
         [1576, 1585, 1585, 1587, 1740] @ lit ''. '' @ [1607, 1585, 1711, 1586] @ lit '' '' @
         [1576, 1740, 8204, 1589, 1583, 1575] @ lit '' '' @ [1602, 1576, 1608, 1604] @ lit '' '' @
         [1606, 1605, 1740, 8204, 1588, 1608, 1583] @ lit ''.'')),
       (''link'', Text ([1606, 1711, 1575, 1607] @ lit '' '' @ [1605, 1575] @ lit '' '' @ [1576, 1607] @ lit '' '' @
         [1575, 1605, 1606, 1740, 1578]))]"

definition mfa_earlyAccess :: tvalue where
  "mfa_earlyAccess = Group [
       (''title'', Text ([1583, 1587, 1578, 1585, 1587, 1740] @ lit '' '' @ [1586, 1608, 1583, 1607, 1606, 1711, 1575, 1605] @
         lit ''.'')),
       (''body'', Text ([1662, 1608, 1604, 1740] @ lit '' '' @ [1578, 1575, 1586, 1607] @ lit '' '' @ [1575, 1587, 1578] @
         lit ''. '' @ [1581, 1587, 1575, 1576] @ lit '' '' @ [1576, 1587, 1575, 1586] @ lit '' '' @ [1608] @
         lit '' '' @ [1576, 1575] @ lit '' '' @ [1740, 1705] @ lit '' '' @ [1587, 1601, 1575, 1585, 1588] @
         lit '' '' @ [1608, 1575, 1602, 1593, 1740] @ lit '' '' @ [1575, 1605, 1578, 1581, 1575, 1606] @
         lit '' '' @ [1705, 1606] @ lit ''.'')),
       (''cta'', Text ([1587, 1575, 1582, 1578] @ lit '' '' @ [1581, 1587, 1575, 1576])),
       (''questions'', Text ([1587, 1572, 1575, 1604] @ lit '' '' @ [1583, 1575, 1585, 1740, 1567]))]"

definition mfa_finalCta :: tvalue where
  "mfa_finalCta = Group [
       (''title'', Text ([1585, 1608, 1740] @ lit '' '' @ [1740, 1705] @ lit '' '' @ [1587, 1601, 1575, 1585, 1588] @
         lit '' '' @ [1608, 1575, 1602, 1593, 1740] @ lit '' '' @ [1575, 1605, 1578, 1581, 1575, 1606] @
         lit '' '' @ [1705, 1606] @ lit ''.'')),
       (''button'', Text ([1575, 1608, 1604, 1740, 1606] @ lit '' '' @ [1604, 1740, 1606, 1705] @ lit '' '' @
         [1662, 1585, 1583, 1575, 1582, 1578] @ lit '' '' @ [1585, 1575] @ lit '' '' @
         [1576, 1587, 1575, 1586])),
       (''sub'', Text ([1576, 1583, 1608, 1606] @ lit '' '' @ [1705, 1575, 1585, 1578] @ lit '' '' @
         [1576, 1575, 1606, 1705, 1740] @ lit ''. '' @ [1576, 1583, 1608, 1606] @ lit '' '' @
         [1606, 1711, 1607, 8204, 1583, 1575, 1585, 1740] @ lit '' '' @ [1662, 1608, 1604] @ lit '' '' @
         [1578, 1608, 1587, 1591] @ lit '' '' @ [1662, 1608, 1604, 1740] @ lit ''.''))]"

definition mfa_footer :: tvalue where
  "mfa_footer = Group [
       (''product'', Text [1605, 1581, 1589, 1608, 1604]),
       (''company'', Text [1588, 1585, 1705, 1578]),
       (''legal'', Text [1602, 1575, 1606, 1608, 1606, 1740]),
       (''connect'', Text [1575, 1585, 1578, 1576, 1575, 1591]),
       (''claude'', Text (lit ''Claude '' @ [1583, 1585] @ lit '' '' @ [1662, 1608, 1604, 1740])),
       (''howItWorks'', Text ([1670, 1591, 1608, 1585] @ lit '' '' @ [1705, 1575, 1585] @ lit '' '' @
         [1605, 1740, 8204, 1705, 1606, 1583])),
       (''security'', Text [1575, 1605, 1606, 1740, 1578]),
       (''about'', Text [1583, 1585, 1576, 1575, 1585, 1607]),
       (''contact'', Text [1578, 1605, 1575, 1587]),
       (''privacy'', Text ([1581, 1585, 1740, 1605] @ lit '' '' @ [1582, 1589, 1608, 1589, 1740])),
       (''terms'', Text [1588, 1585, 1575, 1740, 1591]),
       (''builtIn'', Text ([1587, 1575, 1582, 1578, 1607, 8204, 1588, 1583, 1607] @ lit '' '' @ [1583, 1585] @ lit '' '' @
         [1570, 1578, 1606, 1548] @ lit '' '' @ [1740, 1608, 1606, 1575, 1606] @ lit ''.'')),
       (''rights'', Text ([1578, 1605, 1575, 1605, 1740] @ lit '' '' @ [1581, 1602, 1608, 1602] @ lit '' '' @
         [1605, 1581, 1601, 1608, 1592] @ lit '' '' @ [1575, 1587, 1578] @ lit ''.'')),
       (''legalDraft'', Text ([1581, 1585, 1740, 1605] @ lit '' '' @ [1582, 1589, 1608, 1589, 1740] @ lit '' '' @ [1608] @
         lit '' '' @ [1588, 1585, 1575, 1740, 1591] @ lit '' '' @ [1607, 1606, 1608, 1586] @ lit '' '' @
         [1662, 1740, 1588, 8204, 1606, 1608, 1740, 1587, 8204, 1575, 1606, 1583] @ lit '' '' @ [1608] @
         lit '' '' @ [1576, 1585, 1585, 1587, 1740] @ lit '' '' @ [1581, 1602, 1608, 1602, 1740] @ lit '' '' @
         [1606, 1588, 1583, 1607, 8204, 1575, 1606, 1583] @ lit ''.''))]"

definition mfa_imprint :: tvalue where
  "mfa_imprint = Group [
       (''legalName'', Text ([1606, 1575, 1605] @ lit '' '' @ [1581, 1602, 1608, 1602, 1740])),
       (''address'', Text ([1570, 1583, 1585, 1587] @ lit '' '' @ [1579, 1576, 1578, 8204, 1588, 1583, 1607])),
       (''contact'', Text [1578, 1605, 1575, 1587]),
       (''gemi'', Text ([1588, 1605, 1575, 1585, 1607] @ lit '' GEMI'')),
       (''vat'', Text ([1588, 1605, 1575, 1585, 1607] @ lit '' VAT'')),
       (''founded'', Text [1578, 1571, 1587, 1740, 1587])]"

definition mfa_claude :: tvalue where
  "mfa_claude = Group [
       (''metaTitle'', Text ([1587, 1575, 1582, 1578, 1606] @ lit '' '' @ [1576, 1575] @ lit '' Claude'')),
       (''metaDescription'', Text ([1662, 1608, 1604, 1740] @ lit '' Claude '' @ [1585, 1575] @ lit '' '' @ [1583, 1585] @ lit '' '' @
         [1605, 1607, 1606, 1583, 1587, 1740, 1548] @ lit '' '' @ [1587, 1606, 1583] @ lit '' '' @ [1608] @
         lit '' '' @ [1575, 1576, 1586, 1575, 1585] @ lit '' '' @ [1583, 1575, 1582, 1604, 1740] @ lit '' '' @
         [1576, 1607, 8204, 1705, 1575, 1585] @ lit '' '' @ [1605, 1740, 8204, 1576, 1585, 1583] @
         lit ''. '' @ [1578, 1571, 1740, 1740, 1583] @ lit '' '' @ [1662, 1585, 1583, 1575, 1582, 1578] @
         lit '' '' @ [1705, 1583] @ lit '' '' @ [1602, 1591, 1593, 1740] @ lit '' Go '' @
         [1605, 1740, 8204, 1605, 1575, 1606, 1583] @ lit ''.'')),
       (''title'', Text ([1587, 1575, 1582, 1578, 1606] @ lit '' '' @ [1576, 1575] @ lit '' Claude'')),
       (''lead'', Text ([1662, 1608, 1604, 1740] @ lit '' '' @ [1740, 1705] @ lit '' '' @ [1576, 1587, 1578, 1585] @
         lit '' '' @ [1578, 1571, 1740, 1740, 1583] @ lit '' '' @ [1662, 1585, 1583, 1575, 1582, 1578] @
         lit '' '' @ [1594, 1740, 1585, 1575, 1605, 1575, 1606, 1740] @ lit '' '' @ [1576, 1585, 1575, 1740] @
         lit '' '' @ [1705, 1587, 1576, 8204, 1608, 1705, 1575, 1585, 1607, 1575, 1740] @ lit '' '' @
         [1582, 1583, 1605, 1575, 1578, 1740] @ lit '' '' @ [1575, 1587, 1578] @ lit ''. Claude '' @
         [1585, 1575] @ lit '' '' @ [1583, 1585] @ lit '' '' @ [1605, 1607, 1606, 1583, 1587, 1740, 1548] @
         lit '' '' @ [1587, 1606, 1583] @ lit '' '' @ [1608] @ lit '' '' @ [1575, 1576, 1586, 1575, 1585] @
         lit '' '' @ [1583, 1575, 1582, 1604, 1740] @ lit '' '' @ [1576, 1607, 8204, 1705, 1575, 1585] @
         lit '' '' @ [1605, 1740, 8204, 1576, 1585, 1740, 1605, 1548] @ lit '' '' @ [1608] @ lit '' '' @
         [1740, 1705] @ lit '' '' @ [1604, 1575, 1740, 1607, 1620] @ lit '' '' @
         [1662, 1740, 1588, 8204, 1606, 1608, 1740, 1587] @ lit '' '' @ [1585, 1608, 1740] @ lit '' '' @
         [1607, 1587, 1578, 1607, 1620] @ lit '' '' @ [1602, 1591, 1593, 1740] @ lit '' '' @
         [1662, 1585, 1583, 1575, 1582, 1578] @ lit '' '' @ [1605, 1740, 8204, 1587, 1575, 1586, 1740, 1605] @
         lit ''.'')),
       (''todayTitle'', Text ([1575, 1605, 1585, 1608, 1586] @ lit '' Claude '' @ [1585, 1575] @ lit '' '' @
         [1670, 1591, 1608, 1585] @ lit '' '' @ [1576, 1607, 8204, 1705, 1575, 1585] @ lit '' '' @
         [1605, 1740, 8204, 1576, 1585, 1740, 1605])),
       (''engineeringTitle'', Text ([1605, 1607, 1606, 1583, 1587, 1740] @ lit '' '' @ [1608] @ lit '' '' @
         [1576, 1575, 1586, 1576, 1740, 1606, 1740] @ lit '' '' @ [1705, 1583])),
       (''engineeringBody'', Text (lit ''Claude '' @ [1583, 1585] @ lit '' '' @
         [1662, 1740, 1575, 1583, 1607, 8204, 1587, 1575, 1586, 1740, 1548] @ lit '' '' @
         [1587, 1575, 1582, 1578] @ lit '' '' @ [1578, 1587, 1578] @ lit '' '' @ [1608] @ lit '' '' @
         [1576, 1575, 1586, 1576, 1740, 1606, 1740] @ lit '' '' @
         [1587, 1585, 1608, 1740, 1587, 8204, 1607, 1575, 1740] @ lit '' Go '' @ [1608] @ lit '' '' @
         [1608, 1576] @ lit '' TypeScript '' @ [1705, 1605, 1705] @ lit '' '' @
         [1605, 1740, 8204, 1705, 1606, 1583] @ lit ''.'')),
       (''docsTitle'', Text ([1587, 1606, 1583] @ lit '' '' @ [1608] @ lit '' '' @ [1587, 1740, 1575, 1587, 1578])),
       (''docsBody'', Text ([1587, 1575, 1740, 1578] @ lit '' '' @ [1593, 1605, 1608, 1605, 1740, 1548] @ lit '' '' @
         [1585, 1575, 1606, 8204, 1576, 1608, 1705, 8204, 1607, 1575, 1740] @ lit '' '' @
         [1583, 1575, 1582, 1604, 1740] @ lit '' '' @ [1608] @ lit '' '' @
         [1662, 1740, 1588, 8204, 1606, 1608, 1740, 1587] @ lit '' '' @ [1587, 1740, 1575, 1587, 1578] @
         lit '' '' @ [1576, 1575] @ lit '' Claude '' @ [1606, 1608, 1588, 1578, 1607] @ lit '' '' @ [1608] @
         lit '' '' @ [1576, 1575, 1586, 1576, 1740, 1606, 1740] @ lit '' '' @
         [1605, 1740, 8204, 1588, 1608, 1606, 1583] @ lit ''. '' @
         [1589, 1601, 1581, 1607, 8204, 1607, 1575, 1740] @ lit '' '' @ [1581, 1585, 1740, 1605] @ lit '' '' @
         [1582, 1589, 1608, 1589, 1740, 1548] @ lit '' '' @ [1588, 1585, 1575, 1740, 1591] @ lit '' '' @
         [1608] @ lit '' '' @ [1575, 1605, 1606, 1740, 1578] @ lit '' '' @ [1576, 1575] @ lit '' Claude '' @
         [1662, 1740, 1588, 8204, 1606, 1608, 1740, 1587] @ lit '' '' @
         [1588, 1583, 1607, 8204, 1575, 1606, 1583] @ lit ''. '' @ [1608, 1705, 1740, 1604] @ lit '' '' @
         [1607, 1606, 1608, 1586] @ lit '' '' @ [1570, 1606, 8204, 1607, 1575] @ lit '' '' @ [1585, 1575] @
         lit '' '' @ [1576, 1585, 1585, 1587, 1740] @ lit '' '' @ [1606, 1705, 1585, 1583, 1607] @ lit ''.'')),
       (''toolingTitle'', Text ([1575, 1576, 1586, 1575, 1585] @ lit '' '' @ [1583, 1575, 1582, 1604, 1740])),
       (''toolingBody'', Text (lit ''Claude '' @ [1601, 1593, 1575, 1604, 1740, 1578] @ lit '' '' @
         [1662, 1585, 1583, 1575, 1582, 1578] @ lit '' '' @ [1585, 1575] @ lit '' '' @
         [1582, 1604, 1575, 1589, 1607] @ lit '' '' @ [1605, 1740, 8204, 1705, 1606, 1583] @ lit '' '' @
         [1608] @ lit '' '' @ [1583, 1585] @ lit '' '' @ [1576, 1585, 1585, 1587, 1740] @ lit '' '' @
         [1578, 1591, 1576, 1740, 1602] @ lit '' '' @ [1593, 1605, 1604, 1740, 1575, 1578] @ lit '' '' @
         [1582, 1608, 1583, 1605, 1575, 1606] @ lit '' '' @ [1705, 1605, 1705] @ lit '' '' @
         [1605, 1740, 8204, 1705, 1606, 1583] @ lit ''.'')),
       (''identityTitle'', Text ([1607, 1608, 1740, 1578] @ lit '' '' @ [1576, 1575, 1585] @ lit '' '' @ [1705, 1575, 1585, 1740])),
       (''identityBody'', Text (lit ''CI '' @ [1605, 1575] @ lit '' '' @ [1576, 1583, 1608, 1606] @ lit '' '' @
         [1705, 1604, 1740, 1583] @ lit '' '' @ [1579, 1575, 1576, 1578] @ lit '' '' @ [1576, 1607] @
         lit '' API '' @ [1705, 1604, 1608, 1583] @ lit '' '' @ [1608, 1589, 1604] @ lit '' '' @
         [1605, 1740, 8204, 1588, 1608, 1583] @ lit '' ('' @ [1662, 1575, 1740, 1740, 1606] @ lit '' '' @
         [1585, 1575] @ lit '' '' @ [1576, 1576, 1740, 1606] @ lit '').'')),
       (''wifTitle'', Text (lit ''Workload Identity Federation'')),
       (''wifLead'', Text ([1662, 1608, 1604, 1740] @ lit '' '' @ [1575, 1586] @ lit '' GitHub Actions '' @ [1576, 1575] @
         lit '' Workload Identity Federation '' @ [1576, 1607] @ lit '' API '' @ [1705, 1604, 1608, 1583] @
         lit '' '' @ [1608, 1589, 1604] @ lit '' '' @ [1605, 1740, 8204, 1588, 1608, 1583] @ lit ''. '' @
         [1705, 1604, 1740, 1583] @ lit '' API '' @ [1579, 1575, 1576, 1578] @ lit '' '' @ [1583, 1585] @
         lit '' CI '' @ [1606, 1583, 1575, 1585, 1740, 1605] @ lit ''.'')),
       (''wifMeans'', Text ([1740, 1593, 1606, 1740] @ lit '' '' @ [1670, 1607] @ lit '':'')),
       (''wifPoints'', Items [
         Text (lit ''GitHub Actions '' @ [1740, 1705] @ lit '' '' @ [1578, 1608, 1705, 1606] @ lit '' '' @
           [1705, 1608, 1578, 1575, 1607, 8204, 1593, 1605, 1585] @ lit '' OIDC '' @
           [1605, 1740, 8204, 1711, 1740, 1585, 1583] @ lit '' '' @ [1705, 1607] @ lit '' '' @ [1576, 1607] @
           lit '' '' @ [1605, 1582, 1586, 1606] @ lit '' '' @ [1608] @ lit '' '' @
           [1588, 1575, 1582, 1607, 1620] @ lit '' '' @ [1605, 1575] @ lit '' '' @
           [1605, 1581, 1583, 1608, 1583] @ lit '' '' @ [1575, 1587, 1578] @ lit ''.''),
         Text ([1575, 1740, 1606] @ lit '' '' @ [1578, 1608, 1705, 1606] @ lit '' '' @ [1576, 1575] @ lit '' '' @
           [1740, 1705] @ lit '' '' @ [1602, 1575, 1606, 1608, 1606] @ lit '' '' @
           [1601, 1583, 1585, 1575, 1587, 1740, 1608, 1606] @ lit '' '' @ [1576, 1575] @ lit '' '' @
           [1578, 1608, 1705, 1606] @ lit '' '' @ [1583, 1587, 1578, 1585, 1587, 1740] @ lit '' '' @
           [1705, 1608, 1578, 1575, 1607, 8204, 1593, 1605, 1585] @ lit '' Anthropic '' @ [1593, 1608, 1590] @
           lit '' '' @ [1605, 1740, 8204, 1588, 1608, 1583] @ lit ''.''),
         Text ([1575, 1593, 1578, 1605, 1575, 1583] @ lit '' '' @ [1576, 1607] @ lit '' '' @
           [1588, 1606, 1575, 1587, 1607, 1620] @ lit '' '' @ [1579, 1575, 1576, 1578] @ lit '' '' @
           [1587, 1575, 1586, 1605, 1575, 1606] @ lit '' '' @ [1711, 1740, 1578, 8204, 1607, 1575, 1576] @
           lit '' '' @ [1576, 1587, 1578, 1607] @ lit '' '' @ [1588, 1583, 1607, 1548] @ lit '' '' @
           [1606, 1607] @ lit '' '' @ [1601, 1602, 1591] @ lit '' '' @ [1606, 1575, 1605] @ lit '' '' @
           [1587, 1575, 1586, 1605, 1575, 1606] @ lit ''. '' @ [1587, 1575, 1586, 1605, 1575, 1606, 1740] @
           lit '' '' @ [1705, 1607] @ lit '' '' @ [1575, 1587, 1605, 1588] @ lit '' '' @ [1593, 1608, 1590] @
           lit '' '' @ [1588, 1608, 1583] @ lit '' '' @ [1740, 1575] @ lit '' '' @
           [1583, 1608, 1576, 1575, 1585, 1607] @ lit '' '' @ [1579, 1576, 1578] @ lit '' '' @
           [1588, 1608, 1583] @ lit '' '' @ [1583, 1587, 1578, 1585, 1587, 1740] @ lit '' '' @ [1585, 1575] @
           lit '' '' @ [1576, 1607] @ lit '' '' @ [1575, 1585, 1579] @ lit '' '' @
           [1606, 1605, 1740, 8204, 1576, 1585, 1583] @ lit ''.''),
         Text ([1578, 1608, 1705, 1606, 8204, 1607, 1575] @ lit '' '' @
           [1740, 1705, 8204, 1576, 1575, 1585, 1605, 1589, 1585, 1601, 8204, 1575, 1606, 1583] @ lit '' '' @
           [1608] @ lit '' '' @ [1592, 1585, 1601] @ lit '' '' @ [1670, 1606, 1583] @ lit '' '' @
           [1583, 1602, 1740, 1602, 1607] @ lit '' '' @ [1605, 1606, 1602, 1590, 1740] @ lit '' '' @
           [1605, 1740, 8204, 1588, 1608, 1606, 1583] @ lit ''.'')]),
       (''wifClose'', Text ([1575, 1740, 1606] @ lit '' '' @ [1575, 1581, 1585, 1575, 1586] @ lit '' '' @
         [1607, 1608, 1740, 1578] @ lit '' '' @ [1576, 1583, 1608, 1606] @ lit '' '' @
         [1705, 1604, 1740, 1583] @ lit '' '' @ [1576, 1604, 1606, 1583, 1605, 1583, 1578] @ lit '' '' @
         [1575, 1587, 1578] @ lit ''. '' @ [1585, 1575, 1586] @ lit '' '' @
         [1591, 1608, 1604, 1575, 1606, 1740, 8204, 1605, 1583, 1578, 1740] @ lit '' '' @
         [1606, 1740, 1587, 1578] @ lit '' '' @ [1705, 1607] @ lit '' '' @ [1604, 1608] @ lit '' '' @
         [1576, 1585, 1608, 1583, 1548] @ lit '' '' @ [1576, 1670, 1585, 1582, 1583, 1548] @ lit '' '' @
         [1740, 1575] @ lit '' '' @ [1575, 1588, 1578, 1576, 1575, 1607, 1740] @ lit '' '' @
         [1705, 1575, 1605, 1740, 1578] @ lit '' '' @ [1588, 1608, 1583] @ lit ''.'')),
       (''notLlmTitle'', Text ([1670, 1607] @ lit '' '' @ [1670, 1740, 1586] @ lit '' '' @ [1585, 1575] @ lit '' '' @
         [1605, 1583, 1604] @ lit '' '' @ [1578, 1589, 1605, 1740, 1605] @ lit '' '' @
         [1606, 1605, 1740, 8204, 1711, 1740, 1585, 1583])),
       (''notLlmBody'', Text ([1578, 1571, 1740, 1740, 1583] @ lit '' '' @ [1662, 1585, 1583, 1575, 1582, 1578] @ lit '' '' @
         [1602, 1591, 1593, 1740] @ lit '' '' @ [1575, 1587, 1578] @ lit ''. '' @
         [1578, 1591, 1576, 1740, 1602, 1548] @ lit '' '' @ [1578, 1594, 1740, 1740, 1585] @ lit '' '' @
         [1608, 1590, 1593, 1740, 1578] @ lit '' '' @ [1608] @ lit '' '' @ [1576, 1585, 1585, 1587, 1740] @
         lit '' '' @ [1578, 1587, 1608, 1740, 1607] @ lit '' '' @ [1583, 1585] @ lit '' Go '' @ [1608] @
         lit '' chain worker '' @ [1575, 1587, 1578] @ lit ''. Claude '' @ [1578, 1589, 1605, 1740, 1605] @
         lit '' '' @ [1606, 1605, 1740, 8204, 1711, 1740, 1585, 1583] @ lit '' '' @
         [1662, 1585, 1583, 1575, 1582, 1578] @ lit '' '' @ [1605, 1593, 1578, 1576, 1585] @ lit '' '' @
         [1575, 1587, 1578] @ lit '' '' @ [1740, 1575] @ lit '' '' @ [1606, 1607, 1548] @ lit '' '' @ [1608] @
         lit '' '' @ [1607, 1585, 1711, 1586] @ lit '' '' @ [1662, 1608, 1604] @ lit '' '' @
         [1580, 1575, 1576, 1607, 8204, 1580, 1575] @ lit '' '' @ [1606, 1605, 1740, 8204, 1705, 1606, 1583] @
         lit ''.'')),
       (''notLlmBody2'', Text ([1575, 1740, 1606] @ lit '' '' @ [1605, 1585, 1586] @ lit '' '' @ [1585, 1575] @ lit '' '' @
         [1593, 1605, 1583, 1575, 1611] @ lit '' '' @ [1585, 1608, 1588, 1606] @ lit '' '' @
         [1711, 1584, 1575, 1588, 1578, 1740, 1605] @ lit ''. '' @ [1581, 1585, 1601] @ lit '' '' @
         [1575, 1586] @ lit '' '' @ [1662, 1608, 1604] @ lit '' '' @ [1575, 1593, 1578, 1605, 1575, 1583] @
         lit '' '' @ [1605, 1740, 8204, 1582, 1608, 1575, 1607, 1583, 1548] @ lit '' '' @ [1608] @ lit '' '' @
         [1575, 1593, 1578, 1605, 1575, 1583] @ lit '' '' @ [1575, 1586] @ lit '' '' @ [1705, 1583, 1740] @
         lit '' '' @ [1605, 1740, 8204, 1570, 1740, 1583] @ lit '' '' @ [1705, 1607] @ lit '' '' @
         [1605, 1740, 8204, 1588, 1608, 1583] @ lit '' '' @ [1582, 1608, 1575, 1606, 1583, 1548] @ lit '' '' @
         [1606, 1607] @ lit '' '' @ [1575, 1586] @ lit '' '' @ [1605, 1583, 1604, 1740] @ lit '' '' @
         [1705, 1607] @ lit '' '' @ [1606, 1605, 1740, 8204, 1588, 1608, 1583] @ lit ''.'')),
       (''buildingTitle'', Text ([1670, 1607] @ lit '' '' @ [1605, 1740, 8204, 1587, 1575, 1586, 1740, 1605])),
       (''remindersTitle'', Text ([1662, 1740, 1588, 8204, 1606, 1608, 1740, 1587] @ lit '' '' @
         [1740, 1575, 1583, 1570, 1608, 1585, 1740])),
       (''remindersBody'', Text ([1662, 1740, 1575, 1605] @ lit '' '' @ [1662, 1740, 1711, 1740, 1585, 1740] @ lit '' '' @
         [1576, 1585, 1575, 1740] @ lit '' '' @ [1662, 1585, 1583, 1575, 1582, 1578, 8204, 1607, 1575, 1740] @
         lit '' '' @ [1576, 1740, 8204, 1580, 1608, 1575, 1576, 1548] @ lit '' '' @
         [1662, 1740, 1588, 8204, 1606, 1608, 1740, 1587, 8204, 1588, 1583, 1607] @ lit '' '' @
         [1578, 1608, 1587, 1591] @ lit '' Claude '' @ [1575, 1586] @ lit '' '' @
         [1740, 1575, 1583, 1583, 1575, 1588, 1578] @ lit '' '' @ [1705, 1575, 1585] @ lit '' '' @ [1608] @
         lit '' '' @ [1608, 1590, 1593, 1740, 1578] @ lit '' '' @ [1662, 1585, 1583, 1575, 1582, 1578] @
         lit ''. '' @ [1601, 1585, 1608, 1588, 1606, 1583, 1607] @ lit '' '' @
         [1605, 1740, 8204, 1582, 1608, 1575, 1606, 1583, 1548] @ lit '' '' @
         [1608, 1740, 1585, 1575, 1740, 1588] @ lit '' '' @ [1605, 1740, 8204, 1705, 1606, 1583] @ lit '' '' @
         [1608] @ lit '' '' @ [1605, 1740, 8204, 1601, 1585, 1587, 1578, 1583] @ lit ''. Claude '' @
         [1605, 1578, 1606] @ lit '' '' @ [1605, 1740, 8204, 1606, 1608, 1740, 1587, 1583, 1563] @ lit '' '' @
         [1601, 1585, 1608, 1588, 1606, 1583, 1607] @ lit '' '' @ [1593, 1605, 1604] @ lit '' '' @
         [1605, 1740, 8204, 1705, 1606, 1583] @ lit ''.'')),
       (''questionsTitle'', Text ([1587, 1572, 1575, 1604] @ lit '' '' @ [1575, 1586] @ lit '' '' @ [1608, 1590, 1593, 1740, 1578] @
         lit '' '' @ [1662, 1585, 1583, 1575, 1582, 1578])),
       (''questionsBody'', Text ([1580, 1608, 1575, 1576] @ lit '' '' @ [1587, 1572, 1575, 1604, 8204, 1607, 1575, 1740, 1740] @
         lit '' '' @ [1605, 1579, 1604] @ lit '' '' @ [171, 1602, 1576, 1604, 1575, 1611] @ lit '' '' @
         [1662, 1585, 1583, 1575, 1582, 1578] @ lit '' '' @ [1705, 1585, 1583, 1605, 1567, 187] @ lit '' '' @
         [1575, 1586] @ lit '' '' @ [1608, 1590, 1593, 1740, 1578] @ lit '' '' @
         [1578, 1571, 1740, 1740, 1583, 1588, 1583, 1607] @ lit ''. Claude '' @ [1586, 1576, 1575, 1606] @
         lit '' '' @ [1585, 1575] @ lit '' '' @ [1605, 1740, 8204, 1606, 1608, 1740, 1587, 1583] @ lit '' '' @
         [1608] @ lit '' '' @ [1607, 1587, 1578, 1607, 1620] @ lit '' '' @ [1602, 1591, 1593, 1740] @
         lit '' '' @ [1581, 1602, 1740, 1602, 1578] @ lit '' '' @ [1585, 1575] @ lit '' '' @
         [1606, 1711, 1607] @ lit '' '' @ [1605, 1740, 8204, 1583, 1575, 1585, 1583] @ lit ''.'')),
       (''evals'', Text ([1576, 1585, 1575, 1740] @ lit '' '' @ [1583, 1602, 1578] @ lit '' '' @
         [1662, 1585, 1583, 1575, 1582, 1578] @ lit '' '' @ [1608] @ lit '' '' @
         [1580, 1604, 1608, 1711, 1740, 1585, 1740] @ lit '' '' @ [1575, 1586] @ lit '' '' @
         [1580, 1608, 1575, 1576] @ lit '' '' @ [1587, 1575, 1582, 1578, 1711, 1740] @ lit '' eval '' @
         [1605, 1740, 8204, 1587, 1575, 1586, 1740, 1605, 1548] @ lit '' '' @ [1670, 1608, 1606] @ lit '' '' @
         [1580, 1608, 1575, 1576] @ lit '' '' @ [1594, 1604, 1591] @ lit '' '' @
         [1583, 1585, 1576, 1575, 1585, 1607, 1620] @ lit '' '' @ [1662, 1608, 1604] @ lit '' '' @
         [1576, 1583, 1578, 1585] @ lit '' '' @ [1575, 1586] @ lit '' '' @
         [1576, 1740, 8204, 1580, 1608, 1575, 1576, 1740] @ lit '' '' @ [1575, 1587, 1578] @ lit ''.'')),
       (''whyTitle'', Text ([1670, 1585, 1575] @ lit '' Claude'')),
       (''whyBody'', Text ([1705, 1575, 1585] @ lit '' '' @ [1662, 1585, 1583, 1575, 1582, 1578] @ lit '' '' @
         [1583, 1602, 1578, 1548] @ lit '' '' @ [1586, 1605, 1740, 1606, 1607, 1620] @ lit '' '' @
         [1576, 1604, 1606, 1583] @ lit '' '' @ [1608] @ lit '' '' @
         [1575, 1587, 1578, 1601, 1575, 1583, 1607, 1620] @ lit '' '' @ [1605, 1591, 1605, 1574, 1606] @
         lit '' '' @ [1575, 1586] @ lit '' '' @ [1575, 1576, 1586, 1575, 1585] @ lit '' '' @
         [1605, 1740, 8204, 1582, 1608, 1575, 1607, 1583] @ lit ''. Claude '' @ [1576, 1607] @ lit '' '' @
         [1575, 1740, 1606] @ lit '' '' @ [1605, 1740, 8204, 1582, 1608, 1585, 1583] @ lit ''. '' @
         [1605, 1608, 1590, 1593] @ lit '' '' @ [1575, 1740, 1605, 1606, 1740, 8204, 1575, 1588] @ lit '' '' @
         [1607, 1605] @ lit '' '' @ [1576, 1575] @ lit '' '' @ [1605, 1575, 1604] @ lit '' '' @ [1605, 1575] @
         lit '' '' @ [1740, 1705, 1740] @ lit '' '' @ [1575, 1587, 1578] @ lit '': '' @
         [1605, 1581, 1583, 1608, 1583, 1548] @ lit '' '' @
         [1602, 1575, 1576, 1604, 8204, 1581, 1587, 1575, 1576, 1585, 1587, 1740, 1548] @ lit '' '' @ [1608] @
         lit '' '' @ [1575, 1606, 1587, 1575, 1606] @ lit '' '' @ [1583, 1585] @ lit '' '' @
         [1581, 1604, 1602, 1607] @ lit '' '' @ [1580, 1575, 1740, 1740] @ lit '' '' @ [1705, 1607] @
         lit '' '' @ [1605, 1607, 1605] @ lit '' '' @ [1575, 1587, 1578] @ lit ''.'')),
       (''builtIn'', Text ([1662, 1608, 1604, 1740] @ lit '' '' @ [1583, 1585] @ lit '' '' @ [1740, 1608, 1606, 1575, 1606] @
         lit '' '' @ [1587, 1575, 1582, 1578, 1607] @ lit '' '' @ [1605, 1740, 8204, 1588, 1608, 1583] @
         lit ''.'')),
       (''program'', Text ([1576, 1585, 1606, 1575, 1605, 1607] @ lit '' Claude Startups ('' @ [1608, 1602, 1578, 1740] @
         lit '' '' @ [1579, 1576, 1578, 8204, 1606, 1575, 1605] @ lit '' '' @ [1576, 1575, 1586] @ lit '' '' @
         [1588, 1583] @ lit '').'')),
       (''suggestLiveTitle'', Text ([1662, 1740, 1588, 1606, 1607, 1575, 1583] @ lit '' '' @ [1662, 1740, 1575, 1605] @ lit '' ('' @
         [1601, 1593, 1575, 1604] @ lit '')'')),
       (''suggestLiveBody'', Text ([1583, 1585] @ lit '' '' @ [1589, 1601, 1581, 1607, 1620] @ lit '' '' @
         [1587, 1601, 1575, 1585, 1588, 1548] @ lit '' '' @ [171, 1662, 1740, 1588, 1606, 1607, 1575, 1583] @
         lit '' '' @ [1662, 1740, 1575, 1605, 187] @ lit '' '' @ [1585, 1575] @ lit '' '' @
         [1576, 1586, 1606] @ lit ''. '' @ [1662, 1608, 1604, 1740] @ lit '' '' @ [1575, 1586] @
         lit '' Claude Messages API '' @ [1585, 1608, 1740] @ lit '' '' @ [1608, 1590, 1593, 1740, 1578] @
         lit '' '' @ [1662, 1585, 1583, 1575, 1582, 1578] @ lit '' '' @
         [1587, 1575, 1582, 1578, 8204, 1740, 1575, 1601, 1578, 1607] @ lit '' '' @
         [1662, 1740, 1588, 8204, 1606, 1608, 1740, 1587] @ lit '' '' @
         [1605, 1740, 8204, 1587, 1575, 1586, 1583, 1548] @ lit '' '' @ [1607, 1605, 1575, 1606] @
         lit '' linter '' @ [171, 1662, 1585, 1583, 1575, 1582, 1578] @ lit '' '' @
         [1606, 1588, 1583, 1607, 187] @ lit '' '' @ [1585, 1575] @ lit '' '' @ [1575, 1580, 1585, 1575] @
         lit '' '' @ [1605, 1740, 8204, 1705, 1606, 1583] @ lit '' '' @ [1608] @ lit '' '' @
         [1662, 1740, 1588, 8204, 1606, 1608, 1740, 1587] @ lit '' '' @ [1585, 1575] @ lit '' '' @
         [1576, 1585, 1575, 1740] @ lit '' '' @ [1578, 1571, 1740, 1740, 1583] @ lit '' '' @ [1578, 1608] @
         lit '' '' @ [1579, 1576, 1578] @ lit '' '' @ [1605, 1740, 8204, 1705, 1606, 1583] @ lit '' '' @
         [8212] @ lit '' '' @ [1576, 1583, 1608, 1606] @ lit '' '' @ [1705, 1583] @ lit '' '' @ [1578, 1608] @
         lit '' '' @ [1670, 1740, 1586, 1740] @ lit '' '' @ [1575, 1585, 1587, 1575, 1604] @ lit '' '' @
         [1606, 1605, 1740, 8204, 1588, 1608, 1583] @ lit ''.'')),
       (''integrationDoc'', Text ([1605, 1587, 1578, 1606, 1583, 1575, 1578] @ lit '' '' @
         [1740, 1705, 1662, 1575, 1585, 1670, 1607, 8204, 1587, 1575, 1586, 1740] @ lit '' agent''))]"

definition mfa_faqLanding :: tvalue where
  "mfa_faqLanding = Group [
       (''title'', Text [1587, 1608, 1575, 1604, 1575, 1578]),
       (''viewAll'', Text ([1607, 1605, 1607, 1620] @ lit '' '' @ [1587, 1608, 1575, 1604, 1575, 1578])),
       (''items'', Items [
         Group [
           (''q'', Text ([1662, 1608, 1604] @ lit '' '' @ [1605, 1606] @ lit '' '' @ [1585, 1575] @ lit '' '' @
             [1606, 1711, 1607] @ lit '' '' @ [1605, 1740, 8204, 1583, 1575, 1585, 1740, 1567])),
           (''a'', Text ([1606, 1607] @ lit ''. '' @ [1582, 1585, 1740, 1583, 1575, 1585] @ lit '' '' @
             [1605, 1587, 1578, 1602, 1740, 1605] @ lit '' '' @ [1576, 1607] @ lit '' '' @
             [1705, 1740, 1601] @ lit '' '' @ [1662, 1608, 1604] @ lit '' '' @ [1578, 1608] @ lit '' '' @
             [1605, 1740, 8204, 1601, 1585, 1587, 1578, 1583] @ lit ''. '' @ [1662, 1608, 1604, 1740] @
             lit '' '' @ [1662, 1608, 1604] @ lit '' '' @ [1601, 1585, 1608, 1588, 1606, 1583, 1607] @
             lit '' '' @ [1740, 1575] @ lit '' '' @ [1705, 1604, 1740, 1583] @ lit '' '' @
             [1582, 1589, 1608, 1589, 1740] @ lit '' '' @ [1606, 1711, 1607] @ lit '' '' @
             [1606, 1605, 1740, 8204, 1583, 1575, 1585, 1583] @ lit ''.''))],
         Group [
           (''q'', Text ([1705, 1583, 1575, 1605] @ lit '' '' @ [1588, 1576, 1705, 1607, 8204, 1607, 1575] @ lit '' '' @
             [1608] @ lit '' '' @ [1583, 1575, 1585, 1575, 1740, 1740, 8204, 1607, 1575, 1567])),
           (''a'', Text (lit ''USDT '' @ [1585, 1608, 1740] @ lit '' TRON (TRC-20) '' @ [1608] @ lit '' USDT '' @
             [1585, 1608, 1740] @ lit '' BNB Smart Chain (BEP-20).''))],
         Group [
           (''q'', Text ([1575, 1711, 1585] @ lit '' '' @ [1582, 1585, 1740, 1583, 1575, 1585] @ lit '' '' @
             [1605, 1576, 1604, 1594] @ lit '' '' @ [1575, 1588, 1578, 1576, 1575, 1607] @ lit '' '' @
             [1576, 1601, 1585, 1587, 1578, 1583, 1567])),
           (''a'', Text ([1576, 1585, 1575, 1740] @ lit '' '' @ [1576, 1585, 1585, 1587, 1740] @ lit '' '' @
             [1593, 1604, 1575, 1605, 1578] @ lit '' '' @ [1605, 1740, 8204, 1582, 1608, 1585, 1583] @
             lit ''. '' @ [1607, 1585, 1711, 1586] @ lit '' '' @ [1582, 1608, 1583, 1705, 1575, 1585] @
             lit '' '' @ [171, 1662, 1585, 1583, 1575, 1582, 1578] @ lit '' '' @ [1588, 1583, 187] @
             lit '' '' @ [1606, 1605, 1740, 8204, 1588, 1608, 1583] @ lit ''.''))],
         Group [
           (''q'', Text ([1576, 1575, 1740, 1583] @ lit '' '' @ [1705, 1585, 1740, 1662, 1578, 1608] @ lit '' '' @
             [1576, 1604, 1583] @ lit '' '' @ [1576, 1575, 1588, 1605, 1567])),
           (''a'', Text ([1740, 1705] @ lit '' '' @ [1570, 1583, 1585, 1587] @ lit '' '' @ [1705, 1740, 1601] @
             lit '' '' @ [1662, 1608, 1604] @ lit '' '' @ [1576, 1585, 1575, 1740] @ lit '' USDT '' @
             [1604, 1575, 1586, 1605] @ lit '' '' @ [1575, 1587, 1578] @ lit ''. '' @
             [1662, 1608, 1604, 1740] @ lit '' '' @ [1605, 1576, 1604, 1594, 1548] @ lit '' QR '' @ [1608] @
             lit '' '' @ [1578, 1571, 1740, 1740, 1583] @ lit '' '' @ [1585, 1575] @ lit '' '' @
             [1580, 1605, 1593] @ lit '' '' @ [1605, 1740, 8204, 1705, 1606, 1583] @ lit ''.''))],
         Group [
           (''q'', Text ([1582, 1585, 1740, 1583, 1575, 1585] @ lit '' '' @ [1576, 1575, 1740, 1583] @ lit '' '' @
             [1581, 1587, 1575, 1576] @ lit '' '' @ [1576, 1587, 1575, 1586, 1583, 1567])),
           (''a'', Text ([1606, 1607] @ lit ''. checkout '' @ [1583, 1585] @ lit '' '' @
             [1605, 1585, 1608, 1585, 1711, 1585] @ lit '' '' @ [1576, 1583, 1608, 1606] @ lit '' '' @
             [1606, 1589, 1576] @ lit '' '' @ [1705, 1575, 1585] @ lit '' '' @
             [1605, 1740, 8204, 1705, 1606, 1583] @ lit ''.''))],
         Group [
           (''q'', Text ([1662, 1588, 1578] @ lit '' '' @ [1662, 1608, 1604, 1740] @ lit '' '' @
             [1705, 1740, 1587, 1578, 1567])),
           (''a'', Text ([1578, 1571, 1587, 1740, 1587, 8204, 1588, 1583, 1607] @ lit '' '' @ [1578, 1608, 1587, 1591] @
             lit '' '' @ [1575, 1605, 1740, 1583] @ lit '' '' @ [1605, 1740, 1585, 1586, 1575, 1740, 1740] @
             lit '' '' @ [1583, 1585] @ lit '' '' @ [1570, 1578, 1606, 1548] @ lit '' '' @
             [1740, 1608, 1606, 1575, 1606] @ lit ''. '' @ [1580, 1586, 1574, 1740, 1575, 1578] @ lit '' '' @
             [1588, 1585, 1705, 1578] @ lit '' '' @ [1583, 1585] @ lit '' '' @
             [1589, 1601, 1581, 1607, 1620] @ lit '' '' @ [1583, 1585, 1576, 1575, 1585, 1607] @ lit ''.''))]])]"

definition mfa_about :: tvalue where
  "mfa_about = Group [
       (''metaTitle'', Text ([1583, 1585, 1576, 1575, 1585, 1607] @ lit '' '' @ [1662, 1608, 1604, 1740])),
       (''metaDescription'', Text ([1662, 1608, 1604, 1740] @ lit '' checkout '' @ [1594, 1740, 1585, 1575, 1605, 1575, 1606, 1740] @
         lit '' USDT '' @ [1576, 1585, 1575, 1740] @ lit '' '' @ [1601, 1585, 1608, 1588] @ lit '' '' @
         [1583, 1585] @ lit '' '' @ [1583, 1575, 1740, 1585, 1705, 1578] @ lit '' '' @ [1575, 1587, 1578] @
         lit ''. '' @ [1575, 1591, 1604, 1575, 1593, 1575, 1578] @ lit '' '' @
         [1588, 1585, 1705, 1578, 1548] @ lit '' '' @
         [1576, 1606, 1740, 1575, 1606, 8204, 1711, 1584, 1575, 1585] @ lit '' '' @ [1608] @ lit '' '' @
         [1606, 1581, 1608, 1607, 1620] @ lit '' '' @ [1705, 1575, 1585] @ lit ''.'')),
       (''hero'', Text ([1662, 1608, 1604, 1740] @ lit '' '' @ [1580, 1608, 1585, 1740] @ lit '' '' @ [1581, 1587] @
         lit '' '' @ [1605, 1740, 8204, 1588, 1608, 1583] @ lit '' '' @ [1705, 1607] @ lit '' '' @
         [1711, 1585, 1601, 1578, 1606] @ lit '' '' @ [1662, 1608, 1604] @ lit '' '' @ [1575, 1586] @
         lit '' '' @ [1583, 1575, 1740, 1585, 1705, 1578] @ lit '' '' @ [1605, 1579, 1604] @ lit '' '' @
         [1601, 1585, 1587, 1578, 1575, 1583, 1606] @ lit '' '' @ [1740, 1705] @ lit '' '' @
         [1662, 1740, 1575, 1605] @ lit '' '' @ [1587, 1575, 1583, 1607] @ lit '' '' @
         [1576, 1575, 1588, 1583] @ lit ''.'')),
       (''whatTitle'', Text ([1670, 1607] @ lit '' '' @ [1705, 1575, 1585] @ lit '' '' @
         [1605, 1740, 8204, 1705, 1606, 1740, 1605])),
       (''whatP1'', Text ([1662, 1608, 1604, 1740] @ lit '' '' @ [1604, 1740, 1606, 1705] @ lit '' '' @
         [1662, 1585, 1583, 1575, 1582, 1578] @ lit '' '' @ [1576, 1585, 1575, 1740] @ lit '' '' @
         [1705, 1587, 1575, 1606, 1740] @ lit '' '' @ [1575, 1587, 1578] @ lit '' '' @ [1705, 1607] @
         lit '' '' @ [1583, 1585] @ lit '' '' @ [1583, 1575, 1740, 1585, 1705, 1578] @ lit '' '' @
         [1605, 1740, 8204, 1601, 1585, 1608, 1588, 1606, 1583] @ lit ''. '' @ [1602, 1740, 1605, 1578] @
         lit '' '' @ [1585, 1575] @ lit '' '' @ [1576, 1607] @ lit '' '' @ [1578, 1608, 1605, 1575, 1606] @
         lit '' '' @ [1605, 1740, 8204, 1711, 1608, 1740, 1740, 1548] @ lit '' pooli.shop/p/'' @
         [1604, 1740, 1606, 1705] @ lit '' '' @ [1585, 1575] @ lit '' '' @
         [1605, 1740, 8204, 1601, 1585, 1587, 1578, 1740] @ lit '' '' @ [1608] @ lit '' '' @
         [1582, 1585, 1740, 1583, 1575, 1585] @ lit '' '' @ [1605, 1576, 1604, 1594] @ lit '' '' @
         [1583, 1602, 1740, 1602] @ lit '' USDT '' @ [1585, 1575] @ lit '' '' @ [1576, 1607] @ lit '' '' @
         [1705, 1740, 1601] @ lit '' '' @ [1662, 1608, 1604] @ lit '' '' @ [1582, 1608, 1583, 1578] @
         lit '' '' @ [1605, 1740, 8204, 1662, 1585, 1583, 1575, 1586, 1583] @ lit ''.'')),
       (''whatP2'', Text ([1662, 1608, 1604, 1740] @ lit '' '' @ [1601, 1602, 1591] @ lit '' '' @ [1576, 1593, 1583] @
         lit '' '' @ [1575, 1586] @ lit '' '' @ [1578, 1571, 1740, 1740, 1583] @ lit '' '' @
         [1585, 1608, 1740] @ lit '' '' @ [1586, 1606, 1580, 1740, 1585, 1607] @ lit '' '' @
         [171, 1662, 1585, 1583, 1575, 1582, 1578] @ lit '' '' @ [1588, 1583] @ lit '' '' @ [10003, 187] @
         lit '' '' @ [1605, 1740, 8204, 1586, 1606, 1583] @ lit ''. '' @ [1605, 1576, 1604, 1594] @
         lit '' '' @ [1740, 1575] @ lit '' '' @ [1588, 1576, 1705, 1607, 1620] @ lit '' '' @
         [1575, 1588, 1578, 1576, 1575, 1607] @ lit '' '' @ [1607, 1585, 1711, 1586] @ lit '' '' @
         [1582, 1608, 1583, 1705, 1575, 1585] @ lit '' '' @ [1578, 1587, 1608, 1740, 1607] @ lit '' '' @
         [1606, 1605, 1740, 8204, 1588, 1608, 1583] @ lit ''. '' @ [1605, 1740, 8204, 1585, 1608, 1583] @
         lit '' '' @ [1576, 1607] @ lit '' '' @ [1608, 1590, 1593, 1740, 1578, 8204, 1607, 1575, 1740] @
         lit '' '' @ [1576, 1585, 1585, 1587, 1740] @ lit '' '' @ [1705, 1607] @ lit '' '' @ [1583, 1585] @
         lit '' '' @ [1575, 1662] @ lit '' '' @ [1605, 1740, 8204, 1576, 1740, 1606, 1740] @ lit ''.'')),
       (''whatP3'', Text ([1582, 1585, 1740, 1583, 1575, 1585] @ lit '' '' @ [1581, 1587, 1575, 1576] @ lit '' '' @
         [1606, 1605, 1740, 8204, 1582, 1608, 1575, 1607, 1583] @ lit ''. '' @
         [1601, 1585, 1608, 1588, 1606, 1583, 1607] @ lit '' '' @ [1576, 1575] @ lit '' '' @
         [1575, 1740, 1605, 1740, 1604] @ lit '' '' @ [1740, 1575] @ lit '' '' @ [1711, 1608, 1711, 1604] @
         lit '' '' @ [1608, 1575, 1585, 1583] @ lit '' '' @ [1605, 1740, 8204, 1588, 1608, 1583, 1548] @
         lit '' '' @ [1575, 1593, 1604, 1575, 1606] @ lit '' '' @ [1578, 1604, 1711, 1585, 1575, 1605] @
         lit '' '' @ [1608] @ lit '' '' @ [1575, 1740, 1605, 1740, 1604] @ lit '' '' @
         [1605, 1740, 8204, 1711, 1740, 1585, 1583] @ lit '' '' @ [1608] @ lit '' '' @ [1575, 1662] @
         lit '' '' @ [1601, 1585, 1608, 1588, 1606, 1583, 1607] @ lit '' '' @ [1585, 1575] @ lit '' '' @
         [1576, 1607, 8204, 1589, 1608, 1585, 1578] @ lit '' PWA '' @ [1601, 1575, 1585, 1587, 1740] @
         lit '' '' @ [1740, 1575] @ lit '' '' @ [1575, 1606, 1711, 1604, 1740, 1587, 1740] @ lit '' '' @
         [1606, 1589, 1576] @ lit '' '' @ [1605, 1740, 8204, 1705, 1606, 1583] @ lit ''.'')),
       (''founderTitle'', Text [1576, 1606, 1740, 1575, 1606, 8204, 1711, 1584, 1575, 1585]),
       (''founderBio'', Text ([1575, 1605, 1740, 1583] @ lit '' '' @ [1605, 1740, 1585, 1586, 1575, 1740, 1740] @ lit '' '' @
         [1605, 1607, 1606, 1583, 1587] @ lit '' '' @ [1575, 1585, 1588, 1583] @ lit '' '' @
         [1601, 1608, 1604, 8204, 1575, 1587, 1578, 1705] @ lit '' '' @ [1608] @ lit '' '' @
         [1601, 1604, 1575, 1578, 1585] @ lit '' '' @ [1576, 1575] @ lit '' '' @ [1607, 1601, 1578] @
         lit '' '' @ [1587, 1575, 1604] @ lit '' '' @ [1578, 1580, 1585, 1576, 1607, 1620] @ lit '' '' @
         [1578, 1581, 1608, 1740, 1604] @ lit '' '' @ [1605, 1581, 1589, 1608, 1604] @ lit '' '' @
         [1575, 1587, 1578, 1548] @ lit '' '' @ [1576, 1575] @ lit '' '' @ [1578, 1605, 1585, 1705, 1586] @
         lit '' '' @ [1585, 1608, 1740] @ lit '' '' @ [1601, 1740, 1606, 8204, 1578, 1705] @ lit '' '' @
         [1608] @ lit '' '' @ [1605, 1608, 1576, 1575, 1740, 1604] @ lit '' Web3. '' @
         [1605, 1581, 1589, 1608, 1604, 1575, 1578] @ lit '' '' @ [1705, 1740, 1601] @ lit '' '' @
         [1662, 1608, 1604] @ lit '' '' @ [1608] @ lit '' '' @ [1662, 1585, 1583, 1575, 1582, 1578] @
         lit '' '' @ [1578, 1581, 1608, 1740, 1604] @ lit '' '' @ [1583, 1575, 1583, 1607] @ lit '' '' @
         [1608] @ lit '' '' @ [1583, 1585] @ lit '' '' @ [1570, 1578, 1606, 1548] @ lit '' '' @
         [1740, 1608, 1606, 1575, 1606] @ lit '' '' @ [1586, 1606, 1583, 1711, 1740] @ lit '' '' @
         [1605, 1740, 8204, 1705, 1606, 1583] @ lit ''.'')),
       (''claudeTitle'', Text ([1587, 1575, 1582, 1578, 1606] @ lit '' '' @ [1576, 1575] @ lit '' Claude'')),
       (''claudeIntro'', Text ([1575, 1578, 1608, 1605, 1575, 1587, 1740, 1608, 1606] @ lit '' '' @
         [1662, 1585, 1583, 1575, 1582, 1578] @ lit '' '' @ [1583, 1585] @ lit '' production '' @
         [1705, 1583] @ lit '' '' @ [1602, 1591, 1593, 1740] @ lit '' '' @ [1575, 1587, 1578] @
         lit ''. Claude '' @ [1585, 1575] @ lit '' '' @ [1576, 1607, 8204, 1593, 1606, 1608, 1575, 1606] @
         lit '' '' @ [1583, 1587, 1578, 1740, 1575, 1585] @ lit '' '' @ [1605, 1607, 1606, 1583, 1587, 1740] @
         lit '' '' @ [1608] @ lit '' '' @ [1605, 1581, 1578, 1608, 1575] @ lit '' '' @
         [1576, 1607, 8204, 1705, 1575, 1585] @ lit '' '' @ [1605, 1740, 8204, 1576, 1585, 1740, 1605, 1548] @
         lit '' '' @ [1576, 1575] @ lit '' '' @ [1576, 1575, 1586, 1576, 1740, 1606, 1740] @ lit '' '' @
         [1575, 1606, 1587, 1575, 1606, 1740] @ lit '' '' @ [1608] @ lit '' '' @ [1579, 1576, 1578] @
         lit '' '' @ [1575, 1583, 1593, 1575] @ lit '' '' @ [1602, 1576, 1604] @ lit '' '' @ [1575, 1586] @
         lit '' '' @ [1575, 1606, 1578, 1588, 1575, 1585] @ lit ''.'')),
       (''claudeEvals'', Text ([1583, 1585, 1587, 1578, 1740] @ lit '' '' @ [1662, 1585, 1583, 1575, 1582, 1578] @ lit '' '' @
         [1576, 1575] @ lit '' '' @ [1578, 1587, 1578] @ lit '' Go'' @ [1548] @ lit '' '' @
         [1588, 1576, 1740, 1607, 8204, 1587, 1575, 1586] @ lit '' '' @ [1586, 1606, 1580, 1740, 1585, 1607] @
         lit '' '' @ [1608] @ lit '' '' @ [1578, 1591, 1576, 1740, 1602] @ lit '' '' @
         [1587, 1585, 1608, 1585] @ lit '' '' @ [1576, 1585, 1585, 1587, 1740] @ lit '' '' @
         [1605, 1740, 8204, 1588, 1608, 1583, 1548] @ lit '' '' @ [1606, 1607] @ lit '' '' @ [1576, 1575] @
         lit '' '' @ [1602, 1590, 1575, 1608, 1578] @ lit '' LLM.'')),
       (''claudeMore'', Text ([1589, 1601, 1581, 1607] @ lit '' '' @ [1705, 1575, 1605, 1604] @ lit '' Claude'')),
       (''principlesTitle'', Text ([1670, 1591, 1608, 1585] @ lit '' '' @ [1605, 1740, 8204, 1587, 1575, 1586, 1740, 1605])),
       (''principles'', Items [
         Group [
           (''title'', Text [1594, 1740, 1585, 1575, 1605, 1575, 1606, 1740]),
           (''body'', Text ([1705, 1740, 1601] @ lit '' '' @ [1662, 1608, 1604] @ lit '' '' @ [1578, 1608] @ lit ''. '' @
             [1662, 1608, 1604] @ lit '' '' @ [1601, 1585, 1608, 1588, 1606, 1583, 1607] @ lit '' '' @
             [1585, 1575] @ lit '' '' @ [1606, 1711, 1607] @ lit '' '' @
             [1606, 1605, 1740, 8204, 1583, 1575, 1585, 1740, 1605] @ lit ''.''))],
         Group [
           (''title'', Text ([1578, 1571, 1740, 1740, 1583] @ lit '' '' @ [1587, 1585, 1608, 1585])),
           (''body'', Text ([1601, 1602, 1591] @ lit '' '' @ [1576, 1705, 8204, 1575, 1606, 1583] @ lit '' '' @
             [1605, 1740, 8204, 1578, 1608, 1575, 1606, 1583] @ lit '' '' @
             [171, 1662, 1585, 1583, 1575, 1582, 1578] @ lit '' '' @ [1588, 1583] @ lit '' '' @ [10003, 187] @
             lit '' '' @ [1576, 1586, 1606, 1583] @ lit ''.''))],
         Group [
           (''title'', Text ([1605, 1576, 1604, 1594] @ lit '' '' @ [1740, 1705, 1578, 1575])),
           (''body'', Text ([1605, 1576, 1604, 1594] @ lit '' '' @ [1602, 1575, 1576, 1604] @ lit '' '' @
             [1662, 1585, 1583, 1575, 1582, 1578] @ lit '' '' @ [1740, 1705, 1578, 1575] @ lit '' '' @
             [1576, 1585, 1575, 1740] @ lit '' '' @ [1607, 1585] @ lit '' '' @ [1585, 1586, 1585, 1608] @
             lit '' '' @ [1601, 1593, 1575, 1604] @ lit ''.''))],
         Group [
           (''title'', Text ([1586, 1576, 1575, 1606] @ lit '' '' @ [1601, 1585, 1608, 1588])),
           (''body'', Text ([1604, 1740, 1606, 1705] @ lit '' '' @ [1608] @ lit '' '' @ [1587, 1601, 1575, 1585, 1588] @
             lit '' '' @ [1575, 1608, 1604, 1548] @ lit '' '' @ [1606, 1607] @ lit '' '' @
             [1575, 1589, 1591, 1604, 1575, 1581] @ lit '' '' @ [1586, 1606, 1580, 1740, 1585, 1607] @
             lit ''.''))]]),
       (''imprintTitle'', Text ([1575, 1591, 1604, 1575, 1593, 1575, 1578] @ lit '' '' @ [1588, 1585, 1705, 1578])),
       (''companyTitle'', Text [1588, 1585, 1705, 1578]),
       (''foundedLine'', Text ([1578, 1571, 1587, 1740, 1587] @ lit '' '' @ [1778, 1776, 1778, 1780] @ lit '' '' @ [1583, 1585] @
         lit '' '' @ [1570, 1578, 1606, 1548] @ lit '' '' @ [1740, 1608, 1606, 1575, 1606] @ lit ''.'')),
       (''fundingLine'', Text ([1662, 1740, 1588, 8204, 1576, 1584, 1585] @ lit '': '' @ [1778, 1776, 1644, 1776, 1776, 1776] @
         lit '' '' @ [1583, 1604, 1575, 1585] @ lit '' '' @ [1575, 1586] @ lit '' '' @
         [1583, 1608, 1587, 1578, 1575, 1606] @ lit '' '' @ [1608] @ lit '' '' @
         [1582, 1575, 1606, 1608, 1575, 1583, 1607] @ lit '' '' @ [1576, 1585, 1575, 1740] @ lit '' '' @
         [1587, 1575, 1582, 1578] @ lit '' '' @ [1575, 1608, 1604, 1740, 1606] @ lit '' '' @
         [1605, 1581, 1589, 1608, 1604] @ lit '' ('' @ [1606, 1607] @ lit '' '' @
         [1583, 1585, 1570, 1605, 1583] @ lit '' '' @ [1740, 1575] @ lit '' GMV).'')),
       (''contactCta'', Text ([1587, 1572, 1575, 1604] @ lit '' '' @ [1583, 1575, 1585, 1740, 1567] @ lit '' '' @ [1575, 1586] @
         lit '' '' @ [1589, 1601, 1581, 1607, 1620] @ lit '' '' @ [1578, 1605, 1575, 1587] @ lit '' '' @
         [1576, 1606, 1608, 1740, 1587] @ lit ''.''))]"

definition mfa_contact :: tvalue where
  "mfa_contact = Group [
       (''metaTitle'', Text [1578, 1605, 1575, 1587]),
       (''metaDescription'', Text ([1575, 1740, 1605, 1740, 1604, 1548] @ lit '' '' @ [1570, 1583, 1585, 1587] @ lit '' '' @ [1608] @
         lit '' '' @ [1604, 1740, 1606, 1705, 8204, 1607, 1575, 1740] @ lit '' '' @
         [1575, 1580, 1578, 1605, 1575, 1593, 1740] @ lit '' '' @
         [1662, 1588, 1578, 1740, 1576, 1575, 1606, 1740] @ lit '' '' @ [1608] @ lit '' '' @
         [1576, 1606, 1740, 1575, 1606, 8204, 1711, 1584, 1575, 1585] @ lit ''.'')),
       (''title'', Text [1578, 1605, 1575, 1587]),
       (''intro'', Text ([1607, 1605, 1607, 1620] @ lit '' '' @ [1662, 1740, 1575, 1605, 8204, 1607, 1575] @ lit '' '' @
         [1585, 1575] @ lit '' '' @ [1605, 1740, 8204, 1582, 1608, 1575, 1606, 1740, 1605] @ lit ''. '' @
         [1576, 1585, 1575, 1740] @ lit '' '' @ [1588, 1585, 1575, 1705, 1578] @ lit '' '' @ [1608] @
         lit '' '' @ [1578, 1571, 1740, 1740, 1583] @ lit '' '' @ [1576, 1585, 1606, 1575, 1605, 1607, 1548] @
         lit '' '' @ [1605, 1587, 1578, 1602, 1740, 1605] @ lit '' '' @ [1576, 1607] @ lit '' '' @
         [1576, 1606, 1740, 1575, 1606, 8204, 1711, 1584, 1575, 1585] @ lit '' '' @
         [1576, 1606, 1608, 1740, 1587] @ lit ''.'')),
       (''primaryLabel'', Text ([1578, 1605, 1575, 1587] @ lit '' '' @ [1575, 1589, 1604, 1740])),
       (''supportLabel'', Text [1662, 1588, 1578, 1740, 1576, 1575, 1606, 1740]),
       (''founderLabel'', Text [1576, 1606, 1740, 1575, 1606, 8204, 1711, 1584, 1575, 1585]),
       (''addressLabel'', Text [1570, 1583, 1585, 1587]),
       (''socialLabel'', Text ([1580, 1575, 1607, 1575, 1740] @ lit '' '' @ [1583, 1740, 1711, 1585]))]"

definition mfa_faqPage :: tvalue where
  "mfa_faqPage = Group [
       (''metaTitle'', Text ([1587, 1608, 1575, 1604, 1575, 1578] @ lit '' '' @ [1605, 1578, 1583, 1575, 1608, 1604])),
       (''metaDescription'', Text ([1662, 1575, 1587, 1582] @ lit '' '' @ [1583, 1585, 1576, 1575, 1585, 1607] @ lit '' checkout '' @
         [1594, 1740, 1585, 1575, 1605, 1575, 1606, 1740] @ lit '' USDT'' @ [1548] @ lit '' '' @
         [1588, 1576, 1705, 1607, 8204, 1607, 1575, 1548] @ lit '' '' @ [1582, 1585, 1740, 1583, 1575, 1585] @
         lit '' '' @ [1608] @ lit '' '' @ [1582, 1608, 1583] @ lit '' '' @ [1662, 1608, 1604, 1740] @
         lit ''.'')),
       (''title'', Text ([1587, 1608, 1575, 1604, 1575, 1578] @ lit '' '' @ [1605, 1578, 1583, 1575, 1608, 1604])),
       (''extra'', Items [
         Group [
           (''q'', Text ([1606, 1585, 1582] @ lit '' USDT '' @ [1576, 1607] @ lit '' '' @ [1578, 1608, 1605, 1575, 1606] @
             lit '' '' @ [1670, 1591, 1608, 1585] @ lit '' '' @ [1575, 1587, 1578, 1567])),
           (''a'', Text ([1608, 1602, 1578, 1740] @ lit '' '' @ [1662, 1585, 1583, 1575, 1582, 1578] @ lit '' '' @
             [1605, 1740, 8204, 1587, 1575, 1586, 1740, 1548] @ lit '' '' @ [1662, 1608, 1604, 1740] @
             lit '' '' @ [1606, 1585, 1582] @ lit '' USDT '' @ [1576, 1607] @ lit '' '' @
             [1578, 1608, 1605, 1575, 1606] @ lit '' '' @ [1576, 1575] @ lit '' '' @
             [1586, 1605, 1575, 1606] @ lit '' '' @ [1579, 1576, 1578] @ lit '' '' @
             [1605, 1740, 8204, 1705, 1606, 1583] @ lit '' '' @ [1608] @ lit '' '' @ [1576, 1607] @
             lit '' '' @ [1582, 1585, 1740, 1583, 1575, 1585] @ lit '' '' @ [1605, 1576, 1604, 1594] @
             lit '' '' @ [1583, 1602, 1740, 1602] @ lit '' USDT '' @ [1585, 1575] @ lit '' '' @
             [1606, 1588, 1575, 1606] @ lit '' '' @ [1605, 1740, 8204, 1583, 1607, 1583] @ lit ''.''))],
         Group [
           (''q'', Text ([1582, 1585, 1740, 1583, 1575, 1585] @ lit '' '' @
             [1605, 1740, 8204, 1578, 1608, 1575, 1606, 1583] @ lit '' '' @ [1576, 1575] @ lit '' '' @
             [1575, 1662] @ lit '' '' @ [1705, 1740, 1601] @ lit '' '' @ [1662, 1608, 1604] @ lit '' '' @
             [1576, 1662, 1585, 1583, 1575, 1586, 1583, 1567])),
           (''a'', Text ([1583, 1585] @ lit '' '' @ [1588, 1576, 1705, 1607, 8204, 1607, 1575, 1740] @ lit '' '' @
             [1662, 1588, 1578, 1740, 1576, 1575, 1606, 1740, 8204, 1588, 1583, 1607] @ lit ''. QR '' @
             [1608] @ lit '' handoff '' @ [1705, 1740, 1601] @ lit '' '' @ [1662, 1608, 1604] @ lit '' '' @
             [1583, 1585] @ lit '' '' @ [1589, 1608, 1585, 1578] @ lit '' '' @
             [1575, 1605, 1705, 1575, 1606] @ lit ''. '' @ [1705, 1662, 1740] @ lit '' '' @
             [1570, 1583, 1585, 1587] @ lit '' '' @ [1607, 1605, 1740, 1588, 1607] @ lit '' '' @
             [1705, 1575, 1585] @ lit '' '' @ [1605, 1740, 8204, 1705, 1606, 1583] @ lit ''.''))],
         Group [
           (''q'', Text ([1583, 1575, 1583, 1607, 1620] @ lit '' '' @ [1582, 1585, 1740, 1583, 1575, 1585] @ lit '' '' @
             [1585, 1575] @ lit '' '' @ [1670, 1607] @ lit '' '' @ [1606, 1711, 1607] @ lit '' '' @
             [1605, 1740, 8204, 1583, 1575, 1585, 1740, 1567])),
           (''a'', Text ([1601, 1740, 1604, 1583, 1607, 1575, 1740, 1740] @ lit '' '' @ [1705, 1607] @ lit '' '' @
             [1583, 1585] @ lit '' checkout '' @ [1578, 1606, 1592, 1740, 1605] @ lit '' '' @
             [1605, 1740, 8204, 1705, 1606, 1740] @ lit '' ('' @ [1606, 1575, 1605, 1548] @ lit '' '' @
             [1605, 1608, 1576, 1575, 1740, 1604, 1548] @ lit '' '' @ [1570, 1583, 1585, 1587] @ lit '' '' @
             [1608] @ lit '' '' @ [8230] @ lit '') '' @ [1576, 1585, 1575, 1740] @ lit '' '' @
             [1587, 1601, 1575, 1585, 1588] @ lit '' '' @ [1578, 1608] @ lit '' '' @ [1608] @ lit '' '' @
             [1605, 1581, 1583, 1608, 1583] @ lit '' '' @ [1576, 1607] @ lit '' '' @
             [1581, 1587, 1575, 1576] @ lit '' '' @ [1601, 1585, 1608, 1588, 1606, 1583, 1607, 1620] @
             lit '' '' @ [1578, 1608] @ lit '' '' @ [1584, 1582, 1740, 1585, 1607] @ lit '' '' @
             [1605, 1740, 8204, 1588, 1608, 1583] @ lit ''.''))],
         Group [
           (''q'', Text (lit ''API '' @ [1576, 1585, 1575, 1740] @ lit '' '' @
             [1601, 1585, 1608, 1588, 1606, 1583, 1607] @ lit '' '' @ [1607, 1587, 1578, 1567])),
           (''a'', Text ([1583, 1585] @ lit '' UI '' @ [1605, 1581, 1589, 1608, 1604] @ lit '' '' @
             [1575, 1605, 1585, 1608, 1586] @ lit '' '' @ [1606, 1740, 1587, 1578] @ lit ''. '' @
             [1662, 1608, 1604, 1740] @ lit '' '' @ [1581, 1608, 1604] @ lit '' '' @
             [1604, 1740, 1606, 1705] @ lit '' '' @ [1662, 1585, 1583, 1575, 1582, 1578] @ lit '' '' @
             [1583, 1585] @ lit '' '' @ [1575, 1662] @ lit '' '' @
             [1601, 1585, 1608, 1588, 1606, 1583, 1607] @ lit '' '' @ [1587, 1575, 1582, 1578, 1607] @
             lit '' '' @ [1588, 1583, 1607] @ lit ''.''))]])]"

definition mfa_security :: tvalue where
  "mfa_security = Group [
       (''metaTitle'', Text [1575, 1605, 1606, 1740, 1578]),
       (''metaDescription'', Text ([1591, 1585, 1575, 1581, 1740] @ lit '' checkout '' @
         [1594, 1740, 1585, 1575, 1605, 1575, 1606, 1740] @ lit '' USDT '' @ [1608] @ lit '' '' @
         [1711, 1586, 1575, 1585, 1588] @ lit '' '' @ [1605, 1588, 1705, 1604] @ lit '' '' @
         [1575, 1605, 1606, 1740, 1578, 1740] @ lit ''.'')),
       (''title'', Text [1575, 1605, 1606, 1740, 1578]),
       (''intro'', Text ([1581, 1602, 1575, 1740, 1602] @ lit '' '' @ [1591, 1585, 1575, 1581, 1740] @ lit '' '' @
         [1662, 1608, 1604, 1740] @ lit ''. '' @ [1575, 1740, 1606] @ lit '' '' @
         [1711, 1608, 1575, 1607, 1740] @ lit '' '' @ [1740, 1575] @ lit '' '' @
         [1578, 1590, 1605, 1740, 1606] @ lit '' uptime '' @ [1606, 1740, 1587, 1578] @ lit ''.'')),
       (''facts'', Items [
         Text ([1594, 1740, 1585, 1575, 1605, 1575, 1606, 1740] @ lit '': '' @ [1662, 1608, 1604, 1740] @
           lit '' '' @ [1662, 1608, 1604] @ lit '' '' @ [1601, 1585, 1608, 1588, 1606, 1583, 1607] @
           lit '' '' @ [1585, 1575] @ lit '' '' @ [1606, 1711, 1607] @ lit '' '' @
           [1606, 1605, 1740, 8204, 1583, 1575, 1585, 1583] @ lit '' '' @ [1608] @ lit '' seed phrase '' @
           [1740, 1575] @ lit '' '' @ [1705, 1604, 1740, 1583] @ lit '' '' @ [1582, 1589, 1608, 1589, 1740] @
           lit '' '' @ [1584, 1582, 1740, 1585, 1607] @ lit '' '' @
           [1606, 1605, 1740, 8204, 1705, 1606, 1583] @ lit ''.''),
         Text ([1602, 1585, 1575, 1585, 1583, 1575, 1583] @ lit '' '' @
           [1578, 1608, 1705, 1606, 8204, 1607, 1575] @ lit '' '' @ [1576, 1585, 1575, 1740] @ lit '' '' @
           [1607, 1585] @ lit '' '' @ [1588, 1576, 1705, 1607] @ lit '' allowlist '' @
           [1588, 1583, 1607, 8204, 1575, 1606, 1583] @ lit ''.''),
         Text ([1605, 1576, 1575, 1604, 1594] @ lit '' '' @ [1576, 1575] @ lit '' '' @
           [1578, 1591, 1576, 1740, 1602] @ lit '' '' @ [1740, 1705, 1578, 1575] @ lit '' '' @
           [1576, 1585, 1575, 1740] @ lit '' '' @ [1605, 1602, 1589, 1583, 1548] @ lit '' '' @
           [1588, 1576, 1705, 1607, 1548] @ lit '' '' @ [1578, 1608, 1705, 1606] @ lit '' '' @ [1608] @
           lit '' '' @ [1585, 1586, 1585, 1608] @ lit '' '' @ [1601, 1593, 1575, 1604] @ lit ''.''),
         Text ([1601, 1602, 1591] @ lit '' '' @ [1578, 1571, 1740, 1740, 1583] @ lit '' '' @
           [1587, 1585, 1608, 1585] @ lit '' '' @ [1605, 1740, 8204, 1578, 1608, 1575, 1606, 1583] @
           lit '' '' @ [171, 1662, 1585, 1583, 1575, 1582, 1578] @ lit '' '' @ [1588, 1583] @ lit '' '' @
           [10003, 187] @ lit '' '' @ [1576, 1586, 1606, 1583] @ lit ''.''),
         Text ([1608, 1585, 1608, 1583] @ lit '' '' @ [1585, 1608, 1740, 1583, 1575, 1583] @ lit '' '' @
           [1586, 1606, 1580, 1740, 1585, 1607] @ lit '' idempotent '' @ [1575, 1587, 1578] @ lit ''.''),
         Text ([1583, 1575, 1583, 1607, 1620] @ lit '' checkout '' @ [1605, 1588, 1578, 1585, 1740] @ lit '' '' @
           [1605, 1581, 1583, 1608, 1583] @ lit '' '' @ [1576, 1607] @ lit '' '' @
           [1601, 1585, 1608, 1588, 1606, 1583, 1607, 1620] @ lit '' '' @ [1605, 1575, 1604, 1705] @
           lit '' ('' @ [1608] @ lit '' '' @ [1662, 1588, 1578, 1740, 1576, 1575, 1606, 1740] @ lit '' '' @
           [1575, 1583, 1605, 1740, 1606] @ lit '') '' @ [1575, 1587, 1578] @ lit ''.''),
         Text (lit ''endpoint'' @ [1607, 1575, 1740] @ lit '' '' @ [1593, 1605, 1608, 1605, 1740] @
           lit '' rate-limit '' @ [1583, 1575, 1585, 1606, 1583] @ lit ''.'')]),
       (''disclosureTitle'', Text ([1711, 1586, 1575, 1585, 1588] @ lit '' '' @ [1605, 1587, 1574, 1608, 1604, 1575, 1606, 1607])),
       (''disclosureBody'', Text ([1575, 1711, 1585] @ lit '' '' @ [1601, 1705, 1585] @ lit '' '' @
         [1605, 1740, 8204, 1705, 1606, 1740] @ lit '' '' @ [1605, 1588, 1705, 1604] @ lit '' '' @
         [1575, 1605, 1606, 1740, 1578, 1740] @ lit '' '' @ [1662, 1740, 1583, 1575] @ lit '' '' @
         [1705, 1585, 1583, 1740, 1548] @ lit '' '' @ [1576, 1607] @ lit '' support@pooli.shop '' @
         [1576, 1575] @ lit '' '' @ [1580, 1586, 1574, 1740, 1575, 1578] @ lit '' '' @
         [1705, 1575, 1601, 1740] @ lit '' '' @ [1576, 1606, 1608, 1740, 1587] @ lit ''. '' @ [1583, 1585] @
         lit '' '' @ [1589, 1608, 1585, 1578] @ lit '' '' @ [1606, 1740, 1575, 1586] @
         lit '' omid@pooli.shop '' @ [1585, 1575] @ lit '' '' @ [1607, 1605] @ lit '' '' @
         [1576, 1711, 1584, 1575, 1585] @ lit ''. '' @ [1607, 1583, 1601] @ lit '' '' @ [1605, 1575] @
         lit '' '' @ [1578, 1571, 1740, 1740, 1583] @ lit '' '' @ [1583, 1585, 1740, 1575, 1601, 1578] @
         lit '' '' @ [1711, 1586, 1575, 1585, 1588, 8204, 1607, 1575, 1740] @ lit '' '' @
         [1580, 1583, 1740, 1583] @ lit '' '' @ [1592, 1585, 1601] @ lit '' '' @ [1781] @ lit '' '' @
         [1585, 1608, 1586] @ lit '' '' @ [1705, 1575, 1585, 1740] @ lit '' '' @ [1575, 1587, 1578] @
         lit ''.''))]"

definition mfa_privacy :: tvalue where
  "mfa_privacy = Group [
       (''metaTitle'', Text ([1581, 1585, 1740, 1605] @ lit '' '' @ [1582, 1589, 1608, 1589, 1740])),
       (''metaDescription'', Text ([1662, 1585, 1583, 1575, 1586, 1588] @ lit '' '' @ [1583, 1575, 1583, 1607, 1620] @ lit '' '' @
         [1601, 1585, 1608, 1588, 1606, 1583, 1607] @ lit '' '' @ [1608] @ lit '' '' @
         [1582, 1585, 1740, 1583, 1575, 1585] @ lit '' '' @ [1583, 1585] @ lit '' '' @
         [1662, 1608, 1604, 1740] @ lit ''.'')),
       (''title'', Text ([1581, 1585, 1740, 1605] @ lit '' '' @ [1582, 1589, 1608, 1589, 1740])),
       (''draftBanner'', Text ([1662, 1740, 1588, 8204, 1606, 1608, 1740, 1587] @ lit '' ('' @ [1583, 1585] @ lit '' '' @
         [1575, 1606, 1578, 1592, 1575, 1585] @ lit '' '' @ [1576, 1585, 1585, 1587, 1740] @ lit '' '' @
         [1581, 1602, 1608, 1602, 1740] @ lit '')'')),
       (''lastUpdated'', Text ([1570, 1582, 1585, 1740, 1606] @ lit '' '' @
         [1576, 1607, 8204, 1585, 1608, 1586, 1585, 1587, 1575, 1606, 1740])),
       (''sections'', Group [
         (''controller'', Text ([1605, 1587, 1574, 1608, 1604] @ lit '' '' @ [1583, 1575, 1583, 1607])),
         (''controllerBody'', Text (lit ''POOLI SINGLE MEMBER P.C. ('' @ [171, 1662, 1608, 1604, 1740, 187] @ lit '') '' @
           [1576, 1585, 1575, 1740] @ lit '' '' @ [1581, 1587, 1575, 1576] @ lit '' '' @
           [1601, 1585, 1608, 1588, 1606, 1583, 1607] @ lit '' '' @ [1608] @ lit '' '' @
           [1593, 1605, 1604, 1740, 1575, 1578] @ lit '' '' @ [1587, 1575, 1740, 1578] @
           lit '' controller '' @ [1575, 1587, 1578] @ lit ''. '' @ [1576, 1585, 1575, 1740] @ lit '' '' @
           [1601, 1740, 1604, 1583, 1607, 1575, 1740] @ lit '' checkout '' @
           [1582, 1585, 1740, 1583, 1575, 1585, 1548] @ lit '' '' @ [1578, 1608] @ lit '' ('' @
           [1601, 1585, 1608, 1588, 1606, 1583, 1607] @ lit '') controller '' @
           [1583, 1575, 1583, 1607, 1620] @ lit '' '' @ [1605, 1588, 1578, 1585, 1740, 1575, 1606, 1578] @
           lit '' '' @ [1607, 1587, 1578, 1740, 1563] @ lit '' '' @ [1662, 1608, 1604, 1740] @ lit '' '' @
           [1570, 1606] @ lit '' '' @ [1585, 1575] @ lit '' '' @ [1576, 1585, 1575, 1740] @ lit '' '' @
           [1575, 1580, 1585, 1575, 1740] @ lit '' checkout '' @ [1608] @ lit '' '' @
           [1575, 1593, 1604, 1575, 1606] @ lit '' '' @ [1662, 1585, 1583, 1575, 1586, 1588] @ lit '' '' @
           [1605, 1740, 8204, 1705, 1606, 1583] @ lit ''.'')),
         (''collect'', Text ([1670, 1607] @ lit '' '' @ [1580, 1605, 1593] @ lit '' '' @
           [1605, 1740, 8204, 1705, 1606, 1740, 1605])),
         (''collectBody'', Text ([1581, 1587, 1575, 1576] @ lit '' '' @ [1601, 1585, 1608, 1588, 1606, 1583, 1607] @ lit '': '' @
           [1575, 1740, 1605, 1740, 1604, 1548] @ lit '' '' @ [1606, 1575, 1605, 1548] @ lit '' hash '' @
           [1585, 1605, 1586, 1548] @ lit '' '' @ [1705, 1608, 1705, 1740] @ lit '' '' @
           [1606, 1588, 1587, 1578, 1548] @ lit '' '' @ [1570, 1583, 1585, 1587] @ lit '' '' @
           [1705, 1740, 1601] @ lit '' '' @ [1662, 1608, 1604] @ lit '' '' @
           [1579, 1576, 1578, 8204, 1588, 1583, 1607, 1548] @ lit '' '' @
           [1587, 1601, 1575, 1585, 1588, 8204, 1607, 1575, 1548] @ lit '' '' @
           [1608, 1590, 1593, 1740, 1578] @ lit '' '' @ [1662, 1585, 1583, 1575, 1582, 1578, 1548] @
           lit '' '' @ [1578, 1606, 1592, 1740, 1605, 1575, 1578] @ lit '' '' @
           [1575, 1593, 1604, 1575, 1606] @ lit '' '' @ [1608] @ lit '' '' @
           [1605, 1578, 1575, 1583, 1740, 1578, 1575, 1740] @ lit '' '' @ [1575, 1578, 1589, 1575, 1604] @
           lit '' '' @ [1578, 1604, 1711, 1585, 1575, 1605] @ lit ''. checkout '' @
           [1582, 1585, 1740, 1583, 1575, 1585] @ lit '': '' @
           [1601, 1740, 1604, 1583, 1607, 1575, 1740, 1740] @ lit '' '' @ [1705, 1607] @ lit '' '' @
           [1578, 1606, 1592, 1740, 1605] @ lit '' '' @ [1605, 1740, 8204, 1705, 1606, 1740] @ lit ''. '' @
           [1662, 1585, 1583, 1575, 1582, 1578] @ lit '': '' @
           [1605, 1578, 1575, 1583, 1740, 1578, 1575, 1740] @ lit '' '' @
           [1575, 1606, 1578, 1602, 1575, 1604] @ lit '' '' @ [1593, 1605, 1608, 1605, 1740] @ lit '' '' @
           [1586, 1606, 1580, 1740, 1585, 1607] @ lit '' '' @ [1576, 1585, 1575, 1740] @ lit '' '' @
           [1578, 1571, 1740, 1740, 1583] @ lit ''. '' @ [1601, 1606, 1740] @ lit '': '' @
           [1604, 1575, 1711] @ lit '' '' @ [1587, 1585, 1608, 1585, 1548] @ lit '' rate limit '' @ [1608] @
           lit '' '' @ [1585, 1608, 1740, 1583, 1575, 1583, 1607, 1575, 1740] @ lit '' '' @
           [1578, 1581, 1604, 1740, 1604] @ lit '' '' @ [1583, 1585, 1588, 1578] @ lit '' '' @
           [1576, 1583, 1608, 1606] @ lit '' '' @ [1570, 1583, 1585, 1587] @ lit '' '' @
           [1662, 1585, 1583, 1575, 1582, 1578] @ lit '' '' @ [1740, 1575] @ lit '' PII '' @
           [1582, 1585, 1740, 1583, 1575, 1585] @ lit '' '' @ [1583, 1585] @ lit '' payload '' @
           [1578, 1581, 1604, 1740, 1604] @ lit ''.'')),
         (''analytics'', Text [1578, 1581, 1604, 1740, 1604]),
         (''analyticsBody'', Text ([1578, 1581, 1604, 1740, 1604] @ lit '' '' @ [1575, 1589, 1591, 1705, 1575, 1705] @
           lit '' checkout '' @ [1581, 1585, 1740, 1605, 8204, 1605, 1581, 1608, 1585] @ lit '' '' @
           [1575, 1587, 1578] @ lit '': '' @ [1606, 1575, 1605] @ lit '' '' @
           [1585, 1608, 1740, 1583, 1575, 1583] @ lit '' '' @ [1605, 1579, 1604] @ lit '' checkout_opened '' @
           [1576, 1583, 1608, 1606] @ lit '' '' @ [1570, 1583, 1585, 1587] @ lit '' '' @ [1740, 1575] @
           lit '' PII. '' @ [1705, 1604, 1740, 1583, 1607, 1575, 1740] @ lit '' '' @
           [1588, 1576, 1740, 1607] @ lit '' address'' @ [1548] @ lit '' hash'' @ [1548] @ lit '' phone'' @
           [1548] @ lit '' email '' @ [1740, 1575] @ lit '' name '' @ [1581, 1584, 1601] @ lit '' '' @
           [1605, 1740, 8204, 1588, 1608, 1606, 1583] @ lit ''. '' @ [1583, 1585] @ lit '' '' @ [1608, 1576] @
           lit '' '' @ [1575, 1662] @ lit '' '' @ [1605, 1578, 1606, 8204, 1576, 1575, 1586] @
           lit '' tracker '' @ [1578, 1576, 1604, 1740, 1594, 1575, 1578, 1740] @ lit '' third-party '' @
           [1606, 1740, 1587, 1578] @ lit ''.'')),
         (''cookies'', Text [1705, 1608, 1705, 1740, 8204, 1607, 1575]),
         (''cookiesBody'', Text ([1705, 1608, 1705, 1740] @ lit ''/'' @ [1584, 1582, 1740, 1585, 1607, 1620] @ lit '' '' @
           [1605, 1581, 1604, 1740] @ lit '' '' @ [1590, 1585, 1608, 1585, 1740] @ lit '' '' @
           [1576, 1585, 1575, 1740] @ lit '' '' @ [1608, 1585, 1608, 1583, 1548] @
           lit '' locale (pooli_locale) '' @ [1608] @ lit '' theme (pooli_theme). '' @
           [1576, 1585, 1575, 1740] @ lit '' '' @ [1607, 1605, 1740, 1606, 8204, 1607, 1575] @ lit '' '' @
           [1576, 1606, 1585] @ lit '' '' @ [1576, 1575, 1586, 1575, 1585, 1740, 1575, 1576, 1740] @
           lit '' '' @ [1604, 1575, 1586, 1605] @ lit '' '' @ [1606, 1740, 1587, 1578] @ lit ''.'')),
         (''sharing'', Text ([1605, 1740, 1586, 1576, 1575, 1606] @ lit '' '' @ [1608] @ lit '' '' @
           [1662, 1585, 1583, 1575, 1586, 1588, 1711, 1585, 1607, 1575])),
         (''sharingBody'', Text ([1586, 1740, 1585, 1587, 1575, 1582, 1578] @ lit '' '' @ [1608] @ lit '' '' @
           [1587, 1585, 1608, 1740, 1587, 8204, 1607, 1575, 1740] @ lit '' '' @ [1604, 1575, 1586, 1605] @
           lit '' ('' @ [1605, 1740, 1586, 1576, 1575, 1606, 1548] @ lit '' '' @
           [1575, 1740, 1605, 1740, 1604] @ lit '' '' @ [1605, 1579, 1604] @ lit '' Resend'' @ [1548] @
           lit '' Telegram Bot API'' @ [1548] @ lit '' RPC '' @ [1586, 1606, 1580, 1740, 1585, 1607] @
           lit '' '' @ [1605, 1579, 1604] @ lit '' TronGrid '' @ [1576, 1585, 1575, 1740] @ lit '' TRON).'')),
         (''retention'', Text [1606, 1711, 1607, 1583, 1575, 1585, 1740]),
         (''retentionBody'', Text ([1583, 1575, 1583, 1607, 1620] @ lit '' '' @ [1593, 1605, 1604, 1740, 1575, 1578, 1740] @
           lit '' '' @ [1578, 1575] @ lit '' '' @ [1601, 1593, 1575, 1604] @ lit '' '' @
           [1576, 1608, 1583, 1606] @ lit '' '' @ [1581, 1587, 1575, 1576] @ lit '' '' @ [1608] @ lit '' '' @
           [1576, 1585, 1575, 1740] @ lit '' '' @ [1575, 1582, 1578, 1604, 1575, 1601] @ lit '' '' @ [1608] @
           lit '' '' @ [1575, 1604, 1586, 1575, 1605, 1575, 1578] @ lit '' '' @
           [1602, 1575, 1606, 1608, 1606, 1740] @ lit ''. '' @ [1585, 1705, 1608, 1585, 1583] @ lit '' '' @
           [1605, 1588, 1578, 1585, 1740] @ lit '' '' @ [1605, 1581, 1583, 1608, 1583] @ lit '' '' @
           [1576, 1607] @ lit '' '' @ [1601, 1585, 1608, 1588, 1606, 1583, 1607, 1563] @ lit '' '' @
           [1575, 1576, 1586, 1575, 1585] @ lit '' export/'' @ [1581, 1584, 1601] @ lit '' '' @
           [1582, 1608, 1583, 1705, 1575, 1585] @ lit '' '' @ [1583, 1585] @ lit '' '' @ [1581, 1575, 1604] @
           lit '' '' @ [1587, 1575, 1582, 1578] @ lit '' '' @ [1575, 1587, 1578] @ lit ''.'')),
         (''rights'', Text ([1581, 1602, 1608, 1602] @ lit '' '' @ [1578, 1608])),
         (''rightsBody'', Text ([1583, 1585] @ lit '' EU/EEA '' @ [1605, 1605, 1705, 1606] @ lit '' '' @ [1575, 1587, 1578] @
           lit '' '' @ [1581, 1602] @ lit '' '' @ [1583, 1587, 1578, 1585, 1587, 1740, 1548] @ lit '' '' @
           [1575, 1589, 1604, 1575, 1581, 1548] @ lit '' '' @ [1581, 1584, 1601, 1548] @ lit '' '' @
           [1605, 1581, 1583, 1608, 1583, 1740, 1578, 1548] @ lit '' '' @
           [1575, 1593, 1578, 1585, 1575, 1590] @ lit '' '' @ [1608] @ lit '' '' @
           [1575, 1606, 1578, 1602, 1575, 1604] @ lit '' '' @ [1583, 1575, 1588, 1578, 1607] @ lit '' '' @
           [1576, 1575, 1588, 1740] @ lit ''. support@pooli.shop. '' @ [1588, 1705, 1575, 1740, 1578] @
           lit '' '' @ [1576, 1607] @ lit '' Hellenic Data Protection Authority.'')),
         (''transfers'', Text ([1575, 1606, 1578, 1602, 1575, 1604] @ lit '' '' @
           [1576, 1740, 1606, 8204, 1575, 1604, 1605, 1604, 1604, 1740])),
         (''transfersBody'', Text ([1583, 1575, 1583, 1607] @ lit '' '' @ [1605, 1605, 1705, 1606] @ lit '' '' @ [1575, 1587, 1578] @
           lit '' '' @ [1583, 1585] @ lit '' EU '' @ [1608] @ lit '' '' @ [1605, 1581, 1604] @ lit '' '' @
           [1605, 1740, 1586, 1576, 1575, 1606] @ lit '' '' @ [1662, 1585, 1583, 1575, 1586, 1588] @
           lit '' '' @ [1588, 1608, 1583] @ lit ''.'')),
         (''contact'', Text [1578, 1605, 1575, 1587]),
         (''contactBody'', Text ([1587, 1572, 1575, 1604] @ lit '' '' @ [1581, 1585, 1740, 1605] @ lit '' '' @
           [1582, 1589, 1608, 1589, 1740] @ lit '': support@pooli.shop.''))])]"

definition mfa_terms :: tvalue where
  "mfa_terms = Group [
       (''metaTitle'', Text ([1588, 1585, 1575, 1740, 1591] @ lit '' '' @ [1575, 1587, 1578, 1601, 1575, 1583, 1607])),
       (''metaDescription'', Text ([1588, 1585, 1575, 1740, 1591] @ lit '' '' @ [1575, 1587, 1578, 1601, 1575, 1583, 1607] @ lit '' '' @
         [1575, 1586] @ lit '' '' @ [1662, 1608, 1604, 1740] @ lit ''.'')),
       (''title'', Text ([1588, 1585, 1575, 1740, 1591] @ lit '' '' @ [1575, 1587, 1578, 1601, 1575, 1583, 1607])),
       (''draftBanner'', Text ([1662, 1740, 1588, 8204, 1606, 1608, 1740, 1587] @ lit '' ('' @ [1583, 1585] @ lit '' '' @
         [1575, 1606, 1578, 1592, 1575, 1585] @ lit '' '' @ [1576, 1585, 1585, 1587, 1740] @ lit '' '' @
         [1581, 1602, 1608, 1602, 1740] @ lit '')'')),
       (''lastUpdated'', Text ([1570, 1582, 1585, 1740, 1606] @ lit '' '' @
         [1576, 1607, 8204, 1585, 1608, 1586, 1585, 1587, 1575, 1606, 1740])),
       (''sections'', Group [
         (''agreement'', Text [1578, 1608, 1575, 1601, 1602]),
         (''agreementBody'', Text ([1576, 1575] @ lit '' '' @ [1575, 1587, 1578, 1601, 1575, 1583, 1607] @ lit '' '' @ [1575, 1586] @
           lit '' '' @ [1662, 1608, 1604, 1740] @ lit '' '' @ [1575, 1740, 1606] @ lit '' '' @
           [1588, 1585, 1575, 1740, 1591] @ lit '' '' @ [1585, 1575] @ lit '' '' @
           [1605, 1740, 8204, 1662, 1584, 1740, 1585, 1740] @ lit ''. '' @ [1575, 1711, 1585] @ lit '' '' @
           [1606, 1605, 1740, 8204, 1662, 1584, 1740, 1585, 1740, 1548] @ lit '' '' @
           [1575, 1587, 1578, 1601, 1575, 1583, 1607] @ lit '' '' @ [1606, 1705, 1606] @ lit ''.'')),
         (''service'', Text [1587, 1585, 1608, 1740, 1587]),
         (''serviceBody'', Text ([1662, 1608, 1604, 1740] @ lit '' '' @ [1604, 1740, 1606, 1705] @ lit '' '' @
           [1662, 1585, 1583, 1575, 1582, 1578] @ lit '' '' @ [1608] @ lit '' '' @
           [1575, 1576, 1586, 1575, 1585] @ lit '' '' @ [1578, 1571, 1740, 1740, 1583] @ lit '' '' @
           [1585, 1608, 1740] @ lit '' '' @ [1586, 1606, 1580, 1740, 1585, 1607] @ lit '' '' @
           [1605, 1740, 8204, 1583, 1607, 1583] @ lit ''. '' @
           [1594, 1740, 1585, 1575, 1605, 1575, 1606, 1740] @ lit '' '' @ [1575, 1587, 1578] @ lit '': '' @
           [1605, 1587, 1574, 1608, 1604] @ lit '' '' @ [1570, 1583, 1585, 1587] @ lit '' '' @
           [1705, 1740, 1601] @ lit '' '' @ [1662, 1608, 1604] @ lit '' '' @ [1608] @ lit '' '' @
           [1602, 1608, 1575, 1606, 1740, 1606] @ lit '' '' @ [1601, 1585, 1608, 1588, 1578] @ lit '' '' @
           [1607, 1587, 1578, 1740] @ lit ''.'')),
         (''payments'', Text [1662, 1585, 1583, 1575, 1582, 1578, 8204, 1607, 1575]),
         (''paymentsBody'', Text ([1582, 1585, 1740, 1583, 1575, 1585] @ lit '' USDT '' @ [1576, 1607] @ lit '' '' @
           [1570, 1583, 1585, 1587] @ lit '' '' @ [1578, 1581, 1578] @ lit '' '' @
           [1705, 1606, 1578, 1585, 1604] @ lit '' '' @ [1578, 1608] @ lit '' '' @
           [1605, 1740, 8204, 1601, 1585, 1587, 1578, 1583] @ lit ''. uptime '' @
           [1586, 1606, 1580, 1740, 1585, 1607] @ lit '' '' @ [1740, 1575] @ lit '' RPC '' @
           [1578, 1590, 1605, 1740, 1606] @ lit '' '' @ [1606, 1605, 1740, 8204, 1588, 1608, 1583] @
           lit ''. '' @ [1593, 1583, 1605] @ lit '' '' @ [1578, 1591, 1575, 1576, 1602] @ lit '' '' @
           [1605, 1740, 8204, 1585, 1608, 1583] @ lit '' '' @ [1576, 1607] @ lit '' '' @
           [1576, 1585, 1585, 1587, 1740, 1563] @ lit '' '' @ [1605, 1576, 1604, 1594] @ lit '' '' @
           [1575, 1588, 1578, 1576, 1575, 1607] @ lit '' '' @ [1576, 1740, 8204, 1589, 1583, 1575] @
           lit '' '' @ [1602, 1576, 1608, 1604] @ lit '' '' @ [1606, 1605, 1740, 8204, 1588, 1608, 1583] @
           lit ''.'')),
         (''acceptable'', Text ([1575, 1587, 1578, 1601, 1575, 1583, 1607, 1620] @ lit '' '' @ [1605, 1580, 1575, 1586])),
         (''acceptableBody'', Text ([1576, 1585, 1575, 1740] @ lit '' '' @ [1705, 1575, 1604, 1575, 1740] @ lit '' '' @
           [1594, 1740, 1585, 1602, 1575, 1606, 1608, 1606, 1740, 1548] @ lit '' '' @
           [1705, 1604, 1575, 1607, 1576, 1585, 1583, 1575, 1585, 1740, 1548] @ lit '' '' @
           [1662, 1608, 1604, 8204, 1588, 1608, 1740, 1740] @ lit '' '' @ [1740, 1575] @ lit '' '' @
           [1587, 1608, 1569, 1575, 1587, 1578, 1601, 1575, 1583, 1607] @ lit '' '' @ [1575, 1586] @
           lit '' rate limit '' @ [1575, 1587, 1578, 1601, 1575, 1583, 1607] @ lit '' '' @
           [1606, 1705, 1606] @ lit ''. '' @ [1581, 1587, 1575, 1576] @ lit '' '' @
           [1605, 1578, 1582, 1604, 1601] @ lit '' '' @ [1605, 1605, 1705, 1606] @ lit '' '' @
           [1575, 1587, 1578] @ lit '' '' @ [1578, 1593, 1604, 1740, 1602] @ lit '' '' @ [1588, 1608, 1583] @
           lit ''.'')),
         (''liability'', Text ([1605, 1581, 1583, 1608, 1583, 1740, 1578] @ lit '' '' @ [1605, 1587, 1574, 1608, 1604, 1740, 1578])),
         (''liabilityBody'', Text ([1662, 1608, 1604, 1740] @ lit '' '' @ [1578, 1575] @ lit '' '' @ [1581, 1583] @ lit '' '' @
           [1605, 1580, 1575, 1586] @ lit '' '' @ [1602, 1575, 1606, 1608, 1606] @ lit '' '' @
           [171, 1607, 1605, 1575, 1606, 8204, 1591, 1608, 1585] @ lit '' '' @ [1705, 1607] @ lit '' '' @
           [1607, 1587, 1578, 187] @ lit '' '' @ [1575, 1585, 1575, 1574, 1607] @ lit '' '' @
           [1605, 1740, 8204, 1588, 1608, 1583] @ lit ''. '' @ [1575, 1740, 1606] @ lit '' '' @
           [1576, 1582, 1588] @ lit '' '' @ [1582, 1604, 1575, 1589, 1607] @ lit '' '' @ [1575, 1587, 1578] @
           lit '' '' @ [1608] @ lit '' '' @ [1576, 1575, 1740, 1583] @ lit '' '' @ [1608, 1705, 1740, 1604] @
           lit '' '' @ [1576, 1585, 1585, 1587, 1740] @ lit '' '' @ [1705, 1606, 1583] @ lit ''.'')),
         (''law'', Text ([1602, 1575, 1606, 1608, 1606] @ lit '' '' @ [1581, 1575, 1705, 1605])),
         (''lawBody'', Text ([1602, 1608, 1575, 1606, 1740, 1606] @ lit '' '' @ [1740, 1608, 1606, 1575, 1606, 1548] @
           lit '' '' @ [1576, 1583, 1608, 1606] @ lit '' '' @ [1602, 1608, 1575, 1593, 1583] @ lit '' '' @
           [1578, 1590, 1575, 1583] @ lit '' '' @ [1602, 1608, 1575, 1606, 1740, 1606] @ lit ''.'')),
         (''contact'', Text [1578, 1605, 1575, 1587]),
         (''contactBody'', Text ([1587, 1572, 1575, 1604] @ lit '' '' @ [1581, 1602, 1608, 1602, 1740] @ lit '' '' @ [1608] @
           lit '' '' @ [1605, 1581, 1589, 1608, 1604] @ lit '': support@pooli.shop.''))])]"

definition marketingFa :: tvalue where
  "marketingFa = Group [
     (''skipToContent'', Text ([1585, 1601, 1578, 1606] @ lit '' '' @ [1576, 1607] @ lit '' '' @ [1605, 1581, 1578, 1608, 1575])),
     (''nav'', mfa_nav),
     (''hero'', mfa_hero),
     (''builtFor'', mfa_builtFor),
     (''marquee'', mfa_marquee),
     (''flowDiagram'', mfa_flowDiagram),
     (''problem'', mfa_problem),
     (''steps'', mfa_steps),
     (''draftReminders'', mfa_draftReminders),
     (''benefits'', mfa_benefits),
     (''nonCustodial'', mfa_nonCustodial),
     (''earlyAccess'', mfa_earlyAccess),
     (''finalCta'', mfa_finalCta),
     (''footer'', mfa_footer),
     (''imprint'', mfa_imprint),
     (''claude'', mfa_claude),
     (''faqLanding'', mfa_faqLanding),
     (''about'', mfa_about),
     (''contact'', mfa_contact),
     (''faqPage'', mfa_faqPage),
     (''security'', mfa_security),
     (''privacy'', mfa_privacy),
     (''terms'', mfa_terms)]"

definition fa_nav :: tvalue where
  "fa_nav = Group [
       (''home'', Text [1582, 1575, 1606, 1607]),
       (''orders'', Text [1587, 1601, 1575, 1585, 1588, 8204, 1607, 1575]),
       (''new'', Text ([1662, 1585, 1583, 1575, 1582, 1578] @ lit '' '' @ [1580, 1583, 1740, 1583])),
       (''customers'', Text [1605, 1588, 1578, 1585, 1740, 8204, 1607, 1575]),
       (''wallets'', Text ([1705, 1740, 1601] @ lit '' '' @ [1583, 1585, 1740, 1575, 1601, 1578])),
       (''settings'', Text [1578, 1606, 1592, 1740, 1605, 1575, 1578])]"

definition fa_home :: tvalue where
  "fa_home = Group [
       (''title'', Text [1575, 1605, 1585, 1608, 1586]),
       (''greetingMorning'', Text ([1589, 1576, 1581] @ lit '' '' @ [1576, 1582, 1740, 1585])),
       (''greetingAfternoon'', Text ([1592, 1607, 1585] @ lit '' '' @ [1576, 1582, 1740, 1585])),
       (''greetingEvening'', Text ([1593, 1589, 1585] @ lit '' '' @ [1576, 1582, 1740, 1585])),
       (''greetingNamed'', Text (lit ''{greeting} {name}'')),
       (''newOrder'', Text ([1662, 1585, 1583, 1575, 1582, 1578] @ lit '' '' @ [1580, 1583, 1740, 1583])),
       (''paidToday'', Text ([1662, 1585, 1583, 1575, 1582, 1578] @ lit '' '' @ [1575, 1605, 1585, 1608, 1586])),
       (''paidTodayNone'', Text ([1575, 1605, 1585, 1608, 1586] @ lit '' '' @ [1607, 1606, 1608, 1586] @ lit '' '' @
         [1662, 1585, 1583, 1575, 1582, 1578, 1740] @ lit '' '' @ [1606, 1576, 1608, 1583])),
       (''emptyHint'', Text ([1608, 1602, 1578, 1740] @ lit '' '' @ [1570, 1605, 1575, 1583, 1607] @ lit '' '' @
         [1576, 1608, 1583, 1740] @ lit '' '' @ [1740, 1705] @ lit '' '' @ [1604, 1740, 1606, 1705] @
         lit '' '' @ [1576, 1587, 1575, 1586] @ lit '' '' @ [1608] @ lit '' '' @
         [1576, 1601, 1585, 1587, 1578] @ lit ''.'')),
       (''pendingCount'', Text (lit ''{n} '' @ [1662, 1585, 1583, 1575, 1582, 1578] @ lit '' '' @ [1583, 1585] @ lit '' '' @
         [1575, 1606, 1578, 1592, 1575, 1585])),
       (''tomanVolume'', Text [1575, 1605, 1585, 1608, 1586]),
       (''usdtReceived'', Text [1583, 1585, 1740, 1575, 1601, 1578, 8204, 1588, 1583, 1607]),
       (''pending'', Text [1605, 1606, 1578, 1592, 1585]),
       (''attention'', Text ([1606, 1740, 1575, 1586] @ lit '' '' @ [1576, 1607] @ lit '' '' @ [1576, 1585, 1585, 1587, 1740])),
       (''recent'', Text [1575, 1582, 1740, 1585]),
       (''empty'', Text ([1607, 1606, 1608, 1586] @ lit '' '' @ [1587, 1601, 1575, 1585, 1588, 1740] @ lit '' '' @
         [1606, 1583, 1575, 1585, 1740] @ lit ''. '' @ [1575, 1608, 1604, 1740, 1606] @ lit '' '' @
         [1604, 1740, 1606, 1705] @ lit '' '' @ [1662, 1585, 1583, 1575, 1582, 1578, 1578] @ lit '' '' @
         [1585, 1608] @ lit '' '' @ [1576, 1587, 1575, 1586] @ lit ''.'')),
       (''paidCount'', Text (lit ''{n} '' @ [1662, 1585, 1583, 1575, 1582, 1578])),
       (''viewAttention'', Text ([1576, 1576, 1740, 1606] @ lit '' '' @ [1670, 1740] @ lit '' '' @ [1605, 1608, 1606, 1583, 1607])),
       (''awaitingFulfillment'', Text ([1662, 1585, 1583, 1575, 1582, 1578] @ lit '' '' @ [1588, 1583] @ lit '' '' @ [8212] @ lit '' '' @
         [1607, 1606, 1608, 1586] @ lit '' '' @ [1575, 1585, 1587, 1575, 1604] @ lit '' '' @
         [1606, 1588, 1583, 1607])),
       (''analytics'', Text ([1575, 1740, 1606] @ lit '' '' @ [1607, 1601, 1578, 1607])),
       (''gmv7d'', Text ([1575, 1740, 1606] @ lit '' '' @ [1607, 1601, 1578, 1607])),
       (''paid7d'', Text [1662, 1585, 1583, 1575, 1582, 1578, 8204, 1588, 1583, 1607]),
       (''aov7d'', Text [1605, 1740, 1575, 1606, 1711, 1740, 1606]),
       (''standingLink'', Text ([1604, 1740, 1606, 1705] @ lit '' '' @ [1579, 1575, 1576, 1578])),
       (''copyStandingLink'', Text ([1705, 1662, 1740] @ lit '' '' @ [1604, 1740, 1606, 1705])),
       (''pasteInstagram'', Text ([1670, 1587, 1576, 1575, 1606, 1583, 1606] @ lit '' '' @ [1583, 1585] @ lit '' '' @
         [1575, 1740, 1606, 1587, 1578, 1575, 1711, 1585, 1575, 1605]))]"

definition fa_orders :: tvalue where
  "fa_orders = Group [
       (''title'', Text [1587, 1601, 1575, 1585, 1588, 8204, 1607, 1575]),
       (''empty'', Text ([1607, 1606, 1608, 1586] @ lit '' '' @ [1587, 1601, 1575, 1585, 1588, 1740] @ lit '' '' @
         [1606, 1583, 1575, 1585, 1740])),
       (''emptyAttention'', Text ([1575, 1604, 1575, 1606] @ lit '' '' @ [1670, 1740, 1586, 1740] @ lit '' '' @
         [1576, 1585, 1575, 1740] @ lit '' '' @ [1576, 1585, 1585, 1587, 1740] @ lit '' '' @
         [1606, 1740, 1587, 1578] @ lit ''.'')),
       (''filterAll'', Text [1607, 1605, 1607]),
       (''filterAttention'', Text ([1606, 1740, 1575, 1586] @ lit '' '' @ [1576, 1607] @ lit '' '' @ [1576, 1585, 1585, 1587, 1740])),
       (''searchPlaceholder'', Text ([1580, 1587, 1578, 1580, 1608, 1740] @ lit '' '' @ [1606, 1575, 1605, 1548] @ lit '' '' @
         [1605, 1608, 1576, 1575, 1740, 1604, 8230])),
       (''payment'', Text [1662, 1585, 1583, 1575, 1582, 1578]),
       (''order'', Text [1587, 1601, 1575, 1585, 1588]),
       (''status'', Group [
         (''CREATED'', Text ([1587, 1575, 1582, 1578, 1607] @ lit '' '' @ [1588, 1583])),
         (''AWAITING_PAYMENT'', Text ([1605, 1606, 1578, 1592, 1585] @ lit '' '' @ [1662, 1585, 1583, 1575, 1582, 1578])),
         (''SEEN'', Text ([1662, 1585, 1583, 1575, 1582, 1578] @ lit '' '' @ [1583, 1740, 1583, 1607] @ lit '' '' @
           [1588, 1583])),
         (''CONFIRMING'', Text ([1583, 1585] @ lit '' '' @ [1581, 1575, 1604] @ lit '' '' @ [1578, 1571, 1740, 1740, 1583])),
         (''PAID'', Text ([1662, 1585, 1583, 1575, 1582, 1578] @ lit '' '' @ [1588, 1583])),
         (''EXPIRED'', Text ([1605, 1606, 1602, 1590, 1740] @ lit '' '' @ [1588, 1583])),
         (''UNDERPAID'', Text ([1605, 1576, 1604, 1594] @ lit '' '' @ [1705, 1605, 1578, 1585] @ lit '' '' @ [1575, 1587, 1578])),
         (''OVERPAID'', Text ([1605, 1576, 1604, 1594] @ lit '' '' @ [1576, 1740, 1588, 1578, 1585] @ lit '' '' @
           [1575, 1587, 1578])),
         (''LATE_PAYMENT'', Text ([1583, 1740, 1585] @ lit '' '' @ [1662, 1585, 1583, 1575, 1582, 1578] @ lit '' '' @ [1588, 1583])),
         (''NEEDS_REVIEW'', Text ([1606, 1740, 1575, 1586] @ lit '' '' @ [1576, 1607] @ lit '' '' @ [1576, 1585, 1585, 1587, 1740])),
         (''DUPLICATE_PAYMENT'', Text ([1662, 1585, 1583, 1575, 1582, 1578] @ lit '' '' @ [1575, 1590, 1575, 1601, 1607] @ lit '' '' @
           [1583, 1740, 1583, 1607] @ lit '' '' @ [1588, 1583]))]),
       (''paidCheck'', Text ([1662, 1585, 1583, 1575, 1582, 1578] @ lit '' '' @ [1588, 1583] @ lit '' '' @ [10003])),
       (''paymentDetected'', Text ([1662, 1585, 1583, 1575, 1582, 1578] @ lit '' '' @ [1583, 1740, 1583, 1607] @ lit '' '' @
         [1588, 1583]))]"

definition fa_proposals :: tvalue where
  "fa_proposals = Group [
       (''section'', Text ([1662, 1740, 1588, 8204, 1606, 1608, 1740, 1587] @ lit '' '' @ [1662, 1740, 1575, 1605])),
       (''suggestClaude'', Text ([1662, 1740, 1588, 1606, 1607, 1575, 1583] @ lit '' '' @ [1662, 1740, 1575, 1605] @ lit '' (Claude)'')),
       (''suggestClaudeHint'', Text ([1576, 1585] @ lit '' '' @ [1575, 1587, 1575, 1587] @ lit '' '' @ [1608, 1590, 1593, 1740, 1578] @
         lit '' '' @ [1608, 1575, 1602, 1593, 1740] @ lit '' '' @ [1662, 1585, 1583, 1575, 1582, 1578] @
         lit ''. '' @ [1578, 1575] @ lit '' '' @ [1578, 1571, 1740, 1740, 1583] @ lit '' '' @ [1578, 1608] @
         lit '' '' @ [1670, 1740, 1586, 1740] @ lit '' '' @ [1575, 1585, 1587, 1575, 1604] @ lit '' '' @
         [1606, 1605, 1740, 8204, 1588, 1608, 1583] @ lit ''.'')),
       (''suggestClaudeBusy'', Text ([1583, 1585] @ lit '' '' @ [1581, 1575, 1604] @ lit '' '' @ [1606, 1608, 1588, 1578, 1606, 8230])),
       (''suggestClaudeError'', Text ([1662, 1740, 1588, 8204, 1606, 1608, 1740, 1587] @ lit '' '' @ [1606, 1588, 1583] @ lit ''. '' @
         [1583, 1608, 1576, 1575, 1585, 1607] @ lit '' '' @ [1576, 1586, 1606] @ lit '' '' @ [1740, 1575] @
         lit '' '' @ [1582, 1608, 1583, 1578] @ lit '' '' @ [1576, 1606, 1608, 1740, 1587] @ lit ''.'')),
       (''suggestClaudeReady'', Text ([1662, 1740, 1588, 8204, 1606, 1608, 1740, 1587] @ lit '' '' @ [1570, 1605, 1575, 1583, 1607] @
         lit '' '' @ [1575, 1587, 1578] @ lit '' '' @ [8212] @ lit '' '' @ [1662, 1575, 1740, 1740, 1606] @
         lit '' '' @ [1576, 1585, 1585, 1587, 1740] @ lit '' '' @ [1705, 1606])),
       (''pendingRow'', Text ([1662, 1740, 1588, 8204, 1606, 1608, 1740, 1587] @ lit '' '' @ [1662, 1740, 1575, 1605] @ lit '' '' @
         [1605, 1606, 1578, 1592, 1585] @ lit '' '' @ [1578, 1571, 1740, 1740, 1583] @ lit '' '' @
         [1578, 1608, 1587, 1578])),
       (''review'', Text [1576, 1585, 1585, 1587, 1740]),
       (''sheetTitle'', Text ([1576, 1585, 1585, 1587, 1740] @ lit '' '' @ [1662, 1740, 1588, 8204, 1606, 1608, 1740, 1587] @
         lit '' '' @ [1662, 1740, 1575, 1605])),
       (''sheetHint'', Text ([1578, 1575] @ lit '' '' @ [1608, 1602, 1578, 1740] @ lit '' '' @ [1578, 1571, 1740, 1740, 1583] @
         lit '' '' @ [1606, 1705, 1606, 1740] @ lit '' '' @ [1670, 1740, 1586, 1740] @ lit '' '' @
         [1575, 1585, 1587, 1575, 1604] @ lit '' '' @ [1606, 1605, 1740, 8204, 1588, 1608, 1583] @
         lit ''. '' @ [1608, 1590, 1593, 1740, 1578] @ lit '' '' @ [1662, 1585, 1583, 1575, 1582, 1578] @
         lit '' '' @ [1585, 1575] @ lit '' '' @ [1576, 1575] @ lit '' '' @
         [1608, 1575, 1602, 1593, 1740, 1578] @ lit '' '' @ [1587, 1601, 1575, 1585, 1588] @ lit '' '' @
         [1605, 1602, 1575, 1740, 1587, 1607] @ lit '' '' @ [1705, 1606] @ lit ''.'')),
       (''factOrder'', Text [1587, 1601, 1575, 1585, 1588]),
       (''factAmount'', Text [1605, 1576, 1604, 1594]),
       (''factPayment'', Text [1662, 1585, 1583, 1575, 1582, 1578]),
       (''factReference'', Text [1605, 1585, 1580, 1593]),
       (''draftLabel'', Text ([1605, 1578, 1606] @ lit '' '' @ [1662, 1740, 1588, 8204, 1606, 1608, 1740, 1587])),
       (''linkCode'', Text ([1705, 1583] @ lit '' '' @ [1578, 1571, 1740, 1740, 1583])),
       (''linkCodeHint'', Text ([1575, 1586] @ lit '' '' @ [1575, 1593, 1604, 1575, 1606] @ lit '' ('' @ [1782] @ lit '' '' @
         [1705, 1575, 1585, 1575, 1705, 1578, 1585] @ lit '').'')),
       (''approve'', Text [1578, 1571, 1740, 1740, 1583]),
       (''reject'', Text [1585, 1583]),
       (''openConfirmPage'', Text ([1576, 1575, 1586] @ lit '' '' @ [1705, 1585, 1583, 1606] @ lit '' '' @ [1589, 1601, 1581, 1607] @
         lit '' '' @ [1578, 1571, 1740, 1740, 1583])),
       (''editedWarning'', Text ([1576, 1585, 1575, 1740] @ lit '' '' @ [1578, 1571, 1740, 1740, 1583, 1548] @ lit '' '' @
         [1605, 1578, 1606] @ lit '' '' @ [1576, 1575, 1740, 1583] @ lit '' '' @ [1607, 1605, 1575, 1606] @
         lit '' '' @ [1662, 1740, 1588, 8204, 1606, 1608, 1740, 1587] @ lit '' '' @
         [1579, 1576, 1578, 8204, 1588, 1583, 1607] @ lit '' '' @ [1576, 1575, 1588, 1583] @ lit ''.'')),
       (''resetDraft'', Text ([1576, 1575, 1586, 1711, 1585, 1583, 1575, 1606, 1740] @ lit '' '' @
         [1662, 1740, 1588, 8204, 1606, 1608, 1740, 1587])),
       (''approvedToast'', Text ([1578, 1571, 1740, 1740, 1583] @ lit '' '' @ [1588, 1583])),
       (''rejectedToast'', Text ([1585, 1583] @ lit '' '' @ [1588, 1583] @ lit '' '' @ [8212] @ lit '' '' @ [1670, 1740, 1586, 1740] @
         lit '' '' @ [1575, 1585, 1587, 1575, 1604] @ lit '' '' @ [1606, 1588, 1583]))]"

definition fa_fulfillment :: tvalue where
  "fa_fulfillment = Group [
       (''UNFULFILLED'', Text ([1575, 1585, 1587, 1575, 1604] @ lit '' '' @ [1606, 1588, 1583, 1607])),
       (''PROCESSING'', Text ([1583, 1585] @ lit '' '' @ [1581, 1575, 1604] @ lit '' '' @
         [1570, 1605, 1575, 1583, 1607, 8204, 1587, 1575, 1586, 1740])),
       (''SHIPPED'', Text ([1575, 1585, 1587, 1575, 1604] @ lit '' '' @ [1588, 1583])),
       (''DELIVERED'', Text ([1578, 1581, 1608, 1740, 1604] @ lit '' '' @ [1588, 1583])),
       (''CANCELLED'', Text ([1604, 1594, 1608] @ lit '' '' @ [1588, 1583])),
       (''markProcessing'', Text [1570, 1605, 1575, 1583, 1607, 8204, 1587, 1575, 1586, 1740]),
       (''markShipped'', Text ([1579, 1576, 1578] @ lit '' '' @ [1575, 1585, 1587, 1575, 1604])),
       (''markDelivered'', Text ([1578, 1581, 1608, 1740, 1604] @ lit '' '' @ [1588, 1583])),
       (''markCancelled'', Text ([1604, 1594, 1608] @ lit '' '' @ [1587, 1601, 1575, 1585, 1588])),
       (''carrier'', Text ([1588, 1585, 1705, 1578] @ lit '' '' @ [1662, 1587, 1578])),
       (''tracking'', Text ([1705, 1583] @ lit '' '' @ [1585, 1607, 1711, 1740, 1585, 1740])),
       (''confirmShip'', Text [1578, 1571, 1740, 1740, 1583]),
       (''shipTitle'', Text ([1579, 1576, 1578] @ lit '' '' @ [1575, 1585, 1587, 1575, 1604]))]"

definition fa_create :: tvalue where
  "fa_create = Group [
       (''title'', Text ([1662, 1585, 1583, 1575, 1582, 1578] @ lit '' '' @ [1580, 1583, 1740, 1583])),
       (''howMuch'', Text [1670, 1602, 1583, 1585, 1567]),
       (''amount'', Text [1605, 1576, 1604, 1594]),
       (''amountHint'', Text ([1605, 1576, 1604, 1594, 1740] @ lit '' '' @ [1705, 1607] @ lit '' '' @
         [1582, 1585, 1740, 1583, 1575, 1585] @ lit '' '' @ [1576, 1575, 1740, 1583] @ lit '' '' @
         [1576, 1662, 1585, 1583, 1575, 1586, 1583, 1548] @ lit '' '' @ [1576, 1607] @ lit '' '' @
         [1578, 1608, 1605, 1575, 1606] @ lit ''.'')),
       (''description'', Text ([1576, 1575, 1576, 1578] @ lit '' '' @ [1670, 1740, 1567])),
       (''orderTitle'', Text ([1576, 1575, 1576, 1578] @ lit '' '' @ [1670, 1740, 1567])),
       (''reference'', Text ([1740, 1575, 1583, 1583, 1575, 1588, 1578] @ lit '' '' @ [1583, 1575, 1582, 1604, 1740])),
       (''networks'', Text [1588, 1576, 1705, 1607, 8204, 1607, 1575]),
       (''create'', Text ([1587, 1575, 1582, 1578] @ lit '' '' @ [1662, 1585, 1583, 1575, 1582, 1578])),
       (''createShare'', Text ([1587, 1575, 1582, 1578] @ lit '' '' @ [1608] @ lit '' '' @ [1575, 1585, 1587, 1575, 1604])),
       (''copyLink'', Text ([1705, 1662, 1740] @ lit '' '' @ [1604, 1740, 1606, 1705])),
       (''share'', Text ([1575, 1585, 1587, 1575, 1604] @ lit '' '' @ [1604, 1740, 1606, 1705])),
       (''shareTelegram'', Text [1578, 1604, 1711, 1585, 1575, 1605]),
       (''shareWhatsApp'', Text [1608, 1575, 1578, 1587, 1575, 1662]),
       (''qr'', Text ([1606, 1605, 1575, 1740, 1588] @ lit '' QR'')),
       (''openCheckout'', Text ([1576, 1575, 1586] @ lit '' '' @ [1705, 1585, 1583, 1606] @ lit '' '' @ [1589, 1601, 1581, 1607] @
         lit '' '' @ [1662, 1585, 1583, 1575, 1582, 1578])),
       (''created'', Text ([1570, 1605, 1575, 1583, 1607, 1620] @ lit '' '' @ [1583, 1585, 1740, 1575, 1601, 1578])),
       (''creating'', Text ([1583, 1585] @ lit '' '' @ [1581, 1575, 1604] @ lit '' '' @ [1587, 1575, 1582, 1578, 8230])),
       (''shareHint'', Text ([1575, 1740, 1606] @ lit '' '' @ [1585, 1575] @ lit '' '' @ [1583, 1585] @ lit '' '' @
         [1575, 1740, 1606, 1587, 1578, 1575, 1711, 1585, 1575, 1605, 1548] @ lit '' '' @
         [1578, 1604, 1711, 1585, 1575, 1605] @ lit '' '' @ [1740, 1575] @ lit '' '' @
         [1608, 1575, 1578, 1587, 1575, 1662] @ lit '' '' @ [1576, 1601, 1585, 1587, 1578] @ lit ''.'')),
       (''viewOrder'', Text ([1605, 1588, 1575, 1607, 1583, 1607] @ lit '' '' @ [1587, 1601, 1575, 1585, 1588])),
       (''completeOrder'', Text ([1587, 1601, 1575, 1585, 1588, 1578] @ lit '' '' @ [1585, 1608] @ lit '' '' @
         [1578, 1705, 1605, 1740, 1604] @ lit '' '' @ [1705, 1606] @ lit '':'')),
       (''forCustomer'', Text [1576, 1585, 1575, 1740]),
       (''moreOptions'', Text ([1711, 1586, 1740, 1606, 1607, 8204, 1607, 1575, 1740] @ lit '' '' @ [1576, 1740, 1588, 1578, 1585])),
       (''hideOptions'', Text ([1576, 1587, 1578, 1606] @ lit '' '' @ [1711, 1586, 1740, 1606, 1607, 8204, 1607, 1575])),
       (''moreShare'', Text ([1585, 1608, 1588, 8204, 1607, 1575, 1740] @ lit '' '' @ [1583, 1740, 1711, 1585])),
       (''pasteInChat'', Text ([1670, 1587, 1576, 1575, 1606, 1583, 1606] @ lit '' '' @ [1583, 1585] @ lit '' '' @
         [1575, 1740, 1606, 1587, 1578, 1575, 1711, 1585, 1575, 1605] @ lit '' / '' @
         [1578, 1604, 1711, 1585, 1575, 1605])),
       (''shareInstagram'', Text ([1705, 1662, 1740] @ lit '' '' @ [1576, 1585, 1575, 1740] @ lit '' '' @
         [1575, 1740, 1606, 1587, 1578, 1575, 1711, 1585, 1575, 1605])),
       (''fromIgHint'', Text ([1604, 1740, 1606, 1705] @ lit '' '' @ [1585, 1575] @ lit '' '' @ [1576, 1587, 1575, 1586, 1548] @
         lit '' '' @ [1576, 1593, 1583] @ lit '' '' @ [1583, 1585] @ lit '' '' @
         [1583, 1575, 1740, 1585, 1705, 1578] @ lit '' '' @
         [1575, 1740, 1606, 1587, 1578, 1575, 1711, 1585, 1575, 1605] @ lit '' '' @
         [1582, 1585, 1740, 1583, 1575, 1585] @ lit '' '' @ [1576, 1670, 1587, 1576, 1575, 1606] @ lit ''.'')),
       (''reusableInstead'', Text ([1576, 1607, 8204, 1580, 1575, 1588] @ lit '' '' @ [1604, 1740, 1606, 1705] @ lit '' '' @
         [1602, 1575, 1576, 1604, 8204, 1575, 1587, 1578, 1601, 1575, 1583, 1607] @ lit '' '' @
         [1583, 1608, 1576, 1575, 1585, 1607] @ lit '' '' @ [1576, 1587, 1575, 1586])),
       (''quantity'', Text [1578, 1593, 1583, 1575, 1583]),
       (''expiry'', Text ([1575, 1606, 1602, 1590, 1575] @ lit '' ('' @ [1583, 1602, 1740, 1602, 1607] @ lit '')'')),
       (''successMessage'', Text ([1662, 1740, 1575, 1605] @ lit '' '' @ [1576, 1593, 1583] @ lit '' '' @ [1575, 1586] @ lit '' '' @
         [1662, 1585, 1583, 1575, 1582, 1578]))]"

definition fa_customers :: tvalue where
  "fa_customers = Group [
       (''title'', Text [1605, 1588, 1578, 1585, 1740, 8204, 1607, 1575]),
       (''empty'', Text ([1607, 1606, 1608, 1586] @ lit '' '' @ [1605, 1588, 1578, 1585, 1740] @ lit '' '' @
         [1606, 1583, 1575, 1585, 1740] @ lit ''. '' @ [1576, 1593, 1583] @ lit '' '' @ [1575, 1586] @
         lit '' '' @ [1575, 1608, 1604, 1740, 1606] @ lit '' '' @ [1662, 1585, 1583, 1575, 1582, 1578] @
         lit '' '' @ [1575, 1740, 1606, 1580, 1575] @ lit '' '' @ [1605, 1740, 8204, 1570, 1740, 1606, 1583] @
         lit ''.'')),
       (''searchPlaceholder'', Text ([1580, 1587, 1578, 1580, 1608, 1740] @ lit '' '' @ [1606, 1575, 1605, 1548] @ lit '' '' @
         [1605, 1608, 1576, 1575, 1740, 1604, 1548] @ lit '' '' @ [1575, 1740, 1605, 1740, 1604, 8230])),
       (''orders'', Text [1587, 1601, 1575, 1585, 1588]),
       (''lastOrder'', Text ([1570, 1582, 1585, 1740, 1606] @ lit '' '' @ [1587, 1601, 1575, 1585, 1588])),
       (''today'', Text [1575, 1605, 1585, 1608, 1586]),
       (''yesterday'', Text [1583, 1740, 1585, 1608, 1586]),
       (''daysAgo'', Text (lit ''{n} '' @ [1585, 1608, 1586] @ lit '' '' @ [1662, 1740, 1588])),
       (''newOrder'', Text ([1662, 1585, 1583, 1575, 1582, 1578] @ lit '' '' @ [1580, 1583, 1740, 1583])),
       (''lifetime'', Text ([1605, 1580, 1605, 1608, 1593] @ lit '' '' @ [1662, 1585, 1583, 1575, 1582, 1578])),
       (''addresses'', Text [1570, 1583, 1585, 1587, 8204, 1607, 1575]),
       (''recentOrders'', Text ([1587, 1601, 1575, 1585, 1588, 8204, 1607, 1575, 1740] @ lit '' '' @ [1575, 1582, 1740, 1585])),
       (''notes'', Text [1740, 1575, 1583, 1583, 1575, 1588, 1578, 8204, 1607, 1575]),
       (''tags'', Text [1576, 1585, 1670, 1587, 1576, 8204, 1607, 1575]),
       (''addNote'', Text ([1575, 1601, 1586, 1608, 1583, 1606] @ lit '' '' @ [1740, 1575, 1583, 1583, 1575, 1588, 1578])),
       (''addTag'', Text ([1575, 1601, 1586, 1608, 1583, 1606] @ lit '' '' @ [1576, 1585, 1670, 1587, 1576])),
       (''notePlaceholder'', Text ([1740, 1575, 1583, 1583, 1575, 1588, 1578] @ lit '' '' @ [1583, 1575, 1582, 1604, 1740, 8230])),
       (''tagPlaceholder'', Text (lit ''VIP'' @ [1548] @ lit '' '' @ [1575, 1740, 1606, 1587, 1578, 1575, 1711, 1585, 1575, 1605, 8230])),
       (''paidOrders'', Text ([1587, 1601, 1575, 1585, 1588, 8204, 1607, 1575, 1740] @ lit '' '' @
         [1662, 1585, 1583, 1575, 1582, 1578, 8204, 1588, 1583, 1607]))]"

definition fa_wallets :: tvalue where
  "fa_wallets = Group [
       (''receiving'', Text ([1705, 1740, 1601] @ lit '' '' @ [1583, 1585, 1740, 1575, 1601, 1578])),
       (''archiveConfirm'', Text ([1575, 1740, 1606] @ lit '' '' @ [1705, 1740, 1601] @ lit '' '' @
         [1583, 1585, 1740, 1575, 1601, 1578] @ lit '' '' @ [1581, 1584, 1601] @ lit '' '' @
         [1588, 1608, 1583, 1567])),
       (''archiveConfirmBody'', Text ([1583, 1585, 1582, 1608, 1575, 1587, 1578, 8204, 1607, 1575, 1740] @ lit '' '' @ [1576, 1575, 1586] @
         lit '' '' @ [1576, 1575] @ lit '' '' @ [1607, 1605, 1740, 1606] @ lit '' '' @
         [1570, 1583, 1585, 1587] @ lit '' '' @ [1605, 1740, 8204, 1605, 1575, 1606, 1606, 1583] @ lit '' '' @
         [1578, 1575] @ lit '' '' @ [1605, 1606, 1602, 1590, 1740] @ lit '' '' @ [1588, 1608, 1606, 1583] @
         lit ''.'')),
       (''title'', Text ([1662, 1608, 1604] @ lit '' '' @ [1705, 1580, 1575] @ lit '' '' @ [1608, 1575, 1585, 1740, 1586] @
         lit '' '' @ [1576, 1588, 1607, 1567])),
       (''add'', Text ([1575, 1601, 1586, 1608, 1583, 1606] @ lit '' '' @ [1570, 1583, 1585, 1587])),
       (''label'', Text [1576, 1585, 1670, 1587, 1576]),
       (''network'', Text [1588, 1576, 1705, 1607]),
       (''address'', Text [1570, 1583, 1585, 1587]),
       (''default'', Text [1662, 1740, 1588, 8204, 1601, 1585, 1590]),
       (''inactive'', Text [1576, 1575, 1740, 1711, 1575, 1606, 1740]),
       (''copy'', Text ([1705, 1662, 1740] @ lit '' '' @ [1570, 1583, 1585, 1587])),
       (''explorer'', Text ([1605, 1588, 1575, 1607, 1583, 1607] @ lit '' '' @ [1578, 1585, 1575, 1705, 1606, 1588])),
       (''archive'', Text [1576, 1575, 1740, 1711, 1575, 1606, 1740]),
       (''setDefault'', Text ([1662, 1740, 1588, 8204, 1601, 1585, 1590] @ lit '' '' @ [1705, 1585, 1583, 1606])),
       (''activeIntents'', Text ([1662, 1585, 1583, 1575, 1582, 1578, 8204, 1607, 1575, 1740] @ lit '' '' @ [1576, 1575, 1586])),
       (''confirmTitle'', Text ([1575, 1740, 1606] @ lit '' '' @ [1570, 1583, 1585, 1587] @ lit '' '' @ [1585, 1575] @ lit '' '' @
         [1670, 1705] @ lit '' '' @ [1705, 1606])),
       (''confirmWarn'', Text ([1662, 1608, 1604] @ lit '' '' @ [1576, 1607] @ lit '' '' @ [1575, 1740, 1606] @ lit '' '' @
         [1570, 1583, 1585, 1587] @ lit '' '' @ [1605, 1740, 8204, 1585, 1608, 1583] @ lit '' '' @ [1608] @
         lit '' '' @ [1705, 1606, 1578, 1585, 1604, 1588] @ lit '' '' @ [1576, 1575] @ lit '' '' @
         [1578, 1608, 1587, 1578] @ lit ''. '' @ [1575, 1711, 1585] @ lit '' '' @ [1570, 1583, 1585, 1587] @
         lit '' '' @ [1575, 1588, 1578, 1576, 1575, 1607] @ lit '' '' @ [1576, 1575, 1588, 1583, 1548] @
         lit '' '' @ [1662, 1608, 1604, 1740] @ lit '' '' @
         [1606, 1605, 1740, 8204, 1578, 1608, 1575, 1606, 1583] @ lit '' '' @ [1570, 1606] @ lit '' '' @
         [1585, 1575] @ lit '' '' @ [1576, 1585, 1711, 1585, 1583, 1575, 1606, 1583] @ lit ''.'')),
       (''save'', Text [1584, 1582, 1740, 1585, 1607]),
       (''empty'', Text ([1740, 1705] @ lit '' '' @ [1570, 1583, 1585, 1587] @ lit '' '' @ [1578, 1585, 1608, 1606] @
         lit '' '' @ [1740, 1575] @ lit '' '' @ [1576, 1575, 1740, 1606, 1606, 1587] @ lit '' '' @
         [1670, 1740, 1606] @ lit '' '' @ [1575, 1590, 1575, 1601, 1607] @ lit '' '' @ [1705, 1606] @
         lit '' '' @ [1578, 1575] @ lit '' '' @ [1582, 1585, 1740, 1583, 1575, 1585] @ lit '' '' @
         [1576, 1578, 1608, 1575, 1606, 1583] @ lit '' '' @ [1662, 1585, 1583, 1575, 1582, 1578] @ lit '' '' @
         [1705, 1606, 1583] @ lit ''.'')),
       (''details'', Text [1580, 1586, 1574, 1740, 1575, 1578]),
       (''tron'', Text [1578, 1585, 1608, 1606]),
       (''bsc'', Text ([1576, 1575, 1740, 1606, 1606, 1587] @ lit '' '' @ [1670, 1740, 1606])),
       (''tokenStandard'', Text ([1575, 1587, 1578, 1575, 1606, 1583, 1575, 1585, 1583] @ lit '' '' @ [1578, 1608, 1705, 1606])),
       (''invalidAddress'', Text ([1575, 1740, 1606] @ lit '' '' @ [1570, 1583, 1585, 1587] @ lit '' '' @ [1576, 1575] @ lit '' '' @
         [1588, 1576, 1705, 1607] @ lit '' '' @ [1575, 1606, 1578, 1582, 1575, 1576, 8204, 1588, 1583, 1607] @
         lit '' '' @ [1580, 1608, 1585] @ lit '' '' @ [1606, 1740, 1587, 1578] @ lit ''.''))]"

definition fa_settings :: tvalue where
  "fa_settings = Group [
       (''title'', Text [1578, 1606, 1592, 1740, 1605, 1575, 1578]),
       (''store'', Text [1601, 1585, 1608, 1588, 1711, 1575, 1607]),
       (''storeHint'', Text ([1582, 1585, 1740, 1583, 1575, 1585] @ lit '' '' @ [1578, 1608] @ lit '' '' @ [1585, 1575] @
         lit '' '' @ [1575, 1740, 1606, 8204, 1591, 1608, 1585] @ lit '' '' @
         [1605, 1740, 8204, 1576, 1740, 1606, 1583])),
       (''displayName'', Text ([1606, 1575, 1605] @ lit '' '' @ [1601, 1585, 1608, 1588, 1711, 1575, 1607])),
       (''description'', Text [1578, 1608, 1590, 1740, 1581, 1575, 1578]),
       (''support'', Text ([1585, 1575, 1607, 8204, 1607, 1575, 1740] @ lit '' '' @
         [1662, 1588, 1578, 1740, 1576, 1575, 1606, 1740])),
       (''logo'', Text [1604, 1608, 1711, 1608]),
       (''uploadLogo'', Text ([1570, 1662, 1604, 1608, 1583] @ lit '' '' @ [1604, 1608, 1711, 1608])),
       (''language'', Text [1586, 1576, 1575, 1606]),
       (''telegram'', Text [1578, 1604, 1711, 1585, 1575, 1605]),
       (''telegramHint'', Text ([1608, 1602, 1578, 1740] @ lit '' '' @ [1705, 1587, 1740] @ lit '' '' @
         [1662, 1585, 1583, 1575, 1582, 1578] @ lit '' '' @ [1705, 1585, 1583, 1548] @ lit '' '' @
         [1582, 1576, 1585, 1578] @ lit '' '' @ [1605, 1740, 8204, 1705, 1606, 1740, 1605] @ lit ''.'')),
       (''telegramConnected'', Text ([1605, 1578, 1589, 1604] @ lit '' '' @ [1588, 1583] @ lit '' '' @ [10003])),
       (''telegramConnectedHint'', Text ([1608, 1602, 1578, 1740] @ lit '' '' @ [1605, 1588, 1578, 1585, 1740] @ lit '' '' @
         [1662, 1585, 1583, 1575, 1582, 1578] @ lit '' '' @ [1705, 1606, 1583] @ lit '' '' @ [1740, 1575] @
         lit '' '' @ [1670, 1740, 1586, 1740] @ lit '' '' @ [1606, 1740, 1575, 1586] @ lit '' '' @
         [1576, 1607] @ lit '' '' @ [1576, 1585, 1585, 1587, 1740] @ lit '' '' @
         [1583, 1575, 1588, 1578, 1607] @ lit '' '' @ [1576, 1575, 1588, 1583, 1548] @ lit '' '' @
         [1582, 1576, 1585] @ lit '' '' @ [1605, 1740, 8204, 1583, 1607, 1740, 1605] @ lit ''.'')),
       (''connectTelegram'', Text ([1575, 1578, 1589, 1575, 1604] @ lit '' '' @ [1578, 1604, 1711, 1585, 1575, 1605])),
       (''disconnectTelegram'', Text ([1602, 1591, 1593] @ lit '' '' @ [1575, 1578, 1589, 1575, 1604])),
       (''telegramDisconnected'', Text ([1578, 1604, 1711, 1585, 1575, 1605] @ lit '' '' @ [1602, 1591, 1593] @ lit '' '' @ [1588, 1583])),
       (''sendTelegramTest'', Text ([1575, 1585, 1587, 1575, 1604] @ lit '' '' @ [1578, 1587, 1578])),
       (''telegramTestSent'', Text ([1578, 1587, 1578] @ lit '' '' @ [1575, 1585, 1587, 1575, 1604] @ lit '' '' @ [1588, 1583])),
       (''telegramConnectWaiting'', Text ([1575, 1578, 1589, 1575, 1604] @ lit '' '' @ [1585, 1575] @ lit '' '' @ [1583, 1585] @ lit '' '' @
         [1578, 1604, 1711, 1585, 1575, 1605] @ lit '' '' @ [1578, 1605, 1575, 1605] @ lit '' '' @
         [1705, 1606, 1548] @ lit '' '' @ [1576, 1593, 1583] @ lit '' '' @ [1576, 1585, 1711, 1585, 1583] @
         lit ''.'')),
       (''telegramOpenFailed'', Text ([1578, 1604, 1711, 1585, 1575, 1605] @ lit '' '' @ [1576, 1575, 1586] @ lit '' '' @
         [1606, 1588, 1583] @ lit ''. '' @ [1575, 1586] @ lit '' '' @ [1604, 1740, 1606, 1705] @ lit '' '' @
         [1586, 1740, 1585] @ lit '' '' @ [1575, 1587, 1578, 1601, 1575, 1583, 1607] @ lit '' '' @
         [1705, 1606] @ lit ''.'')),
       (''instagram'', Text [1575, 1740, 1606, 1587, 1578, 1575, 1711, 1585, 1575, 1605]),
       (''instagramHint'', Text ([1576, 1575] @ lit '' '' @ [1583, 1575, 1740, 1585, 1705, 1578] @ lit '' '' @ [1576, 1607] @
         lit '' @pooli '' @ [1604, 1740, 1606, 1705] @ lit '' '' @ [1662, 1585, 1583, 1575, 1582, 1578] @
         lit '' '' @ [1576, 1587, 1575, 1586] @ lit ''.'')),
       (''instagramNotConfigured'', Text ([1583, 1575, 1740, 1585, 1705, 1578] @ lit '' '' @
         [1575, 1740, 1606, 1587, 1578, 1575, 1711, 1585, 1575, 1605] @ lit '' '' @ [1585, 1608, 1740] @
         lit '' '' @ [1575, 1740, 1606] @ lit '' '' @ [1587, 1585, 1608, 1585] @ lit '' '' @
         [1607, 1606, 1608, 1586] @ lit '' '' @ [1601, 1593, 1575, 1604] @ lit '' '' @
         [1606, 1740, 1587, 1578] @ lit ''.'')),
       (''instagramTestersOnly'', Text ([1578, 1575] @ lit '' '' @ [1578, 1571, 1740, 1740, 1583] @ lit '' '' @ [1575, 1662] @ lit '' '' @
         [1605, 1578, 1575, 1548] @ lit '' '' @ [1601, 1602, 1591] @ lit '' '' @
         [1578, 1587, 1578, 1585, 1607, 1575] @ lit '' '' @
         [1605, 1740, 8204, 1578, 1608, 1575, 1606, 1606, 1583] @ lit '' '' @ [1576, 1575] @
         lit '' @pooli '' @ [1581, 1585, 1601] @ lit '' '' @ [1576, 1586, 1606, 1606, 1583] @ lit ''.'')),
       (''instagramConnectHint'', Text ([1575, 1740, 1606, 1587, 1578, 1575, 1711, 1585, 1575, 1605] @ lit '' '' @ [1585, 1575] @ lit '' '' @
         [1576, 1575, 1586] @ lit '' '' @ [1705, 1606] @ lit '' '' @ [8594] @ lit '' '' @ [1576, 1607] @
         lit '' @pooli '' @ [1583, 1575, 1740, 1585, 1705, 1578] @ lit '' '' @ [1576, 1583, 1607] @
         lit '' '' @ [8594] @ lit '' '' @ [1575, 1740, 1606] @ lit '' '' @ [1705, 1583] @ lit '' '' @
         [1585, 1575] @ lit '' '' @ [1576, 1601, 1585, 1587, 1578] @ lit ''.'')),
       (''instagramGetCode'', Text ([1711, 1585, 1601, 1578, 1606] @ lit '' '' @ [1705, 1583])),
       (''instagramConnected'', Text ([1605, 1578, 1589, 1604] @ lit '' '' @ [1588, 1583] @ lit '' '' @ [10003])),
       (''disconnectInstagram'', Text ([1602, 1591, 1593] @ lit '' '' @ [1575, 1578, 1589, 1575, 1604])),
       (''instagramDisconnected'', Text ([1575, 1740, 1606, 1587, 1578, 1575, 1711, 1585, 1575, 1605] @ lit '' '' @ [1602, 1591, 1593] @
         lit '' '' @ [1588, 1583])),
       (''notifications'', Text [1575, 1593, 1604, 1575, 1606, 8204, 1607, 1575]),
       (''notificationsHint'', Text ([1670, 1591, 1608, 1585] @ lit '' '' @ [1575, 1586] @ lit '' '' @
         [1662, 1585, 1583, 1575, 1582, 1578, 8204, 1607, 1575] @ lit '' '' @ [1576, 1575, 1582, 1576, 1585] @
         lit '' '' @ [1588, 1608, 1740])),
       (''email'', Text [1575, 1740, 1605, 1740, 1604]),
       (''emailDisabledHint'', Text ([1575, 1593, 1604, 1575, 1606] @ lit '' '' @ [1575, 1740, 1605, 1740, 1604] @ lit '' '' @
         [1585, 1608, 1740] @ lit '' '' @ [1575, 1740, 1606] @ lit '' '' @ [1587, 1585, 1608, 1585] @
         lit '' '' @ [1601, 1593, 1575, 1604] @ lit '' '' @ [1606, 1740, 1587, 1578] @ lit ''.'')),
       (''emailDestinationHint'', Text ([1575, 1740, 1605, 1740, 1604, 8204, 1607, 1575, 1740] @ lit '' '' @
         [1662, 1585, 1583, 1575, 1582, 1578] @ lit '' '' @ [1576, 1607] @ lit '' '' @
         [1575, 1740, 1605, 1740, 1604] @ lit '' '' @ [1581, 1587, 1575, 1576, 1578] @ lit '' '' @
         [1605, 1740, 8204, 1585, 1608, 1583] @ lit ''.'')),
       (''emailPaymentReceived'', Text ([1662, 1585, 1583, 1575, 1582, 1578] @ lit '' '' @ [1588, 1583])),
       (''emailNeedsAttention'', Text ([1606, 1740, 1575, 1586] @ lit '' '' @ [1576, 1607] @ lit '' '' @ [1576, 1585, 1585, 1587, 1740])),
       (''emailOrderUpdates'', Text ([1576, 1607, 8204, 1585, 1608, 1586, 1585, 1587, 1575, 1606, 1740] @ lit '' '' @
         [1587, 1601, 1575, 1585, 1588])),
       (''save'', Text [1584, 1582, 1740, 1585, 1607]),
       (''addToHome'', Text ([1575, 1601, 1586, 1608, 1583, 1606] @ lit '' '' @ [1576, 1607] @ lit '' '' @
         [1589, 1601, 1581, 1607] @ lit '' '' @ [1575, 1589, 1604, 1740])),
       (''checkoutDefaults'', Text ([1575, 1586] @ lit '' '' @ [1582, 1585, 1740, 1583, 1575, 1585] @ lit '' '' @ [1670, 1607] @
         lit '' '' @ [1576, 1662, 1585, 1587, 1740, 1605])),
       (''customerFields'', Text ([1575, 1586] @ lit '' '' @ [1582, 1585, 1740, 1583, 1575, 1585] @ lit '' '' @ [1670, 1607] @
         lit '' '' @ [1576, 1662, 1585, 1587, 1740, 1605])),
       (''paymentDefaults'', Text ([1662, 1740, 1588, 8204, 1601, 1585, 1590] @ lit '' '' @ [1662, 1585, 1583, 1575, 1582, 1578])),
       (''fieldRequired'', Text [1604, 1575, 1586, 1605]),
       (''fieldOptional'', Text [1575, 1582, 1578, 1740, 1575, 1585, 1740]),
       (''fieldDisabled'', Text [1582, 1575, 1605, 1608, 1588]),
       (''enabledNetworks'', Text ([1588, 1576, 1705, 1607, 8204, 1607, 1575, 1740] @ lit '' '' @ [1601, 1593, 1575, 1604])),
       (''defaultNetwork'', Text ([1588, 1576, 1705, 1607] @ lit '' '' @ [1662, 1740, 1588, 8204, 1601, 1585, 1590])),
       (''defaultExpiry'', Text ([1575, 1606, 1602, 1590, 1575, 1740] @ lit '' '' @ [1604, 1740, 1606, 1705] @ lit '' ('' @
         [1583, 1602, 1740, 1602, 1607] @ lit '')'')),
       (''fulfillmentRequired'', Text ([1606, 1740, 1575, 1586] @ lit '' '' @ [1576, 1607] @ lit '' '' @ [1575, 1585, 1587, 1575, 1604])),
       (''defaultsHint'', Text ([1662, 1585, 1583, 1575, 1582, 1578, 8204, 1607, 1575, 1740] @ lit '' '' @ [1580, 1583, 1740, 1583] @
         lit '' '' @ [1575, 1740, 1606, 8204, 1607, 1575] @ lit '' '' @ [1585, 1575] @ lit '' '' @
         [1605, 1740, 8204, 1711, 1740, 1585, 1606, 1583] @ lit ''. '' @
         [1602, 1576, 1604, 1740, 8204, 1607, 1575] @ lit '' '' @ [1593, 1608, 1590] @ lit '' '' @
         [1606, 1605, 1740, 8204, 1588, 1608, 1606, 1583] @ lit ''.'')),
       (''gettingPaid'', Text ([1583, 1585, 1740, 1575, 1601, 1578] @ lit '' '' @ [1662, 1608, 1604])),
       (''gettingPaidHint'', Text ([1662, 1608, 1604] @ lit '' '' @ [1705, 1580, 1575] @ lit '' '' @ [1608, 1575, 1585, 1740, 1586] @
         lit '' '' @ [1576, 1588, 1607, 1548] @ lit '' '' @ [1608] @ lit '' '' @ [1575, 1586] @ lit '' '' @
         [1582, 1585, 1740, 1583, 1575, 1585] @ lit '' '' @ [1670, 1740] @ lit '' '' @
         [1576, 1662, 1585, 1587, 1740])),
       (''appLanguage'', Text [1592, 1575, 1607, 1585]),
       (''appLanguageHint'', Text ([1586, 1576, 1575, 1606, 1548] @ lit '' '' @ [1578, 1605, 1548] @ lit '' '' @ [1608] @ lit '' '' @
         [1589, 1601, 1581, 1607] @ lit '' '' @ [1575, 1589, 1604, 1740])),
       (''theme'', Text [1578, 1605]),
       (''themeSystem'', Text [1587, 1740, 1587, 1578, 1605]),
       (''themeLight'', Text [1585, 1608, 1588, 1606]),
       (''themeDark'', Text [1578, 1740, 1585, 1607]),
       (''about'', Text [1583, 1585, 1576, 1575, 1585, 1607]),
       (''version'', Text [1606, 1587, 1582, 1607]),
       (''logoutConfirm'', Text ([1582, 1575, 1585, 1580] @ lit '' '' @ [1588, 1608, 1740, 1567])),
       (''account'', Text [1581, 1587, 1575, 1576]),
       (''buyerQuestions'', Text ([1575, 1586] @ lit '' '' @ [1582, 1585, 1740, 1583, 1575, 1585] @ lit '' '' @ [1670, 1607] @
         lit '' '' @ [1576, 1662, 1585, 1587, 1740, 1605])),
       (''buyerQuestionsHint'', Text ([1606, 1575, 1605, 1548] @ lit '' '' @ [1605, 1608, 1576, 1575, 1740, 1604, 1548] @ lit '' '' @
         [1570, 1583, 1585, 1587, 8230])),
       (''walletsRowHint'', Text ([1570, 1583, 1585, 1587] @ lit '' '' @ [1578, 1585, 1608, 1606] @ lit '' '' @ [1740, 1575] @
         lit '' '' @ [1576, 1575, 1740, 1606, 1606, 1587] @ lit '' '' @ [1670, 1740, 1606])),
       (''fieldFullName'', Text [1606, 1575, 1605]),
       (''fieldPhone'', Text [1605, 1608, 1576, 1575, 1740, 1604]),
       (''fieldShipping'', Text ([1570, 1583, 1585, 1587] @ lit '' '' @ [1575, 1585, 1587, 1575, 1604])),
       (''fieldPostal'', Text ([1705, 1583] @ lit '' '' @ [1662, 1587, 1578, 1740])),
       (''fieldEmail'', Text [1575, 1740, 1605, 1740, 1604]),
       (''fieldNote'', Text ([1740, 1575, 1583, 1583, 1575, 1588, 1578] @ lit '' '' @ [1582, 1585, 1740, 1583, 1575, 1585]))]"

definition fa_receipt :: tvalue where
  "fa_receipt = Group [
       (''title'', Text ([1662, 1585, 1583, 1575, 1582, 1578] @ lit '' '' @ [1588, 1583])),
       (''copyDetails'', Text ([1705, 1662, 1740] @ lit '' '' @ [1585, 1587, 1740, 1583])),
       (''transaction'', Text [1578, 1585, 1575, 1705, 1606, 1588]),
       (''network'', Text [1588, 1576, 1705, 1607]),
       (''usdt'', Text [1578, 1578, 1585]),
       (''received'', Text [1583, 1585, 1740, 1575, 1601, 1578, 8204, 1588, 1583, 1607]),
       (''share'', Text ([1575, 1588, 1578, 1585, 1575, 1705, 8204, 1711, 1584, 1575, 1585, 1740] @ lit '' '' @
         [1585, 1587, 1740, 1583])),
       (''print'', Text [1670, 1575, 1662])]"

definition fa_timeline :: tvalue where
  "fa_timeline = Group [
       (''title'', Text [1601, 1593, 1575, 1604, 1740, 1578]),
       (''events'', Group [
         (''order.created'', Text ([1587, 1601, 1575, 1585, 1588] @ lit '' '' @ [1587, 1575, 1582, 1578, 1607] @ lit '' '' @
           [1588, 1583])),
         (''customer.details_submitted'', Text ([1580, 1586, 1574, 1740, 1575, 1578] @ lit '' '' @ [1605, 1588, 1578, 1585, 1740] @ lit '' '' @
           [1579, 1576, 1578] @ lit '' '' @ [1588, 1583])),
         (''fulfillment.processing'', Text ([1583, 1585] @ lit '' '' @ [1581, 1575, 1604] @ lit '' '' @
           [1570, 1605, 1575, 1583, 1607, 8204, 1587, 1575, 1586, 1740])),
         (''fulfillment.shipped'', Text ([1575, 1585, 1587, 1575, 1604] @ lit '' '' @ [1588, 1583])),
         (''fulfillment.delivered'', Text ([1578, 1581, 1608, 1740, 1604] @ lit '' '' @ [1588, 1583])),
         (''fulfillment.cancelled'', Text ([1604, 1594, 1608] @ lit '' '' @ [1588, 1583])),
         (''payment.seen'', Text ([1662, 1585, 1583, 1575, 1582, 1578] @ lit '' '' @ [1583, 1740, 1583, 1607] @ lit '' '' @
           [1588, 1583])),
         (''payment.confirming'', Text ([1583, 1585] @ lit '' '' @ [1581, 1575, 1604] @ lit '' '' @ [1578, 1571, 1740, 1740, 1583])),
         (''payment.paid'', Text ([1662, 1585, 1583, 1575, 1582, 1578] @ lit '' '' @ [1588, 1583] @ lit '' '' @ [10003])),
         (''payment.expired'', Text ([1605, 1606, 1602, 1590, 1740] @ lit '' '' @ [1588, 1583])),
         (''payment.underpaid'', Text ([1605, 1576, 1604, 1594] @ lit '' '' @ [1705, 1605, 1578, 1585] @ lit '' '' @ [1575, 1587, 1578])),
         (''payment.overpaid'', Text ([1605, 1576, 1604, 1594] @ lit '' '' @ [1576, 1740, 1588, 1578, 1585] @ lit '' '' @
           [1575, 1587, 1578])),
         (''payment.needs_review'', Text ([1606, 1740, 1575, 1586] @ lit '' '' @ [1576, 1607] @ lit '' '' @ [1576, 1585, 1585, 1587, 1740])),
         (''payment.unmatched_ambiguous'', Text ([1606, 1740, 1575, 1586] @ lit '' '' @ [1576, 1607] @ lit '' '' @ [1576, 1585, 1585, 1587, 1740])),
         (''payment.late'', Text ([1583, 1740, 1585] @ lit '' '' @ [1662, 1585, 1583, 1575, 1582, 1578] @ lit '' '' @ [1588, 1583])),
         (''payment.duplicate'', Text ([1662, 1585, 1583, 1575, 1582, 1578] @ lit '' '' @ [1575, 1590, 1575, 1601, 1607] @ lit '' '' @
           [1583, 1740, 1583, 1607] @ lit '' '' @ [1588, 1583]))])]"

definition fa_trust :: tvalue where
  "fa_trust = Group [
       (''emailVerified'', Text ([1575, 1740, 1605, 1740, 1604] @ lit '' '' @ [1578, 1571, 1740, 1740, 1583] @ lit '' '' @
         [1588, 1583, 1607])),
       (''phoneVerified'', Text ([1605, 1608, 1576, 1575, 1740, 1604] @ lit '' '' @ [1578, 1571, 1740, 1740, 1583] @ lit '' '' @
         [1588, 1583, 1607])),
       (''walletConfigured'', Text ([1570, 1605, 1575, 1583, 1607, 1620] @ lit '' '' @ [1583, 1585, 1740, 1575, 1601, 1578] @ lit '' '' @
         [1662, 1585, 1583, 1575, 1582, 1578]))]"

definition fa_checkout :: tvalue where
  "fa_checkout = Group [
       (''poweredBy'', Text [1662, 1608, 1604, 1740]),
       (''amount'', Text [1605, 1576, 1604, 1594]),
       (''usdt'', Text (lit ''USDT'')),
       (''toman'', Text [1578, 1608, 1605, 1575, 1606]),
       (''payStore'', Text ([1662, 1585, 1583, 1575, 1582, 1578] @ lit '' '' @ [1576, 1607] @ lit '' {name}'')),
       (''networkTron'', Text (lit ''USDT '' @ [183] @ lit '' '' @ [1578, 1585, 1608, 1606])),
       (''networkBsc'', Text (lit ''USDT '' @ [183] @ lit '' '' @ [1576, 1575, 1740, 1606, 1606, 1587] @ lit '' '' @
         [1670, 1740, 1606])),
       (''waitingTitle'', Text ([1605, 1606, 1578, 1592, 1585] @ lit '' '' @ [1662, 1585, 1583, 1575, 1582, 1578])),
       (''waitingBody'', Text ([1582, 1608, 1583, 1705, 1575, 1585] @ lit '' '' @ [1662, 1740, 1583, 1575] @ lit '' '' @
         [1605, 1740, 8204, 1705, 1606, 1740, 1605] @ lit ''. '' @ [1575, 1740, 1606] @ lit '' '' @
         [1589, 1601, 1581, 1607] @ lit '' '' @ [1585, 1575] @ lit '' '' @ [1576, 1575, 1586] @ lit '' '' @
         [1576, 1711, 1584, 1575, 1585] @ lit '' '' @ [1740, 1575] @ lit '' '' @ [1607, 1585] @ lit '' '' @
         [1608, 1602, 1578] @ lit '' '' @ [1576, 1585, 1711, 1588, 1578, 1740] @ lit ''.'')),
       (''openingWallet'', Text ([1583, 1585] @ lit '' '' @ [1581, 1575, 1604] @ lit '' '' @ [1576, 1575, 1586] @ lit '' '' @
         [1705, 1585, 1583, 1606] @ lit '' '' @ [1705, 1740, 1601, 8230])),
       (''detectedBody'', Text ([1583, 1575, 1585, 1740, 1605] @ lit '' '' @ [1578, 1571, 1740, 1740, 1583] @ lit '' '' @
         [1605, 1740, 8204, 1705, 1606, 1740, 1605] @ lit ''. '' @
         [1605, 1593, 1605, 1608, 1604, 1575, 1611] @ lit '' '' @ [1591, 1608, 1604] @ lit '' '' @
         [1606, 1605, 1740, 8204, 1705, 1588, 1583] @ lit ''.'')),
       (''confirmingBody'', Text ([1583, 1575, 1585, 1740, 1605] @ lit '' '' @ [1578, 1571, 1740, 1740, 1583] @ lit '' '' @
         [1605, 1740, 8204, 1705, 1606, 1740, 1605] @ lit ''. '' @
         [1605, 1593, 1605, 1608, 1604, 1575, 1611] @ lit '' '' @ [1591, 1608, 1604] @ lit '' '' @
         [1606, 1605, 1740, 8204, 1705, 1588, 1583] @ lit ''.'')),
       (''closePage'', Text ([1605, 1740, 8204, 1578, 1608, 1575, 1606, 1740] @ lit '' '' @ [1575, 1740, 1606] @ lit '' '' @
         [1589, 1601, 1581, 1607] @ lit '' '' @ [1585, 1575] @ lit '' '' @ [1576, 1576, 1606, 1583, 1740] @
         lit ''.'')),
       (''notFound'', Text ([1575, 1740, 1606] @ lit '' '' @ [1604, 1740, 1606, 1705] @ lit '' '' @
         [1662, 1585, 1583, 1575, 1582, 1578] @ lit '' '' @ [1583, 1585] @ lit '' '' @
         [1583, 1587, 1578, 1585, 1587] @ lit '' '' @ [1606, 1740, 1587, 1578] @ lit ''.'')),
       (''copyMerchant'', Text [1601, 1585, 1608, 1588, 1606, 1583, 1607]),
       (''copyAmountLine'', Text [1605, 1576, 1604, 1594]),
       (''copyNetworkLine'', Text [1588, 1576, 1705, 1607]),
       (''copyAddressLine'', Text [1570, 1583, 1585, 1587]),
       (''copyHeading'', Text ([1662, 1585, 1583, 1575, 1582, 1578] @ lit '' '' @ [1662, 1608, 1604, 1740])),
       (''continue'', Text ([1575, 1583, 1575, 1605, 1607] @ lit '' '' @ [1576, 1607] @ lit '' '' @
         [1662, 1585, 1583, 1575, 1582, 1578])),
       (''selectNetwork'', Text ([1670, 1591, 1608, 1585] @ lit '' '' @ [1662, 1585, 1583, 1575, 1582, 1578] @ lit '' '' @
         [1605, 1740, 8204, 1705, 1606, 1740, 1567])),
       (''recommend'', Text [1662, 1740, 1588, 1606, 1607, 1575, 1583, 1740]),
       (''previouslyUsed'', Text ([1602, 1576, 1604, 1575, 1611] @ lit '' '' @ [1575, 1587, 1578, 1601, 1575, 1583, 1607] @ lit '' '' @
         [1588, 1583, 1607])),
       (''networkTronHint'', Text ([1605, 1593, 1605, 1608, 1604, 1575, 1611] @ lit '' '' @ [1587, 1585, 1740, 1593, 8204, 1578, 1585] @
         lit '' '' @ [1608] @ lit '' '' @ [1575, 1585, 1586, 1575, 1606, 8204, 1578, 1585] @ lit '' '' @
         [1575, 1587, 1578] @ lit ''.'')),
       (''networkBscHint'', Text ([1575, 1711, 1585] @ lit '' '' @ [1705, 1740, 1601, 8204, 1575, 1578] @ lit '' '' @
         [1585, 1608, 1740] @ lit '' '' @ [1576, 1575, 1740, 1606, 1606, 1587] @ lit '' '' @
         [1670, 1740, 1606] @ lit '' '' @ [1575, 1587, 1578] @ lit ''.'')),
       (''exactAmount'', Text ([1583, 1602, 1740, 1602, 1575, 1611] @ lit '' '' @ [1575, 1740, 1606] @ lit '' '' @
         [1605, 1576, 1604, 1594] @ lit '' '' @ [1585, 1575] @ lit '' '' @ [1576, 1601, 1585, 1587, 1578])),
       (''exactHint'', Text ([1607, 1605, 1740, 1606] @ lit '' '' @ [1605, 1576, 1604, 1594] @ lit '' '' @
         [1583, 1602, 1740, 1602] @ lit '' '' @ [1585, 1575] @ lit '' '' @ [1576, 1601, 1585, 1587, 1578] @
         lit '' '' @ [1578, 1575] @ lit '' '' @ [1662, 1585, 1583, 1575, 1582, 1578, 1578] @ lit '' '' @
         [1582, 1608, 1583, 1705, 1575, 1585] @ lit '' '' @ [1662, 1740, 1583, 1575] @ lit '' '' @
         [1588, 1608, 1583] @ lit ''.'')),
       (''whyExactAmount'', Text ([1670, 1585, 1575] @ lit '' '' @ [1575, 1740, 1606] @ lit '' '' @ [1605, 1576, 1604, 1594] @
         lit '' '' @ [1583, 1602, 1740, 1602, 1567])),
       (''copyAddress'', Text ([1705, 1662, 1740] @ lit '' '' @ [1570, 1583, 1585, 1587])),
       (''copyAmount'', Text ([1705, 1662, 1740] @ lit '' '' @ [1605, 1576, 1604, 1594])),
       (''copyPaymentDetails'', Text ([1705, 1662, 1740] @ lit '' '' @ [1580, 1586, 1574, 1740, 1575, 1578] @ lit '' '' @
         [1662, 1585, 1583, 1575, 1582, 1578])),
       (''amountCopied'', Text ([1605, 1576, 1604, 1594] @ lit '' '' @ [1705, 1662, 1740] @ lit '' '' @ [1588, 1583] @ lit '' '' @
         [10003])),
       (''addressCopied'', Text ([1570, 1583, 1585, 1587] @ lit '' '' @ [1705, 1662, 1740] @ lit '' '' @ [1588, 1583] @ lit '' '' @
         [10003])),
       (''detailsCopied'', Text ([1580, 1586, 1574, 1740, 1575, 1578] @ lit '' '' @ [1705, 1662, 1740] @ lit '' '' @ [1588, 1583] @
         lit '' '' @ [10003])),
       (''openWallet'', Text ([1576, 1575, 1586] @ lit '' '' @ [1705, 1585, 1583, 1606] @ lit '' '' @ [1705, 1740, 1601])),
       (''payWithWallet'', Text ([1662, 1585, 1583, 1575, 1582, 1578] @ lit '' '' @ [1576, 1575] @ lit '' '' @ [1705, 1740, 1601] @
         lit '' '' @ [1662, 1608, 1604])),
       (''payWithTronlink'', Text ([1662, 1585, 1583, 1575, 1582, 1578] @ lit '' '' @ [1576, 1575] @ lit '' TronLink'')),
       (''changeWallet'', Text [1578, 1594, 1740, 1740, 1585]),
       (''chooseWallet'', Text ([1575, 1606, 1578, 1582, 1575, 1576] @ lit '' '' @ [1705, 1740, 1601] @ lit '' '' @
         [1662, 1608, 1604])),
       (''showQr'', Text ([1606, 1605, 1575, 1740, 1588] @ lit '' QR'')),
       (''scanWithWallet'', Text ([1576, 1575] @ lit '' '' @ [1705, 1740, 1601] @ lit '' '' @ [1662, 1608, 1604] @ lit '' '' @
         [1575, 1587, 1705, 1606] @ lit '' '' @ [1705, 1606])),
       (''waitingPayment'', Text ([1605, 1606, 1578, 1592, 1585] @ lit '' '' @ [1662, 1585, 1583, 1575, 1582, 1578, 8230])),
       (''quoteExpires'', Text ([1605, 1576, 1604, 1594] @ lit '' '' @ [1578, 1575])),
       (''refreshAmount'', Text ([1578, 1575, 1586, 1607, 8204, 1705, 1585, 1583, 1606] @ lit '' '' @
         [1662, 1585, 1583, 1575, 1582, 1578])),
       (''wrongNetwork'', Text ([1601, 1602, 1591] @ lit '' '' @ [1585, 1608, 1740] @ lit '' '' @ [1607, 1605, 1575, 1606] @
         lit '' '' @ [1588, 1576, 1705, 1607, 8204, 1575, 1740] @ lit '' '' @ [1705, 1607] @ lit '' '' @
         [1575, 1606, 1578, 1582, 1575, 1576] @ lit '' '' @ [1705, 1585, 1583, 1740] @ lit '' '' @
         [1576, 1601, 1585, 1587, 1578] @ lit ''. '' @ [1588, 1576, 1705, 1607] @ lit '' '' @
         [1575, 1588, 1578, 1576, 1575, 1607] @ lit '' '' @
         [1576, 1585, 1606, 1605, 1740, 8204, 1711, 1585, 1583, 1583] @ lit ''.'')),
       (''customerInfo'', Text ([1575, 1591, 1604, 1575, 1593, 1575, 1578] @ lit '' '' @ [1578, 1608])),
       (''paymentDetails'', Text ([1580, 1586, 1574, 1740, 1575, 1578] @ lit '' '' @ [1662, 1585, 1583, 1575, 1582, 1578])),
       (''network'', Text [1588, 1576, 1705, 1607]),
       (''token'', Text [1583, 1575, 1585, 1575, 1740, 1740]),
       (''paymentReceived'', Text ([1662, 1585, 1583, 1575, 1582, 1578] @ lit '' '' @ [1588, 1583])),
       (''orderConfirmed'', Text ([1587, 1601, 1575, 1585, 1588] @ lit '' '' @ [1578, 1571, 1740, 1740, 1583] @ lit '' '' @
         [1588, 1583])),
       (''orderShipped'', Text ([1575, 1585, 1587, 1575, 1604] @ lit '' '' @ [1588, 1583])),
       (''orderStatus'', Text ([1608, 1590, 1593, 1740, 1578] @ lit '' '' @ [1587, 1601, 1575, 1585, 1588])),
       (''trackingCode'', Text ([1705, 1583] @ lit '' '' @ [1585, 1607, 1711, 1740, 1585, 1740])),
       (''orderRef'', Text [1587, 1601, 1575, 1585, 1588]),
       (''viewTx'', Text ([1605, 1588, 1575, 1607, 1583, 1607] @ lit '' '' @ [1578, 1585, 1575, 1705, 1606, 1588])),
       (''checkingPayment'', Text ([1583, 1585] @ lit '' '' @ [1581, 1575, 1604] @ lit '' '' @ [1576, 1585, 1585, 1587, 1740] @
         lit '' '' @ [1662, 1585, 1583, 1575, 1582, 1578, 8230])),
       (''paymentDetected'', Text ([1662, 1585, 1583, 1575, 1582, 1578] @ lit '' '' @ [1583, 1740, 1583, 1607] @ lit '' '' @
         [1588, 1583] @ lit '' '' @ [10003])),
       (''canLeave'', Text ([1605, 1740, 8204, 1578, 1608, 1575, 1606, 1740] @ lit '' '' @ [1575, 1740, 1606] @ lit '' '' @
         [1589, 1601, 1581, 1607] @ lit '' '' @ [1585, 1575] @ lit '' '' @ [1576, 1576, 1606, 1583, 1740] @
         lit ''. '' @ [1576, 1585, 1585, 1587, 1740] @ lit '' '' @ [1582, 1608, 1583, 1588] @ lit '' '' @
         [1575, 1583, 1575, 1605, 1607] @ lit '' '' @ [1583, 1575, 1585, 1583] @ lit ''.'')),
       (''successTitle'', Text ([1578, 1605, 1575, 1605] @ lit '' '' @ [1588, 1583])),
       (''successReceivedBy'', Text ([1662, 1585, 1583, 1575, 1582, 1578] @ lit '' '' @ [1583, 1585, 1740, 1575, 1601, 1578] @ lit '' '' @
         [1588, 1583] @ lit '' '' @ [1578, 1608, 1587, 1591])),
       (''successSellerNotify'', Text ([1576, 1607] @ lit '' '' @ [1601, 1585, 1608, 1588, 1606, 1583, 1607] @ lit '' '' @
         [1582, 1576, 1585] @ lit '' '' @ [1605, 1740, 8204, 1583, 1607, 1740, 1605] @ lit ''.'')),
       (''iabTitle'', Text ([1705, 1740, 1601] @ lit '' '' @ [1662, 1608, 1604] @ lit '' '' @ [1576, 1575, 1586] @ lit '' '' @
         [1606, 1605, 1740, 8204, 1588, 1608, 1583, 1567])),
       (''openInBrowser'', Text ([1576, 1575, 1586] @ lit '' '' @ [1705, 1585, 1583, 1606] @ lit '' '' @ [1583, 1585] @ lit '' '' @
         [1605, 1585, 1608, 1585, 1711, 1585])),
       (''igBannerTitle'', Text ([1576, 1585, 1575, 1740] @ lit '' '' @ [1662, 1585, 1583, 1575, 1582, 1578] @ lit '' '' @
         [1576, 1575] @ lit '' '' @ [1705, 1740, 1601] @ lit '' '' @ [1662, 1608, 1604] @ lit '' '' @
         [1583, 1585] @ lit '' '' @ [1587, 1575, 1601, 1575, 1585, 1740] @ lit '' '' @ [1740, 1575] @
         lit '' '' @ [1705, 1585, 1608, 1605] @ lit '' '' @ [1576, 1575, 1586] @ lit '' '' @ [1705, 1606])),
       (''igBannerCopy'', Text ([1705, 1662, 1740] @ lit '' '' @ [1604, 1740, 1606, 1705] @ lit '' '' @
         [1662, 1585, 1583, 1575, 1582, 1578])),
       (''ivePaid'', Text ([1662, 1585, 1583, 1575, 1582, 1578] @ lit '' '' @ [1705, 1585, 1583, 1605])),
       (''pay'', Text [1662, 1585, 1583, 1575, 1582, 1578]),
       (''wallets'', Group [
         (''tronlink'', Text (lit ''TronLink'')),
         (''tronlinkHint'', Text ([1662, 1740, 1588, 1606, 1607, 1575, 1583, 1740] @ lit '' '' @ [1576, 1585, 1575, 1740] @
           lit '' '' @ [1578, 1585, 1608, 1606])),
         (''walletconnect'', Text (lit ''WalletConnect'')),
         (''walletconnectHint'', Text ([1575, 1578, 1589, 1575, 1604] @ lit '' '' @ [1705, 1740, 1601] @ lit '' '' @ [1662, 1608, 1604] @
           lit '' '' @ [1587, 1575, 1586, 1711, 1575, 1585])),
         (''trust'', Text (lit ''Trust Wallet'')),
         (''trustHint'', Text ([1575, 1586] @ lit '' '' @ [1591, 1585, 1740, 1602] @ lit '' WalletConnect'')),
         (''other'', Text ([1705, 1740, 1601] @ lit '' '' @ [1662, 1608, 1604] @ lit '' '' @ [1583, 1740, 1711, 1585]))]),
       (''exception'', Group [
         (''expiredTitle'', Text ([1575, 1740, 1606] @ lit '' '' @ [1583, 1585, 1582, 1608, 1575, 1587, 1578] @ lit '' '' @
           [1662, 1585, 1583, 1575, 1582, 1578] @ lit '' '' @ [1605, 1606, 1602, 1590, 1740] @ lit '' '' @
           [1588, 1583])),
         (''expiredBody'', Text ([1576, 1585, 1575, 1740] @ lit '' '' @ [1575, 1740, 1606] @ lit '' '' @
           [1583, 1585, 1582, 1608, 1575, 1587, 1578] @ lit '' '' @
           [1662, 1585, 1583, 1575, 1582, 1578, 1740] @ lit '' '' @ [1578, 1571, 1740, 1740, 1583] @
           lit '' '' @ [1606, 1588, 1583, 1607] @ lit ''.'')),
         (''underpaidTitle'', Text ([1662, 1585, 1583, 1575, 1582, 1578, 1578] @ lit '' '' @ [1662, 1740, 1583, 1575] @ lit '' '' @
           [1588, 1583, 1548] @ lit '' '' @ [1575, 1605, 1575] @ lit '' '' @ [1605, 1576, 1604, 1594] @
           lit '' '' @ [1705, 1605, 1740] @ lit '' '' @ [1705, 1605, 1578, 1585] @ lit '' '' @
           [1575, 1587, 1578] @ lit ''.'')),
         (''underpaidBody'', Text ([1583, 1585] @ lit '' '' @ [1581, 1575, 1604] @ lit '' '' @
           [1576, 1585, 1585, 1587, 1740, 8204, 1575, 1740, 1605] @ lit ''. '' @
           [1601, 1593, 1604, 1575, 1611] @ lit '' '' @ [1662, 1585, 1583, 1575, 1582, 1578] @ lit '' '' @
           [1583, 1740, 1711, 1585, 1740] @ lit '' '' @ [1606, 1601, 1585, 1587, 1578] @ lit ''.'')),
         (''overpaidTitle'', Text ([1662, 1585, 1583, 1575, 1582, 1578, 1578] @ lit '' '' @ [1662, 1740, 1583, 1575] @ lit '' '' @
           [1588, 1583, 1548] @ lit '' '' @ [1575, 1605, 1575] @ lit '' '' @ [1605, 1576, 1604, 1594] @
           lit '' '' @ [1576, 1740, 1588, 1578, 1585] @ lit '' '' @ [1575, 1586] @ lit '' '' @
           [1575, 1606, 1578, 1592, 1575, 1585] @ lit '' '' @ [1575, 1587, 1578] @ lit ''.'')),
         (''overpaidBody'', Text ([1583, 1585] @ lit '' '' @ [1581, 1575, 1604] @ lit '' '' @
           [1576, 1585, 1585, 1587, 1740, 8204, 1575, 1740, 1605] @ lit ''. '' @
           [1662, 1585, 1583, 1575, 1582, 1578] @ lit '' '' @ [1583, 1740, 1711, 1585, 1740] @ lit '' '' @
           [1606, 1601, 1585, 1587, 1578] @ lit ''.'')),
         (''lateTitle'', Text ([1662, 1585, 1583, 1575, 1582, 1578, 1578] @ lit '' '' @ [1576, 1593, 1583] @ lit '' '' @
           [1575, 1586] @ lit '' '' @ [1575, 1606, 1602, 1590, 1575, 1740] @ lit '' '' @
           [1605, 1576, 1604, 1594] @ lit '' '' @ [1585, 1587, 1740, 1583] @ lit ''.'')),
         (''lateBody'', Text ([1583, 1585] @ lit '' '' @ [1581, 1575, 1604] @ lit '' '' @
           [1576, 1585, 1585, 1587, 1740, 8204, 1575, 1740, 1605] @ lit ''. '' @
           [1662, 1585, 1583, 1575, 1582, 1578] @ lit '' '' @ [1583, 1740, 1711, 1585, 1740] @ lit '' '' @
           [1606, 1601, 1585, 1587, 1578] @ lit ''.'')),
         (''reviewTitle'', Text ([1662, 1585, 1583, 1575, 1582, 1578, 1578] @ lit '' '' @ [1662, 1740, 1583, 1575] @ lit '' '' @
           [1588, 1583] @ lit ''.'')),
         (''reviewBody'', Text ([1602, 1576, 1604] @ lit '' '' @ [1575, 1586] @ lit '' '' @ [1578, 1571, 1740, 1740, 1583, 1548] @
           lit '' '' @ [1740, 1705] @ lit '' '' @ [1606, 1711, 1575, 1607] @ lit '' '' @
           [1587, 1585, 1740, 1593] @ lit '' '' @ [1604, 1575, 1586, 1605] @ lit '' '' @ [1575, 1587, 1578] @
           lit ''. '' @ [1662, 1585, 1583, 1575, 1582, 1578] @ lit '' '' @ [1583, 1740, 1711, 1585, 1740] @
           lit '' '' @ [1606, 1601, 1585, 1587, 1578] @ lit ''.'')),
         (''expected'', Text [1575, 1606, 1578, 1592, 1575, 1585]),
         (''received'', Text [1583, 1585, 1740, 1575, 1601, 1578, 1740]),
         (''dontSendAgain'', Text ([1601, 1593, 1604, 1575, 1611] @ lit '' '' @ [1662, 1585, 1583, 1575, 1582, 1578] @ lit '' '' @
           [1583, 1740, 1711, 1585, 1740] @ lit '' '' @ [1606, 1601, 1585, 1587, 1578] @ lit ''. '' @
           [1607, 1605, 1740, 1606] @ lit '' '' @ [1585, 1575] @ lit '' '' @ [1576, 1585, 1585, 1587, 1740] @
           lit '' '' @ [1605, 1740, 8204, 1705, 1606, 1740, 1605] @ lit ''.''))]),
       (''progress'', Group [
         (''requested'', Text [1605, 1606, 1578, 1592, 1585]),
         (''detected'', Text ([1583, 1740, 1583, 1607] @ lit '' '' @ [1588, 1583])),
         (''confirming'', Text [1578, 1571, 1740, 1740, 1583]),
         (''complete'', Text ([1662, 1585, 1583, 1575, 1582, 1578] @ lit '' '' @ [1588, 1583])),
         (''confirmations'', Text (lit ''{current} '' @ [1575, 1586] @ lit '' {required} '' @ [1578, 1571, 1740, 1740, 1583]))])]"

definition fa_auth :: tvalue where
  "fa_auth = Group [
       (''emailRequired'', Text ([1575, 1740, 1605, 1740, 1604] @ lit '' '' @ [1604, 1575, 1586, 1605] @ lit '' '' @
         [1575, 1587, 1578])),
       (''phoneInvalid'', Text ([1588, 1605, 1575, 1585, 1607] @ lit '' '' @ [1605, 1608, 1576, 1575, 1740, 1604] @ lit '' '' @
         [1575, 1740, 1585, 1575, 1606] @ lit '' '' @ [1605, 1593, 1578, 1576, 1585] @ lit '' '' @
         [1608, 1575, 1585, 1583] @ lit '' '' @ [1705, 1606])),
       (''otpSent'', Text ([1705, 1583] @ lit '' '' @ [1575, 1585, 1587, 1575, 1604] @ lit '' '' @ [1588, 1583])),
       (''otpInvalid'', Text ([1705, 1583] @ lit '' '' @ [1606, 1575, 1605, 1593, 1578, 1576, 1585] @ lit '' '' @ [1740, 1575] @
         lit '' '' @ [1605, 1606, 1602, 1590, 1740] @ lit '' '' @ [1575, 1587, 1578]))]"

definition fa_common :: tvalue where
  "fa_common = Group [
       (''loading'', Text ([1583, 1585] @ lit '' '' @ [1581, 1575, 1604] @ lit '' '' @
         [1576, 1575, 1585, 1711, 1584, 1575, 1585, 1740, 8230])),
       (''error'', Text ([1605, 1588, 1705, 1604, 1740] @ lit '' '' @ [1662, 1740, 1588] @ lit '' '' @ [1570, 1605, 1583] @
         lit ''. '' @ [1583, 1608, 1576, 1575, 1585, 1607] @ lit '' '' @ [1578, 1604, 1575, 1588] @
         lit '' '' @ [1705, 1606] @ lit ''.'')),
       (''saved'', Text ([1584, 1582, 1740, 1585, 1607] @ lit '' '' @ [1588, 1583])),
       (''copy'', Text [1705, 1662, 1740]),
       (''copied'', Text ([1705, 1662, 1740] @ lit '' '' @ [1588, 1583])),
       (''offline'', Text ([1575, 1585, 1578, 1576, 1575, 1591] @ lit '' '' @ [1602, 1591, 1593] @ lit '' '' @ [1588, 1583] @
         lit ''. '' @ [1582, 1608, 1583, 1588] @ lit '' '' @ [1608, 1589, 1604] @ lit '' '' @
         [1605, 1740, 8204, 1588, 1608, 1583] @ lit ''.'')),
       (''reconnect'', Text ([1583, 1585] @ lit '' '' @ [1581, 1575, 1604] @ lit '' '' @ [1608, 1589, 1604] @ lit '' '' @
         [1588, 1583, 1606, 8230])),
       (''cancel'', Text [1604, 1594, 1608]),
       (''confirm'', Text [1578, 1571, 1740, 1740, 1583]),
       (''back'', Text [1576, 1575, 1586, 1711, 1588, 1578]),
       (''mainNav'', Text [1605, 1606, 1608]),
       (''retry'', Text [1583, 1608, 1576, 1575, 1585, 1607]),
       (''moneySafe'', Text ([1575, 1711, 1585] @ lit '' '' @ [1662, 1585, 1583, 1575, 1582, 1578] @ lit '' '' @
         [1705, 1585, 1583, 1607, 8204, 1575, 1740, 1548] @ lit '' '' @ [1662, 1608, 1604] @ lit '' '' @
         [1607, 1606, 1608, 1586] @ lit '' '' @ [1662, 1740, 1588] @ lit '' '' @ [1582, 1608, 1583, 1578] @
         lit '' '' @ [1575, 1587, 1578] @ lit '' '' @ [8212] @ lit '' '' @ [1583, 1575, 1585, 1740, 1605] @
         lit '' '' @ [1576, 1585, 1585, 1587, 1740] @ lit '' '' @ [1605, 1740, 8204, 1705, 1606, 1740, 1605] @
         lit ''.''))]"

definition fa_install :: tvalue where
  "fa_install = Group [
       (''title'', Text ([1662, 1608, 1604, 1740] @ lit '' '' @ [1585, 1575] @ lit '' '' @ [1576, 1607] @ lit '' '' @
         [1589, 1601, 1581, 1607] @ lit '' '' @ [1575, 1589, 1604, 1740] @ lit '' '' @
         [1575, 1590, 1575, 1601, 1607] @ lit '' '' @ [1705, 1606])),
       (''subtitle'', Text ([1662, 1608, 1604, 1740] @ lit '' '' @ [1585, 1575] @ lit '' '' @ [1576, 1575] @ lit '' '' @
         [1740, 1705] @ lit '' '' @ [1590, 1585, 1576, 1607] @ lit '' '' @ [1576, 1575, 1586] @ lit '' '' @
         [1705, 1606] @ lit '' '' @ [8212] @ lit '' '' @ [1605, 1579, 1604] @ lit '' '' @ [1740, 1705] @
         lit '' '' @ [1575, 1662] @ lit ''.'')),
       (''notNow'', Text ([1575, 1604, 1575, 1606] @ lit '' '' @ [1606, 1607])),
       (''install'', Text ([1606, 1589, 1576] @ lit '' '' @ [1662, 1608, 1604, 1740])),
       (''iosStep1'', Text ([1583, 1585] @ lit '' '' @ [1587, 1575, 1601, 1575, 1585, 1740] @ lit '' '' @ [1585, 1608, 1740] @
         lit '' Share '' @ [1576, 1586, 1606])),
       (''iosStep2'', Text (lit ''Add to Home Screen '' @ [1585, 1575] @ lit '' '' @ [1576, 1586, 1606])),
       (''iosStep3'', Text (lit ''Add '' @ [1585, 1575] @ lit '' '' @ [1576, 1586, 1606])),
       (''androidHint'', Text ([1662, 1608, 1604, 1740] @ lit '' '' @ [1585, 1575] @ lit '' '' @ [1606, 1589, 1576] @ lit '' '' @
         [1705, 1606] @ lit '' '' @ [1578, 1575] @ lit '' '' @ [1575, 1586] @ lit '' '' @
         [1589, 1601, 1581, 1607] @ lit '' '' @ [1575, 1589, 1604, 1740] @ lit '' '' @
         [1587, 1585, 1740, 1593, 8204, 1578, 1585] @ lit '' '' @ [1576, 1575, 1586] @ lit '' '' @
         [1588, 1608, 1583] @ lit ''.'')),
       (''desktopHint'', Text ([1662, 1608, 1604, 1740] @ lit '' '' @ [1585, 1575] @ lit '' '' @ [1575, 1586] @ lit '' '' @
         [1605, 1585, 1608, 1585, 1711, 1585] @ lit '' '' @ [1606, 1589, 1576] @ lit '' '' @ [1705, 1606] @
         lit '' '' @ [1578, 1575] @ lit '' '' @ [1605, 1579, 1604] @ lit '' '' @ [1740, 1705] @ lit '' '' @
         [1575, 1662] @ lit '' '' @ [1580, 1583, 1575] @ lit '' '' @ [1576, 1575, 1586] @ lit '' '' @
         [1588, 1608, 1583] @ lit ''.''))]"

definition fa_admin :: tvalue where
  "fa_admin = Group [
       (''title'', Text [1575, 1583, 1605, 1740, 1606]),
       (''resolve'', Text ([1576, 1585, 1585, 1587, 1740] @ lit '' / '' @ [1585, 1601, 1593])),
       (''resolveHint'', Text ([1593, 1604, 1575, 1605, 1578, 8204, 1711, 1584, 1575, 1585, 1740] @ lit '' '' @
         [1583, 1587, 1578, 1740] @ lit '' '' @ [171, 1662, 1585, 1583, 1575, 1582, 1578] @ lit '' '' @
         [1588, 1583, 187] @ lit '' '' @ [1605, 1605, 1705, 1606] @ lit '' '' @ [1606, 1740, 1587, 1578] @
         lit ''. '' @ [1601, 1602, 1591] @ lit '' '' @ [1662, 1585, 1583, 1575, 1582, 1578] @ lit '' '' @
         [1578, 1571, 1740, 1740, 1583, 1588, 1583, 1607] @ lit '' '' @ [1575, 1740, 1606] @ lit '' '' @
         [1705, 1575, 1585] @ lit '' '' @ [1585, 1575] @ lit '' '' @ [1605, 1740, 8204, 1705, 1606, 1583] @
         lit ''.'')),
       (''intentId'', Text ([1588, 1606, 1575, 1587, 1607] @ lit '' '' @ [1662, 1585, 1583, 1575, 1582, 1578])),
       (''action'', Text [1575, 1602, 1583, 1575, 1605]),
       (''reason'', Text [1583, 1604, 1740, 1604]),
       (''eventId'', Text ([1588, 1606, 1575, 1587, 1607] @ lit '' '' @ [1585, 1608, 1740, 1583, 1575, 1583] @ lit '' ('' @
         [1575, 1582, 1578, 1740, 1575, 1585, 1740] @ lit '')'')),
       (''submit'', Text [1575, 1593, 1605, 1575, 1604]),
       (''intents'', Text ([1662, 1585, 1583, 1575, 1582, 1578, 8204, 1607, 1575, 1740] @ lit '' '' @ [1575, 1582, 1740, 1585])),
       (''events'', Text ([1585, 1608, 1740, 1583, 1575, 1583, 1607, 1575, 1740] @ lit '' '' @
         [1586, 1606, 1580, 1740, 1585, 1607])),
       (''unmatched'', Text ([1585, 1608, 1740, 1583, 1575, 1583, 1607, 1575, 1740] @ lit '' '' @ [1576, 1583, 1608, 1606] @
         lit '' '' @ [1578, 1591, 1576, 1740, 1602])),
       (''resolved'', Text ([1575, 1593, 1605, 1575, 1604] @ lit '' '' @ [1588, 1583])),
       (''search'', Text [1580, 1587, 1578, 1580, 1608]),
       (''searchPlaceholder'', Text ([1601, 1585, 1608, 1588, 1711, 1575, 1607, 1548] @ lit '' '' @ [1587, 1601, 1575, 1585, 1588, 1548] @
         lit '' '' @ [1662, 1585, 1583, 1575, 1582, 1578, 1548] @ lit '' '' @
         [1578, 1585, 1575, 1705, 1606, 1588, 8230])),
       (''exceptions'', Text [1575, 1587, 1578, 1579, 1606, 1575, 1607, 1575]),
       (''timeline'', Text ([1582, 1591] @ lit '' '' @ [1586, 1605, 1575, 1606, 1740] @ lit '' '' @
         [1662, 1585, 1583, 1575, 1582, 1578])),
       (''deliveries'', Text ([1575, 1585, 1587, 1575, 1604] @ lit '' '' @ [1575, 1593, 1604, 1575, 1606, 8204, 1607, 1575])),
       (''ops'', Text ([1608, 1590, 1593, 1740, 1578] @ lit '' '' @ [1593, 1605, 1604, 1740, 1575, 1578])),
       (''actionNeedsReview'', Text ([1606, 1740, 1575, 1586] @ lit '' '' @ [1576, 1607] @ lit '' '' @ [1576, 1585, 1585, 1587, 1740])),
       (''actionAcknowledge'', Text ([1579, 1576, 1578] @ lit '' '' @ [1575, 1587, 1578, 1579, 1606, 1575])),
       (''actionNote'', Text ([1601, 1602, 1591] @ lit '' '' @ [1740, 1575, 1583, 1583, 1575, 1588, 1578])),
       (''retry'', Text ([1578, 1604, 1575, 1588] @ lit '' '' @ [1583, 1608, 1576, 1575, 1585, 1607]))]"

definition fa_store :: tvalue where
  "fa_store = Group [
       (''payThisBusiness'', Text ([1662, 1585, 1583, 1575, 1582, 1578] @ lit '' '' @ [1576, 1607] @ lit '' '' @ [1575, 1740, 1606] @
         lit '' '' @ [1601, 1585, 1608, 1588, 1711, 1575, 1607])),
       (''optionalReference'', Text ([1740, 1575, 1583, 1583, 1575, 1588, 1578] @ lit '' '' @ [1575, 1582, 1578, 1740, 1575, 1585, 1740])),
       (''referencePlaceholder'', Text ([1740, 1575, 1583, 1583, 1575, 1588, 1578] @ lit '' '' @ [1587, 1601, 1575, 1585, 1588])),
       (''continuePay'', Text [1575, 1583, 1575, 1605, 1607])]"

definition fa_links :: tvalue where
  "fa_links = Group [
       (''title'', Text ([1604, 1740, 1606, 1705, 8204, 1607, 1575, 1740] @ lit '' '' @
         [1602, 1575, 1576, 1604, 8204, 1575, 1587, 1578, 1601, 1575, 1583, 1607] @ lit '' '' @
         [1583, 1608, 1576, 1575, 1585, 1607])),
       (''empty'', Text ([1607, 1606, 1608, 1586] @ lit '' '' @ [1604, 1740, 1606, 1705] @ lit '' '' @
         [1602, 1575, 1576, 1604, 8204, 1575, 1587, 1578, 1601, 1575, 1583, 1607] @ lit '' '' @
         [1583, 1608, 1576, 1575, 1585, 1607] @ lit '' '' @ [1606, 1583, 1575, 1585, 1740] @ lit ''. '' @
         [1575, 1711, 1585] @ lit '' '' @ [1740, 1705] @ lit '' '' @ [1605, 1581, 1589, 1608, 1604] @
         lit '' '' @ [1585, 1575] @ lit '' '' @ [1586, 1740, 1575, 1583] @ lit '' '' @
         [1605, 1740, 8204, 1601, 1585, 1608, 1588, 1740, 1548] @ lit '' '' @ [1740, 1705, 1740] @ lit '' '' @
         [1576, 1587, 1575, 1586] @ lit ''.'')),
       (''create'', Text ([1587, 1575, 1582, 1578] @ lit '' '' @ [1604, 1740, 1606, 1705])),
       (''fixed'', Text ([1605, 1576, 1604, 1594] @ lit '' '' @ [1579, 1575, 1576, 1578])),
       (''custom'', Text ([1582, 1585, 1740, 1583, 1575, 1585] @ lit '' '' @ [1605, 1576, 1604, 1594] @ lit '' '' @
         [1585, 1575] @ lit '' '' @ [1605, 1740, 8204, 1711, 1584, 1575, 1585, 1583])),
       (''active'', Text [1601, 1593, 1575, 1604]),
       (''inactive'', Text [1582, 1575, 1605, 1608, 1588]),
       (''hint'', Text ([1604, 1740, 1606, 1705, 1740] @ lit '' '' @ [1705, 1607] @ lit '' '' @
         [1605, 1740, 8204, 1578, 1608, 1575, 1606, 1740] @ lit '' '' @ [1576, 1575, 1585, 1607, 1575] @
         lit '' '' @ [1576, 1601, 1585, 1587, 1578, 1740] @ lit '' '' @ [8212] @ lit '' '' @ [1606, 1607] @
         lit '' '' @ [1740, 1705] @ lit '' '' @ [1662, 1585, 1583, 1575, 1582, 1578] @ lit '' '' @
         [1740, 1705, 8204, 1576, 1575, 1585, 1607] @ lit ''.''))]"

definition fa_onboarding :: tvalue where
  "fa_onboarding = Group [
       (''title'', Text ([1585, 1575, 1607, 8204, 1575, 1606, 1583, 1575, 1586, 1740] @ lit '' '' @
         [1601, 1585, 1608, 1588, 1711, 1575, 1607])),
       (''stepOf'', Text ([1605, 1585, 1581, 1604, 1607] @ lit '' {n} '' @ [1575, 1586] @ lit '' {total}'')),
       (''next'', Text [1575, 1583, 1575, 1605, 1607]),
       (''back'', Text [1576, 1575, 1586, 1711, 1588, 1578]),
       (''skip'', Text ([1601, 1593, 1604, 1575, 1611] @ lit '' '' @ [1585, 1583] @ lit '' '' @ [1588, 1608])),
       (''finish'', Text ([1662, 1575, 1740, 1575, 1606] @ lit '' '' @
         [1585, 1575, 1607, 8204, 1575, 1606, 1583, 1575, 1586, 1740])),
       (''createPayment'', Text ([1662, 1585, 1583, 1575, 1582, 1578] @ lit '' '' @ [1580, 1583, 1740, 1583])),
       (''readyTitle'', Text ([1570, 1605, 1575, 1583, 1607, 8204, 1575, 1740] @ lit '' '' @ [10003])),
       (''readyBody'', Text ([1740, 1705] @ lit '' '' @ [1662, 1585, 1583, 1575, 1582, 1578] @ lit '' '' @
         [1576, 1587, 1575, 1586] @ lit '' '' @ [1608] @ lit '' '' @ [1604, 1740, 1606, 1705] @ lit '' '' @
         [1585, 1575] @ lit '' '' @ [1576, 1601, 1585, 1587, 1578] @ lit ''. '' @ [1607, 1605, 1740, 1606] @
         lit ''.'')),
       (''business'', Text ([1601, 1585, 1608, 1588, 1711, 1575, 1607] @ lit '' '' @ [1578, 1608])),
       (''businessHint'', Text ([1582, 1585, 1740, 1583, 1575, 1585] @ lit '' '' @ [1578, 1608] @ lit '' '' @ [1585, 1575] @
         lit '' '' @ [1575, 1740, 1606, 8204, 1591, 1608, 1585] @ lit '' '' @
         [1605, 1740, 8204, 1588, 1606, 1575, 1587, 1583] @ lit ''.'')),
       (''storeName'', Text ([1606, 1575, 1605] @ lit '' '' @ [1601, 1585, 1608, 1588, 1711, 1575, 1607])),
       (''storeSlug'', Text ([1604, 1740, 1606, 1705] @ lit '' '' @ [1601, 1585, 1608, 1588, 1711, 1575, 1607])),
       (''storeSlugHint'', Text (lit ''pooli.shop/'')),
       (''slugTaken'', Text ([1575, 1740, 1606] @ lit '' '' @ [1604, 1740, 1606, 1705] @ lit '' '' @
         [1602, 1576, 1604, 1575, 1611] @ lit '' '' @ [1711, 1585, 1601, 1578, 1607] @ lit '' '' @
         [1588, 1583, 1607])),
       (''slugReserved'', Text ([1575, 1740, 1606] @ lit '' '' @ [1604, 1740, 1606, 1705] @ lit '' '' @ [1585, 1586, 1585, 1608] @
         lit '' '' @ [1588, 1583, 1607] @ lit '' '' @ [1575, 1587, 1578])),
       (''slugInvalid'', Text ([1601, 1602, 1591] @ lit '' '' @ [1581, 1585, 1608, 1601] @ lit '' '' @
         [1575, 1606, 1711, 1604, 1740, 1587, 1740] @ lit '' '' @ [1608] @ lit '' '' @ [1593, 1583, 1583])),
       (''suggestSlug'', Text ([1662, 1740, 1588, 1606, 1607, 1575, 1583] @ lit '' '' @ [1604, 1740, 1606, 1705])),
       (''description'', Text ([1578, 1608, 1590, 1740, 1581] @ lit '' '' @ [1705, 1608, 1578, 1575, 1607])),
       (''supportEmail'', Text ([1575, 1740, 1605, 1740, 1604] @ lit '' '' @ [1662, 1588, 1578, 1740, 1576, 1575, 1606, 1740])),
       (''supportPhone'', Text ([1578, 1604, 1601, 1606] @ lit '' '' @ [1662, 1588, 1578, 1740, 1576, 1575, 1606, 1740])),
       (''defaults'', Text [1586, 1576, 1575, 1606]),
       (''defaultsHint'', Text ([1605, 1576, 1604, 1594, 8204, 1607, 1575] @ lit '' '' @ [1576, 1607] @ lit '' '' @
         [1578, 1608, 1605, 1575, 1606] @ lit '' '' @ [1605, 1740, 8204, 1605, 1575, 1606, 1583] @ lit ''.'')),
       (''locale'', Text [1586, 1576, 1575, 1606]),
       (''localeFa'', Text [1601, 1575, 1585, 1587, 1740]),
       (''localeEn'', Text [1575, 1606, 1711, 1604, 1740, 1587, 1740]),
       (''wallets'', Text ([1662, 1608, 1604] @ lit '' '' @ [1705, 1580, 1575] @ lit '' '' @ [1608, 1575, 1585, 1740, 1586] @
         lit '' '' @ [1576, 1588, 1607, 1567])),
       (''walletsHint'', Text ([1582, 1585, 1740, 1583, 1575, 1585] @ lit '' '' @ [1662, 1585, 1583, 1575, 1582, 1578] @ lit '' '' @
         [1585, 1575] @ lit '' '' @ [1576, 1607] @ lit '' '' @ [1575, 1740, 1606, 1580, 1575] @ lit '' '' @
         [1605, 1740, 8204, 1601, 1585, 1587, 1578, 1583] @ lit ''. '' @ [1705, 1606, 1578, 1585, 1604] @
         lit '' '' @ [1570, 1583, 1585, 1587] @ lit '' '' @ [1576, 1575] @ lit '' '' @
         [1578, 1608, 1587, 1578] @ lit '' '' @ [8212] @ lit '' '' @ [1662, 1608, 1604, 1740] @ lit '' '' @
         [1662, 1608, 1604] @ lit '' '' @ [1585, 1575] @ lit '' '' @ [1606, 1711, 1607] @ lit '' '' @
         [1606, 1605, 1740, 8204, 1583, 1575, 1585, 1583] @ lit ''.'')),
       (''walletNetwork'', Text [1588, 1576, 1705, 1607]),
       (''walletAddress'', Text [1570, 1583, 1585, 1587]),
       (''walletLabel'', Text [1576, 1585, 1670, 1587, 1576]),
       (''addWallet'', Text ([1584, 1582, 1740, 1585, 1607] @ lit '' '' @ [1570, 1583, 1585, 1587])),
       (''tronLabel'', Text [1578, 1585, 1608, 1606]),
       (''bscLabel'', Text ([1576, 1575, 1740, 1606, 1606, 1587] @ lit '' '' @ [1670, 1740, 1606])),
       (''bscUnavailable'', Text ([1576, 1575, 1740, 1606, 1606, 1587] @ lit '' '' @ [1670, 1740, 1606] @ lit '' '' @
         [1608, 1602, 1578, 1740] @ lit '' '' @ [1576, 1585, 1575, 1740] @ lit '' '' @
         [1582, 1585, 1740, 1583, 1575, 1585, 1607, 1575, 1740, 1578] @ lit '' '' @
         [1570, 1605, 1575, 1583, 1607] @ lit '' '' @ [1588, 1608, 1583] @ lit '' '' @
         [1583, 1740, 1583, 1607] @ lit '' '' @ [1605, 1740, 8204, 1588, 1608, 1583] @ lit ''.'')),
       (''rail'', Text ([1588, 1576, 1705, 1607] @ lit '' '' @ [1662, 1740, 1588, 1606, 1607, 1575, 1583, 1740])),
       (''railHint'', Text ([1582, 1585, 1740, 1583, 1575, 1585] @ lit '' '' @ [1607, 1605, 1670, 1606, 1575, 1606] @ lit '' '' @
         [1605, 1740, 8204, 1578, 1608, 1575, 1606, 1583] @ lit '' '' @ [1575, 1586] @ lit '' '' @
         [1588, 1576, 1705, 1607, 8204, 1607, 1575, 1740] @ lit '' '' @ [1601, 1593, 1575, 1604] @ lit '' '' @
         [1575, 1606, 1578, 1582, 1575, 1576] @ lit '' '' @ [1705, 1606, 1583] @ lit ''.'')),
       (''railTron'', Text ([1578, 1585, 1608, 1606] @ lit '' '' @ [8212] @ lit '' '' @
         [1662, 1740, 1588, 1606, 1607, 1575, 1583, 1740])),
       (''railBsc'', Text ([1576, 1575, 1740, 1606, 1606, 1587] @ lit '' '' @ [1670, 1740, 1606])),
       (''checkout'', Text ([1575, 1586] @ lit '' '' @ [1582, 1585, 1740, 1583, 1575, 1585] @ lit '' '' @ [1670, 1607] @
         lit '' '' @ [1576, 1662, 1585, 1587, 1740, 1605])),
       (''checkoutHint'', Text ([1576, 1593, 1583, 1575, 1611] @ lit '' '' @ [1583, 1585] @ lit '' '' @
         [1578, 1606, 1592, 1740, 1605, 1575, 1578] @ lit '' '' @ [1593, 1608, 1590, 1588] @ lit '' '' @
         [1605, 1740, 8204, 1705, 1606, 1740] @ lit ''.'')),
       (''requireName'', Text ([1606, 1575, 1605] @ lit '' '' @ [1582, 1585, 1740, 1583, 1575, 1585])),
       (''requirePhone'', Text [1605, 1608, 1576, 1575, 1740, 1604]),
       (''requireEmail'', Text [1575, 1740, 1605, 1740, 1604]),
       (''requireAddress'', Text ([1570, 1583, 1585, 1587] @ lit '' '' @ [1575, 1585, 1587, 1575, 1604])),
       (''requirePostal'', Text ([1705, 1583] @ lit '' '' @ [1662, 1587, 1578, 1740])),
       (''allowNote'', Text ([1740, 1575, 1583, 1583, 1575, 1588, 1578] @ lit '' '' @ [1582, 1585, 1740, 1583, 1575, 1585])),
       (''shippingRequired'', Text ([1606, 1740, 1575, 1586] @ lit '' '' @ [1576, 1607] @ lit '' '' @ [1575, 1585, 1587, 1575, 1604])),
       (''expiry'', Text ([1575, 1606, 1602, 1590, 1575, 1740] @ lit '' '' @ [1604, 1740, 1606, 1705] @ lit '' ('' @
         [1583, 1602, 1740, 1602, 1607] @ lit '')'')),
       (''successMessage'', Text ([1662, 1740, 1575, 1605] @ lit '' '' @ [1576, 1593, 1583] @ lit '' '' @ [1575, 1586] @ lit '' '' @
         [1662, 1585, 1583, 1575, 1582, 1578])),
       (''notifications'', Text [1575, 1593, 1604, 1575, 1606, 8204, 1607, 1575]),
       (''notificationsHint'', Text ([1576, 1593, 1583, 1575, 1611] @ lit '' '' @ [1583, 1585] @ lit '' '' @
         [1578, 1606, 1592, 1740, 1605, 1575, 1578] @ lit '' '' @
         [1585, 1608, 1588, 1606, 8204, 1588, 1575, 1606] @ lit '' '' @ [1705, 1606] @ lit ''.'')),
       (''emailPayments'', Text ([1575, 1740, 1605, 1740, 1604] @ lit '' '' @ [8212] @ lit '' '' @
         [1662, 1585, 1583, 1575, 1582, 1578] @ lit '' '' @ [1588, 1583])),
       (''emailAttention'', Text ([1575, 1740, 1605, 1740, 1604] @ lit '' '' @ [8212] @ lit '' '' @ [1606, 1740, 1575, 1586] @
         lit '' '' @ [1576, 1607] @ lit '' '' @ [1576, 1585, 1585, 1587, 1740])),
       (''emailOrders'', Text ([1575, 1740, 1605, 1740, 1604] @ lit '' '' @ [8212] @ lit '' '' @
         [1576, 1607, 8204, 1585, 1608, 1586, 1585, 1587, 1575, 1606, 1740] @ lit '' '' @
         [1587, 1601, 1575, 1585, 1588])),
       (''telegramLater'', Text ([1578, 1604, 1711, 1585, 1575, 1605] @ lit '' '' @ [1585, 1575] @ lit '' '' @ [1607, 1585] @
         lit '' '' @ [1608, 1602, 1578] @ lit '' '' @ [1583, 1585] @ lit '' '' @
         [1578, 1606, 1592, 1740, 1605, 1575, 1578] @ lit '' '' @ [1608, 1589, 1604] @ lit '' '' @
         [1705, 1606] @ lit ''.''))]"

definition fa_miniapp :: tvalue where
  "fa_miniapp = Group [
       (''title'', Text [1662, 1608, 1604, 1740]),
       (''create'', Text ([1662, 1585, 1583, 1575, 1582, 1578] @ lit '' '' @ [1580, 1583, 1740, 1583])),
       (''connectTitle'', Text ([1578, 1604, 1711, 1585, 1575, 1605] @ lit '' '' @ [1585, 1575] @ lit '' '' @ [1583, 1585] @
         lit '' '' @ [1662, 1608, 1604, 1740] @ lit '' '' @ [1608, 1589, 1604] @ lit '' '' @ [1705, 1606])),
       (''connectHint'', Text ([1662, 1608, 1604, 1740] @ lit '' '' @ [1585, 1575] @ lit '' '' @ [1583, 1585] @ lit '' '' @
         [1608, 1576] @ lit '' '' @ [1576, 1575, 1586] @ lit '' '' @ [1705, 1606, 1548] @ lit '' '' @
         [1576, 1585, 1608] @ lit '' '' @ [1578, 1606, 1592, 1740, 1605, 1575, 1578] @ lit '' '' @ [8594] @
         lit '' '' @ [1575, 1593, 1604, 1575, 1606, 8204, 1607, 1575, 1548] @ lit '' '' @ [1608] @ lit '' '' @
         [1578, 1604, 1711, 1585, 1575, 1605] @ lit '' '' @ [1585, 1575] @ lit '' '' @ [1608, 1589, 1604] @
         lit '' '' @ [1705, 1606] @ lit ''. '' @ [1576, 1593, 1583] @ lit '' '' @
         [1576, 1585, 1711, 1585, 1583] @ lit '' '' @ [1575, 1740, 1606, 1580, 1575] @ lit ''.'')),
       (''openPooli'', Text ([1576, 1575, 1586] @ lit '' '' @ [1705, 1585, 1583, 1606] @ lit '' '' @ [1662, 1608, 1604, 1740])),
       (''shareBuyer'', Text ([1575, 1585, 1587, 1575, 1604] @ lit '' '' @ [1576, 1585, 1575, 1740] @ lit '' '' @
         [1582, 1585, 1740, 1583, 1575, 1585])),
       (''copyWeb'', Text ([1705, 1662, 1740] @ lit '' '' @ [1604, 1740, 1606, 1705] @ lit '' '' @ [1608, 1576])),
       (''copyTelegram'', Text ([1705, 1662, 1740] @ lit '' '' @ [1604, 1740, 1606, 1705] @ lit '' '' @
         [1578, 1604, 1711, 1585, 1575, 1605]))]"

definition catalogue_fa :: tvalue where
  "catalogue_fa = Group [
     (''brand'', Text (lit ''Pooli'')),
     (''brandFa'', Text [1662, 1608, 1604, 1740]),
     (''tagline'', Text ([1604, 1740, 1606, 1705] @ lit '' '' @ [1585, 1608] @ lit '' '' @ [1576, 1601, 1585, 1587, 1578] @
       lit ''. '' @ [1608, 1602, 1578, 1740] @ lit '' '' @ [1662, 1585, 1583, 1575, 1582, 1578] @ lit '' '' @
       [1588, 1583, 1548] @ lit '' '' @ [1582, 1608, 1583, 1578] @ lit '' '' @
       [1605, 1740, 8204, 1601, 1607, 1605, 1740] @ lit ''.'')),
     (''taglineSub'', Text ([1662, 1585, 1583, 1575, 1582, 1578] @ lit '' '' @ [1576, 1587, 1575, 1586, 1548] @ lit '' '' @
       [1604, 1740, 1606, 1705] @ lit '' '' @ [1585, 1608] @ lit '' '' @
       [1576, 1601, 1585, 1587, 1578, 1548] @ lit '' '' @ [1608, 1590, 1593, 1740, 1578] @ lit '' '' @
       [1662, 1585, 1583, 1575, 1582, 1578] @ lit '' '' @ [1585, 1575] @ lit '' '' @
       [1576, 1576, 1740, 1606] @ lit '' '' @ [8212] @ lit '' '' @ [1576, 1583, 1608, 1606] @ lit '' '' @
       [1583, 1606, 1576, 1575, 1604, 8204, 1705, 1585, 1583, 1606] @ lit '' '' @ [1585, 1587, 1740, 1583] @
       lit ''.'')),
     (''openSeller'', Text ([1608, 1585, 1608, 1583] @ lit '' '' @ [1576, 1607] @ lit '' '' @ [1662, 1608, 1604, 1740])),
     (''openPooli'', Text ([1608, 1585, 1608, 1583] @ lit '' '' @ [1576, 1607] @ lit '' '' @ [1662, 1608, 1604, 1740])),
     (''createAccount'', Text ([1587, 1575, 1582, 1578] @ lit '' '' @ [1581, 1587, 1575, 1576])),
     (''login'', Text [1608, 1585, 1608, 1583]),
     (''register'', Text ([1587, 1575, 1582, 1578] @ lit '' '' @ [1581, 1587, 1575, 1576])),
     (''email'', Text [1575, 1740, 1605, 1740, 1604]),
     (''password'', Text ([1585, 1605, 1586] @ lit '' '' @ [1593, 1576, 1608, 1585])),
     (''name'', Text [1606, 1575, 1605]),
     (''phone'', Text ([1588, 1605, 1575, 1585, 1607] @ lit '' '' @ [1605, 1608, 1576, 1575, 1740, 1604])),
     (''phoneHint'', Text ([1605, 1579, 1604, 1575, 1611] @ lit '' '' @
       [1776, 1785, 1777, 1778, 1777, 1778, 1779, 1780, 1781, 1782, 1783])),
     (''sendOtp'', Text ([1575, 1585, 1587, 1575, 1604] @ lit '' '' @ [1705, 1583])),
     (''verifyOtp'', Text ([1578, 1571, 1740, 1740, 1583] @ lit '' '' @ [1705, 1583])),
     (''otpCode'', Text ([1705, 1583] @ lit '' '' @ [1578, 1571, 1740, 1740, 1583])),
     (''resendOtp'', Text ([1575, 1585, 1587, 1575, 1604] @ lit '' '' @ [1605, 1580, 1583, 1583])),
     (''loginWithEmail'', Text ([1608, 1585, 1608, 1583] @ lit '' '' @ [1576, 1575] @ lit '' '' @ [1575, 1740, 1605, 1740, 1604])),
     (''loginWithPhone'', Text ([1608, 1585, 1608, 1583] @ lit '' '' @ [1576, 1575] @ lit '' '' @ [1605, 1608, 1576, 1575, 1740, 1604])),
     (''continueWithGoogle'', Text ([1575, 1583, 1575, 1605, 1607] @ lit '' '' @ [1576, 1575] @ lit '' '' @ [1711, 1608, 1711, 1604])),
     (''signUpWithGoogle'', Text ([1579, 1576, 1578, 8204, 1606, 1575, 1605] @ lit '' '' @ [1576, 1575] @ lit '' '' @
       [1711, 1608, 1711, 1604])),
     (''orContinueWith'', Text [1740, 1575]),
     (''googleAuthError'', Text ([1608, 1585, 1608, 1583] @ lit '' '' @ [1576, 1575] @ lit '' '' @ [1711, 1608, 1711, 1604] @
       lit '' '' @ [1575, 1606, 1580, 1575, 1605] @ lit '' '' @ [1606, 1588, 1583] @ lit ''. '' @
       [1583, 1608, 1576, 1575, 1585, 1607] @ lit '' '' @ [1578, 1604, 1575, 1588] @ lit '' '' @
       [1705, 1606, 1740, 1583] @ lit '' '' @ [1740, 1575] @ lit '' '' @ [1575, 1586] @ lit '' '' @
       [1575, 1740, 1605, 1740, 1604] @ lit '' '' @ [1575, 1587, 1578, 1601, 1575, 1583, 1607] @ lit '' '' @
       [1705, 1606, 1740, 1583] @ lit ''.'')),
     (''logout'', Text [1582, 1585, 1608, 1580]),
     (''nav'', fa_nav),
     (''home'', fa_home),
     (''orders'', fa_orders),
     (''proposals'', fa_proposals),
     (''fulfillment'', fa_fulfillment),
     (''create'', fa_create),
     (''customers'', fa_customers),
     (''wallets'', fa_wallets),
     (''settings'', fa_settings),
     (''receipt'', fa_receipt),
     (''timeline'', fa_timeline),
     (''trust'', fa_trust),
     (''checkout'', fa_checkout),
     (''auth'', fa_auth),
     (''common'', fa_common),
     (''install'', fa_install),
     (''admin'', fa_admin),
     (''store'', fa_store),
     (''links'', fa_links),
     (''onboarding'', fa_onboarding),
     (''miniapp'', fa_miniapp),
     (''marketing'', marketingFa)]"

end
