(* ===== verification/CatalogueProps.thy ===== *)
theory CatalogueProps
  imports CatalogueEn CatalogueFa
begin

text \<open>
  The two languages agree, group by group.
\<close>

named_theorems agree_groups "groups of the two catalogues that agree"

lemma agree_men_nav [agree_groups]: "agree men_nav mfa_nav"
  by (simp add: men_nav_def mfa_nav_def braceless_simps)

lemma agree_men_hero [agree_groups]: "agree men_hero mfa_hero"
  by (simp add: men_hero_def mfa_hero_def braceless_simps)

lemma agree_men_builtFor [agree_groups]: "agree men_builtFor mfa_builtFor"
  by (simp add: men_builtFor_def mfa_builtFor_def braceless_simps)

lemma agree_men_marquee [agree_groups]: "agree men_marquee mfa_marquee"
  by (simp add: men_marquee_def mfa_marquee_def braceless_simps)

lemma agree_men_flowDiagram [agree_groups]: "agree men_flowDiagram mfa_flowDiagram"
  by (simp add: men_flowDiagram_def mfa_flowDiagram_def braceless_simps)

lemma agree_men_problem [agree_groups]: "agree men_problem mfa_problem"
  by (simp add: men_problem_def mfa_problem_def braceless_simps)

lemma agree_men_steps [agree_groups]: "agree men_steps mfa_steps"
  by (simp add: men_steps_def mfa_steps_def braceless_simps)

lemma agree_men_draftReminders [agree_groups]: "agree men_draftReminders mfa_draftReminders"
  by (simp add: men_draftReminders_def mfa_draftReminders_def braceless_simps)

lemma agree_men_benefits [agree_groups]: "agree men_benefits mfa_benefits"
  by (simp add: men_benefits_def mfa_benefits_def braceless_simps)

lemma agree_men_nonCustodial [agree_groups]: "agree men_nonCustodial mfa_nonCustodial"
  by (simp add: men_nonCustodial_def mfa_nonCustodial_def braceless_simps)

lemma agree_men_earlyAccess [agree_groups]: "agree men_earlyAccess mfa_earlyAccess"
  by (simp add: men_earlyAccess_def mfa_earlyAccess_def braceless_simps)

lemma agree_men_finalCta [agree_groups]: "agree men_finalCta mfa_finalCta"
  by (simp add: men_finalCta_def mfa_finalCta_def braceless_simps)

lemma agree_men_footer [agree_groups]: "agree men_footer mfa_footer"
  by (simp add: men_footer_def mfa_footer_def braceless_simps)

lemma agree_men_imprint [agree_groups]: "agree men_imprint mfa_imprint"
  by (simp add: men_imprint_def mfa_imprint_def braceless_simps)

lemma agree_men_claude [agree_groups]: "agree men_claude mfa_claude"
  by (simp add: men_claude_def mfa_claude_def braceless_simps)

lemma agree_men_faqLanding [agree_groups]: "agree men_faqLanding mfa_faqLanding"
  by (simp add: men_faqLanding_def mfa_faqLanding_def braceless_simps)

lemma agree_men_about [agree_groups]: "agree men_about mfa_about"
  by (simp add: men_about_def mfa_about_def braceless_simps)

lemma agree_men_contact [agree_groups]: "agree men_contact mfa_contact"
  by (simp add: men_contact_def mfa_contact_def braceless_simps)

lemma agree_men_faqPage [agree_groups]: "agree men_faqPage mfa_faqPage"
  by (simp add: men_faqPage_def mfa_faqPage_def braceless_simps)

lemma agree_men_security [agree_groups]: "agree men_security mfa_security"
  by (simp add: men_security_def mfa_security_def braceless_simps)

lemma agree_men_privacy [agree_groups]: "agree men_privacy mfa_privacy"
  by (simp add: men_privacy_def mfa_privacy_def braceless_simps)

lemma agree_men_terms [agree_groups]: "agree men_terms mfa_terms"
  by (simp add: men_terms_def mfa_terms_def braceless_simps)

lemma agree_en_nav [agree_groups]: "agree en_nav fa_nav"
  by (simp add: en_nav_def fa_nav_def braceless_simps)

lemma agree_en_home [agree_groups]: "agree en_home fa_home"
  by (simp add: en_home_def fa_home_def braceless_simps) (simp_all add: same_holes_def lit_def)

lemma agree_en_orders [agree_groups]: "agree en_orders fa_orders"
  by (simp add: en_orders_def fa_orders_def braceless_simps)

lemma agree_en_proposals [agree_groups]: "agree en_proposals fa_proposals"
  by (simp add: en_proposals_def fa_proposals_def braceless_simps)

lemma agree_en_fulfillment [agree_groups]: "agree en_fulfillment fa_fulfillment"
  by (simp add: en_fulfillment_def fa_fulfillment_def braceless_simps)

lemma agree_en_create [agree_groups]: "agree en_create fa_create"
  by (simp add: en_create_def fa_create_def braceless_simps)

lemma agree_en_customers [agree_groups]: "agree en_customers fa_customers"
  by (simp add: en_customers_def fa_customers_def braceless_simps) (simp_all add: same_holes_def lit_def)

lemma agree_en_wallets [agree_groups]: "agree en_wallets fa_wallets"
  by (simp add: en_wallets_def fa_wallets_def braceless_simps)

lemma agree_en_settings [agree_groups]: "agree en_settings fa_settings"
  by (simp add: en_settings_def fa_settings_def braceless_simps)

lemma agree_en_receipt [agree_groups]: "agree en_receipt fa_receipt"
  by (simp add: en_receipt_def fa_receipt_def braceless_simps)

lemma agree_en_timeline [agree_groups]: "agree en_timeline fa_timeline"
  by (simp add: en_timeline_def fa_timeline_def braceless_simps)

lemma agree_en_trust [agree_groups]: "agree en_trust fa_trust"
  by (simp add: en_trust_def fa_trust_def braceless_simps)

lemma agree_en_checkout [agree_groups]: "agree en_checkout fa_checkout"
  by (simp add: en_checkout_def fa_checkout_def braceless_simps) (simp_all add: same_holes_def lit_def)

lemma agree_en_auth [agree_groups]: "agree en_auth fa_auth"
  by (simp add: en_auth_def fa_auth_def braceless_simps)

lemma agree_en_common [agree_groups]: "agree en_common fa_common"
  by (simp add: en_common_def fa_common_def braceless_simps)

lemma agree_en_install [agree_groups]: "agree en_install fa_install"
  by (simp add: en_install_def fa_install_def braceless_simps)

lemma agree_en_admin [agree_groups]: "agree en_admin fa_admin"
  by (simp add: en_admin_def fa_admin_def braceless_simps)

lemma agree_en_store [agree_groups]: "agree en_store fa_store"
  by (simp add: en_store_def fa_store_def braceless_simps)

lemma agree_en_links [agree_groups]: "agree en_links fa_links"
  by (simp add: en_links_def fa_links_def braceless_simps)

lemma agree_en_onboarding [agree_groups]: "agree en_onboarding fa_onboarding"
  by (simp add: en_onboarding_def fa_onboarding_def braceless_simps) (simp_all add: same_holes_def lit_def)

lemma agree_en_miniapp [agree_groups]: "agree en_miniapp fa_miniapp"
  by (simp add: en_miniapp_def fa_miniapp_def braceless_simps)

lemma agree_marketing [agree_groups]: "agree marketingEn marketingFa"
  by (simp add: marketingEn_def marketingFa_def agree_groups braceless_simps)

lemma agree_catalogues: "agree catalogue_en catalogue_fa"
  by (simp add: catalogue_en_def catalogue_fa_def agree_groups braceless_simps)

subsection \<open>The texts the pages look up\<close>

definition catalog :: "string \<Rightarrow> messages" where
  "catalog locale = (if locale = ''fa'' then messages_of catalogue_fa else messages_of catalogue_en)"

text \<open>The paths the models of the pages look up, group by group; the last part of some is computed (the
  marquee, the steps, the benefits and the problems of the landing page, the progress of a payment).
  The statuses of an order and the events of its timeline, which the pages index by what the server
  sends, are parameters of the models.\<close>

definition texts_top :: "string list" where
  "texts_top =
    [''brand'', ''openPooli'', ''createAccount'', ''login'', ''register'', ''email'', ''password'', ''name'',
     ''phone'', ''phoneHint'', ''sendOtp'', ''verifyOtp'', ''otpCode'', ''resendOtp'', ''loginWithEmail'',
     ''loginWithPhone'', ''continueWithGoogle'', ''signUpWithGoogle'', ''orContinueWith'', ''googleAuthError'',
     ''logout'']"

definition texts_nav :: "string list" where
  "texts_nav =
    [''nav.home'', ''nav.orders'', ''nav.customers'', ''nav.settings'']"

definition texts_home :: "string list" where
  "texts_home =
    [''home.greetingMorning'', ''home.greetingAfternoon'', ''home.greetingEvening'', ''home.greetingNamed'',
     ''home.newOrder'', ''home.paidTodayNone'', ''home.emptyHint'', ''home.pendingCount'', ''home.usdtReceived'',
     ''home.attention'', ''home.recent'', ''home.empty'', ''home.paidCount'', ''home.awaitingFulfillment'',
     ''home.standingLink'', ''home.copyStandingLink'', ''home.pasteInstagram'']"

definition texts_orders :: "string list" where
  "texts_orders =
    [''orders.title'', ''orders.empty'', ''orders.emptyAttention'', ''orders.filterAll'',
     ''orders.filterAttention'', ''orders.searchPlaceholder'', ''orders.order'', ''orders.paidCheck'']"

definition texts_proposals :: "string list" where
  "texts_proposals =
    [''proposals.section'', ''proposals.suggestClaude'', ''proposals.suggestClaudeHint'',
     ''proposals.suggestClaudeBusy'', ''proposals.suggestClaudeError'', ''proposals.suggestClaudeReady'',
     ''proposals.pendingRow'', ''proposals.review'', ''proposals.sheetTitle'', ''proposals.sheetHint'',
     ''proposals.factOrder'', ''proposals.factAmount'', ''proposals.factPayment'', ''proposals.factReference'',
     ''proposals.draftLabel'', ''proposals.linkCode'', ''proposals.linkCodeHint'', ''proposals.approve'',
     ''proposals.reject'', ''proposals.openConfirmPage'', ''proposals.editedWarning'', ''proposals.resetDraft'',
     ''proposals.approvedToast'', ''proposals.rejectedToast'']"

definition texts_fulfillment :: "string list" where
  "texts_fulfillment =
    [''fulfillment.UNFULFILLED'', ''fulfillment.markProcessing'', ''fulfillment.markShipped'',
     ''fulfillment.markDelivered'', ''fulfillment.carrier'', ''fulfillment.tracking'', ''fulfillment.confirmShip'',
     ''fulfillment.shipTitle'']"

definition texts_create :: "string list" where
  "texts_create =
    [''create.title'', ''create.howMuch'', ''create.amount'', ''create.description'', ''create.orderTitle'',
     ''create.reference'', ''create.create'', ''create.createShare'', ''create.copyLink'', ''create.share'',
     ''create.shareTelegram'', ''create.shareWhatsApp'', ''create.qr'', ''create.created'', ''create.creating'',
     ''create.shareHint'', ''create.viewOrder'', ''create.completeOrder'', ''create.forCustomer'',
     ''create.moreOptions'', ''create.hideOptions'', ''create.moreShare'', ''create.pasteInChat'',
     ''create.shareInstagram'', ''create.fromIgHint'', ''create.reusableInstead'', ''create.quantity'',
     ''create.expiry'', ''create.successMessage'']"

definition texts_customers :: "string list" where
  "texts_customers =
    [''customers.title'', ''customers.empty'', ''customers.searchPlaceholder'', ''customers.orders'',
     ''customers.lastOrder'', ''customers.today'', ''customers.yesterday'', ''customers.daysAgo'',
     ''customers.newOrder'', ''customers.addresses'', ''customers.recentOrders'', ''customers.notes'',
     ''customers.tags'', ''customers.addNote'', ''customers.addTag'', ''customers.notePlaceholder'',
     ''customers.tagPlaceholder'', ''customers.paidOrders'']"

definition texts_wallets :: "string list" where
  "texts_wallets =
    [''wallets.receiving'', ''wallets.archiveConfirm'', ''wallets.archiveConfirmBody'', ''wallets.title'',
     ''wallets.add'', ''wallets.label'', ''wallets.network'', ''wallets.address'', ''wallets.default'',
     ''wallets.copy'', ''wallets.explorer'', ''wallets.archive'', ''wallets.setDefault'', ''wallets.activeIntents'',
     ''wallets.confirmTitle'', ''wallets.confirmWarn'', ''wallets.save'', ''wallets.empty'', ''wallets.details'',
     ''wallets.tron'', ''wallets.bsc'', ''wallets.tokenStandard'', ''wallets.invalidAddress'']"

definition texts_settings :: "string list" where
  "texts_settings =
    [''settings.title'', ''settings.store'', ''settings.storeHint'', ''settings.displayName'',
     ''settings.description'', ''settings.support'', ''settings.uploadLogo'', ''settings.language'',
     ''settings.telegram'', ''settings.telegramHint'', ''settings.telegramConnected'', ''settings.connectTelegram'',
     ''settings.disconnectTelegram'', ''settings.telegramDisconnected'', ''settings.sendTelegramTest'',
     ''settings.telegramTestSent'', ''settings.telegramConnectWaiting'', ''settings.telegramOpenFailed'',
     ''settings.instagram'', ''settings.instagramHint'', ''settings.instagramNotConfigured'',
     ''settings.instagramTestersOnly'', ''settings.instagramConnectHint'', ''settings.instagramGetCode'',
     ''settings.instagramConnected'', ''settings.disconnectInstagram'', ''settings.instagramDisconnected'',
     ''settings.notifications'', ''settings.notificationsHint'', ''settings.email'', ''settings.emailDisabledHint'',
     ''settings.emailPaymentReceived'', ''settings.emailNeedsAttention'', ''settings.emailOrderUpdates'',
     ''settings.save'', ''settings.addToHome'', ''settings.paymentDefaults'', ''settings.fieldRequired'',
     ''settings.fieldOptional'', ''settings.fieldDisabled'', ''settings.defaultNetwork'',
     ''settings.defaultExpiry'', ''settings.defaultsHint'', ''settings.gettingPaid'', ''settings.gettingPaidHint'',
     ''settings.appLanguage'', ''settings.appLanguageHint'', ''settings.theme'', ''settings.themeSystem'',
     ''settings.themeLight'', ''settings.themeDark'', ''settings.about'', ''settings.version'',
     ''settings.logoutConfirm'', ''settings.account'', ''settings.buyerQuestions'', ''settings.buyerQuestionsHint'',
     ''settings.walletsRowHint'', ''settings.fieldFullName'', ''settings.fieldPhone'', ''settings.fieldShipping'',
     ''settings.fieldPostal'', ''settings.fieldEmail'', ''settings.fieldNote'']"

definition texts_receipt :: "string list" where
  "texts_receipt =
    [''receipt.title'', ''receipt.transaction'', ''receipt.usdt'', ''receipt.share'', ''receipt.print'']"

definition texts_timeline :: "string list" where
  "texts_timeline =
    [''timeline.title'']"

definition texts_trust :: "string list" where
  "texts_trust =
    [''trust.walletConfigured'']"

definition texts_checkout :: "string list" where
  "texts_checkout =
    [''checkout.usdt'', ''checkout.toman'', ''checkout.payStore'', ''checkout.networkTron'',
     ''checkout.networkBsc'', ''checkout.waitingTitle'', ''checkout.waitingBody'', ''checkout.openingWallet'',
     ''checkout.detectedBody'', ''checkout.confirmingBody'', ''checkout.closePage'', ''checkout.notFound'',
     ''checkout.copyMerchant'', ''checkout.copyAmountLine'', ''checkout.copyNetworkLine'',
     ''checkout.copyAddressLine'', ''checkout.copyHeading'', ''checkout.continue'', ''checkout.selectNetwork'',
     ''checkout.recommend'', ''checkout.previouslyUsed'', ''checkout.networkTronHint'', ''checkout.networkBscHint'',
     ''checkout.exactAmount'', ''checkout.exactHint'', ''checkout.whyExactAmount'', ''checkout.copyAmount'',
     ''checkout.copyPaymentDetails'', ''checkout.amountCopied'', ''checkout.addressCopied'',
     ''checkout.detailsCopied'', ''checkout.payWithWallet'', ''checkout.payWithTronlink'',
     ''checkout.changeWallet'', ''checkout.chooseWallet'', ''checkout.showQr'', ''checkout.scanWithWallet'',
     ''checkout.quoteExpires'', ''checkout.refreshAmount'', ''checkout.wrongNetwork'', ''checkout.customerInfo'',
     ''checkout.paymentDetails'', ''checkout.network'', ''checkout.token'', ''checkout.orderShipped'',
     ''checkout.trackingCode'', ''checkout.orderRef'', ''checkout.viewTx'', ''checkout.checkingPayment'',
     ''checkout.paymentDetected'', ''checkout.iabTitle'', ''checkout.openInBrowser'', ''checkout.igBannerTitle'',
     ''checkout.igBannerCopy'', ''checkout.wallets.tronlink'', ''checkout.wallets.tronlinkHint'',
     ''checkout.wallets.walletconnect'', ''checkout.wallets.walletconnectHint'', ''checkout.wallets.trust'',
     ''checkout.wallets.trustHint'', ''checkout.wallets.other'', ''checkout.exception.expiredTitle'',
     ''checkout.exception.expiredBody'', ''checkout.exception.underpaidTitle'',
     ''checkout.exception.underpaidBody'', ''checkout.exception.overpaidTitle'',
     ''checkout.exception.overpaidBody'', ''checkout.exception.lateTitle'', ''checkout.exception.lateBody'',
     ''checkout.exception.reviewTitle'', ''checkout.exception.reviewBody'', ''checkout.exception.expected'',
     ''checkout.exception.received'', ''checkout.exception.dontSendAgain'', ''checkout.progress.requested'',
     ''checkout.progress.detected'', ''checkout.progress.confirming'', ''checkout.progress.complete'',
     ''checkout.progress.confirmations'']"

definition texts_auth :: "string list" where
  "texts_auth =
    [''auth.phoneInvalid'', ''auth.otpSent'', ''auth.otpInvalid'']"

definition texts_common :: "string list" where
  "texts_common =
    [''common.loading'', ''common.error'', ''common.saved'', ''common.copy'', ''common.copied'', ''common.offline'',
     ''common.reconnect'', ''common.cancel'', ''common.back'', ''common.mainNav'', ''common.retry'',
     ''common.moneySafe'']"

definition texts_install :: "string list" where
  "texts_install =
    [''install.title'', ''install.subtitle'', ''install.notNow'', ''install.install'', ''install.iosStep1'',
     ''install.iosStep2'', ''install.iosStep3'', ''install.androidHint'', ''install.desktopHint'']"

definition texts_admin :: "string list" where
  "texts_admin =
    [''admin.title'', ''admin.resolve'', ''admin.resolveHint'', ''admin.intentId'', ''admin.action'',
     ''admin.reason'', ''admin.eventId'', ''admin.submit'', ''admin.intents'', ''admin.resolved'', ''admin.search'',
     ''admin.searchPlaceholder'', ''admin.exceptions'', ''admin.timeline'', ''admin.deliveries'', ''admin.ops'',
     ''admin.actionNeedsReview'', ''admin.actionAcknowledge'', ''admin.actionNote'', ''admin.retry'']"

definition texts_store :: "string list" where
  "texts_store =
    [''store.payThisBusiness'', ''store.optionalReference'', ''store.referencePlaceholder'', ''store.continuePay'']"

definition texts_links :: "string list" where
  "texts_links =
    [''links.title'', ''links.empty'', ''links.create'', ''links.fixed'', ''links.custom'', ''links.active'',
     ''links.inactive'', ''links.hint'']"

definition texts_onboarding :: "string list" where
  "texts_onboarding =
    [''onboarding.title'', ''onboarding.stepOf'', ''onboarding.next'', ''onboarding.back'',
     ''onboarding.createPayment'', ''onboarding.business'', ''onboarding.businessHint'', ''onboarding.storeName'',
     ''onboarding.storeSlug'', ''onboarding.storeSlugHint'', ''onboarding.slugTaken'', ''onboarding.slugReserved'',
     ''onboarding.slugInvalid'', ''onboarding.wallets'', ''onboarding.walletsHint'', ''onboarding.walletNetwork'',
     ''onboarding.walletAddress'', ''onboarding.addWallet'', ''onboarding.tronLabel'', ''onboarding.bscLabel'']"

definition texts_miniapp :: "string list" where
  "texts_miniapp =
    [''miniapp.title'', ''miniapp.create'', ''miniapp.connectHint'', ''miniapp.openPooli'', ''miniapp.shareBuyer'',
     ''miniapp.copyWeb'', ''miniapp.copyTelegram'']"

definition texts_marketing_top :: "string list" where
  "texts_marketing_top =
    [''marketing.skipToContent'']"

definition texts_marketing_nav :: "string list" where
  "texts_marketing_nav =
    [''marketing.nav.howItWorks'', ''marketing.nav.faq'', ''marketing.nav.about'', ''marketing.nav.signIn'',
     ''marketing.nav.createAccount'', ''marketing.nav.menu'', ''marketing.nav.theme'', ''marketing.nav.themeLight'',
     ''marketing.nav.themeDark'', ''marketing.nav.themeSystem'']"

definition texts_marketing_hero :: "string list" where
  "texts_marketing_hero =
    [''marketing.hero.eyebrow'', ''marketing.hero.h1'', ''marketing.hero.sub'', ''marketing.hero.ctaPrimary'',
     ''marketing.hero.ctaSecondary'', ''marketing.hero.demoLabel'', ''marketing.hero.demoOrder'']"

definition texts_marketing_builtFor :: "string list" where
  "texts_marketing_builtFor =
    [''marketing.builtFor.line1'', ''marketing.builtFor.line2'']"

definition texts_marketing_marquee :: "string list" where
  "texts_marketing_marquee =
    [''marketing.marquee.instagram'', ''marketing.marquee.telegram'', ''marketing.marquee.whatsapp'',
     ''marketing.marquee.tron'', ''marketing.marquee.bsc'']"

definition texts_marketing_problem :: "string list" where
  "texts_marketing_problem =
    [''marketing.problem.title'', ''marketing.problem.p1'', ''marketing.problem.p2'', ''marketing.problem.p3'']"

definition texts_marketing_steps :: "string list" where
  "texts_marketing_steps =
    [''marketing.steps.title'', ''marketing.steps.s1Title'', ''marketing.steps.s1Body'',
     ''marketing.steps.s2Title'', ''marketing.steps.s2Body'', ''marketing.steps.s3Title'', ''marketing.steps.s3Body'']"

definition texts_marketing_draftReminders :: "string list" where
  "texts_marketing_draftReminders =
    [''marketing.draftReminders.title'', ''marketing.draftReminders.sub'', ''marketing.draftReminders.safety'',
     ''marketing.draftReminders.cta'', ''marketing.draftReminders.more'']"

definition texts_marketing_benefits :: "string list" where
  "texts_marketing_benefits =
    [''marketing.benefits.title'', ''marketing.benefits.b1Title'', ''marketing.benefits.b1Body'',
     ''marketing.benefits.b2Title'', ''marketing.benefits.b2Body'', ''marketing.benefits.b3Title'',
     ''marketing.benefits.b3Body'', ''marketing.benefits.b4Title'', ''marketing.benefits.b4Body'',
     ''marketing.benefits.b5Title'', ''marketing.benefits.b5Body'', ''marketing.benefits.b6Title'',
     ''marketing.benefits.b6Body'']"

definition texts_marketing_nonCustodial :: "string list" where
  "texts_marketing_nonCustodial =
    [''marketing.nonCustodial.title'', ''marketing.nonCustodial.body'', ''marketing.nonCustodial.link'']"

definition texts_marketing_earlyAccess :: "string list" where
  "texts_marketing_earlyAccess =
    [''marketing.earlyAccess.body'', ''marketing.earlyAccess.questions'']"

definition texts_marketing_finalCta :: "string list" where
  "texts_marketing_finalCta =
    [''marketing.finalCta.title'', ''marketing.finalCta.button'', ''marketing.finalCta.sub'']"

definition texts_marketing_footer :: "string list" where
  "texts_marketing_footer =
    [''marketing.footer.product'', ''marketing.footer.company'', ''marketing.footer.legal'',
     ''marketing.footer.connect'', ''marketing.footer.howItWorks'', ''marketing.footer.security'',
     ''marketing.footer.about'', ''marketing.footer.contact'', ''marketing.footer.privacy'',
     ''marketing.footer.terms'', ''marketing.footer.builtIn'', ''marketing.footer.rights'',
     ''marketing.footer.legalDraft'']"

definition texts_marketing_imprint :: "string list" where
  "texts_marketing_imprint =
    [''marketing.imprint.legalName'', ''marketing.imprint.address'', ''marketing.imprint.contact'',
     ''marketing.imprint.gemi'', ''marketing.imprint.vat'', ''marketing.imprint.founded'']"

definition texts_marketing_claude :: "string list" where
  "texts_marketing_claude =
    [''marketing.claude.metaTitle'', ''marketing.claude.metaDescription'', ''marketing.claude.title'',
     ''marketing.claude.lead'', ''marketing.claude.todayTitle'', ''marketing.claude.engineeringTitle'',
     ''marketing.claude.engineeringBody'', ''marketing.claude.docsTitle'', ''marketing.claude.docsBody'',
     ''marketing.claude.toolingTitle'', ''marketing.claude.toolingBody'', ''marketing.claude.identityTitle'',
     ''marketing.claude.identityBody'', ''marketing.claude.wifTitle'', ''marketing.claude.wifLead'',
     ''marketing.claude.wifMeans'', ''marketing.claude.wifClose'', ''marketing.claude.notLlmTitle'',
     ''marketing.claude.notLlmBody'', ''marketing.claude.notLlmBody2'', ''marketing.claude.buildingTitle'',
     ''marketing.claude.questionsTitle'', ''marketing.claude.questionsBody'', ''marketing.claude.evals'',
     ''marketing.claude.whyTitle'', ''marketing.claude.whyBody'', ''marketing.claude.builtIn'',
     ''marketing.claude.program'', ''marketing.claude.suggestLiveTitle'', ''marketing.claude.suggestLiveBody'',
     ''marketing.claude.integrationDoc'']"

definition texts_marketing_faqLanding :: "string list" where
  "texts_marketing_faqLanding =
    [''marketing.faqLanding.title'', ''marketing.faqLanding.viewAll'']"

definition texts_marketing_about :: "string list" where
  "texts_marketing_about =
    [''marketing.about.metaTitle'', ''marketing.about.metaDescription'', ''marketing.about.hero'',
     ''marketing.about.whatTitle'', ''marketing.about.whatP1'', ''marketing.about.whatP2'',
     ''marketing.about.whatP3'', ''marketing.about.founderTitle'', ''marketing.about.founderBio'',
     ''marketing.about.claudeTitle'', ''marketing.about.claudeIntro'', ''marketing.about.claudeEvals'',
     ''marketing.about.claudeMore'', ''marketing.about.principlesTitle'', ''marketing.about.imprintTitle'',
     ''marketing.about.companyTitle'', ''marketing.about.foundedLine'', ''marketing.about.fundingLine'',
     ''marketing.about.contactCta'']"

definition texts_marketing_contact :: "string list" where
  "texts_marketing_contact =
    [''marketing.contact.metaDescription'', ''marketing.contact.title'', ''marketing.contact.intro'',
     ''marketing.contact.primaryLabel'', ''marketing.contact.supportLabel'', ''marketing.contact.founderLabel'',
     ''marketing.contact.addressLabel'', ''marketing.contact.socialLabel'']"

definition texts_marketing_faqPage :: "string list" where
  "texts_marketing_faqPage =
    [''marketing.faqPage.metaDescription'', ''marketing.faqPage.title'']"

definition texts_marketing_security :: "string list" where
  "texts_marketing_security =
    [''marketing.security.metaDescription'', ''marketing.security.title'', ''marketing.security.intro'',
     ''marketing.security.disclosureTitle'', ''marketing.security.disclosureBody'']"

definition texts_marketing_privacy :: "string list" where
  "texts_marketing_privacy =
    [''marketing.privacy.metaDescription'', ''marketing.privacy.title'', ''marketing.privacy.draftBanner'',
     ''marketing.privacy.lastUpdated'', ''marketing.privacy.sections.controller'',
     ''marketing.privacy.sections.controllerBody'', ''marketing.privacy.sections.collect'',
     ''marketing.privacy.sections.collectBody'', ''marketing.privacy.sections.analytics'',
     ''marketing.privacy.sections.analyticsBody'', ''marketing.privacy.sections.cookies'',
     ''marketing.privacy.sections.cookiesBody'', ''marketing.privacy.sections.sharing'',
     ''marketing.privacy.sections.sharingBody'', ''marketing.privacy.sections.retention'',
     ''marketing.privacy.sections.retentionBody'', ''marketing.privacy.sections.rights'',
     ''marketing.privacy.sections.rightsBody'', ''marketing.privacy.sections.transfers'',
     ''marketing.privacy.sections.transfersBody'', ''marketing.privacy.sections.contact'',
     ''marketing.privacy.sections.contactBody'']"

definition texts_marketing_terms :: "string list" where
  "texts_marketing_terms =
    [''marketing.terms.metaDescription'', ''marketing.terms.title'', ''marketing.terms.draftBanner'',
     ''marketing.terms.lastUpdated'', ''marketing.terms.sections.agreement'',
     ''marketing.terms.sections.agreementBody'', ''marketing.terms.sections.service'',
     ''marketing.terms.sections.serviceBody'', ''marketing.terms.sections.payments'',
     ''marketing.terms.sections.paymentsBody'', ''marketing.terms.sections.acceptable'',
     ''marketing.terms.sections.acceptableBody'', ''marketing.terms.sections.liability'',
     ''marketing.terms.sections.liabilityBody'', ''marketing.terms.sections.law'',
     ''marketing.terms.sections.lawBody'', ''marketing.terms.sections.contact'',
     ''marketing.terms.sections.contactBody'']"

definition used_texts :: "string list" where
  "used_texts = concat
    [texts_top, texts_nav, texts_home, texts_orders, texts_proposals, texts_fulfillment, texts_create,
     texts_customers, texts_wallets, texts_settings, texts_receipt, texts_timeline, texts_trust, texts_checkout,
     texts_auth, texts_common, texts_install, texts_admin, texts_store, texts_links, texts_onboarding,
     texts_miniapp, texts_marketing_top, texts_marketing_nav, texts_marketing_hero, texts_marketing_builtFor,
     texts_marketing_marquee, texts_marketing_problem, texts_marketing_steps, texts_marketing_draftReminders,
     texts_marketing_benefits, texts_marketing_nonCustodial, texts_marketing_earlyAccess, texts_marketing_finalCta,
     texts_marketing_footer, texts_marketing_imprint, texts_marketing_claude, texts_marketing_faqLanding,
     texts_marketing_about, texts_marketing_contact, texts_marketing_faqPage, texts_marketing_security,
     texts_marketing_privacy, texts_marketing_terms]"

text \<open>The texts the pages fill, with the placeholders they replace: the greeting, the counts and the days
  of the seller's pages, the header of the checkout, the confirmations and the step of the onboarding.\<close>

definition filled_texts :: "(string \<times> string list) list" where
  "filled_texts =
    [(''home.greetingNamed'', [''greeting'', ''name'']), (''home.pendingCount'', [''n'']), (''home.paidCount'', [''n'']),
     (''customers.daysAgo'', [''n'']), (''checkout.payStore'', [''name'']),
     (''checkout.progress.confirmations'', [''current'', ''required'']), (''onboarding.stepOf'', [''n'', ''total''])]"

text \<open>The groups behind the first keys of a path.\<close>

lemma english_groups:
  "text_at (''admin'' # p) catalogue_en = text_at p en_admin"
  "text_at (''auth'' # p) catalogue_en = text_at p en_auth"
  "text_at (''checkout'' # p) catalogue_en = text_at p en_checkout"
  "text_at (''common'' # p) catalogue_en = text_at p en_common"
  "text_at (''create'' # p) catalogue_en = text_at p en_create"
  "text_at (''customers'' # p) catalogue_en = text_at p en_customers"
  "text_at (''fulfillment'' # p) catalogue_en = text_at p en_fulfillment"
  "text_at (''home'' # p) catalogue_en = text_at p en_home"
  "text_at (''install'' # p) catalogue_en = text_at p en_install"
  "text_at (''links'' # p) catalogue_en = text_at p en_links"
  "text_at (''miniapp'' # p) catalogue_en = text_at p en_miniapp"
  "text_at (''nav'' # p) catalogue_en = text_at p en_nav"
  "text_at (''onboarding'' # p) catalogue_en = text_at p en_onboarding"
  "text_at (''orders'' # p) catalogue_en = text_at p en_orders"
  "text_at (''proposals'' # p) catalogue_en = text_at p en_proposals"
  "text_at (''receipt'' # p) catalogue_en = text_at p en_receipt"
  "text_at (''settings'' # p) catalogue_en = text_at p en_settings"
  "text_at (''store'' # p) catalogue_en = text_at p en_store"
  "text_at (''timeline'' # p) catalogue_en = text_at p en_timeline"
  "text_at (''trust'' # p) catalogue_en = text_at p en_trust"
  "text_at (''wallets'' # p) catalogue_en = text_at p en_wallets"
  "text_at (''marketing'' # p) catalogue_en = text_at p marketingEn"
  unfolding catalogue_en_def by (simp_all cong: lookup_congs)

lemma english_marketing:
  "text_at (''about'' # p) marketingEn = text_at p men_about"
  "text_at (''benefits'' # p) marketingEn = text_at p men_benefits"
  "text_at (''builtFor'' # p) marketingEn = text_at p men_builtFor"
  "text_at (''claude'' # p) marketingEn = text_at p men_claude"
  "text_at (''contact'' # p) marketingEn = text_at p men_contact"
  "text_at (''draftReminders'' # p) marketingEn = text_at p men_draftReminders"
  "text_at (''earlyAccess'' # p) marketingEn = text_at p men_earlyAccess"
  "text_at (''faqLanding'' # p) marketingEn = text_at p men_faqLanding"
  "text_at (''faqPage'' # p) marketingEn = text_at p men_faqPage"
  "text_at (''finalCta'' # p) marketingEn = text_at p men_finalCta"
  "text_at (''footer'' # p) marketingEn = text_at p men_footer"
  "text_at (''hero'' # p) marketingEn = text_at p men_hero"
  "text_at (''imprint'' # p) marketingEn = text_at p men_imprint"
  "text_at (''marquee'' # p) marketingEn = text_at p men_marquee"
  "text_at (''nav'' # p) marketingEn = text_at p men_nav"
  "text_at (''nonCustodial'' # p) marketingEn = text_at p men_nonCustodial"
  "text_at (''privacy'' # p) marketingEn = text_at p men_privacy"
  "text_at (''problem'' # p) marketingEn = text_at p men_problem"
  "text_at (''security'' # p) marketingEn = text_at p men_security"
  "text_at (''steps'' # p) marketingEn = text_at p men_steps"
  "text_at (''terms'' # p) marketingEn = text_at p men_terms"
  unfolding marketingEn_def by (simp_all cong: lookup_congs)

abbreviation all_english :: "string list \<Rightarrow> bool" where
  "all_english \<equiv> list_all (\<lambda>k. text_at (path_of k) catalogue_en \<noteq> None)"

lemma used_top: "all_english texts_top"
  unfolding texts_top_def catalogue_en_def by (simp cong: lookup_congs)

lemma used_nav: "all_english texts_nav"
proof -
  have "list_all (\<lambda>p. text_at p en_nav \<noteq> None)
    [[''home''], [''orders''], [''customers''], [''settings'']]"
    unfolding en_nav_def by (simp cong: lookup_congs)
  then show ?thesis by (simp add: texts_nav_def english_groups)
qed

lemma used_home: "all_english texts_home"
proof -
  have "list_all (\<lambda>p. text_at p en_home \<noteq> None)
    [[''greetingMorning''], [''greetingAfternoon''], [''greetingEvening''], [''greetingNamed''], [''newOrder''],
     [''paidTodayNone''], [''emptyHint''], [''pendingCount''], [''usdtReceived''], [''attention''], [''recent''],
     [''empty''], [''paidCount''], [''awaitingFulfillment''], [''standingLink''], [''copyStandingLink''],
     [''pasteInstagram'']]"
    unfolding en_home_def by (simp cong: lookup_congs)
  then show ?thesis by (simp add: texts_home_def english_groups)
qed

lemma used_orders: "all_english texts_orders"
proof -
  have "list_all (\<lambda>p. text_at p en_orders \<noteq> None)
    [[''title''], [''empty''], [''emptyAttention''], [''filterAll''], [''filterAttention''],
     [''searchPlaceholder''], [''order''], [''paidCheck'']]"
    unfolding en_orders_def by (simp cong: lookup_congs)
  then show ?thesis by (simp add: texts_orders_def english_groups)
qed

lemma used_proposals: "all_english texts_proposals"
proof -
  have "list_all (\<lambda>p. text_at p en_proposals \<noteq> None)
    [[''section''], [''suggestClaude''], [''suggestClaudeHint''], [''suggestClaudeBusy''], [''suggestClaudeError''],
     [''suggestClaudeReady''], [''pendingRow''], [''review''], [''sheetTitle''], [''sheetHint''], [''factOrder''],
     [''factAmount''], [''factPayment''], [''factReference''], [''draftLabel''], [''linkCode''], [''linkCodeHint''],
     [''approve''], [''reject''], [''openConfirmPage''], [''editedWarning''], [''resetDraft''], [''approvedToast''],
     [''rejectedToast'']]"
    unfolding en_proposals_def by (simp cong: lookup_congs)
  then show ?thesis by (simp add: texts_proposals_def english_groups)
qed

lemma used_fulfillment: "all_english texts_fulfillment"
proof -
  have "list_all (\<lambda>p. text_at p en_fulfillment \<noteq> None)
    [[''UNFULFILLED''], [''markProcessing''], [''markShipped''], [''markDelivered''], [''carrier''], [''tracking''],
     [''confirmShip''], [''shipTitle'']]"
    unfolding en_fulfillment_def by (simp cong: lookup_congs)
  then show ?thesis by (simp add: texts_fulfillment_def english_groups)
qed

lemma used_create: "all_english texts_create"
proof -
  have "list_all (\<lambda>p. text_at p en_create \<noteq> None)
    [[''title''], [''howMuch''], [''amount''], [''description''], [''orderTitle''], [''reference''], [''create''],
     [''createShare''], [''copyLink''], [''share''], [''shareTelegram''], [''shareWhatsApp''], [''qr''],
     [''created''], [''creating''], [''shareHint''], [''viewOrder''], [''completeOrder''], [''forCustomer''],
     [''moreOptions''], [''hideOptions''], [''moreShare''], [''pasteInChat''], [''shareInstagram''],
     [''fromIgHint''], [''reusableInstead''], [''quantity''], [''expiry''], [''successMessage'']]"
    unfolding en_create_def by (simp cong: lookup_congs)
  then show ?thesis by (simp add: texts_create_def english_groups)
qed

lemma used_customers: "all_english texts_customers"
proof -
  have "list_all (\<lambda>p. text_at p en_customers \<noteq> None)
    [[''title''], [''empty''], [''searchPlaceholder''], [''orders''], [''lastOrder''], [''today''], [''yesterday''],
     [''daysAgo''], [''newOrder''], [''addresses''], [''recentOrders''], [''notes''], [''tags''], [''addNote''],
     [''addTag''], [''notePlaceholder''], [''tagPlaceholder''], [''paidOrders'']]"
    unfolding en_customers_def by (simp cong: lookup_congs)
  then show ?thesis by (simp add: texts_customers_def english_groups)
qed

lemma used_wallets: "all_english texts_wallets"
proof -
  have "list_all (\<lambda>p. text_at p en_wallets \<noteq> None)
    [[''receiving''], [''archiveConfirm''], [''archiveConfirmBody''], [''title''], [''add''], [''label''],
     [''network''], [''address''], [''default''], [''copy''], [''explorer''], [''archive''], [''setDefault''],
     [''activeIntents''], [''confirmTitle''], [''confirmWarn''], [''save''], [''empty''], [''details''], [''tron''],
     [''bsc''], [''tokenStandard''], [''invalidAddress'']]"
    unfolding en_wallets_def by (simp cong: lookup_congs)
  then show ?thesis by (simp add: texts_wallets_def english_groups)
qed

lemma used_settings: "all_english texts_settings"
proof -
  have "list_all (\<lambda>p. text_at p en_settings \<noteq> None)
    [[''title''], [''store''], [''storeHint''], [''displayName''], [''description''], [''support''],
     [''uploadLogo''], [''language''], [''telegram''], [''telegramHint''], [''telegramConnected''],
     [''connectTelegram''], [''disconnectTelegram''], [''telegramDisconnected''], [''sendTelegramTest''],
     [''telegramTestSent''], [''telegramConnectWaiting''], [''telegramOpenFailed''], [''instagram''],
     [''instagramHint''], [''instagramNotConfigured''], [''instagramTestersOnly''], [''instagramConnectHint''],
     [''instagramGetCode''], [''instagramConnected''], [''disconnectInstagram''], [''instagramDisconnected''],
     [''notifications''], [''notificationsHint''], [''email''], [''emailDisabledHint''], [''emailPaymentReceived''],
     [''emailNeedsAttention''], [''emailOrderUpdates''], [''save''], [''addToHome''], [''paymentDefaults''],
     [''fieldRequired''], [''fieldOptional''], [''fieldDisabled''], [''defaultNetwork''], [''defaultExpiry''],
     [''defaultsHint''], [''gettingPaid''], [''gettingPaidHint''], [''appLanguage''], [''appLanguageHint''],
     [''theme''], [''themeSystem''], [''themeLight''], [''themeDark''], [''about''], [''version''],
     [''logoutConfirm''], [''account''], [''buyerQuestions''], [''buyerQuestionsHint''], [''walletsRowHint''],
     [''fieldFullName''], [''fieldPhone''], [''fieldShipping''], [''fieldPostal''], [''fieldEmail''], [''fieldNote'']]"
    unfolding en_settings_def by (simp cong: lookup_congs)
  then show ?thesis by (simp add: texts_settings_def english_groups)
qed

lemma used_receipt: "all_english texts_receipt"
proof -
  have "list_all (\<lambda>p. text_at p en_receipt \<noteq> None)
    [[''title''], [''transaction''], [''usdt''], [''share''], [''print'']]"
    unfolding en_receipt_def by (simp cong: lookup_congs)
  then show ?thesis by (simp add: texts_receipt_def english_groups)
qed

lemma used_timeline: "all_english texts_timeline"
proof -
  have "list_all (\<lambda>p. text_at p en_timeline \<noteq> None)
    [[''title'']]"
    unfolding en_timeline_def by (simp cong: lookup_congs)
  then show ?thesis by (simp add: texts_timeline_def english_groups)
qed

lemma used_trust: "all_english texts_trust"
proof -
  have "list_all (\<lambda>p. text_at p en_trust \<noteq> None)
    [[''walletConfigured'']]"
    unfolding en_trust_def by (simp cong: lookup_congs)
  then show ?thesis by (simp add: texts_trust_def english_groups)
qed

lemma used_checkout: "all_english texts_checkout"
proof -
  have "list_all (\<lambda>p. text_at p en_checkout \<noteq> None)
    [[''usdt''], [''toman''], [''payStore''], [''networkTron''], [''networkBsc''], [''waitingTitle''],
     [''waitingBody''], [''openingWallet''], [''detectedBody''], [''confirmingBody''], [''closePage''],
     [''notFound''], [''copyMerchant''], [''copyAmountLine''], [''copyNetworkLine''], [''copyAddressLine''],
     [''copyHeading''], [''continue''], [''selectNetwork''], [''recommend''], [''previouslyUsed''],
     [''networkTronHint''], [''networkBscHint''], [''exactAmount''], [''exactHint''], [''whyExactAmount''],
     [''copyAmount''], [''copyPaymentDetails''], [''amountCopied''], [''addressCopied''], [''detailsCopied''],
     [''payWithWallet''], [''payWithTronlink''], [''changeWallet''], [''chooseWallet''], [''showQr''],
     [''scanWithWallet''], [''quoteExpires''], [''refreshAmount''], [''wrongNetwork''], [''customerInfo''],
     [''paymentDetails''], [''network''], [''token''], [''orderShipped''], [''trackingCode''], [''orderRef''],
     [''viewTx''], [''checkingPayment''], [''paymentDetected''], [''iabTitle''], [''openInBrowser''],
     [''igBannerTitle''], [''igBannerCopy''], [''wallets'', ''tronlink''], [''wallets'', ''tronlinkHint''],
     [''wallets'', ''walletconnect''], [''wallets'', ''walletconnectHint''], [''wallets'', ''trust''],
     [''wallets'', ''trustHint''], [''wallets'', ''other''], [''exception'', ''expiredTitle''],
     [''exception'', ''expiredBody''], [''exception'', ''underpaidTitle''], [''exception'', ''underpaidBody''],
     [''exception'', ''overpaidTitle''], [''exception'', ''overpaidBody''], [''exception'', ''lateTitle''],
     [''exception'', ''lateBody''], [''exception'', ''reviewTitle''], [''exception'', ''reviewBody''],
     [''exception'', ''expected''], [''exception'', ''received''], [''exception'', ''dontSendAgain''],
     [''progress'', ''requested''], [''progress'', ''detected''], [''progress'', ''confirming''],
     [''progress'', ''complete''], [''progress'', ''confirmations'']]"
    unfolding en_checkout_def by (simp cong: lookup_congs)
  then show ?thesis by (simp add: texts_checkout_def english_groups)
qed

lemma used_auth: "all_english texts_auth"
proof -
  have "list_all (\<lambda>p. text_at p en_auth \<noteq> None)
    [[''phoneInvalid''], [''otpSent''], [''otpInvalid'']]"
    unfolding en_auth_def by (simp cong: lookup_congs)
  then show ?thesis by (simp add: texts_auth_def english_groups)
qed

lemma used_common: "all_english texts_common"
proof -
  have "list_all (\<lambda>p. text_at p en_common \<noteq> None)
    [[''loading''], [''error''], [''saved''], [''copy''], [''copied''], [''offline''], [''reconnect''],
     [''cancel''], [''back''], [''mainNav''], [''retry''], [''moneySafe'']]"
    unfolding en_common_def by (simp cong: lookup_congs)
  then show ?thesis by (simp add: texts_common_def english_groups)
qed

lemma used_install: "all_english texts_install"
proof -
  have "list_all (\<lambda>p. text_at p en_install \<noteq> None)
    [[''title''], [''subtitle''], [''notNow''], [''install''], [''iosStep1''], [''iosStep2''], [''iosStep3''],
     [''androidHint''], [''desktopHint'']]"
    unfolding en_install_def by (simp cong: lookup_congs)
  then show ?thesis by (simp add: texts_install_def english_groups)
qed

lemma used_admin: "all_english texts_admin"
proof -
  have "list_all (\<lambda>p. text_at p en_admin \<noteq> None)
    [[''title''], [''resolve''], [''resolveHint''], [''intentId''], [''action''], [''reason''], [''eventId''],
     [''submit''], [''intents''], [''resolved''], [''search''], [''searchPlaceholder''], [''exceptions''],
     [''timeline''], [''deliveries''], [''ops''], [''actionNeedsReview''], [''actionAcknowledge''],
     [''actionNote''], [''retry'']]"
    unfolding en_admin_def by (simp cong: lookup_congs)
  then show ?thesis by (simp add: texts_admin_def english_groups)
qed

lemma used_store: "all_english texts_store"
proof -
  have "list_all (\<lambda>p. text_at p en_store \<noteq> None)
    [[''payThisBusiness''], [''optionalReference''], [''referencePlaceholder''], [''continuePay'']]"
    unfolding en_store_def by (simp cong: lookup_congs)
  then show ?thesis by (simp add: texts_store_def english_groups)
qed

lemma used_links: "all_english texts_links"
proof -
  have "list_all (\<lambda>p. text_at p en_links \<noteq> None)
    [[''title''], [''empty''], [''create''], [''fixed''], [''custom''], [''active''], [''inactive''], [''hint'']]"
    unfolding en_links_def by (simp cong: lookup_congs)
  then show ?thesis by (simp add: texts_links_def english_groups)
qed

lemma used_onboarding: "all_english texts_onboarding"
proof -
  have "list_all (\<lambda>p. text_at p en_onboarding \<noteq> None)
    [[''title''], [''stepOf''], [''next''], [''back''], [''createPayment''], [''business''], [''businessHint''],
     [''storeName''], [''storeSlug''], [''storeSlugHint''], [''slugTaken''], [''slugReserved''], [''slugInvalid''],
     [''wallets''], [''walletsHint''], [''walletNetwork''], [''walletAddress''], [''addWallet''], [''tronLabel''],
     [''bscLabel'']]"
    unfolding en_onboarding_def by (simp cong: lookup_congs)
  then show ?thesis by (simp add: texts_onboarding_def english_groups)
qed

lemma used_miniapp: "all_english texts_miniapp"
proof -
  have "list_all (\<lambda>p. text_at p en_miniapp \<noteq> None)
    [[''title''], [''create''], [''connectHint''], [''openPooli''], [''shareBuyer''], [''copyWeb''],
     [''copyTelegram'']]"
    unfolding en_miniapp_def by (simp cong: lookup_congs)
  then show ?thesis by (simp add: texts_miniapp_def english_groups)
qed

lemma used_marketing_top: "all_english texts_marketing_top"
proof -
  have "text_at [''skipToContent''] marketingEn \<noteq> None" unfolding marketingEn_def by (simp cong: lookup_congs)
  then show ?thesis by (simp add: texts_marketing_top_def english_groups)
qed

lemma used_marketing_nav: "all_english texts_marketing_nav"
proof -
  have "list_all (\<lambda>p. text_at p men_nav \<noteq> None)
    [[''howItWorks''], [''faq''], [''about''], [''signIn''], [''createAccount''], [''menu''], [''theme''],
     [''themeLight''], [''themeDark''], [''themeSystem'']]"
    unfolding men_nav_def by (simp cong: lookup_congs)
  then show ?thesis by (simp add: texts_marketing_nav_def english_groups english_marketing)
qed

lemma used_marketing_hero: "all_english texts_marketing_hero"
proof -
  have "list_all (\<lambda>p. text_at p men_hero \<noteq> None)
    [[''eyebrow''], [''h1''], [''sub''], [''ctaPrimary''], [''ctaSecondary''], [''demoLabel''], [''demoOrder'']]"
    unfolding men_hero_def by (simp cong: lookup_congs)
  then show ?thesis by (simp add: texts_marketing_hero_def english_groups english_marketing)
qed

lemma used_marketing_builtFor: "all_english texts_marketing_builtFor"
proof -
  have "list_all (\<lambda>p. text_at p men_builtFor \<noteq> None)
    [[''line1''], [''line2'']]"
    unfolding men_builtFor_def by (simp cong: lookup_congs)
  then show ?thesis by (simp add: texts_marketing_builtFor_def english_groups english_marketing)
qed

lemma used_marketing_marquee: "all_english texts_marketing_marquee"
proof -
  have "list_all (\<lambda>p. text_at p men_marquee \<noteq> None)
    [[''instagram''], [''telegram''], [''whatsapp''], [''tron''], [''bsc'']]"
    unfolding men_marquee_def by (simp cong: lookup_congs)
  then show ?thesis by (simp add: texts_marketing_marquee_def english_groups english_marketing)
qed

lemma used_marketing_problem: "all_english texts_marketing_problem"
proof -
  have "list_all (\<lambda>p. text_at p men_problem \<noteq> None)
    [[''title''], [''p1''], [''p2''], [''p3'']]"
    unfolding men_problem_def by (simp cong: lookup_congs)
  then show ?thesis by (simp add: texts_marketing_problem_def english_groups english_marketing)
qed

lemma used_marketing_steps: "all_english texts_marketing_steps"
proof -
  have "list_all (\<lambda>p. text_at p men_steps \<noteq> None)
    [[''title''], [''s1Title''], [''s1Body''], [''s2Title''], [''s2Body''], [''s3Title''], [''s3Body'']]"
    unfolding men_steps_def by (simp cong: lookup_congs)
  then show ?thesis by (simp add: texts_marketing_steps_def english_groups english_marketing)
qed

lemma used_marketing_draftReminders: "all_english texts_marketing_draftReminders"
proof -
  have "list_all (\<lambda>p. text_at p men_draftReminders \<noteq> None)
    [[''title''], [''sub''], [''safety''], [''cta''], [''more'']]"
    unfolding men_draftReminders_def by (simp cong: lookup_congs)
  then show ?thesis by (simp add: texts_marketing_draftReminders_def english_groups english_marketing)
qed

lemma used_marketing_benefits: "all_english texts_marketing_benefits"
proof -
  have "list_all (\<lambda>p. text_at p men_benefits \<noteq> None)
    [[''title''], [''b1Title''], [''b1Body''], [''b2Title''], [''b2Body''], [''b3Title''], [''b3Body''],
     [''b4Title''], [''b4Body''], [''b5Title''], [''b5Body''], [''b6Title''], [''b6Body'']]"
    unfolding men_benefits_def by (simp cong: lookup_congs)
  then show ?thesis by (simp add: texts_marketing_benefits_def english_groups english_marketing)
qed

lemma used_marketing_nonCustodial: "all_english texts_marketing_nonCustodial"
proof -
  have "list_all (\<lambda>p. text_at p men_nonCustodial \<noteq> None)
    [[''title''], [''body''], [''link'']]"
    unfolding men_nonCustodial_def by (simp cong: lookup_congs)
  then show ?thesis by (simp add: texts_marketing_nonCustodial_def english_groups english_marketing)
qed

lemma used_marketing_earlyAccess: "all_english texts_marketing_earlyAccess"
proof -
  have "list_all (\<lambda>p. text_at p men_earlyAccess \<noteq> None)
    [[''body''], [''questions'']]"
    unfolding men_earlyAccess_def by (simp cong: lookup_congs)
  then show ?thesis by (simp add: texts_marketing_earlyAccess_def english_groups english_marketing)
qed

lemma used_marketing_finalCta: "all_english texts_marketing_finalCta"
proof -
  have "list_all (\<lambda>p. text_at p men_finalCta \<noteq> None)
    [[''title''], [''button''], [''sub'']]"
    unfolding men_finalCta_def by (simp cong: lookup_congs)
  then show ?thesis by (simp add: texts_marketing_finalCta_def english_groups english_marketing)
qed

lemma used_marketing_footer: "all_english texts_marketing_footer"
proof -
  have "list_all (\<lambda>p. text_at p men_footer \<noteq> None)
    [[''product''], [''company''], [''legal''], [''connect''], [''howItWorks''], [''security''], [''about''],
     [''contact''], [''privacy''], [''terms''], [''builtIn''], [''rights''], [''legalDraft'']]"
    unfolding men_footer_def by (simp cong: lookup_congs)
  then show ?thesis by (simp add: texts_marketing_footer_def english_groups english_marketing)
qed

lemma used_marketing_imprint: "all_english texts_marketing_imprint"
proof -
  have "list_all (\<lambda>p. text_at p men_imprint \<noteq> None)
    [[''legalName''], [''address''], [''contact''], [''gemi''], [''vat''], [''founded'']]"
    unfolding men_imprint_def by (simp cong: lookup_congs)
  then show ?thesis by (simp add: texts_marketing_imprint_def english_groups english_marketing)
qed

lemma used_marketing_claude: "all_english texts_marketing_claude"
proof -
  have "list_all (\<lambda>p. text_at p men_claude \<noteq> None)
    [[''metaTitle''], [''metaDescription''], [''title''], [''lead''], [''todayTitle''], [''engineeringTitle''],
     [''engineeringBody''], [''docsTitle''], [''docsBody''], [''toolingTitle''], [''toolingBody''],
     [''identityTitle''], [''identityBody''], [''wifTitle''], [''wifLead''], [''wifMeans''], [''wifClose''],
     [''notLlmTitle''], [''notLlmBody''], [''notLlmBody2''], [''buildingTitle''], [''questionsTitle''],
     [''questionsBody''], [''evals''], [''whyTitle''], [''whyBody''], [''builtIn''], [''program''],
     [''suggestLiveTitle''], [''suggestLiveBody''], [''integrationDoc'']]"
    unfolding men_claude_def by (simp cong: lookup_congs)
  then show ?thesis by (simp add: texts_marketing_claude_def english_groups english_marketing)
qed

lemma used_marketing_faqLanding: "all_english texts_marketing_faqLanding"
proof -
  have "list_all (\<lambda>p. text_at p men_faqLanding \<noteq> None)
    [[''title''], [''viewAll'']]"
    unfolding men_faqLanding_def by (simp cong: lookup_congs)
  then show ?thesis by (simp add: texts_marketing_faqLanding_def english_groups english_marketing)
qed

lemma used_marketing_about: "all_english texts_marketing_about"
proof -
  have "list_all (\<lambda>p. text_at p men_about \<noteq> None)
    [[''metaTitle''], [''metaDescription''], [''hero''], [''whatTitle''], [''whatP1''], [''whatP2''], [''whatP3''],
     [''founderTitle''], [''founderBio''], [''claudeTitle''], [''claudeIntro''], [''claudeEvals''],
     [''claudeMore''], [''principlesTitle''], [''imprintTitle''], [''companyTitle''], [''foundedLine''],
     [''fundingLine''], [''contactCta'']]"
    unfolding men_about_def by (simp cong: lookup_congs)
  then show ?thesis by (simp add: texts_marketing_about_def english_groups english_marketing)
qed

lemma used_marketing_contact: "all_english texts_marketing_contact"
proof -
  have "list_all (\<lambda>p. text_at p men_contact \<noteq> None)
    [[''metaDescription''], [''title''], [''intro''], [''primaryLabel''], [''supportLabel''], [''founderLabel''],
     [''addressLabel''], [''socialLabel'']]"
    unfolding men_contact_def by (simp cong: lookup_congs)
  then show ?thesis by (simp add: texts_marketing_contact_def english_groups english_marketing)
qed

lemma used_marketing_faqPage: "all_english texts_marketing_faqPage"
proof -
  have "list_all (\<lambda>p. text_at p men_faqPage \<noteq> None)
    [[''metaDescription''], [''title'']]"
    unfolding men_faqPage_def by (simp cong: lookup_congs)
  then show ?thesis by (simp add: texts_marketing_faqPage_def english_groups english_marketing)
qed

lemma used_marketing_security: "all_english texts_marketing_security"
proof -
  have "list_all (\<lambda>p. text_at p men_security \<noteq> None)
    [[''metaDescription''], [''title''], [''intro''], [''disclosureTitle''], [''disclosureBody'']]"
    unfolding men_security_def by (simp cong: lookup_congs)
  then show ?thesis by (simp add: texts_marketing_security_def english_groups english_marketing)
qed

lemma used_marketing_privacy: "all_english texts_marketing_privacy"
proof -
  have "list_all (\<lambda>p. text_at p men_privacy \<noteq> None)
    [[''metaDescription''], [''title''], [''draftBanner''], [''lastUpdated''], [''sections'', ''controller''],
     [''sections'', ''controllerBody''], [''sections'', ''collect''], [''sections'', ''collectBody''],
     [''sections'', ''analytics''], [''sections'', ''analyticsBody''], [''sections'', ''cookies''],
     [''sections'', ''cookiesBody''], [''sections'', ''sharing''], [''sections'', ''sharingBody''],
     [''sections'', ''retention''], [''sections'', ''retentionBody''], [''sections'', ''rights''],
     [''sections'', ''rightsBody''], [''sections'', ''transfers''], [''sections'', ''transfersBody''],
     [''sections'', ''contact''], [''sections'', ''contactBody'']]"
    unfolding men_privacy_def by (simp cong: lookup_congs)
  then show ?thesis by (simp add: texts_marketing_privacy_def english_groups english_marketing)
qed

lemma used_marketing_terms: "all_english texts_marketing_terms"
proof -
  have "list_all (\<lambda>p. text_at p men_terms \<noteq> None)
    [[''metaDescription''], [''title''], [''draftBanner''], [''lastUpdated''], [''sections'', ''agreement''],
     [''sections'', ''agreementBody''], [''sections'', ''service''], [''sections'', ''serviceBody''],
     [''sections'', ''payments''], [''sections'', ''paymentsBody''], [''sections'', ''acceptable''],
     [''sections'', ''acceptableBody''], [''sections'', ''liability''], [''sections'', ''liabilityBody''],
     [''sections'', ''law''], [''sections'', ''lawBody''], [''sections'', ''contact''],
     [''sections'', ''contactBody'']]"
    unfolding men_terms_def by (simp cong: lookup_congs)
  then show ?thesis by (simp add: texts_marketing_terms_def english_groups english_marketing)
qed

lemma used_in_english: "all_english used_texts"
  using used_top used_nav used_home used_orders used_proposals used_fulfillment used_create used_customers
    used_wallets used_settings used_receipt used_timeline used_trust used_checkout used_auth used_common
    used_install used_admin used_store used_links used_onboarding used_miniapp used_marketing_top
    used_marketing_nav used_marketing_hero used_marketing_builtFor used_marketing_marquee
    used_marketing_problem used_marketing_steps used_marketing_draftReminders used_marketing_benefits
    used_marketing_nonCustodial used_marketing_earlyAccess used_marketing_finalCta used_marketing_footer
    used_marketing_imprint used_marketing_claude used_marketing_faqLanding used_marketing_about
    used_marketing_contact used_marketing_faqPage used_marketing_security used_marketing_privacy
    used_marketing_terms
  by (simp add: used_texts_def)

lemma filled_groups:
  "map_option holes (text_at [''greetingNamed''] en_home) = Some [lit ''greeting'', lit ''name'']"
  "map_option holes (text_at [''pendingCount''] en_home) = Some [lit ''n'']"
  "map_option holes (text_at [''paidCount''] en_home) = Some [lit ''n'']"
  "map_option holes (text_at [''daysAgo''] en_customers) = Some [lit ''n'']"
  "map_option holes (text_at [''payStore''] en_checkout) = Some [lit ''name'']"
  "map_option holes (text_at [''progress'', ''confirmations''] en_checkout) = Some [lit ''current'', lit ''required'']"
  "map_option holes (text_at [''stepOf''] en_onboarding) = Some [lit ''n'', lit ''total'']"
  unfolding en_home_def en_customers_def en_checkout_def en_onboarding_def
  by (simp_all cong: lookup_congs) (simp_all add: lit_def)

lemma filled_in_english:
  "list_all (\<lambda>(k, hs). map_option holes (text_at (path_of k) catalogue_en) = Some (map lit hs)) filled_texts"
  using filled_groups by (simp add: filled_texts_def english_groups)

lemma agree_messages:
  assumes "text_at (path_of k) catalogue_en \<noteq> None"
  shows "messages_of catalogue_en k \<noteq> [] \<and> messages_of catalogue_fa k \<noteq> [] \<and>
    same_holes (messages_of catalogue_en k) (messages_of catalogue_fa k)"
  using assms agree_text_at [OF agree_catalogues, of "path_of k"] by (auto simp: messages_of_def)

text \<open>C40: the two languages say the same things: the English and the Persian catalogue have the same keys in
  the same order, lists of one length, no empty text, and in every text the same placeholders as
  often; every text the models of the pages look up by its path (\<open>used_texts\<close>) is there in both; and the texts the pages fill have
  exactly the placeholders that the code replaces, so none is left on a page.\<close>

theorem catalogues_agree:
  "agree catalogue_en catalogue_fa \<and>
   list_all (\<lambda>k. catalog ''en'' k \<noteq> [] \<and> catalog ''fa'' k \<noteq> []) used_texts \<and>
   list_all (\<lambda>(k, hs). holes (catalog ''en'' k) = map lit hs \<and> same_holes (catalog ''en'' k) (catalog ''fa'' k)) filled_texts"
proof (intro conjI)
  show "agree catalogue_en catalogue_fa" by (rule agree_catalogues)
  show "list_all (\<lambda>k. catalog ''en'' k \<noteq> [] \<and> catalog ''fa'' k \<noteq> []) used_texts"
    using used_in_english agree_messages by (simp add: list_all_iff catalog_def)
  show "list_all (\<lambda>(k, hs). holes (catalog ''en'' k) = map lit hs \<and>
      same_holes (catalog ''en'' k) (catalog ''fa'' k)) filled_texts"
    using filled_in_english agree_messages
    by (fastforce simp: list_all_iff catalog_def messages_of_def)
qed

end
