(* ===== verification/AuthViews.thy ===== *)
theory AuthViews
  imports Ui AuthPages
begin

text \<open>
  What login/page.tsx and register/page.tsx under apps/web/src/app render, over the state of
  \<open>AuthPages\<close>, and that its events are the ones the markup offers.
\<close>

text \<open>What a control of the pages stands for. A field raises an event with the text it then holds.\<close>

datatype auth_control =
    Ac_email
  | Ac_send
  | Ac_resend
  | Ac_verify
  | Ac_mode ustr
  | Ac_name
  | Ac_merchant
  | Ac_phone
  | Ac_otp
  | Ac_locale ustr

fun auth_raises :: "auth_control \<Rightarrow> ustr \<Rightarrow> auth_event option" where
  "auth_raises Ac_email s = Some Au_email_submit"
| "auth_raises Ac_send s = Some Au_send"
| "auth_raises Ac_resend s = Some Au_send"
| "auth_raises Ac_verify s = Some Au_verify"
| "auth_raises (Ac_mode v) s = Some (Au_mode (if v = lit ''phone'' then Mode_phone else Mode_email))"
| "auth_raises Ac_name s = Some (Au_name s)"
| "auth_raises Ac_merchant s = Some (Au_merchant s)"
| "auth_raises Ac_phone s = Some (Au_phone s)"
| "auth_raises Ac_otp s = Some (Au_otp s)"
| "auth_raises (Ac_locale l) s = None"

definition mode_name :: "auth_mode \<Rightarrow> ustr" where
  "mode_name m = lit (case m of Mode_email \<Rightarrow> ''email'' | Mode_phone \<Rightarrow> ''phone'')"

subsection \<open>Both pages\<close>

definition login_email ::
  "messages \<Rightarrow> auth_page \<Rightarrow> auth_control node list" where
  "login_email t p =
     [El ''form''
        [At ''className'' (lit ''form-stack''), At ''method'' (lit ''post''), On ''onSubmit'' Ac_email]
        ([El ''div'' [At ''className'' (lit ''field'')]
            [El ''label'' [At ''htmlFor'' (lit ''email'')] [Txt (t ''email'')],
             El ''input''
               [At ''id'' (lit ''email''), At ''name'' (lit ''email''), At ''type'' (lit ''email''),
                Flag ''required'' True, At ''autoComplete'' (lit ''email'')] []],
          El ''div'' [At ''className'' (lit ''field'')]
            [El ''label'' [At ''htmlFor'' (lit ''password'')] [Txt (t ''password'')],
             El ''input''
               [At ''id'' (lit ''password''), At ''name'' (lit ''password''), At ''type'' (lit ''password''),
                Flag ''required'' True, At ''minLength'' (lit ''8''),
                At ''autoComplete'' (lit ''current-password'')] []]] @
         (if (au_error p) \<noteq> [] then
            [El ''p'' [At ''className'' (lit ''field-error''), At ''role'' (lit ''alert'')] [Txt (au_error p)]] else []) @
         [El ''button'' [At ''className'' (lit ''btn btn-primary''), Flag ''disabled'' (au_loading p)]
            [Txt (if au_loading p then t ''common.loading'' else t ''login'')]])]"

definition login_phone ::
  "messages \<Rightarrow> auth_page \<Rightarrow> auth_control node list" where
  "login_phone t p =
     [El ''form'' [At ''className'' (lit ''form-stack''), On ''onSubmit'' Ac_send]
        ([El ''div'' [At ''className'' (lit ''field'')]
            [El ''label'' [At ''htmlFor'' (lit ''phone'')] [Txt (t ''phone'')],
             El ''input''
               [At ''id'' (lit ''phone''), At ''name'' (lit ''phone''), At ''type'' (lit ''tel''),
                At ''inputMode'' (lit ''tel''), At ''value'' (au_phone p), On ''onChange'' Ac_phone,
                At ''placeholder'' (lit ''09121234567''), Flag ''required'' True,
                At ''className'' (lit ''mono-ltr'')] [],
             El ''span'' [At ''className'' (lit ''field-hint'')] [Txt (t ''phoneHint'')]]] @
         (if (au_error p) \<noteq> [] then
            [El ''p'' [At ''className'' (lit ''field-error''), At ''role'' (lit ''alert'')] [Txt (au_error p)]] else []) @
         (if (au_info p) \<noteq> [] then
            [El ''p'' [At ''className'' (lit ''ok'')] [Txt (au_info p)]] else []) @
         [El ''button''
            [At ''className'' (lit ''btn btn-primary''),
             Flag ''disabled'' (au_loading p \<or> \<not> isValidIranianPhone (au_phone p))]
            [Txt (if au_loading p then t ''common.loading'' else t ''sendOtp'')]])]"

definition login_otp ::
  "messages \<Rightarrow> auth_page \<Rightarrow> auth_control node list" where
  "login_otp t p =
     [El ''form'' [At ''className'' (lit ''form-stack''), On ''onSubmit'' Ac_verify]
        ([El ''div'' [At ''className'' (lit ''field'')]
            [El ''label'' [At ''htmlFor'' (lit ''otp'')] [Txt (t ''otpCode'')],
             El ''input''
               [At ''id'' (lit ''otp''), At ''name'' (lit ''otp''), At ''inputMode'' (lit ''numeric''),
                At ''autoComplete'' (lit ''one-time-code''), At ''value'' (au_otp p), On ''onChange'' Ac_otp,
                Flag ''required'' True, At ''className'' (lit ''mono-ltr'')] []]] @
         (if (au_error p) \<noteq> [] then
            [El ''p'' [At ''className'' (lit ''field-error''), At ''role'' (lit ''alert'')] [Txt (au_error p)]] else []) @
         [El ''div'' [At ''className'' (lit ''cta-stack'')]
            [El ''button'' [At ''className'' (lit ''btn btn-primary''), Flag ''disabled'' (au_loading p)]
               [Txt (if au_loading p then t ''common.loading'' else t ''verifyOtp'')],
             El ''button''
               [At ''type'' (lit ''button''), At ''className'' (lit ''btn btn-tertiary btn-block''),
                Flag ''disabled'' (au_loading p), On ''onClick'' Ac_resend] [Txt (t ''resendOtp'')]]])]"

definition login_view ::
  "messages \<Rightarrow> ustr \<Rightarrow> (nat \<Rightarrow> ustr) \<Rightarrow> bool \<Rightarrow> auth_page \<Rightarrow> auth_control node list" where
  "login_view t locale wordSize google p =
     [El ''main'' [At ''className'' (lit ''shell page-stack'')]
        ([El ''header'' [At ''className'' (lit ''auth-topbar'')]
            ((brand_mark wordSize ''full'' ''color'' locale [] 28) @ (language_switch t locale [] Ac_locale))] @
         (page_header (t ''login'') [] []) @ (google_button t True google) @
         (if au_phoneEnabled p then
            (segmented_control (mode_name (au_mode p))
               [(lit ''email'', t ''loginWithEmail''), (lit ''phone'', t ''loginWithPhone'')] Ac_mode
               (t ''login'')) else []) @
         (if au_mode p = Mode_email then
            login_email t p
          else if au_step p = Step_phone then login_phone t p else login_otp t p) @
         [El ''p'' [At ''className'' (lit ''muted'')]
            [El ''Link'' [At ''href'' (lit ''/register'')] [Txt (t ''createAccount'')]]])]"

definition register_email ::
  "messages \<Rightarrow> auth_page \<Rightarrow> auth_control node list" where
  "register_email t p =
     [El ''form''
        [At ''className'' (lit ''form-stack''), At ''method'' (lit ''post''), On ''onSubmit'' Ac_email]
        ([El ''div'' [At ''className'' (lit ''field'')]
            [El ''label'' [At ''htmlFor'' (lit ''name'')] [Txt (t ''name'')],
             El ''input'' [At ''id'' (lit ''name''), At ''name'' (lit ''name''), Flag ''required'' True] []],
          El ''div'' [At ''className'' (lit ''field'')]
            [El ''label'' [At ''htmlFor'' (lit ''merchant_name'')] [Txt (t ''settings.displayName'')],
             El ''input''
               [At ''id'' (lit ''merchant_name''), At ''name'' (lit ''merchant_name''), Flag ''required'' True]
               []],
          El ''div'' [At ''className'' (lit ''field'')]
            [El ''label'' [At ''htmlFor'' (lit ''email'')] [Txt (t ''email'')],
             El ''input''
               [At ''id'' (lit ''email''), At ''name'' (lit ''email''), At ''type'' (lit ''email''),
                Flag ''required'' True, At ''autoComplete'' (lit ''email'')] []],
          El ''div'' [At ''className'' (lit ''field'')]
            [El ''label'' [At ''htmlFor'' (lit ''password'')] [Txt (t ''password'')],
             El ''input''
               [At ''id'' (lit ''password''), At ''name'' (lit ''password''), At ''type'' (lit ''password''),
                Flag ''required'' True, At ''minLength'' (lit ''8''),
                At ''autoComplete'' (lit ''new-password'')] []]] @
         (if (au_error p) \<noteq> [] then
            [El ''p'' [At ''className'' (lit ''field-error''), At ''role'' (lit ''alert'')] [Txt (au_error p)]] else []) @
         [El ''button'' [At ''className'' (lit ''btn btn-primary''), Flag ''disabled'' (au_loading p)]
            [Txt (if au_loading p then t ''common.loading'' else t ''register'')]])]"

definition register_phone ::
  "messages \<Rightarrow> auth_page \<Rightarrow> auth_control node list" where
  "register_phone t p =
     [El ''form'' [At ''className'' (lit ''form-stack''), On ''onSubmit'' Ac_send]
        ([El ''div'' [At ''className'' (lit ''field'')]
            [El ''label'' [At ''htmlFor'' (lit ''phone-name'')] [Txt (t ''name'')],
             El ''input''
               [At ''id'' (lit ''phone-name''), At ''value'' (au_name p), On ''onChange'' Ac_name,
                Flag ''required'' True] []],
          El ''div'' [At ''className'' (lit ''field'')]
            [El ''label'' [At ''htmlFor'' (lit ''phone-store'')] [Txt (t ''settings.displayName'')],
             El ''input''
               [At ''id'' (lit ''phone-store''), At ''value'' (au_merchant p), On ''onChange'' Ac_merchant,
                Flag ''required'' True] []],
          El ''div'' [At ''className'' (lit ''field'')]
            [El ''label'' [At ''htmlFor'' (lit ''phone'')] [Txt (t ''phone'')],
             El ''input''
               [At ''id'' (lit ''phone''), At ''type'' (lit ''tel''), At ''inputMode'' (lit ''tel''),
                At ''value'' (au_phone p), On ''onChange'' Ac_phone, At ''placeholder'' (lit ''09121234567''),
                Flag ''required'' True, At ''className'' (lit ''mono-ltr'')] [],
             El ''span'' [At ''className'' (lit ''field-hint'')] [Txt (t ''phoneHint'')]]] @
         (if (au_error p) \<noteq> [] then
            [El ''p'' [At ''className'' (lit ''field-error''), At ''role'' (lit ''alert'')] [Txt (au_error p)]] else []) @
         (if (au_info p) \<noteq> [] then
            [El ''p'' [At ''className'' (lit ''ok'')] [Txt (au_info p)]] else []) @
         [El ''button''
            [At ''className'' (lit ''btn btn-primary''),
             Flag ''disabled'' (au_loading p \<or> \<not> isValidIranianPhone (au_phone p))]
            [Txt (if au_loading p then t ''common.loading'' else t ''sendOtp'')]])]"

definition register_otp ::
  "messages \<Rightarrow> auth_page \<Rightarrow> auth_control node list" where
  "register_otp t p =
     [El ''form'' [At ''className'' (lit ''form-stack''), On ''onSubmit'' Ac_verify]
        ([El ''div'' [At ''className'' (lit ''field'')]
            [El ''label'' [At ''htmlFor'' (lit ''otp'')] [Txt (t ''otpCode'')],
             El ''input''
               [At ''id'' (lit ''otp''), At ''inputMode'' (lit ''numeric''),
                At ''autoComplete'' (lit ''one-time-code''), At ''value'' (au_otp p), On ''onChange'' Ac_otp,
                Flag ''required'' True, At ''className'' (lit ''mono-ltr'')] []]] @
         (if (au_error p) \<noteq> [] then
            [El ''p'' [At ''className'' (lit ''field-error''), At ''role'' (lit ''alert'')] [Txt (au_error p)]] else []) @
         [El ''div'' [At ''className'' (lit ''cta-stack'')]
            [El ''button'' [At ''className'' (lit ''btn btn-primary''), Flag ''disabled'' (au_loading p)]
               [Txt (if au_loading p then t ''common.loading'' else t ''register'')],
             El ''button''
               [At ''type'' (lit ''button''), At ''className'' (lit ''btn btn-tertiary btn-block''),
                Flag ''disabled'' (au_loading p), On ''onClick'' Ac_resend] [Txt (t ''resendOtp'')]]])]"

definition register_view ::
  "messages \<Rightarrow> ustr \<Rightarrow> (nat \<Rightarrow> ustr) \<Rightarrow> bool \<Rightarrow> auth_page \<Rightarrow> auth_control node list" where
  "register_view t locale wordSize google p =
     [El ''main'' [At ''className'' (lit ''shell page-stack'')]
        ([El ''header'' [At ''className'' (lit ''auth-topbar'')]
            ((brand_mark wordSize ''full'' ''color'' locale [] 28) @ (language_switch t locale [] Ac_locale))] @
         (page_header (t ''register'') [] []) @ (google_button t False google) @
         (if au_phoneEnabled p then
            (segmented_control (mode_name (au_mode p))
               [(lit ''email'', t ''email''), (lit ''phone'', t ''phone'')] Ac_mode (t ''register'')) else []) @
         (if au_mode p = Mode_email then
            register_email t p
          else if au_step p = Step_phone then register_phone t p else register_otp t p) @
         [El ''p'' [At ''className'' (lit ''muted'')]
            [El ''Link'' [At ''href'' (lit ''/login'')] [Txt (t ''login'')]]])]"

definition auth_view :: "messages \<Rightarrow> ustr \<Rightarrow> (nat \<Rightarrow> ustr) \<Rightarrow> bool \<Rightarrow> bool \<Rightarrow> auth_page \<Rightarrow> auth_control node list" where
  "auth_view t locale wordSize google registering p =
     (if registering then register_view t locale wordSize google p else login_view t locale wordSize google p)"

subsection \<open>The events are what the markup offers\<close>

text \<open>The conditions under which \<open>auth_do\<close> takes an event of the user.\<close>

fun auth_guard :: "bool \<Rightarrow> auth_event \<Rightarrow> auth_page \<Rightarrow> bool" where
  "auth_guard registering (Au_mode m) p \<longleftrightarrow> au_phoneEnabled p"
| "auth_guard registering (Au_name s) p \<longleftrightarrow> registering \<and> phone_form p"
| "auth_guard registering (Au_merchant s) p \<longleftrightarrow> registering \<and> phone_form p"
| "auth_guard registering (Au_phone s) p \<longleftrightarrow> phone_form p"
| "auth_guard registering (Au_otp s) p \<longleftrightarrow> otp_form p"
| "auth_guard registering Au_email_submit p \<longleftrightarrow> au_mode p = Mode_email \<and> \<not> au_loading p"
| "auth_guard registering Au_send p \<longleftrightarrow>
     \<not> au_loading p \<and> (phone_form p \<and> isValidIranianPhone (au_phone p) \<or> otp_form p)"
| "auth_guard registering Au_verify p \<longleftrightarrow> otp_form p \<and> \<not> au_loading p"
| "auth_guard registering _ p \<longleftrightarrow> True"

fun by_user :: "auth_event \<Rightarrow> bool" where
  "by_user (Au_google g) = False"
| "by_user (Au_providers a) = False"
| "by_user (Au_answer a) = False"
| "by_user _ = True"

lemma auth_do_guarded: "\<not> auth_guard registering e p \<Longrightarrow> auth_do t registering e p = p"
  by (cases e) auto

text \<open>What each form offers.\<close>

lemma auth_forms_offer:
  "offers (login_email t p) = (if au_loading p then [] else [Ac_email])"
  "offers (register_email t p) = (if au_loading p then [] else [Ac_email])"
  "offers (login_phone t p) =
     (if au_loading p \<or> \<not> isValidIranianPhone (au_phone p) then [] else [Ac_send]) @ [Ac_phone]"
  "offers (register_phone t p) =
     (if au_loading p \<or> \<not> isValidIranianPhone (au_phone p) then [] else [Ac_send]) @ [Ac_name, Ac_merchant, Ac_phone]"
  "offers (login_otp t p) = (if au_loading p then [Ac_otp] else [Ac_verify, Ac_otp, Ac_resend])"
  "offers (register_otp t p) = (if au_loading p then [Ac_otp] else [Ac_verify, Ac_otp, Ac_resend])"
  by (simp_all add: login_email_def register_email_def login_phone_def register_phone_def login_otp_def
      register_otp_def can_submit_def markup_simps)

text \<open>An event of the user is taken exactly where a control that raises it is offered.\<close>

lemma guard_is_offer:
  assumes "by_user e"
  shows "auth_guard registering e p \<longleftrightarrow>
    (\<exists>k\<in>set (offers (auth_view t locale w google registering p)). \<exists>s. auth_raises k s = Some e)"
proof -
  have mode: "Mode_phone \<noteq> m \<Longrightarrow> Mode_email = m" for m by (cases m) simp_all
  show ?thesis
    using assms
    by (cases e; cases "au_mode p"; cases "au_step p"; cases registering)
      (auto simp: auth_view_def login_view_def register_view_def markup_simps auth_forms_offer phone_form_def
        otp_form_def intro: mode)
qed

subsection \<open>The notice that a code was sent\<close>

text \<open>It is kept from the moment the page has left the form that would show it.\<close>

lemma info_kept_for_otp:
  "(au_info p \<noteq> [] \<longrightarrow> au_step p = Step_otp) \<Longrightarrow>
     au_info (auth_do t registering e p) \<noteq> [] \<longrightarrow> au_step (auth_do t registering e p) = Step_otp"
  by (cases e) (auto simp: auth_steps split: option.splits answer.splits auth_wait.splits)

interpretation auth_notice: event_machine "auth_do t registering" "\<lambda>p. au_info p \<noteq> [] \<longrightarrow> au_step p = Step_otp" "\<lambda>_. True"
  by unfold_locales (rule info_kept_for_otp)

text \<open>So in every history the page is the one without it.\<close>

lemma code_sent_never_shown:
  "let p = fold (auth_do t registering) es new_auth
   in auth_view t locale w google registering p = auth_view t locale w google registering (p\<lparr>au_info := []\<rparr>)"
proof -
  define p where "p = fold (auth_do t registering) es new_auth"
  have "au_info p \<noteq> [] \<longrightarrow> au_step p = Step_otp"
    unfolding p_def by (rule auth_notice.run_keeps) (simp_all add: new_auth_def list_all_iff)
  then have "auth_view t locale w google registering p = auth_view t locale w google registering (p\<lparr>au_info := []\<rparr>)"
    by (auto simp: auth_view_def login_view_def register_view_def login_email_def register_email_def login_otp_def
        register_otp_def login_phone_def register_phone_def)
  then show ?thesis by (simp add: Let_def flip: p_def)
qed

end
