(* ===== verification/SellerViews.thy ===== *)
theory SellerViews
  imports Ui OrderPage Catalogue
begin

text \<open>
  What the pages of the seller render: the home page (app/page.tsx) and the page of a customer
  (app/customers/[id]/page.tsx) under apps/web/src/app/app, and the sheet on which a proposal is
  approved (components/orders/MessageProposalSheet.tsx), over the states of \<open>SellerLists\<close>,
  \<open>OrderPage\<close> and \<open>WebGateway\<close>.
\<close>

text \<open>What the components read from their surroundings: the catalogue with its two groups of labels,
  the conversions of a number, and the hour of the day.\<close>

record page_env =
  pe_rt :: runtime
  pe_t :: messages
  pe_fulfillment :: "ustr \<Rightarrow> ustr option"
  pe_status :: "ustr \<Rightarrow> ustr option"
  pe_localeNumber :: "nat \<Rightarrow> ustr"
  pe_hour :: nat

definition toman_text :: "page_env \<Rightarrow> nat \<Rightarrow> ustr" where
  "toman_text pe n = pe_localeNumber pe n @ lit '' '' @ pe_t pe ''checkout.toman''"

definition fulfillment_meta :: "page_env \<Rightarrow> ustr \<Rightarrow> ustr" where
  "fulfillment_meta pe st = fulfillmentLabel (Some st) (pe_t pe ''fulfillment.UNFULFILLED'') (pe_fulfillment pe)"

subsection \<open>The home page\<close>

datatype home_click = Hk_retry | Hk_copy_link | Hk_paste

definition greeting ::
  "messages \<Rightarrow> nat \<Rightarrow> ustr" where
  "greeting t h =
     (if h < 12 then t ''home.greetingMorning''
      else if h < 18 then t ''home.greetingAfternoon''
      else t ''home.greetingEvening'')"

definition home_title ::
  "messages \<Rightarrow> nat \<Rightarrow> ustr \<Rightarrow> ustr" where
  "home_title t h name =
     (if name \<noteq> [] then js_replace (lit ''{name}'') name (js_replace (lit ''{greeting}'') (greeting t h) (t ''home.greetingNamed''))
      else greeting t h)"

definition home_today ::
  "page_env \<Rightarrow> home_data \<Rightarrow> home_click node list" where
  "home_today pe d =
     [El ''div'' [At ''className'' (lit ''home-today'')]
        (if hd_paid_orders d = 0 then
           [El ''div'' [At ''className'' (lit ''home-today-amount home-today-quiet'')]
              [Txt (pe_t pe ''home.paidTodayNone'')],
            El ''div'' [At ''className'' (lit ''home-today-meta'')] [Txt (pe_t pe ''home.emptyHint'')]]
         else [El ''div'' [At ''className'' (lit ''home-today-amount tabular'')]
                 [Txt (js_replace (lit ''{n}'') (dec (hd_paid_orders d)) (pe_t pe ''home.paidCount''))],
               El ''div'' [At ''className'' (lit ''home-today-meta tabular mono-ltr'')]
                 [Txt
                    (if hd_usdt_received d \<noteq> [] then
                       pe_t pe ''home.usdtReceived'' @ lit '' '' @ hd_usdt_received d @ lit '' USDT''
                     else toman_text pe (hd_toman_volume d))]])]"

definition home_standing ::
  "page_env \<Rightarrow> standing_link \<Rightarrow> home_click node list" where
  "home_standing pe l =
     [El ''section'' [At ''className'' (lit ''section'')]
        [El ''h2'' [At ''className'' (lit ''section-title'')] [Txt (pe_t pe ''home.standingLink'')],
         El ''p'' [At ''className'' (lit ''muted''), Style [(''margin'', lit ''0'')]]
           [Txt (or_text (sl_title l) (sl_slug l))],
         El ''div'' [At ''className'' (lit ''cta-stack''), Style [(''marginTop'', lit ''var(--space-3)'')]]
           [El ''button''
              [At ''type'' (lit ''button''), At ''className'' (lit ''btn btn-secondary''),
               On ''onClick'' Hk_copy_link] [Txt (pe_t pe ''home.copyStandingLink'')],
            El ''button''
              [At ''type'' (lit ''button''), At ''className'' (lit ''btn btn-tertiary''),
               On ''onClick'' Hk_paste] [Txt (pe_t pe ''home.pasteInstagram'')]]]]"

definition home_attention ::
  "page_env \<Rightarrow> home_data \<Rightarrow> home_click node list" where
  "home_attention pe d =
     [El ''section'' [At ''className'' (lit ''section'')]
        [El ''h2'' [At ''className'' (lit ''section-title'')] [Txt (pe_t pe ''home.attention'')],
         El ''div'' [At ''className'' (lit ''list-group'')]
           (concat
              (map
                 (\<lambda>u.
                    (order_list_row (pe_rt pe) (pe_t pe) (pe_status pe) (lit ''/app/orders/'' @ ai_id u)
                       (ai_title u) (pe_localeNumber pe (ai_amountToman u)) (pe_t pe ''checkout.toman'')
                       (ai_payment_status u)
                       (if ai_reason u = lit ''PAID_UNFULFILLED'' then
                          pe_t pe ''home.awaitingFulfillment'' else []))) (take 5 (hd_attention_items d))))]]"

definition home_recent ::
  "page_env \<Rightarrow> home_data option \<Rightarrow> home_click node list" where
  "home_recent pe dd =
     [El ''section'' [At ''className'' (lit ''section'')]
        ([El ''h2'' [At ''className'' (lit ''section-title'')] [Txt (pe_t pe ''home.recent'')]] @
         (if dd = None then
            (skeleton_rows 4)
          else
            (if (case dd of None \<Rightarrow> False | Some d \<Rightarrow> hd_recent d \<noteq> []) then
               [El ''div'' [At ''className'' (lit ''list-group'')]
                  (concat
                     (map
                        (\<lambda>u.
                           (order_list_row (pe_rt pe) (pe_t pe) (pe_status pe) (lit ''/app/orders/'' @ ho_id u)
                              (or_text (or_text (ho_customer_name u) (ho_title u)) (ho_slug u))
                              (pe_localeNumber pe (ho_amountToman u)) (pe_t pe ''checkout.toman'')
                              (or_text (ho_payment_status u) (ho_status u))
                              (if ho_fulfillment_status u \<noteq> [] \<and> ho_fulfillment_status u \<noteq>
                                    lit ''UNFULFILLED'' then
                                 fulfillment_meta pe (ho_fulfillment_status u) else [])))
                        (case dd of None \<Rightarrow> [] | Some d \<Rightarrow> hd_recent d)))]
             else (empty_state (pe_t pe ''orders.empty'')
                     [El ''Link''
                        [At ''className'' (lit ''btn btn-secondary''), At ''href'' (lit ''/app/create'')]
                        [Txt (pe_t pe ''home.newOrder'')]] [Txt (pe_t pe ''home.empty'')]))))]"

definition home_body ::
  "page_env \<Rightarrow> ustr \<Rightarrow> home_data option \<Rightarrow> home_click node list" where
  "home_body pe name dd =
     [El ''div'' [At ''className'' (lit ''page-stack'')]
        ((page_header (home_title (pe_t pe) (pe_hour pe) name) [] []) @
         (if dd = None then (skeleton_rows 2) else home_today pe (the dd)) @
         (new_payment_button (pe_t pe) (lit ''btn btn-primary'') False) @
         (if (case dd of None \<Rightarrow> False | Some d \<Rightarrow> 0 < hd_pending d) then
            [El ''p'' [At ''className'' (lit ''home-pending muted'')]
               [El ''Link'' [At ''href'' (lit ''/app/orders'')]
                  [Txt (js_replace (lit ''{n}'') (dec (hd_pending (the dd))) (pe_t pe ''home.pendingCount''))]]] else []) @
         (case Option.bind dd hd_payment_link of None \<Rightarrow> [] | Some l \<Rightarrow> home_standing pe
            l) @
         (case dd of None \<Rightarrow> [] | Some d \<Rightarrow> if 0 < hd_needs_attention d \<and>
            hd_attention_items d \<noteq> [] then home_attention pe d else []) @
         home_recent pe dd)]"

definition home_screen ::
  "page_env \<Rightarrow> home_page \<Rightarrow> home_click node list" where
  "home_screen pe p =
     (case home_view_of p of
        Home_skeleton \<Rightarrow> skeleton_rows 4
      | Home_error e \<Rightarrow> error_retry e (pe_t pe ''common.retry'') (Some Hk_retry)
      | Home_body dd \<Rightarrow> home_body pe (hm_name p) dd)"

text \<open>The handlers: the retry, which reloads the page, and the text the two buttons copy; a copy that the
  browser refuses is not caught, so that nothing is shown.\<close>

definition home_retry ::
  "home_page \<Rightarrow> home_page" where
  "home_retry p =
     p\<lparr>hm_error := [], hm_gate := True\<rparr>"

definition home_copies ::
  "messages \<Rightarrow> standing_link \<Rightarrow> home_click \<Rightarrow> ustr option" where
  "home_copies t l k =
     (case k of
        Hk_retry \<Rightarrow> None
      | Hk_copy_link \<Rightarrow> Some (sl_url l)
      | Hk_paste \<Rightarrow> Some (js_trim (sl_title l @ [10] @ t ''create.completeOrder'' @ [10] @ sl_url l)))"

definition home_copied ::
  "messages \<Rightarrow> bool \<Rightarrow> ustr option" where
  "home_copied t taken =
     (if taken then Some (t ''common.copied'') else None)"

subsection \<open>The page of a customer\<close>

datatype customer_click =
    Kc_note
  | Kc_tag
  | Kc_add_note
  | Kc_add_tag
  | Kc_remove ustr

fun customer_raises :: "customer_click \<Rightarrow> ustr \<Rightarrow> customer_event" where
  "customer_raises Kc_note s = Cd_note s"
| "customer_raises Kc_tag s = Cd_tag s"
| "customer_raises Kc_add_note s = Cd_add_note"
| "customer_raises Kc_add_tag s = Cd_add_tag"
| "customer_raises (Kc_remove tg) s = Cd_remove tg"

definition customer_card ::
  "page_env \<Rightarrow> ustr \<Rightarrow> customer \<Rightarrow> customer_click node list" where
  "customer_card pe newOrder c =
     [El ''div'' [At ''className'' (lit ''card-panel'')]
        ((if (cs_phone c) \<noteq> [] then
            [El ''p'' [At ''className'' (lit ''mono-ltr''), Style [(''margin'', lit ''0'')]] [Txt (cs_phone c)]] else []) @
         (if (cs_email c) \<noteq> [] then
            [El ''p'' [At ''className'' (lit ''muted'')] [Txt (cs_email c)]] else []) @
         [El ''p''
            [At ''className'' (lit ''tabular''),
             Style [(''margin'', lit ''var(--space-3) 0 0''), (''fontWeight'', lit ''600'')]]
            [Txt (dec (cs_order_count c)),
             Txt (lit '' ''),
             Txt (pe_t pe ''customers.orders''),
             Txt
               (case cs_paid_orders c of None \<Rightarrow> [] | Some n \<Rightarrow> [32, 183, 32] @ dec n @
                lit '' '' @ pe_t pe ''customers.paidOrders''),
             Txt (lit '' '' @ [183] @ lit '' ''),
             Txt (pe_localeNumber pe (cs_lifetime_paid c)),
             Txt (lit '' ''),
             Txt (pe_t pe ''checkout.toman'')]] @
         (if cs_tags c \<noteq> [] then
            [El ''p'' [At ''className'' (lit ''tag-row'')]
               (concat
                  (map
                     (\<lambda>tg.
                        [El ''button''
                           [At ''type'' (lit ''button''), At ''className'' (lit ''tag-chip''),
                            On ''onClick'' (Kc_remove tg)] [Txt tg, Txt (lit '' '' @ [215])]]) (cs_tags c)))] else []) @
         [El ''Link''
            [At ''className'' (lit ''btn btn-primary''), At ''href'' newOrder,
             Style [(''marginTop'', lit ''var(--space-4)'')]]
            [Txt (lit ''+ ''), Txt (pe_t pe ''customers.newOrder'')]])]"

definition customer_notes ::
  "page_env \<Rightarrow> customer_page \<Rightarrow> customer \<Rightarrow> customer_click node list" where
  "customer_notes pe p c =
     [El ''section'' [At ''className'' (lit ''section'')]
        [El ''h2'' [At ''className'' (lit ''section-title'')] [Txt (pe_t pe ''customers.notes'')],
         El ''form'' [At ''className'' (lit ''stack-form''), On ''onSubmit'' Kc_add_note]
           [El ''input''
              [At ''value'' (cd_note p), On ''onChange'' Kc_note,
               At ''placeholder'' (pe_t pe ''customers.notePlaceholder'')] [],
            El ''button'' [At ''className'' (lit ''btn-secondary''), At ''type'' (lit ''submit'')]
              [Txt (pe_t pe ''customers.addNote'')]],
         El ''div'' [At ''className'' (lit ''list-group'')]
           (concat
              (map
                 (\<lambda>n.
                    [El ''div'' [At ''className'' (lit ''list-row''), Style [(''cursor'', lit ''default'')]]
                       [El ''div'' [At ''className'' (lit ''list-row-body'')]
                          [El ''div'' [At ''className'' (lit ''list-row-meta'')] [Txt (cn_body n)]]]])
                 (cs_notes c)))]]"

definition customer_tags ::
  "page_env \<Rightarrow> customer_page \<Rightarrow> customer_click node list" where
  "customer_tags pe p =
     [El ''section'' [At ''className'' (lit ''section'')]
        [El ''h2'' [At ''className'' (lit ''section-title'')] [Txt (pe_t pe ''customers.tags'')],
         El ''form'' [At ''className'' (lit ''stack-form''), On ''onSubmit'' Kc_add_tag]
           [El ''input''
              [At ''value'' (cd_tag p), On ''onChange'' Kc_tag,
               At ''placeholder'' (pe_t pe ''customers.tagPlaceholder'')] [],
            El ''button'' [At ''className'' (lit ''btn-secondary''), At ''type'' (lit ''submit'')]
              [Txt (pe_t pe ''customers.addTag'')]]]]"

definition customer_addresses ::
  "page_env \<Rightarrow> customer \<Rightarrow> customer_click node list" where
  "customer_addresses pe c =
     [El ''section'' [At ''className'' (lit ''section'')]
        [El ''h2'' [At ''className'' (lit ''section-title'')] [Txt (pe_t pe ''customers.addresses'')],
         El ''div'' [At ''className'' (lit ''list-group'')]
           (concat
              (map
                 (\<lambda>a.
                    [El ''div'' [At ''className'' (lit ''list-row''), Style [(''cursor'', lit ''default'')]]
                       [El ''div'' [At ''className'' (lit ''list-row-body'')]
                          ([El ''div'' [At ''className'' (lit ''list-row-title'')]
                              [Txt (ca_label a), Txt (if ca_is_default a then [32, 183, 32, 9733] else [])],
                            El ''div'' [At ''className'' (lit ''list-row-meta'')] [Txt (ca_address_line a)]] @
                           (if (ca_postal_code a) \<noteq> [] then
                              [El ''div'' [At ''className'' (lit ''list-row-meta mono-ltr'')]
                                 [Txt (ca_postal_code a)]] else []))]]) (cs_addresses c)))]]"

definition customer_orders ::
  "page_env \<Rightarrow> customer \<Rightarrow> customer_click node list" where
  "customer_orders pe c =
     [El ''section'' [At ''className'' (lit ''section'')]
        [El ''h2'' [At ''className'' (lit ''section-title'')] [Txt (pe_t pe ''customers.recentOrders'')],
         El ''div'' [At ''className'' (lit ''list-group'')]
           (concat
              (map
                 (\<lambda>u.
                    [El ''Link''
                       [At ''href'' (lit ''/app/orders/'' @ cr_id u), At ''className'' (lit ''list-row'')]
                       [El ''div'' [At ''className'' (lit ''list-row-body'')]
                          [El ''div'' [At ''className'' (lit ''list-row-title'')]
                             [Txt (or_text (cr_title u) (cr_slug u))],
                           El ''div'' [At ''className'' (lit ''list-row-meta tabular'')]
                             [Txt (pe_localeNumber pe (cr_amountToman u)), Txt (lit '' ''),
                              Txt (pe_t pe ''checkout.toman'')],
                           El ''div'' [At ''className'' (lit ''list-row-meta'')]
                             [Txt (fulfillment_meta pe (cr_fulfillment_status u))]],
                        El ''div'' [At ''className'' (lit ''list-row-trailing'')]
                          (status_badge (pe_rt pe) (pe_t pe) (pe_status pe) (cr_payment_status u))]])
                 (cs_recent_orders c)))]]"

definition customer_body ::
  "page_env \<Rightarrow> ustr \<Rightarrow> customer_page \<Rightarrow> customer \<Rightarrow> customer_click node list" where
  "customer_body pe newOrder p c =
     [El ''div'' [At ''className'' (lit ''page-stack'')]
        (back_link (pe_t pe) (lit ''/app/customers'') [] @
         page_header (or_text (cs_full_name c) (pe_t pe ''customers.title'')) [] [] @
         customer_card pe newOrder c @ customer_notes pe p c @ customer_tags pe p @
         (if cs_addresses c \<noteq> [] then customer_addresses pe c else []) @ customer_orders pe c)]"

definition customer_skeleton ::
  "customer_click node list" where
  "customer_skeleton =
     [El ''div'' [At ''className'' (lit ''page-stack'')]
        ((skeleton (lit ''1.75rem'') (lit ''40%'') []) @ (skeleton (lit ''8rem'') (lit ''100%'') []))]"

text \<open>Rendering throws where the link to a new order cannot be encoded.\<close>

definition customer_screen ::
  "page_env \<Rightarrow> customer_page \<Rightarrow> customer_click node list option" where
  "customer_screen pe p =
     (case cd_customer p of
        None \<Rightarrow> Some customer_skeleton
      | Some c \<Rightarrow> map_option (\<lambda>href. customer_body pe href p c) (newOrderHref (cs_id c) (cs_full_name c)))"

subsection \<open>The approval sheet\<close>

datatype proposal_click =
    Pk_close
  | Pk_edit
  | Pk_reset
  | Pk_code
  | Pk_submit
  | Pk_reject

definition paymentStatusLabel ::
  "page_env \<Rightarrow> ustr \<Rightarrow> ustr" where
  "paymentStatusLabel pe st =
     (case pe_status pe st of None \<Rightarrow> st | Some l \<Rightarrow> l)"

definition proposal_facts ::
  "page_env \<Rightarrow> proposal_view \<Rightarrow> ustr \<Rightarrow> nat \<Rightarrow> ustr \<Rightarrow> proposal_click node list" where
  "proposal_facts pe v orderTitle amount toman =
     [El ''dl'' [At ''className'' (lit ''proposal-facts'')]
        [El ''div'' []
           [El ''dt'' [] [Txt (pe_t pe ''proposals.factOrder'')],
            El ''dd'' [] [Txt (or_text orderTitle (pv_orderSlug v))]],
         El ''div'' []
           [El ''dt'' [] [Txt (pe_t pe ''proposals.factAmount'')],
            El ''dd'' [] [Txt (pe_localeNumber pe amount @ lit '' '' @ toman)]],
         El ''div'' []
           [El ''dt'' [] [Txt (pe_t pe ''proposals.factPayment'')],
            El ''dd'' []
              [El ''span'' [At ''className'' (lit ''status-badge attention'')]
                 [Txt (paymentStatusLabel pe (pv_paymentStatus v))]]],
         El ''div'' []
           [El ''dt'' [] [Txt (pe_t pe ''proposals.factReference'')],
            El ''dd'' [At ''className'' (lit ''mono-ltr'')] [Txt (pv_orderSlug v)]]]]"

definition proposal_draft ::
  "page_env \<Rightarrow> proposal_view \<Rightarrow> sheet_state \<Rightarrow> proposal_click node list" where
  "proposal_draft pe v s =
     [El ''div'' [At ''className'' (lit ''field''), Style [(''marginTop'', lit ''var(--space-3)'')]]
        ([El ''label'' [At ''htmlFor'' (lit ''proposal-draft'')] [Txt (pe_t pe ''proposals.draftLabel'')],
          El ''textarea''
            [At ''id'' (lit ''proposal-draft''), At ''rows'' (lit ''6''), At ''value'' (sh_draftBody s),
             On ''onChange'' Pk_edit, Flag ''disabled'' (sheet_terminal (Some v) \<or> sh_busy s),
             Flag ''readOnly'' (sheet_terminal (Some v))] []] @
         (if \<not> sh_digestOk s \<and> \<not> sheet_terminal (Some v) then
            [El ''p''
               [At ''className'' (lit ''muted''), At ''role'' (lit ''alert''),
                Style [(''marginTop'', lit ''var(--space-2)'')]]
               [Txt (pe_t pe ''proposals.editedWarning''),
                Txt (lit '' ''),
                El ''button''
                  [At ''type'' (lit ''button''),
                   At ''className'' (lit ''quiet-link''),
                   Style [(''background'', lit ''none''), (''border'', lit ''0''), (''padding'', lit ''0'')],
                   On ''onClick'' Pk_reset] [Txt (pe_t pe ''proposals.resetDraft'')]]] else []))]"

definition proposal_form ::
  "page_env \<Rightarrow> proposal_view \<Rightarrow> sheet_state \<Rightarrow> proposal_click node list" where
  "proposal_form pe v s =
     [El ''form'' [On ''onSubmit'' Pk_submit]
        [El ''div'' [At ''className'' (lit ''field'')]
           [El ''label'' [At ''htmlFor'' (lit ''proposal-link-code'')] [Txt (pe_t pe ''proposals.linkCode'')],
            El ''input''
              [At ''id'' (lit ''proposal-link-code''), At ''className'' (lit ''mono-ltr''),
               At ''inputMode'' (lit ''text''), At ''autoComplete'' (lit ''off''),
               At ''autoCapitalize'' (lit ''characters''), Flag ''spellCheck'' False,
               At ''maxLength'' (lit ''6''), At ''value'' (sh_linkCode s), On ''onChange'' Pk_code,
               At ''placeholder'' (lit ''ABC234''), Flag ''disabled'' (sh_busy s)] [],
            El ''p''
              [At ''className'' (lit ''muted''),
               Style [(''marginTop'', lit ''var(--space-2)''), (''fontSize'', lit ''var(--text-footnote)'')]]
              [Txt (pe_t pe ''proposals.linkCodeHint'')]],
         El ''div'' [At ''className'' (lit ''cta-stack''), Style [(''marginTop'', lit ''var(--space-4)'')]]
           [El ''button''
              [At ''className'' (lit ''btn btn-primary''), At ''type'' (lit ''submit''),
               Flag ''disabled'' (\<not> canApprove (Some v) s)]
              [Txt (if sh_busy s then pe_t pe ''common.loading'' else pe_t pe ''proposals.approve'')],
            El ''button''
              [At ''className'' (lit ''btn btn-secondary''), At ''type'' (lit ''button''),
               Flag ''disabled'' (sh_busy s), On ''onClick'' Pk_reject] [Txt (pe_t pe ''proposals.reject'')]]]]"

definition proposal_end ::
  "page_env \<Rightarrow> proposal_view \<Rightarrow> proposal_click node list" where
  "proposal_end pe v =
     [El ''p'' [At ''className'' (lit ''muted''), Style [(''marginTop'', lit ''var(--space-3)'')]]
        [Txt
           (if pv_state v = lit ''rejected'' then
              pe_t pe ''proposals.rejectedToast''
            else pe_t pe ''proposals.approvedToast'')]]"

definition proposal_sheet ::
  "page_env \<Rightarrow> bool \<Rightarrow> proposal_view \<Rightarrow> ustr \<Rightarrow> nat \<Rightarrow> ustr \<Rightarrow> ustr \<Rightarrow> sheet_state \<Rightarrow> proposal_click node list" where
  "proposal_sheet pe shown v orderTitle amount toman confirmUrl s =
     (sheet_frame shown Pk_close (pe_t pe ''proposals.sheetTitle'')
        (Some (lit ''message-proposal-sheet-title''))
        ([El ''p'' [At ''className'' (lit ''muted''), Style [(''margin'', lit ''0 0 var(--space-3)'')]]
            [Txt (pe_t pe ''proposals.sheetHint'')]] @
         (proposal_facts pe v orderTitle amount toman) @ (proposal_draft pe v s) @
         (if pv_state v = lit ''pending_confirmation'' then proposal_form pe v s else proposal_end pe v) @
         (if confirmUrl \<noteq> [] then
            [El ''p'' [Style [(''marginTop'', lit ''var(--space-4)'')]]
               [El ''a''
                  [At ''href'' confirmUrl, At ''className'' (lit ''quiet-link''),
                   At ''target'' (lit ''_blank''), At ''rel'' (lit ''noopener noreferrer'')]
                  [Txt (pe_t pe ''proposals.openConfirmPage'')]]] else [])))"

subsection \<open>What the pages offer\<close>

lemma home_parts_offer [markup_simps]:
  "offers (home_today pe d) = []" "offers (home_standing pe l) = [Hk_copy_link, Hk_paste]"
  "offers (home_attention pe d) = []" "offers (home_recent pe dd) = []"
  by (simp_all add: home_today_def home_standing_def home_attention_def home_recent_def markup_simps o_def)

lemma home_screen_offers:
  "offers (home_screen pe p) =
     (case home_view_of p of
        Home_skeleton \<Rightarrow> []
      | Home_error e \<Rightarrow> [Hk_retry]
      | Home_body dd \<Rightarrow> (case Option.bind dd hd_payment_link of None \<Rightarrow> [] | Some l \<Rightarrow> [Hk_copy_link, Hk_paste]))"
  by (simp add: home_screen_def home_body_def markup_simps split: home_view.split option.split)

text \<open>Once the home page has data, an error of a later load is not shown.\<close>

lemma reload_error_hidden:
  "hm_data p \<noteq> None \<Longrightarrow> home_screen pe (p\<lparr>hm_error := e\<rparr>) = home_screen pe p"
  by (auto simp: home_screen_def home_view_of_def)

text \<open>The seller's name is a replacement text: a dollar sign in it is not plain.\<close>

lemma greeting_expanded:
  "home_title (\<lambda>k. if k = ''home.greetingNamed'' then lit ''{greeting}, {name}!'' else lit ''Hi'') 9 (lit ''A$&'') =
     lit ''Hi, A{name}!''"
  by (simp add: home_title_def greeting_def js_replace_def js_replace_from.simps lit_def)

lemma customer_parts_offer [markup_simps]:
  "offers (customer_card pe href c) = map Kc_remove (cs_tags c)"
  "offers (customer_notes pe p c) = [Kc_add_note, Kc_note]" "offers (customer_tags pe p) = [Kc_add_tag, Kc_tag]"
  "offers (customer_addresses pe c) = []" "offers (customer_orders pe c) = []"
proof -
  have tags: "concat (map (\<lambda>tg. [Kc_remove tg]) tgs) = map Kc_remove tgs" for tgs by (induction tgs) simp_all
  show "offers (customer_card pe href c) = map Kc_remove (cs_tags c)"
    by (simp add: customer_card_def markup_simps o_def tags)
qed (simp_all add: customer_notes_def customer_tags_def customer_addresses_def customer_orders_def can_submit_def
    lit_def markup_simps o_def)

text \<open>The page of a customer takes an event of the user only where it is rendered and offers it.\<close>

fun customer_by_user :: "customer_event \<Rightarrow> bool" where
  "customer_by_user (Cd_loaded a) = False"
| "customer_by_user (Cd_changed r a) = False"
| "customer_by_user _ = True"

lemma customer_event_offered:
  assumes "customer_by_user e" "customer_do e p \<noteq> p" "customer_screen pe p = Some ns"
  shows "\<exists>k\<in>set (offers ns). \<exists>s. customer_raises k s = e"
  using assms
  by (cases e) (auto simp: customer_screen_def customer_body_def markup_simps split: option.splits if_splits)

text \<open>The sheet offers to approve exactly where its code can, and to decline a pending proposal unless a
  request is out.\<close>

lemma proposal_parts_offer [markup_simps]:
  "offers (proposal_facts pe v title amount toman) = []"
  "offers (proposal_draft pe v s) = (if sheet_terminal (Some v) \<or> sh_busy s then [] else [Pk_edit]) @
     (if \<not> sh_digestOk s \<and> \<not> sheet_terminal (Some v) then [Pk_reset] else [])"
  "offers (proposal_form pe v s) = (if canApprove (Some v) s then [Pk_submit] else []) @
     (if sh_busy s then [] else [Pk_code, Pk_reject])"
  "offers (proposal_end pe v) = []"
  by (simp_all add: proposal_facts_def proposal_draft_def proposal_form_def proposal_end_def can_submit_def
      markup_simps lit_def)

lemma approve_offered:
  "Pk_submit \<in> set (offers (proposal_sheet pe shown v title amount toman url s)) \<longleftrightarrow> shown \<and> canApprove (Some v) s"
  by (auto simp: proposal_sheet_def markup_simps canApprove_def)

lemma decline_offered:
  "Pk_reject \<in> set (offers (proposal_sheet pe shown v title amount toman url s)) \<longleftrightarrow>
     shown \<and> pv_state v = lit ''pending_confirmation'' \<and> \<not> sh_busy s"
  by (auto simp: proposal_sheet_def markup_simps)

text \<open>A proposal that is neither pending nor declined is shown as approved, an expired one too.\<close>

lemma expired_shown_as_approved:
  assumes "pv_state v = lit ''expired''"
  shows "pe_t pe ''proposals.approvedToast'' \<in> set (leaves_of (proposal_sheet pe True v title amount toman url s))"
  using assms by (simp add: proposal_sheet_def sheet_frame_def proposal_end_def lit_def markup_simps)

text \<open>Until the digest of the edited text is computed (where the browser has no \<open>crypto.subtle\<close>, it never
  is), the sheet offers to approve, with the digest of the proposal, while it shows another text.\<close>

lemma edited_text_approvable:
  assumes "pv_state v = lit ''pending_confirmation''" "\<not> sh_busy s" "length (sh_linkCode (sheet_type_code rt code s)) \<ge> 6"
  shows "let s1 = sheet_type_code rt code (sheet_edit other (sheet_show v s));
             page = proposal_sheet pe True v title amount toman url s1
         in Pk_submit \<in> set (offers page) \<and> attrs_of ''textarea'' ''value'' page = [other]"
proof -
  define s1 where "s1 = sheet_type_code rt code (sheet_edit other (sheet_show v s))"
  have code: "sh_linkCode s1 = sh_linkCode (sheet_type_code rt code s)" "sh_draftBody s1 = other" "sh_digestOk s1" "\<not> sh_busy s1"
    using assms(2) by (simp_all add: s1_def sheet_type_code_def sheet_edit_def sheet_show_def)
  have "\<not> is_ws c" if "c \<in> set (sh_linkCode s1)" for c
    using that by (auto simp: code sheet_type_code_def is_ws_def is_digit_def)
  then have "js_trim (sh_linkCode s1) = sh_linkCode s1" by (intro js_trim_no_ws) (simp add: list_all_iff)
  then have "canApprove (Some v) s1" using assms code by (simp add: canApprove_def)
  moreover have "attrs_of ''textarea'' ''value'' (proposal_sheet pe True v title amount toman url s1) = [other]"
    using assms(1) by (simp add: proposal_sheet_def sheet_frame_def proposal_facts_def proposal_draft_def proposal_form_def
        code markup_simps)
  ultimately show ?thesis by (simp add: approve_offered flip: s1_def)
qed

text \<open>The link to the confirmation page opens it without handing over this window.\<close>

lemma proposal_links_safe: "list_all safe_node (proposal_sheet pe shown v title amount toman url s)"
  by (simp add: proposal_sheet_def sheet_frame_def proposal_facts_def proposal_draft_def proposal_form_def
      proposal_end_def lit_def opt_at_def)

end
