(* ===== verification/PageViews.thy ===== *)
theory PageViews
  imports SellerViews CheckoutView
begin

text \<open>
  What further pages render: the lists of orders and customers (app/orders/page.tsx,
  app/customers/page.tsx) and the page of an order (app/orders/[id]/page.tsx) under
  apps/web/src/app/app, with components/PaymentProgress.tsx; and the frame of the seller's application
  (app/app/AppLayoutClient.tsx, components/Nav.tsx, MerchantChrome.tsx and InstallSheet.tsx).
\<close>

subsection \<open>The list of orders\<close>

datatype list_click = Lc_type | Lc_filter bool | Lc_reload

definition chip_class :: "bool \<Rightarrow> ustr" where
  "chip_class chosen = lit ''filter-chip'' @ (if chosen then lit '' active'' else [])"

definition orders_row ::
  "page_env \<Rightarrow> order_row \<Rightarrow> list_click node list" where
  "orders_row pe u =
     (order_list_row (pe_rt pe) (pe_t pe) (pe_status pe) (lit ''/app/orders/'' @ or_id u)
        (or_text (or_text (or_customer_name u) (or_title u)) (or_slug u))
        (case or_amountToman u of None \<Rightarrow> [] | Some n \<Rightarrow> pe_localeNumber pe n)
        (pe_t pe ''checkout.toman'') (or_payment_status u)
        (if or_fulfillment_status u \<noteq> [] \<and> or_fulfillment_status u \<noteq> lit ''UNFULFILLED'' then
           fulfillment_meta pe (or_fulfillment_status u) else []))"

definition orders_view ::
  "page_env \<Rightarrow> orders_page \<Rightarrow> list_click node list" where
  "orders_view pe p =
     [El ''div'' [At ''className'' (lit ''page-stack'')]
        ((page_header (pe_t pe ''orders.title'') [] (new_payment_button (pe_t pe) [] True)) @
         (if (showSearch p) \<or> (showFilters p) then
            [El ''div'' [At ''className'' (lit ''page-toolbar'')]
               ((if showSearch p then
                   [El ''div'' [At ''className'' (lit ''field''), Style [(''margin'', lit ''0'')]]
                      [El ''input''
                         [At ''value'' (ol_q p), On ''onChange'' Lc_type,
                          At ''placeholder'' (pe_t pe ''orders.searchPlaceholder''),
                          At ''autoComplete'' (lit ''off'')] []]] else []) @
                (if showFilters p then
                   [El ''div'' [At ''className'' (lit ''filter-row'')]
                      [El ''button''
                         [At ''type'' (lit ''button''), At ''className'' (chip_class (\<not> ol_attention p)),
                          On ''onClick'' (Lc_filter False)] [Txt (pe_t pe ''orders.filterAll'')],
                       El ''button''
                         [At ''type'' (lit ''button''), At ''className'' (chip_class (ol_attention p)),
                          On ''onClick'' (Lc_filter True)] [Txt (pe_t pe ''orders.filterAttention'')]]] else []))] else []) @
         (if (ol_error p) \<noteq> [] then
            [El ''div'' [At ''className'' (lit ''page-stack'')]
               [El ''p'' [At ''className'' (lit ''field-error''), At ''role'' (lit ''alert'')]
                  [Txt (ol_error p)],
                El ''button''
                  [At ''type'' (lit ''button''), At ''className'' (lit ''btn btn-secondary''),
                   On ''onClick'' Lc_reload] [Txt (pe_t pe ''common.retry'')]]] else []) @
         (if ol_loading p then (skeleton_rows 5) else []) @
         (if (\<not> (ol_loading p)) \<and> (ol_orders p \<noteq> []) then
            [El ''div'' [At ''className'' (lit ''list-group'')] (concat (map (orders_row pe) (ol_orders p)))] else []) @
         (if (\<not> (ol_loading p)) \<and>
               ((\<not> (ol_orders p \<noteq> [])) \<and> (\<not> ((ol_error p) \<noteq> []))) then
            (empty_state
               (if ol_attention p then pe_t pe ''orders.filterAttention'' else pe_t pe ''orders.empty'')
               (if ol_attention p then
                  [El ''button''
                     [At ''type'' (lit ''button''), At ''className'' (lit ''btn btn-secondary''),
                      On ''onClick'' (Lc_filter False)] [Txt (pe_t pe ''orders.filterAll'')]]
                else [El ''Link''
                        [At ''className'' (lit ''btn btn-secondary''), At ''href'' (lit ''/app/create'')]
                        [Txt (pe_t pe ''home.newOrder'')]])
               [Txt (if ol_attention p then pe_t pe ''orders.emptyAttention'' else pe_t pe ''home.empty'')]) else []))]"

text \<open>Rendering throws where a listed order has no amount in toman.\<close>

definition orders_screen ::
  "page_env \<Rightarrow> orders_page \<Rightarrow> list_click node list option" where
  "orders_screen pe p =
     (if \<not> ol_loading p \<and> list_ex (\<lambda>u. or_amountToman u = None) (ol_orders p) then None else Some (orders_view pe p))"

definition orders_fallback ::
  "list_click node list" where
  "orders_fallback =
     [El ''div'' [At ''className'' (lit ''page-stack'')] (skeleton_rows 5)]"

subsection \<open>The list of customers\<close>

text \<open>\<open>last_order\<close> is the text of a row's last order, which depends on the clock.\<close>

definition last_order_text ::
  "(ustr \<Rightarrow> int option) \<Rightarrow> int \<Rightarrow> page_env \<Rightarrow> ustr \<Rightarrow> ustr" where
  "last_order_text parseDate now pe stamp =
     relativeDay parseDate now (pe_t pe) (\<lambda>n. js_replace (lit ''{n}'') n (pe_t pe ''customers.daysAgo'')) stamp"

definition customers_row ::
  "page_env \<Rightarrow> (ustr \<Rightarrow> ustr) \<Rightarrow> customer_row \<Rightarrow> list_click node list" where
  "customers_row pe last_order c =
     [El ''Link'' [At ''href'' (lit ''/app/customers/'' @ cu_id c), At ''className'' (lit ''list-row'')]
        [El ''div'' [At ''className'' (lit ''list-row-body'')]
           [El ''div'' [At ''className'' (lit ''list-row-title'')]
              [Txt (or_text (or_text (cu_full_name c) (cu_phone c)) (cu_email c))],
            El ''div'' [At ''className'' (lit ''list-row-meta mono-ltr'')]
              [Txt (or_text (cu_phone c) (cu_email c))],
            El ''div'' [At ''className'' (lit ''list-row-meta tabular'')]
              [Txt (dec (cu_order_count c)), Txt (lit '' ''), Txt (pe_t pe ''customers.orders''),
               Txt (lit '' '' @ [183] @ lit '' ''), Txt (pe_localeNumber pe (cu_lifetime_paid c)),
               Txt (lit '' ''), Txt (pe_t pe ''checkout.toman'')],
            El ''div'' [At ''className'' (lit ''list-row-meta'')]
              [Txt (pe_t pe ''customers.lastOrder''), Txt (lit '': ''),
               Txt (last_order (cu_last_order_at c))]]]]"

definition customers_view ::
  "page_env \<Rightarrow> (ustr \<Rightarrow> ustr) \<Rightarrow> customers_page \<Rightarrow> list_click node list" where
  "customers_view pe last_order p =
     [El ''div'' [At ''className'' (lit ''page-stack'')]
        ((page_header (pe_t pe ''customers.title'') [] []) @
         [El ''div'' [At ''className'' (lit ''field''), Style [(''margin'', lit ''0'')]]
            [El ''label'' [At ''htmlFor'' (lit ''customer-search''), At ''className'' (lit ''sr-only'')]
               [Txt (pe_t pe ''customers.searchPlaceholder'')],
             El ''input''
               [At ''id'' (lit ''customer-search''), At ''value'' (cp_q p), On ''onChange'' Lc_type,
                At ''placeholder'' (pe_t pe ''customers.searchPlaceholder''), At ''autoComplete'' (lit ''off'')]
               []]] @
         (if (cp_error p) \<noteq> [] then
            [El ''p'' [At ''className'' (lit ''field-error''), At ''role'' (lit ''alert'')] [Txt (cp_error p)]] else []) @
         (if cp_items p = None then
            (skeleton_rows 4)
          else
            (if cp_items p = Some [] then
               (empty_state (pe_t pe ''customers.title'')
                  [El ''Link'' [At ''className'' (lit ''btn btn-secondary''), At ''href'' (lit ''/app/create'')]
                     [Txt (pe_t pe ''home.newOrder'')]] [Txt (pe_t pe ''customers.empty'')])
             else [El ''div'' [At ''className'' (lit ''list-group'')]
                     (concat (map (customers_row pe last_order) (the (cp_items p))))])))]"

subsection \<open>The progress of a payment\<close>

definition stage_item ::
  "messages \<Rightarrow> ustr \<Rightarrow> nat \<Rightarrow> 'e node list" where
  "stage_item t status i =
     [El ''li''
        [At ''className'' (case stage_class status i of Stage_done \<Rightarrow> lit ''done'' | Stage_current \<Rightarrow> lit ''current''
           | Stage_upcoming \<Rightarrow> lit ''upcoming'')]
        [El ''span'' [At ''className'' (lit ''dot''), Flag ''aria-hidden'' True] [],
         El ''span'' [At ''className'' (lit ''label'')] [Txt (t (''checkout.progress.'' @ stageOrder ! i))]]]"

definition payment_progress ::
  "messages \<Rightarrow> ustr \<Rightarrow> nat option \<Rightarrow> nat option \<Rightarrow> bool \<Rightarrow> 'e node list" where
  "payment_progress t status confirmations required compact =
     (if exceptionKind (Some status) \<noteq> None then payment_state t (Some status) False False confirmations required True
      else [El ''section''
        [At ''className'' (lit ''payment-progress '' @ (if compact then lit ''compact'' else [])),
         At ''aria-live'' (lit ''polite''), At ''aria-atomic'' (lit ''true''),
         At ''aria-label'' (t (''checkout.progress.'' @ stageOrder ! min (stageIndex status) 3))]
        ([El ''ol'' [At ''className'' (lit ''progress-steps'')] (concat (map (stage_item t status) [0..<4]))] @
         (if given (confirmations_text t confirmations required) \<noteq> [] \<and> (status = lit ''SEEN'' \<or> status = lit ''CONFIRMING'') then
            [El ''p'' [At ''className'' (lit ''progress-meta tabular'')]
               [Txt (given (confirmations_text t confirmations required))]] else []))])"

subsection \<open>The page of an order\<close>

text \<open>What only the rendering reads of an order.\<close>

record timeline_event =
  tv_event_type :: ustr
  tv_title :: ustr
  tv_detail :: ustr
  tv_created_at :: ustr

record order_rest =
  ox_label :: "ustr \<Rightarrow> ustr option"
  ox_timeline :: "timeline_event list"
  ox_receipt :: "receipt_data option"
  ox_explorer_url :: "ustr option"
  ox_confirmations :: "nat option"
  ox_required :: "nat option"

datatype order_click =
    Oc_suggest
  | Oc_open proposal_view
  | Oc_sheet proposal_click
  | Oc_share
  | Oc_copy
  | Oc_receipt checkout_click
  | Oc_fulfil fulfil_button
  | Oc_carrier
  | Oc_tracking
  | Oc_ship
  | Oc_ship_back

fun order_raises :: "order_click \<Rightarrow> ustr \<Rightarrow> order_event option" where
  "order_raises Oc_suggest s = Some Od_suggest"
| "order_raises (Oc_open v) s = Some (Od_open v)"
| "order_raises (Oc_sheet k) s = (if k = Pk_close then Some Od_close else None)"
| "order_raises (Oc_fulfil b) s = Some (Od_fulfil b)"
| "order_raises Oc_carrier s = Some (Od_carrier s)"
| "order_raises Oc_tracking s = Some (Od_tracking s)"
| "order_raises Oc_ship s = Some Od_ship"
| "order_raises Oc_ship_back s = Some Od_ship_back"
| "order_raises _ s = None"

definition order_proposals ::
  "page_env \<Rightarrow> order_page \<Rightarrow> order_click node list" where
  "order_proposals pe p =
     [El ''section'' [At ''className'' (lit ''section'')]
        ([El ''h2'' [At ''className'' (lit ''section-title'')] [Txt (pe_t pe ''proposals.section'')],
          El ''p'' [At ''className'' (lit ''muted''), Style [(''marginBottom'', lit ''var(--space-3)'')]]
            [Txt (pe_t pe ''proposals.suggestClaudeHint'')],
          El ''button''
            [At ''type'' (lit ''button''), At ''className'' (lit ''btn btn-secondary''),
             Flag ''disabled'' (od_suggestBusy p), On ''onClick'' Oc_suggest]
            [Txt
               (if od_suggestBusy p then
                  pe_t pe ''proposals.suggestClaudeBusy''
                else pe_t pe ''proposals.suggestClaude'')]] @
         (if od_pending p \<noteq> [] then
            [El ''div'' [At ''className'' (lit ''list-group''), Style [(''marginTop'', lit ''var(--space-4)'')]]
               (concat
                  (map
                     (\<lambda>v.
                        [El ''button''
                           [At ''type'' (lit ''button''), At ''className'' (lit ''list-row''),
                            On ''onClick'' (Oc_open v)]
                           [El ''div'' [At ''className'' (lit ''list-row-body'')]
                              [El ''div'' [At ''className'' (lit ''list-row-title'')]
                                 [Txt (pe_t pe ''proposals.pendingRow'')],
                               El ''div'' [At ''className'' (lit ''list-row-meta'')]
                                 [Txt (take 72 (pv_body v)),
                                  Txt (if 72 < length (pv_body v) then [8230] else [])]],
                            El ''div'' [At ''className'' (lit ''list-row-trailing'')]
                              [El ''span'' [At ''className'' (lit ''status-badge attention'')]
                                 [Txt (pe_t pe ''proposals.review'')]]]]) (od_pending p)))] else []))]"

definition order_sheet ::
  "page_env \<Rightarrow> ustr \<Rightarrow> order \<Rightarrow> order_page \<Rightarrow> sheet_state \<Rightarrow> nat \<Rightarrow> order_click node list" where
  "order_sheet pe confirmUrl d p s n =
     (case od_active p of None \<Rightarrow> []
      | Some v \<Rightarrow> map (map_node Oc_sheet)
          (proposal_sheet pe (od_sheetOpen p) v (od_title d) n (pe_t pe ''checkout.toman'') confirmUrl s))"

definition order_state ::
  "page_env \<Rightarrow> order \<Rightarrow> order_click node list" where
  "order_state pe d =
     (if displayStatus d = lit ''PAID'' then
        [El ''strong'' [Style [(''fontSize'', lit ''var(--text-title3)'')]] [Txt (paid_heading (pe_t pe) d)]]
      else (payment_state (pe_t pe) (Some (displayStatus d)) False False None None True)) @
     (if full_name d \<noteq> [] \<and> displayStatus d \<noteq> lit ''PAID'' then
        [El ''p'' [Style [(''margin'', lit ''var(--space-2) 0 0''), (''fontWeight'', lit ''650'')]]
           [Txt (full_name d)]] else [])"

text \<open>\<open>intent?.options?.[0]\<close>.\<close>

definition order_quote :: "order \<Rightarrow> order_option option" where
  "order_quote d = (case od_intent d of None \<Rightarrow> None
     | Some n \<Rightarrow> (case oi_options n of [] \<Rightarrow> None | q # _ \<Rightarrow> Some q))"

definition order_details ::
  "page_env \<Rightarrow> order \<Rightarrow> order_rest \<Rightarrow> order_click node list" where
  "order_details pe d x =
     [El ''details'' [At ''className'' (lit ''details-block'')]
        ([El ''summary'' [] [Txt (pe_t pe ''checkout.paymentDetails'')]] @
         (payment_progress (pe_t pe) (displayStatus d) (ox_confirmations x) (ox_required x) True) @
         (if order_quote d \<noteq> None then
            [El ''p'' [At ''className'' (lit ''muted''), Style [(''marginTop'', lit ''var(--space-3)'')]]
               [Txt (oo_pay_usdt_amount (the (order_quote d))),
                Txt (lit '' ''),
                Txt (pe_t pe ''receipt.usdt''),
                Txt (lit '' '' @ [183]),
                Txt (lit '' ''),
                Txt
                  (networkLabel (pe_rt pe) (oo_network (the (order_quote d))) (pe_t pe ''wallets.tron'')
                     (pe_t pe ''wallets.bsc''))]] else []) @
         [El ''p''
            [At ''className'' (lit ''mono-ltr muted''),
             Style [(''fontSize'', lit ''var(--text-footnote)''), (''marginTop'', lit ''var(--space-3)'')]]
            [Txt (od_checkout_url d)],
          El ''div''
            [At ''className'' (lit ''qr-card''),
             Style [(''marginTop'', lit ''var(--space-3)''), (''border'', lit ''0''), (''padding'', lit ''0'')]]
            [El ''div'' [At ''className'' (lit ''qr-frame'')]
               [El ''QRCodeSVG''
                  [At ''value'' (od_checkout_url d), At ''size'' (lit ''140''),
                   At ''bgColor'' (lit ''#ffffff''), At ''fgColor'' (lit ''#0b1f1a''),
                   At ''marginSize'' (lit ''4'')] []]]])]"

definition order_receipt ::
  "order \<Rightarrow> nat \<Rightarrow> receipt_data \<Rightarrow> receipt_data" where
  "order_receipt d n r =
     \<lparr>rd_merchant = rd_merchant r, rd_order_title = or_text (rd_order_title r) (od_title d),
      rd_order_reference = or_text (rd_order_reference r) (od_slug d), rd_amountToman = Some n, rd_usdt = rd_usdt r,
      rd_received_usdt = [], rd_network = rd_network r, rd_tx_hash = rd_tx_hash r,
      rd_explorer_url = rd_explorer_url r, rd_success_message = []\<rparr>"

definition order_receipt_card ::
  "view_env \<Rightarrow> order \<Rightarrow> order_rest \<Rightarrow> nat \<Rightarrow> order_click node list" where
  "order_receipt_card ve d x n =
     (case ox_receipt x of None \<Rightarrow> []
      | Some r \<Rightarrow> map (map_node Oc_receipt)
          (receipt_card ve (order_receipt d n r) (rd_merchant r) (or_text (rd_order_title r) (od_title d)) (Some n) True))"

definition order_buttons ::
  "page_env \<Rightarrow> order \<Rightarrow> order_page \<Rightarrow> order_click node list" where
  "order_buttons pe d p =
     [El ''div'' [At ''className'' (lit ''cta-stack'')]
        ((if od_fulfillment d = lit ''UNFULFILLED'' then
            [El ''button''
               [At ''className'' (lit ''btn btn-secondary''), Flag ''disabled'' (od_busy p),
                On ''onClick'' (Oc_fulfil Mark_processing)] [Txt (pe_t pe ''fulfillment.markProcessing'')]] else []) @
         [El ''button''
            [At ''className'' (lit ''btn btn-primary''), Flag ''disabled'' (od_busy p),
             On ''onClick'' (Oc_fulfil Mark_shipped)] [Txt (pe_t pe ''fulfillment.markShipped'')]] @
         (if od_fulfillment d = lit ''SHIPPED'' then
            [El ''button''
               [At ''className'' (lit ''btn btn-secondary''), Flag ''disabled'' (od_busy p),
                On ''onClick'' (Oc_fulfil Mark_delivered)] [Txt (pe_t pe ''fulfillment.markDelivered'')]] else []))]"

definition order_ship_form ::
  "page_env \<Rightarrow> order_page \<Rightarrow> order_click node list" where
  "order_ship_form pe p =
     [El ''form'' [At ''className'' (lit ''card-panel''), On ''onSubmit'' Oc_ship]
        [El ''h3'' [Style [(''margin'', lit ''0''), (''fontSize'', lit ''var(--text-headline)'')]]
           [Txt (pe_t pe ''fulfillment.shipTitle'')],
         El ''div'' [At ''className'' (lit ''field''), Style [(''marginTop'', lit ''var(--space-3)'')]]
           [El ''label'' [At ''htmlFor'' (lit ''carrier'')] [Txt (pe_t pe ''fulfillment.carrier'')],
            El ''input'' [At ''id'' (lit ''carrier''), At ''value'' (od_carrier p), On ''onChange'' Oc_carrier]
              []],
         El ''div'' [At ''className'' (lit ''field'')]
           [El ''label'' [At ''htmlFor'' (lit ''tracking'')] [Txt (pe_t pe ''fulfillment.tracking'')],
            El ''input''
              [At ''id'' (lit ''tracking''), At ''className'' (lit ''mono-ltr''), At ''value'' (od_tracking p),
               On ''onChange'' Oc_tracking, At ''placeholder'' (lit ''12345678901234567890'')] []],
         El ''div'' [At ''className'' (lit ''cta-stack'')]
           [El ''button'' [At ''className'' (lit ''btn btn-primary''), Flag ''disabled'' (od_busy p)]
              [Txt (pe_t pe ''fulfillment.confirmShip'')],
            El ''button''
              [At ''className'' (lit ''btn btn-tertiary''), At ''type'' (lit ''button''),
               On ''onClick'' Oc_ship_back] [Txt (pe_t pe ''common.back'')]]]]"

definition order_fulfilment ::
  "page_env \<Rightarrow> order \<Rightarrow> order_page \<Rightarrow> order_click node list" where
  "order_fulfilment pe d p =
     [El ''section'' [At ''className'' (lit ''section'')]
        ([El ''h2'' [At ''className'' (lit ''section-title'')] [Txt (pe_t pe ''orders.order'')]] @
         (if od_shipOpen p then order_ship_form pe p else order_buttons pe d p) @
         (if (od_tracking_number d) \<noteq> [] then
            [El ''p''
               [At ''className'' (lit ''mono-ltr muted''), Style [(''marginTop'', lit ''var(--space-3)'')]]
               [Txt (od_shipping_provider d), Txt (lit '' '' @ [183] @ lit '' ''), Txt (od_tracking_number d)]] else []))]"

definition order_fields ::
  "page_env \<Rightarrow> order \<Rightarrow> order_rest \<Rightarrow> order_click node list" where
  "order_fields pe d x =
     [El ''section'' [At ''className'' (lit ''section'')]
        [El ''h2'' [At ''className'' (lit ''section-title'')] [Txt (pe_t pe ''checkout.customerInfo'')],
         El ''div'' [At ''className'' (lit ''list-group'')]
           (concat
              (map
                 (\<lambda>(fkey, fval).
                    [El ''div'' [At ''className'' (lit ''list-row''), Style [(''cursor'', lit ''default'')]]
                       [El ''div'' [At ''className'' (lit ''list-row-body'')]
                          [El ''div'' [At ''className'' (lit ''list-row-meta'')]
                             [Txt (checkoutFieldLabel fkey (catalogue_fields (pe_t pe)) (ox_label x fkey))],
                           El ''div'' [At ''className'' (lit ''list-row-title'')] [Txt fval]]]])
                 (od_field_values d)))]]"

definition order_timeline ::
  "page_env \<Rightarrow> (ustr \<Rightarrow> ustr option) \<Rightarrow> (ustr \<Rightarrow> ustr) \<Rightarrow> order_rest \<Rightarrow> order_click node list" where
  "order_timeline pe labels fmtWhen x =
     [El ''details'' [At ''className'' (lit ''details-block'')]
        [El ''summary'' [] [Txt (pe_t pe ''timeline.title'')],
         El ''ol'' [At ''className'' (lit ''timeline-list'')]
           (concat
              (map
                 (\<lambda>e.
                    [El ''li'' []
                       ([El ''div'' [At ''className'' (lit ''timeline-title'')]
                           [Txt (timelineLabel (tv_event_type e) labels (Some (tv_title e)))]] @
                        (if (tv_detail e) \<noteq> [] then
                           [El ''div'' [At ''className'' (lit ''timeline-detail'')] [Txt (tv_detail e)]] else []) @
                        [El ''div'' [At ''className'' (lit ''timeline-when muted'')]
                           [Txt (fmtWhen (tv_created_at e))]])]) (ox_timeline x)))]]"

text \<open>The page of an order with an amount: \<open>labels\<close> are the texts of the timeline's events, \<open>fmtWhen\<close> the
  browser's form of a time.\<close>

definition order_sharing ::
  "page_env \<Rightarrow> order_click node list" where
  "order_sharing pe =
     [El ''div'' [At ''className'' (lit ''cta-stack''), Style [(''marginTop'', lit ''var(--space-4)'')]]
        [El ''button'' [At ''className'' (lit ''btn btn-primary''), On ''onClick'' Oc_share]
           [Txt (pe_t pe ''create.share'')],
         El ''button''
           [At ''className'' (lit ''quiet-link''), At ''type'' (lit ''button''), On ''onClick'' Oc_copy,
            Style [(''background'', lit ''none''), (''border'', lit ''0'')]]
           [Txt (pe_t pe ''create.copyLink'')]]]"

definition order_view ::
  "page_env \<Rightarrow> view_env \<Rightarrow> (ustr \<Rightarrow> ustr option) \<Rightarrow> (ustr \<Rightarrow> ustr) \<Rightarrow> bool \<Rightarrow> ustr \<Rightarrow> order \<Rightarrow> order_rest \<Rightarrow> order_page \<Rightarrow> sheet_state \<Rightarrow> nat \<Rightarrow> order_click node list" where
  "order_view pe ve labels fmtWhen gatewayConfigured confirmUrl d x p s n =
     [El ''div'' [At ''className'' (lit ''page-stack'')]
        (back_link (pe_t pe) (lit ''/app/orders'') [] @
         page_header (or_text (od_title d) (pe_t pe ''checkout.orderRef'')) [] [] @
         (if gatewayConfigured then order_proposals pe p else []) @ order_sheet pe confirmUrl d p s n @
         [El ''div'' []
            (order_state pe d @
             [El ''div'' [Style [(''marginTop'', lit ''var(--space-3)'')]] (amount_display (toman_text pe n) [] True [])] @
             (if displayStatus d \<noteq> lit ''PAID'' then order_sharing pe else []) @ order_details pe d x)] @
         order_receipt_card ve d x n @ (if fulfil_section d then order_fulfilment pe d p else []) @
         (if od_field_values d \<noteq> [] then order_fields pe d x else []) @
         (if ox_timeline x \<noteq> [] then order_timeline pe labels fmtWhen x else []))]"

definition order_skeleton ::
  "order_click node list" where
  "order_skeleton =
     [El ''div'' [At ''className'' (lit ''page-stack'')]
        ((skeleton (lit ''1.75rem'') (lit ''40%'') []) @ (skeleton (lit ''3rem'') (lit ''100%'') []) @
         (skeleton (lit ''12rem'') (lit ''100%'') []))]"

text \<open>The two ways to hand on the link: the text that is shared, and what is shown of the copy and of the
  sharing.\<close>

definition order_share_text ::
  "(nat \<Rightarrow> ustr) \<Rightarrow> messages \<Rightarrow> order \<Rightarrow> nat \<Rightarrow> ustr" where
  "order_share_text localeNumber t d n =
     buildShareText localeNumber \<lparr>so_title = od_title d, so_amountToman = n, so_tomanLabel = t ''checkout.toman'',
       so_amountUsdtBase = 0, so_usdtLabel = [], so_completeLabel = t ''create.completeOrder'', so_url = od_checkout_url d\<rparr>"

definition order_shared ::
  "messages \<Rightarrow> share_outcome \<Rightarrow> ustr option" where
  "order_shared t outcome =
     (if outcome = Copied then Some (t ''common.copied'') else None)"

definition order_copied ::
  "messages \<Rightarrow> order \<Rightarrow> bool \<Rightarrow> (ustr \<times> ustr) option" where
  "order_copied t d taken =
     (if taken then Some (od_checkout_url d, t ''common.copied'') else None)"

subsection \<open>The frame\<close>

datatype frame_click = Fc_locale ustr | Fc_dismiss | Fc_install

definition merchant_chrome_view ::
  "runtime \<Rightarrow> (ustr \<times> ustr) option \<Rightarrow> 'e node list" where
  "merchant_chrome_view rt store =
     (case store of None \<Rightarrow> [] | Some (name, logo) \<Rightarrow>
     [El ''div'' [At ''className'' (lit ''merchant-chrome'')]
        [El ''div'' [At ''className'' (lit ''merchant-avatar merchant-avatar-sm'')]
           (if logo \<noteq> [] then
              [El ''img'' [At ''src'' logo, At ''alt'' ([])] []]
            else [Txt (js_upper rt (take 1 name))]),
         El ''span'' [At ''className'' (lit ''merchant-chrome-name'')] [Txt name]]])"

definition merchant_store ::
  "ustr \<Rightarrow> ustr \<Rightarrow> ustr \<Rightarrow> (ustr \<times> ustr) option" where
  "merchant_store displayName name logo =
     (let shown = or_text displayName name in if shown = [] then None else Some (shown, logo))"

text \<open>An entry of the navigation: where it leads, its label and its icon. With \<open>moves\<close> the icon of the
  current entry is one that moves.\<close>

definition nav_items ::
  "messages \<Rightarrow> (ustr \<times> ustr \<times> ustr) list" where
  "nav_items t =
     [(lit ''/app'', t ''nav.home'', lit ''home''), (lit ''/app/orders'', t ''nav.orders'', lit ''orders''),
      (lit ''/app/customers'', t ''nav.customers'', lit ''customers''), (lit ''/app/settings'', t ''nav.settings'', lit ''settings'')]"

definition nav_item ::
  "ustr \<Rightarrow> bool \<Rightarrow> (ustr \<times> ustr \<times> ustr) \<Rightarrow> 'e node list" where
  "nav_item path moves item =
     (case item of (href, label, icon) \<Rightarrow>
        (let active = nav_match href path
         in [El ''Link''
               ([At ''href'' href, At ''className'' (if active then lit ''active'' else [])] @
                opt_at ''aria-current'' (if active then Some (lit ''page'') else None))
               [El (if active \<and> moves then ''motion.span'' else ''span'') [At ''className'' (lit ''nav-icon-wrap'')]
                  (icons8_icon icon (lit ''md'') [] True),
                El ''span'' [] [Txt label]]]))"

definition nav_view ::
  "messages \<Rightarrow> ustr \<Rightarrow> bool \<Rightarrow> 'e node list" where
  "nav_view t path moves =
     (if starts_with path (lit ''/app/onboarding'') then []
      else [El ''nav'' [At ''className'' (lit ''nav nav-ai''), At ''aria-label'' (t ''common.mainNav'')]
        (concat (map (nav_item path moves) (nav_items t)))])"

definition share_icon ::
  "'e node list" where
  "share_icon =
     [El ''svg''
        [At ''className'' (lit ''install-share-icon''), At ''viewBox'' (lit ''0 0 24 24''),
         At ''width'' (lit ''18''), At ''height'' (lit ''18''), Flag ''aria-hidden'' True]
        [El ''path''
           [At ''d'' (lit ''M12 3v12M8 7l4-4 4 4M6 13v5a2 2 0 0 0 2 2h8a2 2 0 0 0 2-2v-5''),
            At ''fill'' (lit ''none''),
            At ''stroke'' (lit ''currentColor''),
            At ''strokeWidth'' (lit ''2''),
            At ''strokeLinecap'' (lit ''round''),
            At ''strokeLinejoin'' (lit ''round'')] []]]"

definition install_steps ::
  "messages \<Rightarrow> install_platform \<Rightarrow> 'e node list" where
  "install_steps t platform =
     (if platform = Ios then
        [El ''ol'' [At ''className'' (lit ''install-steps'')]
           [El ''li'' []
              [El ''span'' [At ''className'' (lit ''install-step-num'')] [Txt (lit ''1'')],
               El ''span'' [] ([Txt (t ''install.iosStep1''), Txt (lit '' '')] @ share_icon)],
            El ''li'' []
              [El ''span'' [At ''className'' (lit ''install-step-num'')] [Txt (lit ''2'')],
               El ''span'' [] [Txt (t ''install.iosStep2'')]],
            El ''li'' []
              [El ''span'' [At ''className'' (lit ''install-step-num'')] [Txt (lit ''3'')],
               El ''span'' [] [Txt (t ''install.iosStep3'')]]]] else []) @
     (if platform = Android then
        [El ''p'' [At ''className'' (lit ''install-sheet-hint'')] [Txt (t ''install.androidHint'')]] else []) @
     (if (platform = Desktop) \<or> (platform = Other_platform) then
        [El ''p'' [At ''className'' (lit ''install-sheet-hint'')] [Txt (t ''install.desktopHint'')]] else [])"

definition install_view ::
  "messages \<Rightarrow> install_platform \<Rightarrow> install_sheet \<Rightarrow> frame_click node list" where
  "install_view t platform s =
     (if \<not> is_open s then [] else
     [El ''div''
        [At ''className'' (lit ''install-sheet-root''), At ''role'' (lit ''dialog''),
         At ''aria-modal'' (lit ''true''), At ''aria-labelledby'' (lit ''install-sheet-title'')]
        [El ''button''
           [At ''type'' (lit ''button''), At ''className'' (lit ''install-sheet-backdrop''),
            At ''aria-label'' (t ''install.notNow''), On ''onClick'' Fc_dismiss] [],
         El ''div'' [At ''className'' (lit ''install-sheet'')]
           ([El ''div'' [At ''className'' (lit ''install-sheet-handle''), Flag ''aria-hidden'' True] [],
             El ''h2'' [At ''id'' (lit ''install-sheet-title''), At ''className'' (lit ''install-sheet-title'')]
               [Txt (t ''install.title'')],
             El ''p'' [At ''className'' (lit ''install-sheet-sub'')] [Txt (t ''install.subtitle'')]] @
            (install_steps t platform) @
            [El ''div'' [At ''className'' (lit ''cta-stack''), Style [(''marginTop'', lit ''var(--space-4)'')]]
               ((if is_canNative s then
                   [El ''button''
                      [At ''type'' (lit ''button''), At ''className'' (lit ''btn btn-primary''),
                       Flag ''disabled'' (is_installing s), On ''onClick'' Fc_install]
                      [Txt (if is_installing s then t ''common.loading'' else t ''install.install'')]] else []) @
                [El ''button''
                   [At ''type'' (lit ''button''), At ''className'' (lit ''btn btn-secondary''),
                    On ''onClick'' Fc_dismiss] [Txt (t ''install.notNow'')]])])]])"

definition app_layout ::
  "messages \<Rightarrow> runtime \<Rightarrow> ustr \<Rightarrow> ustr \<Rightarrow> bool \<Rightarrow> bool \<Rightarrow> bool \<Rightarrow> (ustr \<times> ustr) option \<Rightarrow> install_platform \<Rightarrow> install_sheet \<Rightarrow> frame_click node list \<Rightarrow> frame_click node list" where
  "app_layout t rt locale path mounted offline moves store platform s children =
     [El ''main'' [At ''className'' (lit ''shell app-shell'')]
        ([El ''div'' [At ''className'' (lit ''app-topbar'')]
            ((merchant_chrome_view rt store) @
             [El ''div'' [At ''className'' (lit ''app-topbar-actions'')]
                ((if showChromeCreate mounted path then
                    (new_payment_button (t) (lit ''btn btn-primary btn-new-payment desktop-only'') False) else []) @
                 (language_switch t locale [] Fc_locale))])] @
         (if offline then
            [El ''div'' [At ''className'' (lit ''offline-banner''), At ''role'' (lit ''status'')]
               [Txt (t ''common.offline'')]] else []) @
         [El ''div'' [At ''className'' (lit ''app-body'')] children])] @
     (nav_view t path moves) @ (install_view t platform s)"

subsection \<open>What the lists offer\<close>

lemma rows_offer [markup_simps]:
  "offers (orders_row pe u) = []" "offers (customers_row pe last_order c) = []"
  by (simp_all add: orders_row_def customers_row_def markup_simps)

lemma concat_nil: "(\<And>x. x \<in> set xs \<Longrightarrow> f x = []) \<Longrightarrow> concat (map f xs) = []"
  by simp

lemma orders_view_offers:
  "offers (orders_view pe p) =
     (if showSearch p then [Lc_type] else []) @ (if showFilters p then [Lc_filter False, Lc_filter True] else []) @
     (if ol_error p \<noteq> [] then [Lc_reload] else []) @
     (if \<not> ol_loading p \<and> ol_orders p = [] \<and> ol_error p = [] \<and> ol_attention p then [Lc_filter False] else [])"
  by (simp add: orders_view_def markup_simps o_def)

text \<open>Whoever empties the box over a short list loses it until the next list is there.\<close>

lemma cleared_search_unmounts:
  assumes "length (ol_orders p) < 5"
  shows "Lc_type \<notin> set (offers (orders_view pe (orders_type [] p)))"
  using assms by (auto simp: orders_view_offers showSearch_def orders_type_def)

lemma customers_always_searchable: "offers (customers_view pe last_order p) = [Lc_type]"
  by (simp add: customers_view_def markup_simps o_def)

text \<open>A list with an order that has no amount in toman is not rendered; the lists of customers always are.\<close>

lemma orders_screen_throws:
  "orders_screen pe p = None \<longleftrightarrow> \<not> ol_loading p \<and> render_rows l t labels (ol_orders p) = None"
  by (auto simp: orders_screen_def render_rows_throws list_ex_iff)

subsection \<open>What the page of an order offers\<close>

lemma state_offers [markup_simps]:
  "offers (payment_state t status o_w off c r a) = []" "offers (payment_progress t st c r compact) = []"
proof -
  show state: "offers (payment_state t status o_w off c r a) = []" for t status o_w off c r a
    by (simp add: payment_state_def markup_simps split: prod.split)
  show "offers (payment_progress t st c r compact) = []"
    by (simp add: payment_progress_def stage_item_def state markup_simps o_def)
qed

lemma receipt_offers: "set (offers (receipt_card ve r store title n actions)) \<subseteq> {Ck_share, Ck_print}"
  by (auto simp: receipt_card_def markup_simps)

lemma order_parts_offer [markup_simps]:
  "offers (order_proposals pe p) = (if od_suggestBusy p then [] else [Oc_suggest]) @ map Oc_open (od_pending p)"
  "offers (order_state pe d) = []" "offers (order_details pe d x) = []" "offers (order_sharing pe) = [Oc_share, Oc_copy]"
  "offers (order_fields pe d x) = []" "offers (order_timeline pe labels fmtWhen x) = []"
  "offers (order_ship_form pe p) = (if od_busy p then [] else [Oc_ship]) @ [Oc_carrier, Oc_tracking, Oc_ship_back]"
  "offers (order_buttons pe d p) = (if od_busy p then [] else
     map Oc_fulfil ((if od_fulfillment d = lit ''UNFULFILLED'' then [Mark_processing] else []) @ [Mark_shipped] @
       (if od_fulfillment d = lit ''SHIPPED'' then [Mark_delivered] else [])))"
proof -
  have rows: "concat (map (\<lambda>v. [Oc_open v]) vs) = map Oc_open vs" for vs by (induction vs) simp_all
  show "offers (order_proposals pe p) = (if od_suggestBusy p then [] else [Oc_suggest]) @ map Oc_open (od_pending p)"
    by (simp add: order_proposals_def rows markup_simps o_def)
qed (simp_all add: order_state_def order_details_def order_sharing_def order_fields_def order_timeline_def
    order_ship_form_def order_buttons_def can_submit_def lit_def markup_simps o_def split: prod.split)

text \<open>The buttons of the fulfillment are offered exactly where \<open>fulfil_press\<close> and \<open>ship_press\<close> act.\<close>

lemma order_offers:
  "k \<in> set (offers (order_view pe ve labels fmtWhen g url d x p s n)) \<longleftrightarrow>
     g \<and> k \<in> set (offers (order_proposals pe p)) \<or> k \<in> set (offers (order_sheet pe url d p s n)) \<or>
     displayStatus d \<noteq> lit ''PAID'' \<and> k \<in> {Oc_share, Oc_copy} \<or> k \<in> set (offers (order_receipt_card ve d x n)) \<or>
     fulfil_section d \<and> k \<in> set (offers (if od_shipOpen p then order_ship_form pe p else order_buttons pe d p))"
  by (auto simp: order_view_def order_fulfilment_def markup_simps)

lemma not_of_the_parts [simp]:
  "Oc_fulfil b \<notin> set (offers (order_sheet pe url d p s n))" "Oc_ship \<notin> set (offers (order_sheet pe url d p s n))"
  "Oc_fulfil b \<notin> set (offers (order_receipt_card ve d x n))" "Oc_ship \<notin> set (offers (order_receipt_card ve d x n))"
  by (auto simp: order_sheet_def order_receipt_card_def markup_simps split: option.split)

lemma fulfilment_offered:
  "Oc_fulfil b \<in> set (offers (order_view pe ve labels fmtWhen g url d x p s n)) \<longleftrightarrow>
     \<not> od_busy p \<and> b \<in> set (fulfil_buttons d (od_shipOpen p))"
  by (auto simp: order_offers order_parts_offer fulfil_buttons_def)

lemma ship_offered:
  "Oc_ship \<in> set (offers (order_view pe ve labels fmtWhen g url d x p s n)) \<longleftrightarrow>
     \<not> od_busy p \<and> fulfil_section d \<and> od_shipOpen p"
  by (auto simp: order_offers order_parts_offer)

text \<open>So the page of an order that is not paid offers nothing that ships it.\<close>

lemma unpaid_offers_no_shipping:
  assumes "\<not> order_paid d" "k \<in> set (offers (order_view pe ve labels fmtWhen g url d x p s n))"
  shows "k \<noteq> Oc_ship" "k \<noteq> Oc_fulfil b"
  using assms by (auto simp: ship_offered fulfilment_offered fulfil_section_def fulfil_buttons_def)

text \<open>The seller's receipt leaves out the amount that was received: it shows the one that was asked for.\<close>

lemma seller_receipt_expected_amount:
  "order_receipt d n (r\<lparr>rd_received_usdt := u\<rparr>) = order_receipt d n r"
  by (simp add: order_receipt_def)

text \<open>The progress of a payment that is on its way has one current stage.\<close>

lemma one_stage_current:
  assumes "status \<noteq> lit ''PAID''" "exceptionKind (Some status) = None"
  shows "filter (\<lambda>c. c = lit ''current'') (attrs_of ''li'' ''className'' (payment_progress t status c r compact)) = [lit ''current'']"
proof -
  have "stageIndex status < 4" by (simp add: stageIndex_def)
  then have "stageIndex status \<in> {0, 1, 2, 3}" by auto
  moreover have "[0..<4] = [0, 1, 2, 3::nat]" by (simp add: upt_rec)
  ultimately show ?thesis
    using assms by (auto simp: payment_progress_def stage_item_def stage_class_def lit_def markup_simps)
qed

subsection \<open>The frame\<close>

lemma install_offers:
  "offers (install_view t platform s) = (if \<not> is_open s then [] else
     [Fc_dismiss] @ (if is_canNative s \<and> \<not> is_installing s then [Fc_install] else []) @ [Fc_dismiss])"
  by (simp add: install_view_def install_steps_def share_icon_def markup_simps)

lemma nav_silent: "offers (nav_view t path moves) = []"
  by (simp add: nav_view_def nav_item_def icons8_icon_def Let_def markup_simps o_def split: prod.split)

text \<open>The entries that the navigation marks are those of \<open>nav_active\<close>.\<close>

lemma nav_marks:
  "length (attrs_of ''Link'' ''aria-current'' (nav_view t path moves)) =
     (case nav_active path of None \<Rightarrow> 0 | Some hs \<Rightarrow> length hs)"
  by (simp add: nav_view_def nav_item_def nav_items_def icons8_icon_def Let_def markup_simps nav_active_def nav_hrefs_def)

end
