(* ===== verification/AccountPages.thy ===== *)
theory AccountPages
  imports Pages
begin

text \<open>
  Three pages of the settings under apps/web/src/app/app/settings: the entrance with the sign-out
  (page.tsx), and the questions a buyer is asked (getting-paid/questions/page.tsx). The defaults of the
  questions are edited as the JSON object the server gave, since the whole object is sent back.
\<close>

subsection \<open>The entrance of the settings\<close>

record settings_page =
  sg_isAdmin :: bool
  sg_confirmLogout :: bool
  sg_logouts :: nat
  sg_pushed :: "ustr list"

definition new_settings :: settings_page where
  "new_settings = \<lparr>sg_isAdmin = False, sg_confirmLogout = False, sg_logouts = 0, sg_pushed = []\<rparr>"

text \<open>\<open>logout\<close>: its failure is not caught.\<close>

definition logout_begin :: "settings_page \<Rightarrow> settings_page" where
  "logout_begin p = p\<lparr>sg_confirmLogout := False, sg_logouts := sg_logouts p + 1\<rparr>"

definition logout_answered :: "unit answer \<Rightarrow> settings_page \<Rightarrow> settings_page" where
  "logout_answered a p =
     (let p1 = p\<lparr>sg_logouts := sg_logouts p - 1\<rparr>
      in case a of Answered _ \<Rightarrow> p1\<lparr>sg_pushed := sg_pushed p @ [lit ''/login'']\<rparr> | Threw _ \<Rightarrow> p1)"

datatype settings_event =
    Sg_me "bool answer"
  | Sg_logout
  | Sg_confirm
  | Sg_cancel
  | Sg_logged_out "unit answer"

fun settings_do :: "settings_event \<Rightarrow> settings_page \<Rightarrow> settings_page" where
  "settings_do (Sg_me a) p = (case a of Answered admin \<Rightarrow> p\<lparr>sg_isAdmin := admin\<rparr> | Threw _ \<Rightarrow> p)"
| "settings_do Sg_logout p = p\<lparr>sg_confirmLogout := True\<rparr>"
| "settings_do Sg_confirm p = (if sg_confirmLogout p then logout_begin p else p)"
| "settings_do Sg_cancel p = (if sg_confirmLogout p then p\<lparr>sg_confirmLogout := False\<rparr> else p)"
| "settings_do (Sg_logged_out a) p = (if sg_logouts p = 0 then p else logout_answered a p)"

lemmas settings_steps = logout_begin_def logout_answered_def Let_def

text \<open>The page goes to the sign-in only after the server ended the session; where it did not, the dialog is
  closed, and nothing on the page tells.\<close>

lemma failed_logout_is_silent:
  assumes "sg_confirmLogout p" "sg_logouts p = 0"
  shows "fold settings_do [Sg_confirm, Sg_logged_out (Threw m)] p = p\<lparr>sg_confirmLogout := False\<rparr>"
  using assms by (simp add: settings_steps)

lemma leaving_answers:
  assumes "sg_pushed (settings_do e p) \<noteq> sg_pushed p"
  shows "e = Sg_logged_out (Answered ()) \<and> 0 < sg_logouts p"
  using assms by (cases e) (auto simp: settings_steps split: answer.splits if_splits)

subsection \<open>What a buyer is asked\<close>

type_synonym json_object = "(ustr \<times> jval) list"

definition FIELD_KEYS :: "ustr list" where
  "FIELD_KEYS = map lit [''full_name'', ''phone'', ''shipping_address'', ''postal_code'', ''email'', ''customer_note'']"

record questions_page =
  qu_defaults :: "json_object option"
  qu_loading :: bool
  qu_msg :: ustr
  qu_error :: ustr
  qu_waits :: "json_object option"

definition new_questions :: questions_page where
  "new_questions = \<lparr>qu_defaults = None, qu_loading = False, qu_msg = [], qu_error = [], qu_waits = None\<rparr>"

text \<open>The members of a value that is spread; \<open>null\<close> and \<open>undefined\<close> have none.\<close>

fun members :: "jval \<Rightarrow> json_object" where
  "members (JObj kvs) = kvs"
| "members _ = []"

definition customer_fields :: "json_object \<Rightarrow> jval" where
  "customer_fields d = prop_of (JObj d) (lit ''customer_fields'')"

definition field_mode :: "json_object \<Rightarrow> ustr \<Rightarrow> ustr" where
  "field_mode d key = (case prop_of (customer_fields d) key of JStr s \<Rightarrow> or_text s (lit ''optional'') | _ \<Rightarrow> lit ''optional'')"

definition set_mode :: "ustr \<Rightarrow> ustr \<Rightarrow> json_object \<Rightarrow> json_object" where
  "set_mode key mode d =
     object_put (lit ''customer_fields'') (JObj (object_put key (JStr mode) (members (customer_fields d)))) d"

definition set_network :: "ustr \<Rightarrow> json_object \<Rightarrow> json_object" where
  "set_network v d = object_put (lit ''default_network'') (JStr v) d"

text \<open>\<open>Number(e.target.value) || 60\<close>: \<open>number\<close> gives the text of a number that is neither 0 nor \<open>NaN\<close>,
  and nothing for an empty text.\<close>

definition set_expiry :: "(ustr \<Rightarrow> ustr option) \<Rightarrow> ustr \<Rightarrow> json_object \<Rightarrow> json_object" where
  "set_expiry number typed d =
     object_put (lit ''default_expiry_minutes'') (JNum (case number typed of None \<Rightarrow> lit ''60'' | Some n \<Rightarrow> n)) d"

definition questions_save :: "questions_page \<Rightarrow> questions_page" where
  "questions_save p =
     (case qu_defaults p of None \<Rightarrow> p
      | Some d \<Rightarrow> p\<lparr>qu_loading := True, qu_error := [], qu_msg := [], qu_waits := Some d\<rparr>)"

definition questions_saved :: "messages \<Rightarrow> json_object answer \<Rightarrow> questions_page \<Rightarrow> questions_page" where
  "questions_saved t a p =
     (let p1 = p\<lparr>qu_loading := False, qu_waits := None\<rparr>
      in case a of
           Answered d \<Rightarrow> p1\<lparr>qu_defaults := Some d, qu_msg := t ''common.saved''\<rparr>
         | Threw m \<Rightarrow> p1\<lparr>qu_error := m\<rparr>)"

datatype questions_event =
    Qu_loaded "json_object answer"
  | Qu_mode ustr ustr
  | Qu_network ustr
  | Qu_expiry ustr
  | Qu_save
  | Qu_saved "json_object answer"

definition edit_defaults :: "(json_object \<Rightarrow> json_object) \<Rightarrow> questions_page \<Rightarrow> questions_page" where
  "edit_defaults f p = p\<lparr>qu_defaults := map_option f (qu_defaults p)\<rparr>"

fun questions_do :: "messages \<Rightarrow> (ustr \<Rightarrow> ustr option) \<Rightarrow> questions_event \<Rightarrow> questions_page \<Rightarrow> questions_page" where
  "questions_do t number (Qu_loaded a) p = (case a of Answered d \<Rightarrow> p\<lparr>qu_defaults := Some d\<rparr> | Threw _ \<Rightarrow> p)"
| "questions_do t number (Qu_mode key mode) p =
     (if key \<in> set FIELD_KEYS then edit_defaults (set_mode key mode) p else p)"
| "questions_do t number (Qu_network v) p = edit_defaults (set_network v) p"
| "questions_do t number (Qu_expiry s) p = edit_defaults (set_expiry number s) p"
| "questions_do t number Qu_save p = (if qu_loading p then p else questions_save p)"
| "questions_do t number (Qu_saved a) p = (if qu_waits p = None then p else questions_saved t a p)"

lemmas questions_steps = edit_defaults_def questions_save_def questions_saved_def Let_def

interpretation questions_form: form_machine "questions_do t number" qu_loading qu_waits
proof
  fix p :: questions_page and e
  assume "qu_loading p \<longleftrightarrow> qu_waits p \<noteq> None"
  then show "qu_loading (questions_do t number e p) \<longleftrightarrow> qu_waits (questions_do t number e p) \<noteq> None"
    by (cases e) (auto simp: questions_steps split: option.splits answer.splits)
qed

text \<open>An edit reaches its member and leaves every other one, known to the page or not, as the server
  gave it.\<close>

lemma edit_reaches:
  "field_mode (set_mode key mode d) key = or_text mode (lit ''optional'')"
  "k \<noteq> key \<Longrightarrow> prop_of (customer_fields (set_mode key mode d)) k = prop_of (JObj (members (customer_fields d))) k"
  "n \<noteq> lit ''customer_fields'' \<Longrightarrow> prop_of (JObj (set_mode key mode d)) n = prop_of (JObj d) n"
  "n \<noteq> lit ''default_network'' \<Longrightarrow> prop_of (JObj (set_network v d)) n = prop_of (JObj d) n"
  "n \<noteq> lit ''default_expiry_minutes'' \<Longrightarrow> prop_of (JObj (set_expiry number s d)) n = prop_of (JObj d) n"
  by (simp_all add: field_mode_def set_mode_def customer_fields_def set_network_def set_expiry_def del: prop_of.simps)

text \<open>The box for the minutes cannot be emptied: it then holds 60.\<close>

lemma emptied_expiry_is_60:
  "number [] = None \<Longrightarrow> prop_of (JObj (set_expiry number [] d)) (lit ''default_expiry_minutes'') = JNum (lit ''60'')"
  by (simp add: set_expiry_def del: prop_of.simps)

text \<open>The controls stay enabled while the defaults are being saved, and the answer replaces what the page
  holds: an edit made in between is lost, under the message that all was saved.\<close>

lemma edit_during_save_lost:
  assumes "qu_defaults p = Some d" "\<not> qu_loading p"
  shows "let q = fold (questions_do t number) [Qu_save, Qu_mode key mode, Qu_saved (Answered d)] p
         in qu_defaults q = Some d \<and> qu_msg q = t ''common.saved'' \<and> qu_error q = []"
  using assms by (simp add: questions_steps)

end
