(* ===== verification/SettingsViews.thy ===== *)
theory SettingsViews
  imports Ui SettingsPages AccountPages Shell
begin

text \<open>
  What the settings render: notifications, the store, the entrance, the application, getting paid and
  the questions for the buyer (apps/web/src/app/app/settings), and the administrator's page
  (apps/web/src/app/admin/page.tsx), over the states of \<open>SettingsPages\<close> and \<open>AccountPages\<close>.
\<close>

subsection \<open>Notifications\<close>

datatype notify_click =
    Nk_connect
  | Nk_test
  | Nk_disconnect
  | Nk_code
  | Nk_unlink
  | Nk_pref email_pref

definition telegram_view ::
  "messages \<Rightarrow> telegram_panel \<Rightarrow> notify_click node list" where
  "telegram_view t p =
     [El ''h2'' [Style [(''margin'', lit ''0''), (''fontSize'', lit ''var(--text-headline)'')]]
        [Txt (t ''settings.telegram'')]] @
     (if tp_connected p then
        [El ''p'' [Style [(''margin'', lit ''var(--space-2) 0 0''), (''fontWeight'', lit ''650'')]]
           [Txt (t ''settings.telegramConnected'')]] @
        (if (tp_username p) \<noteq> [] then
           [El ''p''
              [At ''className'' (lit ''muted mono-ltr''), Style [(''margin'', lit ''var(--space-1) 0 0'')]]
              [Txt (lit ''@''), Txt (tp_username p)]] else []) @
        [El ''div'' [At ''className'' (lit ''cta-stack''), Style [(''marginTop'', lit ''var(--space-4)'')]]
           [El ''button''
              [At ''type'' (lit ''button''), At ''className'' (lit ''btn btn-secondary''),
               Flag ''disabled'' (tp_busy p), On ''onClick'' Nk_test]
              [Txt (if tp_busy p then t ''common.loading'' else t ''settings.sendTelegramTest'')],
            El ''button''
              [At ''type'' (lit ''button''), At ''className'' (lit ''btn btn-tertiary''),
               Flag ''disabled'' (tp_busy p), On ''onClick'' Nk_disconnect]
              [Txt (t ''settings.disconnectTelegram'')]]]
      else [El ''p'' [At ''className'' (lit ''muted''), Style [(''margin'', lit ''var(--space-2) 0 0'')]]
              [Txt (t ''settings.telegramHint'')],
            El ''button''
              [At ''type'' (lit ''button''), At ''className'' (lit ''btn btn-primary''),
               Style [(''marginTop'', lit ''var(--space-4)'')], Flag ''disabled'' (tp_busy p),
               On ''onClick'' Nk_connect]
              [Txt (if tp_busy p then t ''common.loading'' else t ''settings.connectTelegram'')]] @
           (if (tp_deepLink p) \<noteq> [] then
              [El ''p'' [At ''className'' (lit ''muted''), Style [(''margin'', lit ''var(--space-3) 0 0'')]]
                 [El ''a''
                    [At ''className'' (lit ''mono-ltr''), At ''href'' (tp_deepLink p),
                     At ''target'' (lit ''_blank''), At ''rel'' (lit ''noopener noreferrer'')]
                    [Txt (tp_deepLink p)]]] else [])) @
     (if (tp_error p) \<noteq> [] then
        [El ''p''
           [At ''className'' (lit ''field-error''), At ''role'' (lit ''alert''),
            Style [(''marginTop'', lit ''var(--space-3)'')]] [Txt (tp_error p)]] else []) @
     (if (tp_msg p) \<noteq> [] then
        [El ''p'' [At ''className'' (lit ''ok''), Style [(''marginTop'', lit ''var(--space-3)'')]]
           [Txt (tp_msg p)]] else [])"

definition instagram_view ::
  "messages \<Rightarrow> instagram_panel \<Rightarrow> notify_click node list" where
  "instagram_view t p =
     [El ''h2'' [Style [(''margin'', lit ''var(--space-6) 0 0''), (''fontSize'', lit ''var(--text-headline)'')]]
        [Txt (t ''settings.instagram'')]] @
     (if \<not> ig_configured p then
        [El ''p'' [At ''className'' (lit ''muted''), Style [(''margin'', lit ''var(--space-2) 0 0'')]]
           [Txt (t ''settings.instagramNotConfigured'')]]
      else
        (if ig_connected p then
           [El ''p'' [Style [(''margin'', lit ''var(--space-2) 0 0''), (''fontWeight'', lit ''650'')]]
              [Txt (t ''settings.instagramConnected'')]] @
           (if (ig_username p) \<noteq> [] then
              [El ''p''
                 [At ''className'' (lit ''muted mono-ltr''), Style [(''margin'', lit ''var(--space-1) 0 0'')]]
                 [Txt (lit ''@''), Txt (ig_username p)]] else []) @
           [El ''button''
              [At ''type'' (lit ''button''), At ''className'' (lit ''btn btn-tertiary''),
               Style [(''marginTop'', lit ''var(--space-4)'')], Flag ''disabled'' (ig_busy p),
               On ''onClick'' Nk_unlink] [Txt (t ''settings.disconnectInstagram'')]]
         else [El ''p'' [At ''className'' (lit ''muted''), Style [(''margin'', lit ''var(--space-2) 0 0'')]]
                 [Txt (t ''settings.instagramHint'')],
               El ''p'' [At ''className'' (lit ''muted''), Style [(''margin'', lit ''var(--space-2) 0 0'')]]
                 [Txt (t ''settings.instagramTestersOnly'')],
               El ''p'' [At ''className'' (lit ''muted''), Style [(''margin'', lit ''var(--space-2) 0 0'')]]
                 [Txt (t ''settings.instagramConnectHint'')],
               El ''button''
                 [At ''type'' (lit ''button''), At ''className'' (lit ''btn btn-primary''),
                  Style [(''marginTop'', lit ''var(--space-4)'')], Flag ''disabled'' (ig_busy p),
                  On ''onClick'' Nk_code]
                 [Txt (if ig_busy p then t ''common.loading'' else t ''settings.instagramGetCode'')]] @
              (if (ig_code p) \<noteq> [] then
                 [El ''p''
                    [At ''className'' (lit ''mono-ltr''),
                     Style [(''margin'', lit ''var(--space-3) 0 0''), (''fontWeight'', lit ''650'')]]
                    [Txt (ig_code p)]] else []))) @
     (if (ig_error p) \<noteq> [] then
        [El ''p''
           [At ''className'' (lit ''field-error''), At ''role'' (lit ''alert''),
            Style [(''marginTop'', lit ''var(--space-3)'')]] [Txt (ig_error p)]] else []) @
     (if (ig_msg p) \<noteq> [] then
        [El ''p'' [At ''className'' (lit ''ok''), Style [(''marginTop'', lit ''var(--space-3)'')]]
           [Txt (ig_msg p)]] else [])"

text \<open>The three boxes differ in their label and their preference.\<close>

definition pref_label :: "messages \<Rightarrow> email_pref \<Rightarrow> ustr" where
  "pref_label t k = t (case k of Pref_payment \<Rightarrow> ''settings.emailPaymentReceived''
     | Pref_attention \<Rightarrow> ''settings.emailNeedsAttention'' | Pref_orders \<Rightarrow> ''settings.emailOrderUpdates'')"

definition pref_box ::
  "messages \<Rightarrow> email_panel \<Rightarrow> email_pref \<Rightarrow> notify_click node list" where
  "pref_box t p k =
     [El ''label''
        [At ''className'' (lit ''list-row''),
         Style [(''cursor'', if em_busy p then lit ''wait'' else lit ''pointer'')]]
        [El ''div'' [At ''className'' (lit ''list-row-body'')]
           [El ''div'' [At ''className'' (lit ''list-row-title'')] [Txt (pref_label t k)]],
         El ''input''
           [At ''type'' (lit ''checkbox''), Flag ''checked'' (em_value k p), Flag ''disabled'' (em_busy p),
            On ''onChange'' (Nk_pref k)] []]]"

definition email_view ::
  "messages \<Rightarrow> ustr \<Rightarrow> email_panel \<Rightarrow> notify_click node list" where
  "email_view t user_email p =
     [El ''h2'' [Style [(''margin'', lit ''var(--space-6) 0 0''), (''fontSize'', lit ''var(--text-headline)'')]]
        [Txt (t ''settings.email'')]] @
     (if \<not> em_enabled p then
        [El ''p'' [At ''className'' (lit ''muted''), Style [(''margin'', lit ''var(--space-2) 0 0'')]]
           [Txt (t ''settings.emailDisabledHint'')]]
      else [El ''p''
              [At ''className'' (lit ''muted mono-ltr''), Style [(''margin'', lit ''var(--space-2) 0 0'')]]
              [Txt (or_text (or_text (em_destination p) user_email) [8212])],
            El ''div''
              [Style
                 [(''marginTop'', lit ''var(--space-4)''), (''display'', lit ''grid''),
                  (''gap'', lit ''var(--space-3)'')]]
              (concat (map (pref_box t p) [Pref_payment, Pref_attention, Pref_orders]))]) @
     (if (em_error p) \<noteq> [] then
        [El ''p'' [At ''className'' (lit ''field-error''), At ''role'' (lit ''alert'')] [Txt (em_error p)]] else []) @
     (if (em_msg p) \<noteq> [] then [El ''p'' [At ''className'' (lit ''ok'')] [Txt (em_msg p)]] else [])"

definition notifications_view ::
  "messages \<Rightarrow> ustr \<Rightarrow> telegram_panel \<Rightarrow> instagram_panel \<Rightarrow> email_panel \<Rightarrow> notify_click node list" where
  "notifications_view t user_email tp ip ep =
     [El ''div'' [At ''className'' (lit ''page-stack'')]
        ((back_link t (lit ''/app/settings'') []) @
         (page_header (t ''settings.notifications'') (t ''settings.notificationsHint'') []) @
         [El ''div'' [At ''className'' (lit ''card-panel'')]
            (telegram_view t tp @ instagram_view t ip @ email_view t user_email ep)])]"

subsection \<open>The store\<close>

datatype store_click =
    Sk_save
  | Sk_pick
  | Sk_file
  | Sk_name
  | Sk_description
  | Sk_support

definition store_view ::
  "runtime \<Rightarrow> messages \<Rightarrow> store_settings \<Rightarrow> store_click node list" where
  "store_view rt t p =
     [El ''div'' [At ''className'' (lit ''page-stack'')]
        ((back_link t (lit ''/app/settings'') []) @
         (page_header (t ''settings.store'') (t ''settings.storeHint'') []) @
         [El ''form'' [At ''className'' (lit ''card-panel''), On ''onSubmit'' Sk_save]
            ([El ''div''
                [Style
                   [(''display'', lit ''flex''), (''alignItems'', lit ''center''),
                    (''gap'', lit ''var(--space-3)''), (''marginBottom'', lit ''var(--space-4)'')]]
                [El ''div'' [At ''className'' (lit ''merchant-avatar'')]
                   (if (case st_me p of None \<Rightarrow> False | Some m \<Rightarrow> se_logo m \<noteq> []) then
                      [El ''img'' [At ''src'' (se_logo (the (st_me p))), At ''alt'' ([])] []]
                    else [Txt (avatar_initial rt p)]),
                 El ''div'' []
                   [El ''input''
                      [At ''type'' (lit ''file''), At ''accept'' (lit ''image/*''), Flag ''hidden'' True,
                       On ''onChange'' Sk_file] [],
                    El ''button''
                      [At ''type'' (lit ''button''), At ''className'' (lit ''btn btn-secondary''),
                       Flag ''disabled'' (st_loading p), On ''onClick'' Sk_pick]
                      [Txt (t ''settings.uploadLogo'')]]],
              El ''div'' [At ''className'' (lit ''field'')]
                [El ''label'' [At ''htmlFor'' (lit ''display_name'')] [Txt (t ''settings.displayName'')],
                 El ''input''
                   [At ''id'' (lit ''display_name''), At ''value'' (st_displayName p), On ''onChange'' Sk_name,
                    Flag ''required'' True] []],
              El ''div'' [At ''className'' (lit ''field'')]
                [El ''label'' [At ''htmlFor'' (lit ''description'')] [Txt (t ''settings.description'')],
                 El ''textarea''
                   [At ''id'' (lit ''description''), At ''rows'' (lit ''3''), At ''value'' (st_description p),
                    On ''onChange'' Sk_description] []],
              El ''div'' [At ''className'' (lit ''field'')]
                [El ''label'' [At ''htmlFor'' (lit ''support'')] [Txt (t ''settings.support'')],
                 El ''input''
                   [At ''id'' (lit ''support''), At ''value'' (st_support p), On ''onChange'' Sk_support,
                    At ''placeholder'' (lit ''@store'')] []]] @
             (if (case st_me p of None \<Rightarrow> [] | Some m \<Rightarrow> se_email m) \<noteq> [] then
                [El ''p'' [At ''className'' (lit ''muted'')]
                   [Txt (case st_me p of None \<Rightarrow> [] | Some m \<Rightarrow> se_email m)]] else []) @
             (if (st_error p) \<noteq> [] then
                [El ''p'' [At ''className'' (lit ''field-error''), At ''role'' (lit ''alert'')]
                   [Txt (st_error p)]] else []) @
             (if (st_msg p) \<noteq> [] then
                [El ''p'' [At ''className'' (lit ''ok'')] [Txt (st_msg p)]] else []) @
             [El ''button'' [At ''className'' (lit ''btn btn-primary''), Flag ''disabled'' (st_loading p)]
                [Txt (if st_loading p then t ''common.loading'' else t ''settings.save'')]])])]"

subsection \<open>The entrance, the application and getting paid\<close>

datatype settings_click =
    Gk_logout
  | Gk_confirm
  | Gk_cancel

definition settings_groups ::
  "messages \<Rightarrow> (ustr \<times> ustr \<times> ustr) list" where
  "settings_groups t =
     [(lit ''/app/settings/store'', t ''settings.store'', t ''settings.storeHint''),
      (lit ''/app/settings/getting-paid'', t ''settings.gettingPaid'', t ''settings.gettingPaidHint''),
      (lit ''/app/settings/notifications'', t ''settings.notifications'', t ''settings.notificationsHint''),
      (lit ''/app/settings/app'', t ''settings.appLanguage'', t ''settings.appLanguageHint'')]"

definition settings_view ::
  "messages \<Rightarrow> settings_page \<Rightarrow> settings_click node list" where
  "settings_view t p =
     [El ''div'' [At ''className'' (lit ''page-stack'')]
        ((page_header (t ''settings.title'') [] []) @
         [El ''div'' [At ''className'' (lit ''list-group'')]
            (concat
               (map
                  (\<lambda>(href, title, hint).
                     [El ''Link'' [At ''href'' href, At ''className'' (lit ''list-row'')]
                        [El ''div'' [At ''className'' (lit ''list-row-body'')]
                           [El ''div'' [At ''className'' (lit ''list-row-title'')] [Txt title],
                            El ''div'' [At ''className'' (lit ''list-row-meta'')] [Txt hint]]]])
                  (settings_groups t))),
          El ''section'' [At ''className'' (lit ''section'')]
            [El ''h2'' [At ''className'' (lit ''section-title'')] [Txt (t ''settings.account'')],
             El ''div'' [At ''className'' (lit ''list-group'')]
               ((if sg_isAdmin p then
                   [El ''a'' [At ''className'' (lit ''list-row''), At ''href'' (lit ''/admin'')]
                      [El ''div'' [At ''className'' (lit ''list-row-body'')]
                         [El ''div'' [At ''className'' (lit ''list-row-title'')] [Txt (t ''admin.title'')]]]] else []) @
                [El ''button''
                   [At ''type'' (lit ''button''), At ''className'' (lit ''list-row''), On ''onClick'' Gk_logout]
                   [El ''div'' [At ''className'' (lit ''list-row-body'')]
                      [El ''div'' [At ''className'' (lit ''list-row-title'')] [Txt (t ''logout'')]]]])],
          El ''section'' [At ''className'' (lit ''section'')]
            [El ''h2'' [At ''className'' (lit ''section-title'')] [Txt (t ''settings.about'')],
             El ''div'' [At ''className'' (lit ''list-group'')]
               [El ''div'' [At ''className'' (lit ''list-row''), Style [(''cursor'', lit ''default'')]]
                  [El ''div'' [At ''className'' (lit ''list-row-body'')]
                     [El ''div'' [At ''className'' (lit ''list-row-title'')]
                        [Txt (t ''settings.version'')]],
                   El ''div'' [At ''className'' (lit ''list-row-trailing tabular'')] [Txt (lit ''0.1.0'')]]]]] @
         (alert_dialog (sg_confirmLogout p) (t ''settings.logoutConfirm'') [] (t ''logout'')
            (t ''common.cancel'') True Gk_confirm Gk_cancel))]"

datatype app_click = Xk_locale ustr | Xk_theme theme | Xk_install

definition theme_label ::
  "messages \<Rightarrow> theme \<Rightarrow> ustr" where
  "theme_label t v =
     (case v of Theme_system \<Rightarrow> t ''settings.themeSystem'' | Theme_light \<Rightarrow> t ''settings.themeLight''
      | Theme_dark \<Rightarrow> t ''settings.themeDark'')"

definition app_settings_view ::
  "messages \<Rightarrow> ustr \<Rightarrow> theme \<Rightarrow> bool \<Rightarrow> app_click node list" where
  "app_settings_view t locale chosen standalone =
     [El ''div'' [At ''className'' (lit ''page-stack'')]
        ((back_link t (lit ''/app/settings'') []) @
         (page_header (t ''settings.appLanguage'') (t ''settings.appLanguageHint'') []) @
         [El ''div'' [At ''className'' (lit ''list-group'')]
            ([El ''div'' [At ''className'' (lit ''list-row''), Style [(''cursor'', lit ''default'')]]
                [El ''div'' [At ''className'' (lit ''list-row-body'')]
                   [El ''div'' [At ''className'' (lit ''list-row-title'')] [Txt (t ''settings.language'')]],
                 El ''div'' [At ''className'' (lit ''list-row-trailing'')]
                   (language_switch t locale [] Xk_locale)],
              El ''div''
                [At ''className'' (lit ''list-row list-row-controls''), Style [(''cursor'', lit ''default'')]]
                [El ''div'' [At ''className'' (lit ''list-row-body'')]
                   [El ''div'' [At ''className'' (lit ''list-row-title'')] [Txt (t ''settings.theme'')]],
                 El ''div''
                   [At ''className'' (lit ''theme-seg''), At ''role'' (lit ''group''),
                    At ''aria-label'' (t ''settings.theme'')]
                   (concat
                      (map
                         (\<lambda>v.
                            [El ''button''
                               [At ''type'' (lit ''button''), Flag ''aria-pressed'' (chosen = v),
                                On ''onClick'' (Xk_theme v)] [Txt (theme_label t v)]])
                         [Theme_system, Theme_light, Theme_dark]))]] @
             (if \<not> standalone then
                [El ''button''
                   [At ''type'' (lit ''button''), At ''className'' (lit ''list-row''),
                    On ''onClick'' Xk_install]
                   [El ''div'' [At ''className'' (lit ''list-row-body'')]
                      [El ''div'' [At ''className'' (lit ''list-row-title'')]
                         [Txt (t ''settings.addToHome'')],
                       El ''div'' [At ''className'' (lit ''list-row-meta'')] [Txt (t ''install.subtitle'')]]]] else []))])]"

text \<open>The sheet that the last row asks for: \<open>requestInstallSheet\<close> reaches its listener.\<close>

definition app_setting_theme ::
  "app_click \<Rightarrow> theme_provider \<Rightarrow> theme_provider" where
  "app_setting_theme k =
     (case k of Xk_theme v \<Rightarrow> setTheme v | _ \<Rightarrow> id)"

definition app_setting_install ::
  "install_browser option \<Rightarrow> app_click \<Rightarrow> install_sheet \<Rightarrow> install_sheet" where
  "app_setting_install b k =
     (case k of Xk_install \<Rightarrow> install_show b | _ \<Rightarrow> id)"

definition paid_items ::
  "messages \<Rightarrow> (ustr \<times> ustr \<times> ustr) list" where
  "paid_items t =
     [(lit ''/app/wallets'', t ''wallets.title'', t ''settings.walletsRowHint''),
      (lit ''/app/links'', t ''links.title'', t ''links.hint''),
      (lit ''/app/settings/getting-paid/questions'', t ''settings.buyerQuestions'', t ''settings.buyerQuestionsHint'')]"

definition getting_paid_view ::
  "messages \<Rightarrow> 'e node list" where
  "getting_paid_view t =
     [El ''div'' [At ''className'' (lit ''page-stack'')]
        ((back_link t (lit ''/app/settings'') []) @
         (page_header (t ''settings.gettingPaid'') (t ''settings.gettingPaidHint'') []) @
         [El ''div'' [At ''className'' (lit ''list-group'')]
            (concat
               (map
                  (\<lambda>(href, title, hint).
                     [El ''Link'' [At ''href'' href, At ''className'' (lit ''list-row'')]
                        [El ''div'' [At ''className'' (lit ''list-row-body'')]
                           [El ''div'' [At ''className'' (lit ''list-row-title'')] [Txt title],
                            El ''div'' [At ''className'' (lit ''list-row-meta'')] [Txt hint]]]])
                  (paid_items t)))])]"

subsection \<open>The questions for the buyer\<close>

datatype questions_click =
    Uk_mode ustr
  | Uk_network
  | Uk_expiry
  | Uk_save

text \<open>A control raises its event with the value it then has.\<close>

fun questions_raises :: "questions_click \<Rightarrow> ustr \<Rightarrow> questions_event" where
  "questions_raises (Uk_mode key) s = Qu_mode key s"
| "questions_raises Uk_network s = Qu_network s"
| "questions_raises Uk_expiry s = Qu_expiry s"
| "questions_raises Uk_save s = Qu_save"

definition field_label :: "messages \<Rightarrow> ustr \<Rightarrow> ustr" where
  "field_label t key = (case map_of (zip FIELD_KEYS (map t [''settings.fieldFullName'', ''settings.fieldPhone'',
     ''settings.fieldShipping'', ''settings.fieldPostal'', ''settings.fieldEmail'', ''settings.fieldNote''])) key of
       None \<Rightarrow> [] | Some l \<Rightarrow> l)"

text \<open>A text or a number that is the value of a control.\<close>

fun control_value :: "jval \<Rightarrow> ustr" where
  "control_value (JStr s) = s"
| "control_value (JNum n) = n"
| "control_value _ = []"

definition question_field ::
  "messages \<Rightarrow> json_object \<Rightarrow> ustr \<Rightarrow> questions_click node list" where
  "question_field t d k =
     [El ''div'' [At ''className'' (lit ''field'')]
        [El ''label'' [At ''htmlFor'' (lit ''field-'' @ k)] [Txt (field_label t k)],
         El ''select''
           [At ''id'' (lit ''field-'' @ k), At ''value'' (field_mode d k), On ''onChange'' (Uk_mode k)]
           [El ''option'' [At ''value'' (lit ''required'')] [Txt (t ''settings.fieldRequired'')],
            El ''option'' [At ''value'' (lit ''optional'')] [Txt (t ''settings.fieldOptional'')],
            El ''option'' [At ''value'' (lit ''disabled'')] [Txt (t ''settings.fieldDisabled'')]]]]"

definition questions_body ::
  "messages \<Rightarrow> questions_page \<Rightarrow> json_object \<Rightarrow> questions_click node list" where
  "questions_body t p d =
     [El ''div'' [At ''className'' (lit ''page-stack'')]
        ((back_link t (lit ''/app/settings/getting-paid'') []) @
         (page_header (t ''settings.buyerQuestions'') (t ''settings.defaultsHint'') []) @
         [El ''form'' [At ''className'' (lit ''card-panel''), On ''onSubmit'' Uk_save]
            ((concat (map (question_field t d) FIELD_KEYS)) @
             [El ''details'' [At ''className'' (lit ''details-block'')]
                [El ''summary'' [] [Txt (t ''settings.paymentDefaults'')],
                 El ''div'' [At ''className'' (lit ''field''), Style [(''marginTop'', lit ''var(--space-3)'')]]
                   [El ''label'' [At ''htmlFor'' (lit ''default_network'')]
                      [Txt (t ''settings.defaultNetwork'')],
                    El ''select''
                      [At ''id'' (lit ''default_network''),
                       At ''value'' (control_value (prop_of (JObj d) (lit ''default_network''))),
                       On ''onChange'' Uk_network]
                      [El ''option'' [At ''value'' (lit ''tron'')] [Txt (t ''wallets.tron'')],
                       El ''option'' [At ''value'' (lit ''bsc'')] [Txt (t ''wallets.bsc'')]]],
                 El ''div'' [At ''className'' (lit ''field'')]
                   [El ''label'' [At ''htmlFor'' (lit ''expiry'')] [Txt (t ''settings.defaultExpiry'')],
                    El ''input''
                      [At ''id'' (lit ''expiry''),
                       At ''type'' (lit ''number''),
                       At ''min'' (lit ''5''),
                       At ''max'' (lit ''10080''),
                       At ''className'' (lit ''tabular''),
                       At ''value'' (control_value (prop_of (JObj d) (lit ''default_expiry_minutes''))),
                       On ''onChange'' Uk_expiry] []]]] @
             (if (qu_error p) \<noteq> [] then
                [El ''p'' [At ''className'' (lit ''field-error''), At ''role'' (lit ''alert'')]
                   [Txt (qu_error p)]] else []) @
             (if (qu_msg p) \<noteq> [] then
                [El ''p'' [At ''className'' (lit ''ok'')] [Txt (qu_msg p)]] else []) @
             [El ''button''
                [At ''className'' (lit ''btn btn-primary''), Flag ''disabled'' (qu_loading p),
                 Style [(''marginTop'', lit ''var(--space-4)'')]]
                [Txt (if qu_loading p then t ''common.loading'' else t ''settings.save'')]])])]"

text \<open>Rendering throws where the server gave no fields.\<close>

definition questions_screen ::
  "messages \<Rightarrow> questions_page \<Rightarrow> questions_click node list option" where
  "questions_screen t p =
     (case qu_defaults p of
        None \<Rightarrow> Some [El ''p'' [At ''className'' (lit ''muted'')] [Txt (t ''common.loading'')]]
      | Some d \<Rightarrow> if customer_fields d = JUndef \<or> customer_fields d = JNull then None else Some (questions_body t p d))"

subsection \<open>The administrator's page\<close>

datatype admin_click =
    Mk_search
  | Mk_type
  | Mk_resolve
  | Mk_timeline ustr
  | Mk_retry ustr

fun admin_raises :: "admin_click \<Rightarrow> ustr \<Rightarrow> admin_event" where
  "admin_raises Mk_search s = Ad_search"
| "admin_raises Mk_type s = Ad_type s"
| "admin_raises Mk_resolve s = Ad_resolve"
| "admin_raises (Mk_timeline ident) s = Ad_timeline ident"
| "admin_raises (Mk_retry ident) s = Ad_retry ident"

definition dash_none :: "'e node list" where
  "dash_none = [El ''p'' [At ''className'' (lit ''muted'')] [Txt [8212]]]"

definition record_list ::
  "ustr \<Rightarrow> record_row list \<Rightarrow> string \<Rightarrow> string \<Rightarrow> 'e node list" where
  "record_list title rows primary second =
     [El ''section'' [At ''className'' (lit ''section'')]
        [El ''h2'' [At ''className'' (lit ''section-title'')] [Txt title],
         El ''div'' [At ''className'' (lit ''list-group'')]
           ((concat
               (map
                  (\<lambda>r.
                     [El ''div'' [At ''className'' (lit ''list-row'')]
                        [El ''div'' [At ''className'' (lit ''list-row-body'')]
                           ([El ''div'' [At ''className'' (lit ''list-row-title'')]
                               [Txt (record_title r primary)],
                             El ''div'' [At ''className'' (lit ''list-row-meta mono-ltr'')]
                               [Txt (record_meta r second)]] @
                            (if (r ''event_key'') \<noteq> [] then
                               [El ''div'' [At ''className'' (lit ''list-row-meta mono-ltr'')]
                                  [Txt (r ''event_key'')]] else []))]]) (take 30 rows))) @
            (if rows = [] then [El ''p'' [At ''className'' (lit ''muted'')] [Txt ([8212])]] else []))]]"

definition admin_ops_view ::
  "messages \<Rightarrow> ops_status \<Rightarrow> admin_click node list" where
  "admin_ops_view t u =
     [El ''section'' [At ''className'' (lit ''section card-panel'')]
        [El ''h2'' [At ''className'' (lit ''section-title'')] [Txt (t ''admin.ops'')],
         El ''p'' [At ''className'' (lit ''muted mono-ltr'')]
           [Txt (lit ''ok=''), Txt (ao_ok u), Txt (lit '' worker=''), Txt (ao_worker u), Txt (lit '' sha=''),
            Txt (or_text (ao_sha u) [8212])],
         El ''p'' [At ''className'' (lit ''muted'')]
           [Txt (lit ''alerts=''),
            Txt (or_text (join_with (lit '', '') (ao_alerts u)) [8212]),
            Txt (lit '' '' @ [183] @ lit '' stuck=''),
            Txt (dec (case ao_stuck u of None \<Rightarrow> 0 | Some n \<Rightarrow> n)),
            Txt (lit '' '' @ [183] @ lit '' review=''),
            Txt (dec (case ao_review u of None \<Rightarrow> 0 | Some n \<Rightarrow> n)),
            Txt (lit '' '' @ [183] @ lit '' notify_fail_24h=''),
            Txt (dec (case ao_failed u of None \<Rightarrow> 0 | Some n \<Rightarrow> n))]]]"

definition admin_search_form ::
  "messages \<Rightarrow> admin_page \<Rightarrow> admin_click node list" where
  "admin_search_form t p =
     [El ''form'' [At ''className'' (lit ''card-panel stack-form''), On ''onSubmit'' Mk_search]
        [El ''h2'' [Style [(''margin'', lit ''0''), (''fontSize'', lit ''var(--text-title3)'')]]
           [Txt (t ''admin.search'')],
         El ''input''
           [At ''value'' (ad_search p), On ''onChange'' Mk_type,
            At ''placeholder'' (t ''admin.searchPlaceholder'')] [],
         El ''button'' [At ''className'' (lit ''btn btn-secondary''), At ''type'' (lit ''submit'')]
           [Txt (t ''admin.search'')]]]"

definition admin_found ::
  "messages \<Rightarrow> search_result \<Rightarrow> admin_click node list" where
  "admin_found t r =
     (record_list (t ''admin.search'') (sr_merchants r) ''name'' ''slug'') @
     (record_list (t ''admin.intents'') (sr_intents r) ''status'' ''id'') @
     (record_list (t ''nav.orders'') (sr_orders r) ''title'' ''slug'')"

definition admin_resolve_form ::
  "messages \<Rightarrow> admin_page \<Rightarrow> admin_click node list" where
  "admin_resolve_form t p =
     [El ''form'' [At ''className'' (lit ''card-panel''), On ''onSubmit'' Mk_resolve]
        [El ''h2'' [Style [(''margin'', lit ''0''), (''fontSize'', lit ''var(--text-title3)'')]]
           [Txt (t ''admin.resolve'')],
         El ''p'' [At ''className'' (lit ''muted'')] [Txt (t ''admin.resolveHint'')],
         El ''div'' [At ''className'' (lit ''field''), Style [(''marginTop'', lit ''var(--space-3)'')]]
           [El ''label'' [At ''htmlFor'' (lit ''payment_intent_id'')] [Txt (t ''admin.intentId'')],
            El ''input''
              [At ''id'' (lit ''payment_intent_id''), At ''name'' (lit ''payment_intent_id''),
               Flag ''required'' True, At ''className'' (lit ''mono-ltr'')] []],
         El ''div'' [At ''className'' (lit ''field'')]
           [El ''label'' [At ''htmlFor'' (lit ''action'')] [Txt (t ''admin.action'')],
            El ''select''
              [At ''id'' (lit ''action''), At ''name'' (lit ''action''),
               At ''defaultValue'' (lit ''needs_review'')]
              [El ''option'' [At ''value'' (lit ''needs_review'')] [Txt (t ''admin.actionNeedsReview'')],
               El ''option'' [At ''value'' (lit ''acknowledge_exception'')]
                 [Txt (t ''admin.actionAcknowledge'')],
               El ''option'' [At ''value'' (lit ''note'')] [Txt (t ''admin.actionNote'')]]],
         El ''div'' [At ''className'' (lit ''field'')]
           [El ''label'' [At ''htmlFor'' (lit ''reason'')] [Txt (t ''admin.reason'')],
            El ''input'' [At ''id'' (lit ''reason''), At ''name'' (lit ''reason''), Flag ''required'' True]
              []],
         El ''div'' [At ''className'' (lit ''field'')]
           [El ''label'' [At ''htmlFor'' (lit ''event_id'')] [Txt (t ''admin.eventId'')],
            El ''input''
              [At ''id'' (lit ''event_id''), At ''name'' (lit ''event_id''),
               At ''className'' (lit ''mono-ltr'')] []],
         El ''button'' [At ''className'' (lit ''btn btn-primary''), Flag ''disabled'' (ad_loading p)]
           [Txt (if ad_loading p then t ''common.loading'' else t ''admin.submit'')]]]"

definition admin_exceptions_view ::
  "(nat \<Rightarrow> ustr) \<Rightarrow> messages \<Rightarrow> admin_page \<Rightarrow> admin_click node list" where
  "admin_exceptions_view localeNumber t p =
     [El ''section'' [At ''className'' (lit ''section'')]
        [El ''h2'' [At ''className'' (lit ''section-title'')] [Txt (t ''admin.exceptions'')],
         El ''div'' [At ''className'' (lit ''list-group'')]
           ((concat
               (map
                  (\<lambda>u.
                     [El ''button''
                        [At ''type'' (lit ''button''), At ''className'' (lit ''list-row''),
                         On ''onClick'' (Mk_timeline (ax_id u))]
                        [El ''div'' [At ''className'' (lit ''list-row-body'')]
                           [El ''div'' [At ''className'' (lit ''list-row-title'')] [Txt (ax_label u)],
                            El ''div'' [At ''className'' (lit ''list-row-meta mono-ltr'')] [Txt (ax_id u)],
                            El ''div'' [At ''className'' (lit ''list-row-meta tabular'')]
                              [Txt
                                 (case ax_amountToman u of None \<Rightarrow> [] | Some n \<Rightarrow>
                                    localeNumber n),
                               Txt (lit '' '' @ [183] @ lit '' ''),
                               Txt (ax_slug u)]]]]) (take 40 (ad_exceptions p)))) @
            (if ad_exceptions p = [] then dash_none else []))]]"

definition admin_timeline_view ::
  "messages \<Rightarrow> record_row list \<Rightarrow> admin_click node list" where
  "admin_timeline_view t evs =
     [El ''section'' [At ''className'' (lit ''section'')]
        [El ''h2'' [At ''className'' (lit ''section-title'')] [Txt (t ''admin.timeline'')],
         El ''div'' [At ''className'' (lit ''list-group'')]
           (concat
              (map
                 (\<lambda>v.
                    [El ''div'' [At ''className'' (lit ''list-row'')]
                       [El ''div'' [At ''className'' (lit ''list-row-body'')]
                          [El ''div'' [At ''className'' (lit ''list-row-title'')]
                             [Txt (or_text (or_text (v ''event_type'') (v ''kind'')) (lit ''event''))],
                           El ''div'' [At ''className'' (lit ''list-row-meta'')]
                             [Txt (or_text (or_text (v ''title'') (v ''status'')) (v ''channel''))],
                           El ''div'' [At ''className'' (lit ''list-row-meta muted'')]
                             [Txt (or_text (v ''created_at'') (v ''at''))]]]]) evs))]]"

definition admin_deliveries_view ::
  "messages \<Rightarrow> admin_page \<Rightarrow> admin_click node list" where
  "admin_deliveries_view t p =
     [El ''section'' [At ''className'' (lit ''section'')]
        [El ''h2'' [At ''className'' (lit ''section-title'')] [Txt (t ''admin.deliveries'')],
         El ''div'' [At ''className'' (lit ''list-group'')]
           ((concat
               (map
                  (\<lambda>u.
                     [El ''div'' [At ''className'' (lit ''list-row'')]
                        ([El ''div'' [At ''className'' (lit ''list-row-body'')]
                            [El ''div'' [At ''className'' (lit ''list-row-title'')]
                               [Txt (ay_status u), Txt (lit '' '' @ [183] @ lit '' ''), Txt (ay_channel u)],
                             El ''div'' [At ''className'' (lit ''list-row-meta mono-ltr'')]
                               [Txt (or_text (ay_event_key u) (ay_id u))]]] @
                         (if retry_shown (ay_status u) then
                            [El ''button''
                               [At ''type'' (lit ''button''), At ''className'' (lit ''btn btn-tertiary''),
                                On ''onClick'' (Mk_retry (ay_id u))] [Txt (t ''admin.retry'')]] else []))])
                  (take 30 (ad_deliveries p)))) @
            (if ad_deliveries p = [] then dash_none else []))]]"

definition admin_view ::
  "(nat \<Rightarrow> ustr) \<Rightarrow> messages \<Rightarrow> admin_page \<Rightarrow> admin_click node list" where
  "admin_view localeNumber t p =
     [El ''main'' [At ''className'' (lit ''shell page-stack shell-wide'')]
        (back_link t (lit ''/app/settings'') [] @ page_header (t ''admin.title'') [] [] @
         (if ad_error p \<noteq> [] then
            [El ''p'' [At ''className'' (lit ''field-error''), At ''role'' (lit ''alert'')] [Txt (ad_error p)]] else []) @
         (case ad_ops p of None \<Rightarrow> [] | Some u \<Rightarrow> admin_ops_view t u) @ admin_search_form t p @
         (case ad_searchResult p of None \<Rightarrow> [] | Some r \<Rightarrow> admin_found t r) @ admin_resolve_form t p @
         admin_exceptions_view localeNumber t p @
         (case ad_timeline p of None \<Rightarrow> [] | Some evs \<Rightarrow> admin_timeline_view t evs) @
         record_list (t ''admin.intents'') (ad_intents p) ''status'' ''id'' @ admin_deliveries_view t p)]"

subsection \<open>What the pages offer\<close>

lemma notify_offers [markup_simps]:
  "offers (telegram_view t p) =
     (if tp_busy p then [] else if tp_connected p then [Nk_test, Nk_disconnect] else [Nk_connect])"
  "offers (instagram_view t i) =
     (if \<not> ig_configured i \<or> ig_busy i then [] else if ig_connected i then [Nk_unlink] else [Nk_code])"
  "offers (email_view t addr m) =
     (if \<not> em_enabled m \<or> em_busy m then [] else map Nk_pref [Pref_payment, Pref_attention, Pref_orders])"
  by (simp_all add: telegram_view_def instagram_view_def email_view_def pref_box_def markup_simps)

lemma notifications_offers:
  "offers (notifications_view t addr p i m) = offers (telegram_view t p) @ offers (instagram_view t i) @ offers (email_view t addr m)"
  by (simp add: notifications_view_def markup_simps)

text \<open>Which event of which channel a control stands for. No event of the user changes a channel unless its
  control is offered, and every control that is offered starts its handler.\<close>

fun telegram_event_of :: "notify_click \<Rightarrow> telegram_event option" where
  "telegram_event_of Nk_connect = Some Tp_connect"
| "telegram_event_of Nk_test = Some Tp_test"
| "telegram_event_of Nk_disconnect = Some Tp_disconnect"
| "telegram_event_of _ = None"

fun instagram_event_of :: "notify_click \<Rightarrow> instagram_event option" where
  "instagram_event_of Nk_code = Some Ig_code"
| "instagram_event_of Nk_unlink = Some Ig_disconnect"
| "instagram_event_of _ = None"

lemma telegram_takes_offered:
  "telegram_event_of k = Some e \<Longrightarrow>
     k \<in> set (offers (notifications_view t addr p i m)) \<longleftrightarrow> \<not> tp_busy p \<and> tp_busy (panel_do t e p)"
  by (cases k) (auto simp: notifications_offers markup_simps panel_steps)

lemma instagram_takes_offered:
  "instagram_event_of k = Some e \<Longrightarrow>
     k \<in> set (offers (notifications_view t addr p i m)) \<longleftrightarrow> \<not> ig_busy i \<and> ig_busy (instagram_do t e i)"
  by (cases k) (auto simp: notifications_offers markup_simps instagram_ask_def)

lemma email_takes_offered:
  "Nk_pref k \<in> set (offers (notifications_view t addr p i m)) \<longleftrightarrow> \<not> em_busy m \<and> em_busy (email_do t (Em_toggle k) m)"
  by (cases k) (auto simp: notifications_offers markup_simps toggle_pref_def)

text \<open>The address of the bot is shown and linked, and the link hands over no window.\<close>

lemma telegram_link_safe: "list_all safe_node (telegram_view t p)"
  by (simp add: telegram_view_def lit_def)

lemma store_offers:
  "offers (store_view rt t p) = (if st_loading p then [] else [Sk_save]) @ [Sk_file] @
     (if st_loading p then [] else [Sk_pick]) @ [Sk_name, Sk_description, Sk_support]"
  by (simp add: store_view_def can_submit_def lit_def markup_simps)

text \<open>The entrance: who wants to leave is asked, and the way out goes through the dialog.\<close>

lemma settings_offers:
  "offers (settings_view t p) = [Gk_logout] @ (if sg_confirmLogout p then [Gk_cancel, Gk_confirm, Gk_cancel] else [])"
  by (simp add: settings_view_def settings_groups_def markup_simps)

lemma admin_link_shown:
  "lit ''/admin'' \<in> set (attrs_of ''a'' ''href'' (settings_view t p)) \<longleftrightarrow> sg_isAdmin p"
  by (simp add: settings_view_def settings_groups_def alert_dialog_def page_header_def lit_def markup_simps)

text \<open>One theme is marked, the chosen one, and the row that installs the application is not there once it is.\<close>

lemma app_settings_offers:
  "offers (app_settings_view t locale chosen standalone) =
     [Xk_locale (lit ''en''), Xk_locale (lit ''fa''), Xk_theme Theme_system, Xk_theme Theme_light, Xk_theme Theme_dark] @
     (if standalone then [] else [Xk_install])"
  by (simp add: app_settings_view_def markup_simps)

lemma theme_stays: "th_theme (app_setting_theme (Xk_theme v) p) = v"
  by (simp add: app_setting_theme_def setTheme_def)

text \<open>The questions: only the button waits for a save that is out.\<close>

lemma questions_offers:
  "offers (questions_body t p d) =
     (if qu_loading p then [] else [Uk_save]) @ map Uk_mode FIELD_KEYS @ [Uk_network, Uk_expiry]"
proof -
  have fields: "offers (question_field t d k) = [Uk_mode k]" for k by (simp add: question_field_def markup_simps)
  have submits: "submits_of (question_field t d k) = []" for k by (simp add: question_field_def markup_simps)
  have rows: "concat (map (\<lambda>k. [Uk_mode k]) ks) = map Uk_mode ks" for ks by (induction ks) simp_all
  have none: "concat (map (\<lambda>k. []) ks) = []" for ks :: "ustr list" by (induction ks) simp_all
  show ?thesis
    by (simp add: questions_body_def none can_submit_def fields submits rows lit_def markup_simps o_def)
qed

lemma questions_event_offered:
  assumes "questions_screen t p = Some ns" "qu_defaults p = Some d"
    and "questions_do t number (questions_raises k s) p \<noteq> p"
  shows "k \<in> set (offers ns)"
  using assms by (cases k) (auto simp: questions_screen_def questions_offers split: if_splits)

text \<open>The page shows a mode for every field it knows, whatever the server gave.\<close>

lemma mode_shown:
  "attrs_of ''select'' ''value'' (question_field t d k) = [field_mode d k]"
  by (simp add: question_field_def markup_simps)

subsection \<open>What the administrator's page offers\<close>

lemma record_list_silent [markup_simps]: "offers (record_list title rows primary second) = []"
  by (simp add: record_list_def markup_simps o_def)

lemma admin_parts_offer [markup_simps]:
  "offers (admin_ops_view t u) = []" "offers (admin_search_form t p) = [Mk_search, Mk_type]"
  "offers (admin_found t r) = []" "offers (admin_resolve_form t p) = (if ad_loading p then [] else [Mk_resolve])"
  "offers (admin_timeline_view t evs) = []"
  "offers (admin_exceptions_view localeNumber t p) = map (\<lambda>u. Mk_timeline (ax_id u)) (take 40 (ad_exceptions p))"
  "offers (admin_deliveries_view t p) = map Mk_retry (retry_ids p)"
proof -
  have one: "concat (map (\<lambda>u. [Mk_timeline (ax_id u)]) us) = map (\<lambda>u. Mk_timeline (ax_id u)) us" for us
    by (induction us) simp_all
  have some: "concat (map (\<lambda>u. if retry_shown (ay_status u) then [Mk_retry (ay_id u)] else []) us) =
      map Mk_retry (map ay_id (filter (\<lambda>d. retry_shown (ay_status d)) us))" for us
    by (induction us) simp_all
  show "offers (admin_exceptions_view localeNumber t p) = map (\<lambda>u. Mk_timeline (ax_id u)) (take 40 (ad_exceptions p))"
    by (simp add: admin_exceptions_view_def dash_none_def one markup_simps o_def)
  show "offers (admin_deliveries_view t p) = map Mk_retry (retry_ids p)"
    by (simp add: admin_deliveries_view_def dash_none_def retry_ids_def some if_distrib [of offers] markup_simps o_def cong: if_cong)
qed (simp_all add: admin_ops_view_def admin_search_form_def admin_found_def admin_resolve_form_def
    admin_timeline_view_def can_submit_def lit_def markup_simps o_def)

lemma admin_offers:
  "set (offers (admin_view localeNumber t p)) = {Mk_search, Mk_type} \<union> (if ad_loading p then {} else {Mk_resolve}) \<union>
     (\<lambda>u. Mk_timeline (ax_id u)) ` set (take 40 (ad_exceptions p)) \<union> Mk_retry ` set (retry_ids p)"
  by (auto simp: admin_view_def markup_simps split: option.splits)

lemma admin_event_offered:
  "admin_do t (admin_raises k s) p \<noteq> p \<Longrightarrow> k \<in> set (offers (admin_view localeNumber t p))"
  by (cases k) (auto simp: admin_offers image_iff split: if_splits)

text \<open>A delivery that was delivered cannot be sent again from the page.\<close>

lemma delivered_not_retried:
  assumes "Mk_retry ident \<in> set (offers (admin_view localeNumber t p))"
  shows "\<exists>d\<in>set (ad_deliveries p). ay_id d = ident \<and> ay_status d \<in> {lit ''failed'', lit ''pending''}"
  using assms by (auto simp: admin_offers retry_ids_def retry_shown_def dest: in_set_takeD split: if_splits)

end
