(* ===== verification/FormViews.thy ===== *)
theory FormViews
  imports Ui SellerForms WalletPages Catalogue
begin

text \<open>
  What the forms render: app/create/page.tsx, app/links/page.tsx, app/wallets/page.tsx and
  app/onboarding/page.tsx of the seller's application, t/app/create/page.tsx of the mini app, and the
  public pages [slug]/page.tsx and link/[slug]/page.tsx, all under apps/web/src/app, over the states of
  \<open>SellerForms\<close> and \<open>WalletPages\<close>.
\<close>

subsection \<open>A new order\<close>

datatype create_click =
    Ok_submit
  | Ok_amount
  | Ok_title
  | Ok_more
  | Ok_quantity
  | Ok_reference
  | Ok_expiry
  | Ok_success
  | Ok_copy
  | Ok_share
  | Ok_more_share
  | Ok_qr
  | Ok_view

text \<open>The event a control raises with the text it then has; what comes of the clipboard and of the
  sharing are parameters.\<close>

fun create_raises :: "bool \<Rightarrow> share_outcome \<Rightarrow> create_click \<Rightarrow> ustr \<Rightarrow> create_event" where
  "create_raises taken out Ok_submit s = Cr_submit"
| "create_raises taken out Ok_amount s = Cr_amount s"
| "create_raises taken out Ok_title s = Cr_title s"
| "create_raises taken out Ok_more s = Cr_more"
| "create_raises taken out Ok_quantity s = Cr_quantity s"
| "create_raises taken out Ok_reference s = Cr_reference s"
| "create_raises taken out Ok_expiry s = Cr_expiry s"
| "create_raises taken out Ok_success s = Cr_success s"
| "create_raises taken out Ok_copy s = Cr_copy taken"
| "create_raises taken out Ok_share s = Cr_share out"
| "create_raises taken out Ok_more_share s = Cr_more_share"
| "create_raises taken out Ok_qr s = Cr_qr"
| "create_raises taken out Ok_view s = Cr_view"

definition created_more ::
  "messages \<Rightarrow> ustr \<Rightarrow> ustr \<Rightarrow> created_order \<Rightarrow> create_page \<Rightarrow> create_click node list" where
  "created_more t telegram whatsapp r c =
     [El ''div'' [At ''className'' (lit ''cta-stack''), Style [(''marginTop'', lit ''var(--space-3)'')]]
        ([El ''button''
            [At ''className'' (lit ''btn btn-secondary''), At ''type'' (lit ''button''), On ''onClick'' Ok_qr]
            [Txt (t ''create.qr'')],
          El ''div'' [Style [(''display'', lit ''flex''), (''gap'', lit ''var(--space-2)'')]]
            [El ''a''
               [At ''className'' (lit ''btn btn-tertiary''), Style [(''flex'', lit ''1'')],
                At ''href'' telegram, At ''target'' (lit ''_blank''), At ''rel'' (lit ''noreferrer'')]
               [Txt (t ''create.shareTelegram'')],
             El ''a''
               [At ''className'' (lit ''btn btn-tertiary''), Style [(''flex'', lit ''1'')],
                At ''href'' whatsapp, At ''target'' (lit ''_blank''), At ''rel'' (lit ''noreferrer'')]
               [Txt (t ''create.shareWhatsApp'')]],
          El ''button''
            [At ''className'' (lit ''btn btn-tertiary''), At ''type'' (lit ''button''), On ''onClick'' Ok_copy]
            [Txt (t ''create.shareInstagram'')]] @
         (if cr_showQR c then
            [El ''div'' [At ''className'' (lit ''qr-card'')]
               [El ''div'' [At ''className'' (lit ''qr-frame'')]
                  [El ''QRCodeSVG''
                     [At ''value'' (ct_checkout_url r), At ''size'' (lit ''180''),
                      At ''bgColor'' (lit ''#ffffff''), At ''fgColor'' (lit ''#0b1f1a'')] []]]] else []))]"

definition created_view ::
  "messages \<Rightarrow> bool \<Rightarrow> create_click node list \<Rightarrow> created_order \<Rightarrow> create_click node list" where
  "created_view t canShare extra r =
     [El ''div'' [At ''className'' (lit ''page-stack'')]
        ((page_header (t ''create.created'') [] []) @
         [El ''div'' []
            ((if (case ct_amount r of None \<Rightarrow> False | Some n \<Rightarrow> 0 < n) then
                [El ''p''
                   [At ''className'' (lit ''tabular home-today-amount''), Style [(''margin'', lit ''0'')]]
                   [Txt (formatUsdtFromBaseUnits (int (the (ct_amount r)))), Txt (lit '' ''),
                    Txt (t ''checkout.usdt'')]] else []) @
             (if (given (ct_title r)) \<noteq> [] then
                [El ''p''
                   [Style
                      [(''margin'', lit ''var(--space-2) 0 0''), (''fontSize'', lit ''var(--text-headline)'')]]
                   [Txt (given (ct_title r))]] else []) @
             [El ''p'' [At ''className'' (lit ''muted''), Style [(''marginTop'', lit ''var(--space-3)'')]]
                [Txt (t ''create.shareHint'')],
              El ''div'' [At ''className'' (lit ''cta-stack''), Style [(''marginTop'', lit ''var(--space-4)'')]]
                [El ''button'' [At ''className'' (lit ''btn btn-primary''), On ''onClick'' Ok_copy]
                   [Txt (t ''create.pasteInChat'')],
                 El ''button'' [At ''className'' (lit ''btn btn-secondary''), On ''onClick'' Ok_share]
                   [Txt (if canShare then t ''create.share'' else t ''create.copyLink'')]],
              El ''button''
                [At ''type'' (lit ''button''),
                 At ''className'' (lit ''quiet-link''),
                 Style
                   [(''marginTop'', lit ''var(--space-4)''), (''background'', lit ''none''),
                    (''border'', lit ''0''), (''width'', lit ''100%'')],
                 On ''onClick'' Ok_more_share] [Txt (t ''create.moreShare'')]] @
             extra),
          El ''button''
            [At ''type'' (lit ''button''), At ''className'' (lit ''btn btn-tertiary btn-block''),
             On ''onClick'' Ok_view] [Txt (t ''create.viewOrder'')]])]"

definition create_more ::
  "messages \<Rightarrow> create_page \<Rightarrow> create_click node list" where
  "create_more t c =
     [El ''div'' [At ''className'' (lit ''field'')]
        [El ''label'' [At ''htmlFor'' (lit ''quantity'')] [Txt (t ''create.quantity'')],
         El ''input''
           [At ''id'' (lit ''quantity''), At ''className'' (lit ''tabular''),
            At ''inputMode'' (lit ''numeric''), At ''value'' (cr_quantity c), On ''onChange'' Ok_quantity] []],
      El ''div'' [At ''className'' (lit ''field'')]
        [El ''label'' [At ''htmlFor'' (lit ''reference'')] [Txt (t ''create.reference'')],
         El ''input''
           [At ''id'' (lit ''reference''), At ''value'' (cr_reference c), On ''onChange'' Ok_reference] []],
      El ''div'' [At ''className'' (lit ''field'')]
        [El ''label'' [At ''htmlFor'' (lit ''expiry'')] [Txt (t ''create.expiry'')],
         El ''input''
           [At ''id'' (lit ''expiry''), At ''className'' (lit ''tabular''), At ''inputMode'' (lit ''numeric''),
            At ''value'' (cr_expiry c), On ''onChange'' Ok_expiry] []],
      El ''div'' [At ''className'' (lit ''field'')]
        [El ''label'' [At ''htmlFor'' (lit ''success'')] [Txt (t ''create.successMessage'')],
         El ''input''
           [At ''id'' (lit ''success''), At ''value'' (cr_successMessage c), On ''onChange'' Ok_success] []]]"

definition create_body ::
  "messages \<Rightarrow> ustr \<Rightarrow> ustr \<Rightarrow> bool \<Rightarrow> create_page \<Rightarrow> create_click node list" where
  "create_body t customerId customerName fromIg c =
     [El ''div'' [At ''className'' (lit ''page-stack'')]
        ((page_header (t ''create.title'') [] []) @
         (if fromIg then
            [El ''p'' [At ''className'' (lit ''muted'')] [Txt (t ''create.fromIgHint'')]] else []) @
         (if customerName \<noteq> [] then
            [El ''p'' [At ''className'' (lit ''muted''), Style [(''margin'', lit ''0'')]]
               [Txt (t ''create.forCustomer''), Txt (lit '' ''), El ''strong'' [] [Txt customerName]]] else []) @
         [El ''form'' [At ''className'' (lit ''form-stack''), On ''onSubmit'' Ok_submit]
            ([El ''div'' [At ''className'' (lit ''field'')]
                [El ''label'' [At ''htmlFor'' (lit ''amount'')] [Txt (t ''create.howMuch'')],
                 El ''div'' [At ''className'' (lit ''row-split'')]
                   [El ''input''
                      [At ''id'' (lit ''amount''), At ''name'' (lit ''amount''),
                       At ''inputMode'' (lit ''numeric''), At ''placeholder'' (lit ''30.00''),
                       Flag ''required'' True, At ''className'' (lit ''tabular amount-input''),
                       At ''value'' (cr_amount c), On ''onChange'' Ok_amount, At ''autoComplete'' (lit ''off'')]
                      [],
                    El ''span'' [At ''className'' (lit ''muted'')] [Txt (t ''checkout.usdt'')]]],
              El ''div'' [At ''className'' (lit ''field'')]
                [El ''label'' [At ''htmlFor'' (lit ''title'')] [Txt (t ''create.description'')],
                 El ''input''
                   [At ''id'' (lit ''title''), At ''name'' (lit ''title''),
                    At ''placeholder'' (lit ''Nike Air Max 90''), At ''value'' (cr_title c),
                    On ''onChange'' Ok_title] []],
              El ''button''
                [At ''type'' (lit ''button''),
                 At ''className'' (lit ''quiet-link''),
                 Style
                   [(''background'', lit ''none''), (''border'', lit ''0''),
                    (''marginBottom'', lit ''var(--space-3)'')],
                 On ''onClick'' Ok_more]
                [Txt (if cr_showMore c then t ''create.hideOptions'' else t ''create.moreOptions'')]] @
             (if cr_showMore c then create_more t c else []) @
             (if (cr_error c) \<noteq> [] then
                [El ''p'' [At ''className'' (lit ''field-error''), At ''role'' (lit ''alert'')]
                   [Txt (cr_error c)]] else []) @
             [El ''button'' [At ''className'' (lit ''btn btn-primary''), Flag ''disabled'' (create_disabled c)]
                [Txt
                   (if cr_loading c then
                      t ''create.creating''
                    else if customerId \<noteq> [] then t ''create.createShare'' else t ''create.create'')]]),
          El ''Link'' [At ''className'' (lit ''quiet-link''), At ''href'' (lit ''/app/links'')]
            [Txt (t ''create.reusableInstead'')]])]"

text \<open>Rendering a result throws where its texts cannot be part of a link.\<close>

definition create_screen ::
  "(nat \<Rightarrow> ustr) \<Rightarrow> messages \<Rightarrow> ustr \<Rightarrow> ustr \<Rightarrow> bool \<Rightarrow> bool \<Rightarrow> create_page \<Rightarrow> create_click node list option" where
  "create_screen localeNumber t customerId customerName fromIg canShare c =
     (case cr_result c of
        None \<Rightarrow>
          Some (if cr_gate c then [El ''div'' [At ''className'' (lit ''page-stack muted'')] [Txt [8230]]]
            else create_body t customerId customerName fromIg c)
      | Some r \<Rightarrow>
          if \<not> cr_showMoreShare c then Some (created_view t canShare [] r)
          else let s = created_share_text localeNumber t r
            in case (telegramShareURL s (ct_checkout_url r), whatsappShareURL s) of
                 (Some tg, Some wa) \<Rightarrow> Some (created_view t canShare (created_more t tg wa r c) r)
               | _ \<Rightarrow> None)"

subsection \<open>Payment links\<close>

datatype links_click =
    Nk_create
  | Nk_title
  | Nk_mode ustr
  | Nk_amount
  | Nk_copy pay_link

fun links_raises :: "bool \<Rightarrow> links_click \<Rightarrow> ustr \<Rightarrow> links_event" where
  "links_raises taken Nk_create s = Lk_submit"
| "links_raises taken Nk_title s = Lk_title s"
| "links_raises taken (Nk_mode m) s = Lk_mode m"
| "links_raises taken Nk_amount s = Lk_amount s"
| "links_raises taken (Nk_copy l) s = Lk_copied taken"

definition links_form ::
  "messages \<Rightarrow> links_page \<Rightarrow> links_click node list" where
  "links_form t p =
     [El ''form'' [At ''className'' (lit ''card-panel''), On ''onSubmit'' Nk_create]
        ([El ''div'' [At ''className'' (lit ''field'')]
            [El ''label'' [At ''htmlFor'' (lit ''link-title'')] [Txt (t ''create.orderTitle'')],
             El ''input'' [At ''id'' (lit ''link-title''), At ''value'' (lk_title p), On ''onChange'' Nk_title]
               []],
          El ''fieldset'' [At ''className'' (lit ''choice-set'')]
            [El ''legend'' [] [Txt (t ''links.create'')],
             El ''label'' [At ''className'' (lit ''choice'')]
               [El ''input''
                  [At ''type'' (lit ''radio''), Flag ''checked'' (lk_mode p = lit ''fixed''),
                   On ''onChange'' (Nk_mode (lit ''fixed''))] [],
                Txt (t ''links.fixed'')],
             El ''label'' [At ''className'' (lit ''choice'')]
               [El ''input''
                  [At ''type'' (lit ''radio''), Flag ''checked'' (lk_mode p = lit ''custom_amount''),
                   On ''onChange'' (Nk_mode (lit ''custom_amount''))] [],
                Txt (t ''links.custom'')]]] @
         (if lk_mode p = lit ''fixed'' then
            [El ''div'' [At ''className'' (lit ''field'')]
               [El ''label'' [At ''htmlFor'' (lit ''link-amount'')] [Txt (t ''create.amount'')],
                El ''input''
                  [At ''id'' (lit ''link-amount''), At ''className'' (lit ''tabular''),
                   At ''value'' (lk_amount p), On ''onChange'' Nk_amount, At ''inputMode'' (lit ''numeric'')]
                  []]] else []) @
         [El ''button''
            [At ''className'' (lit ''btn btn-primary''), At ''type'' (lit ''submit''),
             Flag ''disabled'' (lk_loading p)] [Txt (t ''links.create'')]])]"

definition link_row ::
  "js_numbers \<Rightarrow> messages \<Rightarrow> pay_link \<Rightarrow> links_click node list" where
  "link_row N t l =
     [El ''div'' [At ''className'' (lit ''list-row''), Style [(''cursor'', lit ''default'')]]
        [El ''div'' [At ''className'' (lit ''list-row-body'')]
           [El ''div'' [At ''className'' (lit ''list-row-title'')] [Txt (or_text (pk_title l) (pk_slug l))],
            El ''div'' [At ''className'' (lit ''list-row-meta tabular'')]
              [Txt
                 (if pk_mode l = lit ''fixed'' then
                    formatTomanInput (nm_of N) (nm_text N (pk_amount l)) @ lit '' '' @ t ''checkout.toman''
                  else t ''links.custom''),
               Txt (lit '' '' @ [183] @ lit '' ''),
               Txt (if pk_active l then t ''links.active'' else t ''links.inactive'')]],
         El ''button''
           [At ''type'' (lit ''button''), At ''className'' (lit ''btn btn-tertiary''),
            Style [(''width'', lit ''auto'')], On ''onClick'' (Nk_copy l)] [Txt (t ''common.copy'')]]]"

definition links_view ::
  "js_numbers \<Rightarrow> messages \<Rightarrow> links_page \<Rightarrow> links_click node list" where
  "links_view N t p =
     [El ''div'' [At ''className'' (lit ''page-stack'')]
        ((back_link t (lit ''/app/settings/getting-paid'') []) @
         (page_header (t ''links.title'') (t ''links.hint'') []) @
         (if (lk_error p) \<noteq> [] then
            [El ''p'' [At ''className'' (lit ''field-error''), At ''role'' (lit ''alert'')] [Txt (lk_error p)]] else []) @
         links_form t p @
         (if lk_links p = [] then
            (empty_state (t ''links.empty'') [] [Txt (t ''links.hint'')])
          else [El ''div'' [At ''className'' (lit ''list-group'')] (concat (map (link_row N t) (lk_links p)))]))]"

subsection \<open>The mini app's form\<close>

datatype telegram_click =
    Vk_submit
  | Vk_amount
  | Vk_title
  | Vk_share
  | Vk_copy ustr

definition telegram_result ::
  "messages \<Rightarrow> telegram_created \<Rightarrow> telegram_click node list" where
  "telegram_result t r =
     [El ''main'' [At ''className'' (lit ''shell page-stack'')]
        [El ''h1'' [At ''className'' (lit ''page-title'')] [Txt (t ''create.created'')],
         El ''div'' [At ''className'' (lit ''cta-stack'')]
           [El ''button''
              [At ''type'' (lit ''button''), At ''className'' (lit ''btn btn-primary''),
               On ''onClick'' Vk_share] [Txt (t ''miniapp.shareBuyer'')],
            El ''button''
              [At ''type'' (lit ''button''), At ''className'' (lit ''btn btn-secondary''),
               On ''onClick'' (Vk_copy (tc_telegram_url r))] [Txt (t ''miniapp.copyTelegram'')],
            El ''button''
              [At ''type'' (lit ''button''), At ''className'' (lit ''btn btn-tertiary''),
               On ''onClick'' (Vk_copy (tc_checkout_url r))] [Txt (t ''miniapp.copyWeb'')]]]]"

definition telegram_form_view ::
  "js_numbers \<Rightarrow> messages \<Rightarrow> telegram_create \<Rightarrow> telegram_click node list" where
  "telegram_form_view N t p =
     [El ''main'' [At ''className'' (lit ''shell page-stack'')]
        [El ''h1'' [At ''className'' (lit ''page-title'')] [Txt (t ''miniapp.create'')],
         El ''p'' [At ''className'' (lit ''muted'')] [Txt (t ''miniapp.connectHint'')],
         El ''form'' [At ''className'' (lit ''form-stack''), On ''onSubmit'' Vk_submit]
           ([El ''div'' [At ''className'' (lit ''field'')]
               [El ''label'' [At ''htmlFor'' (lit ''amount'')] [Txt (t ''create.howMuch'')],
                El ''input''
                  [At ''id'' (lit ''amount''), At ''className'' (lit ''tabular amount-input''),
                   At ''inputMode'' (lit ''numeric''), At ''value'' (tg_amount p), On ''onChange'' Vk_amount,
                   Flag ''required'' True] []],
             El ''div'' [At ''className'' (lit ''field'')]
               [El ''label'' [At ''htmlFor'' (lit ''title'')] [Txt (t ''create.description'')],
                El ''input'' [At ''id'' (lit ''title''), At ''value'' (tg_title p), On ''onChange'' Vk_title]
                  []]] @
            (if (tg_error p) \<noteq> [] then
               [El ''p'' [At ''className'' (lit ''field-error''), At ''role'' (lit ''alert'')]
                  [Txt (tg_error p)]] else []) @
            [El ''button''
               [At ''className'' (lit ''btn btn-primary''),
                Flag ''disabled'' (tg_loading p \<or> \<not> isValidTomanAmount (nm_of N) (tg_amount p))]
               [Txt (if tg_loading p then t ''create.creating'' else t ''create.create'')]])]]"

definition telegram_view_of ::
  "js_numbers \<Rightarrow> messages \<Rightarrow> telegram_create \<Rightarrow> telegram_click node list" where
  "telegram_view_of N t p =
     (case tg_result p of None \<Rightarrow> telegram_form_view N t p | Some r \<Rightarrow> telegram_result t r)"

subsection \<open>The public pages\<close>

datatype public_click = Bk_pay | Bk_amount | Bk_reference

text \<open>The marks of the brand take the size of a word and the language as parameters.\<close>

definition public_notice ::
  "bool \<Rightarrow> ustr \<Rightarrow> 'e node list" where
  "public_notice failed m =
     [El ''main'' [At ''className'' (lit ''shell store-page'')]
        [El ''p'' [At ''className'' (lit (if failed then ''field-error'' else ''muted''))] [Txt m]]]"

definition store_body_view ::
  "js_numbers \<Rightarrow> messages \<Rightarrow> (nat \<Rightarrow> ustr) \<Rightarrow> ustr \<Rightarrow> store_info \<Rightarrow> ustr option \<Rightarrow> store_page \<Rightarrow> public_click node list" where
  "store_body_view N t wordSize locale d alert p =
     [El ''main'' [At ''className'' (lit ''shell store-page'')]
        ([El ''div'' [At ''className'' (lit ''store-hero'')]
            ((if (si_logo d) \<noteq> [] then
                [El ''img'' [At ''src'' (si_logo d), At ''alt'' ([]), At ''className'' (lit ''store-logo'')] []]
              else (brand_mark wordSize ''mark'' ''color'' locale [] 56)) @
             [El ''h1'' [] [Txt (si_name d)]] @
             (if (si_description d) \<noteq> [] then
                [El ''p'' [At ''className'' (lit ''muted'')] [Txt (si_description d)]] else []) @
             [El ''p'' [At ''className'' (lit ''store-pay-label'')] [Txt (t ''store.payThisBusiness'')]]),
          El ''form'' [At ''className'' (lit ''stack-form''), On ''onSubmit'' Bk_pay]
            ([El ''label'' []
                [Txt (t ''create.amount''),
                 El ''input''
                   [At ''inputMode'' (lit ''numeric''), At ''value'' (sp_amount p), On ''onChange'' Bk_amount,
                    At ''placeholder'' (lit ''3,800,000''), Flag ''autoFocus'' True] []],
              El ''label'' []
                [Txt (t ''store.optionalReference''),
                 El ''input''
                   [At ''value'' (sp_reference p), On ''onChange'' Bk_reference,
                    At ''placeholder'' (t ''store.referencePlaceholder'')] []]] @
             (if alert \<noteq> None then
                [El ''p'' [At ''className'' (lit ''field-error''), At ''role'' (lit ''alert'')]
                   [Txt (given alert)]] else []) @
             [El ''button''
                [At ''className'' (lit ''btn-primary''),
                 At ''type'' (lit ''submit''),
                 Flag ''disabled'' (sp_loading p \<or> \<not> isValidTomanAmount (nm_of N) (sp_amount p))]
                [Txt (t ''store.continuePay'')]])] @
         (if (si_support d) \<noteq> [] then
            [El ''p'' [At ''className'' (lit ''muted support-line'')] [Txt (si_support d)]] else []) @
         [El ''p'' [At ''className'' (lit ''powered muted'')]
            ((brand_mark wordSize ''mark'' ''color'' locale [] 18) @ [Txt (lit '' ''), Txt (t ''brand'')])])]"

definition store_page_view ::
  "js_numbers \<Rightarrow> messages \<Rightarrow> (nat \<Rightarrow> ustr) \<Rightarrow> ustr \<Rightarrow> store_page \<Rightarrow> public_click node list" where
  "store_page_view N t wordSize locale p =
     (case store_view_of p of
        Store_missing \<Rightarrow> public_notice True (t ''common.error'')
      | Store_loading \<Rightarrow> public_notice False (t ''common.loading'')
      | Store_form d alert \<Rightarrow> store_body_view N t wordSize locale d alert p)"

definition link_body_view ::
  "js_numbers \<Rightarrow> messages \<Rightarrow> (nat \<Rightarrow> ustr) \<Rightarrow> ustr \<Rightarrow> link_info \<Rightarrow> link_page \<Rightarrow> public_click node list" where
  "link_body_view N t wordSize locale d p =
     [El ''main'' [At ''className'' (lit ''shell store-page'')]
        [El ''div'' [At ''className'' (lit ''store-hero'')]
           ((if (li_logo d) \<noteq> [] then
               [El ''img'' [At ''src'' (li_logo d), At ''alt'' ([]), At ''className'' (lit ''store-logo'')] []]
             else (brand_mark wordSize ''mark'' ''color'' locale [] 56)) @
            [El ''p'' [At ''className'' (lit ''muted'')] [Txt (li_store_name d)],
             El ''h1'' [] [Txt (or_text (li_title d) (t ''links.title''))]] @
            (if (li_description d) \<noteq> [] then
               [El ''p'' [At ''className'' (lit ''muted'')] [Txt (li_description d)]] else [])),
         El ''form'' [At ''className'' (lit ''stack-form''), On ''onSubmit'' Bk_pay]
           ((if li_mode d = lit ''custom_amount'' then
               [El ''label'' []
                  [Txt (t ''create.amount''),
                   El ''input''
                     [At ''inputMode'' (lit ''numeric''), At ''value'' (lp_amount p),
                      On ''onChange'' Bk_amount, Flag ''autoFocus'' True] []]]
             else [El ''p'' [At ''className'' (lit ''amount-display'')]
                     [Txt (formatTomanInput (nm_of N) (nm_text N (li_amount d))), Txt (lit '' ''),
                      Txt (t ''checkout.toman'')]]) @
            (if lp_error p \<noteq> [] \<and> lp_error p \<noteq> not_found then
               [El ''p'' [At ''className'' (lit ''field-error''), At ''role'' (lit ''alert'')]
                  [Txt (lp_error p)]] else []) @
            [El ''button''
               [At ''className'' (lit ''btn-primary''), At ''type'' (lit ''submit''),
                Flag ''disabled'' (link_disabled N p)] [Txt (t ''store.continuePay'')]])]]"

definition link_page_view ::
  "js_numbers \<Rightarrow> messages \<Rightarrow> (nat \<Rightarrow> ustr) \<Rightarrow> ustr \<Rightarrow> link_page \<Rightarrow> public_click node list" where
  "link_page_view N t wordSize locale p =
     (case lp_info p of
        None \<Rightarrow> if lp_error p = not_found then public_notice True (t ''common.error'') else public_notice False (t ''common.loading'')
      | Some d \<Rightarrow> link_body_view N t wordSize locale d p)"

subsection \<open>Wallets\<close>

datatype wallet_click =
    Wk_form
  | Wk_save
  | Wk_back
  | Wk_open ustr
  | Wk_copy ustr
  | Wk_default ustr
  | Wk_ask_archive ustr
  | Wk_archive
  | Wk_cancel

text \<open>The form is read as a whole when it is submitted; its fields raise nothing.\<close>

definition wallet_form_view ::
  "messages \<Rightarrow> wallets_page \<Rightarrow> wallet_click node list" where
  "wallet_form_view t p =
     [El ''form'' [At ''className'' (lit ''card-panel''), On ''onSubmit'' Wk_form]
        ([El ''div'' [At ''className'' (lit ''field'')]
            [El ''label'' [At ''htmlFor'' (lit ''network'')] [Txt (t ''wallets.network'')],
             El ''select''
               [At ''id'' (lit ''network''), At ''name'' (lit ''network''), At ''defaultValue'' (lit ''tron'')]
               [El ''option'' [At ''value'' (lit ''tron'')] [Txt (t ''wallets.tron'')],
                El ''option'' [At ''value'' (lit ''bsc'')] [Txt (t ''wallets.bsc'')]]],
          El ''div'' [At ''className'' (lit ''field'')]
            [El ''label'' [At ''htmlFor'' (lit ''address'')] [Txt (t ''wallets.address'')],
             El ''input''
               [At ''id'' (lit ''address''), At ''name'' (lit ''address''), Flag ''required'' True,
                At ''placeholder'' (lit ''T'' @ [8230] @ lit '' or 0x'' @ [8230]),
                At ''className'' (lit ''mono-ltr'')] []],
          El ''div'' [At ''className'' (lit ''field'')]
            [El ''label'' [At ''htmlFor'' (lit ''label'')] [Txt (t ''wallets.label'')],
             El ''input''
               [At ''id'' (lit ''label''), At ''name'' (lit ''label''), At ''placeholder'' (lit ''Instagram'')]
               []]] @
         (if default_box_shown p then
            [El ''label''
               [Style
                  [(''display'', lit ''flex''), (''alignItems'', lit ''center''),
                   (''gap'', lit ''var(--space-2)''), (''marginBottom'', lit ''var(--space-3)'')]]
               [El ''input''
                  [At ''type'' (lit ''checkbox''), At ''name'' (lit ''is_default''),
                   Flag ''defaultChecked'' True] [],
                El ''span'' [] [Txt (t ''wallets.default'')]]] else []) @
         (if (wp_error p) \<noteq> [] then
            [El ''p'' [At ''className'' (lit ''field-error''), At ''role'' (lit ''alert'')] [Txt (wp_error p)]] else []) @
         [El ''button'' [At ''className'' (lit ''btn btn-primary'')] [Txt (t ''wallets.add'')]])]"

definition wallet_confirm ::
  "runtime \<Rightarrow> messages \<Rightarrow> wallet_draft \<Rightarrow> wallets_page \<Rightarrow> wallet_click node list" where
  "wallet_confirm rt t d p =
     [El ''div'' [At ''className'' (lit ''card-panel'')]
        ([El ''h2'' [Style [(''margin'', lit ''0''), (''fontSize'', lit ''var(--text-title3)'')]]
            [Txt (t ''wallets.confirmTitle'')],
          El ''div''
            [At ''className'' (lit ''alert alert-warning''), At ''role'' (lit ''alert''),
             Style [(''marginTop'', lit ''var(--space-3)'')]] [Txt (t ''wallets.confirmWarn'')],
          El ''div'' [At ''className'' (lit ''list-group''), Style [(''marginBottom'', lit ''var(--space-4)'')]]
            [El ''div'' [At ''className'' (lit ''list-row''), Style [(''cursor'', lit ''default'')]]
               [El ''div'' [At ''className'' (lit ''list-row-body'')]
                  [El ''div'' [At ''className'' (lit ''list-row-meta'')] [Txt (t ''wallets.network'')],
                   El ''div'' [At ''className'' (lit ''list-row-title'')]
                     [Txt (fst (confirm_shows rt t d))]]],
             El ''div'' [At ''className'' (lit ''list-row''), Style [(''cursor'', lit ''default'')]]
               [El ''div'' [At ''className'' (lit ''list-row-body'')]
                  [El ''div'' [At ''className'' (lit ''list-row-meta'')] [Txt (t ''wallets.address'')],
                   El ''div'' [At ''className'' (lit ''list-row-title mono-ltr short-addr'')]
                     [Txt (snd (confirm_shows rt t d))]]]]] @
         (if (wp_error p) \<noteq> [] then
            [El ''p'' [At ''className'' (lit ''field-error''), At ''role'' (lit ''alert'')] [Txt (wp_error p)]] else []) @
         [El ''div'' [At ''className'' (lit ''cta-stack'')]
            [El ''button''
               [At ''className'' (lit ''btn btn-primary''), Flag ''disabled'' (wp_loading p),
                On ''onClick'' Wk_save]
               [Txt (if wp_loading p then t ''common.loading'' else t ''wallets.save'')],
             El ''button''
               [At ''className'' (lit ''btn btn-secondary''), Flag ''disabled'' (wp_loading p),
                On ''onClick'' Wk_back] [Txt (t ''common.back'')]]])]"

definition wallet_details ::
  "messages \<Rightarrow> wallets_page \<Rightarrow> wallet_row \<Rightarrow> wallet_click node list" where
  "wallet_details t p w =
     [El ''div'' [Style [(''display'', lit ''grid''), (''gap'', lit ''var(--space-2)'')]]
        ([El ''code'' [At ''className'' (lit ''wallet-addr mono-ltr'')] [Txt (wl_address w)]] @
         (if (tokenStandard (wl_network w)) \<noteq> [] then
            [El ''div'' [At ''className'' (lit ''list-row-meta'')]
               [Txt (t ''wallets.tokenStandard''), Txt (lit '': ''), Txt (tokenStandard (wl_network w))]] else []) @
         (if (case wl_active_intents w of None \<Rightarrow> False | Some n \<Rightarrow> 0 < n) then
            [El ''div'' [At ''className'' (lit ''list-row-meta'')]
               [Txt (t ''wallets.activeIntents''), Txt (lit '': ''), Txt (dec (the (wl_active_intents w)))]] else []) @
         [El ''div''
            [Style [(''display'', lit ''flex''), (''flexWrap'', lit ''wrap''), (''gap'', lit ''0.35rem'')]]
            ([El ''button''
                [At ''type'' (lit ''button''),
                 At ''className'' (lit ''btn btn-tertiary''),
                 Style [(''width'', lit ''auto''), (''minHeight'', lit ''var(--control-height-sm)'')],
                 On ''onClick'' (Wk_copy (wl_address w))] [Txt (t ''wallets.copy'')]] @
             (if given (wl_explorer_url w) \<noteq> [] then
                [El ''a''
                   [At ''className'' (lit ''btn btn-tertiary''),
                    Style [(''width'', lit ''auto''), (''minHeight'', lit ''var(--control-height-sm)'')],
                    At ''href'' (given (wl_explorer_url w)),
                    At ''target'' (lit ''_blank''),
                    At ''rel'' (lit ''noreferrer'')] [Txt (t ''wallets.explorer'')]] else []) @
             (if \<not> wl_is_default w \<and> wl_is_active w then
                [El ''button''
                   [At ''type'' (lit ''button''),
                    At ''className'' (lit ''btn btn-tertiary''),
                    Style [(''width'', lit ''auto''), (''minHeight'', lit ''var(--control-height-sm)'')],
                    Flag ''disabled'' (wp_loading p),
                    On ''onClick'' (Wk_default (wl_id w))] [Txt (t ''wallets.setDefault'')]] else []) @
             (if wl_is_active w then
                [El ''button''
                   [At ''type'' (lit ''button''),
                    At ''className'' (lit ''btn btn-tertiary''),
                    Style [(''width'', lit ''auto''), (''minHeight'', lit ''var(--control-height-sm)'')],
                    Flag ''disabled'' (wp_loading p),
                    On ''onClick'' (Wk_ask_archive (wl_id w))] [Txt (t ''wallets.archive'')]] else []))])]"

definition wallet_item ::
  "runtime \<Rightarrow> messages \<Rightarrow> wallets_page \<Rightarrow> wallet_row \<Rightarrow> wallet_click node list" where
  "wallet_item rt t p w =
     [El ''div''
        [At ''className'' (lit ''list-row''),
         Style [(''cursor'', lit ''default''), (''alignItems'', lit ''flex-start'')]]
        [El ''div'' [At ''className'' (lit ''list-row-body''), Style [(''gap'', lit ''var(--space-2)'')]]
           ([El ''div'' [At ''className'' (lit ''list-row-title'')]
               [Txt (t ''wallets.receiving''),
                Txt (lit '' '' @ [183] @ lit '' ''),
                Txt (networkLabel rt (wl_network w) (t ''wallets.tron'') (t ''wallets.bsc'')),
                Txt (lit '' '' @ [183] @ lit '' USDT''),
                Txt
                  (if wl_is_default w \<and> wl_is_active w then
                     [32, 183, 32] @ t ''wallets.default'' else [])],
             El ''div'' [At ''className'' (lit ''list-row-meta mono-ltr short-addr'')]
               [Txt (shortenAddress (wl_address w))]] @
            (if (wl_label w) \<noteq> [] then
               [El ''div'' [At ''className'' (lit ''list-row-meta'')] [Txt (wl_label w)]] else []) @
            [El ''button''
               [At ''type'' (lit ''button''),
                At ''className'' (lit ''quiet-link''),
                Style
                  [(''background'', lit ''none''), (''border'', lit ''0''), (''textAlign'', lit ''start''),
                   (''padding'', lit ''0'')],
                On ''onClick'' (Wk_open (wl_id w))] [Txt (t ''wallets.details'')]] @
            (if wp_openId p = Some (wl_id w) then wallet_details t p w else []))]]"

text \<open>The wallet the dialog asks about, which may have left the list meanwhile, and its payments.\<close>

definition asked_intents :: "wallets_page \<Rightarrow> nat" where
  "asked_intents p =
     (case wp_archiveId p of None \<Rightarrow> 0
      | Some wid \<Rightarrow> (case find (\<lambda>w. wl_id w = wid) (wp_wallets p) of None \<Rightarrow> 0
          | Some w \<Rightarrow> (case wl_active_intents w of None \<Rightarrow> 0 | Some n \<Rightarrow> n)))"

definition archive_dialog ::
  "messages \<Rightarrow> wallets_page \<Rightarrow> wallet_click node list" where
  "archive_dialog t p =
     alert_dialog (given (wp_archiveId p) \<noteq> []) (t ''wallets.archiveConfirm'')
       ([El ''p'' [Style [(''margin'', lit ''0'')]] [Txt (t ''wallets.archiveConfirmBody'')]] @
        (if 0 < asked_intents p then
           [El ''p'' [Style [(''margin'', lit ''var(--space-2) 0 0'')]]
              [Txt (t ''wallets.activeIntents''), Txt (lit '': ''), Txt (dec (asked_intents p))]] else []))
       (t ''wallets.archive'') (t ''common.cancel'') True Wk_archive Wk_cancel"

definition wallets_view ::
  "runtime \<Rightarrow> messages \<Rightarrow> wallets_page \<Rightarrow> wallet_click node list" where
  "wallets_view rt t p =
     [El ''div'' [At ''className'' (lit ''page-stack'')]
        (back_link t (lit ''/app/settings/getting-paid'') [] @ page_header (t ''wallets.title'') [] [] @
         (case wp_draft p of None \<Rightarrow> wallet_form_view t p | Some d \<Rightarrow> wallet_confirm rt t d p) @
         (if wp_wallets p \<noteq> [] then
            [El ''section'' [At ''className'' (lit ''section'')]
               [El ''div'' [At ''className'' (lit ''list-group'')] (concat (map (wallet_item rt t p) (wp_wallets p)))]]
          else if wp_draft p = None then empty_state (t ''wallets.title'') [] [Txt (t ''wallets.empty'')] else []) @
         archive_dialog t p)]"

subsection \<open>The onboarding\<close>

datatype onboarding_click =
    Jk_name
  | Jk_name_blur
  | Jk_slug
  | Jk_slug_blur
  | Jk_wallet
  | Jk_network
  | Jk_address
  | Jk_back
  | Jk_next

fun onboarding_raises :: "onboarding_click \<Rightarrow> ustr \<Rightarrow> onboarding_event" where
  "onboarding_raises Jk_name s = On_name s"
| "onboarding_raises Jk_name_blur s = On_name_blur"
| "onboarding_raises Jk_slug s = On_slug s"
| "onboarding_raises Jk_slug_blur s = On_slug_blur"
| "onboarding_raises Jk_wallet s = On_wallet"
| "onboarding_raises Jk_network s = On_network s"
| "onboarding_raises Jk_address s = On_address s"
| "onboarding_raises Jk_back s = On_back"
| "onboarding_raises Jk_next s = On_next"

definition onboarding_head ::
  "messages \<Rightarrow> nat \<Rightarrow> onboarding_click node list" where
  "onboarding_head t step =
     [El ''header'' [At ''className'' (lit ''onboarding-head'')]
        [El ''p'' [At ''className'' (lit ''eyebrow'')]
           [Txt
              (js_replace (lit ''{total}'') (dec TOTAL)
                 (js_replace (lit ''{n}'') (dec (step + 1)) (t ''onboarding.stepOf'')))],
         El ''h1'' [] [Txt (t ''onboarding.title'')],
         El ''div'' [At ''className'' (lit ''onboarding-progress''), Flag ''aria-hidden'' True]
           (concat
              (map (\<lambda>i. [El ''span'' [At ''className'' (if i \<le> step then lit ''on'' else [])] []])
                 [0..<TOTAL]))]]"

definition onboarding_business ::
  "messages \<Rightarrow> onboarding_page \<Rightarrow> onboarding_click node list" where
  "onboarding_business t p =
     [El ''section'' [At ''className'' (lit ''stack-form'')]
        [El ''h2'' [] [Txt (t ''onboarding.business'')],
         El ''p'' [At ''className'' (lit ''muted'')] [Txt (t ''onboarding.businessHint'')],
         El ''label'' []
           [Txt (t ''onboarding.storeName''),
            El ''input''
              [At ''value'' (on_displayName p), On ''onChange'' Jk_name, On ''onBlur'' Jk_name_blur,
               At ''autoComplete'' (lit ''organization'')] []],
         El ''label'' []
           ([Txt (t ''onboarding.storeSlug''),
             El ''div'' [At ''className'' (lit ''slug-row'')]
               [El ''span'' [At ''className'' (lit ''muted'')] [Txt (t ''onboarding.storeSlugHint'')],
                El ''input'' [At ''value'' (on_slug p), On ''onChange'' Jk_slug, On ''onBlur'' Jk_slug_blur]
                  []]] @
            (if (on_slugStatus p) \<noteq> [] then
               [El ''span'' [At ''className'' (lit ''field-error'')] [Txt (on_slugStatus p)]] else []))]]"

definition onboarding_wallets ::
  "messages \<Rightarrow> onboarding_data \<Rightarrow> onboarding_page \<Rightarrow> onboarding_click node list" where
  "onboarding_wallets t d p =
     [El ''section'' [At ''className'' (lit ''stack-form'')]
        ([El ''h2'' [] [Txt (t ''onboarding.wallets'')],
          El ''p'' [At ''className'' (lit ''muted'')] [Txt (t ''onboarding.walletsHint'')]] @
         (if 0 < od_wallet_count d then
            [El ''p'' [At ''className'' (lit ''ok'')] [Txt (t ''trust.walletConfigured'')]]
          else [El ''form'' [On ''onSubmit'' Jk_wallet, At ''className'' (lit ''stack-form'')]
                  [El ''label'' []
                     [Txt (t ''onboarding.walletNetwork''),
                      El ''select'' [At ''value'' (on_walletNetwork p), On ''onChange'' Jk_network]
                        ([El ''option'' [At ''value'' (lit ''tron'')] [Txt (t ''onboarding.tronLabel'')]] @
                         (if od_bsc_enabled d then
                            [El ''option'' [At ''value'' (lit ''bsc'')] [Txt (t ''onboarding.bscLabel'')]] else []))],
                   El ''label'' []
                     [Txt (t ''onboarding.walletAddress''),
                      El ''input''
                        [At ''className'' (lit ''mono-ltr''), At ''value'' (on_walletAddress p),
                         On ''onChange'' Jk_address, At ''autoComplete'' (lit ''off'')] []],
                   El ''button''
                     [At ''type'' (lit ''submit''), At ''className'' (lit ''btn btn-secondary''),
                      Flag ''disabled'' (on_loading p)] [Txt (t ''onboarding.addWallet'')]]]))]"

definition onboarding_actions ::
  "messages \<Rightarrow> onboarding_page \<Rightarrow> onboarding_click node list" where
  "onboarding_actions t p =
     [El ''div'' [At ''className'' (lit ''onboarding-actions'')]
        ((if 0 < on_step p then
            [El ''button''
               [At ''type'' (lit ''button''), At ''className'' (lit ''btn-ghost''), On ''onClick'' Jk_back,
                Flag ''disabled'' (on_loading p)] [Txt (t ''onboarding.back'')]]
          else [El ''span'' [] []]) @
         [El ''button''
            [At ''type'' (lit ''button''), At ''className'' (lit ''btn-primary''), On ''onClick'' Jk_next,
             Flag ''disabled'' (on_loading p)]
            [Txt (if on_step p = 1 then t ''onboarding.createPayment'' else t ''onboarding.next'')]])]"

definition onboarding_view ::
  "messages \<Rightarrow> onboarding_page \<Rightarrow> onboarding_click node list" where
  "onboarding_view t p =
     (case on_data p of
        None \<Rightarrow> [El ''p'' [At ''className'' (lit ''muted'')] [Txt (t ''common.loading'')]]
      | Some d \<Rightarrow>
          [El ''div'' [At ''className'' (lit ''page-stack onboarding'')]
             (onboarding_head t (on_step p) @
              (if on_error p \<noteq> [] then
                 [El ''p'' [At ''className'' (lit ''field-error''), At ''role'' (lit ''alert'')] [Txt (on_error p)]] else []) @
              (if on_step p = 0 then onboarding_business t p else []) @
              (if on_step p = 1 then onboarding_wallets t d p else []) @ onboarding_actions t p)])"

subsection \<open>What the pages for an order offer\<close>

lemma create_parts_offer [markup_simps]:
  "offers (created_more t tg wa r c) = [Ok_qr, Ok_copy]"
  "offers (created_view t canShare extra r) = [Ok_copy, Ok_share, Ok_more_share] @ offers extra @ [Ok_view]"
  "offers (create_more t c) = [Ok_quantity, Ok_reference, Ok_expiry, Ok_success]"
  "submits_of (create_more t c) = []"
  by (simp_all add: created_more_def created_view_def create_more_def markup_simps)

lemma create_body_offers:
  "offers (create_body t customerId customerName fromIg c) =
     (if create_disabled c then [] else [Ok_submit]) @ [Ok_amount, Ok_title, Ok_more] @
     (if cr_showMore c then [Ok_quantity, Ok_reference, Ok_expiry, Ok_success] else [])"
  by (simp add: create_body_def can_submit_def lit_def markup_simps)

text \<open>The page takes an event of the seller only where it offers it.\<close>

lemma create_event_offered:
  assumes "create_screen localeNumber t customerId customerName fromIg canShare c = Some ns"
    and "create_do N t origin customer (create_raises taken out k s) c \<noteq> c"
  shows "k \<in> set (offers ns)"
proof (cases "cr_result c")
  case None
  with assms(1) have ns: "ns = (if cr_gate c then [El ''div'' [At ''className'' (lit ''page-stack muted'')] [Txt [8230]]]
      else create_body t customerId customerName fromIg c)" by (simp add: create_screen_def)
  show ?thesis
    using assms(2) None unfolding ns
    by (cases k) (auto simp: create_body_offers create_form_def create_options_def create_share_def create_copy_def
        create_view_order_def split: if_splits)
next
  case (Some r)
  have basic: "{Ok_copy, Ok_share, Ok_more_share, Ok_view} \<subseteq> set (offers ns)"
      "cr_showMoreShare c \<Longrightarrow> Ok_qr \<in> set (offers ns)"
    using assms(1) Some by (auto simp: create_screen_def Let_def markup_simps split: if_splits option.splits)
  then show ?thesis
    using assms(2) Some by (cases k) (auto simp: create_form_def create_options_def split: if_splits)
qed

text \<open>The page of a created order shows the amount that was asked for, in every history.\<close>

lemma created_amount_shown:
  assumes "cr_result (fold (create_do N t origin customer) es new_create) = Some r"
    and "create_screen localeNumber t customerId customerName fromIg canShare
           (fold (create_do N t origin customer) es new_create) = Some ns"
  shows "\<exists>n. asked_amount (last (cr_requests (fold (create_do N t origin customer) es new_create))) = JNum (dec n) \<and>
      formatUsdtFromBaseUnits (int n) \<in> set (leaves_of ns)"
proof -
  let ?c = "fold (create_do N t origin customer) es new_create"
  have "create_inv ?c" using creating.run_keeps [OF create_inv_new, of es N t origin customer] by (simp add: list_all_iff)
  then obtain n where n: "ct_amount r = Some n" "0 < n" "asked_amount (last (cr_requests ?c)) = JNum (dec n)"
    using assms(1) by (auto simp: create_inv_def asked_for_def)
  obtain extra where "ns = created_view t canShare extra r"
    using assms by (auto simp: create_screen_def Let_def split: if_splits option.splits)
  then have "formatUsdtFromBaseUnits (int n) \<in> set (leaves_of ns)"
    using n by (simp add: created_view_def markup_simps)
  then show ?thesis using n(3) by blast
qed

text \<open>The code to scan, and every copy, is the address of the order's page.\<close>

lemma created_qr:
  "attrs_of ''QRCodeSVG'' ''value'' (created_more t tg wa r c) = (if cr_showQR c then [ct_checkout_url r] else [])"
  by (simp add: created_more_def markup_simps)

lemma share_links_safe: "list_all safe_node (created_more t tg wa r c)"
  by (simp add: created_more_def lit_def)

lemma links_offers:
  "offers (links_view N t p) = (if lk_loading p then [] else [Nk_create]) @
     [Nk_title, Nk_mode (lit ''fixed''), Nk_mode (lit ''custom_amount'')] @
     (if lk_mode p = lit ''fixed'' then [Nk_amount] else []) @ map Nk_copy (lk_links p)"
proof -
  have row: "offers (link_row N t l) = [Nk_copy l]" for l by (simp add: link_row_def markup_simps)
  have rows: "concat (map (\<lambda>l. [Nk_copy l]) ls) = map Nk_copy ls" for ls by (induction ls) simp_all
  have form: "offers (links_form t p) = (if lk_loading p then [] else [Nk_create]) @
      [Nk_title, Nk_mode (lit ''fixed''), Nk_mode (lit ''custom_amount'')] @ (if lk_mode p = lit ''fixed'' then [Nk_amount] else [])"
    by (simp add: links_form_def can_submit_def lit_def markup_simps)
  show ?thesis by (simp add: links_view_def form row rows markup_simps o_def)
qed

text \<open>A link without an amount is shown as one whose amount the buyer chooses; a copy hands out its public
  address.\<close>

lemma links_event_offered:
  assumes "links_do N t (links_raises taken k s) p \<noteq> p" "k \<notin> range Nk_mode" "k \<notin> range Nk_copy"
  shows "k \<in> set (offers (links_view N t p))"
  using assms by (cases k) (auto simp: links_offers split: if_splits)

subsection \<open>What the pages for a buyer offer\<close>

lemma telegram_offers:
  "offers (telegram_view_of N t p) =
     (case tg_result p of
        None \<Rightarrow> (if tg_loading p \<or> \<not> isValidTomanAmount (nm_of N) (tg_amount p) then [] else [Vk_submit]) @ [Vk_amount, Vk_title]
      | Some r \<Rightarrow> [Vk_share, Vk_copy (tc_telegram_url r), Vk_copy (tc_checkout_url r)])"
  by (simp add: telegram_view_of_def telegram_form_view_def telegram_result_def can_submit_def lit_def markup_simps
      split: option.split)

lemma store_page_offers:
  "offers (store_page_view N t wordSize locale p) =
     (if sp_store p = None then []
      else (if sp_loading p \<or> \<not> isValidTomanAmount (nm_of N) (sp_amount p) then [] else [Bk_pay]) @ [Bk_amount, Bk_reference])"
  by (auto simp: store_page_view_def store_view_of_def public_notice_def store_body_view_def can_submit_def lit_def
      markup_simps split: option.split)

lemma link_page_offers:
  "offers (link_page_view N t wordSize locale p) =
     (case lp_info p of None \<Rightarrow> []
      | Some d \<Rightarrow> (if link_disabled N p then [] else [Bk_pay]) @ (if li_mode d = lit ''custom_amount'' then [Bk_amount] else []))"
  by (auto simp: link_page_view_def public_notice_def link_body_view_def can_submit_def lit_def markup_simps
      split: option.split)

text \<open>A payment is started exactly where the page offers it, for the store and for the link.\<close>

lemma store_pays_offered:
  "Bk_pay \<in> set (offers (store_page_view N t wordSize locale p)) \<longleftrightarrow> store_do N Sp_pay p \<noteq> p"
proof -
  have "store_pay N p \<noteq> p" if "isValidTomanAmount (nm_of N) (sp_amount p)" "sp_store p = Some d" for d
  proof -
    have "length (sp_requests (store_pay N p)) = Suc (length (sp_requests p))" using that by (simp add: store_pay_def)
    then show ?thesis by (metis n_not_Suc_n)
  qed
  then show ?thesis by (auto simp: store_page_offers store_pay_def)
qed

lemma link_starts_offered:
  "link_do N Lp_submit p \<noteq> p \<Longrightarrow> Bk_pay \<in> set (offers (link_page_view N t wordSize locale p))"
  by (auto simp: link_page_offers link_disabled_def link_submit_def split: option.splits if_splits)

text \<open>A fixed link shows its amount and offers no field for another.\<close>

lemma fixed_link_shows_amount:
  assumes "lp_info p = Some d" "li_mode d = lit ''fixed''"
  shows "Bk_amount \<notin> set (offers (link_page_view N t wordSize locale p))"
    and "formatTomanInput (nm_of N) (nm_text N (li_amount d)) \<in> set (leaves_of (link_page_view N t wordSize locale p))"
  using assms by (simp_all add: link_page_offers link_page_view_def link_body_view_def lit_def markup_simps)

subsection \<open>What the wallets offer\<close>

lemma wallet_parts_offer [markup_simps]:
  "offers (wallet_form_view t p) = [Wk_form]"
  "offers (wallet_confirm rt t d p) = (if wp_loading p then [] else [Wk_save, Wk_back])"
  "offers (wallet_details t p w) = [Wk_copy (wl_address w)] @
     (if \<not> wl_is_default w \<and> wl_is_active w \<and> \<not> wp_loading p then [Wk_default (wl_id w)] else []) @
     (if wl_is_active w \<and> \<not> wp_loading p then [Wk_ask_archive (wl_id w)] else [])"
  "offers (archive_dialog t p) = (if given (wp_archiveId p) \<noteq> [] then [Wk_cancel, Wk_archive, Wk_cancel] else [])"
  by (auto simp: wallet_form_view_def wallet_confirm_def wallet_details_def archive_dialog_def can_submit_def lit_def
      markup_simps)

lemma wallet_item_offers [markup_simps]:
  "offers (wallet_item rt t p w) =
     Wk_open (wl_id w) # (if wp_openId p = Some (wl_id w) then offers (wallet_details t p w) else [])"
  by (simp add: wallet_item_def markup_simps)

lemma wallets_view_offers:
  "set (offers (wallets_view rt t p)) =
     (if wp_draft p = None then {Wk_form} else if wp_loading p then {} else {Wk_save, Wk_back}) \<union>
     (\<Union>w\<in>set (wp_wallets p). set (offers (wallet_item rt t p w))) \<union> set (offers (archive_dialog t p))"
  by (auto simp: wallets_view_def markup_simps simp del: wallet_item_offers wallet_parts_offer(4) split: option.split)

text \<open>The dialog's button is there while its own request is out: so \<open>archive_twice\<close> is two clicks on the
  page.\<close>

lemma archive_offered_while_out:
  "wp_archiveId p = Some wid \<Longrightarrow> wid \<noteq> [] \<Longrightarrow> Wk_archive \<in> set (offers (wallets_view rt t (archive wid p)))"
  by (simp add: wallets_view_def markup_simps archive_def)

text \<open>The seller confirms an address by its ends: of two addresses with the same six first and four last
  characters the screen shows the same.\<close>

lemma confirmed_by_its_ends:
  assumes "dr_network d = dr_network d'" "js_trim (dr_address d) = u @ v @ w" "js_trim (dr_address d') = u @ v' @ w"
    and "length u = 6" "length w = 4" "4 < length v" "4 < length v'"
  shows "wallet_confirm rt t d p = wallet_confirm rt t d' p"
  using assms by (simp add: wallet_confirm_def confirm_shows_def shortenAddress_def Let_def)

subsection \<open>What the onboarding offers\<close>

lemma onboarding_parts_offer [markup_simps]:
  "offers (onboarding_head t step) = []"
  "offers (onboarding_business t p) = [Jk_name, Jk_name_blur, Jk_slug, Jk_slug_blur]"
  "offers (onboarding_wallets t d p) = (if 0 < od_wallet_count d then []
     else (if on_loading p then [] else [Jk_wallet]) @ [Jk_network, Jk_address])"
  "offers (onboarding_actions t p) = (if on_loading p then [] else (if 0 < on_step p then [Jk_back] else []) @ [Jk_next])"
  by (simp_all add: onboarding_head_def onboarding_business_def onboarding_wallets_def onboarding_actions_def
      can_submit_def lit_def markup_simps o_def)

lemma onboarding_offers:
  "offers (onboarding_view t p) =
     (case on_data p of None \<Rightarrow> []
      | Some d \<Rightarrow> (if on_step p = 0 then offers (onboarding_business t p) else []) @
          (if on_step p = 1 then offers (onboarding_wallets t d p) else []) @ offers (onboarding_actions t p))"
  by (simp add: onboarding_view_def markup_simps split: option.split)

lemma onboarding_event_offered:
  "onboarding_do rt t (onboarding_raises k s) p \<noteq> p \<Longrightarrow> k \<in> set (offers (onboarding_view t p))"
  by (cases k; cases "on_data p")
    (auto simp: onboarding_offers onboarding_parts_offer on_first_def wallet_form_def wallet_count_def split: if_splits)

text \<open>The step the page names is one of the two.\<close>

lemma onboarding_marks:
  assumes "step < TOTAL"
  shows "filter (\<lambda>c. c \<noteq> []) (attrs_of ''span'' ''className'' (onboarding_head t step)) = replicate (step + 1) (lit ''on'')"
proof -
  have "[0..<2] = [0, 1::nat]" by (simp add: upt_rec)
  moreover have "step = 0 \<or> step = 1" using assms by (auto simp: TOTAL_def)
  ultimately show ?thesis by (auto simp: onboarding_head_def TOTAL_def lit_def markup_simps)
qed

end
