(* ===== verification/Motion.thy ===== *)
theory Motion
  imports Ui
begin

text \<open>
  The animated wrappers of the public pages, apps/web/src/components/motion, and the small parts those
  pages share: marketing/Section, JsonLd, LegalDraftBanner and landing/LandingPrimaryCta. An element
  \<open>motion.x\<close> belongs to the animation library, which renders its children; the attributes it reads are
  kept as the text between the braces of the source, with the values of the props filled in. \<open>reduce\<close>
  is the preference for reduced motion.
\<close>

subsection \<open>Wrappers\<close>

text \<open>What all wrappers do: a plain element for a reader who wants no motion.\<close>

definition wrapped :: "bool \<Rightarrow> ustr \<Rightarrow> 'e attr list \<Rightarrow> 'e node list \<Rightarrow> 'e node list" where
  "wrapped reduce className moves children =
     (if reduce then [El ''div'' [At ''className'' className] children]
      else [El ''motion.div'' (At ''className'' className # moves) children])"

definition hover_lift :: "bool \<Rightarrow> ustr \<Rightarrow> 'e node list \<Rightarrow> 'e node list" where
  "hover_lift reduce className =
     wrapped reduce className
       [At ''whileHover'' (lit ''y: -4, transition: { duration: 0.2 }''), At ''whileTap'' (lit ''scale: 0.99'')]"

definition motion_ease :: ustr where
  "motion_ease = lit ''ease: [0.16, 1, 0.3, 1]''"

definition reveal :: "bool \<Rightarrow> ustr \<Rightarrow> ustr \<Rightarrow> int \<Rightarrow> 'e node list \<Rightarrow> 'e node list" where
  "reveal reduce className delay y =
     wrapped reduce className
       [At ''initial'' (lit ''opacity: 0, y: '' @ dec_int y), At ''whileInView'' (lit ''opacity: 1, y: 0''),
        At ''viewport'' (lit ''once: true, amount: 0.2, margin: \"0px 0px -8% 0px\"''),
        At ''transition'' (lit ''duration: 0.32, '' @ motion_ease @ lit '', delay: '' @ delay)]"

definition page_fade :: "bool \<Rightarrow> ustr \<Rightarrow> 'e node list \<Rightarrow> 'e node list" where
  "page_fade reduce className =
     wrapped reduce className
       [At ''initial'' (lit ''opacity: 0, y: 8''), At ''animate'' (lit ''opacity: 1, y: 0''),
        At ''transition'' (lit ''duration: 0.24, '' @ motion_ease)]"

datatype direction = From_top | From_bottom | From_left | From_right

definition slide_y :: "direction \<Rightarrow> int" where
  "slide_y d = (if d = From_top then 56 else if d = From_bottom then -56 else 0)"

definition slide_x :: "direction \<Rightarrow> int" where
  "slide_x d = (if d = From_left then 56 else if d = From_right then -56 else 0)"

definition slide_in :: "bool \<Rightarrow> direction \<Rightarrow> ustr \<Rightarrow> ustr \<Rightarrow> bool \<Rightarrow> ustr \<Rightarrow> 'e node list \<Rightarrow> 'e node list" where
  "slide_in reduce d delay duration spring className =
     wrapped reduce className
       [At ''initial'' (lit ''opacity: 0, y: '' @ dec_int (slide_y d) @ lit '', x: '' @ dec_int (slide_x d)),
        At ''whileInView'' (lit ''opacity: 1, y: 0, x: 0''), At ''viewport'' (lit ''once: true, amount: 0.15''),
        At ''transition''
          (if spring then lit ''type: \"spring\", bounce: 0.2, duration: 0.9, delay: '' @ delay
           else lit ''duration: '' @ duration @ lit '', delay: '' @ delay @ lit '', ease: [1, 0, 0, 1]'')]"

definition stagger_root :: "bool \<Rightarrow> ustr \<Rightarrow> 'e node list \<Rightarrow> 'e node list" where
  "stagger_root reduce className =
     wrapped reduce className
       [At ''variants'' (lit ''staggerContainer''), At ''initial'' (lit ''hidden''), At ''whileInView'' (lit ''show''),
        At ''viewport'' (lit ''once: true, amount: 0.12'')]"

definition stagger_item :: "bool \<Rightarrow> ustr \<Rightarrow> 'e node list \<Rightarrow> 'e node list" where
  "stagger_item reduce className = wrapped reduce className [At ''variants'' (lit ''staggerItem'')]"

subsection \<open>Words that appear one by one\<close>

text \<open>\<open>text.split(/(\s+)/)\<close>: words and the white space between them, by turns.\<close>

function word_parts :: "ustr \<Rightarrow> ustr list" where
  "word_parts s =
     (let w = takeWhile (\<lambda>c. \<not> is_ws c) s; r = dropWhile (\<lambda>c. \<not> is_ws c) s
      in if r = [] then [w] else w # takeWhile is_ws r # word_parts (dropWhile is_ws r))"
  by pat_completeness auto
termination
proof (relation "measure length", goal_cases)
  case (2 s w r)
  obtain c t where r: "r = c # t" using 2(3) by (meson neq_Nil_conv)
  with 2 hd_dropWhile [of "\<lambda>c. \<not> is_ws c" s] have "is_ws c" by (metis list.sel(1))
  with r have "length (dropWhile is_ws r) < length r" using length_dropWhile_le [of is_ws t] by simp
  also have "length r \<le> length s" using 2 length_dropWhile_le by simp
  finally show ?case by simp
qed simp

declare word_parts.simps [simp del]

lemma word_parts_text: "concat (word_parts s) = s"
  by (induction s rule: word_parts.induct) (subst word_parts.simps, simp add: Let_def flip: append_assoc)

text \<open>The animation of the i-th part.\<close>

definition blur_moves :: "nat \<Rightarrow> 'e attr list" where
  "blur_moves i =
     [Style [(''display'', lit ''inline-block''), (''whiteSpace'', lit ''pre-wrap'')],
      At ''initial'' (lit ''opacity: 0, filter: \"blur(12px)\", y: 12''),
      At ''animate'' (lit ''opacity: 1, filter: \"blur(0px)\", y: 0''),
      At ''transition'' (lit ''delay: '' @ dec i @ lit '' * 0.06, duration: 0.55, '' @ motion_ease)]"

definition reveal_moves :: "nat \<Rightarrow> 'e attr list" where
  "reveal_moves i =
     [Style [(''display'', lit ''inline-block'')], At ''initial'' (lit ''opacity: 0, y: 14''),
      At ''whileInView'' (lit ''opacity: 1, y: 0''), At ''viewport'' (lit ''once: true, amount: 0.6''),
      At ''transition'' (lit ''delay: '' @ dec i @ lit '' * 0.04, duration: 0.65, ease: [1, 0, 0, 1]'')]"

text \<open>\<open>/^\s+$/\<close>.\<close>

definition all_space :: "ustr \<Rightarrow> bool" where
  "all_space s \<longleftrightarrow> s \<noteq> [] \<and> list_all is_ws s"

definition spread_text :: "(nat \<Rightarrow> 'e attr list) \<Rightarrow> bool \<Rightarrow> ustr \<Rightarrow> ustr \<Rightarrow> 'e node list" where
  "spread_text moves reduce text className =
     [El ''span'' [At ''className'' className]
        (if reduce then [Txt text]
         else map (\<lambda>(i, part). if all_space part then Txt part else El ''motion.span'' (moves i) [Txt part])
           (enumerate 0 (word_parts text)))]"

definition blur_text :: "bool \<Rightarrow> ustr \<Rightarrow> ustr \<Rightarrow> 'e node list" where
  "blur_text = spread_text blur_moves"

definition text_reveal :: "bool \<Rightarrow> ustr \<Rightarrow> ustr \<Rightarrow> 'e node list" where
  "text_reveal = spread_text reveal_moves"

subsection \<open>Borders\<close>

text \<open>A beam that runs once: it is gone when its animation is complete.\<close>

definition border_beam :: "bool \<Rightarrow> bool \<Rightarrow> 'e \<Rightarrow> nat \<Rightarrow> ustr \<Rightarrow> ustr \<Rightarrow> 'e node list" where
  "border_beam reduce finished complete sz duration className =
     (if reduce \<or> finished then []
      else [El ''div'' [At ''className'' (class_names [lit ''lp-border-beam-mask'', className]), At ''aria-hidden'' (lit ''true'')]
        [El ''motion.div''
          [At ''className'' (lit ''lp-border-beam-orb''),
           Style [(''width'', dec sz), (''offsetPath'', lit ''rect(0 auto auto 0 round var(--radius-lg))'')],
           At ''initial'' (lit ''offsetDistance: \"0%\", opacity: 0''),
           At ''whileInView'' (lit ''offsetDistance: \"100%\", opacity: 1''),
           At ''viewport'' (lit ''once: true, amount: 0.4''),
           At ''transition'' (lit ''duration: '' @ duration @ lit '', ease: \"linear\"''),
           On ''onAnimationComplete'' complete] []]])"

definition shine_border :: "ustr \<Rightarrow> 'e node list" where
  "shine_border className =
     [El ''span'' [At ''className'' (class_names [lit ''shine-border'', className]), At ''aria-hidden'' (lit ''true'')] []]"

subsection \<open>Parts of the public pages\<close>

definition landing_primary_cta :: "ustr \<Rightarrow> ustr \<Rightarrow> 'e node list \<Rightarrow> 'e node list" where
  "landing_primary_cta href className children =
     [El ''span'' [At ''className'' (lit ''lp-shine-host'')]
        (shine_border [] @
         [El ''Link'' [At ''className'' (class_names [lit ''btn btn-primary lp-btn-pill'', className]), At ''href'' href] children])]"

definition section_block :: "ustr option \<Rightarrow> 'e node list \<Rightarrow> ustr \<Rightarrow> ustr \<Rightarrow> 'e node list \<Rightarrow> 'e node list" where
  "section_block ident title lead className children =
     [El ''section'' (opt_at ''id'' ident @ [At ''className'' (js_trim (lit ''marketing-section '' @ className))])
        ((if title \<noteq> [] then [El ''h2'' [At ''className'' (lit ''marketing-h2'')] title] else []) @
         (if lead \<noteq> [] then [El ''p'' [At ''className'' (lit ''marketing-lead'')] [Txt lead]] else []) @
         children)]"

text \<open>The text of the script is that of \<open>JSON.stringify\<close>, of which the model keeps the value.\<close>

definition legal_draft_banner :: "bool \<Rightarrow> ustr \<Rightarrow> 'e node list" where
  "legal_draft_banner legalReviewed text =
     (if legalReviewed then []
      else [El ''div'' [At ''className'' (lit ''legal-draft-banner''), At ''role'' (lit ''status'')] [Txt text]])"

subsection \<open>Motion adds nothing\<close>

text \<open>Whatever the preference, a wrapper shows the text of its children and offers what they offer, and a
  text that appears word by word is the text.\<close>

lemma wrapped_same [markup_simps]:
  "page_text (wrapped reduce c moves ns) = page_text ns"
  by (simp add: wrapped_def page_text_def)

lemma wrapped_offers: "handlers moves = [] \<Longrightarrow> \<not> is_disabled moves \<Longrightarrow> offers (wrapped reduce c moves ns) = offers ns"
  by (simp add: wrapped_def markup_simps)

lemma motion_offers [markup_simps]:
  "offers (hover_lift reduce c ns) = offers ns" "offers (reveal reduce c dl y ns) = offers ns"
  "offers (page_fade reduce c ns) = offers ns" "offers (slide_in reduce d dl du sp c ns) = offers ns"
  "offers (stagger_root reduce c ns) = offers ns" "offers (stagger_item reduce c ns) = offers ns"
  by (simp_all add: hover_lift_def reveal_def page_fade_def slide_in_def stagger_root_def stagger_item_def wrapped_offers)

lemma motion_text [markup_simps]:
  "page_text (hover_lift reduce c ns) = page_text ns" "page_text (reveal reduce c dl y ns) = page_text ns"
  "page_text (page_fade reduce c ns) = page_text ns" "page_text (slide_in reduce d dl du sp c ns) = page_text ns"
  "page_text (stagger_root reduce c ns) = page_text ns" "page_text (stagger_item reduce c ns) = page_text ns"
  by (simp_all add: hover_lift_def reveal_def page_fade_def slide_in_def stagger_root_def stagger_item_def wrapped_same)

definition spread_part :: "(nat \<Rightarrow> 'e attr list) \<Rightarrow> nat \<times> ustr \<Rightarrow> 'e node" where
  "spread_part moves x = (if all_space (snd x) then Txt (snd x) else El ''motion.span'' (moves (fst x)) [Txt (snd x)])"

lemma spread_text_parts:
  "spread_text moves reduce text c =
     [El ''span'' [At ''className'' c]
        (if reduce then [Txt text] else map (spread_part moves) (enumerate 0 (word_parts text)))]"
  by (simp add: spread_text_def spread_part_def split_def)

lemma text_of_part: "text_of (spread_part moves x) = snd x"
  by (simp add: spread_part_def)

lemma parts_text: "concat (map (\<lambda>x. text_of (spread_part moves x)) (enumerate n parts)) = concat parts"
  by (simp add: text_of_part)

lemma spread_text_same: "page_text (spread_text moves reduce text c) = text"
proof (cases reduce)
  case False
  then show ?thesis by (simp add: spread_text_parts page_text_def o_def parts_text word_parts_text)
qed (simp add: spread_text_parts page_text_def)

lemma spread_offers:
  assumes "\<And>i. handlers (moves i) = []"
  shows "offers (spread_text moves reduce text c) = []"
proof -
  have "node_offers (spread_part moves x) = []" for x by (simp add: spread_part_def assms)
  then have "offers (map (spread_part moves) xs) = []" for xs by (simp add: offers_def o_def)
  then show ?thesis by (simp add: spread_text_parts markup_simps)
qed

lemma moves_silent: "handlers (blur_moves i) = []" "handlers (reveal_moves i) = []"
  by (simp_all only: blur_moves_def reveal_moves_def handlers.simps)

lemma revealed [markup_simps]:
  "page_text (blur_text reduce text c) = text" "page_text (text_reveal reduce text c) = text"
  "offers (blur_text reduce text c) = []" "offers (text_reveal reduce text c) = []"
  unfolding blur_text_def text_reveal_def
  by (rule spread_text_same, rule spread_text_same, rule spread_offers, rule moves_silent, rule spread_offers, rule moves_silent)

lemma border_silent [markup_simps]:
  "page_text (border_beam reduce finished complete sz dur c) = []" "page_text (shine_border c) = []"
  "offers (border_beam reduce finished complete sz dur c) = (if reduce \<or> finished then [] else [complete])"
  "offers (shine_border c) = []"
  by (simp_all add: border_beam_def shine_border_def markup_simps)

end
