(* ===== verification/Boot.thy ===== *)
theory Boot
  imports Shell
begin

text \<open>
  Before the application runs: the inline script of apps/web/src/app/layout.tsx, which sets the
  language and the colours of the document before React does, and the small components that run once
  on a page: components/marketing/ThemeToggle.tsx, components/TelegramWebAppReady.tsx and
  components/ServiceWorkerRegister.tsx. The lemmas compare the script with the providers of Shell.
\<close>

subsection \<open>\<open>decodeURIComponent\<close>\<close>

definition pct_byte :: "ustr \<Rightarrow> nat option" where
  "pct_byte s =
     (case s of p # a # b # _ \<Rightarrow>
        if p \<noteq> 37 then None
        else (case (hex_val a, hex_val b) of (Some x, Some y) \<Rightarrow> Some (16 * x + y) | _ \<Rightarrow> None)
      | _ \<Rightarrow> None)"

definition utf8_length :: "nat \<Rightarrow> nat option" where
  "utf8_length b =
     (if b < 128 then Some 1 else if b div 32 = 6 then Some 2 else if b div 16 = 14 then Some 3
      else if b div 8 = 30 then Some 4 else None)"

fun continuation_bytes :: "nat \<Rightarrow> ustr \<Rightarrow> nat list option" where
  "continuation_bytes 0 s = Some []"
| "continuation_bytes (Suc n) s =
     (case pct_byte s of None \<Rightarrow> None
      | Some b \<Rightarrow> if b div 64 = 2 then map_option ((#) b) (continuation_bytes n (drop 3 s)) else None)"

text \<open>The code point of a sequence; \<open>None\<close> for a longer form than needed, a surrogate, or a value out
  of range.\<close>

fun utf8_value :: "nat list \<Rightarrow> nat option" where
  "utf8_value [a] = Some a"
| "utf8_value [a, b] =
     (let v = 64 * (a mod 32) + b mod 64 in if 128 \<le> v then Some v else None)"
| "utf8_value [a, b, c] =
     (let v = 4096 * (a mod 16) + 64 * (b mod 64) + c mod 64
      in if 2048 \<le> v \<and> \<not> (55296 \<le> v \<and> v < 57344) then Some v else None)"
| "utf8_value [a, b, c, d] =
     (let v = 262144 * (a mod 8) + 4096 * (b mod 64) + 64 * (c mod 64) + d mod 64
      in if 65536 \<le> v \<and> v < 1114112 then Some v else None)"
| "utf8_value _ = None"

definition point_units :: "nat \<Rightarrow> ustr" where
  "point_units v = (if v < 65536 then [v] else [55296 + (v - 65536) div 1024, 56320 + (v - 65536) mod 1024])"

text \<open>\<open>None\<close> where it throws.\<close>

function decodeURIComponent :: "ustr \<Rightarrow> ustr option" where
  "decodeURIComponent [] = Some []"
| "decodeURIComponent (c # s) =
     (if c \<noteq> 37 then map_option ((#) c) (decodeURIComponent s)
      else (case pct_byte (c # s) of None \<Rightarrow> None
        | Some b \<Rightarrow> (case utf8_length b of None \<Rightarrow> None
            | Some n \<Rightarrow> (case continuation_bytes (n - 1) (drop 2 s) of None \<Rightarrow> None
                | Some bs \<Rightarrow> (case utf8_value (b # bs) of None \<Rightarrow> None
                    | Some v \<Rightarrow> map_option ((@) (point_units v)) (decodeURIComponent (drop (3 * n - 1) s)))))))"
  by pat_completeness auto
termination by (relation "measure length") auto

lemma decode_plain: "37 \<notin> set s \<Longrightarrow> decodeURIComponent s = Some s"
  by (induction s) auto

lemma continuation_numeral [simp]:
  "continuation_bytes (numeral k) s =
     (case pct_byte s of None \<Rightarrow> None
      | Some b \<Rightarrow> if b div 64 = 2 then map_option ((#) b) (continuation_bytes (pred_numeral k) (drop 3 s)) else None)"
  by (simp add: numeral_eq_Suc)

lemma decode_points:
  "decodeURIComponent (lit ''dar%6B'') = Some (lit ''dark'')"
  "decodeURIComponent (lit ''%D9%81'') = Some [1601]"
  "decodeURIComponent (lit ''%F0%9F%98%80'') = Some [55357, 56832]"
  "decodeURIComponent (lit ''%C0%80'') = None"
  "decodeURIComponent (lit ''100%'') = None"
  by (simp_all add: lit_def pct_byte_def hex_val_def utf8_length_def point_units_def Let_def)

subsection \<open>The script\<close>

text \<open>\<open>/(?:^|; )name=([^;]*)/\<close>.\<close>

fun cookie_scan :: "ustr \<Rightarrow> ustr \<Rightarrow> ustr option" where
  "cookie_scan key [] = None"
| "cookie_scan key (c # s) =
     (if starts_with (c # s) ([59, 32] @ key)
      then Some (takeWhile (\<lambda>d. d \<noteq> 59) (drop (length key + 2) (c # s)))
      else cookie_scan key s)"

definition boot_cookie :: "ustr \<Rightarrow> ustr \<Rightarrow> ustr option" where
  "boot_cookie name cookie =
     (let key = name @ [61]
      in if starts_with cookie key then Some (takeWhile (\<lambda>d. d \<noteq> 59) (drop (length key) cookie))
         else cookie_scan key cookie)"

text \<open>What a storage that can be read holds; one that throws is read as the empty text.\<close>

definition boot_stored :: "bool \<Rightarrow> web_browser \<Rightarrow> ustr \<Rightarrow> ustr" where
  "boot_stored readable b key = (if readable then given (wb_storage b key) else [])"

definition boot_decoded :: "ustr \<Rightarrow> ustr \<Rightarrow> web_browser \<Rightarrow> ustr option" where
  "boot_decoded name otherwise b =
     (case boot_cookie name (wb_cookie b) of None \<Rightarrow> Some otherwise | Some v \<Rightarrow> decodeURIComponent v)"

definition script_locale :: "runtime \<Rightarrow> bool \<Rightarrow> web_browser \<Rightarrow> web_locale option" where
  "script_locale rt readable b =
     (case isLocale (Some (boot_stored readable b localeCookie)) of Some l \<Rightarrow> Some l
      | None \<Rightarrow> map_option (\<lambda>loc. case isLocale (Some loc) of Some l \<Rightarrow> l
          | None \<Rightarrow> (let nav = js_lower rt (wb_language b)
              in if starts_with nav (lit ''fa'') \<or> starts_with nav (lit ''per'') then Fa else En))
          (boot_decoded localeCookie [] b))"

definition script_theme :: "bool \<Rightarrow> web_browser \<Rightarrow> theme option" where
  "script_theme readable b =
     map_option (\<lambda>t. if t = lit ''light'' then Theme_light else if t = lit ''dark'' then Theme_dark
         else if wb_prefersDark b then Theme_dark else Theme_light)
       (let s = boot_stored readable b themeCookie
        in if isTheme (Some s) \<noteq> None then Some s else boot_decoded themeCookie (lit ''system'') b)"

text \<open>The document as the server sends it, and after the script, which stops where decoding throws. The
  second part is \<open>data-theme\<close> with \<open>color-scheme\<close>.\<close>

definition server_document :: document_attrs where
  "server_document = \<lparr>da_lang = lit ''en'', da_dir = [], da_locale = None\<rparr>"

definition locale_boot :: "runtime \<Rightarrow> bool \<Rightarrow> web_browser \<Rightarrow> document_attrs \<times> theme option" where
  "locale_boot rt readable b =
     (case script_locale rt readable b of None \<Rightarrow> (server_document, None)
      | Some l \<Rightarrow> (\<lparr>da_lang = locale_name l, da_dir = dirFor l, da_locale = Some (locale_name l)\<rparr>,
          script_theme readable b))"

subsection \<open>The script and the providers agree\<close>

text \<open>\<open>document.cookie\<close> is the cookies joined by a semicolon and a space. A cookie is plain for a name
  if its value, should it have that name, has no percent sign and no equals sign.\<close>

definition tidy_cookie :: "ustr \<Rightarrow> bool" where
  "tidy_cookie c \<longleftrightarrow> 59 \<notin> set c \<and> js_trim c = c"

definition plain_for :: "ustr \<Rightarrow> ustr \<Rightarrow> bool" where
  "plain_for name c \<longleftrightarrow> (starts_with c (name @ [61]) \<longrightarrow>
     37 \<notin> set (drop (length name + 1) c) \<and> 61 \<notin> set (drop (length name + 1) c))"

lemma split_on_none: "c \<notin> set s \<Longrightarrow> split_on c s = [s]"
  by (induction s) auto

lemma split_on_ne: "split_on c s \<noteq> []"
  by (induction s) (auto split: list.splits)

lemma split_on_at: "c \<notin> set s \<Longrightarrow> split_on c (s @ c # r) = s # split_on c r"
  by (induction s) auto

lemma trim_space: "js_trim (32 # s) = js_trim s"
  by (simp add: js_trim_def is_ws_def)

lemma split_space: "map js_trim (split_on 59 (32 # s)) = map js_trim (split_on 59 s)"
  using split_on_ne [of 59 s] by (cases "split_on 59 s") (simp_all add: trim_space)

lemma cookies_split:
  "cs \<noteq> [] \<Longrightarrow> list_all tidy_cookie cs \<Longrightarrow> map js_trim (split_on 59 (join_with (lit ''; '') cs)) = cs"
proof (induction cs rule: induct_list012)
  case (3 x y ys)
  then show ?case by (simp add: tidy_cookie_def split_on_at split_space lit_def del: split_on.simps)
qed (simp_all add: tidy_cookie_def split_on_none)

lemma starts_with_app: "starts_with s k \<longleftrightarrow> (\<exists>r. s = k @ r)"
  by (auto simp: starts_with_def) (metis append_take_drop_id)

text \<open>Scanning passes over a cookie that is not followed by the name.\<close>

lemma scan_over:
  "59 \<notin> set c \<Longrightarrow> cookie_scan key (c @ 59 # 32 # r) =
     (if starts_with r key then Some (takeWhile (\<lambda>d. d \<noteq> 59) (drop (length key) r)) else cookie_scan key r)"
proof (induction c)
  case Nil
  have "\<not> starts_with (32 # r) ([59, 32] @ key)" by (simp add: starts_with_app)
  moreover have "starts_with (59 # 32 # r) ([59, 32] @ key) = starts_with r key" by (simp add: starts_with_app)
  ultimately show ?case by simp
next
  case (Cons d c)
  then have "\<not> starts_with (d # c @ 59 # 32 # r) ([59, 32] @ key)" by (simp add: starts_with_app)
  with Cons show ?case by simp
qed

lemma scan_none: "59 \<notin> set c \<Longrightarrow> cookie_scan key c = None"
proof (induction c)
  case (Cons d c)
  then have "\<not> starts_with (d # c) ([59, 32] @ key)" by (simp add: starts_with_app)
  with Cons show ?case by simp
qed simp


lemma takeWhile_cookie: "59 \<notin> set c \<Longrightarrow> takeWhile (\<lambda>d. d \<noteq> 59) (drop n (c @ 59 # r)) = drop n c"
  if "n \<le> length c"
  using that by (simp add: takeWhile_tail) (metis in_set_dropD takeWhile_eq_all_conv)

text \<open>The cookie the script finds is the one the provider finds.\<close>

definition named_value :: "ustr \<Rightarrow> ustr list \<Rightarrow> ustr option" where
  "named_value name cs = map_option (drop (length name + 1)) (find (\<lambda>c. starts_with c (name @ [61])) cs)"

lemma starts_over:
  assumes "59 \<notin> set c" "59 \<notin> set key"
  shows "starts_with (c @ 59 # r) key = starts_with c key"
proof
  assume "starts_with (c @ 59 # r) key"
  then obtain t where t: "c @ 59 # r = key @ t" by (auto simp: starts_with_app)
  then consider u where "c = key @ u" | u where "key = c @ 59 # u"
    using assms(2) by (auto simp: append_eq_append_conv2 Cons_eq_append_conv)
  then show "starts_with c key" using assms(2) by cases (auto simp: starts_with_app)
qed (auto simp: starts_with_app)

lemma boot_cookie_named:
  assumes "list_all tidy_cookie cs" "59 \<notin> set name"
  shows "boot_cookie name (join_with (lit ''; '') cs) = named_value name cs"
  using assms(1)
proof (induction cs rule: induct_list012)
  case 1
  show ?case by (simp add: boot_cookie_def named_value_def starts_with_app Let_def)
next
  case (2 x)
  then have "59 \<notin> set x" by (simp add: tidy_cookie_def)
  then show ?case
    by (auto simp: boot_cookie_def named_value_def scan_none Let_def takeWhile_eq_all_conv dest: in_set_dropD)
next
  case (3 x y ys)
  let ?r = "join_with (lit ''; '') (y # ys)"
  have x: "59 \<notin> set x" and key: "59 \<notin> set (name @ [61])" using 3 assms(2) by (simp_all add: tidy_cookie_def)
  have "length name + 1 \<le> length x" if "starts_with x (name @ [61])" using that by (auto simp: starts_with_app)
  then show ?case
    using 3 x starts_over [OF x key, of "32 # ?r"] takeWhile_cookie [OF _ x, of "length name + 1" "32 # ?r"]
    by (auto simp: boot_cookie_def named_value_def Let_def scan_over lit_def)
qed

lemma cookie_value_named:
  assumes "list_all tidy_cookie cs" "list_all (plain_for name) cs" "61 \<notin> set name"
  shows "cookie_value name (join_with (lit ''; '') cs) = named_value name cs"
proof (cases "cs = []")
  case True
  then show ?thesis by (simp add: cookie_value_def named_value_def starts_with_app js_trim_def)
next
  case False
  show ?thesis
  proof (cases "find (\<lambda>c. starts_with c (name @ [61])) cs")
    case None
    with False assms(1) show ?thesis by (simp add: cookie_value_def named_value_def cookies_split)
  next
    case (Some c)
    then have c: "c \<in> set cs" "starts_with c (name @ [61])" by (auto simp: find_Some_iff)
    then obtain v where v: "c = name @ 61 # v" by (auto simp: starts_with_app)
    have "61 \<notin> set v" using assms(2) c v by (auto simp: list_all_iff plain_for_def)
    with v assms(3) have "split_on 61 c = [name, v]" by (simp add: split_on_at split_on_none)
    with Some v False assms(1) show ?thesis by (simp add: cookie_value_def named_value_def cookies_split)
  qed
qed

lemma named_plain:
  "list_all (plain_for name) cs \<Longrightarrow> named_value name cs = Some v \<Longrightarrow> decodeURIComponent v = Some v"
  by (auto simp: named_value_def find_Some_iff list_all_iff plain_for_def intro!: decode_plain)

lemma boot_decoded_plain:
  assumes "wb_cookie b = join_with (lit ''; '') cs" "list_all tidy_cookie cs" "list_all (plain_for name) cs"
    and "59 \<notin> set name" "61 \<notin> set name"
  shows "boot_decoded name d b = Some (case cookie_value name (wb_cookie b) of None \<Rightarrow> d | Some v \<Rightarrow> v)"
  using assms named_plain [OF assms(3)]
  by (auto simp: boot_decoded_def boot_cookie_named cookie_value_named split: option.splits)


definition plain_cookies :: "ustr list \<Rightarrow> bool" where
  "plain_cookies cs \<longleftrightarrow> list_all tidy_cookie cs \<and> list_all (plain_for localeCookie) cs \<and> list_all (plain_for themeCookie) cs"

lemma isLocale_empty [simp]: "isLocale (Some []) = None" "isLocale None = None"
  by (simp_all add: isLocale_def locales_def)

lemma isTheme_empty [simp]: "isTheme (Some []) = None" "isTheme None = None"
  by (simp_all add: isTheme_def themes_def)

lemma isTheme_Some: "isTheme (Some s) = Some t \<longleftrightarrow> s = theme_name t"
  by (cases t) (auto simp: isTheme_def themes_def)

lemma cookie_names: "59 \<notin> set localeCookie" "61 \<notin> set localeCookie" "59 \<notin> set themeCookie" "61 \<notin> set themeCookie"
  by (simp_all add: localeCookie_def themeCookie_def lit_def)

lemma script_locale_agrees:
  assumes "wb_cookie b = join_with (lit ''; '') cs" "plain_cookies cs"
  shows "script_locale rt True b = Some (detectInitialLocale rt (Some b))"
proof -
  have "boot_decoded localeCookie [] b = Some (given (cookie_value localeCookie (wb_cookie b)))"
    using boot_decoded_plain [OF assms(1), of localeCookie "[]"] assms(2)
    by (simp add: plain_cookies_def cookie_names split: option.splits)
  then show ?thesis
    by (cases "wb_storage b localeCookie"; cases "cookie_value localeCookie (wb_cookie b)")
      (auto simp: script_locale_def detectInitialLocale_def boot_stored_def defaultLocale_def Let_def split: option.splits)
qed

lemma script_theme_agrees:
  assumes "wb_cookie b = join_with (lit ''; '') cs" "plain_cookies cs"
  shows "script_theme True b = Some (resolvedTheme (detectInitialTheme (Some b)) (Some b))"
proof -
  have dec: "boot_decoded themeCookie (lit ''system'') b =
      Some (case cookie_value themeCookie (wb_cookie b) of None \<Rightarrow> lit ''system'' | Some v \<Rightarrow> v)"
    using boot_decoded_plain [OF assms(1), of themeCookie "lit ''system''"] assms(2)
    by (simp add: plain_cookies_def cookie_names)
  have paint: "(if t = lit ''light'' then Theme_light else if t = lit ''dark'' then Theme_dark
         else if wb_prefersDark b then Theme_dark else Theme_light) =
      resolvedTheme (case isTheme (Some t) of Some u \<Rightarrow> u | None \<Rightarrow> Theme_system) (Some b)" for t
    by (auto simp: resolvedTheme_def isTheme_def themes_def)
  show ?thesis
  proof (cases "isTheme (wb_storage b themeCookie)")
    case None
    then have "isTheme (Some (boot_stored True b themeCookie)) = None"
      by (cases "wb_storage b themeCookie") (simp_all add: boot_stored_def)
    with None show ?thesis
      by (cases "cookie_value themeCookie (wb_cookie b)")
        (simp_all add: script_theme_def dec paint detectInitialTheme_def Let_def, simp add: isTheme_def themes_def)
  next
    case (Some t)
    then have "boot_stored True b themeCookie = theme_name t"
      by (cases "wb_storage b themeCookie") (simp_all add: boot_stored_def isTheme_Some)
    with Some show ?thesis by (simp add: script_theme_def paint detectInitialTheme_def Let_def)
  qed
qed

text \<open>No flash: where the storage can be read and the cookies are plain, the language, the direction and
  the colours that the script paints are the ones the providers set, whatever was stored before.\<close>

lemma painted_is_provided:
  fixes rt :: runtime and b :: web_browser and p :: theme_provider
  assumes "wb_cookie b = join_with (lit ''; '') cs" "plain_cookies cs"
  defines "doc \<equiv> fst (locale_boot rt True b)"
  shows "lo_document (provider_document (provider_mount rt (new_provider doc b))) = doc"
    and "snd (locale_boot rt True b) = th_applied (theme_effect (theme_mount (p\<lparr>th_browser := b\<rparr>)))"
proof -
  let ?l = "detectInitialLocale rt (Some b)"
  have doc: "doc = \<lparr>da_lang = locale_name ?l, da_dir = dirFor ?l, da_locale = Some (locale_name ?l)\<rparr>"
    using script_locale_agrees [OF assms(1,2)] by (simp add: doc_def locale_boot_def)
  have "bootLocale rt doc b = ?l"
    by (cases "isLocale (wb_storage b localeCookie)") (simp_all add: bootLocale_def doc detectInitialLocale_def)
  then show "lo_document (provider_document (provider_mount rt (new_provider doc b))) = doc"
    by (simp add: provider_document_def provider_mount_def new_provider_def Let_def doc)
  show "snd (locale_boot rt True b) = th_applied (theme_effect (theme_mount (p\<lparr>th_browser := b\<rparr>)))"
    using script_locale_agrees [OF assms(1,2), of rt] script_theme_agrees [OF assms(1,2)]
    by (simp add: locale_boot_def theme_effect_def theme_mount_def Let_def applyTheme_def resolvedTheme_def
        theme_persisted_def persistTheme_def)
qed

text \<open>A value with a percent sign is decoded by the script only, so that the page changes its colours.\<close>

lemma encoded_cookie_flashes:
  assumes "wb_storage b = Map.empty" "wb_cookie b = lit ''pooli_theme=dar%6B''" "\<not> wb_prefersDark b"
  shows "script_theme True b = Some Theme_dark" "detectInitialTheme (Some b) = Theme_system"
    "resolvedTheme (detectInitialTheme (Some b)) (Some b) = Theme_light"
proof -
  have b: "boot_cookie themeCookie (wb_cookie b) = Some (lit ''dar%6B'')"
    using assms(2) boot_cookie_named [of "[lit ''pooli_theme=dar%6B'']" themeCookie]
    by (simp add: named_value_def tidy_cookie_def themeCookie_def starts_with_def lit_def js_trim_def is_ws_def)
  have c: "cookie_value themeCookie (wb_cookie b) = Some (lit ''dar%6B'')"
    using assms(2) by (simp add: cookie_value_def themeCookie_def starts_with_def lit_def js_trim_def is_ws_def)
  show "script_theme True b = Some Theme_dark"
    using assms(1) b by (simp add: script_theme_def boot_stored_def boot_decoded_def decode_points Let_def)
  show t: "detectInitialTheme (Some b) = Theme_system"
    using assms(1) c by (simp add: detectInitialTheme_def isTheme_def themes_def)
  show "resolvedTheme (detectInitialTheme (Some b)) (Some b) = Theme_light"
    using assms(3) by (simp add: t resolvedTheme_def)
qed

subsection \<open>The switch of the theme\<close>

definition theme_cycle :: "theme list" where
  "theme_cycle = [Theme_light, Theme_dark, Theme_system]"

text \<open>\<open>indexOf\<close>.\<close>

fun index_of :: "'a \<Rightarrow> 'a list \<Rightarrow> int" where
  "index_of x [] = -1"
| "index_of x (y # ys) = (if x = y then 0 else let i = index_of x ys in if i < 0 then -1 else i + 1)"

definition next_theme :: "theme \<Rightarrow> theme" where
  "next_theme t = theme_cycle ! nat ((index_of t theme_cycle + 1) mod int (length theme_cycle))"

definition theme_label :: "messages \<Rightarrow> theme \<Rightarrow> ustr" where
  "theme_label t th = (if th = Theme_light then t ''marketing.nav.themeLight''
     else if th = Theme_dark then t ''marketing.nav.themeDark'' else t ''marketing.nav.themeSystem'')"

definition theme_toggle :: "theme_provider \<Rightarrow> theme_provider" where
  "theme_toggle p = setTheme (next_theme (th_theme p)) p"

lemma next_theme_simps [simp]:
  "next_theme Theme_light = Theme_dark" "next_theme Theme_dark = Theme_system" "next_theme Theme_system = Theme_light"
  by (simp_all add: next_theme_def theme_cycle_def Let_def)

text \<open>Three clicks reach every theme and come back.\<close>

lemma theme_toggle_cycles:
  "th_theme (theme_toggle (theme_toggle (theme_toggle p))) = th_theme p"
  "{th_theme p, th_theme (theme_toggle p), th_theme (theme_toggle (theme_toggle p))} = {Theme_light, Theme_dark, Theme_system}"
  by (cases "th_theme p"; auto simp: theme_toggle_def setTheme_def)+

text \<open>What the switch shows after a click is what the next visit starts with.\<close>

lemma toggled_theme_kept: "detectInitialTheme (Some (th_browser (theme_toggle p))) = th_theme (theme_toggle p)"
  by (simp add: theme_toggle_def setTheme_def theme_persisted_def persistTheme_def detectInitialTheme_def)

subsection \<open>Telegram and the service worker\<close>

text \<open>The page inside Telegram: the bridge, once its script has run, with the colour it reports, and how
  often \<open>ready\<close> and \<open>expand\<close> were called.\<close>

record telegram_page =
  tg_bridge :: "ustr option"
  tg_scripts :: nat
  tg_ready :: nat
  tg_expand :: nat
  tg_bg :: "ustr option"

definition bootTelegram :: "telegram_page \<Rightarrow> telegram_page" where
  "bootTelegram p =
     (case tg_bridge p of None \<Rightarrow> p
      | Some bg \<Rightarrow>
          (let p1 = p\<lparr>tg_ready := tg_ready p + 1, tg_expand := tg_expand p + 1\<rparr>
           in if bg \<noteq> [] then p1\<lparr>tg_bg := Some bg\<rparr> else p1))"

definition telegram_mount :: "telegram_page \<Rightarrow> telegram_page" where
  "telegram_mount p =
     (if tg_bridge p \<noteq> None then bootTelegram p
      else if tg_scripts p \<noteq> 0 then p
      else p\<lparr>tg_scripts := tg_scripts p + 1\<rparr>)"

text \<open>The inserted script has run, which may have made the bridge.\<close>

definition telegram_onload :: "ustr option \<Rightarrow> telegram_page \<Rightarrow> telegram_page" where
  "telegram_onload bridge p = bootTelegram (p\<lparr>tg_bridge := bridge\<rparr>)"

text \<open>However often the component is mounted while the script loads, it is inserted once, and the bridge
  is told once that the page is ready.\<close>

lemma telegram_once:
  assumes "tg_bridge p = None" "tg_scripts p = 0" "tg_ready p = 0"
  shows "tg_scripts ((telegram_mount ^^ Suc n) p) = 1"
    and "tg_ready (telegram_onload (Some bg) ((telegram_mount ^^ Suc n) p)) = 1"
proof -
  have "(telegram_mount ^^ Suc n) p = p\<lparr>tg_scripts := 1\<rparr>"
    using assms by (induction n) (simp_all add: telegram_mount_def)
  then show "tg_scripts ((telegram_mount ^^ Suc n) p) = 1"
    and "tg_ready (telegram_onload (Some bg) ((telegram_mount ^^ Suc n) p)) = 1"
    using assms by (simp_all add: telegram_onload_def bootTelegram_def Let_def)
qed

text \<open>The worker registered, if the browser has workers; a refusal is dropped.\<close>

definition register_worker :: "bool \<Rightarrow> ustr option" where
  "register_worker supported = (if supported then Some (lit ''/sw.js'') else None)"

end
