(* ===== verification/LinkPreview.thy ===== *)
theory LinkPreview
  imports Site
begin

text \<open>
  What is said of a page before it is opened: the previews of payment links, apps/web/src/app/p/[slug]/page.tsx
  and app/t/p/[slug]/page.tsx, the metadata of app/layout.tsx, and what the layouts of the private
  routes add. The framework merges the metadata of a page into that of the layouts above it, entry by
  entry, and puts the page's title into the template of the root layout.
\<close>

subsection \<open>The preview of a payment link\<close>

text \<open>An entry that is missing is the empty text; \<open>brand\<close> is there in the type of the first route only.\<close>

record link_preview =
  lp_store_name :: ustr
  lp_title :: ustr
  lp_store_logo_url :: ustr
  lp_brand :: ustr

definition preview_url :: "ustr option \<Rightarrow> ustr \<Rightarrow> ustr" where
  "preview_url api slug = or_text (given api) (lit ''http://127.0.0.1:8080'') @ lit ''/api/v1/public/pay/'' @ slug @ lit ''/preview''"

text \<open>\<open>None\<close> where the request throws; its body is \<open>None\<close> where it is no JSON.\<close>

definition fetchPreview :: "(ustr \<Rightarrow> (bool \<times> link_preview option) option) \<Rightarrow> ustr option \<Rightarrow> ustr \<Rightarrow> link_preview option" where
  "fetchPreview fetch api slug =
     (case fetch (preview_url api slug) of None \<Rightarrow> None | Some (ok, body) \<Rightarrow> if \<not> ok then None else body)"

datatype pay_route = Web_link | Telegram_link

fun route_path :: "pay_route \<Rightarrow> ustr" where
  "route_path Web_link = lit ''/p/''"
| "route_path Telegram_link = lit ''/t/p/''"

definition preview_field :: "(link_preview \<Rightarrow> ustr) \<Rightarrow> link_preview option \<Rightarrow> ustr" where
  "preview_field f preview = (case preview of None \<Rightarrow> [] | Some p \<Rightarrow> f p)"

definition preview_store :: "link_preview option \<Rightarrow> ustr" where
  "preview_store preview = or_text (preview_field lp_store_name preview) (lit ''Pooli'')"

definition preview_title :: "link_preview option \<Rightarrow> ustr" where
  "preview_title preview =
     (if preview_field lp_title preview \<noteq> [] then preview_field lp_title preview @ [32, 183, 32] @ preview_store preview
      else preview_store preview @ [32, 183, 32] @ lit ''Pooli'')"

definition preview_description :: "link_preview option \<Rightarrow> ustr" where
  "preview_description preview = lit ''Checkout with '' @ preview_store preview @ lit '' on Pooli''"

definition preview_site :: "site_env \<Rightarrow> ustr" where
  "preview_site env = or_text (given (se_url env)) (lit ''https://pooli.shop'')"

text \<open>The address of the picture, and the other entries of the only picture.\<close>

definition preview_image :: "site_env \<Rightarrow> link_preview option \<Rightarrow> ustr \<times> (ustr \<times> jval) list" where
  "preview_image env preview =
     (let logo = preview_field lp_store_logo_url preview
      in if logo \<noteq> [] then (if starts_with logo (lit ''http'') then logo else preview_site env @ logo, [])
         else (lit ''/brand/og-default.png'', [(lit ''width'', JNum (lit ''1200'')), (lit ''height'', JNum (lit ''630'')),
                (lit ''alt'', JStr (lit ''Pooli''))]))"

definition checkout_metadata :: "site_env \<Rightarrow> pay_route \<Rightarrow> ustr \<Rightarrow> link_preview option \<Rightarrow> jval" where
  "checkout_metadata env r slug preview =
     (let title = preview_title preview; description = preview_description preview; image = preview_image env preview
      in JObj
        [(lit ''title'', JStr title), (lit ''description'', JStr description),
         (lit ''openGraph'', JObj
           [(lit ''title'', JStr title), (lit ''description'', JStr description), (lit ''type'', JStr (lit ''website'')),
            (lit ''url'', JStr (preview_site env @ route_path r @ slug)), (lit ''siteName'', JStr (lit ''Pooli'')),
            (lit ''images'', JArr [JObj ((lit ''url'', JStr (fst image)) # snd image)])]),
         (lit ''twitter'', JObj
           [(lit ''card'', JStr (lit ''summary'')), (lit ''title'', JStr title),
            (lit ''description'', JStr description), (lit ''images'', JArr [JStr (fst image)])])])"

text \<open>The route inside Telegram has the same code but for the address; its type has no \<open>brand\<close>.\<close>

definition telegram_metadata :: "site_env \<Rightarrow> ustr \<Rightarrow> link_preview option \<Rightarrow> jval" where
  "telegram_metadata env = checkout_metadata env Telegram_link"

subsection \<open>The root layout\<close>

definition root_description :: ustr where
  "root_description = lit ''Turn a DM order into a checkout link. Your buyer pays USDT to your wallet. Pooli confirms on-chain.''"

text \<open>The template is the text around the page's title.\<close>

definition title_template :: "ustr \<times> ustr" where
  "title_template = ([], [32, 8212, 32] @ lit ''Pooli'')"

definition icon_entry :: "string \<Rightarrow> string \<Rightarrow> string option \<Rightarrow> jval" where
  "icon_entry url sizes ty = JObj ([(lit ''url'', JStr (lit url)), (lit ''sizes'', JStr (lit sizes))] @
     (case ty of None \<Rightarrow> [] | Some t \<Rightarrow> [(lit ''type'', JStr (lit t))]))"

definition png :: "string option" where
  "png = Some ''image/png''"

definition root_metadata :: "site_env \<Rightarrow> jval" where
  "root_metadata env = JObj
     [(lit ''metadataBase'', site_str env [''url'']),
      (lit ''title'', JObj [(lit ''default'', JStr (defaultSiteTitle env False)),
         (lit ''template'', JStr (fst title_template @ lit ''%s'' @ snd title_template))]),
      (lit ''description'', JStr root_description),
      (lit ''applicationName'', site_str env [''name'']),
      (lit ''authors'', JArr [JObj [(lit ''name'', site_str env [''founder'', ''name'']),
         (lit ''url'', JStr (site_text env [''url''] @ lit ''/about''))]]),
      (lit ''creator'', site_str env [''founder'', ''name'']),
      (lit ''publisher'', site_str env [''company'', ''legalNameEn'']),
      (lit ''category'', JStr (lit ''finance'')),
      (lit ''formatDetection'', JObj [(lit ''telephone'', JBool False), (lit ''address'', JBool False), (lit ''email'', JBool False)]),
      (lit ''manifest'', JStr (lit ''/manifest.webmanifest'')),
      (lit ''openGraph'', JObj
        [(lit ''title'', JStr (defaultSiteTitle env False)), (lit ''description'', JStr root_description),
         (lit ''type'', JStr (lit ''website'')), (lit ''siteName'', site_str env [''name'']),
         (lit ''locale'', JStr (lit ''en_US'')),
         (lit ''images'', JArr [JObj [(lit ''url'', JStr (lit ''/brand/og-default.png'')), (lit ''width'', JNum (lit ''1200'')),
            (lit ''height'', JNum (lit ''630'')), (lit ''alt'', JStr (lit ''Pooli''))]])]),
      (lit ''twitter'', JObj
        [(lit ''card'', JStr (lit ''summary_large_image'')), (lit ''title'', JStr (defaultSiteTitle env False)),
         (lit ''description'', JStr root_description), (lit ''images'', ld_texts [''/brand/og-default.png''])]),
      (lit ''icons'', JObj
        [(lit ''icon'', JArr
           [icon_entry ''/favicon.ico'' ''any'' None, icon_entry ''/favicon-32.png'' ''32x32'' png,
            icon_entry ''/favicon-16.png'' ''16x16'' png, icon_entry ''/icons/icon-192.png'' ''192x192'' png,
            icon_entry ''/icons/icon-512.png'' ''512x512'' png]),
         (lit ''apple'', JArr [icon_entry ''/apple-touch-icon.png'' ''180x180'' png])]),
      (lit ''appleWebApp'', JObj
        [(lit ''capable'', JBool True), (lit ''statusBarStyle'', JStr (lit ''black-translucent'')), (lit ''title'', JStr (lit ''Pooli''))])]"

definition root_viewport :: jval where
  "root_viewport = JObj
     [(lit ''themeColor'', JArr
        [JObj [(lit ''media'', JStr (lit ''(prefers-color-scheme: light)'')), (lit ''color'', JStr (lit ''#0F8F6B''))],
         JObj [(lit ''media'', JStr (lit ''(prefers-color-scheme: dark)'')), (lit ''color'', JStr (lit ''#0E1512''))]]),
      (lit ''width'', JStr (lit ''device-width'')), (lit ''initialScale'', JNum (lit ''1'')), (lit ''viewportFit'', JStr (lit ''cover''))]"

subsection \<open>What a page says in the end\<close>

text \<open>Later objects win, entry by entry; the title goes into the template.\<close>

definition merged :: "jval list \<Rightarrow> ustr \<Rightarrow> jval" where
  "merged layers k = (case find (\<lambda>o'. prop_of o' k \<noteq> JUndef) (rev layers) of None \<Rightarrow> JUndef | Some o' \<Rightarrow> prop_of o' k)"

definition document_title :: "ustr \<Rightarrow> ustr" where
  "document_title title = fst title_template @ title @ snd title_template"

text \<open>The layouts of app, admin, login, register, link, p and t have only this metadata.\<close>

definition private_page :: "site_env \<Rightarrow> jval \<Rightarrow> ustr \<Rightarrow> jval" where
  "private_page env page = merged [root_metadata env, privateRouteRobots, page]"

definition payment_link :: "site_env \<Rightarrow> pay_route \<Rightarrow> ustr \<Rightarrow> link_preview option \<Rightarrow> ustr \<Rightarrow> jval" where
  "payment_link env r slug preview = private_page env (checkout_metadata env r slug preview)"

text \<open>Previews are never indexed, and differ between the two routes in their address only.\<close>

lemma previews_not_indexed:
  "prop_of (payment_link env r slug preview (lit ''robots'')) (lit ''index'') = JBool False"
  "prop_of (payment_link env r slug preview (lit ''robots'')) (lit ''follow'') = JBool False"
  by (simp_all add: payment_link_def private_page_def merged_def checkout_metadata_def privateRouteRobots_def Let_def)

lemma preview_routes:
  "k \<noteq> lit ''openGraph'' \<Longrightarrow> payment_link env r slug preview k = payment_link env r' slug preview k"
  "k \<noteq> lit ''url'' \<Longrightarrow> prop_of (payment_link env r slug preview (lit ''openGraph'')) k =
     prop_of (payment_link env r' slug preview (lit ''openGraph'')) k"
  by (simp_all add: payment_link_def private_page_def merged_def checkout_metadata_def Let_def)

text \<open>A picture is found wherever the preview is shown, unless it is the default one, which the framework
  resolves: the logo is under the site or has a scheme of its own.\<close>

lemma preview_picture_absolute:
  "preview_field lp_store_logo_url preview \<noteq> [] \<Longrightarrow>
     starts_with (fst (preview_image env preview)) (lit ''http'') \<or>
     starts_with (fst (preview_image env preview)) (preview_site env)"
  by (simp add: preview_image_def Let_def starts_with_def)

text \<open>No request, no secret: a link that cannot be previewed says what any other such link says.\<close>

lemma failed_preview:
  "fetch (preview_url api slug) = None \<or> (\<exists>body. fetch (preview_url api slug) = Some (False, body)) \<Longrightarrow>
     fetchPreview fetch api slug = None"
  "preview_title None = lit ''Pooli '' @ [183] @ lit '' Pooli''"
  by (auto simp: fetchPreview_def preview_title_def preview_store_def preview_field_def or_text_def lit_def)

text \<open>The title of the tab names Pooli twice where the link has no title, and three times where there is
  no preview.\<close>

lemma titled_twice:
  "document_title (preview_title None) = lit ''Pooli '' @ [183] @ lit '' Pooli '' @ [8212] @ lit '' Pooli''"
  "preview_field lp_title preview = [] \<Longrightarrow> document_title (preview_title preview) =
     preview_store preview @ lit '' '' @ [183] @ lit '' Pooli '' @ [8212] @ lit '' Pooli''"
  by (simp_all add: document_title_def title_template_def preview_title_def preview_store_def preview_field_def
      or_text_def lit_def)

end
