(* ===== verification/MarketingViews.thy ===== *)
theory MarketingViews
  imports Motion CheckoutView Boot LinkPreview OAuth CatalogueEn
begin

text \<open>
  The public pages: the components of apps/web/src/components/marketing and the routes of
  apps/web/src/app/(marketing) with their metadata and structured data; and the pages t/app/page.tsx,
  error.tsx, not-found.tsx and the root layout. The lemmas say where their links go, and that the
  structured data says what the page shows.
\<close>

subsection \<open>Surroundings\<close>

text \<open>The catalogue of the language, the configuration, the preference for reduced motion, the theme, the
  year, which beams have run (that of the hero is the first), how \<open>Intl.NumberFormat\<close> writes a step, and the size of the word in
  the brand.\<close>

record marketing_env =
  me_locale :: web_locale
  me_catalog :: tvalue
  me_site :: site_env
  me_reduce :: bool
  me_theme :: theme
  me_year :: nat
  me_beamDone :: "nat \<Rightarrow> bool"
  me_stepText :: "nat \<Rightarrow> ustr"
  me_wordSize :: "nat \<Rightarrow> ustr"

definition me_t :: "marketing_env \<Rightarrow> messages" where
  "me_t e = messages_of (me_catalog e)"

text \<open>\<open>t.a.b\<close> for a list, and \<open>item.q\<close>.\<close>

fun value_at :: "string list \<Rightarrow> tvalue \<Rightarrow> tvalue option" where
  "value_at [] v = Some v"
| "value_at (k # ks) (Group kvs) = (case find_key k kvs of Some v \<Rightarrow> value_at ks v | None \<Rightarrow> None)"
| "value_at _ _ = None"

definition catalog_items :: "tvalue \<Rightarrow> string \<Rightarrow> tvalue list" where
  "catalog_items v path = (case value_at (path_of path) v of Some (Items vs) \<Rightarrow> vs | _ \<Rightarrow> [])"

definition me_items :: "marketing_env \<Rightarrow> string \<Rightarrow> tvalue list" where
  "me_items e = catalog_items (me_catalog e)"

definition item_text :: "tvalue \<Rightarrow> ustr" where
  "item_text v = (case v of Text s \<Rightarrow> s | _ \<Rightarrow> [])"

definition item_field :: "string \<Rightarrow> tvalue \<Rightarrow> ustr" where
  "item_field k v = (case text_at [k] v of Some s \<Rightarrow> s | None \<Rightarrow> [])"

definition site_lines :: "site_env \<Rightarrow> string list \<Rightarrow> ustr list" where
  "site_lines env path = (case site_at env path of
     JArr vs \<Rightarrow> concat (map (\<lambda>v. case v of JStr s \<Rightarrow> [s] | _ \<Rightarrow> []) vs) | _ \<Rightarrow> [])"

definition legal_reviewed :: "marketing_env \<Rightarrow> bool" where
  "legal_reviewed e \<longleftrightarrow> truthy (site_at (me_site e) [''legalReviewed''])"

text \<open>What a control raises: the menu, the theme, the language, the link that scrolls, the end of a beam,
  and the buttons of the two pages for errors and for the mini app.\<close>

datatype marketing_click =
    Mc_open
  | Mc_close
  | Mc_theme
  | Mc_locale ustr
  | Mc_scroll
  | Mc_beam nat
  | Mc_reset

subsection \<open>Shared parts\<close>

definition json_ld ::
  "jval \<Rightarrow> 'e node list" where
  "json_ld data =
     [El ''script'' [At ''type'' (lit ''application/ld+json''), At ''dangerouslySetInnerHTML'' (json_compact data)] []]"

definition faq_accordion ::
  "marketing_env \<Rightarrow> tvalue list \<Rightarrow> 'e node list" where
  "faq_accordion e items =
     [El ''div'' [At ''className'' (lit ''faq-list'')]
        (concat
           (map
              (\<lambda>(i, item).
                 (slide_in (me_reduce e) From_top (dec i @ lit '' * 0.04'') (lit ''0.7'') True []
                    [El ''details'' [At ''className'' (lit ''faq-item'')]
                       [El ''summary'' [At ''className'' (lit ''faq-summary'')]
                          [Txt (item_field ''q'' item)],
                        El ''div'' [At ''className'' (lit ''faq-answer-wrap'')]
                          [El ''p'' [At ''className'' (lit ''faq-answer'')] [Txt (item_field ''a'' item)]]]]))
              (enumerate 0 items)))]"

definition theme_button ::
  "marketing_env \<Rightarrow> marketing_click node list" where
  "theme_button e =
     [El ''button''
        [At ''type'' (lit ''button''),
         At ''className'' (lit ''btn btn-ghost marketing-theme-btn''),
         On ''onClick'' Mc_theme,
         At ''aria-label'' (me_t e ''marketing.nav.theme'' @ lit '': '' @ theme_label (me_t e) (me_theme e)),
         At ''title'' (theme_label (me_t e) (me_theme e))] [Txt (theme_label (me_t e) (me_theme e))]]"

definition imprint ::
  "marketing_env \<Rightarrow> bool \<Rightarrow> 'e node list" where
  "imprint e compact =
     [El ''div''
        [At ''className'' (lit ''imprint-block'' @ (if compact then lit '' imprint-block-compact'' else []))]
        [El ''dl'' [At ''className'' (lit ''imprint-dl'')]
           ([El ''div'' []
               [El ''dt'' [] [Txt (me_t e ''marketing.imprint.legalName'')],
                El ''dd'' []
                  [Txt (site_text (me_site e) [''company'', ''legalNameEn'']),
                   El ''br'' [] [],
                   El ''span'' [At ''lang'' (lit ''el'')]
                     [Txt (site_text (me_site e) [''company'', ''legalNameEl''])]]],
             El ''div'' []
               [El ''dt'' [] [Txt (me_t e ''marketing.imprint.address'')],
                El ''dd'' [At ''className'' (lit ''mono-ltr'')]
                  [Txt (companyAddressLine (me_site e) (me_locale e = Fa))]],
             El ''div'' []
               [El ''dt'' [] [Txt (me_t e ''marketing.imprint.contact'')],
                El ''dd'' []
                  [El ''a''
                     [At ''className'' (lit ''mono-ltr''),
                      At ''href'' (lit ''mailto:'' @ site_text (me_site e) [''contact'', ''support''])]
                     [Txt (site_text (me_site e) [''contact'', ''support''])],
                   El ''br'' [] [],
                   El ''a''
                     [At ''className'' (lit ''mono-ltr''),
                      At ''href'' (lit ''mailto:'' @ site_text (me_site e) [''contact'', ''founder''])]
                     [Txt (site_text (me_site e) [''contact'', ''founder''])]]]] @
            (if site_text (me_site e) [''company'', ''gemiNumber''] \<noteq> [] then
               [El ''div'' []
                  [El ''dt'' [] [Txt (me_t e ''marketing.imprint.gemi'')],
                   El ''dd'' [At ''className'' (lit ''mono-ltr'')]
                     [Txt (site_text (me_site e) [''company'', ''gemiNumber''])]]] else []) @
            (if site_text (me_site e) [''company'', ''vatNumber''] \<noteq> [] then
               [El ''div'' []
                  [El ''dt'' [] [Txt (me_t e ''marketing.imprint.vat'')],
                   El ''dd'' [At ''className'' (lit ''mono-ltr'')]
                     [Txt (site_text (me_site e) [''company'', ''vatNumber''])]]] else []) @
            (if foundingYear (me_site e) \<noteq> 0 then
               [El ''div'' []
                  [El ''dt'' [] [Txt (me_t e ''marketing.imprint.founded'')],
                   El ''dd'' [] [Txt (site_text (me_site e) [''foundingYear''])]]] else []))]]"

definition site_footer ::
  "marketing_env \<Rightarrow> 'e node list" where
  "site_footer e =
     [El ''footer'' [At ''className'' (lit ''marketing-footer'')]
        ([El ''div'' [At ''className'' (lit ''marketing-footer-grid'')]
            [El ''div'' []
               [El ''p'' [At ''className'' (lit ''marketing-footer-heading'')]
                  [Txt (me_t e ''marketing.footer.product'')],
                El ''ul'' [At ''className'' (lit ''marketing-footer-links'')]
                  [El ''li'' []
                     [El ''Link'' [At ''href'' (lit ''/#how-it-works'')]
                        [Txt (me_t e ''marketing.footer.howItWorks'')]],
                   El ''li'' []
                     [El ''Link'' [At ''href'' (lit ''/faq'')] [Txt (me_t e ''marketing.nav.faq'')]],
                   El ''li'' []
                     [El ''Link'' [At ''href'' (lit ''/security'')]
                        [Txt (me_t e ''marketing.footer.security'')]]]],
             El ''div'' []
               [El ''p'' [At ''className'' (lit ''marketing-footer-heading'')]
                  [Txt (me_t e ''marketing.footer.company'')],
                El ''ul'' [At ''className'' (lit ''marketing-footer-links'')]
                  [El ''li'' []
                     [El ''Link'' [At ''href'' (lit ''/about'')]
                        [Txt (me_t e ''marketing.footer.about'')]],
                   El ''li'' []
                     [El ''Link'' [At ''href'' (lit ''/contact'')]
                        [Txt (me_t e ''marketing.footer.contact'')]]]],
             El ''div'' []
               [El ''p'' [At ''className'' (lit ''marketing-footer-heading'')]
                  [Txt (me_t e ''marketing.footer.legal'')],
                El ''ul'' [At ''className'' (lit ''marketing-footer-links'')]
                  [El ''li'' []
                     [El ''Link'' [At ''href'' (lit ''/privacy'')]
                        [Txt (me_t e ''marketing.footer.privacy'')]],
                   El ''li'' []
                     [El ''Link'' [At ''href'' (lit ''/terms'')]
                        [Txt (me_t e ''marketing.footer.terms'')]]]],
             El ''div'' []
               [El ''p'' [At ''className'' (lit ''marketing-footer-heading'')]
                  [Txt (me_t e ''marketing.footer.connect'')],
                El ''ul'' [At ''className'' (lit ''marketing-footer-links'')]
                  (concat
                     (map
                        (\<lambda>l.
                           [El ''li'' []
                              [El ''a''
                                 [At ''href'' (sl_href l), At ''target'' (lit ''_blank''),
                                  At ''rel'' (sl_rel l)] [Txt (sl_label l)]]])
                        (definedSocialLinks (me_site e))))]],
          El ''p'' [At ''className'' (lit ''marketing-footer-legal mono-ltr'')]
            [Txt (site_text (me_site e) [''company'', ''legalNameEn''])]] @
         (imprint e True) @
         (if \<not> legal_reviewed e then
            [El ''p'' [At ''className'' (lit ''marketing-footer-meta'')]
               [Txt (me_t e ''marketing.footer.legalDraft'')]] else []) @
         [El ''p'' [At ''className'' (lit ''marketing-footer-meta'')]
            [Txt ([169] @ lit '' ''),
             Txt (dec (me_year e)),
             Txt (lit '' ''),
             Txt (site_text (me_site e) [''company'', ''legalNameEn'']),
             Txt (lit ''. ''),
             Txt (me_t e ''marketing.footer.rights''),
             El ''br'' [] [],
             Txt (me_t e ''marketing.footer.builtIn''),
             El ''br'' [] [],
             El ''a''
               [At ''href'' (lit ''https://icons8.com''), At ''target'' (lit ''_blank''),
                At ''rel'' (lit ''noopener noreferrer'')] [Txt (lit ''Icons8'')]]])]"

subsection \<open>The header\<close>

record site_header =
  hd_menuOpen :: bool
  hd_authed :: "bool option"

definition new_header :: site_header where
  "new_header = \<lparr>hd_menuOpen = False, hd_authed = None\<rparr>"

text \<open>The request for the user has been answered.\<close>

definition header_authed :: "bool \<Rightarrow> site_header \<Rightarrow> site_header" where
  "header_authed ok h = h\<lparr>hd_authed := Some ok\<rparr>"

definition header_do :: "marketing_click \<Rightarrow> site_header \<Rightarrow> site_header" where
  "header_do k h = (if k = Mc_open then h\<lparr>hd_menuOpen := True\<rparr> else if k = Mc_close then h\<lparr>hd_menuOpen := False\<rparr> else h)"

text \<open>\<open>authed\<close> is falsy until it is known.\<close>

definition app_href :: "site_header \<Rightarrow> ustr" where
  "app_href h = (if hd_authed h = Some True then lit ''/app'' else lit ''/login'')"

definition app_label :: "marketing_env \<Rightarrow> site_header \<Rightarrow> ustr" where
  "app_label e h = (if hd_authed h = Some True then me_t e ''openPooli'' else me_t e ''marketing.nav.signIn'')"

definition header_links ::
  "marketing_env \<Rightarrow> marketing_click node list" where
  "header_links e =
     [El ''Link'' [At ''href'' (lit ''/#how-it-works''), On ''onClick'' Mc_close]
        [Txt (me_t e ''marketing.nav.howItWorks'')],
      El ''Link'' [At ''href'' (lit ''/faq''), On ''onClick'' Mc_close] [Txt (me_t e ''marketing.nav.faq'')],
      El ''Link'' [At ''href'' (lit ''/about''), On ''onClick'' Mc_close]
        [Txt (me_t e ''marketing.nav.about'')]]"

definition site_header_view ::
  "marketing_env \<Rightarrow> site_header \<Rightarrow> marketing_click node list" where
  "site_header_view e h =
     [El ''header'' [At ''className'' (lit ''marketing-header lp-header'')]
        ([El ''Link'' [At ''href'' (lit ''/''), At ''className'' (lit ''marketing-logo'')]
            (brand_mark (me_wordSize e) ''full'' ''color'' (locale_name (me_locale e)) [] 32),
          El ''nav''
            [At ''className'' (lit ''marketing-nav desktop-only''), At ''aria-label'' (lit ''Primary'')]
            (header_links e),
          El ''div'' [At ''className'' (lit ''marketing-header-actions'')]
            ((language_switch (me_t e) (locale_name (me_locale e)) [] Mc_locale) @
             [El ''span'' [At ''className'' (lit ''desktop-only'')] (theme_button e),
              El ''Link'' [At ''className'' (lit ''btn btn-ghost desktop-only''), At ''href'' (app_href h)]
                [Txt (app_label e h)],
              El ''Link''
                [At ''className'' (lit ''btn btn-primary desktop-only''), At ''href'' (lit ''/register'')]
                [Txt (me_t e ''marketing.nav.createAccount'')],
              El ''motion.button''
                ([At ''type'' (lit ''button''),
                  At ''className'' (lit ''btn btn-secondary mobile-only marketing-menu-btn''),
                  Flag ''aria-expanded'' (hd_menuOpen h),
                  On ''onClick'' Mc_open] @
                 (opt_at ''whileTap'' (if me_reduce e then None else Some (lit ''scale: 0.94''))) @
                 [At ''transition'' (lit ''duration: 0.2'')]) [Txt (me_t e ''marketing.nav.menu'')]])] @
         (sheet_frame (hd_menuOpen h) Mc_close (me_t e ''marketing.nav.menu'')
            (Some (lit ''marketing-menu-title''))
            [El ''h2'' [At ''id'' (lit ''marketing-menu-title''), At ''className'' (lit ''sr-only'')]
               [Txt (me_t e ''marketing.nav.menu'')],
             El ''nav'' [At ''className'' (lit ''marketing-mobile-nav''), At ''aria-label'' (lit ''Mobile'')]
               ((theme_button e) @ (header_links e) @
                [El ''Link''
                   [At ''className'' (lit ''btn btn-secondary''), At ''href'' (app_href h),
                    On ''onClick'' Mc_close] [Txt (app_label e h)],
                 El ''Link''
                   [At ''className'' (lit ''btn btn-primary''), At ''href'' (lit ''/register''),
                    On ''onClick'' Mc_close] [Txt (me_t e ''marketing.nav.createAccount'')]])]))]"

subsection \<open>The landing page\<close>

definition marquee_label :: "marketing_env \<Rightarrow> ustr" where
  "marquee_label e = join_with [32, 183, 32]
     (map (\<lambda>k. me_t e (''marketing.marquee.'' @ k)) [''instagram'', ''telegram'', ''whatsapp'', ''tron'', ''bsc''])"

definition landing_marquee ::
  "marketing_env \<Rightarrow> 'e node list" where
  "landing_marquee e =
     [El ''div'' [At ''className'' (lit ''lp-marquee'')]
        [El ''p'' [At ''className'' (lit ''sr-only'')] [Txt (marquee_label e)],
         El ''div'' [At ''className'' (lit ''lp-marquee-track''), At ''aria-hidden'' (lit ''true'')]
           [El ''span'' [] [Txt (marquee_label e)], El ''span'' [] [Txt (marquee_label e)]]]]"

definition checkout_demo ::
  "marketing_env \<Rightarrow> ustr \<Rightarrow> ustr \<Rightarrow> marketing_click node list" where
  "checkout_demo e label className =
     [El ''motion.figure''
        ([At ''className'' (class_names [lit ''checkout-preview lp-checkout-demo lp-beam-host'', className]),
          At ''aria-label'' label,
          At ''initial'' (if me_reduce e then lit ''false'' else lit ''opacity: 0, y: 16'')] @
         (opt_at ''animate'' (if me_reduce e then None else Some (lit ''opacity: 1, y: 0''))) @
         [At ''transition'' (lit ''duration: 0.55, '' @ motion_ease @ lit '', delay: 0.1'')])
        ((border_beam (me_reduce e) (me_beamDone e 0) (Mc_beam 0) 72 (lit ''2.8'') []) @
         [El ''div'' [At ''className'' (lit ''checkout-preview-chrome'')]
            [El ''span'' [At ''className'' (lit ''checkout-preview-dot''), At ''aria-hidden'' (lit ''true'')]
               [],
             El ''span'' [At ''className'' (lit ''checkout-preview-title'')] [Txt (me_t e ''brand'')]],
          El ''div'' [At ''className'' (lit ''checkout-preview-body'')]
            ([El ''p'' [At ''className'' (lit ''checkout-preview-merchant muted'')]
                [Txt (me_t e ''marketing.hero.demoOrder'')]] @
             (amount_display (lit ''125,000 '' @ me_t e ''checkout.toman'') (lit ''12.45 USDT'') True
                (lit ''mono-ltr'')) @
             (payment_state (me_t e) (Some (lit ''PAID'')) False False None None False)),
          El ''figcaption'' [At ''className'' (lit ''checkout-demo-label'')] [Txt label]])]"

text \<open>\<open>scrollToHowItWorks\<close>: how the page scrolls to the section, if it is there.\<close>

definition scroll_behavior :: "bool \<Rightarrow> bool \<Rightarrow> string option" where
  "scroll_behavior present reduced = (if \<not> present then None else Some (if reduced then ''auto'' else ''smooth''))"

definition landing_hero ::
  "marketing_env \<Rightarrow> marketing_click node list" where
  "landing_hero e =
     [El ''section'' [At ''className'' (lit ''lp-hero''), At ''id'' (lit ''top'')]
        [El ''div'' [At ''className'' (lit ''lp-hero-grid''), At ''aria-hidden'' (lit ''true'')] [],
         El ''div'' [At ''className'' (lit ''lp-hero-fade''), At ''aria-hidden'' (lit ''true'')] [],
         El ''div'' [At ''className'' (lit ''lp-hero-inner'')]
           ([El ''p'' [At ''className'' (lit ''lp-hero-badge lp-hero-badge-in'')]
               [Txt (me_t e ''marketing.hero.eyebrow'')],
             El ''h1'' [At ''className'' (lit ''lp-hero-title lp-hero-title-gradient'')]
               (blur_text (me_reduce e) (me_t e ''marketing.hero.h1'') []),
             El ''div'' [At ''className'' (lit ''lp-hero-sub-wrap'')]
               (slide_in (me_reduce e) From_top (lit ''0'') (lit ''0.7'') True []
                  [El ''p'' [At ''className'' (lit ''lp-hero-sub'')] [Txt (me_t e ''marketing.hero.sub'')]])] @
            (slide_in (me_reduce e) From_top (lit ''0.08'') (lit ''0.7'') True (lit ''lp-hero-actions'')
               ((landing_primary_cta (lit ''/register'') [] [Txt (me_t e ''marketing.hero.ctaPrimary'')]) @
                [El ''a''
                   [At ''className'' (lit ''btn btn-secondary lp-btn-pill''),
                    At ''href'' (lit ''#how-it-works''), On ''onClick'' Mc_scroll]
                   [Txt (me_t e ''marketing.hero.ctaSecondary'')]])) @
            (slide_in (me_reduce e) From_top (lit ''0.12'') (lit ''0.7'') True []
               [El ''p'' [At ''className'' (lit ''lp-hero-meta'')]
                  [Txt (me_t e ''marketing.builtFor.line1'')],
                El ''p'' [At ''className'' (lit ''lp-hero-meta muted'')]
                  [Txt (me_t e ''marketing.builtFor.line2'')]]) @
            (slide_in (me_reduce e) From_top (lit ''0.15'') (lit ''1.1'') False (lit ''lp-hero-visual'')
               (checkout_demo e (me_t e ''marketing.hero.demoLabel'') [])))]]"

definition feature_rows :: "(string \<times> ustr) list" where
  "feature_rows = [(''s1'', lit ''add-link''), (''s2'', lit ''share''), (''s3'', lit ''verified'')]"

definition landing_feature_row ::
  "marketing_env \<Rightarrow> nat \<Rightarrow> string \<times> ustr \<Rightarrow> marketing_click node list" where
  "landing_feature_row e index row =
     (stagger_item (me_reduce e) []
        (hover_lift (me_reduce e) []
           [El ''article''
              [At ''className''
                 (lit ''lp-feature-row'' @ (if index mod 2 = 1 then lit '' lp-feature-row-flip'' else []))]
              [El ''div'' [At ''className'' (lit ''lp-feature-copy'')]
                 [El ''p'' [At ''className'' (lit ''lp-feature-step''), At ''aria-hidden'' (lit ''true'')]
                    [Txt (me_stepText e (index + 1))],
                  El ''h3'' [At ''className'' (lit ''lp-feature-heading'')]
                    [Txt (me_t e (''marketing.steps.'' @ fst row @ ''Title''))],
                  El ''p'' [At ''className'' (lit ''muted'')]
                    [Txt (me_t e (''marketing.steps.'' @ fst row @ ''Body''))]],
               El ''div'' [At ''className'' (lit ''lp-feature-visual''), At ''aria-hidden'' (lit ''true'')]
                 [El ''div'' [At ''className'' (lit ''lp-feature-icon-card lp-beam-host'')]
                    ((border_beam (me_reduce e) (me_beamDone e (index + 1)) (Mc_beam (index + 1)) 56 (lit ''2.4'') []) @
                     (icons8_icon (snd row) (lit ''lg'') [] True))]]]))"

definition landing_feature_rows ::
  "marketing_env \<Rightarrow> marketing_click node list" where
  "landing_feature_rows e =
     [El ''div'' [At ''className'' (lit ''lp-features''), At ''id'' (lit ''how-it-works'')]
        ([El ''h2'' [At ''className'' (lit ''lp-section-title'')]
            (text_reveal (me_reduce e) (me_t e ''marketing.steps.title'') [])] @
         (stagger_root (me_reduce e) []
            (concat (map (\<lambda>(i, row). landing_feature_row e i row) (enumerate 0 feature_rows)))))]"

definition benefit_rows :: "(string \<times> ustr) list" where
  "benefit_rows = [(''b1'', lit ''verified''), (''b2'', lit ''wallet''), (''b3'', lit ''orders''), (''b4'', lit ''notification''),
     (''b5'', lit ''globe''), (''b6'', lit ''share'')]"

definition landing_benefits ::
  "marketing_env \<Rightarrow> 'e node list" where
  "landing_benefits e =
     [El ''section'' [At ''className'' (lit ''lp-benefits'')]
        ([El ''h2'' [At ''className'' (lit ''lp-section-title'')]
            (text_reveal (me_reduce e) (me_t e ''marketing.benefits.title'') [])] @
         (stagger_root (me_reduce e) (lit ''lp-benefit-grid'')
            (concat
               (map
                  (\<lambda>row.
                     (stagger_item (me_reduce e) []
                        (hover_lift (me_reduce e) []
                           [El ''div'' [At ''className'' (lit ''lp-benefit-card'')]
                              ((icons8_icon (snd row) (lit ''lg'') [] True) @
                               [El ''div'' []
                                  [El ''strong'' []
                                     [Txt (me_t e (''marketing.benefits.'' @ fst row @ ''Title''))],
                                   El ''p'' [At ''className'' (lit ''muted'')]
                                     [Txt (me_t e (''marketing.benefits.'' @ fst row @ ''Body''))]]])])))
                  benefit_rows))))]"

definition landing_cta_band ::
  "marketing_env \<Rightarrow> 'e node list" where
  "landing_cta_band e =
     (slide_in (me_reduce e) From_top (lit ''0'') (lit ''0.85'') False []
        [El ''section'' [At ''className'' (lit ''lp-cta-band''), At ''id'' (lit ''cta'')]
           [El ''div'' [At ''className'' (lit ''lp-cta-band-bg''), At ''aria-hidden'' (lit ''true'')] [],
            El ''div'' [At ''className'' (lit ''lp-cta-band-inner'')]
              ([El ''h2'' [At ''className'' (lit ''lp-cta-title'')]
                  (text_reveal (me_reduce e) (me_t e ''marketing.finalCta.title'') []),
                El ''p'' [At ''className'' (lit ''lp-cta-sub'')] [Txt (me_t e ''marketing.finalCta.sub'')]] @
               (landing_primary_cta (lit ''/register'') (lit ''lp-cta-btn'')
                  [Txt (me_t e ''marketing.finalCta.button'')]) @
               [El ''p'' [At ''className'' (lit ''lp-cta-foot muted'')]
                  [Txt (me_t e ''marketing.earlyAccess.body'')],
                El ''p'' [At ''className'' (lit ''lp-cta-foot muted'')]
                  [Txt (me_t e ''marketing.earlyAccess.questions''),
                   Txt (lit '' ''),
                   El ''a''
                     [At ''className'' (lit ''mono-ltr''),
                      At ''href'' (lit ''mailto:'' @ site_text (me_site e) [''contact'', ''support''])]
                     [Txt (site_text (me_site e) [''contact'', ''support''])]]])]])"

definition landing_content ::
  "marketing_env \<Rightarrow> marketing_click node list" where
  "landing_content e =
     [El ''div'' [At ''className'' (lit ''lp-page'')]
        ((landing_hero e) @ (landing_marquee e) @
         [El ''div'' [At ''className'' (lit ''lp-body'')]
            ((slide_in (me_reduce e) From_top (lit ''0'') (lit ''0.7'') True []
                (section_block None (text_reveal (me_reduce e) (me_t e ''marketing.problem.title'') []) []
                   (lit ''lp-problem'')
                   [El ''ul'' [At ''className'' (lit ''lp-pain-list'')]
                      (concat
                         (map
                            (\<lambda>(i, line).
                               [El ''li''
                                  ([At ''className'' (lit ''lp-pain-line'')] @
                                   [Style [(''--lp-stagger'', dec i)]]) [Txt line]])
                            (enumerate 0
                               (map (\<lambda>k. me_t e (''marketing.problem.'' @ k))
                                  [''p1'', ''p2'', ''p3'']))))])) @
             (landing_feature_rows e) @ (landing_benefits e) @
             (slide_in (me_reduce e) From_top (lit ''0'') (lit ''0.7'') True []
                [El ''section''
                   [At ''className'' (lit ''marketing-section lp-draft''), At ''id'' (lit ''draft-reminders'')]
                   [El ''h2'' [At ''className'' (lit ''lp-section-title lp-section-title-start'')]
                      (text_reveal (me_reduce e) (me_t e ''marketing.draftReminders.title'') []),
                    El ''p'' [At ''className'' (lit ''marketing-lead'')]
                      [Txt (me_t e ''marketing.draftReminders.sub'')],
                    El ''p'' [At ''className'' (lit ''draft-safety'')]
                      [Txt (me_t e ''marketing.draftReminders.safety'')],
                    El ''div'' [At ''className'' (lit ''lp-hero-actions lp-hero-actions-start'')]
                      ((landing_primary_cta (lit ''/register'') []
                          [Txt (me_t e ''marketing.draftReminders.cta'')]) @
                       [El ''Link''
                          [At ''className'' (lit ''btn btn-secondary lp-btn-pill''),
                           At ''href'' (lit ''/claude'')]
                          [Txt (me_t e ''marketing.draftReminders.more'')]])]]) @
             (slide_in (me_reduce e) From_top (lit ''0'') (lit ''0.7'') True []
                [El ''section''
                   [At ''className'' (lit ''marketing-section lp-trust''), At ''id'' (lit ''security'')]
                   [El ''div'' [At ''className'' (lit ''lp-trust-icon''), At ''aria-hidden'' (lit ''true'')]
                      (icons8_icon (lit ''verified'') (lit ''lg'') [] True),
                    El ''h2'' [At ''className'' (lit ''lp-section-title lp-section-title-start'')]
                      (text_reveal (me_reduce e) (me_t e ''marketing.nonCustodial.title'') []),
                    El ''p'' [At ''className'' (lit ''lp-trust-body'')]
                      [Txt (me_t e ''marketing.nonCustodial.body'')],
                    El ''p'' []
                      [El ''Link'' [At ''className'' (lit ''lp-trust-link''), At ''href'' (lit ''/security'')]
                         [Txt (me_t e ''marketing.nonCustodial.link'')]]]]) @
             (slide_in (me_reduce e) From_top (lit ''0'') (lit ''0.7'') True []
                (section_block None (text_reveal (me_reduce e) (me_t e ''marketing.faqLanding.title'') []) []
                   (lit ''lp-faq-section'')
                   ((faq_accordion e (me_items e ''marketing.faqLanding.items'')) @
                    [El ''p'' [At ''className'' (lit ''marketing-view-all'')]
                       [El ''Link'' [At ''href'' (lit ''/faq'')]
                          [Txt (me_t e ''marketing.faqLanding.viewAll'')]]]))) @
             (landing_cta_band e))])]"

subsection \<open>The pages\<close>

text \<open>The questions of the landing page and the further ones.\<close>

definition faq_items :: "tvalue \<Rightarrow> tvalue list" where
  "faq_items v = catalog_items v ''marketing.faqLanding.items'' @ catalog_items v ''marketing.faqPage.extra''"

definition faq_view ::
  "marketing_env \<Rightarrow> 'e node list" where
  "faq_view e =
     [El ''header'' [At ''className'' (lit ''marketing-page-header'')]
        [El ''h1'' [At ''className'' (lit ''marketing-h1'')] [Txt (me_t e ''marketing.faqPage.title'')]]] @
     (faq_accordion e (faq_items (me_catalog e)))"

definition contact_view ::
  "marketing_env \<Rightarrow> 'e node list" where
  "contact_view e =
     [El ''header'' [At ''className'' (lit ''marketing-page-header'')]
        [El ''h1'' [At ''className'' (lit ''marketing-h1'')] [Txt (me_t e ''marketing.contact.title'')],
         El ''p'' [At ''className'' (lit ''marketing-lead'')] [Txt (me_t e ''marketing.contact.intro'')]],
      El ''div'' [At ''className'' (lit ''contact-primary'')]
        [El ''p'' [At ''className'' (lit ''marketing-footer-heading'')]
           [Txt (me_t e ''marketing.contact.primaryLabel'')],
         El ''p'' [At ''className'' (lit ''marketing-h3''), Style [(''margin'', lit ''0'')]]
           [Txt (site_text (me_site e) [''founder'', ''name''])],
         El ''p'' [At ''className'' (lit ''muted'')] [Txt (site_text (me_site e) [''founder'', ''title''])],
         El ''p'' []
           [El ''a''
              [At ''className'' (lit ''mono-ltr''),
               At ''href'' (lit ''mailto:'' @ site_text (me_site e) [''founder'', ''email''])]
              [Txt (site_text (me_site e) [''founder'', ''email''])]]],
      El ''dl'' [At ''className'' (lit ''contact-dl'')]
        [El ''div'' []
           [El ''dt'' [] [Txt (me_t e ''marketing.contact.supportLabel'')],
            El ''dd'' []
              [El ''a''
                 [At ''className'' (lit ''mono-ltr''),
                  At ''href'' (lit ''mailto:'' @ site_text (me_site e) [''contact'', ''support''])]
                 [Txt (site_text (me_site e) [''contact'', ''support''])]]],
         El ''div'' []
           [El ''dt'' [] [Txt (me_t e ''marketing.contact.founderLabel'')],
            El ''dd'' []
              [El ''a''
                 [At ''className'' (lit ''mono-ltr''),
                  At ''href'' (lit ''mailto:'' @ site_text (me_site e) [''contact'', ''founder''])]
                 [Txt (site_text (me_site e) [''contact'', ''founder''])]]],
         El ''div'' []
           [El ''dt'' [] [Txt (me_t e ''marketing.contact.addressLabel'')],
            El ''dd'' [At ''className'' (lit ''mono-ltr'')] [Txt (companyAddressLine (me_site e) False)]],
         El ''div'' []
           [El ''dt'' [] [Txt (me_t e ''marketing.contact.socialLabel'')],
            El ''dd'' []
              [El ''ul'' [At ''className'' (lit ''marketing-footer-links'')]
                 (concat
                    (map
                       (\<lambda>l.
                          [El ''li'' []
                             [El ''a''
                                [At ''href'' (sl_href l), At ''target'' (lit ''_blank''), At ''rel'' (sl_rel l)]
                                [Txt (sl_label l)]]]) (definedSocialLinks (me_site e))))]]]]"

definition claude_usage ::
  "marketing_env \<Rightarrow> bool \<Rightarrow> 'e node list" where
  "claude_usage e showMoreLink =
     [El ''section'' [At ''className'' (lit ''marketing-section''), At ''id'' (lit ''claude'')]
        ([El ''h2'' [At ''className'' (lit ''marketing-h2'')] [Txt (me_t e ''marketing.about.claudeTitle'')],
          El ''p'' [] [Txt (me_t e ''marketing.about.claudeIntro'')],
          El ''p'' [At ''className'' (lit ''muted'')]
            [Txt
               (site_text (me_site e)
                  [''claudeUsage'', if me_locale e = Fa then ''summaryFa'' else ''summaryEn''])],
          El ''ul'' [At ''className'' (lit ''marketing-facts'')]
            (concat
               (map (\<lambda>line. [El ''li'' [] [Txt line]])
                  (site_lines (me_site e)
                     [''claudeUsage'', if me_locale e = Fa then ''useCasesFa'' else ''useCasesEn'']))),
          El ''p'' [At ''className'' (lit ''muted'')]
            [Txt
               (site_text (me_site e)
                  [''claudeUsage'', if me_locale e = Fa then ''modelsNoteFa'' else ''modelsNoteEn''])],
          El ''p'' [] [Txt (me_t e ''marketing.about.claudeEvals'')]] @
         (if showMoreLink then
            [El ''p'' []
               [El ''Link'' [At ''href'' (lit ''/claude'')] [Txt (me_t e ''marketing.about.claudeMore'')]]] else []))]"

definition about_view ::
  "marketing_env \<Rightarrow> 'e node list" where
  "about_view e =
     [El ''header'' [At ''className'' (lit ''marketing-page-header'')]
        [El ''h1'' [At ''className'' (lit ''marketing-h1'')] [Txt (me_t e ''marketing.about.metaTitle'')],
         El ''p'' [At ''className'' (lit ''marketing-lead'')] [Txt (me_t e ''marketing.about.hero'')]]] @
     (section_block None [Txt (me_t e ''marketing.about.whatTitle'')] [] []
        [El ''p'' [] [Txt (me_t e ''marketing.about.whatP1'')],
         El ''p'' [] [Txt (me_t e ''marketing.about.whatP2'')],
         El ''p'' [] [Txt (me_t e ''marketing.about.whatP3'')]]) @
     (section_block None [Txt (me_t e ''marketing.about.companyTitle'')] [] []
        [El ''p'' [] [Txt (me_t e ''marketing.about.foundedLine'')],
         El ''p'' [At ''className'' (lit ''muted'')] [Txt (me_t e ''marketing.about.fundingLine'')]]) @
     (section_block None [Txt (me_t e ''marketing.about.founderTitle'')] [] []
        [El ''div'' [At ''className'' (lit ''founder-card'')]
           [El ''div'' [At ''className'' (lit ''founder-photo-wrap'')]
              [El ''Image''
                 [At ''src'' (lit ''/brand/founder.jpg''),
                  At ''alt'' (site_text (me_site e) [''founder'', ''name'']), At ''width'' (lit ''160''),
                  At ''height'' (lit ''160''), At ''className'' (lit ''founder-photo''), Flag ''priority'' True]
                 []],
            El ''div'' []
              [El ''h3'' [At ''className'' (lit ''marketing-h3'')]
                 [Txt (site_text (me_site e) [''founder'', ''name''])],
               El ''p'' [At ''className'' (lit ''muted'')]
                 [Txt (site_text (me_site e) [''founder'', ''title''])],
               El ''p'' [] [Txt (me_t e ''marketing.about.founderBio'')],
               El ''p'' [At ''className'' (lit ''founder-links'')]
                 [El ''a''
                    [At ''href'' (site_text (me_site e) [''founder'', ''linkedin'']),
                     At ''target'' (lit ''_blank''), At ''rel'' (lit ''noopener noreferrer me'')]
                    [Txt (lit ''LinkedIn'')],
                  Txt (lit '' '' @ [183] @ lit '' ''),
                  El ''a''
                    [At ''href'' (site_text (me_site e) [''founder'', ''github'']),
                     At ''target'' (lit ''_blank''), At ''rel'' (lit ''noopener noreferrer me'')]
                    [Txt (lit ''GitHub'')],
                  Txt (lit '' '' @ [183] @ lit '' ''),
                  El ''a''
                    [At ''className'' (lit ''mono-ltr''),
                     At ''href'' (lit ''mailto:'' @ site_text (me_site e) [''founder'', ''email''])]
                    [Txt (site_text (me_site e) [''founder'', ''email''])]]]]]) @
     (claude_usage e True) @
     (section_block None [Txt (me_t e ''marketing.about.principlesTitle'')] [] []
        [El ''ul'' [At ''className'' (lit ''marketing-principles'')]
           (concat
              (map
                 (\<lambda>v.
                    [El ''li'' []
                       [El ''strong'' [] [Txt (item_field ''title'' v)],
                        El ''span'' [] [Txt (item_field ''body'' v)]]])
                 (me_items e ''marketing.about.principles'')))]) @
     (section_block None [Txt (me_t e ''marketing.about.imprintTitle'')] [] [] (imprint e False)) @
     [El ''p'' []
        [Txt (me_t e ''marketing.about.contactCta''),
         Txt (lit '' ''),
         El ''Link'' [At ''href'' (lit ''/contact'')] [Txt (me_t e ''marketing.footer.contact'')]]]"

definition claude_view ::
  "marketing_env \<Rightarrow> 'e node list" where
  "claude_view e =
     [El ''article'' [At ''className'' (lit ''claude-notes'')]
        [El ''header'' [At ''className'' (lit ''marketing-page-header'')]
           [El ''h1'' [At ''className'' (lit ''marketing-h1'')] [Txt (me_t e ''marketing.claude.title'')],
            El ''p'' [At ''className'' (lit ''marketing-lead'')] [Txt (me_t e ''marketing.claude.lead'')]],
         El ''section'' []
           [El ''h2'' [] [Txt (me_t e ''marketing.claude.todayTitle'')],
            El ''h3'' [] [Txt (me_t e ''marketing.claude.engineeringTitle'')],
            El ''p'' [] [Txt (me_t e ''marketing.claude.engineeringBody'')],
            El ''h3'' [] [Txt (me_t e ''marketing.claude.docsTitle'')],
            El ''p'' [] [Txt (me_t e ''marketing.claude.docsBody'')],
            El ''h3'' [] [Txt (me_t e ''marketing.claude.toolingTitle'')],
            El ''p'' [] [Txt (me_t e ''marketing.claude.toolingBody'')],
            El ''h3'' [] [Txt (me_t e ''marketing.claude.identityTitle'')],
            El ''p'' [] [Txt (me_t e ''marketing.claude.identityBody'')]],
         El ''section'' []
           [El ''h2'' [] [Txt (me_t e ''marketing.claude.wifTitle'')],
            El ''p'' [] [Txt (me_t e ''marketing.claude.wifLead'')],
            El ''p'' [] [Txt (me_t e ''marketing.claude.wifMeans'')],
            El ''ul'' []
              (concat
                 (map (\<lambda>v. [El ''li'' [] [Txt (item_text v)]])
                    (me_items e ''marketing.claude.wifPoints''))),
            El ''p'' [] [Txt (me_t e ''marketing.claude.wifClose'')]],
         El ''section'' []
           [El ''h2'' [] [Txt (me_t e ''marketing.claude.notLlmTitle'')],
            El ''p'' [] [Txt (me_t e ''marketing.claude.notLlmBody'')],
            El ''p'' [] [Txt (me_t e ''marketing.claude.notLlmBody2'')]],
         El ''section'' []
           [El ''h2'' [] [Txt (me_t e ''marketing.claude.suggestLiveTitle'')],
            El ''p'' [] [Txt (me_t e ''marketing.claude.suggestLiveBody'')],
            El ''p'' []
              [El ''a''
                 [At ''href'' (lit ''https://github.com/o-mid/pooli/blob/main/docs/agent-integration.md''),
                  At ''rel'' (lit ''noopener noreferrer'')]
                 [Txt (me_t e ''marketing.claude.integrationDoc'')]]],
         El ''section'' []
           [El ''h2'' [] [Txt (me_t e ''marketing.claude.buildingTitle'')],
            El ''h3'' [] [Txt (me_t e ''marketing.claude.questionsTitle'')],
            El ''p'' [] [Txt (me_t e ''marketing.claude.questionsBody'')],
            El ''p'' [] [Txt (me_t e ''marketing.claude.evals'')]],
         El ''section'' []
           [El ''h2'' [] [Txt (me_t e ''marketing.claude.whyTitle'')],
            El ''p'' [] [Txt (me_t e ''marketing.claude.whyBody'')]],
         El ''footer'' [At ''className'' (lit ''claude-notes-foot'')]
           [El ''p'' [] [Txt (me_t e ''marketing.claude.builtIn'')],
            El ''p'' []
              [El ''a''
                 [At ''href'' (site_text (me_site e) [''claudeUsage'', ''anthropicStartupProgramUrl'']),
                  At ''rel'' (lit ''noopener noreferrer'')] [Txt (me_t e ''marketing.claude.program'')]]]]]"

definition security_view ::
  "marketing_env \<Rightarrow> 'e node list" where
  "security_view e =
     [El ''header'' [At ''className'' (lit ''marketing-page-header'')]
        [El ''h1'' [At ''className'' (lit ''marketing-h1'')] [Txt (me_t e ''marketing.security.title'')],
         El ''p'' [At ''className'' (lit ''marketing-lead'')] [Txt (me_t e ''marketing.security.intro'')]]] @
     (section_block None [Txt (me_t e ''marketing.security.title'')] [] []
        [El ''ul'' [At ''className'' (lit ''marketing-facts'')]
           (concat
              (map (\<lambda>v. [El ''li'' [] [Txt (item_text v)]])
                 (me_items e ''marketing.security.facts'')))]) @
     (section_block None [Txt (me_t e ''marketing.security.disclosureTitle'')] [] []
        [El ''p'' [] [Txt (me_t e ''marketing.security.disclosureBody'')],
         El ''p'' []
           [El ''a''
              [At ''className'' (lit ''mono-ltr''),
               At ''href'' (lit ''mailto:'' @ site_text (me_site e) [''contact'', ''support''])]
              [Txt (site_text (me_site e) [''contact'', ''support''])]]])"

definition privacy_view ::
  "marketing_env \<Rightarrow> 'e node list" where
  "privacy_view e =
     (legal_draft_banner (legal_reviewed e) (me_t e ''marketing.privacy.draftBanner'')) @
     [El ''header'' [At ''className'' (lit ''marketing-page-header'')]
        [El ''h1'' [At ''className'' (lit ''marketing-h1'')] [Txt (me_t e ''marketing.privacy.title'')],
         El ''p'' [At ''className'' (lit ''muted'')]
           [Txt (me_t e ''marketing.privacy.lastUpdated''), Txt (lit '': ''),
            Txt (site_text (me_site e) [''legalDocumentsUpdatedOn''])]]] @
     (section_block None [Txt (me_t e ''marketing.privacy.sections.controller'')] [] []
        [El ''p'' [] [Txt (me_t e ''marketing.privacy.sections.controllerBody'')]]) @
     (section_block None [Txt (me_t e ''marketing.privacy.sections.collect'')] [] []
        [El ''p'' [] [Txt (me_t e ''marketing.privacy.sections.collectBody'')]]) @
     (section_block None [Txt (me_t e ''marketing.privacy.sections.analytics'')] [] []
        [El ''p'' [] [Txt (me_t e ''marketing.privacy.sections.analyticsBody'')]]) @
     (section_block None [Txt (me_t e ''marketing.privacy.sections.cookies'')] [] []
        [El ''p'' [] [Txt (me_t e ''marketing.privacy.sections.cookiesBody'')]]) @
     (section_block None [Txt (me_t e ''marketing.privacy.sections.sharing'')] [] []
        [El ''p'' [] [Txt (me_t e ''marketing.privacy.sections.sharingBody'')]]) @
     (section_block None [Txt (me_t e ''marketing.privacy.sections.retention'')] [] []
        [El ''p'' [] [Txt (me_t e ''marketing.privacy.sections.retentionBody'')]]) @
     (section_block None [Txt (me_t e ''marketing.privacy.sections.rights'')] [] []
        [El ''p'' [] [Txt (me_t e ''marketing.privacy.sections.rightsBody'')]]) @
     (section_block None [Txt (me_t e ''marketing.privacy.sections.transfers'')] [] []
        [El ''p'' [] [Txt (me_t e ''marketing.privacy.sections.transfersBody'')]]) @
     (section_block None [Txt (me_t e ''marketing.privacy.sections.contact'')] [] []
        [El ''p'' [] [Txt (me_t e ''marketing.privacy.sections.contactBody'')]])"

definition terms_view ::
  "marketing_env \<Rightarrow> 'e node list" where
  "terms_view e =
     (legal_draft_banner (legal_reviewed e) (me_t e ''marketing.terms.draftBanner'')) @
     [El ''header'' [At ''className'' (lit ''marketing-page-header'')]
        [El ''h1'' [At ''className'' (lit ''marketing-h1'')] [Txt (me_t e ''marketing.terms.title'')],
         El ''p'' [At ''className'' (lit ''muted'')]
           [Txt (me_t e ''marketing.terms.lastUpdated''), Txt (lit '': ''),
            Txt (site_text (me_site e) [''legalDocumentsUpdatedOn''])]]] @
     (section_block None [Txt (me_t e ''marketing.terms.sections.agreement'')] [] []
        [El ''p'' [] [Txt (me_t e ''marketing.terms.sections.agreementBody'')]]) @
     (section_block None [Txt (me_t e ''marketing.terms.sections.service'')] [] []
        [El ''p'' [] [Txt (me_t e ''marketing.terms.sections.serviceBody'')]]) @
     (section_block None [Txt (me_t e ''marketing.terms.sections.payments'')] [] []
        [El ''p'' [] [Txt (me_t e ''marketing.terms.sections.paymentsBody'')]]) @
     (section_block None [Txt (me_t e ''marketing.terms.sections.acceptable'')] [] []
        [El ''p'' [] [Txt (me_t e ''marketing.terms.sections.acceptableBody'')]]) @
     (section_block None [Txt (me_t e ''marketing.terms.sections.liability'')] [] []
        [El ''p'' [] [Txt (me_t e ''marketing.terms.sections.liabilityBody'')]]) @
     (section_block None [Txt (me_t e ''marketing.terms.sections.law'')] [] []
        [El ''p'' [] [Txt (me_t e ''marketing.terms.sections.lawBody'')]]) @
     (section_block None [Txt (me_t e ''marketing.terms.sections.contact'')] [] []
        [El ''p'' [] [Txt (me_t e ''marketing.terms.sections.contactBody'')]])"

definition marketing_shell ::
  "marketing_env \<Rightarrow> site_header \<Rightarrow> marketing_click node list \<Rightarrow> marketing_click node list" where
  "marketing_shell e h children =
     [El ''div'' [At ''className'' (lit ''marketing-page'')]
        ([El ''a'' [At ''href'' (lit ''#main-content''), At ''className'' (lit ''skip-link'')]
            [Txt (me_t e ''marketing.skipToContent'')]] @
         (site_header_view e h) @
         [El ''main'' [At ''id'' (lit ''main-content''), At ''className'' (lit ''marketing-main lp-main'')]
            (page_fade (me_reduce e) [] children)] @
         (site_footer e))]"

text \<open>The routes: the metadata each exports, and the page with its structured data. The texts of the
  metadata are those of the English catalogue, whatever the language of the page.\<close>

definition en_text :: "string \<Rightarrow> ustr" where
  "en_text path = messages_of catalogue_en (''marketing.'' @ path)"

definition crumbs :: "(ustr \<Rightarrow> ustr \<Rightarrow> ustr) \<Rightarrow> marketing_env \<Rightarrow> string \<Rightarrow> string \<Rightarrow> jval" where
  "crumbs resolve e name path =
     breadcrumbGraph resolve (me_site e) [(lit ''Home'', lit ''/''), (lit name, lit path)]"

definition faq_pairs :: "tvalue list \<Rightarrow> (ustr \<times> ustr) list" where
  "faq_pairs = map (\<lambda>v. (item_field ''q'' v, item_field ''a'' v))"

definition home_metadata ::
  "(ustr \<Rightarrow> ustr \<Rightarrow> ustr) \<Rightarrow> site_env \<Rightarrow> jval" where
  "home_metadata resolve env =
     pageMetadata resolve env (defaultSiteTitle env False) (lit ''Turn a DM order into a checkout link. Your buyer pays USDT to your wallet. Pooli confirms on-chain '' @ [8212] @ lit '' no screenshots.'') (lit ''/'') False"

definition home_page ::
  "(ustr \<Rightarrow> ustr \<Rightarrow> ustr) \<Rightarrow> marketing_env \<Rightarrow> marketing_click node list" where
  "home_page resolve e =
     json_ld (landingGraph (me_site e)) @ json_ld (faqPageGraph (faq_pairs (catalog_items catalogue_en ''marketing.faqLanding.items''))) @ landing_content e"

definition faq_metadata ::
  "(ustr \<Rightarrow> ustr \<Rightarrow> ustr) \<Rightarrow> site_env \<Rightarrow> jval" where
  "faq_metadata resolve env =
     pageMetadata resolve env (lit ''FAQ'') (en_text ''faqPage.metaDescription'') (lit ''/faq'') False"

definition faq_page ::
  "(ustr \<Rightarrow> ustr \<Rightarrow> ustr) \<Rightarrow> marketing_env \<Rightarrow> marketing_click node list" where
  "faq_page resolve e =
     json_ld (faqPageGraph (faq_pairs (faq_items catalogue_en))) @ json_ld (crumbs resolve e ''FAQ'' ''/faq'') @ faq_view e"

definition about_metadata ::
  "(ustr \<Rightarrow> ustr \<Rightarrow> ustr) \<Rightarrow> site_env \<Rightarrow> jval" where
  "about_metadata resolve env =
     pageMetadata resolve env (lit ''About Pooli'') (en_text ''about.metaDescription'') (lit ''/about'') False"

definition about_page ::
  "(ustr \<Rightarrow> ustr \<Rightarrow> ustr) \<Rightarrow> marketing_env \<Rightarrow> marketing_click node list" where
  "about_page resolve e =
     json_ld (aboutPageGraph (me_site e) (en_text ''about.metaDescription'')) @ json_ld (crumbs resolve e ''About'' ''/about'') @ about_view e"

definition contact_metadata ::
  "(ustr \<Rightarrow> ustr \<Rightarrow> ustr) \<Rightarrow> site_env \<Rightarrow> jval" where
  "contact_metadata resolve env =
     pageMetadata resolve env (lit ''Contact'') (en_text ''contact.metaDescription'') (lit ''/contact'') False"

definition contact_page ::
  "(ustr \<Rightarrow> ustr \<Rightarrow> ustr) \<Rightarrow> marketing_env \<Rightarrow> marketing_click node list" where
  "contact_page resolve e =
     json_ld (contactPageGraph (me_site e) (en_text ''contact.metaDescription'')) @ json_ld (crumbs resolve e ''Contact'' ''/contact'') @ contact_view e"

definition claude_metadata ::
  "(ustr \<Rightarrow> ustr \<Rightarrow> ustr) \<Rightarrow> site_env \<Rightarrow> jval" where
  "claude_metadata resolve env =
     pageMetadata resolve env (en_text ''claude.metaTitle'') (en_text ''claude.metaDescription'') (lit ''/claude'') False"

definition claude_page ::
  "(ustr \<Rightarrow> ustr \<Rightarrow> ustr) \<Rightarrow> marketing_env \<Rightarrow> marketing_click node list" where
  "claude_page resolve e =
     json_ld (claudePageGraph (me_site e) (en_text ''claude.metaDescription'')) @ json_ld (crumbs resolve e ''Claude'' ''/claude'') @ claude_view e"

definition security_metadata ::
  "(ustr \<Rightarrow> ustr \<Rightarrow> ustr) \<Rightarrow> site_env \<Rightarrow> jval" where
  "security_metadata resolve env =
     pageMetadata resolve env (lit ''Security'') (en_text ''security.metaDescription'') (lit ''/security'') False"

definition security_page ::
  "(ustr \<Rightarrow> ustr \<Rightarrow> ustr) \<Rightarrow> marketing_env \<Rightarrow> marketing_click node list" where
  "security_page resolve e =
     json_ld (crumbs resolve e ''Security'' ''/security'') @ security_view e"

definition privacy_metadata ::
  "(ustr \<Rightarrow> ustr \<Rightarrow> ustr) \<Rightarrow> site_env \<Rightarrow> jval" where
  "privacy_metadata resolve env =
     pageMetadata resolve env (lit ''Privacy policy'') (withLegalStatus env (en_text ''privacy.metaDescription'')) (lit ''/privacy'') False"

definition privacy_page ::
  "(ustr \<Rightarrow> ustr \<Rightarrow> ustr) \<Rightarrow> marketing_env \<Rightarrow> marketing_click node list" where
  "privacy_page resolve e =
     json_ld (crumbs resolve e ''Privacy'' ''/privacy'') @ privacy_view e"

definition terms_metadata ::
  "(ustr \<Rightarrow> ustr \<Rightarrow> ustr) \<Rightarrow> site_env \<Rightarrow> jval" where
  "terms_metadata resolve env =
     pageMetadata resolve env (lit ''Terms of service'') (withLegalStatus env (en_text ''terms.metaDescription'')) (lit ''/terms'') False"

definition terms_page ::
  "(ustr \<Rightarrow> ustr \<Rightarrow> ustr) \<Rightarrow> marketing_env \<Rightarrow> marketing_click node list" where
  "terms_page resolve e =
     json_ld (crumbs resolve e ''Terms'' ''/terms'') @ terms_view e"

subsection \<open>The remaining pages\<close>

definition telegram_home ::
  "marketing_env \<Rightarrow> 'e node list" where
  "telegram_home e =
     [El ''main'' [At ''className'' (lit ''shell page-stack'')]
        [El ''h1'' [At ''className'' (lit ''page-title'')] [Txt (me_t e ''miniapp.title'')],
         El ''p'' [At ''className'' (lit ''muted'')] [Txt (me_t e ''miniapp.connectHint'')],
         El ''div'' [At ''className'' (lit ''cta-stack'')]
           [El ''Link'' [At ''className'' (lit ''btn btn-primary''), At ''href'' (lit ''/t/app/create'')]
              [Txt (me_t e ''miniapp.create'')],
            El ''a''
              [At ''className'' (lit ''btn btn-secondary''),
               At ''href'' (lit ''https://pooli.shop/app/settings/notifications'')]
              [Txt (me_t e ''miniapp.openPooli'')]]]]"

definition error_page ::
  "marketing_env \<Rightarrow> marketing_click node list" where
  "error_page e =
     [El ''main'' [At ''className'' (lit ''shell page-stack'')]
        [El ''p'' [At ''className'' (lit ''field-error''), At ''role'' (lit ''alert'')]
           [Txt (me_t e ''common.error'')],
         El ''button''
           [At ''type'' (lit ''button''), At ''className'' (lit ''btn btn-primary''), On ''onClick'' Mc_reset]
           [Txt (me_t e ''common.retry'')]]]"

definition not_found_page ::
  "marketing_env \<Rightarrow> 'e node list" where
  "not_found_page e =
     [El ''main'' [At ''className'' (lit ''shell page-stack'')]
        [El ''h1'' [At ''className'' (lit ''page-title'')] [Txt (me_t e ''checkout.notFound'')],
         El ''Link'' [At ''className'' (lit ''btn btn-primary''), At ''href'' (lit ''/'')]
           [Txt (me_t e ''brand'')]]]"

definition root_layout ::
  "ustr \<Rightarrow> 'e node list \<Rightarrow> 'e node list \<Rightarrow> 'e node list" where
  "root_layout script toast children =
     [El ''html'' [At ''lang'' (lit ''en''), Flag ''suppressHydrationWarning'' True]
        [El ''head'' [] [El ''script'' [At ''dangerouslySetInnerHTML'' script] []],
         El ''body'' [] ([] @ [] @ children @ toast)]]"

definition og_image ::
  "marketing_env \<Rightarrow> 'e node list" where
  "og_image e =
     [El ''div''
        [Style
           [(''width'', lit ''100%''), (''height'', lit ''100%''), (''display'', lit ''flex''),
            (''flexDirection'', lit ''column''), (''justifyContent'', lit ''center''),
            (''padding'', lit ''72''), (''background'', lit ''#F4F7F5''), (''color'', lit ''#0E1512'')]]
        [El ''div''
           [Style
              [(''fontSize'', lit ''56''), (''fontWeight'', lit ''700''),
               (''letterSpacing'', lit ''-0.03em''), (''marginBottom'', lit ''24'')]]
           [Txt (site_text (me_site e) [''name''])],
         El ''div''
           [Style
              [(''fontSize'', lit ''32''), (''maxWidth'', lit ''900''), (''lineHeight'', lit ''1.25''),
               (''color'', lit ''#3D4A45'')]] [Txt (site_text (me_site e) [''tagline'', ''en''])]]]"

subsection \<open>What the pages show and offer\<close>

lemma me_fields [simp]:
  "me_t (e\<lparr>me_reduce := b\<rparr>) = me_t e" "me_items (e\<lparr>me_reduce := b\<rparr>) = me_items e"
  by (simp_all add: me_t_def me_items_def fun_eq_iff)

lemma enumerate_maps: "map (\<lambda>(i, x). f x) (enumerate n xs) = map f xs"
  by (induction xs arbitrary: n) simp_all

lemma silent_parts [markup_simps]:
  "offers (icons8_icon n sz c d) = []" "offers (json_ld j) = []" "offers (amount_display p s em c) = []"
  "offers (legal_draft_banner b t) = []" "offers (landing_primary_cta h c ns) = offers ns"
  "offers (section_block i ttl l c ns) = offers ttl @ offers ns"
  by (simp_all add: icons8_icon_def json_ld_def amount_display_def legal_draft_banner_def landing_primary_cta_def
      section_block_def markup_simps)

lemma payment_state_silent [markup_simps]: "offers (payment_state t s o' off c r an) = []"
  by (simp add: payment_state_def markup_simps split: prod.split)

lemma faq_silent [markup_simps]: "offers (faq_accordion e items) = []"
  by (simp add: faq_accordion_def markup_simps split_def)

text \<open>The menu: each of its links closes it, and so does the backdrop.\<close>

lemma header_offers:
  "offers (site_header_view e h) =
     [Mc_close, Mc_close, Mc_close, Mc_locale (lit ''en''), Mc_locale (lit ''fa''), Mc_theme, Mc_open] @
     (if hd_menuOpen h then Mc_close # Mc_theme # replicate 5 Mc_close else [])"
  by (simp add: site_header_view_def header_links_def theme_button_def language_switch_def sheet_frame_def
      brand_mark_def markup_simps eval_nat_numeral)

lemma menu_closes: "k \<in> set (offers (site_header_view e h)) \<Longrightarrow> hd_menuOpen (header_do k h) \<longleftrightarrow>
    (case k of Mc_open \<Rightarrow> True | Mc_close \<Rightarrow> False | _ \<Rightarrow> hd_menuOpen h)"
  by (cases k) (simp_all add: header_do_def)

text \<open>A visitor is sent to the login unless he is known to be signed in.\<close>

lemma header_entry:
  "app_href new_header = lit ''/login''"
  "app_href (header_authed ok h) = (if ok then lit ''/app'' else lit ''/login'')"
  by (simp_all add: app_href_def new_header_def header_authed_def)

text \<open>The landing page scrolls and ends its beams; each beam ends once, and none is there without motion.\<close>

lemma landing_offers:
  "offers (landing_content e) = Mc_scroll #
     (if me_reduce e then [] else filter (\<lambda>k. case k of Mc_beam i \<Rightarrow> \<not> me_beamDone e i | _ \<Rightarrow> False)
        [Mc_beam 0, Mc_beam 1, Mc_beam 2, Mc_beam 3])"
  by (simp add: landing_content_def landing_hero_def landing_marquee_def landing_feature_rows_def
      landing_feature_row_def feature_rows_def landing_benefits_def benefit_rows_def landing_cta_band_def
      checkout_demo_def markup_simps eval_nat_numeral)

subsection \<open>Motion and text\<close>

lemma text_parts [markup_simps]:
  "page_text (icons8_icon n sz c d) = []" "page_text (json_ld j) = []"
  "page_text (landing_primary_cta h c ns) = page_text ns"
  by (simp_all add: icons8_icon_def json_ld_def landing_primary_cta_def markup_simps)

lemma enumerate_seconds: "map (\<lambda>p. f (snd p)) (enumerate n xs) = map f xs"
  by (induction xs arbitrary: n) simp_all

lemma faq_text: "page_text (faq_accordion e items) = concat (map (\<lambda>v. item_field ''q'' v @ item_field ''a'' v) items)"
  by (simp add: faq_accordion_def markup_simps split_def o_def
      enumerate_seconds [of "\<lambda>v. item_field ''q'' v @ item_field ''a'' v"])

text \<open>A reader who wants no motion reads the same text, part by part.\<close>

lemma demo_text: "page_text (checkout_demo (e\<lparr>me_reduce := b\<rparr>) l c) = page_text (checkout_demo e l c)"
  by (simp add: checkout_demo_def markup_simps)

lemma hero_text: "page_text (landing_hero (e\<lparr>me_reduce := b\<rparr>)) = page_text (landing_hero e)"
  by (simp add: landing_hero_def markup_simps demo_text)

lemma feature_text: "page_text (landing_feature_row (e\<lparr>me_reduce := b\<rparr>) i r) = page_text (landing_feature_row e i r)"
  by (simp add: landing_feature_row_def markup_simps)

lemma features_text: "page_text (landing_feature_rows (e\<lparr>me_reduce := b\<rparr>)) = page_text (landing_feature_rows e)"
  by (simp add: landing_feature_rows_def markup_simps split_def o_def feature_text)

lemma benefits_text: "page_text (landing_benefits (e\<lparr>me_reduce := b\<rparr>) :: 'e node list) = page_text (landing_benefits e :: 'e node list)"
  by (simp add: landing_benefits_def markup_simps o_def)

lemma cta_text: "page_text (landing_cta_band (e\<lparr>me_reduce := b\<rparr>) :: 'e node list) = page_text (landing_cta_band e :: 'e node list)"
  by (simp add: landing_cta_band_def markup_simps)

lemma marquee_text: "page_text (landing_marquee (e\<lparr>me_reduce := b\<rparr>) :: 'e node list) = page_text (landing_marquee e :: 'e node list)"
  by (simp add: landing_marquee_def marquee_label_def markup_simps)

lemma section_text: "page_text ttl = page_text ttl' \<Longrightarrow> page_text ns = page_text ns' \<Longrightarrow> (ttl = []) = (ttl' = []) \<Longrightarrow>
    page_text (section_block i ttl l c ns) = page_text (section_block i ttl' l c ns')"
  by (simp add: section_block_def markup_simps)

lemma reveal_nonempty [simp]: "text_reveal reduce t c \<noteq> []"
  by (simp add: text_reveal_def spread_text_def)

lemma reduced_motion_same_text:
  "page_text (landing_content (e\<lparr>me_reduce := b\<rparr>)) = page_text (landing_content e)"
  by (simp add: landing_content_def hero_text marquee_text features_text benefits_text cta_text faq_text
      section_block_def markup_simps del: enumerate_simps)

text \<open>The structured data of the questions says what the page in English shows, question by question.\<close>

lemma slide_leaves: "leaves_of (slide_in r d dl du sp c ns) = leaves_of ns"
  by (simp add: slide_in_def wrapped_def leaves_of_simps)

lemma faq_leaves: "leaves_of (faq_accordion e items) = concat (map (\<lambda>(q, a). [q, a]) (faq_pairs items))"
  by (simp add: faq_accordion_def faq_pairs_def split_def o_def slide_leaves leaves_of_simps
      enumerate_seconds [of "\<lambda>v. [item_field ''q'' v, item_field ''a'' v]"])

lemma faq_data_shown:
  assumes "me_catalog e = catalogue_en"
  shows "faq_page resolve e = json_ld (faqPageGraph (faq_pairs (faq_items (me_catalog e)))) @
      json_ld (crumbs resolve e ''FAQ'' ''/faq'') @ faq_view e"
    and "leaves_of (faq_view e) = me_t e ''marketing.faqPage.title'' #
      concat (map (\<lambda>(q, a). [q, a]) (faq_pairs (faq_items (me_catalog e))))"
  using assms by (simp_all add: faq_page_def faq_view_def leaves_of_simps faq_leaves)

text \<open>The legal texts are marked as drafts, on their pages and in the footer, whatever the build.\<close>

lemma legal_drafts:
  "\<not> legal_reviewed e"
  "hd (leaves_of (privacy_view e)) = me_t e ''marketing.privacy.draftBanner''"
  "hd (leaves_of (terms_view e)) = me_t e ''marketing.terms.draftBanner''"
  "me_t e ''marketing.footer.legalDraft'' \<in> set (leaves_of (site_footer e))"
proof -
  show r: "\<not> legal_reviewed e" by (simp add: legal_reviewed_def site_at_def siteConfig_def)
  show "hd (leaves_of (privacy_view e)) = me_t e ''marketing.privacy.draftBanner''"
    "hd (leaves_of (terms_view e)) = me_t e ''marketing.terms.draftBanner''"
    using r by (simp_all add: privacy_view_def terms_view_def legal_draft_banner_def leaves_of_def)
  show "me_t e ''marketing.footer.legalDraft'' \<in> set (leaves_of (site_footer e))"
    using r by (simp add: site_footer_def leaves_of_def)
qed

subsection \<open>Links\<close>

text \<open>Every page a link of the public pages leads to is in the sitemap, or is one of the three entries of the
  application; the only anchor is on the landing page.\<close>

definition known_links :: "ustr set" where
  "known_links = set (map sp_path PUBLIC_PATHS) \<union> set (map lit [''/#how-it-works'', ''/login'', ''/register'', ''/app''])"

lemma wrapped_links [markup_simps]:
  "attrs_of ''Link'' ''href'' (wrapped r c m ns) = attrs_of ''Link'' ''href'' ns"
  by (simp add: wrapped_def markup_simps)

lemma motion_links [markup_simps]:
  "attrs_of ''Link'' ''href'' (hover_lift r c ns) = attrs_of ''Link'' ''href'' ns"
  "attrs_of ''Link'' ''href'' (page_fade r c ns) = attrs_of ''Link'' ''href'' ns"
  "attrs_of ''Link'' ''href'' (slide_in r d dl du sp c ns) = attrs_of ''Link'' ''href'' ns"
  "attrs_of ''Link'' ''href'' (stagger_root r c ns) = attrs_of ''Link'' ''href'' ns"
  "attrs_of ''Link'' ''href'' (stagger_item r c ns) = attrs_of ''Link'' ''href'' ns"
  by (simp_all add: hover_lift_def page_fade_def slide_in_def stagger_root_def stagger_item_def wrapped_links)

lemma spread_links [markup_simps]: "attrs_of ''Link'' ''href'' (spread_text m r t c) = []"
proof -
  have "node_attrs ''Link'' ''href'' (spread_part m x) = []" for x by (simp add: spread_part_def)
  then have "attrs_of ''Link'' ''href'' (map (spread_part m) xs) = []" for xs by (simp add: attrs_of_def o_def)
  then show ?thesis by (simp add: spread_text_parts markup_simps)
qed

lemma leaf_links [markup_simps]:
  "attrs_of ''Link'' ''href'' (text_reveal r t c) = []" "attrs_of ''Link'' ''href'' (blur_text r t c) = []"
  "attrs_of ''Link'' ''href'' (border_beam r f k sz du c) = []" "attrs_of ''Link'' ''href'' (icons8_icon n s' c d) = []"
  "attrs_of ''Link'' ''href'' (faq_accordion e items) = []"
  "attrs_of ''Link'' ''href'' (section_block i ttl l c ns) = attrs_of ''Link'' ''href'' ttl @ attrs_of ''Link'' ''href'' ns"
  "attrs_of ''Link'' ''href'' (landing_primary_cta h c ns) = h # attrs_of ''Link'' ''href'' ns"
  by (simp_all add: text_reveal_def blur_text_def border_beam_def icons8_icon_def faq_accordion_def section_block_def
      landing_primary_cta_def shine_border_def opt_at_def markup_simps split_def split: option.split)

lemma landing_links:
  "attrs_of ''Link'' ''href'' (landing_content e) =
     map lit [''/register'', ''/register'', ''/claude'', ''/security'', ''/faq'', ''/register'']"
  by (simp add: landing_content_def landing_hero_def landing_marquee_def landing_feature_rows_def
      landing_feature_row_def feature_rows_def landing_benefits_def benefit_rows_def landing_cta_band_def
      checkout_demo_def amount_display_def payment_state_def markup_simps split: prod.split)

lemma footer_links:
  "attrs_of ''Link'' ''href'' (site_footer e) =
     map lit [''/#how-it-works'', ''/faq'', ''/security'', ''/about'', ''/contact'', ''/privacy'', ''/terms'']"
  by (simp add: site_footer_def imprint_def markup_simps)

lemma header_link_list:
  "set (attrs_of ''Link'' ''href'' (site_header_view e h)) \<subseteq>
     {lit ''/'', lit ''/#how-it-works'', lit ''/faq'', lit ''/about'', lit ''/register'', app_href h}"
  by (simp add: site_header_view_def header_links_def theme_button_def language_switch_def sheet_frame_def
      brand_mark_def markup_simps)

lemma no_dead_links:
  "set (attrs_of ''Link'' ''href'' (marketing_shell e h (landing_content e))) \<subseteq> known_links"
  "lit ''how-it-works'' \<in> set (attrs_of ''div'' ''id'' (landing_feature_rows e))"
proof -
  have known: "set (attrs_of ''Link'' ''href'' (site_header_view e h)) \<subseteq> known_links"
    using header_link_list [of e h] by (auto simp: known_links_def PUBLIC_PATHS_def app_href_def split: if_splits)
  have "set (attrs_of ''Link'' ''href'' (landing_content e)) \<subseteq> known_links"
    "set (attrs_of ''Link'' ''href'' (site_footer e :: marketing_click node list)) \<subseteq> known_links"
    by (simp_all add: landing_links footer_links known_links_def PUBLIC_PATHS_def)
  with known show "set (attrs_of ''Link'' ''href'' (marketing_shell e h (landing_content e))) \<subseteq> known_links"
    by (simp add: marketing_shell_def markup_simps)
  show "lit ''how-it-works'' \<in> set (attrs_of ''div'' ''id'' (landing_feature_rows e))"
    by (simp add: landing_feature_rows_def markup_simps)
qed

end
