(* ===== verification/Spec2Isabelle.thy ===== *)
theory Spec2Isabelle
  imports AgentProps StateMachineProps WebProps OAuthProps CheckoutPageProps SellerProps Ledger GatewayFlow DevicePage
    AuthLog CatalogueProps AuthViews PageViews SettingsViews FormViews MarketingViews
begin

text \<open>
  Pooli: verification of the TypeScript programs.

  Pooli is a non-custodial USDT checkout. A seller sends a link, the buyer pays on chain, and a
  backend written in Go watches the chain and decides what is paid. This development is about
  the programs in TypeScript and JavaScript around that backend:

  \<^item> the action gateway (apps/action-gateway), through which an AI agent may propose a message to
    a buyer and a human, on a separate channel and with a code the agent never sees, confirms or
    declines exactly what was proposed;
  \<^item> the web application (apps/web), of which the decisions in src/lib are modelled (amounts,
    wallet handoff, payment status, the poll loop, the gateway client and the public documents),
    the checkout page with its payment sheet, the pages of the seller's application, the
    public pages, and the service worker;
  \<^item> the safety evaluations (evals), which score the gateway's own validation and registry.

  HOW THE PARTS INTERACT. The agent calls the tools of the gateway (\<open>Mcp\<close>) or the backend its
  internal route (\<open>InternalApi\<close>); both read a snapshot of the order (\<open>Snapshot\<close>), validate a
  draft (\<open>Validation\<close>) and propose it to the registry (\<open>Registry\<close>). The registry is the only
  client of the store (\<open>ProposalStore\<close>) and moves proposals with the state machine
  (\<open>StateMachine\<close>). The human reads and confirms through \<open>ConfirmationApi\<close>, whose pages are
  \<open>ConfirmationPage\<close> and whose attempts are bounded by \<open>AttemptLimiter\<close>, or through the approval
  sheet of the web application (\<open>WebGateway\<close>). \<open>Server\<close> composes these parts: it guards the agent's
  route with the bearer tokens of the authorization server (\<open>OAuth\<close>), writes link codes to a file
  that stands for the human's phone, and logs through \<open>Redact\<close>. The checkout page of the web
  application (\<open>Checkout\<close>) and its payment sheet (\<open>PaySheet\<close>) take the status of the payment (\<open>PaymentStatus\<close>) from
  the backend, ask for it again by \<open>Poller\<close>, plan how the buyer can pay (\<open>Handoff\<close>) and ask a
  wallet for the transfer (\<open>WalletLaunch\<close>, \<open>TokenAmount\<close>). A seller signs in (\<open>AuthPages\<close>), completes the
  onboarding and saves wallets (\<open>WalletPages\<close>), creates orders and links (\<open>SellerForms\<close>), finds them in
  lists (\<open>SellerLists\<close>), and ships an order or approves a message on its page (\<open>OrderPage\<close>). All their
  requests go through \<open>WebGateway\<close>, and those that are not under /api pass the \<open>ServiceWorker\<close>.

  THEORIES AND SOURCES. Names of definitions are those of the source; a record field is
  prefixed by its record's initials (\<open>p_state\<close> is \<open>Proposal.state\<close>).

  \<^item> Language and library: \<open>Prelude\<close> (shared lemmas and interfaces), \<open>JsString\<close> (strings as lists
    of UTF-16 code units and their operations), \<open>Json\<close> (JSON values, \<open>JSON.stringify\<close>).
  \<^item> Gateway domain, apps/action-gateway/src/domain: \<open>GatewayTypes\<close> (types.ts), \<open>StateMachine\<close>
    (state-machine.ts), \<open>ProposalStore\<close> (store.ts: the port as the locale \<open>proposal_store\<close>, the
    in-memory store as its interpretation \<open>mem\<close>), \<open>Validation\<close> (validation.ts), \<open>Registry\<close>
    (registry.ts: each method a program over the awaited store operations), \<open>Concurrency\<close> (the
    calls of many clients interleaved at those awaits), \<open>Fixtures\<close> (test-fixture.ts).
  \<^item> Gateway surfaces: \<open>AttemptLimiter\<close> and \<open>ConfirmationApi\<close> (http/confirmation-api.ts),
    \<open>ConfirmationPage\<close> (http/confirmation-page.ts), \<open>InternalApi\<close> (http/internal-api.ts), \<open>Mcp\<close>
    (mcp/server.ts, mcp/tools.ts), \<open>Snapshot\<close> (agent/snapshot.ts), \<open>Draft\<close> (claude/draft.ts),
    \<open>Redact\<close> (observability/redact.ts).
  \<^item> Gateway processes: \<open>OAuth\<close> (oauth.mjs: the maps and files of the authorization server as a
    record, each route a function on it), \<open>OAuthRuns\<close> (its histories, restarts included), \<open>AuthLog\<close> (what
    their log records depend on, and which of them can throw), \<open>Server\<close> (server.mjs: log, outbox, delivery, device),
    \<open>Gateway\<close> (server.mjs: all routes as one function from a request to the next state and the answer),
    \<open>DevicePage\<close> (server.mjs: the page of the simulated device).
  \<^item> Web application, apps/web/src/lib: \<open>PaymentStatus\<close> (payment-handoff/exceptions.ts,
    paymentUiState.ts, orderStatus.ts, fulfillment.ts, timeline.ts, checkoutFields.ts, the pure
    part of paymentPoll.ts), \<open>Poller\<close> (paymentPoll.ts, usePaymentStatusPoll.ts), \<open>Money\<close> (usdt.ts,
    toman.ts, phone.ts, address.ts), \<open>TokenAmount\<close> (payment-handoff/amount.ts), \<open>Handoff\<close>
    (payment-handoff/types.ts, registry.ts, env.ts, tron.ts, prefs.ts, copy.ts), \<open>WalletLaunch\<close>
    (payment-handoff/evm.ts, launch.ts), \<open>WebGateway\<close> (api.ts, action-gateway.ts,
    order-proposals.ts, components/orders/MessageProposalSheet.tsx), \<open>WebMisc\<close> (analytics.ts,
    share.ts, pwa.ts, theme.ts, i18n/config.ts), \<open>Site\<close> (site.ts, json-ld.ts, site-metadata.ts and
    the documents of app/).
  \<^item> Checkout, apps/web/src/components: \<open>Checkout\<close> (checkout/CheckoutClient.tsx: the hooks of the page
    as a record, its handlers and effects, cut at their awaits, as events), \<open>PaySheet\<close>
    (checkout/PooliPaySheet.tsx, PaymentException.tsx and WalletPickerSheet.tsx,
    payments/PaymentState.tsx, PaymentProgress.tsx: state, handlers, and which screen is shown);
    \<open>CheckoutView\<close> (what they render, as a tree of markup), \<open>CheckoutPage\<close> (page and sheet as one
    machine, in which a click counts only where the page that is rendered offers it).
  \<^item> Markup: \<open>Markup\<close> (trees of elements, attributes, texts and event handlers, and what is read from
    them), \<open>Ui\<close> (components/ui, BrandMark, GoogleAuthButton, InstagramInAppBanner, LanguageSwitch,
    NewPaymentButton, icons/Icons8Icon).
  \<^item> Seller's application, apps/web/src/app: \<open>Pages\<close> (what the pages share; components/ui/Toast.tsx),
    \<open>SellerForms\<close> (app/create, app/links, t/app/create and the public pages [slug] and link/[slug]),
    \<open>WalletPages\<close> (app/wallets, app/onboarding), \<open>SellerLists\<close> (app/orders, app/customers, app, with
    components/ui/OrderListRow.tsx), \<open>OrderPage\<close> (app/orders/[id], app/customers/[id]), \<open>AuthPages\<close>
    (login, register), \<open>SettingsPages\<close> (app/settings/notifications, app/settings/store, admin), \<open>AccountPages\<close>
    (app/settings, app/settings/getting-paid/questions), \<open>Shell\<close>
    (Nav, AppLayoutClient, MerchantChrome, LocaleProvider, ThemeProvider, InstallSheet, ReceiptCard and
    PaymentDetailsDisclosure). A page is the record of its hooks with what is suspended in it; a
    handler is cut at its awaits; one function takes an event, a control the buyer or the seller
    uses or an answer, to the next state.
  \<^item> What these pages render: \<open>AuthViews\<close> (login, register), \<open>SellerViews\<close> (app, app/customers/[id],
    components/orders/MessageProposalSheet.tsx), \<open>PageViews\<close> (app/orders, app/customers,
    app/orders/[id], PaymentProgress, MerchantChrome, Nav, InstallSheet, AppLayoutClient),
    \<open>SettingsViews\<close> (the settings and admin), \<open>FormViews\<close> (the pages of \<open>SellerForms\<close> and \<open>WalletPages\<close>). Their lemmas
    say which controls a page offers and that these are the events its state takes.
  \<^item> Public pages and what runs first: \<open>Boot\<close> (the inline script of app/layout.tsx,
    components/TelegramWebAppReady.tsx, ServiceWorkerRegister.tsx, marketing/ThemeToggle.tsx), \<open>LinkPreview\<close>
    (p/[slug] and t/p/[slug]: the preview of a payment link; the metadata of app/layout.tsx), \<open>Motion\<close>
    (components/motion), \<open>MarketingViews\<close> (components/marketing and the routes of app/(marketing), error.tsx,
    not-found.tsx, t/app). Their lemmas say that the script paints what the providers then set
    (\<open>painted_is_provided\<close>), that animations change no text (\<open>reduced_motion_same_text\<close>), and that links lead
    to a page (\<open>no_dead_links\<close>).
  \<^item> Texts, apps/web/src/i18n/messages: \<open>Catalogue\<close> (the shape of a catalogue, the lookup \<open>t.a.b\<close>,
    \<open>String.replace\<close>), \<open>CatalogueEn\<close> and \<open>CatalogueFa\<close> (en.ts, fa.ts and marketing-content.ts, one
    definition for each group).
  \<^item> Around it: \<open>ServiceWorker\<close> (apps/web/public/sw.js, next.config.mjs), \<open>Evals\<close> (evals/runner/scoring.mjs,
    evals/runner/run_eval.mjs, evals/validate.mjs).
  \<^item> Specification: \<open>Ledger\<close>, what the registry promises without versions, hashes and
    interleavings, with the proof that the registry refines it.

  INTERFACES. The locales of \<open>Prelude\<close>, \<open>ProposalStore\<close> and \<open>Pages\<close> and where they are interpreted:
  \<open>injective_text\<close> and \<open>codec\<close> (texts that stand for values: JSON, hexadecimal, escaped markup, amounts,
  settings), \<open>event_machine\<close> and \<open>quiet_machine\<close> (the poller, the checkout page alone and with its sheet, the seller's pages, the
  service worker), \<open>simulation\<close> (the registry and its ledger), \<open>proposal_store\<close> (the in-memory store),
  \<open>form_machine\<close> (a form that loads exactly while its handler waits: thirteen forms), \<open>search_machine\<close> (a
  list asked for again whenever what it should show changes: the orders and the customers).

  WHAT THE THEOREMS SHOW. The properties are the theorems below a text that begins with their
  number.

  \<^item> \<open>StateMachineProps\<close>: what confirming, declining, expiring and executing accept and leave
    unchanged; what the validation of a draft lets through.
  \<^item> \<open>RegistryProps\<close>: for every interleaving of any number of calls, one winner per proposal and
    version, at most one execution, one proposal per idempotency key, no execution without a
    confirmation by a human who held the code and saw the digest, the trail of what was executed; the
    registry's contract.
    \<open>Ledger\<close>: the same registry as a refinement.
  \<^item> \<open>ApiProps\<close>: the decision of the confirmation surfaces, their guessing budget, the markup of
    the page, what the log shows of a secret (its length and character class).
  \<^item> \<open>AgentProps\<close>: what the agent can learn and cause.
  \<^item> \<open>GatewayProps\<close>: every history of requests of the composed gateway is a schedule of the registry
    calls of \<open>Concurrency\<close>, so that a proposal in its store is the one that a request with a valid token
    or the service's secret asked for, and a confirmed one was approved by a human who held its code
    and saw the artifact; a code
    that was delivered approves. \<open>GatewayFlow\<close>: two gateways whose link codes differ answer alike.
  \<^item> \<open>CatalogueProps\<close>: the two languages have the same keys and placeholders, and the texts the pages
    read are there.
  \<^item> \<open>OAuthProps\<close>: the exact conditions of a code exchange, single use of codes and refresh tokens in
    every history, what a bearer token opens, what the audit log depends on, the device's cookie. A log
    record that cannot be written ends the request; the conditions say when that is.
  \<^item> \<open>WebProps\<close>: round trips of amounts, the transfer a wallet is asked for, the handoff plan,
    the classes of statuses, the poll loop, the approval sheet, the settings.
  \<^item> \<open>CheckoutProps\<close>: what the checkout page can show and ask for by itself, and what the sheet shows in
    an exception and while a payment is being detected.
  \<^item> \<open>CheckoutPageProps\<close>: a payment that is launched is over a quote that the backend sent and that the
    page took for payable; the amount, the address and the QR code on the page are those of the payment
    that a click launches.
  \<^item> \<open>SellerProps\<close>: in every history of a page, that a created order has the amount that was asked for,
    that nothing is shipped unpaid, that only checked addresses are saved, on what the list of orders
    settles, how a resolution ends; what the service worker does to the gateway's answers; what a green
    run of the evaluations says about the registry.
  \<^item> this theory: the type of the gateway's answers, as the web application reads them.

  Behaviour that differs from what the source promises or means is stated by properties
  (\<open>status_reveals_code\<close>, \<open>sheet_cannot_approve\<close>, \<open>burnt_token_returns\<close>, \<open>proposal_answer_frozen\<close>,
  \<open>device_cookie_login\<close>, the first half of \<open>code_exchange_conditions\<close>, the last part of
  \<open>evaluations_certify\<close>) and by lemmas beside the definitions they are about
  (\<open>hung_reload_starves\<close>, \<open>resolution_ends_with_error\<close>, \<open>verifier_diagnostics_lost\<close>, \<open>exempt_prefix_is_logged\<close>,
  \<open>detected_keeps_wallet_button\<close>, \<open>usdt_order_shows_toman\<close>, \<open>usdt_order_has_no_page\<close>,
  \<open>unloaded_list_sets_default\<close>, \<open>telegram_reports_failure\<close>, \<open>suggested_slug_not_saved\<close>, \<open>stale_orders\<close>,
  \<open>archive_twice\<close>, \<open>refused_toggle_stays\<close>, \<open>verified_for_another_number\<close>, \<open>toast_hidden_early\<close>,
  \<open>superseded_stays\<close>, \<open>cannot_is_not_found\<close>, \<open>store_name_expanded\<close>, \<open>saved_but_error\<close>, \<open>resolved_opens_next\<close>, \<open>usdt_receipt_zero\<close>, \<open>installed_button_is_dead\<close>,
  \<open>code_sent_never_shown\<close>, \<open>failed_note_is_silent\<close>, \<open>expired_shown_as_approved\<close>, \<open>edited_text_approvable\<close>,
  \<open>greeting_expanded\<close>, \<open>reload_error_hidden\<close>, \<open>cleared_search_unmounts\<close>, \<open>seller_receipt_expected_amount\<close>,
  \<open>failed_logout_is_silent\<close>, \<open>edit_during_save_lost\<close>, \<open>late_search_stays\<close>, \<open>titled_twice\<close>,
  \<open>encoded_cookie_flashes\<close>).

  BOUNDS AND FUEL. A registry call performs at most as many store operations as its program has
  awaits; programs are finite trees, so \<open>run\<close> needs no fuel. JSON values are read to depth
  bounded by the source (redaction stops at depth 8) and text is read by structural recursion.
  The attempt limiter admits \<open>max\<close> attempts in a window and at most twice as many in any span
  shorter than one. Numbers of the source are integers here wherever the code keeps them whole;
  \<open>Number.MAX_SAFE_INTEGER\<close> is tested where the source tests it, and a toman amount too large to be
  exact is rounded by a parameter that stands for \<open>Number()\<close>. Token amounts are \<open>BigInt\<close>s and
  therefore unbounded.

  PARAMETERS. SHA-256 and the Unicode case tables are fields of \<open>runtime\<close>; the random bytes, ids
  and clock readings of a call are in \<open>call_env\<close>; the environment variables and the answers of
  the network are in \<open>web\<close>, \<open>site_env\<close>, \<open>oauth_env\<close>, \<open>server_env\<close> and \<open>fetch_outcome\<close>; \<open>jose\<close> is a pair
  \<open>sign\<close> and \<open>verify\<close>; the wallet provider is the record
  \<open>eth_provider\<close>; the language model's answer is an argument. Theorems that need SHA-256 not to
  collide say so for the two texts they compare.

  NOT MODELLED. The Go backend and the chain; express, React and the SDKs the programs call; the
  script that walks through a running gateway (apps/action-gateway/e2e.mjs), whose steps are requests of
  \<open>Gateway\<close> and \<open>OAuth\<close>. An animation is the text of its attributes. The pages take the catalogue as a parameter
  \<open>messages\<close>; \<open>catalog\<close> is the function they are given. Two WalletConnect launches that overlap while
  the provider is being initialised are not interleaved.
\<close>

subsection \<open>The gateway's answers and the client that reads them\<close>

text \<open>The type \<open>ProposalView\<close> of apps/web/src/lib/action-gateway.ts, as a test of a parsed body: eight
  strings and two numbers. \<open>reads_as\<close> says which view a body is.\<close>

fun is_text :: "jval \<Rightarrow> bool" where
  "is_text (JStr s) = True"
| "is_text _ = False"

fun is_number :: "jval \<Rightarrow> bool" where
  "is_number (JNum n) = True"
| "is_number _ = False"

definition view_typed :: "jval \<Rightarrow> bool" where
  "view_typed j \<longleftrightarrow>
     list_all (\<lambda>k. is_text (prop_of j (lit k))) [''id'', ''state'', ''orderId'', ''orderSlug'', ''body'', ''locale'',
       ''paymentStatus'', ''payloadDigest''] \<and>
     list_all (\<lambda>k. is_number (prop_of j (lit k))) [''expiresAt'', ''createdAt'']"

definition reads_as :: "jval \<Rightarrow> proposal_view \<Rightarrow> bool" where
  "reads_as j v \<longleftrightarrow>
     prop_of j (lit ''id'') = JStr (pv_id v) \<and> prop_of j (lit ''state'') = JStr (pv_state v) \<and>
     prop_of j (lit ''orderId'') = JStr (pv_orderId v) \<and> prop_of j (lit ''orderSlug'') = JStr (pv_orderSlug v) \<and>
     prop_of j (lit ''body'') = JStr (pv_body v) \<and> prop_of j (lit ''locale'') = JStr (pv_locale v) \<and>
     prop_of j (lit ''paymentStatus'') = JStr (pv_paymentStatus v) \<and>
     prop_of j (lit ''payloadDigest'') = JStr (pv_payloadDigest v) \<and>
     prop_of j (lit ''expiresAt'') = JNum (dec_int (pv_expiresAt v)) \<and>
     prop_of j (lit ''createdAt'') = JNum (dec_int (pv_createdAt v))"

text \<open>What an HTTP answer may be: a view with status 200, or a named error with one of six statuses.\<close>

fun typed_reply :: "reply \<Rightarrow> bool" where
  "typed_reply (Json status j) = (if status = 200 then view_typed j
     else status \<in> {400, 403, 404, 409, 410, 429} \<and> is_text (prop_of j (lit ''error'')))"
| "typed_reply _ = False"

fun typed_result :: "client_result \<Rightarrow> bool" where
  "typed_result (Client_ok j) = view_typed j"
| "typed_result (Client_error m) = True"

definition client_reads :: "ustr option \<Rightarrow> ustr \<Rightarrow> reply \<Rightarrow> client_result" where
  "client_reads url path r = gatewayFetch url (\<lambda>u. case r of Json st j \<Rightarrow> Http st (Some j)
     | Html st h \<Rightarrow> Http st None | Thrown \<Rightarrow> Http 500 None) path"

lemma toView_props:
  "reads_as (JObj (toView p)) (view_of p)" "reads_as (JObj (toView p @ es)) (view_of p)"
  by (simp_all add: reads_as_def toView_def view_of_def)

lemma reads_as_typed: "reads_as j v \<Longrightarrow> view_typed j"
  by (simp add: reads_as_def view_typed_def)

lemma error_typed: "status \<in> {400, 403, 404, 409, 410, 429} \<Longrightarrow> typed_reply (error_json status e)"
  "status \<in> {400, 403, 404, 409, 410, 429} \<Longrightarrow> typed_reply (error_message_json status e m)"
  by (auto simp: error_json_def error_message_json_def)

lemma statusFor_typed: "typed_reply (error_json (statusFor e) c)" "typed_reply (error_message_json (statusFor e) c m)"
  using statusFor_range [of e] by (intro error_typed; auto simp del: statusFor.simps)+

lemma view_reply: "typed_reply (Json 200 (JObj (toView p)))" "typed_reply (Json 200 (JObj (toView p @ es)))"
  using toView_props reads_as_typed by fastforce+

lemma typed_reply_read: "typed_reply r \<Longrightarrow> typed_result (client_reads url path r)"
  by (cases r) (auto simp: client_reads_def gatewayFetch_def Let_def body_or_empty_def http_ok_def
      split: if_splits jval.split)

lemma api_get_typed: "typed_reply (snd (api_get ops env i a))"
  by (auto simp: api_get_def view_reply error_typed simp del: typed_reply.simps split: prod.split option.split)

lemma api_reject_typed: "typed_reply (snd (api_reject ops env i a))"
  by (auto simp: api_reject_def view_reply statusFor_typed simp del: typed_reply.simps statusFor.simps
      split: prod.split result.split)

lemma api_confirm_typed: "typed_reply (snd (api_confirm rt ops renv i b a))"
  by (auto simp: api_confirm_def Let_def view_reply error_typed statusFor_typed
      simp del: typed_reply.simps statusFor.simps split: prod.split result.split jval.split decision.split)

text \<open>C23: the gateway's answers have the type its client gives them: over any store, whatever is asked, the
  three JSON routes answer a view, whose eight texts are strings and two times numbers, or an
  error with a name and one of six statuses; and what the web client hands on as a
  \<open>ProposalView\<close> is one, with every field read from the proposal.\<close>

theorem gateway_replies_typed:
  "typed_reply (snd (api_get ops env i a)) \<and> typed_reply (snd (api_reject ops env i a)) \<and>
   typed_reply (snd (api_confirm rt ops renv i b a)) \<and>
   typed_result (client_reads url path (snd (api_get ops env i a))) \<and>
   typed_result (client_reads url path (snd (api_reject ops env i a))) \<and>
   typed_result (client_reads url path (snd (api_confirm rt ops renv i b a))) \<and>
   reads_as (JObj (toView p)) (view_of p)"
  using api_get_typed api_reject_typed api_confirm_typed typed_reply_read toView_props by blast

end
